(* ===== verification/Prelude.thy ===== *)
theory Prelude
  imports Main "HOL-Library.Word"
begin

text \<open>
  Shared vocabulary of the development.

  \<^item> Rust's \<^verbatim>\<open>Result<T, E>\<close> is the sum type \<open>'e + 'a\<close> with \<open>Inl\<close> for \<^verbatim>\<open>Err\<close>; \<open>bindE\<close> is the
    \<^verbatim>\<open>?\<close> operator, \<open>reject_if\<close> an early \<^verbatim>\<open>return Err(..)\<close>, \<open>ok_or\<close> is \<^verbatim>\<open>Option::ok_or\<close> and \<open>forE\<close> a
    \<^verbatim>\<open>for\<close> loop whose body may fail.
  \<^item> Unsigned 64-bit and signed 64-bit integers are natural numbers with the range checks of the
    code (\<^verbatim>\<open>checked_add\<close>, \<^verbatim>\<open>u64_to_i64\<close>) written out.
  \<^item> An SQL table is the list of its rows in insertion order; \<open>update_rows\<close> is
    \<^verbatim>\<open>UPDATE .. SET .. WHERE\<close>, \<open>count_rows\<close> its \<^verbatim>\<open>SELECT COUNT(*)\<close> and \<open>find_row\<close> a
    \<^verbatim>\<open>query_row(..).optional()\<close>. The locale \<open>keyed_update\<close> states when an update keeps primary keys.
  \<^item> \<open>reaches\<close> is reachability under a step function; the locales \<open>invariant_machine\<close> and
    \<open>monotone_machine\<close> state once what an invariant and a progress relation give for every run.
\<close>

named_theorems result_simps \<open>inversion of the error monad\<close>
named_theorems row_simps \<open>rows, filters and keys of tables\<close>

type_synonym uuid = "128 word"
type_synonym digest = "256 word"

section \<open>Results\<close>

definition bindE :: "'e + 'a \<Rightarrow> ('a \<Rightarrow> 'e + 'b) \<Rightarrow> 'e + 'b" where
  "bindE m f = (case m of Inl e \<Rightarrow> Inl e | Inr x \<Rightarrow> f x)"

definition reject_if :: "'e \<Rightarrow> bool \<Rightarrow> 'e + unit" where
  "reject_if e b = (if b then Inl e else Inr ())"

definition ok_or :: "'e \<Rightarrow> 'a option \<Rightarrow> 'e + 'a" where
  "ok_or e x = (case x of None \<Rightarrow> Inl e | Some y \<Rightarrow> Inr y)"

definition map_err :: "('e \<Rightarrow> 'f) \<Rightarrow> 'e + 'a \<Rightarrow> 'f + 'a" where
  "map_err g m = (case m of Inl e \<Rightarrow> Inl (g e) | Inr x \<Rightarrow> Inr x)"

definition is_ok :: "'e + 'a \<Rightarrow> bool" where
  "is_ok m = (case m of Inl _ \<Rightarrow> False | Inr _ \<Rightarrow> True)"

fun forE :: "('a \<Rightarrow> 's \<Rightarrow> 'e + 's) \<Rightarrow> 'a list \<Rightarrow> 's \<Rightarrow> 'e + 's" where
  "forE f [] s = Inr s"
| "forE f (x # xs) s = bindE (f x s) (forE f xs)"

lemma bindE_simps [simp]:
  "bindE (Inl e) f = Inl e"
  "bindE (Inr x) f = f x"
  by (simp_all add: bindE_def)

lemma bindE_Inr_iff [result_simps]:
  "bindE m f = Inr y \<longleftrightarrow> (\<exists>x. m = Inr x \<and> f x = Inr y)"
  by (cases m) simp_all

lemma bindE_Inl_iff:
  "bindE m f = Inl e \<longleftrightarrow> m = Inl e \<or> (\<exists>x. m = Inr x \<and> f x = Inl e)"
  by (cases m) simp_all

lemma reject_if_simps [simp]:
  "reject_if e True = Inl e"
  "reject_if e False = Inr ()"
  by (simp_all add: reject_if_def)

lemma reject_if_Inr_iff [result_simps]: "reject_if e b = Inr u \<longleftrightarrow> \<not> b"
  by (simp add: reject_if_def)

lemma reject_if_Inl_iff [result_simps]: "reject_if e b = Inl e' \<longleftrightarrow> b \<and> e' = e"
  by (auto simp: reject_if_def)

lemma ok_or_simps [simp]:
  "ok_or e None = Inl e"
  "ok_or e (Some x) = Inr x"
  by (simp_all add: ok_or_def)

lemma ok_or_Inr_iff [result_simps]: "ok_or e x = Inr y \<longleftrightarrow> x = Some y"
  by (cases x) simp_all

lemma map_err_simps [simp]:
  "map_err g (Inl e) = Inl (g e)"
  "map_err g (Inr x) = Inr x"
  by (simp_all add: map_err_def)

lemma map_err_Inr_iff [result_simps]: "map_err g m = Inr y \<longleftrightarrow> m = Inr y"
  by (cases m) simp_all

lemma is_ok_simps [simp]: "is_ok (Inl e) = False" "is_ok (Inr x) = True"
  by (simp_all add: is_ok_def)

lemma is_ok_bindE: "is_ok (bindE m f) \<longleftrightarrow> (\<exists>x. m = Inr x \<and> is_ok (f x))"
  by (cases m) simp_all

lemma is_ok_reject_if [simp]: "is_ok (reject_if e b) \<longleftrightarrow> \<not> b"
  by (simp add: reject_if_def)

lemma is_ok_unit: "is_ok (m :: 'e + unit) \<longleftrightarrow> m = Inr ()"
  by (cases m) simp_all

lemma is_ok_map_err [simp]: "is_ok (map_err g m) = is_ok m"
  by (cases m) simp_all

lemma forE_append: "forE f (xs @ ys) s = bindE (forE f xs s) (forE f ys)"
proof (induction xs arbitrary: s)
  case Nil
  then show ?case by simp
next
  case (Cons x xs)
  then show ?case by (cases "f x s") simp_all
qed

text \<open>The loop rule: an invariant of the body is an invariant of the loop.\<close>

lemma forE_invariant:
  assumes "forE f xs s = Inr t" and "P s"
    and "\<And>x u v. x \<in> set xs \<Longrightarrow> f x u = Inr v \<Longrightarrow> P u \<Longrightarrow> P v"
  shows "P t"
  using assms
proof (induction xs arbitrary: s)
  case Nil
  then show ?case by simp
next
  case (Cons x xs)
  from Cons.prems(1) obtain u where u: "f x s = Inr u" and t: "forE f xs u = Inr t"
    by (auto simp: result_simps)
  have "P u" using Cons.prems(2,3) u by auto
  with t show ?case using Cons.IH Cons.prems(3) by (metis list.set_intros(2))
qed

text \<open>What the body gives for one item, and no later iteration undoes, holds for every item.\<close>

lemma forE_each:
  assumes "forE f xs s = Inr t" and "I s"
    and "\<And>x u v. x \<in> set xs \<Longrightarrow> I u \<Longrightarrow> f x u = Inr v \<Longrightarrow> I v \<and> Q x v \<and> (\<forall>y. Q y u \<longrightarrow> Q y v)"
  shows "\<forall>x \<in> set xs. Q x t"
  using assms
proof (induction xs arbitrary: s)
  case Nil
  then show ?case by simp
next
  case (Cons x xs)
  from Cons.prems(1) obtain u where u: "f x s = Inr u" and t: "forE f xs u = Inr t"
    by (auto simp: result_simps)
  have Iu: "I u" "Q x u" using Cons.prems(2,3) u by auto
  have "Q x t \<and> I t"
    by (rule forE_invariant [OF t, where P = "\<lambda>v. Q x v \<and> I v"]) (use Iu Cons.prems(3) in auto)
  moreover have "\<forall>y \<in> set xs. Q y t"
    by (rule Cons.IH [OF t Iu(1)]) (use Cons.prems(3) in auto)
  ultimately show ?case by simp
qed

section \<open>Machine integers\<close>

definition u64_max :: nat where "u64_max = 18446744073709551615"
definition i64_max :: nat where "i64_max = 9223372036854775807"

definition checked_add_u64 :: "nat \<Rightarrow> nat \<Rightarrow> nat option" where
  "checked_add_u64 a b = (if a + b \<le> u64_max then Some (a + b) else None)"

definition checked_sub_u64 :: "nat \<Rightarrow> nat \<Rightarrow> nat option" where
  "checked_sub_u64 a b = (if b \<le> a then Some (a - b) else None)"

definition saturating_add_u64 :: "nat \<Rightarrow> nat \<Rightarrow> nat" where
  "saturating_add_u64 a b = min u64_max (a + b)"

definition checked_add_i64 :: "nat \<Rightarrow> nat \<Rightarrow> nat option" where
  "checked_add_i64 a b = (if a + b \<le> i64_max then Some (a + b) else None)"

lemma checked_add_u64_Some [result_simps]:
  "checked_add_u64 a b = Some c \<longleftrightarrow> c = a + b \<and> a + b \<le> u64_max"
  by (auto simp: checked_add_u64_def)

lemma checked_sub_u64_Some [result_simps]:
  "checked_sub_u64 a b = Some c \<longleftrightarrow> b \<le> a \<and> c = a - b"
  by (auto simp: checked_sub_u64_def)

lemma checked_add_i64_Some [result_simps]:
  "checked_add_i64 a b = Some c \<longleftrightarrow> c = a + b \<and> a + b \<le> i64_max"
  by (auto simp: checked_add_i64_def)

section \<open>Tables\<close>

definition update_rows :: "('r \<Rightarrow> bool) \<Rightarrow> ('r \<Rightarrow> 'r) \<Rightarrow> 'r list \<Rightarrow> 'r list" where
  "update_rows p u t = map (\<lambda>r. if p r then u r else r) t"

definition count_rows :: "('r \<Rightarrow> bool) \<Rightarrow> 'r list \<Rightarrow> nat" where
  "count_rows p t = length (filter p t)"

definition find_row :: "('r \<Rightarrow> bool) \<Rightarrow> 'r list \<Rightarrow> 'r option" where
  "find_row p t = List.find p t"

definition exists_row :: "('r \<Rightarrow> bool) \<Rightarrow> 'r list \<Rightarrow> bool" where
  "exists_row p t = list_ex p t"

definition insert_row :: "'r \<Rightarrow> 'r list \<Rightarrow> 'r list" where
  "insert_row r t = t @ [r]"

lemma set_update_rows [row_simps]:
  "set (update_rows p u t) = (\<lambda>r. if p r then u r else r) ` set t"
  by (simp add: update_rows_def)

lemma update_rows_Nil [simp]: "update_rows p u [] = []"
  by (simp add: update_rows_def)

lemma update_rows_Cons [simp]:
  "update_rows p u (r # t) = (if p r then u r else r) # update_rows p u t"
  by (simp add: update_rows_def)

lemma length_update_rows [simp]: "length (update_rows p u t) = length t"
  by (simp add: update_rows_def)

lemma update_rows_none: "(\<And>r. r \<in> set t \<Longrightarrow> \<not> p r) \<Longrightarrow> update_rows p u t = t"
  by (induction t) simp_all

lemma count_rows_Nil [simp]: "count_rows p [] = 0"
  by (simp add: count_rows_def)

lemma count_rows_Cons [simp]:
  "count_rows p (r # t) = (if p r then Suc (count_rows p t) else count_rows p t)"
  by (simp add: count_rows_def)

lemma count_rows_append [simp]: "count_rows p (t @ t') = count_rows p t + count_rows p t'"
  by (simp add: count_rows_def)

lemma count_rows_insert [row_simps]:
  "count_rows p (insert_row r t) = count_rows p t + (if p r then 1 else 0)"
  by (simp add: insert_row_def)

lemma count_rows_0 [row_simps]: "count_rows p t = 0 \<longleftrightarrow> (\<forall>r \<in> set t. \<not> p r)"
  by (simp add: count_rows_def filter_empty_conv)

lemma count_rows_le: "(\<And>r. r \<in> set t \<Longrightarrow> p r \<Longrightarrow> q r) \<Longrightarrow> count_rows p t \<le> count_rows q t"
  by (induction t) auto

lemma count_rows_update_le:
  "(\<And>r. r \<in> set t \<Longrightarrow> q (if p r then u r else r) \<Longrightarrow> q r)
    \<Longrightarrow> count_rows q (update_rows p u t) \<le> count_rows q t"
  by (induction t) (auto simp: le_SucI split: if_splits)

lemma set_insert_row [row_simps]: "set (insert_row r t) = insert r (set t)"
  by (auto simp: insert_row_def)

lemma find_row_Some:
  "find_row p t = Some r \<Longrightarrow> r \<in> set t \<and> p r"
  by (auto simp: find_row_def find_Some_iff)

lemma find_row_None: "find_row p t = None \<longleftrightarrow> (\<forall>r \<in> set t. \<not> p r)"
  by (auto simp: find_row_def find_None_iff)

lemma find_row_Nil [simp]: "find_row p [] = None"
  by (simp add: find_row_def)

lemma find_row_Cons [simp]:
  "find_row p (r # t) = (if p r then Some r else find_row p t)"
  by (simp add: find_row_def)

lemma exists_row_iff [row_simps]: "exists_row p t \<longleftrightarrow> (\<exists>r \<in> set t. p r)"
  by (simp add: exists_row_def list_ex_iff)

lemma distinct_map_inj: "distinct (map key t) \<Longrightarrow> r \<in> set t \<Longrightarrow> r' \<in> set t
    \<Longrightarrow> key r = key r' \<Longrightarrow> r = r'"
  by (simp add: distinct_map inj_on_def)

lemma find_row_key:
  assumes "distinct (map key t)" and "r \<in> set t" and "key r = k"
  shows "find_row (\<lambda>r. key r = k) t = Some r"
  using assms by (induction t) auto

lemma count_rows_key_le_1: "distinct (map key t) \<Longrightarrow> count_rows (\<lambda>r. key r = k \<and> p r) t \<le> 1"
proof (induction t)
  case Nil
  then show ?case by simp
next
  case (Cons r t)
  show ?case
  proof (cases "key r = k \<and> p r")
    case True
    with Cons.prems have "\<forall>r' \<in> set t. key r' \<noteq> k" by (force simp: image_iff)
    then have "count_rows (\<lambda>r. key r = k \<and> p r) t = 0" by (simp add: count_rows_0)
    with True show ?thesis by simp
  next
    case False
    with Cons show ?thesis by auto
  qed
qed

lemma count_rows_pos: "0 < count_rows p t \<longleftrightarrow> (\<exists>r \<in> set t. p r)"
  by (metis count_rows_0 gr0I less_irrefl)

lemma update_rows_cong_set:
  "(\<And>r. r \<in> set t \<Longrightarrow> (if p r then u r else r) = (if q r then v r else r))
    \<Longrightarrow> update_rows p u t = update_rows q v t"
  by (induction t) auto

text \<open>
  The contract of an update: it never touches the primary key. Every \<^verbatim>\<open>UPDATE\<close> of the master's
  tables is an instance, for a family of updates indexed by its SQL parameters.
\<close>

locale keyed_update =
  fixes key :: "'r \<Rightarrow> 'k" and upd :: "'p \<Rightarrow> 'r \<Rightarrow> 'r"
  assumes key_upd: "key (upd x r) = key r"
begin

lemma keys: "map key (update_rows p (upd x) t) = map key t"
  by (induction t) (simp_all add: key_upd)

lemma distinct_keys: "distinct (map key (update_rows p (upd x) t)) = distinct (map key t)"
  by (simp add: keys)

lemma find_key:
  "find_row (\<lambda>r. key r = k) (update_rows p (upd x) t)
     = map_option (\<lambda>r. if p r then upd x r else r) (find_row (\<lambda>r. key r = k) t)"
  by (induction t) (auto simp: key_upd)

lemma find_other:
  assumes "\<And>r. p r \<Longrightarrow> key r \<noteq> k"
  shows "find_row (\<lambda>r. key r = k) (update_rows p (upd x) t) = find_row (\<lambda>r. key r = k) t"
  using assms by (induction t) (auto simp: key_upd)

end

section \<open>Runs of a machine\<close>

inductive reaches :: "('s \<Rightarrow> 'o \<Rightarrow> 's) \<Rightarrow> 's \<Rightarrow> 's \<Rightarrow> bool" for f where
  reaches_refl: "reaches f s s"
| reaches_step: "reaches f s t \<Longrightarrow> reaches f s (f t op)"

fun run_ops :: "('s \<Rightarrow> 'o \<Rightarrow> 's) \<Rightarrow> 's \<Rightarrow> 'o list \<Rightarrow> 's" where
  "run_ops f s [] = s"
| "run_ops f s (op # ops) = run_ops f (f s op) ops"

lemma reaches_trans: "reaches f t u \<Longrightarrow> reaches f s t \<Longrightarrow> reaches f s u"
  by (induction rule: reaches.induct) (auto intro: reaches.intros)

lemma run_ops_reaches: "reaches f s (run_ops f s ops)"
proof (induction ops arbitrary: s)
  case Nil
  show ?case by (simp add: reaches_refl)
next
  case (Cons op ops)
  have "reaches f s (f s op)" by (rule reaches_step [OF reaches_refl])
  with Cons [of "f s op"] show ?case by (auto intro: reaches_trans)
qed

lemma run_ops_append: "run_ops f s (ops @ ops') = run_ops f (run_ops f s ops) ops'"
  by (induction ops arbitrary: s) simp_all

lemma reaches_iff_run: "reaches f s t \<longleftrightarrow> (\<exists>ops. t = run_ops f s ops)"
proof
  assume "reaches f s t"
  then show "\<exists>ops. t = run_ops f s ops"
  proof (induction rule: reaches.induct)
    case (reaches_refl s)
    show ?case by (rule exI [of _ "[]"]) simp
  next
    case (reaches_step s t op)
    then obtain ops where "t = run_ops f s ops" by blast
    then have "f t op = run_ops f s (ops @ [op])" by (simp add: run_ops_append)
    then show ?case by blast
  qed
qed (auto simp: run_ops_reaches)

locale invariant_machine =
  fixes start :: "'s \<Rightarrow> bool" and step :: "'s \<Rightarrow> 'o \<Rightarrow> 's" and inv :: "'s \<Rightarrow> bool"
  assumes start_inv: "start s \<Longrightarrow> inv s"
    and step_inv: "inv s \<Longrightarrow> inv (step s op)"
begin

lemma reaches_inv: "reaches step s t \<Longrightarrow> inv s \<Longrightarrow> inv t"
  by (induction rule: reaches.induct) (auto intro: step_inv)

lemma run_inv: "start s \<Longrightarrow> inv (run_ops step s ops)"
  using reaches_inv [OF run_ops_reaches start_inv] .

end

locale monotone_machine =
  fixes step :: "'s \<Rightarrow> 'o \<Rightarrow> 's" and rel :: "'s \<Rightarrow> 's \<Rightarrow> bool"
  assumes rel_refl: "rel s s"
    and rel_trans: "rel s t \<Longrightarrow> rel t u \<Longrightarrow> rel s u"
    and step_rel: "rel s (step s op)"
begin

lemma reaches_rel: "reaches step s t \<Longrightarrow> rel s t"
  by (induction rule: reaches.induct) (auto intro: rel_refl rel_trans step_rel)

lemma run_rel: "rel s (run_ops step s ops)"
  by (rule reaches_rel [OF run_ops_reaches])

end

end
