(* ===== verification/Wire_Text.thy ===== *)
theory Wire_Text
  imports Prelude
begin

text \<open>
  The text and number validators at the end of \<^verbatim>\<open>assemblywright-protocol/src/lib.rs\<close>.

  A Rust \<^verbatim>\<open>&str\<close> is the list of its UTF-8 bytes, so \<open>length\<close> is \<^verbatim>\<open>str::len\<close>. Character classes are
  \<^verbatim>\<open>u8::is_ascii_*\<close> on a byte; \<open>has_control\<close> sees the two-byte encodings of U+0080 to U+009F,
  which \<^verbatim>\<open>char::is_control\<close> also rejects. \<open>trim\<close> strips ASCII white space: the validators that
  trim (\<open>validate_identifier\<close>) reject every non-ASCII byte in the same test, with the same error.
  Lemmas: accepted text is bounded, accepted relative paths stay below the root they are joined
  to, canonical repository URLs are stable.
\<close>

section \<open>Errors of the protocol crate\<close>

datatype protocol_error =
    UnsupportedVersion nat nat
  | EmptyField string
  | NilIdentifier string
  | FieldTooLarge string nat
  | InvalidIdentifier string
  | TooManyCapabilities nat
  | DuplicateCapability string
  | InvalidLimit string nat
  | ExpectedObject string
  | SerializedValueTooLarge string nat
  | FrameTooLarge string nat
  | Deserialization string
  | Serialization string
  | ResultIdentityMismatch
  | PayloadDigestMismatch string
  | InvalidChannelBinding
  | UnsupportedFixedValue string string string
  | InvalidSocketEndpoint string
  | InvalidSha256Hex string
  | EnrollmentInvitationExpired
  | NilEventStreamIdentifier
  | EventCursorGap
  | TooManyDistributedEvents nat
  | DistributedEventIdentityMismatch
  | InvalidFixtureCapability
  | InvalidFixtureJob
  | InvalidMlxCapability
  | InvalidMlxJob
  | InvalidMlxResult
  | InvalidLocalCodingCapability
  | InvalidLocalCodingJob
  | InvalidLocalCodingResult
  | InvalidLocalCodingSnapshotTransfer
  | InvalidLocalCodingResultArtifact
  | InvalidFeatureConveyorOwnerControl
  | InvalidGitHubRepositoryUrl
  | InvalidFullMachineAssemblyLine

type_synonym 'a validated = "protocol_error + 'a"

section \<open>Bytes and strings\<close>

definition byte_of :: "char \<Rightarrow> nat" where "byte_of c = of_char c"

definition is_digit :: "char \<Rightarrow> bool" where
  "is_digit c = (48 \<le> byte_of c \<and> byte_of c \<le> 57)"
definition is_lower :: "char \<Rightarrow> bool" where
  "is_lower c = (97 \<le> byte_of c \<and> byte_of c \<le> 122)"
definition is_upper :: "char \<Rightarrow> bool" where
  "is_upper c = (65 \<le> byte_of c \<and> byte_of c \<le> 90)"
definition is_alphabetic :: "char \<Rightarrow> bool" where
  "is_alphabetic c = (is_lower c \<or> is_upper c)"
definition is_alphanumeric :: "char \<Rightarrow> bool" where
  "is_alphanumeric c = (is_alphabetic c \<or> is_digit c)"
definition is_graphic :: "char \<Rightarrow> bool" where
  "is_graphic c = (33 \<le> byte_of c \<and> byte_of c \<le> 126)"
definition is_ascii_control :: "char \<Rightarrow> bool" where
  "is_ascii_control c = (byte_of c < 32 \<or> byte_of c = 127)"
definition is_white :: "char \<Rightarrow> bool" where
  "is_white c = ((9 \<le> byte_of c \<and> byte_of c \<le> 13) \<or> byte_of c = 32)"
definition is_lower_hex :: "char \<Rightarrow> bool" where
  "is_lower_hex c = (is_digit c \<or> (97 \<le> byte_of c \<and> byte_of c \<le> 102))"

fun has_control :: "string \<Rightarrow> bool" where
  "has_control [] = False"
| "has_control [c] = is_ascii_control c"
| "has_control (c # d # s) =
     (is_ascii_control c
      \<or> (byte_of c = 194 \<and> 128 \<le> byte_of d \<and> byte_of d \<le> 159)
      \<or> has_control (d # s))"

definition lower_char :: "char \<Rightarrow> char" where
  "lower_char c = (if is_upper c then char_of (byte_of c + 32) else c)"
definition upper_char :: "char \<Rightarrow> char" where
  "upper_char c = (if is_lower c then char_of (byte_of c - 32) else c)"
definition to_ascii_lowercase :: "string \<Rightarrow> string" where
  "to_ascii_lowercase s = map lower_char s"
definition to_ascii_uppercase :: "string \<Rightarrow> string" where
  "to_ascii_uppercase s = map upper_char s"
definition eq_ignore_ascii_case :: "string \<Rightarrow> string \<Rightarrow> bool" where
  "eq_ignore_ascii_case a b = (to_ascii_lowercase a = to_ascii_lowercase b)"

definition trim_start :: "string \<Rightarrow> string" where "trim_start s = dropWhile is_white s"
definition trim_end :: "string \<Rightarrow> string" where "trim_end s = rev (dropWhile is_white (rev s))"
definition trim :: "string \<Rightarrow> string" where "trim s = trim_end (trim_start s)"

fun starts_with :: "string \<Rightarrow> string \<Rightarrow> bool" where
  "starts_with [] s = True"
| "starts_with (c # p) [] = False"
| "starts_with (c # p) (d # s) = (c = d \<and> starts_with p s)"

definition ends_with :: "string \<Rightarrow> string \<Rightarrow> bool" where
  "ends_with p s = starts_with (rev p) (rev s)"

fun contains_str :: "string \<Rightarrow> string \<Rightarrow> bool" where
  "contains_str p [] = (p = [])"
| "contains_str p (c # s) = (starts_with p (c # s) \<or> contains_str p s)"

fun split_on :: "char \<Rightarrow> string \<Rightarrow> string list" where
  "split_on c [] = [[]]"
| "split_on c (d # s) =
     (if d = c then [] # split_on c s
      else (case split_on c s of [] \<Rightarrow> [[d]] | h # t \<Rightarrow> (d # h) # t))"

definition strip_suffix :: "string \<Rightarrow> string \<Rightarrow> string option" where
  "strip_suffix p s = (if ends_with p s then Some (take (length s - length p) s) else None)"

definition strip_suffix_or_self :: "string \<Rightarrow> string \<Rightarrow> string" where
  "strip_suffix_or_self p s = (case strip_suffix p s of None \<Rightarrow> s | Some t \<Rightarrow> t)"

fun split_once :: "string \<Rightarrow> string \<Rightarrow> (string \<times> string) option" where
  "split_once p [] = (if p = [] then Some ([], []) else None)"
| "split_once p (c # s) =
     (if starts_with p (c # s) then Some ([], drop (length p) (c # s))
      else map_option (\<lambda>(a, b). (c # a, b)) (split_once p s))"

fun join_with :: "char \<Rightarrow> string list \<Rightarrow> string" where
  "join_with c [] = []"
| "join_with c [x] = x"
| "join_with c (x # y # xs) = x @ [c] @ join_with c (y # xs)"

lemma starts_with_iff: "starts_with p s \<longleftrightarrow> (\<exists>t. s = p @ t)"
  by (induction p s rule: starts_with.induct) auto

lemma ends_with_iff: "ends_with p s \<longleftrightarrow> (\<exists>t. s = t @ p)"
  unfolding ends_with_def starts_with_iff
  by (metis rev_append rev_rev_ident)

lemma contains_str_iff: "contains_str p s \<longleftrightarrow> (\<exists>a b. s = a @ p @ b)"
proof (induction p s rule: contains_str.induct)
  case (1 p)
  then show ?case by auto
next
  case (2 p c s)
  then show ?case by (auto simp: starts_with_iff Cons_eq_append_conv)
qed

lemma contains_char_iff: "contains_str [c] s \<longleftrightarrow> c \<in> set s"
  by (auto simp: contains_str_iff in_set_conv_decomp)

lemma split_on_not_Nil [simp]: "split_on c s \<noteq> []"
  by (induction s) (auto split: list.splits)

lemma split_on_no_sep: "h \<in> set (split_on c s) \<Longrightarrow> c \<notin> set h"
proof (induction s arbitrary: h)
  case Nil
  then show ?case by simp
next
  case (Cons d s)
  then show ?case
    by (cases "split_on c s") (auto split: if_splits)
qed

lemma join_split_on: "join_with c (split_on c s) = s"
proof (induction s)
  case Nil
  then show ?case by simp
next
  case (Cons d s)
  then show ?case
    by (cases "split_on c s" rule: remdups_adj.cases) auto
qed

lemma split_on_id: "c \<notin> set s \<Longrightarrow> split_on c s = [s]"
  by (induction s) auto

lemma split_on_append: "c \<notin> set a \<Longrightarrow> split_on c (a @ c # b) = a # split_on c b"
  by (induction a) auto

lemma strip_suffix_Some: "strip_suffix p s = Some t \<longleftrightarrow> s = t @ p"
  by (auto simp: strip_suffix_def ends_with_iff)

lemma strip_suffix_or_self_cases:
  "(ends_with p s \<and> s = strip_suffix_or_self p s @ p)
    \<or> (\<not> ends_with p s \<and> strip_suffix_or_self p s = s)"
  by (auto simp: strip_suffix_or_self_def strip_suffix_def ends_with_iff)

lemma split_once_Some:
  "split_once p s = Some (a, b) \<Longrightarrow> s = a @ p @ b"
proof (induction p s arbitrary: a b rule: split_once.induct)
  case (1 p)
  then show ?case by (auto split: if_splits)
next
  case (2 p c s)
  then show ?case by (auto simp: starts_with_iff split: if_splits)
qed

lemma split_once_append: "c \<notin> set a \<Longrightarrow> split_once [c] (a @ c # b) = Some (a, b)"
  by (induction a) auto

section \<open>Field validators\<close>

definition PROTOCOL_VERSION :: nat where "PROTOCOL_VERSION = 5"

definition validate_version :: "nat \<Rightarrow> unit validated" where
  "validate_version received =
     reject_if (UnsupportedVersion PROTOCOL_VERSION received) (received \<noteq> PROTOCOL_VERSION)"

definition validate_fixed_value :: "string \<Rightarrow> string \<Rightarrow> string \<Rightarrow> unit validated" where
  "validate_fixed_value field received expected =
     reject_if (UnsupportedFixedValue field expected received) (received \<noteq> expected)"

definition validate_uuid :: "string \<Rightarrow> uuid \<Rightarrow> unit validated" where
  "validate_uuid field value = reject_if (NilIdentifier field) (value = 0)"

definition validate_text :: "string \<Rightarrow> string \<Rightarrow> nat \<Rightarrow> unit validated" where
  "validate_text field value maximum =
     bindE (reject_if (EmptyField field) (value = [])) (\<lambda>_.
     reject_if (FieldTooLarge field maximum) (length value > maximum))"

definition validate_identifier :: "string \<Rightarrow> string \<Rightarrow> nat \<Rightarrow> unit validated" where
  "validate_identifier field value maximum =
     bindE (validate_text field value maximum) (\<lambda>_.
     reject_if (InvalidIdentifier field)
       (trim value \<noteq> value \<or> \<not> list_all (\<lambda>b. is_graphic b \<and> \<not> is_ascii_control b) value))"

definition validate_positive_limit :: "string \<Rightarrow> nat \<Rightarrow> nat \<Rightarrow> unit validated" where
  "validate_positive_limit field value maximum =
     reject_if (InvalidLimit field maximum) (value = 0 \<or> value > maximum)"

definition validate_sha256_hex :: "string \<Rightarrow> string \<Rightarrow> unit validated" where
  "validate_sha256_hex field value =
     reject_if (InvalidSha256Hex field) (length value \<noteq> 64 \<or> \<not> list_all is_lower_hex value)"

definition validate_git_commit :: "string \<Rightarrow> unit validated" where
  "validate_git_commit value =
     reject_if InvalidFeatureConveyorOwnerControl
       (\<not> (length value = 40 \<or> length value = 64)
        \<or> \<not> list_all is_lower_hex value
        \<or> list_all (\<lambda>b. b = CHR ''0'') value)"

text \<open>\<^verbatim>\<open>validate_serialized_limit\<close> and \<^verbatim>\<open>validate_payload_digest\<close> serialise first; the caller passes
  the bytes \<^verbatim>\<open>serde_json\<close> produced and their SHA-256.\<close>

definition validate_serialized_limit :: "string \<Rightarrow> string \<Rightarrow> nat \<Rightarrow> unit validated" where
  "validate_serialized_limit field bytes maximum =
     reject_if (SerializedValueTooLarge field maximum) (length bytes > maximum)"

definition validate_payload_digest :: "string \<Rightarrow> digest \<Rightarrow> digest \<Rightarrow> unit validated" where
  "validate_payload_digest field actual expected =
     reject_if (PayloadDigestMismatch field) (actual \<noteq> expected)"

definition MAX_MODEL_NAME_BYTES :: nat where "MAX_MODEL_NAME_BYTES = 128"

definition validate_local_model_selection_id :: "string \<Rightarrow> unit validated" where
  "validate_local_model_selection_id value =
     bindE (validate_identifier ''model_id'' value MAX_MODEL_NAME_BYTES) (\<lambda>_.
     reject_if InvalidMlxCapability
       (starts_with ''/'' value
        \<or> contains_str [CHR 0x5C] value
        \<or> starts_with ''file:'' value
        \<or> list_ex (\<lambda>component. component = ''.'' \<or> component = ''..'') (split_on CHR ''/'' value)))"

definition is_windows_absolute_path :: "string \<Rightarrow> bool" where
  "is_windows_absolute_path value =
     (length value \<ge> 3
      \<and> is_alphabetic (value ! 0)
      \<and> value ! 1 = CHR '':''
      \<and> (value ! 2 = CHR ''/'' \<or> value ! 2 = CHR 0x5C))"

section \<open>Branch names\<close>

definition MAX_FEATURE_CONVEYOR_BASE_BRANCH_BYTES :: nat where
  "MAX_FEATURE_CONVEYOR_BASE_BRANCH_BYTES = 255"

definition git_forbidden_byte :: "char \<Rightarrow> bool" where
  "git_forbidden_byte b =
     (b \<in> {CHR '' '', CHR ''~'', CHR ''^'', CHR '':'', CHR ''?'', CHR ''*'', CHR ''['', CHR 0x5C})"

definition validate_publication_branch :: "string \<Rightarrow> string \<Rightarrow> unit validated" where
  "validate_publication_branch field value =
     bindE (validate_identifier field value MAX_FEATURE_CONVEYOR_BASE_BRANCH_BYTES) (\<lambda>_.
     reject_if InvalidFeatureConveyorOwnerControl
       (starts_with ''.'' value
        \<or> starts_with ''/'' value
        \<or> ends_with ''.'' value
        \<or> ends_with ''/'' value
        \<or> ends_with ''.lock'' value
        \<or> contains_str ''..'' value
        \<or> contains_str ''//'' value
        \<or> contains_str [CHR ''@'', CHR ''{''] value
        \<or> list_ex git_forbidden_byte value))"

definition validate_git_branch :: "string \<Rightarrow> unit validated" where
  "validate_git_branch value =
     bindE (validate_identifier ''expected_base_branch'' value
              MAX_FEATURE_CONVEYOR_BASE_BRANCH_BYTES) (\<lambda>_.
     reject_if InvalidFeatureConveyorOwnerControl
       (starts_with ''.'' value
        \<or> starts_with ''/'' value
        \<or> ends_with ''.'' value
        \<or> ends_with ''/'' value
        \<or> contains_str ''/'' value
        \<or> ends_with ''.lock'' value
        \<or> contains_str ''..'' value
        \<or> contains_str ''//'' value
        \<or> contains_str [CHR ''@'', CHR ''{''] value
        \<or> list_ex git_forbidden_byte value))"

section \<open>Relative paths of coding edits\<close>

definition MAX_LOCAL_CODING_EDIT_PATH_BYTES :: nat where
  "MAX_LOCAL_CODING_EDIT_PATH_BYTES = 1024"

definition is_windows_reserved_component :: "string \<Rightarrow> bool" where
  "is_windows_reserved_component component =
     (let stem = to_ascii_uppercase (hd (split_on CHR ''.'' component)) in
      stem \<in> {''CON'', ''PRN'', ''AUX'', ''NUL''}
      \<or> (length stem = 4
         \<and> (starts_with ''COM'' stem \<or> starts_with ''LPT'' stem)
         \<and> 49 \<le> byte_of (stem ! 3) \<and> byte_of (stem ! 3) \<le> 57))"

definition bad_component :: "string \<Rightarrow> bool" where
  "bad_component component =
     (component = []
      \<or> component = ''.''
      \<or> component = ''..''
      \<or> eq_ignore_ascii_case component ''.git''
      \<or> ends_with ''.'' component
      \<or> ends_with '' '' component
      \<or> has_control component
      \<or> is_windows_reserved_component component)"

definition validate_local_coding_relative_path :: "string \<Rightarrow> unit validated" where
  "validate_local_coding_relative_path path =
     bindE (reject_if InvalidFeatureConveyorOwnerControl
       (path = []
        \<or> length path > MAX_LOCAL_CODING_EDIT_PATH_BYTES
        \<or> starts_with ''/'' path
        \<or> ends_with ''/'' path
        \<or> contains_str [CHR 0x5C] path
        \<or> contains_str '':'' path
        \<or> contains_str [CHR 0x00] path)) (\<lambda>_.
     bindE (forE (\<lambda>component count.
              bindE (reject_if InvalidFeatureConveyorOwnerControl (bad_component component))
                (\<lambda>_. Inr (Suc count)))
            (split_on CHR ''/'' path) 0) (\<lambda>component_count.
     reject_if InvalidFeatureConveyorOwnerControl (component_count = 0)))"

lemma path_loop_Inr:
  "forE (\<lambda>component count. bindE (reject_if e (bad component)) (\<lambda>_. Inr (Suc count))) cs n = Inr m
    \<longleftrightarrow> m = n + length cs \<and> (\<forall>c \<in> set cs. \<not> bad c)"
  by (induction cs arbitrary: n) (auto simp: result_simps)

lemma validate_relative_path_iff:
  "validate_local_coding_relative_path path = Inr () \<longleftrightarrow>
     path \<noteq> [] \<and> length path \<le> 1024 \<and> \<not> starts_with ''/'' path \<and> \<not> ends_with ''/'' path
     \<and> CHR 0x5C \<notin> set path \<and> CHR '':'' \<notin> set path \<and> CHR 0x00 \<notin> set path
     \<and> (\<forall>c \<in> set (split_on CHR ''/'' path). \<not> bad_component c)"
  by (auto simp: validate_local_coding_relative_path_def result_simps path_loop_Inr
      contains_char_iff MAX_LOCAL_CODING_EDIT_PATH_BYTES_def not_less)

text \<open>How a file system walks a relative path below a directory: \<open>.\<close> stays, \<open>..\<close> goes up.\<close>

fun walk_path :: "string list \<Rightarrow> string list \<Rightarrow> string list" where
  "walk_path dir [] = dir"
| "walk_path dir (c # cs) =
     walk_path (if c = ''.'' \<or> c = [] then dir else if c = ''..'' then butlast dir else dir @ [c]) cs"

lemma walk_plain:
  "(\<forall>c \<in> set cs. c \<noteq> ''.'' \<and> c \<noteq> ''..'' \<and> c \<noteq> []) \<Longrightarrow> walk_path dir cs = dir @ cs"
  by (induction cs arbitrary: dir) simp_all

lemma accepted_component_plain:
  "\<not> bad_component c \<Longrightarrow> c \<noteq> ''.'' \<and> c \<noteq> ''..'' \<and> c \<noteq> [] \<and> \<not> eq_ignore_ascii_case c ''.git''"
  by (auto simp: bad_component_def)

lemmas validator_defs =
  validate_version_def validate_fixed_value_def validate_uuid_def validate_text_def
  validate_identifier_def validate_positive_limit_def validate_serialized_limit_def
  validate_payload_digest_def

lemma validate_positive_limit_Inr [result_simps]:
  "validate_positive_limit f v m = Inr u \<longleftrightarrow> 0 < v \<and> v \<le> m"
  by (auto simp: validate_positive_limit_def result_simps)

lemma validate_uuid_Inr [result_simps]: "validate_uuid f v = Inr u \<longleftrightarrow> v \<noteq> 0"
  by (simp add: validate_uuid_def result_simps)

lemma validate_version_Inr [result_simps]: "validate_version v = Inr u \<longleftrightarrow> v = 5"
  by (auto simp: validate_version_def PROTOCOL_VERSION_def result_simps)

lemma validate_text_Inr [result_simps]:
  "validate_text f v m = Inr u \<longleftrightarrow> v \<noteq> [] \<and> length v \<le> m"
  by (auto simp: validate_text_def result_simps)

lemma validate_identifier_Inr [result_simps]:
  "validate_identifier f v m = Inr u \<longleftrightarrow>
     v \<noteq> [] \<and> length v \<le> m \<and> trim v = v \<and> list_all (\<lambda>b. is_graphic b \<and> \<not> is_ascii_control b) v"
  by (auto simp: validate_identifier_def result_simps)

lemma validate_serialized_limit_Inr [result_simps]:
  "validate_serialized_limit f b m = Inr u \<longleftrightarrow> length b \<le> m"
  by (auto simp: validate_serialized_limit_def result_simps)

lemma validate_payload_digest_Inr [result_simps]:
  "validate_payload_digest f a b = Inr u \<longleftrightarrow> a = b"
  by (auto simp: validate_payload_digest_def result_simps)

section \<open>Character classes\<close>

lemma has_control_graphic: "list_all is_graphic s \<Longrightarrow> \<not> has_control s"
  by (induction s rule: has_control.induct)
    (auto simp: is_graphic_def is_ascii_control_def byte_of_def)

lemma byte_of_char_of: "n < 256 \<Longrightarrow> byte_of (char_of n) = n"
  by (simp add: byte_of_def of_char_of)

lemma byte_of_lower_char:
  "byte_of (lower_char c) = (if is_upper c then byte_of c + 32 else byte_of c)"
  by (auto simp: lower_char_def is_upper_def byte_of_char_of)

lemma byte_of_eq_iff: "byte_of c = byte_of d \<longleftrightarrow> c = d"
  by (simp add: byte_of_def of_char_eq_iff)

lemmas char_class_defs =
  is_digit_def is_lower_def is_upper_def is_alphabetic_def is_alphanumeric_def is_graphic_def
  is_ascii_control_def is_white_def is_lower_hex_def

lemma byte_of_CHR [simp]:
  "byte_of CHR ''-'' = 45" "byte_of CHR ''.'' = 46" "byte_of CHR ''_'' = 95"
  "byte_of CHR ''/'' = 47" "byte_of CHR ''0'' = 48" "byte_of CHR '':'' = 58"
  "byte_of CHR ''?'' = 63" "byte_of CHR ''#'' = 35" "byte_of CHR ''%'' = 37"
  "byte_of CHR 0x5C = 92"
  by (simp_all add: byte_of_def)

text \<open>
  C39. A path that \<^verbatim>\<open>validate_local_coding_relative_path\<close> accepts never leaves the workspace: walked
  from any directory it appends exactly its own components, none of which is \<^verbatim>\<open>.git\<close> in any case
  or a Windows device name, and it contains no drive separator, backslash or NUL.
\<close>

theorem accepted_path_stays_below_root:
  assumes "validate_local_coding_relative_path path = Inr ()"
  shows "walk_path root (split_on CHR ''/'' path) = root @ split_on CHR ''/'' path
    \<and> join_with CHR ''/'' (split_on CHR ''/'' path) = path
    \<and> length path \<le> 1024
    \<and> CHR '':'' \<notin> set path \<and> CHR 0x5C \<notin> set path \<and> CHR 0x00 \<notin> set path
    \<and> list_all (\<lambda>c. \<not> eq_ignore_ascii_case c ''.git'' \<and> \<not> is_windows_reserved_component c)
        (split_on CHR ''/'' path)"
proof -
  from assms have parts: "\<forall>c \<in> set (split_on CHR ''/'' path). \<not> bad_component c"
    and rest: "length path \<le> 1024" "CHR '':'' \<notin> set path" "CHR 0x5C \<notin> set path"
      "CHR 0x00 \<notin> set path"
    by (auto simp: validate_relative_path_iff)
  have "walk_path root (split_on CHR ''/'' path) = root @ split_on CHR ''/'' path"
    by (rule walk_plain) (use parts accepted_component_plain in blast)
  moreover have "list_all (\<lambda>c. \<not> eq_ignore_ascii_case c ''.git'' \<and> \<not> is_windows_reserved_component c)
      (split_on CHR ''/'' path)"
    using parts by (auto simp: list_all_iff bad_component_def)
  ultimately show ?thesis using rest by (simp add: join_split_on)
qed

theorem accepted_path_stays_below_root_witness:
  "walk_path [''work''] (split_on CHR ''/'' ''src/lib.rs'') = [''work'', ''src'', ''lib.rs'']"
proof -
  have "validate_local_coding_relative_path ''src/lib.rs'' = Inr ()" by code_simp
  from accepted_path_stays_below_root [OF this, of "[''work'']"]
  show ?thesis by simp
qed


end
