(* ===== verification/Wire_Github.thy ===== *)
theory Wire_Github
  imports Wire_Text
begin

text \<open>
  \<^verbatim>\<open>CanonicalGitHubRepositoryUrl\<close> of \<^verbatim>\<open>assemblywright-protocol/src/lib.rs\<close>: parsing a
  repository URL into its canonical spelling, and validating a stored one by parsing it again.
\<close>

section \<open>Canonical GitHub URLs\<close>

definition MAX_GITHUB_REPOSITORY_URL_BYTES :: nat where "MAX_GITHUB_REPOSITORY_URL_BYTES = 256"

definition validate_github_name :: "string \<Rightarrow> nat \<Rightarrow> bool \<Rightarrow> unit validated" where
  "validate_github_name value maximum allow_underscore_and_dot =
     reject_if InvalidGitHubRepositoryUrl
       (value = []
        \<or> length value > maximum
        \<or> hd value \<in> {CHR ''-'', CHR ''.'', CHR ''_''}
        \<or> last value \<in> {CHR ''-'', CHR ''.'', CHR ''_''}
        \<or> contains_str ''--'' value
        \<or> \<not> list_all (\<lambda>b. is_alphanumeric b \<or> b = CHR ''-''
              \<or> (allow_underscore_and_dot \<and> (b = CHR ''_'' \<or> b = CHR ''.''))) value)"

definition github_url :: "string \<Rightarrow> string \<Rightarrow> string" where
  "github_url owner repository = ''https://github.com/'' @ owner @ ''/'' @ repository"

definition parse_github_url :: "string \<Rightarrow> string validated" where
  "parse_github_url value =
     (let bad = InvalidGitHubRepositoryUrl in
      bindE (reject_if bad
        (length value > MAX_GITHUB_REPOSITORY_URL_BYTES
         \<or> has_control value
         \<or> list_ex (\<lambda>c. c \<in> {CHR ''?'', CHR ''#'', CHR ''%'', CHR 0x5C}) value)) (\<lambda>_.
      bindE (ok_or bad (split_once ''://'' value)) (\<lambda>(scheme, remainder).
      bindE (reject_if bad (\<not> eq_ignore_ascii_case scheme ''https'')) (\<lambda>_.
      bindE (ok_or bad (split_once ''/'' remainder)) (\<lambda>(authority, path0).
      bindE (reject_if bad
        (\<not> eq_ignore_ascii_case authority ''github.com''
         \<or> contains_str ''@'' authority
         \<or> contains_str '':'' authority)) (\<lambda>_.
      (let path = strip_suffix_or_self ''/'' path0 in
       case split_on CHR ''/'' path of
         [owner, repository0] \<Rightarrow>
           (let repository = strip_suffix_or_self ''.git'' repository0 in
            bindE (validate_github_name owner 39 False) (\<lambda>_.
            bindE (validate_github_name repository 100 True) (\<lambda>_.
            Inr (github_url (to_ascii_lowercase owner) (to_ascii_lowercase repository)))))
       | _ \<Rightarrow> Inl bad)))))))"

definition validate_github_url :: "string \<Rightarrow> unit validated" where
  "validate_github_url url =
     bindE (parse_github_url url) (\<lambda>parsed.
     reject_if InvalidGitHubRepositoryUrl (parsed \<noteq> url))"

lemma lower_char_idem: "lower_char (lower_char c) = lower_char c"
  using byte_of_lower_char [of c] by (auto simp: lower_char_def is_upper_def)

lemma lower_char_punct:
  "c \<in> {CHR ''-'', CHR ''.'', CHR ''_''} \<Longrightarrow> (lower_char d = c) = (d = c)"
  by (auto simp: byte_of_eq_iff [symmetric] byte_of_lower_char is_upper_def)

lemma dash_lower [simp]:
  "(lower_char c = CHR ''-'') = (c = CHR ''-'')" "(CHR ''-'' = lower_char c) = (c = CHR ''-'')"
  using lower_char_punct [of "CHR ''-''" c] by auto

lemma contains_dashes_lower:
  "contains_str ''--'' (to_ascii_lowercase s) = contains_str ''--'' s"
proof (induction s)
  case Nil
  show ?case by (simp add: to_ascii_lowercase_def)
next
  case (Cons c s)
  have "starts_with ''--'' (to_ascii_lowercase (c # s)) = starts_with ''--'' (c # s)"
    by (cases s) (auto simp: to_ascii_lowercase_def)
  with Cons show ?case by (simp add: to_ascii_lowercase_def)
qed

lemma name_byte_lower:
  "(is_alphanumeric (lower_char b) \<or> lower_char b = CHR ''-''
      \<or> (a \<and> (lower_char b = CHR ''_'' \<or> lower_char b = CHR ''.'')))
   = (is_alphanumeric b \<or> b = CHR ''-'' \<or> (a \<and> (b = CHR ''_'' \<or> b = CHR ''.'')))"
proof -
  have "is_alphanumeric (lower_char b) = is_alphanumeric b"
    by (auto simp: char_class_defs byte_of_lower_char)
  then show ?thesis by (simp add: lower_char_punct)
qed

lemma validate_github_name_lower:
  "validate_github_name (to_ascii_lowercase s) m a = validate_github_name s m a"
proof -
  have "s \<noteq> [] \<Longrightarrow> hd (to_ascii_lowercase s) \<in> {CHR ''-'', CHR ''.'', CHR ''_''}
        \<longleftrightarrow> hd s \<in> {CHR ''-'', CHR ''.'', CHR ''_''}"
    and "s \<noteq> [] \<Longrightarrow> last (to_ascii_lowercase s) \<in> {CHR ''-'', CHR ''.'', CHR ''_''}
        \<longleftrightarrow> last s \<in> {CHR ''-'', CHR ''.'', CHR ''_''}"
    by (simp_all add: to_ascii_lowercase_def hd_map last_map lower_char_punct)
  moreover have "list_all (\<lambda>b. is_alphanumeric b \<or> b = CHR ''-''
        \<or> (a \<and> (b = CHR ''_'' \<or> b = CHR ''.''))) (to_ascii_lowercase s)
     = list_all (\<lambda>b. is_alphanumeric b \<or> b = CHR ''-''
        \<or> (a \<and> (b = CHR ''_'' \<or> b = CHR ''.''))) s"
    unfolding to_ascii_lowercase_def list.pred_map comp_def name_byte_lower ..
  moreover have "to_ascii_lowercase s = [] \<longleftrightarrow> s = []" "length (to_ascii_lowercase s) = length s"
    by (simp_all add: to_ascii_lowercase_def)
  ultimately show ?thesis
    unfolding validate_github_name_def contains_dashes_lower by (cases "s = []") simp_all
qed

lemma validate_github_name_Inr:
  assumes "validate_github_name s m a = Inr ()"
  shows "s \<noteq> []" "length s \<le> m" "list_all is_graphic s" "CHR ''/'' \<notin> set s"
    "\<forall>c \<in> set s. c \<notin> {CHR ''?'', CHR ''#'', CHR ''%'', CHR 0x5C}"
proof -
  have *: "list_all (\<lambda>b. is_alphanumeric b \<or> b = CHR ''-''
        \<or> (a \<and> (b = CHR ''_'' \<or> b = CHR ''.''))) s"
    using assms by (simp add: validate_github_name_def result_simps)
  show "s \<noteq> []" "length s \<le> m"
    using assms by (auto simp: validate_github_name_def result_simps)
  show "list_all is_graphic s"
    using * by (rule list.pred_mono_strong) (auto simp: char_class_defs)
  show "CHR ''/'' \<notin> set s"
    using * by (auto simp: list_all_iff char_class_defs dest!: bspec)
  show "\<forall>c \<in> set s. c \<notin> {CHR ''?'', CHR ''#'', CHR ''%'', CHR 0x5C}"
    using * by (auto simp: list_all_iff char_class_defs dest!: bspec)
qed

lemma split_github_url:
  "split_once ''://'' (github_url owner repo) = Some (''https'', ''github.com/'' @ owner @ ''/'' @ repo)"
  by (simp add: github_url_def)

lemma split_once_host:
  "split_once ''/'' (''github.com/'' @ t) = Some (''github.com'', t)"
  by simp

lemma host_checks:
  "eq_ignore_ascii_case ''https'' ''https''" "eq_ignore_ascii_case ''github.com'' ''github.com''"
  "\<not> contains_str ''@'' ''github.com''" "\<not> contains_str '':'' ''github.com''"
  by (simp_all add: eq_ignore_ascii_case_def)

lemma prefix_checks:
  "list_all is_graphic ''https://github.com/''"
  "\<not> list_ex (\<lambda>c. c \<in> {CHR ''?'', CHR ''#'', CHR ''%'', CHR 0x5C}) ''https://github.com/''"
  by (simp_all add: is_graphic_def byte_of_def)

lemma parse_github_url_rebuilt:
  assumes o: "validate_github_name owner 39 False = Inr ()"
    and r0: "list_all is_graphic repo" "CHR ''/'' \<notin> set repo" "repo \<noteq> []" "length repo \<le> 104"
      "\<forall>c \<in> set repo. c \<notin> {CHR ''?'', CHR ''#'', CHR ''%'', CHR 0x5C}"
  shows "parse_github_url (github_url owner repo) =
    bindE (validate_github_name (strip_suffix_or_self ''.git'' repo) 100 True) (\<lambda>_.
      Inr (github_url (to_ascii_lowercase owner)
             (to_ascii_lowercase (strip_suffix_or_self ''.git'' repo))))"
proof -
  note ow = validate_github_name_Inr [OF o]
  let ?t = "owner @ ''/'' @ repo"
  have len: "\<not> length (github_url owner repo) > MAX_GITHUB_REPOSITORY_URL_BYTES"
    using ow(2) r0(4) by (simp add: github_url_def MAX_GITHUB_REPOSITORY_URL_BYTES_def)
  have "list_all is_graphic (github_url owner repo)"
    using ow(3) r0(1) prefix_checks(1)
    by (simp only: github_url_def list_all_append) (simp add: is_graphic_def)
  then have ctl: "\<not> has_control (github_url owner repo)" by (rule has_control_graphic)
  have bad: "\<not> list_ex (\<lambda>c. c \<in> {CHR ''?'', CHR ''#'', CHR ''%'', CHR 0x5C}) (github_url owner repo)"
    using ow(5) r0(5) prefix_checks(2)
    by (simp only: github_url_def list_ex_append) (auto simp: list_ex_iff)
  have "last repo \<noteq> CHR ''/''" using r0(2,3) last_in_set [of repo] by metis
  then have "\<not> ends_with ''/'' ?t"
    using r0(3) by (auto simp: ends_with_iff dest!: arg_cong [where f = last])
  then have strip: "strip_suffix_or_self ''/'' ?t = ?t"
    using strip_suffix_or_self_cases by blast
  have split: "split_on CHR ''/'' ?t = [owner, repo]"
    using ow(4) r0(2) by (simp add: split_on_append split_on_id)
  show ?thesis
    unfolding parse_github_url_def Let_def split_github_url
    by (simp only: len ctl bad o strip split split_once_host host_checks bindE_simps ok_or_simps
        reject_if_simps prod.case list.case simp_thms)
qed

lemma ends_with_after_sep:
  assumes "c \<notin> set p"
  shows "ends_with p (a @ c # r) \<longleftrightarrow> ends_with p r"
proof
  assume "ends_with p (a @ c # r)"
  then obtain t where "a @ c # r = t @ p" by (auto simp: ends_with_iff)
  then consider us where "a = t @ us" "us @ c # r = p" | us where "a @ us = t" "c # r = us @ p"
    by (auto simp: append_eq_append_conv2)
  then show "ends_with p r"
  proof cases
    case 1
    then have "c \<in> set p" by auto
    with assms show ?thesis by simp
  next
    case 2
    then show ?thesis using assms by (cases us) (auto simp: ends_with_iff)
  qed
qed (auto simp: ends_with_iff)

lemma ends_with_github_url:
  "ends_with ''.git'' (github_url owner repo) \<longleftrightarrow> ends_with ''.git'' repo"
  using ends_with_after_sep [of "CHR ''/''" "''.git''" "''https://github.com/'' @ owner" repo]
  by (simp add: github_url_def)

lemma list_of_two:
  obtains (two) a b where "xs = [a, b]" | (other) "\<forall>a b. xs \<noteq> [a, b]"
  by blast

lemma parse_github_url_Inr:
  assumes "parse_github_url v = Inr u"
  obtains owner repo where "u = github_url (to_ascii_lowercase owner) (to_ascii_lowercase repo)"
    and "validate_github_name owner 39 False = Inr ()"
    and "validate_github_name repo 100 True = Inr ()"
proof -
  from assms obtain path where
    p: "(case split_on CHR ''/'' path of
         [owner, repository0] \<Rightarrow>
            bindE (validate_github_name owner 39 False) (\<lambda>_.
            bindE (validate_github_name (strip_suffix_or_self ''.git'' repository0) 100 True) (\<lambda>_.
            Inr (github_url (to_ascii_lowercase owner)
                  (to_ascii_lowercase (strip_suffix_or_self ''.git'' repository0)))))
       | _ \<Rightarrow> Inl InvalidGitHubRepositoryUrl) = Inr u"
    unfolding parse_github_url_def Let_def by (auto simp only: bindE_Inr_iff prod.case split_paired_Ex)
  show ?thesis
  proof (cases "split_on CHR ''/'' path" rule: list_of_two)
    case (two owner repository0)
    with p show ?thesis by (auto simp: result_simps intro: that)
  next
    case other
    with p show ?thesis by (auto split: list.splits)
  qed
qed

lemma length_to_ascii_lowercase [simp]: "length (to_ascii_lowercase s) = length s"
  by (simp add: to_ascii_lowercase_def)

lemma length_github_url [simp]: "length (github_url a b) = 20 + length a + length b"
  by (simp add: github_url_def)

lemma to_ascii_lowercase_idem: "to_ascii_lowercase (to_ascii_lowercase s) = to_ascii_lowercase s"
  by (simp add: to_ascii_lowercase_def lower_char_idem)

text \<open>
  C40. Canonicalising a repository URL is idempotent except on one shape: a value that
  \<^verbatim>\<open>CanonicalGitHubRepositoryUrl::parse\<close> returned passes \<^verbatim>\<open>validate\<close> exactly when it does not end in
  \<^verbatim>\<open>.git\<close>. \<^verbatim>\<open>parse\<close> strips one lower-case \<^verbatim>\<open>.git\<close>, before it lower-cases, so a repository written
  \<^verbatim>\<open>r.git.git\<close> or \<^verbatim>\<open>r.GIT\<close> yields a canonical URL that its own validator refuses.
\<close>

theorem github_url_stable_iff:
  assumes "parse_github_url v = Inr u"
  shows "validate_github_url u = Inr () \<longleftrightarrow> \<not> ends_with ''.git'' u"
proof -
  from parse_github_url_Inr [OF assms] obtain owner repo where
    u: "u = github_url (to_ascii_lowercase owner) (to_ascii_lowercase repo)"
    and o: "validate_github_name owner 39 False = Inr ()"
    and r: "validate_github_name repo 100 True = Inr ()" by blast
  let ?o = "to_ascii_lowercase owner" and ?r = "to_ascii_lowercase repo"
  let ?s = "strip_suffix_or_self ''.git'' ?r"
  have o': "validate_github_name ?o 39 False = Inr ()"
    and r': "validate_github_name ?r 100 True = Inr ()"
    using o r by (simp_all add: validate_github_name_lower)
  note rw = validate_github_name_Inr [OF r']
  have "length ?r \<le> 104" using rw(2) by simp
  note again = parse_github_url_rebuilt [OF o' rw(3,4,1) this rw(5)]
  show ?thesis
  proof (cases "ends_with ''.git'' ?r")
    case True
    then have "?r = ?s @ ''.git''" using strip_suffix_or_self_cases by blast
    from arg_cong [OF this, of length] have "length ?s < length ?r" by simp
    then have "github_url (to_ascii_lowercase ?o) (to_ascii_lowercase ?s) \<noteq> u"
      unfolding u by (auto dest: arg_cong [where f = length])
    then show ?thesis
      using True unfolding validate_github_url_def u [symmetric] again [folded u]
      by (simp add: bindE_Inr_iff reject_if_Inr_iff ends_with_github_url u)
  next
    case False
    then have "?s = ?r" using strip_suffix_or_self_cases by blast
    then show ?thesis
      using r' False unfolding validate_github_url_def again [folded u]
      by (simp add: u ends_with_github_url to_ascii_lowercase_idem)
  qed
qed

theorem github_url_stable_iff_witness:
  "parse_github_url ''HTTPS://GitHub.com/Owner/Repo.git/'' = Inr ''https://github.com/owner/repo''
   \<and> validate_github_url ''https://github.com/owner/repo'' = Inr ()
   \<and> parse_github_url ''https://github.com/o/r.GIT'' = Inr ''https://github.com/o/r.git''
   \<and> validate_github_url ''https://github.com/o/r.git'' \<noteq> Inr ()"
proof -
  have a: "parse_github_url ''HTTPS://GitHub.com/Owner/Repo.git/'' = Inr ''https://github.com/owner/repo''"
    and b: "parse_github_url ''https://github.com/o/r.GIT'' = Inr ''https://github.com/o/r.git''"
    by code_simp+
  have "\<not> ends_with ''.git'' ''https://github.com/owner/repo''"
    and "ends_with ''.git'' ''https://github.com/o/r.git''"
    by code_simp+
  then show ?thesis
    using a b github_url_stable_iff [OF a] github_url_stable_iff [OF b] by blast
qed


end
