(* ===== verification/Wire_Codec.thy ===== *)
theory Wire_Codec
  imports Wire_Text "HOL-Library.List_Lexorder" "HOL-Library.Char_ord" "HOL-Library.Multiset"
begin

text \<open>
  The byte encodings of the protocol crate: lower-case hexadecimal text, the big-endian integers
  and length prefixes of the hashed transcripts, canonical JSON and the strict JSON reader that
  refuses duplicate keys.

  Bytes are characters, so a \<^verbatim>\<open>Vec<u8>\<close> is a \<open>string\<close>. \<^verbatim>\<open>serde_json\<close>'s number and string texts and
  its tokeniser are third-party: a number is its decimal text, the escaped form of a string is the
  argument \<open>quote\<close> and the token tree of a frame is an argument of the reader.
\<close>

section \<open>Hexadecimal text\<close>

definition hex_digit :: "nat \<Rightarrow> char" where
  "hex_digit n = ''0123456789abcdef'' ! n"

definition hex_lower :: "string \<Rightarrow> string" where
  "hex_lower bytes =
     concat (map (\<lambda>byte. [hex_digit (byte_of byte div 16), hex_digit (byte_of byte mod 16)]) bytes)"

definition hex_nibble :: "char \<Rightarrow> nat option" where
  "hex_nibble b =
     (if 48 \<le> byte_of b \<and> byte_of b \<le> 57 then Some (byte_of b - 48)
      else if 97 \<le> byte_of b \<and> byte_of b \<le> 102 then Some (byte_of b - 97 + 10)
      else None)"

fun hex_pairs :: "string \<Rightarrow> string option" where
  "hex_pairs (a # b # rest) =
     (case hex_nibble a of None \<Rightarrow> None | Some high \<Rightarrow>
      (case hex_nibble b of None \<Rightarrow> None | Some low \<Rightarrow>
        map_option ((#) (char_of (high * 16 + low))) (hex_pairs rest)))"
| "hex_pairs rest = Some []"

definition decode_lower_hex :: "string \<Rightarrow> string option" where
  "decode_lower_hex value =
     (if length value mod 2 \<noteq> 0 \<or> \<not> list_all is_lower_hex value then None
      else hex_pairs value)"

lemma less_16_cases:
  fixes n :: nat
  assumes "n < 16"
  shows "n \<in> {0, 1, 2, 3, 4, 5, 6, 7, 8, 9, 10, 11, 12, 13, 14, 15}"
  using assms by (auto simp: eval_nat_numeral less_Suc_eq)

lemma hex_digit_nibble:
  "n < 16 \<Longrightarrow> hex_nibble (hex_digit n) = Some n \<and> is_lower_hex (hex_digit n)"
  by (drule less_16_cases)
    (auto simp: hex_digit_def hex_nibble_def is_lower_hex_def is_digit_def byte_of_def)

lemma hex_nibble_Some:
  assumes "hex_nibble b = Some n"
  shows "n < 16 \<and> hex_digit n = b"
proof -
  have n: "n < 16" and b: "byte_of b = (if n < 10 then n + 48 else n + 87)"
    using assms by (auto simp: hex_nibble_def split: if_splits)
  have "byte_of (hex_digit n) = (if n < 10 then n + 48 else n + 87)"
    using less_16_cases [OF n] by (auto simp: hex_digit_def byte_of_def)
  with n b show ?thesis by (simp add: byte_of_eq_iff [symmetric])
qed

lemma byte_of_less: "byte_of c < 256"
  by (simp add: byte_of_def)

lemma char_of_nibbles: "char_of (byte_of c div 16 * 16 + byte_of c mod 16) = c"
  by (simp add: byte_of_def)

lemma char_of_byte_of [simp]: "char_of (byte_of c) = c"
  by (simp add: byte_of_def)

lemma hex_lower_Cons:
  "hex_lower (c # s) = hex_digit (byte_of c div 16) # hex_digit (byte_of c mod 16) # hex_lower s"
  by (simp add: hex_lower_def)

lemma hex_pairs_hex_lower: "hex_pairs (hex_lower s) = Some s"
proof (induction s)
  case Nil
  show ?case by (simp add: hex_lower_def)
next
  case (Cons c s)
  have "byte_of c div 16 < 16" using byte_of_less [of c] by simp
  with Cons show ?case
    by (simp add: hex_lower_Cons hex_digit_nibble char_of_nibbles del: hex_pairs.simps(2,3))
qed

lemma hex_lower_shape: "length (hex_lower s) = 2 * length s" "list_all is_lower_hex (hex_lower s)"
proof (induction s)
  case Nil
  show "length (hex_lower []) = 2 * length []" "list_all is_lower_hex (hex_lower [])"
    by (simp_all add: hex_lower_def)
next
  case (Cons c s)
  have "byte_of c div 16 < 16" using byte_of_less [of c] by simp
  with Cons show "length (hex_lower (c # s)) = 2 * length (c # s)"
    "list_all is_lower_hex (hex_lower (c # s))"
    by (simp_all add: hex_lower_Cons hex_digit_nibble)
qed

lemma hex_pairs_Some: "hex_pairs v = Some s \<Longrightarrow> even (length v) \<Longrightarrow> v = hex_lower s"
proof (induction v arbitrary: s rule: hex_pairs.induct)
  case (1 a b rest)
  then obtain h l r where *: "hex_nibble a = Some h" "hex_nibble b = Some l"
    "hex_pairs rest = Some r" "s = char_of (h * 16 + l) # r"
    by (auto split: option.splits)
  have hl: "h < 16" "hex_digit h = a" "l < 16" "hex_digit l = b"
    using *(1,2) hex_nibble_Some by blast+
  have "byte_of (char_of (h * 16 + l)) = h * 16 + l"
    using hl by (intro byte_of_char_of) linarith
  then show ?case using 1 * hl by (simp add: hex_lower_Cons)
qed (simp_all add: hex_lower_def)

lemma lower_hex_text: "decode_lower_hex v = Some s \<longleftrightarrow> v = hex_lower s"
proof
  assume "decode_lower_hex v = Some s"
  then show "v = hex_lower s"
    by (auto simp: decode_lower_hex_def even_iff_mod_2_eq_zero intro: hex_pairs_Some
        split: if_splits)
next
  assume "v = hex_lower s"
  then show "decode_lower_hex v = Some s"
    by (simp add: decode_lower_hex_def hex_lower_shape hex_pairs_hex_lower)
qed

text \<open>
  Hexadecimal text is an exact encoding of bytes: \<^verbatim>\<open>decode_lower_hex\<close> accepts exactly the
  strings that \<^verbatim>\<open>hex_lower\<close> writes, and returns the bytes they were written from. So the two texts
  of one value never differ, and odd lengths, upper case and other characters are refused.
\<close>

theorem lower_hex_exact:
  "decode_lower_hex v = Some s \<longleftrightarrow> v = hex_lower s"
  by (rule lower_hex_text)

section \<open>Transcripts\<close>

text \<open>\<^verbatim>\<open>to_be_bytes\<close> of an integer of \<open>k\<close> bytes, and the bytes of identifiers and digests.\<close>

fun be_bytes :: "nat \<Rightarrow> nat \<Rightarrow> string" where
  "be_bytes 0 n = []"
| "be_bytes (Suc k) n = be_bytes k (n div 256) @ [char_of (n mod 256)]"

definition uuid_bytes :: "uuid \<Rightarrow> string" where "uuid_bytes u = be_bytes 16 (unat u)"
definition digest_bytes :: "digest \<Rightarrow> string" where "digest_bytes d = be_bytes 32 (unat d)"

lemma length_be_bytes [simp]: "length (be_bytes k n) = k"
  by (induction k arbitrary: n) simp_all

lemma be_bytes_inject:
  "m < 256 ^ k \<Longrightarrow> n < 256 ^ k \<Longrightarrow> be_bytes k m = be_bytes k n \<longleftrightarrow> m = n"
proof (induction k arbitrary: m n)
  case 0
  then show ?case by simp
next
  case (Suc k)
  have "m div 256 < 256 ^ k" "n div 256 < 256 ^ k"
    using Suc.prems by (simp_all add: less_mult_imp_div_less mult.commute)
  then have "be_bytes k (m div 256) = be_bytes k (n div 256) \<longleftrightarrow> m div 256 = n div 256"
    by (rule Suc.IH)
  moreover have "(char_of (m mod 256) :: char) = char_of (n mod 256) \<longleftrightarrow> m mod 256 = n mod 256"
    by (metis byte_of_char_of mod_less_divisor zero_less_numeral)
  ultimately show ?case
    by (auto simp del: char_of_mod_256) (metis div_mult_mod_eq)
qed

lemma uuid_bytes_inject [simp]: "uuid_bytes u = uuid_bytes v \<longleftrightarrow> u = v"
  using unsigned_less [of u, where 'a = nat] unsigned_less [of v, where 'a = nat]
  by (simp add: uuid_bytes_def be_bytes_inject word_unat_eq_iff del: be_bytes.simps)

lemma digest_bytes_inject [simp]: "digest_bytes d = digest_bytes e \<longleftrightarrow> d = e"
  using unsigned_less [of d, where 'a = nat] unsigned_less [of e, where 'a = nat]
  by (simp add: digest_bytes_def be_bytes_inject word_unat_eq_iff del: be_bytes.simps)

lemma length_uuid_bytes [simp]: "length (uuid_bytes u) = 16"
  by (simp add: uuid_bytes_def)

lemma length_digest_bytes [simp]: "length (digest_bytes d) = 32"
  by (simp add: digest_bytes_def)

text \<open>A list of texts, each behind its length as eight bytes.\<close>

definition length_prefixed :: "string \<Rightarrow> string" where
  "length_prefixed s = be_bytes 8 (length s) @ s"

definition prefixed_list :: "string list \<Rightarrow> string" where
  "prefixed_list paths = concat (map length_prefixed paths)"

lemma length_prefixed_inject:
  assumes "length s < 256 ^ 8" "length t < 256 ^ 8"
  shows "length_prefixed s @ x = length_prefixed t @ y \<longleftrightarrow> s = t \<and> x = y"
proof
  assume *: "length_prefixed s @ x = length_prefixed t @ y"
  then have "be_bytes 8 (length s) = be_bytes 8 (length t)"
    and "s @ x = t @ y"
    by (simp_all add: length_prefixed_def append_eq_append_conv del: be_bytes.simps)
  with assms show "s = t \<and> x = y"
    by (simp add: be_bytes_inject append_eq_append_conv del: be_bytes.simps)
qed simp

lemma prefixed_list_inject:
  assumes "length xs = length ys"
    and "\<forall>s \<in> set xs. length s < 256 ^ 8" "\<forall>s \<in> set ys. length s < 256 ^ 8"
  shows "prefixed_list xs = prefixed_list ys \<longleftrightarrow> xs = ys"
  using assms
proof (induction xs ys rule: list_induct2)
  case Nil
  show ?case by simp
next
  case (Cons x xs y ys)
  then show ?case by (simp add: prefixed_list_def length_prefixed_inject)
qed

section \<open>Canonical JSON\<close>

datatype json =
    JNull
  | JBool bool
  | JNumber string
  | JString string
  | JArray "json list"
  | JObject "(string \<times> json) list"

fun join_texts :: "string list \<Rightarrow> string" where
  "join_texts [] = []"
| "join_texts [x] = x"
| "join_texts (x # y # xs) = x @ '','' @ join_texts (y # xs)"

fun canonical_json_bytes :: "(string \<Rightarrow> string) \<Rightarrow> json \<Rightarrow> string" where
  "canonical_json_bytes quote JNull = ''null''"
| "canonical_json_bytes quote (JBool b) = (if b then ''true'' else ''false'')"
| "canonical_json_bytes quote (JNumber text) = text"
| "canonical_json_bytes quote (JString s) = quote s"
| "canonical_json_bytes quote (JArray vs) =
     ''['' @ join_texts (map (canonical_json_bytes quote) vs) @ '']''"
| "canonical_json_bytes quote (JObject kvs) =
     ''{'' @ join_texts (map (\<lambda>(k, text). quote k @ '':'' @ text)
               (sort_key fst (map (\<lambda>(k, v). (k, canonical_json_bytes quote v)) kvs))) @ ''}''"

text \<open>
  The strict reader: \<open>visit_map\<close> fails on the second occurrence of a key, at any depth. Its argument
  is the token tree that \<^verbatim>\<open>serde_json\<close> feeds to the visitor.
\<close>

fun strict_json :: "json \<Rightarrow> json option" where
  "strict_json JNull = Some JNull"
| "strict_json (JBool b) = Some (JBool b)"
| "strict_json (JNumber n) = Some (JNumber n)"
| "strict_json (JString s) = Some (JString s)"
| "strict_json (JArray vs) = map_option JArray (those (map strict_json vs))"
| "strict_json (JObject kvs) =
     (if distinct (map fst kvs)
      then map_option JObject
             (those (map (\<lambda>(k, v). map_option (Pair k) (strict_json v)) kvs))
      else None)"

fun unique_keys :: "json \<Rightarrow> bool" where
  "unique_keys (JArray vs) = list_all unique_keys vs"
| "unique_keys (JObject kvs) = (distinct (map fst kvs) \<and> list_all (\<lambda>(k, v). unique_keys v) kvs)"
| "unique_keys _ = True"

lemma those_map_Some: "(\<forall>x \<in> set xs. f x = Some (g x)) \<Longrightarrow> those (map f xs) = Some (map g xs)"
  by (induction xs) auto

lemma those_map_None: "x \<in> set xs \<Longrightarrow> f x = None \<Longrightarrow> those (map f xs) = None"
  by (induction xs) (auto split: option.splits)

lemma strict_json_unique: "strict_json v = (if unique_keys v then Some v else None)"
proof (induction v rule: unique_keys.induct)
  case (1 vs)
  show ?case
  proof (cases "list_all unique_keys vs")
    case True
    then have "those (map strict_json vs) = Some (map id vs)"
      using 1 by (intro those_map_Some) (auto simp: list_all_iff)
    with True show ?thesis by simp
  next
    case False
    then obtain x where "x \<in> set vs" "\<not> unique_keys x" by (auto simp: list_all_iff)
    with 1 have "those (map strict_json vs) = None" by (intro those_map_None) auto
    with False show ?thesis by simp
  qed
next
  case (2 kvs)
  let ?f = "\<lambda>(k, v). map_option (Pair k) (strict_json v)"
  show ?case
  proof (cases "list_all (\<lambda>(k, v). unique_keys v) kvs")
    case True
    then have "those (map ?f kvs) = Some (map id kvs)"
      using 2 by (intro those_map_Some) (force simp: list_all_iff)
    with True show ?thesis by simp
  next
    case False
    then obtain k x where "(k, x) \<in> set kvs" "\<not> unique_keys x" by (auto simp: list_all_iff)
    with 2 have "those (map ?f kvs) = None" by (intro those_map_None) force+
    with False show ?thesis by simp
  qed
qed simp_all

text \<open>
  The strict reader returns a document unchanged when no object in it, at any depth, repeats a
  key, and refuses every other document.
\<close>

theorem strict_json_exact: "strict_json v = (if unique_keys v then Some v else None)"
  by (rule strict_json_unique)

lemma sort_key_mset_distinct:
  assumes "mset xs = mset ys" "distinct (map fst xs)"
  shows "sort_key fst xs = sort_key fst ys"
proof (rule properties_for_sort_key)
  show "mset (sort_key fst ys) = mset xs" using assms by simp
  fix k assume "k \<in> set (sort_key fst ys)"
  then have "k \<in> set xs" using mset_eq_setD [OF assms(1)] by simp
  then have xs: "filter (\<lambda>x. fst k = fst x) xs = [k]"
    using assms(2) by (induction xs) (auto simp: filter_empty_conv image_iff)
  have "mset (filter (\<lambda>x. fst k = fst x) (sort_key fst ys)) = mset (filter (\<lambda>x. fst k = fst x) xs)"
    using assms(1) by simp
  then have "mset (filter (\<lambda>x. fst k = fst x) (sort_key fst ys)) = {#k#}"
    unfolding xs by simp
  with xs show "filter (\<lambda>x. fst k = fst x) (sort_key fst ys) = filter (\<lambda>x. fst k = fst x) xs"
    by (simp only: mset_single_iff)
qed simp

text \<open>
  Canonical JSON does not depend on the order in which an object's members were inserted: two
  objects with the same members (their keys distinct, as in every \<^verbatim>\<open>serde_json\<close> map) have the same
  bytes, hence the same SHA-256.
\<close>

theorem canonical_json_order_independent:
  assumes "mset kvs = mset kvs'" and "distinct (map fst kvs)"
  shows "canonical_json_bytes quote (JObject kvs) = canonical_json_bytes quote (JObject kvs')"
proof -
  let ?w = "\<lambda>(k, v). (k, canonical_json_bytes quote v)"
  have "mset (map ?w kvs) = mset (map ?w kvs')" using assms(1) by simp
  moreover have "distinct (map fst (map ?w kvs))"
    using assms(2) by (simp add: comp_def case_prod_beta)
  ultimately have "sort_key fst (map ?w kvs) = sort_key fst (map ?w kvs')"
    by (rule sort_key_mset_distinct)
  then show ?thesis by (simp only: canonical_json_bytes.simps)
qed

theorem canonical_json_order_independent_witness:
  "canonical_json_bytes (\<lambda>s. s) (JObject [(''b'', JNull), (''a'', JBool True)])
     = canonical_json_bytes (\<lambda>s. s) (JObject [(''a'', JBool True), (''b'', JNull)])
   \<and> canonical_json_bytes (\<lambda>s. s) (JObject [(''b'', JNull), (''a'', JBool True)])
     = ''{a:true,b:null}''"
proof -
  have "mset [(''b'', JNull), (''a'', JBool True)] = mset [(''a'', JBool True), (''b'', JNull)]"
    and "distinct (map fst [(''b'', JNull), (''a'', JBool True)])"
    by simp_all
  note canonical_json_order_independent [OF this, of "\<lambda>s. s"]
  then show ?thesis by (simp add: sort_key_def)
qed

end
