(* ===== verification/Wire_Types.thy ===== *)
theory Wire_Types
  imports Wire_Codec
begin

text \<open>
  The structures that cross the wire between the master and its device agents
  (\<^verbatim>\<open>assemblywright-protocol/src/lib.rs\<close>), with the source's fields in the source's order, and the
  record \<open>codec\<close> of the third-party functions the validators call.

  \<^verbatim>\<open>u16\<close>, \<^verbatim>\<open>u32\<close> and \<^verbatim>\<open>u64\<close> fields are natural numbers; the validators compare them and never
  compute with them, except where a range is written out. A \<^verbatim>\<open>[u8; 32]\<close> is a \<open>digest\<close>, a UUID newtype
  (\<^verbatim>\<open>TaskId\<close>, \<^verbatim>\<open>StepId\<close> and so on) is a \<open>uuid\<close>, \<^verbatim>\<open>serde_json::Value\<close> is \<open>json\<close>.
\<close>

section \<open>Capabilities and handshakes\<close>

datatype device_role = MacBridge | InferenceWorker
datatype capability_kind = LocalInference | LocalCoding | AppleIntegration
datatype sensitivity =
  PublicData | Workspace | Personal | PrivateData | CredentialAdjacent | Restricted
datatype context_handling = EphemeralNoRetention | SealedUntilResolvedOrExpired

record capability =
  cap_id :: string
  cap_kind :: capability_kind
  cap_provider :: string
  cap_model :: string
  cap_max_context_bytes :: nat
  cap_max_result_bytes :: nat

record handshake_request =
  hs_protocol_version :: nat
  hs_device_id :: uuid
  hs_device_name :: string
  hs_role :: device_role
  hs_registry_revision :: nat
  hs_capabilities :: "capability list"

record authenticated_handshake =
  ah_handshake :: handshake_request
  ah_tls_exporter_sha256 :: digest

datatype handshake_status = HsAccepted | HsRejected

record handshake_response =
  hr_protocol_version :: nat
  hr_status :: handshake_status
  hr_connection_epoch :: nat
  hr_accepted_registry_revision :: nat
  hr_reason_code :: "string option"

section \<open>Distributed events\<close>

record event_cursor =
  cur_stream_id :: uuid
  cur_sequence :: nat

datatype event_kind =
    DeviceConnected | DeviceDisconnected | StepQueued | StepLeased | StepSucceeded | StepFailed
  | StepCancelled | StepCancellationRequested | StepCancellationAcknowledged
  | StepCancellationExpired | StepLeaseExpired

record distributed_event =
  ev_protocol_version :: nat
  ev_cursor :: event_cursor
  ev_occurred_at_ms :: nat
  ev_kind :: event_kind
  ev_task_id :: "uuid option"
  ev_step_id :: "uuid option"
  ev_device_id :: "uuid option"
  ev_connection_epoch :: "nat option"

record event_batch_request =
  br_protocol_version :: nat
  br_connection_epoch :: nat
  br_after :: "event_cursor option"
  br_limit :: nat

record event_batch =
  eb_protocol_version :: nat
  eb_stream_id :: uuid
  eb_after_sequence :: nat
  eb_next_sequence :: nat
  eb_events :: "distributed_event list"
  eb_has_more :: bool

section \<open>Jobs, cancellation and results\<close>

record job_envelope =
  job_protocol_version :: nat
  job_connection_epoch :: nat
  job_sequence :: nat
  job_task_id :: uuid
  job_step_id :: uuid
  job_attempt_id :: uuid
  job_lease_id :: uuid
  job_cancellation_id :: uuid
  job_capability_id :: string
  job_selected_model :: string
  job_sensitivity :: sensitivity
  job_context_handling :: context_handling
  job_lease_duration_ms :: nat
  job_deadline_after_ms :: nat
  job_context_sha256 :: digest
  job_context :: json

record fixture_request =
  fx_operation :: string
  fx_input :: string
  fx_delay_ms :: nat

record fixture_result =
  fxr_operation :: string
  fxr_output :: string
  fxr_synthetic :: bool

record mlx_request =
  mlx_operation :: string
  mlx_prompt :: string
  mlx_max_tokens :: nat
  mlx_temperature_milli :: nat

record mlx_result =
  mlxr_operation :: string
  mlxr_output :: string
  mlxr_model :: string

record cancellation_instruction =
  ci_protocol_version :: nat
  ci_connection_epoch :: nat
  ci_sequence :: nat
  ci_task_id :: uuid
  ci_step_id :: uuid
  ci_attempt_id :: uuid
  ci_lease_id :: uuid
  ci_cancellation_id :: uuid
  ci_deadline_after_ms :: nat

record cancellation_poll_request =
  poll_protocol_version :: nat
  poll_connection_epoch :: nat

datatype acknowledgement_status = AckCancelled

record cancellation_acknowledgement =
  ack_protocol_version :: nat
  ack_connection_epoch :: nat
  ack_sequence :: nat
  ack_task_id :: uuid
  ack_step_id :: uuid
  ack_attempt_id :: uuid
  ack_lease_id :: uuid
  ack_cancellation_id :: uuid
  ack_status :: acknowledgement_status

datatype job_result_status = ResCompleted | ResFailed | ResCancelled

record job_result =
  res_protocol_version :: nat
  res_connection_epoch :: nat
  res_sequence :: nat
  res_task_id :: uuid
  res_step_id :: uuid
  res_attempt_id :: uuid
  res_lease_id :: uuid
  res_cancellation_id :: uuid
  res_status :: job_result_status
  res_context_sha256 :: digest
  res_payload_sha256 :: digest
  res_payload :: json

section \<open>Contained coding\<close>

record write_arguments =
  wr_path :: string
  wr_expected_before_sha256 :: "digest option"
  wr_replacement_sha256 :: digest
  wr_replacement_hex :: string
  wr_executable :: bool

record delete_arguments =
  del_path :: string
  del_expected_before_sha256 :: digest

datatype edit_operation = WriteOp write_arguments | DeleteOp delete_arguments

record work_packet =
  wp_packet_id :: uuid
  wp_ordinal :: nat
  wp_acceptance_criteria_count :: nat
  wp_allowed_paths :: "string list"
  wp_operations :: "edit_operation list"

record coding_dispatch_request =
  cd_schema_version :: nat
  cd_feature_id :: uuid
  cd_specification_revision :: nat
  cd_expected_lifecycle_revision :: nat
  cd_feature_lease_id :: uuid
  cd_snapshot_id :: uuid
  cd_snapshot_sha256 :: digest
  cd_work_packet_sha256 :: digest
  cd_work_packet :: work_packet
  cd_device_id :: uuid
  cd_device_registry_revision :: nat
  cd_expected_queue_revision :: nat
  cd_expected_emergency_pause_revision :: nat

record coding_request =
  cr_feature_id :: uuid
  cr_specification_revision :: nat
  cr_lifecycle_revision :: nat
  cr_feature_lease_id :: uuid
  cr_snapshot_id :: uuid
  cr_snapshot_sha256 :: digest
  cr_work_packet_sha256 :: digest
  cr_work_packet :: work_packet
  cr_device_id :: uuid
  cr_device_registry_revision :: nat
  cr_queue_revision :: nat
  cr_emergency_pause_revision :: nat

record coding_result =
  cres_status :: string
  cres_work_packet_sha256 :: digest
  cres_admission_sha256 :: digest
  cres_snapshot_sha256 :: digest
  cres_allowed_paths_sha256 :: digest
  cres_changed_paths_sha256 :: digest
  cres_patch_sha256 :: digest
  cres_artifact_id :: uuid
  cres_artifact_sha256 :: digest
  cres_artifact_size_bytes :: nat
  cres_changed_file_count :: nat
  cres_test_status :: string
  cres_mutation_performed :: bool
  cres_workspace_retained :: bool
  cres_workspace_expires_at_ms :: nat
  cres_ambiguous :: bool

record snapshot_chunk_request =
  scr_protocol_version :: nat
  scr_connection_epoch :: nat
  scr_task_id :: uuid
  scr_step_id :: uuid
  scr_attempt_id :: uuid
  scr_lease_id :: uuid
  scr_cancellation_id :: uuid
  scr_snapshot_id :: uuid
  scr_snapshot_sha256 :: digest
  scr_offset :: nat

record patch_artifact =
  pa_format :: string
  pa_work_packet_sha256 :: digest
  pa_changes :: "edit_operation list"

record result_artifact =
  ra_artifact_id :: uuid
  ra_artifact_sha256 :: digest
  ra_artifact_size_bytes :: nat
  ra_artifact_hex :: string

record artifact_admission =
  adm_protocol_version :: nat
  adm_connection_epoch :: nat
  adm_sequence :: nat
  adm_task_id :: uuid
  adm_step_id :: uuid
  adm_attempt_id :: uuid
  adm_lease_id :: uuid
  adm_cancellation_id :: uuid
  adm_context_sha256 :: digest
  adm_feature_id :: uuid
  adm_feature_lease_id :: uuid
  adm_snapshot_id :: uuid
  adm_snapshot_sha256 :: digest
  adm_work_packet_sha256 :: digest
  adm_workspace_retained :: bool
  adm_workspace_expires_at_ms :: nat
  adm_artifact :: result_artifact

record artifact_receipt =
  rcpt_protocol_version :: nat
  rcpt_connection_epoch :: nat
  rcpt_sequence :: nat
  rcpt_task_id :: uuid
  rcpt_step_id :: uuid
  rcpt_attempt_id :: uuid
  rcpt_lease_id :: uuid
  rcpt_cancellation_id :: uuid
  rcpt_artifact_id :: uuid
  rcpt_artifact_sha256 :: digest
  rcpt_artifact_size_bytes :: nat
  rcpt_workspace_retained :: bool
  rcpt_workspace_expires_at_ms :: nat
  rcpt_status :: string

section \<open>Third-party functions\<close>

text \<open>
  \<open>wire_bytes\<close> is \<^verbatim>\<open>serde_json::to_vec\<close> of a structure, \<open>json_bytes\<close> that of a \<^verbatim>\<open>Value\<close>, \<open>quote_json\<close>
  \<^verbatim>\<open>serde_json::to_string\<close> of a string, \<open>sha256\<close> is \<^verbatim>\<open>Sha256::digest\<close>, \<open>uuid_text\<close> the hyphenated text
  of a UUID, \<open>json_tokens\<close> the token tree \<^verbatim>\<open>serde_json::from_slice\<close> drives its visitor with, and the
  \<open>decode_*\<close> fields are the derived \<^verbatim>\<open>serde_json::from_value\<close> of the named structures.
\<close>

datatype wire =
    WHandshake handshake_request
  | WAuthenticated authenticated_handshake
  | WHandshakeResponse handshake_response
  | WEvent distributed_event
  | WBatchRequest event_batch_request
  | WBatch event_batch
  | WJob job_envelope
  | WPoll cancellation_poll_request
  | WInstruction cancellation_instruction
  | WAcknowledgement cancellation_acknowledgement
  | WResult job_result
  | WPacket work_packet
  | WDispatch coding_dispatch_request
  | WChunkRequest snapshot_chunk_request
  | WAdmission artifact_admission

record codec =
  wire_bytes :: "wire \<Rightarrow> string"
  json_bytes :: "json \<Rightarrow> string"
  quote_json :: "string \<Rightarrow> string"
  sha256 :: "string \<Rightarrow> digest"
  uuid_text :: "uuid \<Rightarrow> string"
  json_tokens :: "string \<Rightarrow> json option"
  decode_fixture_request :: "json \<Rightarrow> fixture_request option"
  decode_fixture_result :: "json \<Rightarrow> fixture_result option"
  decode_mlx_request :: "json \<Rightarrow> mlx_request option"
  decode_mlx_result :: "json \<Rightarrow> mlx_result option"
  decode_coding_request :: "json \<Rightarrow> coding_request option"
  decode_coding_result :: "json \<Rightarrow> coding_result option"
  decode_patch :: "json \<Rightarrow> patch_artifact option"
  decode_admission :: "json \<Rightarrow> artifact_admission option"

text \<open>
  The functions an example is evaluated with: empty serialisations, quotes without escapes, a
  checksum for the digest, no decoder.
\<close>

definition sample_codec :: codec where
  "sample_codec =
     \<lparr>wire_bytes = \<lambda>_. [], json_bytes = \<lambda>_. [], quote_json = \<lambda>s. [CHR 0x22] @ s @ [CHR 0x22],
      sha256 = \<lambda>s. of_nat (1 + sum_list (map byte_of s)), uuid_text = \<lambda>_. ''uuid'',
      json_tokens = \<lambda>_. None,
      decode_fixture_request = \<lambda>_. None, decode_fixture_result = \<lambda>_. None,
      decode_mlx_request = \<lambda>_. None, decode_mlx_result = \<lambda>_. None,
      decode_coding_request = \<lambda>_. None, decode_coding_result = \<lambda>_. None,
      decode_patch = \<lambda>_. None, decode_admission = \<lambda>_. None\<rparr>"

definition validate_wire_limit :: "codec \<Rightarrow> string \<Rightarrow> wire \<Rightarrow> nat \<Rightarrow> unit validated" where
  "validate_wire_limit cx field value maximum =
     validate_serialized_limit field (wire_bytes cx value) maximum"

lemma validate_wire_limit_Inr [result_simps]:
  "validate_wire_limit cx f v m = Inr u \<longleftrightarrow> length (wire_bytes cx v) \<le> m"
  by (simp add: validate_wire_limit_def result_simps)

definition validate_object :: "string \<Rightarrow> json \<Rightarrow> unit validated" where
  "validate_object field value =
     (case value of JObject _ \<Rightarrow> Inr () | _ \<Rightarrow> Inl (ExpectedObject field))"

lemma validate_object_Inr [result_simps]:
  "validate_object f v = Inr u \<longleftrightarrow> (\<exists>kvs. v = JObject kvs)"
  by (cases v) (simp_all add: validate_object_def)

section \<open>Limits\<close>

definition MAX_DEVICE_NAME_BYTES :: nat where "MAX_DEVICE_NAME_BYTES = 128"
definition MAX_CAPABILITIES_PER_DEVICE :: nat where "MAX_CAPABILITIES_PER_DEVICE = 64"
definition MAX_CAPABILITY_ID_BYTES :: nat where "MAX_CAPABILITY_ID_BYTES = 64"
definition MAX_PROVIDER_NAME_BYTES :: nat where "MAX_PROVIDER_NAME_BYTES = 64"
definition MAX_HANDSHAKE_FRAME_BYTES :: nat where "MAX_HANDSHAKE_FRAME_BYTES = 64 * 1024"
definition MAX_JOB_CONTEXT_BYTES :: nat where "MAX_JOB_CONTEXT_BYTES = 256 * 1024"
definition MAX_JOB_RESULT_BYTES :: nat where "MAX_JOB_RESULT_BYTES = 768 * 1024"
definition MAX_WIRE_FRAME_BYTES :: nat where "MAX_WIRE_FRAME_BYTES = 1024 * 1024"
definition MAX_DISTRIBUTED_EVENT_BATCH_BYTES :: nat where
  "MAX_DISTRIBUTED_EVENT_BATCH_BYTES = 64 * 1024"
definition MAX_DISTRIBUTED_EVENTS_PER_BATCH :: nat where "MAX_DISTRIBUTED_EVENTS_PER_BATCH = 64"
definition MAX_LEASE_DURATION_MS :: nat where "MAX_LEASE_DURATION_MS = 10 * 60 * 1000"
definition MAX_STEP_DEADLINE_MS :: nat where "MAX_STEP_DEADLINE_MS = 2 * 60 * 60 * 1000"
definition FIXTURE_REASONING_CAPABILITY_ID :: string where
  "FIXTURE_REASONING_CAPABILITY_ID = ''fixture.reasoning''"
definition FIXTURE_REASONING_PROVIDER :: string where
  "FIXTURE_REASONING_PROVIDER = ''assemblywright-fixture''"
definition FIXTURE_REASONING_MODEL :: string where
  "FIXTURE_REASONING_MODEL = ''assemblywright-fixture-v1''"
definition FIXTURE_SYNTHETIC_ECHO_OPERATION :: string where
  "FIXTURE_SYNTHETIC_ECHO_OPERATION = ''synthetic_echo''"
definition MAX_FIXTURE_CONTEXT_BYTES :: nat where "MAX_FIXTURE_CONTEXT_BYTES = 8 * 1024"
definition MAX_FIXTURE_RESULT_BYTES :: nat where "MAX_FIXTURE_RESULT_BYTES = 8 * 1024"
definition MAX_FIXTURE_INPUT_BYTES :: nat where "MAX_FIXTURE_INPUT_BYTES = 4 * 1024"
definition MAX_FIXTURE_DELAY_MS :: nat where "MAX_FIXTURE_DELAY_MS = 5000"
definition CANCELLATION_ACK_DEADLINE_MS :: nat where "CANCELLATION_ACK_DEADLINE_MS = 2000"
definition MLX_REASONING_CAPABILITY_ID :: string where
  "MLX_REASONING_CAPABILITY_ID = ''mlx.reasoning''"
definition MLX_REASONING_PROVIDER :: string where "MLX_REASONING_PROVIDER = ''mlx''"
definition MLX_GENERATE_TEXT_OPERATION :: string where
  "MLX_GENERATE_TEXT_OPERATION = ''generate_text''"
definition MAX_MLX_PROMPT_BYTES :: nat where "MAX_MLX_PROMPT_BYTES = 32 * 1024"
definition MAX_MLX_TOKENS :: nat where "MAX_MLX_TOKENS = 512"
definition MAX_MLX_TEMPERATURE_MILLI :: nat where "MAX_MLX_TEMPERATURE_MILLI = 2000"
definition FEATURE_CONVEYOR_OWNER_CONTROL_SCHEMA_VERSION :: nat where
  "FEATURE_CONVEYOR_OWNER_CONTROL_SCHEMA_VERSION = 1"
definition MAX_FEATURE_CONVEYOR_CODING_DISPATCH_REQUEST_BYTES :: nat where
  "MAX_FEATURE_CONVEYOR_CODING_DISPATCH_REQUEST_BYTES = 256 * 1024"
definition LOCAL_CODING_CAPABILITY_ID :: string where
  "LOCAL_CODING_CAPABILITY_ID = ''local.coding.v1''"
definition LOCAL_CODING_PROVIDER :: string where "LOCAL_CODING_PROVIDER = ''assemblywright-agent''"
definition LOCAL_CODING_MODEL :: string where
  "LOCAL_CODING_MODEL = ''assemblywright-local-coding-v1''"
definition LOCAL_CODING_COMPLETED_STATUS :: string where
  "LOCAL_CODING_COMPLETED_STATUS = ''contained_coding_completed''"
definition LOCAL_CODING_FIXTURE_TEST_STATUS :: string where
  "LOCAL_CODING_FIXTURE_TEST_STATUS = ''not_run''"
definition MAX_LOCAL_CODING_JOB_FRAME_BYTES :: nat where
  "MAX_LOCAL_CODING_JOB_FRAME_BYTES = 16 * 1024"
definition MAX_LOCAL_CODING_CONTEXT_BYTES :: nat where
  "MAX_LOCAL_CODING_CONTEXT_BYTES = 12 * 1024"
definition MAX_LOCAL_CODING_RESULT_BYTES :: nat where
  "MAX_LOCAL_CODING_RESULT_BYTES = 32 * 1024"
definition MAX_LOCAL_CODING_SNAPSHOT_BUNDLE_BYTES :: nat where
  "MAX_LOCAL_CODING_SNAPSHOT_BUNDLE_BYTES = 320 * 1024 * 1024"
definition MAX_LOCAL_CODING_RESULT_ARTIFACT_BYTES :: nat where
  "MAX_LOCAL_CODING_RESULT_ARTIFACT_BYTES = 256 * 1024"
definition MAX_LOCAL_CODING_RESULT_ARTIFACT_FRAME_BYTES :: nat where
  "MAX_LOCAL_CODING_RESULT_ARTIFACT_FRAME_BYTES = 640 * 1024"
definition MAX_LOCAL_CODING_EDIT_PATHS :: nat where "MAX_LOCAL_CODING_EDIT_PATHS = 64"
definition MAX_LOCAL_CODING_EDIT_OPERATIONS :: nat where "MAX_LOCAL_CODING_EDIT_OPERATIONS = 64"
definition MAX_LOCAL_CODING_EDIT_CONTENT_BYTES :: nat where
  "MAX_LOCAL_CODING_EDIT_CONTENT_BYTES = 4 * 1024"
definition LOCAL_CODING_RESULT_ARTIFACT_FORMAT :: string where
  "LOCAL_CODING_RESULT_ARTIFACT_FORMAT = ''assemblywright.multi-file-patch.v1''"
definition LOCAL_CODING_RESULT_ARTIFACT_STATUS :: string where
  "LOCAL_CODING_RESULT_ARTIFACT_STATUS = ''result_artifact_admitted''"

end
