(* ===== verification/Coding_Packet.thy ===== *)
theory Coding_Packet
  imports Wire_Types
begin

text \<open>
  Coding work packets, the owner's dispatch request and the context of a coding job
  (\<^verbatim>\<open>LocalCodingEditOperation\<close>, \<^verbatim>\<open>FeatureConveyorCodingWorkPacketMetadata\<close>,
  \<^verbatim>\<open>FeatureConveyorCodingDispatchRequest\<close>, \<^verbatim>\<open>LocalCodingJobRequest\<close>). A \<^verbatim>\<open>BTreeSet\<close> that is only
  inserted into and counted is the list of its elements. Lemmas: an accepted packet operates on
  each allowed path exactly once and writes at most 4 KiB.
\<close>

fun nat_text :: "nat \<Rightarrow> string" where
  "nat_text n = (if n < 10 then [char_of (48 + n)] else nat_text (n div 10) @ [char_of (48 + n mod 10)])"

declare nat_text.simps [simp del]

lemma nat_text_not_Nil [simp]: "nat_text n \<noteq> []"
  by (subst nat_text.simps) simp

lemma nat_text_1: "nat_text n = ''1'' \<longleftrightarrow> n = 1"
proof (cases "n < 10")
  case True
  have "(char_of (48 + n) = CHR ''1'') = (byte_of (char_of (48 + n)) = byte_of CHR ''1'')"
    by (simp only: byte_of_eq_iff)
  also have "\<dots> = (n = 1)" using True by (subst byte_of_char_of) (auto simp: byte_of_def)
  finally show ?thesis using True by (subst nat_text.simps) simp
next
  case False
  then have "length (nat_text n) \<noteq> 1" by (subst nat_text.simps) simp
  with False show ?thesis by auto
qed

definition validate_schema_version :: "nat \<Rightarrow> unit validated" where
  "validate_schema_version received =
     validate_fixed_value ''schema_version'' (nat_text received)
       (nat_text FEATURE_CONVEYOR_OWNER_CONTROL_SCHEMA_VERSION)"

lemma validate_schema_version_Inr [result_simps]:
  "validate_schema_version n = Inr u \<longleftrightarrow> n = 1"
proof -
  have one: "nat_text 1 = ''1''" by (simp add: nat_text_1)
  show ?thesis
    unfolding validate_schema_version_def validate_fixed_value_def
      FEATURE_CONVEYOR_OWNER_CONTROL_SCHEMA_VERSION_def one
    by (simp add: reject_if_Inr_iff nat_text_1)
qed

section \<open>Edit operations\<close>

definition operation_path :: "edit_operation \<Rightarrow> string" where
  "operation_path op = (case op of WriteOp a \<Rightarrow> wr_path a | DeleteOp a \<Rightarrow> del_path a)"

definition validate_write_arguments :: "codec \<Rightarrow> write_arguments \<Rightarrow> unit validated" where
  "validate_write_arguments cx a =
     (let bad = InvalidFeatureConveyorOwnerControl in
      bindE (validate_local_coding_relative_path (wr_path a)) (\<lambda>_.
      bindE (reject_if bad (wr_expected_before_sha256 a = Some 0)) (\<lambda>_.
      bindE (ok_or bad (decode_lower_hex (wr_replacement_hex a))) (\<lambda>replacement.
      reject_if bad
        (length replacement > MAX_LOCAL_CODING_EDIT_CONTENT_BYTES
         \<or> wr_replacement_sha256 a \<noteq> sha256 cx replacement)))))"

definition replacement_bytes :: "codec \<Rightarrow> write_arguments \<Rightarrow> string validated" where
  "replacement_bytes cx a =
     bindE (validate_write_arguments cx a) (\<lambda>_.
     ok_or InvalidFeatureConveyorOwnerControl (decode_lower_hex (wr_replacement_hex a)))"

definition validate_delete_arguments :: "delete_arguments \<Rightarrow> unit validated" where
  "validate_delete_arguments a =
     bindE (validate_local_coding_relative_path (del_path a)) (\<lambda>_.
     reject_if InvalidFeatureConveyorOwnerControl (del_expected_before_sha256 a = 0))"

definition validate_operation :: "codec \<Rightarrow> edit_operation \<Rightarrow> unit validated" where
  "validate_operation cx op =
     (case op of WriteOp a \<Rightarrow> validate_write_arguments cx a
               | DeleteOp a \<Rightarrow> validate_delete_arguments a)"

definition operation_bytes :: "edit_operation \<Rightarrow> nat" where
  "operation_bytes op =
     (case op of WriteOp a \<Rightarrow> length (wr_replacement_hex a) div 2 | DeleteOp a \<Rightarrow> 0)"

section \<open>Work packets\<close>

definition check_allowed_path ::
    "string \<Rightarrow> string option \<times> string list \<Rightarrow> (string option \<times> string list) validated" where
  "check_allowed_path path st =
     (case st of (prior_path, allowed) \<Rightarrow>
      bindE (validate_local_coding_relative_path path) (\<lambda>_.
      bindE (reject_if InvalidFeatureConveyorOwnerControl
        ((case prior_path of None \<Rightarrow> False | Some prior \<Rightarrow> prior \<ge> path) \<or> path \<in> set allowed)) (\<lambda>_.
      Inr (Some path, path # allowed))))"

definition check_operation ::
    "codec \<Rightarrow> string list \<Rightarrow> edit_operation \<Rightarrow> string list \<times> nat \<Rightarrow> (string list \<times> nat) validated" where
  "check_operation cx allowed op st =
     (case st of (operated, bytes) \<Rightarrow>
      bindE (validate_operation cx op) (\<lambda>_.
      bindE (reject_if InvalidFeatureConveyorOwnerControl
        (operation_path op \<notin> set allowed \<or> operation_path op \<in> set operated)) (\<lambda>_.
      Inr (operation_path op # operated, bytes + operation_bytes op))))"

definition validate_work_packet :: "codec \<Rightarrow> work_packet \<Rightarrow> unit validated" where
  "validate_work_packet cx p =
     (let bad = InvalidFeatureConveyorOwnerControl in
      bindE (validate_uuid ''packet_id'' (wp_packet_id p)) (\<lambda>_.
      bindE (reject_if bad
        (wp_ordinal p = 0
         \<or> wp_acceptance_criteria_count p = 0
         \<or> wp_allowed_paths p = []
         \<or> length (wp_allowed_paths p) > MAX_LOCAL_CODING_EDIT_PATHS
         \<or> wp_operations p = []
         \<or> length (wp_operations p) > MAX_LOCAL_CODING_EDIT_OPERATIONS)) (\<lambda>_.
      bindE (forE check_allowed_path (wp_allowed_paths p) (None, [])) (\<lambda>(_, allowed).
      bindE (forE (check_operation cx allowed) (wp_operations p) ([], 0)) (\<lambda>(operated, bytes).
      bindE (reject_if bad
        (length operated \<noteq> length allowed \<or> bytes > MAX_LOCAL_CODING_EDIT_CONTENT_BYTES)) (\<lambda>_.
      validate_wire_limit cx ''feature_conveyor_coding_work_packet'' (WPacket p)
        MAX_LOCAL_CODING_CONTEXT_BYTES))))))"

lemma check_allowed_path_Inr [result_simps]:
  "check_allowed_path path (prior, allowed) = Inr st \<longleftrightarrow>
     validate_local_coding_relative_path path = Inr () \<and> path \<notin> set allowed
     \<and> (\<forall>q. prior = Some q \<longrightarrow> q < path) \<and> st = (Some path, path # allowed)"
  by (auto simp: check_allowed_path_def result_simps split: option.splits)

lemma check_operation_Inr [result_simps]:
  "check_operation cx allowed op (operated, b) = Inr st \<longleftrightarrow>
     validate_operation cx op = Inr () \<and> operation_path op \<in> set allowed - set operated
     \<and> st = (operation_path op # operated, b + operation_bytes op)"
  by (auto simp: check_operation_def result_simps)

lemma check_allowed_paths_Inr:
  "forE check_allowed_path paths (prior, allowed) = Inr (prior', allowed') \<Longrightarrow>
     allowed' = rev paths @ allowed
     \<and> sorted_wrt (<) paths
     \<and> (\<forall>q. prior = Some q \<longrightarrow> (\<forall>p \<in> set paths. q < p))
     \<and> (\<forall>p \<in> set paths. validate_local_coding_relative_path p = Inr ())"
proof (induction paths arbitrary: prior allowed)
  case Nil
  then show ?case by simp
next
  case (Cons path paths)
  then have ok: "validate_local_coding_relative_path path = Inr ()"
    and ord: "\<forall>q. prior = Some q \<longrightarrow> q < path"
    and rest: "forE check_allowed_path paths (Some path, path # allowed) = Inr (prior', allowed')"
    by (auto simp: result_simps)
  from Cons.IH [OF rest] show ?case using ok ord by auto
qed

lemma check_operations_Inr:
  "forE (check_operation cx allowed) ops (operated, b) = Inr (operated', b') \<Longrightarrow>
     operated' = rev (map operation_path ops) @ operated
     \<and> b' = b + sum_list (map operation_bytes ops)
     \<and> distinct (map operation_path ops)
     \<and> set (map operation_path ops) \<subseteq> set allowed - set operated
     \<and> (\<forall>op \<in> set ops. validate_operation cx op = Inr ())"
proof (induction ops arbitrary: operated b)
  case Nil
  then show ?case by simp
next
  case (Cons op ops)
  then have ok: "validate_operation cx op = Inr ()"
    and mem: "operation_path op \<in> set allowed - set operated"
    and rest: "forE (check_operation cx allowed) ops
        (operation_path op # operated, b + operation_bytes op) = Inr (operated', b')"
    by (auto simp: result_simps)
  from Cons.IH [OF rest] show ?case using ok mem by auto
qed

lemma validate_work_packet_Inr:
  assumes "validate_work_packet cx p = Inr ()"
  shows "wp_packet_id p \<noteq> 0" "0 < wp_ordinal p"
    "wp_allowed_paths p \<noteq> []" "length (wp_allowed_paths p) \<le> 64"
    "sorted_wrt (<) (wp_allowed_paths p)"
    "\<forall>q \<in> set (wp_allowed_paths p). validate_local_coding_relative_path q = Inr ()"
    "distinct (map operation_path (wp_operations p))"
    "set (map operation_path (wp_operations p)) \<subseteq> set (wp_allowed_paths p)"
    "length (wp_operations p) = length (wp_allowed_paths p)"
    "sum_list (map operation_bytes (wp_operations p)) \<le> 4096"
    "\<forall>op \<in> set (wp_operations p). validate_operation cx op = Inr ()"
proof -
  from assms obtain prior allowed operated bytes where
    a: "forE check_allowed_path (wp_allowed_paths p) (None, []) = Inr (prior, allowed)"
    and o: "forE (check_operation cx allowed) (wp_operations p) ([], 0) = Inr (operated, bytes)"
    and c: "length operated = length allowed" "bytes \<le> 4096"
    and r: "wp_packet_id p \<noteq> 0" "0 < wp_ordinal p" "wp_allowed_paths p \<noteq> []"
      "length (wp_allowed_paths p) \<le> 64"
    by (auto simp: validate_work_packet_def Let_def result_simps not_less
        MAX_LOCAL_CODING_EDIT_CONTENT_BYTES_def MAX_LOCAL_CODING_EDIT_PATHS_def)
  note A = check_allowed_paths_Inr [OF a] and O = check_operations_Inr [OF o]
  from A O c r show "wp_packet_id p \<noteq> 0" "0 < wp_ordinal p" "wp_allowed_paths p \<noteq> []"
    "length (wp_allowed_paths p) \<le> 64" "sorted_wrt (<) (wp_allowed_paths p)"
    "\<forall>q \<in> set (wp_allowed_paths p). validate_local_coding_relative_path q = Inr ()"
    "distinct (map operation_path (wp_operations p))"
    "set (map operation_path (wp_operations p)) \<subseteq> set (wp_allowed_paths p)"
    "length (wp_operations p) = length (wp_allowed_paths p)"
    "sum_list (map operation_bytes (wp_operations p)) \<le> 4096"
    "\<forall>op \<in> set (wp_operations p). validate_operation cx op = Inr ()"
    by auto
qed

text \<open>
  An accepted work packet covers its allowed paths exactly: its operations, one per path, are a
  permutation of the allowed paths; the paths are strictly increasing, at most 64, and each is a
  safe relative path; and the file contents the packet writes, decoded, are at most 4096 bytes
  together and have the digests the packet declares.
\<close>

theorem work_packet_covers_its_paths:
  assumes "validate_work_packet cx p = Inr ()"
  shows "mset (map operation_path (wp_operations p)) = mset (wp_allowed_paths p)
    \<and> sorted_wrt (<) (wp_allowed_paths p)
    \<and> length (wp_allowed_paths p) \<le> 64
    \<and> list_all (\<lambda>q. validate_local_coding_relative_path q = Inr ()) (wp_allowed_paths p)
    \<and> sum_list (map operation_bytes (wp_operations p)) \<le> 4096
    \<and> list_all (\<lambda>op. case op of DeleteOp a \<Rightarrow> del_expected_before_sha256 a \<noteq> 0
         | WriteOp a \<Rightarrow> (\<exists>s. wr_replacement_hex a = hex_lower s
             \<and> length s = operation_bytes op \<and> wr_replacement_sha256 a = sha256 cx s))
         (wp_operations p)"
proof -
  note v = validate_work_packet_Inr [OF assms]
  have d: "distinct (wp_allowed_paths p)" using v(5) by (simp add: strict_sorted_iff)
  have "card (set (wp_allowed_paths p)) = card (set (map operation_path (wp_operations p)))"
    using v(7,9) d by (metis distinct_card length_map)
  with v(8) have "set (map operation_path (wp_operations p)) = set (wp_allowed_paths p)"
    by (metis List.finite_set card_subset_eq)
  with v(7) d have "mset (map operation_path (wp_operations p)) = mset (wp_allowed_paths p)"
    by (metis set_eq_iff_mset_eq_distinct)
  moreover have "list_all (\<lambda>op. case op of DeleteOp a \<Rightarrow> del_expected_before_sha256 a \<noteq> 0
         | WriteOp a \<Rightarrow> (\<exists>s. wr_replacement_hex a = hex_lower s
             \<and> length s = operation_bytes op \<and> wr_replacement_sha256 a = sha256 cx s))
         (wp_operations p)"
    unfolding list_all_iff
  proof
    fix op assume "op \<in> set (wp_operations p)"
    with v(11) have "validate_operation cx op = Inr ()" by blast
    then show "case op of DeleteOp a \<Rightarrow> del_expected_before_sha256 a \<noteq> 0
         | WriteOp a \<Rightarrow> (\<exists>s. wr_replacement_hex a = hex_lower s
             \<and> length s = operation_bytes op \<and> wr_replacement_sha256 a = sha256 cx s)"
      by (auto simp: validate_operation_def validate_write_arguments_def Let_def result_simps
          validate_delete_arguments_def lower_hex_text operation_bytes_def hex_lower_shape
          split: edit_operation.splits)
  qed
  ultimately show ?thesis using v by (simp add: list_all_iff)
qed

definition sample_packet :: work_packet where
  "sample_packet =
     \<lparr>wp_packet_id = 7, wp_ordinal = 1, wp_acceptance_criteria_count = 1,
      wp_allowed_paths = [''a.txt'', ''b/c.rs''],
      wp_operations =
        [DeleteOp \<lparr>del_path = ''b/c.rs'', del_expected_before_sha256 = 5\<rparr>,
         WriteOp \<lparr>wr_path = ''a.txt'', wr_expected_before_sha256 = None,
           wr_replacement_sha256 = 210, wr_replacement_hex = ''6869'', wr_executable = False\<rparr>]\<rparr>"

theorem work_packet_covers_its_paths_witness:
  "mset (map operation_path (wp_operations sample_packet)) = mset [''a.txt'', ''b/c.rs'']"
proof -
  have "validate_work_packet sample_codec sample_packet = Inr ()" by code_simp
  from work_packet_covers_its_paths [OF this] show ?thesis
    by (simp add: sample_packet_def)
qed

section \<open>Digests of a packet\<close>

text \<open>\<^verbatim>\<open>serde_json::to_value\<close> of a packet and of the patch document built from it.\<close>

definition digest_json :: "digest \<Rightarrow> json" where
  "digest_json d = JArray (map (\<lambda>b. JNumber (nat_text (byte_of b))) (digest_bytes d))"

definition operation_json :: "edit_operation \<Rightarrow> json" where
  "operation_json op =
     (case op of
        WriteOp a \<Rightarrow> JObject
          [(''tool_id'', JString ''file.write.v1''),
           (''arguments'', JObject
             [(''path'', JString (wr_path a)),
              (''expected_before_sha256'',
                 case wr_expected_before_sha256 a of None \<Rightarrow> JNull | Some d \<Rightarrow> digest_json d),
              (''replacement_sha256'', digest_json (wr_replacement_sha256 a)),
              (''replacement_hex'', JString (wr_replacement_hex a)),
              (''executable'', JBool (wr_executable a))])]
      | DeleteOp a \<Rightarrow> JObject
          [(''tool_id'', JString ''file.delete.v1''),
           (''arguments'', JObject
             [(''path'', JString (del_path a)),
              (''expected_before_sha256'', digest_json (del_expected_before_sha256 a))])])"

definition packet_json :: "codec \<Rightarrow> work_packet \<Rightarrow> json" where
  "packet_json cx p = JObject
     [(''packet_id'', JString (uuid_text cx (wp_packet_id p))),
      (''ordinal'', JNumber (nat_text (wp_ordinal p))),
      (''acceptance_criteria_count'', JNumber (nat_text (wp_acceptance_criteria_count p))),
      (''allowed_paths'', JArray (map JString (wp_allowed_paths p))),
      (''operations'', JArray (map operation_json (wp_operations p)))]"

definition canonical_sha256 :: "codec \<Rightarrow> work_packet \<Rightarrow> digest validated" where
  "canonical_sha256 cx p =
     bindE (validate_work_packet cx p) (\<lambda>_.
     Inr (sha256 cx (canonical_json_bytes (quote_json cx) (packet_json cx p))))"

text \<open>\<^verbatim>\<open>paths.len() as u16\<close> truncates.\<close>

definition coding_paths_transcript :: "string list \<Rightarrow> string" where
  "coding_paths_transcript paths =
     ''assemblywright.local-coding-allowed-paths.v2'' @ [CHR 0x00]
     @ be_bytes 2 (length paths mod 65536) @ prefixed_list paths"

definition local_coding_paths_sha256 :: "codec \<Rightarrow> string list \<Rightarrow> digest" where
  "local_coding_paths_sha256 cx paths = sha256 cx (coding_paths_transcript paths)"

definition allowed_paths_sha256 :: "codec \<Rightarrow> work_packet \<Rightarrow> digest validated" where
  "allowed_paths_sha256 cx p =
     bindE (validate_work_packet cx p) (\<lambda>_.
     Inr (local_coding_paths_sha256 cx (wp_allowed_paths p)))"

section \<open>Dispatch requests\<close>

definition validate_dispatch_request :: "codec \<Rightarrow> coding_dispatch_request \<Rightarrow> unit validated" where
  "validate_dispatch_request cx r =
     bindE (validate_schema_version (cd_schema_version r)) (\<lambda>_.
     bindE (validate_uuid ''feature_id'' (cd_feature_id r)) (\<lambda>_.
     bindE (validate_uuid ''feature_lease_id'' (cd_feature_lease_id r)) (\<lambda>_.
     bindE (validate_uuid ''snapshot_id'' (cd_snapshot_id r)) (\<lambda>_.
     bindE (validate_uuid ''device_id'' (cd_device_id r)) (\<lambda>_.
     bindE (validate_positive_limit ''specification_revision'' (cd_specification_revision r)
              u64_max) (\<lambda>_.
     bindE (validate_positive_limit ''expected_lifecycle_revision''
              (cd_expected_lifecycle_revision r) u64_max) (\<lambda>_.
     bindE (validate_positive_limit ''device_registry_revision''
              (cd_device_registry_revision r) u64_max) (\<lambda>_.
     bindE (validate_work_packet cx (cd_work_packet r)) (\<lambda>_.
     bindE (reject_if InvalidFeatureConveyorOwnerControl
       (cd_snapshot_sha256 r = 0 \<or> cd_work_packet_sha256 r = 0)) (\<lambda>_.
     bindE (canonical_sha256 cx (cd_work_packet r)) (\<lambda>digest.
     bindE (reject_if InvalidFeatureConveyorOwnerControl (digest \<noteq> cd_work_packet_sha256 r)) (\<lambda>_.
     validate_wire_limit cx ''feature_conveyor_coding_dispatch_request'' (WDispatch r)
       MAX_FEATURE_CONVEYOR_CODING_DISPATCH_REQUEST_BYTES))))))))))))"

definition owner_request_of :: "coding_request \<Rightarrow> coding_dispatch_request" where
  "owner_request_of r =
     \<lparr>cd_schema_version = FEATURE_CONVEYOR_OWNER_CONTROL_SCHEMA_VERSION,
      cd_feature_id = cr_feature_id r,
      cd_specification_revision = cr_specification_revision r,
      cd_expected_lifecycle_revision = cr_lifecycle_revision r,
      cd_feature_lease_id = cr_feature_lease_id r,
      cd_snapshot_id = cr_snapshot_id r,
      cd_snapshot_sha256 = cr_snapshot_sha256 r,
      cd_work_packet_sha256 = cr_work_packet_sha256 r,
      cd_work_packet = cr_work_packet r,
      cd_device_id = cr_device_id r,
      cd_device_registry_revision = cr_device_registry_revision r,
      cd_expected_queue_revision = cr_queue_revision r,
      cd_expected_emergency_pause_revision = cr_emergency_pause_revision r\<rparr>"

definition validate_coding_request :: "codec \<Rightarrow> coding_request \<Rightarrow> unit validated" where
  "validate_coding_request cx r = validate_dispatch_request cx (owner_request_of r)"

lemma validate_dispatch_request_Inr:
  "validate_dispatch_request cx r = Inr () \<Longrightarrow>
     validate_work_packet cx (cd_work_packet r) = Inr ()
     \<and> canonical_sha256 cx (cd_work_packet r) = Inr (cd_work_packet_sha256 r)
     \<and> cd_device_id r \<noteq> 0 \<and> cd_feature_id r \<noteq> 0 \<and> cd_snapshot_id r \<noteq> 0"
  by (auto simp: validate_dispatch_request_def result_simps)

text \<open>
  The digest of a packet's allowed paths is taken over an injective transcript: up to 65,535
  paths, two path lists with the same transcript are the same list, so no separator inside a path
  can make two different path lists hash alike.
\<close>

theorem coding_paths_transcript_injective:
  assumes "length ps < 65536" "length qs < 65536"
    and "\<forall>s \<in> set ps \<union> set qs. length s \<le> u64_max"
  shows "coding_paths_transcript ps = coding_paths_transcript qs \<longleftrightarrow> ps = qs"
proof
  assume "coding_paths_transcript ps = coding_paths_transcript qs"
  then have "be_bytes 2 (length ps) = be_bytes 2 (length qs)"
    and *: "prefixed_list ps = prefixed_list qs"
    using assms by (simp_all add: coding_paths_transcript_def append_eq_append_conv
        del: be_bytes.simps)
  then have "length ps = length qs" using assms by (simp add: be_bytes_inject del: be_bytes.simps)
  moreover have "length s < 256 ^ 8" if "s \<in> set ps \<union> set qs" for s
    using bspec [OF assms(3) that] by (simp add: u64_max_def)
  ultimately show "ps = qs" using * by (simp add: prefixed_list_inject)
qed simp

theorem coding_paths_transcript_injective_witness:
  "coding_paths_transcript [''a'', ''b''] \<noteq> coding_paths_transcript [''a/b'']"
proof -
  have "length [''a'', ''b''] < 65536" "length [''a/b''] < 65536"
    "\<forall>s \<in> set [''a'', ''b''] \<union> set [''a/b'']. length s \<le> u64_max"
    by (simp_all add: u64_max_def)
  from coding_paths_transcript_injective [OF this] show ?thesis by simp
qed

end
