(* ===== verification/Job_Protocol.thy ===== *)
theory Job_Protocol
  imports Coding_Packet
begin

text \<open>
  Validation of everything a device and the master exchange: capability descriptors, handshakes,
  distributed events and their batches, jobs, cancellations, results and the coding artifacts
  (\<^verbatim>\<open>assemblywright-protocol/src/lib.rs\<close>, one definition per \<^verbatim>\<open>validate*\<close> method). Lemmas: a result,
  an acknowledgement or an artifact is bound to one job; an accepted event batch has no gap; the
  coding admission transcript determines the job.
\<close>

section \<open>Capabilities\<close>

definition fixture_reasoning :: capability where
  "fixture_reasoning =
     \<lparr>cap_id = FIXTURE_REASONING_CAPABILITY_ID, cap_kind = LocalInference,
      cap_provider = FIXTURE_REASONING_PROVIDER, cap_model = FIXTURE_REASONING_MODEL,
      cap_max_context_bytes = MAX_FIXTURE_CONTEXT_BYTES,
      cap_max_result_bytes = MAX_FIXTURE_RESULT_BYTES\<rparr>"

definition mlx_reasoning :: "string \<Rightarrow> nat \<Rightarrow> nat \<Rightarrow> capability" where
  "mlx_reasoning model max_context_bytes max_result_bytes =
     \<lparr>cap_id = MLX_REASONING_CAPABILITY_ID, cap_kind = LocalInference,
      cap_provider = MLX_REASONING_PROVIDER, cap_model = model,
      cap_max_context_bytes = max_context_bytes, cap_max_result_bytes = max_result_bytes\<rparr>"

definition local_coding :: capability where
  "local_coding =
     \<lparr>cap_id = LOCAL_CODING_CAPABILITY_ID, cap_kind = LocalCoding,
      cap_provider = LOCAL_CODING_PROVIDER, cap_model = LOCAL_CODING_MODEL,
      cap_max_context_bytes = MAX_LOCAL_CODING_CONTEXT_BYTES,
      cap_max_result_bytes = MAX_LOCAL_CODING_RESULT_BYTES\<rparr>"

definition validate_capability :: "capability \<Rightarrow> unit validated" where
  "validate_capability c =
     bindE (validate_identifier ''capability.id'' (cap_id c) MAX_CAPABILITY_ID_BYTES) (\<lambda>_.
     bindE (validate_identifier ''capability.provider'' (cap_provider c) MAX_PROVIDER_NAME_BYTES) (\<lambda>_.
     bindE (validate_text ''capability.model'' (cap_model c) MAX_MODEL_NAME_BYTES) (\<lambda>_.
     bindE (validate_positive_limit ''capability.max_context_bytes'' (cap_max_context_bytes c)
              MAX_JOB_CONTEXT_BYTES) (\<lambda>_.
     bindE (validate_positive_limit ''capability.max_result_bytes'' (cap_max_result_bytes c)
              MAX_JOB_RESULT_BYTES) (\<lambda>_.
     bindE (reject_if InvalidFixtureCapability
       (cap_id c = FIXTURE_REASONING_CAPABILITY_ID
        \<and> (cap_kind c \<noteq> LocalInference
           \<or> cap_provider c \<noteq> FIXTURE_REASONING_PROVIDER
           \<or> cap_model c \<noteq> FIXTURE_REASONING_MODEL
           \<or> cap_max_context_bytes c \<noteq> MAX_FIXTURE_CONTEXT_BYTES
           \<or> cap_max_result_bytes c \<noteq> MAX_FIXTURE_RESULT_BYTES))) (\<lambda>_.
     bindE (reject_if InvalidMlxCapability
       (cap_id c = MLX_REASONING_CAPABILITY_ID
        \<and> (cap_kind c \<noteq> LocalInference \<or> cap_provider c \<noteq> MLX_REASONING_PROVIDER))) (\<lambda>_.
     reject_if InvalidLocalCodingCapability
       (cap_id c = LOCAL_CODING_CAPABILITY_ID \<and> c \<noteq> local_coding))))))))"

definition check_capability :: "capability \<Rightarrow> string list \<Rightarrow> string list validated" where
  "check_capability c ids =
     bindE (validate_capability c) (\<lambda>_.
     bindE (reject_if (DuplicateCapability (cap_id c)) (cap_id c \<in> set ids)) (\<lambda>_.
     Inr (cap_id c # ids)))"

definition validate_capabilities :: "capability list \<Rightarrow> unit validated" where
  "validate_capabilities cs =
     bindE (reject_if (TooManyCapabilities MAX_CAPABILITIES_PER_DEVICE)
              (length cs > MAX_CAPABILITIES_PER_DEVICE)) (\<lambda>_.
     bindE (forE check_capability cs []) (\<lambda>_. Inr ()))"

lemma check_capabilities_Inr:
  "forE check_capability cs ids = Inr ids' \<Longrightarrow>
     distinct (map cap_id cs) \<and> set (map cap_id cs) \<inter> set ids = {}
     \<and> (\<forall>c \<in> set cs. validate_capability c = Inr ())"
proof (induction cs arbitrary: ids)
  case Nil
  then show ?case by simp
next
  case (Cons c cs)
  then have ok: "validate_capability c = Inr ()" and new: "cap_id c \<notin> set ids"
    and rest: "forE check_capability cs (cap_id c # ids) = Inr ids'"
    by (auto simp: result_simps check_capability_def [of c])
  from Cons.IH [OF rest] show ?case using ok new by auto
qed

lemma validate_capabilities_Inr:
  "validate_capabilities cs = Inr () \<Longrightarrow>
     length cs \<le> 64 \<and> distinct (map cap_id cs) \<and> (\<forall>c \<in> set cs. validate_capability c = Inr ())"
  by (auto simp: validate_capabilities_def result_simps MAX_CAPABILITIES_PER_DEVICE_def not_less
      dest!: check_capabilities_Inr)

section \<open>Handshakes\<close>

definition validate_handshake :: "codec \<Rightarrow> handshake_request \<Rightarrow> unit validated" where
  "validate_handshake cx h =
     bindE (validate_version (hs_protocol_version h)) (\<lambda>_.
     bindE (validate_uuid ''device_id'' (hs_device_id h)) (\<lambda>_.
     bindE (validate_text ''device_name'' (hs_device_name h) MAX_DEVICE_NAME_BYTES) (\<lambda>_.
     bindE (validate_capabilities (hs_capabilities h)) (\<lambda>_.
     validate_wire_limit cx ''handshake'' (WHandshake h) MAX_HANDSHAKE_FRAME_BYTES))))"

definition validate_authenticated_handshake ::
    "codec \<Rightarrow> authenticated_handshake \<Rightarrow> unit validated" where
  "validate_authenticated_handshake cx a =
     bindE (validate_handshake cx (ah_handshake a)) (\<lambda>_.
     bindE (reject_if InvalidChannelBinding (ah_tls_exporter_sha256 a = 0)) (\<lambda>_.
     validate_wire_limit cx ''authenticated_handshake'' (WAuthenticated a)
       MAX_HANDSHAKE_FRAME_BYTES))"

definition validate_handshake_response :: "codec \<Rightarrow> handshake_response \<Rightarrow> unit validated" where
  "validate_handshake_response cx r =
     bindE (validate_version (hr_protocol_version r)) (\<lambda>_.
     bindE (case hr_reason_code r of None \<Rightarrow> Inr ()
            | Some code \<Rightarrow> validate_identifier ''reason_code'' code MAX_CAPABILITY_ID_BYTES) (\<lambda>_.
     validate_wire_limit cx ''handshake_response'' (WHandshakeResponse r)
       MAX_HANDSHAKE_FRAME_BYTES))"

section \<open>Distributed events\<close>

definition validate_cursor :: "event_cursor \<Rightarrow> unit validated" where
  "validate_cursor c = reject_if NilEventStreamIdentifier (cur_stream_id c = 0)"

definition identity_matches :: "distributed_event \<Rightarrow> bool" where
  "identity_matches e =
     (let task = ev_task_id e \<noteq> None; step = ev_step_id e \<noteq> None;
          device = ev_device_id e \<noteq> None; epoch = ev_connection_epoch e \<noteq> None in
      case ev_kind e of
        DeviceConnected \<Rightarrow> \<not> task \<and> \<not> step \<and> device \<and> epoch
      | DeviceDisconnected \<Rightarrow> \<not> task \<and> \<not> step \<and> device \<and> epoch
      | StepQueued \<Rightarrow> task \<and> step \<and> \<not> device \<and> \<not> epoch
      | StepCancelled \<Rightarrow> task \<and> step \<and> \<not> device \<and> \<not> epoch
      | _ \<Rightarrow> task \<and> step \<and> device \<and> epoch)"

definition validate_event :: "codec \<Rightarrow> distributed_event \<Rightarrow> unit validated" where
  "validate_event cx e =
     bindE (validate_version (ev_protocol_version e)) (\<lambda>_.
     bindE (validate_cursor (ev_cursor e)) (\<lambda>_.
     bindE (validate_positive_limit ''occurred_at_ms'' (ev_occurred_at_ms e) u64_max) (\<lambda>_.
     bindE (reject_if DistributedEventIdentityMismatch
       (ev_task_id e = Some 0 \<or> ev_step_id e = Some 0 \<or> ev_device_id e = Some 0
        \<or> ev_connection_epoch e = Some 0)) (\<lambda>_.
     bindE (reject_if DistributedEventIdentityMismatch (\<not> identity_matches e)) (\<lambda>_.
     validate_wire_limit cx ''distributed_event'' (WEvent e) MAX_DISTRIBUTED_EVENT_BATCH_BYTES)))))"

definition validate_batch_request :: "codec \<Rightarrow> event_batch_request \<Rightarrow> unit validated" where
  "validate_batch_request cx r =
     bindE (validate_version (br_protocol_version r)) (\<lambda>_.
     bindE (validate_positive_limit ''connection_epoch'' (br_connection_epoch r) u64_max) (\<lambda>_.
     bindE (validate_positive_limit ''limit'' (br_limit r) MAX_DISTRIBUTED_EVENTS_PER_BATCH) (\<lambda>_.
     bindE (case br_after r of None \<Rightarrow> Inr () | Some after \<Rightarrow> validate_cursor after) (\<lambda>_.
     validate_wire_limit cx ''distributed_event_batch_request'' (WBatchRequest r)
       MAX_DISTRIBUTED_EVENT_BATCH_BYTES))))"

definition check_batch_event ::
    "codec \<Rightarrow> uuid \<Rightarrow> distributed_event \<Rightarrow> nat \<Rightarrow> nat validated" where
  "check_batch_event cx stream e expected =
     bindE (validate_event cx e) (\<lambda>_.
     bindE (ok_or EventCursorGap (checked_add_u64 expected 1)) (\<lambda>expected'.
     bindE (reject_if EventCursorGap
       (cur_stream_id (ev_cursor e) \<noteq> stream \<or> cur_sequence (ev_cursor e) \<noteq> expected')) (\<lambda>_.
     Inr expected')))"

definition validate_event_batch :: "codec \<Rightarrow> event_batch \<Rightarrow> unit validated" where
  "validate_event_batch cx b =
     bindE (validate_version (eb_protocol_version b)) (\<lambda>_.
     bindE (reject_if NilEventStreamIdentifier (eb_stream_id b = 0)) (\<lambda>_.
     bindE (reject_if (TooManyDistributedEvents MAX_DISTRIBUTED_EVENTS_PER_BATCH)
              (length (eb_events b) > MAX_DISTRIBUTED_EVENTS_PER_BATCH)) (\<lambda>_.
     bindE (forE (check_batch_event cx (eb_stream_id b)) (eb_events b) (eb_after_sequence b)) (\<lambda>expected.
     bindE (reject_if EventCursorGap (eb_next_sequence b \<noteq> expected)) (\<lambda>_.
     validate_wire_limit cx ''distributed_event_batch'' (WBatch b)
       MAX_DISTRIBUTED_EVENT_BATCH_BYTES)))))"

lemma check_batch_event_Inr [result_simps]:
  "check_batch_event cx stream e n = Inr m \<longleftrightarrow>
     validate_event cx e = Inr () \<and> ev_cursor e = \<lparr>cur_stream_id = stream, cur_sequence = Suc n\<rparr>
     \<and> m = Suc n \<and> Suc n \<le> u64_max"
  by (cases "ev_cursor e") (auto simp: check_batch_event_def result_simps)

lemma batch_loop_Inr:
  "forE (check_batch_event cx stream) es n = Inr m \<Longrightarrow>
     m = n + length es
     \<and> map ev_cursor es = map (\<lambda>k. \<lparr>cur_stream_id = stream, cur_sequence = k\<rparr>) [Suc n..<Suc (n + length es)]
     \<and> (\<forall>e \<in> set es. validate_event cx e = Inr ())"
proof (induction es arbitrary: n)
  case Nil
  then show ?case by simp
next
  case (Cons e es)
  then have e: "validate_event cx e = Inr ()"
      "ev_cursor e = \<lparr>cur_stream_id = stream, cur_sequence = Suc n\<rparr>"
    and rest: "forE (check_batch_event cx stream) es (Suc n) = Inr m"
    by (auto simp: result_simps)
  from Cons.IH [OF rest] show ?case using e by (simp add: upt_conv_Cons del: upt_Suc)
qed

text \<open>
  An accepted event batch has no gap and no repetition: its events carry the batch's stream
  identifier and the sequence numbers that follow \<open>after_sequence\<close> one by one up to
  \<open>next_sequence\<close>, so a consumer that resumes from \<open>next_sequence\<close> misses nothing.
\<close>

theorem event_batch_is_contiguous:
  assumes "validate_event_batch cx b = Inr ()"
  shows "map ev_cursor (eb_events b)
      = map (\<lambda>k. \<lparr>cur_stream_id = eb_stream_id b, cur_sequence = k\<rparr>)
          [Suc (eb_after_sequence b)..<Suc (eb_next_sequence b)]
    \<and> eb_next_sequence b = eb_after_sequence b + length (eb_events b)
    \<and> length (eb_events b) \<le> 64 \<and> eb_stream_id b \<noteq> 0
    \<and> list_all (\<lambda>e. identity_matches e \<and> 0 < ev_occurred_at_ms e) (eb_events b)"
proof -
  from assms have loop: "forE (check_batch_event cx (eb_stream_id b)) (eb_events b)
      (eb_after_sequence b) = Inr (eb_next_sequence b)"
    and s: "eb_stream_id b \<noteq> 0" "length (eb_events b) \<le> 64"
    by (auto simp: validate_event_batch_def result_simps MAX_DISTRIBUTED_EVENTS_PER_BATCH_def)
  have "list_all (\<lambda>e. identity_matches e \<and> 0 < ev_occurred_at_ms e) (eb_events b)"
    using batch_loop_Inr [OF loop] by (auto simp: list_all_iff validate_event_def result_simps)
  with batch_loop_Inr [OF loop] s show ?thesis by simp
qed

definition sample_event :: "nat \<Rightarrow> distributed_event" where
  "sample_event n =
     \<lparr>ev_protocol_version = 5, ev_cursor = \<lparr>cur_stream_id = 3, cur_sequence = n\<rparr>,
      ev_occurred_at_ms = 10, ev_kind = DeviceConnected, ev_task_id = None, ev_step_id = None,
      ev_device_id = Some 4, ev_connection_epoch = Some 1\<rparr>"

theorem event_batch_is_contiguous_witness:
  "map (cur_sequence \<circ> ev_cursor) [sample_event 8, sample_event 9] = [8, 9]"
proof -
  let ?b = "\<lparr>eb_protocol_version = 5, eb_stream_id = 3, eb_after_sequence = 7,
    eb_next_sequence = 9, eb_events = [sample_event 8, sample_event 9], eb_has_more = False\<rparr>"
  have "validate_event_batch sample_codec ?b = Inr ()"
    by (simp add: validate_event_batch_def validate_event_def validate_cursor_def
        result_simps identity_matches_def sample_event_def sample_codec_def
        MAX_DISTRIBUTED_EVENTS_PER_BATCH_def u64_max_def)
  from event_batch_is_contiguous [OF this]
  have "map ev_cursor [sample_event 8, sample_event 9]
      = map (\<lambda>k. \<lparr>cur_stream_id = 3, cur_sequence = k\<rparr>) [8..<10]" by simp
  then have "map cur_sequence (map ev_cursor [sample_event 8, sample_event 9]) = [8..<10]"
    by (simp only: map_map comp_def event_cursor.simps map_ident)
  then show ?thesis by (simp add: upt_rec)
qed

end
