(* ===== verification/Job_Messages.thy ===== *)
theory Job_Messages
  imports Job_Protocol
begin

text \<open>
  Jobs, cancellations and results: \<^verbatim>\<open>JobEnvelope\<close>, \<^verbatim>\<open>CancellationInstruction\<close>,
  \<^verbatim>\<open>CancellationAcknowledgement\<close>, \<^verbatim>\<open>JobResultEnvelope\<close> and the per-capability requests and
  results of \<^verbatim>\<open>assemblywright-protocol/src/lib.rs\<close>. Lemmas: an accepted message names its job
  exactly and carries a later sequence number; the admission transcript determines the job.
\<close>

section \<open>Jobs\<close>

definition validate_job :: "codec \<Rightarrow> job_envelope \<Rightarrow> unit validated" where
  "validate_job cx j =
     bindE (validate_version (job_protocol_version j)) (\<lambda>_.
     bindE (validate_uuid ''task_id'' (job_task_id j)) (\<lambda>_.
     bindE (validate_uuid ''step_id'' (job_step_id j)) (\<lambda>_.
     bindE (validate_uuid ''attempt_id'' (job_attempt_id j)) (\<lambda>_.
     bindE (validate_uuid ''lease_id'' (job_lease_id j)) (\<lambda>_.
     bindE (validate_uuid ''cancellation_id'' (job_cancellation_id j)) (\<lambda>_.
     bindE (validate_identifier ''capability_id'' (job_capability_id j) MAX_CAPABILITY_ID_BYTES) (\<lambda>_.
     bindE (validate_text ''selected_model'' (job_selected_model j) MAX_MODEL_NAME_BYTES) (\<lambda>_.
     bindE (validate_positive_limit ''lease_duration_ms'' (job_lease_duration_ms j)
              MAX_LEASE_DURATION_MS) (\<lambda>_.
     bindE (validate_positive_limit ''deadline_after_ms'' (job_deadline_after_ms j)
              MAX_STEP_DEADLINE_MS) (\<lambda>_.
     bindE (validate_object ''context'' (job_context j)) (\<lambda>_.
     bindE (validate_serialized_limit ''context'' (json_bytes cx (job_context j))
              MAX_JOB_CONTEXT_BYTES) (\<lambda>_.
     bindE (validate_payload_digest ''context_sha256'' (sha256 cx (json_bytes cx (job_context j)))
              (job_context_sha256 j)) (\<lambda>_.
     validate_wire_limit cx ''job'' (WJob j) MAX_WIRE_FRAME_BYTES)))))))))))))"

definition validate_fixture_request :: "fixture_request \<Rightarrow> unit validated" where
  "validate_fixture_request r =
     reject_if InvalidFixtureJob
       (fx_operation r \<noteq> FIXTURE_SYNTHETIC_ECHO_OPERATION
        \<or> length (fx_input r) > MAX_FIXTURE_INPUT_BYTES
        \<or> fx_delay_ms r > MAX_FIXTURE_DELAY_MS)"

definition synthetic_echo :: "string \<Rightarrow> fixture_result" where
  "synthetic_echo input =
     \<lparr>fxr_operation = FIXTURE_SYNTHETIC_ECHO_OPERATION, fxr_output = input, fxr_synthetic = True\<rparr>"

definition validate_mlx_request :: "mlx_request \<Rightarrow> unit validated" where
  "validate_mlx_request r =
     reject_if InvalidMlxJob
       (mlx_operation r \<noteq> MLX_GENERATE_TEXT_OPERATION
        \<or> mlx_prompt r = []
        \<or> length (mlx_prompt r) > MAX_MLX_PROMPT_BYTES
        \<or> mlx_max_tokens r = 0
        \<or> mlx_max_tokens r > MAX_MLX_TOKENS
        \<or> mlx_temperature_milli r > MAX_MLX_TEMPERATURE_MILLI)"

definition validate_fixture_reasoning :: "codec \<Rightarrow> job_envelope \<Rightarrow> fixture_request validated" where
  "validate_fixture_reasoning cx j =
     bindE (validate_job cx j) (\<lambda>_.
     bindE (reject_if InvalidFixtureJob
       (job_capability_id j \<noteq> FIXTURE_REASONING_CAPABILITY_ID
        \<or> job_selected_model j \<noteq> FIXTURE_REASONING_MODEL
        \<or> job_sensitivity j \<noteq> PublicData
        \<or> job_context_handling j \<noteq> EphemeralNoRetention
        \<or> length (json_bytes cx (job_context j)) > MAX_FIXTURE_CONTEXT_BYTES)) (\<lambda>_.
     bindE (ok_or InvalidFixtureJob (decode_fixture_request cx (job_context j))) (\<lambda>request.
     bindE (validate_fixture_request request) (\<lambda>_. Inr request))))"

definition validate_mlx_reasoning :: "codec \<Rightarrow> job_envelope \<Rightarrow> mlx_request validated" where
  "validate_mlx_reasoning cx j =
     bindE (validate_job cx j) (\<lambda>_.
     bindE (reject_if InvalidMlxJob
       (job_capability_id j \<noteq> MLX_REASONING_CAPABILITY_ID
        \<or> job_sensitivity j \<noteq> PublicData
        \<or> job_context_handling j \<noteq> EphemeralNoRetention)) (\<lambda>_.
     bindE (ok_or InvalidMlxJob (decode_mlx_request cx (job_context j))) (\<lambda>request.
     bindE (validate_mlx_request request) (\<lambda>_. Inr request))))"

definition validate_local_coding :: "codec \<Rightarrow> job_envelope \<Rightarrow> coding_request validated" where
  "validate_local_coding cx j =
     bindE (validate_job cx j) (\<lambda>_.
     bindE (reject_if InvalidLocalCodingJob
       (job_capability_id j \<noteq> LOCAL_CODING_CAPABILITY_ID
        \<or> job_selected_model j \<noteq> LOCAL_CODING_MODEL
        \<or> job_sensitivity j \<noteq> Workspace
        \<or> job_context_handling j \<noteq> SealedUntilResolvedOrExpired
        \<or> length (json_bytes cx (job_context j)) > MAX_LOCAL_CODING_CONTEXT_BYTES
        \<or> length (wire_bytes cx (WJob j)) > MAX_LOCAL_CODING_JOB_FRAME_BYTES)) (\<lambda>_.
     bindE (ok_or InvalidLocalCodingJob (decode_coding_request cx (job_context j))) (\<lambda>request.
     bindE (map_err (\<lambda>_. InvalidLocalCodingJob) (validate_coding_request cx request)) (\<lambda>_.
     Inr request))))"

text \<open>The bytes hashed by \<^verbatim>\<open>local_coding_admission_sha256\<close>.\<close>

definition admission_transcript :: "job_envelope \<Rightarrow> string" where
  "admission_transcript j =
     ''assemblywright.local-coding-admission.v1'' @ [CHR 0x00]
     @ be_bytes 2 (job_protocol_version j)
     @ digest_bytes (job_context_sha256 j)
     @ uuid_bytes (job_task_id j)
     @ uuid_bytes (job_step_id j)
     @ uuid_bytes (job_attempt_id j)
     @ uuid_bytes (job_lease_id j)
     @ uuid_bytes (job_cancellation_id j)
     @ be_bytes 8 (job_connection_epoch j)
     @ be_bytes 8 (job_sequence j)
     @ be_bytes 8 (job_lease_duration_ms j)
     @ be_bytes 8 (job_deadline_after_ms j)"

definition local_coding_admission_sha256 :: "codec \<Rightarrow> job_envelope \<Rightarrow> digest" where
  "local_coding_admission_sha256 cx j = sha256 cx (admission_transcript j)"

section \<open>Cancellation\<close>

definition validate_poll_request :: "codec \<Rightarrow> cancellation_poll_request \<Rightarrow> unit validated" where
  "validate_poll_request cx r =
     bindE (validate_version (poll_protocol_version r)) (\<lambda>_.
     bindE (validate_positive_limit ''connection_epoch'' (poll_connection_epoch r) u64_max) (\<lambda>_.
     validate_wire_limit cx ''cancellation_poll_request'' (WPoll r) MAX_WIRE_FRAME_BYTES))"

definition validate_instruction :: "codec \<Rightarrow> cancellation_instruction \<Rightarrow> unit validated" where
  "validate_instruction cx c =
     bindE (validate_version (ci_protocol_version c)) (\<lambda>_.
     bindE (validate_positive_limit ''connection_epoch'' (ci_connection_epoch c) u64_max) (\<lambda>_.
     bindE (validate_positive_limit ''sequence'' (ci_sequence c) u64_max) (\<lambda>_.
     bindE (validate_uuid ''task_id'' (ci_task_id c)) (\<lambda>_.
     bindE (validate_uuid ''step_id'' (ci_step_id c)) (\<lambda>_.
     bindE (validate_uuid ''attempt_id'' (ci_attempt_id c)) (\<lambda>_.
     bindE (validate_uuid ''lease_id'' (ci_lease_id c)) (\<lambda>_.
     bindE (validate_uuid ''cancellation_id'' (ci_cancellation_id c)) (\<lambda>_.
     bindE (validate_positive_limit ''deadline_after_ms'' (ci_deadline_after_ms c)
              CANCELLATION_ACK_DEADLINE_MS) (\<lambda>_.
     validate_wire_limit cx ''cancellation_instruction'' (WInstruction c)
       MAX_WIRE_FRAME_BYTES)))))))))"

definition instruction_for_job ::
    "codec \<Rightarrow> cancellation_instruction \<Rightarrow> job_envelope \<Rightarrow> unit validated" where
  "instruction_for_job cx c j =
     bindE (validate_instruction cx c) (\<lambda>_.
     bindE (validate_job cx j) (\<lambda>_.
     reject_if ResultIdentityMismatch
       (ci_protocol_version c \<noteq> job_protocol_version j
        \<or> ci_connection_epoch c \<noteq> job_connection_epoch j
        \<or> ci_sequence c \<le> job_sequence j
        \<or> ci_task_id c \<noteq> job_task_id j
        \<or> ci_step_id c \<noteq> job_step_id j
        \<or> ci_attempt_id c \<noteq> job_attempt_id j
        \<or> ci_lease_id c \<noteq> job_lease_id j
        \<or> ci_cancellation_id c \<noteq> job_cancellation_id j)))"

definition acknowledgement_for_instruction ::
    "codec \<Rightarrow> cancellation_acknowledgement \<Rightarrow> cancellation_instruction \<Rightarrow> unit validated" where
  "acknowledgement_for_instruction cx a c =
     bindE (validate_instruction cx c) (\<lambda>_.
     bindE (validate_version (ack_protocol_version a)) (\<lambda>_.
     bindE (validate_positive_limit ''sequence'' (ack_sequence a) u64_max) (\<lambda>_.
     bindE (reject_if ResultIdentityMismatch
       (ack_protocol_version a \<noteq> ci_protocol_version c
        \<or> ack_connection_epoch a \<noteq> ci_connection_epoch c
        \<or> ack_sequence a \<le> ci_sequence c
        \<or> ack_task_id a \<noteq> ci_task_id c
        \<or> ack_step_id a \<noteq> ci_step_id c
        \<or> ack_attempt_id a \<noteq> ci_attempt_id c
        \<or> ack_lease_id a \<noteq> ci_lease_id c
        \<or> ack_cancellation_id a \<noteq> ci_cancellation_id c)) (\<lambda>_.
     validate_wire_limit cx ''cancellation_acknowledgement'' (WAcknowledgement a)
       MAX_WIRE_FRAME_BYTES))))"

section \<open>Results\<close>

definition validate_result :: "codec \<Rightarrow> job_result \<Rightarrow> unit validated" where
  "validate_result cx r =
     bindE (validate_version (res_protocol_version r)) (\<lambda>_.
     bindE (validate_uuid ''task_id'' (res_task_id r)) (\<lambda>_.
     bindE (validate_uuid ''step_id'' (res_step_id r)) (\<lambda>_.
     bindE (validate_uuid ''attempt_id'' (res_attempt_id r)) (\<lambda>_.
     bindE (validate_uuid ''lease_id'' (res_lease_id r)) (\<lambda>_.
     bindE (validate_uuid ''cancellation_id'' (res_cancellation_id r)) (\<lambda>_.
     bindE (validate_object ''payload'' (res_payload r)) (\<lambda>_.
     bindE (validate_serialized_limit ''payload'' (json_bytes cx (res_payload r))
              MAX_JOB_RESULT_BYTES) (\<lambda>_.
     bindE (validate_payload_digest ''payload_sha256'' (sha256 cx (json_bytes cx (res_payload r)))
              (res_payload_sha256 r)) (\<lambda>_.
     validate_wire_limit cx ''job_result'' (WResult r) MAX_WIRE_FRAME_BYTES)))))))))"

definition result_for_job :: "codec \<Rightarrow> job_result \<Rightarrow> job_envelope \<Rightarrow> unit validated" where
  "result_for_job cx r j =
     bindE (validate_job cx j) (\<lambda>_.
     bindE (validate_result cx r) (\<lambda>_.
     reject_if ResultIdentityMismatch
       (res_protocol_version r \<noteq> job_protocol_version j
        \<or> res_connection_epoch r \<noteq> job_connection_epoch j
        \<or> res_sequence r \<le> job_sequence j
        \<or> res_task_id r \<noteq> job_task_id j
        \<or> res_step_id r \<noteq> job_step_id j
        \<or> res_attempt_id r \<noteq> job_attempt_id j
        \<or> res_lease_id r \<noteq> job_lease_id j
        \<or> res_cancellation_id r \<noteq> job_cancellation_id j
        \<or> res_context_sha256 r \<noteq> job_context_sha256 j)))"

definition validate_fixture_result :: "codec \<Rightarrow> job_result \<Rightarrow> job_envelope \<Rightarrow> unit validated" where
  "validate_fixture_result cx r j =
     bindE (validate_fixture_reasoning cx j) (\<lambda>request.
     bindE (result_for_job cx r j) (\<lambda>_.
     bindE (reject_if InvalidFixtureJob
       (res_status r \<noteq> ResCompleted
        \<or> length (json_bytes cx (res_payload r)) > MAX_FIXTURE_RESULT_BYTES)) (\<lambda>_.
     bindE (ok_or InvalidFixtureJob (decode_fixture_result cx (res_payload r))) (\<lambda>result.
     reject_if InvalidFixtureJob
       (fxr_operation result \<noteq> FIXTURE_SYNTHETIC_ECHO_OPERATION
        \<or> fxr_output result \<noteq> fx_input request
        \<or> \<not> fxr_synthetic result)))))"

definition validate_mlx_result :: "codec \<Rightarrow> job_result \<Rightarrow> job_envelope \<Rightarrow> unit validated" where
  "validate_mlx_result cx r j =
     bindE (validate_mlx_reasoning cx j) (\<lambda>_.
     bindE (result_for_job cx r j) (\<lambda>_.
     bindE (reject_if InvalidMlxResult (res_status r \<noteq> ResCompleted)) (\<lambda>_.
     bindE (ok_or InvalidMlxResult (decode_mlx_result cx (res_payload r))) (\<lambda>result.
     reject_if InvalidMlxResult
       (mlxr_operation result \<noteq> MLX_GENERATE_TEXT_OPERATION
        \<or> mlxr_output result = []
        \<or> mlxr_model result \<noteq> job_selected_model j)))))"

text \<open>\<^verbatim>\<open>allowed_paths_sha256()?\<close> is evaluated inside the disjunction, after the first four tests.\<close>

definition validate_coding_result :: "codec \<Rightarrow> job_result \<Rightarrow> job_envelope \<Rightarrow> unit validated" where
  "validate_coding_result cx r j =
     (let bad = InvalidLocalCodingResult in
      bindE (validate_local_coding cx j) (\<lambda>request.
      bindE (result_for_job cx r j) (\<lambda>_.
      bindE (ok_or bad (decode_coding_result cx (res_payload r))) (\<lambda>result.
      bindE (reject_if bad
        (res_status r \<noteq> ResCompleted
         \<or> cres_status result \<noteq> LOCAL_CODING_COMPLETED_STATUS
         \<or> cres_work_packet_sha256 result \<noteq> cr_work_packet_sha256 request
         \<or> cres_admission_sha256 result \<noteq> local_coding_admission_sha256 cx j
         \<or> cres_snapshot_sha256 result \<noteq> cr_snapshot_sha256 request)) (\<lambda>_.
      bindE (allowed_paths_sha256 cx (cr_work_packet request)) (\<lambda>allowed.
      reject_if bad
        (cres_allowed_paths_sha256 result \<noteq> allowed
         \<or> cres_changed_paths_sha256 result \<noteq> cres_allowed_paths_sha256 result
         \<or> cres_patch_sha256 result = 0
         \<or> cres_artifact_id result = 0
         \<or> cres_artifact_sha256 result \<noteq> cres_patch_sha256 result
         \<or> cres_artifact_size_bytes result = 0
         \<or> cres_artifact_size_bytes result > MAX_LOCAL_CODING_RESULT_ARTIFACT_BYTES
         \<or> cres_changed_file_count result \<noteq> length (wp_allowed_paths (cr_work_packet request))
         \<or> cres_test_status result \<noteq> LOCAL_CODING_FIXTURE_TEST_STATUS
         \<or> \<not> cres_mutation_performed result
         \<or> \<not> cres_workspace_retained result
         \<or> cres_workspace_expires_at_ms result = 0
         \<or> cres_ambiguous result)))))))"

section \<open>What acceptance means\<close>

text \<open>The identity a job shares with every message about it.\<close>

definition job_identity :: "job_envelope \<Rightarrow> nat \<times> uuid \<times> uuid \<times> uuid \<times> uuid \<times> uuid" where
  "job_identity j = (job_connection_epoch j, job_task_id j, job_step_id j, job_attempt_id j,
     job_lease_id j, job_cancellation_id j)"

definition instruction_identity ::
    "cancellation_instruction \<Rightarrow> nat \<times> uuid \<times> uuid \<times> uuid \<times> uuid \<times> uuid" where
  "instruction_identity c = (ci_connection_epoch c, ci_task_id c, ci_step_id c, ci_attempt_id c,
     ci_lease_id c, ci_cancellation_id c)"

definition acknowledgement_identity ::
    "cancellation_acknowledgement \<Rightarrow> nat \<times> uuid \<times> uuid \<times> uuid \<times> uuid \<times> uuid" where
  "acknowledgement_identity a = (ack_connection_epoch a, ack_task_id a, ack_step_id a,
     ack_attempt_id a, ack_lease_id a, ack_cancellation_id a)"

definition result_identity :: "job_result \<Rightarrow> nat \<times> uuid \<times> uuid \<times> uuid \<times> uuid \<times> uuid" where
  "result_identity r = (res_connection_epoch r, res_task_id r, res_step_id r, res_attempt_id r,
     res_lease_id r, res_cancellation_id r)"

lemmas identity_defs =
  job_identity_def instruction_identity_def acknowledgement_identity_def result_identity_def

lemma validate_job_Inr [result_simps]:
  "validate_job cx j = Inr () \<longleftrightarrow>
     job_protocol_version j = 5 \<and> job_task_id j \<noteq> 0 \<and> job_step_id j \<noteq> 0 \<and> job_attempt_id j \<noteq> 0
     \<and> job_lease_id j \<noteq> 0 \<and> job_cancellation_id j \<noteq> 0
     \<and> validate_identifier ''capability_id'' (job_capability_id j) 64 = Inr ()
     \<and> job_selected_model j \<noteq> [] \<and> length (job_selected_model j) \<le> 128
     \<and> 0 < job_lease_duration_ms j \<and> job_lease_duration_ms j \<le> MAX_LEASE_DURATION_MS
     \<and> 0 < job_deadline_after_ms j \<and> job_deadline_after_ms j \<le> MAX_STEP_DEADLINE_MS
     \<and> (\<exists>kvs. job_context j = JObject kvs)
     \<and> length (json_bytes cx (job_context j)) \<le> MAX_JOB_CONTEXT_BYTES
     \<and> sha256 cx (json_bytes cx (job_context j)) = job_context_sha256 j
     \<and> length (wire_bytes cx (WJob j)) \<le> MAX_WIRE_FRAME_BYTES"
  unfolding validate_job_def bindE_Inr_iff MAX_MODEL_NAME_BYTES_def MAX_CAPABILITY_ID_BYTES_def
    validate_version_Inr validate_uuid_Inr validate_text_Inr validate_positive_limit_Inr
    validate_object_Inr validate_serialized_limit_Inr validate_payload_digest_Inr
    validate_wire_limit_Inr
  by auto

lemma result_for_job_Inr:
  "result_for_job cx r j = Inr () \<Longrightarrow>
     validate_job cx j = Inr () \<and> validate_result cx r = Inr ()
     \<and> result_identity r = job_identity j \<and> job_sequence j < res_sequence r
     \<and> res_context_sha256 r = job_context_sha256 j"
  unfolding result_for_job_def bindE_Inr_iff reject_if_Inr_iff identity_defs by auto

lemma instruction_for_job_Inr:
  "instruction_for_job cx c j = Inr () \<Longrightarrow>
     instruction_identity c = job_identity j \<and> job_sequence j < ci_sequence c"
  unfolding instruction_for_job_def bindE_Inr_iff reject_if_Inr_iff identity_defs by auto

lemma acknowledgement_for_instruction_Inr:
  "acknowledgement_for_instruction cx a c = Inr () \<Longrightarrow>
     acknowledgement_identity a = instruction_identity c \<and> ci_sequence c < ack_sequence a"
  unfolding acknowledgement_for_instruction_def bindE_Inr_iff reject_if_Inr_iff identity_defs
  by auto

text \<open>
  The transcript of \<open>local_coding_admission_sha256\<close> determines every field it hashes, so a digest
  cannot be carried from one attempt, connection or lease to another.
\<close>

lemma admission_transcript_injective:
  assumes "job_protocol_version j = job_protocol_version k"
    and "\<forall>n \<in> {job_connection_epoch j, job_sequence j, job_lease_duration_ms j, job_deadline_after_ms j,
      job_connection_epoch k, job_sequence k, job_lease_duration_ms k, job_deadline_after_ms k}. n < 256 ^ 8"
    and "admission_transcript j = admission_transcript k"
  shows "job_identity j = job_identity k \<and> job_sequence j = job_sequence k
    \<and> job_context_sha256 j = job_context_sha256 k
    \<and> job_lease_duration_ms j = job_lease_duration_ms k
    \<and> job_deadline_after_ms j = job_deadline_after_ms k"
proof -
  have *: "digest_bytes (job_context_sha256 j) = digest_bytes (job_context_sha256 k)
    \<and> uuid_bytes (job_task_id j) = uuid_bytes (job_task_id k)
    \<and> uuid_bytes (job_step_id j) = uuid_bytes (job_step_id k)
    \<and> uuid_bytes (job_attempt_id j) = uuid_bytes (job_attempt_id k)
    \<and> uuid_bytes (job_lease_id j) = uuid_bytes (job_lease_id k)
    \<and> uuid_bytes (job_cancellation_id j) = uuid_bytes (job_cancellation_id k)
    \<and> be_bytes 8 (job_connection_epoch j) = be_bytes 8 (job_connection_epoch k)
    \<and> be_bytes 8 (job_sequence j) = be_bytes 8 (job_sequence k)
    \<and> be_bytes 8 (job_lease_duration_ms j) = be_bytes 8 (job_lease_duration_ms k)
    \<and> be_bytes 8 (job_deadline_after_ms j) = be_bytes 8 (job_deadline_after_ms k)"
    using assms(3) unfolding admission_transcript_def
    by (simp del: be_bytes.simps uuid_bytes_inject digest_bytes_inject)
  have n: "be_bytes 8 m = be_bytes 8 n \<longleftrightarrow> m = n" if "m < 256 ^ 8" "n < 256 ^ 8" for m n
    using that by (rule be_bytes_inject)
  show ?thesis
    using * assms(2) unfolding uuid_bytes_inject digest_bytes_inject job_identity_def
    by (simp add: n del: be_bytes.simps)
qed

end
