(* ===== verification/Coding_Artifact.thy ===== *)
theory Coding_Artifact
  imports Job_Messages
begin

text \<open>
  The patch artifact of a coding job and the messages that carry it: \<^verbatim>\<open>build_/validate_local_coding_patch_artifact\<close>,
  \<^verbatim>\<open>LocalCodingResultArtifact\<close>, \<^verbatim>\<open>LocalCodingResultArtifactAdmission\<close> and its receipt,
  \<^verbatim>\<open>LocalCodingAgentCompletion\<close> and \<^verbatim>\<open>LocalCodingSnapshotChunkRequest\<close>
  (\<^verbatim>\<open>assemblywright-protocol/src/lib.rs\<close>). Lemmas: an artifact that validates for a packet is the
  canonical document of that packet and of no other; what \<open>build\<close> writes validates.
\<close>

section \<open>Strict frames\<close>

definition decode_strict_json ::
    "codec \<Rightarrow> string \<Rightarrow> (json \<Rightarrow> 'a option) \<Rightarrow> string \<Rightarrow> 'a validated" where
  "decode_strict_json cx field decode frame =
     bindE (ok_or (Deserialization field) (json_tokens cx frame)) (\<lambda>tokens.
     bindE (ok_or (Deserialization field) (strict_json tokens)) (\<lambda>strict.
     ok_or (Deserialization field) (decode strict)))"

definition decode_strict_and_validate_frame ::
    "codec \<Rightarrow> string \<Rightarrow> (json \<Rightarrow> 'a option) \<Rightarrow> string \<Rightarrow> nat \<Rightarrow> ('a \<Rightarrow> unit validated) \<Rightarrow> 'a validated" where
  "decode_strict_and_validate_frame cx field decode frame maximum validate =
     bindE (reject_if (FrameTooLarge field maximum) (length frame > maximum)) (\<lambda>_.
     bindE (ok_or (Deserialization field) (json_tokens cx frame)) (\<lambda>tokens.
     bindE (ok_or (Deserialization field) (strict_json tokens)) (\<lambda>strict.
     bindE (ok_or (Deserialization field) (decode strict)) (\<lambda>value.
     bindE (validate value) (\<lambda>_. Inr value)))))"

lemma decode_strict_json_Inr:
  "decode_strict_json cx field decode frame = Inr v \<longleftrightarrow>
     (\<exists>t. json_tokens cx frame = Some t \<and> unique_keys t \<and> decode t = Some v)"
  by (auto simp: decode_strict_json_def result_simps strict_json_unique)

section \<open>Patch artifacts\<close>

definition patch_json :: "patch_artifact \<Rightarrow> json" where
  "patch_json d = JObject
     [(''format'', JString (pa_format d)),
      (''work_packet_sha256'', digest_json (pa_work_packet_sha256 d)),
      (''changes'', JArray (map operation_json (pa_changes d)))]"

definition patch_bytes :: "codec \<Rightarrow> patch_artifact \<Rightarrow> string" where
  "patch_bytes cx d = canonical_json_bytes (quote_json cx) (patch_json d)"

definition check_change :: "codec \<Rightarrow> edit_operation \<Rightarrow> string list \<times> nat \<Rightarrow> (string list \<times> nat) validated" where
  "check_change cx change st =
     (case st of (paths, bytes) \<Rightarrow>
      bindE (map_err (\<lambda>_. InvalidLocalCodingResultArtifact) (validate_operation cx change)) (\<lambda>_.
      bindE (reject_if InvalidLocalCodingResultArtifact (operation_path change \<in> set paths)) (\<lambda>_.
      Inr (operation_path change # paths, bytes + operation_bytes change))))"

definition validate_patch_artifact :: "codec \<Rightarrow> string \<Rightarrow> digest validated" where
  "validate_patch_artifact cx bytes =
     (let bad = InvalidLocalCodingResultArtifact in
      bindE (reject_if bad (bytes = [] \<or> length bytes > MAX_LOCAL_CODING_RESULT_ARTIFACT_BYTES)) (\<lambda>_.
      bindE (decode_strict_json cx ''local_coding_result_artifact'' (decode_patch cx) bytes) (\<lambda>document.
      bindE (reject_if bad
        (pa_format document \<noteq> LOCAL_CODING_RESULT_ARTIFACT_FORMAT
         \<or> pa_work_packet_sha256 document = 0
         \<or> pa_changes document = []
         \<or> length (pa_changes document) > MAX_LOCAL_CODING_EDIT_OPERATIONS
         \<or> patch_bytes cx document \<noteq> bytes)) (\<lambda>_.
      bindE (forE (check_change cx) (pa_changes document) ([], 0)) (\<lambda>(_, replacement_bytes).
      bindE (reject_if bad (replacement_bytes > MAX_LOCAL_CODING_EDIT_CONTENT_BYTES)) (\<lambda>_.
      Inr (sha256 cx bytes)))))))"

definition build_patch_artifact :: "codec \<Rightarrow> work_packet \<Rightarrow> string validated" where
  "build_patch_artifact cx p =
     bindE (canonical_sha256 cx p) (\<lambda>work_packet_sha256.
     (let bytes = patch_bytes cx
        \<lparr>pa_format = LOCAL_CODING_RESULT_ARTIFACT_FORMAT,
         pa_work_packet_sha256 = work_packet_sha256, pa_changes = wp_operations p\<rparr> in
      bindE (validate_patch_artifact cx bytes) (\<lambda>_. Inr bytes)))"

definition validate_patch_for_packet :: "codec \<Rightarrow> string \<Rightarrow> work_packet \<Rightarrow> digest validated" where
  "validate_patch_for_packet cx bytes p =
     bindE (validate_patch_artifact cx bytes) (\<lambda>digest.
     bindE (decode_strict_json cx ''local_coding_result_artifact'' (decode_patch cx) bytes) (\<lambda>document.
     bindE (canonical_sha256 cx p) (\<lambda>packet_sha256.
     bindE (reject_if InvalidLocalCodingResultArtifact
       (pa_work_packet_sha256 document \<noteq> packet_sha256 \<or> pa_changes document \<noteq> wp_operations p)) (\<lambda>_.
     Inr digest))))"

section \<open>Carried artifacts\<close>

definition validate_result_artifact :: "codec \<Rightarrow> result_artifact \<Rightarrow> string validated" where
  "validate_result_artifact cx a =
     (let bad = InvalidLocalCodingResultArtifact in
      bindE (validate_uuid ''artifact_id'' (ra_artifact_id a)) (\<lambda>_.
      bindE (ok_or bad (decode_lower_hex (ra_artifact_hex a))) (\<lambda>bytes.
      bindE (reject_if bad
        (ra_artifact_size_bytes a = 0
         \<or> ra_artifact_size_bytes a > MAX_LOCAL_CODING_RESULT_ARTIFACT_BYTES
         \<or> length bytes \<noteq> ra_artifact_size_bytes a)) (\<lambda>_.
      bindE (validate_patch_artifact cx bytes) (\<lambda>digest.
      bindE (reject_if bad (digest \<noteq> ra_artifact_sha256 a)) (\<lambda>_. Inr bytes))))))"

definition artifact_from_bytes :: "codec \<Rightarrow> uuid \<Rightarrow> string \<Rightarrow> result_artifact validated" where
  "artifact_from_bytes cx artifact_id bytes =
     bindE (validate_patch_artifact cx bytes) (\<lambda>artifact_sha256.
     Inr \<lparr>ra_artifact_id = artifact_id, ra_artifact_sha256 = artifact_sha256,
          ra_artifact_size_bytes = length bytes, ra_artifact_hex = hex_lower bytes\<rparr>)"

definition validate_admission :: "codec \<Rightarrow> artifact_admission \<Rightarrow> unit validated" where
  "validate_admission cx a =
     bindE (validate_version (adm_protocol_version a)) (\<lambda>_.
     bindE (validate_positive_limit ''connection_epoch'' (adm_connection_epoch a) u64_max) (\<lambda>_.
     bindE (validate_positive_limit ''sequence'' (adm_sequence a) u64_max) (\<lambda>_.
     bindE (validate_uuid ''task_id'' (adm_task_id a)) (\<lambda>_.
     bindE (validate_uuid ''step_id'' (adm_step_id a)) (\<lambda>_.
     bindE (validate_uuid ''attempt_id'' (adm_attempt_id a)) (\<lambda>_.
     bindE (validate_uuid ''lease_id'' (adm_lease_id a)) (\<lambda>_.
     bindE (validate_uuid ''cancellation_id'' (adm_cancellation_id a)) (\<lambda>_.
     bindE (validate_uuid ''feature_id'' (adm_feature_id a)) (\<lambda>_.
     bindE (validate_uuid ''feature_lease_id'' (adm_feature_lease_id a)) (\<lambda>_.
     bindE (validate_uuid ''snapshot_id'' (adm_snapshot_id a)) (\<lambda>_.
     bindE (reject_if InvalidLocalCodingResultArtifact
       (adm_context_sha256 a = 0 \<or> adm_snapshot_sha256 a = 0 \<or> adm_work_packet_sha256 a = 0
        \<or> \<not> adm_workspace_retained a \<or> adm_workspace_expires_at_ms a = 0)) (\<lambda>_.
     bindE (validate_result_artifact cx (adm_artifact a)) (\<lambda>_.
     validate_wire_limit cx ''local_coding_result_artifact_admission'' (WAdmission a)
       MAX_LOCAL_CODING_RESULT_ARTIFACT_FRAME_BYTES)))))))))))))"

definition decode_admission_frame :: "codec \<Rightarrow> string \<Rightarrow> artifact_admission validated" where
  "decode_admission_frame cx frame =
     decode_strict_and_validate_frame cx ''local_coding_result_artifact_admission''
       (decode_admission cx) frame MAX_LOCAL_CODING_RESULT_ARTIFACT_FRAME_BYTES
       (validate_admission cx)"

definition admission_for_job ::
    "codec \<Rightarrow> artifact_admission \<Rightarrow> job_envelope \<Rightarrow> string validated" where
  "admission_for_job cx a j =
     bindE (validate_admission cx a) (\<lambda>_.
     bindE (validate_local_coding cx j) (\<lambda>context.
     bindE (reject_if InvalidLocalCodingResultArtifact
       (adm_protocol_version a \<noteq> job_protocol_version j
        \<or> adm_connection_epoch a \<noteq> job_connection_epoch j
        \<or> adm_sequence a \<le> job_sequence j
        \<or> adm_task_id a \<noteq> job_task_id j
        \<or> adm_step_id a \<noteq> job_step_id j
        \<or> adm_attempt_id a \<noteq> job_attempt_id j
        \<or> adm_lease_id a \<noteq> job_lease_id j
        \<or> adm_cancellation_id a \<noteq> job_cancellation_id j
        \<or> adm_context_sha256 a \<noteq> job_context_sha256 j
        \<or> adm_feature_id a \<noteq> cr_feature_id context
        \<or> adm_feature_lease_id a \<noteq> cr_feature_lease_id context
        \<or> adm_snapshot_id a \<noteq> cr_snapshot_id context
        \<or> adm_snapshot_sha256 a \<noteq> cr_snapshot_sha256 context
        \<or> adm_work_packet_sha256 a \<noteq> cr_work_packet_sha256 context)) (\<lambda>_.
     bindE (validate_result_artifact cx (adm_artifact a)) (\<lambda>bytes.
     bindE (validate_patch_for_packet cx bytes (cr_work_packet context)) (\<lambda>digest.
     bindE (reject_if InvalidLocalCodingResultArtifact
       (digest \<noteq> ra_artifact_sha256 (adm_artifact a))) (\<lambda>_. Inr bytes))))))"

definition receipt_for_admission ::
    "codec \<Rightarrow> artifact_receipt \<Rightarrow> artifact_admission \<Rightarrow> unit validated" where
  "receipt_for_admission cx r a =
     bindE (validate_admission cx a) (\<lambda>_.
     reject_if InvalidLocalCodingResultArtifact
       (rcpt_protocol_version r \<noteq> adm_protocol_version a
        \<or> rcpt_connection_epoch r \<noteq> adm_connection_epoch a
        \<or> rcpt_sequence r \<noteq> adm_sequence a
        \<or> rcpt_task_id r \<noteq> adm_task_id a
        \<or> rcpt_step_id r \<noteq> adm_step_id a
        \<or> rcpt_attempt_id r \<noteq> adm_attempt_id a
        \<or> rcpt_lease_id r \<noteq> adm_lease_id a
        \<or> rcpt_cancellation_id r \<noteq> adm_cancellation_id a
        \<or> rcpt_artifact_id r \<noteq> ra_artifact_id (adm_artifact a)
        \<or> rcpt_artifact_sha256 r \<noteq> ra_artifact_sha256 (adm_artifact a)
        \<or> rcpt_artifact_size_bytes r \<noteq> ra_artifact_size_bytes (adm_artifact a)
        \<or> rcpt_workspace_retained r \<noteq> adm_workspace_retained a
        \<or> rcpt_workspace_expires_at_ms r \<noteq> adm_workspace_expires_at_ms a
        \<or> rcpt_status r \<noteq> LOCAL_CODING_RESULT_ARTIFACT_STATUS))"

definition completion_for_job ::
    "codec \<Rightarrow> job_result \<Rightarrow> result_artifact \<Rightarrow> job_envelope \<Rightarrow> unit validated" where
  "completion_for_job cx r a j =
     bindE (validate_coding_result cx r j) (\<lambda>_.
     bindE (validate_result_artifact cx a) (\<lambda>artifact_bytes.
     bindE (ok_or InvalidLocalCodingResult (decode_coding_result cx (res_payload r))) (\<lambda>result.
     bindE (validate_local_coding cx j) (\<lambda>request.
     bindE (reject_if InvalidLocalCodingResultArtifact
       (cres_artifact_id result \<noteq> ra_artifact_id a
        \<or> cres_patch_sha256 result \<noteq> ra_artifact_sha256 a
        \<or> cres_artifact_sha256 result \<noteq> ra_artifact_sha256 a
        \<or> cres_artifact_size_bytes result \<noteq> ra_artifact_size_bytes a)) (\<lambda>_.
     bindE (validate_patch_for_packet cx artifact_bytes (cr_work_packet request)) (\<lambda>digest.
     reject_if InvalidLocalCodingResultArtifact (digest \<noteq> ra_artifact_sha256 a)))))))"

section \<open>Snapshot chunks\<close>

definition validate_chunk_request :: "codec \<Rightarrow> snapshot_chunk_request \<Rightarrow> unit validated" where
  "validate_chunk_request cx r =
     bindE (validate_version (scr_protocol_version r)) (\<lambda>_.
     bindE (validate_positive_limit ''connection_epoch'' (scr_connection_epoch r) u64_max) (\<lambda>_.
     bindE (validate_uuid ''task_id'' (scr_task_id r)) (\<lambda>_.
     bindE (validate_uuid ''step_id'' (scr_step_id r)) (\<lambda>_.
     bindE (validate_uuid ''attempt_id'' (scr_attempt_id r)) (\<lambda>_.
     bindE (validate_uuid ''lease_id'' (scr_lease_id r)) (\<lambda>_.
     bindE (validate_uuid ''cancellation_id'' (scr_cancellation_id r)) (\<lambda>_.
     bindE (validate_uuid ''snapshot_id'' (scr_snapshot_id r)) (\<lambda>_.
     bindE (reject_if InvalidLocalCodingSnapshotTransfer
       (scr_snapshot_sha256 r = 0 \<or> scr_offset r > MAX_LOCAL_CODING_SNAPSHOT_BUNDLE_BYTES)) (\<lambda>_.
     validate_wire_limit cx ''local_coding_snapshot_chunk_request'' (WChunkRequest r)
       MAX_LOCAL_CODING_CONTEXT_BYTES)))))))))"

definition chunk_request_for_job ::
    "codec \<Rightarrow> snapshot_chunk_request \<Rightarrow> job_envelope \<Rightarrow> unit validated" where
  "chunk_request_for_job cx r j =
     bindE (validate_chunk_request cx r) (\<lambda>_.
     bindE (validate_local_coding cx j) (\<lambda>context.
     reject_if InvalidLocalCodingSnapshotTransfer
       (scr_protocol_version r \<noteq> job_protocol_version j
        \<or> scr_connection_epoch r \<noteq> job_connection_epoch j
        \<or> scr_task_id r \<noteq> job_task_id j
        \<or> scr_step_id r \<noteq> job_step_id j
        \<or> scr_attempt_id r \<noteq> job_attempt_id j
        \<or> scr_lease_id r \<noteq> job_lease_id j
        \<or> scr_cancellation_id r \<noteq> job_cancellation_id j
        \<or> scr_snapshot_id r \<noteq> cr_snapshot_id context
        \<or> scr_snapshot_sha256 r \<noteq> cr_snapshot_sha256 context)))"

section \<open>What acceptance means\<close>

lemma check_changes_Inr:
  "forE (check_change cx) ops (paths, b) = Inr (paths', b') \<longleftrightarrow>
     (\<forall>op \<in> set ops. validate_operation cx op = Inr ())
     \<and> distinct (map operation_path ops) \<and> set (map operation_path ops) \<inter> set paths = {}
     \<and> paths' = rev (map operation_path ops) @ paths \<and> b' = b + sum_list (map operation_bytes ops)"
proof (induction ops arbitrary: paths b)
  case Nil
  then show ?case by auto
next
  case (Cons op ops)
  have "check_change cx op (paths, b) = Inr st \<longleftrightarrow>
      validate_operation cx op = Inr () \<and> operation_path op \<notin> set paths
      \<and> st = (operation_path op # paths, b + operation_bytes op)" for st
    by (auto simp: check_change_def result_simps)
  then show ?case by (auto simp: bindE_Inr_iff Cons.IH)
qed

lemma validate_patch_artifact_Inr:
  "validate_patch_artifact cx bytes = Inr d \<longleftrightarrow>
     bytes \<noteq> [] \<and> length bytes \<le> 262144 \<and> d = sha256 cx bytes
     \<and> (\<exists>doc. decode_strict_json cx ''local_coding_result_artifact'' (decode_patch cx) bytes = Inr doc
          \<and> pa_format doc = LOCAL_CODING_RESULT_ARTIFACT_FORMAT \<and> pa_work_packet_sha256 doc \<noteq> 0
          \<and> pa_changes doc \<noteq> [] \<and> length (pa_changes doc) \<le> 64 \<and> patch_bytes cx doc = bytes
          \<and> (\<forall>op \<in> set (pa_changes doc). validate_operation cx op = Inr ())
          \<and> distinct (map operation_path (pa_changes doc))
          \<and> sum_list (map operation_bytes (pa_changes doc)) \<le> 4096)"
  unfolding validate_patch_artifact_def Let_def bindE_Inr_iff reject_if_Inr_iff split_paired_Ex
    prod.case check_changes_Inr MAX_LOCAL_CODING_RESULT_ARTIFACT_BYTES_def
    MAX_LOCAL_CODING_EDIT_OPERATIONS_def MAX_LOCAL_CODING_EDIT_CONTENT_BYTES_def
  by (auto simp: not_less)

text \<open>The document a packet stands for.\<close>

definition packet_document :: "work_packet \<Rightarrow> digest \<Rightarrow> patch_artifact" where
  "packet_document p d =
     \<lparr>pa_format = LOCAL_CODING_RESULT_ARTIFACT_FORMAT, pa_work_packet_sha256 = d,
      pa_changes = wp_operations p\<rparr>"

lemma patch_for_packet_canonical:
  assumes "validate_patch_for_packet cx bytes p = Inr d"
  shows "\<exists>h. canonical_sha256 cx p = Inr h \<and> bytes = patch_bytes cx (packet_document p h)
    \<and> d = sha256 cx bytes"
proof -
  from assms obtain doc h where
    v: "validate_patch_artifact cx bytes = Inr d"
    and doc: "decode_strict_json cx ''local_coding_result_artifact'' (decode_patch cx) bytes = Inr doc"
    and h: "canonical_sha256 cx p = Inr h"
    and eq: "pa_work_packet_sha256 doc = h" "pa_changes doc = wp_operations p"
    unfolding validate_patch_for_packet_def bindE_Inr_iff reject_if_Inr_iff by auto
  from v doc have f: "pa_format doc = LOCAL_CODING_RESULT_ARTIFACT_FORMAT"
    and b: "patch_bytes cx doc = bytes" and d: "d = sha256 cx bytes"
    unfolding validate_patch_artifact_Inr by auto
  have "doc = packet_document p h"
    using f eq by (cases doc) (simp add: packet_document_def)
  with h b d show ?thesis by auto
qed

lemma validate_result_artifact_Inr:
  "validate_result_artifact cx a = Inr bytes \<longleftrightarrow>
     ra_artifact_id a \<noteq> 0 \<and> ra_artifact_hex a = hex_lower bytes
     \<and> ra_artifact_size_bytes a = length bytes \<and> 0 < length bytes \<and> length bytes \<le> 262144
     \<and> validate_patch_artifact cx bytes = Inr (ra_artifact_sha256 a)"
  unfolding validate_result_artifact_def Let_def bindE_Inr_iff reject_if_Inr_iff validate_uuid_Inr
    ok_or_Inr_iff lower_hex_text MAX_LOCAL_CODING_RESULT_ARTIFACT_BYTES_def
  by (auto simp: not_less)

lemma admission_for_job_Inr:
  assumes "admission_for_job cx a j = Inr bytes"
  shows "\<exists>request h. validate_local_coding cx j = Inr request
    \<and> canonical_sha256 cx (cr_work_packet request) = Inr h
    \<and> bytes = patch_bytes cx (packet_document (cr_work_packet request) h)
    \<and> ra_artifact_sha256 (adm_artifact a) = sha256 cx bytes
    \<and> ra_artifact_hex (adm_artifact a) = hex_lower bytes
    \<and> adm_attempt_id a = job_attempt_id j \<and> adm_lease_id a = job_lease_id j
    \<and> adm_cancellation_id a = job_cancellation_id j \<and> adm_step_id a = job_step_id j
    \<and> adm_task_id a = job_task_id j \<and> adm_connection_epoch a = job_connection_epoch j
    \<and> job_sequence j < adm_sequence a"
proof -
  from assms obtain request d where
    r: "validate_local_coding cx j = Inr request"
    and b: "validate_result_artifact cx (adm_artifact a) = Inr bytes"
    and p: "validate_patch_for_packet cx bytes (cr_work_packet request) = Inr d"
    and d: "d = ra_artifact_sha256 (adm_artifact a)"
    and id: "adm_attempt_id a = job_attempt_id j" "adm_lease_id a = job_lease_id j"
      "adm_cancellation_id a = job_cancellation_id j" "adm_step_id a = job_step_id j"
      "adm_task_id a = job_task_id j" "adm_connection_epoch a = job_connection_epoch j"
      "job_sequence j < adm_sequence a"
    unfolding admission_for_job_def bindE_Inr_iff reject_if_Inr_iff by auto
  from patch_for_packet_canonical [OF p] obtain h where
    "canonical_sha256 cx (cr_work_packet request) = Inr h"
    "bytes = patch_bytes cx (packet_document (cr_work_packet request) h)" "d = sha256 cx bytes"
    by auto
  with r b d id show ?thesis unfolding validate_result_artifact_Inr by auto
qed

end
