(* ===== verification/Master_State.thy ===== *)
theory Master_State
  imports Coding_Artifact
begin

text \<open>
  The durable state of the master kernel (\<^verbatim>\<open>assemblywright-master/src/lib.rs\<close>): its tables, its
  errors, and the reads and writes that every operation shares.

  A table is the list of its rows in insertion order, with the columns the modelled operations read
  or write. \<^verbatim>\<open>TEXT\<close> columns that hold JSON hold the value, so \<^verbatim>\<open>serde_json::from_str\<close> of a stored
  value is that value. An operation is a function from the state to an error or a new state: the
  Rust code runs in one immediate transaction, and an early return drops the transaction, so an
  error leaves the state as it was. The two operations that commit and then return an error say so
  in their result. Numbers are \<^verbatim>\<open>i64\<close> columns; \<open>to_i64\<close> is the checked conversion.
\<close>

section \<open>Errors\<close>

datatype step_status = SQueued | SLeased | SSucceeded | SFailed | SCancelled

datatype attempt_status =
  ALeased | ACancellationPending | ASucceeded | AFailed | ACancelled | AAbandoned | AExpired

datatype master_error =
    Protocol protocol_error
  | Storage
  | Json
  | DeviceAlreadyRegistered
  | DeviceNotRegistered
  | ConnectionNotActive
  | ConnectionEpochMismatch
  | DeviceAlreadyLeased
  | ConcurrentJobLimit
  | EmergencyPaused
  | NoEligibleStep
  | CapabilityLimitExceeded
  | QueueFull
  | NilStepIdentifier
  | InvalidCapabilityIdentifier
  | InvalidStepContext
  | InvalidLeaseDuration
  | InvalidStepDeadline
  | StepAlreadyExists
  | StepNotFound
  | StepNotCancellable step_status
  | AttemptNotFound
  | ResultDeviceMismatch
  | ResultNotAccepting attempt_status
  | SequenceReplay
  | LeaseExpired
  | CancellationExpired
  | EventCursorStreamMismatch
  | EventCursorAhead
  | IntegerOutOfRange
  | InvalidStoredState string
  | InvalidRevocationReason
  | EnrolledDeviceLimit
  | InvalidRemoteWorkContract
  | FeatureCodingDispatchUnavailable
  | ResultArtifactUnavailable
  | InvalidFeatureConveyorInput string
  | FeatureNotFound
  | FeatureQueueFull
  | FeatureLeaseAlreadyActive
  | FeatureDependencyBlocked
  | FeatureSpecificationImmutable
  | FeatureCodingWorkOutstanding
  | InvalidFeatureTransition
  | VerifiedHealthyMainRequired
  | RepositoryGrantImmutable
  | RepositoryGrantUnavailable
  | OwnerControlBridgeUnauthorized
  | OwnerControlBridgeNotDesignated
  | StaleRepositoryGrantRevision nat nat
  | StaleFeatureQueueRevision nat nat
  | StaleFeatureLifecycleRevision nat nat
  | StaleEmergencyPauseRevision nat nat
  | StaleOwnerControlDesignationRevision nat nat
  | OrchestrationInactive
  | StaleOrchestrationRevision nat nat
  | FeatureActivationEvidenceUnavailable
  | FeatureActivationImmutable
  | OrchestrationEffectAmbiguous
  | ArtifactIntegrationUnavailable
  | ArtifactIntegrationConflict
  | ValidationGateUnavailable
  | ValidationGateFailed
  | ReviewGatewayUnavailable
  | ReviewRetryNotReady nat
  | ReviewBudgetExhausted
  | PublicationCoordinatorUnavailable
  | PublicationEffectAmbiguous
  | InvalidSystemClock

definition protocol_result :: "'a validated \<Rightarrow> master_error + 'a" where
  "protocol_result m = map_err Protocol m"

lemma protocol_result_Inr [result_simps]: "protocol_result m = Inr x \<longleftrightarrow> m = Inr x"
  by (simp add: protocol_result_def result_simps)

definition to_i64 :: "nat \<Rightarrow> master_error + unit" where
  "to_i64 n = reject_if IntegerOutOfRange (n > i64_max)"

lemma to_i64_Inr [result_simps]: "to_i64 n = Inr u \<longleftrightarrow> n \<le> i64_max"
  by (simp add: to_i64_def result_simps not_less)

section \<open>Tables\<close>

record device_row =
  dev_device_id :: uuid
  dev_name :: string
  dev_role :: device_role
  dev_registry_revision :: nat
  dev_capabilities :: "capability list"
  dev_revoked :: bool

record certificate_row =
  cert_serial :: string
  cert_device_id :: uuid
  cert_revoked_at_ms :: "nat option"
  cert_revocation_reason :: "string option"

record connection_row =
  con_device_id :: uuid
  con_epoch :: nat
  con_active :: bool
  con_last_sequence :: nat
  con_connected_at_ms :: nat
  con_disconnected_at_ms :: "nat option"

record step_row =
  st_task_id :: uuid
  st_step_id :: uuid
  st_status :: step_status
  st_capability_id :: string
  st_sensitivity :: sensitivity
  st_context :: json
  st_context_sha256 :: digest
  st_lease_duration_ms :: nat
  st_deadline_after_ms :: nat
  st_created_at_ms :: nat
  st_accepted_payload :: "json option"
  st_accepted_payload_sha256 :: "digest option"
  st_completed_at_ms :: "nat option"

record attempt_row =
  at_attempt_id :: uuid
  at_step_id :: uuid
  at_device_id :: uuid
  at_epoch :: nat
  at_lease_id :: uuid
  at_cancellation_id :: uuid
  at_status :: attempt_status
  at_job :: job_envelope
  at_leased_at_ms :: nat
  at_lease_expires_at_ms :: nat
  at_completed_at_ms :: "nat option"
  at_result_sequence :: "nat option"
  at_payload_sha256 :: "digest option"
  at_cancellation_sequence :: "nat option"
  at_cancellation_requested_at_ms :: "nat option"
  at_cancellation_deadline_at_ms :: "nat option"
  at_cancellation_ack_sequence :: "nat option"

record event_row =
  er_sequence :: nat
  er_occurred_at_ms :: nat
  er_kind :: event_kind
  er_task_id :: "uuid option"
  er_step_id :: "uuid option"
  er_device_id :: "uuid option"
  er_connection_epoch :: "nat option"

datatype feature_status =
    FQueued | FImplementing | FValidating | FReviewing | FPublishing | FVerifyingMain | FRepairing
  | FPaused | FAttentionRequired | FFailed | FSucceeded | FCancelled | FAbandoned | FQuarantined

record feature_row =
  ft_feature_id :: uuid
  ft_current_specification_revision :: nat
  ft_lifecycle_revision :: nat
  ft_status :: feature_status
  ft_queue_position :: nat
  ft_effect_possible :: bool
  ft_created_at_ms :: nat
  ft_updated_at_ms :: nat

datatype grant_kind = GkRegistration | GkCloudDisclosure | GkAutonomousPublication

record grant_row =
  gt_repository_id :: uuid
  gt_kind :: grant_kind
  gt_revision :: nat
  gt_scope_sha256 :: digest
  gt_owner_approval_sha256 :: digest
  gt_expires_at_ms :: "nat option"
  gt_revoked :: bool
  gt_created_at_ms :: nat

record grant_revisions =
  gr_registration :: nat
  gr_cloud_disclosure :: nat
  gr_autonomous_publication :: nat

record specification_row =
  sp_feature_id :: uuid
  sp_revision :: nat
  sp_repository_id :: uuid
  sp_canonical_manifest :: string
  sp_manifest_sha256 :: digest
  sp_design_sha256 :: digest
  sp_brainstorming_sha256 :: digest
  sp_owner_approval_sha256 :: digest
  sp_grants :: grant_revisions
  sp_provider_id :: string
  sp_model_id :: string
  sp_approved_at_ms :: nat

record dependency_row =
  dn_feature_id :: uuid
  dn_dependency_feature_id :: uuid

record queue_row =
  qu_feature_id :: uuid
  qu_queue_position :: nat

record transition_row =
  tr_feature_id :: uuid
  tr_lifecycle_revision :: nat
  tr_from_status :: feature_status
  tr_to_status :: feature_status
  tr_repository_snapshot_sha256 :: "digest option"
  tr_accepted_evidence_sha256 :: "digest option"
  tr_verified_main_commit_sha256 :: "digest option"
  tr_post_merge_evidence_sha256 :: "digest option"
  tr_safe_reconciliation_sha256 :: "digest option"
  tr_verified_healthy_main_sha256 :: "digest option"
  tr_recorded_at_ms :: nat

record owner_bridge_row =
  ob_device_id :: "uuid option"
  ob_registry_revision :: "nat option"
  ob_designation_revision :: nat

record dispatch_row =
  dp_packet_id :: uuid
  dp_feature_id :: uuid
  dp_specification_revision :: nat
  dp_lifecycle_revision :: nat
  dp_feature_lease_id :: uuid
  dp_snapshot_id :: uuid
  dp_snapshot_sha256 :: digest
  dp_work_packet_sha256 :: digest
  dp_work_packet :: work_packet
  dp_device_id :: uuid
  dp_device_registry_revision :: nat
  dp_queue_revision :: nat
  dp_emergency_pause_revision :: nat
  dp_task_id :: uuid
  dp_step_id :: uuid
  dp_dispatched_at_ms :: nat

record lease_row =
  fl_feature_id :: uuid
  fl_lease_id :: uuid
  fl_snapshot_id :: "uuid option"
  fl_claimed_at_ms :: nat

record claim_row =
  cl_snapshot_id :: uuid
  cl_snapshot_sha256 :: digest
  cl_feature_id :: uuid
  cl_specification_revision :: nat
  cl_lease_id :: uuid
  cl_base_commit :: string
  cl_scope_sha256 :: digest
  cl_provider_id :: string
  cl_model_id :: string
  cl_grants :: grant_revisions
  cl_emergency_pause_revision :: nat
  cl_queue_revision :: nat
  cl_claimed_at_ms :: nat

record artifact_row =
  ar_artifact_id :: uuid
  ar_artifact_sha256 :: digest
  ar_artifact_size_bytes :: nat
  ar_device_id :: uuid
  ar_device_registry_revision :: nat
  ar_connection_epoch :: nat
  ar_sequence :: nat
  ar_task_id :: uuid
  ar_step_id :: uuid
  ar_attempt_id :: uuid
  ar_lease_id :: uuid
  ar_cancellation_id :: uuid
  ar_context_sha256 :: digest
  ar_feature_id :: uuid
  ar_feature_lease_id :: uuid
  ar_snapshot_id :: uuid
  ar_snapshot_sha256 :: digest
  ar_work_packet_sha256 :: digest
  ar_admitted_at_ms :: nat
  ar_workspace_retained :: bool
  ar_workspace_expires_at_ms :: nat

datatype orchestration_stage =
    OsImplementing | OsValidating | OsReviewing | OsPublishing | OsVerifyingMain | OsRepairing
  | OsPaused | OsAttentionRequired | OsFailed | OsSucceeded | OsQuarantined

datatype pause_kind = PkProvider | PkWorker | PkMaintenance | PkOwner

datatype orchestration_action =
    OaInactive | OaAwaitImplementationEvidence | OaAwaitValidationEvidence | OaAwaitReviewDecision
  | OaRetryReviewTransport | OaAwaitPublicationEvidence | OaAwaitMainVerification
  | OaReplacementCandidateRequired | OaOwnerAttentionRequired | OaReconcileQuarantine | OaTerminal

datatype orchestration_reason =
    OnCapabilityInactive | OnCheckpointEffectFree | OnExistingEffectAmbiguous | OnValidationFailed
  | OnReviewRejected | OnReviewTransportBackoff | OnReviewBudgetExhausted | OnPublicationFailed
  | OnReplacementCandidateContractUnavailable | OnRepairBudgetExhausted
  | OnActiveProcessingBudgetExhausted | OnCancelled | OnFailed | OnSucceeded

record orchestration_row =
  or_feature_id :: uuid
  or_orchestration_revision :: nat
  or_checkpoint_id :: uuid
  or_stage :: orchestration_stage
  or_resume_stage :: "orchestration_stage option"
  or_pause_kind :: "pause_kind option"
  or_replacement_candidates_used :: nat
  or_active_processing_ms :: nat
  or_clock_started_at_ms :: "nat option"
  or_next_retry_at_ms :: "nat option"
  or_effect_possible :: bool
  or_updated_at_ms :: nat

record checkpoint_row =
  ck_checkpoint_id :: uuid
  ck_feature_id :: uuid
  ck_orchestration_revision :: nat
  ck_lifecycle_revision :: nat
  ck_stage :: orchestration_stage
  ck_action :: orchestration_action
  ck_reason :: orchestration_reason
  ck_checkpoint_sha256 :: digest
  ck_evidence_sha256 :: "digest option"
  ck_replacement_candidates_used :: nat
  ck_active_processing_ms :: nat
  ck_effect_possible :: bool
  ck_recorded_at_ms :: nat

datatype publication_action =
    PushBranch | UpsertPullRequest | ObserveRequiredChecks | VerifyPullRequestHead
  | MergePullRequest | ReconcileRemoteMain | RunPostMergeGate

record publication_row =
  pb_publication_id :: uuid
  pb_feature_id :: uuid
  pb_specification_revision :: nat
  pb_lifecycle_revision :: nat
  pb_feature_lease_id :: uuid
  pb_integration_id :: uuid
  pb_validation_id :: uuid
  pb_review_call_id :: uuid
  pb_candidate_commit :: string
  pb_candidate_tree :: string
  pb_candidate_diff_sha256 :: digest
  pb_evidence_manifest_sha256 :: digest
  pb_review_decision_sha256 :: digest
  pb_provider_id :: string
  pb_model_id :: string
  pb_repository_id :: uuid
  pb_feature_branch :: string
  pb_base_branch :: string
  pb_remote_base_commit :: string
  pb_branch_policy_sha256 :: digest
  pb_required_checks :: "string list"
  pb_merge_strategy :: string
  pb_post_merge_gate :: string
  pb_queue_revision :: nat
  pb_emergency_pause_revision :: nat
  pb_grants :: grant_revisions
  pb_request_binding_sha256 :: digest
  pb_started_at_ms :: nat

record publication_intent_row =
  pi_publication_id :: uuid
  pi_ordinal :: nat
  pi_action_kind :: publication_action
  pi_intent_sha256 :: digest
  pi_created_at_ms :: nat

record audit_row =
  au_event_kind :: string
  au_feature_id :: "uuid option"
  au_occurred_at_ms :: nat
  au_metadata :: json

record kernel =
  k_next_connection_epoch :: nat
  k_emergency_paused :: nat
  k_emergency_pause_revision :: nat
  k_devices :: "device_row list"
  k_certificates :: "certificate_row list"
  k_connections :: "connection_row list"
  k_steps :: "step_row list"
  k_attempts :: "attempt_row list"
  k_stream_id :: uuid
  k_next_sequence :: nat
  k_events :: "event_row list"
  k_grants :: "grant_row list"
  k_specifications :: "specification_row list"
  k_features :: "feature_row list"
  k_dependencies :: "dependency_row list"
  k_queue :: "queue_row list"
  k_transitions :: "transition_row list"
  k_owner_bridge :: owner_bridge_row
  k_active_lease :: "lease_row option"
  k_claims :: "claim_row list"
  k_queue_revision :: nat
  k_dispatches :: "dispatch_row list"
  k_artifacts :: "artifact_row list"
  k_publications :: "publication_row list"
  k_publication_intents :: "publication_intent_row list"
  k_orchestration_activated :: bool
  k_orchestration :: "orchestration_row list"
  k_checkpoints :: "checkpoint_row list"
  k_audit :: "audit_row list"

text \<open>A freshly migrated database, with the random identifier of its event stream.\<close>

definition new_kernel :: "uuid \<Rightarrow> kernel" where
  "new_kernel stream =
     \<lparr>k_next_connection_epoch = 0, k_emergency_paused = 0, k_emergency_pause_revision = 0,
      k_devices = [], k_certificates = [], k_connections = [], k_steps = [], k_attempts = [],
      k_stream_id = stream, k_next_sequence = 0, k_events = [], k_grants = [], k_specifications = [],
      k_features = [], k_dependencies = [], k_queue = [], k_transitions = [],
      k_owner_bridge = \<lparr>ob_device_id = None, ob_registry_revision = None, ob_designation_revision = 0\<rparr>,
      k_active_lease = None, k_claims = [], k_queue_revision = 0, k_dispatches = [],
      k_artifacts = [], k_publications = [], k_publication_intents = [],
      k_orchestration_activated = False, k_orchestration = [], k_checkpoints = [], k_audit = []\<rparr>"

definition MAX_ENROLLED_DEVICES :: nat where "MAX_ENROLLED_DEVICES = 16"
definition MAX_QUEUED_OR_LEASED_STEPS :: nat where "MAX_QUEUED_OR_LEASED_STEPS = 256"
definition MAX_CONCURRENT_JOBS :: nat where "MAX_CONCURRENT_JOBS = 4"
definition MAX_RETAINED_CODING_WORKSPACE_MS :: nat where
  "MAX_RETAINED_CODING_WORKSPACE_MS = 60 * 60 * 1000"
definition MAX_REVOCATION_REASON_BYTES :: nat where "MAX_REVOCATION_REASON_BYTES = 256"
definition MAX_FEATURE_CONVEYOR_ACTIVE_PROCESSING_MS :: nat where
  "MAX_FEATURE_CONVEYOR_ACTIVE_PROCESSING_MS = 24 * 60 * 60 * 1000"

section \<open>Status predicates\<close>

text \<open>\<open>in_flight\<close> is \<^verbatim>\<open>status IN ('leased', 'cancellation_pending')\<close>.\<close>

definition in_flight :: "attempt_row \<Rightarrow> bool" where
  "in_flight a = (at_status a = ALeased \<or> at_status a = ACancellationPending)"

definition nonterminal_status :: "step_status \<Rightarrow> bool" where
  "nonterminal_status s = (s = SQueued \<or> s = SLeased)"

definition leased_row :: "step_row \<Rightarrow> bool" where
  "leased_row s = (st_status s = SLeased)"

section \<open>Distributed events\<close>

record event_identity =
  ei_task_id :: "uuid option"
  ei_step_id :: "uuid option"
  ei_device_id :: "uuid option"
  ei_connection_epoch :: "nat option"

definition device_identity :: "uuid \<Rightarrow> nat \<Rightarrow> event_identity" where
  "device_identity device epoch =
     \<lparr>ei_task_id = None, ei_step_id = None, ei_device_id = Some device,
      ei_connection_epoch = Some epoch\<rparr>"

definition step_identity :: "uuid \<Rightarrow> uuid \<Rightarrow> event_identity" where
  "step_identity task step =
     \<lparr>ei_task_id = Some task, ei_step_id = Some step, ei_device_id = None,
      ei_connection_epoch = None\<rparr>"

definition attempt_identity :: "uuid \<Rightarrow> uuid \<Rightarrow> uuid \<Rightarrow> nat \<Rightarrow> event_identity" where
  "attempt_identity task step device epoch =
     \<lparr>ei_task_id = Some task, ei_step_id = Some step, ei_device_id = Some device,
      ei_connection_epoch = Some epoch\<rparr>"

definition append_event ::
    "codec \<Rightarrow> event_kind \<Rightarrow> nat \<Rightarrow> event_identity \<Rightarrow> kernel \<Rightarrow> master_error + kernel" where
  "append_event cx kind occurred_at_ms identity k =
     bindE (ok_or IntegerOutOfRange (checked_add_i64 (k_next_sequence k) 1)) (\<lambda>next_sequence.
     bindE (protocol_result (validate_event cx
       \<lparr>ev_protocol_version = PROTOCOL_VERSION,
        ev_cursor = \<lparr>cur_stream_id = k_stream_id k, cur_sequence = next_sequence\<rparr>,
        ev_occurred_at_ms = occurred_at_ms, ev_kind = kind,
        ev_task_id = ei_task_id identity, ev_step_id = ei_step_id identity,
        ev_device_id = ei_device_id identity,
        ev_connection_epoch = ei_connection_epoch identity\<rparr>)) (\<lambda>_.
     bindE (to_i64 occurred_at_ms) (\<lambda>_.
     bindE (case ei_connection_epoch identity of None \<Rightarrow> Inr () | Some e \<Rightarrow> to_i64 e) (\<lambda>_.
     bindE (reject_if Storage
       (exists_row (\<lambda>r. er_sequence r = next_sequence) (k_events k))) (\<lambda>_.
     Inr (k\<lparr>k_next_sequence := next_sequence,
            k_events := insert_row
              \<lparr>er_sequence = next_sequence, er_occurred_at_ms = occurred_at_ms, er_kind = kind,
               er_task_id = ei_task_id identity, er_step_id = ei_step_id identity,
               er_device_id = ei_device_id identity,
               er_connection_epoch = ei_connection_epoch identity\<rparr> (k_events k)\<rparr>))))))"

text \<open>Appending an event changes the event stream and nothing else.\<close>

lemma append_event_Inr:
  assumes "append_event cx kind at i k = Inr k'"
  shows "\<exists>r. k' = k\<lparr>k_next_sequence := Suc (k_next_sequence k), k_events := k_events k @ [r]\<rparr>
    \<and> er_sequence r = Suc (k_next_sequence k) \<and> er_kind r = kind \<and> er_occurred_at_ms r = at
    \<and> er_step_id r = ei_step_id i \<and> er_device_id r = ei_device_id i
    \<and> Suc (k_next_sequence k) \<le> i64_max \<and> 0 < at"
  using assms
  by (auto simp: append_event_def result_simps insert_row_def validate_event_def)

section \<open>Reads\<close>

record connection_status =
  cs_epoch :: nat
  cs_active :: bool
  cs_last_sequence :: nat

definition connection_state :: "kernel \<Rightarrow> uuid \<Rightarrow> master_error + connection_status" where
  "connection_state k device =
     (case find_row (\<lambda>c. con_device_id c = device) (k_connections k) of
        None \<Rightarrow> Inl ConnectionNotActive
      | Some c \<Rightarrow> Inr \<lparr>cs_epoch = con_epoch c, cs_active = con_active c,
                       cs_last_sequence = con_last_sequence c\<rparr>)"

definition active_connection_epoch :: "kernel \<Rightarrow> uuid \<Rightarrow> nat option" where
  "active_connection_epoch k device =
     map_option con_epoch
       (find_row (\<lambda>c. con_device_id c = device \<and> con_active c) (k_connections k))"

definition active_connections :: "kernel \<Rightarrow> (uuid \<times> nat) list" where
  "active_connections k =
     map (\<lambda>c. (con_device_id c, con_epoch c))
       (sort_key con_device_id (filter con_active (k_connections k)))"

definition load_attempt :: "kernel \<Rightarrow> uuid \<Rightarrow> attempt_row option" where
  "load_attempt k attempt = find_row (\<lambda>a. at_attempt_id a = attempt) (k_attempts k)"

definition find_step :: "kernel \<Rightarrow> uuid \<Rightarrow> step_row option" where
  "find_step k step = find_row (\<lambda>s. st_step_id s = step) (k_steps k)"

definition step_status_tx :: "kernel \<Rightarrow> uuid \<Rightarrow> master_error + step_status" where
  "step_status_tx k step = bindE (ok_or StepNotFound (find_step k step)) (\<lambda>s. Inr (st_status s))"

definition emergency_paused_tx :: "kernel \<Rightarrow> master_error + bool" where
  "emergency_paused_tx k =
     (if k_emergency_paused k = 0 then Inr False
      else if k_emergency_paused k = 1 then Inr True
      else Inl (InvalidStoredState ''emergency pause state is not boolean''))"

definition require_emergency_unpaused :: "kernel \<Rightarrow> master_error + unit" where
  "require_emergency_unpaused k =
     bindE (emergency_paused_tx k) (\<lambda>paused. reject_if EmergencyPaused paused)"

definition registered_capabilities :: "kernel \<Rightarrow> uuid \<Rightarrow> master_error + capability list" where
  "registered_capabilities k device =
     bindE (ok_or Storage
       (find_row (\<lambda>d. dev_device_id d = device \<and> \<not> dev_revoked d) (k_devices k))) (\<lambda>d.
     Inr (dev_capabilities d))"

definition capability_for_device ::
    "kernel \<Rightarrow> uuid \<Rightarrow> string \<Rightarrow> master_error + capability" where
  "capability_for_device k device capability =
     bindE (registered_capabilities k device) (\<lambda>capabilities.
     ok_or (InvalidStoredState ''leased capability is absent from the registered device'')
       (find_row (\<lambda>c. cap_id c = capability) capabilities))"

text \<open>\<^verbatim>\<open>FROM master_attempts a JOIN master_steps s ON s.step_id = a.step_id WHERE ..\<close>\<close>

definition attempts_with_task :: "(attempt_row \<Rightarrow> bool) \<Rightarrow> kernel \<Rightarrow> (uuid \<times> attempt_row) list" where
  "attempts_with_task p k =
     concat (map (\<lambda>a. case find_step k (at_step_id a) of
                        None \<Rightarrow> [] | Some s \<Rightarrow> [(st_task_id s, a)])
               (filter p (k_attempts k)))"

definition leased_steps :: "kernel \<Rightarrow> (uuid \<times> nat) option \<Rightarrow> (uuid \<times> uuid) list" where
  "leased_steps k connection =
     map (\<lambda>(task, a). (task, at_step_id a))
       (attempts_with_task
          (\<lambda>a. at_status a = ALeased
             \<and> (case connection of None \<Rightarrow> True
                | Some (device, epoch) \<Rightarrow> at_device_id a = device \<and> at_epoch a = epoch)) k)"

text \<open>\<^verbatim>\<open>ORDER BY created_at_ms ASC, step_id ASC\<close>; the text order of hyphenated lower-case UUIDs is
  their numeric order.\<close>

definition load_queued_steps :: "kernel \<Rightarrow> step_row list" where
  "load_queued_steps k =
     sort_key st_created_at_ms
       (sort_key st_step_id (filter (\<lambda>s. st_status s = SQueued) (k_steps k)))"

lemma set_load_queued_steps:
  "set (load_queued_steps k) = {s \<in> set (k_steps k). st_status s = SQueued}"
  by (auto simp: load_queued_steps_def)

lemma connection_state_Inr:
  "connection_state k d = Inr c \<longleftrightarrow>
     (\<exists>r. find_row (\<lambda>c. con_device_id c = d) (k_connections k) = Some r
        \<and> c = \<lparr>cs_epoch = con_epoch r, cs_active = con_active r, cs_last_sequence = con_last_sequence r\<rparr>)"
  by (auto simp: connection_state_def split: option.splits)

lemma find_step_Some:
  "find_step k i = Some s \<Longrightarrow> s \<in> set (k_steps k) \<and> st_step_id s = i"
  by (auto simp: find_step_def dest: find_row_Some)

lemma load_attempt_Some:
  "load_attempt k i = Some a \<Longrightarrow> a \<in> set (k_attempts k) \<and> at_attempt_id a = i"
  by (auto simp: load_attempt_def dest: find_row_Some)

lemma require_emergency_unpaused_Inr [result_simps]:
  "require_emergency_unpaused k = Inr u \<longleftrightarrow> k_emergency_paused k = 0"
  by (auto simp: require_emergency_unpaused_def emergency_paused_tx_def result_simps)

lemma set_attempts_with_task:
  "(task, a) \<in> set (attempts_with_task p k) \<longleftrightarrow>
     a \<in> set (k_attempts k) \<and> p a \<and> (\<exists>s. find_step k (at_step_id a) = Some s \<and> st_task_id s = task)"
  by (auto simp: attempts_with_task_def split: option.splits) (metis option.distinct(1) option.inject)

section \<open>Writes\<close>

text \<open>
  The updates of the kernel's tables, by table. Each is an instance of \<open>keyed_update\<close>: it leaves the
  primary key alone.
\<close>

datatype step_update =
    StepLease
  | StepRequeue
  | StepFinish step_status nat
  | StepAccept step_status json digest nat

fun apply_step_update :: "step_update \<Rightarrow> step_row \<Rightarrow> step_row" where
  "apply_step_update StepLease s = s\<lparr>st_status := SLeased\<rparr>"
| "apply_step_update StepRequeue s = s\<lparr>st_status := SQueued\<rparr>"
| "apply_step_update (StepFinish status now) s =
     s\<lparr>st_status := status, st_completed_at_ms := Some now\<rparr>"
| "apply_step_update (StepAccept status payload payload_sha256 now) s =
     s\<lparr>st_status := status, st_accepted_payload := Some payload,
       st_accepted_payload_sha256 := Some payload_sha256, st_completed_at_ms := Some now\<rparr>"

datatype attempt_update =
    AttemptClose attempt_status nat
  | AttemptResult attempt_status nat nat digest
  | AttemptPend nat nat nat
  | AttemptAck nat nat
  | AttemptDeadline nat

fun apply_attempt_update :: "attempt_update \<Rightarrow> attempt_row \<Rightarrow> attempt_row" where
  "apply_attempt_update (AttemptClose status now) a =
     a\<lparr>at_status := status, at_completed_at_ms := Some now\<rparr>"
| "apply_attempt_update (AttemptResult status now sequence payload_sha256) a =
     a\<lparr>at_status := status, at_completed_at_ms := Some now,
       at_result_sequence := Some sequence, at_payload_sha256 := Some payload_sha256\<rparr>"
| "apply_attempt_update (AttemptPend sequence now deadline) a =
     a\<lparr>at_status := ACancellationPending, at_cancellation_sequence := Some sequence,
       at_cancellation_requested_at_ms := Some now, at_cancellation_deadline_at_ms := Some deadline\<rparr>"
| "apply_attempt_update (AttemptAck sequence now) a =
     a\<lparr>at_status := ACancelled, at_completed_at_ms := Some now,
       at_cancellation_ack_sequence := Some sequence\<rparr>"
| "apply_attempt_update (AttemptDeadline now) a = a\<lparr>at_cancellation_deadline_at_ms := Some now\<rparr>"

datatype connection_update =
    ConnectionSequence nat
  | ConnectionClose nat
  | ConnectionReopen nat nat

fun apply_connection_update :: "connection_update \<Rightarrow> connection_row \<Rightarrow> connection_row" where
  "apply_connection_update (ConnectionSequence sequence) c = c\<lparr>con_last_sequence := sequence\<rparr>"
| "apply_connection_update (ConnectionClose now) c =
     c\<lparr>con_active := False, con_disconnected_at_ms := Some now\<rparr>"
| "apply_connection_update (ConnectionReopen epoch now) c =
     c\<lparr>con_epoch := epoch, con_active := True, con_last_sequence := 0,
       con_connected_at_ms := now, con_disconnected_at_ms := None\<rparr>"

definition update_steps :: "(step_row \<Rightarrow> bool) \<Rightarrow> step_update \<Rightarrow> kernel \<Rightarrow> kernel" where
  "update_steps p u k = k\<lparr>k_steps := update_rows p (apply_step_update u) (k_steps k)\<rparr>"

definition update_attempts :: "(attempt_row \<Rightarrow> bool) \<Rightarrow> attempt_update \<Rightarrow> kernel \<Rightarrow> kernel" where
  "update_attempts p u k = k\<lparr>k_attempts := update_rows p (apply_attempt_update u) (k_attempts k)\<rparr>"

definition update_connections ::
    "(connection_row \<Rightarrow> bool) \<Rightarrow> connection_update \<Rightarrow> kernel \<Rightarrow> kernel" where
  "update_connections p u k =
     k\<lparr>k_connections := update_rows p (apply_connection_update u) (k_connections k)\<rparr>"

lemma step_update_key: "st_step_id (apply_step_update u s) = st_step_id s"
  by (cases u) simp_all

lemma attempt_update_key: "at_attempt_id (apply_attempt_update u a) = at_attempt_id a"
  by (cases u) simp_all

lemma connection_update_key: "con_device_id (apply_connection_update u c) = con_device_id c"
  by (cases u) simp_all

interpretation step_table: keyed_update st_step_id apply_step_update
  by unfold_locales (rule step_update_key)

interpretation attempt_table: keyed_update at_attempt_id apply_attempt_update
  by unfold_locales (rule attempt_update_key)

interpretation connection_table: keyed_update con_device_id apply_connection_update
  by unfold_locales (rule connection_update_key)

end
