(* ===== verification/Master_Devices.thy ===== *)
theory Master_Devices
  imports Master_State
begin

text \<open>
  Device operations of the master kernel: registration, handshake, disconnection and revocation,
  with the clean-up of a device's attempts (\<^verbatim>\<open>register_device\<close>, \<^verbatim>\<open>accept_handshake\<close>,
  \<^verbatim>\<open>disconnect_device_tx\<close>, \<^verbatim>\<open>revoke_device_with_reason\<close> of \<^verbatim>\<open>assemblywright-master/src/lib.rs\<close>).
\<close>

section \<open>Registration\<close>

definition register_device :: "codec \<Rightarrow> device_row \<Rightarrow> kernel \<Rightarrow> master_error + kernel" where
  "register_device cx registration k =
     bindE (protocol_result (validate_handshake cx
       \<lparr>hs_protocol_version = PROTOCOL_VERSION,
        hs_device_id = dev_device_id registration,
        hs_device_name = dev_name registration,
        hs_role = dev_role registration,
        hs_registry_revision = dev_registry_revision registration,
        hs_capabilities = dev_capabilities registration\<rparr>)) (\<lambda>_.
     bindE (reject_if EnrolledDeviceLimit (length (k_devices k) \<ge> MAX_ENROLLED_DEVICES)) (\<lambda>_.
     bindE (to_i64 (dev_registry_revision registration)) (\<lambda>_.
     bindE (reject_if DeviceAlreadyRegistered
       (exists_row (\<lambda>d. dev_device_id d = dev_device_id registration) (k_devices k))) (\<lambda>_.
     Inr (k\<lparr>k_devices := insert_row (registration\<lparr>dev_revoked := False\<rparr>) (k_devices k)\<rparr>)))))"

section \<open>Handshake\<close>

definition capabilities_match :: "capability list \<Rightarrow> capability list \<Rightarrow> bool" where
  "capabilities_match expected actual =
     (length expected = length actual
      \<and> list_all (\<lambda>e. list_ex (\<lambda>a. a = e) actual) expected)"

definition rejected_handshake :: "codec \<Rightarrow> nat \<Rightarrow> string \<Rightarrow> master_error + handshake_response" where
  "rejected_handshake cx accepted_registry_revision reason =
     (let response =
        \<lparr>hr_protocol_version = PROTOCOL_VERSION, hr_status = HsRejected, hr_connection_epoch = 0,
         hr_accepted_registry_revision = accepted_registry_revision,
         hr_reason_code = Some reason\<rparr> in
      bindE (protocol_result (validate_handshake_response cx response)) (\<lambda>_. Inr response))"

text \<open>A rejection answers \<^verbatim>\<open>Ok\<close> with the transaction dropped: the state is unchanged.\<close>

definition reject_handshake ::
    "codec \<Rightarrow> kernel \<Rightarrow> nat \<Rightarrow> string \<Rightarrow> master_error + kernel \<times> handshake_response" where
  "reject_handshake cx k revision reason =
     bindE (rejected_handshake cx revision reason) (\<lambda>response. Inr (k, response))"

definition upsert_connection :: "uuid \<Rightarrow> nat \<Rightarrow> nat \<Rightarrow> kernel \<Rightarrow> kernel" where
  "upsert_connection device epoch now_ms k =
     (if exists_row (\<lambda>c. con_device_id c = device) (k_connections k)
      then update_connections (\<lambda>c. con_device_id c = device) (ConnectionReopen epoch now_ms) k
      else k\<lparr>k_connections := insert_row
             \<lparr>con_device_id = device, con_epoch = epoch, con_active = True, con_last_sequence = 0,
              con_connected_at_ms = now_ms, con_disconnected_at_ms = None\<rparr> (k_connections k)\<rparr>)"

definition open_connection ::
    "codec \<Rightarrow> uuid \<Rightarrow> nat \<Rightarrow> nat \<Rightarrow> kernel \<Rightarrow> master_error + kernel \<times> handshake_response" where
  "open_connection cx device stored_revision now_ms k =
     bindE (ok_or IntegerOutOfRange (checked_add_i64 (k_next_connection_epoch k) 1)) (\<lambda>next_epoch.
     bindE (to_i64 now_ms) (\<lambda>_.
     bindE (reject_if Storage
       (exists_row (\<lambda>c. con_epoch c = next_epoch \<and> con_device_id c \<noteq> device) (k_connections k))) (\<lambda>_.
     bindE (append_event cx DeviceConnected now_ms (device_identity device next_epoch)
       (upsert_connection device next_epoch now_ms (k\<lparr>k_next_connection_epoch := next_epoch\<rparr>))) (\<lambda>k'.
     (let response =
        \<lparr>hr_protocol_version = PROTOCOL_VERSION, hr_status = HsAccepted,
         hr_connection_epoch = next_epoch, hr_accepted_registry_revision = stored_revision,
         hr_reason_code = None\<rparr> in
      bindE (protocol_result (validate_handshake_response cx response)) (\<lambda>_.
      Inr (k', response)))))))"

definition accept_handshake ::
    "codec \<Rightarrow> handshake_request \<Rightarrow> nat \<Rightarrow> kernel \<Rightarrow> master_error + kernel \<times> handshake_response" where
  "accept_handshake cx h now_ms k =
     bindE (protocol_result (validate_handshake cx h)) (\<lambda>_.
     (case find_row (\<lambda>d. dev_device_id d = hs_device_id h) (k_devices k) of
        None \<Rightarrow> reject_handshake cx k 0 ''unknown_device''
      | Some d \<Rightarrow>
          if dev_revoked d then
            reject_handshake cx k (hs_registry_revision h) ''revoked_device''
          else if dev_name d \<noteq> hs_device_name h \<or> dev_role d \<noteq> hs_role h then
            reject_handshake cx k (hs_registry_revision h) ''identity_mismatch''
          else if dev_registry_revision d \<noteq> hs_registry_revision h then
            reject_handshake cx k (dev_registry_revision d) ''registry_mismatch''
          else if \<not> capabilities_match (dev_capabilities d) (hs_capabilities h) then
            reject_handshake cx k (dev_registry_revision d) ''capability_mismatch''
          else if active_connection_epoch k (hs_device_id h) \<noteq> None then
            reject_handshake cx k (dev_registry_revision d) ''duplicate_active_connection''
          else open_connection cx (hs_device_id h) (dev_registry_revision d) now_ms k))"

section \<open>Disconnection\<close>

record reconciliation =
  rc_disconnected_connections :: nat
  rc_abandoned_attempts :: nat
  rc_requeued_steps :: nat

text \<open>The loop that puts steps back in the queue, one event for each.\<close>

definition requeue_step ::
    "codec \<Rightarrow> nat \<Rightarrow> uuid \<times> uuid \<Rightarrow> kernel \<times> nat \<Rightarrow> master_error + kernel \<times> nat" where
  "requeue_step cx now_ms item st =
     (case item of (task, step) \<Rightarrow> case st of (k, requeued) \<Rightarrow>
      (let hit = (\<lambda>s. st_step_id s = step \<and> st_status s = SLeased);
           changed = count_rows hit (k_steps k);
           k1 = update_steps hit StepRequeue k in
       if changed = 1
       then bindE (append_event cx StepQueued now_ms (step_identity task step) k1)
              (\<lambda>k2. Inr (k2, Suc requeued))
       else Inr (k1, requeued)))"

definition requeue_steps ::
    "codec \<Rightarrow> nat \<Rightarrow> (uuid \<times> uuid) list \<Rightarrow> kernel \<Rightarrow> master_error + kernel \<times> nat" where
  "requeue_steps cx now_ms steps k = forE (requeue_step cx now_ms) steps (k, 0)"

text \<open>The attempt of this connection that waits for a cancellation to be acknowledged, closed.\<close>

definition close_pending_cancellation ::
    "codec \<Rightarrow> uuid \<Rightarrow> nat \<Rightarrow> nat \<Rightarrow> kernel \<Rightarrow> master_error + kernel \<times> nat" where
  "close_pending_cancellation cx device epoch now_ms k =
     (case attempts_with_task (\<lambda>a. at_device_id a = device \<and> at_epoch a = epoch
             \<and> at_status a = ACancellationPending) k of
        [] \<Rightarrow> Inr (k, 0)
      | (task, a) # _ \<Rightarrow>
          bindE (to_i64 now_ms) (\<lambda>_.
          (let step = at_step_id a;
               hit = (\<lambda>b. at_step_id b = step \<and> at_status b = ACancellationPending);
               cancelled = count_rows hit (k_attempts k);
               k1 = update_attempts hit (AttemptClose AAbandoned now_ms) k;
               k2 = update_steps (\<lambda>s. st_step_id s = step \<and> st_status s = SLeased)
                      (StepFinish SCancelled now_ms) k1 in
           bindE (append_event cx StepCancellationExpired now_ms
                    (attempt_identity task step device epoch) k2) (\<lambda>k3.
           bindE (append_event cx StepCancelled now_ms (step_identity task step) k3) (\<lambda>k4.
           Inr (k4, cancelled))))))"

definition disconnect_device_tx ::
    "codec \<Rightarrow> uuid \<Rightarrow> nat \<Rightarrow> nat \<Rightarrow> kernel \<Rightarrow> master_error + kernel \<times> reconciliation" where
  "disconnect_device_tx cx device epoch now_ms k =
     bindE (connection_state k device) (\<lambda>connection.
     bindE (reject_if ConnectionNotActive (\<not> cs_active connection)) (\<lambda>_.
     bindE (reject_if ConnectionEpochMismatch (cs_epoch connection \<noteq> epoch)) (\<lambda>_.
     bindE (to_i64 epoch) (\<lambda>_.
     bindE (close_pending_cancellation cx device epoch now_ms k) (\<lambda>(k1, cancelled_pending).
     bindE (to_i64 now_ms) (\<lambda>_.
     (let steps = leased_steps k1 (Some (device, epoch));
          hit = (\<lambda>a. at_device_id a = device \<and> at_epoch a = epoch \<and> at_status a = ALeased);
          abandoned = count_rows hit (k_attempts k1);
          k2 = update_attempts hit (AttemptClose AAbandoned now_ms) k1;
          here = (\<lambda>c. con_device_id c = device \<and> con_epoch c = epoch \<and> con_active c);
          disconnected = count_rows here (k_connections k2);
          k3 = update_connections here (ConnectionClose now_ms) k2 in
      bindE (if disconnected = 1
             then append_event cx DeviceDisconnected now_ms (device_identity device epoch) k3
             else Inr k3) (\<lambda>k4.
      bindE (requeue_steps cx now_ms steps k4) (\<lambda>(k5, requeued).
      Inr (k5, \<lparr>rc_disconnected_connections = disconnected,
                rc_abandoned_attempts = abandoned + cancelled_pending,
                rc_requeued_steps = requeued\<rparr>))))))))))"

definition disconnect_device ::
    "codec \<Rightarrow> uuid \<Rightarrow> nat \<Rightarrow> nat \<Rightarrow> kernel \<Rightarrow> master_error + kernel \<times> reconciliation" where
  "disconnect_device cx device epoch now_ms k = disconnect_device_tx cx device epoch now_ms k"

section \<open>Revocation\<close>

definition validate_revocation_reason :: "string \<Rightarrow> master_error + unit" where
  "validate_revocation_reason reason =
     reject_if InvalidRevocationReason
       (reason = [] \<or> length reason > MAX_REVOCATION_REASON_BYTES \<or> has_control reason)"

definition revoke_certificates :: "uuid \<Rightarrow> nat \<Rightarrow> string \<Rightarrow> kernel \<Rightarrow> kernel" where
  "revoke_certificates device now_ms reason k =
     k\<lparr>k_certificates := update_rows
         (\<lambda>c. cert_device_id c = device \<and> cert_revoked_at_ms c = None)
         (\<lambda>c. c\<lparr>cert_revoked_at_ms := Some now_ms, cert_revocation_reason := Some reason\<rparr>)
         (k_certificates k)\<rparr>"

definition revoke_device_with_reason ::
    "codec \<Rightarrow> uuid \<Rightarrow> nat \<Rightarrow> string \<Rightarrow> kernel \<Rightarrow> master_error + kernel" where
  "revoke_device_with_reason cx device now_ms reason k =
     bindE (validate_revocation_reason reason) (\<lambda>_.
     bindE (reject_if DeviceNotRegistered
       (count_rows (\<lambda>d. dev_device_id d = device) (k_devices k) = 0)) (\<lambda>_.
     bindE (to_i64 now_ms) (\<lambda>_.
     (let k1 = k\<lparr>k_devices := update_rows (\<lambda>d. dev_device_id d = device)
                   (\<lambda>d. d\<lparr>dev_revoked := True\<rparr>) (k_devices k)\<rparr>;
          k2 = revoke_certificates device now_ms reason k1 in
      case active_connection_epoch k2 device of
        None \<Rightarrow> Inr k2
      | Some epoch \<Rightarrow>
          bindE (disconnect_device_tx cx device epoch now_ms k2) (\<lambda>(k3, _). Inr k3)))))"

definition revoke_device :: "codec \<Rightarrow> uuid \<Rightarrow> nat \<Rightarrow> kernel \<Rightarrow> master_error + kernel" where
  "revoke_device cx device now_ms k =
     revoke_device_with_reason cx device now_ms ''device_revoked'' k"

end
