(* ===== verification/Master_Leases.thy ===== *)
theory Master_Leases
  imports Master_Devices
begin

text \<open>
  Queueing and leasing: \<^verbatim>\<open>enqueue_step\<close>, \<^verbatim>\<open>lease_next_step_bound\<close>, the two deadline
  reconciliations and the binding of a coding step to its feature
  (\<^verbatim>\<open>assemblywright-master/src/lib.rs\<close>). The identifiers that \<^verbatim>\<open>Uuid::new_v4\<close> draws are arguments.
\<close>

section \<open>Remote work contracts\<close>

datatype remote_work_contract =
    ContractFixture
  | ContractMlx capability
  | ContractLocalCoding

definition contract_from_registration :: "device_row \<Rightarrow> master_error + remote_work_contract" where
  "contract_from_registration r =
     (case dev_capabilities r of
        [c] \<Rightarrow>
          bindE (protocol_result (validate_capability c)) (\<lambda>_.
          if c = fixture_reasoning then Inr ContractFixture
          else if cap_id c = MLX_REASONING_CAPABILITY_ID then Inr (ContractMlx c)
          else if dev_role r = InferenceWorker \<and> c = local_coding then Inr ContractLocalCoding
          else Inl InvalidRemoteWorkContract)
      | _ \<Rightarrow> Inl InvalidRemoteWorkContract)"

definition contract_capability :: "remote_work_contract \<Rightarrow> capability" where
  "contract_capability contract =
     (case contract of ContractFixture \<Rightarrow> fixture_reasoning
        | ContractMlx c \<Rightarrow> c | ContractLocalCoding \<Rightarrow> local_coding)"

definition contract_validate_job ::
    "codec \<Rightarrow> remote_work_contract \<Rightarrow> job_envelope \<Rightarrow> master_error + unit" where
  "contract_validate_job cx contract j =
     (case contract of
        ContractFixture \<Rightarrow> bindE (protocol_result (validate_fixture_reasoning cx j)) (\<lambda>_. Inr ())
      | ContractMlx c \<Rightarrow>
          bindE (protocol_result (validate_mlx_reasoning cx j)) (\<lambda>_.
          reject_if InvalidRemoteWorkContract (job_selected_model j \<noteq> cap_model c))
      | ContractLocalCoding \<Rightarrow>
          bindE (protocol_result (validate_local_coding cx j)) (\<lambda>_. Inr ()))"

definition contract_validate_result ::
    "codec \<Rightarrow> remote_work_contract \<Rightarrow> job_result \<Rightarrow> job_envelope \<Rightarrow> master_error + unit" where
  "contract_validate_result cx contract r j =
     (case contract of
        ContractFixture \<Rightarrow> protocol_result (validate_fixture_result cx r j)
      | ContractMlx c \<Rightarrow>
          bindE (protocol_result (validate_mlx_result cx r j)) (\<lambda>_.
          reject_if InvalidRemoteWorkContract (job_selected_model j \<noteq> cap_model c))
      | ContractLocalCoding \<Rightarrow> protocol_result (validate_coding_result cx r j))"

section \<open>Queueing\<close>

record new_step =
  ns_task_id :: uuid
  ns_step_id :: uuid
  ns_capability_id :: string
  ns_sensitivity :: sensitivity
  ns_context :: json
  ns_lease_duration_ms :: nat
  ns_deadline_after_ms :: nat

definition validate_new_step :: "codec \<Rightarrow> new_step \<Rightarrow> master_error + unit" where
  "validate_new_step cx s =
     bindE (reject_if NilStepIdentifier (ns_task_id s = 0 \<or> ns_step_id s = 0)) (\<lambda>_.
     bindE (reject_if InvalidCapabilityIdentifier
       (ns_capability_id s = []
        \<or> length (ns_capability_id s) > MAX_CAPABILITY_ID_BYTES
        \<or> trim (ns_capability_id s) \<noteq> ns_capability_id s
        \<or> \<not> list_all (\<lambda>b. is_graphic b \<and> \<not> is_ascii_control b) (ns_capability_id s))) (\<lambda>_.
     bindE (reject_if FeatureCodingDispatchUnavailable
       (ns_capability_id s = LOCAL_CODING_CAPABILITY_ID)) (\<lambda>_.
     bindE (reject_if InvalidStepContext (\<not> is_ok (validate_object ''context'' (ns_context s)))) (\<lambda>_.
     bindE (reject_if InvalidStepContext
       (length (json_bytes cx (ns_context s)) > MAX_JOB_CONTEXT_BYTES)) (\<lambda>_.
     bindE (reject_if InvalidLeaseDuration
       (ns_lease_duration_ms s = 0 \<or> ns_lease_duration_ms s > MAX_LEASE_DURATION_MS)) (\<lambda>_.
     reject_if InvalidStepDeadline
       (ns_deadline_after_ms s = 0 \<or> ns_deadline_after_ms s > MAX_STEP_DEADLINE_MS)))))))"

definition queued_row :: "codec \<Rightarrow> new_step \<Rightarrow> nat \<Rightarrow> step_row" where
  "queued_row cx s now_ms =
     \<lparr>st_task_id = ns_task_id s, st_step_id = ns_step_id s, st_status = SQueued,
      st_capability_id = ns_capability_id s, st_sensitivity = ns_sensitivity s,
      st_context = ns_context s,
      st_context_sha256 = sha256 cx (json_bytes cx (ns_context s)),
      st_lease_duration_ms = ns_lease_duration_ms s,
      st_deadline_after_ms = ns_deadline_after_ms s, st_created_at_ms = now_ms,
      st_accepted_payload = None, st_accepted_payload_sha256 = None, st_completed_at_ms = None\<rparr>"

definition enqueue_step :: "codec \<Rightarrow> new_step \<Rightarrow> nat \<Rightarrow> kernel \<Rightarrow> master_error + kernel" where
  "enqueue_step cx s now_ms k =
     bindE (validate_new_step cx s) (\<lambda>_.
     bindE (reject_if StepAlreadyExists
       (exists_row (\<lambda>r. st_step_id r = ns_step_id s) (k_steps k))) (\<lambda>_.
     bindE (reject_if QueueFull
       (count_rows (\<lambda>r. nonterminal_status (st_status r)) (k_steps k)
          \<ge> MAX_QUEUED_OR_LEASED_STEPS)) (\<lambda>_.
     bindE (to_i64 (ns_lease_duration_ms s)) (\<lambda>_.
     bindE (to_i64 (ns_deadline_after_ms s)) (\<lambda>_.
     bindE (to_i64 now_ms) (\<lambda>_.
     append_event cx StepQueued now_ms (step_identity (ns_task_id s) (ns_step_id s))
       (k\<lparr>k_steps := insert_row (queued_row cx s now_ms) (k_steps k)\<rparr>)))))))"

section \<open>Deadlines\<close>

record lease_reconciliation =
  lr_expired_attempts :: nat
  lr_requeued_steps :: nat

definition expire_lease ::
    "codec \<Rightarrow> nat \<Rightarrow> uuid \<times> attempt_row \<Rightarrow> kernel \<times> nat \<Rightarrow> master_error + kernel \<times> nat" where
  "expire_lease cx now_ms item st =
     (case item of (task, a) \<Rightarrow> case st of (k, requeued) \<Rightarrow>
      bindE (append_event cx StepLeaseExpired now_ms
        (attempt_identity task (at_step_id a) (at_device_id a) (at_epoch a)) k) (\<lambda>k1.
      requeue_step cx now_ms (task, at_step_id a) (k1, requeued)))"

definition lease_expired_by :: "nat \<Rightarrow> attempt_row \<Rightarrow> bool" where
  "lease_expired_by now_ms a = (at_status a = ALeased \<and> at_lease_expires_at_ms a \<le> now_ms)"

definition reconcile_expired_leases_tx ::
    "codec \<Rightarrow> nat \<Rightarrow> kernel \<Rightarrow> master_error + kernel \<times> lease_reconciliation" where
  "reconcile_expired_leases_tx cx now_ms k =
     bindE (to_i64 now_ms) (\<lambda>_.
     (let expired = attempts_with_task (lease_expired_by now_ms) k;
          changed = count_rows (lease_expired_by now_ms) (k_attempts k);
          k1 = update_attempts (lease_expired_by now_ms) (AttemptClose AExpired now_ms) k in
      bindE (forE (expire_lease cx now_ms) expired (k1, 0)) (\<lambda>(k2, requeued).
      Inr (k2, \<lparr>lr_expired_attempts = changed, lr_requeued_steps = requeued\<rparr>))))"

definition cancellation_overdue :: "nat \<Rightarrow> attempt_row \<Rightarrow> bool" where
  "cancellation_overdue now_ms a =
     (at_status a = ACancellationPending
      \<and> (case at_cancellation_deadline_at_ms a of None \<Rightarrow> False | Some d \<Rightarrow> d \<le> now_ms))"

definition expire_cancellation ::
    "codec \<Rightarrow> nat \<Rightarrow> uuid \<times> attempt_row \<Rightarrow> kernel \<times> nat \<Rightarrow> master_error + kernel \<times> nat" where
  "expire_cancellation cx now_ms item st =
     (case item of (task, a) \<Rightarrow> case st of (k, expired) \<Rightarrow>
      (let hit = (\<lambda>b. at_attempt_id b = at_attempt_id a \<and> at_status b = ACancellationPending);
           changed = count_rows hit (k_attempts k);
           k1 = update_attempts hit (AttemptClose AAbandoned now_ms) k in
       if changed \<noteq> 1 then Inr (k1, expired)
       else
         (let k2 = update_steps (\<lambda>s. st_step_id s = at_step_id a \<and> st_status s = SLeased)
                     (StepFinish SCancelled now_ms) k1 in
          bindE (append_event cx StepCancellationExpired now_ms
            (attempt_identity task (at_step_id a) (at_device_id a) (at_epoch a)) k2) (\<lambda>k3.
          bindE (append_event cx StepCancelled now_ms (step_identity task (at_step_id a)) k3) (\<lambda>k4.
          bindE (disconnect_device_tx cx (at_device_id a) (at_epoch a) now_ms k4) (\<lambda>(k5, _).
          Inr (k5, Suc expired)))))))"

definition reconcile_cancellation_deadlines_tx ::
    "codec \<Rightarrow> nat \<Rightarrow> kernel \<Rightarrow> master_error + kernel \<times> nat" where
  "reconcile_cancellation_deadlines_tx cx now_ms k =
     bindE (to_i64 now_ms) (\<lambda>_.
     forE (expire_cancellation cx now_ms) (attempts_with_task (cancellation_overdue now_ms) k) (k, 0))"

definition reconcile_expired_leases ::
    "codec \<Rightarrow> nat \<Rightarrow> kernel \<Rightarrow> master_error + kernel \<times> lease_reconciliation" where
  "reconcile_expired_leases cx now_ms k = reconcile_expired_leases_tx cx now_ms k"

definition reconcile_cancellation_deadlines ::
    "codec \<Rightarrow> nat \<Rightarrow> kernel \<Rightarrow> master_error + kernel \<times> nat" where
  "reconcile_cancellation_deadlines cx now_ms k = reconcile_cancellation_deadlines_tx cx now_ms k"

section \<open>The binding of a coding step\<close>

text \<open>
  \<^verbatim>\<open>coding_job_binding_is_current_tx\<close>: the dispatch, the device, the feature, the active lease, the
  snapshot claim, the queue and the pause revision all still say what the step's context says.
\<close>

definition dispatch_is_current ::
    "kernel \<Rightarrow> coding_request \<Rightarrow> uuid \<Rightarrow> uuid \<Rightarrow> dispatch_row \<Rightarrow> bool" where
  "dispatch_is_current k context step device d =
     (dp_step_id d = step \<and> dp_device_id d = device
      \<and> dp_device_registry_revision d = cr_device_registry_revision context
      \<and> exists_row (\<lambda>v. dev_device_id v = dp_device_id d \<and> \<not> dev_revoked v
          \<and> dev_registry_revision v = cr_device_registry_revision context) (k_devices k)
      \<and> dp_feature_id d = cr_feature_id context
      \<and> dp_specification_revision d = cr_specification_revision context
      \<and> exists_row (\<lambda>f. ft_feature_id f = dp_feature_id d
          \<and> ft_current_specification_revision f = cr_specification_revision context
          \<and> ft_lifecycle_revision f = cr_lifecycle_revision context
          \<and> ft_status f = FImplementing) (k_features k)
      \<and> dp_lifecycle_revision d = cr_lifecycle_revision context
      \<and> (case k_active_lease k of None \<Rightarrow> False
         | Some l \<Rightarrow> fl_feature_id l = dp_feature_id d \<and> fl_lease_id l = dp_feature_lease_id d
             \<and> fl_snapshot_id l = Some (dp_snapshot_id d))
      \<and> exists_row (\<lambda>c. cl_snapshot_id c = dp_snapshot_id d
          \<and> cl_snapshot_sha256 c = dp_snapshot_sha256 d) (k_claims k)
      \<and> dp_feature_lease_id d = cr_feature_lease_id context
      \<and> dp_snapshot_id d = cr_snapshot_id context
      \<and> dp_snapshot_sha256 d = cr_snapshot_sha256 context
      \<and> dp_work_packet_sha256 d = cr_work_packet_sha256 context
      \<and> dp_queue_revision d = cr_queue_revision context
      \<and> k_queue_revision k = cr_queue_revision context
      \<and> dp_emergency_pause_revision d = cr_emergency_pause_revision context
      \<and> k_emergency_pause_revision k = cr_emergency_pause_revision context)"

definition coding_job_binding_is_current ::
    "codec \<Rightarrow> kernel \<Rightarrow> coding_request \<Rightarrow> uuid \<Rightarrow> uuid \<Rightarrow> master_error + bool" where
  "coding_job_binding_is_current cx k context step device =
     (if \<not> is_ok (validate_coding_request cx context) \<or> cr_device_id context \<noteq> device then Inr False
      else
        bindE (to_i64 (cr_device_registry_revision context)) (\<lambda>_.
        bindE (to_i64 (cr_specification_revision context)) (\<lambda>_.
        bindE (to_i64 (cr_lifecycle_revision context)) (\<lambda>_.
        bindE (to_i64 (cr_queue_revision context)) (\<lambda>_.
        bindE (to_i64 (cr_emergency_pause_revision context)) (\<lambda>_.
        Inr (exists_row (dispatch_is_current k context step device) (k_dispatches k))))))))"

definition coding_step_binding_is_current ::
    "codec \<Rightarrow> kernel \<Rightarrow> step_row \<Rightarrow> uuid \<Rightarrow> master_error + bool" where
  "coding_step_binding_is_current cx k s device =
     (case decode_coding_request cx (st_context s) of
        None \<Rightarrow> Inr False
      | Some context \<Rightarrow>
          if \<not> is_ok (validate_coding_request cx context) \<or> cr_device_id context \<noteq> device
          then Inr False
          else coding_job_binding_is_current cx k context (st_step_id s) device)"

section \<open>Leasing\<close>

text \<open>The loop over the queue: the first step the device may run, with the capability it runs under.\<close>

fun select_step ::
    "codec \<Rightarrow> kernel \<Rightarrow> uuid \<Rightarrow> remote_work_contract option \<Rightarrow> capability list \<Rightarrow> step_row list
       \<Rightarrow> master_error + (step_row \<times> capability) option" where
  "select_step cx k device contract capabilities [] = Inr None"
| "select_step cx k device contract capabilities (s # rest) =
     (case find_row (\<lambda>c. cap_id c = st_capability_id s
             \<and> length (json_bytes cx (st_context s)) \<le> cap_max_context_bytes c) capabilities of
        None \<Rightarrow> select_step cx k device contract capabilities rest
      | Some c \<Rightarrow>
          if cap_id c = LOCAL_CODING_CAPABILITY_ID \<and> contract \<noteq> Some ContractLocalCoding
          then select_step cx k device contract capabilities rest
          else if cap_id c = LOCAL_CODING_CAPABILITY_ID
          then bindE (coding_step_binding_is_current cx k s device) (\<lambda>current.
                 if current then Inr (Some (s, c))
                 else select_step cx k device contract capabilities rest)
          else Inr (Some (s, c)))"

record fresh_ids =
  fi_attempt_id :: uuid
  fi_lease_id :: uuid
  fi_cancellation_id :: uuid

definition lease_job ::
    "step_row \<Rightarrow> capability \<Rightarrow> nat \<Rightarrow> nat \<Rightarrow> fresh_ids \<Rightarrow> job_envelope" where
  "lease_job s c epoch sequence ids =
     \<lparr>job_protocol_version = PROTOCOL_VERSION,
      job_connection_epoch = epoch,
      job_sequence = sequence,
      job_task_id = st_task_id s,
      job_step_id = st_step_id s,
      job_attempt_id = fi_attempt_id ids,
      job_lease_id = fi_lease_id ids,
      job_cancellation_id = fi_cancellation_id ids,
      job_capability_id = cap_id c,
      job_selected_model = cap_model c,
      job_sensitivity = st_sensitivity s,
      job_context_handling =
        (if cap_id c = LOCAL_CODING_CAPABILITY_ID then SealedUntilResolvedOrExpired
         else EphemeralNoRetention),
      job_lease_duration_ms = st_lease_duration_ms s,
      job_deadline_after_ms = st_deadline_after_ms s,
      job_context_sha256 = st_context_sha256 s,
      job_context = st_context s\<rparr>"

definition leased_attempt :: "job_envelope \<Rightarrow> uuid \<Rightarrow> nat \<Rightarrow> nat \<Rightarrow> attempt_row" where
  "leased_attempt j device now_ms lease_expires_at_ms =
     \<lparr>at_attempt_id = job_attempt_id j, at_step_id = job_step_id j, at_device_id = device,
      at_epoch = job_connection_epoch j, at_lease_id = job_lease_id j,
      at_cancellation_id = job_cancellation_id j, at_status = ALeased, at_job = j,
      at_leased_at_ms = now_ms, at_lease_expires_at_ms = lease_expires_at_ms,
      at_completed_at_ms = None, at_result_sequence = None, at_payload_sha256 = None,
      at_cancellation_sequence = None, at_cancellation_requested_at_ms = None,
      at_cancellation_deadline_at_ms = None, at_cancellation_ack_sequence = None\<rparr>"

text \<open>The writes of a lease: the attempt row, the step's status, the connection's sequence.\<close>

definition commit_lease ::
    "codec \<Rightarrow> step_row \<Rightarrow> job_envelope \<Rightarrow> uuid \<Rightarrow> nat \<Rightarrow> nat \<Rightarrow> kernel \<Rightarrow> master_error + kernel" where
  "commit_lease cx s j device now_ms lease_expires_at_ms k =
     bindE (to_i64 (job_connection_epoch j)) (\<lambda>_.
     bindE (to_i64 now_ms) (\<lambda>_.
     bindE (to_i64 lease_expires_at_ms) (\<lambda>_.
     bindE (reject_if Storage
       (exists_row (\<lambda>a. at_attempt_id a = job_attempt_id j \<or> at_lease_id a = job_lease_id j
          \<or> at_cancellation_id a = job_cancellation_id j) (k_attempts k))) (\<lambda>_.
     (let k1 = k\<lparr>k_attempts :=
                  insert_row (leased_attempt j device now_ms lease_expires_at_ms) (k_attempts k)\<rparr>;
          hit = (\<lambda>r. st_step_id r = st_step_id s \<and> st_status r = SQueued) in
      bindE (reject_if (InvalidStoredState ''queued step changed before lease commit'')
        (count_rows hit (k_steps k1) \<noteq> 1)) (\<lambda>_.
      (let k2 = update_steps hit StepLease k1;
           here = (\<lambda>c. con_device_id c = device \<and> con_epoch c = job_connection_epoch j
                     \<and> con_active c) in
       bindE (to_i64 (job_sequence j)) (\<lambda>_.
       bindE (reject_if ConnectionNotActive (count_rows here (k_connections k2) \<noteq> 1)) (\<lambda>_.
       append_event cx StepLeased now_ms
         (attempt_identity (job_task_id j) (job_step_id j) device (job_connection_epoch j))
         (update_connections here (ConnectionSequence (job_sequence j)) k2))))))))))"

definition lease_next_step_bound ::
    "codec \<Rightarrow> uuid \<Rightarrow> nat \<Rightarrow> nat \<Rightarrow> remote_work_contract option \<Rightarrow> fresh_ids \<Rightarrow> kernel
       \<Rightarrow> master_error + kernel \<times> job_envelope" where
  "lease_next_step_bound cx device epoch now_ms contract ids k0 =
     bindE (require_emergency_unpaused k0) (\<lambda>_.
     bindE (reconcile_expired_leases_tx cx now_ms k0) (\<lambda>(k, _).
     bindE (connection_state k device) (\<lambda>connection.
     bindE (reject_if ConnectionNotActive (\<not> cs_active connection)) (\<lambda>_.
     bindE (reject_if ConnectionEpochMismatch (cs_epoch connection \<noteq> epoch)) (\<lambda>_.
     bindE (to_i64 epoch) (\<lambda>_.
     bindE (reject_if DeviceAlreadyLeased
       (count_rows (\<lambda>a. at_device_id a = device \<and> at_epoch a = epoch \<and> in_flight a)
          (k_attempts k) \<noteq> 0)) (\<lambda>_.
     bindE (reject_if ConcurrentJobLimit
       (count_rows in_flight (k_attempts k) \<ge> MAX_CONCURRENT_JOBS)) (\<lambda>_.
     bindE (registered_capabilities k device) (\<lambda>capabilities.
     bindE (case contract of None \<Rightarrow> Inr ()
            | Some c \<Rightarrow> reject_if InvalidRemoteWorkContract (capabilities \<noteq> [contract_capability c])) (\<lambda>_.
     bindE (select_step cx k device contract capabilities (load_queued_steps k)) (\<lambda>selected.
     bindE (ok_or NoEligibleStep selected) (\<lambda>(s, c).
     bindE (ok_or IntegerOutOfRange (checked_add_u64 (cs_last_sequence connection) 1)) (\<lambda>sequence.
     bindE (ok_or IntegerOutOfRange (checked_add_u64 now_ms (st_lease_duration_ms s))) (\<lambda>expires.
     (let j = lease_job s c epoch sequence ids in
      bindE (protocol_result (validate_job cx j)) (\<lambda>_.
      bindE (case contract of None \<Rightarrow> Inr () | Some w \<Rightarrow> contract_validate_job cx w j) (\<lambda>_.
      bindE (commit_lease cx s j device now_ms expires k) (\<lambda>k'.
      Inr (k', j)))))))))))))))))))"

end
