(* ===== verification/Master_Results.thy ===== *)
theory Master_Results
  imports Master_Leases
begin

text \<open>
  The operations that end an attempt: \<^verbatim>\<open>accept_result_bound\<close>, \<^verbatim>\<open>cancel_step\<close>,
  \<^verbatim>\<open>next_cancellation_bound\<close>, \<^verbatim>\<open>accept_cancellation_ack_bound\<close>, the emergency pause and the restart
  reconciliation (\<^verbatim>\<open>assemblywright-master/src/lib.rs\<close>). \<open>accept_result_bound\<close> and
  \<open>accept_cancellation_ack_bound\<close> may commit a late attempt's expiry and then fail; such an outcome is
  \<open>Inr (k', Inl e)\<close>.
\<close>

section \<open>Results\<close>

record artifact_reference =
  rf_artifact_id :: uuid
  rf_artifact_sha256 :: digest
  rf_artifact_size_bytes :: nat

record accepted_result =
  ac_task_id :: uuid
  ac_step_id :: uuid
  ac_status :: step_status
  ac_payload_sha256 :: digest

text \<open>The row of \<^verbatim>\<open>feature_result_artifacts\<close> that a coding result must find.\<close>

definition artifact_matches ::
    "attempt_row \<Rightarrow> job_result \<Rightarrow> coding_result \<Rightarrow> coding_request \<Rightarrow> artifact_row \<Rightarrow> bool" where
  "artifact_matches a r payload context row =
     (ar_artifact_id row = cres_artifact_id payload
      \<and> ar_artifact_sha256 row = cres_artifact_sha256 payload
      \<and> ar_artifact_size_bytes row = cres_artifact_size_bytes payload
      \<and> ar_device_id row = at_device_id a
      \<and> ar_connection_epoch row = res_connection_epoch r
      \<and> ar_sequence row = res_sequence r
      \<and> ar_task_id row = res_task_id r
      \<and> ar_step_id row = res_step_id r
      \<and> ar_attempt_id row = res_attempt_id r
      \<and> ar_lease_id row = res_lease_id r
      \<and> ar_cancellation_id row = res_cancellation_id r
      \<and> ar_context_sha256 row = res_context_sha256 r
      \<and> ar_feature_id row = cr_feature_id context
      \<and> ar_feature_lease_id row = cr_feature_lease_id context
      \<and> ar_snapshot_id row = cr_snapshot_id context
      \<and> ar_snapshot_sha256 row = cr_snapshot_sha256 context
      \<and> ar_work_packet_sha256 row = cr_work_packet_sha256 context
      \<and> ar_workspace_retained row = cres_workspace_retained payload
      \<and> ar_workspace_expires_at_ms row = cres_workspace_expires_at_ms payload)"

definition check_coding_result ::
    "codec \<Rightarrow> kernel \<Rightarrow> attempt_row \<Rightarrow> job_result \<Rightarrow> artifact_reference option \<Rightarrow> master_error + unit" where
  "check_coding_result cx k a r evidence =
     (let j = at_job a in
      bindE (protocol_result (validate_local_coding cx j)) (\<lambda>context.
      bindE (coding_job_binding_is_current cx k context (job_step_id j) (at_device_id a)) (\<lambda>current.
      bindE (reject_if FeatureCodingDispatchUnavailable (\<not> current)) (\<lambda>_.
      bindE (ok_or Json (decode_coding_result cx (res_payload r))) (\<lambda>payload.
      bindE (ok_or ResultArtifactUnavailable evidence) (\<lambda>reference.
      bindE (reject_if ResultArtifactUnavailable
        (reference \<noteq> \<lparr>rf_artifact_id = cres_artifact_id payload,
                       rf_artifact_sha256 = cres_artifact_sha256 payload,
                       rf_artifact_size_bytes = cres_artifact_size_bytes payload\<rparr>)) (\<lambda>_.
      bindE (to_i64 (cres_artifact_size_bytes payload)) (\<lambda>_.
      bindE (to_i64 (res_connection_epoch r)) (\<lambda>_.
      bindE (to_i64 (res_sequence r)) (\<lambda>_.
      bindE (to_i64 (cres_workspace_expires_at_ms payload)) (\<lambda>_.
      reject_if ResultArtifactUnavailable
        (\<not> exists_row (artifact_matches a r payload context) (k_artifacts k)
         \<or> cres_patch_sha256 payload \<noteq> cres_artifact_sha256 payload))))))))))))"

definition check_result_contract ::
    "codec \<Rightarrow> kernel \<Rightarrow> attempt_row \<Rightarrow> job_result \<Rightarrow> remote_work_contract option \<Rightarrow> master_error + unit" where
  "check_result_contract cx k a r contract =
     (let j = at_job a in
      bindE (reject_if InvalidRemoteWorkContract
        (job_capability_id j = LOCAL_CODING_CAPABILITY_ID \<and> contract \<noteq> Some ContractLocalCoding)) (\<lambda>_.
      case contract of
        None \<Rightarrow> protocol_result (result_for_job cx r j)
      | Some c \<Rightarrow>
          bindE (contract_validate_result cx c r j) (\<lambda>_.
          bindE (capability_for_device k (at_device_id a) (job_capability_id j)) (\<lambda>registered.
          reject_if InvalidRemoteWorkContract (registered \<noteq> contract_capability c)))))"

text \<open>The branch that finds the lease expired: it closes the attempt and requeues the step.\<close>

definition expire_late_result ::
    "codec \<Rightarrow> attempt_row \<Rightarrow> job_result \<Rightarrow> nat \<Rightarrow> kernel \<Rightarrow> master_error + kernel" where
  "expire_late_result cx a r now_ms k =
     bindE (to_i64 now_ms) (\<lambda>_.
     (let k1 = update_attempts
                 (\<lambda>b. at_attempt_id b = res_attempt_id r \<and> at_status b = ALeased)
                 (AttemptClose AExpired now_ms) k in
      bindE (append_event cx StepLeaseExpired now_ms
        (attempt_identity (res_task_id r) (res_step_id r) (at_device_id a)
           (res_connection_epoch r)) k1) (\<lambda>k2.
      bindE (requeue_step cx now_ms (res_task_id r, res_step_id r) (k2, 0)) (\<lambda>(k3, _).
      Inr k3))))"

definition result_statuses :: "job_result_status \<Rightarrow> attempt_status \<times> step_status" where
  "result_statuses s =
     (case s of ResCompleted \<Rightarrow> (ASucceeded, SSucceeded) | ResFailed \<Rightarrow> (AFailed, SFailed)
        | ResCancelled \<Rightarrow> (ACancelled, SCancelled))"

definition result_event ::
    "attempt_row \<Rightarrow> job_result \<Rightarrow> event_kind \<times> event_identity" where
  "result_event a r =
     (let full = attempt_identity (res_task_id r) (res_step_id r) (at_device_id a)
                   (res_connection_epoch r) in
      case res_status r of
        ResCompleted \<Rightarrow> (StepSucceeded, full)
      | ResFailed \<Rightarrow> (StepFailed, full)
      | ResCancelled \<Rightarrow> (StepCancelled, step_identity (res_task_id r) (res_step_id r)))"

definition record_result ::
    "codec \<Rightarrow> attempt_row \<Rightarrow> job_result \<Rightarrow> nat \<Rightarrow> kernel \<Rightarrow> master_error + kernel \<times> accepted_result" where
  "record_result cx a r now_ms k =
     (let j = at_job a in
      bindE (connection_state k (at_device_id a)) (\<lambda>connection.
      bindE (reject_if ConnectionNotActive (\<not> cs_active connection)) (\<lambda>_.
      bindE (reject_if ConnectionEpochMismatch (cs_epoch connection \<noteq> res_connection_epoch r)) (\<lambda>_.
      bindE (reject_if SequenceReplay (res_sequence r \<le> cs_last_sequence connection)) (\<lambda>_.
      bindE (capability_for_device k (at_device_id a) (job_capability_id j)) (\<lambda>capability.
      bindE (reject_if CapabilityLimitExceeded
        (length (json_bytes cx (res_payload r)) > cap_max_result_bytes capability)) (\<lambda>_.
      bindE (step_status_tx k (res_step_id r)) (\<lambda>status.
      bindE (reject_if (ResultNotAccepting (at_status a)) (status \<noteq> SLeased)) (\<lambda>_.
      bindE (to_i64 now_ms) (\<lambda>_.
      bindE (to_i64 (res_sequence r)) (\<lambda>_.
      bindE (to_i64 (res_connection_epoch r)) (\<lambda>_.
      (let (attempt_status, step_status) = result_statuses (res_status r);
           k1 = update_attempts
                  (\<lambda>b. at_attempt_id b = res_attempt_id r \<and> at_status b = ALeased)
                  (AttemptResult attempt_status now_ms (res_sequence r) (res_payload_sha256 r)) k;
           k2 = update_steps (\<lambda>s. st_step_id s = res_step_id r \<and> st_status s = SLeased)
                  (StepAccept step_status (res_payload r) (res_payload_sha256 r) now_ms) k1;
           k3 = update_connections
                  (\<lambda>c. con_device_id c = at_device_id a \<and> con_epoch c = res_connection_epoch r
                     \<and> con_active c) (ConnectionSequence (res_sequence r)) k2;
           (kind, identity) = result_event a r in
       bindE (append_event cx kind now_ms identity k3) (\<lambda>k4.
       Inr (k4, \<lparr>ac_task_id = res_task_id r, ac_step_id = res_step_id r,
                 ac_status = step_status, ac_payload_sha256 = res_payload_sha256 r\<rparr>)))))))))))))))"

definition accept_result_bound ::
    "codec \<Rightarrow> uuid option \<Rightarrow> job_result \<Rightarrow> nat \<Rightarrow> remote_work_contract option
       \<Rightarrow> artifact_reference option \<Rightarrow> kernel
       \<Rightarrow> master_error + kernel \<times> (master_error + accepted_result)" where
  "accept_result_bound cx authenticated r now_ms contract evidence k =
     bindE (protocol_result (validate_result cx r)) (\<lambda>_.
     bindE (require_emergency_unpaused k) (\<lambda>_.
     bindE (ok_or AttemptNotFound (load_attempt k (res_attempt_id r))) (\<lambda>a.
     bindE (reject_if ResultDeviceMismatch
       (case authenticated of None \<Rightarrow> False | Some d \<Rightarrow> d \<noteq> at_device_id a)) (\<lambda>_.
     bindE (check_result_contract cx k a r contract) (\<lambda>_.
     bindE (if job_capability_id (at_job a) = LOCAL_CODING_CAPABILITY_ID
            then check_coding_result cx k a r evidence else Inr ()) (\<lambda>_.
     bindE (reject_if (ResultNotAccepting (at_status a)) (at_status a \<noteq> ALeased)) (\<lambda>_.
     if now_ms \<ge> at_lease_expires_at_ms a
     then bindE (expire_late_result cx a r now_ms k) (\<lambda>k'. Inr (k', Inl LeaseExpired))
     else bindE (record_result cx a r now_ms k) (\<lambda>(k', accepted). Inr (k', Inr accepted)))))))))"

section \<open>Cancellation\<close>

definition request_leased_step_cancellation_tx ::
    "codec \<Rightarrow> uuid \<Rightarrow> uuid \<Rightarrow> nat \<Rightarrow> kernel \<Rightarrow> master_error + kernel" where
  "request_leased_step_cancellation_tx cx task step now_ms k =
     bindE (ok_or Storage
       (find_row (\<lambda>a. at_step_id a = step \<and> at_status a = ALeased) (k_attempts k))) (\<lambda>a.
     bindE (connection_state k (at_device_id a)) (\<lambda>connection.
     bindE (reject_if ConnectionNotActive
       (\<not> cs_active connection \<or> cs_epoch connection \<noteq> at_epoch a)) (\<lambda>_.
     bindE (ok_or IntegerOutOfRange (checked_add_u64 (cs_last_sequence connection) 1)) (\<lambda>sequence.
     bindE (ok_or IntegerOutOfRange
       (checked_add_u64 now_ms CANCELLATION_ACK_DEADLINE_MS)) (\<lambda>deadline.
     bindE (to_i64 sequence) (\<lambda>_.
     bindE (to_i64 now_ms) (\<lambda>_.
     bindE (to_i64 deadline) (\<lambda>_.
     (let hit = (\<lambda>b. at_attempt_id b = at_attempt_id a \<and> at_status b = ALeased) in
      bindE (reject_if (InvalidStoredState ''leased attempt changed before cancellation commit'')
        (count_rows hit (k_attempts k) \<noteq> 1)) (\<lambda>_.
      (let k1 = update_attempts hit (AttemptPend sequence now_ms deadline) k;
           here = (\<lambda>c. con_device_id c = at_device_id a \<and> con_epoch c = at_epoch a \<and> con_active c) in
       bindE (reject_if ConnectionNotActive (count_rows here (k_connections k1) \<noteq> 1)) (\<lambda>_.
       append_event cx StepCancellationRequested now_ms
         (attempt_identity task step (at_device_id a) (at_epoch a))
         (update_connections here (ConnectionSequence sequence) k1)))))))))))))"

definition cancel_step :: "codec \<Rightarrow> uuid \<Rightarrow> nat \<Rightarrow> kernel \<Rightarrow> master_error + kernel" where
  "cancel_step cx step now_ms k =
     bindE (ok_or StepNotFound (find_step k step)) (\<lambda>s.
     (case st_status s of
        SQueued \<Rightarrow>
          bindE (to_i64 now_ms) (\<lambda>_.
          append_event cx StepCancelled now_ms (step_identity (st_task_id s) step)
            (update_steps (\<lambda>r. st_step_id r = step \<and> st_status r = SQueued)
               (StepFinish SCancelled now_ms) k))
      | SLeased \<Rightarrow> request_leased_step_cancellation_tx cx (st_task_id s) step now_ms k
      | terminal \<Rightarrow> Inl (StepNotCancellable terminal)))"

definition job_instruction :: "job_envelope \<Rightarrow> nat \<Rightarrow> nat \<Rightarrow> nat \<Rightarrow> cancellation_instruction" where
  "job_instruction j epoch sequence deadline_after_ms =
     \<lparr>ci_protocol_version = PROTOCOL_VERSION, ci_connection_epoch = epoch, ci_sequence = sequence,
      ci_task_id = job_task_id j, ci_step_id = job_step_id j, ci_attempt_id = job_attempt_id j,
      ci_lease_id = job_lease_id j, ci_cancellation_id = job_cancellation_id j,
      ci_deadline_after_ms = deadline_after_ms\<rparr>"

text \<open>The contract test of the two cancellation handlers.\<close>

definition check_cancellation_contract ::
    "codec \<Rightarrow> kernel \<Rightarrow> uuid \<Rightarrow> job_envelope \<Rightarrow> remote_work_contract option \<Rightarrow> master_error + unit" where
  "check_cancellation_contract cx k device j contract =
     (case contract of
        None \<Rightarrow> Inr ()
      | Some c \<Rightarrow>
          bindE (capability_for_device k device (job_capability_id j)) (\<lambda>registered.
          bindE (reject_if InvalidRemoteWorkContract (registered \<noteq> contract_capability c)) (\<lambda>_.
          contract_validate_job cx c j)))"

definition pending_attempt :: "kernel \<Rightarrow> uuid \<Rightarrow> nat \<Rightarrow> attempt_row option" where
  "pending_attempt k device epoch =
     (case sort_key (\<lambda>a. case at_cancellation_requested_at_ms a of None \<Rightarrow> 0 | Some t \<Rightarrow> Suc t)
             (filter (\<lambda>a. at_device_id a = device \<and> at_epoch a = epoch
                 \<and> at_status a = ACancellationPending) (k_attempts k)) of
        [] \<Rightarrow> None | a # _ \<Rightarrow> Some a)"

text \<open>Reading a \<^verbatim>\<open>NULL\<close> sequence or deadline as an integer is a storage error.\<close>

definition next_cancellation_bound ::
    "codec \<Rightarrow> uuid \<Rightarrow> nat \<Rightarrow> nat \<Rightarrow> remote_work_contract option \<Rightarrow> kernel
       \<Rightarrow> master_error + kernel \<times> cancellation_instruction option" where
  "next_cancellation_bound cx device epoch now_ms contract k0 =
     bindE (reconcile_cancellation_deadlines_tx cx now_ms k0) (\<lambda>(k, _).
     bindE (connection_state k device) (\<lambda>connection.
     bindE (reject_if ConnectionNotActive (\<not> cs_active connection)) (\<lambda>_.
     bindE (reject_if ConnectionEpochMismatch (cs_epoch connection \<noteq> epoch)) (\<lambda>_.
     bindE (to_i64 epoch) (\<lambda>_.
     (case pending_attempt k device epoch of
        None \<Rightarrow> Inr (k, None)
      | Some a \<Rightarrow>
          bindE (ok_or Storage (at_cancellation_sequence a)) (\<lambda>sequence.
          bindE (ok_or Storage (at_cancellation_deadline_at_ms a)) (\<lambda>deadline_at_ms.
          bindE (check_cancellation_contract cx k device (at_job a) contract) (\<lambda>_.
          bindE (ok_or CancellationExpired (checked_sub_u64 deadline_at_ms now_ms)) (\<lambda>deadline_after_ms.
          (let instruction = job_instruction (at_job a) epoch sequence deadline_after_ms in
           bindE (protocol_result (instruction_for_job cx instruction (at_job a))) (\<lambda>_.
           Inr (k, Some instruction)))))))))))))"

record accepted_cancellation =
  acc_accepted :: bool
  acc_status :: step_status

definition record_acknowledgement ::
    "codec \<Rightarrow> uuid \<Rightarrow> cancellation_acknowledgement \<Rightarrow> nat \<Rightarrow> kernel
       \<Rightarrow> master_error + kernel \<times> accepted_cancellation" where
  "record_acknowledgement cx device ack now_ms k =
     bindE (connection_state k device) (\<lambda>connection.
     bindE (reject_if ConnectionNotActive
       (\<not> cs_active connection \<or> cs_epoch connection \<noteq> ack_connection_epoch ack)) (\<lambda>_.
     bindE (reject_if SequenceReplay (ack_sequence ack \<le> cs_last_sequence connection)) (\<lambda>_.
     bindE (to_i64 now_ms) (\<lambda>_.
     bindE (to_i64 (ack_sequence ack)) (\<lambda>_.
     bindE (to_i64 (ack_connection_epoch ack)) (\<lambda>_.
     (let k1 = update_attempts
                 (\<lambda>b. at_attempt_id b = ack_attempt_id ack \<and> at_status b = ACancellationPending)
                 (AttemptAck (ack_sequence ack) now_ms) k;
          k2 = update_steps (\<lambda>s. st_step_id s = ack_step_id ack \<and> st_status s = SLeased)
                 (StepFinish SCancelled now_ms) k1;
          k3 = update_connections
                 (\<lambda>c. con_device_id c = device \<and> con_epoch c = ack_connection_epoch ack
                    \<and> con_active c) (ConnectionSequence (ack_sequence ack)) k2 in
      bindE (append_event cx StepCancellationAcknowledged now_ms
        (attempt_identity (ack_task_id ack) (ack_step_id ack) device
           (ack_connection_epoch ack)) k3) (\<lambda>k4.
      bindE (append_event cx StepCancelled now_ms
        (step_identity (ack_task_id ack) (ack_step_id ack)) k4) (\<lambda>k5.
      Inr (k5, \<lparr>acc_accepted = True, acc_status = SCancelled\<rparr>))))))))))"

definition accept_cancellation_ack_bound ::
    "codec \<Rightarrow> uuid \<Rightarrow> cancellation_acknowledgement \<Rightarrow> nat \<Rightarrow> remote_work_contract option \<Rightarrow> kernel
       \<Rightarrow> master_error + kernel \<times> (master_error + accepted_cancellation)" where
  "accept_cancellation_ack_bound cx device ack now_ms contract k =
     bindE (ok_or AttemptNotFound (load_attempt k (ack_attempt_id ack))) (\<lambda>a.
     bindE (reject_if ResultDeviceMismatch (at_device_id a \<noteq> device)) (\<lambda>_.
     bindE (reject_if (ResultNotAccepting (at_status a)) (at_status a \<noteq> ACancellationPending)) (\<lambda>_.
     bindE (check_cancellation_contract cx k device (at_job a) contract) (\<lambda>_.
     bindE (ok_or (InvalidStoredState ''missing cancellation sequence'')
       (at_cancellation_sequence a)) (\<lambda>sequence.
     bindE (protocol_result (acknowledgement_for_instruction cx ack
       (job_instruction (at_job a) (job_connection_epoch (at_job a)) sequence
          CANCELLATION_ACK_DEADLINE_MS))) (\<lambda>_.
     bindE (ok_or (InvalidStoredState ''missing cancellation deadline'')
       (at_cancellation_deadline_at_ms a)) (\<lambda>deadline.
     if now_ms \<ge> deadline
     then bindE (reconcile_cancellation_deadlines_tx cx now_ms k) (\<lambda>(k', _).
            Inr (k', Inl CancellationExpired))
     else bindE (record_acknowledgement cx device ack now_ms k) (\<lambda>(k', accepted).
            Inr (k', Inr accepted)))))))))"

section \<open>Emergency pause\<close>

definition append_audit ::
    "codec \<Rightarrow> string \<Rightarrow> uuid option \<Rightarrow> nat \<Rightarrow> json \<Rightarrow> kernel \<Rightarrow> master_error + kernel" where
  "append_audit cx event_kind feature occurred_at_ms metadata k =
     bindE (reject_if (InvalidFeatureConveyorInput ''feature audit metadata is invalid'')
       (event_kind = [] \<or> length event_kind > 96
        \<or> \<not> is_ok (validate_object ''metadata'' metadata))) (\<lambda>_.
     bindE (reject_if (InvalidFeatureConveyorInput ''feature audit metadata exceeds the redacted bound'')
       (length (canonical_json_bytes (quote_json cx) metadata) > 8192)) (\<lambda>_.
     bindE (to_i64 occurred_at_ms) (\<lambda>_.
     Inr (k\<lparr>k_audit := insert_row
            \<lparr>au_event_kind = event_kind, au_feature_id = feature,
             au_occurred_at_ms = occurred_at_ms, au_metadata = metadata\<rparr> (k_audit k)\<rparr>))))"

definition cancel_queued_coding ::
    "codec \<Rightarrow> nat \<Rightarrow> uuid \<times> uuid \<Rightarrow> kernel \<Rightarrow> master_error + kernel" where
  "cancel_queued_coding cx now_ms item k =
     (case item of (task, step) \<Rightarrow>
      bindE (to_i64 now_ms) (\<lambda>_.
      (let hit = (\<lambda>s. st_step_id s = step \<and> st_status s = SQueued) in
       bindE (reject_if
         (InvalidStoredState ''queued coding step changed before emergency-pause cancellation'')
         (count_rows hit (k_steps k) \<noteq> 1)) (\<lambda>_.
       append_event cx StepCancelled now_ms (step_identity task step)
         (update_steps hit (StepFinish SCancelled now_ms) k)))))"

text \<open>A leased attempt whose connection is gone is closed at once.\<close>

definition abandon_for_pause ::
    "codec \<Rightarrow> nat \<Rightarrow> uuid \<Rightarrow> uuid \<Rightarrow> kernel \<Rightarrow> master_error + kernel" where
  "abandon_for_pause cx now_ms task step k =
     bindE (to_i64 now_ms) (\<lambda>_.
     (let mine = (\<lambda>a. at_step_id a = step \<and> at_status a = ALeased);
          hit = (\<lambda>s. st_step_id s = step \<and> st_status s = SLeased);
          k1 = update_attempts mine (AttemptClose AAbandoned now_ms) k in
      bindE (reject_if
        (InvalidStoredState ''inactive fixture attempt changed before pause cancellation commit'')
        (count_rows mine (k_attempts k) \<noteq> 1 \<or> count_rows hit (k_steps k1) \<noteq> 1)) (\<lambda>_.
      append_event cx StepCancelled now_ms (step_identity task step)
        (update_steps hit (StepFinish SCancelled now_ms) k1))))"

definition request_pause_cancellation ::
    "codec \<Rightarrow> nat \<Rightarrow> uuid \<times> uuid \<Rightarrow> kernel \<Rightarrow> master_error + kernel" where
  "request_pause_cancellation cx now_ms item k =
     (case item of (task, step) \<Rightarrow>
      bindE (ok_or Storage
        (find_row (\<lambda>a. at_step_id a = step \<and> at_status a = ALeased) (k_attempts k))) (\<lambda>a.
      (case find_row (\<lambda>c. con_device_id c = at_device_id a) (k_connections k) of
         Some c \<Rightarrow>
           if con_active c \<and> con_epoch c = at_epoch a
           then request_leased_step_cancellation_tx cx task step now_ms k
           else abandon_for_pause cx now_ms task step k
       | None \<Rightarrow> abandon_for_pause cx now_ms task step k)))"

text \<open>The steps a pause cancels: every queued coding step, every leased step of a remote capability.\<close>

definition queued_coding_steps :: "kernel \<Rightarrow> (uuid \<times> uuid) list" where
  "queued_coding_steps k =
     map (\<lambda>s. (st_task_id s, st_step_id s))
       (filter (\<lambda>s. st_capability_id s = LOCAL_CODING_CAPABILITY_ID) (load_queued_steps k))"

definition remote_leased_steps :: "kernel \<Rightarrow> (uuid \<times> uuid) list" where
  "remote_leased_steps k =
     map (\<lambda>(task, a). (task, at_step_id a))
       (sort_key (\<lambda>(task, a). at_leased_at_ms a)
          (filter (\<lambda>(task, a). case find_step k (at_step_id a) of None \<Rightarrow> False
               | Some s \<Rightarrow> st_status s = SLeased
                   \<and> st_capability_id s \<in> {FIXTURE_REASONING_CAPABILITY_ID,
                        MLX_REASONING_CAPABILITY_ID, LOCAL_CODING_CAPABILITY_ID})
             (attempts_with_task (\<lambda>a. at_status a = ALeased) k)))"

definition request_active_remote_work_cancellations_tx ::
    "codec \<Rightarrow> nat \<Rightarrow> kernel \<Rightarrow> master_error + kernel" where
  "request_active_remote_work_cancellations_tx cx now_ms k =
     bindE (forE (cancel_queued_coding cx now_ms) (queued_coding_steps k) k) (\<lambda>k1.
     forE (request_pause_cancellation cx now_ms) (remote_leased_steps k1) k1)"

definition json_nat :: "nat \<Rightarrow> json" where "json_nat n = JNumber (nat_text n)"

definition suspended_clock_metadata :: "nat \<Rightarrow> nat \<Rightarrow> nat \<Rightarrow> json" where
  "suspended_clock_metadata revision charged_interval_ms charged_ms = JObject
     [(''orchestration_revision'', json_nat revision),
      (''elapsed_charged_ms'', json_nat charged_interval_ms),
      (''active_processing_ms'', json_nat charged_ms),
      (''active_processing_budget_ms'', json_nat MAX_FEATURE_CONVEYOR_ACTIVE_PROCESSING_MS),
      (''clock_suspended'', JBool True),
      (''emergency_pause'', JBool True),
      (''effect_possible'', JBool False),
      (''side_effect_executed'', JBool False)]"

definition suspend_clock ::
    "codec \<Rightarrow> orchestration_row \<Rightarrow> nat \<Rightarrow> nat \<Rightarrow> kernel \<Rightarrow> master_error + kernel" where
  "suspend_clock cx clock clock_started_at_ms now_ms k =
     bindE (reject_if
       (InvalidStoredState ''orchestration active-processing budget is invalid'')
       (or_active_processing_ms clock > MAX_FEATURE_CONVEYOR_ACTIVE_PROCESSING_MS)) (\<lambda>_.
     (let active_ms = or_active_processing_ms clock;
          elapsed_ms = now_ms - clock_started_at_ms;
          charged_ms = min (saturating_add_u64 active_ms elapsed_ms)
                         MAX_FEATURE_CONVEYOR_ACTIVE_PROCESSING_MS;
          charged_interval_ms = charged_ms - active_ms;
          mine = (\<lambda>r. or_feature_id r = or_feature_id clock
                    \<and> or_orchestration_revision r = or_orchestration_revision clock
                    \<and> or_active_processing_ms r = active_ms
                    \<and> or_clock_started_at_ms r = Some clock_started_at_ms) in
      bindE (to_i64 now_ms) (\<lambda>_.
      bindE (reject_if
        (InvalidStoredState ''orchestration clock changed during emergency pause'')
        (count_rows mine (k_orchestration k) \<noteq> 1)) (\<lambda>_.
      bindE (reject_if Storage (now_ms = 0)) (\<lambda>_.
      append_audit cx ''feature_orchestration_clock_suspended'' (Some (or_feature_id clock)) now_ms
        (suspended_clock_metadata (or_orchestration_revision clock) charged_interval_ms charged_ms)
        (k\<lparr>k_orchestration := update_rows mine
             (\<lambda>r. r\<lparr>or_active_processing_ms := charged_ms, or_clock_started_at_ms := None,
                    or_updated_at_ms := now_ms\<rparr>) (k_orchestration k)\<rparr>))))))"

definition suspend_active_clock :: "codec \<Rightarrow> nat \<Rightarrow> kernel \<Rightarrow> master_error + kernel" where
  "suspend_active_clock cx now_ms k =
     (case k_active_lease k of
        None \<Rightarrow> Inr k
      | Some l \<Rightarrow>
          (case find_row (\<lambda>clock. or_feature_id clock = fl_feature_id l \<and> or_clock_started_at_ms clock \<noteq> None)
                  (k_orchestration k) of
             None \<Rightarrow> Inr k
           | Some clock \<Rightarrow> (case or_clock_started_at_ms clock of
               None \<Rightarrow> Inr k | Some started \<Rightarrow> suspend_clock cx clock started now_ms k)))"

definition set_emergency_paused_at ::
    "codec \<Rightarrow> bool \<Rightarrow> nat \<Rightarrow> kernel \<Rightarrow> master_error + kernel" where
  "set_emergency_paused_at cx paused now_ms k =
     bindE (emergency_paused_tx k) (\<lambda>was_paused.
     bindE (if paused \<and> \<not> was_paused
            then bindE (request_active_remote_work_cancellations_tx cx now_ms k)
                   (suspend_active_clock cx now_ms)
            else Inr k) (\<lambda>k1.
     (let k2 = k1\<lparr>k_emergency_paused := (if paused then 1 else 0)\<rparr> in
      if paused \<noteq> was_paused
      then bindE (ok_or (InvalidStoredState ''emergency pause revision overflowed'')
             (checked_add_u64 (k_emergency_pause_revision k2) 1)) (\<lambda>next_revision.
           bindE (to_i64 next_revision) (\<lambda>_.
           Inr (k2\<lparr>k_emergency_pause_revision := next_revision\<rparr>)))
      else Inr k2)))"

section \<open>Restart\<close>

definition close_connection ::
    "codec \<Rightarrow> nat \<Rightarrow> uuid \<times> nat \<Rightarrow> kernel \<times> nat \<Rightarrow> master_error + kernel \<times> nat" where
  "close_connection cx now_ms item st =
     (case item of (device, epoch) \<Rightarrow> case st of (k, disconnected) \<Rightarrow>
      (let here = (\<lambda>c. con_device_id c = device \<and> con_epoch c = epoch \<and> con_active c);
           changed = count_rows here (k_connections k);
           k1 = update_connections here (ConnectionClose now_ms) k in
       if changed = 1
       then bindE (append_event cx DeviceDisconnected now_ms (device_identity device epoch) k1)
              (\<lambda>k2. Inr (k2, Suc disconnected))
       else Inr (k1, disconnected)))"

definition reconcile_interrupted_state ::
    "codec \<Rightarrow> nat \<Rightarrow> kernel \<Rightarrow> master_error + kernel \<times> reconciliation" where
  "reconcile_interrupted_state cx now_ms k =
     bindE (to_i64 now_ms) (\<lambda>_.
     bindE (reconcile_cancellation_deadlines_tx cx now_ms
       (update_attempts (\<lambda>a. at_status a = ACancellationPending) (AttemptDeadline now_ms) k))
       (\<lambda>(k1, interrupted_cancellations).
     (let connections = active_connections k1;
          steps = leased_steps k1 None;
          abandoned = count_rows (\<lambda>a. at_status a = ALeased) (k_attempts k1);
          k2 = update_attempts (\<lambda>a. at_status a = ALeased) (AttemptClose AAbandoned now_ms) k1 in
      bindE (forE (close_connection cx now_ms) connections (k2, 0)) (\<lambda>(k3, disconnected).
      bindE (requeue_steps cx now_ms steps k3) (\<lambda>(k4, requeued).
      Inr (k4, \<lparr>rc_disconnected_connections = disconnected,
                rc_abandoned_attempts = abandoned + interrupted_cancellations,
                rc_requeued_steps = requeued\<rparr>))))))"

end
