(* ===== verification/Master_Artifacts.thy ===== *)
theory Master_Artifacts
  imports Master_Results
begin

text \<open>
  The read operations of the master kernel and the admission of coding result artifacts:
  \<^verbatim>\<open>health_snapshot\<close>, \<^verbatim>\<open>distributed_events\<close>, \<^verbatim>\<open>step_snapshot\<close>, \<^verbatim>\<open>attempt_status\<close>,
  \<^verbatim>\<open>authorize_local_coding_snapshot_chunk\<close>, \<^verbatim>\<open>authorize_/finalize_local_coding_result_artifact\<close>
  (\<^verbatim>\<open>assemblywright-master/src/lib.rs\<close>). The files that the result-artifact store keeps are outside the model.
\<close>

section \<open>Artifact admission\<close>

definition admission_row ::
    "artifact_admission \<Rightarrow> uuid \<Rightarrow> coding_request \<Rightarrow> nat \<Rightarrow> artifact_row" where
  "admission_row adm device context now_ms =
     \<lparr>ar_artifact_id = ra_artifact_id (adm_artifact adm),
      ar_artifact_sha256 = ra_artifact_sha256 (adm_artifact adm),
      ar_artifact_size_bytes = ra_artifact_size_bytes (adm_artifact adm),
      ar_device_id = device,
      ar_device_registry_revision = cr_device_registry_revision context,
      ar_connection_epoch = adm_connection_epoch adm,
      ar_sequence = adm_sequence adm,
      ar_task_id = adm_task_id adm,
      ar_step_id = adm_step_id adm,
      ar_attempt_id = adm_attempt_id adm,
      ar_lease_id = adm_lease_id adm,
      ar_cancellation_id = adm_cancellation_id adm,
      ar_context_sha256 = adm_context_sha256 adm,
      ar_feature_id = adm_feature_id adm,
      ar_feature_lease_id = adm_feature_lease_id adm,
      ar_snapshot_id = adm_snapshot_id adm,
      ar_snapshot_sha256 = adm_snapshot_sha256 adm,
      ar_work_packet_sha256 = adm_work_packet_sha256 adm,
      ar_admitted_at_ms = now_ms,
      ar_workspace_retained = True,
      ar_workspace_expires_at_ms = adm_workspace_expires_at_ms adm\<rparr>"

text \<open>The \<^verbatim>\<open>WHERE\<close> clause of the exact-row queries: every column but the admission time.\<close>

definition same_artifact :: "artifact_row \<Rightarrow> artifact_row \<Rightarrow> bool" where
  "same_artifact expected row = (row = expected\<lparr>ar_admitted_at_ms := ar_admitted_at_ms row\<rparr>)"

definition artifact_numbers_fit ::
    "artifact_admission \<Rightarrow> coding_request \<Rightarrow> master_error + unit" where
  "artifact_numbers_fit adm context =
     bindE (to_i64 (ra_artifact_size_bytes (adm_artifact adm))) (\<lambda>_.
     bindE (to_i64 (cr_device_registry_revision context)) (\<lambda>_.
     bindE (to_i64 (adm_connection_epoch adm)) (\<lambda>_.
     bindE (to_i64 (adm_sequence adm)) (\<lambda>_.
     to_i64 (adm_workspace_expires_at_ms adm)))))"

definition artifact_collides :: "artifact_admission \<Rightarrow> artifact_row \<Rightarrow> bool" where
  "artifact_collides adm row =
     (ar_artifact_id row = ra_artifact_id (adm_artifact adm)
      \<or> ar_attempt_id row = adm_attempt_id adm)"

definition validate_result_artifact_admission_tx ::
    "codec \<Rightarrow> kernel \<Rightarrow> uuid \<Rightarrow> artifact_admission \<Rightarrow> nat \<Rightarrow> master_error + job_envelope" where
  "validate_result_artifact_admission_tx cx k device adm now_ms =
     (let bad = ResultArtifactUnavailable in
      bindE (reject_if bad
        (adm_workspace_expires_at_ms adm \<le> now_ms
         \<or> adm_workspace_expires_at_ms adm
             > saturating_add_u64 now_ms MAX_RETAINED_CODING_WORKSPACE_MS)) (\<lambda>_.
      bindE (require_emergency_unpaused k) (\<lambda>_.
      bindE (ok_or bad (load_attempt k (adm_attempt_id adm))) (\<lambda>a.
      bindE (reject_if bad
        (at_device_id a \<noteq> device \<or> at_status a \<noteq> ALeased \<or> at_lease_expires_at_ms a \<le> now_ms)) (\<lambda>_.
      (let j = at_job a in
       bindE (protocol_result (admission_for_job cx adm j)) (\<lambda>_.
       bindE (connection_state k device) (\<lambda>connection.
       bindE (reject_if bad
         (\<not> cs_active connection \<or> cs_epoch connection \<noteq> adm_connection_epoch adm
          \<or> adm_sequence adm \<le> cs_last_sequence connection)) (\<lambda>_.
       bindE (step_status_tx k (adm_step_id adm)) (\<lambda>status.
       bindE (reject_if bad (status \<noteq> SLeased)) (\<lambda>_.
       bindE (protocol_result (validate_local_coding cx j)) (\<lambda>context.
       bindE (coding_job_binding_is_current cx k context (job_step_id j) device) (\<lambda>current.
       bindE (reject_if bad (\<not> current)) (\<lambda>_.
       bindE (capability_for_device k device LOCAL_CODING_CAPABILITY_ID) (\<lambda>capability.
       bindE (reject_if bad (capability \<noteq> contract_capability ContractLocalCoding)) (\<lambda>_.
       (let collision = count_rows (artifact_collides adm) (k_artifacts k) in
        if collision = 0 then Inr j
        else
          bindE (artifact_numbers_fit adm context) (\<lambda>_.
          (let exact = count_rows (same_artifact (admission_row adm device context 0))
                         (k_artifacts k) in
           bindE (reject_if bad (exact \<noteq> 1 \<or> collision \<noteq> 1)) (\<lambda>_. Inr j))))))))))))))))))))"

definition authorize_local_coding_result_artifact ::
    "codec \<Rightarrow> kernel \<Rightarrow> uuid \<Rightarrow> artifact_admission \<Rightarrow> nat \<Rightarrow> master_error + bool" where
  "authorize_local_coding_result_artifact cx k device adm now_ms =
     bindE (protocol_result (validate_admission cx adm)) (\<lambda>_.
     bindE (validate_result_artifact_admission_tx cx k device adm now_ms) (\<lambda>_.
     Inr (exists_row (\<lambda>r. ar_artifact_id r = ra_artifact_id (adm_artifact adm)) (k_artifacts k))))"

definition artifact_audit :: "codec \<Rightarrow> artifact_admission \<Rightarrow> json" where
  "artifact_audit cx adm = JObject
     [(''artifact_id'', JString (uuid_text cx (ra_artifact_id (adm_artifact adm)))),
      (''artifact_sha256'', JString (hex_lower (digest_bytes (ra_artifact_sha256 (adm_artifact adm))))),
      (''artifact_size_bytes'', json_nat (ra_artifact_size_bytes (adm_artifact adm))),
      (''attempt_id'', JString (uuid_text cx (adm_attempt_id adm))),
      (''step_id'', JString (uuid_text cx (adm_step_id adm))),
      (''workspace_retained'', JBool True),
      (''workspace_expiry_present'', JBool True)]"

definition admission_receipt :: "artifact_admission \<Rightarrow> artifact_receipt" where
  "admission_receipt adm =
     \<lparr>rcpt_protocol_version = adm_protocol_version adm,
      rcpt_connection_epoch = adm_connection_epoch adm,
      rcpt_sequence = adm_sequence adm,
      rcpt_task_id = adm_task_id adm,
      rcpt_step_id = adm_step_id adm,
      rcpt_attempt_id = adm_attempt_id adm,
      rcpt_lease_id = adm_lease_id adm,
      rcpt_cancellation_id = adm_cancellation_id adm,
      rcpt_artifact_id = ra_artifact_id (adm_artifact adm),
      rcpt_artifact_sha256 = ra_artifact_sha256 (adm_artifact adm),
      rcpt_artifact_size_bytes = ra_artifact_size_bytes (adm_artifact adm),
      rcpt_workspace_retained = adm_workspace_retained adm,
      rcpt_workspace_expires_at_ms = adm_workspace_expires_at_ms adm,
      rcpt_status = LOCAL_CODING_RESULT_ARTIFACT_STATUS\<rparr>"

text \<open>The table's \<^verbatim>\<open>CHECK\<close> bounds a stored artifact by 65,536 bytes.\<close>

definition finalize_local_coding_result_artifact ::
    "codec \<Rightarrow> uuid \<Rightarrow> artifact_admission \<Rightarrow> nat \<Rightarrow> kernel \<Rightarrow> master_error + kernel \<times> artifact_receipt" where
  "finalize_local_coding_result_artifact cx device adm now_ms k =
     bindE (protocol_result (validate_admission cx adm)) (\<lambda>_.
     bindE (validate_result_artifact_admission_tx cx k device adm now_ms) (\<lambda>j.
     bindE (protocol_result (validate_local_coding cx j)) (\<lambda>context.
     bindE (artifact_numbers_fit adm context) (\<lambda>_.
     (let row = admission_row adm device context now_ms in
      if count_rows (same_artifact row) (k_artifacts k) \<noteq> 0 then Inr (k, admission_receipt adm)
      else
        bindE (reject_if ResultArtifactUnavailable
          (count_rows (artifact_collides adm) (k_artifacts k) \<noteq> 0)) (\<lambda>_.
        bindE (to_i64 now_ms) (\<lambda>_.
        bindE (reject_if Storage
          (ar_artifact_size_bytes row < 1 \<or> ar_artifact_size_bytes row > 65536 \<or> now_ms = 0)) (\<lambda>_.
        bindE (append_audit cx ''result_artifact_admitted'' (Some (adm_feature_id adm)) now_ms
          (artifact_audit cx adm)
          (k\<lparr>k_artifacts := insert_row row (k_artifacts k)\<rparr>)) (\<lambda>k'.
        Inr (k', admission_receipt adm))))))))))"

definition authorize_local_coding_snapshot_chunk ::
    "codec \<Rightarrow> kernel \<Rightarrow> uuid \<Rightarrow> snapshot_chunk_request \<Rightarrow> nat \<Rightarrow> master_error + unit" where
  "authorize_local_coding_snapshot_chunk cx k device request now_ms =
     (let bad = FeatureCodingDispatchUnavailable in
      bindE (protocol_result (validate_chunk_request cx request)) (\<lambda>_.
      bindE (require_emergency_unpaused k) (\<lambda>_.
      bindE (ok_or bad (load_attempt k (scr_attempt_id request))) (\<lambda>a.
      bindE (reject_if bad
        (at_device_id a \<noteq> device \<or> at_status a \<noteq> ALeased \<or> at_lease_expires_at_ms a \<le> now_ms)) (\<lambda>_.
      (let j = at_job a in
       bindE (protocol_result (chunk_request_for_job cx request j)) (\<lambda>_.
       bindE (ok_or bad
         (find_row (\<lambda>s. st_step_id s = job_step_id j \<and> st_task_id s = job_task_id j) (k_steps k))) (\<lambda>s.
       bindE (reject_if bad (st_status s \<noteq> SLeased)) (\<lambda>_.
       bindE (protocol_result (validate_local_coding cx j)) (\<lambda>context.
       bindE (coding_job_binding_is_current cx k context (job_step_id j) (at_device_id a)) (\<lambda>current.
       reject_if bad (\<not> current))))))))))))"

section \<open>Reads\<close>

record health =
  he_registered_devices :: nat
  he_active_device_certificates :: nat
  he_active_connections :: nat
  he_queued_steps :: nat
  he_leased_steps :: nat
  he_terminal_steps :: nat
  he_active_attempts :: nat

text \<open>The count of unconsumed enrollment grants belongs to the identity component and is left out.\<close>

definition health_snapshot :: "kernel \<Rightarrow> health" where
  "health_snapshot k =
     \<lparr>he_registered_devices = length (k_devices k),
      he_active_device_certificates = count_rows (\<lambda>c. cert_revoked_at_ms c = None) (k_certificates k),
      he_active_connections = count_rows con_active (k_connections k),
      he_queued_steps = count_rows (\<lambda>s. st_status s = SQueued) (k_steps k),
      he_leased_steps = count_rows (\<lambda>s. st_status s = SLeased) (k_steps k),
      he_terminal_steps =
        count_rows (\<lambda>s. st_status s \<in> {SSucceeded, SFailed, SCancelled}) (k_steps k),
      he_active_attempts = count_rows in_flight (k_attempts k)\<rparr>"

definition event_of_row :: "uuid \<Rightarrow> event_row \<Rightarrow> distributed_event" where
  "event_of_row stream r =
     \<lparr>ev_protocol_version = PROTOCOL_VERSION,
      ev_cursor = \<lparr>cur_stream_id = stream, cur_sequence = er_sequence r\<rparr>,
      ev_occurred_at_ms = er_occurred_at_ms r, ev_kind = er_kind r,
      ev_task_id = er_task_id r, ev_step_id = er_step_id r, ev_device_id = er_device_id r,
      ev_connection_epoch = er_connection_epoch r\<rparr>"

definition event_page :: "kernel \<Rightarrow> nat \<Rightarrow> nat \<Rightarrow> distributed_event list" where
  "event_page k after_sequence query_limit =
     map (event_of_row (k_stream_id k))
       (take query_limit
          (sort_key er_sequence (filter (\<lambda>r. er_sequence r > after_sequence) (k_events k))))"

definition distributed_events ::
    "codec \<Rightarrow> kernel \<Rightarrow> event_batch_request \<Rightarrow> master_error + event_batch" where
  "distributed_events cx k request =
     bindE (protocol_result (validate_batch_request cx request)) (\<lambda>_.
     bindE (case br_after request of
              None \<Rightarrow> Inr 0
            | Some cursor \<Rightarrow>
                bindE (reject_if EventCursorStreamMismatch
                  (cur_stream_id cursor \<noteq> k_stream_id k)) (\<lambda>_.
                bindE (reject_if EventCursorAhead (cur_sequence cursor > k_next_sequence k)) (\<lambda>_.
                Inr (cur_sequence cursor)))) (\<lambda>after_sequence.
     bindE (to_i64 after_sequence) (\<lambda>_.
     (let page = event_page k after_sequence (br_limit request + 1);
          has_more = length page > br_limit request;
          events = (if has_more then take (br_limit request) page else page);
          next_sequence = (if events = [] then after_sequence
                           else cur_sequence (ev_cursor (last events)));
          batch = \<lparr>eb_protocol_version = PROTOCOL_VERSION, eb_stream_id = k_stream_id k,
                   eb_after_sequence = after_sequence, eb_next_sequence = next_sequence,
                   eb_events = events, eb_has_more = has_more\<rparr> in
      bindE (protocol_result (validate_event_batch cx batch)) (\<lambda>_. Inr batch)))))"

record step_snapshot =
  sn_task_id :: uuid
  sn_step_id :: uuid
  sn_status :: step_status
  sn_accepted_payload_sha256 :: "digest option"

definition step_snapshot_of :: "kernel \<Rightarrow> uuid \<Rightarrow> master_error + step_snapshot" where
  "step_snapshot_of k step =
     bindE (ok_or StepNotFound (find_step k step)) (\<lambda>s.
     Inr \<lparr>sn_task_id = st_task_id s, sn_step_id = step, sn_status = st_status s,
          sn_accepted_payload_sha256 = st_accepted_payload_sha256 s\<rparr>)"

definition attempt_status_of :: "kernel \<Rightarrow> uuid \<Rightarrow> master_error + attempt_status" where
  "attempt_status_of k attempt =
     bindE (ok_or AttemptNotFound (load_attempt k attempt)) (\<lambda>a. Inr (at_status a))"

end
