(* ===== verification/Lease_Invariant.thy ===== *)
theory Lease_Invariant
  imports Master_Artifacts
begin

text \<open>
  The invariant that ties the three tables of distributed work together, and what each primitive
  of the kernel does to it. \<open>lease_inv\<close> reads: primary keys are unique; the steps in state leased are
  exactly the steps of the attempts in flight, one attempt each; a device has at most one attempt in
  flight, on its active connection and at that connection's epoch; at most four attempts are in
  flight; and the job stored with an attempt carries that attempt's identifiers.
  \<open>ev_ext k k'\<close> says that \<open>k'\<close> is \<open>k\<close> with numbered events appended: every operation is a few table
  updates up to \<open>ev_ext\<close>, which is how its lemmas are stated.
\<close>

section \<open>Appending events\<close>

text \<open>The tables that only the Feature Conveyor writes.\<close>

definition conveyor_tables ::
    "kernel \<Rightarrow> grant_row list \<times> specification_row list \<times> feature_row list \<times> dependency_row list
      \<times> queue_row list \<times> transition_row list \<times> owner_bridge_row \<times> lease_row option \<times> claim_row list
      \<times> nat \<times> dispatch_row list \<times> publication_row list \<times> publication_intent_row list" where
  "conveyor_tables k =
     (k_grants k, k_specifications k, k_features k, k_dependencies k, k_queue k, k_transitions k,
      k_owner_bridge k, k_active_lease k, k_claims k, k_queue_revision k, k_dispatches k,
      k_publications k, k_publication_intents k)"

lemma conveyor_tables_other [simp]:
  "conveyor_tables (k\<lparr>k_steps := x0\<rparr>) = conveyor_tables k"
  "conveyor_tables (k\<lparr>k_attempts := x1\<rparr>) = conveyor_tables k"
  "conveyor_tables (k\<lparr>k_connections := x2\<rparr>) = conveyor_tables k"
  "conveyor_tables (k\<lparr>k_devices := x3\<rparr>) = conveyor_tables k"
  "conveyor_tables (k\<lparr>k_certificates := x4\<rparr>) = conveyor_tables k"
  "conveyor_tables (k\<lparr>k_next_connection_epoch := x5\<rparr>) = conveyor_tables k"
  "conveyor_tables (k\<lparr>k_events := x6\<rparr>) = conveyor_tables k"
  "conveyor_tables (k\<lparr>k_next_sequence := x7\<rparr>) = conveyor_tables k"
  "conveyor_tables (k\<lparr>k_emergency_paused := x8\<rparr>) = conveyor_tables k"
  "conveyor_tables (k\<lparr>k_emergency_pause_revision := x9\<rparr>) = conveyor_tables k"
  "conveyor_tables (k\<lparr>k_artifacts := x10\<rparr>) = conveyor_tables k"
  "conveyor_tables (k\<lparr>k_orchestration := x11\<rparr>) = conveyor_tables k"
  "conveyor_tables (k\<lparr>k_audit := x12\<rparr>) = conveyor_tables k"
  by (simp_all add: conveyor_tables_def)

definition ev_ext :: "kernel \<Rightarrow> kernel \<Rightarrow> bool" where
  "ev_ext k k' =
     (\<exists>es. k' = k\<lparr>k_next_sequence := k_next_sequence k + length es, k_events := k_events k @ es\<rparr>
        \<and> map er_sequence es = [Suc (k_next_sequence k)..<Suc (k_next_sequence k + length es)])"

lemma ev_ext_refl [simp]: "ev_ext k k"
  unfolding ev_ext_def by (rule exI [of _ "[]"]) simp

lemma ev_extE:
  assumes "ev_ext k k'"
  obtains es where
    "k' = k\<lparr>k_next_sequence := k_next_sequence k + length es, k_events := k_events k @ es\<rparr>"
    and "map er_sequence es = [Suc (k_next_sequence k)..<Suc (k_next_sequence k + length es)]"
  using assms unfolding ev_ext_def by blast

lemma ev_extI:
  "k' = k\<lparr>k_next_sequence := k_next_sequence k + length es, k_events := k_events k @ es\<rparr>
    \<Longrightarrow> map er_sequence es = [Suc (k_next_sequence k)..<Suc (k_next_sequence k + length es)]
    \<Longrightarrow> ev_ext k k'"
  unfolding ev_ext_def by blast

lemma ev_ext_trans:
  assumes "ev_ext k l" "ev_ext l m"
  shows "ev_ext k m"
proof -
  let ?q = "k_next_sequence k"
  obtain es where l: "l = k\<lparr>k_next_sequence := ?q + length es, k_events := k_events k @ es\<rparr>"
    and es: "map er_sequence es = [Suc ?q..<Suc (?q + length es)]"
    using assms(1) by (rule ev_extE)
  obtain fs where m: "m = l\<lparr>k_next_sequence := k_next_sequence l + length fs, k_events := k_events l @ fs\<rparr>"
    and fs: "map er_sequence fs = [Suc (k_next_sequence l)..<Suc (k_next_sequence l + length fs)]"
    using assms(2) by (rule ev_extE)
  have "map er_sequence (es @ fs) = [Suc ?q..<Suc (?q + length es)]
      @ [Suc (?q + length es)..<Suc (?q + length es) + length fs]"
    using es fs by (simp add: l del: upt_Suc)
  also have "\<dots> = [Suc ?q..<Suc (?q + length es) + length fs]"
    by (rule upt_add_eq_append [symmetric]) simp
  finally have "map er_sequence (es @ fs) = [Suc ?q..<Suc (?q + length (es @ fs))]"
    by (simp add: add.assoc)
  then show ?thesis by (rule ev_extI [rotated]) (simp add: m l add.assoc)
qed

lemma append_event_ext:
  assumes "append_event cx kind at i k = Inr k'"
  shows "ev_ext k k'"
proof -
  from append_event_Inr [OF assms] obtain r where
    k': "k' = k\<lparr>k_next_sequence := Suc (k_next_sequence k), k_events := k_events k @ [r]\<rparr>"
    and r: "er_sequence r = Suc (k_next_sequence k)" by blast
  show ?thesis by (rule ev_extI [of _ _ "[r]"]) (simp_all add: k' r)
qed

lemma ev_ext_fields:
  assumes "ev_ext k k'"
  shows "k_steps k' = k_steps k" "k_attempts k' = k_attempts k"
    "k_connections k' = k_connections k" "k_devices k' = k_devices k"
    "k_next_connection_epoch k' = k_next_connection_epoch k"
    "k_emergency_paused k' = k_emergency_paused k" "k_stream_id k' = k_stream_id k"
    "k_emergency_pause_revision k' = k_emergency_pause_revision k"
    "k_artifacts k' = k_artifacts k" "k_active_lease k' = k_active_lease k"
    "k_orchestration k' = k_orchestration k" "conveyor_tables k' = conveyor_tables k"
  using assms by (auto simp: ev_ext_def conveyor_tables_def)

lemma ev_ext_updates:
  assumes "ev_ext k k'"
  shows "ev_ext (update_steps p u k) (update_steps p u k')"
    "ev_ext (update_attempts q v k) (update_attempts q v k')"
    "ev_ext (update_connections r w k) (update_connections r w k')"
proof -
  obtain es where
    k': "k' = k\<lparr>k_next_sequence := k_next_sequence k + length es, k_events := k_events k @ es\<rparr>"
    and es: "map er_sequence es = [Suc (k_next_sequence k)..<Suc (k_next_sequence k + length es)]"
    using assms by (rule ev_extE)
  show "ev_ext (update_steps p u k) (update_steps p u k')"
    "ev_ext (update_attempts q v k) (update_attempts q v k')"
    "ev_ext (update_connections r w k) (update_connections r w k')"
    by (rule ev_extI [of _ _ es];
        simp add: k' es update_steps_def update_attempts_def update_connections_def del: upt_Suc)+
qed

lemma update_fields [simp]:
  "k_steps (update_steps p u k) = update_rows p (apply_step_update u) (k_steps k)"
  "k_attempts (update_steps p u k) = k_attempts k"
  "k_connections (update_steps p u k) = k_connections k"
  "k_attempts (update_attempts q v k) = update_rows q (apply_attempt_update v) (k_attempts k)"
  "k_steps (update_attempts q v k) = k_steps k"
  "k_connections (update_attempts q v k) = k_connections k"
  "k_connections (update_connections r w k) = update_rows r (apply_connection_update w) (k_connections k)"
  "k_steps (update_connections r w k) = k_steps k"
  "k_attempts (update_connections r w k) = k_attempts k"
  by (simp_all add: update_steps_def update_attempts_def update_connections_def)

lemma update_rest [simp]:
  "k_devices (update_steps p u k) = k_devices k"
  "k_devices (update_attempts q v k) = k_devices k"
  "k_devices (update_connections r w k) = k_devices k"
  "k_next_connection_epoch (update_steps p u k) = k_next_connection_epoch k"
  "k_next_connection_epoch (update_attempts q v k) = k_next_connection_epoch k"
  "k_next_connection_epoch (update_connections r w k) = k_next_connection_epoch k"
  "k_emergency_paused (update_steps p u k) = k_emergency_paused k"
  "k_emergency_paused (update_attempts q v k) = k_emergency_paused k"
  "k_emergency_paused (update_connections r w k) = k_emergency_paused k"
  "k_events (update_steps p u k) = k_events k"
  "k_events (update_attempts q v k) = k_events k"
  "k_events (update_connections r w k) = k_events k"
  "k_next_sequence (update_steps p u k) = k_next_sequence k"
  "k_next_sequence (update_attempts q v k) = k_next_sequence k"
  "k_next_sequence (update_connections r w k) = k_next_sequence k"
  "conveyor_tables (update_steps p u k) = conveyor_tables k"
  "conveyor_tables (update_attempts q v k) = conveyor_tables k"
  "conveyor_tables (update_connections r w k) = conveyor_tables k"
  by (simp_all add: update_steps_def update_attempts_def update_connections_def conveyor_tables_def)

section \<open>The invariant\<close>

definition attempt_static :: "attempt_row \<Rightarrow> attempt_row" where
  "attempt_static a =
     a\<lparr>at_status := ALeased, at_completed_at_ms := None, at_result_sequence := None,
       at_payload_sha256 := None, at_cancellation_sequence := None,
       at_cancellation_requested_at_ms := None, at_cancellation_deadline_at_ms := None,
       at_cancellation_ack_sequence := None\<rparr>"

lemma attempt_static_update: "attempt_static (apply_attempt_update u a) = attempt_static a"
  by (cases u) (simp_all add: attempt_static_def)

lemma map_static_update:
  "map attempt_static (update_rows p (apply_attempt_update u) t) = map attempt_static t"
  by (induction t) (simp_all add: attempt_static_update)

lemma attempt_update_columns [simp]:
  "at_step_id (apply_attempt_update u a) = at_step_id a"
  "at_device_id (apply_attempt_update u a) = at_device_id a"
  "at_epoch (apply_attempt_update u a) = at_epoch a"
  "at_attempt_id (apply_attempt_update u a) = at_attempt_id a"
  "at_job (apply_attempt_update u a) = at_job a"
  by (cases u; simp)+

lemma step_update_columns [simp]:
  "st_step_id (apply_step_update u s) = st_step_id s"
  "st_task_id (apply_step_update u s) = st_task_id s"
  by (cases u; simp)+

lemma connection_update_columns [simp]:
  "con_device_id (apply_connection_update u c) = con_device_id c"
  by (cases u) simp_all

definition job_row :: "attempt_row \<Rightarrow> bool" where
  "job_row a =
     (job_attempt_id (at_job a) = at_attempt_id a \<and> job_step_id (at_job a) = at_step_id a
      \<and> job_connection_epoch (at_job a) = at_epoch a)"

definition served :: "connection_row list \<Rightarrow> attempt_row \<Rightarrow> bool" where
  "served cs a = list_ex (\<lambda>c. con_device_id c = at_device_id a \<and> con_epoch c = at_epoch a
     \<and> con_active c) cs"

definition tables_inv :: "connection_row list \<Rightarrow> step_row list \<Rightarrow> attempt_row list \<Rightarrow> bool" where
  "tables_inv cs ss as =
     (distinct (map con_device_id cs)
      \<and> distinct (map st_step_id ss)
      \<and> distinct (map at_attempt_id as)
      \<and> distinct (map at_step_id (filter in_flight as))
      \<and> distinct (map at_device_id (filter in_flight as))
      \<and> set (map at_step_id (filter in_flight as)) = set (map st_step_id (filter leased_row ss))
      \<and> list_all (\<lambda>a. in_flight a \<longrightarrow> served cs a) as
      \<and> count_rows in_flight as \<le> MAX_CONCURRENT_JOBS
      \<and> list_all job_row as)"

definition lease_inv :: "kernel \<Rightarrow> bool" where
  "lease_inv k = tables_inv (k_connections k) (k_steps k) (k_attempts k)"

lemma lease_inv_ev_ext: "ev_ext k k' \<Longrightarrow> lease_inv k' = lease_inv k"
  by (simp add: lease_inv_def ev_ext_fields)

lemma filter_close:
  assumes "\<And>r. r \<in> set t \<Longrightarrow> p r \<Longrightarrow> \<not> q (u r)"
  shows "filter q (update_rows p u t) = filter (\<lambda>r. q r \<and> \<not> p r) t"
  using assms by (induction t) auto

lemma map_update_rows: "(\<And>r. f (u r) = f r) \<Longrightarrow> map f (update_rows p u t) = map f t"
  by (induction t) simp_all

lemma map_filter_twice: "filter (\<lambda>r. q r \<and> \<not> p r) t = filter (\<lambda>r. \<not> p r) (filter q t)"
  by (induction t) auto

lemma distinct_map_subfilter:
  "distinct (map f (filter q t)) \<Longrightarrow> distinct (map f (filter (\<lambda>r. q r \<and> p r) t))"
  by (induction t) (auto split: if_splits)

lemma in_flight_step_leased:
  assumes "tables_inv cs ss as" "a \<in> set as" "in_flight a"
  shows "\<exists>s \<in> set ss. leased_row s \<and> st_step_id s = at_step_id a"
proof -
  have "at_step_id a \<in> set (map at_step_id (filter in_flight as))" using assms(2,3) by simp
  then have "at_step_id a \<in> set (map st_step_id (filter leased_row ss))"
    using assms(1) unfolding tables_inv_def by blast
  then show ?thesis by auto
qed

lemma in_flight_unique:
  assumes "tables_inv cs ss as" "a \<in> set as" "in_flight a" "b \<in> set as" "in_flight b"
    and "at_step_id a = at_step_id b \<or> at_device_id a = at_device_id b"
  shows "a = b"
proof -
  have "inj_on at_step_id (set (filter in_flight as))" "inj_on at_device_id (set (filter in_flight as))"
    using assms(1) unfolding tables_inv_def distinct_map by blast+
  with assms(2-6) show ?thesis by (auto dest: inj_onD)
qed

lemma served_iff:
  "served cs a \<longleftrightarrow> (\<exists>c \<in> set cs. con_device_id c = at_device_id a \<and> con_epoch c = at_epoch a
     \<and> con_active c)"
  by (auto simp: served_def list_ex_iff)

text \<open>Closing attempts in flight together with their steps.\<close>

lemma tables_inv_close:
  assumes inv: "tables_inv cs ss as"
    and p: "\<And>a. a \<in> set as \<Longrightarrow> p a \<Longrightarrow> in_flight a"
    and u: "\<And>a. \<not> in_flight (apply_attempt_update u a)"
    and q: "\<And>s. s \<in> set ss \<Longrightarrow> q s \<longleftrightarrow> leased_row s \<and> (\<exists>a \<in> set as. p a \<and> at_step_id a = st_step_id s)"
    and v: "\<And>s. \<not> leased_row (apply_step_update v s)"
  shows "tables_inv cs (update_rows q (apply_step_update v) ss) (update_rows p (apply_attempt_update u) as)"
proof -
  let ?as = "update_rows p (apply_attempt_update u) as" and ?ss = "update_rows q (apply_step_update v) ss"
  have fa: "filter in_flight ?as = filter (\<lambda>a. in_flight a \<and> \<not> p a) as"
    using u by (rule filter_close)
  have fs: "filter leased_row ?ss = filter (\<lambda>s. leased_row s \<and> \<not> q s) ss"
    using v by (rule filter_close)
  have keys: "map at_attempt_id ?as = map at_attempt_id as" "map st_step_id ?ss = map st_step_id ss"
    by (simp_all add: map_update_rows)
  have steps: "set (map at_step_id (filter in_flight ?as)) = set (map st_step_id (filter leased_row ?ss))"
  proof (intro equalityI subsetI)
    fix i assume "i \<in> set (map at_step_id (filter in_flight ?as))"
    then obtain a where a: "a \<in> set as" "in_flight a" "\<not> p a" "at_step_id a = i"
      unfolding fa by auto
    then obtain s where s: "s \<in> set ss" "leased_row s" "st_step_id s = i"
      using in_flight_step_leased [OF inv] by blast
    have "\<not> q s"
    proof
      assume "q s"
      then obtain b where "b \<in> set as" "p b" "at_step_id b = i" using q s by auto
      then have "a = b" using in_flight_unique [OF inv a(1,2)] p a(4) by blast
      with a(3) \<open>p b\<close> show False by simp
    qed
    with s show "i \<in> set (map st_step_id (filter leased_row ?ss))" unfolding fs by auto
  next
    fix i assume "i \<in> set (map st_step_id (filter leased_row ?ss))"
    then obtain s where s: "s \<in> set ss" "leased_row s" "\<not> q s" "st_step_id s = i"
      unfolding fs by auto
    then have "i \<in> set (map st_step_id (filter leased_row ss))" by auto
    then have "i \<in> set (map at_step_id (filter in_flight as))"
      using inv unfolding tables_inv_def by blast
    then obtain a where a: "a \<in> set as" "in_flight a" "at_step_id a = i" by auto
    with q s have "\<not> p a" by blast
    with a show "i \<in> set (map at_step_id (filter in_flight ?as))" unfolding fa by auto
  qed
  have "count_rows in_flight ?as \<le> count_rows in_flight as"
    unfolding count_rows_def fa map_filter_twice by (rule length_filter_le)
  moreover have "list_all (\<lambda>a. in_flight a \<longrightarrow> served cs a) ?as" "list_all job_row ?as"
    using inv u unfolding tables_inv_def
    by (auto simp: list_all_iff row_simps job_row_def split: if_splits)
  moreover have "distinct (map at_step_id (filter in_flight ?as))"
    "distinct (map at_device_id (filter in_flight ?as))"
    using inv unfolding fa tables_inv_def by (auto intro: distinct_map_subfilter)
  ultimately show ?thesis
    using inv steps unfolding tables_inv_def keys by simp
qed

text \<open>Updates that move no attempt in or out of flight and no step in or out of leased.\<close>

lemma tables_inv_attempts:
  assumes "tables_inv cs ss as"
    and "\<And>a. a \<in> set as \<Longrightarrow> p a \<Longrightarrow> in_flight (apply_attempt_update u a) = in_flight a"
  shows "tables_inv cs ss (update_rows p (apply_attempt_update u) as)"
proof -
  let ?as = "update_rows p (apply_attempt_update u) as"
  have "map at_step_id (filter in_flight ?as) = map at_step_id (filter in_flight as)"
    "map at_device_id (filter in_flight ?as) = map at_device_id (filter in_flight as)"
    "count_rows in_flight ?as = count_rows in_flight as"
    "map at_attempt_id ?as = map at_attempt_id as"
    using assms(2) by (induction as) auto
  moreover have "list_all (\<lambda>a. in_flight a \<longrightarrow> served cs a) ?as" "list_all job_row ?as"
    using assms unfolding tables_inv_def
    by (auto simp: list_all_iff row_simps job_row_def served_def)
  ultimately show ?thesis using assms(1) unfolding tables_inv_def by simp
qed

lemma tables_inv_steps:
  assumes "tables_inv cs ss as"
    and "\<And>s. s \<in> set ss \<Longrightarrow> p s \<Longrightarrow> leased_row (apply_step_update u s) = leased_row s"
  shows "tables_inv cs (update_rows p (apply_step_update u) ss) as"
proof -
  let ?ss = "update_rows p (apply_step_update u) ss"
  have "map st_step_id (filter leased_row ?ss) = map st_step_id (filter leased_row ss)"
    "map st_step_id ?ss = map st_step_id ss"
    using assms(2) by (induction ss) auto
  then show ?thesis using assms(1) unfolding tables_inv_def by simp
qed

lemma tables_inv_connections:
  assumes "tables_inv cs ss as" "distinct (map con_device_id cs')"
    and "\<And>a. a \<in> set as \<Longrightarrow> in_flight a \<Longrightarrow> served cs a \<Longrightarrow> served cs' a"
  shows "tables_inv cs' ss as"
  using assms unfolding tables_inv_def by (simp add: list_all_iff)

lemma tables_inv_sequence:
  assumes "tables_inv cs ss as"
  shows "tables_inv (update_rows p (apply_connection_update (ConnectionSequence n)) cs) ss as"
proof (rule tables_inv_connections [OF assms])
  show "distinct (map con_device_id (update_rows p (apply_connection_update (ConnectionSequence n)) cs))"
    using assms by (simp add: map_update_rows tables_inv_def)
  fix a assume "served cs a"
  then obtain c where c: "c \<in> set cs" "con_device_id c = at_device_id a" "con_epoch c = at_epoch a"
    "con_active c" by (auto simp: served_iff)
  then show "served (update_rows p (apply_connection_update (ConnectionSequence n)) cs) a"
    unfolding served_iff set_update_rows
    by (intro bexI [of _ "if p c then apply_connection_update (ConnectionSequence n) c else c"]) auto
qed

lemma tables_inv_insert_step:
  assumes "tables_inv cs ss as" "st_step_id s \<notin> set (map st_step_id ss)" "\<not> leased_row s"
  shows "tables_inv cs (insert_row s ss) as"
  using assms unfolding tables_inv_def insert_row_def by auto

end
