(* ===== verification/Kernel_Steps.thy ===== *)
theory Kernel_Steps
  imports Lease_Invariant
begin

text \<open>
  Every operation of the master kernel preserves \<open>lease_inv\<close>. Each section first gives the closed form
  of a loop or a helper up to \<open>ev_ext\<close>, then the preservation lemma.
\<close>

lemma if_append_ext:
  "(if b then append_event cx kind at i k else Inr k) = Inr k' \<Longrightarrow> ev_ext k k'"
  by (auto dest: append_event_ext split: if_splits)

section \<open>Requeueing and disconnection\<close>

lemma requeue_step_ext:
  assumes "requeue_step cx now (t, i) (k, n) = Inr (k', m)"
  shows "ev_ext (update_steps (\<lambda>s. leased_row s \<and> st_step_id s = i) StepRequeue k) k'"
proof -
  have eq: "(\<lambda>s. st_step_id s = i \<and> st_status s = SLeased) = (\<lambda>s. leased_row s \<and> st_step_id s = i)"
    by (auto simp: leased_row_def)
  show ?thesis
    using assms unfolding requeue_step_def Let_def prod.case eq
    by (auto simp: bindE_Inr_iff dest: append_event_ext split: if_splits)
qed

lemma requeue_twice:
  "update_rows (\<lambda>s. leased_row s \<and> st_step_id s \<in> I) (apply_step_update StepRequeue)
     (update_rows (\<lambda>s. leased_row s \<and> st_step_id s = i) (apply_step_update StepRequeue) t)
   = update_rows (\<lambda>s. leased_row s \<and> st_step_id s \<in> insert i I) (apply_step_update StepRequeue) t"
  by (induction t) (auto simp: leased_row_def)

lemma requeue_steps_ext:
  "forE (requeue_step cx now) ids (k, n) = Inr (k', m) \<Longrightarrow>
     ev_ext (update_steps (\<lambda>s. leased_row s \<and> st_step_id s \<in> snd ` set ids) StepRequeue k) k'"
proof (induction ids arbitrary: k n)
  case Nil
  then show ?case by (simp add: update_steps_def update_rows_none)
next
  case (Cons x ids)
  obtain t i where x: "x = (t, i)" by (cases x)
  from Cons.prems obtain k1 n1 where
    1: "requeue_step cx now (t, i) (k, n) = Inr (k1, n1)"
    and 2: "forE (requeue_step cx now) ids (k1, n1) = Inr (k', m)"
    by (auto simp: x bindE_Inr_iff)
  have "ev_ext (update_steps (\<lambda>s. leased_row s \<and> st_step_id s \<in> snd ` set ids) StepRequeue
      (update_steps (\<lambda>s. leased_row s \<and> st_step_id s = i) StepRequeue k)) k'"
    using ev_ext_trans [OF ev_ext_updates(1) [OF requeue_step_ext [OF 1]] Cons.IH [OF 2]] .
  then show ?case by (simp add: update_steps_def requeue_twice x)
qed

lemma find_step_key:
  "distinct (map st_step_id (k_steps k)) \<Longrightarrow> s \<in> set (k_steps k) \<Longrightarrow> find_step k (st_step_id s) = Some s"
  unfolding find_step_def by (rule find_row_key) simp_all

lemma in_flight_find_step:
  assumes "lease_inv k" "a \<in> set (k_attempts k)" "in_flight a"
  shows "\<exists>s. find_step k (at_step_id a) = Some s \<and> leased_row s"
proof -
  obtain s where "s \<in> set (k_steps k)" "leased_row s" "st_step_id s = at_step_id a"
    using in_flight_step_leased assms unfolding lease_inv_def by blast
  then show ?thesis
    using find_step_key [of k s] assms(1) unfolding lease_inv_def tables_inv_def by auto
qed

lemma attempts_with_task_attempts:
  assumes "lease_inv k" "\<And>a. p a \<Longrightarrow> in_flight a"
  shows "snd ` set (attempts_with_task p k) = {a \<in> set (k_attempts k). p a}"
proof (intro equalityI subsetI)
  fix a assume "a \<in> {a \<in> set (k_attempts k). p a}"
  then obtain s where "find_step k (at_step_id a) = Some s" and a: "a \<in> set (k_attempts k)" "p a"
    using in_flight_find_step [OF assms(1), of a] assms(2) [of a] by auto
  then have "(st_task_id s, a) \<in> set (attempts_with_task p k)"
    by (simp add: set_attempts_with_task)
  then show "a \<in> snd ` set (attempts_with_task p k)" by force
qed (auto simp: set_attempts_with_task)

lemma leased_steps_ids:
  assumes "lease_inv k"
  shows "snd ` set (leased_steps k c) = at_step_id ` {a \<in> set (k_attempts k). at_status a = ALeased
    \<and> (case c of None \<Rightarrow> True | Some (d, e) \<Rightarrow> at_device_id a = d \<and> at_epoch a = e)}"
proof -
  let ?p = "\<lambda>a. at_status a = ALeased
    \<and> (case c of None \<Rightarrow> True | Some (d, e) \<Rightarrow> at_device_id a = d \<and> at_epoch a = e)"
  have "snd ` set (attempts_with_task ?p k) = {a \<in> set (k_attempts k). ?p a}"
    by (rule attempts_with_task_attempts [OF assms]) (simp add: in_flight_def)
  moreover have "snd ` set (leased_steps k c) = at_step_id ` snd ` set (attempts_with_task ?p k)"
    unfolding leased_steps_def by force
  ultimately show ?thesis by simp
qed

lemma close_pair_inv:
  assumes inv: "lease_inv k"
    and a: "a \<in> set (k_attempts k)" "in_flight a"
    and p: "\<And>b. b \<in> set (k_attempts k) \<Longrightarrow> p b \<longleftrightarrow> b = a"
    and u: "\<And>b. \<not> in_flight (apply_attempt_update u b)"
    and v: "\<And>s. \<not> leased_row (apply_step_update v s)"
  shows "lease_inv (update_steps (\<lambda>s. st_step_id s = at_step_id a \<and> st_status s = SLeased) v
    (update_attempts p u k))"
proof -
  have "tables_inv (k_connections k)
      (update_rows (\<lambda>s. st_step_id s = at_step_id a \<and> st_status s = SLeased) (apply_step_update v) (k_steps k))
      (update_rows p (apply_attempt_update u) (k_attempts k))"
  proof (rule tables_inv_close [OF _ _ u _ v])
    show "tables_inv (k_connections k) (k_steps k) (k_attempts k)"
      using inv by (simp add: lease_inv_def)
    show "\<And>b. b \<in> set (k_attempts k) \<Longrightarrow> p b \<Longrightarrow> in_flight b" using p a(2) by auto
    show "\<And>s. s \<in> set (k_steps k) \<Longrightarrow> (st_step_id s = at_step_id a \<and> st_status s = SLeased)
      \<longleftrightarrow> leased_row s \<and> (\<exists>b \<in> set (k_attempts k). p b \<and> at_step_id b = st_step_id s)"
      using p a(1) by (auto simp: leased_row_def)
  qed
  then show ?thesis by (simp add: lease_inv_def)
qed

lemma not_in_flight_close [simp]:
  "status \<notin> {ALeased, ACancellationPending} \<Longrightarrow> \<not> in_flight (apply_attempt_update (AttemptClose status now) b)"
  "status \<notin> {ALeased, ACancellationPending} \<Longrightarrow> \<not> in_flight (apply_attempt_update (AttemptResult status now n d) b)"
  "\<not> in_flight (apply_attempt_update (AttemptAck n now) b)"
  by (simp_all add: in_flight_def)

lemma not_leased_update [simp]:
  "\<not> leased_row (apply_step_update StepRequeue s)"
  "status \<noteq> SLeased \<Longrightarrow> \<not> leased_row (apply_step_update (StepFinish status now) s)"
  "status \<noteq> SLeased \<Longrightarrow> \<not> leased_row (apply_step_update (StepAccept status j d now) s)"
  by (simp_all add: leased_row_def)

text \<open>What is left to close when a device goes: nothing that waits for an acknowledgement.\<close>

definition no_pending :: "uuid \<Rightarrow> nat \<Rightarrow> kernel \<Rightarrow> bool" where
  "no_pending d e k = (\<forall>a \<in> set (k_attempts k).
     at_device_id a = d \<and> at_epoch a = e \<longrightarrow> at_status a \<noteq> ACancellationPending)"

lemma close_pending_cancellation_inv:
  assumes inv: "lease_inv k"
    and ok: "close_pending_cancellation cx d e now k = Inr (k', n)"
  shows "lease_inv k' \<and> no_pending d e k'
    \<and> map attempt_static (k_attempts k') = map attempt_static (k_attempts k)
    \<and> k_connections k' = k_connections k"
proof -
  let ?p = "\<lambda>a. at_device_id a = d \<and> at_epoch a = e \<and> at_status a = ACancellationPending"
  have all: "snd ` set (attempts_with_task ?p k) = {a \<in> set (k_attempts k). ?p a}"
    by (rule attempts_with_task_attempts [OF inv]) (simp add: in_flight_def)
  show ?thesis
  proof (cases "attempts_with_task ?p k")
    case Nil
    then have "k' = k" using ok by (simp add: close_pending_cancellation_def)
    moreover have "no_pending d e k" using all Nil by (auto simp: no_pending_def)
    ultimately show ?thesis using inv by simp
  next
    case (Cons x xs)
    obtain t a where x: "x = (t, a)" by (cases x)
    have a: "a \<in> set (k_attempts k)" "?p a" using all Cons x by force+
    then have fl: "in_flight a" by (simp add: in_flight_def)
    let ?hit = "\<lambda>b. at_step_id b = at_step_id a \<and> at_status b = ACancellationPending"
    let ?k2 = "update_steps (\<lambda>s. st_step_id s = at_step_id a \<and> st_status s = SLeased)
      (StepFinish SCancelled now) (update_attempts ?hit (AttemptClose AAbandoned now) k)"
    have hit: "?hit b \<longleftrightarrow> b = a" if "b \<in> set (k_attempts k)" for b
      using in_flight_unique [of _ _ _ b a] inv that a fl unfolding lease_inv_def
      by (metis in_flight_def)
    obtain k3 where 3: "append_event cx StepCancellationExpired now (attempt_identity t (at_step_id a) d e) ?k2 = Inr k3"
      and 4: "append_event cx StepCancelled now (step_identity t (at_step_id a)) k3 = Inr k'"
      using ok Cons x by (auto simp: close_pending_cancellation_def Let_def bindE_Inr_iff)
    have ext: "ev_ext ?k2 k'"
      using ev_ext_trans [OF append_event_ext [OF 3] append_event_ext [OF 4]] .
    have "lease_inv ?k2" by (rule close_pair_inv [OF inv a(1) fl hit])
      (simp_all add: in_flight_def leased_row_def)
    then have "lease_inv k'" using lease_inv_ev_ext [OF ext] by simp
    moreover have "no_pending d e k'"
    proof (unfold no_pending_def, intro ballI impI)
      fix b' assume b': "b' \<in> set (k_attempts k')" "at_device_id b' = d \<and> at_epoch b' = e"
      then obtain b where b: "b \<in> set (k_attempts k)"
        "b' = (if ?hit b then apply_attempt_update (AttemptClose AAbandoned now) b else b)"
        by (auto simp: ev_ext_fields(2) [OF ext] row_simps)
      show "at_status b' \<noteq> ACancellationPending"
      proof
        assume pend: "at_status b' = ACancellationPending"
        with b(2) have "b' = b" "\<not> ?hit b" by (auto split: if_splits)
        with b' pend b(1) have "b = a"
          using in_flight_unique [of _ _ _ b a] inv a fl unfolding lease_inv_def
          by (metis in_flight_def)
        with \<open>\<not> ?hit b\<close> a show False by simp
      qed
    qed
    ultimately show ?thesis
      by (simp add: ev_ext_fields(2,3) [OF ext] map_static_update)
  qed
qed

lemma disconnect_inv:
  assumes inv: "lease_inv k"
    and ok: "disconnect_device_tx cx d e now k = Inr (k', r)"
  shows "lease_inv k' \<and> map attempt_static (k_attempts k') = map attempt_static (k_attempts k)"
proof -
  let ?hit = "\<lambda>a. at_device_id a = d \<and> at_epoch a = e \<and> at_status a = ALeased"
  let ?here = "\<lambda>c. con_device_id c = d \<and> con_epoch c = e \<and> con_active c"
  from ok obtain k1 n1 k4 n where
    1: "close_pending_cancellation cx d e now k = Inr (k1, n1)"
    and 4: "(if count_rows ?here (k_connections (update_attempts ?hit (AttemptClose AAbandoned now) k1)) = 1
        then append_event cx DeviceDisconnected now (device_identity d e)
          (update_connections ?here (ConnectionClose now)
             (update_attempts ?hit (AttemptClose AAbandoned now) k1))
        else Inr (update_connections ?here (ConnectionClose now)
             (update_attempts ?hit (AttemptClose AAbandoned now) k1))) = Inr k4"
    and 5: "requeue_steps cx now (leased_steps k1 (Some (d, e))) k4 = Inr (k', n)"
    unfolding disconnect_device_tx_def Let_def bindE_Inr_iff split_paired_Ex prod.case
    by blast
  have c1: "lease_inv k1" "no_pending d e k1"
    "map attempt_static (k_attempts k1) = map attempt_static (k_attempts k)"
    using close_pending_cancellation_inv [OF inv 1] by blast+
  let ?q = "\<lambda>s. leased_row s \<and> st_step_id s \<in> snd ` set (leased_steps k1 (Some (d, e)))"
  let ?ss = "update_rows ?q (apply_step_update StepRequeue) (k_steps k1)"
  let ?as = "update_rows ?hit (apply_attempt_update (AttemptClose AAbandoned now)) (k_attempts k1)"
  let ?cs = "update_rows ?here (apply_connection_update (ConnectionClose now)) (k_connections k1)"
  have ext: "ev_ext (update_steps ?q StepRequeue (update_connections ?here (ConnectionClose now)
        (update_attempts ?hit (AttemptClose AAbandoned now) k1))) k'"
    using ev_ext_trans [OF ev_ext_updates(1) [OF if_append_ext [OF 4]] requeue_steps_ext] 5
    unfolding requeue_steps_def by blast
  have "tables_inv (k_connections k1) ?ss ?as"
  proof (rule tables_inv_close)
    show "tables_inv (k_connections k1) (k_steps k1) (k_attempts k1)"
      using c1(1) by (simp add: lease_inv_def)
    show "\<And>s. s \<in> set (k_steps k1) \<Longrightarrow> ?q s \<longleftrightarrow> leased_row s
        \<and> (\<exists>a \<in> set (k_attempts k1). ?hit a \<and> at_step_id a = st_step_id s)"
      unfolding leased_steps_ids [OF c1(1)] by force
  qed (simp_all add: in_flight_def leased_row_def)
  then have "tables_inv ?cs ?ss ?as"
  proof (rule tables_inv_connections)
    show "distinct (map con_device_id ?cs)"
      using c1(1) by (simp add: lease_inv_def tables_inv_def map_update_rows)
    fix a assume a: "a \<in> set ?as" "in_flight a" "served (k_connections k1) a"
    from a(1) obtain b where b: "b \<in> set (k_attempts k1)"
      "a = (if ?hit b then apply_attempt_update (AttemptClose AAbandoned now) b else b)"
      unfolding set_update_rows by (rule imageE) blast
    have nb: "\<not> ?hit b"
    proof
      assume h: "?hit b"
      have "a = apply_attempt_update (AttemptClose AAbandoned now) b"
        using b(2) unfolding if_P [OF h] .
      with a(2) show False by (simp add: in_flight_def)
    qed
    have "a = b" using b(2) unfolding if_not_P [OF nb] .
    with b(1) nb have a1: "a \<in> set (k_attempts k1)" "\<not> ?hit a" by simp_all
    with a(2) c1(2) have "\<not> (at_device_id a = d \<and> at_epoch a = e)"
      by (auto simp: no_pending_def in_flight_def)
    with a(3) show "served ?cs a" by (auto simp: served_iff row_simps)
  qed
  then have "lease_inv (update_steps ?q StepRequeue (update_connections ?here (ConnectionClose now)
        (update_attempts ?hit (AttemptClose AAbandoned now) k1)))"
    by (simp add: lease_inv_def)
  then have "lease_inv k'" using lease_inv_ev_ext [OF ext] by simp
  moreover have "map attempt_static (k_attempts k') = map attempt_static (k_attempts k)"
    using c1(3) by (simp add: ev_ext_fields(2) [OF ext] map_static_update)
  ultimately show ?thesis by blast
qed

section \<open>Deadlines\<close>

lemma expire_lease_Inr:
  "expire_lease cx now (t, a) (k, n) = Inr st \<longleftrightarrow>
     (\<exists>k0. append_event cx StepLeaseExpired now
          (attempt_identity t (at_step_id a) (at_device_id a) (at_epoch a)) k = Inr k0
        \<and> requeue_step cx now (t, at_step_id a) (k0, n) = Inr st)"
  by (simp add: expire_lease_def bindE_Inr_iff)

lemma expire_leases_ext:
  "forE (expire_lease cx now) items (k, n) = Inr (k', m) \<Longrightarrow>
     ev_ext (update_steps (\<lambda>s. leased_row s \<and> st_step_id s \<in> at_step_id ` snd ` set items) StepRequeue k) k'"
proof (induction items arbitrary: k n)
  case Nil
  then show ?case by (simp add: update_steps_def update_rows_none)
next
  case (Cons x items)
  obtain t a where x: "x = (t, a)" by (cases x)
  from Cons.prems obtain k0 k1 n1 where
    0: "append_event cx StepLeaseExpired now
          (attempt_identity t (at_step_id a) (at_device_id a) (at_epoch a)) k = Inr k0"
    and 1: "requeue_step cx now (t, at_step_id a) (k0, n) = Inr (k1, n1)"
    and 2: "forE (expire_lease cx now) items (k1, n1) = Inr (k', m)"
    unfolding x forE.simps bindE_Inr_iff split_paired_Ex expire_lease_Inr by blast
  let ?one = "\<lambda>s. leased_row s \<and> st_step_id s = at_step_id a"
  let ?rest = "\<lambda>s. leased_row s \<and> st_step_id s \<in> at_step_id ` snd ` set items"
  have "ev_ext (update_steps ?one StepRequeue k) k1"
    using ev_ext_trans [OF ev_ext_updates(1) [OF append_event_ext [OF 0]] requeue_step_ext [OF 1]] .
  then have "ev_ext (update_steps ?rest StepRequeue (update_steps ?one StepRequeue k)) k'"
    using ev_ext_trans [OF ev_ext_updates(1) Cons.IH [OF 2]] by blast
  then show ?case by (simp add: update_steps_def requeue_twice x)
qed

lemma reconcile_expired_leases_inv:
  assumes inv: "lease_inv k"
    and ok: "reconcile_expired_leases_tx cx now k = Inr (k', r)"
  shows "lease_inv k' \<and> map attempt_static (k_attempts k') = map attempt_static (k_attempts k)
    \<and> k_connections k' = k_connections k"
proof -
  let ?items = "attempts_with_task (lease_expired_by now) k"
  let ?q = "\<lambda>s. leased_row s \<and> st_step_id s \<in> at_step_id ` snd ` set ?items"
  from ok obtain n where
    1: "forE (expire_lease cx now) ?items
          (update_attempts (lease_expired_by now) (AttemptClose AExpired now) k, 0) = Inr (k', n)"
    unfolding reconcile_expired_leases_tx_def Let_def bindE_Inr_iff split_paired_Ex prod.case by blast
  note ext = expire_leases_ext [OF 1]
  have items: "snd ` set ?items = {a \<in> set (k_attempts k). lease_expired_by now a}"
    by (rule attempts_with_task_attempts [OF inv]) (simp add: in_flight_def lease_expired_by_def)
  have "tables_inv (k_connections k) (update_rows ?q (apply_step_update StepRequeue) (k_steps k))
      (update_rows (lease_expired_by now) (apply_attempt_update (AttemptClose AExpired now)) (k_attempts k))"
  proof (rule tables_inv_close)
    show "tables_inv (k_connections k) (k_steps k) (k_attempts k)"
      using inv by (simp add: lease_inv_def)
    show "\<And>s. s \<in> set (k_steps k) \<Longrightarrow> ?q s \<longleftrightarrow> leased_row s
        \<and> (\<exists>a \<in> set (k_attempts k). lease_expired_by now a \<and> at_step_id a = st_step_id s)"
      unfolding items by force
  qed (simp_all add: in_flight_def lease_expired_by_def leased_row_def)
  then have "lease_inv k'" unfolding lease_inv_ev_ext [OF ext] by (simp add: lease_inv_def)
  then show ?thesis by (simp add: ev_ext_fields(2,3) [OF ext] map_static_update)
qed

text \<open>The columns of an attempt that never change, found again by its identifier.\<close>

lemma static_same_row:
  assumes "map attempt_static t = map attempt_static t'" "a \<in> set t"
  shows "\<exists>b \<in> set t'. at_attempt_id b = at_attempt_id a \<and> at_step_id b = at_step_id a
    \<and> at_device_id b = at_device_id a \<and> at_epoch b = at_epoch a \<and> at_job b = at_job a"
proof -
  have "attempt_static a \<in> set (map attempt_static t')" using assms by (metis image_eqI set_map)
  then obtain b where b: "b \<in> set t'" "attempt_static b = attempt_static a" by auto
  have "at_attempt_id (attempt_static b) = at_attempt_id (attempt_static a)"
    "at_step_id (attempt_static b) = at_step_id (attempt_static a)"
    "at_device_id (attempt_static b) = at_device_id (attempt_static a)"
    "at_epoch (attempt_static b) = at_epoch (attempt_static a)"
    "at_job (attempt_static b) = at_job (attempt_static a)"
    using b(2) by simp_all
  then show ?thesis using b(1) by (auto simp: attempt_static_def)
qed

lemma static_row_by_id:
  assumes "lease_inv k" "map attempt_static (k_attempts k) = map attempt_static t" "a \<in> set t"
    and "b \<in> set (k_attempts k)" "at_attempt_id b = at_attempt_id a"
  shows "at_step_id b = at_step_id a \<and> at_device_id b = at_device_id a \<and> at_epoch b = at_epoch a"
proof -
  obtain b' where b': "b' \<in> set (k_attempts k)" "at_attempt_id b' = at_attempt_id a"
    "at_step_id b' = at_step_id a" "at_device_id b' = at_device_id a" "at_epoch b' = at_epoch a"
    using static_same_row [OF assms(2) [symmetric] assms(3)] by blast
  have "distinct (map at_attempt_id (k_attempts k))"
    using assms(1) by (simp add: lease_inv_def tables_inv_def)
  then have "b = b'" using assms(4,5) b'(1,2) by (metis distinct_map_inj)
  with b' show ?thesis by simp
qed

lemma expire_cancellation_inv:
  assumes inv: "lease_inv k"
    and static: "map attempt_static (k_attempts k) = map attempt_static t" "a \<in> set t"
    and ok: "expire_cancellation cx now (task, a) (k, n) = Inr (k', m)"
  shows "lease_inv k' \<and> map attempt_static (k_attempts k') = map attempt_static t"
proof -
  let ?hit = "\<lambda>b. at_attempt_id b = at_attempt_id a \<and> at_status b = ACancellationPending"
  let ?k1 = "update_attempts ?hit (AttemptClose AAbandoned now) k"
  have keys: "distinct (map at_attempt_id (k_attempts k))"
    using inv by (simp add: lease_inv_def tables_inv_def)
  show ?thesis
  proof (cases "count_rows ?hit (k_attempts k) = 1")
    case False
    then have "count_rows ?hit (k_attempts k) = 0"
      using count_rows_key_le_1 [OF keys, of "at_attempt_id a" "\<lambda>b. at_status b = ACancellationPending"]
      by linarith
    then have none: "\<And>b. b \<in> set (k_attempts k) \<Longrightarrow> \<not> ?hit b" by (auto simp: count_rows_0)
    have "update_rows ?hit (apply_attempt_update (AttemptClose AAbandoned now)) (k_attempts k) = k_attempts k"
      by (rule update_rows_none) (rule none)
    then have "?k1 = k" by (simp add: update_attempts_def)
    with ok False have "k' = k" by (auto simp: expire_cancellation_def Let_def)
    with inv static show ?thesis by simp
  next
    case True
    then have "0 < count_rows ?hit (k_attempts k)" by simp
    then obtain b where b: "b \<in> set (k_attempts k)" "?hit b" by (auto simp: count_rows_pos)
    have same: "at_step_id b = at_step_id a" "at_device_id b = at_device_id a" "at_epoch b = at_epoch a"
      using static_row_by_id [OF inv static b(1)] b(2) by blast+
    let ?k2 = "update_steps (\<lambda>s. st_step_id s = at_step_id a \<and> st_status s = SLeased)
      (StepFinish SCancelled now) ?k1"
    from ok True obtain k3 k4 r where
      3: "append_event cx StepCancellationExpired now
            (attempt_identity task (at_step_id a) (at_device_id a) (at_epoch a)) ?k2 = Inr k3"
      and 4: "append_event cx StepCancelled now (step_identity task (at_step_id a)) k3 = Inr k4"
      and 5: "disconnect_device_tx cx (at_device_id a) (at_epoch a) now k4 = Inr (k', r)"
      unfolding expire_cancellation_def Let_def prod.case simp_thms if_False bindE_Inr_iff
        split_paired_Ex by (simp only: simp_thms if_False bindE_Inr_iff split_paired_Ex prod.case) blast
    have ext: "ev_ext ?k2 k4"
      using ev_ext_trans [OF append_event_ext [OF 3] append_event_ext [OF 4]] .
    have "lease_inv ?k2"
      unfolding same(1) [symmetric]
    proof (rule close_pair_inv [OF inv b(1)])
      show "in_flight b" using b(2) by (simp add: in_flight_def)
      show "\<And>c. c \<in> set (k_attempts k) \<Longrightarrow> ?hit c \<longleftrightarrow> c = b"
        using b keys by (metis distinct_map_inj)
    qed (simp_all add: in_flight_def leased_row_def)
    then have "lease_inv k4" using lease_inv_ev_ext [OF ext] by simp
    from disconnect_inv [OF this 5] show ?thesis
      using static(1) by (simp add: ev_ext_fields(2) [OF ext] map_static_update)
  qed
qed

lemma reconcile_cancellations_inv:
  assumes inv: "lease_inv k"
    and ok: "reconcile_cancellation_deadlines_tx cx now k = Inr (k', n)"
  shows "lease_inv k' \<and> map attempt_static (k_attempts k') = map attempt_static (k_attempts k)"
proof -
  let ?items = "attempts_with_task (cancellation_overdue now) k"
  let ?P = "\<lambda>st. lease_inv (fst st) \<and> map attempt_static (k_attempts (fst st)) = map attempt_static (k_attempts k)"
  from ok have 1: "forE (expire_cancellation cx now) ?items (k, 0) = Inr (k', n)"
    unfolding reconcile_cancellation_deadlines_tx_def bindE_Inr_iff by blast
  have "?P (k', n)"
  proof (rule forE_invariant [OF 1])
    show "?P (k, 0)" using inv by simp
    fix x u v assume x: "x \<in> set ?items" "expire_cancellation cx now x u = Inr v" "?P u"
    obtain task a where xa: "x = (task, a)" by (cases x)
    obtain u1 u2 v1 v2 where uv: "u = (u1, u2)" "v = (v1, v2)" by (cases u, cases v)
    have "a \<in> set (k_attempts k)" using x(1) by (simp add: xa set_attempts_with_task)
    with expire_cancellation_inv [of u1 "k_attempts k" a cx now task u2 v1 v2] x(2,3) xa uv
    show "?P v" by simp
  qed
  then show ?thesis by simp
qed

end
