(* ===== verification/Kernel_Preserves.thy ===== *)
theory Kernel_Preserves
  imports Kernel_Steps
begin

text \<open>
  Preservation of \<open>lease_inv\<close> by the remaining operations: registration, handshakes, revocation,
  queueing, leasing, results, cancellation, the emergency pause and the restart.
\<close>

section \<open>Devices\<close>

lemma register_device_inv:
  "register_device cx d k = Inr k' \<Longrightarrow> lease_inv k' = lease_inv k"
  by (auto simp: register_device_def bindE_Inr_iff lease_inv_def)

lemma upsert_connection_inv:
  assumes inv: "lease_inv k" and none: "active_connection_epoch k d = None"
  shows "lease_inv (upsert_connection d e now k)"
proof -
  have inactive: "\<And>c. c \<in> set (k_connections k) \<Longrightarrow> con_device_id c = d \<Longrightarrow> \<not> con_active c"
    using none by (auto simp: active_connection_epoch_def find_row_None)
  have t: "tables_inv (k_connections k) (k_steps k) (k_attempts k)"
    using inv by (simp add: lease_inv_def)
  show ?thesis
  proof (cases "exists_row (\<lambda>c. con_device_id c = d) (k_connections k)")
    case True
    let ?p = "\<lambda>c. con_device_id c = d" and ?u = "apply_connection_update (ConnectionReopen e now)"
    have "tables_inv (update_rows ?p ?u (k_connections k)) (k_steps k) (k_attempts k)"
    proof (rule tables_inv_connections [OF t])
      show "distinct (map con_device_id (update_rows ?p ?u (k_connections k)))"
        using t by (simp add: tables_inv_def map_update_rows)
      fix a assume "served (k_connections k) a"
      then obtain c where c: "c \<in> set (k_connections k)" "con_device_id c = at_device_id a"
        "con_epoch c = at_epoch a" "con_active c" by (auto simp: served_iff)
      with inactive have "\<not> ?p c" by blast
      then have "c \<in> set (update_rows ?p ?u (k_connections k))"
        unfolding set_update_rows using c(1) by (intro image_eqI [of _ _ c]) auto
      with c show "served (update_rows ?p ?u (k_connections k)) a" by (auto simp: served_iff)
    qed
    with True show ?thesis by (simp add: upsert_connection_def lease_inv_def)
  next
    case False
    let ?c = "\<lparr>con_device_id = d, con_epoch = e, con_active = True, con_last_sequence = 0,
      con_connected_at_ms = now, con_disconnected_at_ms = None\<rparr>"
    have "tables_inv (insert_row ?c (k_connections k)) (k_steps k) (k_attempts k)"
    proof (rule tables_inv_connections [OF t])
      show "distinct (map con_device_id (insert_row ?c (k_connections k)))"
        using t False by (auto simp: tables_inv_def insert_row_def exists_row_iff)
    qed (auto simp: served_iff row_simps)
    with False show ?thesis by (simp add: upsert_connection_def lease_inv_def)
  qed
qed

lemma open_connection_Inr:
  assumes "open_connection cx d revision now k = Inr (k', r)"
  shows "ev_ext (upsert_connection d (Suc (k_next_connection_epoch k)) now
      (k\<lparr>k_next_connection_epoch := Suc (k_next_connection_epoch k)\<rparr>)) k'
    \<and> hr_connection_epoch r = Suc (k_next_connection_epoch k) \<and> hr_status r = HsAccepted"
proof -
  from assms have
    1: "append_event cx DeviceConnected now (device_identity d (k_next_connection_epoch k + 1))
          (upsert_connection d (k_next_connection_epoch k + 1) now
             (k\<lparr>k_next_connection_epoch := k_next_connection_epoch k + 1\<rparr>)) = Inr k'"
    and r: "hr_connection_epoch r = Suc (k_next_connection_epoch k)" "hr_status r = HsAccepted"
    by (auto simp: open_connection_def Let_def bindE_Inr_iff ok_or_Inr_iff checked_add_i64_Some)
  then show ?thesis using append_event_ext [OF 1] by simp
qed

lemma accept_handshake_cases:
  assumes "accept_handshake cx h now k = Inr (k', r)"
  shows "(k' = k \<and> hr_status r = HsRejected)
    \<or> (\<exists>d. find_row (\<lambda>d. dev_device_id d = hs_device_id h) (k_devices k) = Some d
        \<and> \<not> dev_revoked d \<and> dev_name d = hs_device_name h \<and> dev_role d = hs_role h
        \<and> dev_registry_revision d = hs_registry_revision h
        \<and> capabilities_match (dev_capabilities d) (hs_capabilities h)
        \<and> active_connection_epoch k (hs_device_id h) = None
        \<and> open_connection cx (hs_device_id h) (dev_registry_revision d) now k = Inr (k', r))"
  using assms
  by (auto simp: accept_handshake_def bindE_Inr_iff reject_handshake_def rejected_handshake_def Let_def
      split: option.splits if_splits)

lemma accept_handshake_inv:
  assumes inv: "lease_inv k" and ok: "accept_handshake cx h now k = Inr (k', r)"
  shows "lease_inv k'"
  using accept_handshake_cases [OF ok]
proof (elim disjE exE conjE)
  fix d
  assume none: "active_connection_epoch k (hs_device_id h) = None"
    and "open_connection cx (hs_device_id h) (dev_registry_revision d) now k = Inr (k', r)"
  from open_connection_Inr [OF this(2)]
  have ext: "ev_ext (upsert_connection (hs_device_id h) (Suc (k_next_connection_epoch k)) now
      (k\<lparr>k_next_connection_epoch := Suc (k_next_connection_epoch k)\<rparr>)) k'" by blast
  show ?thesis
    unfolding lease_inv_ev_ext [OF ext]
  proof (rule upsert_connection_inv)
    show "lease_inv (k\<lparr>k_next_connection_epoch := Suc (k_next_connection_epoch k)\<rparr>)"
      using inv by (simp add: lease_inv_def)
    show "active_connection_epoch (k\<lparr>k_next_connection_epoch := Suc (k_next_connection_epoch k)\<rparr>)
        (hs_device_id h) = None"
      using none by (simp add: active_connection_epoch_def)
  qed
qed (use inv in simp)

lemma revoke_device_inv:
  assumes inv: "lease_inv k" and ok: "revoke_device_with_reason cx d now reason k = Inr k'"
  shows "lease_inv k'"
proof -
  let ?k2 = "revoke_certificates d now reason (k\<lparr>k_devices := update_rows (\<lambda>r. dev_device_id r = d)
      (\<lambda>r. r\<lparr>dev_revoked := True\<rparr>) (k_devices k)\<rparr>)"
  have "lease_inv ?k2" using inv by (simp add: lease_inv_def revoke_certificates_def)
  moreover have "k' = ?k2 \<or> (\<exists>e r. disconnect_device_tx cx d e now ?k2 = Inr (k', r))"
    using ok by (auto simp: revoke_device_with_reason_def Let_def bindE_Inr_iff split: option.splits)
  ultimately show ?thesis using disconnect_inv by blast
qed

section \<open>Queueing and leasing\<close>

lemma enqueue_step_Inr:
  assumes "enqueue_step cx s now k = Inr k'"
  shows "ev_ext (k\<lparr>k_steps := insert_row (queued_row cx s now) (k_steps k)\<rparr>) k'
    \<and> ns_step_id s \<notin> set (map st_step_id (k_steps k))
    \<and> count_rows (\<lambda>r. nonterminal_status (st_status r)) (k_steps k) < MAX_QUEUED_OR_LEASED_STEPS"
  using assms append_event_ext
  by (fastforce simp: enqueue_step_def bindE_Inr_iff reject_if_Inr_iff exists_row_iff not_le)

lemma enqueue_step_inv:
  assumes inv: "lease_inv k" and ok: "enqueue_step cx s now k = Inr k'"
  shows "lease_inv k'"
proof -
  note e = enqueue_step_Inr [OF ok]
  have "tables_inv (k_connections k) (insert_row (queued_row cx s now) (k_steps k)) (k_attempts k)"
    using inv e by (intro tables_inv_insert_step) (simp_all add: lease_inv_def queued_row_def leased_row_def)
  then show ?thesis using e lease_inv_ev_ext by (auto simp: lease_inv_def)
qed

lemma select_step_Some:
  "select_step cx k d contract caps ss = Inr (Some (s, c)) \<Longrightarrow>
     s \<in> set ss \<and> c \<in> set caps \<and> cap_id c = st_capability_id s
     \<and> length (json_bytes cx (st_context s)) \<le> cap_max_context_bytes c
     \<and> (cap_id c = LOCAL_CODING_CAPABILITY_ID \<longrightarrow> contract = Some ContractLocalCoding)"
  by (induction ss)
    (auto simp: bindE_Inr_iff split: option.splits if_splits dest: find_row_Some)

lemma commit_lease_Inr:
  assumes "commit_lease cx s j d now expires k = Inr k'"
  shows "ev_ext (update_connections
      (\<lambda>c. con_device_id c = d \<and> con_epoch c = job_connection_epoch j \<and> con_active c)
      (ConnectionSequence (job_sequence j))
      (update_steps (\<lambda>r. st_step_id r = st_step_id s \<and> st_status r = SQueued) StepLease
        (k\<lparr>k_attempts := insert_row (leased_attempt j d now expires) (k_attempts k)\<rparr>))) k'
    \<and> job_attempt_id j \<notin> set (map at_attempt_id (k_attempts k))
    \<and> count_rows (\<lambda>r. st_step_id r = st_step_id s \<and> st_status r = SQueued) (k_steps k) = 1"
proof -
  let ?k1 = "k\<lparr>k_attempts := insert_row (leased_attempt j d now expires) (k_attempts k)\<rparr>"
  let ?hit = "\<lambda>r. st_step_id r = st_step_id s \<and> st_status r = SQueued"
  let ?here = "\<lambda>c. con_device_id c = d \<and> con_epoch c = job_connection_epoch j \<and> con_active c"
  from assms have
    1: "append_event cx StepLeased now
          (attempt_identity (job_task_id j) (job_step_id j) d (job_connection_epoch j))
          (update_connections ?here (ConnectionSequence (job_sequence j))
             (update_steps ?hit StepLease ?k1)) = Inr k'"
    and 2: "count_rows ?hit (k_steps ?k1) = 1"
    and 3: "\<not> exists_row (\<lambda>a. at_attempt_id a = job_attempt_id j \<or> at_lease_id a = job_lease_id j
          \<or> at_cancellation_id a = job_cancellation_id j) (k_attempts k)"
    unfolding commit_lease_def Let_def bindE_Inr_iff reject_if_Inr_iff not_not by blast+
  show ?thesis using append_event_ext [OF 1] 2 3 by (auto simp: exists_row_iff)
qed

lemma commit_lease_inv:
  assumes inv: "lease_inv k"
    and ok: "commit_lease cx s j d now expires k = Inr k'"
    and s: "s \<in> set (k_steps k)" "st_status s = SQueued" "job_step_id j = st_step_id s"
    and free: "\<And>a. a \<in> set (k_attempts k) \<Longrightarrow> in_flight a \<Longrightarrow> at_device_id a \<noteq> d"
    and room: "count_rows in_flight (k_attempts k) < MAX_CONCURRENT_JOBS"
    and served: "\<exists>c \<in> set (k_connections k). con_device_id c = d
        \<and> con_epoch c = job_connection_epoch j \<and> con_active c"
  shows "lease_inv k'"
proof -
  let ?a = "leased_attempt j d now expires"
  let ?as = "insert_row ?a (k_attempts k)"
  let ?ss = "update_rows (\<lambda>r. st_step_id r = st_step_id s \<and> st_status r = SQueued)
    (apply_step_update StepLease) (k_steps k)"
  have t: "tables_inv (k_connections k) (k_steps k) (k_attempts k)"
    using inv by (simp add: lease_inv_def)
  have a: "in_flight ?a" "at_step_id ?a = st_step_id s" "at_device_id ?a = d"
    "at_attempt_id ?a = job_attempt_id j" "at_epoch ?a = job_connection_epoch j" "job_row ?a"
    using s(3) by (simp_all add: leased_attempt_def in_flight_def job_row_def)
  have keys: "distinct (map st_step_id (k_steps k))" using t by (simp add: tables_inv_def)
  have only: "r = s" if "r \<in> set (k_steps k)" "st_step_id r = st_step_id s" for r
    using keys that s(1) by (metis distinct_map_inj)
  have new_step: "st_step_id s \<notin> set (map at_step_id (filter in_flight (k_attempts k)))"
  proof
    assume "st_step_id s \<in> set (map at_step_id (filter in_flight (k_attempts k)))"
    then have "st_step_id s \<in> set (map st_step_id (filter leased_row (k_steps k)))"
      using t unfolding tables_inv_def by blast
    then obtain r where r: "r \<in> set (k_steps k)" "leased_row r" "st_step_id r = st_step_id s" by auto
    then have "r = s" by (intro only)
    with r(2) s(2) show False by (simp add: leased_row_def)
  qed
  have leased: "set (map st_step_id (filter leased_row ?ss))
      = insert (st_step_id s) (set (map st_step_id (filter leased_row (k_steps k))))"
    (is "?L = ?R")
  proof (intro equalityI subsetI)
    fix i assume "i \<in> ?L"
    then obtain r where r: "r \<in> set (k_steps k)"
      "leased_row (if st_step_id r = st_step_id s \<and> st_status r = SQueued
         then apply_step_update StepLease r else r)" "st_step_id r = i"
      by (auto simp: row_simps split: if_splits)
    show "i \<in> ?R"
    proof (cases "st_step_id r = st_step_id s")
      case False
      with r show ?thesis by auto
    next
      case True
      with r(3) show ?thesis by simp
    qed
  next
    fix i assume i: "i \<in> ?R"
    then consider "i = st_step_id s" | r where "r \<in> set (k_steps k)" "leased_row r" "st_step_id r = i"
      by auto
    then show "i \<in> ?L"
    proof cases
      case 1
      have "apply_step_update StepLease s \<in> set ?ss"
        unfolding set_update_rows using s by (intro image_eqI [of _ _ s]) auto
      then have "apply_step_update StepLease s \<in> set (filter leased_row ?ss)"
        by (simp add: leased_row_def)
      then have "st_step_id (apply_step_update StepLease s) \<in> ?L" 
        unfolding set_map by (rule imageI)
      then show ?thesis using 1 by simp
    next
      case 2
      then have "r \<in> set ?ss"
        unfolding set_update_rows by (intro image_eqI [of _ _ r]) (auto simp: leased_row_def)
      with 2 show ?thesis by force
    qed
  qed
  note c = commit_lease_Inr [OF ok]
  have "tables_inv (k_connections k) ?ss ?as"
    unfolding tables_inv_def
  proof (intro conjI)
    show "distinct (map at_step_id (filter in_flight ?as))"
      using t a(1,2) new_step by (simp add: tables_inv_def insert_row_def)
    show "distinct (map at_device_id (filter in_flight ?as))"
      using t a(1,3) free by (auto simp: tables_inv_def insert_row_def)
    show "set (map at_step_id (filter in_flight ?as)) = set (map st_step_id (filter leased_row ?ss))"
      using t a(1,2) unfolding leased tables_inv_def insert_row_def by auto
    show "distinct (map at_attempt_id ?as)"
      using t a(4) c by (simp add: tables_inv_def insert_row_def)
    show "list_all (\<lambda>b. in_flight b \<longrightarrow> served (k_connections k) b) ?as"
      using t served a by (simp add: tables_inv_def insert_row_def served_iff)
    show "count_rows in_flight ?as \<le> MAX_CONCURRENT_JOBS"
      using room by (simp add: insert_row_def)
    show "list_all job_row ?as" using t a by (simp add: tables_inv_def insert_row_def)
    show "distinct (map con_device_id (k_connections k))" "distinct (map st_step_id ?ss)"
      using t by (simp_all add: tables_inv_def map_update_rows)
  qed
  then have "lease_inv (update_connections
      (\<lambda>c. con_device_id c = d \<and> con_epoch c = job_connection_epoch j \<and> con_active c)
      (ConnectionSequence (job_sequence j))
      (update_steps (\<lambda>r. st_step_id r = st_step_id s \<and> st_status r = SQueued) StepLease
        (k\<lparr>k_attempts := ?as\<rparr>)))"
    unfolding lease_inv_def by (simp add: tables_inv_sequence)
  then show ?thesis using c lease_inv_ev_ext by blast
qed

lemma lease_next_step_Inr:
  assumes "lease_next_step_bound cx d e now contract ids k0 = Inr (k', j)"
  obtains k r c s cap sequence expires caps where
    "k_emergency_paused k0 = 0"
    "reconcile_expired_leases_tx cx now k0 = Inr (k, r)"
    "find_row (\<lambda>c. con_device_id c = d) (k_connections k) = Some c" "con_active c" "con_epoch c = e"
    "count_rows (\<lambda>a. at_device_id a = d \<and> at_epoch a = e \<and> in_flight a) (k_attempts k) = 0"
    "count_rows in_flight (k_attempts k) < MAX_CONCURRENT_JOBS"
    "s \<in> set (k_steps k)" "st_status s = SQueued"
    "sequence = Suc (con_last_sequence c)"
    "j = lease_job s cap e sequence ids" "expires = now + st_lease_duration_ms s"
    "validate_job cx j = Inr ()"
    "commit_lease cx s j d now expires k = Inr k'"
    "registered_capabilities k d = Inr caps" "cap \<in> set caps" "cap_id cap = st_capability_id s"
    "length (json_bytes cx (st_context s)) \<le> cap_max_context_bytes cap"
    "cap_id cap = LOCAL_CODING_CAPABILITY_ID \<longrightarrow> contract = Some ContractLocalCoding"
proof -
  from assms obtain k r con caps s cap sequence expires where
    1: "k_emergency_paused k0 = 0" "reconcile_expired_leases_tx cx now k0 = Inr (k, r)"
    and 2: "connection_state k d = Inr con" "cs_active con" "cs_epoch con = e"
    and 3: "count_rows (\<lambda>a. at_device_id a = d \<and> at_epoch a = e \<and> in_flight a) (k_attempts k) = 0"
      "\<not> count_rows in_flight (k_attempts k) \<ge> MAX_CONCURRENT_JOBS"
    and caps: "registered_capabilities k d = Inr caps"
    and 4: "select_step cx k d contract caps (load_queued_steps k) = Inr (Some (s, cap))"
    and 5: "checked_add_u64 (cs_last_sequence con) 1 = Some sequence"
      "checked_add_u64 now (st_lease_duration_ms s) = Some expires"
      "j = lease_job s cap e sequence ids" "validate_job cx j = Inr ()"
      "commit_lease cx s j d now expires k = Inr k'"
    unfolding lease_next_step_bound_def Let_def bindE_Inr_iff split_paired_Ex prod.case
      reject_if_Inr_iff ok_or_Inr_iff require_emergency_unpaused_Inr protocol_result_Inr not_not
    by (elim exE conjE) (auto simp: ok_or_Inr_iff)
  from 2(1) obtain c where c: "find_row (\<lambda>c. con_device_id c = d) (k_connections k) = Some c"
    "con = \<lparr>cs_epoch = con_epoch c, cs_active = con_active c, cs_last_sequence = con_last_sequence c\<rparr>"
    unfolding connection_state_Inr by blast
  have s: "s \<in> set (k_steps k)" "st_status s = SQueued"
    using select_step_Some [OF 4] by (simp_all add: set_load_queued_steps)
  have sel: "cap \<in> set caps" "cap_id cap = st_capability_id s"
    "length (json_bytes cx (st_context s)) \<le> cap_max_context_bytes cap"
    "cap_id cap = LOCAL_CODING_CAPABILITY_ID \<longrightarrow> contract = Some ContractLocalCoding"
    using select_step_Some [OF 4] by blast+
  show thesis
    by (rule that [OF 1 c(1) _ _ 3(1) _ s _ 5(3) _ 5(4,5) caps sel])
      (use 2 3 5 c(2) in \<open>simp_all add: checked_add_u64_Some\<close>)
qed

lemma lease_next_step_inv:
  assumes inv: "lease_inv k0"
    and ok: "lease_next_step_bound cx d e now contract ids k0 = Inr (k', j)"
  shows "lease_inv k'"
proof -
  obtain k r c s cap sequence expires where
    rec: "reconcile_expired_leases_tx cx now k0 = Inr (k, r)"
    and c: "find_row (\<lambda>c. con_device_id c = d) (k_connections k) = Some c" "con_active c" "con_epoch c = e"
    and none: "count_rows (\<lambda>a. at_device_id a = d \<and> at_epoch a = e \<and> in_flight a) (k_attempts k) = 0"
    and room: "count_rows in_flight (k_attempts k) < MAX_CONCURRENT_JOBS"
    and s: "s \<in> set (k_steps k)" "st_status s = SQueued"
    and j: "j = lease_job s cap e sequence ids"
    and commit: "commit_lease cx s j d now expires k = Inr k'"
    by (rule lease_next_step_Inr [OF ok]) blast
  have k: "lease_inv k" using reconcile_expired_leases_inv [OF inv rec] by blast
  have con: "c \<in> set (k_connections k)" "con_device_id c = d" using find_row_Some [OF c(1)] by auto
  show ?thesis
  proof (rule commit_lease_inv [OF k commit s])
    show "job_step_id j = st_step_id s" by (simp add: j lease_job_def)
    show "\<exists>c \<in> set (k_connections k). con_device_id c = d \<and> con_epoch c = job_connection_epoch j
        \<and> con_active c"
      using con c(2,3) by (auto simp: j lease_job_def)
    fix a assume a: "a \<in> set (k_attempts k)" "in_flight a"
    show "at_device_id a \<noteq> d"
    proof
      assume d: "at_device_id a = d"
      from k a obtain c' where c': "c' \<in> set (k_connections k)" "con_device_id c' = d" "con_epoch c' = at_epoch a"
        unfolding lease_inv_def tables_inv_def list_all_iff served_iff d [symmetric] by blast
      have "distinct (map con_device_id (k_connections k))"
        using k by (simp add: lease_inv_def tables_inv_def)
      then have "c' = c" using c' con by (metis distinct_map_inj)
      with c' c(3) d a none show False by (auto simp: count_rows_0)
    qed
  qed (rule room)
qed

end
