(* ===== verification/Kernel_Progress.thy ===== *)
theory Kernel_Progress
  imports Kernel_Preserves
begin

text \<open>
  What an operation may do to the kernel's tables over time. \<open>grows R t t'\<close> says that a table keeps its
  rows, each related to its successor by \<open>R\<close>, and may gain rows at its end; the locale \<open>row_order\<close> gives
  its laws once for every table. \<open>advance R\<close> is the relation of an operation that neither enrols,
  connects nor revokes a device, for a relation \<open>R\<close> of attempt rows; \<open>progress\<close> is the relation of every
  operation: terminal steps and closed attempts are frozen, a connection's epoch and sequence never
  go back, a revoked device stays revoked, events are only appended and numbered without gap.
\<close>

section \<open>Growing tables\<close>

definition grows :: "('r \<Rightarrow> 'r \<Rightarrow> bool) \<Rightarrow> 'r list \<Rightarrow> 'r list \<Rightarrow> bool" where
  "grows R t t' = list_all2 R t (take (length t) t')"

lemma grows_row:
  assumes "grows R t t'" "r \<in> set t"
  shows "\<exists>r' \<in> set t'. R r r'"
proof -
  obtain i where i: "i < length t" "t ! i = r" using assms(2) by (auto simp: in_set_conv_nth)
  have len: "length t = length (take (length t) t')" using assms(1) unfolding grows_def by (rule list_all2_lengthD)
  with i have "R r (t' ! i)" using assms(1) by (auto simp: grows_def list_all2_conv_all_nth)
  moreover have "t' ! i \<in> set t'" using i len by (auto intro!: nth_mem)
  ultimately show ?thesis by blast
qed

lemma grows_mono: "grows R t t' \<Longrightarrow> (\<And>r r'. r \<in> set t \<Longrightarrow> R r r' \<Longrightarrow> S r r') \<Longrightarrow> grows S t t'"
  unfolding grows_def list_all2_conv_all_nth by auto

lemma grows_same_length:
  assumes "grows R t t'" "length t' = length t" "r' \<in> set t'"
  shows "\<exists>r \<in> set t. R r r'"
proof -
  obtain i where i: "i < length t'" "t' ! i = r'" using assms(3) by (auto simp: in_set_conv_nth)
  with assms(1,2) have "R (t ! i) r'" by (auto simp: grows_def list_all2_conv_all_nth)
  with i assms(2) show ?thesis by (intro bexI [of _ "t ! i"]) simp_all
qed

locale row_order =
  fixes R :: "'r \<Rightarrow> 'r \<Rightarrow> bool"
  assumes R_refl: "R r r" and R_trans: "R r s \<Longrightarrow> R s u \<Longrightarrow> R r u"
begin

lemma refl: "grows R t t"
  by (simp add: grows_def list_all2_same R_refl)

lemma trans:
  assumes "grows R t t'" "grows R t' t''"
  shows "grows R t t''"
proof -
  have len: "length t \<le> length t'" using assms(1) by (auto simp: grows_def dest: list_all2_lengthD)
  have "list_all2 R (take (length t) t') (take (length t) (take (length t') t''))"
    using assms(2) unfolding grows_def by (rule list_all2_takeI)
  then have "list_all2 R (take (length t) t') (take (length t) t'')"
    using len by (simp add: min_absorb1)
  with assms(1) show ?thesis unfolding grows_def by (rule list_all2_trans [rotated]) (rule R_trans)
qed

lemma update:
  assumes "\<And>r. r \<in> set t \<Longrightarrow> p r \<Longrightarrow> R r (u r)"
  shows "grows R t (update_rows p u t)"
  using assms by (induction t) (simp_all add: grows_def R_refl)

lemma insert: "grows R t (insert_row r t)"
  by (simp add: grows_def insert_row_def list_all2_same R_refl)

end

section \<open>Orders of rows\<close>

definition terminal_row :: "step_row \<Rightarrow> bool" where
  "terminal_row s = (\<not> nonterminal_status (st_status s))"

definition step_identity_row :: "step_row \<Rightarrow> step_row" where
  "step_identity_row s =
     s\<lparr>st_status := SQueued, st_accepted_payload := None, st_accepted_payload_sha256 := None,
       st_completed_at_ms := None\<rparr>"

definition step_le :: "step_row \<Rightarrow> step_row \<Rightarrow> bool" where
  "step_le s s' = (step_identity_row s' = step_identity_row s \<and> (terminal_row s \<longrightarrow> s' = s))"

definition attempt_le :: "attempt_row \<Rightarrow> attempt_row \<Rightarrow> bool" where
  "attempt_le a a' =
     (attempt_static a' = attempt_static a
      \<and> (\<not> in_flight a \<longrightarrow> a' = a)
      \<and> (at_status a = ACancellationPending \<longrightarrow> at_status a' \<noteq> ALeased))"

definition closes :: "attempt_row \<Rightarrow> attempt_row \<Rightarrow> bool" where
  "closes a a' =
     (a' = a \<or> (in_flight a \<and> \<not> in_flight a' \<and> attempt_static a' = attempt_static a))"

definition seq_le :: "connection_row \<Rightarrow> connection_row \<Rightarrow> bool" where
  "seq_le c c' =
     (con_device_id c' = con_device_id c \<and> con_epoch c' = con_epoch c
      \<and> con_last_sequence c \<le> con_last_sequence c' \<and> (con_active c' \<longrightarrow> con_active c))"

definition connection_le :: "connection_row \<Rightarrow> connection_row \<Rightarrow> bool" where
  "connection_le c c' =
     (con_device_id c' = con_device_id c
      \<and> (seq_le c c' \<or> con_epoch c < con_epoch c'))"

definition device_le :: "device_row \<Rightarrow> device_row \<Rightarrow> bool" where
  "device_le d d' = (d' = d \<or> d' = d\<lparr>dev_revoked := True\<rparr>)"

interpretation steps: row_order step_le
  by unfold_locales (auto simp: step_le_def)

interpretation attempts: row_order attempt_le
  by unfold_locales (auto simp: attempt_le_def in_flight_def)

interpretation closing: row_order closes
  by unfold_locales (auto simp: closes_def)

interpretation sequences: row_order seq_le
  by unfold_locales (auto simp: seq_le_def)

interpretation connections: row_order connection_le
  by unfold_locales (auto simp: connection_le_def seq_le_def)

interpretation devices: row_order device_le
  by unfold_locales (auto simp: device_le_def)

lemma closes_le: "closes a a' \<Longrightarrow> attempt_le a a'"
  by (auto simp: closes_def attempt_le_def in_flight_def)

lemma grows_closes: "grows closes t t' \<Longrightarrow> grows attempt_le t t'"
  by (erule grows_mono) (rule closes_le)

lemma grows_seq: "grows seq_le t t' \<Longrightarrow> grows connection_le t t'"
  by (erule grows_mono) (auto simp: connection_le_def seq_le_def)

lemma step_identity_update: "step_identity_row (apply_step_update u s) = step_identity_row s"
  by (cases u) (simp_all add: step_identity_row_def)

lemma step_le_update: "nonterminal_status (st_status s) \<Longrightarrow> step_le s (apply_step_update u s)"
  by (simp add: step_le_def step_identity_update terminal_row_def)

section \<open>The orchestration ledger\<close>

text \<open>
  Distributed work touches the orchestration ledger in one place: an emergency pause charges the running
  clock of the active feature, within the budget, and stops it.
\<close>

definition clock_le :: "orchestration_row \<Rightarrow> orchestration_row \<Rightarrow> bool" where
  "clock_le r r' =
     (r' = r\<lparr>or_active_processing_ms := or_active_processing_ms r',
            or_clock_started_at_ms := or_clock_started_at_ms r', or_updated_at_ms := or_updated_at_ms r'\<rparr>
      \<and> or_active_processing_ms r \<le> or_active_processing_ms r'
      \<and> (or_active_processing_ms r \<le> MAX_FEATURE_CONVEYOR_ACTIVE_PROCESSING_MS
           \<longrightarrow> or_active_processing_ms r' \<le> MAX_FEATURE_CONVEYOR_ACTIVE_PROCESSING_MS)
      \<and> (or_clock_started_at_ms r' = or_clock_started_at_ms r \<or> or_clock_started_at_ms r' = None)
      \<and> (0 < or_updated_at_ms r \<longrightarrow> 0 < or_updated_at_ms r'))"

interpretation clocks: row_order clock_le
proof
  show "clock_le r r" for r by (simp add: clock_le_def)
  show "clock_le r s \<Longrightarrow> clock_le s u \<Longrightarrow> clock_le r u" for r s u
    by (cases r; cases s; cases u) (auto simp: clock_le_def)
qed

definition orchestration_kept :: "kernel \<Rightarrow> kernel \<Rightarrow> bool" where
  "orchestration_kept k k' =
     (grows clock_le (k_orchestration k) (k_orchestration k')
      \<and> length (k_orchestration k') = length (k_orchestration k)
      \<and> k_checkpoints k' = k_checkpoints k
      \<and> k_orchestration_activated k' = k_orchestration_activated k)"

lemma orchestration_kept_same [simp]:
  "k_orchestration k' = k_orchestration k \<Longrightarrow> k_checkpoints k' = k_checkpoints k
    \<Longrightarrow> k_orchestration_activated k' = k_orchestration_activated k \<Longrightarrow> orchestration_kept k k'"
  by (simp add: orchestration_kept_def clocks.refl)

lemma orchestration_kept_trans: "orchestration_kept k l \<Longrightarrow> orchestration_kept l m \<Longrightarrow> orchestration_kept k m"
  unfolding orchestration_kept_def by (auto intro: clocks.trans)

lemma orchestration_kept_ev: "ev_ext k k' \<Longrightarrow> orchestration_kept k k'"
  by (auto simp: ev_ext_def)

section \<open>The log of events\<close>

definition log_ext :: "kernel \<Rightarrow> kernel \<Rightarrow> bool" where
  "log_ext k k' =
     (k_stream_id k' = k_stream_id k
      \<and> (\<exists>es. k_events k' = k_events k @ es \<and> k_next_sequence k' = k_next_sequence k + length es
          \<and> map er_sequence es = [Suc (k_next_sequence k)..<Suc (k_next_sequence k + length es)]))"

lemma log_ext_same:
  "k_stream_id k' = k_stream_id k \<Longrightarrow> k_events k' = k_events k
    \<Longrightarrow> k_next_sequence k' = k_next_sequence k \<Longrightarrow> log_ext k k'"
  unfolding log_ext_def by (intro conjI exI [of _ "[]"]) simp_all

lemma log_ext_ev: "ev_ext k k' \<Longrightarrow> log_ext k k'"
  by (auto simp: log_ext_def ev_ext_def simp del: upt_Suc)

lemma log_ext_trans:
  assumes "log_ext k l" "log_ext l m"
  shows "log_ext k m"
proof -
  let ?q = "k_next_sequence k"
  from assms(1) obtain es where l: "k_events l = k_events k @ es" "k_next_sequence l = ?q + length es"
    and es: "map er_sequence es = [Suc ?q..<Suc (?q + length es)]" unfolding log_ext_def by blast
  from assms(2) obtain fs where m: "k_events m = k_events l @ fs"
    "k_next_sequence m = k_next_sequence l + length fs"
    and fs: "map er_sequence fs = [Suc (k_next_sequence l)..<Suc (k_next_sequence l + length fs)]"
    unfolding log_ext_def by blast
  have "map er_sequence (es @ fs) = [Suc ?q..<Suc (?q + length es)]
      @ [Suc (?q + length es)..<Suc (?q + length es) + length fs]"
    using es fs by (simp add: l del: upt_Suc)
  also have "\<dots> = [Suc ?q..<Suc (?q + length es) + length fs]"
    by (rule upt_add_eq_append [symmetric]) simp
  finally have "map er_sequence (es @ fs) = [Suc ?q..<Suc (?q + length (es @ fs))]"
    by (simp add: add.assoc)
  moreover have "k_events m = k_events k @ (es @ fs)"
    "k_next_sequence m = ?q + length (es @ fs)" "k_stream_id m = k_stream_id k"
    using l m assms by (simp_all add: log_ext_def)
  ultimately show ?thesis unfolding log_ext_def by blast
qed

section \<open>Operations that leave the devices alone\<close>

definition open_steps :: "step_row list \<Rightarrow> nat" where
  "open_steps t = count_rows (\<lambda>s. nonterminal_status (st_status s)) t"

definition advance :: "(attempt_row \<Rightarrow> attempt_row \<Rightarrow> bool) \<Rightarrow> kernel \<Rightarrow> kernel \<Rightarrow> bool" where
  "advance R k k' =
     (grows step_le (k_steps k) (k_steps k')
      \<and> grows R (k_attempts k) (k_attempts k')
      \<and> grows seq_le (k_connections k) (k_connections k')
      \<and> length (k_connections k') = length (k_connections k)
      \<and> open_steps (k_steps k') \<le> max (open_steps (k_steps k)) MAX_QUEUED_OR_LEASED_STEPS
      \<and> k_devices k' = k_devices k
      \<and> k_next_connection_epoch k' = k_next_connection_epoch k
      \<and> k_emergency_pause_revision k \<le> k_emergency_pause_revision k'
      \<and> conveyor_tables k' = conveyor_tables k
      \<and> orchestration_kept k k'
      \<and> log_ext k k')"

lemma advance_closes: "advance closes k k' \<Longrightarrow> advance attempt_le k k'"
  by (simp add: advance_def grows_closes)

lemma advance_trans_le: "advance attempt_le k l \<Longrightarrow> advance attempt_le l m \<Longrightarrow> advance attempt_le k m"
  unfolding advance_def
  by (intro conjI) (auto intro: steps.trans attempts.trans sequences.trans log_ext_trans orchestration_kept_trans)

lemma advance_trans_closes: "advance closes k l \<Longrightarrow> advance closes l m \<Longrightarrow> advance closes k m"
  unfolding advance_def
  by (intro conjI) (auto intro: steps.trans closing.trans sequences.trans log_ext_trans orchestration_kept_trans)

lemma advance_ev: "ev_ext k k' \<Longrightarrow> advance closes k k'"
  by (simp add: advance_def ev_ext_fields log_ext_ev orchestration_kept_ev steps.refl closing.refl sequences.refl)

lemma advance_refl: "advance closes k k"
  by (rule advance_ev) simp

lemma advance_steps:
  assumes "\<And>s. s \<in> set (k_steps k) \<Longrightarrow> p s \<Longrightarrow> nonterminal_status (st_status s)"
  shows "advance closes k (update_steps p u k)"
proof -
  have "grows step_le (k_steps k) (update_rows p (apply_step_update u) (k_steps k))"
    by (rule steps.update) (rule step_le_update, rule assms)
  moreover have "open_steps (update_rows p (apply_step_update u) (k_steps k)) \<le> open_steps (k_steps k)"
    unfolding open_steps_def by (rule count_rows_update_le) (use assms in \<open>auto split: if_splits\<close>)
  ultimately show ?thesis
    unfolding advance_def update_steps_def
    by (simp add: closing.refl sequences.refl log_ext_same)
qed

lemma advance_attempts:
  assumes "\<And>a. a \<in> set (k_attempts k) \<Longrightarrow> p a \<Longrightarrow> in_flight a \<and> \<not> in_flight (apply_attempt_update u a)"
  shows "advance closes k (update_attempts p u k)"
proof -
  have "grows closes (k_attempts k) (update_rows p (apply_attempt_update u) (k_attempts k))"
    by (rule closing.update) (use assms in \<open>auto simp: closes_def attempt_static_update\<close>)
  then show ?thesis
    unfolding advance_def update_attempts_def
    by (simp add: steps.refl sequences.refl log_ext_same)
qed

lemma advance_attempts_le:
  assumes "\<And>a. a \<in> set (k_attempts k) \<Longrightarrow> p a \<Longrightarrow> attempt_le a (apply_attempt_update u a)"
  shows "advance attempt_le k (update_attempts p u k)"
proof -
  have "grows attempt_le (k_attempts k) (update_rows p (apply_attempt_update u) (k_attempts k))"
    by (rule attempts.update) (use assms in auto)
  then show ?thesis
    unfolding advance_def update_attempts_def
    by (simp add: steps.refl sequences.refl log_ext_same)
qed

lemma advance_connections:
  assumes "\<And>c. c \<in> set (k_connections k) \<Longrightarrow> p c \<Longrightarrow> seq_le c (apply_connection_update u c)"
  shows "advance closes k (update_connections p u k)"
proof -
  have "grows seq_le (k_connections k) (update_rows p (apply_connection_update u) (k_connections k))"
    by (rule sequences.update) (use assms in auto)
  then show ?thesis
    unfolding advance_def update_connections_def
    by (simp add: steps.refl closing.refl log_ext_same)
qed

lemma advance_close_connections: "advance closes k (update_connections p (ConnectionClose now) k)"
  by (rule advance_connections) (simp add: seq_le_def)

lemma advance_sequence:
  assumes "lease_inv k" "connection_state k d = Inr c" "cs_last_sequence c \<le> n"
    and "k_connections k2 = k_connections k" "\<And>r. p r \<Longrightarrow> con_device_id r = d"
  shows "advance closes k2 (update_connections p (ConnectionSequence n) k2)"
proof (rule advance_connections)
  fix r assume r: "r \<in> set (k_connections k2)" "p r"
  obtain q where q: "q \<in> set (k_connections k)" "con_device_id q = d"
    "cs_last_sequence c = con_last_sequence q"
    using assms(2) unfolding connection_state_Inr by (auto dest: find_row_Some)
  have "distinct (map con_device_id (k_connections k))"
    using assms(1) by (simp add: lease_inv_def tables_inv_def)
  then have "r = q" using r q assms(4,5) by (metis distinct_map_inj)
  then show "seq_le r (apply_connection_update (ConnectionSequence n) r)"
    using assms(3) q by (simp add: seq_le_def)
qed

text \<open>A loop of closing steps is a closing step.\<close>

lemma forE_advance:
  assumes "forE f xs st = Inr st'"
    and "\<And>x u v. x \<in> set xs \<Longrightarrow> f x u = Inr v \<Longrightarrow> advance closes (kern u) (kern v)"
  shows "advance closes (kern st) (kern st')"
  by (rule forE_invariant [OF assms(1), where P = "\<lambda>u. advance closes (kern st) (kern u)"])
    (auto intro: advance_refl advance_trans_closes assms(2))

end
