(* ===== verification/Kernel_Advance.thy ===== *)
theory Kernel_Advance
  imports Kernel_Progress
begin

text \<open>
  The operations on devices, deadlines and leases as \<open>advance\<close> steps: none of them reopens a closed
  attempt, changes a terminal step or moves a sequence back.
\<close>

section \<open>Requeueing and disconnection\<close>

lemma requeue_step_advance:
  assumes "requeue_step cx now (t, i) (k, n) = Inr (k', m)"
  shows "advance closes k k'"
  by (rule advance_trans_closes [OF advance_steps advance_ev [OF requeue_step_ext [OF assms]]])
    (simp add: leased_row_def nonterminal_status_def)

lemma requeue_steps_advance:
  assumes "forE (requeue_step cx now) ids (k, n) = Inr (k', m)"
  shows "advance closes k k'"
  by (rule advance_trans_closes [OF advance_steps advance_ev [OF requeue_steps_ext [OF assms]]])
    (simp add: leased_row_def nonterminal_status_def)

lemma append_event_advance: "append_event cx kind now i k = Inr k' \<Longrightarrow> advance closes k k'"
  by (rule advance_ev) (rule append_event_ext)

lemma finish_step_advance:
  "advance closes k (update_steps (\<lambda>s. st_step_id s = i \<and> st_status s = SLeased) u k)"
  "advance closes k (update_steps (\<lambda>s. st_step_id s = i \<and> st_status s = SQueued) u k)"
  by (rule advance_steps, simp add: nonterminal_status_def)+

lemma close_pending_cancellation_advance:
  assumes "close_pending_cancellation cx d e now k = Inr (k', n)"
  shows "advance closes k k'"
proof (cases "attempts_with_task (\<lambda>a. at_device_id a = d \<and> at_epoch a = e
             \<and> at_status a = ACancellationPending) k")
  case Nil
  with assms show ?thesis by (simp add: close_pending_cancellation_def advance_refl)
next
  case (Cons x xs)
  obtain t a where x: "x = (t, a)" by (cases x)
  let ?hit = "\<lambda>b. at_step_id b = at_step_id a \<and> at_status b = ACancellationPending"
  let ?k1 = "update_attempts ?hit (AttemptClose AAbandoned now) k"
  obtain k3 where
    3: "append_event cx StepCancellationExpired now (attempt_identity t (at_step_id a) d e)
      (update_steps (\<lambda>s. st_step_id s = at_step_id a \<and> st_status s = SLeased)
        (StepFinish SCancelled now) ?k1) = Inr k3"
    and 4: "append_event cx StepCancelled now (step_identity t (at_step_id a)) k3 = Inr k'"
    using assms Cons x by (auto simp: close_pending_cancellation_def Let_def bindE_Inr_iff)
  have "advance closes k ?k1" by (rule advance_attempts) (simp add: in_flight_def)
  then show ?thesis
    using finish_step_advance(1) append_event_advance [OF 3] append_event_advance [OF 4]
    by (blast intro: advance_trans_closes)
qed

lemma if_append_advance:
  "(if b then append_event cx kind at i k else Inr k) = Inr k' \<Longrightarrow> advance closes k k'"
  by (rule advance_ev) (rule if_append_ext)

lemma disconnect_advance:
  assumes ok: "disconnect_device_tx cx d e now k = Inr (k', r)"
  shows "advance closes k k'"
proof -
  let ?hit = "\<lambda>a. at_device_id a = d \<and> at_epoch a = e \<and> at_status a = ALeased"
  let ?here = "\<lambda>c. con_device_id c = d \<and> con_epoch c = e \<and> con_active c"
  from ok obtain k1 n1 k4 n where
    1: "close_pending_cancellation cx d e now k = Inr (k1, n1)"
    and 4: "(if count_rows ?here (k_connections (update_attempts ?hit (AttemptClose AAbandoned now) k1)) = 1
        then append_event cx DeviceDisconnected now (device_identity d e)
          (update_connections ?here (ConnectionClose now)
             (update_attempts ?hit (AttemptClose AAbandoned now) k1))
        else Inr (update_connections ?here (ConnectionClose now)
             (update_attempts ?hit (AttemptClose AAbandoned now) k1))) = Inr k4"
    and 5: "forE (requeue_step cx now) (leased_steps k1 (Some (d, e))) (k4, 0) = Inr (k', n)"
    unfolding disconnect_device_tx_def Let_def bindE_Inr_iff split_paired_Ex prod.case requeue_steps_def
    by blast
  have "advance closes k1 (update_attempts ?hit (AttemptClose AAbandoned now) k1)"
    by (rule advance_attempts) (simp add: in_flight_def)
  note advance_trans_closes [OF close_pending_cancellation_advance [OF 1] this]
  note advance_trans_closes [OF this advance_close_connections]
  note advance_trans_closes [OF this if_append_advance [OF 4]]
  then show ?thesis by (rule advance_trans_closes) (rule requeue_steps_advance [OF 5])
qed

text \<open>After a disconnection the device is not active any more.\<close>

lemma disconnect_inactive:
  assumes "distinct (map con_device_id (k_connections k))"
    and ok: "disconnect_device_tx cx d e now k = Inr (k', r)"
  shows "\<forall>c \<in> set (k_connections k'). con_device_id c = d \<longrightarrow> \<not> con_active c"
proof -
  let ?hit = "\<lambda>a. at_device_id a = d \<and> at_epoch a = e \<and> at_status a = ALeased"
  let ?here = "\<lambda>c. con_device_id c = d \<and> con_epoch c = e \<and> con_active c"
  from ok obtain con k1 n1 k4 n where
    0: "connection_state k d = Inr con" "cs_epoch con = e"
    and 1: "close_pending_cancellation cx d e now k = Inr (k1, n1)"
    and 4: "(if count_rows ?here (k_connections (update_attempts ?hit (AttemptClose AAbandoned now) k1)) = 1
        then append_event cx DeviceDisconnected now (device_identity d e)
          (update_connections ?here (ConnectionClose now)
             (update_attempts ?hit (AttemptClose AAbandoned now) k1))
        else Inr (update_connections ?here (ConnectionClose now)
             (update_attempts ?hit (AttemptClose AAbandoned now) k1))) = Inr k4"
    and 5: "forE (requeue_step cx now) (leased_steps k1 (Some (d, e))) (k4, 0) = Inr (k', n)"
    unfolding disconnect_device_tx_def Let_def bindE_Inr_iff split_paired_Ex prod.case requeue_steps_def
      reject_if_Inr_iff not_not by blast
  have same: "grows seq_le (k_connections k) (k_connections k1)"
    "length (k_connections k1) = length (k_connections k)"
    using close_pending_cancellation_advance [OF 1] by (simp_all add: advance_def)
  have "k_connections k' = k_connections k4"
    using requeue_steps_ext [OF 5] by (simp add: ev_ext_fields)
  also have "\<dots> = update_rows ?here (apply_connection_update (ConnectionClose now)) (k_connections k1)"
    using if_append_ext [OF 4] by (simp add: ev_ext_fields)
  finally have k': "k_connections k'
      = update_rows ?here (apply_connection_update (ConnectionClose now)) (k_connections k1)" .
  show ?thesis
  proof (intro ballI impI notI)
    fix c assume c: "c \<in> set (k_connections k')" "con_device_id c = d" "con_active c"
    from c(1) obtain c1 where c1: "c1 \<in> set (k_connections k1)"
      "c = (if ?here c1 then apply_connection_update (ConnectionClose now) c1 else c1)"
      unfolding k' set_update_rows by (rule imageE) blast
    have "\<not> ?here c1"
    proof
      assume h: "?here c1"
      have "c = apply_connection_update (ConnectionClose now) c1" using c1(2) unfolding if_P [OF h] .
      with c(3) show False by simp
    qed
    then have "c = c1" using c1(2) by (metis (no_types))
    with c1(1) c \<open>\<not> ?here c1\<close> have c': "c \<in> set (k_connections k1)" "con_epoch c \<noteq> e" by auto
    from grows_same_length [OF same c'(1)] obtain c0 where
      c0: "c0 \<in> set (k_connections k)" "seq_le c0 c" by blast
    obtain q where q: "q \<in> set (k_connections k)" "con_device_id q = d" "con_epoch q = e"
      using 0 unfolding connection_state_Inr by (auto dest: find_row_Some)
    have "c0 = q" using assms(1) c0 q c(2) by (metis distinct_map_inj seq_le_def)
    with c0(2) q(3) c'(2) show False by (simp add: seq_le_def)
  qed
qed

section \<open>Deadlines\<close>

lemma reconcile_expired_leases_advance:
  assumes "reconcile_expired_leases_tx cx now k = Inr (k', r)"
  shows "advance closes k k'"
proof -
  let ?items = "attempts_with_task (lease_expired_by now) k"
  from assms obtain n where
    1: "forE (expire_lease cx now) ?items
          (update_attempts (lease_expired_by now) (AttemptClose AExpired now) k, 0) = Inr (k', n)"
    unfolding reconcile_expired_leases_tx_def Let_def bindE_Inr_iff split_paired_Ex prod.case by blast
  have "advance closes k (update_attempts (lease_expired_by now) (AttemptClose AExpired now) k)"
    by (rule advance_attempts) (simp add: in_flight_def lease_expired_by_def)
  moreover have "advance closes (update_attempts (lease_expired_by now) (AttemptClose AExpired now) k) k'"
    by (rule advance_trans_closes [OF advance_steps advance_ev [OF expire_leases_ext [OF 1]]])
      (simp add: leased_row_def nonterminal_status_def)
  ultimately show ?thesis by (rule advance_trans_closes)
qed

lemma expire_cancellation_cases:
  assumes "expire_cancellation cx now (task, a) (k, n) = Inr (k', m)"
  defines "k1 \<equiv> update_attempts (\<lambda>b. at_attempt_id b = at_attempt_id a
      \<and> at_status b = ACancellationPending) (AttemptClose AAbandoned now) k"
  shows "k' = k1 \<or> (\<exists>k4 r. advance closes k1 k4
    \<and> disconnect_device_tx cx (at_device_id a) (at_epoch a) now k4 = Inr (k', r))"
proof (cases "count_rows (\<lambda>b. at_attempt_id b = at_attempt_id a
    \<and> at_status b = ACancellationPending) (k_attempts k) = 1")
  case False
  with assms(1) show ?thesis by (auto simp: expire_cancellation_def Let_def k1_def)
next
  case True
  from assms(1) True obtain k3 k4 r where
    3: "append_event cx StepCancellationExpired now
          (attempt_identity task (at_step_id a) (at_device_id a) (at_epoch a))
          (update_steps (\<lambda>s. st_step_id s = at_step_id a \<and> st_status s = SLeased)
             (StepFinish SCancelled now) k1) = Inr k3"
    and 4: "append_event cx StepCancelled now (step_identity task (at_step_id a)) k3 = Inr k4"
    and 5: "disconnect_device_tx cx (at_device_id a) (at_epoch a) now k4 = Inr (k', r)"
    unfolding expire_cancellation_def Let_def prod.case k1_def
    by (simp only: simp_thms if_False bindE_Inr_iff split_paired_Ex prod.case) blast
  have "advance closes k1 k4"
    using finish_step_advance(1) append_event_advance [OF 3] append_event_advance [OF 4]
    by (blast intro: advance_trans_closes)
  with 5 show ?thesis by blast
qed

lemma expire_cancellation_advance:
  assumes "expire_cancellation cx now (task, a) (k, n) = Inr (k', m)"
  shows "advance closes (update_attempts (\<lambda>b. at_attempt_id b = at_attempt_id a
      \<and> at_status b = ACancellationPending) (AttemptClose AAbandoned now) k) k'"
  using expire_cancellation_cases [OF assms] disconnect_advance
  by (blast intro: advance_refl advance_trans_closes)

lemma close_pending_advance:
  "advance closes k (update_attempts (\<lambda>b. at_attempt_id b = i
      \<and> at_status b = ACancellationPending) (AttemptClose AAbandoned now) k)"
  by (rule advance_attempts) (simp add: in_flight_def)

lemma reconcile_cancellations_advance:
  assumes "reconcile_cancellation_deadlines_tx cx now k = Inr (k', n)"
  shows "advance closes k k'"
proof -
  from assms have "forE (expire_cancellation cx now)
      (attempts_with_task (cancellation_overdue now) k) (k, 0) = Inr (k', n)"
    unfolding reconcile_cancellation_deadlines_tx_def bindE_Inr_iff by blast
  then have "advance closes (fst (k, 0 :: nat)) (fst (k', n))"
  proof (rule forE_advance)
    fix x u v assume "expire_cancellation cx now x u = Inr v"
    then show "advance closes (fst u) (fst v)"
      by (cases x, cases u, cases v)
        (auto intro: advance_trans_closes close_pending_advance expire_cancellation_advance)
  qed
  then show ?thesis by simp
qed

section \<open>Queueing and leasing\<close>

lemma enqueue_step_advance:
  assumes "enqueue_step cx s now k = Inr k'"
  shows "advance closes k k'"
proof -
  note e = enqueue_step_Inr [OF assms]
  have "open_steps (insert_row (queued_row cx s now) (k_steps k)) \<le> MAX_QUEUED_OR_LEASED_STEPS"
    using e by (simp add: open_steps_def insert_row_def)
  then have "advance closes k (k\<lparr>k_steps := insert_row (queued_row cx s now) (k_steps k)\<rparr>)"
    by (simp add: advance_def steps.insert closing.refl sequences.refl log_ext_same)
  then show ?thesis using e advance_ev by (blast intro: advance_trans_closes)
qed

lemma insert_attempt_advance:
  "advance closes k (k\<lparr>k_attempts := insert_row a (k_attempts k)\<rparr>)"
  by (simp add: advance_def closing.insert steps.refl sequences.refl log_ext_same)

lemma commit_lease_advance:
  assumes inv: "lease_inv k"
    and ok: "commit_lease cx s j d now expires k = Inr k'"
    and con: "connection_state k d = Inr c" "cs_last_sequence c \<le> job_sequence j"
  shows "advance closes k k'"
proof -
  let ?k1 = "k\<lparr>k_attempts := insert_row (leased_attempt j d now expires) (k_attempts k)\<rparr>"
  let ?k2 = "update_steps (\<lambda>r. st_step_id r = st_step_id s \<and> st_status r = SQueued) StepLease ?k1"
  have "advance closes k ?k2"
    using insert_attempt_advance finish_step_advance(2) by (blast intro: advance_trans_closes)
  moreover have "advance closes ?k2 (update_connections
      (\<lambda>c. con_device_id c = d \<and> con_epoch c = job_connection_epoch j \<and> con_active c)
      (ConnectionSequence (job_sequence j)) ?k2)"
    by (rule advance_sequence [OF inv con]) simp_all
  ultimately show ?thesis
    using commit_lease_Inr [OF ok] advance_ev by (blast intro: advance_trans_closes)
qed

lemma lease_next_step_advance:
  assumes inv: "lease_inv k0"
    and ok: "lease_next_step_bound cx d e now contract ids k0 = Inr (k', j)"
  shows "advance closes k0 k'"
proof -
  obtain k r c s cap sequence expires where
    rec: "reconcile_expired_leases_tx cx now k0 = Inr (k, r)"
    and c: "find_row (\<lambda>c. con_device_id c = d) (k_connections k) = Some c"
    and seq: "sequence = Suc (con_last_sequence c)"
    and j: "j = lease_job s cap e sequence ids"
    and commit: "commit_lease cx s j d now expires k = Inr k'"
    by (rule lease_next_step_Inr [OF ok]) blast
  have k: "lease_inv k" using reconcile_expired_leases_inv [OF inv rec] by blast
  have con: "connection_state k d = Inr \<lparr>cs_epoch = con_epoch c, cs_active = con_active c,
      cs_last_sequence = con_last_sequence c\<rparr>"
    using c by (simp add: connection_state_def)
  have "advance closes k k'"
    by (rule commit_lease_advance [OF k commit con]) (simp add: j lease_job_def seq)
  with reconcile_expired_leases_advance [OF rec] show ?thesis by (rule advance_trans_closes)
qed

end
