(* ===== verification/Kernel_Results.thy ===== *)
theory Kernel_Results
  imports Kernel_Advance
begin

text \<open>
  Results, cancellations and acknowledgements: the invariant is preserved, the tables advance, and
  the row an accepted message writes is the row of the attempt it names.
\<close>

lemma lease_inv_sequence:
  "lease_inv k \<Longrightarrow> lease_inv (update_connections p (ConnectionSequence n) k)"
  by (simp add: lease_inv_def tables_inv_sequence)

lemma load_attempt_unique:
  assumes "lease_inv k" "load_attempt k i = Some a" "b \<in> set (k_attempts k)" "at_attempt_id b = i"
  shows "b = a"
proof -
  have "distinct (map at_attempt_id (k_attempts k))"
    using assms(1) by (simp add: lease_inv_def tables_inv_def)
  then show ?thesis using load_attempt_Some [OF assms(2)] assms(3,4) by (metis distinct_map_inj)
qed

lemma attempt_job_identity:
  assumes "lease_inv k" "a \<in> set (k_attempts k)"
  shows "job_attempt_id (at_job a) = at_attempt_id a" "job_step_id (at_job a) = at_step_id a"
    "job_connection_epoch (at_job a) = at_epoch a"
  using assms by (auto simp: lease_inv_def tables_inv_def list_all_iff job_row_def)

section \<open>Results\<close>

lemma contract_validate_result_Inr:
  "contract_validate_result cx c r j = Inr () \<Longrightarrow> result_for_job cx r j = Inr ()"
  by (auto simp: contract_validate_result_def validate_fixture_result_def validate_mlx_result_def
      validate_coding_result_def Let_def bindE_Inr_iff protocol_result_Inr
      split: remote_work_contract.splits)

lemma check_result_contract_Inr:
  "check_result_contract cx k a r contract = Inr u \<Longrightarrow> result_for_job cx r (at_job a) = Inr ()"
  by (auto simp: check_result_contract_def Let_def bindE_Inr_iff protocol_result_Inr
      dest: contract_validate_result_Inr split: option.splits)

text \<open>What both outcomes of \<open>accept_result_bound\<close> have passed.\<close>

lemma accept_result_bound_Inr:
  assumes "accept_result_bound cx auth r now contract evidence k = Inr (k', out)"
  obtains a where
    "k_emergency_paused k = 0" "load_attempt k (res_attempt_id r) = Some a" "at_status a = ALeased"
    "auth \<noteq> None \<longrightarrow> auth = Some (at_device_id a)"
    "result_for_job cx r (at_job a) = Inr ()"
    "job_capability_id (at_job a) = LOCAL_CODING_CAPABILITY_ID
      \<longrightarrow> contract = Some ContractLocalCoding \<and> check_coding_result cx k a r evidence = Inr ()"
    "(at_lease_expires_at_ms a \<le> now \<and> out = Inl LeaseExpired
        \<and> expire_late_result cx a r now k = Inr k')
      \<or> (now < at_lease_expires_at_ms a \<and> (\<exists>x. out = Inr x \<and> record_result cx a r now k = Inr (k', x)))"
proof -
  from assms obtain a where
    1: "k_emergency_paused k = 0" "load_attempt k (res_attempt_id r) = Some a"
      "\<not> (case auth of None \<Rightarrow> False | Some d \<Rightarrow> d \<noteq> at_device_id a)"
      "check_result_contract cx k a r contract = Inr ()"
      "(if job_capability_id (at_job a) = LOCAL_CODING_CAPABILITY_ID
            then check_coding_result cx k a r evidence else Inr ()) = Inr ()"
      "\<not> at_status a \<noteq> ALeased"
    and 2: "(if at_lease_expires_at_ms a \<le> now
      then bindE (expire_late_result cx a r now k) (\<lambda>k'. Inr (k', Inl LeaseExpired))
      else bindE (record_result cx a r now k) (\<lambda>(k', accepted). Inr (k', Inr accepted))) = Inr (k', out)"
    unfolding accept_result_bound_def bindE_Inr_iff reject_if_Inr_iff ok_or_Inr_iff
      require_emergency_unpaused_Inr protocol_result_Inr unit_all_eq1 by (elim exE conjE) auto
  show thesis
  proof (rule that [OF 1(1,2)])
    show "at_status a = ALeased" using 1(6) by simp
    show "auth \<noteq> None \<longrightarrow> auth = Some (at_device_id a)" using 1(3) by (auto split: option.splits)
    show "result_for_job cx r (at_job a) = Inr ()" by (rule check_result_contract_Inr [OF 1(4)])
    show "job_capability_id (at_job a) = LOCAL_CODING_CAPABILITY_ID
      \<longrightarrow> contract = Some ContractLocalCoding \<and> check_coding_result cx k a r evidence = Inr ()"
      using 1(4,5) by (auto simp: check_result_contract_def Let_def bindE_Inr_iff reject_if_Inr_iff)
    show "(at_lease_expires_at_ms a \<le> now \<and> out = Inl LeaseExpired
        \<and> expire_late_result cx a r now k = Inr k')
      \<or> (now < at_lease_expires_at_ms a \<and> (\<exists>x. out = Inr x \<and> record_result cx a r now k = Inr (k', x)))"
      using 2 by (auto simp: bindE_Inr_iff split: if_splits)
  qed
qed

lemma expire_late_result_ext:
  assumes "expire_late_result cx a r now k = Inr k'"
  shows "ev_ext (update_steps (\<lambda>s. leased_row s \<and> st_step_id s = res_step_id r) StepRequeue
    (update_attempts (\<lambda>b. at_attempt_id b = res_attempt_id r \<and> at_status b = ALeased)
       (AttemptClose AExpired now) k)) k'"
proof -
  from assms obtain k2 n where
    2: "append_event cx StepLeaseExpired now (attempt_identity (res_task_id r) (res_step_id r)
          (at_device_id a) (res_connection_epoch r))
          (update_attempts (\<lambda>b. at_attempt_id b = res_attempt_id r \<and> at_status b = ALeased)
             (AttemptClose AExpired now) k) = Inr k2"
    and 3: "requeue_step cx now (res_task_id r, res_step_id r) (k2, 0) = Inr (k', n)"
    unfolding expire_late_result_def Let_def bindE_Inr_iff split_paired_Ex prod.case by blast
  show ?thesis
    using ev_ext_trans [OF ev_ext_updates(1) [OF append_event_ext [OF 2]] requeue_step_ext [OF 3]] .
qed

definition recorded :: "attempt_row \<Rightarrow> job_result \<Rightarrow> nat \<Rightarrow> kernel \<Rightarrow> kernel" where
  "recorded a r now k =
     update_connections
       (\<lambda>c. con_device_id c = at_device_id a \<and> con_epoch c = res_connection_epoch r \<and> con_active c)
       (ConnectionSequence (res_sequence r))
       (update_steps (\<lambda>s. st_step_id s = res_step_id r \<and> st_status s = SLeased)
          (StepAccept (snd (result_statuses (res_status r))) (res_payload r) (res_payload_sha256 r) now)
          (update_attempts (\<lambda>b. at_attempt_id b = res_attempt_id r \<and> at_status b = ALeased)
             (AttemptResult (fst (result_statuses (res_status r))) now (res_sequence r)
                (res_payload_sha256 r)) k))"

lemma record_result_Inr:
  assumes "record_result cx a r now k = Inr (k', x)"
  obtains c where "ev_ext (recorded a r now k) k'" "connection_state k (at_device_id a) = Inr c"
    "cs_active c" "cs_epoch c = res_connection_epoch r" "cs_last_sequence c < res_sequence r"
    "x = \<lparr>ac_task_id = res_task_id r, ac_step_id = res_step_id r,
      ac_status = snd (result_statuses (res_status r)), ac_payload_sha256 = res_payload_sha256 r\<rparr>"
proof -
  from assms obtain c where
    1: "connection_state k (at_device_id a) = Inr c" "\<not> \<not> cs_active c"
      "\<not> cs_epoch c \<noteq> res_connection_epoch r" "\<not> res_sequence r \<le> cs_last_sequence c"
    and 2: "bindE (append_event cx (fst (result_event a r)) now (snd (result_event a r))
        (recorded a r now k)) (\<lambda>k4. Inr (k4, \<lparr>ac_task_id = res_task_id r, ac_step_id = res_step_id r,
      ac_status = snd (result_statuses (res_status r)), ac_payload_sha256 = res_payload_sha256 r\<rparr>))
      = Inr (k', x)"
    unfolding record_result_def Let_def bindE_Inr_iff reject_if_Inr_iff ok_or_Inr_iff recorded_def
      case_prod_beta by (elim exE conjE) blast
  show thesis
    by (rule that) (use 1 2 append_event_ext in \<open>auto simp: bindE_Inr_iff\<close>)
qed

lemma result_statuses_closed:
  "fst (result_statuses s) \<notin> {ALeased, ACancellationPending}" "snd (result_statuses s) \<notin> {SQueued, SLeased}"
  by (cases s; simp add: result_statuses_def)+

lemma accept_result_inv:
  assumes inv: "lease_inv k"
    and ok: "accept_result_bound cx auth r now contract evidence k = Inr (k', out)"
  shows "lease_inv k'"
proof -
  obtain a where
    a: "load_attempt k (res_attempt_id r) = Some a" "at_status a = ALeased"
      "result_for_job cx r (at_job a) = Inr ()"
    and out: "(at_lease_expires_at_ms a \<le> now \<and> out = Inl LeaseExpired
        \<and> expire_late_result cx a r now k = Inr k')
      \<or> (now < at_lease_expires_at_ms a \<and> (\<exists>x. out = Inr x \<and> record_result cx a r now k = Inr (k', x)))"
    by (rule accept_result_bound_Inr [OF ok]) blast
  have mem: "a \<in> set (k_attempts k)" "at_attempt_id a = res_attempt_id r"
    using load_attempt_Some [OF a(1)] by auto
  have fl: "in_flight a" using a(2) by (simp add: in_flight_def)
  have step: "res_step_id r = at_step_id a"
    using result_for_job_Inr [OF a(3)] attempt_job_identity(2) [OF inv mem(1)] by (simp add: identity_defs)
  have hit: "(at_attempt_id b = res_attempt_id r \<and> at_status b = ALeased) \<longleftrightarrow> b = a"
    if "b \<in> set (k_attempts k)" for b
    using load_attempt_unique [OF inv a(1) that] mem(2) a(2) by auto
  show ?thesis
    using out
  proof (elim disjE conjE exE)
    assume late: "expire_late_result cx a r now k = Inr k'"
    have "lease_inv (update_steps (\<lambda>s. st_step_id s = at_step_id a \<and> st_status s = SLeased) StepRequeue
      (update_attempts (\<lambda>b. at_attempt_id b = res_attempt_id r \<and> at_status b = ALeased)
        (AttemptClose AExpired now) k))"
      by (rule close_pair_inv [OF inv mem(1) fl hit]) (simp_all add: in_flight_def leased_row_def)
    moreover have "(\<lambda>s. st_step_id s = at_step_id a \<and> st_status s = SLeased)
        = (\<lambda>s. leased_row s \<and> st_step_id s = res_step_id r)"
      by (auto simp: leased_row_def step)
    ultimately show ?thesis using lease_inv_ev_ext [OF expire_late_result_ext [OF late]] by simp
  next
    fix x assume rec: "record_result cx a r now k = Inr (k', x)"
    obtain c where ext: "ev_ext (recorded a r now k) k'" by (rule record_result_Inr [OF rec]) blast
    have "lease_inv (recorded a r now k)"
      unfolding recorded_def step
      by (rule lease_inv_sequence, rule close_pair_inv [OF inv mem(1) fl hit])
        (use result_statuses_closed in \<open>auto simp: in_flight_def leased_row_def\<close>)
    then show ?thesis using lease_inv_ev_ext [OF ext] by simp
  qed
qed

lemma accept_result_advance:
  assumes inv: "lease_inv k"
    and ok: "accept_result_bound cx auth r now contract evidence k = Inr (k', out)"
  shows "advance closes k k'"
proof -
  obtain a where
    out: "(at_lease_expires_at_ms a \<le> now \<and> out = Inl LeaseExpired
        \<and> expire_late_result cx a r now k = Inr k')
      \<or> (now < at_lease_expires_at_ms a \<and> (\<exists>x. out = Inr x \<and> record_result cx a r now k = Inr (k', x)))"
    by (rule accept_result_bound_Inr [OF ok]) blast
  show ?thesis
    using out
  proof (elim disjE conjE exE)
    assume late: "expire_late_result cx a r now k = Inr k'"
    let ?k1 = "update_attempts (\<lambda>b. at_attempt_id b = res_attempt_id r \<and> at_status b = ALeased)
       (AttemptClose AExpired now) k"
    have "advance closes k ?k1" by (rule advance_attempts) (simp add: in_flight_def)
    moreover have "advance closes ?k1
        (update_steps (\<lambda>s. leased_row s \<and> st_step_id s = res_step_id r) StepRequeue ?k1)"
      by (rule advance_steps) (simp add: leased_row_def nonterminal_status_def)
    ultimately show ?thesis
      using advance_ev [OF expire_late_result_ext [OF late]] by (blast intro: advance_trans_closes)
  next
    fix x assume rec: "record_result cx a r now k = Inr (k', x)"
    obtain c where ext: "ev_ext (recorded a r now k) k'"
      and c: "connection_state k (at_device_id a) = Inr c" "cs_last_sequence c < res_sequence r"
      by (rule record_result_Inr [OF rec]) blast
    let ?k1 = "update_attempts (\<lambda>b. at_attempt_id b = res_attempt_id r \<and> at_status b = ALeased)
       (AttemptResult (fst (result_statuses (res_status r))) now (res_sequence r) (res_payload_sha256 r)) k"
    let ?k2 = "update_steps (\<lambda>s. st_step_id s = res_step_id r \<and> st_status s = SLeased)
       (StepAccept (snd (result_statuses (res_status r))) (res_payload r) (res_payload_sha256 r) now) ?k1"
    have "advance closes k ?k1"
      by (rule advance_attempts) (use result_statuses_closed in \<open>auto simp: in_flight_def\<close>)
    moreover have "advance closes ?k1 ?k2" by (rule finish_step_advance)
    moreover have "advance closes ?k2 (recorded a r now k)"
      unfolding recorded_def
      by (rule advance_sequence [OF inv c(1)]) (use c(2) in simp_all)
    ultimately show ?thesis using advance_ev [OF ext] by (blast intro: advance_trans_closes)
  qed
qed

section \<open>Cancellation\<close>

text \<open>A request for cancellation keeps the attempt in flight and takes the next sequence.\<close>

definition pended :: "attempt_row \<Rightarrow> nat \<Rightarrow> nat \<Rightarrow> kernel \<Rightarrow> kernel" where
  "pended a n now k =
     update_connections
       (\<lambda>c. con_device_id c = at_device_id a \<and> con_epoch c = at_epoch a \<and> con_active c)
       (ConnectionSequence n)
       (update_attempts (\<lambda>b. at_attempt_id b = at_attempt_id a \<and> at_status b = ALeased)
          (AttemptPend n now (now + CANCELLATION_ACK_DEADLINE_MS)) k)"

lemma request_cancellation_Inr:
  assumes "request_leased_step_cancellation_tx cx task step now k = Inr k'"
  obtains a c where
    "find_row (\<lambda>a. at_step_id a = step \<and> at_status a = ALeased) (k_attempts k) = Some a"
    "connection_state k (at_device_id a) = Inr c" "cs_active c" "cs_epoch c = at_epoch a"
    "ev_ext (pended a (Suc (cs_last_sequence c)) now k) k'"
proof -
  from assms obtain a c sequence deadline where
    1: "find_row (\<lambda>a. at_step_id a = step \<and> at_status a = ALeased) (k_attempts k) = Some a"
      "connection_state k (at_device_id a) = Inr c"
      "\<not> (\<not> cs_active c \<or> cs_epoch c \<noteq> at_epoch a)"
      "checked_add_u64 (cs_last_sequence c) 1 = Some sequence"
      "checked_add_u64 now CANCELLATION_ACK_DEADLINE_MS = Some deadline"
    and 2: "append_event cx StepCancellationRequested now
         (attempt_identity task step (at_device_id a) (at_epoch a))
         (update_connections
            (\<lambda>c. con_device_id c = at_device_id a \<and> con_epoch c = at_epoch a \<and> con_active c)
            (ConnectionSequence sequence)
            (update_attempts (\<lambda>b. at_attempt_id b = at_attempt_id a \<and> at_status b = ALeased)
               (AttemptPend sequence now deadline) k)) = Inr k'"
    unfolding request_leased_step_cancellation_tx_def Let_def bindE_Inr_iff reject_if_Inr_iff
      ok_or_Inr_iff by (elim exE conjE) blast
  show thesis
    by (rule that [OF 1(1,2)])
      (use 1 append_event_ext [OF 2] in \<open>auto simp: pended_def checked_add_u64_Some\<close>)
qed

lemma pended_inv: "lease_inv k \<Longrightarrow> lease_inv (pended a n now k)"
  unfolding pended_def
  by (rule lease_inv_sequence) (simp add: lease_inv_def, rule tables_inv_attempts, auto simp: in_flight_def)

lemma request_cancellation_inv:
  assumes "lease_inv k" "request_leased_step_cancellation_tx cx task step now k = Inr k'"
  shows "lease_inv k'"
  by (rule request_cancellation_Inr [OF assms(2)])
    (use pended_inv [OF assms(1)] lease_inv_ev_ext in blast)

lemma request_cancellation_advance:
  assumes inv: "lease_inv k" and ok: "request_leased_step_cancellation_tx cx task step now k = Inr k'"
  shows "advance attempt_le k k'"
proof -
  obtain a c where c: "connection_state k (at_device_id a) = Inr c"
    and ext: "ev_ext (pended a (Suc (cs_last_sequence c)) now k) k'"
    by (rule request_cancellation_Inr [OF ok]) blast
  let ?k1 = "update_attempts (\<lambda>b. at_attempt_id b = at_attempt_id a \<and> at_status b = ALeased)
    (AttemptPend (Suc (cs_last_sequence c)) now (now + CANCELLATION_ACK_DEADLINE_MS)) k"
  have "advance attempt_le k ?k1"
    by (rule advance_attempts_le) (simp add: attempt_le_def attempt_static_def in_flight_def)
  moreover have "advance closes ?k1 (pended a (Suc (cs_last_sequence c)) now k)"
    unfolding pended_def by (rule advance_sequence [OF inv c]) simp_all
  ultimately show ?thesis
    using advance_ev [OF ext] by (blast intro: advance_closes advance_trans_le)
qed

lemma cancel_queued_inv:
  "lease_inv k \<Longrightarrow> lease_inv (update_steps (\<lambda>r. st_step_id r = i \<and> st_status r = SQueued)
    (StepFinish SCancelled now) k)"
  unfolding lease_inv_def by simp (rule tables_inv_steps, auto simp: leased_row_def)

lemma cancel_step_cases:
  assumes "cancel_step cx i now k = Inr k'"
  obtains s where "find_step k i = Some s" "st_status s = SQueued"
    "ev_ext (update_steps (\<lambda>r. st_step_id r = i \<and> st_status r = SQueued) (StepFinish SCancelled now) k) k'"
  | s where "find_step k i = Some s" "st_status s = SLeased"
    "request_leased_step_cancellation_tx cx (st_task_id s) i now k = Inr k'"
proof -
  obtain s where s: "find_step k i = Some s"
    using assms by (auto simp: cancel_step_def bindE_Inr_iff ok_or_Inr_iff)
  show thesis
  proof (cases "st_status s")
    case SQueued
    with assms s have "append_event cx StepCancelled now (step_identity (st_task_id s) i)
      (update_steps (\<lambda>r. st_step_id r = i \<and> st_status r = SQueued) (StepFinish SCancelled now) k) = Inr k'"
      by (simp add: cancel_step_def bindE_Inr_iff)
    then show thesis using that(1) [OF s SQueued] append_event_ext by blast
  next
    case SLeased
    with assms s show thesis using that(2) [OF s SLeased] by (simp add: cancel_step_def)
  qed (use assms s in \<open>simp_all add: cancel_step_def\<close>)
qed

lemma cancel_step_inv:
  assumes "lease_inv k" "cancel_step cx i now k = Inr k'"
  shows "lease_inv k'"
  using assms(2)
  by (rule cancel_step_cases)
    (use assms(1) cancel_queued_inv lease_inv_ev_ext request_cancellation_inv in blast)+

lemma cancel_step_advance:
  assumes "lease_inv k" "cancel_step cx i now k = Inr k'"
  shows "advance attempt_le k k'"
  using assms(2)
proof (rule cancel_step_cases)
  assume "ev_ext (update_steps (\<lambda>r. st_step_id r = i \<and> st_status r = SQueued)
    (StepFinish SCancelled now) k) k'"
  then show ?thesis
    using finish_step_advance(2) advance_ev by (blast intro: advance_trans_closes advance_closes)
qed (use assms(1) request_cancellation_advance in blast)

lemma next_cancellation_Inr:
  assumes "next_cancellation_bound cx d e now contract k0 = Inr (k', out)"
  obtains n c where "reconcile_cancellation_deadlines_tx cx now k0 = Inr (k', n)"
    "connection_state k' d = Inr c" "cs_active c" "cs_epoch c = e"
    "out = None \<and> pending_attempt k' d e = None
     \<or> (\<exists>a sequence deadline i. pending_attempt k' d e = Some a \<and> out = Some i
        \<and> at_cancellation_sequence a = Some sequence \<and> at_cancellation_deadline_at_ms a = Some deadline
        \<and> now \<le> deadline \<and> i = job_instruction (at_job a) e sequence (deadline - now)
        \<and> instruction_for_job cx i (at_job a) = Inr ())"
proof -
  from assms obtain k n c where
    1: "reconcile_cancellation_deadlines_tx cx now k0 = Inr (k, n)"
      "connection_state k d = Inr c" "\<not> \<not> cs_active c" "\<not> cs_epoch c \<noteq> e"
    and 2: "(case pending_attempt k d e of
        None \<Rightarrow> Inr (k, None)
      | Some a \<Rightarrow>
          bindE (ok_or Storage (at_cancellation_sequence a)) (\<lambda>sequence.
          bindE (ok_or Storage (at_cancellation_deadline_at_ms a)) (\<lambda>deadline_at_ms.
          bindE (check_cancellation_contract cx k d (at_job a) contract) (\<lambda>_.
          bindE (ok_or CancellationExpired (checked_sub_u64 deadline_at_ms now)) (\<lambda>deadline_after_ms.
          (let instruction = job_instruction (at_job a) e sequence deadline_after_ms in
           bindE (protocol_result (instruction_for_job cx instruction (at_job a))) (\<lambda>_.
           Inr (k, Some instruction)))))))) = Inr (k', out)"
    unfolding next_cancellation_bound_def Let_def bindE_Inr_iff reject_if_Inr_iff split_paired_Ex
      prod.case by blast
  from 2 have k: "k = k'" by (auto simp: bindE_Inr_iff Let_def split: option.splits)
  show thesis
    by (rule that [of n c])
      (use 1 2 in \<open>auto simp: k bindE_Inr_iff ok_or_Inr_iff checked_sub_u64_Some protocol_result_Inr Let_def
        split: option.splits\<close>)
qed

lemma next_cancellation_inv:
  assumes "lease_inv k" "next_cancellation_bound cx d e now contract k = Inr (k', out)"
  shows "lease_inv k' \<and> advance closes k k'"
  by (rule next_cancellation_Inr [OF assms(2)])
    (use reconcile_cancellations_inv [OF assms(1)] reconcile_cancellations_advance in blast)

section \<open>Acknowledgements\<close>

definition acknowledged :: "uuid \<Rightarrow> cancellation_acknowledgement \<Rightarrow> nat \<Rightarrow> kernel \<Rightarrow> kernel" where
  "acknowledged d ack now k =
     update_connections
       (\<lambda>c. con_device_id c = d \<and> con_epoch c = ack_connection_epoch ack \<and> con_active c)
       (ConnectionSequence (ack_sequence ack))
       (update_steps (\<lambda>s. st_step_id s = ack_step_id ack \<and> st_status s = SLeased)
          (StepFinish SCancelled now)
          (update_attempts
             (\<lambda>b. at_attempt_id b = ack_attempt_id ack \<and> at_status b = ACancellationPending)
             (AttemptAck (ack_sequence ack) now) k))"

lemma record_acknowledgement_Inr:
  assumes "record_acknowledgement cx d ack now k = Inr (k', x)"
  obtains c where "connection_state k d = Inr c" "cs_active c" "cs_epoch c = ack_connection_epoch ack"
    "cs_last_sequence c < ack_sequence ack" "ev_ext (acknowledged d ack now k) k'"
    "x = \<lparr>acc_accepted = True, acc_status = SCancelled\<rparr>"
proof -
  from assms obtain c k4 where
    1: "connection_state k d = Inr c" "\<not> (\<not> cs_active c \<or> cs_epoch c \<noteq> ack_connection_epoch ack)"
      "\<not> ack_sequence ack \<le> cs_last_sequence c"
    and 2: "append_event cx StepCancellationAcknowledged now
        (attempt_identity (ack_task_id ack) (ack_step_id ack) d (ack_connection_epoch ack))
        (acknowledged d ack now k) = Inr k4"
    and 3: "bindE (append_event cx StepCancelled now
        (step_identity (ack_task_id ack) (ack_step_id ack)) k4) (\<lambda>k5.
        Inr (k5, \<lparr>acc_accepted = True, acc_status = SCancelled\<rparr>)) = Inr (k', x)"
    unfolding record_acknowledgement_def Let_def bindE_Inr_iff [of "connection_state k d"]
      bindE_Inr_iff [of "reject_if e b" for e b] bindE_Inr_iff [of "to_i64 n" for n]
      bindE_Inr_iff [of "append_event cx StepCancellationAcknowledged t i q" for t i q]
      reject_if_Inr_iff acknowledged_def by (elim exE conjE) blast
  from 3 obtain k5 where 4: "append_event cx StepCancelled now
        (step_identity (ack_task_id ack) (ack_step_id ack)) k4 = Inr k5" "k' = k5"
    "x = \<lparr>acc_accepted = True, acc_status = SCancelled\<rparr>" by (auto simp: bindE_Inr_iff)
  have "ev_ext (acknowledged d ack now k) k'"
    using ev_ext_trans [OF append_event_ext [OF 2] append_event_ext [OF 4(1)]] 4(2) by simp
  note ext = this
  show thesis by (rule that [OF 1(1) _ _ _ ext]) (use 1 4 in auto)
qed

lemma accept_ack_Inr:
  assumes "accept_cancellation_ack_bound cx d ack now contract k = Inr (k', out)"
  obtains a sequence deadline where
    "load_attempt k (ack_attempt_id ack) = Some a" "at_device_id a = d"
    "at_status a = ACancellationPending" "at_cancellation_sequence a = Some sequence"
    "at_cancellation_deadline_at_ms a = Some deadline"
    "acknowledgement_for_instruction cx ack
       (job_instruction (at_job a) (job_connection_epoch (at_job a)) sequence
          CANCELLATION_ACK_DEADLINE_MS) = Inr ()"
    "(deadline \<le> now \<and> out = Inl CancellationExpired
        \<and> (\<exists>n. reconcile_cancellation_deadlines_tx cx now k = Inr (k', n)))
     \<or> (now < deadline \<and> (\<exists>x. out = Inr x \<and> record_acknowledgement cx d ack now k = Inr (k', x)))"
proof -
  from assms obtain a sequence deadline where
    1: "load_attempt k (ack_attempt_id ack) = Some a" "\<not> at_device_id a \<noteq> d"
      "\<not> at_status a \<noteq> ACancellationPending" "at_cancellation_sequence a = Some sequence"
      "acknowledgement_for_instruction cx ack
         (job_instruction (at_job a) (job_connection_epoch (at_job a)) sequence
            CANCELLATION_ACK_DEADLINE_MS) = Inr ()"
      "at_cancellation_deadline_at_ms a = Some deadline"
    and 2: "(if deadline \<le> now
      then bindE (reconcile_cancellation_deadlines_tx cx now k) (\<lambda>(k', _). Inr (k', Inl CancellationExpired))
      else bindE (record_acknowledgement cx d ack now k) (\<lambda>(k', accepted). Inr (k', Inr accepted)))
      = Inr (k', out)"
    unfolding accept_cancellation_ack_bound_def bindE_Inr_iff reject_if_Inr_iff ok_or_Inr_iff
      protocol_result_Inr unit_all_eq1 by (elim exE conjE) auto
  show thesis
    by (rule that [OF 1(1)]) (use 1 2 in \<open>auto simp: bindE_Inr_iff split: if_splits\<close>)
qed

lemma accept_ack_inv:
  assumes inv: "lease_inv k" and ok: "accept_cancellation_ack_bound cx d ack now contract k = Inr (k', out)"
  shows "lease_inv k'"
proof -
  obtain a sequence where
    a: "load_attempt k (ack_attempt_id ack) = Some a" "at_status a = ACancellationPending"
    and ack: "acknowledgement_for_instruction cx ack
       (job_instruction (at_job a) (job_connection_epoch (at_job a)) sequence
          CANCELLATION_ACK_DEADLINE_MS) = Inr ()"
    and out: "(\<exists>n. reconcile_cancellation_deadlines_tx cx now k = Inr (k', n))
     \<or> (\<exists>x. record_acknowledgement cx d ack now k = Inr (k', x))"
    by (rule accept_ack_Inr [OF ok]) blast
  have mem: "a \<in> set (k_attempts k)" "at_attempt_id a = ack_attempt_id ack"
    using load_attempt_Some [OF a(1)] by auto
  have fl: "in_flight a" using a(2) by (simp add: in_flight_def)
  have step: "ack_step_id ack = at_step_id a"
    using acknowledgement_for_instruction_Inr [OF ack] attempt_job_identity(2) [OF inv mem(1)]
    by (simp add: identity_defs job_instruction_def)
  have hit: "(at_attempt_id b = ack_attempt_id ack \<and> at_status b = ACancellationPending) \<longleftrightarrow> b = a"
    if "b \<in> set (k_attempts k)" for b
    using load_attempt_unique [OF inv a(1) that] mem(2) a(2) by auto
  have "lease_inv (acknowledged d ack now k)"
    unfolding acknowledged_def step
    by (rule lease_inv_sequence, rule close_pair_inv [OF inv mem(1) fl hit])
      (auto simp: in_flight_def leased_row_def)
  moreover have "ev_ext (acknowledged d ack now k) k'"
    if "record_acknowledgement cx d ack now k = Inr (k', x)" for x
    by (rule record_acknowledgement_Inr [OF that]) blast
  ultimately show ?thesis
    using out reconcile_cancellations_inv [OF inv] lease_inv_ev_ext by blast
qed

lemma accept_ack_advance:
  assumes inv: "lease_inv k" and ok: "accept_cancellation_ack_bound cx d ack now contract k = Inr (k', out)"
  shows "advance closes k k'"
proof -
  have out: "(\<exists>n. reconcile_cancellation_deadlines_tx cx now k = Inr (k', n))
     \<or> (\<exists>x. record_acknowledgement cx d ack now k = Inr (k', x))"
    by (rule accept_ack_Inr [OF ok]) blast
  have "advance closes k k'" if rec: "record_acknowledgement cx d ack now k = Inr (k', x)" for x
  proof -
    obtain c where c: "connection_state k d = Inr c" "cs_last_sequence c < ack_sequence ack"
      and ext: "ev_ext (acknowledged d ack now k) k'" by (rule record_acknowledgement_Inr [OF rec]) blast
    let ?k1 = "update_attempts
      (\<lambda>b. at_attempt_id b = ack_attempt_id ack \<and> at_status b = ACancellationPending)
      (AttemptAck (ack_sequence ack) now) k"
    let ?k2 = "update_steps (\<lambda>s. st_step_id s = ack_step_id ack \<and> st_status s = SLeased)
      (StepFinish SCancelled now) ?k1"
    have "advance closes k ?k1" by (rule advance_attempts) (simp add: in_flight_def)
    moreover have "advance closes ?k1 ?k2" by (rule finish_step_advance)
    moreover have "advance closes ?k2 (acknowledged d ack now k)"
      unfolding acknowledged_def by (rule advance_sequence [OF inv c(1)]) (use c(2) in simp_all)
    ultimately show ?thesis using advance_ev [OF ext] by (blast intro: advance_trans_closes)
  qed
  with out reconcile_cancellations_advance show ?thesis by blast
qed

end
