(* ===== verification/Kernel_Pause.thy ===== *)
theory Kernel_Pause
  imports Kernel_Results
begin

text \<open>
  The emergency pause, the restart reconciliation and the admission of artifacts: the invariant, the
  advance of the tables, and what a pause and a restart leave behind.
\<close>

section \<open>Emergency pause\<close>

lemma append_audit_Inr:
  "append_audit cx kind f now m k = Inr k' \<Longrightarrow> \<exists>row. k' = k\<lparr>k_audit := insert_row row (k_audit k)\<rparr>"
  by (auto simp: append_audit_def bindE_Inr_iff)

lemma cancel_queued_coding_Inr:
  assumes "cancel_queued_coding cx now (t, i) k = Inr k'"
  shows "ev_ext (update_steps (\<lambda>s. st_step_id s = i \<and> st_status s = SQueued) (StepFinish SCancelled now) k) k'
    \<and> count_rows (\<lambda>s. st_step_id s = i \<and> st_status s = SQueued) (k_steps k) = 1"
  using assms append_event_ext unfolding cancel_queued_coding_def Let_def prod.case bindE_Inr_iff
    reject_if_Inr_iff not_not by blast

lemma abandon_for_pause_Inr:
  assumes "abandon_for_pause cx now t i k = Inr k'"
  shows "ev_ext (update_steps (\<lambda>s. st_step_id s = i \<and> st_status s = SLeased) (StepFinish SCancelled now)
      (update_attempts (\<lambda>a. at_step_id a = i \<and> at_status a = ALeased) (AttemptClose AAbandoned now) k)) k'
    \<and> count_rows (\<lambda>a. at_step_id a = i \<and> at_status a = ALeased) (k_attempts k) = 1"
  using assms append_event_ext unfolding abandon_for_pause_def Let_def prod.case bindE_Inr_iff
    reject_if_Inr_iff not_not de_Morgan_disj by blast

lemma abandon_for_pause_inv:
  assumes inv: "lease_inv k" and ok: "abandon_for_pause cx now t i k = Inr k'"
  shows "lease_inv k'"
proof -
  note c = abandon_for_pause_Inr [OF ok]
  then have "0 < count_rows (\<lambda>a. at_step_id a = i \<and> at_status a = ALeased) (k_attempts k)" by simp
  then obtain a where a: "a \<in> set (k_attempts k)" "at_step_id a = i" "at_status a = ALeased"
    by (auto simp: count_rows_pos)
  have fl: "in_flight a" using a(3) by (simp add: in_flight_def)
  have hit: "(at_step_id b = i \<and> at_status b = ALeased) \<longleftrightarrow> b = a" if "b \<in> set (k_attempts k)" for b
    using in_flight_unique [of _ _ _ b a] inv that a fl unfolding lease_inv_def
    by (metis in_flight_def)
  have "lease_inv (update_steps (\<lambda>s. st_step_id s = at_step_id a \<and> st_status s = SLeased)
      (StepFinish SCancelled now)
      (update_attempts (\<lambda>b. at_step_id b = i \<and> at_status b = ALeased) (AttemptClose AAbandoned now) k))"
    by (rule close_pair_inv [OF inv a(1) fl hit]) (simp_all add: in_flight_def leased_row_def)
  then show ?thesis using lease_inv_ev_ext [OF conjunct1 [OF c]] a(2) by simp
qed

lemma abandon_for_pause_advance:
  assumes "abandon_for_pause cx now t i k = Inr k'"
  shows "advance closes k k'"
proof -
  have "advance closes k
      (update_attempts (\<lambda>a. at_step_id a = i \<and> at_status a = ALeased) (AttemptClose AAbandoned now) k)"
    by (rule advance_attempts) (simp add: in_flight_def)
  then show ?thesis
    using finish_step_advance(1) abandon_for_pause_Inr [OF assms] advance_ev
    by (blast intro: advance_trans_closes)
qed

lemma request_pause_cancellation_cases:
  assumes "request_pause_cancellation cx now (t, i) k = Inr k'"
  shows "request_leased_step_cancellation_tx cx t i now k = Inr k' \<or> abandon_for_pause cx now t i k = Inr k'"
  using assms
  by (auto simp: request_pause_cancellation_def bindE_Inr_iff split: option.splits if_splits)

definition pause_ok :: "kernel \<Rightarrow> kernel \<Rightarrow> bool" where
  "pause_ok k k' = (lease_inv k' \<and> advance attempt_le k k')"

lemma pause_ok_trans: "pause_ok k l \<Longrightarrow> (lease_inv l \<Longrightarrow> pause_ok l m) \<Longrightarrow> pause_ok k m"
  unfolding pause_ok_def by (blast intro: advance_trans_le)

lemma pause_ok_refl: "lease_inv k \<Longrightarrow> pause_ok k k"
  by (simp add: pause_ok_def advance_closes advance_refl)

lemma cancel_queued_coding_ok:
  assumes "lease_inv k" "cancel_queued_coding cx now x k = Inr k'"
  shows "pause_ok k k'"
proof -
  obtain t i where x: "x = (t, i)" by (cases x)
  show ?thesis
    using cancel_queued_coding_Inr [of cx now t i k k'] assms cancel_queued_inv [OF assms(1), of i now]
      finish_step_advance(2) [of k i "StepFinish SCancelled now"] advance_ev lease_inv_ev_ext
    unfolding x pause_ok_def by (blast intro: advance_trans_closes advance_closes)
qed

lemma request_pause_cancellation_ok:
  assumes "lease_inv k" "request_pause_cancellation cx now x k = Inr k'"
  shows "pause_ok k k'"
proof -
  obtain t i where x: "x = (t, i)" by (cases x)
  from request_pause_cancellation_cases [OF assms(2) [unfolded x]] show ?thesis
  proof
    assume "request_leased_step_cancellation_tx cx t i now k = Inr k'"
    then show ?thesis
      using request_cancellation_inv request_cancellation_advance assms(1) by (simp add: pause_ok_def)
  next
    assume a: "abandon_for_pause cx now t i k = Inr k'"
    show ?thesis
      using abandon_for_pause_inv [OF assms(1) a] advance_closes [OF abandon_for_pause_advance [OF a]]
      by (simp add: pause_ok_def)
  qed
qed

lemma forE_pause_ok:
  assumes "forE f xs k = Inr k'" "lease_inv k"
    and "\<And>x u v. lease_inv u \<Longrightarrow> f x u = Inr v \<Longrightarrow> pause_ok u v"
  shows "pause_ok k k'"
  by (rule forE_invariant [OF assms(1), where P = "pause_ok k"])
    (use assms(2,3) pause_ok_refl pause_ok_trans in \<open>auto simp: pause_ok_def intro: advance_trans_le\<close>)

lemma request_cancellations_ok:
  assumes "lease_inv k" "request_active_remote_work_cancellations_tx cx now k = Inr k'"
  shows "pause_ok k k'"
proof -
  from assms(2) obtain k1 where
    1: "forE (cancel_queued_coding cx now) (queued_coding_steps k) k = Inr k1"
    and 2: "forE (request_pause_cancellation cx now) (remote_leased_steps k1) k1 = Inr k'"
    unfolding request_active_remote_work_cancellations_tx_def bindE_Inr_iff by blast
  have "pause_ok k k1" by (rule forE_pause_ok [OF 1 assms(1)]) (rule cancel_queued_coding_ok)
  then show ?thesis
    by (rule pause_ok_trans) (rule forE_pause_ok [OF 2], assumption, rule request_pause_cancellation_ok)
qed

text \<open>Suspending the orchestration clock touches no table of distributed work.\<close>

definition same_work :: "kernel \<Rightarrow> kernel \<Rightarrow> bool" where
  "same_work k k' =
     (k_steps k' = k_steps k \<and> k_attempts k' = k_attempts k \<and> k_connections k' = k_connections k
      \<and> k_devices k' = k_devices k \<and> k_next_connection_epoch k' = k_next_connection_epoch k
      \<and> k_events k' = k_events k \<and> k_next_sequence k' = k_next_sequence k
      \<and> k_stream_id k' = k_stream_id k
      \<and> conveyor_tables k' = conveyor_tables k
      \<and> orchestration_kept k k'
      \<and> k_emergency_pause_revision k \<le> k_emergency_pause_revision k')"

lemma same_work_ok: "same_work k k' \<Longrightarrow> lease_inv k \<Longrightarrow> pause_ok k k'"
  by (simp add: same_work_def pause_ok_def lease_inv_def advance_def steps.refl attempts.refl
      sequences.refl log_ext_same)

lemma same_work_closes: "same_work k k' \<Longrightarrow> advance closes k k'"
  by (simp add: same_work_def advance_def steps.refl closing.refl sequences.refl log_ext_same)

lemma same_work_trans: "same_work k l \<Longrightarrow> same_work l m \<Longrightarrow> same_work k m"
  using orchestration_kept_trans by (auto simp: same_work_def)

lemma charged_kept:
  assumes "or_active_processing_ms clock \<le> MAX_FEATURE_CONVEYOR_ACTIVE_PROCESSING_MS"
    and "\<And>r. mine r \<Longrightarrow> or_active_processing_ms r = or_active_processing_ms clock"
    and "charged = min (saturating_add_u64 (or_active_processing_ms clock) elapsed)
      MAX_FEATURE_CONVEYOR_ACTIVE_PROCESSING_MS"
    and "now \<noteq> 0"
  shows "orchestration_kept k (k\<lparr>k_orchestration := update_rows mine
    (\<lambda>r. r\<lparr>or_active_processing_ms := charged, or_clock_started_at_ms := None, or_updated_at_ms := now\<rparr>)
    (k_orchestration k), k_audit := audit\<rparr>)"
proof -
  have "grows clock_le (k_orchestration k) (update_rows mine
    (\<lambda>r. r\<lparr>or_active_processing_ms := charged, or_clock_started_at_ms := None, or_updated_at_ms := now\<rparr>)
    (k_orchestration k))"
    by (rule clocks.update)
      (use assms in \<open>auto simp: clock_le_def saturating_add_u64_def u64_max_def
        MAX_FEATURE_CONVEYOR_ACTIVE_PROCESSING_MS_def\<close>)
  then show ?thesis by (simp add: orchestration_kept_def)
qed

lemma suspend_clock_same:
  "suspend_clock cx clock started now k = Inr k' \<Longrightarrow>
     same_work k k' \<and> k_emergency_pause_revision k' = k_emergency_pause_revision k
     \<and> k_emergency_paused k' = k_emergency_paused k"
  by (auto simp: suspend_clock_def Let_def bindE_Inr_iff reject_if_Inr_iff not_less same_work_def
      intro!: charged_kept dest!: append_audit_Inr)

lemma suspend_active_clock_same:
  assumes "suspend_active_clock cx now k = Inr k'"
  shows "same_work k k' \<and> k_emergency_pause_revision k' = k_emergency_pause_revision k
     \<and> k_emergency_paused k' = k_emergency_paused k"
  using assms suspend_clock_same
  by (auto simp: suspend_active_clock_def split: option.splits) (simp_all add: same_work_def)

lemma set_emergency_paused_Inr:
  assumes "set_emergency_paused_at cx paused now k = Inr k'"
  obtains k1 k2 where
    "(\<not> paused \<or> k_emergency_paused k = 1) \<and> k1 = k
      \<or> paused \<and> k_emergency_paused k = 0 \<and> request_active_remote_work_cancellations_tx cx now k = Inr k1"
    "same_work k1 k'" "k_emergency_paused k' = (if paused then 1 else 0)"
    "k_emergency_paused k \<le> 1"
    "k_emergency_pause_revision k' = k_emergency_pause_revision k1
      + (if paused = (k_emergency_paused k = 1) then 0 else 1)"
proof -
  from assms obtain was k2 where
    1: "emergency_paused_tx k = Inr was"
    and 2: "(if paused \<and> \<not> was
            then bindE (request_active_remote_work_cancellations_tx cx now k) (suspend_active_clock cx now)
            else Inr k) = Inr k2"
    and 3: "(let k3 = k2\<lparr>k_emergency_paused := (if paused then 1 else 0)\<rparr> in
      if paused \<noteq> was
      then bindE (ok_or (InvalidStoredState ''emergency pause revision overflowed'')
             (checked_add_u64 (k_emergency_pause_revision k3) 1)) (\<lambda>next_revision.
           bindE (to_i64 next_revision) (\<lambda>_.
           Inr (k3\<lparr>k_emergency_pause_revision := next_revision\<rparr>)))
      else Inr k3) = Inr k'"
    unfolding set_emergency_paused_at_def bindE_Inr_iff by blast
  have was: "was = (k_emergency_paused k = 1)" "k_emergency_paused k \<le> 1"
    using 1 by (auto simp: emergency_paused_tx_def split: if_splits)
  obtain k1 where k1: "(\<not> paused \<or> was) \<and> k1 = k \<or> paused \<and> \<not> was
      \<and> request_active_remote_work_cancellations_tx cx now k = Inr k1"
    and s: "same_work k1 k2" "k_emergency_pause_revision k2 = k_emergency_pause_revision k1"
  proof (cases "paused \<and> \<not> was")
    case True
    then obtain k1 where "request_active_remote_work_cancellations_tx cx now k = Inr k1"
      "suspend_active_clock cx now k1 = Inr k2" using 2 by (auto simp: bindE_Inr_iff)
    with True suspend_active_clock_same that show thesis by blast
  next
    case False
    then have "k2 = k" using 2 by (simp only: if_False) simp
    with False that [of k] show thesis by (auto simp: same_work_def)
  qed
  have "same_work k2 k' \<and> k_emergency_paused k' = (if paused then 1 else 0)
    \<and> k_emergency_pause_revision k' = k_emergency_pause_revision k2
      + (if paused = was then 0 else 1)"
    using 3 by (auto simp: Let_def bindE_Inr_iff ok_or_Inr_iff checked_add_u64_Some same_work_def
        split: if_splits)
  then show thesis
    by (intro that [of k1]) (use k1 s was in \<open>auto intro: same_work_trans\<close>)
qed

lemma set_emergency_paused_ok:
  assumes "lease_inv k" "set_emergency_paused_at cx paused now k = Inr k'"
  shows "pause_ok k k'"
proof -
  obtain k1 where 1: "(\<not> paused \<or> k_emergency_paused k = 1) \<and> k1 = k
      \<or> paused \<and> k_emergency_paused k = 0 \<and> request_active_remote_work_cancellations_tx cx now k = Inr k1"
    and 2: "same_work k1 k'"
    by (rule set_emergency_paused_Inr [OF assms(2)]) blast
  have "pause_ok k k1" using 1 request_cancellations_ok [OF assms(1)] pause_ok_refl [OF assms(1)] by blast
  then show ?thesis by (rule pause_ok_trans) (rule same_work_ok [OF 2])
qed

section \<open>Admission of artifacts\<close>

lemma finalize_same_work:
  assumes "finalize_local_coding_result_artifact cx d adm now k = Inr (k', receipt)"
  shows "same_work k k'"
proof -
  from assms obtain row where
    "k' = k \<or> (\<exists>kind f m. append_audit cx kind f now m
       (k\<lparr>k_artifacts := insert_row row (k_artifacts k)\<rparr>) = Inr k')"
    unfolding finalize_local_coding_result_artifact_def Let_def bindE_Inr_iff
    by (elim exE conjE) (auto simp: bindE_Inr_iff split: if_splits)
  then show ?thesis by (auto simp: same_work_def dest!: append_audit_Inr)
qed

end
