(* ===== verification/Kernel_Restart.thy ===== *)
theory Kernel_Restart
  imports Kernel_Pause
begin

text \<open>
  The restart reconciliation leaves no attempt in flight, no leased step and no active connection,
  and the expiry of cancellations leaves none overdue.
\<close>

section \<open>Overdue cancellations\<close>

lemma advance_length:
  assumes "advance R k k'" "map attempt_static (k_attempts k') = map attempt_static (k_attempts k)"
  shows "length (k_attempts k') = length (k_attempts k)"
  using assms(2) by (metis length_map)

lemma closes_pending:
  assumes "advance closes k k'" "map attempt_static (k_attempts k') = map attempt_static (k_attempts k)"
    and "b \<in> set (k_attempts k')" "in_flight b"
  shows "b \<in> set (k_attempts k)"
proof -
  have "grows closes (k_attempts k) (k_attempts k')" using assms(1) by (simp add: advance_def)
  from grows_same_length [OF this advance_length [OF assms(1,2)] assms(3)]
  obtain a where "a \<in> set (k_attempts k)" "closes a b" by blast
  with assms(4) show ?thesis by (auto simp: closes_def)
qed

definition not_pending :: "uuid \<Rightarrow> kernel \<Rightarrow> bool" where
  "not_pending i k = (\<forall>b \<in> set (k_attempts k). at_attempt_id b = i \<longrightarrow> at_status b \<noteq> ACancellationPending)"

lemma not_pending_advance:
  assumes "advance closes k k'" "map attempt_static (k_attempts k') = map attempt_static (k_attempts k)"
    and "not_pending i k"
  shows "not_pending i k'"
  unfolding not_pending_def
proof (intro ballI impI notI)
  fix b assume b: "b \<in> set (k_attempts k')" "at_attempt_id b = i" "at_status b = ACancellationPending"
  then have "b \<in> set (k_attempts k)"
    using closes_pending [OF assms(1,2)] by (simp add: in_flight_def)
  with b assms(3) show False by (simp add: not_pending_def)
qed

lemma static_length_advance:
  "map attempt_static (k_attempts (update_attempts p u k)) = map attempt_static (k_attempts k)"
  by (simp add: map_static_update)

lemma expire_cancellation_not_pending:
  assumes inv: "lease_inv k"
    and static: "map attempt_static (k_attempts k) = map attempt_static t" "a \<in> set t"
    and ok: "expire_cancellation cx now (task, a) (k, n) = Inr (k', m)"
  shows "not_pending (at_attempt_id a) k'"
proof -
  let ?k1 = "update_attempts (\<lambda>b. at_attempt_id b = at_attempt_id a
      \<and> at_status b = ACancellationPending) (AttemptClose AAbandoned now) k"
  have "not_pending (at_attempt_id a) ?k1"
    by (auto simp: not_pending_def row_simps)
  moreover have "map attempt_static (k_attempts k') = map attempt_static (k_attempts ?k1)"
    using expire_cancellation_inv [OF inv static ok] static(1) by (simp add: map_static_update)
  ultimately show ?thesis
    using not_pending_advance [OF expire_cancellation_advance [OF ok]] by blast
qed

lemma reconcile_cancellations_not_pending:
  assumes inv: "lease_inv k"
    and ok: "reconcile_cancellation_deadlines_tx cx now k = Inr (k', n)"
    and a: "a \<in> set (k_attempts k)" "cancellation_overdue now a"
  shows "not_pending (at_attempt_id a) k'"
proof -
  let ?items = "attempts_with_task (cancellation_overdue now) k"
  let ?I = "\<lambda>st. lease_inv (fst st) \<and> map attempt_static (k_attempts (fst st)) = map attempt_static (k_attempts k)"
  let ?Q = "\<lambda>x st. not_pending (at_attempt_id (snd x)) (fst st)"
  from ok have 1: "forE (expire_cancellation cx now) ?items (k, 0) = Inr (k', n)"
    unfolding reconcile_cancellation_deadlines_tx_def bindE_Inr_iff by blast
  have step: "?I v \<and> ?Q x v \<and> (\<forall>y. ?Q y u \<longrightarrow> ?Q y v)"
    if x: "x \<in> set ?items" "?I u" "expire_cancellation cx now x u = Inr v" for x u v
  proof -
    obtain task b where xa: "x = (task, b)" by (cases x)
    obtain u1 u2 v1 v2 where uv: "u = (u1, u2)" "v = (v1, v2)" by (cases u, cases v)
    have b: "b \<in> set (k_attempts k)" using x(1) by (simp add: xa set_attempts_with_task)
    have I: "lease_inv u1" "map attempt_static (k_attempts u1) = map attempt_static (k_attempts k)"
      and e: "expire_cancellation cx now (task, b) (u1, u2) = Inr (v1, v2)"
      using x(2,3) by (simp_all add: uv xa)
    note v = expire_cancellation_inv [OF I b e]
    have "advance closes u1 v1"
      using expire_cancellation_advance [OF e] close_pending_advance by (blast intro: advance_trans_closes)
    then have "not_pending i v1" if "not_pending i u1" for i
      using that v I(2) by (intro not_pending_advance [of u1 v1]) simp_all
    then show ?thesis
      using v expire_cancellation_not_pending [OF I b e] by (simp add: uv xa)
  qed
  have all: "\<forall>x \<in> set ?items. ?Q x (k', n)"
  proof (rule forE_each [OF 1, where I = ?I and Q = ?Q])
    show "?I (k, 0)" using inv by simp
    show "\<And>x u v. x \<in> set ?items \<Longrightarrow> ?I u \<Longrightarrow> expire_cancellation cx now x u = Inr v
      \<Longrightarrow> ?I v \<and> ?Q x v \<and> (\<forall>y. ?Q y u \<longrightarrow> ?Q y v)" by (rule step)
  qed
  have "a \<in> snd ` set ?items"
    using a by (subst attempts_with_task_attempts [OF inv])
      (auto simp: cancellation_overdue_def in_flight_def)
  with all show ?thesis by auto
qed

text \<open>Property: after the expiry of cancellations none is overdue.\<close>

lemma none_overdue:
  assumes inv: "lease_inv k"
    and ok: "reconcile_cancellation_deadlines_tx cx now k = Inr (k', n)"
    and b: "b \<in> set (k_attempts k')"
  shows "\<not> cancellation_overdue now b"
proof
  assume o: "cancellation_overdue now b"
  then have fl: "in_flight b" "at_status b = ACancellationPending"
    by (auto simp: cancellation_overdue_def in_flight_def)
  have "b \<in> set (k_attempts k)"
    using closes_pending [OF reconcile_cancellations_advance [OF ok] _ b fl(1)]
      reconcile_cancellations_inv [OF inv ok] by blast
  from reconcile_cancellations_not_pending [OF inv ok this o] b fl(2)
  show False by (simp add: not_pending_def)
qed

section \<open>Restart\<close>

lemma close_connection_ext:
  assumes "close_connection cx now (d, e) (k, n) = Inr (k', m)"
  shows "ev_ext (update_connections (\<lambda>c. con_active c \<and> con_device_id c = d \<and> con_epoch c = e)
    (ConnectionClose now) k) k'"
proof -
  have eq: "(\<lambda>c. con_device_id c = d \<and> con_epoch c = e \<and> con_active c)
    = (\<lambda>c. con_active c \<and> con_device_id c = d \<and> con_epoch c = e)" by auto
  show ?thesis
    using assms unfolding close_connection_def Let_def prod.case eq
    by (auto simp: bindE_Inr_iff dest: append_event_ext split: if_splits)
qed

lemma close_twice:
  "update_rows (\<lambda>c. con_active c \<and> (con_device_id c, con_epoch c) \<in> I)
     (apply_connection_update (ConnectionClose now))
     (update_rows (\<lambda>c. con_active c \<and> con_device_id c = d \<and> con_epoch c = e)
        (apply_connection_update (ConnectionClose now)) t)
   = update_rows (\<lambda>c. con_active c \<and> (con_device_id c, con_epoch c) \<in> insert (d, e) I)
       (apply_connection_update (ConnectionClose now)) t"
  by (induction t) auto

lemma close_connections_ext:
  "forE (close_connection cx now) ids (k, n) = Inr (k', m) \<Longrightarrow>
     ev_ext (update_connections (\<lambda>c. con_active c \<and> (con_device_id c, con_epoch c) \<in> set ids)
       (ConnectionClose now) k) k'"
proof (induction ids arbitrary: k n)
  case Nil
  then show ?case by (simp add: update_connections_def update_rows_none)
next
  case (Cons x ids)
  obtain d e where x: "x = (d, e)" by (cases x)
  from Cons.prems obtain k1 n1 where
    1: "close_connection cx now (d, e) (k, n) = Inr (k1, n1)"
    and 2: "forE (close_connection cx now) ids (k1, n1) = Inr (k', m)"
    by (auto simp: x bindE_Inr_iff)
  have "ev_ext (update_connections (\<lambda>c. con_active c \<and> (con_device_id c, con_epoch c) \<in> set ids)
      (ConnectionClose now)
      (update_connections (\<lambda>c. con_active c \<and> con_device_id c = d \<and> con_epoch c = e)
        (ConnectionClose now) k)) k'"
    using ev_ext_trans [OF ev_ext_updates(3) [OF close_connection_ext [OF 1]] Cons.IH [OF 2]] .
  then show ?case by (simp add: update_connections_def close_twice x)
qed

definition quiet :: "kernel \<Rightarrow> bool" where
  "quiet k =
     (list_all (\<lambda>a. \<not> in_flight a) (k_attempts k)
      \<and> list_all (\<lambda>s. \<not> leased_row s) (k_steps k)
      \<and> list_all (\<lambda>c. \<not> con_active c) (k_connections k))"

lemma restart_shape:
  assumes "reconcile_interrupted_state cx now k = Inr (k', r)"
  obtains k1 n where
    "reconcile_cancellation_deadlines_tx cx now
       (update_attempts (\<lambda>a. at_status a = ACancellationPending) (AttemptDeadline now) k) = Inr (k1, n)"
    "ev_ext (update_steps (\<lambda>s. leased_row s \<and> st_step_id s \<in> snd ` set (leased_steps k1 None)) StepRequeue
       (update_connections (\<lambda>c. con_active c \<and> (con_device_id c, con_epoch c) \<in> set (active_connections k1))
          (ConnectionClose now)
          (update_attempts (\<lambda>a. at_status a = ALeased) (AttemptClose AAbandoned now) k1))) k'"
    "rc_abandoned_attempts r = count_rows (\<lambda>a. at_status a = ALeased) (k_attempts k1) + n"
proof -
  from assms obtain k1 n k3 m q where
    1: "reconcile_cancellation_deadlines_tx cx now
       (update_attempts (\<lambda>a. at_status a = ACancellationPending) (AttemptDeadline now) k) = Inr (k1, n)"
    and 3: "forE (close_connection cx now) (active_connections k1)
        (update_attempts (\<lambda>a. at_status a = ALeased) (AttemptClose AAbandoned now) k1, 0) = Inr (k3, m)"
    and 4: "forE (requeue_step cx now) (leased_steps k1 None) (k3, 0) = Inr (k', q)"
    and r: "r = \<lparr>rc_disconnected_connections = m,
                rc_abandoned_attempts = count_rows (\<lambda>a. at_status a = ALeased) (k_attempts k1) + n,
                rc_requeued_steps = q\<rparr>"
    unfolding reconcile_interrupted_state_def Let_def bindE_Inr_iff split_paired_Ex prod.case
      requeue_steps_def by blast
  note ev_ext_trans [OF ev_ext_updates(1) [OF close_connections_ext [OF 3]] requeue_steps_ext [OF 4]]
  then show thesis by (rule that [OF 1]) (simp add: r)
qed

lemma reconcile_interrupted_quiet:
  assumes inv: "lease_inv k" and ok: "reconcile_interrupted_state cx now k = Inr (k', r)"
  shows "quiet k' \<and> lease_inv k' \<and> advance attempt_le k k'"
proof -
  let ?k0 = "update_attempts (\<lambda>a. at_status a = ACancellationPending) (AttemptDeadline now) k"
  let ?leased = "\<lambda>a. at_status a = ALeased"
  obtain k1 n where
    1: "reconcile_cancellation_deadlines_tx cx now ?k0 = Inr (k1, n)"
    and ext: "ev_ext (update_steps (\<lambda>s. leased_row s \<and> st_step_id s \<in> snd ` set (leased_steps k1 None)) StepRequeue
       (update_connections (\<lambda>c. con_active c \<and> (con_device_id c, con_epoch c) \<in> set (active_connections k1))
          (ConnectionClose now)
          (update_attempts ?leased (AttemptClose AAbandoned now) k1))) k'"
    (is "ev_ext (update_steps ?q _ (update_connections ?here _ ?k2)) _")
    by (rule restart_shape [OF ok]) blast
  have inv0: "lease_inv ?k0"
    using inv by (simp add: lease_inv_def) (rule tables_inv_attempts, auto simp: in_flight_def)
  have adv0: "advance attempt_le k ?k0"
    by (rule advance_attempts_le) (simp add: attempt_le_def attempt_static_def in_flight_def)
  have inv1: "lease_inv k1" using reconcile_cancellations_inv [OF inv0 1] by blast
  have in0: "b \<in> set (k_attempts ?k0)" if "b \<in> set (k_attempts k1)" "in_flight b" for b
    using closes_pending [OF reconcile_cancellations_advance [OF 1] _ that]
      reconcile_cancellations_inv [OF inv0 1] by blast
  have leased_only: "at_status b = ALeased" if b: "b \<in> set (k_attempts k1)" "in_flight b" for b
  proof (rule ccontr)
    assume "at_status b \<noteq> ALeased"
    with b(2) have p: "at_status b = ACancellationPending" by (simp add: in_flight_def)
    from in0 [OF b] obtain a where "b = (if at_status a = ACancellationPending
        then apply_attempt_update (AttemptDeadline now) a else a)"
      unfolding update_fields set_update_rows by (rule imageE) blast
    with p have "cancellation_overdue now b" by (auto simp: cancellation_overdue_def)
    with none_overdue [OF inv0 1 b(1)] show False by simp
  qed
  have steps: "snd ` set (leased_steps k1 None) = at_step_id ` {a \<in> set (k_attempts k1). at_status a = ALeased}"
    using leased_steps_ids [OF inv1, of None] by simp
  have closed: "tables_inv (k_connections k1) (update_rows ?q (apply_step_update StepRequeue) (k_steps k1))
      (update_rows ?leased (apply_attempt_update (AttemptClose AAbandoned now)) (k_attempts k1))"
  proof (rule tables_inv_close)
    show "tables_inv (k_connections k1) (k_steps k1) (k_attempts k1)"
      using inv1 by (simp add: lease_inv_def)
    show "\<And>s. s \<in> set (k_steps k1) \<Longrightarrow> ?q s \<longleftrightarrow> leased_row s
        \<and> (\<exists>a \<in> set (k_attempts k1). ?leased a \<and> at_step_id a = st_step_id s)"
      unfolding steps by force
  qed (simp_all add: in_flight_def leased_row_def)
  have attempts: "\<not> in_flight a" if "a \<in> set (k_attempts k')" for a
  proof
    assume fl: "in_flight a"
    from that obtain b where b: "b \<in> set (k_attempts k1)"
      "a = (if ?leased b then apply_attempt_update (AttemptClose AAbandoned now) b else b)"
      by (auto simp: ev_ext_fields(2) [OF ext] row_simps)
    with fl have "\<not> ?leased b" by (auto simp: in_flight_def)
    with b fl leased_only show False by auto
  qed
  have conns: "\<not> con_active c" if "c \<in> set (k_connections k')" for c
  proof
    assume act: "con_active c"
    from that obtain b where b: "b \<in> set (k_connections k1)"
      "c = (if ?here b then apply_connection_update (ConnectionClose now) b else b)"
      by (auto simp: ev_ext_fields(3) [OF ext] row_simps)
    with act have "con_active b" "\<not> ?here b" by (auto split: if_splits)
    with b(1) show False by (auto simp: active_connections_def)
  qed
  have inv': "lease_inv k'"
    unfolding lease_inv_def ev_ext_fields(1-3) [OF ext] update_fields
  proof (rule tables_inv_connections [OF closed])
    show "distinct (map con_device_id
        (update_rows ?here (apply_connection_update (ConnectionClose now)) (k_connections k1)))"
      using inv1 by (simp add: lease_inv_def tables_inv_def map_update_rows)
    fix a assume "a \<in> set (update_rows ?leased (apply_attempt_update (AttemptClose AAbandoned now)) (k_attempts k1))"
      and fl: "in_flight a"
    then have "a \<in> set (k_attempts k')" by (simp add: ev_ext_fields(2) [OF ext])
    with attempts fl show "served
        (update_rows ?here (apply_connection_update (ConnectionClose now)) (k_connections k1)) a" by blast
  qed
  have "\<not> leased_row s" if "s \<in> set (k_steps k')" for s
  proof
    assume "leased_row s"
    with that have "st_step_id s \<in> set (map st_step_id (filter leased_row (k_steps k')))" by simp
    then have "st_step_id s \<in> set (map at_step_id (filter in_flight (k_attempts k')))"
      using inv' unfolding lease_inv_def tables_inv_def by blast
    with attempts show False by auto
  qed
  then have "quiet k'" using attempts conns by (simp add: quiet_def list_all_iff)
  moreover have "advance closes k1 k'"
  proof -
    have "advance closes k1 ?k2" by (rule advance_attempts) (simp add: in_flight_def)
    moreover have "advance closes (update_connections ?here (ConnectionClose now) ?k2)
      (update_steps ?q StepRequeue (update_connections ?here (ConnectionClose now) ?k2))"
      by (rule advance_steps) (simp add: leased_row_def nonterminal_status_def)
    ultimately show ?thesis
      using advance_close_connections advance_ev [OF ext] by (blast intro: advance_trans_closes)
  qed
  ultimately show ?thesis
    using inv' adv0 reconcile_cancellations_advance [OF 1]
    by (blast intro: advance_trans_le advance_closes)
qed

end
