(* ===== verification/Kernel_Machine.thy ===== *)
theory Kernel_Machine
  imports Kernel_Restart
begin

text \<open>
  The master kernel as a machine: one constructor per public operation that writes the database,
  \<open>kernel_step\<close> runs it and keeps the old state when it fails, as the dropped transaction does. The
  whole invariant \<open>kernel_inv\<close> and the relation \<open>progress\<close> hold along every run from a migrated database
  (interpretations of \<open>invariant_machine\<close> and \<open>monotone_machine\<close>).
\<close>

section \<open>Operations\<close>

datatype kernel_op =
    OpRegister device_row
  | OpHandshake handshake_request nat
  | OpDisconnect uuid nat nat
  | OpRevoke uuid nat string
  | OpEnqueue new_step nat
  | OpLease uuid nat nat "remote_work_contract option" fresh_ids
  | OpResult "uuid option" job_result nat "remote_work_contract option" "artifact_reference option"
  | OpCancel uuid nat
  | OpNextCancellation uuid nat nat "remote_work_contract option"
  | OpAcknowledge uuid cancellation_acknowledgement nat "remote_work_contract option"
  | OpPause bool nat
  | OpExpireLeases nat
  | OpExpireCancellations nat
  | OpRestart nat
  | OpFinalizeArtifact uuid artifact_admission nat

definition state_of :: "master_error + kernel \<times> 'a \<Rightarrow> master_error + kernel" where
  "state_of m = bindE m (\<lambda>(k, _). Inr k)"

lemma state_of_Inr [result_simps]: "state_of m = Inr k \<longleftrightarrow> (\<exists>x. m = Inr (k, x))"
  by (auto simp: state_of_def bindE_Inr_iff)

fun run_op :: "codec \<Rightarrow> kernel_op \<Rightarrow> kernel \<Rightarrow> master_error + kernel" where
  "run_op cx (OpRegister d) k = register_device cx d k"
| "run_op cx (OpHandshake h now) k = state_of (accept_handshake cx h now k)"
| "run_op cx (OpDisconnect d e now) k = state_of (disconnect_device cx d e now k)"
| "run_op cx (OpRevoke d now reason) k = revoke_device_with_reason cx d now reason k"
| "run_op cx (OpEnqueue s now) k = enqueue_step cx s now k"
| "run_op cx (OpLease d e now contract ids) k =
     state_of (lease_next_step_bound cx d e now contract ids k)"
| "run_op cx (OpResult auth r now contract evidence) k =
     state_of (accept_result_bound cx auth r now contract evidence k)"
| "run_op cx (OpCancel i now) k = cancel_step cx i now k"
| "run_op cx (OpNextCancellation d e now contract) k =
     state_of (next_cancellation_bound cx d e now contract k)"
| "run_op cx (OpAcknowledge d ack now contract) k =
     state_of (accept_cancellation_ack_bound cx d ack now contract k)"
| "run_op cx (OpPause paused now) k = set_emergency_paused_at cx paused now k"
| "run_op cx (OpExpireLeases now) k = state_of (reconcile_expired_leases cx now k)"
| "run_op cx (OpExpireCancellations now) k = state_of (reconcile_cancellation_deadlines cx now k)"
| "run_op cx (OpRestart now) k = state_of (reconcile_interrupted_state cx now k)"
| "run_op cx (OpFinalizeArtifact d adm now) k =
     state_of (finalize_local_coding_result_artifact cx d adm now k)"

definition kernel_step :: "codec \<Rightarrow> kernel \<Rightarrow> kernel_op \<Rightarrow> kernel" where
  "kernel_step cx k op = (case run_op cx op k of Inl _ \<Rightarrow> k | Inr k' \<Rightarrow> k')"

definition kernel_run :: "codec \<Rightarrow> uuid \<Rightarrow> kernel_op list \<Rightarrow> kernel" where
  "kernel_run cx stream ops = run_ops (kernel_step cx) (new_kernel stream) ops"

section \<open>The whole invariant\<close>

definition connection_registered :: "device_row list \<Rightarrow> connection_row \<Rightarrow> bool" where
  "connection_registered ds c =
     exists_row (\<lambda>d. dev_device_id d = con_device_id c \<and> \<not> dev_revoked d) ds"

definition kernel_inv :: "kernel \<Rightarrow> bool" where
  "kernel_inv k =
     (lease_inv k
      \<and> list_all (\<lambda>c. con_epoch c \<le> k_next_connection_epoch k) (k_connections k)
      \<and> map er_sequence (k_events k) = [1..<Suc (k_next_sequence k)]
      \<and> distinct (map dev_device_id (k_devices k))
      \<and> length (k_devices k) \<le> MAX_ENROLLED_DEVICES
      \<and> list_all (connection_registered (k_devices k)) (filter con_active (k_connections k))
      \<and> open_steps (k_steps k) \<le> MAX_QUEUED_OR_LEASED_STEPS)"

definition progress :: "kernel \<Rightarrow> kernel \<Rightarrow> bool" where
  "progress k k' =
     (grows step_le (k_steps k) (k_steps k')
      \<and> grows attempt_le (k_attempts k) (k_attempts k')
      \<and> grows connection_le (k_connections k) (k_connections k')
      \<and> grows device_le (k_devices k) (k_devices k')
      \<and> k_next_connection_epoch k \<le> k_next_connection_epoch k'
      \<and> k_emergency_pause_revision k \<le> k_emergency_pause_revision k'
      \<and> conveyor_tables k' = conveyor_tables k
      \<and> orchestration_kept k k'
      \<and> log_ext k k')"

lemma progress_refl: "progress k k"
  by (simp add: progress_def steps.refl attempts.refl connections.refl devices.refl log_ext_same)

lemma progress_trans: "progress k l \<Longrightarrow> progress l m \<Longrightarrow> progress k m"
  unfolding progress_def
  by (intro conjI) (auto intro: steps.trans attempts.trans connections.trans devices.trans log_ext_trans orchestration_kept_trans)

lemma advance_progress: "advance attempt_le k k' \<Longrightarrow> progress k k'"
  by (simp add: advance_def progress_def grows_seq devices.refl)

lemma stream_numbered:
  assumes "log_ext k k'" "map er_sequence (k_events k) = [1..<Suc (k_next_sequence k)]"
  shows "map er_sequence (k_events k') = [1..<Suc (k_next_sequence k')]"
proof -
  let ?q = "k_next_sequence k"
  from assms(1) obtain es where k': "k_events k' = k_events k @ es" "k_next_sequence k' = ?q + length es"
    and es: "map er_sequence es = [Suc ?q..<Suc (?q + length es)]" unfolding log_ext_def by blast
  have "map er_sequence (k_events k') = [1..<Suc ?q] @ [Suc ?q..<Suc ?q + length es]"
    using assms(2) es by (simp add: k' del: upt_Suc)
  also have "\<dots> = [1..<Suc ?q + length es]" by (rule upt_add_eq_append [symmetric]) simp
  finally show ?thesis by (simp add: k')
qed

lemma advance_kernel_inv:
  assumes adv: "advance attempt_le k k'" and l: "lease_inv k'" and inv: "kernel_inv k"
  shows "kernel_inv k'"
proof -
  have pre: "\<exists>c \<in> set (k_connections k). seq_le c c'" if "c' \<in> set (k_connections k')" for c'
    using adv that unfolding advance_def by (intro grows_same_length) auto
  have "list_all (\<lambda>c. con_epoch c \<le> k_next_connection_epoch k') (k_connections k')"
    unfolding list_all_iff
  proof
    fix c' assume "c' \<in> set (k_connections k')"
    from pre [OF this] obtain c where "c \<in> set (k_connections k)" "seq_le c c'" by blast
    then show "con_epoch c' \<le> k_next_connection_epoch k'"
      using adv inv by (auto simp: advance_def kernel_inv_def list_all_iff seq_le_def)
  qed
  moreover have "list_all (connection_registered (k_devices k')) (filter con_active (k_connections k'))"
    unfolding list_all_iff
  proof
    fix c' assume c': "c' \<in> set (filter con_active (k_connections k'))"
    then have "c' \<in> set (k_connections k')" by simp
    from pre [OF this] obtain c where "c \<in> set (k_connections k)" "seq_le c c'" by blast
    then show "connection_registered (k_devices k') c'"
      using adv inv c'
      by (auto simp: advance_def kernel_inv_def list_all_iff seq_le_def connection_registered_def)
  qed
  ultimately show ?thesis
    using adv inv l stream_numbered [of k k'] by (auto simp: kernel_inv_def advance_def)
qed

section \<open>Registration, handshake and revocation\<close>

lemma register_device_Inr:
  assumes "register_device cx d k = Inr k'"
  shows "k' = k\<lparr>k_devices := insert_row (d\<lparr>dev_revoked := False\<rparr>) (k_devices k)\<rparr>
    \<and> length (k_devices k) < MAX_ENROLLED_DEVICES
    \<and> dev_device_id d \<notin> set (map dev_device_id (k_devices k))"
  using assms by (auto simp: register_device_def bindE_Inr_iff reject_if_Inr_iff exists_row_iff not_le)

lemma register_device_ok:
  assumes inv: "kernel_inv k" and ok: "register_device cx d k = Inr k'"
  shows "kernel_inv k' \<and> progress k k'"
proof
  note r = register_device_Inr [OF ok]
  have "list_all (connection_registered (insert_row (d\<lparr>dev_revoked := False\<rparr>) (k_devices k)))
      (filter con_active (k_connections k))"
    using inv unfolding kernel_inv_def list_all_iff connection_registered_def exists_row_iff
      set_insert_row by blast
  then show "kernel_inv k'"
    using r inv by (auto simp: kernel_inv_def lease_inv_def insert_row_def)
  show "progress k k'"
    using r by (simp add: progress_def steps.refl attempts.refl connections.refl devices.insert log_ext_same)
qed

lemma upsert_fields [simp]:
  "k_steps (upsert_connection d e now k) = k_steps k"
  "k_attempts (upsert_connection d e now k) = k_attempts k"
  "k_devices (upsert_connection d e now k) = k_devices k"
  "k_next_connection_epoch (upsert_connection d e now k) = k_next_connection_epoch k"
  "k_events (upsert_connection d e now k) = k_events k"
  "k_next_sequence (upsert_connection d e now k) = k_next_sequence k"
  "k_stream_id (upsert_connection d e now k) = k_stream_id k"
  "k_emergency_pause_revision (upsert_connection d e now k) = k_emergency_pause_revision k"
  "conveyor_tables (upsert_connection d e now k) = conveyor_tables k"
  "k_orchestration (upsert_connection d e now k) = k_orchestration k"
  "k_checkpoints (upsert_connection d e now k) = k_checkpoints k"
  "k_orchestration_activated (upsert_connection d e now k) = k_orchestration_activated k"
  by (simp_all add: upsert_connection_def update_connections_def)

lemma upsert_connection_set:
  assumes "c' \<in> set (k_connections (upsert_connection d e now k))"
  shows "(con_device_id c' = d \<and> con_epoch c' = e)
    \<or> (c' \<in> set (k_connections k) \<and> con_device_id c' \<noteq> d)"
  using assms by (auto simp: upsert_connection_def row_simps split: if_splits)

lemma upsert_connection_grows:
  assumes "\<And>c. c \<in> set (k_connections k) \<Longrightarrow> con_epoch c < e"
  shows "grows connection_le (k_connections k) (k_connections (upsert_connection d e now k))"
proof (cases "exists_row (\<lambda>c. con_device_id c = d) (k_connections k)")
  case True
  have "grows connection_le (k_connections k)
      (update_rows (\<lambda>c. con_device_id c = d) (apply_connection_update (ConnectionReopen e now)) (k_connections k))"
    by (rule connections.update) (use assms in \<open>simp add: connection_le_def\<close>)
  with True show ?thesis by (simp add: upsert_connection_def)
next
  case False
  then show ?thesis by (simp add: upsert_connection_def connections.insert)
qed

lemma accept_handshake_ok:
  assumes inv: "kernel_inv k" and ok: "accept_handshake cx h now k = Inr (k', r)"
  shows "kernel_inv k' \<and> progress k k'"
proof -
  have l: "lease_inv k'" using accept_handshake_inv [OF _ ok] inv by (simp add: kernel_inv_def)
  from accept_handshake_cases [OF ok] show ?thesis
  proof (elim disjE exE conjE)
    assume "k' = k" then show ?thesis using inv progress_refl by simp
  next
    fix d assume d: "find_row (\<lambda>d. dev_device_id d = hs_device_id h) (k_devices k) = Some d" "\<not> dev_revoked d"
      and oc: "open_connection cx (hs_device_id h) (dev_registry_revision d) now k = Inr (k', r)"
    let ?e = "Suc (k_next_connection_epoch k)"
    let ?k1 = "upsert_connection (hs_device_id h) ?e now (k\<lparr>k_next_connection_epoch := ?e\<rparr>)"
    have ext: "ev_ext ?k1 k'" using open_connection_Inr [OF oc] by blast
    have up: "con_device_id c = hs_device_id h \<and> con_epoch c = ?e
        \<or> c \<in> set (k_connections k) \<and> con_device_id c \<noteq> hs_device_id h"
      if "c \<in> set (k_connections k')" for c
      using upsert_connection_set [of c "hs_device_id h" ?e now "k\<lparr>k_next_connection_epoch := ?e\<rparr>"] that
      by (simp add: ev_ext_fields(3) [OF ext])
    have epochs: "con_epoch c \<le> k_next_connection_epoch k" if "c \<in> set (k_connections k)" for c
      using inv that by (simp add: kernel_inv_def list_all_iff)
    have "list_all (\<lambda>c. con_epoch c \<le> ?e) (k_connections k')"
      using up epochs by (fastforce simp: list_all_iff)
    moreover have "list_all (connection_registered (k_devices k)) (filter con_active (k_connections k'))"
      unfolding list_all_iff
    proof
      fix c assume c: "c \<in> set (filter con_active (k_connections k'))"
      then have "c \<in> set (k_connections k')" by simp
      from up [OF this] show "connection_registered (k_devices k) c"
      proof
        assume "con_device_id c = hs_device_id h \<and> con_epoch c = ?e"
        then show ?thesis
          using find_row_Some [OF d(1)] d(2) by (auto simp: connection_registered_def exists_row_iff)
      next
        assume "c \<in> set (k_connections k) \<and> con_device_id c \<noteq> hs_device_id h"
        then show ?thesis using inv c by (simp add: kernel_inv_def list_all_iff)
      qed
    qed
    moreover have log: "log_ext k k'"
      using log_ext_trans [OF log_ext_same log_ext_ev [OF ext], of k] by simp
    ultimately have "kernel_inv k'"
      using inv l stream_numbered [OF log] by (simp add: kernel_inv_def ev_ext_fields [OF ext])
    moreover have "grows connection_le (k_connections k) (k_connections k')"
      using upsert_connection_grows [of "k\<lparr>k_next_connection_epoch := ?e\<rparr>" ?e "hs_device_id h" now] epochs
      by (simp add: ev_ext_fields [OF ext] le_imp_less_Suc)
    then have "progress k k'"
      using log orchestration_kept_trans [OF orchestration_kept_same orchestration_kept_ev [OF ext], of k]
      by (simp add: progress_def ev_ext_fields [OF ext] steps.refl attempts.refl devices.refl)
    ultimately show ?thesis by blast
  qed
qed

definition revoked :: "uuid \<Rightarrow> nat \<Rightarrow> string \<Rightarrow> kernel \<Rightarrow> kernel" where
  "revoked d now reason k =
     revoke_certificates d now reason (k\<lparr>k_devices := update_rows (\<lambda>r. dev_device_id r = d)
       (\<lambda>r. r\<lparr>dev_revoked := True\<rparr>) (k_devices k)\<rparr>)"

lemma revoked_fields [simp]:
  "k_devices (revoked d now reason k) = update_rows (\<lambda>r. dev_device_id r = d)
     (\<lambda>r. r\<lparr>dev_revoked := True\<rparr>) (k_devices k)"
  "k_steps (revoked d now reason k) = k_steps k"
  "k_attempts (revoked d now reason k) = k_attempts k"
  "k_connections (revoked d now reason k) = k_connections k"
  "k_next_connection_epoch (revoked d now reason k) = k_next_connection_epoch k"
  "k_events (revoked d now reason k) = k_events k"
  "k_next_sequence (revoked d now reason k) = k_next_sequence k"
  "k_stream_id (revoked d now reason k) = k_stream_id k"
  "k_emergency_pause_revision (revoked d now reason k) = k_emergency_pause_revision k"
  "conveyor_tables (revoked d now reason k) = conveyor_tables k"
  "k_orchestration (revoked d now reason k) = k_orchestration k"
  "k_checkpoints (revoked d now reason k) = k_checkpoints k"
  "k_orchestration_activated (revoked d now reason k) = k_orchestration_activated k"
  by (simp_all add: revoked_def revoke_certificates_def)

text \<open>A revoked device is disconnected in the same transaction.\<close>

lemma revoke_device_Inr:
  assumes "lease_inv k" "revoke_device_with_reason cx d now reason k = Inr k'"
  shows "advance closes (revoked d now reason k) k'
    \<and> (\<forall>c \<in> set (k_connections k'). con_device_id c = d \<longrightarrow> \<not> con_active c)
    \<and> (\<exists>r \<in> set (k_devices k). dev_device_id r = d)"
proof -
  from assms(2) have
    1: "(case active_connection_epoch (revoked d now reason k) d of
        None \<Rightarrow> Inr (revoked d now reason k)
      | Some epoch \<Rightarrow>
          bindE (disconnect_device_tx cx d epoch now (revoked d now reason k)) (\<lambda>(k3, _). Inr k3)) = Inr k'"
    and 2: "\<not> count_rows (\<lambda>r. dev_device_id r = d) (k_devices k) = 0"
    unfolding revoke_device_with_reason_def Let_def bindE_Inr_iff reject_if_Inr_iff revoked_def by blast+
  have reg: "\<exists>r \<in> set (k_devices k). dev_device_id r = d" using 2 by (simp add: count_rows_0)
  show ?thesis
  proof (cases "active_connection_epoch (revoked d now reason k) d")
    case None
    with 1 have "k' = revoked d now reason k" by simp
    with None reg show ?thesis
      by (auto simp: active_connection_epoch_def find_row_None advance_refl)
  next
    case (Some e)
    with 1 obtain r where r: "disconnect_device_tx cx d e now (revoked d now reason k) = Inr (k', r)"
      by (auto simp: bindE_Inr_iff)
    have "distinct (map con_device_id (k_connections (revoked d now reason k)))"
      using assms(1) by (simp add: lease_inv_def tables_inv_def)
    with disconnect_advance [OF r] disconnect_inactive [OF _ r] reg show ?thesis by blast
  qed
qed

lemma revoke_device_ok:
  assumes inv: "kernel_inv k" and ok: "revoke_device_with_reason cx d now reason k = Inr k'"
  shows "kernel_inv k' \<and> progress k k'"
proof -
  let ?r = "revoked d now reason k"
  have li: "lease_inv k" using inv by (simp add: kernel_inv_def)
  have l: "lease_inv k'" by (rule revoke_device_inv [OF li ok])
  note v = revoke_device_Inr [OF li ok]
  have adv: "advance attempt_le ?r k'" using v advance_closes by blast
  have devs: "k_devices k' = update_rows (\<lambda>r. dev_device_id r = d) (\<lambda>r. r\<lparr>dev_revoked := True\<rparr>) (k_devices k)"
    using adv by (simp add: advance_def)
  have pre: "\<exists>c \<in> set (k_connections k). seq_le c c'" if "c' \<in> set (k_connections k')" for c'
    using adv that unfolding advance_def by (intro grows_same_length) auto
  have "list_all (connection_registered (k_devices k')) (filter con_active (k_connections k'))"
    unfolding list_all_iff
  proof
    fix c' assume c': "c' \<in> set (filter con_active (k_connections k'))"
    then have mem: "c' \<in> set (k_connections k')" "con_active c'" by simp_all
    from pre [OF mem(1)] obtain c where c: "c \<in> set (k_connections k)" "seq_le c c'" by blast
    then have "connection_registered (k_devices k) c"
      using inv mem(2) by (auto simp: kernel_inv_def list_all_iff seq_le_def)
    then obtain q where q: "q \<in> set (k_devices k)" "dev_device_id q = con_device_id c'" "\<not> dev_revoked q"
      using c(2) by (auto simp: connection_registered_def exists_row_iff seq_le_def)
    have "dev_device_id q \<noteq> d" using v mem q(2) by auto
    then have "q \<in> set (k_devices k')"
      unfolding devs set_update_rows using q(1) by (intro image_eqI [of _ _ q]) simp_all
    with q show "connection_registered (k_devices k') c'"
      by (auto simp: connection_registered_def exists_row_iff)
  qed
  moreover have "list_all (\<lambda>c. con_epoch c \<le> k_next_connection_epoch k') (k_connections k')"
    unfolding list_all_iff
  proof
    fix c' assume "c' \<in> set (k_connections k')"
    from pre [OF this] obtain c where "c \<in> set (k_connections k)" "seq_le c c'" by blast
    then show "con_epoch c' \<le> k_next_connection_epoch k'"
      using adv inv by (auto simp: advance_def kernel_inv_def list_all_iff seq_le_def)
  qed
  moreover have log: "log_ext k k'"
    using adv log_ext_trans [OF log_ext_same, of ?r k k'] by (simp add: advance_def)
  moreover have "map dev_device_id (k_devices k') = map dev_device_id (k_devices k)"
    unfolding devs by (rule map_update_rows) simp
  ultimately have "kernel_inv k'"
    using inv l adv stream_numbered [OF log] by (auto simp: kernel_inv_def advance_def dest: map_eq_imp_length_eq)
  moreover have "grows device_le (k_devices k) (k_devices k')"
    unfolding devs by (rule devices.update) (simp add: device_le_def)
  then have "progress k k'"
    using adv log orchestration_kept_trans [OF orchestration_kept_same, of ?r k k']
    by (simp add: progress_def advance_def grows_seq)
  ultimately show ?thesis by blast
qed

section \<open>Runs\<close>

lemma advance_ok:
  assumes "kernel_inv k" "lease_inv k'" "advance attempt_le k k'"
  shows "kernel_inv k' \<and> progress k k'"
  using assms advance_kernel_inv advance_progress by blast

lemma run_op_ok:
  assumes inv: "kernel_inv k" and ok: "run_op cx op k = Inr k'"
  shows "kernel_inv k' \<and> progress k k'"
proof -
  have l: "lease_inv k" using inv by (simp add: kernel_inv_def)
  show ?thesis
  proof (cases op)
    case (OpRegister d)
    with ok register_device_ok [OF inv] show ?thesis by simp
  next
    case (OpHandshake h now)
    with ok accept_handshake_ok [OF inv] show ?thesis by (auto simp: state_of_Inr)
  next
    case (OpDisconnect d e now)
    with ok obtain r where r: "disconnect_device_tx cx d e now k = Inr (k', r)"
      by (auto simp: state_of_Inr disconnect_device_def)
    show ?thesis
      using advance_ok [OF inv] disconnect_inv [OF l r] disconnect_advance [OF r] advance_closes by blast
  next
    case (OpRevoke d now reason)
    with ok revoke_device_ok [OF inv] show ?thesis by simp
  next
    case (OpEnqueue s now)
    with ok have r: "enqueue_step cx s now k = Inr k'" by simp
    show ?thesis
      using advance_ok [OF inv] enqueue_step_inv [OF l r] enqueue_step_advance [OF r] advance_closes by blast
  next
    case (OpLease d e now contract ids)
    with ok obtain j where r: "lease_next_step_bound cx d e now contract ids k = Inr (k', j)"
      by (auto simp: state_of_Inr)
    show ?thesis
      using advance_ok [OF inv] lease_next_step_inv [OF l r] lease_next_step_advance [OF l r] advance_closes by blast
  next
    case (OpResult auth r now contract evidence)
    with ok obtain x where r: "accept_result_bound cx auth r now contract evidence k = Inr (k', x)"
      by (auto simp: state_of_Inr)
    show ?thesis
      using advance_ok [OF inv] accept_result_inv [OF l r] accept_result_advance [OF l r] advance_closes by blast
  next
    case (OpCancel i now)
    with ok have r: "cancel_step cx i now k = Inr k'" by simp
    show ?thesis
      using advance_ok [OF inv] cancel_step_inv [OF l r] cancel_step_advance [OF l r] by blast
  next
    case (OpNextCancellation d e now contract)
    with ok obtain x where r: "next_cancellation_bound cx d e now contract k = Inr (k', x)"
      by (auto simp: state_of_Inr)
    show ?thesis using advance_ok [OF inv] next_cancellation_inv [OF l r] advance_closes by blast
  next
    case (OpAcknowledge d ack now contract)
    with ok obtain x where r: "accept_cancellation_ack_bound cx d ack now contract k = Inr (k', x)"
      by (auto simp: state_of_Inr)
    show ?thesis
      using advance_ok [OF inv] accept_ack_inv [OF l r] accept_ack_advance [OF l r] advance_closes by blast
  next
    case (OpPause paused now)
    with ok have r: "set_emergency_paused_at cx paused now k = Inr k'" by simp
    show ?thesis
      using advance_ok [OF inv] set_emergency_paused_ok [OF l r] by (simp add: pause_ok_def)
  next
    case (OpExpireLeases now)
    with ok obtain r where r: "reconcile_expired_leases_tx cx now k = Inr (k', r)"
      by (auto simp: state_of_Inr reconcile_expired_leases_def)
    show ?thesis
      using advance_ok [OF inv] reconcile_expired_leases_inv [OF l r] reconcile_expired_leases_advance [OF r]
        advance_closes by blast
  next
    case (OpExpireCancellations now)
    with ok obtain r where r: "reconcile_cancellation_deadlines_tx cx now k = Inr (k', r)"
      by (auto simp: state_of_Inr reconcile_cancellation_deadlines_def)
    show ?thesis
      using advance_ok [OF inv] reconcile_cancellations_inv [OF l r] reconcile_cancellations_advance [OF r]
        advance_closes by blast
  next
    case (OpRestart now)
    with ok obtain r where r: "reconcile_interrupted_state cx now k = Inr (k', r)"
      by (auto simp: state_of_Inr)
    show ?thesis using advance_ok [OF inv] reconcile_interrupted_quiet [OF l r] by blast
  next
    case (OpFinalizeArtifact d adm now)
    with ok obtain r where r: "finalize_local_coding_result_artifact cx d adm now k = Inr (k', r)"
      by (auto simp: state_of_Inr)
    show ?thesis
      using advance_ok [OF inv] same_work_ok [OF finalize_same_work [OF r] l] by (simp add: pause_ok_def)
  qed
qed

lemma kernel_inv_new: "kernel_inv (new_kernel stream)"
  by (simp add: kernel_inv_def new_kernel_def lease_inv_def tables_inv_def open_steps_def)

interpretation kernel: invariant_machine "\<lambda>k. \<exists>stream. k = new_kernel stream" "kernel_step cx" kernel_inv for cx
  by unfold_locales
    (auto simp: kernel_inv_new kernel_step_def dest: run_op_ok split: sum.splits)

definition keeps_progress :: "kernel \<Rightarrow> kernel \<Rightarrow> bool" where
  "keeps_progress k k' = (kernel_inv k \<longrightarrow> kernel_inv k' \<and> progress k k')"

interpretation kernel_log: monotone_machine "kernel_step cx" keeps_progress for cx
  by unfold_locales
    (auto simp: keeps_progress_def kernel_step_def progress_refl
      intro: progress_trans dest: run_op_ok split: sum.splits)

lemma kernel_run_inv: "kernel_inv (kernel_run cx stream ops)"
  unfolding kernel_run_def by (rule kernel.run_inv) blast

lemma kernel_run_append: "kernel_run cx stream (ops @ later) = run_ops (kernel_step cx) (kernel_run cx stream ops) later"
  by (simp add: kernel_run_def run_ops_append)

lemma kernel_run_progress: "progress (kernel_run cx stream ops) (kernel_run cx stream (ops @ later))"
  using kernel_log.run_rel [of "kernel_run cx stream ops" cx later] kernel_run_inv
  by (simp add: kernel_run_append keeps_progress_def)

end
