(* ===== verification/Kernel_Sample.thy ===== *)
theory Kernel_Sample
  imports Kernel_Machine
begin

text \<open>
  A short run of the kernel that the examples of the properties start from: device 1 is registered and
  connects, step 21 is queued and leased as attempt 31.
\<close>

definition sample_device :: device_row where
  "sample_device =
     \<lparr>dev_device_id = 1, dev_name = ''mac'', dev_role = InferenceWorker, dev_registry_revision = 1,
      dev_capabilities = [fixture_reasoning], dev_revoked = False\<rparr>"

definition sample_handshake :: handshake_request where
  "sample_handshake =
     \<lparr>hs_protocol_version = 5, hs_device_id = 1, hs_device_name = ''mac'', hs_role = InferenceWorker,
      hs_registry_revision = 1, hs_capabilities = [fixture_reasoning]\<rparr>"

definition sample_step :: new_step where
  "sample_step =
     \<lparr>ns_task_id = 20, ns_step_id = 21, ns_capability_id = FIXTURE_REASONING_CAPABILITY_ID,
      ns_sensitivity = PublicData, ns_context = JObject [], ns_lease_duration_ms = 1000,
      ns_deadline_after_ms = 5000\<rparr>"

definition sample_ids :: fresh_ids where
  "sample_ids = \<lparr>fi_attempt_id = 31, fi_lease_id = 32, fi_cancellation_id = 33\<rparr>"

definition sample_kernel :: kernel where
  "sample_kernel =
     (new_kernel 7)\<lparr>k_devices := [sample_device], k_next_connection_epoch := 1,
        k_connections := [\<lparr>con_device_id = 1, con_epoch = 1, con_active = True, con_last_sequence = 0,
          con_connected_at_ms = 100, con_disconnected_at_ms = None\<rparr>],
        k_steps := [queued_row sample_codec sample_step 110],
        k_next_sequence := 2,
        k_events :=
          [\<lparr>er_sequence = 1, er_occurred_at_ms = 100, er_kind = DeviceConnected, er_task_id = None,
            er_step_id = None, er_device_id = Some 1, er_connection_epoch = Some 1\<rparr>,
           \<lparr>er_sequence = 2, er_occurred_at_ms = 110, er_kind = StepQueued, er_task_id = Some 20,
            er_step_id = Some 21, er_device_id = None, er_connection_epoch = None\<rparr>]\<rparr>"

definition sample_job :: job_envelope where
  "sample_job = lease_job (queued_row sample_codec sample_step 110) fixture_reasoning 1 1 sample_ids"

definition sample_leased :: kernel where
  "sample_leased =
     sample_kernel\<lparr>
        k_connections := [\<lparr>con_device_id = 1, con_epoch = 1, con_active = True, con_last_sequence = 1,
          con_connected_at_ms = 100, con_disconnected_at_ms = None\<rparr>],
        k_steps := [(queued_row sample_codec sample_step 110)\<lparr>st_status := SLeased\<rparr>],
        k_attempts := [leased_attempt sample_job 1 120 1120],
        k_next_sequence := 3,
        k_events := k_events sample_kernel @
          [\<lparr>er_sequence = 3, er_occurred_at_ms = 120, er_kind = StepLeased, er_task_id = Some 20,
            er_step_id = Some 21, er_device_id = Some 1, er_connection_epoch = Some 1\<rparr>]\<rparr>"

lemma sample_codec_fields [simp]:
  "wire_bytes sample_codec w = []" "json_bytes sample_codec v = []" "sha256 sample_codec [] = 1"
  by (simp_all add: sample_codec_def)

lemma sample_device_fields [simp]:
  "dev_device_id sample_device = 1" "dev_name sample_device = ''mac''"
  "dev_role sample_device = InferenceWorker" "dev_registry_revision sample_device = 1"
  "dev_capabilities sample_device = [fixture_reasoning]" "\<not> dev_revoked sample_device"
  by (simp_all add: sample_device_def)

lemma sample_handshake_fields [simp]:
  "hs_protocol_version sample_handshake = 5" "hs_device_id sample_handshake = 1"
  "hs_device_name sample_handshake = ''mac''" "hs_role sample_handshake = InferenceWorker"
  "hs_registry_revision sample_handshake = 1" "hs_capabilities sample_handshake = [fixture_reasoning]"
  by (simp_all add: sample_handshake_def)

lemma fixture_fields [simp]:
  "cap_id fixture_reasoning = FIXTURE_REASONING_CAPABILITY_ID"
  "cap_model fixture_reasoning = FIXTURE_REASONING_MODEL"
  "cap_max_context_bytes fixture_reasoning = 8192" "cap_max_result_bytes fixture_reasoning = 8192"
  by (simp_all add: fixture_reasoning_def MAX_FIXTURE_CONTEXT_BYTES_def MAX_FIXTURE_RESULT_BYTES_def)

lemma fixture_not_coding [simp]: "FIXTURE_REASONING_CAPABILITY_ID \<noteq> LOCAL_CODING_CAPABILITY_ID"
  by (simp add: FIXTURE_REASONING_CAPABILITY_ID_def LOCAL_CODING_CAPABILITY_ID_def)

lemmas limit_defs = MAX_ENROLLED_DEVICES_def MAX_QUEUED_OR_LEASED_STEPS_def MAX_CONCURRENT_JOBS_def
  i64_max_def u64_max_def MAX_LEASE_DURATION_MS_def MAX_STEP_DEADLINE_MS_def
  MAX_JOB_CONTEXT_BYTES_def MAX_JOB_RESULT_BYTES_def MAX_CAPABILITY_ID_BYTES_def
  MAX_WIRE_FRAME_BYTES_def CANCELLATION_ACK_DEADLINE_MS_def

lemma sample_texts:
  "validate_identifier ''capability.id'' FIXTURE_REASONING_CAPABILITY_ID 64 = Inr ()"
  "validate_identifier ''capability_id'' FIXTURE_REASONING_CAPABILITY_ID 64 = Inr ()"
  "validate_identifier ''capability.provider'' FIXTURE_REASONING_PROVIDER 64 = Inr ()"
  "validate_text ''capability.model'' FIXTURE_REASONING_MODEL 128 = Inr ()"
  "validate_text ''device_name'' ''mac'' 128 = Inr ()"
  by code_simp+

lemmas sample_literals = sample_texts [unfolded FIXTURE_REASONING_CAPABILITY_ID_def
  FIXTURE_REASONING_PROVIDER_def FIXTURE_REASONING_MODEL_def]

lemma validate_fixture_capability: "validate_capability fixture_reasoning = Inr ()"
  by (simp add: validate_capability_def fixture_reasoning_def sample_literals
      FIXTURE_REASONING_PROVIDER_def FIXTURE_REASONING_MODEL_def MAX_CAPABILITY_ID_BYTES_def
      MAX_PROVIDER_NAME_BYTES_def MAX_MODEL_NAME_BYTES_def validate_positive_limit_def limit_defs
      MAX_FIXTURE_CONTEXT_BYTES_def MAX_FIXTURE_RESULT_BYTES_def FIXTURE_REASONING_CAPABILITY_ID_def
      MLX_REASONING_CAPABILITY_ID_def LOCAL_CODING_CAPABILITY_ID_def)


lemma append_event_sample:
  assumes "k_next_sequence k < i64_max" "k_stream_id k \<noteq> 0" "0 < now" "now \<le> i64_max"
    and "\<not> (ei_task_id i = Some 0 \<or> ei_step_id i = Some 0 \<or> ei_device_id i = Some 0
        \<or> ei_connection_epoch i = Some 0)"
    and "case ei_connection_epoch i of None \<Rightarrow> True | Some e \<Rightarrow> e \<le> i64_max"
    and "identity_matches \<lparr>ev_protocol_version = PROTOCOL_VERSION,
        ev_cursor = \<lparr>cur_stream_id = k_stream_id k, cur_sequence = Suc (k_next_sequence k)\<rparr>,
        ev_occurred_at_ms = now, ev_kind = kind, ev_task_id = ei_task_id i, ev_step_id = ei_step_id i,
        ev_device_id = ei_device_id i, ev_connection_epoch = ei_connection_epoch i\<rparr>"
    and "\<not> exists_row (\<lambda>r. er_sequence r = Suc (k_next_sequence k)) (k_events k)"
  shows "append_event sample_codec kind now i k
    = Inr (k\<lparr>k_next_sequence := Suc (k_next_sequence k),
        k_events := k_events k @ [\<lparr>er_sequence = Suc (k_next_sequence k), er_occurred_at_ms = now,
          er_kind = kind, er_task_id = ei_task_id i, er_step_id = ei_step_id i,
          er_device_id = ei_device_id i, er_connection_epoch = ei_connection_epoch i\<rparr>]\<rparr>)"
proof -
  have now: "now \<le> u64_max" using assms(4) by (simp add: u64_max_def i64_max_def)
  show ?thesis
    using assms now
    by (simp add: append_event_def bindE_Inr_iff checked_add_i64_def validate_event_def
        validate_cursor_def validate_version_def PROTOCOL_VERSION_def validate_positive_limit_def
        reject_if_def protocol_result_def to_i64_def validate_wire_limit_def
        validate_serialized_limit_def insert_row_def
        split: option.splits)
qed

lemma sample_handshake_valid: "validate_handshake sample_codec sample_handshake = Inr ()"
  by (simp add: validate_handshake_def validate_version_def PROTOCOL_VERSION_def
      validate_uuid_def sample_texts MAX_DEVICE_NAME_BYTES_def validate_capabilities_def
      check_capability_def validate_fixture_capability validate_wire_limit_def
      validate_serialized_limit_def MAX_CAPABILITIES_PER_DEVICE_def)

lemma sample_register:
  "register_device sample_codec sample_device (new_kernel 7) = Inr ((new_kernel 7)\<lparr>k_devices := [sample_device]\<rparr>)"
proof -
  have "\<lparr>hs_protocol_version = PROTOCOL_VERSION, hs_device_id = dev_device_id sample_device,
      hs_device_name = dev_name sample_device, hs_role = dev_role sample_device,
      hs_registry_revision = dev_registry_revision sample_device,
      hs_capabilities = dev_capabilities sample_device\<rparr> = sample_handshake"
    by (simp add: sample_device_def sample_handshake_def PROTOCOL_VERSION_def)
  then show ?thesis
    unfolding register_device_def
    by (simp add: sample_handshake_valid protocol_result_def to_i64_def limit_defs insert_row_def
        exists_row_def new_kernel_def)
qed

lemma sample_handshake_accepted:
  "accept_handshake sample_codec sample_handshake 100 ((new_kernel 7)\<lparr>k_devices := [sample_device]\<rparr>)
    = Inr (sample_kernel\<lparr>k_steps := [], k_next_sequence := 1, k_events := [hd (k_events sample_kernel)]\<rparr>,
        \<lparr>hr_protocol_version = 5, hr_status = HsAccepted, hr_connection_epoch = 1,
         hr_accepted_registry_revision = 1, hr_reason_code = None\<rparr>)"
proof -
  let ?k = "(new_kernel 7)\<lparr>k_devices := [sample_device]\<rparr>"
  let ?c = "\<lparr>con_device_id = 1, con_epoch = 1, con_active = True, con_last_sequence = 0,
    con_connected_at_ms = 100, con_disconnected_at_ms = None\<rparr>"
  have "append_event sample_codec DeviceConnected 100 (device_identity 1 1)
      (?k\<lparr>k_next_connection_epoch := 1, k_connections := [?c]\<rparr>)
    = Inr (sample_kernel\<lparr>k_steps := [], k_next_sequence := 1, k_events := [hd (k_events sample_kernel)]\<rparr>)"
    by (subst append_event_sample)
      (simp_all add: new_kernel_def device_identity_def sample_kernel_def identity_matches_def i64_max_def
        exists_row_def)
  then show ?thesis
    by (simp add: accept_handshake_def sample_handshake_valid protocol_result_def capabilities_match_def
        active_connection_epoch_def open_connection_def checked_add_i64_def to_i64_def i64_max_def
        upsert_connection_def exists_row_def insert_row_def new_kernel_def PROTOCOL_VERSION_def
        validate_handshake_response_def validate_version_def validate_wire_limit_def
        validate_serialized_limit_def)
qed

lemma sample_enqueued:
  "enqueue_step sample_codec sample_step 110
      (sample_kernel\<lparr>k_steps := [], k_next_sequence := 1, k_events := [hd (k_events sample_kernel)]\<rparr>)
    = Inr sample_kernel"
proof -
  have "validate_new_step sample_codec sample_step = Inr ()"
    using sample_literals(1)
    by (simp add: validate_new_step_def sample_step_def FIXTURE_REASONING_CAPABILITY_ID_def
        LOCAL_CODING_CAPABILITY_ID_def limit_defs validate_object_def
        validate_identifier_Inr)
  moreover have "append_event sample_codec StepQueued 110 (step_identity 20 21)
      (sample_kernel\<lparr>k_next_sequence := 1, k_events := [hd (k_events sample_kernel)]\<rparr>) = Inr sample_kernel"
    by (subst append_event_sample)
      (simp_all add: new_kernel_def step_identity_def sample_kernel_def identity_matches_def i64_max_def
        exists_row_def)
  ultimately show ?thesis
    by (simp add: enqueue_step_def exists_row_def count_rows_def limit_defs to_i64_def insert_row_def
        sample_step_def sample_kernel_def new_kernel_def)
qed

lemma sample_job_valid: "validate_job sample_codec sample_job = Inr ()"
  using sample_texts 
  by (simp add: validate_job_Inr sample_job_def lease_job_def queued_row_def sample_step_def sample_ids_def
      limit_defs PROTOCOL_VERSION_def FIXTURE_REASONING_MODEL_def)

lemma sample_kernel_fields [simp]:
  "k_emergency_paused sample_kernel = 0" "k_attempts sample_kernel = []"
  "k_devices sample_kernel = [sample_device]" "k_stream_id sample_kernel = 7"
  "k_connections sample_kernel = [\<lparr>con_device_id = 1, con_epoch = 1, con_active = True,
     con_last_sequence = 0, con_connected_at_ms = 100, con_disconnected_at_ms = None\<rparr>]"
  "k_steps sample_kernel = [queued_row sample_codec sample_step 110]"
  "k_next_sequence sample_kernel = 2"
  by (simp_all add: sample_kernel_def new_kernel_def)

lemma sample_lease:
  "lease_next_step_bound sample_codec 1 1 120 None sample_ids sample_kernel = Inr (sample_leased, sample_job)"
proof -
  have rec: "reconcile_expired_leases_tx sample_codec 120 sample_kernel
      = Inr (sample_kernel, \<lparr>lr_expired_attempts = 0, lr_requeued_steps = 0\<rparr>)"
    by (simp add: reconcile_expired_leases_tx_def to_i64_def i64_max_def sample_kernel_def new_kernel_def
        attempts_with_task_def update_attempts_def count_rows_def)
  have sel: "select_step sample_codec sample_kernel 1 None [fixture_reasoning] (load_queued_steps sample_kernel)
      = Inr (Some (queued_row sample_codec sample_step 110, fixture_reasoning))"
    by (simp add: load_queued_steps_def sample_kernel_def new_kernel_def queued_row_def
        sample_step_def)
  have ev: "append_event sample_codec StepLeased 120 (attempt_identity 20 21 1 1)
      (sample_leased\<lparr>k_next_sequence := 2, k_events := k_events sample_kernel\<rparr>) = Inr sample_leased"
    by (subst append_event_sample)
      (simp_all add: new_kernel_def attempt_identity_def sample_leased_def sample_kernel_def
        identity_matches_def i64_max_def exists_row_def)
  have commit: "commit_lease sample_codec (queued_row sample_codec sample_step 110) sample_job 1 120 1120
      sample_kernel = Inr sample_leased"
    using ev
    by (simp add: commit_lease_def to_i64_def i64_max_def exists_row_def count_rows_def insert_row_def
        sample_leased_def sample_kernel_def new_kernel_def sample_job_def lease_job_def queued_row_def
        sample_step_def sample_ids_def update_steps_def update_connections_def)
  show ?thesis
    using commit sample_job_valid rec sel
    by (simp add: lease_next_step_bound_def require_emergency_unpaused_def emergency_paused_tx_def
        connection_state_def registered_capabilities_def to_i64_def limit_defs checked_add_u64_def
        protocol_result_def sample_job_def queued_row_def sample_step_def)
qed


lemma sample_leased_fields [simp]:
  "k_emergency_paused sample_leased = 0" "k_attempts sample_leased = [leased_attempt sample_job 1 120 1120]"
  "k_devices sample_leased = [sample_device]" "k_stream_id sample_leased = 7"
  "k_connections sample_leased = [\<lparr>con_device_id = 1, con_epoch = 1, con_active = True,
     con_last_sequence = 1, con_connected_at_ms = 100, con_disconnected_at_ms = None\<rparr>]"
  "k_steps sample_leased = [(queued_row sample_codec sample_step 110)\<lparr>st_status := SLeased\<rparr>]"
  "k_next_sequence sample_leased = 3"
  "\<not> exists_row (\<lambda>r. er_sequence r = 4) (k_events sample_leased)"
  by (simp_all add: sample_leased_def sample_kernel_def new_kernel_def exists_row_def)

definition sample_ops :: "kernel_op list" where
  "sample_ops = [OpRegister sample_device, OpHandshake sample_handshake 100, OpEnqueue sample_step 110,
     OpLease 1 1 120 None sample_ids]"

lemma sample_run: "kernel_run sample_codec 7 sample_ops = sample_leased"
  by (simp add: kernel_run_def sample_ops_def kernel_step_def sample_register sample_handshake_accepted
      sample_enqueued sample_lease state_of_def del: One_nat_def)

section \<open>A result for the sample job\<close>

definition sample_result :: job_result where
  "sample_result =
     \<lparr>res_protocol_version = 5, res_connection_epoch = 1, res_sequence = 2, res_task_id = 20,
      res_step_id = 21, res_attempt_id = 31, res_lease_id = 32, res_cancellation_id = 33,
      res_status = ResCompleted, res_context_sha256 = 1, res_payload_sha256 = 1,
      res_payload = JObject []\<rparr>"

lemma sample_job_fields [simp]:
  "job_attempt_id sample_job = 31" "job_step_id sample_job = 21" "job_task_id sample_job = 20"
  "job_lease_id sample_job = 32" "job_cancellation_id sample_job = 33"
  "job_protocol_version sample_job = 5" "job_connection_epoch sample_job = 1" "job_sequence sample_job = 1"
  "job_capability_id sample_job = FIXTURE_REASONING_CAPABILITY_ID" "job_context_sha256 sample_job = 1"
  by (simp_all add: sample_job_def lease_job_def queued_row_def sample_step_def sample_ids_def
      PROTOCOL_VERSION_def)

lemma sample_attempt_fields [simp]:
  "at_device_id (leased_attempt sample_job d now expires) = d"
  "at_job (leased_attempt sample_job d now expires) = sample_job"
  "at_status (leased_attempt sample_job d now expires) = ALeased"
  "at_lease_expires_at_ms (leased_attempt sample_job d now expires) = expires"
  "at_attempt_id (leased_attempt sample_job d now expires) = 31"
  "at_step_id (leased_attempt sample_job d now expires) = 21"
  "at_epoch (leased_attempt sample_job d now expires) = 1"
  by (simp_all add: leased_attempt_def)

lemma sample_result_checked:
  "validate_result sample_codec sample_result = Inr ()"
  "result_for_job sample_codec sample_result sample_job = Inr ()"
proof -
  show v: "validate_result sample_codec sample_result = Inr ()"
    by (simp add: validate_result_def sample_result_def validator_defs PROTOCOL_VERSION_def
        validate_object_def validate_wire_limit_def)
  show "result_for_job sample_codec sample_result sample_job = Inr ()"
    using sample_job_valid v by (simp add: result_for_job_def) (simp add: sample_result_def)
qed

definition sample_done :: kernel where
  "sample_done =
     (recorded (leased_attempt sample_job 1 120 1120) sample_result 130 sample_leased)
       \<lparr>k_next_sequence := 4,
        k_events := k_events sample_leased @
          [\<lparr>er_sequence = 4, er_occurred_at_ms = 130, er_kind = StepSucceeded, er_task_id = Some 20,
            er_step_id = Some 21, er_device_id = Some 1, er_connection_epoch = Some 1\<rparr>]\<rparr>"

lemma sample_accepted:
  "accept_result_bound sample_codec (Some 1) sample_result 130 None None sample_leased
    = Inr (sample_done, Inr \<lparr>ac_task_id = 20, ac_step_id = 21, ac_status = SSucceeded, ac_payload_sha256 = 1\<rparr>)"
proof -
  let ?a = "leased_attempt sample_job 1 120 1120"
  have ev: "append_event sample_codec StepSucceeded 130 (attempt_identity 20 21 1 1)
      (recorded ?a sample_result 130 sample_leased) = Inr sample_done"
    by (subst append_event_sample)
      (simp_all add: attempt_identity_def sample_done_def identity_matches_def i64_max_def recorded_def
        update_connections_def update_steps_def update_attempts_def)
  have rec: "record_result sample_codec ?a sample_result 130 sample_leased
    = Inr (sample_done, \<lparr>ac_task_id = 20, ac_step_id = 21, ac_status = SSucceeded, ac_payload_sha256 = 1\<rparr>)"
    using ev
    by (simp add: record_result_def connection_state_def capability_for_device_def
        registered_capabilities_def step_status_tx_def find_step_def queued_row_def sample_step_def
        to_i64_def i64_max_def result_event_def recorded_def result_statuses_def sample_result_def)
  have load: "load_attempt sample_leased 31 = Some ?a"
    by (simp add: load_attempt_def)
  show ?thesis
    using rec load sample_result_checked
    by (simp add: accept_result_bound_def protocol_result_def require_emergency_unpaused_def
        emergency_paused_tx_def check_result_contract_def sample_result_def)
qed


text \<open>The event log of the sample: short, on stream 7.\<close>

definition log_ok :: "nat \<Rightarrow> kernel \<Rightarrow> bool" where
  "log_ok n k = (k_stream_id k = 7 \<and> k_next_sequence k = n
     \<and> list_all (\<lambda>r. er_sequence r \<le> n) (k_events k))"

definition logged :: "event_kind \<Rightarrow> nat \<Rightarrow> event_identity \<Rightarrow> kernel \<Rightarrow> kernel" where
  "logged kind now i k =
     k\<lparr>k_next_sequence := Suc (k_next_sequence k),
       k_events := k_events k @ [\<lparr>er_sequence = Suc (k_next_sequence k), er_occurred_at_ms = now,
         er_kind = kind, er_task_id = ei_task_id i, er_step_id = ei_step_id i,
         er_device_id = ei_device_id i, er_connection_epoch = ei_connection_epoch i\<rparr>]\<rparr>"

lemma logged_fields [simp]:
  "k_steps (logged kind now i k) = k_steps k" "k_attempts (logged kind now i k) = k_attempts k"
  "k_connections (logged kind now i k) = k_connections k" "k_devices (logged kind now i k) = k_devices k"
  "k_emergency_paused (logged kind now i k) = k_emergency_paused k"
  by (simp_all add: logged_def)

lemma log_ok_steps [simp]:
  "log_ok n (update_steps p u k) = log_ok n k"
  "log_ok n (update_attempts q v k) = log_ok n k"
  "log_ok n (update_connections r w k) = log_ok n k"
  "log_ok 3 k \<Longrightarrow> log_ok 4 (logged kind now i k)"
  "log_ok 4 k \<Longrightarrow> log_ok 5 (logged kind now i k)"
  "log_ok 5 k \<Longrightarrow> log_ok 6 (logged kind now i k)"
  by (auto simp: log_ok_def update_steps_def update_attempts_def update_connections_def logged_def list_all_iff)

lemma log_ok_fresh: "log_ok n k \<Longrightarrow> \<not> exists_row (\<lambda>r. er_sequence r = Suc (k_next_sequence k)) (k_events k)"
  by (auto simp: log_ok_def exists_row_iff list_all_iff)

lemma append_device_event:
  assumes "log_ok n k" "n < 1000" "0 < now" "now < 100000" "d \<noteq> 0" "0 < e" "e < 1000"
    and "kind = DeviceConnected \<or> kind = DeviceDisconnected"
  shows "append_event sample_codec kind now (device_identity d e) k = Inr (logged kind now (device_identity d e) k)"
  unfolding logged_def
  by (rule append_event_sample)
    (use assms log_ok_fresh [OF assms(1)] in
      \<open>auto simp: log_ok_def i64_max_def device_identity_def identity_matches_def\<close>)

lemma append_step_event:
  assumes "log_ok n k" "n < 1000" "0 < now" "now < 100000" "t \<noteq> 0" "i \<noteq> 0"
    and "kind = StepQueued \<or> kind = StepCancelled"
  shows "append_event sample_codec kind now (step_identity t i) k = Inr (logged kind now (step_identity t i) k)"
  unfolding logged_def
  by (rule append_event_sample)
    (use assms log_ok_fresh [OF assms(1)] in
      \<open>auto simp: log_ok_def i64_max_def step_identity_def identity_matches_def\<close>)

lemma append_attempt_event:
  assumes "log_ok n k" "n < 1000" "0 < now" "now < 100000" "t \<noteq> 0" "i \<noteq> 0" "d \<noteq> 0" "0 < e" "e < 1000"
    and "kind \<notin> {StepQueued, StepCancelled, DeviceConnected, DeviceDisconnected}"
  shows "append_event sample_codec kind now (attempt_identity t i d e) k
    = Inr (logged kind now (attempt_identity t i d e) k)"
  unfolding logged_def
  by (rule append_event_sample)
    (use assms log_ok_fresh [OF assms(1)] in
      \<open>auto simp: log_ok_def i64_max_def attempt_identity_def identity_matches_def split: event_kind.splits\<close>)

lemmas append_sample = append_device_event append_step_event append_attempt_event

lemma sample_log:
  "log_ok 2 sample_kernel" "log_ok 3 sample_leased"
  by (simp_all add: log_ok_def sample_leased_def sample_kernel_def new_kernel_def)

end
