(* ===== verification/Kernel_Properties.thy ===== *)
theory Kernel_Properties
  imports Kernel_Sample
begin

text \<open>
  What the master kernel guarantees on every run of its operations, and what each operation that
  succeeds has checked and written.
\<close>

section \<open>Every run\<close>

lemma kernel_run_parts:
  "lease_inv (kernel_run cx stream ops)"
  "map er_sequence (k_events (kernel_run cx stream ops)) = [1..<Suc (k_next_sequence (kernel_run cx stream ops))]"
  "list_all (connection_registered (k_devices (kernel_run cx stream ops)))
     (filter con_active (k_connections (kernel_run cx stream ops)))"
  "open_steps (k_steps (kernel_run cx stream ops)) \<le> MAX_QUEUED_OR_LEASED_STEPS"
  "length (k_devices (kernel_run cx stream ops)) \<le> MAX_ENROLLED_DEVICES"
  "distinct (map dev_device_id (k_devices (kernel_run cx stream ops)))"
  using kernel_run_inv [of cx stream ops] by (simp_all add: kernel_inv_def)

text \<open>
  C1. After any sequence of operations, succeeding or failing: at most four attempts are in flight,
  on four different devices and for four different steps; the steps in state leased are exactly the
  steps of those attempts; and each such attempt runs on its device's active connection, at the epoch
  it was leased at.
\<close>

theorem work_is_exclusive:
  "let k = kernel_run cx stream ops; busy = filter in_flight (k_attempts k) in
     length busy \<le> 4 \<and> distinct (map at_step_id busy) \<and> distinct (map at_device_id busy)
     \<and> set (map at_step_id busy) = set (map st_step_id (filter leased_row (k_steps k)))
     \<and> list_all (served (k_connections k)) busy"
  using kernel_run_parts(1) [of cx stream ops]
  by (auto simp: Let_def lease_inv_def tables_inv_def count_rows_def MAX_CONCURRENT_JOBS_def list_all_iff)

text \<open>
  C24. Whatever happens later, a step that succeeded, failed or was cancelled keeps its status, payload
  and digest, an attempt that left flight keeps its row, a pending cancellation never becomes leased
  again, and no row's identity changes.
\<close>

theorem outcomes_are_final:
  "let k = kernel_run cx stream ops; k' = kernel_run cx stream (ops @ later) in
     grows step_le (k_steps k) (k_steps k') \<and> grows attempt_le (k_attempts k) (k_attempts k')"
  using kernel_run_progress [of cx stream ops later] by (simp add: Let_def progress_def)

text \<open>
  C38. The event log is append-only and its events are numbered 1, 2, 3, .. without a gap up to the
  stored sequence, so a reader that resumes after a cursor misses nothing.
\<close>

theorem event_log_is_gapless:
  "let k = kernel_run cx stream ops; k' = kernel_run cx stream (ops @ later) in
     map er_sequence (k_events k) = [1..<Suc (k_next_sequence k)]
     \<and> take (length (k_events k)) (k_events k') = k_events k
     \<and> k_stream_id k' = k_stream_id k"
  using kernel_run_progress [of cx stream ops later] kernel_run_parts(2) [of cx stream ops]
  by (auto simp: Let_def progress_def log_ext_def)

text \<open>
  Connection epochs and sequences: a device's connection never goes back to an earlier epoch, and
  within an epoch its accepted sequence never decreases and a closed connection is never active again.
\<close>

theorem connections_move_forward:
  "let k = kernel_run cx stream ops; k' = kernel_run cx stream (ops @ later) in
     grows connection_le (k_connections k) (k_connections k')
     \<and> k_next_connection_epoch k \<le> k_next_connection_epoch k'"
  using kernel_run_progress [of cx stream ops later] by (simp add: Let_def progress_def)

text \<open>
  C25. A revoked device has no active connection, so no attempt in flight: every active connection, and
  every device that runs an attempt, belongs to a registered device that is not revoked.
\<close>

theorem revoked_devices_run_nothing:
  "let k = kernel_run cx stream ops;
       enabled = (\<lambda>i. exists_row (\<lambda>d. dev_device_id d = i \<and> \<not> dev_revoked d) (k_devices k)) in
     list_all enabled (map con_device_id (filter con_active (k_connections k)))
     \<and> list_all enabled (map at_device_id (filter in_flight (k_attempts k)))"
proof -
  let ?k = "kernel_run cx stream ops"
  have conns: "\<exists>d \<in> set (k_devices ?k). dev_device_id d = con_device_id c \<and> \<not> dev_revoked d"
    if "c \<in> set (k_connections ?k)" "con_active c" for c
    using kernel_run_parts(3) [of cx stream ops] that
    by (auto simp: list_all_iff connection_registered_def exists_row_iff)
  moreover have "\<exists>c \<in> set (k_connections ?k). con_device_id c = at_device_id a \<and> con_active c"
    if "a \<in> set (k_attempts ?k)" "in_flight a" for a
    using kernel_run_parts(1) [of cx stream ops] that
    by (auto simp: lease_inv_def tables_inv_def list_all_iff served_iff)
  ultimately show ?thesis
    unfolding Let_def list_all_iff exists_row_iff by fastforce
qed

text \<open>
  The bounds of the store: at most 256 steps are queued or leased, at most 16 devices are enrolled,
  and no two devices share an identifier.
\<close>

theorem store_is_bounded:
  "let k = kernel_run cx stream ops in
     count_rows (\<lambda>s. nonterminal_status (st_status s)) (k_steps k) \<le> 256
     \<and> length (k_devices k) \<le> 16 \<and> distinct (map dev_device_id (k_devices k))"
  using kernel_run_parts(4-6) [of cx stream ops]
  by (simp add: Let_def open_steps_def MAX_QUEUED_OR_LEASED_STEPS_def MAX_ENROLLED_DEVICES_def)

section \<open>Results\<close>

text \<open>
  C2. An accepted result comes from the device and the connection epoch of a live lease, names the
  leased job in every identifier, arrives before the lease expires with a sequence above the
  connection's, and then does exactly this: it closes that attempt, finishes that step with the
  payload, and moves the connection's sequence.
\<close>

theorem accepted_result_effect:
  assumes "accept_result_bound cx auth r now contract evidence k = Inr (k', Inr x)"
  shows "\<exists>a c. load_attempt k (res_attempt_id r) = Some a \<and> at_status a = ALeased
      \<and> now < at_lease_expires_at_ms a \<and> k_emergency_paused k = 0
      \<and> (auth = None \<or> auth = Some (at_device_id a))
      \<and> result_identity r = job_identity (at_job a) \<and> job_sequence (at_job a) < res_sequence r
      \<and> connection_state k (at_device_id a) = Inr c \<and> cs_active c
      \<and> cs_epoch c = res_connection_epoch r \<and> cs_last_sequence c < res_sequence r
      \<and> k_attempts k' = update_rows (\<lambda>b. at_attempt_id b = res_attempt_id r \<and> at_status b = ALeased)
          (\<lambda>b. b\<lparr>at_status := fst (result_statuses (res_status r)), at_completed_at_ms := Some now,
                 at_result_sequence := Some (res_sequence r),
                 at_payload_sha256 := Some (res_payload_sha256 r)\<rparr>) (k_attempts k)
      \<and> k_steps k' = update_rows (\<lambda>s. st_step_id s = res_step_id r \<and> st_status s = SLeased)
          (\<lambda>s. s\<lparr>st_status := snd (result_statuses (res_status r)),
                 st_accepted_payload := Some (res_payload r),
                 st_accepted_payload_sha256 := Some (res_payload_sha256 r),
                 st_completed_at_ms := Some now\<rparr>) (k_steps k)
      \<and> k_connections k' = update_rows (\<lambda>q. con_device_id q = at_device_id a
            \<and> con_epoch q = res_connection_epoch r \<and> con_active q)
          (\<lambda>q. q\<lparr>con_last_sequence := res_sequence r\<rparr>) (k_connections k)
      \<and> x = \<lparr>ac_task_id = res_task_id r, ac_step_id = res_step_id r,
            ac_status = snd (result_statuses (res_status r)), ac_payload_sha256 = res_payload_sha256 r\<rparr>"
proof -
  obtain a where a: "k_emergency_paused k = 0" "load_attempt k (res_attempt_id r) = Some a"
      "at_status a = ALeased" "auth \<noteq> None \<longrightarrow> auth = Some (at_device_id a)"
      "result_for_job cx r (at_job a) = Inr ()"
    and out: "(at_lease_expires_at_ms a \<le> now \<and> Inr x = (Inl LeaseExpired :: master_error + accepted_result)
        \<and> expire_late_result cx a r now k = Inr k')
      \<or> (now < at_lease_expires_at_ms a \<and> (\<exists>y. Inr x = (Inr y :: master_error + accepted_result)
        \<and> record_result cx a r now k = Inr (k', y)))"
    by (rule accept_result_bound_Inr [OF assms]) blast
  from out have live: "now < at_lease_expires_at_ms a" and rec: "record_result cx a r now k = Inr (k', x)"
    by auto
  obtain c where ext: "ev_ext (recorded a r now k) k'" and c: "connection_state k (at_device_id a) = Inr c"
      "cs_active c" "cs_epoch c = res_connection_epoch r" "cs_last_sequence c < res_sequence r"
    and x: "x = \<lparr>ac_task_id = res_task_id r, ac_step_id = res_step_id r,
      ac_status = snd (result_statuses (res_status r)), ac_payload_sha256 = res_payload_sha256 r\<rparr>"
    by (rule record_result_Inr [OF rec]) blast
  show ?thesis
    by (rule exI [of _ a], rule exI [of _ c])
      (use a live c x result_for_job_Inr [OF a(5)] in
        \<open>simp add: ev_ext_fields [OF ext] recorded_def update_rows_def cong: if_cong, blast?\<close>)
qed

theorem accepted_result_effect_witness:
  "\<exists>a c. load_attempt sample_leased 31 = Some a \<and> connection_state sample_leased (at_device_id a) = Inr c
     \<and> cs_last_sequence c < 2 \<and> 130 < at_lease_expires_at_ms a"
  using accepted_result_effect [OF sample_accepted] by (auto simp: sample_result_def)

text \<open>An attempt that left flight is found unchanged in every later state.\<close>

lemma closed_attempt_stays:
  assumes "kernel_inv k" "kernel_inv k'" "progress k k'" "load_attempt k i = Some a" "\<not> in_flight a"
  shows "load_attempt k' i = Some a"
proof -
  have a: "a \<in> set (k_attempts k)" "at_attempt_id a = i" using load_attempt_Some [OF assms(4)] by auto
  have "grows attempt_le (k_attempts k) (k_attempts k')" using assms(3) by (simp add: progress_def)
  from grows_row [OF this a(1)] obtain b where "b \<in> set (k_attempts k')" "attempt_le a b" by blast
  with assms(5) have "a \<in> set (k_attempts k')" by (simp add: attempt_le_def)
  moreover have "distinct (map at_attempt_id (k_attempts k'))"
    using assms(2) by (simp add: kernel_inv_def lease_inv_def tables_inv_def)
  ultimately show ?thesis using a(2) find_row_key unfolding load_attempt_def by metis
qed

lemma kernel_run_snoc:
  "run_op cx op (kernel_run cx stream ops) = Inr k' \<Longrightarrow> kernel_run cx stream (ops @ [op]) = k'"
  by (simp add: kernel_run_append kernel_step_def)

lemma closed_attempt_never_accepts:
  assumes "kernel_inv k" "kernel_inv k'" "progress k k'" "load_attempt k (res_attempt_id r) = Some a"
    "\<not> in_flight a"
  shows "\<not> is_ok (accept_result_bound cx auth r now contract evidence k')"
proof
  assume "is_ok (accept_result_bound cx auth r now contract evidence k')"
  then obtain k2 out where ok: "accept_result_bound cx auth r now contract evidence k' = Inr (k2, out)"
    by (cases "accept_result_bound cx auth r now contract evidence k'") (auto simp: is_ok_def)
  obtain b where "load_attempt k' (res_attempt_id r) = Some b" "at_status b = ALeased"
    by (rule accept_result_bound_Inr [OF ok]) blast
  with closed_attempt_stays [OF assms] assms(5) show False by (simp add: in_flight_def)
qed

text \<open>
  C18. A result is accepted at most once: after a result for an attempt was accepted, no operation
  sequence makes the kernel accept, or even expire, another result for that attempt, from any device,
  at any time and under any contract.
\<close>

theorem result_accepted_at_most_once:
  assumes ok: "accept_result_bound cx auth r now contract evidence (kernel_run cx stream ops) = Inr (k', Inr x)"
    and same: "res_attempt_id r2 = res_attempt_id r"
  shows "\<not> is_ok (accept_result_bound cx auth2 r2 now2 contract2 evidence2
    (run_ops (kernel_step cx) k' later))"
proof -
  let ?k = "kernel_run cx stream ops" and ?op = "OpResult auth r now contract evidence"
  have k': "kernel_run cx stream (ops @ [?op]) = k'"
    by (rule kernel_run_snoc) (simp add: ok state_of_def)
  obtain a where a: "load_attempt ?k (res_attempt_id r) = Some a" "at_status a = ALeased"
    "result_for_job cx r (at_job a) = Inr ()"
    and "record_result cx a r now ?k = Inr (k', x)"
    by (rule accept_result_bound_Inr [OF ok]) auto
  then obtain c where ext: "ev_ext (recorded a r now ?k) k'" by (auto elim: record_result_Inr)
  let ?b = "apply_attempt_update (AttemptResult (fst (result_statuses (res_status r))) now
      (res_sequence r) (res_payload_sha256 r)) a"
  have mem: "a \<in> set (k_attempts ?k)" "at_attempt_id a = res_attempt_id r"
    using load_attempt_Some [OF a(1)] by auto
  have "?b \<in> set (k_attempts k')"
    unfolding ev_ext_fields(2) [OF ext] recorded_def update_fields set_update_rows
    using mem a(2) by (intro image_eqI [of _ _ a]) simp_all
  moreover have inv': "kernel_inv k'" using kernel_run_inv [of cx stream "ops @ [?op]"] k' by simp
  then have "distinct (map at_attempt_id (k_attempts k'))"
    by (simp add: kernel_inv_def lease_inv_def tables_inv_def)
  ultimately have "load_attempt k' (res_attempt_id r2) = Some ?b"
    unfolding load_attempt_def using find_row_key [of at_attempt_id "k_attempts k'" ?b] mem(2) same by simp
  moreover have "\<not> in_flight ?b" using result_statuses_closed by (simp add: in_flight_def)
  moreover have "kernel_inv (run_ops (kernel_step cx) k' later) \<and> progress k' (run_ops (kernel_step cx) k' later)"
    using kernel_log.run_rel [of k' cx later] inv' by (simp add: keeps_progress_def)
  ultimately show ?thesis using closed_attempt_never_accepts inv' by blast
qed

theorem result_accepted_at_most_once_witness:
  "\<not> is_ok (accept_result_bound sample_codec None sample_result 140 None None
    (run_ops (kernel_step sample_codec) sample_done [OpExpireLeases 5000, OpRestart 6000]))"
  using result_accepted_at_most_once [of sample_codec "Some 1" sample_result 130 None None 7 sample_ops
      sample_done _ sample_result None 140 None None "[OpExpireLeases 5000, OpRestart 6000]"]
    sample_accepted by (simp add: sample_run)

text \<open>An event can be appended when its numbers and identifiers are in range and the codec keeps it small.\<close>

lemma append_event_succeeds:
  assumes "k_next_sequence k < i64_max" "k_stream_id k \<noteq> 0" "0 < now" "now \<le> i64_max"
    and "\<not> (ei_task_id i = Some 0 \<or> ei_step_id i = Some 0 \<or> ei_device_id i = Some 0 \<or> ei_connection_epoch i = Some 0)"
    and "case ei_connection_epoch i of None \<Rightarrow> True | Some e \<Rightarrow> e \<le> i64_max"
    and "\<And>v. identity_matches \<lparr>ev_protocol_version = PROTOCOL_VERSION, ev_cursor = v, ev_occurred_at_ms = now,
        ev_kind = kind, ev_task_id = ei_task_id i, ev_step_id = ei_step_id i,
        ev_device_id = ei_device_id i, ev_connection_epoch = ei_connection_epoch i\<rparr>"
    and log: "map er_sequence (k_events k) = [1..<Suc (k_next_sequence k)]"
    and small: "\<And>e. length (wire_bytes cx (WEvent e)) \<le> MAX_DISTRIBUTED_EVENT_BATCH_BYTES"
  shows "\<exists>k'. append_event cx kind now i k = Inr k' \<and> k_next_sequence k' = Suc (k_next_sequence k)
    \<and> map er_sequence (k_events k') = [1..<Suc (k_next_sequence k')] \<and> k_stream_id k' = k_stream_id k"
proof -
  have now: "now \<le> u64_max" using assms(4) by (simp add: u64_max_def i64_max_def)
  have "\<not> exists_row (\<lambda>r. er_sequence r = Suc (k_next_sequence k)) (k_events k)"
  proof
    assume "exists_row (\<lambda>r. er_sequence r = Suc (k_next_sequence k)) (k_events k)"
    then have "Suc (k_next_sequence k) \<in> set (map er_sequence (k_events k))" by (force simp: exists_row_iff)
    then show False unfolding log by simp
  qed
  moreover have "(MAX_DISTRIBUTED_EVENT_BATCH_BYTES < length (wire_bytes cx (WEvent e))) = False" for e
    using small [of e] by simp
  ultimately show ?thesis
    using assms(1-8) now
    by (auto simp del: upt_Suc simp: upt_Suc_append append_event_def bindE_Inr_iff checked_add_i64_def validate_event_def
        validate_cursor_def validate_version_def validate_positive_limit_def
        reject_if_def protocol_result_def to_i64_def validate_wire_limit_def
        validate_serialized_limit_def insert_row_def
        split: option.splits)
qed

text \<open>The checks that precede the one of the time.\<close>

definition passes_checks ::
    "codec \<Rightarrow> uuid option \<Rightarrow> job_result \<Rightarrow> remote_work_contract option \<Rightarrow> artifact_reference option
      \<Rightarrow> attempt_row \<Rightarrow> kernel \<Rightarrow> bool" where
  "passes_checks cx auth r contract evidence a k =
     (validate_result cx r = Inr () \<and> k_emergency_paused k = 0
      \<and> load_attempt k (res_attempt_id r) = Some a \<and> at_status a = ALeased
      \<and> (auth = None \<or> auth = Some (at_device_id a)) \<and> check_result_contract cx k a r contract = Inr ()
      \<and> (if job_capability_id (at_job a) = LOCAL_CODING_CAPABILITY_ID
         then check_coding_result cx k a r evidence else Inr ()) = Inr ())"

lemma checked_result:
  assumes "passes_checks cx auth r contract evidence a k"
  shows "accept_result_bound cx auth r now contract evidence k =
    (if at_lease_expires_at_ms a \<le> now
     then bindE (expire_late_result cx a r now k) (\<lambda>k'. Inr (k', Inl LeaseExpired))
     else bindE (record_result cx a r now k) (\<lambda>(k', accepted). Inr (k', Inr accepted)))"
  using assms
  by (auto simp: passes_checks_def accept_result_bound_def protocol_result_def require_emergency_unpaused_def
      emergency_paused_tx_def ok_or_def reject_if_def split: option.splits)

lemma expire_late_result_succeeds:
  assumes inv: "kernel_inv k" and checks: "passes_checks cx auth r contract evidence a k"
    and small: "\<And>e. length (wire_bytes cx (WEvent e)) \<le> MAX_DISTRIBUTED_EVENT_BATCH_BYTES"
    and log: "k_stream_id k \<noteq> 0" "k_next_sequence k + 2 \<le> i64_max"
    and fits: "0 < now" "now \<le> i64_max" "at_device_id a \<noteq> 0" "0 < at_epoch a" "at_epoch a \<le> i64_max"
  shows "\<exists>k'. expire_late_result cx a r now k = Inr k'"
proof -
  have a: "a \<in> set (k_attempts k)" "in_flight a"
    using checks by (auto simp: passes_checks_def load_attempt_def in_flight_def dest: find_row_Some)
  have job: "job_row a" using inv a(1) by (simp add: kernel_inv_def lease_inv_def tables_inv_def list_all_iff)
  have "result_for_job cx r (at_job a) = Inr ()"
    using checks check_result_contract_Inr unfolding passes_checks_def by blast
  then have ids: "res_task_id r \<noteq> 0" "res_step_id r \<noteq> 0" "res_connection_epoch r = at_epoch a"
    using job by (auto simp: result_for_job_def validate_result_def bindE_Inr_iff reject_if_Inr_iff validate_uuid_def
        job_row_def)
  let ?k1 = "update_attempts (\<lambda>b. at_attempt_id b = res_attempt_id r \<and> at_status b = ALeased)
      (AttemptClose AExpired now) k"
  have k1: "k_next_sequence ?k1 = k_next_sequence k" "k_stream_id ?k1 = k_stream_id k"
    "map er_sequence (k_events ?k1) = [1..<Suc (k_next_sequence k)]"
    using inv by (simp_all add: update_attempts_def kernel_inv_def del: upt_Suc)
  have "\<exists>k2. append_event cx StepLeaseExpired now (attempt_identity (res_task_id r) (res_step_id r) (at_device_id a)
        (res_connection_epoch r)) ?k1 = Inr k2 \<and> k_next_sequence k2 = Suc (k_next_sequence ?k1)
      \<and> map er_sequence (k_events k2) = [1..<Suc (k_next_sequence k2)] \<and> k_stream_id k2 = k_stream_id ?k1"
    by (rule append_event_succeeds) (use k1 log fits ids small in
        \<open>simp_all add: attempt_identity_def identity_matches_def del: upt_Suc\<close>)
  then obtain k2 where k2: "append_event cx StepLeaseExpired now (attempt_identity (res_task_id r) (res_step_id r)
        (at_device_id a) (res_connection_epoch r)) ?k1 = Inr k2" "k_next_sequence k2 = Suc (k_next_sequence k)"
      "map er_sequence (k_events k2) = [1..<Suc (k_next_sequence k2)]" "k_stream_id k2 = k_stream_id k"
    using k1 by auto
  let ?k3 = "update_steps (\<lambda>s. st_step_id s = res_step_id r \<and> st_status s = SLeased) StepRequeue k2"
  have k3: "k_next_sequence ?k3 = k_next_sequence k2" "k_stream_id ?k3 = k_stream_id k2" "k_events ?k3 = k_events k2"
    by (simp_all add: update_steps_def)
  have "\<exists>k4. append_event cx StepQueued now (step_identity (res_task_id r) (res_step_id r)) ?k3 = Inr k4
      \<and> k_next_sequence k4 = Suc (k_next_sequence ?k3)
      \<and> map er_sequence (k_events k4) = [1..<Suc (k_next_sequence k4)] \<and> k_stream_id k4 = k_stream_id ?k3"
    by (rule append_event_succeeds) (use k2 k3 log fits ids small in
        \<open>simp_all add: step_identity_def identity_matches_def del: upt_Suc\<close>)
  then show ?thesis using k2(1) fits(2)
    by (auto simp: expire_late_result_def requeue_step_def Let_def to_i64_def)
qed

lemma find_step_requeued:
  "find_row (\<lambda>s. st_step_id s = i) (update_rows (\<lambda>s. leased_row s \<and> st_step_id s = i) (\<lambda>s. s\<lparr>st_status := SQueued\<rparr>) ss)
     = map_option (\<lambda>s. if leased_row s then s\<lparr>st_status := SQueued\<rparr> else s) (find_row (\<lambda>s. st_step_id s = i) ss)"
  by (induction ss) (auto simp: find_row_def)

text \<open>
  C31. A result that arrives at or after the lease's expiry and passes every other check is refused with
  \<^verbatim>\<open>LeaseExpired\<close>, never recorded, and the refusal is committed: the attempt becomes expired, its step, and no
  other, is back in the queue, so another device can take it, and the connections are untouched. (The
  events of the refusal must fit: small enough for the codec, with identifiers and times in range.)
\<close>

theorem late_result_requeues_the_step:
  assumes inv: "kernel_inv k" and checks: "passes_checks cx auth r contract evidence a k"
    and late: "at_lease_expires_at_ms a \<le> now"
    and small: "\<forall>e. length (wire_bytes cx (WEvent e)) \<le> MAX_DISTRIBUTED_EVENT_BATCH_BYTES"
    and log: "k_stream_id k \<noteq> 0" "k_next_sequence k + 2 \<le> i64_max"
    and fits: "0 < now" "now \<le> i64_max" "at_device_id a \<noteq> 0" "0 < at_epoch a" "at_epoch a \<le> i64_max"
  shows "\<exists>k' s. accept_result_bound cx auth r now contract evidence k = Inr (k', Inl LeaseExpired)
    \<and> k_attempts k' = update_rows (\<lambda>b. at_attempt_id b = res_attempt_id r \<and> at_status b = ALeased)
        (\<lambda>b. b\<lparr>at_status := AExpired, at_completed_at_ms := Some now\<rparr>) (k_attempts k)
    \<and> k_steps k' = update_rows (\<lambda>s. leased_row s \<and> st_step_id s = at_step_id a)
        (\<lambda>s. s\<lparr>st_status := SQueued\<rparr>) (k_steps k)
    \<and> find_step k (at_step_id a) = Some s \<and> find_step k' (at_step_id a) = Some (s\<lparr>st_status := SQueued\<rparr>)
    \<and> k_connections k' = k_connections k"
proof -
  from expire_late_result_succeeds [OF inv checks small [rule_format] log fits] obtain k' where
    k': "expire_late_result cx a r now k = Inr k'" by blast
  note ext = expire_late_result_ext [OF k']
  have l: "lease_inv k" using inv by (simp add: kernel_inv_def)
  have a: "a \<in> set (k_attempts k)" "in_flight a"
    using checks by (auto simp: passes_checks_def load_attempt_def in_flight_def dest: find_row_Some)
  have "job_row a" using l a(1) by (simp add: lease_inv_def tables_inv_def list_all_iff)
  moreover have "result_for_job cx r (at_job a) = Inr ()"
    using checks check_result_contract_Inr unfolding passes_checks_def by blast
  ultimately have step: "res_step_id r = at_step_id a"
    by (auto simp: result_for_job_def bindE_Inr_iff reject_if_Inr_iff job_row_def)
  from in_flight_find_step [OF l a] obtain s where s: "find_step k (at_step_id a) = Some s" "leased_row s" by blast
  have steps: "k_steps k' = update_rows (\<lambda>s. leased_row s \<and> st_step_id s = at_step_id a)
        (\<lambda>s. s\<lparr>st_status := SQueued\<rparr>) (k_steps k)"
    by (simp add: ev_ext_fields [OF ext] update_rows_def step cong: if_cong)
  then have "find_step k' (at_step_id a) = map_option (\<lambda>s. if leased_row s then s\<lparr>st_status := SQueued\<rparr> else s)
      (find_step k (at_step_id a))"
    by (simp add: find_step_def find_step_requeued)
  then have "find_step k' (at_step_id a) = Some (s\<lparr>st_status := SQueued\<rparr>)" using s by simp
  with s(1) steps k' show ?thesis
    by (simp add: checked_result [OF checks] late) (simp add: ev_ext_fields [OF ext] update_rows_def cong: if_cong)
qed

text \<open>The sample result at the very moment at which its lease expires.\<close>

theorem late_result_requeues_the_step_witness:
  "\<exists>k'. accept_result_bound sample_codec (Some 1) sample_result 1120 None None sample_leased
     = Inr (k', Inl LeaseExpired) \<and> k_connections k' = k_connections sample_leased"
proof -
  have inv: "kernel_inv sample_leased" using kernel_run_inv [of sample_codec 7 sample_ops] by (simp add: sample_run)
  have load: "load_attempt sample_leased 31 = Some (leased_attempt sample_job 1 120 1120)"
    by (simp add: load_attempt_def)
  have checks: "passes_checks sample_codec (Some 1) sample_result None None (leased_attempt sample_job 1 120 1120)
      sample_leased"
    using load sample_result_checked
    by (simp add: passes_checks_def protocol_result_def check_result_contract_def sample_result_def)
  have small: "length (wire_bytes sample_codec (WEvent e)) \<le> MAX_DISTRIBUTED_EVENT_BATCH_BYTES" for e
    by (simp add: sample_codec_def)
  have "at_lease_expires_at_ms (leased_attempt sample_job 1 120 1120) \<le> 1120" "k_stream_id sample_leased \<noteq> 0"
    "k_next_sequence sample_leased + 2 \<le> i64_max" "(0::nat) < 1120" "1120 \<le> i64_max"
    "at_device_id (leased_attempt sample_job 1 120 1120) \<noteq> 0" "0 < at_epoch (leased_attempt sample_job 1 120 1120)"
    "at_epoch (leased_attempt sample_job 1 120 1120) \<le> i64_max"
    by (simp_all add: i64_max_def leased_attempt_def sample_log)
  from late_result_requeues_the_step [OF inv checks this(1) allI [OF small] this(2-8)] show ?thesis by blast
qed

section \<open>Leasing\<close>

text \<open>
  A granted lease: the kernel is not paused, the device is connected at the epoch it names and has
  nothing in flight, fewer than four attempts are in flight, the step was queued, the job is a valid
  envelope that carries the step's context and the next sequence of the connection, and the writes
  are one new attempt, the step's status and the connection's sequence.
\<close>

theorem granted_lease_effect:
  assumes "lease_next_step_bound cx d e now contract ids k0 = Inr (k', j)"
  shows "\<exists>k r c s cap caps. k_emergency_paused k0 = 0
    \<and> reconcile_expired_leases_tx cx now k0 = Inr (k, r)
    \<and> find_row (\<lambda>c. con_device_id c = d) (k_connections k) = Some c \<and> con_active c \<and> con_epoch c = e
    \<and> count_rows (\<lambda>a. at_device_id a = d \<and> at_epoch a = e \<and> in_flight a) (k_attempts k) = 0
    \<and> count_rows in_flight (k_attempts k) < 4
    \<and> s \<in> set (k_steps k) \<and> st_status s = SQueued
    \<and> registered_capabilities k d = Inr caps \<and> cap \<in> set caps \<and> cap_id cap = st_capability_id s
    \<and> length (json_bytes cx (st_context s)) \<le> cap_max_context_bytes cap
    \<and> (cap_id cap = LOCAL_CODING_CAPABILITY_ID \<longrightarrow> contract = Some ContractLocalCoding)
    \<and> j = lease_job s cap e (Suc (con_last_sequence c)) ids \<and> validate_job cx j = Inr ()
    \<and> k_attempts k' = k_attempts k @ [leased_attempt j d now (now + st_lease_duration_ms s)]
    \<and> k_steps k' = update_rows (\<lambda>q. st_step_id q = st_step_id s \<and> st_status q = SQueued)
        (\<lambda>q. q\<lparr>st_status := SLeased\<rparr>) (k_steps k)
    \<and> k_connections k' = update_rows (\<lambda>q. con_device_id q = d \<and> con_epoch q = e \<and> con_active q)
        (\<lambda>q. q\<lparr>con_last_sequence := Suc (con_last_sequence c)\<rparr>) (k_connections k)"
proof -
  obtain k r c s cap sequence expires caps where
    1: "k_emergency_paused k0 = 0" "reconcile_expired_leases_tx cx now k0 = Inr (k, r)"
      "find_row (\<lambda>c. con_device_id c = d) (k_connections k) = Some c" "con_active c" "con_epoch c = e"
      "count_rows (\<lambda>a. at_device_id a = d \<and> at_epoch a = e \<and> in_flight a) (k_attempts k) = 0"
      "count_rows in_flight (k_attempts k) < MAX_CONCURRENT_JOBS"
      "s \<in> set (k_steps k)" "st_status s = SQueued" "sequence = Suc (con_last_sequence c)"
      "j = lease_job s cap e sequence ids" "expires = now + st_lease_duration_ms s"
      "validate_job cx j = Inr ()" "commit_lease cx s j d now expires k = Inr k'"
      "registered_capabilities k d = Inr caps" "cap \<in> set caps" "cap_id cap = st_capability_id s"
      "length (json_bytes cx (st_context s)) \<le> cap_max_context_bytes cap"
      "cap_id cap = LOCAL_CODING_CAPABILITY_ID \<longrightarrow> contract = Some ContractLocalCoding"
    by (rule lease_next_step_Inr [OF assms]) blast
  have ext: "ev_ext (update_connections
      (\<lambda>c. con_device_id c = d \<and> con_epoch c = job_connection_epoch j \<and> con_active c)
      (ConnectionSequence (job_sequence j))
      (update_steps (\<lambda>r. st_step_id r = st_step_id s \<and> st_status r = SQueued) StepLease
        (k\<lparr>k_attempts := insert_row (leased_attempt j d now expires) (k_attempts k)\<rparr>))) k'"
    using commit_lease_Inr [OF 1(14)] by blast
  have job: "job_connection_epoch j = e" "job_sequence j = sequence"
    "lease_job s cap e (Suc (con_last_sequence c)) ids = j"
    using 1(10) by (simp_all add: 1(11) lease_job_def)
  show ?thesis
    by (rule exI [of _ k], rule exI [of _ r], rule exI [of _ c], rule exI [of _ s], rule exI [of _ cap],
        rule exI [of _ caps])
      (use 1(1-9,13,15-19) in \<open>simp add: ev_ext_fields [OF ext] job 1(10,12)
        MAX_CONCURRENT_JOBS_def insert_row_def update_rows_def cong: if_cong\<close>)
qed

theorem granted_lease_effect_witness:
  "k_attempts sample_leased = k_attempts sample_kernel @ [leased_attempt sample_job 1 120 1120]"
  using granted_lease_effect [OF sample_lease]
  by (elim exE conjE) (auto simp: sample_step_def queued_row_def)

end
