(* ===== verification/Kernel_Cancel.thy ===== *)
theory Kernel_Cancel
  imports Kernel_Properties
begin

text \<open>
  Cancellation of leased work: the request, the instruction a device fetches, its acknowledgement, and
  the expiry of either side's deadline.

  Connections, cancellation, the emergency pause and the restart: what each leaves in the tables.
\<close>

section \<open>Connections\<close>

text \<open>
  A handshake is accepted only for a registered device that is not revoked, whose name, role,
  registry revision and capabilities are those of the registration and which has no active
  connection; it gets an epoch above every epoch ever used. Any other answer changes nothing.
\<close>

theorem accepted_handshake_is_fresh:
  assumes ok: "accept_handshake cx h now (kernel_run cx stream ops) = Inr (k', r)"
  shows "if hr_status r = HsRejected then k' = kernel_run cx stream ops
    else (\<exists>d \<in> set (k_devices (kernel_run cx stream ops)).
        dev_device_id d = hs_device_id h \<and> \<not> dev_revoked d \<and> dev_name d = hs_device_name h
        \<and> dev_role d = hs_role h \<and> dev_registry_revision d = hs_registry_revision h
        \<and> capabilities_match (dev_capabilities d) (hs_capabilities h))
      \<and> active_connection_epoch (kernel_run cx stream ops) (hs_device_id h) = None
      \<and> list_all (\<lambda>c. con_epoch c < hr_connection_epoch r) (k_connections (kernel_run cx stream ops))
      \<and> k_next_connection_epoch k' = hr_connection_epoch r"
proof -
  let ?k = "kernel_run cx stream ops"
  from accept_handshake_cases [OF ok] show ?thesis
  proof (elim disjE exE conjE)
    assume "k' = ?k" "hr_status r = HsRejected"
    then show ?thesis by simp
  next
    fix d assume d: "find_row (\<lambda>d. dev_device_id d = hs_device_id h) (k_devices ?k) = Some d"
      "\<not> dev_revoked d" "dev_name d = hs_device_name h" "dev_role d = hs_role h"
      "dev_registry_revision d = hs_registry_revision h"
      "capabilities_match (dev_capabilities d) (hs_capabilities h)"
      "active_connection_epoch ?k (hs_device_id h) = None"
      and oc: "open_connection cx (hs_device_id h) (dev_registry_revision d) now ?k = Inr (k', r)"
    note o1 = open_connection_Inr [OF oc]
    have "list_all (\<lambda>c. con_epoch c < hr_connection_epoch r) (k_connections ?k)"
      using kernel_run_inv [of cx stream ops] o1 by (auto simp: kernel_inv_def list_all_iff)
    moreover have "k_next_connection_epoch k' = hr_connection_epoch r"
      using o1 ev_ext_fields(5) [OF conjunct1 [OF o1]] by simp
    ultimately show ?thesis
      using o1 d find_row_Some [OF d(1)] by auto
  qed
qed

theorem accepted_handshake_is_fresh_witness:
  "\<exists>k'. accept_handshake sample_codec sample_handshake 100 (kernel_run sample_codec 7 [OpRegister sample_device])
      = Inr (k', \<lparr>hr_protocol_version = 5, hr_status = HsAccepted, hr_connection_epoch = 1,
          hr_accepted_registry_revision = 1, hr_reason_code = None\<rparr>)
    \<and> k_next_connection_epoch k' = 1"
proof -
  have "kernel_run sample_codec 7 [OpRegister sample_device] = (new_kernel 7)\<lparr>k_devices := [sample_device]\<rparr>"
    by (simp add: kernel_run_def kernel_step_def sample_register)
  then obtain k' where "accept_handshake sample_codec sample_handshake 100
      (kernel_run sample_codec 7 [OpRegister sample_device])
      = Inr (k', \<lparr>hr_protocol_version = 5, hr_status = HsAccepted, hr_connection_epoch = 1,
          hr_accepted_registry_revision = 1, hr_reason_code = None\<rparr>)"
    using sample_handshake_accepted by metis
  with accepted_handshake_is_fresh [OF this] show ?thesis by simp
qed

text \<open>
  A disconnected device holds nothing: after \<^verbatim>\<open>disconnect_device\<close> it has no active connection and no
  attempt in flight.
\<close>

theorem disconnected_device_holds_nothing:
  assumes ok: "disconnect_device cx d e now (kernel_run cx stream ops) = Inr (k', r)"
  shows "list_all (\<lambda>c. con_device_id c \<noteq> d) (filter con_active (k_connections k'))
    \<and> list_all (\<lambda>a. at_device_id a \<noteq> d) (filter in_flight (k_attempts k'))"
proof -
  let ?k = "kernel_run cx stream ops"
  have l: "lease_inv ?k" by (rule kernel_run_parts)
  have tx: "disconnect_device_tx cx d e now ?k = Inr (k', r)" using ok by (simp add: disconnect_device_def)
  have "distinct (map con_device_id (k_connections ?k))"
    using l by (simp add: lease_inv_def tables_inv_def)
  from disconnect_inactive [OF this tx]
  have off: "\<forall>c \<in> set (k_connections k'). con_device_id c = d \<longrightarrow> \<not> con_active c" .
  moreover have "\<exists>c \<in> set (k_connections k'). con_device_id c = at_device_id a \<and> con_active c"
    if "a \<in> set (k_attempts k')" "in_flight a" for a
    using disconnect_inv [OF l tx] that
    by (auto simp: lease_inv_def tables_inv_def list_all_iff served_iff)
  ultimately show ?thesis by (fastforce simp: list_all_iff)
qed

lemma sample_disconnect:
  "\<exists>k' r. disconnect_device sample_codec 1 1 500 sample_leased = Inr (k', r)"
proof -
  have pend: "close_pending_cancellation sample_codec 1 1 500 sample_leased = Inr (sample_leased, 0)"
    by (simp add: close_pending_cancellation_def attempts_with_task_def)
  have steps: "leased_steps sample_leased (Some (1, 1)) = [(20, 21)]"
    by (simp add: leased_steps_def attempts_with_task_def find_step_def queued_row_def sample_step_def)
  show ?thesis
    using pend steps
    by (simp add: disconnect_device_def disconnect_device_tx_def connection_state_def to_i64_def i64_max_def
        Let_def count_rows_def requeue_steps_def requeue_step_def
        append_sample [of 3] append_sample [of 4] sample_log queued_row_def sample_step_def)
qed

theorem disconnected_device_holds_nothing_witness:
  "\<exists>k' r. disconnect_device sample_codec 1 1 500 (kernel_run sample_codec 7 sample_ops) = Inr (k', r)
     \<and> list_all (\<lambda>a. at_device_id a \<noteq> 1) (filter in_flight (k_attempts k'))"
proof -
  obtain k' r where "disconnect_device sample_codec 1 1 500 (kernel_run sample_codec 7 sample_ops) = Inr (k', r)"
    using sample_disconnect by (auto simp: sample_run)
  with disconnected_device_holds_nothing [OF this] show ?thesis by blast
qed


section \<open>A pending cancellation of the sample job\<close>

definition sample_pending :: kernel where
  "sample_pending =
     logged StepCancellationRequested 130 (attempt_identity 20 21 1 1)
       (pended (leased_attempt sample_job 1 120 1120) 2 130 sample_leased)"

lemma sample_cancelled: "cancel_step sample_codec 21 130 sample_leased = Inr sample_pending"
  by (simp add: cancel_step_def find_step_def queued_row_def sample_step_def
      request_leased_step_cancellation_tx_def connection_state_def checked_add_u64_def to_i64_def
      limit_defs count_rows_def Let_def append_sample [of 3] sample_log sample_pending_def pended_def
      del: One_nat_def)

lemma sample_pending_fields [simp]:
  "k_attempts sample_pending = [(leased_attempt sample_job 1 120 1120)\<lparr>at_status := ACancellationPending,
     at_cancellation_sequence := Some 2, at_cancellation_requested_at_ms := Some 130,
     at_cancellation_deadline_at_ms := Some 2130\<rparr>]"
  "k_connections sample_pending = [\<lparr>con_device_id = 1, con_epoch = 1, con_active = True,
     con_last_sequence = 2, con_connected_at_ms = 100, con_disconnected_at_ms = None\<rparr>]"
  "k_steps sample_pending = [(queued_row sample_codec sample_step 110)\<lparr>st_status := SLeased\<rparr>]"
  "log_ok 4 sample_pending"
  by (simp_all add: sample_pending_def pended_def CANCELLATION_ACK_DEADLINE_MS_def sample_log)

lemma sample_pending_run:
  "kernel_run sample_codec 7 (sample_ops @ [OpCancel 21 130]) = sample_pending"
  by (rule kernel_run_snoc) (simp add: sample_run sample_cancelled)

section \<open>Requests\<close>

text \<open>
  Cancelling a step: a queued step becomes cancelled; for a leased step the attempt becomes pending
  with the connection's next sequence and a deadline of two seconds, the step stays leased until the
  device answers; a finished step is refused.
\<close>

theorem cancel_step_effect:
  assumes "cancel_step cx i now k = Inr k'"
  shows "\<exists>s. find_step k i = Some s \<and>
    ((st_status s = SQueued \<and> k_attempts k' = k_attempts k
        \<and> k_steps k' = update_rows (\<lambda>q. st_step_id q = i \<and> st_status q = SQueued)
            (\<lambda>q. q\<lparr>st_status := SCancelled, st_completed_at_ms := Some now\<rparr>) (k_steps k))
     \<or> (st_status s = SLeased \<and> k_steps k' = k_steps k
        \<and> (\<exists>a c. find_row (\<lambda>a. at_step_id a = i \<and> at_status a = ALeased) (k_attempts k) = Some a
            \<and> connection_state k (at_device_id a) = Inr c \<and> cs_active c \<and> cs_epoch c = at_epoch a
            \<and> k_attempts k' = update_rows (\<lambda>b. at_attempt_id b = at_attempt_id a \<and> at_status b = ALeased)
                (\<lambda>b. b\<lparr>at_status := ACancellationPending,
                       at_cancellation_sequence := Some (Suc (cs_last_sequence c)),
                       at_cancellation_requested_at_ms := Some now,
                       at_cancellation_deadline_at_ms := Some (now + 2000)\<rparr>) (k_attempts k))))"
  using assms
proof (rule cancel_step_cases)
  fix s assume s: "find_step k i = Some s" "st_status s = SQueued"
    and ext: "ev_ext (update_steps (\<lambda>r. st_step_id r = i \<and> st_status r = SQueued)
      (StepFinish SCancelled now) k) k'"
  show ?thesis
    by (rule exI [of _ s]) (simp add: s ev_ext_fields [OF ext] update_rows_def cong: if_cong)
next
  fix s assume s: "find_step k i = Some s" "st_status s = SLeased"
    and req: "request_leased_step_cancellation_tx cx (st_task_id s) i now k = Inr k'"
  obtain a c where
    a: "find_row (\<lambda>a. at_step_id a = i \<and> at_status a = ALeased) (k_attempts k) = Some a"
      "connection_state k (at_device_id a) = Inr c" "cs_active c" "cs_epoch c = at_epoch a"
    and ext: "ev_ext (pended a (Suc (cs_last_sequence c)) now k) k'"
    by (rule request_cancellation_Inr [OF req]) blast
  show ?thesis
    by (rule exI [of _ s])
      (simp add: s a ev_ext_fields [OF ext] pended_def update_rows_def CANCELLATION_ACK_DEADLINE_MS_def
        cong: if_cong)
qed

theorem cancel_step_effect_witness:
  "\<exists>s. find_step sample_leased 21 = Some s \<and> k_steps sample_pending = k_steps sample_leased"
  using cancel_step_effect [OF sample_cancelled] by auto

section \<open>Instructions\<close>

lemma pending_attempt_Some:
  assumes "pending_attempt k d e = Some a"
  shows "a \<in> set (k_attempts k) \<and> at_device_id a = d \<and> at_epoch a = e \<and> at_status a = ACancellationPending"
proof -
  let ?l = "sort_key (\<lambda>a. case at_cancellation_requested_at_ms a of None \<Rightarrow> 0 | Some t \<Rightarrow> Suc t)
      (filter (\<lambda>a. at_device_id a = d \<and> at_epoch a = e \<and> at_status a = ACancellationPending) (k_attempts k))"
  obtain xs where "?l = a # xs" using assms by (auto simp: pending_attempt_def split: list.splits)
  then have "a \<in> set ?l" by (metis list.set_intros(1))
  then show ?thesis by simp
qed

text \<open>
  A cancellation instruction that a device fetches names its own pending attempt in every
  identifier, comes from the device's active connection, follows the job's sequence, and always leaves
  time to acknowledge: the deadline it carries is positive, since overdue cancellations were expired
  first.
\<close>

theorem instruction_leaves_time:
  assumes ok: "next_cancellation_bound cx d e now contract (kernel_run cx stream ops) = Inr (k', Some i)"
  shows "0 < ci_deadline_after_ms i
    \<and> (\<exists>a \<in> set (k_attempts k'). at_device_id a = d \<and> at_epoch a = e
        \<and> at_status a = ACancellationPending \<and> instruction_identity i = job_identity (at_job a)
        \<and> job_sequence (at_job a) < ci_sequence i)
    \<and> active_connection_epoch k' d = Some e
    \<and> list_all (\<lambda>a. \<not> cancellation_overdue now a) (k_attempts k')"
proof -
  let ?k = "kernel_run cx stream ops"
  have l: "lease_inv ?k" by (rule kernel_run_parts)
  obtain n c where rec: "reconcile_cancellation_deadlines_tx cx now ?k = Inr (k', n)"
    and c: "connection_state k' d = Inr c" "cs_active c" "cs_epoch c = e"
    and i: "\<exists>a sequence deadline j. pending_attempt k' d e = Some a \<and> Some i = Some j
        \<and> at_cancellation_sequence a = Some sequence \<and> at_cancellation_deadline_at_ms a = Some deadline
        \<and> now \<le> deadline \<and> j = job_instruction (at_job a) e sequence (deadline - now)
        \<and> instruction_for_job cx j (at_job a) = Inr ()"
    by (rule next_cancellation_Inr [OF ok]) auto
  then obtain a sequence deadline where a: "pending_attempt k' d e = Some a"
    "at_cancellation_deadline_at_ms a = Some deadline" "now \<le> deadline"
    and ia: "i = job_instruction (at_job a) e sequence (deadline - now)"
    and v: "instruction_for_job cx i (at_job a) = Inr ()" by auto
  note p = pending_attempt_Some [OF a(1)]
  have none: "\<not> cancellation_overdue now b" if "b \<in> set (k_attempts k')" for b
    by (rule none_overdue [OF l rec that])
  then have lt: "now < deadline" using p a(2) by (force simp: cancellation_overdue_def)
  have "lease_inv k'" using reconcile_cancellations_inv [OF l rec] by blast
  then have "distinct (map con_device_id (k_connections k'))" by (simp add: lease_inv_def tables_inv_def)
  moreover obtain q where q: "find_row (\<lambda>c. con_device_id c = d) (k_connections k') = Some q"
    "con_active q" "con_epoch q = e" using c unfolding connection_state_Inr by auto
  ultimately have "active_connection_epoch k' d = Some e"
  proof -
    assume dist: "distinct (map con_device_id (k_connections k'))"
    have "find_row (\<lambda>c. con_device_id c = d \<and> con_active c) (k_connections k') = Some q"
    proof (cases "find_row (\<lambda>c. con_device_id c = d \<and> con_active c) (k_connections k')")
      case None
      with find_row_Some [OF q(1)] q(2) show ?thesis by (auto simp: find_row_None)
    next
      case (Some q')
      with find_row_Some [OF Some] find_row_Some [OF q(1)] dist show ?thesis by (metis distinct_map_inj)
    qed
    with q(3) show ?thesis by (simp add: active_connection_epoch_def)
  qed
  moreover have "instruction_identity i = job_identity (at_job a) \<and> job_sequence (at_job a) < ci_sequence i"
    by (rule instruction_for_job_Inr [OF v])
  ultimately show ?thesis
    using p none lt by (auto simp: ia job_instruction_def list_all_iff)
qed

lemma sample_no_overdue:
  "now < 2130 \<Longrightarrow> reconcile_cancellation_deadlines_tx sample_codec now sample_pending = Inr (sample_pending, 0)"
  by (simp add: reconcile_cancellation_deadlines_tx_def to_i64_def i64_max_def attempts_with_task_def
      cancellation_overdue_def)

definition sample_instruction :: cancellation_instruction where
  "sample_instruction = job_instruction sample_job 1 2 1990"

lemma sample_instruction_checked: "instruction_for_job sample_codec sample_instruction sample_job = Inr ()"
  using sample_job_valid
  by (simp add: instruction_for_job_def validate_instruction_def sample_instruction_def job_instruction_def
      validator_defs PROTOCOL_VERSION_def validate_wire_limit_def limit_defs)

lemma sample_next_cancellation:
  "next_cancellation_bound sample_codec 1 1 140 None sample_pending = Inr (sample_pending, Some sample_instruction)"
  using sample_instruction_checked
  by (simp add: next_cancellation_bound_def sample_no_overdue connection_state_def to_i64_def i64_max_def
      pending_attempt_def check_cancellation_contract_def checked_sub_u64_def sample_instruction_def
      protocol_result_def)

theorem instruction_leaves_time_witness: "0 < ci_deadline_after_ms sample_instruction"
  using instruction_leaves_time [of sample_codec 1 1 140 None 7 "sample_ops @ [OpCancel 21 130]"]
    sample_next_cancellation by (simp add: sample_pending_run)

section \<open>Acknowledgements\<close>

definition sample_ack :: cancellation_acknowledgement where
  "sample_ack =
     \<lparr>ack_protocol_version = 5, ack_connection_epoch = 1, ack_sequence = 3, ack_task_id = 20,
      ack_step_id = 21, ack_attempt_id = 31, ack_lease_id = 32, ack_cancellation_id = 33, ack_status = AckCancelled\<rparr>"

text \<open>
  An acknowledgement counts only from the device of the pending attempt, on its active connection,
  before the deadline, with the identifiers of the instruction and a later sequence; it then cancels
  attempt and step and moves the connection's sequence.
\<close>

theorem acknowledged_cancellation_effect:
  assumes "accept_cancellation_ack_bound cx d ack now contract k = Inr (k', Inr x)"
  shows "\<exists>a c sequence deadline. load_attempt k (ack_attempt_id ack) = Some a \<and> at_device_id a = d
      \<and> at_status a = ACancellationPending
      \<and> at_cancellation_sequence a = Some sequence \<and> sequence < ack_sequence ack
      \<and> at_cancellation_deadline_at_ms a = Some deadline \<and> now < deadline
      \<and> acknowledgement_identity ack = job_identity (at_job a)
      \<and> connection_state k d = Inr c \<and> cs_active c \<and> cs_epoch c = ack_connection_epoch ack
      \<and> cs_last_sequence c < ack_sequence ack
      \<and> k_attempts k' = update_rows
          (\<lambda>b. at_attempt_id b = ack_attempt_id ack \<and> at_status b = ACancellationPending)
          (\<lambda>b. b\<lparr>at_status := ACancelled, at_completed_at_ms := Some now,
                 at_cancellation_ack_sequence := Some (ack_sequence ack)\<rparr>) (k_attempts k)
      \<and> k_steps k' = update_rows (\<lambda>s. st_step_id s = ack_step_id ack \<and> st_status s = SLeased)
          (\<lambda>s. s\<lparr>st_status := SCancelled, st_completed_at_ms := Some now\<rparr>) (k_steps k)
      \<and> k_connections k' = update_rows
          (\<lambda>q. con_device_id q = d \<and> con_epoch q = ack_connection_epoch ack \<and> con_active q)
          (\<lambda>q. q\<lparr>con_last_sequence := ack_sequence ack\<rparr>) (k_connections k)"
proof -
  obtain a sequence deadline where
    a: "load_attempt k (ack_attempt_id ack) = Some a" "at_device_id a = d"
      "at_status a = ACancellationPending" "at_cancellation_sequence a = Some sequence"
      "at_cancellation_deadline_at_ms a = Some deadline"
      "acknowledgement_for_instruction cx ack
         (job_instruction (at_job a) (job_connection_epoch (at_job a)) sequence
            CANCELLATION_ACK_DEADLINE_MS) = Inr ()"
    and out: "now < deadline" "record_acknowledgement cx d ack now k = Inr (k', x)"
    by (rule accept_ack_Inr [OF assms]) auto
  obtain c where c: "connection_state k d = Inr c" "cs_active c" "cs_epoch c = ack_connection_epoch ack"
      "cs_last_sequence c < ack_sequence ack" and ext: "ev_ext (acknowledged d ack now k) k'"
    by (rule record_acknowledgement_Inr [OF out(2)]) blast
  have id: "acknowledgement_identity ack = job_identity (at_job a)" "sequence < ack_sequence ack"
    using acknowledgement_for_instruction_Inr [OF a(6)]
    by (simp_all add: identity_defs job_instruction_def)
  show ?thesis
    by (rule exI [of _ a], rule exI [of _ c], rule exI [of _ sequence], rule exI [of _ deadline])
      (use a(1-5) out(1) c id in
        \<open>simp add: ev_ext_fields [OF ext] acknowledged_def update_rows_def cong: if_cong\<close>)
qed

lemma sample_ack_checked:
  "acknowledgement_for_instruction sample_codec sample_ack
     (job_instruction sample_job 1 2 CANCELLATION_ACK_DEADLINE_MS) = Inr ()"
  by (simp add: acknowledgement_for_instruction_def validate_instruction_def
      sample_ack_def job_instruction_def validator_defs PROTOCOL_VERSION_def validate_wire_limit_def
      limit_defs)

lemma sample_acknowledged:
  "\<exists>k' x. accept_cancellation_ack_bound sample_codec 1 sample_ack 200 None sample_pending = Inr (k', Inr x)"
proof -
  have load: "load_attempt sample_pending (ack_attempt_id sample_ack) = Some (hd (k_attempts sample_pending))"
    by (simp add: load_attempt_def sample_ack_def)
  have "\<exists>k' x. record_acknowledgement sample_codec 1 sample_ack 200 sample_pending = Inr (k', x)"
    by (simp add: record_acknowledgement_def connection_state_def to_i64_def i64_max_def sample_ack_def Let_def
        append_sample [of 4] append_sample [of 5])
  then obtain k' x where "record_acknowledgement sample_codec 1 sample_ack 200 sample_pending = Inr (k', x)"
    by blast
  then show ?thesis
    using sample_ack_checked
    by (simp add: accept_cancellation_ack_bound_def load check_cancellation_contract_def protocol_result_def)
qed

theorem acknowledged_cancellation_effect_witness:
  "\<exists>k' x a. accept_cancellation_ack_bound sample_codec 1 sample_ack 200 None sample_pending = Inr (k', Inr x)
     \<and> load_attempt sample_pending 31 = Some a \<and> acknowledgement_identity sample_ack = job_identity (at_job a)"
proof -
  obtain k' x where ok: "accept_cancellation_ack_bound sample_codec 1 sample_ack 200 None sample_pending = Inr (k', Inr x)"
    using sample_acknowledged by blast
  from acknowledged_cancellation_effect [OF ok] ok show ?thesis by (auto simp: sample_ack_def)
qed

section \<open>Deadlines\<close>

text \<open>
  After the expiry of leases no leased attempt has passed its expiry: every such attempt is
  expired and every step it held is queued again.
\<close>

theorem no_lease_outlives_its_expiry:
  assumes ok: "reconcile_expired_leases cx now (kernel_run cx stream ops) = Inr (k', r)"
  shows "list_all (\<lambda>a. \<not> lease_expired_by now a) (k_attempts k')
    \<and> k_attempts k' = update_rows (lease_expired_by now)
        (\<lambda>a. a\<lparr>at_status := AExpired, at_completed_at_ms := Some now\<rparr>) (k_attempts (kernel_run cx stream ops))
    \<and> k_steps k' = update_rows
        (\<lambda>s. leased_row s \<and> exists_row (\<lambda>a. lease_expired_by now a \<and> at_step_id a = st_step_id s)
           (k_attempts (kernel_run cx stream ops)))
        (\<lambda>s. s\<lparr>st_status := SQueued\<rparr>) (k_steps (kernel_run cx stream ops))"
proof -
  let ?k = "kernel_run cx stream ops"
  let ?items = "attempts_with_task (lease_expired_by now) ?k"
  have l: "lease_inv ?k" by (rule kernel_run_parts)
  from ok obtain n where
    1: "forE (expire_lease cx now) ?items
          (update_attempts (lease_expired_by now) (AttemptClose AExpired now) ?k, 0) = Inr (k', n)"
    unfolding reconcile_expired_leases_def reconcile_expired_leases_tx_def Let_def bindE_Inr_iff
      split_paired_Ex prod.case by blast
  note ext = expire_leases_ext [OF 1]
  have items: "snd ` set ?items = {a \<in> set (k_attempts ?k). lease_expired_by now a}"
    by (rule attempts_with_task_attempts [OF l]) (simp add: in_flight_def lease_expired_by_def)
  have att: "k_attempts k' = update_rows (lease_expired_by now)
      (\<lambda>a. a\<lparr>at_status := AExpired, at_completed_at_ms := Some now\<rparr>) (k_attempts ?k)"
    by (simp add: ev_ext_fields [OF ext] update_rows_def cong: if_cong)
  moreover have "list_all (\<lambda>a. \<not> lease_expired_by now a) (k_attempts k')"
    unfolding att list_all_iff set_update_rows by (auto simp: lease_expired_by_def)
  moreover have mem: "st_step_id s \<in> at_step_id ` snd ` set ?items
      \<longleftrightarrow> exists_row (\<lambda>a. lease_expired_by now a \<and> at_step_id a = st_step_id s) (k_attempts ?k)" for s
    unfolding items exists_row_iff by force
  have "apply_step_update StepRequeue = (\<lambda>s. s\<lparr>st_status := SQueued\<rparr>)" by (simp add: fun_eq_iff)
  then have "k_steps k' = update_rows
        (\<lambda>s. leased_row s \<and> exists_row (\<lambda>a. lease_expired_by now a \<and> at_step_id a = st_step_id s)
           (k_attempts ?k)) (\<lambda>s. s\<lparr>st_status := SQueued\<rparr>) (k_steps ?k)"
    by (simp only: ev_ext_fields(1) [OF ext] update_fields mem)
  ultimately show ?thesis by blast
qed

lemma sample_leases_expire:
  "\<exists>k' r. reconcile_expired_leases sample_codec 5000 sample_leased = Inr (k', r)"
  by (simp add: reconcile_expired_leases_def reconcile_expired_leases_tx_def to_i64_def i64_max_def
      attempts_with_task_def lease_expired_by_def find_step_def queued_row_def sample_step_def Let_def
      expire_lease_def requeue_step_def count_rows_def append_sample [of 3] append_sample [of 4] sample_log)

theorem no_lease_outlives_its_expiry_witness:
  "\<exists>k' r. reconcile_expired_leases sample_codec 5000 (kernel_run sample_codec 7 sample_ops) = Inr (k', r)
     \<and> list_all (\<lambda>a. \<not> lease_expired_by 5000 a) (k_attempts k')"
proof -
  obtain k' r where "reconcile_expired_leases sample_codec 5000 (kernel_run sample_codec 7 sample_ops) = Inr (k', r)"
    using sample_leases_expire by (auto simp: sample_run)
  with no_lease_outlives_its_expiry [OF this] show ?thesis by blast
qed

text \<open>
  An example of what \<^verbatim>\<open>next_cancellation\<close> does past the deadline: it expires the attempt and so
  disconnects the device, then finds the device inactive and fails before the commit, so nothing of
  the expiry is kept.
\<close>

theorem overdue_expiry_is_rolled_back:
  "next_cancellation_bound sample_codec 1 1 3000 None sample_pending = Inl ConnectionNotActive
   \<and> kernel_step sample_codec sample_pending (OpNextCancellation 1 1 3000 None) = sample_pending"
proof -
  have "\<exists>k n. reconcile_cancellation_deadlines_tx sample_codec 3000 sample_pending = Inr (k, n)
      \<and> k_connections k = update_rows (\<lambda>c. con_device_id c = 1 \<and> con_epoch c = 1 \<and> con_active c)
          (apply_connection_update (ConnectionClose 3000)) (k_connections sample_pending)"
    by (simp add: reconcile_cancellation_deadlines_tx_def to_i64_def i64_max_def attempts_with_task_def
        cancellation_overdue_def find_step_def queued_row_def sample_step_def Let_def expire_cancellation_def
        count_rows_def append_sample [of 4] append_sample [of 5] append_sample [of 6]
        disconnect_device_tx_def connection_state_def close_pending_cancellation_def leased_steps_def
        requeue_steps_def)
  then have "next_cancellation_bound sample_codec 1 1 3000 None sample_pending = Inl ConnectionNotActive"
    by (auto simp: next_cancellation_bound_def connection_state_def)
  then show ?thesis by (simp add: kernel_step_def state_of_def)
qed

end
