(* ===== verification/Kernel_Emergency.thy ===== *)
theory Kernel_Emergency
  imports Kernel_Cancel
begin

text \<open>
  The emergency pause stops remote work and blocks the operations that would start or finish it; the
  restart leaves nothing in flight; a page of events is complete.
\<close>

section \<open>What a paused kernel refuses\<close>

text \<open>
  While the kernel is paused it grants no lease, accepts no result, serves no snapshot chunk and
  admits no artifact; leasing says so with \<^verbatim>\<open>EmergencyPaused\<close> and the others fail.
\<close>

theorem paused_kernel_starts_nothing:
  assumes "k_emergency_paused k = 1"
  shows "lease_next_step_bound cx d e now contract ids k = Inl EmergencyPaused
    \<and> \<not> is_ok (accept_result_bound cx auth r now contract evidence k)
    \<and> \<not> is_ok (authorize_local_coding_snapshot_chunk cx k d request now)
    \<and> \<not> is_ok (authorize_local_coding_result_artifact cx k d adm now)
    \<and> \<not> is_ok (finalize_local_coding_result_artifact cx d adm now k)"
proof -
  have p: "require_emergency_unpaused k = Inl EmergencyPaused"
    using assms by (simp add: require_emergency_unpaused_def emergency_paused_tx_def)
  have v: "\<not> is_ok (validate_result_artifact_admission_tx cx k d adm now)"
    unfolding validate_result_artifact_admission_tx_def Let_def is_ok_bindE p by simp
  show ?thesis
    using v
    by (simp add: lease_next_step_bound_def p)
      (simp add: is_ok_bindE p accept_result_bound_def authorize_local_coding_snapshot_chunk_def Let_def
        authorize_local_coding_result_artifact_def finalize_local_coding_result_artifact_def,
       auto simp: is_ok_def)
qed

theorem paused_kernel_starts_nothing_witness:
  "lease_next_step_bound sample_codec 1 1 120 None sample_ids (sample_kernel\<lparr>k_emergency_paused := 1\<rparr>)
    = Inl EmergencyPaused"
  using paused_kernel_starts_nothing [of "sample_kernel\<lparr>k_emergency_paused := 1\<rparr>"] by simp

section \<open>What a pause stops\<close>

definition step_keeps :: "step_row \<Rightarrow> step_row \<Rightarrow> bool" where
  "step_keeps s s' =
     (st_step_id s' = st_step_id s \<and> st_capability_id s' = st_capability_id s
      \<and> (s' = s \<or> st_status s' = SCancelled))"

definition attempt_keeps :: "attempt_row \<Rightarrow> attempt_row \<Rightarrow> bool" where
  "attempt_keeps a a' = (at_step_id a' = at_step_id a \<and> (at_status a' = ALeased \<longrightarrow> a' = a))"

interpretation kept_steps: row_order step_keeps
  by unfold_locales (auto simp: step_keeps_def)

interpretation kept_attempts: row_order attempt_keeps
  by unfold_locales (auto simp: attempt_keeps_def)

definition keeps :: "kernel \<Rightarrow> kernel \<Rightarrow> bool" where
  "keeps k k' =
     (grows step_keeps (k_steps k) (k_steps k') \<and> length (k_steps k') = length (k_steps k)
      \<and> grows attempt_keeps (k_attempts k) (k_attempts k') \<and> length (k_attempts k') = length (k_attempts k))"

lemma keeps_refl: "keeps k k"
  by (simp add: keeps_def kept_steps.refl kept_attempts.refl)

lemma keeps_trans: "keeps k l \<Longrightarrow> keeps l m \<Longrightarrow> keeps k m"
  unfolding keeps_def by (auto intro: kept_steps.trans kept_attempts.trans)

lemma keeps_ev: "ev_ext k k' \<Longrightarrow> keeps k k'"
  by (simp add: keeps_def ev_ext_fields kept_steps.refl kept_attempts.refl)

lemma keeps_finish: "keeps k (update_steps p (StepFinish SCancelled now) k)"
proof -
  have "grows step_keeps (k_steps k) (update_rows p (apply_step_update (StepFinish SCancelled now)) (k_steps k))"
    by (rule kept_steps.update) (simp add: step_keeps_def)
  then show ?thesis by (simp add: keeps_def kept_attempts.refl)
qed

lemma keeps_attempts:
  assumes "\<And>a. at_status (apply_attempt_update u a) \<noteq> ALeased"
  shows "keeps k (update_attempts p u k)"
proof -
  have "grows attempt_keeps (k_attempts k) (update_rows p (apply_attempt_update u) (k_attempts k))"
    by (rule kept_attempts.update) (simp add: attempt_keeps_def assms)
  then show ?thesis by (simp add: keeps_def kept_steps.refl)
qed

lemma keeps_connections: "keeps k (update_connections p u k)"
  by (simp add: keeps_def kept_steps.refl kept_attempts.refl)

lemma keeps_queued: "keeps k k' \<Longrightarrow> s \<in> set (k_steps k') \<Longrightarrow> st_status s = SQueued \<Longrightarrow> s \<in> set (k_steps k)"
  unfolding keeps_def by (metis grows_same_length step_keeps_def step_status.distinct(7))

lemma keeps_leased: "keeps k k' \<Longrightarrow> a \<in> set (k_attempts k') \<Longrightarrow> at_status a = ALeased \<Longrightarrow> a \<in> set (k_attempts k)"
  unfolding keeps_def by (metis grows_same_length attempt_keeps_def)

lemma none_left:
  assumes "\<And>r. p r \<Longrightarrow> \<not> p (u r)"
  shows "\<forall>r \<in> set (update_rows p u t). \<not> p r"
  using assms by (induction t) simp_all

lemma cancel_queued_coding_keeps:
  assumes "cancel_queued_coding cx now (t, i) k = Inr k'"
  shows "keeps k k' \<and> (\<forall>s \<in> set (k_steps k'). st_step_id s = i \<longrightarrow> st_status s \<noteq> SQueued)"
proof -
  have ext: "ev_ext (update_steps (\<lambda>s. st_step_id s = i \<and> st_status s = SQueued) (StepFinish SCancelled now) k) k'"
    using cancel_queued_coding_Inr [OF assms] by blast
  have "\<forall>s \<in> set (k_steps k'). \<not> (st_step_id s = i \<and> st_status s = SQueued)"
    unfolding ev_ext_fields(1) [OF ext] update_fields by (rule none_left) simp
  with keeps_trans [OF keeps_finish keeps_ev [OF ext]] show ?thesis by blast
qed

lemma request_pause_cancellation_keeps:
  assumes inv: "lease_inv k" and ok: "request_pause_cancellation cx now (t, i) k = Inr k'"
  shows "keeps k k' \<and> (\<forall>a \<in> set (k_attempts k'). at_step_id a = i \<longrightarrow> at_status a \<noteq> ALeased)"
  using request_pause_cancellation_cases [OF ok]
proof
  assume "abandon_for_pause cx now t i k = Inr k'"
  then have ext: "ev_ext (update_steps (\<lambda>s. st_step_id s = i \<and> st_status s = SLeased) (StepFinish SCancelled now)
      (update_attempts (\<lambda>a. at_step_id a = i \<and> at_status a = ALeased) (AttemptClose AAbandoned now) k)) k'"
    using abandon_for_pause_Inr by blast
  have "keeps k (update_attempts (\<lambda>a. at_step_id a = i \<and> at_status a = ALeased) (AttemptClose AAbandoned now) k)"
    by (rule keeps_attempts) simp
  then have "keeps k k'" using keeps_finish keeps_ev [OF ext] by (blast intro: keeps_trans)
  moreover have "\<forall>a \<in> set (k_attempts k'). \<not> (at_step_id a = i \<and> at_status a = ALeased)"
    unfolding ev_ext_fields(2) [OF ext] update_fields by (rule none_left) simp
  ultimately show ?thesis by blast
next
  assume r: "request_leased_step_cancellation_tx cx t i now k = Inr k'"
  obtain a c where a: "find_row (\<lambda>a. at_step_id a = i \<and> at_status a = ALeased) (k_attempts k) = Some a"
    and c: "connection_state k (at_device_id a) = Inr c"
    and ext: "ev_ext (pended a (Suc (cs_last_sequence c)) now k) k'"
    by (rule request_cancellation_Inr [OF r]) blast
  have mem: "a \<in> set (k_attempts k)" "at_step_id a = i" "at_status a = ALeased"
    using find_row_Some [OF a] by auto
  have "keeps k (update_attempts (\<lambda>b. at_attempt_id b = at_attempt_id a \<and> at_status b = ALeased)
      (AttemptPend (Suc (cs_last_sequence c)) now (now + CANCELLATION_ACK_DEADLINE_MS)) k)"
    by (rule keeps_attempts) simp
  then have k': "keeps k k'"
    using keeps_connections keeps_ev [OF ext [unfolded pended_def]] by (blast intro: keeps_trans)
  moreover have "at_status b \<noteq> ALeased" if b: "b \<in> set (k_attempts k')" "at_step_id b = i" for b
  proof
    assume l: "at_status b = ALeased"
    with k' b(1) have "b \<in> set (k_attempts k)" by (rule keeps_leased)
    then have "b = a"
      using in_flight_unique [of _ _ _ b a] inv mem b(2) l unfolding lease_inv_def by (metis in_flight_def)
    from b(1) obtain q where q: "q \<in> set (k_attempts k)"
      "b = (if at_attempt_id q = at_attempt_id a \<and> at_status q = ALeased
        then apply_attempt_update (AttemptPend (Suc (cs_last_sequence c)) now
          (now + CANCELLATION_ACK_DEADLINE_MS)) q else q)"
      unfolding ev_ext_fields(2) [OF ext] pended_def update_fields set_update_rows by (rule imageE) blast
    show False
    proof (cases "at_attempt_id q = at_attempt_id a \<and> at_status q = ALeased")
      case True
      from q(2) have "b = apply_attempt_update (AttemptPend (Suc (cs_last_sequence c)) now
          (now + CANCELLATION_ACK_DEADLINE_MS)) q" unfolding if_P [OF True] .
      with l show False by simp
    next
      case False
      from q(2) have "b = q" unfolding if_not_P [OF False] .
      with False \<open>b = a\<close> mem(3) show False by simp
    qed
  qed
  ultimately show ?thesis by blast
qed

definition remote_capability :: "string \<Rightarrow> bool" where
  "remote_capability c = (c \<in> {FIXTURE_REASONING_CAPABILITY_ID, MLX_REASONING_CAPABILITY_ID,
     LOCAL_CODING_CAPABILITY_ID})"

definition runs_remotely :: "kernel \<Rightarrow> attempt_row \<Rightarrow> bool" where
  "runs_remotely k a =
     (at_status a = ALeased \<and> (case find_step k (at_step_id a) of None \<Rightarrow> False
        | Some s \<Rightarrow> remote_capability (st_capability_id s)))"

lemma request_cancellations_stop:
  assumes inv: "lease_inv k" and ok: "request_active_remote_work_cancellations_tx cx now k = Inr k'"
  shows "(\<forall>s \<in> set (k_steps k'). \<not> (st_status s = SQueued \<and> st_capability_id s = LOCAL_CODING_CAPABILITY_ID))
    \<and> (\<forall>a \<in> set (k_attempts k'). \<not> runs_remotely k' a) \<and> keeps k k'"
proof -
  from ok obtain k1 where
    1: "forE (cancel_queued_coding cx now) (queued_coding_steps k) k = Inr k1"
    and 2: "forE (request_pause_cancellation cx now) (remote_leased_steps k1) k1 = Inr k'"
    unfolding request_active_remote_work_cancellations_tx_def bindE_Inr_iff by blast
  let ?Q1 = "\<lambda>x u. \<forall>s \<in> set (k_steps u). st_step_id s = snd x \<longrightarrow> st_status s \<noteq> SQueued"
  let ?Q2 = "\<lambda>x u. \<forall>a \<in> set (k_attempts u). at_step_id a = snd x \<longrightarrow> at_status a \<noteq> ALeased"
  have q1: "\<forall>x \<in> set (queued_coding_steps k). ?Q1 x k1"
  proof (rule forE_each [OF 1, where I = "\<lambda>u. lease_inv u" and Q = ?Q1])
    fix x u v assume u: "lease_inv u" "cancel_queued_coding cx now x u = Inr v"
    obtain t i where x: "x = (t, i)" by (cases x)
    note kv = cancel_queued_coding_keeps [of cx now t i u v]
    show "lease_inv v \<and> ?Q1 x v \<and> (\<forall>y. ?Q1 y u \<longrightarrow> ?Q1 y v)"
      using u cancel_queued_coding_ok [OF u] kv keeps_queued [of u v] unfolding x pause_ok_def by auto
  qed (rule inv)
  have k1: "keeps k k1"
    by (rule forE_invariant [OF 1, where P = "keeps k"])
      (auto intro: keeps_refl keeps_trans dest: cancel_queued_coding_keeps)
  have inv1: "lease_inv k1"
    using forE_pause_ok [OF 1 inv] cancel_queued_coding_ok by (auto simp: pause_ok_def)
  have q2: "\<forall>x \<in> set (remote_leased_steps k1). ?Q2 x k'"
  proof (rule forE_each [OF 2, where I = "\<lambda>u. lease_inv u" and Q = ?Q2])
    fix x u v assume u: "lease_inv u" "request_pause_cancellation cx now x u = Inr v"
    obtain t i where x: "x = (t, i)" by (cases x)
    note kv = request_pause_cancellation_keeps [of u cx now t i v]
    show "lease_inv v \<and> ?Q2 x v \<and> (\<forall>y. ?Q2 y u \<longrightarrow> ?Q2 y v)"
      using u request_pause_cancellation_ok [OF u] kv keeps_leased [of u v] unfolding x pause_ok_def by auto
  qed (rule inv1)
  have "keeps k1 k' \<and> lease_inv k'"
  proof (rule forE_invariant [OF 2, where P = "\<lambda>u. keeps k1 u \<and> lease_inv u"])
    show "keeps k1 k1 \<and> lease_inv k1" using keeps_refl inv1 by blast
    fix x u v assume u: "keeps k1 u \<and> lease_inv u" "request_pause_cancellation cx now x u = Inr v"
    obtain t i where x: "x = (t, i)" by (cases x)
    show "keeps k1 v \<and> lease_inv v"
      using u request_pause_cancellation_keeps [of u cx now t i v] request_pause_cancellation_ok [of u cx now x v]
      by (auto simp: x pause_ok_def intro: keeps_trans)
  qed
  then have k2: "keeps k1 k'" and inv2: "lease_inv k'" by blast+
  show ?thesis
  proof (intro conjI ballI notI keeps_trans [OF k1 k2])
    fix s assume s: "s \<in> set (k_steps k')" "st_status s = SQueued \<and> st_capability_id s = LOCAL_CODING_CAPABILITY_ID"
    then have s1: "s \<in> set (k_steps k1)" using keeps_queued [OF k2] by blast
    then have "s \<in> set (k_steps k)" using keeps_queued [OF k1] s(2) by blast
    then have "(st_task_id s, st_step_id s) \<in> set (queued_coding_steps k)"
      using s(2) unfolding queued_coding_steps_def by (force simp: set_load_queued_steps)
    with q1 s1 s(2) show False by fastforce
  next
    fix a assume a: "a \<in> set (k_attempts k')" "runs_remotely k' a"
    then have l: "at_status a = ALeased" by (simp add: runs_remotely_def)
    then have a1: "a \<in> set (k_attempts k1)" using keeps_leased [OF k2 a(1)] by blast
    obtain s' where s': "find_step k' (at_step_id a) = Some s'" "remote_capability (st_capability_id s')"
      using a(2) by (auto simp: runs_remotely_def split: option.splits)
    obtain s where s: "find_step k1 (at_step_id a) = Some s" "leased_row s"
      using in_flight_find_step [OF inv1 a1] l by (auto simp: in_flight_def)
    have "grows step_keeps (k_steps k1) (k_steps k')" using k2 by (simp add: keeps_def)
    from grows_row [OF this] find_step_Some [OF s(1)] obtain q where
      q: "q \<in> set (k_steps k')" "step_keeps s q" by blast
    have "distinct (map st_step_id (k_steps k'))" using inv2 by (simp add: lease_inv_def tables_inv_def)
    then have "q = s'"
      using q find_step_Some [OF s'(1)] find_step_Some [OF s(1)] by (metis distinct_map_inj step_keeps_def)
    then have "st_capability_id s = st_capability_id s'" using q(2) by (simp add: step_keeps_def)
    with s' s(2) have cap: "st_status s = SLeased \<and> st_capability_id s \<in> {FIXTURE_REASONING_CAPABILITY_ID,
        MLX_REASONING_CAPABILITY_ID, LOCAL_CODING_CAPABILITY_ID}"
      by (simp add: remote_capability_def leased_row_def)
    have "(st_task_id s, a) \<in> set (attempts_with_task (\<lambda>a. at_status a = ALeased) k1)"
      using a1 l s(1) by (simp add: set_attempts_with_task)
    with cap s(1) have "(st_task_id s, at_step_id a) \<in> set (remote_leased_steps k1)"
      unfolding remote_leased_steps_def by force
    with q2 a(1) l show False by fastforce
  qed
qed

lemma cancelled_by_pause:
  assumes k: "keeps k k'" and none: "\<forall>s \<in> set (k_steps k'). \<not> (st_status s = SQueued \<and> st_capability_id s = c)"
    and s: "s \<in> set (k_steps k)" "st_status s = SQueued" "st_capability_id s = c"
  shows "\<exists>s' \<in> set (k_steps k'). st_step_id s' = st_step_id s \<and> st_status s' = SCancelled"
proof -
  have "grows step_keeps (k_steps k) (k_steps k')" using k by (simp add: keeps_def)
  from grows_row [OF this s(1)] obtain s' where "s' \<in> set (k_steps k')" "step_keeps s s'" by blast
  then show ?thesis using none s by (auto simp: step_keeps_def)
qed

text \<open>
  C26. Entering an emergency pause stops remote work in the same transaction, in every state of the
  kernel's lease invariant, which every operation of the conveyor, of the orchestrator and of the gates
  keeps: each coding step that was queued, as the conveyor's dispatches are, is cancelled, so none is
  queued afterwards; no attempt of a remote capability is leased, each is waiting for a cancellation or
  closed; the kernel is paused and the pause revision has advanced.
\<close>

theorem pause_stops_remote_work:
  assumes inv: "lease_inv k" and unpaused: "k_emergency_paused k = 0"
    and ok: "set_emergency_paused_at cx True now k = Inr k'"
  shows "list_all (\<lambda>s. \<exists>s' \<in> set (k_steps k'). st_step_id s' = st_step_id s \<and> st_status s' = SCancelled)
      (filter (\<lambda>s. st_status s = SQueued \<and> st_capability_id s = LOCAL_CODING_CAPABILITY_ID) (k_steps k))
    \<and> list_all (\<lambda>s. \<not> (st_status s = SQueued \<and> st_capability_id s = LOCAL_CODING_CAPABILITY_ID)) (k_steps k')
    \<and> list_all (\<lambda>a. \<not> runs_remotely k' a) (k_attempts k')
    \<and> k_emergency_paused k' = 1 \<and> k_emergency_pause_revision k < k_emergency_pause_revision k'"
proof -
  obtain k1 where req: "request_active_remote_work_cancellations_tx cx now k = Inr k1"
    and same: "same_work k1 k'" and p: "k_emergency_paused k' = 1"
    and rev: "k_emergency_pause_revision k' = k_emergency_pause_revision k1 + 1"
    by (rule set_emergency_paused_Inr [OF ok]) (use unpaused in auto)
  have "k_emergency_pause_revision k \<le> k_emergency_pause_revision k1"
    using request_cancellations_ok [OF inv req] by (simp add: pause_ok_def advance_def)
  moreover have "runs_remotely k' a = runs_remotely k1 a" for a
    using same by (simp add: runs_remotely_def find_step_def same_work_def)
  moreover have "\<forall>s \<in> set (k_steps k). st_status s = SQueued \<and> st_capability_id s = LOCAL_CODING_CAPABILITY_ID
      \<longrightarrow> (\<exists>s' \<in> set (k_steps k1). st_step_id s' = st_step_id s \<and> st_status s' = SCancelled)"
    using cancelled_by_pause request_cancellations_stop [OF inv req] by blast
  ultimately show ?thesis
    using request_cancellations_stop [OF inv req] same p rev by (simp add: same_work_def list_all_iff)
qed

text \<open>A pause while the coding step of a dispatch is queued.\<close>

definition sample_dispatched :: kernel where
  "sample_dispatched = sample_kernel\<lparr>k_steps :=
     [(queued_row sample_codec sample_step 110)\<lparr>st_capability_id := LOCAL_CODING_CAPABILITY_ID\<rparr>]\<rparr>"

lemma sample_dispatched_inv: "lease_inv sample_dispatched"
  by (simp add: sample_dispatched_def sample_kernel_def new_kernel_def lease_inv_def tables_inv_def queued_row_def
      leased_row_def count_rows_def)

lemma sample_dispatched_log: "log_ok 2 sample_dispatched" "k_emergency_paused sample_dispatched = 0"
  by (simp_all add: log_ok_def sample_dispatched_def sample_kernel_def new_kernel_def)

lemma sample_pause: "\<exists>k'. set_emergency_paused_at sample_codec True 150 sample_dispatched = Inr k'"
proof -
  have q: "queued_coding_steps sample_dispatched = [(20, 21)]"
    by (simp add: queued_coding_steps_def load_queued_steps_def sample_dispatched_def sample_kernel_def new_kernel_def
        queued_row_def sample_step_def)
  obtain k' where "cancel_queued_coding sample_codec 150 (20, 21) sample_dispatched = Inr k'"
      "k_active_lease k' = None" "k_emergency_pause_revision k' = 0" "remote_leased_steps k' = []"
    by (simp add: cancel_queued_coding_def to_i64_def limit_defs count_rows_def Let_def append_sample [of 2]
        sample_dispatched_log)
      (simp add: logged_def update_steps_def sample_dispatched_def sample_kernel_def new_kernel_def queued_row_def
        sample_step_def remote_leased_steps_def attempts_with_task_def)
  then show ?thesis
    by (simp add: set_emergency_paused_at_def emergency_paused_tx_def q Let_def to_i64_def sample_dispatched_log
        request_active_remote_work_cancellations_tx_def suspend_active_clock_def checked_add_u64_def limit_defs)
qed

theorem pause_stops_remote_work_witness:
  "\<exists>k'. set_emergency_paused_at sample_codec True 150 sample_dispatched = Inr k'
     \<and> map (\<lambda>s. (st_step_id s, st_status s)) (k_steps sample_dispatched) = [(21, SQueued)]
     \<and> (\<exists>s \<in> set (k_steps k'). st_step_id s = 21 \<and> st_status s = SCancelled)"
proof -
  obtain k' where k': "set_emergency_paused_at sample_codec True 150 sample_dispatched = Inr k'"
    using sample_pause by blast
  have "map (\<lambda>s. (st_step_id s, st_status s)) (k_steps sample_dispatched) = [(21, SQueued)]"
    "filter (\<lambda>s. st_status s = SQueued \<and> st_capability_id s = LOCAL_CODING_CAPABILITY_ID) (k_steps sample_dispatched)
       = k_steps sample_dispatched"
    "map st_step_id (k_steps sample_dispatched) = [21]"
    by (simp_all add: sample_dispatched_def queued_row_def sample_step_def)
  with pause_stops_remote_work [OF sample_dispatched_inv sample_dispatched_log(2) k'] k'
  show ?thesis by (auto simp: list_all_iff)
qed

section \<open>Restart\<close>

text \<open>
  After the reconciliation that runs when the master starts, no connection is active, no attempt is
  in flight and no step is leased: every interrupted job is queued again or cancelled, and terminal
  work is as it was.
\<close>

theorem restart_leaves_nothing_in_flight:
  assumes ok: "reconcile_interrupted_state cx now (kernel_run cx stream ops) = Inr (k', r)"
  shows "filter con_active (k_connections k') = [] \<and> filter in_flight (k_attempts k') = []
    \<and> filter leased_row (k_steps k') = []
    \<and> grows step_le (k_steps (kernel_run cx stream ops)) (k_steps k')
    \<and> grows attempt_le (k_attempts (kernel_run cx stream ops)) (k_attempts k')"
  using reconcile_interrupted_quiet [OF kernel_run_parts(1) ok]
  by (auto simp: quiet_def list_all_iff filter_empty_conv advance_def)


lemma sample_restart: "\<exists>k' r. reconcile_interrupted_state sample_codec 5000 sample_leased = Inr (k', r)"
proof -
  have none: "update_attempts (\<lambda>a. at_status a = ACancellationPending) (AttemptDeadline 5000) sample_leased
      = sample_leased"
    unfolding update_attempts_def by (simp add: update_rows_none)
  have rec: "reconcile_cancellation_deadlines_tx sample_codec 5000 sample_leased = Inr (sample_leased, 0)"
    by (simp add: reconcile_cancellation_deadlines_tx_def to_i64_def i64_max_def attempts_with_task_def
        cancellation_overdue_def)
  have steps: "leased_steps sample_leased None = [(20, 21)]"
    by (simp add: leased_steps_def attempts_with_task_def find_step_def queued_row_def sample_step_def)
  have conns: "active_connections sample_leased = [(1, 1)]" by (simp add: active_connections_def)
  show ?thesis
    by (simp add: reconcile_interrupted_state_def none rec steps conns Let_def to_i64_def i64_max_def
        close_connection_def count_rows_def requeue_steps_def requeue_step_def queued_row_def sample_step_def
        append_sample [of 3] append_sample [of 4] sample_log del: One_nat_def)
qed

theorem restart_leaves_nothing_in_flight_witness:
  "\<exists>k' r. reconcile_interrupted_state sample_codec 5000 (kernel_run sample_codec 7 sample_ops) = Inr (k', r)
     \<and> filter in_flight (k_attempts k') = []"
proof -
  obtain k' r where "reconcile_interrupted_state sample_codec 5000 (kernel_run sample_codec 7 sample_ops) = Inr (k', r)"
    using sample_restart by (auto simp: sample_run)
  with restart_leaves_nothing_in_flight [OF this] show ?thesis by blast
qed

section \<open>Pages of events\<close>

lemma sort_key_sorted_map: "sorted (map f xs) \<Longrightarrow> sort_key f xs = xs"
proof (induction xs)
  case (Cons x xs)
  then show ?case by (simp add: insort_is_Cons)
qed simp

lemma filter_above: "filter (\<lambda>i. a < i) [1..<Suc n] = [Suc a..<Suc n]"
proof (induction n)
  case (Suc n)
  then show ?case by (cases "a < Suc n") (auto simp: upt_Suc)
qed simp

lemma event_page_sequences:
  assumes "map er_sequence (k_events k) = [1..<Suc (k_next_sequence k)]"
  shows "map (\<lambda>e. cur_sequence (ev_cursor e)) (event_page k a m)
    = take m [Suc a..<Suc (k_next_sequence k)]"
proof -
  let ?rows = "filter (\<lambda>r. a < er_sequence r) (k_events k)"
  have rows: "map er_sequence ?rows = [Suc a..<Suc (k_next_sequence k)]"
    using filter_above [of a "k_next_sequence k"] assms by (metis (mono_tags, lifting) filter_cong filter_map comp_apply)
  then have "sorted (map er_sequence ?rows)" by (simp del: upt_Suc)
  then have "sort_key er_sequence ?rows = ?rows" by (rule sort_key_sorted_map)
  then have "map (\<lambda>e. cur_sequence (ev_cursor e)) (event_page k a m) = take m (map er_sequence ?rows)"
    by (simp add: event_page_def event_of_row_def take_map [symmetric] comp_def)
  then show ?thesis by (simp only: rows)
qed

lemma cut_page:
  assumes seqs: "map g page = take (Suc m) [Suc a..<Suc n]"
  shows "length page = min (n - a) (Suc m)"
    and "map g (if length page > m then take m page else page) = [Suc a..<Suc (min n (a + m))]"
proof -
  have "length (map g page) = length (take (Suc m) [Suc a..<Suc n])" using seqs by (rule arg_cong)
  then show len: "length page = min (n - a) (Suc m)" by (simp del: upt_Suc)
  show "map g (if length page > m then take m page else page) = [Suc a..<Suc (min n (a + m))]"
  proof (cases "length page > m")
    case True
    then have "map g (take m page) = take m [Suc a..<Suc n]"
      using seqs by (simp add: take_map [symmetric] del: upt_Suc)
    also have "\<dots> = [Suc a..<Suc (min n (a + m))]" using True len by (simp add: take_upt del: upt_Suc)
    finally show ?thesis using True by simp
  next
    case False
    then have "n - a \<le> m" using len by auto
    then show ?thesis using seqs False by (simp add: min_def del: upt_Suc)
  qed
qed

lemma last_of_range:
  assumes "map g xs = [Suc a..<Suc q]" "a \<le> q"
  shows "(if xs = [] then a else g (last xs)) = q"
proof (cases "xs = []")
  case True
  then have "[Suc a..<Suc q] = []" using assms(1) by (simp del: upt_Suc)
  then have "q \<le> a" by (simp only: upt_eq_Nil_conv) simp
  with assms(2) True show ?thesis by simp
next
  case False
  then have "g (last xs) = last [Suc a..<Suc q]" using assms(1) by (metis last_map)
  moreover have "a < q"
    using False assms by (metis le_neq_implies_less list.map_disc_iff upt_rec lessI less_irrefl)
  ultimately show ?thesis using False by simp
qed

text \<open>
  A page of distributed events holds exactly the next events after the reader's cursor, in order and
  without a gap, up to the requested limit; the cursor it returns is the last event's, and it says
  that more remain exactly when they do.
\<close>

theorem event_pages_are_complete:
  assumes ok: "distributed_events cx (kernel_run cx stream ops) request = Inr b"
  shows "let n = k_next_sequence (kernel_run cx stream ops);
             a = (case br_after request of None \<Rightarrow> 0 | Some c \<Rightarrow> cur_sequence c) in
    a \<le> n
    \<and> map (\<lambda>e. cur_sequence (ev_cursor e)) (eb_events b) = [Suc a..<Suc (min n (a + br_limit request))]
    \<and> eb_next_sequence b = min n (a + br_limit request)
    \<and> (eb_has_more b \<longleftrightarrow> a + br_limit request < n)"
proof -
  let ?k = "kernel_run cx stream ops"
  let ?n = "k_next_sequence ?k" and ?m = "br_limit request"
  define a where "a = (case br_after request of None \<Rightarrow> 0 | Some c \<Rightarrow> cur_sequence c)"
  define page where "page = event_page ?k a (?m + 1)"
  define events where "events = (if length page > ?m then take ?m page else page)"
  have an: "a \<le> ?n" and m: "0 < ?m"
    and b: "eb_events b = events" "eb_has_more b = (length page > ?m)"
      "eb_next_sequence b = (if events = [] then a else cur_sequence (ev_cursor (last events)))"
    using ok
    by (auto simp: distributed_events_def bindE_Inr_iff Let_def a_def page_def events_def protocol_result_Inr
        validate_batch_request_def validate_positive_limit_Inr reject_if_Inr_iff
        split: option.splits)
  have seqs: "map (\<lambda>e. cur_sequence (ev_cursor e)) page = take (Suc ?m) [Suc a..<Suc ?n]"
    unfolding page_def Suc_eq_plus1 [of ?m] by (rule event_page_sequences) (rule kernel_run_parts)
  note len = cut_page(1) [OF seqs] and ev = cut_page(2) [OF seqs, folded events_def]
  have "eb_next_sequence b = min ?n (a + ?m)"
    using last_of_range [OF ev] an b(3) by simp
  with an ev b(1,2) len show ?thesis by (auto simp: Let_def a_def [symmetric] simp del: upt_Suc)
qed

definition sample_request :: event_batch_request where
  "sample_request =
     \<lparr>br_protocol_version = 5, br_connection_epoch = 1,
      br_after = Some \<lparr>cur_stream_id = 7, cur_sequence = 1\<rparr>, br_limit = 10\<rparr>"

lemma sample_events: "\<exists>b. distributed_events sample_codec sample_leased sample_request = Inr b"
proof -
  have "event_page sample_leased 1 11
      = [event_of_row 7 \<lparr>er_sequence = 2, er_occurred_at_ms = 110, er_kind = StepQueued, er_task_id = Some 20,
            er_step_id = Some 21, er_device_id = None, er_connection_epoch = None\<rparr>,
         event_of_row 7 \<lparr>er_sequence = 3, er_occurred_at_ms = 120, er_kind = StepLeased, er_task_id = Some 20,
            er_step_id = Some 21, er_device_id = Some 1, er_connection_epoch = Some 1\<rparr>]"
    by (simp add: event_page_def sample_leased_def sample_kernel_def new_kernel_def)
  then show ?thesis
    by (simp add: distributed_events_def sample_request_def validate_batch_request_def validator_defs
        PROTOCOL_VERSION_def MAX_DISTRIBUTED_EVENTS_PER_BATCH_def validate_cursor_def validate_wire_limit_def
        to_i64_def limit_defs protocol_result_def event_of_row_def Let_def validate_event_batch_def
        check_batch_event_def validate_event_def identity_matches_def checked_add_u64_def)
qed

theorem event_pages_are_complete_witness:
  "\<exists>b. distributed_events sample_codec (kernel_run sample_codec 7 sample_ops) sample_request = Inr b
     \<and> map (\<lambda>e. cur_sequence (ev_cursor e)) (eb_events b) = [2, 3]"
proof -
  obtain b where "distributed_events sample_codec (kernel_run sample_codec 7 sample_ops) sample_request = Inr b"
    using sample_events by (auto simp: sample_run)
  with event_pages_are_complete [OF this] show ?thesis
    by (auto simp: sample_run sample_request_def Let_def upt_rec)
qed

end
