(* ===== verification/Wire_Lengths.thy ===== *)
theory Wire_Lengths
  imports Coding_Packet
begin

text \<open>
  How long canonical JSON can be: bounds for arrays, objects, numbers and digests, and \<open>members_room\<close>,
  a bound for an object of scalar members when a quoted string takes at most six bytes per byte of the
  string, as JSON's escapes do.
\<close>

section \<open>Lengths of canonical documents\<close>

lemma length_join_texts: "length (join_texts xs) \<le> sum_list (map (\<lambda>x. Suc (length x)) xs)"
  by (induction xs rule: join_texts.induct) auto

lemma length_canonical_array:
  "length (canonical_json_bytes quote (JArray vs))
     \<le> 2 + sum_list (map (\<lambda>v. Suc (length (canonical_json_bytes quote v))) vs)"
  using length_join_texts [of "map (canonical_json_bytes quote) vs"] by (simp add: comp_def)

lemma length_canonical_object:
  "length (canonical_json_bytes quote (JObject kvs))
     \<le> 2 + sum_list (map (\<lambda>(k, v). length (quote k) + 2 + length (canonical_json_bytes quote v)) kvs)"
proof -
  let ?kvs = "map (\<lambda>(k, v). (k, canonical_json_bytes quote v)) kvs"
  let ?w = "\<lambda>(k, text). quote k @ '':'' @ text"
  have "length (join_texts (map ?w (sort_key fst ?kvs)))
      \<le> sum_list (map (\<lambda>x. Suc (length (?w x))) (sort_key fst ?kvs))"
    using length_join_texts [of "map ?w (sort_key fst ?kvs)"] by (simp add: comp_def)
  also have "\<dots> = sum_mset (image_mset (\<lambda>x. Suc (length (?w x))) (mset (sort_key fst ?kvs)))"
    by (simp only: mset_map [symmetric] sum_mset_sum_list)
  also have "\<dots> = sum_list (map (\<lambda>x. Suc (length (?w x))) ?kvs)"
    by (simp only: mset_sort mset_map [symmetric] sum_mset_sum_list)
  finally show ?thesis by (simp add: comp_def case_prod_unfold)
qed

lemma length_nat_text: "n < 10 ^ Suc k \<Longrightarrow> length (nat_text n) \<le> Suc k"
proof (induction k arbitrary: n)
  case 0
  then show ?case by (subst nat_text.simps) simp
next
  case (Suc k)
  then have "n div 10 < 10 ^ Suc k" by (simp add: less_mult_imp_div_less mult.commute)
  then show ?case using Suc.IH [of "n div 10"] by (subst nat_text.simps) simp
qed

lemma length_digest_json: "length (canonical_json_bytes quote (digest_json d)) \<le> 130"
proof -
  have "length (nat_text (byte_of b)) \<le> 3" for b
    using length_nat_text [of "byte_of b" 2] byte_of_less [of b] by (simp add: numeral_3_eq_3)
  then have "sum_list (map (\<lambda>b. Suc (length (nat_text (byte_of b)))) (digest_bytes d))
      \<le> sum_list (map (\<lambda>_. 4) (digest_bytes d))"
    by (intro sum_list_mono) (simp add: eval_nat_numeral)
  also have "\<dots> = 128" by (simp add: sum_list_triv)
  finally have "sum_list (map (\<lambda>b. Suc (length (nat_text (byte_of b)))) (digest_bytes d)) \<le> 128" .
  then show ?thesis
    using length_canonical_array [of quote "map (\<lambda>b. JNumber (nat_text (byte_of b))) (digest_bytes d)"]
    unfolding digest_json_def by (simp add: comp_def)
qed

section \<open>Objects of scalars\<close>

definition quote_bounded :: "(string \<Rightarrow> string) \<Rightarrow> bool" where
  "quote_bounded quote = (\<forall>s. length (quote s) \<le> 6 * length s + 2)"

fun room :: "json \<Rightarrow> nat option" where
  "room JNull = Some 4"
| "room (JBool b) = Some 5"
| "room (JNumber text) = Some (max 20 (length text))"
| "room (JString s) = Some (6 * length s + 2)"
| "room (JArray vs) = None"
| "room (JObject kvs) = None"

fun members_room :: "(string \<times> json) list \<Rightarrow> nat option" where
  "members_room [] = Some 2"
| "members_room ((k, v) # kvs) =
     (case (room v, members_room kvs) of
        (Some a, Some b) \<Rightarrow> Some (6 * length k + 4 + a + b) | _ \<Rightarrow> None)"

lemma room_bound:
  "quote_bounded quote \<Longrightarrow> room v = Some n \<Longrightarrow> length (canonical_json_bytes quote v) \<le> n"
  by (cases v) (auto simp: quote_bounded_def)

lemma members_room_bound:
  assumes q: "quote_bounded quote" and r: "members_room kvs = Some n"
  shows "length (canonical_json_bytes quote (JObject kvs)) \<le> n"
proof -
  have "2 + sum_list (map (\<lambda>(k, v). length (quote k) + 2 + length (canonical_json_bytes quote v)) kvs) \<le> n"
    using r
  proof (induction kvs arbitrary: n)
    case (Cons x kvs)
    obtain k v where x: "x = (k, v)" by (cases x)
    from Cons.prems obtain a b where ab: "room v = Some a" "members_room kvs = Some b"
      "n = 6 * length k + 4 + a + b"
      by (auto simp: x split: option.splits)
    have "length (quote k) \<le> 6 * length k + 2" using q by (simp add: quote_bounded_def)
    with Cons.IH [OF ab(2)] room_bound [OF q ab(1)] show ?case by (simp add: x ab(3))
  qed simp
  with length_canonical_object [of quote kvs] show ?thesis by linarith
qed

lemma room_nat_text: "n \<le> u64_max \<Longrightarrow> room (JNumber (nat_text n)) = Some 20"
  using length_nat_text [of n 19] by (simp add: u64_max_def max_absorb1)

end
