(* ===== verification/Coding_Completion.thy ===== *)
theory Coding_Completion
  imports Coding_Artifact Wire_Lengths
begin

text \<open>
  What a completed coding job is bound to: the accepted artifact is the one document that
  \<^verbatim>\<open>build_local_coding_patch_artifact\<close> writes for the job's packet, and the accepted result names it.
  The example at the start is a coding job with its packet, artifact and result, on a codec whose
  decoders return exactly these.
\<close>

section \<open>An example\<close>

definition sample_coding_request :: coding_request where
  "sample_coding_request =
     \<lparr>cr_feature_id = 50, cr_specification_revision = 1, cr_lifecycle_revision = 1,
      cr_feature_lease_id = 51, cr_snapshot_id = 52, cr_snapshot_sha256 = 53,
      cr_work_packet_sha256 = 210, cr_work_packet = sample_packet,
      cr_device_id = 1, cr_device_registry_revision = 1, cr_queue_revision = 4,
      cr_emergency_pause_revision = 0\<rparr>"

definition sample_document :: patch_artifact where
  "sample_document = packet_document sample_packet 210"

definition sample_artifact_bytes :: string where
  "sample_artifact_bytes = canonical_json_bytes (\<lambda>_. []) (patch_json sample_document)"

definition sample_coding_job :: job_envelope where
  "sample_coding_job =
     \<lparr>job_protocol_version = 5, job_connection_epoch = 1, job_sequence = 1, job_task_id = 20,
      job_step_id = 21, job_attempt_id = 31, job_lease_id = 32, job_cancellation_id = 33,
      job_capability_id = LOCAL_CODING_CAPABILITY_ID, job_selected_model = LOCAL_CODING_MODEL,
      job_sensitivity = Workspace, job_context_handling = SealedUntilResolvedOrExpired,
      job_lease_duration_ms = 1000, job_deadline_after_ms = 1000, job_context_sha256 = 210,
      job_context = JObject []\<rparr>"

definition sample_coding_result :: coding_result where
  "sample_coding_result =
     \<lparr>cres_status = LOCAL_CODING_COMPLETED_STATUS,
      cres_work_packet_sha256 = 210,
      cres_admission_sha256 = 210,
      cres_snapshot_sha256 = 53,
      cres_allowed_paths_sha256 = 210,
      cres_changed_paths_sha256 = 210,
      cres_patch_sha256 = 210,
      cres_artifact_id = 60,
      cres_artifact_sha256 = 210,
      cres_artifact_size_bytes = length sample_artifact_bytes,
      cres_changed_file_count = 2,
      cres_test_status = LOCAL_CODING_FIXTURE_TEST_STATUS,
      cres_mutation_performed = True, cres_workspace_retained = True,
      cres_workspace_expires_at_ms = 5000, cres_ambiguous = False\<rparr>"

definition digest_codec :: codec where
  "digest_codec = sample_codec \<lparr>quote_json := \<lambda>_. [], sha256 := \<lambda>_. 210\<rparr>"

definition coding_codec :: codec where
  "coding_codec = digest_codec
     \<lparr>json_tokens := \<lambda>_. Some JNull, decode_patch := \<lambda>_. Some sample_document,
      decode_coding_request := \<lambda>_. Some sample_coding_request,
      decode_coding_result := \<lambda>_. Some sample_coding_result\<rparr>"

definition sample_result_artifact :: result_artifact where
  "sample_result_artifact =
     \<lparr>ra_artifact_id = 60, ra_artifact_sha256 = 210,
      ra_artifact_size_bytes = length sample_artifact_bytes,
      ra_artifact_hex = hex_lower sample_artifact_bytes\<rparr>"

definition sample_coding_answer :: job_result where
  "sample_coding_answer =
     \<lparr>res_protocol_version = 5, res_connection_epoch = 1, res_sequence = 2, res_task_id = 20,
      res_step_id = 21, res_attempt_id = 31, res_lease_id = 32, res_cancellation_id = 33,
      res_status = ResCompleted, res_context_sha256 = 210, res_payload_sha256 = 210,
      res_payload = JObject []\<rparr>"

lemma coding_codec_fields [simp]:
  "wire_bytes coding_codec v = []" "json_bytes coding_codec j = []"
  "quote_json coding_codec = (\<lambda>_. [])" "sha256 coding_codec s = 210"
  "json_tokens coding_codec s = Some JNull" "decode_patch coding_codec t = Some sample_document"
  "decode_coding_request coding_codec t = Some sample_coding_request"
  "decode_coding_result coding_codec t = Some sample_coding_result"
  by (simp_all add: coding_codec_def digest_codec_def sample_codec_def)

lemma sample_packet_valid: "validate_work_packet coding_codec sample_packet = Inr ()"
proof -
  have "validate_work_packet digest_codec sample_packet = Inr ()" by code_simp
  moreover have "check_operation coding_codec = check_operation digest_codec"
    by (simp add: fun_eq_iff check_operation_def validate_operation_def validate_write_arguments_def
        coding_codec_def digest_codec_def split: edit_operation.split)
  ultimately show ?thesis
    by (simp add: validate_work_packet_def validate_wire_limit_def coding_codec_def digest_codec_def)
qed

lemma sample_packet_canonical: "canonical_sha256 coding_codec sample_packet = Inr 210"
  using sample_packet_valid by (simp add: canonical_sha256_def)

lemma sample_bytes_bounded: "sample_artifact_bytes \<noteq> []" "length sample_artifact_bytes \<le> 65536"
proof -
  show "sample_artifact_bytes \<noteq> []" by (simp add: sample_artifact_bytes_def patch_json_def)
  let ?len = "\<lambda>v. length (canonical_json_bytes (\<lambda>_. []) v)"
  note digest = length_digest_json [of "\<lambda>_. []"]
  show "length sample_artifact_bytes \<le> 65536"
  proof -
    have ops: "?len (operation_json op) \<le> 2000" if "op \<in> set (wp_operations sample_packet)" for op
      using that digest [of 5] digest [of 210]
      by (auto simp: sample_packet_def operation_json_def
          intro!: order_trans [OF length_canonical_object])
    have "sum_list (map (\<lambda>v. Suc (?len v)) (map operation_json (wp_operations sample_packet))) \<le> 5000"
      using ops [of "wp_operations sample_packet ! 0"] ops [of "wp_operations sample_packet ! 1"]
      by (simp add: sample_packet_def)
    then have changes: "?len (JArray (map operation_json (wp_operations sample_packet))) \<le> 6000"
      using length_canonical_array [of "\<lambda>_. []" "map operation_json (wp_operations sample_packet)"] by linarith
    show ?thesis
      unfolding sample_artifact_bytes_def patch_json_def
      by (rule order_trans [OF length_canonical_object])
        (use changes digest [of 210] in \<open>simp add: sample_document_def packet_document_def\<close>)
  qed
qed

lemma sample_patch_valid:
  "validate_patch_artifact coding_codec sample_artifact_bytes = Inr 210"
proof -
  have ops: "\<forall>op \<in> set (wp_operations sample_packet). validate_operation coding_codec op = Inr ()"
    "distinct (map operation_path (wp_operations sample_packet))"
    "sum_list (map operation_bytes (wp_operations sample_packet)) \<le> 4096"
    using validate_work_packet_Inr(7,10,11) [OF sample_packet_valid] by simp_all
  show ?thesis
    unfolding validate_patch_artifact_Inr decode_strict_json_Inr
    using ops sample_bytes_bounded
    by (auto simp: sample_document_def packet_document_def patch_bytes_def sample_artifact_bytes_def
        sample_packet_def)
qed

lemma sample_patch_for_packet:
  "validate_patch_for_packet coding_codec sample_artifact_bytes sample_packet = Inr 210"
  using sample_patch_valid sample_packet_canonical
  by (simp add: validate_patch_for_packet_def decode_strict_json_def sample_document_def packet_document_def)

lemma sample_artifact_valid:
  "validate_result_artifact coding_codec sample_result_artifact = Inr sample_artifact_bytes"
  unfolding validate_result_artifact_Inr
  using sample_patch_valid sample_bytes_bounded by (simp add: sample_result_artifact_def)

lemma sample_coding_job_valid:
  "validate_local_coding coding_codec sample_coding_job = Inr sample_coding_request"
proof -
  have "validate_identifier ''capability_id'' LOCAL_CODING_CAPABILITY_ID 64 = Inr ()" by code_simp
  then have job: "validate_job coding_codec sample_coding_job = Inr ()"
    unfolding validate_job_Inr
    by (simp add: sample_coding_job_def LOCAL_CODING_MODEL_def MAX_LEASE_DURATION_MS_def
        MAX_STEP_DEADLINE_MS_def)
  have "validate_coding_request coding_codec sample_coding_request = Inr ()"
    using sample_packet_valid sample_packet_canonical
    by (simp add: validate_coding_request_def validate_dispatch_request_def owner_request_of_def
        sample_coding_request_def result_simps FEATURE_CONVEYOR_OWNER_CONTROL_SCHEMA_VERSION_def
        u64_max_def)
  with job show ?thesis
    by (simp add: validate_local_coding_def) (simp add: sample_coding_job_def)
qed

lemma sample_answer_valid:
  "validate_coding_result coding_codec sample_coding_answer sample_coding_job = Inr ()"
proof -
  have job: "validate_job coding_codec sample_coding_job = Inr ()"
    using sample_coding_job_valid by (simp add: validate_local_coding_def bindE_Inr_iff)
  have "validate_result coding_codec sample_coding_answer = Inr ()"
    by (simp add: validate_result_def result_simps sample_coding_answer_def PROTOCOL_VERSION_def)
  with job have "result_for_job coding_codec sample_coding_answer sample_coding_job = Inr ()"
    by (simp add: result_for_job_def sample_coding_answer_def sample_coding_job_def)
  moreover have "local_coding_admission_sha256 coding_codec sample_coding_job = 210"
    by (simp add: local_coding_admission_sha256_def)
  moreover have "allowed_paths_sha256 coding_codec (cr_work_packet sample_coding_request) = Inr 210"
    using sample_packet_valid
    by (simp add: allowed_paths_sha256_def local_coding_paths_sha256_def sample_coding_request_def)
  ultimately show ?thesis
    using sample_coding_job_valid sample_bytes_bounded
    by (simp add: validate_coding_result_def sample_coding_result_def result_simps
        MAX_LOCAL_CODING_RESULT_ARTIFACT_BYTES_def)
      (simp add: sample_coding_answer_def sample_coding_request_def sample_packet_def)
qed

lemma sample_completion:
  "completion_for_job coding_codec sample_coding_answer sample_result_artifact sample_coding_job = Inr ()"
proof -
  have "cr_work_packet sample_coding_request = sample_packet" by (simp add: sample_coding_request_def)
  then show ?thesis
    using sample_answer_valid sample_artifact_valid sample_coding_job_valid sample_patch_for_packet
    by (simp add: completion_for_job_def result_simps)
      (simp add: sample_coding_result_def sample_result_artifact_def)
qed

section \<open>Properties\<close>

text \<open>
  Artifacts and packets correspond one to one: when the strict reader inverts the writer on the
  packet's own document, the bytes that validate for a packet are exactly the bytes that
  \<^verbatim>\<open>build_local_coding_patch_artifact\<close> returns for it, and the digest is theirs. A second encoding of the
  same changes, or the changes of another packet, never validate.
\<close>

theorem accepted_artifact_is_built:
  assumes law: "\<forall>h. canonical_sha256 cx p = Inr h \<longrightarrow>
    decode_strict_json cx ''local_coding_result_artifact'' (decode_patch cx)
      (patch_bytes cx (packet_document p h)) = Inr (packet_document p h)"
  shows "validate_patch_for_packet cx bytes p = Inr d
    \<longleftrightarrow> build_patch_artifact cx p = Inr bytes \<and> d = sha256 cx bytes"
proof
  assume ok: "validate_patch_for_packet cx bytes p = Inr d"
  then have "validate_patch_artifact cx bytes = Inr d"
    by (auto simp: validate_patch_for_packet_def bindE_Inr_iff)
  with patch_for_packet_canonical [OF ok] show "build_patch_artifact cx p = Inr bytes \<and> d = sha256 cx bytes"
    by (auto simp: build_patch_artifact_def packet_document_def)
next
  assume built: "build_patch_artifact cx p = Inr bytes \<and> d = sha256 cx bytes"
  then obtain h where h: "canonical_sha256 cx p = Inr h" "bytes = patch_bytes cx (packet_document p h)"
    and v: "validate_patch_artifact cx bytes = Inr (sha256 cx bytes)"
    by (auto simp: build_patch_artifact_def Let_def bindE_Inr_iff packet_document_def
        validate_patch_artifact_Inr)
  with law built show "validate_patch_for_packet cx bytes p = Inr d"
    by (simp add: validate_patch_for_packet_def) (simp add: packet_document_def)
qed

theorem accepted_artifact_is_built_witness:
  "build_patch_artifact coding_codec sample_packet = Inr sample_artifact_bytes"
proof -
  have "\<forall>h. canonical_sha256 coding_codec sample_packet = Inr h \<longrightarrow>
    decode_strict_json coding_codec ''local_coding_result_artifact'' (decode_patch coding_codec)
      (patch_bytes coding_codec (packet_document sample_packet h)) = Inr (packet_document sample_packet h)"
    using sample_packet_canonical by (simp add: decode_strict_json_def sample_document_def)
  from accepted_artifact_is_built [OF this, of sample_artifact_bytes 210] sample_patch_for_packet
  show ?thesis by simp
qed

text \<open>
  C32. An accepted completion is exactly the work that was asked for: the artifact is the canonical
  document of the job's own packet, the result names that artifact, the admission digest of this very
  attempt and one changed file for each operation of the packet, and it carries the job's identifiers
  and a later sequence number.
\<close>

theorem accepted_completion_is_the_packet:
  assumes "completion_for_job cx r a j = Inr ()"
  shows "\<exists>request bytes result. validate_local_coding cx j = Inr request
    \<and> build_patch_artifact cx (cr_work_packet request) = Inr bytes
    \<and> ra_artifact_hex a = hex_lower bytes \<and> ra_artifact_sha256 a = sha256 cx bytes
    \<and> decode_coding_result cx (res_payload r) = Some result
    \<and> cres_artifact_id result = ra_artifact_id a \<and> cres_artifact_sha256 result = sha256 cx bytes
    \<and> cres_admission_sha256 result = local_coding_admission_sha256 cx j
    \<and> cres_changed_file_count result = length (wp_operations (cr_work_packet request))
    \<and> res_status r = ResCompleted
    \<and> result_identity r = job_identity j \<and> job_sequence j < res_sequence r"
proof -
  from assms obtain bytes result request digest where
    v: "validate_coding_result cx r j = Inr ()" "validate_result_artifact cx a = Inr bytes"
    and d: "decode_coding_result cx (res_payload r) = Some result"
    and q: "validate_local_coding cx j = Inr request"
    and n: "cres_artifact_id result = ra_artifact_id a" "cres_artifact_sha256 result = ra_artifact_sha256 a"
    and p: "validate_patch_for_packet cx bytes (cr_work_packet request) = Inr digest"
      "digest = ra_artifact_sha256 a"
    unfolding completion_for_job_def bindE_Inr_iff reject_if_Inr_iff ok_or_Inr_iff by auto
  from v(1) q d obtain allowed where
    r: "result_for_job cx r j = Inr ()" "res_status r = ResCompleted"
      "cres_admission_sha256 result = local_coding_admission_sha256 cx j"
      "allowed_paths_sha256 cx (cr_work_packet request) = Inr allowed"
      "cres_changed_file_count result = length (wp_allowed_paths (cr_work_packet request))"
    unfolding validate_coding_result_def Let_def bindE_Inr_iff reject_if_Inr_iff ok_or_Inr_iff by auto
  then have "validate_work_packet cx (cr_work_packet request) = Inr ()"
    by (auto simp: allowed_paths_sha256_def bindE_Inr_iff)
  note packet = validate_work_packet_Inr(9) [OF this]
  from p(1) have "validate_patch_artifact cx bytes = Inr digest"
    by (auto simp: validate_patch_for_packet_def bindE_Inr_iff)
  with patch_for_packet_canonical [OF p(1)]
  have "build_patch_artifact cx (cr_work_packet request) = Inr bytes" "digest = sha256 cx bytes"
    by (auto simp: build_patch_artifact_def packet_document_def)
  with v(2) d q n p(2) r packet result_for_job_Inr [OF r(1)] show ?thesis
    unfolding validate_result_artifact_Inr by auto
qed

theorem accepted_completion_is_the_packet_witness:
  "\<exists>bytes. build_patch_artifact coding_codec sample_packet = Inr bytes
    \<and> ra_artifact_hex sample_result_artifact = hex_lower bytes"
  using accepted_completion_is_the_packet [OF sample_completion] sample_coding_job_valid
  by (auto simp: sample_coding_request_def)

text \<open>
  The admission digest of a coding job is taken over an injective transcript: two jobs of one
  protocol version with the same transcript are the same attempt of the same step on the same
  connection and lease, with the same context, sequence and deadlines, so a digest cannot be replayed
  for another attempt.
\<close>

theorem admission_transcript_binds_attempt:
  assumes "job_protocol_version j = job_protocol_version k"
    and "\<forall>n \<in> {job_connection_epoch j, job_sequence j, job_lease_duration_ms j, job_deadline_after_ms j,
      job_connection_epoch k, job_sequence k, job_lease_duration_ms k, job_deadline_after_ms k}. n \<le> u64_max"
    and "admission_transcript j = admission_transcript k"
  shows "job_identity j = job_identity k \<and> job_sequence j = job_sequence k
    \<and> job_context_sha256 j = job_context_sha256 k
    \<and> job_lease_duration_ms j = job_lease_duration_ms k
    \<and> job_deadline_after_ms j = job_deadline_after_ms k"
  by (rule admission_transcript_injective) (use assms in \<open>auto simp: u64_max_def\<close>)

theorem admission_transcript_binds_attempt_witness:
  "admission_transcript sample_coding_job
     \<noteq> admission_transcript (sample_coding_job\<lparr>job_attempt_id := 34\<rparr>)"
  using admission_transcript_binds_attempt
    [of sample_coding_job "sample_coding_job\<lparr>job_attempt_id := 34\<rparr>"]
  by (auto simp: sample_coding_job_def job_identity_def u64_max_def)

end
