(* ===== verification/Kernel_Artifacts.thy ===== *)
theory Kernel_Artifacts
  imports Kernel_Emergency Coding_Completion
begin

text \<open>
  The admission of result artifacts: what \<^verbatim>\<open>finalize_local_coding_result_artifact\<close> has checked and
  stored, and that a retry answers with the original receipt and stores nothing more.
\<close>

section \<open>What admission checks\<close>

lemma validate_admission_tx_Inr:
  "validate_result_artifact_admission_tx cx k d adm now = Inr j \<longleftrightarrow>
     now < adm_workspace_expires_at_ms adm
     \<and> adm_workspace_expires_at_ms adm \<le> saturating_add_u64 now MAX_RETAINED_CODING_WORKSPACE_MS
     \<and> require_emergency_unpaused k = Inr ()
     \<and> (\<exists>a bytes c req. load_attempt k (adm_attempt_id adm) = Some a \<and> at_device_id a = d
        \<and> at_status a = ALeased \<and> now < at_lease_expires_at_ms a \<and> j = at_job a
        \<and> admission_for_job cx adm j = Inr bytes
        \<and> connection_state k d = Inr c \<and> cs_active c \<and> cs_epoch c = adm_connection_epoch adm
        \<and> cs_last_sequence c < adm_sequence adm
        \<and> step_status_tx k (adm_step_id adm) = Inr SLeased
        \<and> validate_local_coding cx j = Inr req
        \<and> coding_job_binding_is_current cx k req (job_step_id j) d = Inr True
        \<and> capability_for_device k d LOCAL_CODING_CAPABILITY_ID = Inr (contract_capability ContractLocalCoding)
        \<and> (count_rows (artifact_collides adm) (k_artifacts k) = 0
           \<or> (artifact_numbers_fit adm req = Inr ()
              \<and> count_rows (same_artifact (admission_row adm d req 0)) (k_artifacts k) = 1
              \<and> count_rows (artifact_collides adm) (k_artifacts k) = 1)))"
  unfolding validate_result_artifact_admission_tx_def Let_def bindE_Inr_iff reject_if_Inr_iff
    protocol_result_Inr ok_or_Inr_iff if_split_eq1
  by (auto simp: not_le not_less)

lemma admission_builds:
  assumes "admission_for_job cx adm j = Inr bytes"
  shows "\<exists>req. validate_local_coding cx j = Inr req \<and> build_patch_artifact cx (cr_work_packet req) = Inr bytes
    \<and> ra_artifact_hex (adm_artifact adm) = hex_lower bytes
    \<and> ra_artifact_sha256 (adm_artifact adm) = sha256 cx bytes"
proof -
  from assms obtain req d where
    "validate_local_coding cx j = Inr req" "validate_result_artifact cx (adm_artifact adm) = Inr bytes"
    and p: "validate_patch_for_packet cx bytes (cr_work_packet req) = Inr d" "d = ra_artifact_sha256 (adm_artifact adm)"
    unfolding admission_for_job_def bindE_Inr_iff reject_if_Inr_iff by auto
  moreover have "validate_patch_artifact cx bytes = Inr d"
    using p(1) by (auto simp: validate_patch_for_packet_def bindE_Inr_iff)
  ultimately show ?thesis
    using patch_for_packet_canonical [OF p(1)]
    by (auto simp: build_patch_artifact_def packet_document_def validate_result_artifact_Inr)
qed

lemma same_artifact_at: "same_artifact (admission_row adm d req t) = same_artifact (admission_row adm d req u)"
  by (simp add: fun_eq_iff same_artifact_def admission_row_def)

lemma same_artifact_self [simp]:
  "same_artifact (admission_row adm d req t) (admission_row adm d req t)"
  "artifact_collides adm (admission_row adm d req t)"
  by (simp_all add: same_artifact_def artifact_collides_def admission_row_def)

lemma same_artifact_collides: "same_artifact (admission_row adm d req t) r \<Longrightarrow> artifact_collides adm r"
  by (simp add: same_artifact_def artifact_collides_def admission_row_def)
    (metis artifact_row.select_convs(1) artifact_row.simps)

text \<open>Everything but the artifacts and the audit of a kernel, as the checks of an admission read it.\<close>

lemma admission_reads:
  assumes "k' = k\<lparr>k_artifacts := rows, k_audit := audit\<rparr>"
  shows "require_emergency_unpaused k' = require_emergency_unpaused k"
    and "load_attempt k' i = load_attempt k i" and "connection_state k' d = connection_state k d"
    and "step_status_tx k' s = step_status_tx k s"
    and "coding_job_binding_is_current cx k' req s d = coding_job_binding_is_current cx k req s d"
    and "capability_for_device k' d c = capability_for_device k d c"
proof -
  have "dispatch_is_current k' req s d = dispatch_is_current k req s d"
    unfolding assms fun_eq_iff dispatch_is_current_def by simp
  then show "coding_job_binding_is_current cx k' req s d = coding_job_binding_is_current cx k req s d"
    unfolding coding_job_binding_is_current_def by (simp add: assms)
qed (simp_all add: assms require_emergency_unpaused_def emergency_paused_tx_def load_attempt_def
      connection_state_def step_status_tx_def find_step_def capability_for_device_def
      registered_capabilities_def)

lemma finalize_Inr:
  assumes "finalize_local_coding_result_artifact cx d adm now k = Inr (k', receipt)"
  shows "\<exists>j req. validate_admission cx adm = Inr ()
    \<and> validate_result_artifact_admission_tx cx k d adm now = Inr j
    \<and> validate_local_coding cx j = Inr req \<and> artifact_numbers_fit adm req = Inr ()
    \<and> receipt = admission_receipt adm
    \<and> (if count_rows (same_artifact (admission_row adm d req now)) (k_artifacts k) \<noteq> 0 then k' = k
       else count_rows (artifact_collides adm) (k_artifacts k) = 0
         \<and> (\<exists>audit. k' = k\<lparr>k_artifacts := k_artifacts k @ [admission_row adm d req now],
                           k_audit := audit\<rparr>))"
proof -
  from assms obtain u v j req where
    1: "validate_admission cx adm = Inr u" "validate_result_artifact_admission_tx cx k d adm now = Inr j"
      "validate_local_coding cx j = Inr req" "artifact_numbers_fit adm req = Inr v"
    and 2: "(if count_rows (same_artifact (admission_row adm d req now)) (k_artifacts k) \<noteq> 0
        then Inr (k, admission_receipt adm)
        else bindE (reject_if ResultArtifactUnavailable (count_rows (artifact_collides adm) (k_artifacts k) \<noteq> 0)) (\<lambda>_.
          bindE (to_i64 now) (\<lambda>_.
          bindE (reject_if Storage
            (ar_artifact_size_bytes (admission_row adm d req now) < 1
             \<or> ar_artifact_size_bytes (admission_row adm d req now) > 65536 \<or> now = 0)) (\<lambda>_.
          bindE (append_audit cx ''result_artifact_admitted'' (Some (adm_feature_id adm)) now
            (artifact_audit cx adm)
            (k\<lparr>k_artifacts := insert_row (admission_row adm d req now) (k_artifacts k)\<rparr>)) (\<lambda>k'.
          Inr (k', admission_receipt adm)))))) = Inr (k', receipt)"
    unfolding finalize_local_coding_result_artifact_def Let_def bindE_Inr_iff protocol_result_Inr by blast
  show ?thesis
    by (rule exI [of _ j], rule exI [of _ req])
      (use 1 2 in \<open>auto simp: bindE_Inr_iff reject_if_Inr_iff insert_row_def split: if_splits
        dest!: append_audit_Inr\<close>)
qed

section \<open>Properties\<close>

text \<open>
  An admitted artifact: it comes from the device of a live lease on its active connection with a
  fresh sequence, its dispatch is still current, its bytes are the canonical document of the packet in
  the attempt's own job, the receipt repeats it, and exactly one stored row carries its identifier or
  its attempt.
\<close>

theorem admitted_artifact_effect:
  assumes ok: "finalize_local_coding_result_artifact cx d adm now k = Inr (k', receipt)"
  shows "\<exists>a c req bytes. load_attempt k (adm_attempt_id adm) = Some a \<and> at_device_id a = d
    \<and> at_status a = ALeased \<and> now < at_lease_expires_at_ms a \<and> k_emergency_paused k = 0
    \<and> connection_state k d = Inr c \<and> cs_active c \<and> cs_epoch c = adm_connection_epoch adm
    \<and> cs_last_sequence c < adm_sequence adm
    \<and> validate_local_coding cx (at_job a) = Inr req
    \<and> coding_job_binding_is_current cx k req (job_step_id (at_job a)) d = Inr True
    \<and> build_patch_artifact cx (cr_work_packet req) = Inr bytes
    \<and> ra_artifact_hex (adm_artifact adm) = hex_lower bytes
    \<and> ra_artifact_sha256 (adm_artifact adm) = sha256 cx bytes
    \<and> receipt = admission_receipt adm
    \<and> count_rows (artifact_collides adm) (k_artifacts k') = 1
    \<and> exists_row (same_artifact (admission_row adm d req now)) (k_artifacts k')"
proof -
  obtain j req where v: "validate_result_artifact_admission_tx cx k d adm now = Inr j"
    and q: "validate_local_coding cx j = Inr req" "receipt = admission_receipt adm"
    and w: "if count_rows (same_artifact (admission_row adm d req now)) (k_artifacts k) \<noteq> 0 then k' = k
       else count_rows (artifact_collides adm) (k_artifacts k) = 0
         \<and> (\<exists>audit. k' = k\<lparr>k_artifacts := k_artifacts k @ [admission_row adm d req now], k_audit := audit\<rparr>)"
    using finalize_Inr [OF ok] by blast
  from v obtain a bytes c req2 where
    a: "load_attempt k (adm_attempt_id adm) = Some a" "at_device_id a = d" "at_status a = ALeased"
      "now < at_lease_expires_at_ms a" "j = at_job a" "require_emergency_unpaused k = Inr ()"
      "admission_for_job cx adm j = Inr bytes" "connection_state k d = Inr c" "cs_active c"
      "cs_epoch c = adm_connection_epoch adm" "cs_last_sequence c < adm_sequence adm"
    and b: "validate_local_coding cx j = Inr req2"
      "coding_job_binding_is_current cx k req2 (job_step_id j) d = Inr True"
    and n: "count_rows (artifact_collides adm) (k_artifacts k) = 0
      \<or> count_rows (artifact_collides adm) (k_artifacts k) = 1"
    unfolding validate_admission_tx_Inr by blast
  have current: "coding_job_binding_is_current cx k req (job_step_id j) d = Inr True" using b q(1) by simp
  have rows: "count_rows (artifact_collides adm) (k_artifacts k') = 1
      \<and> exists_row (same_artifact (admission_row adm d req now)) (k_artifacts k')"
  proof (cases "count_rows (same_artifact (admission_row adm d req now)) (k_artifacts k) = 0")
    case True
    then have "\<exists>audit. k' = k\<lparr>k_artifacts := k_artifacts k @ [admission_row adm d req now], k_audit := audit\<rparr>"
      and "count_rows (artifact_collides adm) (k_artifacts k) = 0" using w by simp_all
    then show ?thesis by (auto simp: exists_row_iff)
  next
    case False
    then obtain r where "r \<in> set (k_artifacts k)" "same_artifact (admission_row adm d req now) r"
      by (auto simp: count_rows_0)
    with n w False same_artifact_collides show ?thesis by (auto simp: exists_row_iff count_rows_0)
  qed
  have "k_emergency_paused k = 0" using a(6) by (simp add: require_emergency_unpaused_Inr)
  moreover obtain req3 where "validate_local_coding cx j = Inr req3"
    "build_patch_artifact cx (cr_work_packet req3) = Inr bytes"
    "ra_artifact_hex (adm_artifact adm) = hex_lower bytes"
    "ra_artifact_sha256 (adm_artifact adm) = sha256 cx bytes"
    using admission_builds [OF a(7)] by blast
  ultimately show ?thesis
    using rows a(1-4,8-11) current q unfolding a(5) by (metis Inr_inject)
qed

section \<open>An admission\<close>

definition sample_admission :: artifact_admission where
  "sample_admission =
     \<lparr>adm_protocol_version = 5, adm_connection_epoch = 1, adm_sequence = 2, adm_task_id = 20,
      adm_step_id = 21, adm_attempt_id = 31, adm_lease_id = 32, adm_cancellation_id = 33,
      adm_context_sha256 = 210, adm_feature_id = 50, adm_feature_lease_id = 51, adm_snapshot_id = 52,
      adm_snapshot_sha256 = 53, adm_work_packet_sha256 = 210, adm_workspace_retained = True,
      adm_workspace_expires_at_ms = 5000, adm_artifact = sample_result_artifact\<rparr>"

definition sample_coding_step :: step_row where
  "sample_coding_step =
     \<lparr>st_task_id = 20, st_step_id = 21, st_status = SLeased, st_capability_id = LOCAL_CODING_CAPABILITY_ID,
      st_sensitivity = Workspace, st_context = JObject [], st_context_sha256 = 210,
      st_lease_duration_ms = 1000, st_deadline_after_ms = 1000, st_created_at_ms = 100,
      st_accepted_payload = None, st_accepted_payload_sha256 = None, st_completed_at_ms = None\<rparr>"

definition sample_dispatch :: dispatch_row where
  "sample_dispatch =
     \<lparr>dp_packet_id = 7, dp_feature_id = 50, dp_specification_revision = 1, dp_lifecycle_revision = 1,
      dp_feature_lease_id = 51, dp_snapshot_id = 52, dp_snapshot_sha256 = 53, dp_work_packet_sha256 = 210,
      dp_work_packet = sample_packet, dp_device_id = 1, dp_device_registry_revision = 1, dp_queue_revision = 4,
      dp_emergency_pause_revision = 0, dp_task_id = 20, dp_step_id = 21, dp_dispatched_at_ms = 100\<rparr>"

definition sample_coding_kernel :: kernel where
  "sample_coding_kernel = (new_kernel 9)
     \<lparr>k_next_connection_epoch := 1,
      k_devices := [\<lparr>dev_device_id = 1, dev_name = ''mac'', dev_role = MacBridge, dev_registry_revision = 1,
        dev_capabilities = [local_coding], dev_revoked = False\<rparr>],
      k_connections := [\<lparr>con_device_id = 1, con_epoch = 1, con_active = True, con_last_sequence = 1,
        con_connected_at_ms = 100, con_disconnected_at_ms = None\<rparr>],
      k_steps := [sample_coding_step],
      k_attempts := [leased_attempt sample_coding_job 1 120 1120],
      k_features := [\<lparr>ft_feature_id = 50, ft_current_specification_revision = 1,
        ft_lifecycle_revision = 1, ft_status = FImplementing, ft_queue_position = 1,
        ft_effect_possible = False, ft_created_at_ms = 90, ft_updated_at_ms = 95\<rparr>],
      k_active_lease := Some \<lparr>fl_feature_id = 50, fl_lease_id = 51, fl_snapshot_id = Some 52,
        fl_claimed_at_ms = 95\<rparr>,
      k_claims := [\<lparr>cl_snapshot_id = 52, cl_snapshot_sha256 = 53, cl_feature_id = 50,
        cl_specification_revision = 1, cl_lease_id = 51, cl_base_commit = replicate 40 CHR ''a'',
        cl_scope_sha256 = 54, cl_provider_id = ''p'', cl_model_id = ''m'',
        cl_grants = \<lparr>gr_registration = 1, gr_cloud_disclosure = 1, gr_autonomous_publication = 1\<rparr>,
        cl_emergency_pause_revision = 0, cl_queue_revision = 3, cl_claimed_at_ms = 95\<rparr>],
      k_queue_revision := 4, k_dispatches := [sample_dispatch]\<rparr>"

lemma sample_admission_valid: "validate_admission coding_codec sample_admission = Inr ()"
  using sample_artifact_valid
  by (simp add: validate_admission_def result_simps sample_admission_def PROTOCOL_VERSION_def u64_max_def)

lemma sample_admission_for_job:
  "admission_for_job coding_codec sample_admission sample_coding_job = Inr sample_artifact_bytes"
proof -
  have "cr_work_packet sample_coding_request = sample_packet" by (simp add: sample_coding_request_def)
  then show ?thesis
    using sample_admission_valid sample_coding_job_valid sample_artifact_valid sample_patch_for_packet
    by (simp add: admission_for_job_def result_simps)
      (simp add: sample_admission_def sample_coding_job_def sample_coding_request_def sample_result_artifact_def)
qed

lemma sample_binding:
  "coding_job_binding_is_current coding_codec sample_coding_kernel sample_coding_request 21 1 = Inr True"
proof -
  have "validate_coding_request coding_codec sample_coding_request = Inr ()"
    using sample_coding_job_valid by (auto simp: validate_local_coding_def result_simps)
  then show ?thesis
    by (simp add: coding_job_binding_is_current_def)
      (simp add: sample_coding_request_def result_simps to_i64_def i64_max_def dispatch_is_current_def
        exists_row_iff sample_coding_kernel_def sample_dispatch_def new_kernel_def)
qed

lemma sample_admission_tx:
  "validate_result_artifact_admission_tx coding_codec sample_coding_kernel 1 sample_admission 200
     = Inr sample_coding_job"
proof -
  have load: "load_attempt sample_coding_kernel 31 = Some (leased_attempt sample_coding_job 1 120 1120)"
    by (simp add: load_attempt_def sample_coding_kernel_def leased_attempt_def sample_coding_job_def)
  have conn: "connection_state sample_coding_kernel 1
      = Inr \<lparr>cs_epoch = 1, cs_active = True, cs_last_sequence = 1\<rparr>"
    by (simp add: connection_state_def sample_coding_kernel_def)
  have step: "step_status_tx sample_coding_kernel 21 = Inr SLeased"
    by (simp add: step_status_tx_def find_step_def sample_coding_kernel_def sample_coding_step_def)
  have cap: "capability_for_device sample_coding_kernel 1 LOCAL_CODING_CAPABILITY_ID
      = Inr (contract_capability ContractLocalCoding)"
    by (simp add: capability_for_device_def registered_capabilities_def sample_coding_kernel_def
        local_coding_def contract_capability_def)
  have job: "at_job (leased_attempt sample_coding_job 1 120 1120) = sample_coding_job"
    "at_device_id (leased_attempt sample_coding_job 1 120 1120) = 1"
    "at_status (leased_attempt sample_coding_job 1 120 1120) = ALeased"
    "at_lease_expires_at_ms (leased_attempt sample_coding_job 1 120 1120) = 1120"
    "job_step_id sample_coding_job = 21"
    by (simp_all add: leased_attempt_def sample_coding_job_def)
  have adm: "adm_attempt_id sample_admission = 31" "adm_step_id sample_admission = 21"
    "adm_connection_epoch sample_admission = 1" "adm_sequence sample_admission = 2"
    "adm_workspace_expires_at_ms sample_admission = 5000"
    by (simp_all add: sample_admission_def)
  have rest: "require_emergency_unpaused sample_coding_kernel = Inr ()" "k_artifacts sample_coding_kernel = []"
    by (simp_all add: require_emergency_unpaused_Inr sample_coding_kernel_def new_kernel_def)
  show ?thesis
    unfolding validate_admission_tx_Inr adm
    using load conn step cap job rest sample_admission_for_job sample_coding_job_valid sample_binding
    by (auto simp: saturating_add_u64_def MAX_RETAINED_CODING_WORKSPACE_MS_def u64_max_def)
qed

lemma sample_finalized:
  "\<exists>k'. finalize_local_coding_result_artifact coding_codec 1 sample_admission 200 sample_coding_kernel
     = Inr (k', admission_receipt sample_admission)"
proof -
  have empty: "k_artifacts sample_coding_kernel = []" by (simp add: sample_coding_kernel_def new_kernel_def)
  have size: "ra_artifact_size_bytes (adm_artifact sample_admission) = length sample_artifact_bytes"
    by (simp add: sample_admission_def sample_result_artifact_def)
  have fit: "artifact_numbers_fit sample_admission sample_coding_request = Inr ()"
    using sample_bytes_bounded
    by (simp add: artifact_numbers_fit_def result_simps size i64_max_def)
      (simp add: sample_admission_def sample_coding_request_def)
  have audit: "\<exists>k'. append_audit coding_codec ''result_artifact_admitted'' f 200
      (artifact_audit coding_codec sample_admission) k = Inr k'" for f k
  proof -
    have "length (nat_text (length sample_artifact_bytes)) \<le> 6"
      using length_nat_text [of "length sample_artifact_bytes" 5] sample_bytes_bounded by simp
    then have "length (canonical_json_bytes (\<lambda>_. []) (artifact_audit coding_codec sample_admission)) \<le> 8192"
      unfolding artifact_audit_def
      by (intro order_trans [OF length_canonical_object]) (simp add: json_nat_def size)
    then show ?thesis
      by (simp add: append_audit_def bindE_Inr_iff reject_if_Inr_iff result_simps i64_max_def)
        (simp add: artifact_audit_def validate_object_def)
  qed
  have row: "ar_artifact_size_bytes (admission_row sample_admission 1 sample_coding_request 200)
      = length sample_artifact_bytes" by (simp add: admission_row_def size)
  show ?thesis
    using sample_admission_valid sample_admission_tx sample_coding_job_valid fit audit sample_bytes_bounded
    by (simp add: finalize_local_coding_result_artifact_def bindE_Inr_iff result_simps Let_def empty row
        i64_max_def)
qed

theorem admitted_artifact_effect_witness:
  "\<exists>k' bytes. finalize_local_coding_result_artifact coding_codec 1 sample_admission 200 sample_coding_kernel
       = Inr (k', admission_receipt sample_admission)
     \<and> build_patch_artifact coding_codec sample_packet = Inr bytes
     \<and> count_rows (artifact_collides sample_admission) (k_artifacts k') = 1"
proof -
  obtain k' where k': "finalize_local_coding_result_artifact coding_codec 1 sample_admission 200 sample_coding_kernel
      = Inr (k', admission_receipt sample_admission)" using sample_finalized by blast
  have "load_attempt sample_coding_kernel (adm_attempt_id sample_admission)
      = Some (leased_attempt sample_coding_job 1 120 1120)"
    by (simp add: load_attempt_def sample_coding_kernel_def leased_attempt_def sample_coding_job_def
        sample_admission_def)
  with admitted_artifact_effect [OF k'] sample_coding_job_valid k' show ?thesis
    by (auto simp: leased_attempt_def sample_coding_request_def)
qed

text \<open>
  An exact retry of an admission is answered with the original receipt and changes nothing, no row
  and no audit entry, for as long as the lease and the retained workspace last: admitting twice is
  admitting once.
\<close>

theorem artifact_admission_is_idempotent:
  assumes ok: "finalize_local_coding_result_artifact cx d adm now k = Inr (k', receipt)"
    and time: "now \<le> now2" "now2 < adm_workspace_expires_at_ms adm"
      "\<forall>a. load_attempt k (adm_attempt_id adm) = Some a \<longrightarrow> now2 < at_lease_expires_at_ms a"
  shows "finalize_local_coding_result_artifact cx d adm now2 k' = Inr (k', receipt)"
proof -
  obtain j req where w: "validate_admission cx adm = Inr ()"
      "validate_result_artifact_admission_tx cx k d adm now = Inr j" "validate_local_coding cx j = Inr req"
      "artifact_numbers_fit adm req = Inr ()" "receipt = admission_receipt adm"
    and rows: "if count_rows (same_artifact (admission_row adm d req now)) (k_artifacts k) \<noteq> 0 then k' = k
       else count_rows (artifact_collides adm) (k_artifacts k) = 0
         \<and> (\<exists>audit. k' = k\<lparr>k_artifacts := k_artifacts k @ [admission_row adm d req now], k_audit := audit\<rparr>)"
    using finalize_Inr [OF ok] by blast
  let ?same = "same_artifact (admission_row adm d req now)"
  have stored: "count_rows ?same (k_artifacts k') = 1 \<and> count_rows (artifact_collides adm) (k_artifacts k') = 1"
  proof (cases "count_rows ?same (k_artifacts k) = 0")
    case True
    then have "\<exists>audit. k' = k\<lparr>k_artifacts := k_artifacts k @ [admission_row adm d req now], k_audit := audit\<rparr>"
      and "count_rows (artifact_collides adm) (k_artifacts k) = 0" using rows by simp_all
    with True show ?thesis by auto
  next
    case False
    then obtain r where "r \<in> set (k_artifacts k)" "?same r" by (auto simp: count_rows_0)
    then have "count_rows (artifact_collides adm) (k_artifacts k) \<noteq> 0"
      using same_artifact_collides [of adm d req now r] by (auto simp: count_rows_0)
    moreover have "count_rows ?same (k_artifacts k) = 1 \<or> count_rows (artifact_collides adm) (k_artifacts k) = 0"
      using w(2,3) same_artifact_at [of adm d req 0 now] unfolding validate_admission_tx_Inr by force
    moreover have "count_rows (artifact_collides adm) (k_artifacts k) \<in> {0, 1}"
      using w(2) unfolding validate_admission_tx_Inr by blast
    ultimately show ?thesis using rows False by auto
  qed
  have "\<exists>artifacts audit. k' = k\<lparr>k_artifacts := artifacts, k_audit := audit\<rparr>"
  proof (cases "count_rows ?same (k_artifacts k) = 0")
    case True
    then show ?thesis using rows by auto
  next
    case False
    then have "k' = k" using rows by simp
    then show ?thesis by (intro exI [of _ "k_artifacts k"] exI [of _ "k_audit k"]) simp
  qed
  then obtain artifacts audit where k': "k' = k\<lparr>k_artifacts := artifacts, k_audit := audit\<rparr>" by blast
  have "validate_result_artifact_admission_tx cx k' d adm now2 = Inr j"
    using w(2-4) time stored
    unfolding validate_admission_tx_Inr admission_reads [OF k'] same_artifact_at [of adm d _ 0 now]
    by (elim conjE exE) (auto simp: saturating_add_u64_def)
  then show ?thesis
    using w stored same_artifact_at [of adm d req now2 now]
    by (simp add: finalize_local_coding_result_artifact_def Let_def protocol_result_def)
qed

theorem artifact_admission_is_idempotent_witness:
  "\<exists>k'. finalize_local_coding_result_artifact coding_codec 1 sample_admission 300 k'
     = Inr (k', admission_receipt sample_admission)"
proof -
  obtain k' where k': "finalize_local_coding_result_artifact coding_codec 1 sample_admission 200 sample_coding_kernel
      = Inr (k', admission_receipt sample_admission)" using sample_finalized by blast
  have "\<forall>a. load_attempt sample_coding_kernel (adm_attempt_id sample_admission) = Some a
      \<longrightarrow> 300 < at_lease_expires_at_ms a"
    by (simp add: load_attempt_def sample_coding_kernel_def leased_attempt_def sample_coding_job_def
        sample_admission_def)
  then show ?thesis
    using artifact_admission_is_idempotent [OF k', of 300] by (auto simp: sample_admission_def)
qed

end
