(* ===== verification/Ipc_Frames.thy ===== *)
theory Ipc_Frames
  imports Coding_Artifact
begin

text \<open>
  The signed frames between the Windows services: \<^verbatim>\<open>WindowsExecutionControlFrame\<close>,
  \<^verbatim>\<open>WindowsExecutionAck\<close> and \<^verbatim>\<open>WindowsBrokerForwardedAcks\<close> of
  \<^verbatim>\<open>assemblywright-protocol/src/lib.rs\<close>. Ed25519 is third-party: \<open>ip_verify key message signature\<close> and
  \<open>ip_sign seed message\<close> are fields of the parameter \<open>ipc\<close>, next to the derived serialisers and
  decoders. Lemmas: what a valid frame satisfies, and what a forwarded frame shares with its carrier.
\<close>

section \<open>Messages\<close>

datatype ipc_endpoint = MasterToBroker | MasterToExecutor
datatype control_kind = Health | ValidateDispatch
datatype ipc_ack_status = HealthyEffectDisabled | DispatchValidatedEffectDisabled

record control_frame =
  xf_schema_version :: nat
  xf_endpoint :: ipc_endpoint
  xf_frame_id :: uuid
  xf_request_sequence :: nat
  xf_nonce :: uuid
  xf_master_id :: uuid
  xf_service_id :: uuid
  xf_session_id :: uuid
  xf_session_revision :: nat
  xf_child_epoch_id :: uuid
  xf_child_epoch_revision :: nat
  xf_feature_lifecycle_revision :: nat
  xf_authority_revision :: nat
  xf_issued_at_ms :: nat
  xf_expires_at_ms :: nat
  xf_kind :: control_kind
  xf_forwarded_sha256 :: digest
  xf_forwarded :: string
  xf_signer_key_id :: string
  xf_signature :: string

record ipc_ack =
  xa_schema_version :: nat
  xa_endpoint :: ipc_endpoint
  xa_ack_id :: uuid
  xa_frame_id :: uuid
  xa_request_sequence :: nat
  xa_authority_revision :: nat
  xa_frame_sha256 :: digest
  xa_status :: ipc_ack_status
  xa_effects_applied :: nat
  xa_signer_key_id :: string
  xa_signature :: string

record forwarded_acks =
  fa_schema_version :: nat
  fa_broker_ack :: ipc_ack
  fa_executor_ack :: string

definition WINDOWS_EXECUTION_IPC_SCHEMA_VERSION :: nat where
  "WINDOWS_EXECUTION_IPC_SCHEMA_VERSION = 1"
definition MAX_WINDOWS_EXECUTION_IPC_FRAME_BYTES :: nat where
  "MAX_WINDOWS_EXECUTION_IPC_FRAME_BYTES = 96 * 1024"
definition MAX_WINDOWS_EXECUTION_IPC_PAYLOAD_BYTES :: nat where
  "MAX_WINDOWS_EXECUTION_IPC_PAYLOAD_BYTES = 64 * 1024"
definition MAX_EXECUTION_IDENTITY_BYTES :: nat where "MAX_EXECUTION_IDENTITY_BYTES = 128"
definition CONTROL_SIGNATURE_DOMAIN :: string where
  "CONTROL_SIGNATURE_DOMAIN = ''assemblywright.windows-execution-control.v1'' @ [CHR 0x00]"
definition ACK_SIGNATURE_DOMAIN :: string where
  "ACK_SIGNATURE_DOMAIN = ''assemblywright.windows-execution-ack.v1'' @ [CHR 0x00]"

text \<open>
  The third-party functions: \<^verbatim>\<open>serde_json::to_vec\<close> and the derived decoders of each message, and
  the signature scheme.
\<close>

record ipc =
  ip_codec :: codec
  ip_frame_bytes :: "control_frame \<Rightarrow> string"
  ip_ack_bytes :: "ipc_ack \<Rightarrow> string"
  ip_acks_bytes :: "forwarded_acks \<Rightarrow> string"
  ip_decode_frame :: "json \<Rightarrow> control_frame option"
  ip_decode_ack :: "json \<Rightarrow> ipc_ack option"
  ip_decode_acks :: "json \<Rightarrow> forwarded_acks option"
  ip_sign :: "string \<Rightarrow> string \<Rightarrow> string"
  ip_verify :: "string \<Rightarrow> string \<Rightarrow> string \<Rightarrow> bool"

section \<open>Canonical bytes\<close>

definition bytes_json :: "string \<Rightarrow> json" where
  "bytes_json s = JArray (map (\<lambda>b. JNumber (nat_text (byte_of b))) s)"

definition endpoint_json :: "ipc_endpoint \<Rightarrow> json" where
  "endpoint_json e = JString
     (case e of MasterToBroker \<Rightarrow> ''master_to_broker'' | MasterToExecutor \<Rightarrow> ''master_to_executor'')"

definition frame_json :: "codec \<Rightarrow> control_frame \<Rightarrow> json" where
  "frame_json cx f = JObject
     [(''schema_version'', JNumber (nat_text (xf_schema_version f))),
      (''endpoint'', endpoint_json (xf_endpoint f)),
      (''frame_id'', JString (uuid_text cx (xf_frame_id f))),
      (''request_sequence'', JNumber (nat_text (xf_request_sequence f))),
      (''nonce'', JString (uuid_text cx (xf_nonce f))),
      (''master_id'', JString (uuid_text cx (xf_master_id f))),
      (''service_id'', JString (uuid_text cx (xf_service_id f))),
      (''session_id'', JString (uuid_text cx (xf_session_id f))),
      (''session_revision'', JNumber (nat_text (xf_session_revision f))),
      (''child_epoch_id'', JString (uuid_text cx (xf_child_epoch_id f))),
      (''child_epoch_revision'', JNumber (nat_text (xf_child_epoch_revision f))),
      (''feature_lifecycle_revision'', JNumber (nat_text (xf_feature_lifecycle_revision f))),
      (''authority_revision'', JNumber (nat_text (xf_authority_revision f))),
      (''issued_at_ms'', JNumber (nat_text (xf_issued_at_ms f))),
      (''expires_at_ms'', JNumber (nat_text (xf_expires_at_ms f))),
      (''kind'', JString (case xf_kind f of Health \<Rightarrow> ''health'' | ValidateDispatch \<Rightarrow> ''validate_dispatch'')),
      (''forwarded_executor_frame_sha256'', digest_json (xf_forwarded_sha256 f)),
      (''forwarded_executor_frame'', bytes_json (xf_forwarded f)),
      (''signer_key_id'', JString (xf_signer_key_id f)),
      (''signature'', bytes_json (xf_signature f))]"

definition ack_json :: "codec \<Rightarrow> ipc_ack \<Rightarrow> json" where
  "ack_json cx a = JObject
     [(''schema_version'', JNumber (nat_text (xa_schema_version a))),
      (''endpoint'', endpoint_json (xa_endpoint a)),
      (''ack_id'', JString (uuid_text cx (xa_ack_id a))),
      (''frame_id'', JString (uuid_text cx (xa_frame_id a))),
      (''request_sequence'', JNumber (nat_text (xa_request_sequence a))),
      (''authority_revision'', JNumber (nat_text (xa_authority_revision a))),
      (''frame_sha256'', digest_json (xa_frame_sha256 a)),
      (''status'', JString (case xa_status a of HealthyEffectDisabled \<Rightarrow> ''healthy_effect_disabled''
         | DispatchValidatedEffectDisabled \<Rightarrow> ''dispatch_validated_effect_disabled'')),
      (''effects_applied'', JNumber (nat_text (xa_effects_applied a))),
      (''signer_key_id'', JString (xa_signer_key_id a)),
      (''signature'', bytes_json (xa_signature a))]"

definition frame_signing_bytes :: "codec \<Rightarrow> control_frame \<Rightarrow> string" where
  "frame_signing_bytes cx f =
     CONTROL_SIGNATURE_DOMAIN @ canonical_json_bytes (quote_json cx) (frame_json cx (f\<lparr>xf_signature := []\<rparr>))"

definition ack_signing_bytes :: "codec \<Rightarrow> ipc_ack \<Rightarrow> string" where
  "ack_signing_bytes cx a =
     ACK_SIGNATURE_DOMAIN @ canonical_json_bytes (quote_json cx) (ack_json cx (a\<lparr>xa_signature := []\<rparr>))"

section \<open>Control frames\<close>

text \<open>The subtraction is evaluated only when the expiry is later than the issue.\<close>

definition frame_numbers_bad :: "bool \<Rightarrow> control_frame \<Rightarrow> bool" where
  "frame_numbers_bad require_signature f =
     (xf_schema_version f \<noteq> WINDOWS_EXECUTION_IPC_SCHEMA_VERSION
      \<or> xf_request_sequence f = 0
      \<or> xf_session_revision f = 0
      \<or> xf_child_epoch_revision f = 0
      \<or> xf_feature_lifecycle_revision f = 0
      \<or> xf_authority_revision f = 0
      \<or> xf_issued_at_ms f = 0
      \<or> xf_expires_at_ms f \<le> xf_issued_at_ms f
      \<or> xf_expires_at_ms f - xf_issued_at_ms f > 60000
      \<or> (require_signature \<and> length (xf_signature f) \<noteq> 64)
      \<or> (\<not> require_signature \<and> xf_signature f \<noteq> []))"

definition forward_bad :: "codec \<Rightarrow> control_frame \<Rightarrow> bool" where
  "forward_bad cx f =
     (let has_forward = (xf_forwarded f \<noteq> []) in
      has_forward \<noteq> (xf_endpoint f = MasterToBroker \<and> xf_kind f = ValidateDispatch)
      \<or> (\<not> has_forward \<and> xf_forwarded_sha256 f \<noteq> 0)
      \<or> (has_forward \<and> xf_forwarded_sha256 f \<noteq> sha256 cx (xf_forwarded f)))"

definition validate_frame_shape :: "ipc \<Rightarrow> bool \<Rightarrow> control_frame \<Rightarrow> unit validated" where
  "validate_frame_shape ip require_signature f =
     bindE (reject_if InvalidFullMachineAssemblyLine (frame_numbers_bad require_signature f)) (\<lambda>_.
     bindE (validate_uuid ''windows_execution_frame_id'' (xf_frame_id f)) (\<lambda>_.
     bindE (validate_uuid ''windows_execution_nonce'' (xf_nonce f)) (\<lambda>_.
     bindE (validate_uuid ''windows_execution_master_id'' (xf_master_id f)) (\<lambda>_.
     bindE (validate_uuid ''windows_execution_service_id'' (xf_service_id f)) (\<lambda>_.
     bindE (validate_uuid ''windows_execution_session_id'' (xf_session_id f)) (\<lambda>_.
     bindE (validate_uuid ''windows_execution_child_epoch_id'' (xf_child_epoch_id f)) (\<lambda>_.
     bindE (validate_identifier ''windows_execution_signer_key_id'' (xf_signer_key_id f)
              MAX_EXECUTION_IDENTITY_BYTES) (\<lambda>_.
     bindE (reject_if (FrameTooLarge ''forwarded_executor_frame'' MAX_WINDOWS_EXECUTION_IPC_PAYLOAD_BYTES)
       (length (xf_forwarded f) > MAX_WINDOWS_EXECUTION_IPC_PAYLOAD_BYTES)) (\<lambda>_.
     bindE (reject_if InvalidFullMachineAssemblyLine (forward_bad (ip_codec ip) f)) (\<lambda>_.
     validate_serialized_limit ''windows_execution_control_frame'' (ip_frame_bytes ip f)
       MAX_WINDOWS_EXECUTION_IPC_FRAME_BYTES))))))))))"

definition validate_frame :: "ipc \<Rightarrow> control_frame \<Rightarrow> unit validated" where
  "validate_frame ip f = validate_frame_shape ip True f"

definition sign_frame :: "ipc \<Rightarrow> string \<Rightarrow> control_frame \<Rightarrow> control_frame validated" where
  "sign_frame ip key f =
     bindE (validate_frame_shape ip False f) (\<lambda>_.
     (let signed = f\<lparr>xf_signature := ip_sign ip key (frame_signing_bytes (ip_codec ip) f)\<rparr> in
      bindE (validate_frame ip signed) (\<lambda>_. Inr signed)))"

definition verify_frame_signature :: "ipc \<Rightarrow> string \<Rightarrow> control_frame \<Rightarrow> unit validated" where
  "verify_frame_signature ip key f =
     bindE (validate_frame ip f) (\<lambda>_.
     reject_if InvalidFullMachineAssemblyLine
       (\<not> ip_verify ip key (frame_signing_bytes (ip_codec ip) f) (xf_signature f)))"

definition validate_frame_at :: "ipc \<Rightarrow> nat \<Rightarrow> control_frame \<Rightarrow> unit validated" where
  "validate_frame_at ip now_ms f =
     bindE (validate_frame ip f) (\<lambda>_.
     reject_if InvalidFullMachineAssemblyLine (now_ms < xf_issued_at_ms f \<or> now_ms \<ge> xf_expires_at_ms f))"

definition decode_control_frame :: "ipc \<Rightarrow> string \<Rightarrow> control_frame validated" where
  "decode_control_frame ip bytes =
     bindE (decode_strict_and_validate_frame (ip_codec ip) ''windows_execution_control_frame''
              (ip_decode_frame ip) bytes MAX_WINDOWS_EXECUTION_IPC_FRAME_BYTES (validate_frame ip)) (\<lambda>f.
     bindE (reject_if InvalidFullMachineAssemblyLine (ip_frame_bytes ip f \<noteq> bytes)) (\<lambda>_. Inr f))"

definition encode_control_frame :: "ipc \<Rightarrow> control_frame \<Rightarrow> string validated" where
  "encode_control_frame ip f = bindE (validate_frame ip f) (\<lambda>_. Inr (ip_frame_bytes ip f))"

definition frame_canonical_sha256 :: "ipc \<Rightarrow> control_frame \<Rightarrow> digest validated" where
  "frame_canonical_sha256 ip f =
     bindE (validate_frame ip f) (\<lambda>_.
     Inr (sha256 (ip_codec ip)
       (canonical_json_bytes (quote_json (ip_codec ip)) (frame_json (ip_codec ip) f))))"

definition same_authority :: "control_frame \<Rightarrow> control_frame \<Rightarrow> bool" where
  "same_authority executor f =
     (xf_endpoint executor = MasterToExecutor
      \<and> xf_kind executor = ValidateDispatch
      \<and> xf_master_id executor = xf_master_id f
      \<and> xf_session_id executor = xf_session_id f
      \<and> xf_session_revision executor = xf_session_revision f
      \<and> xf_child_epoch_id executor = xf_child_epoch_id f
      \<and> xf_child_epoch_revision executor = xf_child_epoch_revision f
      \<and> xf_feature_lifecycle_revision executor = xf_feature_lifecycle_revision f
      \<and> xf_authority_revision executor = xf_authority_revision f
      \<and> xf_issued_at_ms executor = xf_issued_at_ms f
      \<and> xf_expires_at_ms executor = xf_expires_at_ms f)"

definition forwarded_executor :: "ipc \<Rightarrow> control_frame \<Rightarrow> control_frame option validated" where
  "forwarded_executor ip f =
     bindE (validate_frame ip f) (\<lambda>_.
     if xf_forwarded f = [] then Inr None
     else
       bindE (decode_control_frame ip (xf_forwarded f)) (\<lambda>executor.
       bindE (reject_if InvalidFullMachineAssemblyLine (\<not> same_authority executor f)) (\<lambda>_.
       Inr (Some executor))))"

section \<open>Acknowledgements\<close>

definition validate_ack_shape :: "ipc \<Rightarrow> bool \<Rightarrow> ipc_ack \<Rightarrow> unit validated" where
  "validate_ack_shape ip require_signature a =
     bindE (reject_if InvalidFullMachineAssemblyLine
       (xa_schema_version a \<noteq> WINDOWS_EXECUTION_IPC_SCHEMA_VERSION
        \<or> xa_ack_id a = 0
        \<or> xa_frame_id a = 0
        \<or> xa_request_sequence a = 0
        \<or> xa_authority_revision a = 0
        \<or> xa_frame_sha256 a = 0
        \<or> xa_effects_applied a \<noteq> 0
        \<or> (require_signature \<and> length (xa_signature a) \<noteq> 64)
        \<or> (\<not> require_signature \<and> xa_signature a \<noteq> []))) (\<lambda>_.
     bindE (validate_identifier ''windows_execution_ack_signer_key_id'' (xa_signer_key_id a)
              MAX_EXECUTION_IDENTITY_BYTES) (\<lambda>_.
     validate_serialized_limit ''windows_execution_ack'' (ip_ack_bytes ip a)
       MAX_WINDOWS_EXECUTION_IPC_FRAME_BYTES))"

definition validate_ack :: "ipc \<Rightarrow> ipc_ack \<Rightarrow> unit validated" where
  "validate_ack ip a = validate_ack_shape ip True a"

definition sign_ack :: "ipc \<Rightarrow> string \<Rightarrow> ipc_ack \<Rightarrow> ipc_ack validated" where
  "sign_ack ip key a =
     bindE (validate_ack_shape ip False a) (\<lambda>_.
     (let signed = a\<lparr>xa_signature := ip_sign ip key (ack_signing_bytes (ip_codec ip) a)\<rparr> in
      bindE (validate_ack ip signed) (\<lambda>_. Inr signed)))"

definition expected_status :: "control_kind \<Rightarrow> ipc_ack_status" where
  "expected_status kind =
     (case kind of Health \<Rightarrow> HealthyEffectDisabled | ValidateDispatch \<Rightarrow> DispatchValidatedEffectDisabled)"

text \<open>\<^verbatim>\<open>frame.canonical_sha256()?\<close> is evaluated inside the disjunction, after the first four tests.\<close>

definition verify_ack_for :: "ipc \<Rightarrow> ipc_ack \<Rightarrow> control_frame \<Rightarrow> string \<Rightarrow> string \<Rightarrow> unit validated" where
  "verify_ack_for ip a f expected_key_id key =
     (let bad = InvalidFullMachineAssemblyLine in
      bindE (validate_ack ip a) (\<lambda>_.
      bindE (reject_if bad (\<not> ip_verify ip key (ack_signing_bytes (ip_codec ip) a) (xa_signature a))) (\<lambda>_.
      bindE (reject_if bad
        (xa_endpoint a \<noteq> xf_endpoint f
         \<or> xa_frame_id a \<noteq> xf_frame_id f
         \<or> xa_request_sequence a \<noteq> xf_request_sequence f
         \<or> xa_authority_revision a \<noteq> xf_authority_revision f)) (\<lambda>_.
      bindE (frame_canonical_sha256 ip f) (\<lambda>digest.
      reject_if bad
        (xa_frame_sha256 a \<noteq> digest
         \<or> xa_status a \<noteq> expected_status (xf_kind f)
         \<or> xa_signer_key_id a \<noteq> expected_key_id
         \<or> xa_effects_applied a \<noteq> 0))))))"

definition decode_ack_frame :: "ipc \<Rightarrow> string \<Rightarrow> ipc_ack validated" where
  "decode_ack_frame ip bytes =
     decode_strict_and_validate_frame (ip_codec ip) ''windows_execution_ack'' (ip_decode_ack ip) bytes
       MAX_WINDOWS_EXECUTION_IPC_FRAME_BYTES (validate_ack ip)"

definition encode_ack_frame :: "ipc \<Rightarrow> ipc_ack \<Rightarrow> string validated" where
  "encode_ack_frame ip a = bindE (validate_ack ip a) (\<lambda>_. Inr (ip_ack_bytes ip a))"

definition validate_forwarded_acks :: "ipc \<Rightarrow> forwarded_acks \<Rightarrow> unit validated" where
  "validate_forwarded_acks ip a =
     bindE (validate_ack ip (fa_broker_ack a)) (\<lambda>_.
     bindE (reject_if InvalidFullMachineAssemblyLine
       (fa_schema_version a \<noteq> WINDOWS_EXECUTION_IPC_SCHEMA_VERSION
        \<or> length (fa_executor_ack a) > MAX_WINDOWS_EXECUTION_IPC_FRAME_BYTES)) (\<lambda>_.
     if fa_executor_ack a = [] then Inr ()
     else
       bindE (decode_ack_frame ip (fa_executor_ack a)) (\<lambda>ack.
       reject_if InvalidFullMachineAssemblyLine
         (xa_endpoint ack \<noteq> MasterToExecutor \<or> xa_effects_applied ack \<noteq> 0))))"

definition decode_forwarded_acks :: "ipc \<Rightarrow> string \<Rightarrow> forwarded_acks validated" where
  "decode_forwarded_acks ip bytes =
     decode_strict_and_validate_frame (ip_codec ip) ''windows_broker_forwarded_acks''
       (ip_decode_acks ip) bytes MAX_WINDOWS_EXECUTION_IPC_FRAME_BYTES (validate_forwarded_acks ip)"

definition encode_forwarded_acks :: "ipc \<Rightarrow> forwarded_acks \<Rightarrow> string validated" where
  "encode_forwarded_acks ip a = bindE (validate_forwarded_acks ip a) (\<lambda>_. Inr (ip_acks_bytes ip a))"

section \<open>What acceptance means\<close>

lemma decode_control_frame_Inr:
  "decode_control_frame ip bytes = Inr f \<Longrightarrow> validate_frame ip f = Inr () \<and> ip_frame_bytes ip f = bytes"
  by (auto simp: decode_control_frame_def decode_strict_and_validate_frame_def bindE_Inr_iff reject_if_Inr_iff)

lemma frame_canonical_sha256_Inr [result_simps]:
  "frame_canonical_sha256 ip f = Inr d \<longleftrightarrow>
     validate_frame ip f = Inr ()
     \<and> d = sha256 (ip_codec ip) (canonical_json_bytes (quote_json (ip_codec ip)) (frame_json (ip_codec ip) f))"
  by (auto simp: frame_canonical_sha256_def bindE_Inr_iff)

lemma validate_frame_Inr:
  assumes "validate_frame ip f = Inr ()"
  shows "xf_frame_id f \<noteq> 0" "0 < xf_request_sequence f" "0 < xf_authority_revision f"
    "xf_issued_at_ms f < xf_expires_at_ms f" "xf_expires_at_ms f \<le> xf_issued_at_ms f + 60000"
    "length (xf_signature f) = 64"
    "xf_forwarded f \<noteq> [] \<longleftrightarrow> xf_endpoint f = MasterToBroker \<and> xf_kind f = ValidateDispatch"
    "xf_forwarded f \<noteq> [] \<Longrightarrow> xf_forwarded_sha256 f = sha256 (ip_codec ip) (xf_forwarded f)"
  using assms
  by (auto simp: validate_frame_def validate_frame_shape_def bindE_Inr_iff reject_if_Inr_iff
      validate_uuid_Inr frame_numbers_bad_def forward_bad_def Let_def)

lemma forwarded_executor_Some:
  assumes "forwarded_executor ip f = Inr (Some e)"
  shows "decode_control_frame ip (xf_forwarded f) = Inr e" "same_authority e f"
  using assms by (auto simp: forwarded_executor_def bindE_Inr_iff reject_if_Inr_iff split: if_splits)

text \<open>Signing replaces only the signature, and the signed bytes do not cover it.\<close>

lemma ack_signing_bytes_signature [simp]:
  "ack_signing_bytes cx (a\<lparr>xa_signature := s\<rparr>) = ack_signing_bytes cx a"
  by (simp add: ack_signing_bytes_def)

lemma sign_ack_Inr:
  "sign_ack ip key a = Inr b \<longleftrightarrow>
     b = a\<lparr>xa_signature := ip_sign ip key (ack_signing_bytes (ip_codec ip) a)\<rparr>
     \<and> validate_ack_shape ip False a = Inr () \<and> validate_ack ip b = Inr ()"
  by (auto simp: sign_ack_def Let_def bindE_Inr_iff)

end
