(* ===== verification/Ipc_Ledger.thy ===== *)
theory Ipc_Ledger
  imports Ipc_Frames
begin

text \<open>
  The durable intent and acknowledgement ledger of one service endpoint:
  \<^verbatim>\<open>DurableIpcLedger\<close> of \<^verbatim>\<open>assemblywright-protocol/src/execution_ipc_state.rs\<close>. The journal is an
  append-only file of hash-chained records, one per line. An operation changes the ledger in memory
  first and then persists it, so it returns the ledger together with its result, also when it fails.

  The file system is an input: \<open>disk\<close> says what one append does (a failing write leaves a prefix of
  its bytes in the file), \<open>open_env\<close> what the checks around opening the file find. The derived
  serialisation of a record is a field of \<open>journal\<close>; \<open>journal_laws\<close> states what the code relies on.
\<close>

section \<open>State\<close>

datatype ipc_error = IpcInvalidState | IpcQuarantined | IpcIo | IpcContract protocol_error
datatype admission = New | RecoverPending | Replay ipc_ack

record pending_frame =
  pf_frame_id :: uuid
  pf_sequence :: nat
  pf_nonce :: uuid
  pf_frame_sha256 :: digest

record ledger_state =
  ls_endpoint :: ipc_endpoint
  ls_service_id :: uuid
  ls_authority_revision :: nat
  ls_next_sequence :: nat
  ls_pending :: "pending_frame option"
  ls_last_ack :: "ipc_ack option"
  ls_quarantined :: bool

record journal_record =
  jr_schema_version :: nat
  jr_previous_record_sha256 :: digest
  jr_state :: ledger_state

record ledger =
  lg_file :: string
  lg_state :: ledger_state
  lg_last_record_sha256 :: digest

definition JOURNAL_SCHEMA_VERSION :: nat where "JOURNAL_SCHEMA_VERSION = 1"
definition MAX_JOURNAL_BYTES :: nat where "MAX_JOURNAL_BYTES = 1024 * 1024"
definition newline :: char where "newline = CHR 0x0A"

record journal =
  jn_ipc :: ipc
  jn_record_bytes :: "journal_record \<Rightarrow> string"
  jn_decode_record :: "string \<Rightarrow> journal_record option"

text \<open>
  One append: it succeeds, or the length of the file cannot be read, or \<^verbatim>\<open>write_all\<close> or
  \<^verbatim>\<open>sync_data\<close> fails after the given number of bytes has reached the file.
\<close>

datatype disk = DiskOk | MetadataFails | WriteFails nat

record open_env =
  oe_path_ok :: bool
  oe_parent_ok :: bool
  oe_open_ok :: bool
  oe_protect_ok :: bool
  oe_attributes_ok :: bool
  oe_stat_ok :: bool
  oe_read_ok :: bool
  oe_disk :: disk

record ledger_config =
  lc_endpoint :: ipc_endpoint
  lc_service_id :: uuid
  lc_authority_revision :: nat
  lc_initial_sequence :: nat

section \<open>Writing\<close>

definition next_record :: "ledger \<Rightarrow> journal_record" where
  "next_record l = \<lparr>jr_schema_version = JOURNAL_SCHEMA_VERSION,
     jr_previous_record_sha256 = lg_last_record_sha256 l, jr_state = lg_state l\<rparr>"

definition journal_has_room :: "ledger \<Rightarrow> string \<Rightarrow> bool" where
  "journal_has_room l bytes =
     (case checked_add_u64 (length (lg_file l)) (length bytes) of None \<Rightarrow> False
      | Some n \<Rightarrow> (case checked_add_u64 n 1 of None \<Rightarrow> False | Some m \<Rightarrow> m \<le> MAX_JOURNAL_BYTES))"

definition persist :: "journal \<Rightarrow> disk \<Rightarrow> ledger \<Rightarrow> ledger \<times> (ipc_error + unit)" where
  "persist jn disk l =
     (let bytes = jn_record_bytes jn (next_record l) in
      if length bytes > 64 * 1024 then (l, Inl IpcInvalidState)
      else if disk = MetadataFails then (l, Inl IpcIo)
      else if \<not> journal_has_room l bytes then (l, Inl IpcInvalidState)
      else
        (case disk of
           WriteFails n \<Rightarrow> (l\<lparr>lg_file := lg_file l @ take n (bytes @ [newline])\<rparr>, Inl IpcIo)
         | _ \<Rightarrow> (l\<lparr>lg_file := lg_file l @ bytes @ [newline],
                   lg_last_record_sha256 := sha256 (ip_codec (jn_ipc jn)) bytes\<rparr>, Inr ())))"

definition set_state :: "ledger \<Rightarrow> ledger_state \<Rightarrow> ledger" where
  "set_state l s = l\<lparr>lg_state := s\<rparr>"

definition quarantine :: "journal \<Rightarrow> disk \<Rightarrow> ledger \<Rightarrow> ledger \<times> (ipc_error + 'a)" where
  "quarantine jn disk l =
     (case persist jn disk (set_state l ((lg_state l)\<lparr>ls_quarantined := True\<rparr>)) of
        (l', Inl e) \<Rightarrow> (l', Inl e)
      | (l', Inr _) \<Rightarrow> (l', Inl IpcQuarantined))"

definition other_target :: "ledger_state \<Rightarrow> control_frame \<Rightarrow> bool" where
  "other_target s f =
     (xf_endpoint f \<noteq> ls_endpoint s
      \<or> xf_service_id f \<noteq> ls_service_id s
      \<or> xf_authority_revision f \<noteq> ls_authority_revision s)"

definition replayed_ack :: "ledger_state \<Rightarrow> control_frame \<Rightarrow> digest \<Rightarrow> ipc_ack option" where
  "replayed_ack s f frame_sha256 =
     (case ls_last_ack s of None \<Rightarrow> None
      | Some ack \<Rightarrow>
          if xa_frame_id ack = xf_frame_id f \<and> xa_frame_sha256 ack = frame_sha256 then Some ack else None)"

definition same_request :: "pending_frame \<Rightarrow> control_frame \<Rightarrow> digest \<Rightarrow> bool" where
  "same_request p f frame_sha256 =
     (pf_frame_id p = xf_frame_id f
      \<and> pf_sequence p = xf_request_sequence f
      \<and> pf_nonce p = xf_nonce f
      \<and> pf_frame_sha256 p = frame_sha256)"

definition pending_of :: "control_frame \<Rightarrow> digest \<Rightarrow> pending_frame" where
  "pending_of f frame_sha256 =
     \<lparr>pf_frame_id = xf_frame_id f, pf_sequence = xf_request_sequence f, pf_nonce = xf_nonce f,
      pf_frame_sha256 = frame_sha256\<rparr>"

definition admit :: "journal \<Rightarrow> disk \<Rightarrow> control_frame \<Rightarrow> ledger \<Rightarrow> ledger \<times> (ipc_error + admission)" where
  "admit jn disk f l =
     (let s = lg_state l in
      if ls_quarantined s then (l, Inl IpcQuarantined)
      else
        (case frame_canonical_sha256 (jn_ipc jn) f of
           Inl e \<Rightarrow> (l, Inl (IpcContract e))
         | Inr frame_sha256 \<Rightarrow>
             if other_target s f then quarantine jn disk l
             else
               (case replayed_ack s f frame_sha256 of
                  Some ack \<Rightarrow> (l, Inr (Replay ack))
                | None \<Rightarrow>
                    (case ls_pending s of
                       Some p \<Rightarrow>
                         if same_request p f frame_sha256 then (l, Inr RecoverPending)
                         else quarantine jn disk l
                     | None \<Rightarrow>
                         if xf_request_sequence f \<noteq> ls_next_sequence s then quarantine jn disk l
                         else
                           (case persist jn disk
                                   (set_state l (s\<lparr>ls_pending := Some (pending_of f frame_sha256)\<rparr>)) of
                              (l', Inl e) \<Rightarrow> (l', Inl e)
                            | (l', Inr _) \<Rightarrow> (l', Inr New))))))"

definition completed_replay :: "journal \<Rightarrow> control_frame \<Rightarrow> ledger \<Rightarrow> ipc_error + ipc_ack option" where
  "completed_replay jn f l =
     (let s = lg_state l in
      if ls_quarantined s then Inl IpcQuarantined
      else if other_target s f then Inr None
      else
        bindE (map_err IpcContract (frame_canonical_sha256 (jn_ipc jn) f)) (\<lambda>frame_sha256.
        Inr (replayed_ack s f frame_sha256)))"

definition ack_differs :: "ledger_state \<Rightarrow> pending_frame \<Rightarrow> ipc_ack \<Rightarrow> bool" where
  "ack_differs s p ack =
     (xa_schema_version ack \<noteq> WINDOWS_EXECUTION_IPC_SCHEMA_VERSION
      \<or> xa_endpoint ack \<noteq> ls_endpoint s
      \<or> xa_frame_id ack \<noteq> pf_frame_id p
      \<or> xa_request_sequence ack \<noteq> pf_sequence p
      \<or> xa_authority_revision ack \<noteq> ls_authority_revision s
      \<or> xa_frame_sha256 ack \<noteq> pf_frame_sha256 p
      \<or> xa_effects_applied ack \<noteq> 0)"

definition completed_state :: "ledger_state \<Rightarrow> nat \<Rightarrow> ipc_ack \<Rightarrow> ledger_state" where
  "completed_state s next ack =
     s\<lparr>ls_next_sequence := next, ls_pending := None, ls_last_ack := Some ack\<rparr>"

definition complete :: "journal \<Rightarrow> disk \<Rightarrow> ipc_ack \<Rightarrow> ledger \<Rightarrow> ledger \<times> (ipc_error + unit)" where
  "complete jn disk ack l =
     (let s = lg_state l in
      case ls_pending s of
        None \<Rightarrow> (l, Inl IpcInvalidState)
      | Some p \<Rightarrow>
          if ack_differs s p ack then quarantine jn disk l
          else
            (case checked_add_u64 (ls_next_sequence s) 1 of
               None \<Rightarrow> (l, Inl IpcInvalidState)
             | Some next \<Rightarrow> persist jn disk (set_state l (completed_state s next ack))))"

section \<open>Reading\<close>

definition load_line ::
    "journal \<Rightarrow> string \<Rightarrow> digest \<times> ledger_state option \<Rightarrow> ipc_error + digest \<times> ledger_state option" where
  "load_line jn raw st =
     (case st of (expected_previous, _) \<Rightarrow>
      bindE (reject_if IpcInvalidState (raw = [])) (\<lambda>_.
      bindE (ok_or IpcInvalidState (jn_decode_record jn raw)) (\<lambda>record.
      bindE (reject_if IpcInvalidState
        (jr_schema_version record \<noteq> JOURNAL_SCHEMA_VERSION
         \<or> jr_previous_record_sha256 record \<noteq> expected_previous)) (\<lambda>_.
      Inr (sha256 (ip_codec (jn_ipc jn)) raw, Some (jr_state record))))))"

definition load_records :: "journal \<Rightarrow> string \<Rightarrow> ipc_error + ledger_state \<times> digest" where
  "load_records jn bytes =
     bindE (reject_if IpcInvalidState (bytes = [] \<or> length bytes > MAX_JOURNAL_BYTES)) (\<lambda>_.
     bindE (reject_if IpcInvalidState (last bytes \<noteq> newline)) (\<lambda>_.
     bindE (forE (load_line jn) (split_on newline (butlast bytes)) (0, None)) (\<lambda>(previous, state).
     bindE (ok_or IpcInvalidState state) (\<lambda>s. Inr (s, previous)))))"

definition new_state :: "ledger_config \<Rightarrow> ledger_state" where
  "new_state c = \<lparr>ls_endpoint = lc_endpoint c, ls_service_id = lc_service_id c,
     ls_authority_revision = lc_authority_revision c, ls_next_sequence = lc_initial_sequence c,
     ls_pending = None, ls_last_ack = None, ls_quarantined = False\<rparr>"

definition state_matches :: "ledger_config \<Rightarrow> ledger_state \<Rightarrow> bool" where
  "state_matches c s =
     (ls_endpoint s = lc_endpoint c
      \<and> ls_service_id s = lc_service_id c
      \<and> ls_authority_revision s = lc_authority_revision c
      \<and> ls_next_sequence s \<noteq> 0)"

text \<open>
  \<^verbatim>\<open>DurableIpcLedger::open\<close> takes the file before and returns the file after it with the ledger: a new
  file stays, even when a later check or the first write fails. The size check that \<open>load_records\<close>
  makes between its two system calls appears in \<open>read_state\<close>, where their failures are inputs.
\<close>

definition read_state ::
    "journal \<Rightarrow> ledger_config \<Rightarrow> open_env \<Rightarrow> string option \<Rightarrow> ipc_error + ledger_state \<times> digest" where
  "read_state jn c env file =
     (case file of
        None \<Rightarrow> Inr (new_state c, 0)
      | Some bytes \<Rightarrow>
          bindE (reject_if IpcIo (\<not> oe_stat_ok env)) (\<lambda>_.
          bindE (reject_if IpcInvalidState (bytes = [] \<or> length bytes > MAX_JOURNAL_BYTES)) (\<lambda>_.
          bindE (reject_if IpcIo (\<not> oe_read_ok env)) (\<lambda>_. load_records jn bytes))))"

definition file_content :: "string option \<Rightarrow> string" where
  "file_content file = (case file of None \<Rightarrow> [] | Some bytes \<Rightarrow> bytes)"

definition first_write ::
    "journal \<Rightarrow> open_env \<Rightarrow> string option \<Rightarrow> ledger_state \<Rightarrow> digest \<Rightarrow> ledger \<times> (ipc_error + unit)" where
  "first_write jn env file s previous =
     (let l = \<lparr>lg_file = file_content file, lg_state = s, lg_last_record_sha256 = previous\<rparr> in
      if file = None then persist jn (oe_disk env) l else (l, Inr ()))"

definition open_ledger ::
    "journal \<Rightarrow> ledger_config \<Rightarrow> open_env \<Rightarrow> string option \<Rightarrow> string option \<times> (ipc_error + ledger)" where
  "open_ledger jn c env file =
     (let content = file_content file in
      if lc_service_id c = 0 \<or> lc_authority_revision c = 0 \<or> lc_initial_sequence c = 0
      then (file, Inl IpcInvalidState)
      else if \<not> oe_path_ok env then (file, Inl IpcInvalidState)
      else if \<not> oe_parent_ok env then (file, Inl IpcInvalidState)
      else if \<not> oe_open_ok env then (file, Inl IpcIo)
      else if file = None \<and> \<not> oe_protect_ok env then (Some content, Inl IpcIo)
      else if \<not> oe_attributes_ok env \<or> length content > MAX_JOURNAL_BYTES
      then (Some content, Inl IpcInvalidState)
      else
        (case read_state jn c env file of
           Inl e \<Rightarrow> (Some content, Inl e)
         | Inr (s, previous) \<Rightarrow>
             if \<not> state_matches c s then (Some content, Inl IpcInvalidState)
             else
               (case first_write jn env file s previous of
                  (l, Inl e) \<Rightarrow> (Some (lg_file l), Inl e)
                | (l, Inr _) \<Rightarrow>
                    if ls_quarantined (lg_state l) then (Some (lg_file l), Inl IpcQuarantined)
                    else (Some (lg_file l), Inr l))))"

end
