(* ===== verification/Ipc_Journal.thy ===== *)
theory Ipc_Journal
  imports Ipc_Ledger
begin

text \<open>
  What the journal file keeps. \<open>journal_laws\<close> is what the code relies on from the serialiser of
  records: it is inverted by the decoder, writes no newline, and torn text before a record (what
  interrupted writes left on the line) does not decode. Under these laws, whatever the disk does, the
  last state a file loads is the last one that was persisted or it does not load at all. The locale
  \<open>journal_property\<close> lifts a property of ledger states that the operations keep to the ledger in memory
  and to every state its file can load, over all runs with write faults and restarts.
\<close>

section \<open>The laws of the record serialiser\<close>

text \<open>Concatenations of nonempty beginnings of records.\<close>

inductive torn :: "journal \<Rightarrow> string \<Rightarrow> bool" for jn where
  torn_one: "n \<noteq> 0 \<Longrightarrow> torn jn (take n (jn_record_bytes jn r))"
| torn_more: "torn jn x \<Longrightarrow> torn jn (x @ take n (jn_record_bytes jn r))"

definition journal_laws :: "journal \<Rightarrow> bool" where
  "journal_laws jn \<longleftrightarrow>
     (\<forall>r. jn_decode_record jn (jn_record_bytes jn r) = Some r)
     \<and> (\<forall>r. newline \<notin> set (jn_record_bytes jn r))
     \<and> (\<forall>r. jn_record_bytes jn r \<noteq> [])
     \<and> (\<forall>x r. torn jn x \<longrightarrow> jn_decode_record jn (x @ jn_record_bytes jn r) = None)"

lemma journal_lawsD:
  assumes "journal_laws jn"
  shows "jn_decode_record jn (jn_record_bytes jn r) = Some r"
    "newline \<notin> set (jn_record_bytes jn r)" "jn_record_bytes jn r \<noteq> []"
    "torn jn x \<Longrightarrow> jn_decode_record jn (x @ jn_record_bytes jn r) = None"
  using assms by (auto simp: journal_laws_def)

section \<open>Lines of the file\<close>

definition residue :: "string \<Rightarrow> string" where "residue F = last (split_on newline F)"

lemma split_on_extend:
  "c \<notin> set b \<Longrightarrow> split_on c (F @ b) = butlast (split_on c F) @ [last (split_on c F) @ b]"
proof (induction F)
  case Nil
  then show ?case by (simp add: split_on_id)
next
  case (Cons d F)
  then show ?case by (cases "split_on c F") auto
qed

lemma split_on_end: "split_on c (F @ [c]) = split_on c F @ [[]]"
proof (induction F)
  case (Cons d F)
  then show ?case by (cases "split_on c F") auto
qed simp

lemma residue_simps [simp]:
  "residue [] = []"
  "residue (F @ [newline]) = []"
  "newline \<notin> set b \<Longrightarrow> residue (F @ b) = residue F @ b"
  by (simp_all add: residue_def split_on_end split_on_extend)

lemma residue_Nil: "residue F = [] \<longleftrightarrow> F = [] \<or> last F = newline"
proof (cases F rule: rev_cases)
  case (snoc G d)
  then show ?thesis
    by (cases "d = newline") simp_all
qed simp

lemma load_records_newline:
  "load_records jn (F @ b @ [newline]) =
     bindE (reject_if IpcInvalidState (length F + length b + 1 > MAX_JOURNAL_BYTES)) (\<lambda>_.
     bindE (forE (load_line jn) (split_on newline (F @ b)) (0, None)) (\<lambda>(previous, state).
     bindE (ok_or IpcInvalidState state) (\<lambda>s. Inr (s, previous))))"
  by (simp add: load_records_def butlast_append reject_if_def)

lemma load_records_end:
  assumes "load_records jn F = Inr v"
  shows "last F = newline" "F \<noteq> []"
  using assms by (auto simp: load_records_def bindE_Inr_iff reject_if_Inr_iff)

text \<open>After an append, the file loads only what it loaded before, or the record that was appended.\<close>

lemma load_line_Inr:
  "load_line jn raw st = Inr (h, s) \<longleftrightarrow>
     (\<exists>r. raw \<noteq> [] \<and> jn_decode_record jn raw = Some r \<and> jr_schema_version r = JOURNAL_SCHEMA_VERSION
       \<and> jr_previous_record_sha256 r = fst st \<and> h = sha256 (ip_codec (jn_ipc jn)) raw \<and> s = Some (jr_state r))"
  by (cases st) (auto simp: load_line_def bindE_Inr_iff reject_if_Inr_iff ok_or_Inr_iff)

lemma load_appended:
  assumes laws: "journal_laws jn" and tail: "residue F = [] \<or> torn jn (residue F)"
    and load: "load_records jn (F @ jn_record_bytes jn r @ [newline]) = Inr (s, h)"
  shows "s = jr_state r" "residue F = []"
proof -
  let ?b = "jn_record_bytes jn r"
  obtain p q where "load_line jn (residue F @ ?b) (p, q) = Inr (h, Some s)"
    using load journal_lawsD(2) [OF laws, of r]
    by (auto simp: load_records_newline split_on_extend forE_append bindE_Inr_iff ok_or_Inr_iff residue_def)
  then obtain r' where r': "jn_decode_record jn (residue F @ ?b) = Some r'" "s = jr_state r'"
    by (auto simp: load_line_Inr)
  then show "residue F = []" using tail journal_lawsD(4) [OF laws] by auto
  with r' show "s = jr_state r" using journal_lawsD(1) [OF laws, of r] by simp
qed

lemma load_partial:
  assumes laws: "journal_laws jn" and tail: "residue F = [] \<or> torn jn (residue F)"
    and load: "load_records jn (F @ take n (jn_record_bytes jn r @ [newline])) = Inr (s, h)"
  shows "load_records jn F = Inr (s, h) \<or> s = jr_state r"
proof -
  let ?b = "jn_record_bytes jn r"
  consider "n = 0" | "0 < n" "n \<le> length ?b" | "length ?b < n" by linarith
  then show ?thesis
  proof cases
    case 1
    then show ?thesis using load by simp
  next
    case 2
    then have ne: "take n ?b \<noteq> []" using journal_lawsD(3) [OF laws, of r] by simp
    then have "last (F @ take n ?b) \<in> set ?b" by (metis in_set_takeD last_appendR last_in_set)
    then have "last (F @ take n ?b) \<noteq> newline" using journal_lawsD(2) [OF laws, of r] by metis
    then show ?thesis using load_records_end(1) [of jn "F @ take n ?b"] load 2 by simp
  next
    case 3
    then show ?thesis using load_appended [OF laws tail, of r s h] load by simp
  qed
qed

lemma tail_partial:
  assumes laws: "journal_laws jn" and tail: "residue F = [] \<or> torn jn (residue F)"
  defines "G n r \<equiv> F @ take n (jn_record_bytes jn r @ [newline])"
  shows "residue (G n r) = [] \<or> torn jn (residue (G n r))"
proof (cases "n \<le> length (jn_record_bytes jn r)")
  case True
  let ?t = "take n (jn_record_bytes jn r)"
  have "newline \<notin> set ?t" using journal_lawsD(2) [OF laws] in_set_takeD by fast
  then have eq: "residue (G n r) = residue F @ ?t" using True by (simp add: G_def)
  show ?thesis
  proof (cases "residue F = []")
    case True
    then show ?thesis unfolding eq by (cases "n = 0") (auto intro: torn_one)
  next
    case False
    then show ?thesis unfolding eq using tail by (blast intro: torn_more)
  qed
next
  case False
  then have "G n r = (F @ jn_record_bytes jn r) @ [newline]" by (simp add: G_def)
  then show ?thesis by (simp only: residue_simps simp_thms)
qed

section \<open>What an append keeps\<close>

definition durable :: "journal \<Rightarrow> (ledger_state \<Rightarrow> bool) \<Rightarrow> string \<Rightarrow> bool" where
  "durable jn ok F \<longleftrightarrow> (residue F = [] \<or> torn jn (residue F))
     \<and> (\<forall>s h. load_records jn F = Inr (s, h) \<longrightarrow> ok s)"

definition recorded_as :: "journal \<Rightarrow> (ledger_state \<Rightarrow> bool) \<Rightarrow> ledger \<Rightarrow> bool" where
  "recorded_as jn ok l \<longleftrightarrow> ok (lg_state l) \<and> durable jn ok (lg_file l)"

lemma durable_Nil [simp]: "durable jn ok []"
  by (simp add: durable_def load_records_def reject_if_def)

lemma persist_cases:
  assumes "persist jn d l = (l', r)"
  shows "lg_state l' = lg_state l"
    "r = Inr () \<and> lg_file l' = lg_file l @ jn_record_bytes jn (next_record l) @ [newline]
       \<and> lg_last_record_sha256 l' = sha256 (ip_codec (jn_ipc jn)) (jn_record_bytes jn (next_record l))
       \<and> length (lg_file l') \<le> MAX_JOURNAL_BYTES
     \<or> r \<noteq> Inr () \<and> lg_last_record_sha256 l' = lg_last_record_sha256 l
       \<and> (\<exists>n. lg_file l' = lg_file l @ take n (jn_record_bytes jn (next_record l) @ [newline]))"
proof -
  have "\<exists>n. F = F @ take n b" for F b :: string by (rule exI [of _ 0]) simp
  then show "lg_state l' = lg_state l"
    "r = Inr () \<and> lg_file l' = lg_file l @ jn_record_bytes jn (next_record l) @ [newline]
       \<and> lg_last_record_sha256 l' = sha256 (ip_codec (jn_ipc jn)) (jn_record_bytes jn (next_record l))
       \<and> length (lg_file l') \<le> MAX_JOURNAL_BYTES
     \<or> r \<noteq> Inr () \<and> lg_last_record_sha256 l' = lg_last_record_sha256 l
       \<and> (\<exists>n. lg_file l' = lg_file l @ take n (jn_record_bytes jn (next_record l) @ [newline]))"
    using assms
    by (auto simp: persist_def Let_def journal_has_room_def checked_add_u64_def
        split: if_splits disk.splits option.splits)
qed

lemma persist_partial:
  assumes "persist jn d l = (l', r)"
  obtains n where "lg_file l' = lg_file l @ take n (jn_record_bytes jn (next_record l) @ [newline])"
proof -
  let ?b = "jn_record_bytes jn (next_record l) @ [newline]"
  have "lg_file l @ ?b = lg_file l @ take (length ?b) ?b" by simp
  then show thesis using persist_cases(2) [OF assms] that by (metis append.assoc)
qed

lemma persist_recorded:
  assumes laws: "journal_laws jn" and p: "persist jn d l = (l', r)"
    and ok: "ok (lg_state l)" "durable jn ok (lg_file l)"
  shows "recorded_as jn ok l'"
proof -
  obtain n where F: "lg_file l' = lg_file l @ take n (jn_record_bytes jn (next_record l) @ [newline])"
    by (rule persist_partial [OF p])
  have tail: "residue (lg_file l) = [] \<or> torn jn (residue (lg_file l))" using ok(2) by (simp add: durable_def)
  have "ok s" if "load_records jn (lg_file l') = Inr (s, h)" for s h
    using load_partial [OF laws tail that [unfolded F]] ok by (auto simp: durable_def next_record_def)
  then show ?thesis
    using tail_partial [OF laws tail, of n "next_record l"] ok(1) persist_cases(1) [OF p]
    by (auto simp: recorded_as_def durable_def F)
qed

text \<open>A successful append leaves nothing older to load.\<close>

lemma persist_written:
  assumes laws: "journal_laws jn" and p: "persist jn d l = (l', Inr u)"
    and ok: "ok (lg_state l)" "durable jn (\<lambda>_. True) (lg_file l)"
  shows "recorded_as jn ok l'"
proof -
  have F: "lg_file l' = lg_file l @ jn_record_bytes jn (next_record l) @ [newline]"
    using persist_cases(2) [OF p] by auto
  have tail: "residue (lg_file l) = [] \<or> torn jn (residue (lg_file l))" using ok(2) by (simp add: durable_def)
  have "residue (lg_file l') = []" by (simp add: F residue_Nil)
  moreover have "ok s" if "load_records jn (lg_file l') = Inr (s, h)" for s h
    using load_appended(1) [OF laws tail that [unfolded F]] ok(1) by (simp add: next_record_def)
  ultimately show ?thesis using ok(1) persist_cases(1) [OF p] by (auto simp: recorded_as_def durable_def)
qed

section \<open>Opening\<close>

lemma forE_load_line_Inl: "forE (load_line jn) ls st = Inl e \<Longrightarrow> e = IpcInvalidState"
proof (induction ls arbitrary: st)
  case (Cons raw ls)
  then show ?case
    by (cases st) (auto simp: bindE_Inl_iff load_line_def reject_if_Inl_iff ok_or_def split: option.splits)
qed simp

lemma read_state_Inl: "read_state jn c env F = Inl e \<Longrightarrow> e = IpcIo \<or> e = IpcInvalidState"
  by (auto simp: read_state_def load_records_def bindE_Inl_iff reject_if_Inl_iff ok_or_def
      dest: forE_load_line_Inl split: option.splits)

lemma open_ledger_cases:
  assumes "open_ledger jn c env F = (F', r)"
  shows "(F' = F \<or> F' = Some (file_content F)) \<and> (r = Inl IpcIo \<or> r = Inl IpcInvalidState)
    \<or> (\<exists>s h l' q. read_state jn c env F = Inr (s, h) \<and> state_matches c s
        \<and> first_write jn env F s h = (l', q) \<and> F' = Some (lg_file l')
        \<and> (\<forall>e. r = Inl e \<longrightarrow> q = Inl e \<or> e = IpcQuarantined \<and> q = Inr () \<and> ls_quarantined (lg_state l'))
        \<and> (\<forall>l. r = Inr l \<longrightarrow> l = l' \<and> q = Inr () \<and> \<not> ls_quarantined (lg_state l'))
        \<and> (q = Inr () \<and> \<not> ls_quarantined (lg_state l') \<longrightarrow> r = Inr l'))"
  using assms
  by (auto simp: open_ledger_def Let_def dest: read_state_Inl split: if_splits sum.splits prod.splits)

text \<open>A ledger whose file loads its own state and hash stays so with every successful append.\<close>

definition synced :: "journal \<Rightarrow> ledger \<Rightarrow> bool" where
  "synced jn l \<longleftrightarrow> load_records jn (lg_file l) = Inr (lg_state l, lg_last_record_sha256 l)"

definition appendable :: "journal \<Rightarrow> ledger \<Rightarrow> bool" where
  "appendable jn l \<longleftrightarrow> lg_file l = [] \<and> lg_last_record_sha256 l = 0
     \<or> (\<exists>s. load_records jn (lg_file l) = Inr (s, lg_last_record_sha256 l))"

lemma appendable_lines:
  assumes "appendable jn l"
  shows "residue (lg_file l) = []"
    "\<exists>s. forE (load_line jn) (butlast (split_on newline (lg_file l))) (0, None) = Inr (lg_last_record_sha256 l, s)"
proof -
  have "residue (lg_file l) = [] \<and>
    (\<exists>s. forE (load_line jn) (butlast (split_on newline (lg_file l))) (0, None) = Inr (lg_last_record_sha256 l, s))"
  proof (cases "lg_file l = []")
    case True
    then show ?thesis using assms by (auto simp: appendable_def load_records_def reject_if_def)
  next
    case False
    then obtain s where s: "load_records jn (lg_file l) = Inr (s, lg_last_record_sha256 l)"
      using assms by (auto simp: appendable_def)
    then obtain G where G: "lg_file l = G @ [newline]"
      using load_records_end by (metis append_butlast_last_id)
    show ?thesis using s
      by (auto simp: G load_records_def bindE_Inr_iff reject_if_Inr_iff ok_or_Inr_iff split_on_end)
  qed
  then show "residue (lg_file l) = []"
    "\<exists>s. forE (load_line jn) (butlast (split_on newline (lg_file l))) (0, None) = Inr (lg_last_record_sha256 l, s)"
    by auto
qed

lemma persist_synced:
  assumes laws: "journal_laws jn" and p: "persist jn d l = (l', Inr u)" and l: "appendable jn l"
  shows "synced jn l'"
proof -
  let ?b = "jn_record_bytes jn (next_record l)"
  have w: "lg_file l' = lg_file l @ ?b @ [newline]" "lg_state l' = lg_state l"
    "lg_last_record_sha256 l' = sha256 (ip_codec (jn_ipc jn)) ?b" "length (lg_file l') \<le> MAX_JOURNAL_BYTES"
    using persist_cases [OF p] by auto
  have line: "load_line jn ?b (lg_last_record_sha256 l, s) = Inr (lg_last_record_sha256 l', Some (lg_state l'))" for s
    using journal_lawsD(1,3) [OF laws, of "next_record l"] w by (simp add: load_line_Inr next_record_def)
  show ?thesis
    using appendable_lines [OF l] journal_lawsD(2) [OF laws, of "next_record l"] w(4) line
    by (auto simp: synced_def w(1) load_records_newline split_on_extend residue_def forE_append
        bindE_Inr_iff reject_if_Inr_iff)
qed

lemma synced_appendable: "synced jn l \<Longrightarrow> appendable jn (set_state l s)"
  by (auto simp: synced_def appendable_def set_state_def)

section \<open>The branches of an admission\<close>

lemma admit_cases:
  assumes "admit jn d f l = (l', r)"
  shows "l' = l \<and> r \<noteq> Inr New \<and> (r = Inl IpcQuarantined \<longrightarrow> ls_quarantined (lg_state l))
    \<or> quarantine jn d l = (l', r)
    \<or> (\<exists>h q. ls_pending (lg_state l) = None \<and> \<not> ls_quarantined (lg_state l)
        \<and> xf_request_sequence f = ls_next_sequence (lg_state l)
        \<and> frame_canonical_sha256 (jn_ipc jn) f = Inr h
        \<and> persist jn d (set_state l ((lg_state l)\<lparr>ls_pending := Some (pending_of f h)\<rparr>)) = (l', q)
        \<and> r = (case q of Inl e \<Rightarrow> Inl e | Inr _ \<Rightarrow> Inr New))"
proof (cases "frame_canonical_sha256 (jn_ipc jn) f")
  case (Inl e)
  then show ?thesis using assms by (auto simp: admit_def Let_def split: if_splits)
next
  case (Inr h)
  let ?s = "lg_state l"
  show ?thesis
  proof (cases "ls_quarantined ?s \<or> other_target ?s f \<or> replayed_ack ?s f h \<noteq> None \<or> ls_pending ?s \<noteq> None")
    case True
    then show ?thesis using assms Inr
      by (auto simp: admit_def Let_def split: if_splits option.splits)
  next
    case False
    then show ?thesis using assms Inr
      by (auto simp: admit_def Let_def split: if_splits prod.splits sum.splits)
  qed
qed

lemma persist_not_quarantined: "persist jn d l \<noteq> (l', Inl IpcQuarantined)"
  by (auto simp: persist_def Let_def split: disk.splits)

lemma quarantine_written:
  "quarantine jn d l = (l', Inl IpcQuarantined) \<Longrightarrow>
     persist jn d (set_state l ((lg_state l)\<lparr>ls_quarantined := True\<rparr>)) = (l', Inr ())"
  by (auto simp: quarantine_def persist_not_quarantined split: prod.splits sum.splits)

lemma complete_quarantined:
  "complete jn d ack l = (l', Inl IpcQuarantined) \<Longrightarrow> quarantine jn d l = (l', Inl IpcQuarantined :: ipc_error + unit)"
  by (auto simp: complete_def Let_def persist_not_quarantined split: option.splits if_splits)

lemma quarantine_Inl: "quarantine jn d l \<noteq> (l', Inr x)"
  by (auto simp: quarantine_def split: prod.splits sum.splits)

lemma admit_new:
  assumes "admit jn d f l = (l', Inr New)"
  obtains h where "ls_pending (lg_state l) = None" "\<not> ls_quarantined (lg_state l)"
    "xf_request_sequence f = ls_next_sequence (lg_state l)" "frame_canonical_sha256 (jn_ipc jn) f = Inr h"
    "persist jn d (set_state l ((lg_state l)\<lparr>ls_pending := Some (pending_of f h)\<rparr>)) = (l', Inr ())"
  using admit_cases [OF assms] that quarantine_Inl [of jn d l l' New]
  by (elim disjE exE conjE) (simp_all split: sum.splits)

section \<open>Properties that the operations keep\<close>

text \<open>
  \<open>ok\<close> is a property of ledger states and \<open>accepts\<close> one of the acknowledgements that the owner of the
  ledger completes requests with.
\<close>

locale journal_property =
  fixes ok :: "ledger_state \<Rightarrow> bool" and accepts :: "ipc_ack \<Rightarrow> bool"
  assumes quarantined: "ok s \<Longrightarrow> ok (s\<lparr>ls_quarantined := True\<rparr>)"
    and pending: "ok s \<Longrightarrow> ls_pending s = None \<Longrightarrow> \<not> ls_quarantined s \<Longrightarrow> ok (s\<lparr>ls_pending := Some p\<rparr>)"
    and completed: "ok s \<Longrightarrow> ls_pending s = Some p \<Longrightarrow> accepts ack \<Longrightarrow>
      ok (completed_state s (ls_next_sequence s + 1) ack)"
begin

lemma set_state_keeps:
  "journal_laws jn \<Longrightarrow> persist jn d (set_state l s) = (l', r) \<Longrightarrow> ok s \<Longrightarrow> recorded_as jn ok l \<Longrightarrow> recorded_as jn ok l'"
  by (rule persist_recorded) (auto simp: recorded_as_def set_state_def)

lemma quarantine_keeps:
  assumes laws: "journal_laws jn" and q: "quarantine jn d l = (l', r)" and l: "recorded_as jn ok l"
  shows "recorded_as jn ok l'"
proof -
  obtain q where "persist jn d (set_state l ((lg_state l)\<lparr>ls_quarantined := True\<rparr>)) = (l', q)"
    using q by (auto simp: quarantine_def split: prod.splits sum.splits)
  then show ?thesis
    by (rule set_state_keeps [OF laws]) (use l in \<open>auto simp: recorded_as_def intro: quarantined\<close>)
qed

lemma admit_keeps:
  assumes laws: "journal_laws jn" and a: "admit jn d f l = (l', r)" and l: "recorded_as jn ok l"
  shows "recorded_as jn ok l'"
proof -
  have o: "ok (lg_state l)" using l by (simp add: recorded_as_def)
  show ?thesis using admit_cases [OF a] quarantine_keeps [OF laws] l set_state_keeps [OF laws] pending [OF o] by blast
qed

lemma complete_keeps:
  assumes laws: "journal_laws jn" and c: "complete jn d ack l = (l', r)" and l: "recorded_as jn ok l" and acc: "accepts ack"
  shows "recorded_as jn ok l'"
proof -
  have o: "ok (lg_state l)" using l by (simp add: recorded_as_def)
  show ?thesis using c l o acc
    by (auto simp: complete_def Let_def checked_add_u64_Some split: if_splits option.splits
        intro: quarantine_keeps [OF laws] set_state_keeps [OF laws] completed [simplified])
qed

lemma open_keeps:
  assumes laws: "journal_laws jn" and opened: "open_ledger jn c env F = (F', r)"
    and old: "\<forall>b. F = Some b \<longrightarrow> durable jn ok b" and new: "F = None \<Longrightarrow> ok (new_state c)"
  shows "\<forall>b. F' = Some b \<longrightarrow> durable jn ok b"
    and "r = Inr l \<Longrightarrow> recorded_as jn ok l"
proof -
  have step: "recorded_as jn ok l'"
    if "read_state jn c env F = Inr (s, h)" "first_write jn env F s h = (l', q)" for s h l' q
  proof (cases F)
    case None
    then show ?thesis using that new
      by (auto simp: read_state_def first_write_def file_content_def intro: persist_recorded [OF laws])
  next
    case (Some b)
    then show ?thesis using that old
      by (auto simp: read_state_def recorded_as_def durable_def bindE_Inr_iff first_write_def file_content_def)
  qed
  have content: "durable jn ok (file_content F)"
    using old by (auto simp: file_content_def split: option.splits)
  show "\<forall>b. F' = Some b \<longrightarrow> durable jn ok b"
    using open_ledger_cases [OF opened] old content step by (fastforce simp: recorded_as_def)
  show "recorded_as jn ok l" if "r = Inr l"
    using open_ledger_cases [OF opened] step that by auto
qed

end

end
