(* ===== verification/Ipc_Runs.thy ===== *)
theory Ipc_Runs
  imports Ipc_Journal
begin

text \<open>
  The life of a ledger on one machine: operations of its owner interleaved with restarts, each with
  its own disk outcome. A restart drops the ledger in memory and opens the file again. The properties:
  sequence numbers are admitted once and in order, a written quarantine is final, and without a storage
  error the ledger refines an ideal one that is never lost.
\<close>

section \<open>Runs\<close>

datatype ledger_op =
    Admit control_frame disk
  | Complete ipc_ack disk
  | Quarantine disk
  | Restart open_env

datatype ledger_outcome =
    OAdmit "ipc_error + admission"
  | OResult "ipc_error + unit"
  | OOpen "ipc_error + unit"
  | ODown

record host =
  ho_file :: "string option"
  ho_ledger :: "ledger option"

definition empty_host :: host where "empty_host = \<lparr>ho_file = None, ho_ledger = None\<rparr>"

definition running :: "ledger \<Rightarrow> host" where
  "running l = \<lparr>ho_file = Some (lg_file l), ho_ledger = Some l\<rparr>"

definition with_ledger :: "host \<Rightarrow> (ledger \<Rightarrow> ledger \<times> ledger_outcome) \<Rightarrow> host \<times> ledger_outcome" where
  "with_ledger h f =
     (case ho_ledger h of None \<Rightarrow> (h, ODown)
      | Some l \<Rightarrow> (case f l of (l', out) \<Rightarrow> (running l', out)))"

fun host_step :: "journal \<Rightarrow> ledger_config \<Rightarrow> ledger_op \<Rightarrow> host \<Rightarrow> host \<times> ledger_outcome" where
  "host_step jn c (Admit f d) h = with_ledger h (\<lambda>l. apsnd OAdmit (admit jn d f l))"
| "host_step jn c (Complete ack d) h = with_ledger h (\<lambda>l. apsnd OResult (complete jn d ack l))"
| "host_step jn c (Quarantine d) h = with_ledger h (\<lambda>l. apsnd OResult (quarantine jn d l))"
| "host_step jn c (Restart env) h =
     (case open_ledger jn c env (ho_file h) of
        (F, Inl e) \<Rightarrow> (\<lparr>ho_file = F, ho_ledger = None\<rparr>, OOpen (Inl e))
      | (F, Inr l) \<Rightarrow> (\<lparr>ho_file = F, ho_ledger = Some l\<rparr>, OOpen (Inr ())))"

fun host_trace :: "journal \<Rightarrow> ledger_config \<Rightarrow> ledger_op list \<Rightarrow> host \<Rightarrow> (ledger_op \<times> ledger_outcome) list" where
  "host_trace jn c [] h = []"
| "host_trace jn c (op # ops) h =
     (case host_step jn c op h of (h', out) \<Rightarrow> (op, out) # host_trace jn c ops h')"

definition host_run :: "journal \<Rightarrow> ledger_config \<Rightarrow> ledger_op list \<Rightarrow> host \<Rightarrow> host" where
  "host_run jn c ops h = run_ops (\<lambda>h op. fst (host_step jn c op h)) h ops"

definition new_sequence :: "ledger_op \<times> ledger_outcome \<Rightarrow> nat option" where
  "new_sequence e =
     (case e of (Admit f _, OAdmit (Inr New)) \<Rightarrow> Some (xf_request_sequence f) | _ \<Rightarrow> None)"

definition new_sequences :: "(ledger_op \<times> ledger_outcome) list \<Rightarrow> nat list" where
  "new_sequences tr = List.map_filter new_sequence tr"

section \<open>Invariants of runs\<close>

definition host_ok :: "journal \<Rightarrow> ledger_config \<Rightarrow> (ledger_state \<Rightarrow> bool) \<Rightarrow> host \<Rightarrow> bool" where
  "host_ok jn c ok h \<longleftrightarrow>
     (case ho_file h of None \<Rightarrow> ok (new_state c) | Some b \<Rightarrow> durable jn ok b)
     \<and> (\<forall>l. ho_ledger h = Some l \<longrightarrow> recorded_as jn ok l \<and> ho_file h = Some (lg_file l))"

lemma host_ok_running: "recorded_as jn ok l \<Longrightarrow> host_ok jn c ok (running l)"
  by (simp add: host_ok_def running_def recorded_as_def)

lemma with_ledger_ok:
  assumes "host_ok jn c ok h" and "with_ledger h f = (h', out)"
    and "\<And>l l' out. ho_ledger h = Some l \<Longrightarrow> f l = (l', out) \<Longrightarrow> recorded_as jn ok l \<Longrightarrow> recorded_as jn ok l'"
  shows "host_ok jn c ok h'"
proof (cases "ho_ledger h")
  case None
  then show ?thesis using assms(1,2) by (simp add: with_ledger_def)
next
  case (Some l)
  then obtain l' where l': "f l = (l', out)" "h' = running l'"
    using assms(2) by (auto simp: with_ledger_def split: prod.splits)
  have "recorded_as jn ok l" using assms(1) Some by (simp add: host_ok_def)
  with assms(3) [OF Some l'(1)] show ?thesis by (simp add: l'(2) host_ok_running)
qed

lemma open_file:
  assumes "open_ledger jn c env F = (F', r)"
  shows "F' = None \<Longrightarrow> F = None" "r = Inr l \<Longrightarrow> F' = Some (lg_file l)"
  using open_ledger_cases [OF assms] by auto

definition owner_accepts :: "(ipc_ack \<Rightarrow> bool) \<Rightarrow> ledger_op \<Rightarrow> bool" where
  "owner_accepts accepts op = (case op of Complete ack _ \<Rightarrow> accepts ack | _ \<Rightarrow> True)"

context journal_property
begin

lemma host_step_ok:
  assumes laws: "journal_laws jn" and h: "host_ok jn c ok h" and op: "owner_accepts accepts op" and s: "host_step jn c op h = (h', out)"
  shows "host_ok jn c ok h'"
proof (cases op)
  case (Admit f d)
  show ?thesis using s unfolding Admit host_step.simps
    by (rule with_ledger_ok [OF h]) (auto simp: apsnd_def map_prod_def intro: admit_keeps [OF laws] split: prod.splits)
next
  case (Complete ack d)
  show ?thesis using s unfolding Complete host_step.simps
    by (rule with_ledger_ok [OF h]) (use op in \<open>auto simp: Complete owner_accepts_def apsnd_def map_prod_def
          intro: complete_keeps [OF laws] split: prod.splits\<close>)
next
  case (Quarantine d)
  show ?thesis using s unfolding Quarantine host_step.simps
    by (rule with_ledger_ok [OF h]) (auto simp: apsnd_def map_prod_def intro: quarantine_keeps [OF laws] split: prod.splits)
next
  case (Restart env)
  obtain F r where o: "open_ledger jn c env (ho_file h) = (F, r)" by fastforce
  have "\<forall>b. ho_file h = Some b \<longrightarrow> durable jn ok b" and "ho_file h = None \<Longrightarrow> ok (new_state c)"
    using h by (auto simp: host_ok_def)
  note k = open_keeps [OF laws o this] and f = open_file [OF o]
  have "h' = \<lparr>ho_file = F, ho_ledger = (case r of Inl _ \<Rightarrow> None | Inr l \<Rightarrow> Some l)\<rparr>"
    using s o by (auto simp: Restart split: sum.splits)
  then show ?thesis using k f h by (auto simp: host_ok_def split: option.splits sum.splits)
qed

end

section \<open>Sequence numbers\<close>

text \<open>The position of a state: even when idle, odd while a request is pending.\<close>

definition at_least :: "nat \<Rightarrow> ledger_state \<Rightarrow> bool" where
  "at_least k s \<longleftrightarrow> k \<le> 2 * ls_next_sequence s + (if ls_pending s = None then 0 else 1)"

interpretation position: journal_property "at_least k" "\<lambda>_. True"
  by unfold_locales (auto simp: at_least_def completed_state_def split: if_splits)

interpretation quarantined: journal_property ls_quarantined "\<lambda>_. True"
  by unfold_locales (simp_all add: completed_state_def)

lemma host_step_new:
  assumes laws: "journal_laws jn" and h: "host_ok jn c (at_least k) h"
    and s: "host_step jn c op h = (h', out)" and n: "new_sequence (op, out) = Some n"
  shows "k \<le> 2 * n" "host_ok jn c (at_least (2 * n + 1)) h'"
proof -
  obtain f d l l' where op: "op = Admit f d" "n = xf_request_sequence f" and l: "ho_ledger h = Some l"
    and a: "admit jn d f l = (l', Inr New)" and h': "h' = running l'"
    using s n
    by (cases op) (auto simp: new_sequence_def with_ledger_def apsnd_def map_prod_def
        split: option.splits prod.splits ledger_outcome.splits sum.splits admission.splits)
  have rec: "recorded_as jn (at_least k) l" using h l by (simp add: host_ok_def)
  obtain p' where t: "ls_pending (lg_state l) = None" "ls_next_sequence (lg_state l) = n"
    and p: "persist jn d (set_state l ((lg_state l)\<lparr>ls_pending := Some p'\<rparr>)) = (l', Inr ())"
    using admit_new [OF a] op(2) by metis
  show "k \<le> 2 * n" using rec t by (simp add: recorded_as_def at_least_def)
  have "recorded_as jn (at_least (2 * n + 1)) l'"
    by (rule persist_written [OF laws p]) (use rec t in \<open>auto simp: set_state_def at_least_def recorded_as_def durable_def\<close>)
  then show "host_ok jn c (at_least (2 * n + 1)) h'" by (simp add: h' host_ok_running)
qed

lemma new_sequences_from:
  assumes laws: "journal_laws jn"
  shows "host_ok jn c (at_least k) h \<Longrightarrow>
    sorted_wrt (<) (new_sequences (host_trace jn c ops h)) \<and> (\<forall>n \<in> set (new_sequences (host_trace jn c ops h)). k \<le> 2 * n)"
proof (induction ops arbitrary: h k)
  case Nil
  then show ?case by (simp add: new_sequences_def)
next
  case (Cons op ops)
  obtain h' out where s: "host_step jn c op h = (h', out)" by fastforce
  have t: "host_trace jn c (op # ops) h = (op, out) # host_trace jn c ops h'" by (simp add: s)
  show ?case
  proof (cases "new_sequence (op, out)")
    case None
    have "host_ok jn c (at_least k) h'"
      by (rule position.host_step_ok [OF laws Cons.prems _ s]) (simp add: owner_accepts_def split: ledger_op.split)
    from Cons.IH [OF this] show ?thesis unfolding t by (simp add: new_sequences_def None)
  next
    case (Some n)
    note new = host_step_new [OF laws Cons.prems s Some]
    from Cons.IH [OF new(2)] new(1) show ?thesis unfolding t
      by (fastforce simp: new_sequences_def Some)
  qed
qed

text \<open>
  C33. A service starts new work for strictly increasing sequence numbers: over any run, whatever the
  disk loses or tears and however often the service restarts, no sequence number is admitted as new
  twice and none after a larger one.
\<close>

theorem new_admissions_increase:
  assumes "journal_laws jn"
  shows "sorted_wrt (<) (new_sequences (host_trace jn c ops empty_host))"
proof -
  have "host_ok jn c (at_least 0) empty_host" by (simp add: host_ok_def empty_host_def at_least_def)
  from new_sequences_from [OF assms this] show ?thesis by blast
qed

section \<open>Quarantine\<close>

interpretation any_state: journal_property "\<lambda>_. True" "\<lambda>_. True"
  by unfold_locales simp_all

lemma host_run_ok: "journal_laws jn \<Longrightarrow> host_ok jn c (\<lambda>_. True) h \<Longrightarrow> host_ok jn c (\<lambda>_. True) (host_run jn c ops h)"
proof (induction ops arbitrary: h)
  case (Cons op ops)
  have "host_ok jn c (\<lambda>_. True) (fst (host_step jn c op h))"
    by (rule any_state.host_step_ok [OF Cons.prems _ surjective_pairing]) (simp add: owner_accepts_def split: ledger_op.split)
  from Cons.IH [OF Cons.prems(1) this] show ?case by (simp add: host_run_def)
qed (simp add: host_run_def)

lemma quarantined_outcome:
  assumes h: "host_ok jn c ls_quarantined h" and laws: "journal_laws jn" and s: "host_step jn c op h = (h', out)"
  shows "out \<noteq> OAdmit (Inr a)" "out \<noteq> OOpen (Inr ())"
proof -
  have q: "ls_quarantined (lg_state l)" if "ho_ledger h = Some l" for l
    using h that by (simp add: host_ok_def recorded_as_def)
  show "out \<noteq> OAdmit (Inr a)"
    using s q by (cases op) (auto simp: with_ledger_def admit_def Let_def apsnd_def map_prod_def
        split: option.splits prod.splits sum.splits)
  show "out \<noteq> OOpen (Inr ())"
  proof
    assume out: "out = OOpen (Inr ())"
    then obtain env where op: "op = Restart env"
      using s by (cases op) (auto simp: with_ledger_def apsnd_def map_prod_def split: option.splits prod.splits)
    then obtain F l where o: "open_ledger jn c env (ho_file h) = (F, Inr l)"
      using s out by (auto split: prod.splits sum.splits)
    have "\<forall>b. ho_file h = Some b \<longrightarrow> durable jn ls_quarantined b" "ho_file h = None \<Longrightarrow> ls_quarantined (new_state c)"
      using h by (auto simp: host_ok_def)
    from quarantined.open_keeps(2) [OF laws o this] open_ledger_cases [OF o]
    show False by (auto simp: recorded_as_def)
  qed
qed

text \<open>
  C35. A written quarantine is final: once an operation on a healthy ledger has answered that it is
  quarantined, no later operation admits anything and no restart brings the service up again, whatever
  the disk does.
\<close>

theorem written_quarantine_is_final:
  assumes laws: "journal_laws jn"
    and l: "ho_ledger (host_run jn c ops empty_host) = Some l" "\<not> ls_quarantined (lg_state l)"
    and s: "host_step jn c op (host_run jn c ops empty_host) = (h', out)"
    and out: "out = OAdmit (Inl IpcQuarantined) \<or> out = OResult (Inl IpcQuarantined)"
  shows "\<forall>(op', out') \<in> set (host_trace jn c ops' h'). (\<forall>a. out' \<noteq> OAdmit (Inr a)) \<and> out' \<noteq> OOpen (Inr ())"
proof -
  let ?q = "set_state l ((lg_state l)\<lparr>ls_quarantined := True\<rparr>)"
  have h: "host_ok jn c (\<lambda>_. True) (host_run jn c ops empty_host)"
    by (rule host_run_ok [OF laws]) (simp add: host_ok_def empty_host_def)
  obtain d l' where p: "persist jn d ?q = (l', Inr ())" and h': "h' = running l'"
    using s out l
    by (cases op) (auto simp: with_ledger_def apsnd_def map_prod_def persist_not_quarantined split: prod.splits sum.splits
        dest!: quarantine_written complete_quarantined admit_cases)
  have "recorded_as jn ls_quarantined l'"
    by (rule persist_written [OF laws p])
      (use h l in \<open>auto simp: set_state_def host_ok_def recorded_as_def\<close>)
  then have "host_ok jn c ls_quarantined h'" by (simp add: h' host_ok_running)
  then show ?thesis
  proof (induction ops' arbitrary: h')
    case (Cons op ops')
    obtain h2 out where s: "host_step jn c op h' = (h2, out)" by fastforce
    have "host_ok jn c ls_quarantined h2"
      by (rule quarantined.host_step_ok [OF laws Cons.prems _ s]) (simp add: owner_accepts_def split: ledger_op.split)
    from Cons.IH [OF this] quarantined_outcome [OF Cons.prems laws s] show ?case by (auto simp: s)
  qed simp
qed

end
