(* ===== verification/Ipc_Sample.thy ===== *)
theory Ipc_Sample
  imports Ipc_Runs
begin

text \<open>
  A concrete serialiser of journal records for the witnesses, with its laws: a record is a list of
  numbers, written in unary between braces and separated by commas. Concrete frames, keys and disks.
\<close>

section \<open>Records as numbers\<close>

definition put_text :: "string \<Rightarrow> nat list" where "put_text s = length s # map byte_of s"

definition put_pending :: "pending_frame option \<Rightarrow> nat list" where
  "put_pending p = (case p of None \<Rightarrow> [0]
     | Some p \<Rightarrow> [1, unat (pf_frame_id p), pf_sequence p, unat (pf_nonce p), unat (pf_frame_sha256 p)])"

definition put_endpoint :: "ipc_endpoint \<Rightarrow> nat" where
  "put_endpoint e = (case e of MasterToBroker \<Rightarrow> 0 | MasterToExecutor \<Rightarrow> 1)"

definition put_ack :: "ipc_ack option \<Rightarrow> nat list" where
  "put_ack a = (case a of None \<Rightarrow> [0]
     | Some a \<Rightarrow> [1, xa_schema_version a, put_endpoint (xa_endpoint a), unat (xa_ack_id a),
         unat (xa_frame_id a), xa_request_sequence a, xa_authority_revision a, unat (xa_frame_sha256 a),
         (case xa_status a of HealthyEffectDisabled \<Rightarrow> 0 | DispatchValidatedEffectDisabled \<Rightarrow> 1),
         xa_effects_applied a] @ put_text (xa_signer_key_id a) @ put_text (xa_signature a))"

definition put_record :: "journal_record \<Rightarrow> nat list" where
  "put_record r = (let s = jr_state r in
     [jr_schema_version r, unat (jr_previous_record_sha256 r), put_endpoint (ls_endpoint s),
      unat (ls_service_id s), ls_authority_revision s, ls_next_sequence s,
      (if ls_quarantined s then 1 else 0)] @ put_pending (ls_pending s) @ put_ack (ls_last_ack s))"

definition get_endpoint :: "nat \<Rightarrow> ipc_endpoint" where
  "get_endpoint n = (if n = 0 then MasterToBroker else MasterToExecutor)"

definition get_text :: "nat list \<Rightarrow> (string \<times> nat list) option" where
  "get_text ns = (case ns of [] \<Rightarrow> None
     | n # t \<Rightarrow> if n \<le> length t then Some (map char_of (take n t), drop n t) else None)"

definition get_pending :: "nat list \<Rightarrow> (pending_frame option \<times> nat list) option" where
  "get_pending ns = (case ns of [] \<Rightarrow> None
     | k # t \<Rightarrow>
         if k = 0 then Some (None, t)
         else (case t of i # q # n # h # t' \<Rightarrow>
             Some (Some \<lparr>pf_frame_id = of_nat i, pf_sequence = q, pf_nonce = of_nat n,
                         pf_frame_sha256 = of_nat h\<rparr>, t')
           | _ \<Rightarrow> None))"

definition get_ack :: "nat list \<Rightarrow> (ipc_ack option \<times> nat list) option" where
  "get_ack ns = (case ns of [] \<Rightarrow> None
     | k # t \<Rightarrow>
         if k = 0 then Some (None, t)
         else (case t of v # e # a # f # q # r # h # s # x # t' \<Rightarrow>
             Option.bind (get_text t') (\<lambda>(key, t''). Option.bind (get_text t'') (\<lambda>(signature, rest).
             Some (Some \<lparr>xa_schema_version = v, xa_endpoint = get_endpoint e, xa_ack_id = of_nat a,
               xa_frame_id = of_nat f, xa_request_sequence = q, xa_authority_revision = r,
               xa_frame_sha256 = of_nat h,
               xa_status = (if s = 0 then HealthyEffectDisabled else DispatchValidatedEffectDisabled),
               xa_effects_applied = x, xa_signer_key_id = key, xa_signature = signature\<rparr>, rest)))
           | _ \<Rightarrow> None))"

definition get_record :: "nat list \<Rightarrow> journal_record option" where
  "get_record ns = (case ns of v # p # e # i # a # n # b # t \<Rightarrow>
       Option.bind (get_pending t) (\<lambda>(pending, t'). Option.bind (get_ack t') (\<lambda>(ack, rest).
       if rest = [] then
         Some \<lparr>jr_schema_version = v, jr_previous_record_sha256 = of_nat p,
           jr_state = \<lparr>ls_endpoint = get_endpoint e, ls_service_id = of_nat i, ls_authority_revision = a,
             ls_next_sequence = n, ls_pending = pending, ls_last_ack = ack, ls_quarantined = (b = 1)\<rparr>\<rparr>
       else None))
     | _ \<Rightarrow> None)"

lemma get_text_put [simp]: "get_text (put_text s @ t) = Some (s, t)"
  by (simp add: get_text_def put_text_def comp_def)

lemma get_endpoint_put [simp]: "get_endpoint (put_endpoint e) = e"
  by (cases e) (simp_all add: get_endpoint_def put_endpoint_def)

lemma get_pending_put [simp]: "get_pending (put_pending p @ t) = Some (p, t)"
  by (cases p) (simp_all add: get_pending_def put_pending_def)

lemma get_ack_put [simp]: "get_ack (put_ack a @ t) = Some (a, t)"
proof (cases a)
  case (Some x)
  then show ?thesis
    by (cases "xa_status x") (simp_all add: get_ack_def put_ack_def)
qed (simp add: get_ack_def put_ack_def)

lemma get_record_put [simp]: "get_record (put_record r) = Some r"
  using get_ack_put [of "ls_last_ack (jr_state r)" "[]"]
  by (simp add: get_record_def put_record_def Let_def del: get_ack_put)

section \<open>Numbers as text\<close>

fun read_unary :: "nat \<Rightarrow> string \<Rightarrow> nat list option" where
  "read_unary n [] = None"
| "read_unary n (c # s) =
     (if c = CHR ''1'' then read_unary (Suc n) s
      else if c = CHR '','' then map_option ((#) n) (read_unary 0 s)
      else if c = CHR ''}'' \<and> s = [] \<and> n = 0 then Some [] else None)"

definition write_unary :: "nat list \<Rightarrow> string" where
  "write_unary ns = concat (map (\<lambda>n. replicate n (CHR ''1'') @ '','') ns)"

definition record_text :: "journal_record \<Rightarrow> string" where
  "record_text r = CHR ''{'' # write_unary (put_record r) @ ''}''"

definition read_record :: "string \<Rightarrow> journal_record option" where
  "read_record s = (case s of [] \<Rightarrow> None
     | c # t \<Rightarrow> if c = CHR ''{'' then Option.bind (read_unary 0 t) get_record else None)"

lemma read_unary_ones: "read_unary k (replicate n (CHR ''1'') @ s) = read_unary (k + n) s"
  by (induction n arbitrary: k) simp_all

lemma read_write_unary: "read_unary 0 (write_unary ns @ ''}'') = Some ns"
  by (induction ns) (simp_all add: write_unary_def read_unary_ones)

lemma read_unary_brace: "CHR ''{'' \<in> set s \<Longrightarrow> read_unary n s = None"
  by (induction s arbitrary: n) auto

lemma set_write_unary: "set (write_unary ns) \<subseteq> {CHR ''1'', CHR '',''}"
  by (induction ns) (auto simp: write_unary_def)

section \<open>A journal\<close>

text \<open>Bytes of a frame carry only its identifier; 10 and 11 go to the broker, 12 to the executor.\<close>

definition sample_signature :: "string \<Rightarrow> string" where
  "sample_signature key = take 64 (key @ replicate 64 (CHR ''.''))"

definition frame_text :: "uuid \<Rightarrow> string" where "frame_text i = [CHR ''f'', char_of (unat i)]"

definition sample_frame :: "uuid \<Rightarrow> nat \<Rightarrow> control_frame" where
  "sample_frame i n =
     \<lparr>xf_schema_version = 1, xf_endpoint = (if i = 12 then MasterToExecutor else MasterToBroker),
      xf_frame_id = i, xf_request_sequence = n, xf_nonce = 2, xf_master_id = 3,
      xf_service_id = (if i = 12 then 5 else 4), xf_session_id = 6, xf_session_revision = 1,
      xf_child_epoch_id = 7, xf_child_epoch_revision = 1, xf_feature_lifecycle_revision = 1,
      xf_authority_revision = 1, xf_issued_at_ms = 1000, xf_expires_at_ms = 2000,
      xf_kind = (if i = 11 \<or> i = 12 then ValidateDispatch else Health),
      xf_forwarded_sha256 = (if i = 11 then 210 else 0),
      xf_forwarded = (if i = 11 then frame_text 12 else []),
      xf_signer_key_id = ''master'', xf_signature = sample_signature ''m''\<rparr>"

definition sample_ipc :: ipc where
  "sample_ipc =
     \<lparr>ip_codec = sample_codec \<lparr>quote_json := \<lambda>_. [], sha256 := \<lambda>_. 210, json_tokens := \<lambda>s. Some (JString s)\<rparr>,
      ip_frame_bytes = \<lambda>f. frame_text (xf_frame_id f), ip_ack_bytes = \<lambda>a. ''ack'',
      ip_acks_bytes = \<lambda>a. ''acks'',
      ip_decode_frame = \<lambda>t. (if t = JString (frame_text 10) then Some (sample_frame 10 1)
        else if t = JString (frame_text 11) then Some (sample_frame 11 1)
        else if t = JString (frame_text 12) then Some (sample_frame 12 1)
        else None),
      ip_decode_ack = \<lambda>_. None, ip_decode_acks = \<lambda>_. None,
      ip_sign = \<lambda>key m. sample_signature key, ip_verify = \<lambda>key m s. s = sample_signature key\<rparr>"

definition sample_journal :: journal where
  "sample_journal = \<lparr>jn_ipc = sample_ipc, jn_record_bytes = record_text, jn_decode_record = read_record\<rparr>"

lemma torn_starts: "torn sample_journal x \<Longrightarrow> \<exists>y. x = CHR ''{'' # y"
proof (induction rule: torn.induct)
  case (torn_one n r)
  then show ?case by (cases n) (simp_all add: sample_journal_def record_text_def)
qed auto

lemma sample_journal_laws: "journal_laws sample_journal"
proof -
  have "read_record (record_text r) = Some r" for r
    using read_write_unary [of "put_record r"] by (simp add: read_record_def record_text_def)
  moreover have "newline \<notin> set (record_text r)" for r
    using set_write_unary [of "put_record r"] by (auto simp: record_text_def newline_def)
  moreover have "read_record (x @ record_text r) = None" if "torn sample_journal x" for x r
    using torn_starts [OF that] read_unary_brace by (auto simp: read_record_def record_text_def)
  ultimately show ?thesis
    by (auto simp: journal_laws_def sample_journal_def record_text_def [of r for r])
qed

definition sample_config :: ledger_config where
  "sample_config = \<lparr>lc_endpoint = MasterToBroker, lc_service_id = 4, lc_authority_revision = 1,
     lc_initial_sequence = 1\<rparr>"

definition sample_env :: open_env where
  "sample_env = \<lparr>oe_path_ok = True, oe_parent_ok = True, oe_open_ok = True, oe_protect_ok = True,
     oe_attributes_ok = True, oe_stat_ok = True, oe_read_ok = True, oe_disk = DiskOk\<rparr>"

definition sample_ipc_ack :: "uuid \<Rightarrow> nat \<Rightarrow> ipc_ack" where
  "sample_ipc_ack i n =
     \<lparr>xa_schema_version = 1, xa_endpoint = MasterToBroker, xa_ack_id = 20, xa_frame_id = i,
      xa_request_sequence = n, xa_authority_revision = 1, xa_frame_sha256 = 210,
      xa_status = HealthyEffectDisabled, xa_effects_applied = 0, xa_signer_key_id = ''broker'',
      xa_signature = sample_signature ''b''\<rparr>"

end
