(* ===== verification/Ipc_Recovery.thy ===== *)
theory Ipc_Recovery
  imports Ipc_Sample
begin

text \<open>
  What a restart recovers: a written quarantine is final, and a run without a storage error refines the
  ideal ledger, which is never lost. Two concrete runs show what a failing disk does cost.
\<close>

section \<open>The ideal ledger\<close>

datatype ideal = Unopened | Up ledger_state | Down ledger_state

definition ideal_quarantine :: "ledger_state \<Rightarrow> ledger_state \<times> (ipc_error + 'a)" where
  "ideal_quarantine s = (s\<lparr>ls_quarantined := True\<rparr>, Inl IpcQuarantined)"

definition ideal_admit :: "ipc \<Rightarrow> control_frame \<Rightarrow> ledger_state \<Rightarrow> ledger_state \<times> (ipc_error + admission)" where
  "ideal_admit ip f s =
     (if ls_quarantined s then (s, Inl IpcQuarantined)
      else
        (case frame_canonical_sha256 ip f of
           Inl e \<Rightarrow> (s, Inl (IpcContract e))
         | Inr h \<Rightarrow>
             if other_target s f then ideal_quarantine s
             else
               (case (replayed_ack s f h, ls_pending s) of
                  (Some ack, _) \<Rightarrow> (s, Inr (Replay ack))
                | (None, Some p) \<Rightarrow>
                    if same_request p f h then (s, Inr RecoverPending) else ideal_quarantine s
                | (None, None) \<Rightarrow>
                    if xf_request_sequence f \<noteq> ls_next_sequence s then ideal_quarantine s
                    else (s\<lparr>ls_pending := Some (pending_of f h)\<rparr>, Inr New))))"

definition ideal_complete :: "ipc_ack \<Rightarrow> ledger_state \<Rightarrow> ledger_state \<times> (ipc_error + unit)" where
  "ideal_complete ack s =
     (case ls_pending s of
        None \<Rightarrow> (s, Inl IpcInvalidState)
      | Some p \<Rightarrow>
          if ack_differs s p ack then ideal_quarantine s
          else if ls_next_sequence s \<ge> u64_max then (s, Inl IpcInvalidState)
          else (completed_state s (ls_next_sequence s + 1) ack, Inr ()))"

definition on_up :: "ideal \<Rightarrow> (ledger_state \<Rightarrow> ledger_state \<times> ledger_outcome) \<Rightarrow> ideal \<times> ledger_outcome" where
  "on_up i f = (case i of Up s \<Rightarrow> apfst Up (f s) | _ \<Rightarrow> (i, ODown))"

definition ideal_open :: "ledger_state \<Rightarrow> ideal \<times> ledger_outcome" where
  "ideal_open s =
     (if ls_quarantined s then (Down s, OOpen (Inl IpcQuarantined)) else (Up s, OOpen (Inr ())))"

fun ideal_step :: "ipc \<Rightarrow> ledger_config \<Rightarrow> ledger_op \<Rightarrow> ideal \<Rightarrow> ideal \<times> ledger_outcome" where
  "ideal_step ip c (Admit f _) i = on_up i (\<lambda>s. apsnd OAdmit (ideal_admit ip f s))"
| "ideal_step ip c (Complete ack _) i = on_up i (\<lambda>s. apsnd OResult (ideal_complete ack s))"
| "ideal_step ip c (Quarantine _) i = on_up i (\<lambda>s. apsnd OResult (ideal_quarantine s))"
| "ideal_step ip c (Restart _) i =
     (case i of Unopened \<Rightarrow> ideal_open (new_state c) | Up s \<Rightarrow> ideal_open s | Down s \<Rightarrow> ideal_open s)"

fun ideal_outcomes :: "ipc \<Rightarrow> ledger_config \<Rightarrow> ledger_op list \<Rightarrow> ideal \<Rightarrow> ledger_outcome list" where
  "ideal_outcomes ip c [] i = []"
| "ideal_outcomes ip c (op # ops) i =
     (case ideal_step ip c op i of (i', out) \<Rightarrow> out # ideal_outcomes ip c ops i')"

text \<open>The errors of a failing or full disk; a completion without a request gives the second, too.\<close>

definition storage_error :: "ledger_outcome \<Rightarrow> bool" where
  "storage_error out \<longleftrightarrow>
     out \<in> {OAdmit (Inl IpcIo), OAdmit (Inl IpcInvalidState), OResult (Inl IpcIo), OResult (Inl IpcInvalidState),
            OOpen (Inl IpcIo), OOpen (Inl IpcInvalidState)}"

section \<open>Refinement\<close>

definition refines :: "journal \<Rightarrow> host \<Rightarrow> ideal \<Rightarrow> bool" where
  "refines jn h i =
     (case i of
        Unopened \<Rightarrow> h = empty_host
      | Up s \<Rightarrow> (\<exists>l. h = running l \<and> synced jn l \<and> lg_state l = s)
      | Down s \<Rightarrow> (\<exists>b x. h = \<lparr>ho_file = Some b, ho_ledger = None\<rparr> \<and> load_records jn b = Inr (s, x)))"

definition follows :: "journal \<Rightarrow> ledger \<times> (ipc_error + 'a) \<Rightarrow> ledger_state \<times> (ipc_error + 'a) \<Rightarrow> bool" where
  "follows jn m i \<longleftrightarrow> synced jn (fst m) \<and> lg_state (fst m) = fst i \<and> snd m = snd i"

definition storage_failed :: "ipc_error + 'a \<Rightarrow> bool" where
  "storage_failed r = (case r of Inl e \<Rightarrow> e = IpcIo \<or> e = IpcInvalidState | Inr _ \<Rightarrow> False)"

lemma persist_follows:
  assumes laws: "journal_laws jn" and l: "synced jn l"
  shows "(\<exists>l' e. persist jn d (set_state l s) = (l', Inl e) \<and> (e = IpcIo \<or> e = IpcInvalidState))
    \<or> (\<exists>l'. persist jn d (set_state l s) = (l', Inr ()) \<and> synced jn l' \<and> lg_state l' = s)"
proof -
  obtain l' q where p: "persist jn d (set_state l s) = (l', q)" by fastforce
  show ?thesis
  proof (cases q)
    case (Inl e)
    then have "e = IpcIo \<or> e = IpcInvalidState"
      using p by (auto simp: persist_def Let_def split: if_splits disk.splits)
    then show ?thesis using p Inl by simp
  next
    case (Inr u)
    then have "persist jn d (set_state l s) = (l', Inr ())" using p by simp
    from persist_synced [OF laws this synced_appendable [OF l]] persist_cases(1) [OF this] this
    show ?thesis by (simp add: set_state_def)
  qed
qed

lemma quarantine_follows:
  assumes "journal_laws jn" "synced jn l"
  shows "storage_failed (snd (quarantine jn d l :: _ \<times> (ipc_error + 'a)))
    \<or> follows jn (quarantine jn d l :: _ \<times> (ipc_error + 'a)) (ideal_quarantine (lg_state l))"
  using persist_follows [OF assms, of d "(lg_state l)\<lparr>ls_quarantined := True\<rparr>"]
  by (elim disjE exE conjE) (simp_all add: quarantine_def follows_def ideal_quarantine_def storage_failed_def)

lemma admit_follows:
  assumes "journal_laws jn" "synced jn l"
  shows "storage_failed (snd (admit jn d f l)) \<or> follows jn (admit jn d f l) (ideal_admit (jn_ipc jn) f (lg_state l))"
proof (cases "frame_canonical_sha256 (jn_ipc jn) f")
  case (Inl e)
  then show ?thesis using assms by (simp add: admit_def ideal_admit_def follows_def)
next
  case (Inr h)
  note q = quarantine_follows [OF assms, of d, where 'a = admission]
  note defs = admit_def ideal_admit_def Let_def Inr
  let ?s = "lg_state l"
  consider "ls_quarantined ?s" | "\<not> ls_quarantined ?s" "other_target ?s f"
    | a where "\<not> ls_quarantined ?s" "\<not> other_target ?s f" "replayed_ack ?s f h = Some a"
    | p where "\<not> ls_quarantined ?s" "\<not> other_target ?s f" "replayed_ack ?s f h = None" "ls_pending ?s = Some p"
    | "\<not> ls_quarantined ?s" "\<not> other_target ?s f" "replayed_ack ?s f h = None" "ls_pending ?s = None"
    by fastforce
  then show ?thesis
  proof cases
    case 1
    then show ?thesis using assms(2) by (simp add: defs follows_def)
  next
    case 2
    then show ?thesis using q by (simp add: defs)
  next
    case 3
    then show ?thesis using assms(2) by (simp add: defs follows_def)
  next
    case 4
    then show ?thesis using assms(2) q by (cases "same_request p f h") (simp_all add: defs follows_def)
  next
    case 5
    show ?thesis
    proof (cases "xf_request_sequence f = ls_next_sequence ?s")
      case True
      then show ?thesis
        using persist_follows [OF assms, of d "?s\<lparr>ls_pending := Some (pending_of f h)\<rparr>"] 5
        by (elim disjE exE conjE) (simp_all add: defs follows_def storage_failed_def)
    next
      case False
      then show ?thesis using 5 q by (simp add: defs)
    qed
  qed
qed

lemma complete_follows:
  assumes "journal_laws jn" "synced jn l"
  shows "storage_failed (snd (complete jn d ack l)) \<or> follows jn (complete jn d ack l) (ideal_complete ack (lg_state l))"
proof (cases "ls_pending (lg_state l)")
  case None
  then show ?thesis by (simp add: complete_def storage_failed_def Let_def)
next
  case (Some p)
  note q = quarantine_follows [OF assms, of d, where 'a = unit]
  show ?thesis
  proof (cases "ack_differs (lg_state l) p ack \<or> ls_next_sequence (lg_state l) \<ge> u64_max")
    case True
    then show ?thesis using q Some
      by (auto simp: complete_def ideal_complete_def Let_def storage_failed_def checked_add_u64_def)
  next
    case False
    then show ?thesis
      using persist_follows [OF assms, of d "completed_state (lg_state l) (ls_next_sequence (lg_state l) + 1) ack"] Some
      by (elim disjE exE conjE)
        (simp_all add: complete_def ideal_complete_def Let_def follows_def storage_failed_def checked_add_u64_def)
  qed
qed

lemma open_follows:
  assumes laws: "journal_laws jn" and o: "open_ledger jn c env F = (F', r)"
    and F: "\<And>b. F = Some b \<Longrightarrow> load_records jn b = Inr (s, x)" "F = None \<Longrightarrow> s = new_state c"
  shows "r = Inl IpcIo \<or> r = Inl IpcInvalidState
    \<or> ls_quarantined s \<and> r = Inl IpcQuarantined \<and> (\<exists>b y. F' = Some b \<and> load_records jn b = Inr (s, y))
    \<or> \<not> ls_quarantined s \<and> (\<exists>l. r = Inr l \<and> F' = Some (lg_file l) \<and> synced jn l \<and> lg_state l = s)"
proof -
  have w: "q = Inl IpcIo \<or> q = Inl IpcInvalidState \<or> q = Inr () \<and> synced jn l' \<and> lg_state l' = s"
    if rd: "read_state jn c env F = Inr (t, h)" and fw: "first_write jn env F t h = (l', q)" for t h l' q
  proof (cases F)
    case None
    let ?l = "\<lparr>lg_file = [], lg_state = s, lg_last_record_sha256 = 0\<rparr>"
    have p: "persist jn (oe_disk env) ?l = (l', q)"
      using rd fw None F by (simp add: read_state_def first_write_def file_content_def)
    show ?thesis
    proof (cases q)
      case (Inl e)
      then show ?thesis using p by (auto simp: persist_def Let_def split: if_splits disk.splits)
    next
      case (Inr u)
      then show ?thesis using persist_synced [OF laws p [unfolded Inr]] persist_cases(1) [OF p]
        by (simp add: appendable_def)
    qed
  next
    case (Some b)
    then show ?thesis using rd fw F
      by (auto simp: read_state_def first_write_def file_content_def synced_def bindE_Inr_iff)
  qed
  show ?thesis using open_ledger_cases [OF o]
  proof (elim disjE exE conjE)
    fix t h l' q
    assume a: "read_state jn c env F = Inr (t, h)" "first_write jn env F t h = (l', q)" "F' = Some (lg_file l')"
      "\<forall>e. r = Inl e \<longrightarrow> q = Inl e \<or> e = IpcQuarantined \<and> q = Inr () \<and> ls_quarantined (lg_state l')"
      "\<forall>l. r = Inr l \<longrightarrow> l = l' \<and> q = Inr () \<and> \<not> ls_quarantined (lg_state l')"
      "q = Inr () \<and> \<not> ls_quarantined (lg_state l') \<longrightarrow> r = Inr l'"
    show ?thesis using w [OF a(1,2)] a(3-6)
      by (cases r) (auto simp: synced_def)
  qed auto
qed

lemma step_refines:
  assumes laws: "journal_laws jn" and r: "refines jn h i"
    and s: "host_step jn c op h = (h', out)" and t: "ideal_step (jn_ipc jn) c op i = (i', out')"
  shows "storage_error out \<or> out = out' \<and> refines jn h' i'"
proof (cases "op")
  case (Restart env)
  obtain F' res where o: "open_ledger jn c env (ho_file h) = (F', res)" by fastforce
  define st where "st = (case i of Unopened \<Rightarrow> new_state c | Up s \<Rightarrow> s | Down s \<Rightarrow> s)"
  obtain x where F: "\<And>b. ho_file h = Some b \<Longrightarrow> load_records jn b = Inr (st, x)"
      "ho_file h = None \<Longrightarrow> st = new_state c"
    using r by (auto simp: refines_def st_def empty_host_def running_def synced_def split: ideal.splits)
  have i: "(i', out') = ideal_open st" using t by (auto simp: Restart st_def split: ideal.splits)
  show ?thesis using open_follows [OF laws o F] s i
    by (auto simp: Restart o storage_error_def ideal_open_def refines_def running_def split: if_splits)
next
  case (Admit f d)
  show ?thesis
  proof (cases i)
    case (Up u)
    then obtain l where l: "h = running l" "synced jn l" "lg_state l = u" using r by (auto simp: refines_def)
    show ?thesis using admit_follows [OF laws l(2), of d f] s t
      by (cases "admit jn d f l"; cases "ideal_admit (jn_ipc jn) f u")
        (auto simp: Admit Up l with_ledger_def on_up_def running_def refines_def follows_def
          storage_failed_def storage_error_def split: sum.splits)
  qed (use r s t in \<open>auto simp: Admit refines_def with_ledger_def on_up_def empty_host_def\<close>)
next
  case (Complete ack d)
  show ?thesis
  proof (cases i)
    case (Up u)
    then obtain l where l: "h = running l" "synced jn l" "lg_state l = u" using r by (auto simp: refines_def)
    show ?thesis using complete_follows [OF laws l(2), of d ack] s t
      by (cases "complete jn d ack l"; cases "ideal_complete ack u")
        (auto simp: Complete Up l with_ledger_def on_up_def running_def refines_def follows_def
          storage_failed_def storage_error_def split: sum.splits)
  qed (use r s t in \<open>auto simp: Complete refines_def with_ledger_def on_up_def empty_host_def\<close>)
next
  case (Quarantine d)
  show ?thesis
  proof (cases i)
    case (Up u)
    then obtain l where l: "h = running l" "synced jn l" "lg_state l = u" using r by (auto simp: refines_def)
    show ?thesis using quarantine_follows [OF laws l(2), of d, where 'a = unit] s t
      by (cases "quarantine jn d l :: ledger \<times> (ipc_error + unit)"; cases "ideal_quarantine u :: ledger_state \<times> (ipc_error + unit)")
        (auto simp: Quarantine Up l with_ledger_def on_up_def running_def refines_def follows_def
          storage_failed_def storage_error_def split: sum.splits)
  qed (use r s t in \<open>auto simp: Quarantine refines_def with_ledger_def on_up_def empty_host_def\<close>)
qed

text \<open>
  C34. The journal loses nothing: on every run in which no outcome is a storage error, restarts included,
  the ledger answers exactly like the ideal ledger, whose state is never lost. Admissions, replays,
  recoveries and quarantines are the same with and without the restarts, and a restart is visible only
  in a quarantined service, which stays down.
\<close>

theorem ledger_refines_ideal:
  assumes laws: "journal_laws jn"
    and ok: "\<forall>(op, out) \<in> set (host_trace jn c ops empty_host). \<not> storage_error out"
  shows "map snd (host_trace jn c ops empty_host) = ideal_outcomes (jn_ipc jn) c ops Unopened"
proof -
  have "map snd (host_trace jn c ops h) = ideal_outcomes (jn_ipc jn) c ops i"
    if "refines jn h i" "\<forall>(op, out) \<in> set (host_trace jn c ops h). \<not> storage_error out" for h i
    using that
  proof (induction ops arbitrary: h i)
    case (Cons op ops)
    obtain h' out where s: "host_step jn c op h = (h', out)" by fastforce
    obtain i' out' where t: "ideal_step (jn_ipc jn) c op i = (i', out')" by fastforce
    show ?case using step_refines [OF laws Cons.prems(1) s t] Cons.IH [of h' i'] Cons.prems(2)
      by (simp add: s t)
  qed simp
  from this [OF _ ok] show ?thesis by (simp add: refines_def)
qed

end
