(* ===== verification/Ipc_Faults.thy ===== *)
theory Ipc_Faults
  imports Ipc_Recovery
begin

text \<open>
  Concrete runs of the ledger: the witnesses of the durability properties, and two runs that show what a
  failing disk costs.
\<close>

section \<open>Evaluating the sample journal\<close>

lemma sample_ipc_fields [simp]:
  "ip_frame_bytes sample_ipc f = frame_text (xf_frame_id f)" "ip_ack_bytes sample_ipc a = ''ack''"
  "ip_sign sample_ipc key m = sample_signature key"
  "ip_verify sample_ipc key m s \<longleftrightarrow> s = sample_signature key"
  "sha256 (ip_codec sample_ipc) s = 210" "json_tokens (ip_codec sample_ipc) s = Some (JString s)"
  by (simp_all add: sample_ipc_def)

lemma sample_journal_fields [simp]:
  "jn_ipc sample_journal = sample_ipc" "jn_record_bytes sample_journal = record_text"
  "jn_decode_record sample_journal = read_record"
  by (simp_all add: sample_journal_def)

lemma length_sample_signature [simp]: "length (sample_signature key) = 64"
  by (simp add: sample_signature_def)

lemma sample_key_ids:
  "validate_identifier ''windows_execution_signer_key_id'' ''master'' MAX_EXECUTION_IDENTITY_BYTES = Inr ()"
  "validate_identifier ''windows_execution_ack_signer_key_id'' ''broker'' MAX_EXECUTION_IDENTITY_BYTES = Inr ()"
  by code_simp+

lemma sample_frame_valid [simp]:
  "i \<in> {10, 11, 12} \<Longrightarrow> 0 < n \<Longrightarrow> validate_frame sample_ipc (sample_frame i n) = Inr ()"
  by (auto simp: validate_frame_def validate_frame_shape_def validate_uuid_def frame_numbers_bad_def
      forward_bad_def sample_frame_def sample_key_ids bindE_Inr_iff reject_if_Inr_iff
      WINDOWS_EXECUTION_IPC_SCHEMA_VERSION_def frame_text_def
      MAX_WINDOWS_EXECUTION_IPC_PAYLOAD_BYTES_def MAX_WINDOWS_EXECUTION_IPC_FRAME_BYTES_def
      validate_serialized_limit_Inr)

lemma sample_frame_digest [simp]:
  "i \<in> {10, 11, 12} \<Longrightarrow> 0 < n \<Longrightarrow> frame_canonical_sha256 sample_ipc (sample_frame i n) = Inr 210"
  by (simp add: frame_canonical_sha256_def)

lemma length_write_unary [simp]: "length (write_unary ns) = sum_list ns + length ns"
  by (induction ns) (simp_all add: write_unary_def)

lemma length_record_text [simp]:
  "length (record_text r) = 2 + sum_list (put_record r) + length (put_record r)"
  by (simp add: record_text_def)

definition appended :: "ledger \<Rightarrow> ledger" where
  "appended l = l\<lparr>lg_file := lg_file l @ record_text (next_record l) @ [newline],
     lg_last_record_sha256 := 210\<rparr>"

lemma appended_simps [simp]:
  "lg_state (appended l) = lg_state l" "lg_last_record_sha256 (appended l) = 210"
  "lg_state (set_state l s) = s" "lg_last_record_sha256 (set_state l s) = lg_last_record_sha256 l"
  "lg_file (set_state l s) = lg_file l"
  "length (lg_file (appended l)) = length (lg_file l) + length (record_text (next_record l)) + 1"
  by (simp_all add: appended_def set_state_def)

definition small :: "ledger \<Rightarrow> bool" where
  "small l \<longleftrightarrow> length (record_text (next_record l)) \<le> 60000 \<and> length (lg_file l) \<le> 900000"

lemma sample_persist:
  assumes "small l"
  shows "persist sample_journal DiskOk l = (appended l, Inr ())"
    "persist sample_journal (WriteFails 0) l = (l, Inl IpcIo)"
  using assms by (simp_all add: small_def persist_def journal_has_room_def checked_add_u64_def u64_max_def
      MAX_JOURNAL_BYTES_def appended_def)

lemma sample_synced:
  "small l \<Longrightarrow> appendable sample_journal l \<Longrightarrow> synced sample_journal (appended l)"
  using persist_synced [OF sample_journal_laws sample_persist(1)] by simp

lemma sample_reopened:
  assumes "synced sample_journal l" "state_matches sample_config (lg_state l)"
  shows "open_ledger sample_journal sample_config sample_env (Some (lg_file l)) =
    (Some (lg_file l), if ls_quarantined (lg_state l) then Inl IpcQuarantined else Inr l)"
proof -
  have "lg_file l \<noteq> [] \<and> length (lg_file l) \<le> MAX_JOURNAL_BYTES"
    using assms(1) by (auto simp: synced_def load_records_def bindE_Inr_iff reject_if_Inr_iff)
  then show ?thesis using assms
    by (simp add: open_ledger_def file_content_def read_state_def first_write_def sample_env_def
        sample_config_def synced_def Let_def)
qed

section \<open>A sample ledger\<close>

definition sample_fresh :: ledger where
  "sample_fresh = appended \<lparr>lg_file = [], lg_state = new_state sample_config, lg_last_record_sha256 = 0\<rparr>"

definition sample_admitted :: ledger where
  "sample_admitted = appended (set_state sample_fresh
     ((new_state sample_config)\<lparr>ls_pending := Some (pending_of (sample_frame 10 1) 210)\<rparr>))"

definition sample_completed :: ledger where
  "sample_completed = appended (set_state sample_admitted
     (completed_state (lg_state sample_admitted) 2 (sample_ipc_ack 10 1)))"

lemma sample_states:
  "lg_state sample_fresh = new_state sample_config"
  "lg_state sample_admitted = (new_state sample_config)\<lparr>ls_pending := Some (pending_of (sample_frame 10 1) 210)\<rparr>"
  "lg_state sample_completed = completed_state (lg_state sample_admitted) 2 (sample_ipc_ack 10 1)"
  "lg_last_record_sha256 sample_fresh = 210" "lg_last_record_sha256 sample_admitted = 210"
  "lg_last_record_sha256 sample_completed = 210"
  by (simp_all add: sample_fresh_def sample_admitted_def sample_completed_def)

lemmas sample_sizes = next_record_def put_record_def Let_def new_state_def sample_config_def
  JOURNAL_SCHEMA_VERSION_def put_endpoint_def put_pending_def put_ack_def put_text_def pending_of_def
  sample_frame_def completed_state_def sample_ipc_ack_def

lemma sample_bytes:
  "sum_list (map byte_of (sample_signature ''b'')) = 2996" "sum_list (map byte_of ''broker'') = 645"
  by code_simp+

lemma sample_lengths:
  "length (lg_file sample_fresh) \<le> 1000" "length (lg_file sample_admitted) \<le> 3000"
  "length (lg_file sample_completed) \<le> 20000"
  by (simp_all add: sample_fresh_def sample_admitted_def sample_completed_def sample_sizes sample_bytes
    del: list.map)

lemma sample_small:
  "small \<lparr>lg_file = [], lg_state = new_state sample_config, lg_last_record_sha256 = 0\<rparr>"
  "small (set_state sample_fresh (lg_state sample_admitted))"
  "small (set_state sample_fresh ((new_state sample_config)\<lparr>ls_quarantined := True\<rparr>))"
  "small (set_state sample_admitted (lg_state sample_completed))"
  "small (set_state sample_completed
     ((lg_state sample_completed)\<lparr>ls_pending := Some (pending_of (sample_frame 11 2) 210)\<rparr>))"
  using sample_lengths
  by (simp_all add: small_def sample_states sample_sizes sample_bytes set_state_def del: list.map)

lemma sample_opened:
  "open_ledger sample_journal sample_config sample_env None = (Some (lg_file sample_fresh), Inr sample_fresh)"
  using sample_persist(1) [OF sample_small(1)]
  by (simp add: open_ledger_def file_content_def read_state_def first_write_def sample_env_def Let_def
      sample_fresh_def state_matches_def)
     (simp add: new_state_def sample_config_def)

lemma sample_synced_states:
  "synced sample_journal sample_fresh" "synced sample_journal sample_admitted"
  "synced sample_journal sample_completed"
proof -
  show fresh: "synced sample_journal sample_fresh"
    unfolding sample_fresh_def by (rule sample_synced [OF sample_small(1)]) (simp add: appendable_def)
  show admitted: "synced sample_journal sample_admitted"
    unfolding sample_admitted_def
    by (rule sample_synced [OF sample_small(2) [unfolded sample_states] synced_appendable [OF fresh]])
  show "synced sample_journal sample_completed"
    unfolding sample_completed_def
    by (rule sample_synced [OF sample_small(4) [unfolded sample_states(3)] synced_appendable [OF admitted]])
qed

lemma sample_ledger_restart:
  "open_ledger sample_journal sample_config sample_env (Some (lg_file sample_admitted))
     = (Some (lg_file sample_admitted), Inr sample_admitted)"
  "open_ledger sample_journal sample_config sample_env (Some (lg_file sample_completed))
     = (Some (lg_file sample_completed), Inr sample_completed)"
  using sample_reopened [OF sample_synced_states(2)] sample_reopened [OF sample_synced_states(3)]
  by (simp_all add: sample_states state_matches_def new_state_def sample_config_def completed_state_def)

lemmas sample_step_defs = admit_def complete_def Let_def sample_states new_state_def sample_config_def
  other_target_def replayed_ack_def same_request_def pending_of_def ack_differs_def sample_frame_def
  sample_ipc_ack_def completed_state_def checked_add_u64_def u64_max_def

lemma sample_steps:
  "admit sample_journal DiskOk (sample_frame 10 1) sample_fresh = (sample_admitted, Inr New)"
  "admit sample_journal d (sample_frame 10 1) sample_admitted = (sample_admitted, Inr RecoverPending)"
  "complete sample_journal DiskOk (sample_ipc_ack 10 1) sample_admitted = (sample_completed, Inr ())"
  "admit sample_journal d (sample_frame 10 1) sample_completed
     = (sample_completed, Inr (Replay (sample_ipc_ack 10 1)))"
  "\<exists>l. admit sample_journal DiskOk (sample_frame 11 2) sample_completed = (l, Inr New)"
proof -
  note digest = sample_frame_digest [of 10 1] sample_frame_digest [of 11 2]
  have p: "persist sample_journal DiskOk (set_state sample_fresh (lg_state sample_admitted)) = (sample_admitted, Inr ())"
    using sample_persist(1) [OF sample_small(2)] by (simp add: sample_admitted_def)
  show "admit sample_journal DiskOk (sample_frame 10 1) sample_fresh = (sample_admitted, Inr New)"
    using p digest by (simp add: sample_step_defs)
  show "admit sample_journal d (sample_frame 10 1) sample_admitted = (sample_admitted, Inr RecoverPending)"
    using digest by (simp add: sample_step_defs)
  have p: "persist sample_journal DiskOk (set_state sample_admitted (lg_state sample_completed))
      = (sample_completed, Inr ())"
    using sample_persist(1) [OF sample_small(4)] by (simp add: sample_completed_def)
  then show "complete sample_journal DiskOk (sample_ipc_ack 10 1) sample_admitted = (sample_completed, Inr ())"
    by (simp add: sample_step_defs WINDOWS_EXECUTION_IPC_SCHEMA_VERSION_def numeral_2_eq_2)
  show "admit sample_journal d (sample_frame 10 1) sample_completed
     = (sample_completed, Inr (Replay (sample_ipc_ack 10 1)))"
    using digest by (simp add: sample_step_defs)
  show "\<exists>l. admit sample_journal DiskOk (sample_frame 11 2) sample_completed = (l, Inr New)"
    using sample_persist(1) [OF sample_small(5)] digest by (simp add: sample_step_defs)
qed

section \<open>Witnesses\<close>

definition sample_ledger_ops :: "ledger_op list" where
  "sample_ledger_ops =
     [Restart sample_env, Admit (sample_frame 10 1) DiskOk, Restart sample_env,
      Admit (sample_frame 10 1) DiskOk, Complete (sample_ipc_ack 10 1) DiskOk, Restart sample_env,
      Admit (sample_frame 10 1) DiskOk, Admit (sample_frame 11 2) DiskOk]"

lemma sample_trace:
  "map snd (host_trace sample_journal sample_config sample_ledger_ops empty_host) =
     [OOpen (Inr ()), OAdmit (Inr New), OOpen (Inr ()), OAdmit (Inr RecoverPending), OResult (Inr ()),
      OOpen (Inr ()), OAdmit (Inr (Replay (sample_ipc_ack 10 1))), OAdmit (Inr New)]"
  "map fst (host_trace sample_journal sample_config sample_ledger_ops empty_host) = sample_ledger_ops"
proof -
  obtain l where l: "admit sample_journal DiskOk (sample_frame 11 2) sample_completed = (l, Inr New)"
    using sample_steps(5) by blast
  show "map snd (host_trace sample_journal sample_config sample_ledger_ops empty_host) =
     [OOpen (Inr ()), OAdmit (Inr New), OOpen (Inr ()), OAdmit (Inr RecoverPending), OResult (Inr ()),
      OOpen (Inr ()), OAdmit (Inr (Replay (sample_ipc_ack 10 1))), OAdmit (Inr New)]"
    "map fst (host_trace sample_journal sample_config sample_ledger_ops empty_host) = sample_ledger_ops"
    by (simp_all add: sample_ledger_ops_def empty_host_def sample_opened sample_ledger_restart sample_steps
        with_ledger_def running_def l del: One_nat_def)
qed

theorem new_admissions_increase_witness:
  "sorted_wrt (<) (new_sequences (host_trace sample_journal sample_config sample_ledger_ops empty_host))
   \<and> map snd (host_trace sample_journal sample_config sample_ledger_ops empty_host) ! 7 = OAdmit (Inr New)"
  using new_admissions_increase [OF sample_journal_laws] by (simp add: sample_trace)

theorem ledger_refines_ideal_witness:
  "ideal_outcomes sample_ipc sample_config sample_ledger_ops Unopened =
     [OOpen (Inr ()), OAdmit (Inr New), OOpen (Inr ()), OAdmit (Inr RecoverPending), OResult (Inr ()),
      OOpen (Inr ()), OAdmit (Inr (Replay (sample_ipc_ack 10 1))), OAdmit (Inr New)]"
proof -
  have "\<forall>out \<in> set (map snd (host_trace sample_journal sample_config sample_ledger_ops empty_host)).
      \<not> storage_error out"
    unfolding sample_trace by (simp add: storage_error_def)
  then have "\<forall>(op, out) \<in> set (host_trace sample_journal sample_config sample_ledger_ops empty_host).
      \<not> storage_error out" by auto
  from ledger_refines_ideal [OF sample_journal_laws this] show ?thesis unfolding sample_trace by simp
qed

theorem written_quarantine_is_final_witness:
  "\<exists>h'. host_step sample_journal sample_config (Quarantine DiskOk)
      (host_run sample_journal sample_config [Restart sample_env] empty_host) = (h', OResult (Inl IpcQuarantined))
    \<and> (\<forall>(op, out) \<in> set (host_trace sample_journal sample_config
          [Restart sample_env, Admit (sample_frame 10 1) DiskOk] h'). (\<forall>a. out \<noteq> OAdmit (Inr a)) \<and> out \<noteq> OOpen (Inr ()))"
proof -
  let ?h = "host_run sample_journal sample_config [Restart sample_env] empty_host"
  have h: "?h = running sample_fresh"
    by (simp add: host_run_def empty_host_def sample_opened running_def)
  have q: "quarantine sample_journal DiskOk sample_fresh =
      (appended (set_state sample_fresh ((new_state sample_config)\<lparr>ls_quarantined := True\<rparr>)),
       Inl IpcQuarantined :: ipc_error + unit)"
    using sample_persist(1) [OF sample_small(3)] by (simp add: quarantine_def sample_states)
  obtain h' where s: "host_step sample_journal sample_config (Quarantine DiskOk) ?h = (h', OResult (Inl IpcQuarantined))"
    by (simp add: h q with_ledger_def running_def)
  have l: "ho_ledger ?h = Some sample_fresh" "\<not> ls_quarantined (lg_state sample_fresh)"
    by (simp_all add: h running_def sample_states new_state_def)
  show ?thesis using written_quarantine_is_final [OF sample_journal_laws l s disjI2] s by blast
qed

section \<open>What a failing disk costs\<close>

text \<open>
  C37. A request can be acknowledged with nothing of it in the journal: when the append of the intent and
  the append of the acknowledgement both fail before a byte is written (reading the journal's length
  fails, as in \<open>MetadataFails\<close>), the two operations report the error, but the retries are answered
  \<^verbatim>\<open>RecoverPending\<close> and then with the acknowledgement from memory, while the file still loads the state
  before the request. A restart then forgets the request and offers its sequence number to another one.
\<close>

theorem failed_appends_forget_the_request:
  assumes l: "synced jn l" "\<not> ls_quarantined (lg_state l)" "ls_pending (lg_state l) = None"
    and f: "frame_canonical_sha256 (jn_ipc jn) f = Inr h" "\<not> other_target (lg_state l) f"
      "replayed_ack (lg_state l) f h = None" "xf_request_sequence f = ls_next_sequence (lg_state l)"
    and ack: "\<not> ack_differs (lg_state l) (pending_of f h) ack" "ls_next_sequence (lg_state l) < u64_max"
  shows "\<exists>l1 l2 e1 e2. admit jn MetadataFails f l = (l1, Inl e1)
    \<and> admit jn d f l1 = (l1, Inr RecoverPending)
    \<and> complete jn MetadataFails ack l1 = (l2, Inl e2)
    \<and> completed_replay jn f l2 = Inr (Some ack)
    \<and> load_records jn (lg_file l2) = Inr (lg_state l, lg_last_record_sha256 l)"
proof -
  let ?s1 = "(lg_state l)\<lparr>ls_pending := Some (pending_of f h)\<rparr>"
  let ?s2 = "completed_state ?s1 (ls_next_sequence (lg_state l) + 1) ack"
  have p: "\<exists>e. persist jn MetadataFails k = (k, Inl e)" for k by (simp add: persist_def Let_def)
  obtain e1 where e1: "persist jn MetadataFails (set_state l ?s1) = (set_state l ?s1, Inl e1)" using p by blast
  obtain e2 where e2: "persist jn MetadataFails (set_state (set_state l ?s1) ?s2) = (set_state (set_state l ?s1) ?s2, Inl e2)"
    using p by blast
  have a: "admit jn MetadataFails f l = (set_state l ?s1, Inl e1)" using l f e1 by (simp add: admit_def Let_def)
  have r: "admit jn d f (set_state l ?s1) = (set_state l ?s1, Inr RecoverPending)"
    using l f by (simp add: admit_def Let_def other_target_def replayed_ack_def same_request_def pending_of_def)
  have c: "complete jn MetadataFails ack (set_state l ?s1) = (set_state (set_state l ?s1) ?s2, Inl e2)"
    using ack e2 by (simp add: complete_def Let_def checked_add_u64_def ack_differs_def)
  have "completed_replay jn f (set_state (set_state l ?s1) ?s2) = Inr (Some ack)"
    using l f ack
    by (auto simp: completed_replay_def Let_def other_target_def completed_state_def replayed_ack_def
        ack_differs_def pending_of_def)
  then show ?thesis using a r c l(1) by (fastforce simp: synced_def)
qed

theorem failed_appends_forget_the_request_witness:
  "\<exists>l1 l2 e1 e2. admit sample_journal MetadataFails (sample_frame 10 1) sample_fresh = (l1, Inl e1)
    \<and> admit sample_journal DiskOk (sample_frame 10 1) l1 = (l1, Inr RecoverPending)
    \<and> complete sample_journal MetadataFails (sample_ipc_ack 10 1) l1 = (l2, Inl e2)
    \<and> completed_replay sample_journal (sample_frame 10 1) l2 = Inr (Some (sample_ipc_ack 10 1))
    \<and> load_records sample_journal (lg_file l2) = Inr (new_state sample_config, 210)"
proof -
  have "frame_canonical_sha256 (jn_ipc sample_journal) (sample_frame 10 1) = Inr 210" by simp
  note failed_appends_forget_the_request [OF sample_synced_states(1) _ _ this, of "sample_ipc_ack 10 1" DiskOk]
  then show ?thesis
    by (simp add: sample_step_defs WINDOWS_EXECUTION_IPC_SCHEMA_VERSION_def)
qed

end
