(* ===== verification/Ipc_Services.thy ===== *)
theory Ipc_Services
  imports Ipc_Faults
begin

text \<open>
  The two effect-disabled services on a ledger: \<^verbatim>\<open>InertBrokerIpc\<close> of
  \<^verbatim>\<open>assemblywright-broker/src/ipc.rs\<close> and \<^verbatim>\<open>InertExecutorIpc\<close> of
  \<^verbatim>\<open>assemblywright-executor/src/ipc.rs\<close>. Handling a frame authenticates it, answers a completed request
  with its acknowledgement, admits a fresh one and completes it. A call appends at most twice to the
  journal, so it takes two disk outcomes; the fresh acknowledgement identifier is an argument. The two
  error types have the same variants and are one datatype here.
\<close>

section \<open>Services\<close>

datatype service_error = SvRejected | SvDurable ipc_error | SvContract protocol_error

record service =
  sv_service_id :: uuid
  sv_authority_key_id :: string
  sv_authority_key :: string
  sv_ack_key_id :: string
  sv_ack_key :: string
  sv_ledger :: ledger

record broker_accepted =
  ba_ack :: ipc_ack
  ba_forwarded :: "string option"

definition open_service ::
    "journal \<Rightarrow> ipc_endpoint \<Rightarrow> open_env \<Rightarrow> string option \<Rightarrow> uuid \<Rightarrow> nat \<Rightarrow> nat \<Rightarrow> string \<Rightarrow> string \<Rightarrow> string
     \<Rightarrow> string \<Rightarrow> string option \<times> (service_error + service)" where
  "open_service jn endpoint env file service_id authority_revision initial_sequence authority_key_id
     authority_key ack_key_id ack_signing_seed =
     (if authority_key_id = [] \<or> ack_key_id = [] \<or> ack_signing_seed = replicate 32 (CHR 0x00)
      then (file, Inl SvRejected)
      else
        (case open_ledger jn \<lparr>lc_endpoint = endpoint, lc_service_id = service_id,
                 lc_authority_revision = authority_revision, lc_initial_sequence = initial_sequence\<rparr> env file of
           (file', Inl e) \<Rightarrow> (file', Inl (SvDurable e))
         | (file', Inr l) \<Rightarrow> (file', Inr
             \<lparr>sv_service_id = service_id, sv_authority_key_id = authority_key_id,
              sv_authority_key = authority_key, sv_ack_key_id = ack_key_id, sv_ack_key = ack_signing_seed,
              sv_ledger = l\<rparr>)))"

definition open_broker where "open_broker jn = open_service jn MasterToBroker"
definition open_executor where "open_executor jn = open_service jn MasterToExecutor"

definition reject :: "journal \<Rightarrow> disk \<Rightarrow> service \<Rightarrow> service \<times> (service_error + 'a)" where
  "reject jn d sv =
     (sv\<lparr>sv_ledger := fst (quarantine jn d (sv_ledger sv) :: ledger \<times> (ipc_error + unit))\<rparr>, Inl SvRejected)"

definition authenticate :: "ipc \<Rightarrow> service \<Rightarrow> string \<Rightarrow> control_frame validated" where
  "authenticate ip sv bytes =
     bindE (decode_control_frame ip bytes) (\<lambda>f.
     bindE (verify_frame_signature ip (sv_authority_key sv) f) (\<lambda>_. Inr f))"

text \<open>The acknowledgement of a frame, signed with the service's key.\<close>

definition unsigned_ack :: "service \<Rightarrow> ipc_endpoint \<Rightarrow> uuid \<Rightarrow> control_frame \<Rightarrow> digest \<Rightarrow> ipc_ack_status \<Rightarrow> ipc_ack" where
  "unsigned_ack sv endpoint ack_id f frame_sha256 status =
     \<lparr>xa_schema_version = WINDOWS_EXECUTION_IPC_SCHEMA_VERSION, xa_endpoint = endpoint,
      xa_ack_id = ack_id, xa_frame_id = xf_frame_id f, xa_request_sequence = xf_request_sequence f,
      xa_authority_revision = xf_authority_revision f, xa_frame_sha256 = frame_sha256,
      xa_status = status, xa_effects_applied = 0, xa_signer_key_id = sv_ack_key_id sv,
      xa_signature = []\<rparr>"

definition signed_ack ::
    "ipc \<Rightarrow> service \<Rightarrow> ipc_endpoint \<Rightarrow> uuid \<Rightarrow> control_frame \<Rightarrow> ipc_ack_status \<Rightarrow> ipc_ack validated" where
  "signed_ack ip sv endpoint ack_id f status =
     bindE (frame_canonical_sha256 ip f) (\<lambda>frame_sha256.
     sign_ack ip (sv_ack_key sv) (unsigned_ack sv endpoint ack_id f frame_sha256 status))"

definition answer ::
    "journal \<Rightarrow> disk \<Rightarrow> ipc_endpoint \<Rightarrow> uuid \<Rightarrow> service \<Rightarrow> control_frame \<Rightarrow> ipc_ack_status
     \<Rightarrow> service \<times> (service_error + ipc_ack)" where
  "answer jn d endpoint ack_id sv f status =
     (case signed_ack (jn_ipc jn) sv endpoint ack_id f status of
        Inl e \<Rightarrow> (sv, Inl (SvContract e))
      | Inr ack \<Rightarrow>
          (case complete jn d ack (sv_ledger sv) of
             (l, Inl e) \<Rightarrow> (sv\<lparr>sv_ledger := l\<rparr>, Inl (SvDurable e))
           | (l, Inr _) \<Rightarrow> (sv\<lparr>sv_ledger := l\<rparr>, Inr ack)))"

section \<open>Executor\<close>

definition executor_handle ::
    "journal \<Rightarrow> disk \<Rightarrow> disk \<Rightarrow> uuid \<Rightarrow> string \<Rightarrow> nat \<Rightarrow> service \<Rightarrow> service \<times> (service_error + ipc_ack)" where
  "executor_handle jn d1 d2 ack_id bytes now_ms sv =
     (case authenticate (jn_ipc jn) sv bytes of
        Inl _ \<Rightarrow> reject jn d1 sv
      | Inr f \<Rightarrow>
          if xf_endpoint f \<noteq> MasterToExecutor
             \<or> xf_service_id f \<noteq> sv_service_id sv
             \<or> xf_signer_key_id f \<noteq> sv_authority_key_id sv
             \<or> xf_forwarded f \<noteq> []
          then reject jn d1 sv
          else
            (case completed_replay jn f (sv_ledger sv) of
               Inl e \<Rightarrow> (sv, Inl (SvDurable e))
             | Inr (Some ack) \<Rightarrow> (sv, Inr ack)
             | Inr None \<Rightarrow>
                 if \<not> is_ok (validate_frame_at (jn_ipc jn) now_ms f) then reject jn d1 sv
                 else
                   (case admit jn d1 f (sv_ledger sv) of
                      (l, Inl e) \<Rightarrow> (sv\<lparr>sv_ledger := l\<rparr>, Inl (SvDurable e))
                    | (l, Inr (Replay ack)) \<Rightarrow> (sv\<lparr>sv_ledger := l\<rparr>, Inr ack)
                    | (l, Inr _) \<Rightarrow>
                        answer jn d2 MasterToExecutor ack_id (sv\<lparr>sv_ledger := l\<rparr>) f
                          (case xf_kind f of Health \<Rightarrow> HealthyEffectDisabled
                           | ValidateDispatch \<Rightarrow> DispatchValidatedEffectDisabled))))"

section \<open>Broker\<close>

definition forwarded_bytes :: "control_frame \<Rightarrow> string option" where
  "forwarded_bytes f = (if xf_kind f = ValidateDispatch then Some (xf_forwarded f) else None)"

definition broker_answer ::
    "journal \<Rightarrow> disk \<Rightarrow> uuid \<Rightarrow> service \<Rightarrow> control_frame \<Rightarrow> ipc_ack_status \<Rightarrow> string option
     \<Rightarrow> service \<times> (service_error + broker_accepted)" where
  "broker_answer jn d ack_id sv f status forwarded =
     (case answer jn d MasterToBroker ack_id sv f status of
        (sv', Inl e) \<Rightarrow> (sv', Inl e)
      | (sv', Inr ack) \<Rightarrow> (sv', Inr \<lparr>ba_ack = ack, ba_forwarded = forwarded\<rparr>))"

definition broker_dispatch ::
    "journal \<Rightarrow> disk \<Rightarrow> uuid \<Rightarrow> service \<Rightarrow> control_frame \<Rightarrow> service \<times> (service_error + broker_accepted)" where
  "broker_dispatch jn d ack_id sv f =
     (case xf_kind f of
        Health \<Rightarrow> broker_answer jn d ack_id sv f HealthyEffectDisabled None
      | ValidateDispatch \<Rightarrow>
          (case forwarded_executor (jn_ipc jn) f of
             Inr (Some executor) \<Rightarrow>
               if xf_signer_key_id executor \<noteq> sv_authority_key_id sv
                  \<or> \<not> is_ok (verify_frame_signature (jn_ipc jn) (sv_authority_key sv) executor)
               then reject jn d sv
               else broker_answer jn d ack_id sv f DispatchValidatedEffectDisabled (Some (xf_forwarded f))
           | _ \<Rightarrow> reject jn d sv))"

definition broker_handle ::
    "journal \<Rightarrow> disk \<Rightarrow> disk \<Rightarrow> uuid \<Rightarrow> string \<Rightarrow> nat \<Rightarrow> service \<Rightarrow> service \<times> (service_error + broker_accepted)" where
  "broker_handle jn d1 d2 ack_id bytes now_ms sv =
     (case authenticate (jn_ipc jn) sv bytes of
        Inl _ \<Rightarrow> reject jn d1 sv
      | Inr f \<Rightarrow>
          if xf_endpoint f \<noteq> MasterToBroker
             \<or> xf_service_id f \<noteq> sv_service_id sv
             \<or> xf_signer_key_id f \<noteq> sv_authority_key_id sv
          then reject jn d1 sv
          else
            (case completed_replay jn f (sv_ledger sv) of
               Inl e \<Rightarrow> (sv, Inl (SvDurable e))
             | Inr (Some ack) \<Rightarrow> (sv, Inr \<lparr>ba_ack = ack, ba_forwarded = forwarded_bytes f\<rparr>)
             | Inr None \<Rightarrow>
                 if \<not> is_ok (validate_frame_at (jn_ipc jn) now_ms f) then reject jn d1 sv
                 else
                   (case admit jn d1 f (sv_ledger sv) of
                      (l, Inl e) \<Rightarrow> (sv\<lparr>sv_ledger := l\<rparr>, Inl (SvDurable e))
                    | (l, Inr (Replay ack)) \<Rightarrow>
                        (sv\<lparr>sv_ledger := l\<rparr>, Inr \<lparr>ba_ack = ack, ba_forwarded = forwarded_bytes f\<rparr>)
                    | (l, Inr _) \<Rightarrow> broker_dispatch jn d2 ack_id (sv\<lparr>sv_ledger := l\<rparr>) f)))"

section \<open>Signing seeds\<close>

text \<open>
  \<^verbatim>\<open>load_service_signing_seed\<close> looks at the file twice, so the two looks are separate inputs: the length
  that each finds, if it opens an ordinary protected file, and the bytes that the second one reads.
\<close>

record seed_env =
  se_path_ok :: bool
  se_first_length :: "nat option"
  se_length :: "nat option"
  se_second_length :: "nat option"
  se_bytes :: string
  se_end_ok :: bool

definition ordinary_file :: "nat option \<Rightarrow> nat \<Rightarrow> ipc_error + unit" where
  "ordinary_file found maximum =
     (case found of None \<Rightarrow> Inl IpcInvalidState
      | Some n \<Rightarrow> reject_if IpcInvalidState (n > maximum))"

definition load_service_signing_seed :: "seed_env \<Rightarrow> ipc_error + string" where
  "load_service_signing_seed env =
     bindE (reject_if IpcInvalidState (\<not> se_path_ok env)) (\<lambda>_.
     bindE (ordinary_file (se_first_length env) MAX_JOURNAL_BYTES) (\<lambda>_.
     bindE (reject_if IpcInvalidState (se_length env \<noteq> Some 32)) (\<lambda>_.
     bindE (ordinary_file (se_second_length env) 32) (\<lambda>_.
     bindE (reject_if IpcInvalidState (length (se_bytes env) < 32)) (\<lambda>_.
     (let seed = take 32 (se_bytes env) in
      if seed = replicate 32 (CHR 0x00) then Inl IpcInvalidState
      else if \<not> se_end_ok env then Inl IpcIo
      else if length (se_bytes env) > 32 then Inl IpcInvalidState
      else Inr seed))))))"

definition load_ack_seed :: "seed_env \<Rightarrow> service_error + string" where
  "load_ack_seed env = map_err (\<lambda>_. SvRejected) (load_service_signing_seed env)"

section \<open>What an answer means\<close>

lemma authenticate_Inr:
  "authenticate ip sv bytes = Inr f \<longleftrightarrow>
     decode_control_frame ip bytes = Inr f \<and> verify_frame_signature ip (sv_authority_key sv) f = Inr ()"
  by (auto simp: authenticate_def bindE_Inr_iff)

lemma signed_ack_Inr:
  assumes "signed_ack ip sv endpoint ack_id f status = Inr ack"
  shows "frame_canonical_sha256 ip f = Inr (xa_frame_sha256 ack)" "validate_ack ip ack = Inr ()"
    "xa_endpoint ack = endpoint" "xa_frame_id ack = xf_frame_id f" "xa_request_sequence ack = xf_request_sequence f"
    "xa_authority_revision ack = xf_authority_revision f" "xa_status ack = status" "xa_effects_applied ack = 0"
    "xa_signer_key_id ack = sv_ack_key_id sv"
    "xa_signature ack = ip_sign ip (sv_ack_key sv) (ack_signing_bytes (ip_codec ip) ack)"
proof -
  obtain h where h: "frame_canonical_sha256 ip f = Inr h"
    and s: "sign_ack ip (sv_ack_key sv) (unsigned_ack sv endpoint ack_id f h status) = Inr ack"
    using assms by (auto simp: signed_ack_def bindE_Inr_iff)
  let ?u = "unsigned_ack sv endpoint ack_id f h status"
  have ack: "ack = ?u\<lparr>xa_signature := ip_sign ip (sv_ack_key sv) (ack_signing_bytes (ip_codec ip) ?u)\<rparr>"
    using s by (simp add: sign_ack_Inr)
  show "validate_ack ip ack = Inr ()" using s unfolding sign_ack_Inr by (elim conjE)
  show "xa_signature ack = ip_sign ip (sv_ack_key sv) (ack_signing_bytes (ip_codec ip) ack)" by (simp add: ack)
  show "frame_canonical_sha256 ip f = Inr (xa_frame_sha256 ack)" "xa_endpoint ack = endpoint"
    "xa_frame_id ack = xf_frame_id f" "xa_request_sequence ack = xf_request_sequence f"
    "xa_authority_revision ack = xf_authority_revision f" "xa_status ack = status" "xa_effects_applied ack = 0"
    "xa_signer_key_id ack = sv_ack_key_id sv"
    using h by (simp_all add: ack unsigned_ack_def)
qed

lemma complete_Inr:
  assumes "complete jn d ack l = (l', Inr u)"
  obtains p where "ls_pending (lg_state l) = Some p" "\<not> ack_differs (lg_state l) p ack"
    "lg_state l' = completed_state (lg_state l) (ls_next_sequence (lg_state l) + 1) ack"
  using assms persist_cases(1) quarantine_Inl [of jn d l l']
  by (fastforce simp: complete_def Let_def checked_add_u64_Some set_state_def split: option.splits if_splits)

lemma admit_unchanged:
  assumes "admit jn d f l = (l', Inr r)"
  shows "\<not> ls_quarantined (lg_state l')" "\<not> other_target (lg_state l') f"
    "ls_last_ack (lg_state l') = ls_last_ack (lg_state l)"
proof -
  have "\<not> ls_quarantined (lg_state l) \<and> \<not> other_target (lg_state l) f
    \<and> (lg_state l' = lg_state l \<or> (\<exists>p. lg_state l' = (lg_state l)\<lparr>ls_pending := Some p\<rparr>))"
    using assms persist_cases(1) quarantine_Inl [of jn d l l' r]
    by (fastforce simp: admit_def Let_def set_state_def split: if_splits sum.splits option.splits prod.splits)
  then show "\<not> ls_quarantined (lg_state l')" "\<not> other_target (lg_state l') f"
    "ls_last_ack (lg_state l') = ls_last_ack (lg_state l)"
    by (auto simp: other_target_def)
qed

lemma answer_Inr:
  assumes "answer jn d endpoint ack_id sv f status = (sv', Inr ack)"
  obtains l' where "signed_ack (jn_ipc jn) sv endpoint ack_id f status = Inr ack"
    "complete jn d ack (sv_ledger sv) = (l', Inr ())" "sv' = sv\<lparr>sv_ledger := l'\<rparr>"
  using assms by (auto simp: answer_def split: sum.splits prod.splits)

text \<open>After an answer, the ledger replays it.\<close>

lemma answer_replays:
  assumes a: "answer jn d endpoint ack_id sv f status = (sv', Inr ack)"
    and l: "\<not> ls_quarantined (lg_state (sv_ledger sv))" "\<not> other_target (lg_state (sv_ledger sv)) f"
  shows "completed_replay jn f (sv_ledger sv') = Inr (Some ack)" "sv' = sv\<lparr>sv_ledger := sv_ledger sv'\<rparr>"
proof -
  obtain l' where s: "signed_ack (jn_ipc jn) sv endpoint ack_id f status = Inr ack"
    and c: "complete jn d ack (sv_ledger sv) = (l', Inr ())" and sv': "sv' = sv\<lparr>sv_ledger := l'\<rparr>"
    by (rule answer_Inr [OF a])
  obtain p where "lg_state l' = completed_state (lg_state (sv_ledger sv))
      (ls_next_sequence (lg_state (sv_ledger sv)) + 1) ack"
    by (rule complete_Inr [OF c])
  then show "completed_replay jn f (sv_ledger sv') = Inr (Some ack)"
    using signed_ack_Inr(1,4) [OF s] l
    by (simp add: sv' completed_replay_def Let_def completed_state_def other_target_def replayed_ack_def)
  show "sv' = sv\<lparr>sv_ledger := sv_ledger sv'\<rparr>" by (simp add: sv')
qed

lemma admit_no_replay:
  assumes "completed_replay jn f l = Inr None" "admit jn d f l = (l', Inr r)"
  shows "r = New \<or> r = RecoverPending"
  using assms quarantine_Inl [of jn d l l' r]
  by (auto simp: completed_replay_def admit_def Let_def bindE_Inr_iff map_err_Inr_iff
      split: if_splits sum.splits option.splits prod.splits)

section \<open>The branches of a call\<close>

definition executor_accepts :: "ipc \<Rightarrow> service \<Rightarrow> string \<Rightarrow> control_frame \<Rightarrow> bool" where
  "executor_accepts ip sv bytes f \<longleftrightarrow>
     authenticate ip sv bytes = Inr f \<and> xf_endpoint f = MasterToExecutor
     \<and> xf_service_id f = sv_service_id sv \<and> xf_signer_key_id f = sv_authority_key_id sv \<and> xf_forwarded f = []"

lemma executor_handle_Inr:
  assumes "executor_handle jn d1 d2 ack_id bytes now_ms sv = (sv', Inr ack)"
  obtains f where "executor_accepts (jn_ipc jn) sv bytes f"
    "completed_replay jn f (sv_ledger sv) = Inr (Some ack) \<and> sv' = sv
     \<or> (\<exists>l r. completed_replay jn f (sv_ledger sv) = Inr None \<and> is_ok (validate_frame_at (jn_ipc jn) now_ms f)
         \<and> admit jn d1 f (sv_ledger sv) = (l, Inr r)
         \<and> answer jn d2 MasterToExecutor ack_id (sv\<lparr>sv_ledger := l\<rparr>) f (expected_status (xf_kind f)) = (sv', Inr ack))"
proof -
  obtain f where f: "executor_accepts (jn_ipc jn) sv bytes f"
    using assms by (auto simp: executor_handle_def executor_accepts_def reject_def split: sum.splits if_splits)
  have c: "case completed_replay jn f (sv_ledger sv) of
      Inl e \<Rightarrow> False | Inr (Some a) \<Rightarrow> sv' = sv \<and> a = ack
    | Inr None \<Rightarrow> is_ok (validate_frame_at (jn_ipc jn) now_ms f) \<and> (\<exists>l r. admit jn d1 f (sv_ledger sv) = (l, Inr r)
         \<and> answer jn d2 MasterToExecutor ack_id (sv\<lparr>sv_ledger := l\<rparr>) f (expected_status (xf_kind f)) = (sv', Inr ack))"
    using assms f admit_no_replay [of jn f "sv_ledger sv" d1]
    by (auto simp: executor_handle_def executor_accepts_def reject_def expected_status_def
        split: sum.splits option.splits if_splits prod.splits admission.splits)
  show thesis
    by (rule that [OF f]) (use c in \<open>auto split: sum.splits option.splits\<close>)
qed

definition broker_accepts :: "ipc \<Rightarrow> service \<Rightarrow> string \<Rightarrow> control_frame \<Rightarrow> bool" where
  "broker_accepts ip sv bytes f \<longleftrightarrow>
     authenticate ip sv bytes = Inr f \<and> xf_endpoint f = MasterToBroker
     \<and> xf_service_id f = sv_service_id sv \<and> xf_signer_key_id f = sv_authority_key_id sv"

text \<open>A fresh answer of the broker, and what it has checked of a frame that it forwards.\<close>

definition broker_fresh ::
    "journal \<Rightarrow> disk \<Rightarrow> uuid \<Rightarrow> service \<Rightarrow> control_frame \<Rightarrow> service \<Rightarrow> broker_accepted \<Rightarrow> bool" where
  "broker_fresh jn d ack_id sv f sv' acc \<longleftrightarrow>
     answer jn d MasterToBroker ack_id sv f (expected_status (xf_kind f)) = (sv', Inr (ba_ack acc))
     \<and> ba_forwarded acc = forwarded_bytes f
     \<and> (xf_kind f = ValidateDispatch \<longrightarrow> (\<exists>e. forwarded_executor (jn_ipc jn) f = Inr (Some e)
          \<and> xf_signer_key_id e = sv_authority_key_id sv
          \<and> verify_frame_signature (jn_ipc jn) (sv_authority_key sv) e = Inr ()))"

lemma broker_dispatch_Inr:
  assumes "broker_dispatch jn d ack_id sv f = (sv', Inr acc)"
  shows "broker_fresh jn d ack_id sv f sv' acc"
  using assms
  by (cases "xf_kind f")
    (auto simp: broker_dispatch_def broker_answer_def broker_fresh_def forwarded_bytes_def expected_status_def
      reject_def is_ok_unit split: sum.splits prod.splits option.splits if_splits)

lemma broker_handle_Inr:
  assumes "broker_handle jn d1 d2 ack_id bytes now_ms sv = (sv', Inr acc)"
  obtains f where "broker_accepts (jn_ipc jn) sv bytes f" "ba_forwarded acc = forwarded_bytes f"
    "completed_replay jn f (sv_ledger sv) = Inr (Some (ba_ack acc)) \<and> sv' = sv
     \<or> (\<exists>l r. completed_replay jn f (sv_ledger sv) = Inr None \<and> is_ok (validate_frame_at (jn_ipc jn) now_ms f)
         \<and> admit jn d1 f (sv_ledger sv) = (l, Inr r)
         \<and> broker_fresh jn d2 ack_id (sv\<lparr>sv_ledger := l\<rparr>) f sv' acc)"
proof -
  obtain f where f: "broker_accepts (jn_ipc jn) sv bytes f"
    using assms by (auto simp: broker_handle_def broker_accepts_def reject_def split: sum.splits if_splits)
  have c: "case completed_replay jn f (sv_ledger sv) of
      Inl e \<Rightarrow> False
    | Inr (Some a) \<Rightarrow> sv' = sv \<and> acc = \<lparr>ba_ack = a, ba_forwarded = forwarded_bytes f\<rparr>
    | Inr None \<Rightarrow> is_ok (validate_frame_at (jn_ipc jn) now_ms f) \<and> (\<exists>l r. admit jn d1 f (sv_ledger sv) = (l, Inr r)
         \<and> broker_fresh jn d2 ack_id (sv\<lparr>sv_ledger := l\<rparr>) f sv' acc)"
    using assms f admit_no_replay [of jn f "sv_ledger sv" d1] broker_dispatch_Inr
    by (fastforce simp: broker_handle_def broker_accepts_def reject_def
        split: sum.splits option.splits if_splits prod.splits admission.splits)
  then have "ba_forwarded acc = forwarded_bytes f"
    by (auto simp: broker_fresh_def split: sum.splits option.splits)
  then show thesis
    by (rule that [OF f]) (use c in \<open>auto split: sum.splits option.splits\<close>)
qed

lemma authenticate_ledger [simp]: "authenticate ip (sv\<lparr>sv_ledger := l\<rparr>) bytes = authenticate ip sv bytes"
  by (simp add: authenticate_def)

lemma replay_kept:
  assumes a: "admit jn d1 f (sv_ledger sv) = (l, Inr r)"
    and "answer jn d endpoint ack_id (sv\<lparr>sv_ledger := l\<rparr>) f status = (sv', Inr ack)"
  shows "\<exists>l'. sv' = sv\<lparr>sv_ledger := l'\<rparr> \<and> completed_replay jn f l' = Inr (Some ack)"
  using answer_replays [OF assms(2)] admit_unchanged [OF a] by (metis service.update_convs(6) service.select_convs(6) service.surjective)

section \<open>Properties\<close>

text \<open>
  An answered request stays answered: when the same bytes arrive again, at any later time and
  whatever the disk does, broker and executor return the identical answer and change nothing, so no
  handler runs twice for a request.
\<close>

theorem retried_request_gets_the_same_answer:
  "(broker_handle jn d1 d2 i bytes now sv = (sv', Inr acc) \<longrightarrow>
      broker_handle jn d1' d2' i' bytes now' sv' = (sv', Inr acc))
   \<and> (executor_handle jn d1 d2 i bytes now sx = (sx', Inr ack) \<longrightarrow>
      executor_handle jn d1' d2' i' bytes now' sx' = (sx', Inr ack))"
proof (intro conjI impI)
  assume h: "broker_handle jn d1 d2 i bytes now sv = (sv', Inr acc)"
  obtain f where f: "broker_accepts (jn_ipc jn) sv bytes f" "ba_forwarded acc = forwarded_bytes f"
    and c: "completed_replay jn f (sv_ledger sv) = Inr (Some (ba_ack acc)) \<and> sv' = sv
     \<or> (\<exists>l r. completed_replay jn f (sv_ledger sv) = Inr None \<and> is_ok (validate_frame_at (jn_ipc jn) now f)
         \<and> admit jn d1 f (sv_ledger sv) = (l, Inr r)
         \<and> broker_fresh jn d2 i (sv\<lparr>sv_ledger := l\<rparr>) f sv' acc)"
    by (rule broker_handle_Inr [OF h])
  have "\<exists>l'. sv' = sv\<lparr>sv_ledger := l'\<rparr> \<and> completed_replay jn f l' = Inr (Some (ba_ack acc))"
    using c replay_kept [of jn d1 f sv] unfolding broker_fresh_def
    by (elim disjE exE conjE) (rule exI [of _ "sv_ledger sv"], simp, blast)
  then obtain l' where "sv' = sv\<lparr>sv_ledger := l'\<rparr>" "completed_replay jn f l' = Inr (Some (ba_ack acc))" by blast
  then show "broker_handle jn d1' d2' i' bytes now' sv' = (sv', Inr acc)"
    using f by (simp add: broker_handle_def broker_accepts_def)
next
  assume h: "executor_handle jn d1 d2 i bytes now sx = (sx', Inr ack)"
  obtain f where f: "executor_accepts (jn_ipc jn) sx bytes f"
    and c: "completed_replay jn f (sv_ledger sx) = Inr (Some ack) \<and> sx' = sx
     \<or> (\<exists>l r. completed_replay jn f (sv_ledger sx) = Inr None \<and> is_ok (validate_frame_at (jn_ipc jn) now f)
         \<and> admit jn d1 f (sv_ledger sx) = (l, Inr r)
         \<and> answer jn d2 MasterToExecutor i (sx\<lparr>sv_ledger := l\<rparr>) f (expected_status (xf_kind f)) = (sx', Inr ack))"
    by (rule executor_handle_Inr [OF h])
  have "\<exists>l'. sx' = sx\<lparr>sv_ledger := l'\<rparr> \<and> completed_replay jn f l' = Inr (Some ack)"
    using c replay_kept [of jn d1 f sx]
    by (elim disjE exE conjE) (rule exI [of _ "sv_ledger sx"], simp, blast)
  then obtain l' where "sx' = sx\<lparr>sv_ledger := l'\<rparr>" "completed_replay jn f l' = Inr (Some ack)" by blast
  then show "executor_handle jn d1' d2' i' bytes now' sx' = (sx', Inr ack)"
    using f by (simp add: executor_handle_def executor_accepts_def)
qed

text \<open>
  What a service answers for the first time, the master accepts: the acknowledgement of a broker or
  an executor passes \<^verbatim>\<open>verify_for\<close> with the frame that was sent, the pinned key identifier and the
  verifying key of the service, given that the key verifies what the service's seed signs.
\<close>

theorem answers_verify_at_the_master:
  assumes key: "\<forall>m. ip_verify (jn_ipc jn) verifying_key m (ip_sign (jn_ipc jn) (sv_ack_key sv) m)"
    and frame: "authenticate (jn_ipc jn) sv bytes = Inr f" "completed_replay jn f (sv_ledger sv) = Inr None"
    and handled: "(\<exists>acc. broker_handle jn d1 d2 i bytes now sv = (sv', Inr acc) \<and> ba_ack acc = ack)
      \<or> executor_handle jn d1 d2 i bytes now sv = (sv', Inr ack)"
  shows "verify_ack_for (jn_ipc jn) ack f (sv_ack_key_id sv) verifying_key = Inr ()"
proof -
  have "\<exists>l r endpoint. endpoint = xf_endpoint f \<and> admit jn d1 f (sv_ledger sv) = (l, Inr r)
    \<and> answer jn d2 endpoint i (sv\<lparr>sv_ledger := l\<rparr>) f (expected_status (xf_kind f)) = (sv', Inr ack)"
    using handled
  proof (elim disjE exE conjE)
    fix acc assume h: "broker_handle jn d1 d2 i bytes now sv = (sv', Inr acc)" and a: "ba_ack acc = ack"
    show ?thesis by (rule broker_handle_Inr [OF h]) (use frame a in \<open>auto simp: broker_accepts_def broker_fresh_def\<close>)
  next
    assume h: "executor_handle jn d1 d2 i bytes now sv = (sv', Inr ack)"
    show ?thesis by (rule executor_handle_Inr [OF h]) (use frame in \<open>auto simp: executor_accepts_def\<close>)
  qed
  then obtain l where "answer jn d2 (xf_endpoint f) i (sv\<lparr>sv_ledger := l\<rparr>) f (expected_status (xf_kind f)) = (sv', Inr ack)"
    by blast
  then have s: "signed_ack (jn_ipc jn) (sv\<lparr>sv_ledger := l\<rparr>) (xf_endpoint f) i f (expected_status (xf_kind f)) = Inr ack"
    by (rule answer_Inr)
  show ?thesis using signed_ack_Inr [OF s] key by (simp add: verify_ack_for_def Let_def)
qed

text \<open>
  The broker forwards only what the executor will take up: bytes that it forwards with a first
  answer decode to a frame that the same authority signed for the same session, epochs and lifetime, so
  an executor with that authority key and the frame's service identity does not reject them, whatever
  its ledger holds.
\<close>

theorem forwarded_frame_is_not_rejected:
  assumes h: "broker_handle jn d1 d2 i bytes now sv = (sv', Inr acc)"
    and fresh: "authenticate (jn_ipc jn) sv bytes = Inr f" "completed_replay jn f (sv_ledger sv) = Inr None"
    and forwarded: "ba_forwarded acc = Some payload"
  shows "\<exists>e. decode_control_frame (jn_ipc jn) payload = Inr e \<and> same_authority e f
    \<and> (\<forall>d1 d2 i sx. sv_authority_key sx = sv_authority_key sv
        \<and> sv_authority_key_id sx = sv_authority_key_id sv \<and> sv_service_id sx = xf_service_id e
        \<longrightarrow> snd (executor_handle jn d1 d2 i payload now sx) \<noteq> Inl SvRejected)"
proof -
  have k: "xf_kind f = ValidateDispatch" "payload = xf_forwarded f" "is_ok (validate_frame_at (jn_ipc jn) now f)"
    and "\<exists>e. forwarded_executor (jn_ipc jn) f = Inr (Some e) \<and> xf_signer_key_id e = sv_authority_key_id sv
      \<and> verify_frame_signature (jn_ipc jn) (sv_authority_key sv) e = Inr ()"
    by (rule broker_handle_Inr [OF h], use fresh forwarded in
        \<open>auto simp: broker_accepts_def broker_fresh_def forwarded_bytes_def split: if_splits\<close>)+
  then obtain e where e: "forwarded_executor (jn_ipc jn) f = Inr (Some e)" "xf_signer_key_id e = sv_authority_key_id sv"
    "verify_frame_signature (jn_ipc jn) (sv_authority_key sv) e = Inr ()" by blast
  note d = forwarded_executor_Some [OF e(1)]
  have v: "validate_frame (jn_ipc jn) e = Inr ()" using decode_control_frame_Inr [OF d(1)] by simp
  have empty: "xf_forwarded e = []" using validate_frame_Inr(7) [OF v] d(2) by (auto simp: same_authority_def)
  have time: "is_ok (validate_frame_at (jn_ipc jn) now e)"
    using k(3) v d(2) by (auto simp: validate_frame_at_def is_ok_bindE same_authority_def)
  have "snd (executor_handle jn d1 d2 i payload now sx) \<noteq> Inl SvRejected"
    if "sv_authority_key sx = sv_authority_key sv" "sv_authority_key_id sx = sv_authority_key_id sv"
      "sv_service_id sx = xf_service_id e" for d1 d2 i sx
  proof -
    have "authenticate (jn_ipc jn) sx payload = Inr e" using d(1) e(3) that k(2) by (simp add: authenticate_Inr)
    then show ?thesis using that e(2) empty time d(2)
      by (auto simp: executor_handle_def same_authority_def answer_def
          split: sum.split option.split prod.split admission.split)
  qed
  then show ?thesis using d k(2) by blast
qed

end
