(* ===== verification/Ipc_Service_Sample.thy ===== *)
theory Ipc_Service_Sample
  imports Ipc_Services
begin

text \<open>A concrete broker and executor on the sample journal: the witnesses of the service properties.\<close>

definition sample_broker :: service where
  "sample_broker = \<lparr>sv_service_id = 4, sv_authority_key_id = ''master'', sv_authority_key = ''m'',
     sv_ack_key_id = ''broker'', sv_ack_key = ''b'', sv_ledger = sample_fresh\<rparr>"

definition sample_executor :: service where
  "sample_executor = \<lparr>sv_service_id = 5, sv_authority_key_id = ''master'', sv_authority_key = ''m'',
     sv_ack_key_id = ''executor'', sv_ack_key = ''e'',
     sv_ledger = appended \<lparr>lg_file = [], lg_state = new_state \<lparr>lc_endpoint = MasterToExecutor,
       lc_service_id = 5, lc_authority_revision = 1, lc_initial_sequence = 1\<rparr>,
       lg_last_record_sha256 = 0\<rparr>\<rparr>"

lemma frame_text_inject: "i \<in> {10, 11, 12} \<Longrightarrow> k \<in> {10, 11, 12} \<Longrightarrow> frame_text i = frame_text k \<longleftrightarrow> i = k"
  by (auto simp: frame_text_def char_of_eq_iff)

lemma sample_decode:
  assumes "i \<in> {10, 11, 12}"
  shows "decode_control_frame sample_ipc (frame_text i) = Inr (sample_frame i 1)"
proof -
  have "decode_strict_and_validate_frame (ip_codec sample_ipc) ''windows_execution_control_frame''
      (ip_decode_frame sample_ipc) (frame_text i) MAX_WINDOWS_EXECUTION_IPC_FRAME_BYTES (validate_frame sample_ipc)
      = Inr (sample_frame i 1)"
    using assms frame_text_inject sample_frame_valid [OF assms, of 1]
    by (auto simp: decode_strict_and_validate_frame_def MAX_WINDOWS_EXECUTION_IPC_FRAME_BYTES_def
        sample_ipc_def) (simp_all add: frame_text_def)
  moreover have "xf_frame_id (sample_frame i 1) = i" by (simp add: sample_frame_def)
  ultimately show ?thesis by (simp add: decode_control_frame_def)
qed

lemma sample_signed:
  assumes "i \<in> {10, 11, 12}"
  shows "verify_frame_signature sample_ipc ''m'' (sample_frame i 1) = Inr ()"
  using sample_frame_valid [OF assms, of 1] by (simp add: verify_frame_signature_def) (simp add: sample_frame_def)

lemma sample_authenticated:
  "i \<in> {10, 11, 12} \<Longrightarrow> authenticate sample_ipc sample_broker (frame_text i) = Inr (sample_frame i 1)"
  using sample_decode sample_signed by (simp add: authenticate_def sample_broker_def)

lemma sample_no_replay:
  assumes "i \<in> {10, 11}"
  shows "completed_replay sample_journal (sample_frame i 1) sample_fresh = Inr None"
proof -
  have "frame_canonical_sha256 sample_ipc (sample_frame i 1) = Inr 210" using assms by (intro sample_frame_digest) auto
  then show ?thesis using assms
    by (auto simp: completed_replay_def Let_def sample_states new_state_def sample_config_def other_target_def
        replayed_ack_def sample_frame_def)
qed

definition sample_dispatch_ack :: ipc_ack where
  "sample_dispatch_ack = (sample_ipc_ack 11 1)\<lparr>xa_status := DispatchValidatedEffectDisabled\<rparr>"

lemma sample_ack_valid:
  "validate_ack_shape sample_ipc False ((sample_ipc_ack i 1)\<lparr>xa_status := s, xa_signature := []\<rparr>) = Inr ()"
  "validate_ack sample_ipc ((sample_ipc_ack i 1)\<lparr>xa_status := s\<rparr>) = Inr ()" if "i \<in> {10, 11}"
  using that sample_key_ids(2)
  by (auto simp: validate_ack_def validate_ack_shape_def sample_ipc_ack_def bindE_Inr_iff reject_if_Inr_iff
      WINDOWS_EXECUTION_IPC_SCHEMA_VERSION_def validate_serialized_limit_Inr MAX_WINDOWS_EXECUTION_IPC_FRAME_BYTES_def)

lemma sample_signed_ack:
  assumes "i \<in> {10, 11}" "sv_ack_key sv = ''b''" "sv_ack_key_id sv = ''broker''"
  shows "signed_ack sample_ipc sv MasterToBroker 20 (sample_frame i 1) s = Inr ((sample_ipc_ack i 1)\<lparr>xa_status := s\<rparr>)"
proof -
  have d: "frame_canonical_sha256 sample_ipc (sample_frame i 1) = Inr 210" using assms by (intro sample_frame_digest) auto
  have u: "unsigned_ack sv MasterToBroker 20 (sample_frame i 1) 210 s = (sample_ipc_ack i 1)\<lparr>xa_status := s, xa_signature := []\<rparr>"
    using assms by (simp add: unsigned_ack_def sample_ipc_ack_def sample_frame_def WINDOWS_EXECUTION_IPC_SCHEMA_VERSION_def)
  have r: "x\<lparr>xa_status := s, xa_signature := sample_signature ''b''\<rparr> = x\<lparr>xa_status := s\<rparr>"
    if "x = sample_ipc_ack i 1" for x by (simp add: that sample_ipc_ack_def)
  show ?thesis using sample_ack_valid [OF assms(1), of s] assms(2) r
    by (simp add: signed_ack_def d u sign_ack_Inr del: One_nat_def)
qed

lemma sample_broker_health:
  "broker_handle sample_journal DiskOk DiskOk 20 (frame_text 10) 1500 sample_broker =
     (sample_broker\<lparr>sv_ledger := sample_completed\<rparr>, Inr \<lparr>ba_ack = sample_ipc_ack 10 1, ba_forwarded = None\<rparr>)"
proof -
  have t: "is_ok (validate_frame_at sample_ipc 1500 (sample_frame 10 1))"
    using sample_frame_valid [of 10 1] by (simp add: validate_frame_at_def) (simp add: sample_frame_def)
  have k: "sv_ledger sample_broker = sample_fresh" "xf_endpoint (sample_frame 10 1) = MasterToBroker"
    "xf_service_id (sample_frame 10 1) = sv_service_id sample_broker"
    "xf_signer_key_id (sample_frame 10 1) = sv_authority_key_id sample_broker" "xf_kind (sample_frame 10 1) = Health"
    by (simp_all add: sample_broker_def sample_frame_def)
  have s: "signed_ack sample_ipc (sample_broker\<lparr>sv_ledger := sample_admitted\<rparr>) MasterToBroker 20 (sample_frame 10 1)
      HealthyEffectDisabled = Inr (sample_ipc_ack 10 1)"
    using sample_signed_ack [of 10 "sample_broker\<lparr>sv_ledger := sample_admitted\<rparr>" HealthyEffectDisabled]
    by (simp add: sample_broker_def sample_ipc_ack_def)
  show ?thesis
    using sample_authenticated [of 10] sample_no_replay [of 10] t k s sample_steps(1,3)
    by (simp add: broker_handle_def broker_dispatch_def broker_answer_def answer_def del: One_nat_def)
qed

theorem retried_request_gets_the_same_answer_witness:
  "broker_handle sample_journal MetadataFails MetadataFails 21 (frame_text 10) 999999
     (sample_broker\<lparr>sv_ledger := sample_completed\<rparr>) =
     (sample_broker\<lparr>sv_ledger := sample_completed\<rparr>, Inr \<lparr>ba_ack = sample_ipc_ack 10 1, ba_forwarded = None\<rparr>)"
  using retried_request_gets_the_same_answer sample_broker_health by blast

theorem answers_verify_at_the_master_witness:
  "verify_ack_for sample_ipc (sample_ipc_ack 10 1) (sample_frame 10 1) ''broker'' ''b'' = Inr ()"
  using answers_verify_at_the_master [of sample_journal "''b''" sample_broker "frame_text 10" "sample_frame 10 1"]
    sample_authenticated [of 10] sample_no_replay [of 10] sample_broker_health
  by (fastforce simp: sample_broker_def)

text \<open>The broker admits and answers the dispatch frame 11, which carries the executor's frame 12.\<close>

lemma sample_dispatch_small:
  "small (set_state sample_fresh ((new_state sample_config)\<lparr>ls_pending := Some (pending_of (sample_frame 11 1) 210)\<rparr>))"
  "small (set_state (appended (set_state sample_fresh
       ((new_state sample_config)\<lparr>ls_pending := Some (pending_of (sample_frame 11 1) 210)\<rparr>)))
     (completed_state ((new_state sample_config)\<lparr>ls_pending := Some (pending_of (sample_frame 11 1) 210)\<rparr>) 2
       sample_dispatch_ack))"
  using sample_lengths
  by (simp_all add: small_def sample_states sample_sizes sample_bytes set_state_def sample_dispatch_ack_def
      appended_def del: list.map)

lemma sample_forwarded: "forwarded_executor sample_ipc (sample_frame 11 1) = Inr (Some (sample_frame 12 1))"
proof -
  have "xf_forwarded (sample_frame 11 1) = frame_text 12" by (simp add: sample_frame_def)
  moreover have "frame_text 12 \<noteq> []" by (simp add: frame_text_def)
  moreover have "same_authority (sample_frame 12 1) (sample_frame 11 1)" by (simp add: same_authority_def sample_frame_def)
  ultimately show ?thesis
    using sample_decode [of 12] sample_frame_valid [of 11 1] by (simp add: forwarded_executor_def)
qed

lemma sample_broker_dispatch:
  "\<exists>sv'. broker_handle sample_journal DiskOk DiskOk 20 (frame_text 11) 1500 sample_broker =
     (sv', Inr \<lparr>ba_ack = sample_dispatch_ack, ba_forwarded = Some (frame_text 12)\<rparr>)"
proof -
  let ?s1 = "(new_state sample_config)\<lparr>ls_pending := Some (pending_of (sample_frame 11 1) 210)\<rparr>"
  let ?l1 = "appended (set_state sample_fresh ?s1)"
  have t: "is_ok (validate_frame_at sample_ipc 1500 (sample_frame 11 1))"
    using sample_frame_valid [of 11 1] by (simp add: validate_frame_at_def) (simp add: sample_frame_def)
  have k: "sv_ledger sample_broker = sample_fresh" "xf_endpoint (sample_frame 11 1) = MasterToBroker"
    "xf_service_id (sample_frame 11 1) = sv_service_id sample_broker"
    "xf_signer_key_id (sample_frame 11 1) = sv_authority_key_id sample_broker"
    "xf_kind (sample_frame 11 1) = ValidateDispatch" "xf_forwarded (sample_frame 11 1) = frame_text 12"
    "xf_signer_key_id (sample_frame 12 1) = sv_authority_key_id sample_broker"
    "sv_authority_key sample_broker = ''m''"
    by (simp_all add: sample_broker_def sample_frame_def)
  have s: "signed_ack sample_ipc (sample_broker\<lparr>sv_ledger := ?l1\<rparr>) MasterToBroker 20 (sample_frame 11 1)
      DispatchValidatedEffectDisabled = Inr sample_dispatch_ack"
    using sample_signed_ack [of 11 "sample_broker\<lparr>sv_ledger := ?l1\<rparr>" DispatchValidatedEffectDisabled]
    by (simp add: sample_broker_def sample_dispatch_ack_def)
  have "frame_canonical_sha256 sample_ipc (sample_frame 11 1) = Inr 210" by (intro sample_frame_digest) auto
  then have a: "admit sample_journal DiskOk (sample_frame 11 1) sample_fresh = (?l1, Inr New)"
    using sample_persist(1) [OF sample_dispatch_small(1)]
    by (simp add: admit_def Let_def sample_states(1) del: One_nat_def)
       (simp add: new_state_def sample_config_def other_target_def replayed_ack_def sample_frame_def)
  have "\<not> ack_differs ?s1 (pending_of (sample_frame 11 1) 210) sample_dispatch_ack" "ls_next_sequence ?s1 = 1"
    by (simp_all add: ack_differs_def sample_dispatch_ack_def sample_ipc_ack_def pending_of_def sample_frame_def
        new_state_def sample_config_def WINDOWS_EXECUTION_IPC_SCHEMA_VERSION_def)
  then have c: "\<exists>l. complete sample_journal DiskOk sample_dispatch_ack ?l1 = (l, Inr ())"
    using sample_persist(1) [OF sample_dispatch_small(2)]
    by (simp add: complete_def Let_def checked_add_u64_def u64_max_def numeral_2_eq_2)
  show ?thesis
    using sample_authenticated [of 11] sample_no_replay [of 11] sample_forwarded sample_signed [of 12] t k s a c
    by (auto simp: broker_handle_def broker_dispatch_def broker_answer_def answer_def simp del: One_nat_def)
qed

theorem forwarded_frame_is_not_rejected_witness:
  "snd (executor_handle sample_journal DiskOk DiskOk 22 (frame_text 12) 1500 sample_executor) \<noteq> Inl SvRejected"
proof -
  obtain sv' where h: "broker_handle sample_journal DiskOk DiskOk 20 (frame_text 11) 1500 sample_broker =
     (sv', Inr \<lparr>ba_ack = sample_dispatch_ack, ba_forwarded = Some (frame_text 12)\<rparr>)"
    using sample_broker_dispatch by blast
  have f: "authenticate (jn_ipc sample_journal) sample_broker (frame_text 11) = Inr (sample_frame 11 1)"
    "completed_replay sample_journal (sample_frame 11 1) (sv_ledger sample_broker) = Inr None"
    using sample_authenticated [of 11] sample_no_replay [of 11] by (simp_all add: sample_broker_def)
  obtain e where e: "decode_control_frame sample_ipc (frame_text 12) = Inr e"
    and x: "\<forall>d1 d2 i sx. sv_authority_key sx = sv_authority_key sample_broker
        \<and> sv_authority_key_id sx = sv_authority_key_id sample_broker \<and> sv_service_id sx = xf_service_id e
        \<longrightarrow> snd (executor_handle sample_journal d1 d2 i (frame_text 12) 1500 sx) \<noteq> Inl SvRejected"
    using forwarded_frame_is_not_rejected [OF h f, of "frame_text 12"] by auto
  have "e = sample_frame 12 1" using e sample_decode [of 12] by simp
  then have "sv_service_id sample_executor = xf_service_id e" by (simp add: sample_executor_def sample_frame_def)
  then show ?thesis using x by (simp add: sample_executor_def sample_broker_def)
qed

end
