(* ===== verification/Ipc_Master.thy ===== *)
theory Ipc_Master
  imports Ipc_Service_Sample
begin

text \<open>
  The master's side of the hop: \<^verbatim>\<open>InertWindowsExecutionIpcFoundation\<close> of
  \<^verbatim>\<open>assemblywright-master/src/execution_ipc.rs\<close>. It signs health and dispatch frames and verifies the
  acknowledgements. Fresh frame identifiers and nonces are arguments. The property composes the three
  participants: what the master signs, neither service rejects.
\<close>

section \<open>The foundation\<close>

record ipc_binding =
  bd_master_id :: uuid
  bd_broker_id :: uuid
  bd_executor_id :: uuid
  bd_session_id :: uuid
  bd_session_revision :: nat
  bd_child_epoch_id :: uuid
  bd_child_epoch_revision :: nat
  bd_feature_lifecycle_revision :: nat
  bd_authority_revision :: nat
  bd_authority_key_id :: string
  bd_broker_ack_key_id :: string
  bd_broker_ack_key :: string
  bd_executor_ack_key_id :: string
  bd_executor_ack_key :: string

record foundation =
  fn_binding :: ipc_binding
  fn_authority_key :: string

definition new_foundation :: "ipc_binding \<Rightarrow> string \<Rightarrow> foundation validated" where
  "new_foundation b authority_key =
     bindE (reject_if InvalidFullMachineAssemblyLine
       (bd_master_id b = 0
        \<or> bd_broker_id b = 0
        \<or> bd_executor_id b = 0
        \<or> bd_master_id b = bd_broker_id b
        \<or> bd_master_id b = bd_executor_id b
        \<or> bd_broker_id b = bd_executor_id b
        \<or> bd_session_id b = 0
        \<or> bd_child_epoch_id b = 0
        \<or> bd_session_revision b = 0
        \<or> bd_child_epoch_revision b = 0
        \<or> bd_feature_lifecycle_revision b = 0
        \<or> bd_authority_revision b = 0
        \<or> bd_authority_key_id b = []
        \<or> bd_broker_ack_key_id b = []
        \<or> bd_executor_ack_key_id b = [])) (\<lambda>_.
     Inr \<lparr>fn_binding = b, fn_authority_key = authority_key\<rparr>)"

text \<open>The fresh identifiers of one frame: \<^verbatim>\<open>frame_id\<close> and \<^verbatim>\<open>nonce\<close>.\<close>

definition master_frame ::
    "ipc \<Rightarrow> ipc_binding \<Rightarrow> uuid \<times> uuid \<Rightarrow> ipc_endpoint \<Rightarrow> uuid \<Rightarrow> nat \<Rightarrow> nat \<Rightarrow> nat \<Rightarrow> control_kind \<Rightarrow> string
     \<Rightarrow> control_frame" where
  "master_frame ip b fresh endpoint service_id request_sequence issued_at_ms expires_at_ms kind forwarded =
     \<lparr>xf_schema_version = WINDOWS_EXECUTION_IPC_SCHEMA_VERSION, xf_endpoint = endpoint,
      xf_frame_id = fst fresh, xf_request_sequence = request_sequence, xf_nonce = snd fresh,
      xf_master_id = bd_master_id b, xf_service_id = service_id, xf_session_id = bd_session_id b,
      xf_session_revision = bd_session_revision b, xf_child_epoch_id = bd_child_epoch_id b,
      xf_child_epoch_revision = bd_child_epoch_revision b,
      xf_feature_lifecycle_revision = bd_feature_lifecycle_revision b,
      xf_authority_revision = bd_authority_revision b, xf_issued_at_ms = issued_at_ms,
      xf_expires_at_ms = expires_at_ms, xf_kind = kind,
      xf_forwarded_sha256 = (if forwarded = [] then 0 else sha256 (ip_codec ip) forwarded),
      xf_forwarded = forwarded, xf_signer_key_id = bd_authority_key_id b, xf_signature = []\<rparr>"

definition master_sign ::
    "ipc \<Rightarrow> foundation \<Rightarrow> uuid \<times> uuid \<Rightarrow> ipc_endpoint \<Rightarrow> uuid \<Rightarrow> nat \<Rightarrow> nat \<Rightarrow> nat \<Rightarrow> control_kind \<Rightarrow> string
     \<Rightarrow> control_frame validated" where
  "master_sign ip fn fresh endpoint service_id request_sequence issued_at_ms expires_at_ms kind forwarded =
     sign_frame ip (fn_authority_key fn)
       (master_frame ip (fn_binding fn) fresh endpoint service_id request_sequence issued_at_ms
          expires_at_ms kind forwarded)"

definition sign_dispatch_validation ::
    "ipc \<Rightarrow> foundation \<Rightarrow> uuid \<times> uuid \<Rightarrow> uuid \<times> uuid \<Rightarrow> nat \<Rightarrow> nat \<Rightarrow> nat \<Rightarrow> nat
     \<Rightarrow> (control_frame \<times> control_frame) validated" where
  "sign_dispatch_validation ip fn fresh1 fresh2 broker_sequence executor_sequence issued_at_ms expires_at_ms =
     bindE (master_sign ip fn fresh1 MasterToExecutor (bd_executor_id (fn_binding fn)) executor_sequence
              issued_at_ms expires_at_ms ValidateDispatch []) (\<lambda>executor.
     bindE (encode_control_frame ip executor) (\<lambda>executor_bytes.
     bindE (master_sign ip fn fresh2 MasterToBroker (bd_broker_id (fn_binding fn)) broker_sequence
              issued_at_ms expires_at_ms ValidateDispatch executor_bytes) (\<lambda>broker.
     Inr (broker, executor))))"

definition sign_health ::
    "ipc \<Rightarrow> foundation \<Rightarrow> uuid \<times> uuid \<Rightarrow> ipc_endpoint \<Rightarrow> nat \<Rightarrow> nat \<Rightarrow> nat \<Rightarrow> control_frame validated" where
  "sign_health ip fn fresh endpoint request_sequence issued_at_ms expires_at_ms =
     (let service_id = (case endpoint of MasterToBroker \<Rightarrow> bd_broker_id (fn_binding fn)
                        | MasterToExecutor \<Rightarrow> bd_executor_id (fn_binding fn)) in
      master_sign ip fn fresh endpoint service_id request_sequence issued_at_ms expires_at_ms Health [])"

definition verify_ack :: "ipc \<Rightarrow> foundation \<Rightarrow> control_frame \<Rightarrow> ipc_ack \<Rightarrow> unit validated" where
  "verify_ack ip fn f ack =
     (case xf_endpoint f of
        MasterToBroker \<Rightarrow>
          verify_ack_for ip ack f (bd_broker_ack_key_id (fn_binding fn)) (bd_broker_ack_key (fn_binding fn))
      | MasterToExecutor \<Rightarrow>
          verify_ack_for ip ack f (bd_executor_ack_key_id (fn_binding fn)) (bd_executor_ack_key (fn_binding fn)))"

section \<open>Signed frames\<close>

text \<open>What the participants rely on from third-party code: frames are read back as written.\<close>

definition frames_read_back :: "ipc \<Rightarrow> control_frame \<Rightarrow> bool" where
  "frames_read_back ip f \<longleftrightarrow>
     (\<exists>t. Option.bind (json_tokens (ip_codec ip) (ip_frame_bytes ip f)) strict_json = Some t
        \<and> ip_decode_frame ip t = Some f)"

lemma frame_signing_bytes_signature [simp]:
  "frame_signing_bytes cx (f\<lparr>xf_signature := s\<rparr>) = frame_signing_bytes cx f"
  by (simp add: frame_signing_bytes_def)

lemma sign_frame_Inr:
  assumes "sign_frame ip key f = Inr g"
  shows "g = f\<lparr>xf_signature := ip_sign ip key (frame_signing_bytes (ip_codec ip) f)\<rparr>"
    "validate_frame ip g = Inr ()"
proof -
  show "g = f\<lparr>xf_signature := ip_sign ip key (frame_signing_bytes (ip_codec ip) f)\<rparr>"
    using assms by (auto simp: sign_frame_def Let_def bindE_Inr_iff)
  then show "validate_frame ip g = Inr ()"
    using assms by (simp add: sign_frame_def Let_def bindE_Inr_iff)
qed

lemma validate_frame_length:
  "validate_frame ip f = Inr () \<Longrightarrow> length (ip_frame_bytes ip f) \<le> MAX_WINDOWS_EXECUTION_IPC_FRAME_BYTES"
  by (auto simp: validate_frame_def validate_frame_shape_def bindE_Inr_iff validate_serialized_limit_Inr)

lemma decode_signed:
  assumes "validate_frame ip f = Inr ()" "frames_read_back ip f"
  shows "decode_control_frame ip (ip_frame_bytes ip f) = Inr f"
proof -
  obtain s t where t: "json_tokens (ip_codec ip) (ip_frame_bytes ip f) = Some s" "strict_json s = Some t"
    "ip_decode_frame ip t = Some f"
    using assms(2) by (auto simp: frames_read_back_def bind_eq_Some_conv)
  show ?thesis using t validate_frame_length [OF assms(1)] assms(1)
    by (simp add: decode_control_frame_def decode_strict_and_validate_frame_def)
qed

lemma master_signed:
  assumes "master_sign ip fn fresh ep sid n a b kind fw = Inr f"
    and key: "\<forall>m. ip_verify ip vk m (ip_sign ip (fn_authority_key fn) m)" and "frames_read_back ip f"
  shows "authenticate ip (sv\<lparr>sv_authority_key := vk\<rparr>) (ip_frame_bytes ip f) = Inr f"
    "verify_frame_signature ip vk f = Inr ()"
    "\<exists>s. f = (master_frame ip (fn_binding fn) fresh ep sid n a b kind fw)\<lparr>xf_signature := s\<rparr>"
    "validate_frame ip f = Inr ()"
proof -
  note s = sign_frame_Inr [OF assms(1) [unfolded master_sign_def]]
  let ?m = "master_frame ip (fn_binding fn) fresh ep sid n a b kind fw"
  show v: "validate_frame ip f = Inr ()" by (rule s(2))
  have "xf_signature f = ip_sign ip (fn_authority_key fn) (frame_signing_bytes (ip_codec ip) ?m)"
    "frame_signing_bytes (ip_codec ip) f = frame_signing_bytes (ip_codec ip) ?m"
    by (simp_all add: s(1))
  then show k: "verify_frame_signature ip vk f = Inr ()" using v key by (simp add: verify_frame_signature_def)
  show "\<exists>s. f = ?m\<lparr>xf_signature := s\<rparr>" using s(1) by blast
  show "authenticate ip (sv\<lparr>sv_authority_key := vk\<rparr>) (ip_frame_bytes ip f) = Inr f"
    using decode_signed [OF v assms(3)] k by (simp add: authenticate_Inr)
qed

section \<open>The three participants\<close>

definition serves :: "foundation \<Rightarrow> string \<Rightarrow> uuid \<Rightarrow> service \<Rightarrow> bool" where
  "serves fn vk service_id sv \<longleftrightarrow> sv_authority_key sv = vk
     \<and> sv_authority_key_id sv = bd_authority_key_id (fn_binding fn) \<and> sv_service_id sv = service_id"

lemma executor_takes_up:
  assumes "authenticate (jn_ipc jn) sx bytes = Inr f" "xf_endpoint f = MasterToExecutor"
    "xf_service_id f = sv_service_id sx" "xf_signer_key_id f = sv_authority_key_id sx" "xf_forwarded f = []"
    "is_ok (validate_frame_at (jn_ipc jn) now f)"
  shows "snd (executor_handle jn d1 d2 i bytes now sx) \<noteq> Inl SvRejected"
  using assms
  by (auto simp: executor_handle_def answer_def split: sum.split option.split prod.split admission.split)

lemma broker_takes_up:
  assumes "authenticate (jn_ipc jn) sv bytes = Inr f" "xf_endpoint f = MasterToBroker"
    "xf_service_id f = sv_service_id sv" "xf_signer_key_id f = sv_authority_key_id sv"
    "is_ok (validate_frame_at (jn_ipc jn) now f)"
    and e: "forwarded_executor (jn_ipc jn) f = Inr (Some e)" "xf_signer_key_id e = sv_authority_key_id sv"
      "verify_frame_signature (jn_ipc jn) (sv_authority_key sv) e = Inr ()"
  shows "snd (broker_handle jn d1 d2 i bytes now sv) \<noteq> Inl SvRejected"
proof -
  have "snd (broker_answer jn d2 i sv' f s x) \<noteq> Inl SvRejected" for sv' s x
    by (auto simp: broker_answer_def answer_def split: sum.split prod.split)
  then have "snd (broker_dispatch jn d2 i (sv\<lparr>sv_ledger := l\<rparr>) f) \<noteq> Inl SvRejected" for l
    using e by (cases "xf_kind f") (simp_all add: broker_dispatch_def)
  then show ?thesis using assms(1-5)
    by (auto simp: broker_handle_def split: sum.split option.split prod.split admission.split)
qed

text \<open>
  C36. What the master signs reaches both services: the two frames of a signed dispatch pass every check
  of the broker and of the executor that are pinned to the master's key, at any time of their lifetime
  and whatever the ledgers hold, and the frame that the broker takes out of its own is exactly the
  executor's.
\<close>

theorem signed_dispatch_is_taken_up:
  assumes signed: "sign_dispatch_validation (jn_ipc jn) fn fresh1 fresh2 n m a b = Inr (broker, executor)"
    and key: "\<forall>msg. ip_verify (jn_ipc jn) vk msg (ip_sign (jn_ipc jn) (fn_authority_key fn) msg)"
    and read: "frames_read_back (jn_ipc jn) broker" "frames_read_back (jn_ipc jn) executor"
    and time: "a \<le> now" "now < b"
    and serves: "serves fn vk (bd_broker_id (fn_binding fn)) sv" "serves fn vk (bd_executor_id (fn_binding fn)) sx"
  shows "forwarded_executor (jn_ipc jn) broker = Inr (Some executor)
    \<and> snd (broker_handle jn d1 d2 i (ip_frame_bytes (jn_ipc jn) broker) now sv) \<noteq> Inl SvRejected
    \<and> snd (executor_handle jn d3 d4 k (ip_frame_bytes (jn_ipc jn) executor) now sx) \<noteq> Inl SvRejected"
proof -
  let ?ip = "jn_ipc jn"
  have e: "master_sign ?ip fn fresh1 MasterToExecutor (bd_executor_id (fn_binding fn)) m a b ValidateDispatch [] = Inr executor"
    and br: "master_sign ?ip fn fresh2 MasterToBroker (bd_broker_id (fn_binding fn)) n a b ValidateDispatch
      (ip_frame_bytes ?ip executor) = Inr broker"
    using signed by (auto simp: sign_dispatch_validation_def encode_control_frame_def bindE_Inr_iff)
  note E = master_signed [OF e key read(2)] and B = master_signed [OF br key read(1)]
  obtain s t where s: "executor = (master_frame ?ip (fn_binding fn) fresh1 MasterToExecutor
      (bd_executor_id (fn_binding fn)) m a b ValidateDispatch [])\<lparr>xf_signature := s\<rparr>"
    and t: "broker = (master_frame ?ip (fn_binding fn) fresh2 MasterToBroker
      (bd_broker_id (fn_binding fn)) n a b ValidateDispatch (ip_frame_bytes ?ip executor))\<lparr>xf_signature := t\<rparr>"
    using E(3) B(3) by blast
  have fe: "xf_endpoint executor = MasterToExecutor" "xf_forwarded executor = []" "xf_kind executor = ValidateDispatch"
    "xf_service_id executor = bd_executor_id (fn_binding fn)" "xf_signer_key_id executor = bd_authority_key_id (fn_binding fn)"
    "xf_issued_at_ms executor = a" "xf_expires_at_ms executor = b"
    by (simp_all add: s master_frame_def)
  have fb: "xf_endpoint broker = MasterToBroker" "xf_forwarded broker = ip_frame_bytes ?ip executor"
    "xf_kind broker = ValidateDispatch" "xf_service_id broker = bd_broker_id (fn_binding fn)"
    "xf_signer_key_id broker = bd_authority_key_id (fn_binding fn)"
    "xf_issued_at_ms broker = a" "xf_expires_at_ms broker = b"
    by (simp_all add: t master_frame_def)
  have "same_authority executor broker"
    unfolding same_authority_def t by (simp add: s master_frame_def)
  moreover have "xf_forwarded broker \<noteq> []" using validate_frame_Inr(7) [OF B(4)] fb by simp
  ultimately have fwd: "forwarded_executor ?ip broker = Inr (Some executor)"
    using decode_signed [OF E(4) read(2)] B(4) fb(2) by (simp add: forwarded_executor_def)
  have live: "is_ok (validate_frame_at ?ip now executor)" "is_ok (validate_frame_at ?ip now broker)"
    using E(4) B(4) fe fb time by (simp_all add: validate_frame_at_def)
  have auth: "authenticate ?ip sv (ip_frame_bytes ?ip broker) = Inr broker"
    "authenticate ?ip sx (ip_frame_bytes ?ip executor) = Inr executor"
    using B(1) [of sv] E(1) [of sx] serves by (simp_all add: serves_def authenticate_def)
  show ?thesis
    using fwd serves fe fb E(2)
      broker_takes_up [OF auth(1) fb(1) _ _ live(2) fwd] executor_takes_up [OF auth(2) fe(1) _ _ fe(2) live(1)]
    by (auto simp: serves_def)
qed

definition sample_foundation :: foundation where
  "sample_foundation = \<lparr>fn_binding = \<lparr>bd_master_id = 3, bd_broker_id = 4, bd_executor_id = 5,
     bd_session_id = 6, bd_session_revision = 1, bd_child_epoch_id = 7, bd_child_epoch_revision = 1,
     bd_feature_lifecycle_revision = 1, bd_authority_revision = 1, bd_authority_key_id = ''master'',
     bd_broker_ack_key_id = ''broker'', bd_broker_ack_key = ''b'', bd_executor_ack_key_id = ''executor'',
     bd_executor_ack_key = ''e''\<rparr>, fn_authority_key = ''m''\<rparr>"

lemma sample_unsigned_valid:
  "i \<in> {11, 12} \<Longrightarrow> validate_frame_shape sample_ipc False ((sample_frame i 1)\<lparr>xf_signature := []\<rparr>) = Inr ()"
  by (auto simp: validate_frame_def validate_frame_shape_def validate_uuid_def frame_numbers_bad_def
      forward_bad_def sample_frame_def sample_key_ids bindE_Inr_iff reject_if_Inr_iff
      WINDOWS_EXECUTION_IPC_SCHEMA_VERSION_def frame_text_def
      MAX_WINDOWS_EXECUTION_IPC_PAYLOAD_BYTES_def MAX_WINDOWS_EXECUTION_IPC_FRAME_BYTES_def
      validate_serialized_limit_Inr)

lemma sample_sign_frame:
  "i \<in> {11, 12} \<Longrightarrow> sign_frame sample_ipc ''m'' ((sample_frame i 1)\<lparr>xf_signature := []\<rparr>) = Inr (sample_frame i 1)"
proof -
  assume i: "i \<in> {11, 12}"
  have "(sample_frame i 1)\<lparr>xf_signature := sample_signature ''m''\<rparr> = sample_frame i 1" by (simp add: sample_frame_def)
  moreover have "validate_frame sample_ipc (sample_frame i 1) = Inr ()" using i by (intro sample_frame_valid) auto
  ultimately show ?thesis using sample_unsigned_valid [OF i]
    by (simp add: sign_frame_def del: One_nat_def insert_iff)
qed

lemma sample_dispatch_signed:
  "sign_dispatch_validation sample_ipc sample_foundation (12, 2) (11, 2) 1 1 1000 2000
     = Inr (sample_frame 11 1, sample_frame 12 1)"
proof -
  have e: "master_frame sample_ipc (fn_binding sample_foundation) (12, 2) MasterToExecutor 5 1 1000 2000 ValidateDispatch []
      = (sample_frame 12 1)\<lparr>xf_signature := []\<rparr>"
    and b: "master_frame sample_ipc (fn_binding sample_foundation) (11, 2) MasterToBroker 4 1 1000 2000 ValidateDispatch
      (frame_text 12) = (sample_frame 11 1)\<lparr>xf_signature := []\<rparr>"
    by (simp_all add: master_frame_def sample_foundation_def sample_frame_def
        WINDOWS_EXECUTION_IPC_SCHEMA_VERSION_def frame_text_def)
  have k: "fn_authority_key sample_foundation = ''m''" "bd_executor_id (fn_binding sample_foundation) = 5"
    "bd_broker_id (fn_binding sample_foundation) = 4" "xf_frame_id (sample_frame 12 1) = 12"
    by (simp_all add: sample_foundation_def sample_frame_def)
  show ?thesis
    using sample_sign_frame [of 12] sample_sign_frame [of 11] sample_frame_valid [of 12 1] e b k
    by (simp add: sign_dispatch_validation_def master_sign_def encode_control_frame_def del: One_nat_def)
qed

theorem signed_dispatch_is_taken_up_witness:
  "snd (broker_handle sample_journal DiskOk DiskOk 20 (frame_text 11) 1500 sample_broker) \<noteq> Inl SvRejected
   \<and> snd (executor_handle sample_journal DiskOk DiskOk 21 (frame_text 12) 1500 sample_executor) \<noteq> Inl SvRejected"
proof -
  have read: "frames_read_back sample_ipc (sample_frame i 1)" if "i \<in> {11, 12}" for i
    using that frame_text_inject
    by (auto simp: frames_read_back_def sample_ipc_def) (simp_all add: sample_frame_def)
  have k: "serves sample_foundation ''m'' (bd_broker_id (fn_binding sample_foundation)) sample_broker"
    "serves sample_foundation ''m'' (bd_executor_id (fn_binding sample_foundation)) sample_executor"
    "xf_frame_id (sample_frame 11 1) = 11" "xf_frame_id (sample_frame 12 1) = 12"
    "fn_authority_key sample_foundation = ''m''"
    by (simp_all add: serves_def sample_foundation_def sample_broker_def sample_executor_def sample_frame_def)
  show ?thesis
    using signed_dispatch_is_taken_up [of sample_journal sample_foundation "(12, 2)" "(11, 2)" 1 1 1000 2000
        "sample_frame 11 1" "sample_frame 12 1" "''m''" 1500 sample_broker sample_executor]
      sample_dispatch_signed read [of 11] read [of 12] k
    by simp
qed

end
