(* ===== verification/Ipc_Pipe.thy ===== *)
theory Ipc_Pipe
  imports Ipc_Master
begin

text \<open>
  The local pipe under the Windows services: names, service SIDs, length-prefixed frames and
  diagnostic codes of \<^verbatim>\<open>assemblywright-protocol/src/windows_execution_pipe.rs\<close>. The Win32 calls that
  create and secure the pipe are not modelled; a reader is the bytes it will deliver, followed by the
  native code of the error that ends it (\<open>None\<close> for an early end of the stream).
\<close>

unbundle bit_operations_syntax

datatype pipe_error =
    PipeInvalidBinding
  | PipeIo
  | PipeIoOperation string "int option"
  | PipeWrongPeer
  | PipeInvalidFrame

section \<open>Diagnostic codes\<close>

definition operation_number :: "string \<Rightarrow> 32 word" where
  "operation_number operation =
     (if operation = ''server_create'' then 1
      else if operation = ''server_connect'' then 2
      else if operation = ''server_read'' then 3
      else if operation = ''server_write'' then 4
      else if operation = ''client_open'' then 5
      else if operation = ''client_write'' then 6
      else if operation = ''client_read'' then 7
      else if operation = ''server_delivery_wait'' then 8
      else 15)"

definition native_number :: "int option \<Rightarrow> 32 word" where
  "native_number native_code =
     (case native_code of None \<Rightarrow> 0x00FFFFFF
      | Some code \<Rightarrow> if 0 \<le> code \<and> code \<le> 0x00FFFFFF then word_of_int code else 0x00FFFFFF)"

definition diagnostic_parts :: "pipe_error \<Rightarrow> 32 word \<times> 32 word" where
  "diagnostic_parts e =
     (case e of
        PipeInvalidBinding \<Rightarrow> (0, 1)
      | PipeIo \<Rightarrow> (0, 2)
      | PipeWrongPeer \<Rightarrow> (0, 3)
      | PipeInvalidFrame \<Rightarrow> (0, 4)
      | PipeIoOperation operation native_code \<Rightarrow> (operation_number operation, native_number native_code))"

definition service_diagnostic_code :: "pipe_error \<Rightarrow> 32 word" where
  "service_diagnostic_code e =
     (case diagnostic_parts e of (operation, native_code) \<Rightarrow>
        0xA0000000 OR push_bit 24 operation OR native_code)"

lemma native_number_le: "native_number c \<le> 0x00FFFFFF"
  by (cases c) (auto simp: native_number_def word_le_def unsigned_of_int take_bit_int_eq_self)

lemma small_word_bits:
  fixes n :: "32 word"
  assumes "n \<le> 0x00FFFFFF"
  shows "take_bit 24 n = n" "drop_bit 24 n = 0"
proof -
  have n: "unat n < 2 ^ 24" using assms by (simp add: word_le_nat_alt)
  then have "unat (take_bit 24 n) = unat n" by (simp add: unsigned_take_bit_eq take_bit_nat_eq_self)
  then show "take_bit 24 n = n" by (simp add: word_unat_eq_iff)
  have "unat (drop_bit 24 n) = unat n div 2 ^ 24" by (simp add: drop_bit_eq_div unat_div)
  then have "unat (drop_bit 24 n) = 0" using n by simp
  then show "drop_bit 24 n = 0" by (simp add: unat_eq_0)
qed

text \<open>
  A diagnostic code shows its cause: the high byte is \<^verbatim>\<open>0xA0\<close> plus the number of the operation and
  the low 24 bits are the native code, or all ones when there is none or it does not fit; the two never
  overlap.
\<close>

theorem diagnostic_code_decodes:
  "drop_bit 24 (service_diagnostic_code e) = 0xA0 + fst (diagnostic_parts e)
   \<and> take_bit 24 (service_diagnostic_code e) = snd (diagnostic_parts e)
   \<and> snd (diagnostic_parts e) \<le> 0x00FFFFFF"
proof -
  obtain p n where pn: "diagnostic_parts e = (p, n)" by fastforce
  have n: "n \<le> 0x00FFFFFF"
    using pn native_number_le by (auto simp: diagnostic_parts_def split: pipe_error.splits)
  have p: "p \<in> {0, 1, 2, 3, 4, 5, 6, 7, 8, 15}"
    using pn by (auto simp: diagnostic_parts_def operation_number_def split: pipe_error.splits if_splits)
  note bits = small_word_bits [OF n]
  have "drop_bit 24 (0xA0000000 OR push_bit 24 p OR n) = 0xA0 + p"
    using p by (auto simp: drop_bit_or bits)
  moreover have "take_bit 24 (0xA0000000 OR push_bit 24 p OR n) = n"
    by (simp add: take_bit_or bits take_bit_push_bit)
  ultimately show ?thesis using n by (simp add: service_diagnostic_code_def pn)
qed

section \<open>Names\<close>

definition pipe_prefix :: string where
  "pipe_prefix = [CHR 0x5C, CHR 0x5C, CHR ''.'', CHR 0x5C] @ ''pipe'' @ [CHR 0x5C] @ ''Assemblywright.''"

definition validate_local_pipe_name :: "string \<Rightarrow> pipe_error + unit" where
  "validate_local_pipe_name name =
     (if \<not> starts_with pipe_prefix name then Inl PipeInvalidBinding
      else
        (let suffix = drop (length pipe_prefix) name in
         reject_if PipeInvalidBinding
           (suffix = [] \<or> length suffix > 96
            \<or> \<not> list_all (\<lambda>b. is_alphanumeric b \<or> b = CHR ''.'' \<or> b = CHR ''-'') suffix)))"

definition u32_max :: nat where "u32_max = 4294967295"

text \<open>\<^verbatim>\<open>str::parse::<u32>\<close> accepts one leading plus sign.\<close>

definition digits_value :: "string \<Rightarrow> nat" where
  "digits_value s = foldl (\<lambda>a c. 10 * a + (byte_of c - 48)) 0 s"

definition parse_u32 :: "string \<Rightarrow> nat option" where
  "parse_u32 s =
     (let digits = (case s of c # t \<Rightarrow> if c = CHR ''+'' then t else s | [] \<Rightarrow> s) in
      if digits = [] \<or> \<not> list_all is_digit digits \<or> digits_value digits > u32_max then None
      else Some (digits_value digits))"

fun check_sid_parts :: "nat \<Rightarrow> bool \<Rightarrow> string list \<Rightarrow> pipe_error + (bool \<times> string list)" where
  "check_sid_parts 0 nonzero parts = Inr (nonzero, parts)"
| "check_sid_parts (Suc k) nonzero [] = Inl PipeInvalidBinding"
| "check_sid_parts (Suc k) nonzero (part # parts) =
     bindE (ok_or PipeInvalidBinding (parse_u32 part)) (\<lambda>parsed.
     bindE (reject_if PipeInvalidBinding (nat_text parsed \<noteq> part)) (\<lambda>_.
     check_sid_parts k (nonzero \<or> parsed \<noteq> 0) parts))"

text \<open>The last check is the Win32 conversion of the text to a SID, given as \<open>converts\<close>.\<close>

definition validate_service_sid_text :: "(string \<Rightarrow> bool) \<Rightarrow> string \<Rightarrow> pipe_error + unit" where
  "validate_service_sid_text converts value =
     (let parts = split_on CHR ''-'' value in
      bindE (reject_if PipeInvalidBinding (take 4 parts \<noteq> [''S'', ''1'', ''5'', ''80''])) (\<lambda>_.
      bindE (check_sid_parts 5 False (drop 4 parts)) (\<lambda>(nonzero, rest).
      bindE (reject_if PipeInvalidBinding (rest \<noteq> [] \<or> \<not> nonzero)) (\<lambda>_.
      reject_if PipeInvalidBinding (\<not> converts value)))))"

section \<open>Frames\<close>

type_synonym reader = "string \<times> int option"

definition read_exact :: "string \<Rightarrow> nat \<Rightarrow> reader \<Rightarrow> pipe_error + (string \<times> reader)" where
  "read_exact operation n r =
     (case r of (bytes, native_code) \<Rightarrow>
        if n \<le> length bytes then Inr (take n bytes, (drop n bytes, native_code))
        else Inl (PipeIoOperation operation native_code))"

definition from_be_bytes :: "string \<Rightarrow> nat" where
  "from_be_bytes s = foldl (\<lambda>a b. 256 * a + byte_of b) 0 s"

definition read_frame :: "string \<Rightarrow> reader \<Rightarrow> pipe_error + (string \<times> reader)" where
  "read_frame operation r =
     bindE (read_exact operation 4 r) (\<lambda>(prefix, r').
     (let length = from_be_bytes prefix in
      bindE (reject_if PipeInvalidFrame (length = 0 \<or> length > MAX_WINDOWS_EXECUTION_IPC_FRAME_BYTES)) (\<lambda>_.
      read_exact operation length r')))"

text \<open>The writer succeeds or fails with a native code; on success it has taken all bytes.\<close>

definition write_frame :: "string \<Rightarrow> int option option \<Rightarrow> string \<Rightarrow> pipe_error + string" where
  "write_frame operation failure frame =
     bindE (reject_if PipeInvalidFrame
       (frame = [] \<or> length frame > MAX_WINDOWS_EXECUTION_IPC_FRAME_BYTES)) (\<lambda>_.
     (case failure of Some native_code \<Rightarrow> Inl (PipeIoOperation operation native_code)
      | None \<Rightarrow> Inr (be_bytes 4 (length frame) @ frame)))"

lemma foldl_be_bytes: "n < 256 ^ k \<Longrightarrow> foldl (\<lambda>a b. 256 * a + byte_of b) 0 (be_bytes k n) = n"
proof (induction k arbitrary: n)
  case (Suc k)
  then have "n div 256 < 256 ^ k" by (simp add: less_mult_imp_div_less mult.commute)
  then show ?case using Suc.IH [of "n div 256"] by (simp add: byte_of_char_of del: char_of_mod_256)
qed simp

lemma be_bytes_foldl: "be_bytes (length s) (foldl (\<lambda>a b. 256 * a + byte_of b) 0 s) = s"
proof (induction s rule: rev_induct)
  case (snoc b s)
  have "byte_of b < 256" by (rule byte_of_less)
  then show ?case using snoc by (simp del: char_of_mod_256)
qed simp

text \<open>
  Frames survive the pipe: what one side writes, the other reads back unchanged and complete, in
  order, with the rest of the stream left for the next frame; empty and oversized frames are refused on
  both sides and a stream that ends inside a frame is an error, never a shorter frame.
\<close>

theorem pipe_frames_round_trip:
  "(write_frame w None frame = Inr bytes \<longrightarrow> read_frame r (bytes @ rest, c) = Inr (frame, (rest, c)))
   \<and> (read_frame r (stream, c) = Inr (frame, (rest, c')) \<longrightarrow>
        stream = be_bytes 4 (length frame) @ frame @ rest \<and> write_frame w None frame = Inr (be_bytes 4 (length frame) @ frame))"
proof (intro conjI impI)
  assume "write_frame w None frame = Inr bytes"
  then have b: "bytes = be_bytes 4 (length frame) @ frame" "frame \<noteq> []"
    "length frame \<le> MAX_WINDOWS_EXECUTION_IPC_FRAME_BYTES"
    by (auto simp: write_frame_def bindE_Inr_iff reject_if_Inr_iff)
  have "from_be_bytes (be_bytes 4 (length frame)) = length frame"
    unfolding from_be_bytes_def using b(3)
    by (intro foldl_be_bytes) (simp add: MAX_WINDOWS_EXECUTION_IPC_FRAME_BYTES_def)
  then show "read_frame r (bytes @ rest, c) = Inr (frame, (rest, c))"
    using b by (simp add: read_frame_def read_exact_def Let_def del: be_bytes.simps)
next
  assume "read_frame r (stream, c) = Inr (frame, (rest, c'))"
  then have s: "4 \<le> length stream" "from_be_bytes (take 4 stream) \<noteq> 0"
    "from_be_bytes (take 4 stream) \<le> MAX_WINDOWS_EXECUTION_IPC_FRAME_BYTES"
    "from_be_bytes (take 4 stream) \<le> length stream - 4"
    "frame = take (from_be_bytes (take 4 stream)) (drop 4 stream)"
    "rest = drop (from_be_bytes (take 4 stream)) (drop 4 stream)"
    by (auto simp: read_frame_def read_exact_def Let_def bindE_Inr_iff reject_if_Inr_iff split: if_splits)
  then have n: "length frame = from_be_bytes (take 4 stream)" by simp
  have "be_bytes 4 (length frame) = take 4 stream"
    using be_bytes_foldl [of "take 4 stream"] s(1) by (simp add: n from_be_bytes_def del: be_bytes.simps)
  then have "be_bytes 4 (length frame) @ frame @ rest = take 4 stream @ drop 4 stream"
    using s(5,6) by (metis append_take_drop_id)
  then show "stream = be_bytes 4 (length frame) @ frame @ rest" by simp
  show "write_frame w None frame = Inr (be_bytes 4 (length frame) @ frame)"
    using s(2,3) n by (auto simp: write_frame_def bindE_Inr_iff reject_if_Inr_iff simp del: be_bytes.simps)
qed

theorem pipe_frames_round_trip_witness:
  "read_frame ''server_read'' ((be_bytes 4 2 @ ''ab'') @ ''rest'', Some 109) = Inr (''ab'', (''rest'', Some 109))"
proof -
  have "write_frame ''client_write'' None ''ab'' = Inr (be_bytes 4 2 @ ''ab'')"
    by (simp add: write_frame_def MAX_WINDOWS_EXECUTION_IPC_FRAME_BYTES_def numeral_2_eq_2 del: be_bytes.simps)
  then show ?thesis using pipe_frames_round_trip by blast
qed

end
