(* ===== verification/Conveyor_Manifest.thy ===== *)
theory Conveyor_Manifest
  imports Master_Results
begin

text \<open>
  The approved feature specification and what its manifest may disclose to a review provider
  (\<^verbatim>\<open>validate_approved_specification\<close> of \<^verbatim>\<open>assemblywright-master/src/lib.rs\<close> and the functions it
  calls): the strict manifest schema, the filter on keys, the filter on secret-shaped text and the
  acceptance criteria.

  A manifest is a \<^verbatim>\<open>serde_json::Value\<close>; the derived \<^verbatim>\<open>Deserialize\<close> of the two manifest structures is
  written out, with its defaults, its unknown-field check and the array form that \<^verbatim>\<open>serde_json\<close>
  accepts for a nested structure. Text is bytes, so \<^verbatim>\<open>char::to_lowercase\<close> and \<^verbatim>\<open>str::trim\<close> are
  written on UTF-8 bytes.
\<close>

section \<open>Searching text\<close>

text \<open>\<^verbatim>\<open>match_indices\<close>: the rest of the text from each match, matches never overlapping.\<close>

fun matches_from :: "nat \<Rightarrow> string \<Rightarrow> string \<Rightarrow> string list" where
  "matches_from skip p [] = []"
| "matches_from 0 p (c # s) =
     (if starts_with p (c # s) then (c # s) # matches_from (length p - 1) p s
      else matches_from 0 p s)"
| "matches_from (Suc n) p (c # s) = matches_from n p s"

definition match_tails :: "string \<Rightarrow> string \<Rightarrow> string list" where
  "match_tails p s = matches_from 0 p s"

definition is_token_byte :: "char \<Rightarrow> bool" where
  "is_token_byte c = (is_alphanumeric c \<or> c = CHR ''_'' \<or> c = CHR ''-'')"

definition is_ascii_space :: "char \<Rightarrow> bool" where
  "is_ascii_space c = (byte_of c \<in> {9, 10, 12, 13, 32})"

text \<open>The width in bytes of a Unicode white space character at the front of UTF-8 text.\<close>

fun white_width :: "string \<Rightarrow> nat" where
  "white_width [] = 0"
| "white_width (c # s) =
     (if is_white c then 1
      else case s of [] \<Rightarrow> 0 | d # t \<Rightarrow>
        if byte_of c = 194 \<and> (byte_of d = 133 \<or> byte_of d = 160) then 2
        else case t of [] \<Rightarrow> 0 | e # _ \<Rightarrow>
          if byte_of c = 225 \<and> byte_of d = 154 \<and> byte_of e = 128
             \<or> byte_of c = 226 \<and> byte_of d = 128
                 \<and> (128 \<le> byte_of e \<and> byte_of e \<le> 138 \<or> byte_of e \<in> {168, 169, 175})
             \<or> byte_of c = 226 \<and> byte_of d = 129 \<and> byte_of e = 159
             \<or> byte_of c = 227 \<and> byte_of d = 128 \<and> byte_of e = 128
          then 3 else 0)"

text \<open>The same at the end of the text, which is given reversed.\<close>

definition white_width_back :: "string \<Rightarrow> nat" where
  "white_width_back s =
     (if white_width (rev (take 1 s)) = 1 then 1
      else if white_width (rev (take 2 s)) = 2 then 2
      else if white_width (rev (take 3 s)) = 3 then 3 else 0)"

fun drop_while_white :: "(string \<Rightarrow> nat) \<Rightarrow> nat \<Rightarrow> string \<Rightarrow> string" where
  "drop_while_white width 0 s = s"
| "drop_while_white width (Suc n) s =
     (if width s = 0 then s else drop_while_white width n (drop (width s) s))"

text \<open>Each round drops at least one byte, so the length of the text is enough rounds.\<close>

definition trim_unicode :: "string \<Rightarrow> string" where
  "trim_unicode s =
     (let front = drop_while_white white_width (length s) s in
      rev (drop_while_white white_width_back (length front) (rev front)))"

section \<open>Secret-shaped text\<close>

definition contains_prefixed_token :: "string \<Rightarrow> string \<Rightarrow> nat \<Rightarrow> bool" where
  "contains_prefixed_token value prefix minimum_suffix =
     list_ex (\<lambda>tail. minimum_suffix \<le> length (takeWhile is_token_byte (drop (length prefix) tail)))
       (match_tails prefix value)"

definition contains_aws_access_key :: "string \<Rightarrow> bool" where
  "contains_aws_access_key value =
     list_ex (\<lambda>tail. length (filter (\<lambda>c. is_upper c \<or> is_digit c) (take 16 (drop 4 tail))) = 16)
       (match_tails ''AKIA'' value)"

definition jwt_candidate :: "string \<Rightarrow> bool" where
  "jwt_candidate candidate =
     (case split_once ''.'' candidate of None \<Rightarrow> False
      | Some (header, rest) \<Rightarrow>
        (case split_once ''.'' rest of None \<Rightarrow> False
         | Some (payload, signature_and_suffix) \<Rightarrow>
             list_all is_token_byte header \<and> payload \<noteq> [] \<and> list_all is_token_byte payload
             \<and> (let signature_len = length (takeWhile is_token_byte signature_and_suffix) in
                signature_len > 0 \<and> length header + length payload + signature_len + 2 \<ge> 32)))"

definition contains_embedded_jwt :: "string \<Rightarrow> bool" where
  "contains_embedded_jwt value = list_ex jwt_candidate (match_tails ''eyJ'' value)"

definition authority_of :: "string \<Rightarrow> string" where
  "authority_of tail = takeWhile (\<lambda>c. \<not> (is_ascii_space c \<or> c \<in> set ''/?#'')) (drop 3 tail)"

definition contains_embedded_secret_shape :: "string \<Rightarrow> bool" where
  "contains_embedded_secret_shape value =
     (let lower = to_ascii_lowercase value in
      contains_str ''-----begin '' lower \<or> contains_str ''bearer '' lower
      \<or> contains_str ''basic '' lower \<or> contains_str ''ghp_'' value
      \<or> contains_str ''github_pat_'' value \<or> contains_prefixed_token value ''sk-'' 17
      \<or> contains_aws_access_key value \<or> contains_embedded_jwt value
      \<or> list_ex (\<lambda>tail. CHR 0x40 \<in> set (authority_of tail)) (match_tails ''://'' value))"

section \<open>Forbidden keys\<close>

definition FORBIDDEN_KEY_COMPONENTS :: "string list" where
  "FORBIDDEN_KEY_COMPONENTS =
     [''authorization'', ''auth'', ''authentication'', ''bearer'', ''chat'', ''conversation'',
      ''cookie'', ''credential'', ''credentials'', ''dialogue'', ''history'', ''memory'', ''message'',
      ''messages'', ''oauth'', ''passwd'', ''password'', ''prompt'', ''prompts'', ''raw'', ''secret'',
      ''secrets'', ''transcript'', ''token'', ''turn'', ''turns'']"

definition FORBIDDEN_COMPOUND_KEYS :: "string list" where
  "FORBIDDEN_COMPOUND_KEYS =
     [''access_token'', ''api_key'', ''apikey'', ''auth_token'', ''bearer_token'', ''id_token'',
      ''private_key'', ''refresh_token'', ''session_token'']"

text \<open>
  \<^verbatim>\<open>char::to_lowercase\<close> as far as it yields ASCII: the letters A to Z, the Kelvin sign, and the dotted
  capital I, which becomes i and a combining dot. Every other character stays outside ASCII.
\<close>

fun lower_key :: "string \<Rightarrow> string" where
  "lower_key [] = []"
| "lower_key (c # s) =
     (if byte_of c = 196 \<and> s \<noteq> [] \<and> byte_of (hd s) = 176
      then CHR ''i'' # CHR 0xCC # CHR 0x87 # lower_key (drop 1 s)
      else if byte_of c = 226 \<and> length s \<ge> 2 \<and> byte_of (s ! 0) = 132 \<and> byte_of (s ! 1) = 170
      then CHR ''k'' # lower_key (drop 2 s)
      else lower_char c # lower_key s)"

fun normalized_from :: "bool \<Rightarrow> bool \<Rightarrow> string \<Rightarrow> string" where
  "normalized_from started separator [] = []"
| "normalized_from started separator (c # s) =
     (if is_alphanumeric c then c # normalized_from True False s
      else if \<not> separator \<and> started then CHR ''_'' # normalized_from True True s
      else normalized_from started separator s)"

definition trim_matches :: "char \<Rightarrow> string \<Rightarrow> string" where
  "trim_matches c s = rev (dropWhile (\<lambda>d. d = c) (rev (dropWhile (\<lambda>d. d = c) s)))"

definition normalized_key :: "string \<Rightarrow> string" where
  "normalized_key key = trim_matches CHR ''_'' (normalized_from False False (lower_key key))"

definition remove_char :: "char \<Rightarrow> string \<Rightarrow> string" where
  "remove_char c s = filter (\<lambda>d. d \<noteq> c) s"

definition forbidden_key :: "string \<Rightarrow> bool" where
  "forbidden_key key =
     (let normalized = normalized_key key;
          compact = remove_char CHR ''_'' normalized;
          forbidden_component =
            list_ex (\<lambda>component. component \<in> set FORBIDDEN_KEY_COMPONENTS)
              (split_on CHR ''_'' normalized)
            \<or> list_ex (\<lambda>component. contains_str component compact) FORBIDDEN_KEY_COMPONENTS;
          forbidden_compound =
            list_ex (\<lambda>forbidden. normalized = forbidden \<or> starts_with (forbidden @ ''_'') normalized
                \<or> ends_with (''_'' @ forbidden) normalized \<or> compact = remove_char CHR ''_'' forbidden)
              FORBIDDEN_COMPOUND_KEYS in
      forbidden_component \<or> forbidden_compound)"

lemma forE_cong [fundef_cong]:
  assumes "xs = ys" "s = t" "\<And>x u. x \<in> set ys \<Longrightarrow> f x u = g x u"
  shows "forE f xs s = forE g ys t"
proof -
  have "forE f ys t = forE g ys t" using assms(3)
  proof (induction ys arbitrary: t)
    case (Cons y ys)
    then show ?case by (cases "g y t") simp_all
  qed simp
  with assms(1,2) show ?thesis by simp
qed

fun validate_review_disclosure_value :: "json \<Rightarrow> master_error + unit" where
  "validate_review_disclosure_value (JObject members) =
     forE (\<lambda>(key, nested) _.
       bindE (reject_if (InvalidFeatureConveyorInput
           ''approved specification contains review-forbidden sensitive context'')
         (forbidden_key key)) (\<lambda>_.
       validate_review_disclosure_value nested)) members ()"
| "validate_review_disclosure_value (JArray values) =
     forE (\<lambda>nested _. validate_review_disclosure_value nested) values ()"
| "validate_review_disclosure_value (JString text) =
     reject_if (InvalidFeatureConveyorInput
         ''approved specification contains review-forbidden secret-shaped content'')
       (contains_embedded_secret_shape (trim_unicode text))"
| "validate_review_disclosure_value JNull = Inr ()"
| "validate_review_disclosure_value (JBool _) = Inr ()"
| "validate_review_disclosure_value (JNumber _) = Inr ()"

section \<open>The manifest schema\<close>

datatype validation_command =
    RequirementsBinding | Coverage | FocusedUnitTests | NativeE2e | Documentation | KnowledgeBase
  | Formatting | Lint | Build | Safety | ChangedPaths | SecretScan | RepositoryValidation

definition REQUIRED_COMMANDS :: "validation_command list" where
  "REQUIRED_COMMANDS =
     [RequirementsBinding, Coverage, FocusedUnitTests, NativeE2e, Documentation, KnowledgeBase,
      Formatting, Lint, Build, Safety, ChangedPaths, SecretScan, RepositoryValidation]"

definition command_of_name :: "string \<Rightarrow> validation_command option" where
  "command_of_name name =
     map_of [(''requirements_binding'', RequirementsBinding), (''coverage'', Coverage),
       (''focused_unit_tests'', FocusedUnitTests), (''native_e2e'', NativeE2e),
       (''documentation'', Documentation), (''knowledge_base'', KnowledgeBase),
       (''formatting'', Formatting), (''lint'', Lint), (''build'', Build), (''safety'', Safety),
       (''changed_paths'', ChangedPaths), (''secret_scan'', SecretScan),
       (''repository_validation'', RepositoryValidation)] name"

definition FEATURE_CONVEYOR_VALIDATION_GATE_SCHEMA_VERSION :: nat where
  "FEATURE_CONVEYOR_VALIDATION_GATE_SCHEMA_VERSION = 1"
definition MAX_FEATURE_CONVEYOR_REVIEW_REQUIREMENT_COVERAGE :: nat where
  "MAX_FEATURE_CONVEYOR_REVIEW_REQUIREMENT_COVERAGE = 256"
definition MAX_CONVEYOR_NONTERMINAL_FEATURES :: nat where
  "MAX_CONVEYOR_NONTERMINAL_FEATURES = 100"
definition MAX_APPROVED_FEATURE_SPECIFICATION_BYTES :: nat where
  "MAX_APPROVED_FEATURE_SPECIFICATION_BYTES = 256 * 1024"

record validation_gate_manifest =
  vg_schema_version :: nat
  vg_command_ids :: "validation_command list"

text \<open>The derived readers: a string, a list, an optional field, an unsigned 16-bit number.\<close>

definition de_string :: "json \<Rightarrow> string option" where
  "de_string v = (case v of JString s \<Rightarrow> Some s | _ \<Rightarrow> None)"

definition de_list :: "(json \<Rightarrow> 'a option) \<Rightarrow> json \<Rightarrow> 'a list option" where
  "de_list de v = (case v of JArray vs \<Rightarrow> those (map de vs) | _ \<Rightarrow> None)"

definition de_option :: "(json \<Rightarrow> 'a option) \<Rightarrow> json \<Rightarrow> 'a option option" where
  "de_option de v = (case v of JNull \<Rightarrow> Some None | _ \<Rightarrow> map_option Some (de v))"

definition nat_of_digits :: "string \<Rightarrow> nat" where
  "nat_of_digits s = foldl (\<lambda>n c. n * 10 + (byte_of c - 48)) 0 s"

definition de_u16 :: "json \<Rightarrow> nat option" where
  "de_u16 v =
     (case v of
        JNumber text \<Rightarrow>
          if text \<noteq> [] \<and> list_all is_digit text \<and> nat_of_digits text < 65536
          then Some (nat_of_digits text) else None
      | _ \<Rightarrow> None)"

definition de_command :: "json \<Rightarrow> validation_command option" where
  "de_command v =
     (case v of
        JString name \<Rightarrow> command_of_name name
      | JObject [(name, JNull)] \<Rightarrow> command_of_name name
      | _ \<Rightarrow> None)"

definition required_field :: "(json \<Rightarrow> 'a option) \<Rightarrow> string \<Rightarrow> (string \<times> json) list \<Rightarrow> 'a option" where
  "required_field de name members = Option.bind (map_of members name) de"

definition default_field :: "'a \<Rightarrow> (json \<Rightarrow> 'a option) \<Rightarrow> string \<Rightarrow> (string \<times> json) list \<Rightarrow> 'a option" where
  "default_field fallback de name members =
     (case map_of members name of None \<Rightarrow> Some fallback | Some v \<Rightarrow> de v)"

definition known_fields :: "string list \<Rightarrow> (string \<times> json) list \<Rightarrow> bool" where
  "known_fields names members = list_all (\<lambda>(name, _). name \<in> set names) members"

definition de_gate :: "json \<Rightarrow> validation_gate_manifest option" where
  "de_gate v =
     (case v of
        JObject members \<Rightarrow>
          if \<not> known_fields [''schema_version'', ''command_ids''] members then None
          else Option.bind (required_field de_u16 ''schema_version'' members) (\<lambda>version.
               map_option (\<lambda>commands. \<lparr>vg_schema_version = version, vg_command_ids = commands\<rparr>)
                 (required_field (de_list de_command) ''command_ids'' members))
      | JArray [version, commands] \<Rightarrow>
          Option.bind (de_u16 version) (\<lambda>version.
          map_option (\<lambda>commands. \<lparr>vg_schema_version = version, vg_command_ids = commands\<rparr>)
            (de_list de_command commands))
      | _ \<Rightarrow> None)"

record review_safe_manifest =
  mf_acceptance :: "string list"
  mf_outcome :: string
  mf_title :: "string option"
  mf_scope :: "string option"
  mf_allowed_paths :: "string list"
  mf_validation_gate :: "validation_gate_manifest option"
  mf_assumptions :: "string list"
  mf_risks :: "string list"
  mf_non_goals :: "string list"
  mf_decisions :: "string list"
  mf_required_capabilities :: "string list"
  mf_unit_test_obligations :: "string list"
  mf_e2e_scenarios :: "string list"
  mf_documentation_obligations :: "string list"
  mf_knowledge_base_obligations :: "string list"
  mf_prohibited_data :: "string list"
  mf_publication_checks :: "string list"
  mf_base_branch :: "string option"
  mf_security_classification :: "string option"
  mf_merge_strategy :: "string option"
  mf_post_merge_gate :: "string option"

definition MANIFEST_FIELDS :: "string list" where
  "MANIFEST_FIELDS =
     [''acceptance'', ''outcome'', ''title'', ''scope'', ''allowed_paths'', ''validation_gate'',
      ''assumptions'', ''risks'', ''non_goals'', ''decisions'', ''required_capabilities'',
      ''unit_test_obligations'', ''e2e_scenarios'', ''documentation_obligations'',
      ''knowledge_base_obligations'', ''prohibited_data'', ''publication_checks'', ''base_branch'',
      ''security_classification'', ''merge_strategy'', ''post_merge_gate'']"

definition schema_error :: master_error where
  "schema_error = InvalidFeatureConveyorInput
     ''approved specification is not the strict review-safe manifest schema''"

definition de_manifest :: "(string \<times> json) list \<Rightarrow> master_error + review_safe_manifest" where
  "de_manifest members =
     (let strings = (\<lambda>name. default_field [] (de_list de_string) name members);
          text = (\<lambda>name. default_field None (de_option de_string) name members) in
      bindE (reject_if schema_error (\<not> known_fields MANIFEST_FIELDS members)) (\<lambda>_.
      bindE (ok_or schema_error (required_field (de_list de_string) ''acceptance'' members)) (\<lambda>acceptance.
      bindE (ok_or schema_error (required_field de_string ''outcome'' members)) (\<lambda>outcome.
      bindE (ok_or schema_error (text ''title'')) (\<lambda>title.
      bindE (ok_or schema_error (text ''scope'')) (\<lambda>scope.
      bindE (ok_or schema_error (strings ''allowed_paths'')) (\<lambda>allowed_paths.
      bindE (ok_or schema_error
        (default_field None (de_option de_gate) ''validation_gate'' members)) (\<lambda>validation_gate.
      bindE (ok_or schema_error (strings ''assumptions'')) (\<lambda>assumptions.
      bindE (ok_or schema_error (strings ''risks'')) (\<lambda>risks.
      bindE (ok_or schema_error (strings ''non_goals'')) (\<lambda>non_goals.
      bindE (ok_or schema_error (strings ''decisions'')) (\<lambda>decisions.
      bindE (ok_or schema_error (strings ''required_capabilities'')) (\<lambda>required_capabilities.
      bindE (ok_or schema_error (strings ''unit_test_obligations'')) (\<lambda>unit_test_obligations.
      bindE (ok_or schema_error (strings ''e2e_scenarios'')) (\<lambda>e2e_scenarios.
      bindE (ok_or schema_error (strings ''documentation_obligations'')) (\<lambda>documentation_obligations.
      bindE (ok_or schema_error (strings ''knowledge_base_obligations'')) (\<lambda>knowledge_base_obligations.
      bindE (ok_or schema_error (strings ''prohibited_data'')) (\<lambda>prohibited_data.
      bindE (ok_or schema_error (strings ''publication_checks'')) (\<lambda>publication_checks.
      bindE (ok_or schema_error (text ''base_branch'')) (\<lambda>base_branch.
      bindE (ok_or schema_error (text ''security_classification'')) (\<lambda>security_classification.
      bindE (ok_or schema_error (text ''merge_strategy'')) (\<lambda>merge_strategy.
      bindE (ok_or schema_error (text ''post_merge_gate'')) (\<lambda>post_merge_gate.
      Inr \<lparr>mf_acceptance = acceptance, mf_outcome = outcome, mf_title = title, mf_scope = scope,
           mf_allowed_paths = allowed_paths, mf_validation_gate = validation_gate,
           mf_assumptions = assumptions, mf_risks = risks, mf_non_goals = non_goals,
           mf_decisions = decisions, mf_required_capabilities = required_capabilities,
           mf_unit_test_obligations = unit_test_obligations, mf_e2e_scenarios = e2e_scenarios,
           mf_documentation_obligations = documentation_obligations,
           mf_knowledge_base_obligations = knowledge_base_obligations,
           mf_prohibited_data = prohibited_data, mf_publication_checks = publication_checks,
           mf_base_branch = base_branch, mf_security_classification = security_classification,
           mf_merge_strategy = merge_strategy, mf_post_merge_gate = post_merge_gate\<rparr>)))))))))))))))))))))))"

definition manifest_strings :: "review_safe_manifest \<Rightarrow> string list" where
  "manifest_strings m =
     (let opt = (\<lambda>x. case x of None \<Rightarrow> [] | Some s \<Rightarrow> [s]) in
      [mf_outcome m] @ opt (mf_title m) @ opt (mf_scope m) @ mf_acceptance m @ mf_allowed_paths m
      @ mf_assumptions m @ mf_risks m @ mf_non_goals m @ mf_decisions m @ mf_required_capabilities m
      @ mf_unit_test_obligations m @ mf_e2e_scenarios m @ mf_documentation_obligations m
      @ mf_knowledge_base_obligations m @ mf_prohibited_data m @ mf_publication_checks m
      @ opt (mf_base_branch m) @ opt (mf_security_classification m) @ opt (mf_merge_strategy m)
      @ opt (mf_post_merge_gate m))"

text \<open>The schema check is called on a value that is an object; it reads its members.\<close>

definition validate_review_safe_manifest_schema :: "json \<Rightarrow> master_error + unit" where
  "validate_review_safe_manifest_schema value =
     bindE (case value of JObject members \<Rightarrow> de_manifest members | _ \<Rightarrow> Inl schema_error) (\<lambda>m.
     bindE (reject_if (InvalidFeatureConveyorInput
         ''approved specification review-safe fields exceed fixed bounds'')
       (list_ex (\<lambda>s. s = [] \<or> length s > 4096) (manifest_strings m)
        \<or> length (mf_allowed_paths m) > 256 \<or> length (mf_assumptions m) > 128
        \<or> length (mf_risks m) > 128 \<or> length (mf_non_goals m) > 128
        \<or> length (mf_decisions m) > 128 \<or> length (mf_required_capabilities m) > 128
        \<or> length (mf_unit_test_obligations m) > 128 \<or> length (mf_e2e_scenarios m) > 128
        \<or> length (mf_documentation_obligations m) > 128
        \<or> length (mf_knowledge_base_obligations m) > 128
        \<or> length (mf_prohibited_data m) > 128 \<or> length (mf_publication_checks m) > 128)) (\<lambda>_.
     (case mf_validation_gate m of
        None \<Rightarrow> Inr ()
      | Some gate \<Rightarrow>
          reject_if (InvalidFeatureConveyorInput
              ''approved specification validation gate is not exact'')
            (vg_schema_version gate \<noteq> FEATURE_CONVEYOR_VALIDATION_GATE_SCHEMA_VERSION
             \<or> vg_command_ids gate \<noteq> REQUIRED_COMMANDS))))"

section \<open>Acceptance criteria\<close>

definition validate_bounded_feature_identifier :: "string \<Rightarrow> string \<Rightarrow> master_error + unit" where
  "validate_bounded_feature_identifier value label =
     reject_if (InvalidFeatureConveyorInput (label @ '' identity is not a bounded visible identifier''))
       (value = [] \<or> length value > 128
        \<or> \<not> list_all (\<lambda>c. is_graphic c \<and> byte_of c \<noteq> 92 \<and> byte_of c \<noteq> 34) value)"

definition take_requirement_id :: "json \<Rightarrow> string list \<Rightarrow> master_error + string list" where
  "take_requirement_id value ids =
     bindE (ok_or (InvalidFeatureConveyorInput
         ''approved specification acceptance IDs must be strings'') (de_string value)) (\<lambda>identifier.
     bindE (validate_bounded_feature_identifier identifier ''acceptance criterion'') (\<lambda>_.
     bindE (reject_if (InvalidFeatureConveyorInput
         ''approved specification acceptance IDs must be unique'') (identifier \<in> set ids)) (\<lambda>_.
     Inr (ids @ [identifier]))))"

definition approved_requirement_ids :: "json \<Rightarrow> master_error + string list" where
  "approved_requirement_ids manifest =
     bindE (ok_or (InvalidFeatureConveyorInput
         ''approved specification requires an ordered acceptance array'')
       (case manifest of
          JObject members \<Rightarrow>
            (case map_of members ''acceptance'' of Some (JArray values) \<Rightarrow> Some values | _ \<Rightarrow> None)
        | _ \<Rightarrow> None)) (\<lambda>acceptance.
     bindE (reject_if (InvalidFeatureConveyorInput
         ''approved specification acceptance count is outside the review envelope'')
       (acceptance = []
        \<or> length acceptance > MAX_FEATURE_CONVEYOR_REVIEW_REQUIREMENT_COVERAGE)) (\<lambda>_.
     forE take_requirement_id acceptance []))"

section \<open>The approved specification\<close>

record approved_specification =
  as_feature_id :: uuid
  as_revision :: nat
  as_repository_id :: uuid
  as_manifest :: json
  as_manifest_sha256 :: digest
  as_design_sha256 :: digest
  as_brainstorming_sha256 :: digest
  as_owner_approval_sha256 :: digest
  as_grants :: grant_revisions
  as_provider_id :: string
  as_model_id :: string
  as_dependencies :: "uuid list"

text \<open>The master's own copy of the canonical writer.\<close>

definition canonical_json :: "codec \<Rightarrow> json \<Rightarrow> string" where
  "canonical_json cx value = canonical_json_bytes (quote_json cx) value"

definition validate_approved_specification ::
    "codec \<Rightarrow> approved_specification \<Rightarrow> master_error + string" where
  "validate_approved_specification cx spec =
     bindE (reject_if (InvalidFeatureConveyorInput
         ''approved specification identity, revisions, and exact digests are required'')
       (as_feature_id spec = 0 \<or> as_repository_id spec = 0 \<or> as_revision spec = 0
        \<or> as_manifest_sha256 spec = 0 \<or> as_design_sha256 spec = 0
        \<or> as_brainstorming_sha256 spec = 0 \<or> as_owner_approval_sha256 spec = 0
        \<or> gr_registration (as_grants spec) = 0 \<or> gr_cloud_disclosure (as_grants spec) = 0
        \<or> gr_autonomous_publication (as_grants spec) = 0)) (\<lambda>_.
     bindE (reject_if (InvalidFeatureConveyorInput
         ''approved specification manifest must be a JSON object'')
       (\<not> is_ok (validate_object ''manifest'' (as_manifest spec)))) (\<lambda>_.
     bindE (validate_bounded_feature_identifier (as_provider_id spec) ''provider'') (\<lambda>_.
     bindE (validate_bounded_feature_identifier (as_model_id spec) ''model'') (\<lambda>_.
     bindE (reject_if (InvalidFeatureConveyorInput ''dependency count exceeds queue capacity'')
       (length (as_dependencies spec) > MAX_CONVEYOR_NONTERMINAL_FEATURES)) (\<lambda>_.
     (let dependencies = remdups_adj (sort (as_dependencies spec)) in
      bindE (reject_if (InvalidFeatureConveyorInput
          ''dependencies must be unique, non-nil, and cannot reference the feature itself'')
        (length dependencies \<noteq> length (as_dependencies spec)
         \<or> list_ex (\<lambda>d. d = 0 \<or> d = as_feature_id spec) dependencies)) (\<lambda>_.
      (let canonical = canonical_json cx (as_manifest spec) in
       bindE (validate_review_safe_manifest_schema (as_manifest spec)) (\<lambda>_.
       bindE (validate_review_disclosure_value (as_manifest spec)) (\<lambda>_.
       bindE (approved_requirement_ids (as_manifest spec)) (\<lambda>_.
       bindE (reject_if (InvalidFeatureConveyorInput
           ''approved specification exceeds the fixed review envelope'')
         (length canonical > MAX_APPROVED_FEATURE_SPECIFICATION_BYTES)) (\<lambda>_.
       bindE (reject_if (InvalidFeatureConveyorInput
           ''manifest digest does not match canonical JSON'')
         (sha256 cx canonical \<noteq> as_manifest_sha256 spec)) (\<lambda>_.
       Inr canonical)))))))))))))"

end
