(* ===== verification/Conveyor_Grants.thy ===== *)
theory Conveyor_Grants
  imports Conveyor_Manifest
begin

text \<open>
  Repository grants of the Feature Conveyor (\<^verbatim>\<open>assemblywright-master/src/lib.rs\<close>): append-only
  revisions per repository and kind, of which only the newest counts; the owner's views of them; the
  point-in-time repository preflight; and the checks that bind an operation to the queue revision,
  the emergency pause revision and the designated owner-control bridge.

  A \<^verbatim>\<open>CHECK\<close>, \<^verbatim>\<open>UNIQUE\<close>, key or trigger of a table that a statement could violate is written out
  as a \<open>Storage\<close> error of that statement.
\<close>

section \<open>Emergency pause and queue revisions\<close>

definition emergency_pause_revision_tx :: "kernel \<Rightarrow> nat" where
  "emergency_pause_revision_tx k = k_emergency_pause_revision k"

definition require_emergency_pause_revision_tx :: "nat \<Rightarrow> kernel \<Rightarrow> master_error + unit" where
  "require_emergency_pause_revision_tx expected k =
     (let found = emergency_pause_revision_tx k in
      reject_if (StaleEmergencyPauseRevision expected found) (found \<noteq> expected))"

definition require_unpaused_revision_tx :: "nat \<Rightarrow> kernel \<Rightarrow> master_error + unit" where
  "require_unpaused_revision_tx expected k =
     (let found = emergency_pause_revision_tx k in
      bindE (reject_if (StaleEmergencyPauseRevision expected found) (found \<noteq> expected)) (\<lambda>_.
      bindE (emergency_paused_tx k) (\<lambda>paused. reject_if EmergencyPaused paused)))"

definition feature_queue_revision_tx :: "kernel \<Rightarrow> nat" where
  "feature_queue_revision_tx k = k_queue_revision k"

definition require_queue_revision_tx :: "nat \<Rightarrow> kernel \<Rightarrow> master_error + unit" where
  "require_queue_revision_tx expected k =
     (let found = k_queue_revision k in
      reject_if (StaleFeatureQueueRevision expected found) (found \<noteq> expected))"

definition increment_queue_revision_tx :: "nat \<Rightarrow> kernel \<Rightarrow> master_error + kernel \<times> nat" where
  "increment_queue_revision_tx expected k =
     bindE (ok_or IntegerOutOfRange (checked_add_u64 expected 1)) (\<lambda>next.
     bindE (to_i64 next) (\<lambda>_.
     bindE (to_i64 expected) (\<lambda>_.
     bindE (reject_if (StaleFeatureQueueRevision expected (k_queue_revision k))
       (k_queue_revision k \<noteq> expected)) (\<lambda>_.
     Inr (k\<lparr>k_queue_revision := next\<rparr>, next)))))"

lemma require_emergency_pause_revision_Inr [result_simps]:
  "require_emergency_pause_revision_tx e k = Inr u \<longleftrightarrow> k_emergency_pause_revision k = e"
  by (simp add: require_emergency_pause_revision_tx_def emergency_pause_revision_tx_def Let_def result_simps)

lemma require_unpaused_revision_Inr [result_simps]:
  "require_unpaused_revision_tx e k = Inr u
     \<longleftrightarrow> k_emergency_pause_revision k = e \<and> k_emergency_paused k = 0"
  by (auto simp: require_unpaused_revision_tx_def emergency_pause_revision_tx_def Let_def
      emergency_paused_tx_def result_simps)

lemma require_queue_revision_Inr [result_simps]:
  "require_queue_revision_tx e k = Inr u \<longleftrightarrow> k_queue_revision k = e"
  by (simp add: require_queue_revision_tx_def Let_def result_simps)

lemma increment_queue_revision_Inr [result_simps]:
  "increment_queue_revision_tx e k = Inr (k', n)
     \<longleftrightarrow> k_queue_revision k = e \<and> n = Suc e \<and> Suc e \<le> i64_max \<and> k' = k\<lparr>k_queue_revision := Suc e\<rparr>"
  by (auto simp: increment_queue_revision_tx_def result_simps u64_max_def i64_max_def)

section \<open>The owner-control bridge\<close>

definition device_registration_tx :: "codec \<Rightarrow> uuid \<Rightarrow> kernel \<Rightarrow> master_error + device_row" where
  "device_registration_tx cx device k =
     bindE (ok_or DeviceNotRegistered
       (find_row (\<lambda>d. dev_device_id d = device) (k_devices k))) (\<lambda>d.
     bindE (reject_if OwnerControlBridgeUnauthorized (dev_revoked d)) (\<lambda>_.
     bindE (protocol_result (validate_handshake cx
       \<lparr>hs_protocol_version = PROTOCOL_VERSION, hs_device_id = dev_device_id d,
        hs_device_name = dev_name d, hs_role = dev_role d,
        hs_registry_revision = dev_registry_revision d,
        hs_capabilities = dev_capabilities d\<rparr>)) (\<lambda>_.
     Inr d)))"

definition require_owner_control_eligible_registration :: "device_row \<Rightarrow> master_error + unit" where
  "require_owner_control_eligible_registration d =
     reject_if OwnerControlBridgeUnauthorized
       (dev_role d \<noteq> MacBridge
        \<or> list_ex (\<lambda>c. cap_id c = FIXTURE_REASONING_CAPABILITY_ID) (dev_capabilities d))"

text \<open>A \<^verbatim>\<open>DeviceRegistration\<close> is a device row without the revocation column, which is ignored here.\<close>

definition require_owner_control_bridge_tx ::
    "codec \<Rightarrow> device_row \<Rightarrow> nat \<Rightarrow> kernel \<Rightarrow> master_error + unit" where
  "require_owner_control_bridge_tx cx registration expected k =
     bindE (require_owner_control_eligible_registration registration) (\<lambda>_.
     (let bridge = k_owner_bridge k; found = ob_designation_revision bridge in
      bindE (reject_if (StaleOwnerControlDesignationRevision expected found) (found \<noteq> expected)) (\<lambda>_.
      bindE (ok_or OwnerControlBridgeNotDesignated (ob_device_id bridge)) (\<lambda>device.
      bindE (ok_or (InvalidStoredState
          ''designated owner-control bridge omitted its registry revision'')
        (ob_registry_revision bridge)) (\<lambda>registry_revision.
      bindE (device_registration_tx cx (dev_device_id registration) k) (\<lambda>current.
      reject_if OwnerControlBridgeUnauthorized
        (device \<noteq> dev_device_id registration
         \<or> registry_revision \<noteq> dev_registry_revision registration
         \<or> current \<noteq> registration\<lparr>dev_revoked := False\<rparr>)))))))"

record designation =
  ds_device_id :: uuid
  ds_registry_revision :: nat
  ds_designation_revision :: nat

definition owner_control_bridge_designation ::
    "kernel \<Rightarrow> master_error + designation option" where
  "owner_control_bridge_designation k =
     (case (ob_device_id (k_owner_bridge k), ob_registry_revision (k_owner_bridge k)) of
        (None, None) \<Rightarrow>
          if ob_designation_revision (k_owner_bridge k) = 0 then Inr None
          else Inl (InvalidStoredState ''owner-control designation is inconsistent'')
      | (Some device, Some registry_revision) \<Rightarrow>
          if ob_designation_revision (k_owner_bridge k) > 0
          then Inr (Some \<lparr>ds_device_id = device, ds_registry_revision = registry_revision,
                      ds_designation_revision = ob_designation_revision (k_owner_bridge k)\<rparr>)
          else Inl (InvalidStoredState ''owner-control designation is inconsistent'')
      | _ \<Rightarrow> Inl (InvalidStoredState ''owner-control designation is inconsistent''))"

definition designate_owner_control_bridge ::
    "codec \<Rightarrow> uuid \<Rightarrow> nat \<Rightarrow> nat \<Rightarrow> kernel \<Rightarrow> master_error + kernel \<times> designation" where
  "designate_owner_control_bridge cx device expected now_ms k =
     (let found = ob_designation_revision (k_owner_bridge k) in
      bindE (reject_if (StaleOwnerControlDesignationRevision expected found) (found \<noteq> expected)) (\<lambda>_.
      bindE (device_registration_tx cx device k) (\<lambda>registration.
      bindE (require_owner_control_eligible_registration registration) (\<lambda>_.
      bindE (ok_or IntegerOutOfRange (checked_add_u64 found 1)) (\<lambda>next.
      bindE (to_i64 (dev_registry_revision registration)) (\<lambda>_.
      bindE (to_i64 next) (\<lambda>_.
      bindE (append_audit cx ''owner_control_bridge_designated'' None now_ms
        (JObject
          [(''designation_revision'', json_nat next),
           (''registry_revision'', json_nat (dev_registry_revision registration)),
           (''rebound'', JBool (ob_device_id (k_owner_bridge k) \<noteq> None)),
           (''side_effect_executed'', JBool False)])
        (k\<lparr>k_owner_bridge :=
             \<lparr>ob_device_id = Some device,
              ob_registry_revision = Some (dev_registry_revision registration),
              ob_designation_revision = next\<rparr>\<rparr>)) (\<lambda>k'.
      Inr (k', \<lparr>ds_device_id = device, ds_registry_revision = dev_registry_revision registration,
                ds_designation_revision = next\<rparr>)))))))))"

section \<open>Grants\<close>

definition kind_text :: "grant_kind \<Rightarrow> string" where
  "kind_text kind =
     (case kind of GkRegistration \<Rightarrow> ''registration'' | GkCloudDisclosure \<Rightarrow> ''cloud_disclosure''
      | GkAutonomousPublication \<Rightarrow> ''autonomous_publication'')"

text \<open>\<^verbatim>\<open>ORDER BY revision DESC LIMIT 1\<close>, and \<^verbatim>\<open>COALESCE(MAX(revision), 0)\<close>.\<close>

definition grants_of :: "uuid \<Rightarrow> grant_kind \<Rightarrow> kernel \<Rightarrow> grant_row list" where
  "grants_of repository kind k =
     filter (\<lambda>g. gt_repository_id g = repository \<and> gt_kind g = kind) (k_grants k)"

definition newest_grant :: "uuid \<Rightarrow> grant_kind \<Rightarrow> kernel \<Rightarrow> grant_row option" where
  "newest_grant repository kind k =
     find_row (\<lambda>g. True) (rev (sort_key gt_revision (grants_of repository kind k)))"

definition newest_revision :: "uuid \<Rightarrow> grant_kind \<Rightarrow> kernel \<Rightarrow> nat" where
  "newest_revision repository kind k = foldr max (map gt_revision (grants_of repository kind k)) 0"

definition expired_at :: "nat option \<Rightarrow> nat \<Rightarrow> bool" where
  "expired_at expires now_ms = (case expires of None \<Rightarrow> False | Some expiry \<Rightarrow> expiry \<le> now_ms)"

record grant_revision =
  gv_repository_id :: uuid
  gv_kind :: grant_kind
  gv_revision :: nat
  gv_scope_sha256 :: digest
  gv_owner_approval_sha256 :: digest
  gv_expires_at_ms :: "nat option"
  gv_revoked :: bool

definition validate_repository_grant :: "grant_revision \<Rightarrow> master_error + unit" where
  "validate_repository_grant g =
     reject_if (InvalidFeatureConveyorInput
         ''grant identity, revision, scope digest, and owner approval digest are required'')
       (gv_repository_id g = 0 \<or> gv_revision g = 0 \<or> gv_scope_sha256 g = 0
        \<or> gv_owner_approval_sha256 g = 0)"

definition insert_repository_grant_revision_tx ::
    "codec \<Rightarrow> grant_revision \<Rightarrow> nat \<Rightarrow> kernel \<Rightarrow> master_error + kernel" where
  "insert_repository_grant_revision_tx cx g now_ms k =
     bindE (to_i64 (gv_revision g)) (\<lambda>_.
     bindE (case gv_expires_at_ms g of None \<Rightarrow> Inr () | Some expiry \<Rightarrow> to_i64 expiry) (\<lambda>_.
     bindE (to_i64 now_ms) (\<lambda>_.
     bindE (reject_if RepositoryGrantImmutable
       (gv_revision g = 0
        \<or> exists_row (\<lambda>r. gt_repository_id r = gv_repository_id g \<and> gt_kind r = gv_kind g
            \<and> gt_revision r = gv_revision g) (k_grants k))) (\<lambda>_.
     append_audit cx ''repository_grant_revision_recorded'' None now_ms
       (JObject
         [(''grant_kind'', JString (kind_text (gv_kind g))),
          (''revision'', json_nat (gv_revision g)),
          (''revoked'', JBool (gv_revoked g)),
          (''scope_digest_present'', JBool True),
          (''owner_approval_digest_present'', JBool True),
          (''side_effect_executed'', JBool False)])
       (k\<lparr>k_grants := insert_row
            \<lparr>gt_repository_id = gv_repository_id g, gt_kind = gv_kind g, gt_revision = gv_revision g,
             gt_scope_sha256 = gv_scope_sha256 g,
             gt_owner_approval_sha256 = gv_owner_approval_sha256 g,
             gt_expires_at_ms = gv_expires_at_ms g, gt_revoked = gv_revoked g,
             gt_created_at_ms = now_ms\<rparr> (k_grants k)\<rparr>)))))"

definition record_repository_grant_revision ::
    "codec \<Rightarrow> grant_revision \<Rightarrow> nat \<Rightarrow> nat \<Rightarrow> nat \<Rightarrow> kernel \<Rightarrow> master_error + kernel" where
  "record_repository_grant_revision cx g expected_current expected_pause now_ms k =
     bindE (validate_repository_grant g) (\<lambda>_.
     bindE (reject_if (InvalidFeatureConveyorInput
         ''an active repository grant must not already be expired'')
       (\<not> gv_revoked g \<and> expired_at (gv_expires_at_ms g) now_ms)) (\<lambda>_.
     bindE (require_emergency_pause_revision_tx expected_pause k) (\<lambda>_.
     bindE (if \<not> gv_revoked g then require_emergency_unpaused k else Inr ()) (\<lambda>_.
     (let current = newest_revision (gv_repository_id g) (gv_kind g) k in
      bindE (reject_if (StaleRepositoryGrantRevision expected_current current)
        (current \<noteq> expected_current)) (\<lambda>_.
      bindE (ok_or (InvalidStoredState ''repository grant revision overflowed'')
        (checked_add_u64 current 1)) (\<lambda>next.
      bindE (reject_if (InvalidFeatureConveyorInput
          ''repository grant revisions must be contiguous'') (gv_revision g \<noteq> next)) (\<lambda>_.
      insert_repository_grant_revision_tx cx g now_ms k))))))))"

record grant_view =
  vw_revision :: nat
  vw_scope_sha256 :: digest
  vw_owner_approval_sha256 :: digest
  vw_expires_at_ms :: "nat option"
  vw_revoked :: bool
  vw_active :: bool

definition repository_grant_view :: "kernel \<Rightarrow> uuid \<Rightarrow> grant_kind \<Rightarrow> nat \<Rightarrow> grant_view option" where
  "repository_grant_view k repository kind now_ms =
     map_option (\<lambda>g. \<lparr>vw_revision = gt_revision g, vw_scope_sha256 = gt_scope_sha256 g,
         vw_owner_approval_sha256 = gt_owner_approval_sha256 g,
         vw_expires_at_ms = gt_expires_at_ms g, vw_revoked = gt_revoked g,
         vw_active = (\<not> gt_revoked g
           \<and> (case gt_expires_at_ms g of None \<Rightarrow> True | Some expiry \<Rightarrow> expiry > now_ms))\<rparr>)
       (newest_grant repository kind k)"

record grant_set =
  gs_schema_version :: nat
  gs_repository_id :: uuid
  gs_emergency_paused :: bool
  gs_emergency_pause_revision :: nat
  gs_registration :: "grant_view option"
  gs_cloud_disclosure :: "grant_view option"
  gs_autonomous_publication :: "grant_view option"

definition repository_grant_set :: "kernel \<Rightarrow> uuid \<Rightarrow> nat \<Rightarrow> master_error + grant_set" where
  "repository_grant_set k repository now_ms =
     bindE (reject_if (InvalidFeatureConveyorInput ''repository identity is required'')
       (repository = 0)) (\<lambda>_.
     bindE (emergency_paused_tx k) (\<lambda>paused.
     Inr \<lparr>gs_schema_version = FEATURE_CONVEYOR_OWNER_CONTROL_SCHEMA_VERSION,
          gs_repository_id = repository, gs_emergency_paused = paused,
          gs_emergency_pause_revision = k_emergency_pause_revision k,
          gs_registration = repository_grant_view k repository GkRegistration now_ms,
          gs_cloud_disclosure = repository_grant_view k repository GkCloudDisclosure now_ms,
          gs_autonomous_publication =
            repository_grant_view k repository GkAutonomousPublication now_ms\<rparr>))"

definition grant_requirements :: "grant_revisions \<Rightarrow> (grant_kind \<times> nat) list" where
  "grant_requirements grants =
     [(GkRegistration, gr_registration grants), (GkCloudDisclosure, gr_cloud_disclosure grants),
      (GkAutonomousPublication, gr_autonomous_publication grants)]"

definition require_grant ::
    "uuid \<Rightarrow> nat \<Rightarrow> kernel \<Rightarrow> grant_kind \<times> nat \<Rightarrow> unit \<Rightarrow> master_error + unit" where
  "require_grant repository now_ms k requirement u =
     (case requirement of (kind, revision) \<Rightarrow>
      bindE (ok_or RepositoryGrantUnavailable (newest_grant repository kind k)) (\<lambda>g.
      reject_if RepositoryGrantUnavailable
        (gt_revision g \<noteq> revision \<or> gt_revoked g \<or> expired_at (gt_expires_at_ms g) now_ms)))"

definition require_grants_tx ::
    "uuid \<Rightarrow> grant_revisions \<Rightarrow> nat \<Rightarrow> kernel \<Rightarrow> master_error + unit" where
  "require_grants_tx repository grants now_ms k =
     forE (require_grant repository now_ms k) (grant_requirements grants) ()"

section \<open>Repository preflight\<close>

definition validate_repository_preflight_binding ::
    "uuid \<Rightarrow> nat \<Rightarrow> digest \<Rightarrow> nat \<Rightarrow> master_error + unit" where
  "validate_repository_preflight_binding repository revision scope now_ms =
     reject_if (InvalidFeatureConveyorInput
         ''repository preflight requires exact nonzero identity, grant, scope, and observation time'')
       (repository = 0 \<or> revision = 0 \<or> scope = 0 \<or> now_ms = 0)"

definition require_repository_preflight_binding ::
    "uuid \<Rightarrow> nat \<Rightarrow> digest \<Rightarrow> nat \<Rightarrow> nat \<Rightarrow> kernel \<Rightarrow> master_error + unit" where
  "require_repository_preflight_binding repository revision scope expected_pause now_ms k =
     bindE (emergency_paused_tx k) (\<lambda>paused.
     (let pause_revision = emergency_pause_revision_tx k in
      bindE (reject_if (StaleEmergencyPauseRevision expected_pause pause_revision)
        (pause_revision \<noteq> expected_pause)) (\<lambda>_.
      bindE (reject_if EmergencyPaused paused) (\<lambda>_.
      bindE (ok_or RepositoryGrantUnavailable (newest_grant repository GkRegistration k)) (\<lambda>g.
      reject_if RepositoryGrantUnavailable
        (gt_revision g \<noteq> revision \<or> gt_scope_sha256 g \<noteq> scope \<or> gt_revoked g
         \<or> expired_at (gt_expires_at_ms g) now_ms))))))"

definition authorize_repository_preflight ::
    "uuid \<Rightarrow> nat \<Rightarrow> digest \<Rightarrow> nat \<Rightarrow> nat \<Rightarrow> kernel \<Rightarrow> master_error + unit" where
  "authorize_repository_preflight repository revision scope expected_pause now_ms k =
     bindE (validate_repository_preflight_binding repository revision scope now_ms) (\<lambda>_.
     require_repository_preflight_binding repository revision scope expected_pause now_ms k)"

definition record_repository_preflight ::
    "codec \<Rightarrow> uuid \<Rightarrow> nat \<Rightarrow> digest \<Rightarrow> nat \<Rightarrow> nat \<Rightarrow> kernel \<Rightarrow> master_error + kernel" where
  "record_repository_preflight cx repository revision scope expected_pause observed_at_ms k =
     bindE (validate_repository_preflight_binding repository revision scope observed_at_ms) (\<lambda>_.
     bindE (require_repository_preflight_binding repository revision scope expected_pause
       observed_at_ms k) (\<lambda>_.
     append_audit cx ''repository_identity_preflight_eligible'' None observed_at_ms
       (JObject
         [(''grant_kind'', JString ''registration''),
          (''grant_revision'', json_nat revision),
          (''emergency_pause_revision'', json_nat expected_pause),
          (''scope_digest_matched'', JBool True),
          (''point_in_time'', JBool True),
          (''identity_only'', JBool True),
          (''side_effect_executed'', JBool False)]) k))"

end
