(* ===== verification/Conveyor_Queue.thy ===== *)
theory Conveyor_Queue
  imports Conveyor_Grants
begin

text \<open>
  The queue of the Feature Conveyor (\<^verbatim>\<open>assemblywright-master/src/lib.rs\<close>): a feature's snapshot,
  enqueueing an approved specification with the exact replay that the owner bridge may repeat, and
  reordering the queued features.
\<close>

section \<open>Features\<close>

definition status_text :: "feature_status \<Rightarrow> string" where
  "status_text status =
     (case status of
        FQueued \<Rightarrow> ''queued'' | FImplementing \<Rightarrow> ''implementing'' | FValidating \<Rightarrow> ''validating''
      | FReviewing \<Rightarrow> ''reviewing'' | FPublishing \<Rightarrow> ''publishing''
      | FVerifyingMain \<Rightarrow> ''verifying_main'' | FRepairing \<Rightarrow> ''repairing'' | FPaused \<Rightarrow> ''paused''
      | FAttentionRequired \<Rightarrow> ''attention_required'' | FFailed \<Rightarrow> ''failed''
      | FSucceeded \<Rightarrow> ''succeeded'' | FCancelled \<Rightarrow> ''cancelled'' | FAbandoned \<Rightarrow> ''abandoned''
      | FQuarantined \<Rightarrow> ''quarantined'')"

definition parse_status :: "string \<Rightarrow> master_error + feature_status" where
  "parse_status value =
     ok_or (InvalidStoredState (''unknown feature lifecycle status '' @ value))
       (map_of [(''queued'', FQueued), (''implementing'', FImplementing),
          (''validating'', FValidating), (''reviewing'', FReviewing),
          (''publishing'', FPublishing), (''verifying_main'', FVerifyingMain),
          (''repairing'', FRepairing), (''paused'', FPaused),
          (''attention_required'', FAttentionRequired), (''failed'', FFailed),
          (''succeeded'', FSucceeded), (''cancelled'', FCancelled),
          (''abandoned'', FAbandoned), (''quarantined'', FQuarantined)] value)"

lemma parse_status_text [simp]: "parse_status (status_text s) = Inr s"
  by (cases s) (simp_all add: parse_status_def status_text_def)

definition is_active_execution :: "feature_status \<Rightarrow> bool" where
  "is_active_execution status =
     (status \<in> {FImplementing, FValidating, FReviewing, FPublishing, FVerifyingMain, FRepairing,
        FPaused})"

definition find_feature :: "uuid \<Rightarrow> kernel \<Rightarrow> feature_row option" where
  "find_feature feature k = find_row (\<lambda>f. ft_feature_id f = feature) (k_features k)"

record snapshot_view =
  fs_feature_id :: uuid
  fs_specification_revision :: nat
  fs_status :: feature_status
  fs_lifecycle_revision :: nat
  fs_queue_position :: nat
  fs_active_lease_id :: "uuid option"
  fs_effect_possible :: bool

definition lease_of :: "uuid \<Rightarrow> kernel \<Rightarrow> uuid option" where
  "lease_of feature k =
     (case k_active_lease k of None \<Rightarrow> None
      | Some l \<Rightarrow> if fl_feature_id l = feature then Some (fl_lease_id l) else None)"

definition feature_snapshot :: "uuid \<Rightarrow> kernel \<Rightarrow> master_error + snapshot_view" where
  "feature_snapshot feature k =
     bindE (ok_or FeatureNotFound (find_feature feature k)) (\<lambda>f.
     Inr \<lparr>fs_feature_id = feature,
          fs_specification_revision = ft_current_specification_revision f,
          fs_status = ft_status f, fs_lifecycle_revision = ft_lifecycle_revision f,
          fs_queue_position = ft_queue_position f, fs_active_lease_id = lease_of feature k,
          fs_effect_possible = ft_effect_possible f\<rparr>)"

section \<open>Enqueueing\<close>

text \<open>\<^verbatim>\<open>SELECT COALESCE(MAX(queue_position), 0)\<close>.\<close>

definition last_position :: "queue_row list \<Rightarrow> nat" where
  "last_position queue = foldr max (map qu_queue_position queue) 0"

definition specification_json :: "codec \<Rightarrow> approved_specification \<Rightarrow> json" where
  "specification_json cx spec = JObject
     [(''feature_id'', JString (uuid_text cx (as_feature_id spec))),
      (''revision'', json_nat (as_revision spec)),
      (''repository_id'', JString (uuid_text cx (as_repository_id spec))),
      (''manifest'', as_manifest spec),
      (''manifest_sha256'', digest_json (as_manifest_sha256 spec)),
      (''design_sha256'', digest_json (as_design_sha256 spec)),
      (''brainstorming_sha256'', digest_json (as_brainstorming_sha256 spec)),
      (''owner_approval_sha256'', digest_json (as_owner_approval_sha256 spec)),
      (''grants'', JObject
         [(''registration'', json_nat (gr_registration (as_grants spec))),
          (''cloud_disclosure'', json_nat (gr_cloud_disclosure (as_grants spec))),
          (''autonomous_publication'', json_nat (gr_autonomous_publication (as_grants spec)))]),
      (''provider_id'', JString (as_provider_id spec)),
      (''model_id'', JString (as_model_id spec)),
      (''dependencies'', JArray (map (\<lambda>d. JString (uuid_text cx d)) (as_dependencies spec)))]"

text \<open>The owner bridge's registration, its designation revision and the pause revision it saw.\<close>

type_synonym owner_binding = "device_row \<times> nat \<times> nat"

definition owner_enqueue_metadata ::
    "codec \<Rightarrow> approved_specification \<Rightarrow> nat \<Rightarrow> owner_binding \<Rightarrow> (string \<times> json) list" where
  "owner_enqueue_metadata cx spec expected_queue owner =
     (case owner of (registration, designation_revision, pause_revision) \<Rightarrow>
      (let device = uuid_text cx (dev_device_id registration);
           device_sha256 = hex_lower (digest_bytes (sha256 cx device));
           request_binding = JObject
             [(''schema_version'', json_nat 1),
              (''operation'', JString ''owner_bridge_enqueue''),
              (''expected_queue_revision'', json_nat expected_queue),
              (''owner_control_device_id'', JString device),
              (''owner_control_registry_revision'', json_nat (dev_registry_revision registration)),
              (''owner_control_designation_revision'', json_nat designation_revision),
              (''emergency_pause_revision'', json_nat pause_revision),
              (''specification'', specification_json cx spec)];
           request_sha256 = hex_lower (digest_bytes (sha256 cx (canonical_json cx request_binding))) in
       [(''owner_control_device_sha256'', JString device_sha256),
        (''owner_control_registry_revision'', json_nat (dev_registry_revision registration)),
        (''owner_control_designation_revision'', json_nat designation_revision),
        (''emergency_pause_revision'', json_nat pause_revision),
        (''owner_bridge_enqueue_request_sha256'', JString request_sha256)]))"

definition feature_enqueue_audit_metadata ::
    "codec \<Rightarrow> approved_specification \<Rightarrow> nat \<Rightarrow> nat \<Rightarrow> nat \<Rightarrow> owner_binding option \<Rightarrow> json" where
  "feature_enqueue_audit_metadata cx spec expected_queue queue_revision queue_position owner =
     JObject
      ([(''specification_revision'', json_nat (as_revision spec)),
        (''queue_revision'', json_nat queue_revision),
        (''queue_position'', json_nat queue_position),
        (''dependency_count'', json_nat (length (as_dependencies spec))),
        (''manifest_digest_present'', JBool True),
        (''design_digest_present'', JBool True),
        (''brainstorming_digest_present'', JBool True),
        (''owner_approval_digest_present'', JBool True),
        (''registration_grant_revision'', json_nat (gr_registration (as_grants spec))),
        (''cloud_disclosure_grant_revision'', json_nat (gr_cloud_disclosure (as_grants spec))),
        (''publication_grant_revision'', json_nat (gr_autonomous_publication (as_grants spec))),
        (''provider_snapshot_present'', JBool True),
        (''side_effect_executed'', JBool False)]
       @ (case owner of None \<Rightarrow> [] | Some binding \<Rightarrow> owner_enqueue_metadata cx spec expected_queue binding))"

definition specification_row_of ::
    "approved_specification \<Rightarrow> string \<Rightarrow> nat \<Rightarrow> specification_row" where
  "specification_row_of spec canonical now_ms =
     \<lparr>sp_feature_id = as_feature_id spec, sp_revision = as_revision spec,
      sp_repository_id = as_repository_id spec, sp_canonical_manifest = canonical,
      sp_manifest_sha256 = as_manifest_sha256 spec, sp_design_sha256 = as_design_sha256 spec,
      sp_brainstorming_sha256 = as_brainstorming_sha256 spec,
      sp_owner_approval_sha256 = as_owner_approval_sha256 spec, sp_grants = as_grants spec,
      sp_provider_id = as_provider_id spec, sp_model_id = as_model_id spec,
      sp_approved_at_ms = now_ms\<rparr>"

definition queued_feature :: "approved_specification \<Rightarrow> nat \<Rightarrow> nat \<Rightarrow> feature_row" where
  "queued_feature spec position now_ms =
     \<lparr>ft_feature_id = as_feature_id spec, ft_current_specification_revision = as_revision spec,
      ft_lifecycle_revision = 1, ft_status = FQueued, ft_queue_position = position,
      ft_effect_possible = False, ft_created_at_ms = now_ms, ft_updated_at_ms = now_ms\<rparr>"

definition insert_specification ::
    "approved_specification \<Rightarrow> string \<Rightarrow> nat \<Rightarrow> kernel \<Rightarrow> master_error + kernel" where
  "insert_specification spec canonical now_ms k =
     bindE (to_i64 (as_revision spec)) (\<lambda>_.
     bindE (to_i64 (gr_registration (as_grants spec))) (\<lambda>_.
     bindE (to_i64 (gr_cloud_disclosure (as_grants spec))) (\<lambda>_.
     bindE (to_i64 (gr_autonomous_publication (as_grants spec))) (\<lambda>_.
     bindE (to_i64 now_ms) (\<lambda>_.
     bindE (reject_if FeatureSpecificationImmutable
       (exists_row (\<lambda>s. sp_feature_id s = as_feature_id spec \<and> sp_revision s = as_revision spec)
         (k_specifications k))) (\<lambda>_.
     Inr (k\<lparr>k_specifications :=
            insert_row (specification_row_of spec canonical now_ms) (k_specifications k)\<rparr>)))))))"

definition insert_dependency ::
    "uuid \<Rightarrow> uuid \<Rightarrow> dependency_row list \<Rightarrow> master_error + dependency_row list" where
  "insert_dependency feature dependency rows =
     bindE (reject_if Storage
       (feature = dependency
        \<or> exists_row (\<lambda>d. dn_feature_id d = feature \<and> dn_dependency_feature_id d = dependency) rows)) (\<lambda>_.
     Inr (insert_row \<lparr>dn_feature_id = feature, dn_dependency_feature_id = dependency\<rparr> rows))"

definition require_dependency :: "kernel \<Rightarrow> uuid \<Rightarrow> unit \<Rightarrow> master_error + unit" where
  "require_dependency k dependency u =
     reject_if (InvalidFeatureConveyorInput ''dependency does not identify an existing feature'')
       (find_feature dependency k = None)"

definition enqueue_commit ::
    "codec \<Rightarrow> approved_specification \<Rightarrow> string \<Rightarrow> nat \<Rightarrow> nat \<Rightarrow> owner_binding option \<Rightarrow> kernel
      \<Rightarrow> master_error + kernel" where
  "enqueue_commit cx spec canonical expected_queue now_ms owner k =
     (let position = last_position (k_queue k) + 1; feature = as_feature_id spec in
      bindE (reject_if Storage (position > i64_max)) (\<lambda>_.
      bindE (insert_specification spec canonical now_ms k) (\<lambda>k1.
      bindE (reject_if Storage (find_feature feature k1 \<noteq> None)) (\<lambda>_.
      bindE (reject_if Storage
        (exists_row (\<lambda>q. qu_feature_id q = feature \<or> qu_queue_position q = position) (k_queue k1))) (\<lambda>_.
      bindE (forE (insert_dependency feature) (as_dependencies spec) (k_dependencies k1)) (\<lambda>dependencies.
      (let k2 = k1\<lparr>k_features := insert_row (queued_feature spec position now_ms) (k_features k1),
                  k_queue := insert_row \<lparr>qu_feature_id = feature, qu_queue_position = position\<rparr>
                               (k_queue k1),
                  k_dependencies := dependencies\<rparr> in
       bindE (increment_queue_revision_tx expected_queue k2) (\<lambda>(k3, next).
       append_audit cx ''feature_enqueued'' (Some feature) now_ms
         (feature_enqueue_audit_metadata cx spec expected_queue next position owner) k3))))))))"

text \<open>
  \<^verbatim>\<open>exact_owner_bridge_enqueue_replay_tx\<close>: the enqueue that the owner bridge repeats has already been
  committed, exactly as asked, and nothing has touched the feature since.
\<close>

definition stored_specification_matches ::
    "approved_specification \<Rightarrow> string \<Rightarrow> specification_row \<Rightarrow> bool" where
  "stored_specification_matches spec canonical s =
     (sp_repository_id s = as_repository_id spec \<and> sp_canonical_manifest s = canonical
      \<and> sp_manifest_sha256 s = as_manifest_sha256 spec \<and> sp_design_sha256 s = as_design_sha256 spec
      \<and> sp_brainstorming_sha256 s = as_brainstorming_sha256 spec
      \<and> sp_owner_approval_sha256 s = as_owner_approval_sha256 spec
      \<and> gr_registration (sp_grants s) = gr_registration (as_grants spec)
      \<and> gr_cloud_disclosure (sp_grants s) = gr_cloud_disclosure (as_grants spec)
      \<and> gr_autonomous_publication (sp_grants s) = gr_autonomous_publication (as_grants spec)
      \<and> sp_provider_id s = as_provider_id spec \<and> sp_model_id s = as_model_id spec)"

definition stored_feature_untouched ::
    "kernel \<Rightarrow> approved_specification \<Rightarrow> nat \<Rightarrow> feature_row \<Rightarrow> bool" where
  "stored_feature_untouched k spec approved_at_ms f =
     (ft_current_specification_revision f = as_revision spec \<and> ft_status f = FQueued
      \<and> ft_lifecycle_revision f = 1 \<and> \<not> ft_effect_possible f
      \<and> ft_created_at_ms f = approved_at_ms \<and> ft_updated_at_ms f = approved_at_ms
      \<and> map_option qu_queue_position
          (find_row (\<lambda>q. qu_feature_id q = as_feature_id spec) (k_queue k)) = Some (ft_queue_position f)
      \<and> last_position (k_queue k) = ft_queue_position f
      \<and> lease_of (as_feature_id spec) k = None)"

definition exact_owner_bridge_enqueue_replay ::
    "codec \<Rightarrow> approved_specification \<Rightarrow> string \<Rightarrow> nat \<Rightarrow> nat \<Rightarrow> owner_binding \<Rightarrow> kernel
      \<Rightarrow> master_error + snapshot_view option" where
  "exact_owner_bridge_enqueue_replay cx spec canonical original_queue replay_queue owner k =
     (let feature = as_feature_id spec in
      if count_rows (\<lambda>s. sp_feature_id s = feature) (k_specifications k) \<noteq> 1 then Inr None
      else bindE (to_i64 (as_revision spec)) (\<lambda>_.
       (case find_row (\<lambda>s. sp_feature_id s = feature \<and> sp_revision s = as_revision spec)
               (k_specifications k) of
          None \<Rightarrow> Inr None
        | Some s \<Rightarrow>
            if \<not> stored_specification_matches spec canonical s then Inr None
            else (case find_feature feature k of
                None \<Rightarrow> Inr None
              | Some f \<Rightarrow>
                  if \<not> stored_feature_untouched k spec (sp_approved_at_ms s) f then Inr None
                  else if sort (map dn_dependency_feature_id
                         (filter (\<lambda>d. dn_feature_id d = feature) (k_dependencies k)))
                       \<noteq> sort (as_dependencies spec) then Inr None
                  else (let audits = filter (\<lambda>a. au_feature_id a = Some feature) (k_audit k);
                            expected = canonical_json cx (feature_enqueue_audit_metadata cx spec
                              original_queue replay_queue (ft_queue_position f) (Some owner)) in
                   case audits of
                     [a] \<Rightarrow>
                       if au_event_kind a \<noteq> ''feature_enqueued''
                          \<or> au_occurred_at_ms a \<noteq> sp_approved_at_ms s
                          \<or> canonical_json cx (au_metadata a) \<noteq> expected
                       then Inr None
                       else Inr (Some \<lparr>fs_feature_id = feature,
                              fs_specification_revision = as_revision spec, fs_status = FQueued,
                              fs_lifecycle_revision = 1, fs_queue_position = ft_queue_position f,
                              fs_active_lease_id = None, fs_effect_possible = False\<rparr>)
                   | _ \<Rightarrow> Inr None)))))"

definition enqueue_replay ::
    "codec \<Rightarrow> approved_specification \<Rightarrow> string \<Rightarrow> nat \<Rightarrow> nat \<Rightarrow> owner_binding option \<Rightarrow> kernel
      \<Rightarrow> master_error + snapshot_view" where
  "enqueue_replay cx spec canonical expected_queue now_ms owner k =
     (let found = feature_queue_revision_tx k; stale = StaleFeatureQueueRevision expected_queue found in
      case (owner, checked_add_u64 expected_queue 1) of
        (Some (registration, designation_revision, pause_revision), Some replay_queue) \<Rightarrow>
          if found = replay_queue
          then
            bindE (require_owner_control_bridge_tx cx registration designation_revision k) (\<lambda>_.
            bindE (require_unpaused_revision_tx pause_revision k) (\<lambda>_.
            bindE (require_grants_tx (as_repository_id spec) (as_grants spec) now_ms k) (\<lambda>_.
            bindE (exact_owner_bridge_enqueue_replay cx spec canonical expected_queue replay_queue
                     (registration, designation_revision, pause_revision) k) (\<lambda>replayed.
            ok_or FeatureSpecificationImmutable replayed))))
          else Inl stale
      | _ \<Rightarrow> Inl stale)"

definition enqueue_approved_feature_with_owner_binding ::
    "codec \<Rightarrow> approved_specification \<Rightarrow> nat \<Rightarrow> nat \<Rightarrow> owner_binding option \<Rightarrow> kernel
      \<Rightarrow> master_error + kernel \<times> snapshot_view" where
  "enqueue_approved_feature_with_owner_binding cx spec expected_queue now_ms owner k =
     bindE (validate_approved_specification cx spec) (\<lambda>canonical.
     if feature_queue_revision_tx k \<noteq> expected_queue
     then bindE (enqueue_replay cx spec canonical expected_queue now_ms owner k)
            (\<lambda>snapshot. Inr (k, snapshot))
     else
       bindE (case owner of None \<Rightarrow> Inr ()
              | Some (registration, designation_revision, pause_revision) \<Rightarrow>
                  bindE (require_owner_control_bridge_tx cx registration designation_revision k) (\<lambda>_.
                  require_unpaused_revision_tx pause_revision k)) (\<lambda>_.
       bindE (require_grants_tx (as_repository_id spec) (as_grants spec) now_ms k) (\<lambda>_.
       bindE (reject_if FeatureQueueFull
         (count_rows (\<lambda>f. ft_status f \<notin> {FSucceeded, FCancelled, FAbandoned}) (k_features k)
            \<ge> MAX_CONVEYOR_NONTERMINAL_FEATURES)) (\<lambda>_.
       bindE (forE (require_dependency k) (as_dependencies spec) ()) (\<lambda>_.
       bindE (enqueue_commit cx spec canonical expected_queue now_ms owner k) (\<lambda>k'.
       bindE (feature_snapshot (as_feature_id spec) k') (\<lambda>snapshot.
       Inr (k', snapshot))))))))"

definition enqueue_approved_feature ::
    "codec \<Rightarrow> approved_specification \<Rightarrow> nat \<Rightarrow> nat \<Rightarrow> kernel \<Rightarrow> master_error + kernel \<times> snapshot_view" where
  "enqueue_approved_feature cx spec expected_queue now_ms k =
     enqueue_approved_feature_with_owner_binding cx spec expected_queue now_ms None k"

definition enqueue_approved_feature_from_owner_bridge ::
    "codec \<Rightarrow> approved_specification \<Rightarrow> nat \<Rightarrow> nat \<Rightarrow> nat \<Rightarrow> device_row \<Rightarrow> nat \<Rightarrow> kernel
      \<Rightarrow> master_error + kernel \<times> snapshot_view" where
  "enqueue_approved_feature_from_owner_bridge cx spec expected_queue expected_designation expected_pause
      registration now_ms k =
     enqueue_approved_feature_with_owner_binding cx spec expected_queue now_ms
       (Some (registration, expected_designation, expected_pause)) k"

section \<open>Reordering\<close>

text \<open>\<^verbatim>\<open>UPDATE .. SET queue_position\<close> of one row, under the column's \<^verbatim>\<open>UNIQUE\<close>.\<close>

definition set_queue_position ::
    "uuid \<Rightarrow> nat \<Rightarrow> queue_row list \<Rightarrow> master_error + queue_row list" where
  "set_queue_position feature position queue =
     bindE (reject_if Storage
       (exists_row (\<lambda>q. qu_feature_id q = feature) queue
        \<and> exists_row (\<lambda>q. qu_feature_id q \<noteq> feature \<and> qu_queue_position q = position) queue)) (\<lambda>_.
     Inr (update_rows (\<lambda>q. qu_feature_id q = feature) (\<lambda>q. q\<lparr>qu_queue_position := position\<rparr>) queue))"

text \<open>SQLite leaves the order of a multi-row update open; the rows are visited as inserted.\<close>

definition park_position :: "queue_row \<Rightarrow> queue_row list \<Rightarrow> master_error + queue_row list" where
  "park_position q queue = set_queue_position (qu_feature_id q) (qu_queue_position q + 1000000) queue"

definition queued_rows :: "kernel \<Rightarrow> queue_row list" where
  "queued_rows k =
     filter (\<lambda>q. exists_row (\<lambda>f. ft_feature_id f = qu_feature_id q \<and> ft_status f = FQueued)
               (k_features k)) (k_queue k)"

definition queue_order :: "kernel \<Rightarrow> uuid list" where
  "queue_order k = map qu_feature_id (sort_key qu_queue_position (queued_rows k))"

definition active_position :: "kernel \<Rightarrow> nat" where
  "active_position k =
     last_position (filter (\<lambda>q. exists_row (\<lambda>f. ft_feature_id f = qu_feature_id q \<and> ft_status f \<noteq> FQueued)
                      (k_features k)) (k_queue k))"

text \<open>Writing a feature row: \<^verbatim>\<open>CHECK (updated_at_ms >= created_at_ms)\<close>.\<close>

definition write_features ::
    "(feature_row \<Rightarrow> bool) \<Rightarrow> (feature_row \<Rightarrow> feature_row) \<Rightarrow> nat \<Rightarrow> kernel \<Rightarrow> master_error + kernel" where
  "write_features p u now_ms k =
     bindE (to_i64 now_ms) (\<lambda>_.
     bindE (reject_if Storage (exists_row (\<lambda>f. p f \<and> now_ms < ft_created_at_ms f) (k_features k))) (\<lambda>_.
     Inr (k\<lparr>k_features := update_rows p (\<lambda>f. (u f)\<lparr>ft_updated_at_ms := now_ms\<rparr>) (k_features k)\<rparr>)))"

definition place_feature :: "nat \<Rightarrow> nat \<Rightarrow> nat \<times> uuid \<Rightarrow> kernel \<Rightarrow> master_error + kernel" where
  "place_feature active now_ms item k =
     (case item of (offset, feature) \<Rightarrow>
      bindE (ok_or IntegerOutOfRange (checked_add_i64 active (offset + 1))) (\<lambda>position.
      bindE (set_queue_position feature position (k_queue k)) (\<lambda>queue.
      write_features (\<lambda>f. ft_feature_id f = feature \<and> ft_status f = FQueued)
        (\<lambda>f. f\<lparr>ft_queue_position := position\<rparr>) now_ms (k\<lparr>k_queue := queue\<rparr>))))"

definition reorder_queued_features ::
    "codec \<Rightarrow> uuid list \<Rightarrow> nat \<Rightarrow> nat \<Rightarrow> kernel \<Rightarrow> master_error + kernel \<times> nat" where
  "reorder_queued_features cx ordered expected_queue now_ms k =
     bindE (reject_if (InvalidFeatureConveyorInput ''queue order exceeds the feature capacity'')
       (length ordered > MAX_CONVEYOR_NONTERMINAL_FEATURES)) (\<lambda>_.
     bindE (require_queue_revision_tx expected_queue k) (\<lambda>_.
     bindE (reject_if (InvalidFeatureConveyorInput
         ''reorder must contain every queued feature exactly once'')
       (sort (queue_order k) \<noteq> sort ordered)) (\<lambda>_.
     (let active = active_position k in
      bindE (forE park_position (queued_rows k) (k_queue k)) (\<lambda>queue.
      (let k1 = k\<lparr>k_queue := queue,
                  k_features := update_rows (\<lambda>f. ft_status f = FQueued)
                    (\<lambda>f. f\<lparr>ft_queue_position := ft_queue_position f + 1000000\<rparr>) (k_features k)\<rparr> in
       bindE (forE (place_feature active now_ms) (enumerate 0 ordered) k1) (\<lambda>k2.
       bindE (increment_queue_revision_tx expected_queue k2) (\<lambda>(k3, next).
       bindE (append_audit cx ''feature_queue_reordered'' None now_ms
         (JObject
           [(''queue_revision'', json_nat next),
            (''queued_feature_count'', json_nat (length ordered)),
            (''side_effect_executed'', JBool False)]) k3) (\<lambda>k4.
       Inr (k4, next))))))))))"

end
