(* ===== verification/Conveyor_Lifecycle.thy ===== *)
theory Conveyor_Lifecycle
  imports Conveyor_Queue
begin

text \<open>
  The life of a feature after the queue (\<^verbatim>\<open>assemblywright-master/src/lib.rs\<close>): claiming the strict
  queue head for a repository snapshot, dispatching its coding step, advancing it on accepted
  evidence, and ending it by success, by cancellation and abandonment, or by quarantine at start.

  Identifiers drawn by \<^verbatim>\<open>Uuid::new_v4\<close> are arguments. \<^verbatim>\<open>feature_active_lease\<close> has at most one row, the
  option \<open>k_active_lease\<close>.
\<close>

section \<open>Claiming\<close>

record claim_plan =
  pl_feature_id :: uuid
  pl_specification_revision :: nat
  pl_repository_id :: uuid
  pl_expected_queue_revision :: nat
  pl_expected_emergency_pause_revision :: nat
  pl_scope_sha256 :: digest
  pl_provider_id :: string
  pl_model_id :: string
  pl_grants :: grant_revisions
  pl_base_commit :: string

record snapshot_evidence =
  se_snapshot_id :: uuid
  se_snapshot_sha256 :: digest
  se_base_commit :: string

record feature_claim =
  fc_feature_id :: uuid
  fc_specification_revision :: nat
  fc_lifecycle_revision :: nat
  fc_lease_id :: uuid
  fc_provider_id :: string
  fc_model_id :: string
  fc_grants :: grant_revisions
  fc_snapshot_id :: uuid
  fc_snapshot_sha256 :: digest
  fc_base_commit :: string

definition valid_provider :: "string \<Rightarrow> bool" where
  "valid_provider value =
     (value \<noteq> [] \<and> length value \<le> 128 \<and> trim value = value \<and> list_all is_graphic value)"

definition validate_snapshot_claim_plan :: "claim_plan \<Rightarrow> nat \<Rightarrow> master_error + unit" where
  "validate_snapshot_claim_plan plan now_ms =
     (let valid_commit = length (pl_base_commit plan) = 40 \<and> list_all is_lower_hex (pl_base_commit plan) in
      reject_if (InvalidFeatureConveyorInput
          ''snapshot claim plan requires exact bounded nonzero bindings'')
        (pl_feature_id plan = 0 \<or> pl_repository_id plan = 0 \<or> pl_specification_revision plan = 0
         \<or> pl_scope_sha256 plan = 0 \<or> gr_registration (pl_grants plan) = 0
         \<or> gr_cloud_disclosure (pl_grants plan) = 0 \<or> gr_autonomous_publication (pl_grants plan) = 0
         \<or> \<not> valid_commit \<or> \<not> valid_provider (pl_provider_id plan)
         \<or> \<not> valid_provider (pl_model_id plan) \<or> now_ms = 0))"

text \<open>The strict queue head: the queued feature at the lowest position.\<close>

definition queue_head :: "kernel \<Rightarrow> feature_row option" where
  "queue_head k =
     (case queue_order k of [] \<Rightarrow> None
      | feature # _ \<Rightarrow> find_row (\<lambda>f. ft_feature_id f = feature \<and> ft_status f = FQueued) (k_features k))"

definition dependency_blocked :: "uuid \<Rightarrow> kernel \<Rightarrow> bool" where
  "dependency_blocked feature k =
     exists_row (\<lambda>d. dn_feature_id d = feature
         \<and> exists_row (\<lambda>f. ft_feature_id f = dn_dependency_feature_id d \<and> ft_status f \<noteq> FSucceeded)
             (k_features k)) (k_dependencies k)"

definition find_specification :: "uuid \<Rightarrow> nat \<Rightarrow> kernel \<Rightarrow> specification_row option" where
  "find_specification feature revision k =
     find_row (\<lambda>s. sp_feature_id s = feature \<and> sp_revision s = revision) (k_specifications k)"

definition require_snapshot_claim_plan_tx :: "claim_plan \<Rightarrow> nat \<Rightarrow> kernel \<Rightarrow> master_error + unit" where
  "require_snapshot_claim_plan_tx plan now_ms k =
     bindE (require_queue_revision_tx (pl_expected_queue_revision plan) k) (\<lambda>_.
     bindE (require_unpaused_revision_tx (pl_expected_emergency_pause_revision plan) k) (\<lambda>_.
     bindE (require_repository_preflight_binding (pl_repository_id plan)
       (gr_registration (pl_grants plan)) (pl_scope_sha256 plan)
       (pl_expected_emergency_pause_revision plan) now_ms k) (\<lambda>_.
     bindE (reject_if FeatureLeaseAlreadyActive (k_active_lease k \<noteq> None)) (\<lambda>_.
     bindE (ok_or FeatureNotFound (queue_head k)) (\<lambda>head.
     bindE (reject_if (InvalidFeatureConveyorInput
         ''snapshot claim does not bind the exact strict queue head'')
       (ft_feature_id head \<noteq> pl_feature_id plan
        \<or> ft_current_specification_revision head \<noteq> pl_specification_revision plan)) (\<lambda>_.
     bindE (reject_if FeatureDependencyBlocked (dependency_blocked (ft_feature_id head) k)) (\<lambda>_.
     bindE (ok_or Storage (find_specification (ft_feature_id head)
       (ft_current_specification_revision head) k)) (\<lambda>stored.
     bindE (reject_if (InvalidFeatureConveyorInput
         ''snapshot claim binding differs from the approved specification'')
       (sp_repository_id stored \<noteq> pl_repository_id plan \<or> sp_grants stored \<noteq> pl_grants plan
        \<or> sp_provider_id stored \<noteq> pl_provider_id plan \<or> sp_model_id stored \<noteq> pl_model_id plan)) (\<lambda>_.
     require_grants_tx (pl_repository_id plan) (pl_grants plan) now_ms k)))))))))"

definition prepare_repository_snapshot_claim ::
    "claim_plan \<Rightarrow> nat \<Rightarrow> kernel \<Rightarrow> master_error + claim_plan" where
  "prepare_repository_snapshot_claim requested now_ms k =
     bindE (validate_snapshot_claim_plan requested now_ms) (\<lambda>_.
     bindE (require_snapshot_claim_plan_tx requested now_ms k) (\<lambda>_.
     Inr requested))"

definition claim_row_of :: "claim_plan \<Rightarrow> snapshot_evidence \<Rightarrow> uuid \<Rightarrow> nat \<Rightarrow> claim_row" where
  "claim_row_of plan snapshot lease now_ms =
     \<lparr>cl_snapshot_id = se_snapshot_id snapshot, cl_snapshot_sha256 = se_snapshot_sha256 snapshot,
      cl_feature_id = pl_feature_id plan, cl_specification_revision = pl_specification_revision plan,
      cl_lease_id = lease, cl_base_commit = pl_base_commit plan,
      cl_scope_sha256 = pl_scope_sha256 plan, cl_provider_id = pl_provider_id plan,
      cl_model_id = pl_model_id plan, cl_grants = pl_grants plan,
      cl_emergency_pause_revision = pl_expected_emergency_pause_revision plan,
      cl_queue_revision = pl_expected_queue_revision plan, cl_claimed_at_ms = now_ms\<rparr>"

definition insert_claim ::
    "claim_plan \<Rightarrow> snapshot_evidence \<Rightarrow> uuid \<Rightarrow> nat \<Rightarrow> kernel \<Rightarrow> master_error + kernel" where
  "insert_claim plan snapshot lease now_ms k =
     bindE (to_i64 (pl_specification_revision plan)) (\<lambda>_.
     bindE (to_i64 (gr_registration (pl_grants plan))) (\<lambda>_.
     bindE (to_i64 (gr_cloud_disclosure (pl_grants plan))) (\<lambda>_.
     bindE (to_i64 (gr_autonomous_publication (pl_grants plan))) (\<lambda>_.
     bindE (to_i64 (pl_expected_emergency_pause_revision plan)) (\<lambda>_.
     bindE (to_i64 (pl_expected_queue_revision plan)) (\<lambda>_.
     bindE (to_i64 now_ms) (\<lambda>_.
     bindE (reject_if Storage
       (exists_row (\<lambda>c. cl_snapshot_id c = se_snapshot_id snapshot \<or> cl_lease_id c = lease)
         (k_claims k))) (\<lambda>_.
     Inr (k\<lparr>k_claims := insert_row (claim_row_of plan snapshot lease now_ms) (k_claims k),
            k_active_lease := Some
              \<lparr>fl_feature_id = pl_feature_id plan, fl_lease_id = lease,
               fl_snapshot_id = Some (se_snapshot_id snapshot), fl_claimed_at_ms = now_ms\<rparr>\<rparr>)))))))))"

definition claim_metadata :: "claim_plan \<Rightarrow> nat \<Rightarrow> nat \<Rightarrow> json" where
  "claim_metadata plan lifecycle_revision queue_revision = JObject
     [(''from_status'', JString ''queued''), (''to_status'', JString ''implementing''),
      (''lifecycle_revision'', json_nat lifecycle_revision),
      (''queue_revision'', json_nat queue_revision), (''lease_present'', JBool True),
      (''provider_snapshot_present'', JBool True), (''grant_snapshot_present'', JBool True),
      (''repository_snapshot_id_present'', JBool True),
      (''repository_snapshot_digest_present'', JBool True), (''base_commit_present'', JBool True),
      (''scope_digest_present'', JBool True),
      (''emergency_pause_revision'', json_nat (pl_expected_emergency_pause_revision plan)),
      (''effect_possible'', JBool False), (''side_effect_executed'', JBool False)]"

definition finalize_repository_snapshot_claim ::
    "codec \<Rightarrow> claim_plan \<Rightarrow> snapshot_evidence \<Rightarrow> nat \<Rightarrow> uuid \<Rightarrow> kernel
      \<Rightarrow> master_error + kernel \<times> feature_claim" where
  "finalize_repository_snapshot_claim cx plan snapshot now_ms lease k =
     bindE (validate_snapshot_claim_plan plan now_ms) (\<lambda>_.
     bindE (reject_if (InvalidFeatureConveyorInput
         ''snapshot claim requires an exact nonzero snapshot binding'')
       (se_snapshot_id snapshot = 0 \<or> se_snapshot_sha256 snapshot = 0
        \<or> se_base_commit snapshot \<noteq> pl_base_commit plan)) (\<lambda>_.
     bindE (require_snapshot_claim_plan_tx plan now_ms k) (\<lambda>_.
     bindE (insert_claim plan snapshot lease now_ms k) (\<lambda>k1.
     (let mine = (\<lambda>f. ft_feature_id f = pl_feature_id plan \<and> ft_status f = FQueued) in
      bindE (write_features mine
        (\<lambda>f. f\<lparr>ft_status := FImplementing, ft_lifecycle_revision := ft_lifecycle_revision f + 1\<rparr>)
        now_ms k1) (\<lambda>k2.
      bindE (reject_if InvalidFeatureTransition (count_rows mine (k_features k1) \<noteq> 1)) (\<lambda>_.
      bindE (ok_or Storage (find_feature (pl_feature_id plan) k2)) (\<lambda>f.
      bindE (reject_if Storage (ft_lifecycle_revision f > i64_max)) (\<lambda>_.
      bindE (increment_queue_revision_tx (pl_expected_queue_revision plan) k2) (\<lambda>(k3, next).
      bindE (append_audit cx ''feature_snapshot_claimed'' (Some (pl_feature_id plan)) now_ms
        (claim_metadata plan (ft_lifecycle_revision f) next) k3) (\<lambda>k4.
      Inr (k4, \<lparr>fc_feature_id = pl_feature_id plan,
                fc_specification_revision = pl_specification_revision plan,
                fc_lifecycle_revision = ft_lifecycle_revision f, fc_lease_id = lease,
                fc_provider_id = pl_provider_id plan, fc_model_id = pl_model_id plan,
                fc_grants = pl_grants plan, fc_snapshot_id = se_snapshot_id snapshot,
                fc_snapshot_sha256 = se_snapshot_sha256 snapshot,
                fc_base_commit = se_base_commit snapshot\<rparr>))))))))))))"

text \<open>Claiming without a snapshot is refused since schema 9.\<close>

definition claim_next_feature :: "nat \<Rightarrow> nat \<Rightarrow> kernel \<Rightarrow> master_error + feature_claim" where
  "claim_next_feature expected_queue now_ms k =
     Inl (InvalidFeatureConveyorInput ''repository snapshot evidence is required before feature claim'')"

section \<open>Dispatching the coding step\<close>

definition coding_request_of :: "coding_dispatch_request \<Rightarrow> coding_request" where
  "coding_request_of r =
     \<lparr>cr_feature_id = cd_feature_id r, cr_specification_revision = cd_specification_revision r,
      cr_lifecycle_revision = cd_expected_lifecycle_revision r,
      cr_feature_lease_id = cd_feature_lease_id r, cr_snapshot_id = cd_snapshot_id r,
      cr_snapshot_sha256 = cd_snapshot_sha256 r, cr_work_packet_sha256 = cd_work_packet_sha256 r,
      cr_work_packet = cd_work_packet r, cr_device_id = cd_device_id r,
      cr_device_registry_revision = cd_device_registry_revision r,
      cr_queue_revision = cd_expected_queue_revision r,
      cr_emergency_pause_revision = cd_expected_emergency_pause_revision r\<rparr>"

text \<open>\<^verbatim>\<open>serde_json::to_value\<close> of a coding request.\<close>

definition coding_request_json :: "codec \<Rightarrow> coding_request \<Rightarrow> json" where
  "coding_request_json cx r = JObject
     [(''feature_id'', JString (uuid_text cx (cr_feature_id r))),
      (''specification_revision'', json_nat (cr_specification_revision r)),
      (''lifecycle_revision'', json_nat (cr_lifecycle_revision r)),
      (''feature_lease_id'', JString (uuid_text cx (cr_feature_lease_id r))),
      (''snapshot_id'', JString (uuid_text cx (cr_snapshot_id r))),
      (''snapshot_sha256'', digest_json (cr_snapshot_sha256 r)),
      (''work_packet_sha256'', digest_json (cr_work_packet_sha256 r)),
      (''work_packet'', packet_json cx (cr_work_packet r)),
      (''device_id'', JString (uuid_text cx (cr_device_id r))),
      (''device_registry_revision'', json_nat (cr_device_registry_revision r)),
      (''queue_revision'', json_nat (cr_queue_revision r)),
      (''emergency_pause_revision'', json_nat (cr_emergency_pause_revision r))]"

text \<open>The join of the feature, its lease and the lease's claim.\<close>

definition dispatch_binding ::
    "coding_dispatch_request \<Rightarrow> kernel \<Rightarrow> (feature_row \<times> lease_row \<times> claim_row) option" where
  "dispatch_binding r k =
     (case (find_feature (cd_feature_id r) k, k_active_lease k) of
        (Some f, Some l) \<Rightarrow>
          if fl_feature_id l \<noteq> cd_feature_id r then None
          else map_option (\<lambda>c. (f, l, c))
                 (find_row (\<lambda>c. fl_snapshot_id l = Some (cl_snapshot_id c)
                    \<and> cl_feature_id c = cd_feature_id r \<and> cl_lease_id c = fl_lease_id l) (k_claims k))
      | _ \<Rightarrow> None)"

definition dispatch_binding_exact ::
    "coding_dispatch_request \<Rightarrow> feature_row \<times> lease_row \<times> claim_row \<Rightarrow> bool" where
  "dispatch_binding_exact r binding =
     (case binding of (f, l, c) \<Rightarrow>
        ft_current_specification_revision f = cd_specification_revision r
        \<and> ft_lifecycle_revision f = cd_expected_lifecycle_revision r \<and> ft_status f = FImplementing
        \<and> fl_lease_id l = cd_feature_lease_id r \<and> fl_snapshot_id l = Some (cd_snapshot_id r)
        \<and> cl_snapshot_sha256 c = cd_snapshot_sha256 r)"

definition coding_step_row :: "codec \<Rightarrow> coding_dispatch_request \<Rightarrow> uuid \<Rightarrow> uuid \<Rightarrow> nat \<Rightarrow> step_row" where
  "coding_step_row cx r task step now_ms =
     (let request = coding_request_json cx (coding_request_of r) in
      \<lparr>st_task_id = task, st_step_id = step, st_status = SQueued,
       st_capability_id = LOCAL_CODING_CAPABILITY_ID, st_sensitivity = Workspace,
       st_context = request, st_context_sha256 = sha256 cx (json_bytes cx request),
       st_lease_duration_ms = MAX_LEASE_DURATION_MS, st_deadline_after_ms = MAX_LEASE_DURATION_MS,
       st_created_at_ms = now_ms, st_accepted_payload = None, st_accepted_payload_sha256 = None,
       st_completed_at_ms = None\<rparr>)"

definition dispatch_row_of :: "coding_dispatch_request \<Rightarrow> uuid \<Rightarrow> uuid \<Rightarrow> nat \<Rightarrow> dispatch_row" where
  "dispatch_row_of r task step now_ms =
     \<lparr>dp_packet_id = wp_packet_id (cd_work_packet r), dp_feature_id = cd_feature_id r,
      dp_specification_revision = cd_specification_revision r,
      dp_lifecycle_revision = cd_expected_lifecycle_revision r,
      dp_feature_lease_id = cd_feature_lease_id r, dp_snapshot_id = cd_snapshot_id r,
      dp_snapshot_sha256 = cd_snapshot_sha256 r, dp_work_packet_sha256 = cd_work_packet_sha256 r,
      dp_work_packet = cd_work_packet r, dp_device_id = cd_device_id r,
      dp_device_registry_revision = cd_device_registry_revision r,
      dp_queue_revision = cd_expected_queue_revision r,
      dp_emergency_pause_revision = cd_expected_emergency_pause_revision r,
      dp_task_id = task, dp_step_id = step, dp_dispatched_at_ms = now_ms\<rparr>"

definition insert_coding_step ::
    "codec \<Rightarrow> coding_dispatch_request \<Rightarrow> uuid \<Rightarrow> uuid \<Rightarrow> nat \<Rightarrow> kernel \<Rightarrow> master_error + kernel" where
  "insert_coding_step cx r task step now_ms k =
     bindE (to_i64 now_ms) (\<lambda>_.
     bindE (reject_if Storage (exists_row (\<lambda>s. st_step_id s = step) (k_steps k))) (\<lambda>_.
     bindE (to_i64 (cd_specification_revision r)) (\<lambda>_.
     bindE (to_i64 (cd_expected_lifecycle_revision r)) (\<lambda>_.
     bindE (to_i64 (cd_device_registry_revision r)) (\<lambda>_.
     bindE (to_i64 (cd_expected_queue_revision r)) (\<lambda>_.
     bindE (to_i64 (cd_expected_emergency_pause_revision r)) (\<lambda>_.
     bindE (reject_if Storage
       (now_ms = 0
        \<or> exists_row (\<lambda>d. dp_packet_id d = wp_packet_id (cd_work_packet r) \<or> dp_step_id d = step)
            (k_dispatches k))) (\<lambda>_.
     Inr (k\<lparr>k_steps := insert_row (coding_step_row cx r task step now_ms) (k_steps k),
            k_dispatches := insert_row (dispatch_row_of r task step now_ms) (k_dispatches k)\<rparr>)))))))))"

definition dispatch_metadata :: "coding_dispatch_request \<Rightarrow> json" where
  "dispatch_metadata r = JObject
     [(''lifecycle_revision'', json_nat (cd_expected_lifecycle_revision r)),
      (''queue_revision'', json_nat (cd_expected_queue_revision r)),
      (''emergency_pause_revision'', json_nat (cd_expected_emergency_pause_revision r)),
      (''snapshot_id_present'', JBool True), (''snapshot_digest_present'', JBool True),
      (''work_packet_digest_present'', JBool True), (''work_packet_metadata_present'', JBool True),
      (''device_binding_present'', JBool True),
      (''registration_revision'', json_nat (cd_device_registry_revision r)),
      (''queued_step_present'', JBool True), (''repository_material_present'', JBool False),
      (''effect_possible'', JBool False), (''side_effect_executed'', JBool False)]"

record dispatch_receipt =
  rcp_request :: coding_dispatch_request
  rcp_packet_id :: uuid
  rcp_task_id :: uuid
  rcp_step_id :: uuid

text \<open>The receipt repeats the request's fields; \<^verbatim>\<open>status\<close> has the one value queued.\<close>

definition dispatch_feature_coding ::
    "codec \<Rightarrow> coding_dispatch_request \<Rightarrow> nat \<Rightarrow> uuid \<Rightarrow> uuid \<Rightarrow> kernel
      \<Rightarrow> master_error + kernel \<times> dispatch_receipt" where
  "dispatch_feature_coding cx r now_ms task step k =
     bindE (protocol_result (validate_dispatch_request cx r)) (\<lambda>_.
     bindE (require_queue_revision_tx (cd_expected_queue_revision r) k) (\<lambda>_.
     bindE (require_emergency_pause_revision_tx (cd_expected_emergency_pause_revision r) k) (\<lambda>_.
     bindE (require_emergency_unpaused k) (\<lambda>_.
     bindE (ok_or FeatureCodingDispatchUnavailable (dispatch_binding r k)) (\<lambda>binding.
     bindE (reject_if FeatureCodingDispatchUnavailable (\<not> dispatch_binding_exact r binding)) (\<lambda>_.
     bindE (ok_or FeatureCodingDispatchUnavailable
       (find_row (\<lambda>d. dev_device_id d = cd_device_id r) (k_devices k))) (\<lambda>d.
     bindE (reject_if FeatureCodingDispatchUnavailable
       (dev_revoked d \<or> dev_role d \<noteq> InferenceWorker
        \<or> dev_registry_revision d \<noteq> cd_device_registry_revision r
        \<or> dev_capabilities d \<noteq> [local_coding])) (\<lambda>_.
     bindE (reject_if QueueFull
       (count_rows (\<lambda>s. nonterminal_status (st_status s)) (k_steps k) \<ge> MAX_QUEUED_OR_LEASED_STEPS)) (\<lambda>_.
     bindE (insert_coding_step cx r task step now_ms k) (\<lambda>k1.
     bindE (append_event cx StepQueued now_ms (step_identity task step) k1) (\<lambda>k2.
     bindE (append_audit cx ''feature_coding_dispatched'' (Some (cd_feature_id r)) now_ms
       (dispatch_metadata r) k2) (\<lambda>k3.
     Inr (k3, \<lparr>rcp_request = r, rcp_packet_id = wp_packet_id (cd_work_packet r),
               rcp_task_id = task, rcp_step_id = step\<rparr>)))))))))))))"

end
