(* ===== verification/Conveyor_Resolution.thy ===== *)
theory Conveyor_Resolution
  imports Conveyor_Lifecycle
begin

text \<open>
  How a claimed feature moves on and ends (\<^verbatim>\<open>assemblywright-master/src/lib.rs\<close>):
  \<^verbatim>\<open>advance_feature_lifecycle\<close>, \<^verbatim>\<open>cancel_active_feature_bound\<close>, \<^verbatim>\<open>mark_feature_succeeded\<close>,
  \<^verbatim>\<open>abandon_and_advance_bound\<close> and \<^verbatim>\<open>reconcile_feature_conveyor_startup\<close>, with the immutable transition
  evidence they write and read.
\<close>

section \<open>Shared checks\<close>

definition require_active_lease_tx :: "uuid \<Rightarrow> kernel \<Rightarrow> master_error + unit" where
  "require_active_lease_tx feature k =
     reject_if InvalidFeatureTransition
       (case k_active_lease k of None \<Rightarrow> True | Some l \<Rightarrow> fl_feature_id l \<noteq> feature)"

definition require_current_feature_grants_tx :: "uuid \<Rightarrow> nat \<Rightarrow> kernel \<Rightarrow> master_error + unit" where
  "require_current_feature_grants_tx feature now_ms k =
     bindE (ok_or FeatureNotFound
       (Option.bind (find_feature feature k)
          (\<lambda>f. find_specification feature (ft_current_specification_revision f) k))) (\<lambda>s.
     require_grants_tx (sp_repository_id s) (sp_grants s) now_ms k)"

definition feature_status_and_revision_tx :: "uuid \<Rightarrow> kernel \<Rightarrow> master_error + feature_status \<times> nat" where
  "feature_status_and_revision_tx feature k =
     bindE (ok_or FeatureNotFound (find_feature feature k)) (\<lambda>f.
     Inr (ft_status f, ft_lifecycle_revision f))"

definition current_status :: "uuid \<Rightarrow> nat \<Rightarrow> kernel \<Rightarrow> master_error + feature_status" where
  "current_status feature expected k =
     bindE (feature_status_and_revision_tx feature k) (\<lambda>(status, revision).
     bindE (reject_if (StaleFeatureLifecycleRevision expected revision) (revision \<noteq> expected)) (\<lambda>_.
     Inr status))"

definition require_feature_coding_work_terminal_tx :: "uuid \<Rightarrow> kernel \<Rightarrow> master_error + unit" where
  "require_feature_coding_work_terminal_tx feature k =
     reject_if FeatureCodingWorkOutstanding
       (exists_row (\<lambda>d. dp_feature_id d = feature
          \<and> (case find_step k (dp_step_id d) of None \<Rightarrow> False
             | Some s \<Rightarrow> nonterminal_status (st_status s)
                 \<or> exists_row (\<lambda>a. at_step_id a = dp_step_id d \<and> at_status a = ACancellationPending)
                     (k_attempts k))) (k_dispatches k))"

section \<open>Transition evidence\<close>

definition bare_transition ::
    "uuid \<Rightarrow> nat \<Rightarrow> feature_status \<Rightarrow> feature_status \<Rightarrow> nat \<Rightarrow> transition_row" where
  "bare_transition feature revision old new now_ms =
     \<lparr>tr_feature_id = feature, tr_lifecycle_revision = revision, tr_from_status = old,
      tr_to_status = new, tr_repository_snapshot_sha256 = None, tr_accepted_evidence_sha256 = None,
      tr_verified_main_commit_sha256 = None, tr_post_merge_evidence_sha256 = None,
      tr_safe_reconciliation_sha256 = None, tr_verified_healthy_main_sha256 = None,
      tr_recorded_at_ms = now_ms\<rparr>"

definition find_transition :: "uuid \<Rightarrow> nat \<Rightarrow> kernel \<Rightarrow> transition_row option" where
  "find_transition feature revision k =
     find_row (\<lambda>t. tr_feature_id t = feature \<and> tr_lifecycle_revision t = revision) (k_transitions k)"

definition insert_transition :: "transition_row \<Rightarrow> kernel \<Rightarrow> master_error + kernel" where
  "insert_transition t k =
     bindE (to_i64 (tr_lifecycle_revision t)) (\<lambda>_.
     bindE (to_i64 (tr_recorded_at_ms t)) (\<lambda>_.
     bindE (reject_if Storage
       (find_transition (tr_feature_id t) (tr_lifecycle_revision t) k \<noteq> None)) (\<lambda>_.
     Inr (k\<lparr>k_transitions := insert_row t (k_transitions k)\<rparr>))))"

text \<open>\<^verbatim>\<open>UPDATE feature_conveyor_features SET status = .., lifecycle_revision = lifecycle_revision + 1, ..\<close>\<close>

definition move_feature ::
    "(feature_row \<Rightarrow> bool) \<Rightarrow> feature_status \<Rightarrow> bool \<Rightarrow> nat \<Rightarrow> kernel \<Rightarrow> master_error + kernel" where
  "move_feature p status effect_possible now_ms k =
     write_features p
       (\<lambda>f. f\<lparr>ft_status := status, ft_lifecycle_revision := ft_lifecycle_revision f + 1,
              ft_effect_possible := effect_possible\<rparr>) now_ms k"

definition release_lease :: "uuid \<Rightarrow> kernel \<Rightarrow> kernel" where
  "release_lease feature k =
     k\<lparr>k_queue := filter (\<lambda>q. qu_feature_id q \<noteq> feature) (k_queue k),
       k_active_lease := (case k_active_lease k of None \<Rightarrow> None
         | Some l \<Rightarrow> if fl_feature_id l = feature then None else Some l)\<rparr>"

section \<open>Advancing\<close>

definition lifecycle_successor :: "feature_status \<Rightarrow> feature_status \<Rightarrow> bool" where
  "lifecycle_successor status next_status =
     ((status, next_status) \<in> {(FImplementing, FValidating), (FValidating, FReviewing),
        (FReviewing, FPublishing), (FPublishing, FVerifyingMain)})"

definition advance_metadata :: "feature_status \<Rightarrow> feature_status \<Rightarrow> nat \<Rightarrow> json" where
  "advance_metadata status next_status revision = JObject
     [(''from_status'', JString (status_text status)),
      (''to_status'', JString (status_text next_status)),
      (''lifecycle_revision'', json_nat revision),
      (''repository_snapshot_digest_present'', JBool True),
      (''accepted_evidence_digest_present'', JBool True),
      (''effect_possible'', JBool (next_status \<in> {FPublishing, FVerifyingMain})),
      (''side_effect_executed'', JBool False)]"

definition advance_feature_lifecycle ::
    "codec \<Rightarrow> uuid \<Rightarrow> nat \<Rightarrow> feature_status \<Rightarrow> digest \<Rightarrow> digest \<Rightarrow> nat \<Rightarrow> kernel
      \<Rightarrow> master_error + kernel \<times> snapshot_view" where
  "advance_feature_lifecycle cx feature expected next_status snapshot_sha256 accepted_sha256 now_ms k =
     bindE (reject_if (InvalidFeatureConveyorInput
         ''exact repository snapshot and accepted evidence digests are required'')
       (snapshot_sha256 = 0 \<or> accepted_sha256 = 0)) (\<lambda>_.
     bindE (require_active_lease_tx feature k) (\<lambda>_.
     bindE (require_emergency_unpaused k) (\<lambda>_.
     bindE (require_current_feature_grants_tx feature now_ms k) (\<lambda>_.
     bindE (current_status feature expected k) (\<lambda>status.
     bindE (reject_if InvalidFeatureTransition (\<not> lifecycle_successor status next_status)) (\<lambda>_.
     bindE (require_feature_coding_work_terminal_tx feature k) (\<lambda>_.
     (let mine = (\<lambda>f. ft_feature_id f = feature \<and> ft_status f = status
                    \<and> ft_lifecycle_revision f = expected) in
      bindE (move_feature mine next_status (next_status \<in> {FPublishing, FVerifyingMain}) now_ms k) (\<lambda>k1.
      bindE (reject_if InvalidFeatureTransition (count_rows mine (k_features k) \<noteq> 1)) (\<lambda>_.
      bindE (insert_transition
        ((bare_transition feature (expected + 1) status next_status now_ms)
           \<lparr>tr_repository_snapshot_sha256 := Some snapshot_sha256,
            tr_accepted_evidence_sha256 := Some accepted_sha256\<rparr>) k1) (\<lambda>k2.
      bindE (append_audit cx ''feature_lifecycle_advanced'' (Some feature) now_ms
        (advance_metadata status next_status (expected + 1)) k2) (\<lambda>k3.
      bindE (feature_snapshot feature k3) (\<lambda>snapshot. Inr (k3, snapshot))))))))))))))"

section \<open>Cancelling\<close>

text \<open>The open coding steps of a feature, \<^verbatim>\<open>ORDER BY d.dispatched_at_ms, d.step_id\<close>.\<close>

definition open_dispatches :: "uuid \<Rightarrow> kernel \<Rightarrow> (uuid \<times> uuid \<times> step_status) list" where
  "open_dispatches feature k =
     concat (map (\<lambda>d. case find_step k (dp_step_id d) of None \<Rightarrow> []
                   | Some s \<Rightarrow> if nonterminal_status (st_status s)
                       then [(dp_task_id d, dp_step_id d, st_status s)] else [])
       (sort_key dp_dispatched_at_ms (sort_key dp_step_id
          (filter (\<lambda>d. dp_feature_id d = feature) (k_dispatches k)))))"

definition cancel_dispatch ::
    "codec \<Rightarrow> nat \<Rightarrow> uuid \<times> uuid \<times> step_status \<Rightarrow> kernel \<Rightarrow> master_error + kernel" where
  "cancel_dispatch cx now_ms item k =
     (case item of (task, step, status) \<Rightarrow>
       (case status of
          SQueued \<Rightarrow>
            bindE (to_i64 now_ms) (\<lambda>_.
            append_event cx StepCancelled now_ms (step_identity task step)
              (update_steps (\<lambda>s. st_step_id s = step \<and> st_status s = SQueued)
                 (StepFinish SCancelled now_ms) k))
        | SLeased \<Rightarrow> request_leased_step_cancellation_tx cx task step now_ms k
        | _ \<Rightarrow> Inl (InvalidStoredState
            ''feature coding dispatch had an unexpected nonterminal status'')))"

definition cancel_feature_coding_dispatches_tx ::
    "codec \<Rightarrow> uuid \<Rightarrow> nat \<Rightarrow> kernel \<Rightarrow> master_error + kernel" where
  "cancel_feature_coding_dispatches_tx cx feature now_ms k =
     forE (cancel_dispatch cx now_ms) (open_dispatches feature k) k"

record resolution_binding =
  rb_feature_id :: uuid
  rb_expected_lifecycle_revision :: nat
  rb_expected_queue_revision :: nat
  rb_expected_emergency_pause_revision :: nat

text \<open>The checks that cancellation and abandonment share, in their order.\<close>

definition require_resolution_binding ::
    "codec \<Rightarrow> resolution_binding \<Rightarrow> (device_row \<times> nat) option \<Rightarrow> kernel \<Rightarrow> master_error + feature_status" where
  "require_resolution_binding cx b owner k =
     bindE (case owner of None \<Rightarrow> Inr ()
            | Some (registration, designation_revision) \<Rightarrow>
                require_owner_control_bridge_tx cx registration designation_revision k) (\<lambda>_.
     bindE (require_queue_revision_tx (rb_expected_queue_revision b) k) (\<lambda>_.
     bindE (require_emergency_pause_revision_tx (rb_expected_emergency_pause_revision b) k) (\<lambda>_.
     bindE (require_active_lease_tx (rb_feature_id b) k) (\<lambda>_.
     current_status (rb_feature_id b) (rb_expected_lifecycle_revision b) k))))"

definition cancel_metadata :: "resolution_binding \<Rightarrow> feature_status \<Rightarrow> json" where
  "cancel_metadata b status = JObject
     [(''from_status'', JString (status_text status)), (''to_status'', JString ''cancelled''),
      (''lifecycle_revision'', json_nat (rb_expected_lifecycle_revision b + 1)),
      (''queue_revision'', json_nat (rb_expected_queue_revision b)),
      (''emergency_pause_revision'', json_nat (rb_expected_emergency_pause_revision b)),
      (''lease_retained'', JBool True), (''advancement_authorized'', JBool False),
      (''effect_possible'', JBool True), (''side_effect_executed'', JBool False)]"

definition cancel_active_feature_bound ::
    "codec \<Rightarrow> resolution_binding \<Rightarrow> nat \<Rightarrow> (device_row \<times> nat) option \<Rightarrow> kernel
      \<Rightarrow> master_error + kernel \<times> snapshot_view" where
  "cancel_active_feature_bound cx b now_ms owner k =
     bindE (require_resolution_binding cx b owner k) (\<lambda>status.
     bindE (reject_if InvalidFeatureTransition (\<not> is_active_execution status)) (\<lambda>_.
     (let feature = rb_feature_id b; revision = rb_expected_lifecycle_revision b in
      bindE (move_feature (\<lambda>f. ft_feature_id f = feature) FCancelled True now_ms k) (\<lambda>k1.
      bindE (insert_transition (bare_transition feature (revision + 1) status FCancelled now_ms) k1) (\<lambda>k2.
      bindE (cancel_feature_coding_dispatches_tx cx feature now_ms k2) (\<lambda>k3.
      bindE (append_audit cx ''feature_cancelled'' (Some feature) now_ms (cancel_metadata b status) k3) (\<lambda>k4.
      bindE (feature_snapshot feature k4) (\<lambda>snapshot. Inr (k4, snapshot)))))))))"

section \<open>Success\<close>

record verified_success =
  vs_main_commit_sha256 :: digest
  vs_post_merge_evidence_sha256 :: digest
  vs_main_healthy :: bool

definition success_metadata :: "nat \<Rightarrow> nat \<Rightarrow> json" where
  "success_metadata revision queue_revision = JObject
     [(''from_status'', JString ''verifying_main''), (''to_status'', JString ''succeeded''),
      (''lifecycle_revision'', json_nat revision), (''queue_revision'', json_nat queue_revision),
      (''verified_main_commit_digest_present'', JBool True),
      (''post_merge_evidence_digest_present'', JBool True), (''main_healthy'', JBool True),
      (''lease_released'', JBool True), (''effect_possible'', JBool False),
      (''side_effect_executed'', JBool False)]"

definition mark_feature_succeeded ::
    "codec \<Rightarrow> uuid \<Rightarrow> nat \<Rightarrow> nat \<Rightarrow> verified_success \<Rightarrow> nat \<Rightarrow> kernel
      \<Rightarrow> master_error + kernel \<times> snapshot_view" where
  "mark_feature_succeeded cx feature expected expected_queue success now_ms k =
     bindE (reject_if VerifiedHealthyMainRequired
       (\<not> vs_main_healthy success \<or> vs_main_commit_sha256 success = 0
        \<or> vs_post_merge_evidence_sha256 success = 0)) (\<lambda>_.
     bindE (require_queue_revision_tx expected_queue k) (\<lambda>_.
     bindE (require_active_lease_tx feature k) (\<lambda>_.
     bindE (require_current_feature_grants_tx feature now_ms k) (\<lambda>_.
     bindE (current_status feature expected k) (\<lambda>status.
     bindE (reject_if InvalidFeatureTransition (status \<noteq> FVerifyingMain)) (\<lambda>_.
     bindE (move_feature (\<lambda>f. ft_feature_id f = feature) FSucceeded False now_ms k) (\<lambda>k1.
     bindE (insert_transition
       ((bare_transition feature (expected + 1) FVerifyingMain FSucceeded now_ms)
          \<lparr>tr_verified_main_commit_sha256 := Some (vs_main_commit_sha256 success),
           tr_post_merge_evidence_sha256 := Some (vs_post_merge_evidence_sha256 success)\<rparr>) k1) (\<lambda>k2.
     bindE (increment_queue_revision_tx expected_queue (release_lease feature k2)) (\<lambda>(k3, next).
     bindE (append_audit cx ''feature_succeeded'' (Some feature) now_ms
       (success_metadata (expected + 1) next) k3) (\<lambda>k4.
     bindE (feature_snapshot feature k4) (\<lambda>snapshot. Inr (k4, snapshot))))))))))))"

section \<open>Abandonment\<close>

record abandonment_evidence =
  ab_safe_reconciliation_sha256 :: digest
  ab_merged :: bool
  ab_verified_healthy_main_sha256 :: "digest option"

definition resolution_status :: "feature_status \<Rightarrow> bool" where
  "resolution_status status =
     (status \<in> {FCancelled, FQuarantined, FAttentionRequired, FFailed})"

definition no_digests :: "transition_row \<Rightarrow> bool" where
  "no_digests t =
     (tr_repository_snapshot_sha256 t = None \<and> tr_accepted_evidence_sha256 t = None
      \<and> tr_verified_main_commit_sha256 t = None \<and> tr_post_merge_evidence_sha256 t = None
      \<and> tr_safe_reconciliation_sha256 t = None \<and> tr_verified_healthy_main_sha256 t = None)"

definition verified_main_transition :: "transition_row \<Rightarrow> bool" where
  "verified_main_transition t =
     (tr_from_status t = FPublishing \<and> tr_to_status t = FVerifyingMain
      \<and> (case tr_repository_snapshot_sha256 t of None \<Rightarrow> False | Some digest \<Rightarrow> digest \<noteq> 0)
      \<and> (case tr_accepted_evidence_sha256 t of None \<Rightarrow> False | Some digest \<Rightarrow> digest \<noteq> 0)
      \<and> tr_verified_main_commit_sha256 t = None \<and> tr_post_merge_evidence_sha256 t = None
      \<and> tr_safe_reconciliation_sha256 t = None \<and> tr_verified_healthy_main_sha256 t = None)"

definition feature_resolution_origin_tx ::
    "uuid \<Rightarrow> feature_status \<Rightarrow> nat \<Rightarrow> kernel \<Rightarrow> master_error + feature_status" where
  "feature_resolution_origin_tx feature status revision k =
     bindE (to_i64 revision) (\<lambda>_.
     bindE (ok_or (InvalidStoredState ''feature resolution transition evidence is missing'')
       (find_transition feature revision k)) (\<lambda>t.
     bindE (reject_if (InvalidStoredState ''feature resolution transition evidence is malformed'')
       (\<not> resolution_status status \<or> tr_to_status t \<noteq> status
        \<or> \<not> is_active_execution (tr_from_status t) \<or> \<not> no_digests t)) (\<lambda>_.
     if tr_from_status t = FVerifyingMain
     then
       bindE (ok_or (InvalidStoredState
           ''verified-main resolution evidence revision underflowed'')
         (checked_sub_u64 revision 1)) (\<lambda>prior_revision.
       bindE (ok_or (InvalidStoredState ''verified-main transition evidence is missing'')
         (find_transition feature prior_revision k)) (\<lambda>prior.
       bindE (reject_if (InvalidStoredState ''verified-main transition evidence is malformed'')
         (\<not> verified_main_transition prior)) (\<lambda>_.
       Inr (tr_from_status t))))
     else Inr (tr_from_status t))))"

definition publication_merge_effect_possible_tx :: "uuid \<Rightarrow> kernel \<Rightarrow> bool" where
  "publication_merge_effect_possible_tx feature k =
     exists_row (\<lambda>p. pb_feature_id p = feature
         \<and> exists_row (\<lambda>i. pi_publication_id i = pb_publication_id p \<and> pi_action_kind i = MergePullRequest)
             (k_publication_intents k)) (k_publications k)"

definition healthy_main_missing :: "abandonment_evidence \<Rightarrow> bool" where
  "healthy_main_missing e =
     (case ab_verified_healthy_main_sha256 e of None \<Rightarrow> True | Some digest \<Rightarrow> digest = 0)"

definition abandon_metadata ::
    "resolution_binding \<Rightarrow> abandonment_evidence \<Rightarrow> feature_status \<Rightarrow> feature_status \<Rightarrow> bool \<Rightarrow> nat \<Rightarrow> json" where
  "abandon_metadata b e status origin merge_possible queue_revision = JObject
     [(''from_status'', JString (status_text status)), (''to_status'', JString ''abandoned''),
      (''lifecycle_revision'', json_nat (rb_expected_lifecycle_revision b + 1)),
      (''queue_revision'', json_nat queue_revision),
      (''emergency_pause_revision'', json_nat (rb_expected_emergency_pause_revision b)),
      (''safe_reconciliation_digest_present'', JBool True), (''merged'', JBool (ab_merged e)),
      (''merged_required_by_durable_transition'', JBool (origin = FVerifyingMain)),
      (''merged_required_by_publication_intent'', JBool merge_possible),
      (''verified_healthy_main_digest_present'',
         JBool (ab_verified_healthy_main_sha256 e \<noteq> None)),
      (''lease_released'', JBool True), (''effect_possible'', JBool False),
      (''side_effect_executed'', JBool False)]"

definition abandon_and_advance_bound ::
    "codec \<Rightarrow> resolution_binding \<Rightarrow> abandonment_evidence \<Rightarrow> nat \<Rightarrow> (device_row \<times> nat) option \<Rightarrow> kernel
      \<Rightarrow> master_error + kernel \<times> snapshot_view" where
  "abandon_and_advance_bound cx b e now_ms owner k =
     bindE (reject_if (InvalidFeatureConveyorInput ''safe reconciliation proof is required'')
       (ab_safe_reconciliation_sha256 e = 0)) (\<lambda>_.
     bindE (reject_if (InvalidFeatureConveyorInput
         ''present healthy-main evidence must have an exact nonzero digest'')
       (ab_verified_healthy_main_sha256 e = Some 0)) (\<lambda>_.
     bindE (reject_if VerifiedHealthyMainRequired (ab_merged e \<and> healthy_main_missing e)) (\<lambda>_.
     bindE (require_resolution_binding cx b owner k) (\<lambda>status.
     bindE (reject_if InvalidFeatureTransition (\<not> resolution_status status)) (\<lambda>_.
     (let feature = rb_feature_id b; revision = rb_expected_lifecycle_revision b in
      bindE (feature_resolution_origin_tx feature status revision k) (\<lambda>origin.
      (let merge_possible = publication_merge_effect_possible_tx feature k in
       bindE (reject_if VerifiedHealthyMainRequired
         ((origin = FVerifyingMain \<or> merge_possible) \<and> (\<not> ab_merged e \<or> healthy_main_missing e))) (\<lambda>_.
       bindE (move_feature (\<lambda>f. ft_feature_id f = feature) FAbandoned False now_ms k) (\<lambda>k1.
       bindE (insert_transition
         ((bare_transition feature (revision + 1) status FAbandoned now_ms)
            \<lparr>tr_safe_reconciliation_sha256 := Some (ab_safe_reconciliation_sha256 e),
             tr_verified_healthy_main_sha256 := ab_verified_healthy_main_sha256 e\<rparr>) k1) (\<lambda>k2.
       bindE (increment_queue_revision_tx (rb_expected_queue_revision b) (release_lease feature k2)) (\<lambda>(k3, next).
       bindE (append_audit cx ''feature_abandoned'' (Some feature) now_ms
         (abandon_metadata b e status origin merge_possible next) k3) (\<lambda>k4.
       bindE (feature_snapshot feature k4) (\<lambda>snapshot. Inr (k4, snapshot)))))))))))))))"

section \<open>Restart\<close>

definition orchestration_paused_checkpoint_is_restart_safe_tx :: "uuid \<Rightarrow> nat \<Rightarrow> kernel \<Rightarrow> bool" where
  "orchestration_paused_checkpoint_is_restart_safe_tx feature lifecycle_revision k =
     (k_orchestration_activated k
      \<and> exists_row (\<lambda>s. or_feature_id s = feature \<and> or_stage s = OsPaused \<and> or_pause_kind s \<noteq> None
          \<and> or_resume_stage s \<noteq> None \<and> or_clock_started_at_ms s = None \<and> \<not> or_effect_possible s
          \<and> exists_row (\<lambda>c. ck_checkpoint_id c = or_checkpoint_id s \<and> \<not> ck_effect_possible c
              \<and> ck_lifecycle_revision c = lifecycle_revision
              \<and> ck_orchestration_revision c = or_orchestration_revision s \<and> ck_stage c = OsPaused)
            (k_checkpoints k)) (k_orchestration k))"

definition quarantine_metadata :: "feature_status \<Rightarrow> nat \<Rightarrow> json" where
  "quarantine_metadata status revision = JObject
     [(''from_status'', JString (status_text status)), (''to_status'', JString ''quarantined''),
      (''lifecycle_revision'', json_nat revision), (''lease_retained'', JBool True),
      (''automatic_retry_authorized'', JBool False), (''effect_possible'', JBool True),
      (''side_effect_executed'', JBool False)]"

text \<open>
  The revision is incremented on an \<^verbatim>\<open>i64\<close> here; at its maximum the increment wraps (or panics) and the
  row's \<^verbatim>\<open>CHECK\<close> refuses it, a \<open>Storage\<close> error.
\<close>

definition quarantine_feature ::
    "codec \<Rightarrow> feature_row \<Rightarrow> nat \<Rightarrow> kernel \<Rightarrow> master_error + kernel" where
  "quarantine_feature cx f now_ms k =
     (let feature = ft_feature_id f; status = ft_status f; revision = ft_lifecycle_revision f;
          mine = (\<lambda>g. ft_feature_id g = feature \<and> ft_status g = status
                    \<and> ft_lifecycle_revision g = revision) in
      bindE (move_feature mine FQuarantined True now_ms k) (\<lambda>k1.
      bindE (reject_if (InvalidStoredState ''active feature changed during startup quarantine'')
        (count_rows mine (k_features k) \<noteq> 1)) (\<lambda>_.
      bindE (reject_if Storage (revision \<ge> i64_max)) (\<lambda>_.
      bindE (insert_transition (bare_transition feature (revision + 1) status FQuarantined now_ms) k1) (\<lambda>k2.
      append_audit cx ''feature_startup_quarantined'' (Some feature) now_ms
        (quarantine_metadata status (revision + 1)) k2)))))"

definition reconcile_feature_conveyor_startup ::
    "codec \<Rightarrow> nat \<Rightarrow> kernel \<Rightarrow> master_error + kernel \<times> nat" where
  "reconcile_feature_conveyor_startup cx now_ms k =
     (case Option.bind (k_active_lease k) (\<lambda>l. find_feature (fl_feature_id l) k) of
        None \<Rightarrow> Inr (k, 0)
      | Some f \<Rightarrow>
          (let resumable = ft_status f = FPaused
                 \<and> orchestration_paused_checkpoint_is_restart_safe_tx (ft_feature_id f)
                     (ft_lifecycle_revision f) k in
           if is_active_execution (ft_status f) \<and> \<not> resumable
           then bindE (quarantine_feature cx f now_ms k) (\<lambda>k'. Inr (k', 1))
           else Inr (k, 0)))"

end
