(* ===== verification/Conveyor_Effects.thy ===== *)
theory Conveyor_Effects
  imports Conveyor_Resolution Kernel_Machine
begin

text \<open>
  What each successful operation of the Feature Conveyor has checked and written. Every lemma gives
  the new state as an update of the old one, so that the proofs about invariants and runs never
  unfold an operation again.
\<close>

section \<open>Primitive writes\<close>

lemma audit_effect:
  "append_audit cx kind f now m k = Inr k' \<Longrightarrow> \<exists>row. k' = k\<lparr>k_audit := insert_row row (k_audit k)\<rparr>"
  by (rule append_audit_Inr)

lemma audit_row:
  "append_audit cx kind f now m k = Inr k' \<Longrightarrow>
     k' = k\<lparr>k_audit := insert_row \<lparr>au_event_kind = kind, au_feature_id = f, au_occurred_at_ms = now,
       au_metadata = m\<rparr> (k_audit k)\<rparr>"
  by (simp add: append_audit_def result_simps)

lemma write_features_Inr [result_simps]:
  "write_features p u now k = Inr k' \<longleftrightarrow>
     now \<le> i64_max \<and> (\<forall>f \<in> set (k_features k). p f \<longrightarrow> ft_created_at_ms f \<le> now)
     \<and> k' = k\<lparr>k_features := update_rows p (\<lambda>f. (u f)\<lparr>ft_updated_at_ms := now\<rparr>) (k_features k)\<rparr>"
  by (auto simp: write_features_def result_simps row_simps not_less)

definition moved :: "feature_status \<Rightarrow> bool \<Rightarrow> nat \<Rightarrow> feature_row \<Rightarrow> feature_row" where
  "moved status effect_possible now f =
     f\<lparr>ft_status := status, ft_lifecycle_revision := ft_lifecycle_revision f + 1,
       ft_effect_possible := effect_possible, ft_updated_at_ms := now\<rparr>"

lemma moved_simps [simp]:
  "ft_feature_id (moved s e now f) = ft_feature_id f"
  "ft_current_specification_revision (moved s e now f) = ft_current_specification_revision f"
  "ft_lifecycle_revision (moved s e now f) = Suc (ft_lifecycle_revision f)"
  "ft_status (moved s e now f) = s"
  "ft_queue_position (moved s e now f) = ft_queue_position f"
  "ft_effect_possible (moved s e now f) = e"
  "ft_created_at_ms (moved s e now f) = ft_created_at_ms f"
  by (simp_all add: moved_def)

lemma move_feature_Inr [result_simps]:
  "move_feature p s e now k = Inr k' \<longleftrightarrow>
     now \<le> i64_max \<and> (\<forall>f \<in> set (k_features k). p f \<longrightarrow> ft_created_at_ms f \<le> now)
     \<and> k' = k\<lparr>k_features := update_rows p (moved s e now) (k_features k)\<rparr>"
  by (simp add: move_feature_def write_features_Inr moved_def [abs_def])

lemma insert_transition_Inr [result_simps]:
  "insert_transition t k = Inr k' \<longleftrightarrow>
     tr_lifecycle_revision t \<le> i64_max \<and> tr_recorded_at_ms t \<le> i64_max
     \<and> find_transition (tr_feature_id t) (tr_lifecycle_revision t) k = None
     \<and> k' = k\<lparr>k_transitions := k_transitions k @ [t]\<rparr>"
  by (auto simp: insert_transition_def result_simps insert_row_def)

lemma require_active_lease_Inr [result_simps]:
  "require_active_lease_tx f k = Inr u \<longleftrightarrow> (\<exists>l. k_active_lease k = Some l \<and> fl_feature_id l = f)"
  by (auto simp: require_active_lease_tx_def result_simps split: option.splits)

lemma current_status_Inr [result_simps]:
  "current_status feature expected k = Inr s \<longleftrightarrow>
     (\<exists>f. find_feature feature k = Some f \<and> ft_lifecycle_revision f = expected \<and> s = ft_status f)"
  by (auto simp: current_status_def feature_status_and_revision_tx_def result_simps split: prod.splits)

lemma feature_snapshot_Inr:
  "feature_snapshot i k = Inr s \<Longrightarrow> \<exists>f. find_feature i k = Some f \<and> fs_status s = ft_status f
    \<and> fs_lifecycle_revision s = ft_lifecycle_revision f \<and> fs_active_lease_id s = lease_of i k"
  by (auto simp: feature_snapshot_def result_simps)

lemma find_feature_Some:
  "find_feature i k = Some f \<Longrightarrow> f \<in> set (k_features k) \<and> ft_feature_id f = i"
  by (auto simp: find_feature_def dest: find_row_Some)

lemma find_transition_Some:
  "find_transition i r k = Some t \<Longrightarrow> t \<in> set (k_transitions k) \<and> tr_feature_id t = i \<and> tr_lifecycle_revision t = r"
  by (auto simp: find_transition_def dest: find_row_Some)

section \<open>Claim\<close>

lemma queue_head_Some:
  assumes "queue_head k = Some f"
  shows "f \<in> set (k_features k)" "ft_status f = FQueued" "\<exists>rest. queue_order k = ft_feature_id f # rest"
  using assms by (auto simp: queue_head_def split: list.splits dest: find_row_Some)

definition claimed_row :: "nat \<Rightarrow> feature_row \<Rightarrow> feature_row" where
  "claimed_row now f =
     f\<lparr>ft_status := FImplementing, ft_lifecycle_revision := ft_lifecycle_revision f + 1,
       ft_updated_at_ms := now\<rparr>"

lemma require_plan_Inr:
  assumes "require_snapshot_claim_plan_tx plan now k = Inr u"
  shows "\<exists>head stored. queue_head k = Some head \<and> ft_feature_id head = pl_feature_id plan
    \<and> ft_current_specification_revision head = pl_specification_revision plan
    \<and> k_active_lease k = None \<and> k_emergency_paused k = 0
    \<and> k_queue_revision k = pl_expected_queue_revision plan
    \<and> k_emergency_pause_revision k = pl_expected_emergency_pause_revision plan
    \<and> \<not> dependency_blocked (pl_feature_id plan) k
    \<and> find_specification (pl_feature_id plan) (pl_specification_revision plan) k = Some stored
    \<and> sp_repository_id stored = pl_repository_id plan \<and> sp_grants stored = pl_grants plan
    \<and> sp_provider_id stored = pl_provider_id plan \<and> sp_model_id stored = pl_model_id plan
    \<and> require_repository_preflight_binding (pl_repository_id plan) (gr_registration (pl_grants plan))
        (pl_scope_sha256 plan) (pl_expected_emergency_pause_revision plan) now k = Inr ()
    \<and> require_grants_tx (pl_repository_id plan) (pl_grants plan) now k = Inr ()"
proof -
  from assms obtain head stored where
    "require_queue_revision_tx (pl_expected_queue_revision plan) k = Inr ()"
    "require_unpaused_revision_tx (pl_expected_emergency_pause_revision plan) k = Inr ()"
    "require_repository_preflight_binding (pl_repository_id plan) (gr_registration (pl_grants plan))
      (pl_scope_sha256 plan) (pl_expected_emergency_pause_revision plan) now k = Inr ()"
    "k_active_lease k = None" "queue_head k = Some head"
    "ft_feature_id head = pl_feature_id plan"
    "ft_current_specification_revision head = pl_specification_revision plan"
    "\<not> dependency_blocked (ft_feature_id head) k"
    "find_specification (ft_feature_id head) (ft_current_specification_revision head) k = Some stored"
    "sp_repository_id stored = pl_repository_id plan \<and> sp_grants stored = pl_grants plan
      \<and> sp_provider_id stored = pl_provider_id plan \<and> sp_model_id stored = pl_model_id plan"
    "require_grants_tx (pl_repository_id plan) (pl_grants plan) now k = Inr ()"
    unfolding require_snapshot_claim_plan_tx_def bindE_Inr_iff reject_if_Inr_iff ok_or_Inr_iff
    by auto
  then show ?thesis by (simp add: require_queue_revision_Inr require_unpaused_revision_Inr)
qed

lemma insert_claim_Inr:
  "insert_claim plan snapshot lease now k = Inr k' \<Longrightarrow>
     now \<le> i64_max
     \<and> (\<forall>c \<in> set (k_claims k). cl_snapshot_id c \<noteq> se_snapshot_id snapshot \<and> cl_lease_id c \<noteq> lease)
     \<and> k' = k\<lparr>k_claims := k_claims k @ [claim_row_of plan snapshot lease now],
           k_active_lease := Some \<lparr>fl_feature_id = pl_feature_id plan, fl_lease_id = lease,
             fl_snapshot_id = Some (se_snapshot_id snapshot), fl_claimed_at_ms = now\<rparr>\<rparr>"
  by (simp add: insert_claim_def result_simps row_simps insert_row_def)

lemma claim_effect:
  assumes "finalize_repository_snapshot_claim cx plan snapshot now lease k = Inr (k', claim)"
  shows "\<exists>row. require_snapshot_claim_plan_tx plan now k = Inr () \<and> Suc (k_queue_revision k) \<le> i64_max
    \<and> validate_snapshot_claim_plan plan now = Inr ()
    \<and> se_snapshot_id snapshot \<noteq> 0 \<and> se_base_commit snapshot = pl_base_commit plan \<and> now \<le> i64_max
    \<and> (\<forall>c \<in> set (k_claims k). cl_snapshot_id c \<noteq> se_snapshot_id snapshot \<and> cl_lease_id c \<noteq> lease)
    \<and> k' = k\<lparr>k_claims := k_claims k @ [claim_row_of plan snapshot lease now],
           k_active_lease := Some \<lparr>fl_feature_id = pl_feature_id plan, fl_lease_id = lease,
             fl_snapshot_id = Some (se_snapshot_id snapshot), fl_claimed_at_ms = now\<rparr>,
           k_features := update_rows
             (\<lambda>f. ft_feature_id f = pl_feature_id plan \<and> ft_status f = FQueued) (claimed_row now) (k_features k),
           k_queue_revision := Suc (k_queue_revision k),
           k_audit := insert_row row (k_audit k)\<rparr>
    \<and> fc_lease_id claim = lease \<and> fc_feature_id claim = pl_feature_id plan
    \<and> fc_snapshot_id claim = se_snapshot_id snapshot"
proof -
  let ?mine = "\<lambda>f. ft_feature_id f = pl_feature_id plan \<and> ft_status f = FQueued"
  from assms obtain k1 k2 k3 n k4 and f :: feature_row where
    1: "validate_snapshot_claim_plan plan now = Inr ()"
      "se_snapshot_id snapshot \<noteq> 0 \<and> se_snapshot_sha256 snapshot \<noteq> 0
        \<and> se_base_commit snapshot = pl_base_commit plan"
      "require_snapshot_claim_plan_tx plan now k = Inr ()"
    and 2: "insert_claim plan snapshot lease now k = Inr k1"
    and 3: "write_features ?mine
        (\<lambda>f. f\<lparr>ft_status := FImplementing, ft_lifecycle_revision := ft_lifecycle_revision f + 1\<rparr>)
        now k1 = Inr k2"
    and 4: "increment_queue_revision_tx (pl_expected_queue_revision plan) k2 = Inr (k3, n)"
    and 5: "append_audit cx ''feature_snapshot_claimed'' (Some (pl_feature_id plan)) now
        (claim_metadata plan (ft_lifecycle_revision f) n) k3 = Inr k4"
    and 6: "k' = k4" "fc_lease_id claim = lease" "fc_feature_id claim = pl_feature_id plan"
      "fc_snapshot_id claim = se_snapshot_id snapshot"
    unfolding finalize_repository_snapshot_claim_def Let_def bindE_Inr_iff reject_if_Inr_iff ok_or_Inr_iff
    by (auto simp: bindE_Inr_iff)
  have k2: "k2 = k1\<lparr>k_features := update_rows ?mine (claimed_row now) (k_features k1)\<rparr>"
    using 3 by (simp add: write_features_Inr claimed_row_def [abs_def])
  show ?thesis
    using 1 insert_claim_Inr [OF 2] 4 audit_effect [OF 5] 6 unfolding k2 by (auto simp: increment_queue_revision_Inr)
qed

section \<open>Dispatch\<close>

lemma insert_coding_step_Inr:
  "insert_coding_step cx r task step now k = Inr k' \<Longrightarrow>
     0 < now \<and> now \<le> i64_max
     \<and> (\<forall>s \<in> set (k_steps k). st_step_id s \<noteq> step)
     \<and> (\<forall>d \<in> set (k_dispatches k). dp_packet_id d \<noteq> wp_packet_id (cd_work_packet r) \<and> dp_step_id d \<noteq> step)
     \<and> cd_specification_revision r \<le> i64_max \<and> cd_expected_lifecycle_revision r \<le> i64_max
     \<and> cd_device_registry_revision r \<le> i64_max \<and> cd_expected_queue_revision r \<le> i64_max
     \<and> cd_expected_emergency_pause_revision r \<le> i64_max
     \<and> k' = k\<lparr>k_steps := k_steps k @ [coding_step_row cx r task step now],
           k_dispatches := k_dispatches k @ [dispatch_row_of r task step now]\<rparr>"
  by (simp add: insert_coding_step_def result_simps row_simps insert_row_def)

lemma dispatch_effect:
  assumes "dispatch_feature_coding cx r now task step k = Inr (k', receipt)"
  shows "\<exists>f l c d k1 k2 row. validate_dispatch_request cx r = Inr ()
    \<and> k_queue_revision k = cd_expected_queue_revision r
    \<and> k_emergency_pause_revision k = cd_expected_emergency_pause_revision r
    \<and> k_emergency_paused k = 0
    \<and> dispatch_binding r k = Some (f, l, c) \<and> dispatch_binding_exact r (f, l, c)
    \<and> find_row (\<lambda>d. dev_device_id d = cd_device_id r) (k_devices k) = Some d \<and> \<not> dev_revoked d
    \<and> dev_registry_revision d = cd_device_registry_revision r \<and> dev_role d = InferenceWorker
    \<and> dev_capabilities d = [local_coding]
    \<and> open_steps (k_steps k) < MAX_QUEUED_OR_LEASED_STEPS
    \<and> insert_coding_step cx r task step now k = Inr k1
    \<and> append_event cx StepQueued now (step_identity task step) k1 = Inr k2
    \<and> k' = k2\<lparr>k_audit := insert_row row (k_audit k2)\<rparr>
    \<and> rcp_task_id receipt = task \<and> rcp_step_id receipt = step"
proof -
  from assms obtain f l c d k1 k2 k3 where
    "validate_dispatch_request cx r = Inr ()"
    "require_queue_revision_tx (cd_expected_queue_revision r) k = Inr ()"
    "require_emergency_pause_revision_tx (cd_expected_emergency_pause_revision r) k = Inr ()"
    "require_emergency_unpaused k = Inr ()"
    "dispatch_binding r k = Some (f, l, c)" "dispatch_binding_exact r (f, l, c)"
    "find_row (\<lambda>d. dev_device_id d = cd_device_id r) (k_devices k) = Some d" "\<not> dev_revoked d"
    "dev_registry_revision d = cd_device_registry_revision r" "dev_role d = InferenceWorker"
    "dev_capabilities d = [local_coding]"
    "\<not> MAX_QUEUED_OR_LEASED_STEPS \<le> count_rows (\<lambda>s. nonterminal_status (st_status s)) (k_steps k)"
    "insert_coding_step cx r task step now k = Inr k1"
    "append_event cx StepQueued now (step_identity task step) k1 = Inr k2"
    "append_audit cx ''feature_coding_dispatched'' (Some (cd_feature_id r)) now (dispatch_metadata r) k2 = Inr k3"
    "k' = k3" "rcp_task_id receipt = task" "rcp_step_id receipt = step"
    unfolding dispatch_feature_coding_def bindE_Inr_iff reject_if_Inr_iff ok_or_Inr_iff protocol_result_Inr
    by auto
  moreover from audit_effect [OF this(15)] obtain row where "k3 = k2\<lparr>k_audit := insert_row row (k_audit k2)\<rparr>" by blast
  ultimately show ?thesis
    by (auto simp: require_queue_revision_Inr require_emergency_pause_revision_Inr
        require_emergency_unpaused_Inr open_steps_def)
qed

section \<open>Grants and the owner bridge\<close>

definition grant_row_of :: "grant_revision \<Rightarrow> nat \<Rightarrow> grant_row" where
  "grant_row_of g now =
     \<lparr>gt_repository_id = gv_repository_id g, gt_kind = gv_kind g, gt_revision = gv_revision g,
      gt_scope_sha256 = gv_scope_sha256 g, gt_owner_approval_sha256 = gv_owner_approval_sha256 g,
      gt_expires_at_ms = gv_expires_at_ms g, gt_revoked = gv_revoked g, gt_created_at_ms = now\<rparr>"

lemma grant_effect:
  assumes "record_repository_grant_revision cx g expected pause now k = Inr k'"
  shows "\<exists>row. gv_revision g = Suc (newest_revision (gv_repository_id g) (gv_kind g) k)
    \<and> expected = newest_revision (gv_repository_id g) (gv_kind g) k
    \<and> (gv_revoked g \<or> k_emergency_paused k = 0) \<and> k_emergency_pause_revision k = pause
    \<and> k' = k\<lparr>k_grants := k_grants k @ [grant_row_of g now], k_audit := insert_row row (k_audit k)\<rparr>"
proof -
  from assms have 1: "require_emergency_pause_revision_tx pause k = Inr ()"
    and 2: "(if \<not> gv_revoked g then require_emergency_unpaused k else Inr ()) = Inr ()"
    and 3: "newest_revision (gv_repository_id g) (gv_kind g) k = expected"
    and 4: "gv_revision g = Suc expected"
    and ins: "insert_repository_grant_revision_tx cx g now k = Inr k'"
    unfolding record_repository_grant_revision_def Let_def bindE_Inr_iff reject_if_Inr_iff ok_or_Inr_iff
    by (auto simp: checked_add_u64_Some)
  have 5: "gv_revoked g \<or> k_emergency_paused k = 0"
    using 2 by (cases "gv_revoked g") (simp_all add: require_emergency_unpaused_Inr)
  from ins obtain m where "append_audit cx ''repository_grant_revision_recorded'' None now m
      (k\<lparr>k_grants := insert_row (grant_row_of g now) (k_grants k)\<rparr>) = Inr k'"
    unfolding insert_repository_grant_revision_tx_def bindE_Inr_iff grant_row_of_def by blast
  from audit_effect [OF this] obtain row where
    "k' = k\<lparr>k_grants := k_grants k @ [grant_row_of g now], k_audit := insert_row row (k_audit k)\<rparr>"
    by (auto simp: insert_row_def)
  then show ?thesis
    using 1 3 4 5 by (intro exI [of _ row] conjI) (simp_all add: require_emergency_pause_revision_Inr)
qed

lemma designate_effect:
  assumes "designate_owner_control_bridge cx device expected now k = Inr (k', d)"
  shows "\<exists>row. k' = k\<lparr>k_owner_bridge := \<lparr>ob_device_id = Some device,
      ob_registry_revision = Some (ds_registry_revision d), ob_designation_revision = Suc expected\<rparr>,
      k_audit := insert_row row (k_audit k)\<rparr>
    \<and> ob_designation_revision (k_owner_bridge k) = expected"
proof -
  from assms obtain registration m k1 where
    "ob_designation_revision (k_owner_bridge k) = expected"
    "append_audit cx ''owner_control_bridge_designated'' None now m
       (k\<lparr>k_owner_bridge := \<lparr>ob_device_id = Some device,
            ob_registry_revision = Some (dev_registry_revision (registration :: device_row)),
            ob_designation_revision = Suc expected\<rparr>\<rparr>) = Inr k1"
    "k' = k1" "ds_registry_revision d = dev_registry_revision registration"
    unfolding designate_owner_control_bridge_def Let_def bindE_Inr_iff reject_if_Inr_iff ok_or_Inr_iff
    by (auto simp: checked_add_u64_Some)
  then show ?thesis using audit_effect by fastforce
qed

lemma preflight_effect:
  assumes "record_repository_preflight cx repository revision scope pause now k = Inr k'"
  shows "\<exists>row. k' = k\<lparr>k_audit := insert_row row (k_audit k)\<rparr>"
  using assms unfolding record_repository_preflight_def
  by (auto simp: result_simps dest!: audit_effect)

section \<open>Enqueueing and reordering\<close>

lemma insert_dependencies_Inr:
  "forE (insert_dependency feature) ds rows = Inr rows' \<Longrightarrow>
     rows' = rows @ map (\<lambda>d. \<lparr>dn_feature_id = feature, dn_dependency_feature_id = d\<rparr>) ds"
proof (induction ds arbitrary: rows)
  case Nil
  then show ?case by simp
next
  case (Cons d ds)
  from Cons.prems have "forE (insert_dependency feature) ds
      (rows @ [\<lparr>dn_feature_id = feature, dn_dependency_feature_id = d\<rparr>]) = Inr rows'"
    by (auto simp: insert_dependency_def [of _ d] result_simps insert_row_def)
  from Cons.IH [OF this] show ?case by simp
qed

lemma enqueue_commit_effect:
  assumes "enqueue_commit cx spec canonical expected now owner k = Inr k'"
  shows "\<exists>row. let position = Suc (last_position (k_queue k)) in
    position \<le> i64_max \<and> now \<le> i64_max \<and> find_feature (as_feature_id spec) k = None
    \<and> (\<forall>s \<in> set (k_specifications k). sp_feature_id s = as_feature_id spec \<longrightarrow> sp_revision s \<noteq> as_revision spec)
    \<and> (\<forall>q \<in> set (k_queue k). qu_feature_id q \<noteq> as_feature_id spec \<and> qu_queue_position q \<noteq> position)
    \<and> k_queue_revision k = expected \<and> Suc expected \<le> i64_max
    \<and> au_event_kind row = ''feature_enqueued'' \<and> au_feature_id row = Some (as_feature_id spec)
    \<and> au_occurred_at_ms row = now
    \<and> au_metadata row = feature_enqueue_audit_metadata cx spec expected (Suc expected) position owner
    \<and> k' = k\<lparr>k_specifications := k_specifications k @ [specification_row_of spec canonical now],
         k_features := k_features k @ [queued_feature spec position now],
         k_queue := k_queue k @ [\<lparr>qu_feature_id = as_feature_id spec, qu_queue_position = position\<rparr>],
         k_dependencies := k_dependencies k @ map (\<lambda>d. \<lparr>dn_feature_id = as_feature_id spec,
           dn_dependency_feature_id = d\<rparr>) (as_dependencies spec),
         k_queue_revision := Suc expected, k_audit := insert_row row (k_audit k)\<rparr>"
proof -
  let ?position = "last_position (k_queue k) + 1"
  from assms obtain k1 ds k3 n where
    1: "insert_specification spec canonical now k = Inr k1"
    and 2: "\<not> ?position > i64_max" "find_feature (as_feature_id spec) k1 = None"
      "\<not> exists_row (\<lambda>q. qu_feature_id q = as_feature_id spec \<or> qu_queue_position q = ?position) (k_queue k1)"
    and 3: "forE (insert_dependency (as_feature_id spec)) (as_dependencies spec) (k_dependencies k1) = Inr ds"
    and 4: "increment_queue_revision_tx expected
        (k1\<lparr>k_features := insert_row (queued_feature spec ?position now) (k_features k1),
            k_queue := insert_row \<lparr>qu_feature_id = as_feature_id spec, qu_queue_position = ?position\<rparr>
                         (k_queue k1), k_dependencies := ds\<rparr>) = Inr (k3, n)"
    and 5: "append_audit cx ''feature_enqueued'' (Some (as_feature_id spec)) now
        (feature_enqueue_audit_metadata cx spec expected n ?position owner) k3 = Inr k'"
    unfolding enqueue_commit_def Let_def bindE_Inr_iff reject_if_Inr_iff by (auto simp: bindE_Inr_iff)
  have k1: "k1 = k\<lparr>k_specifications := k_specifications k @ [specification_row_of spec canonical now]\<rparr>"
    and s: "\<forall>s \<in> set (k_specifications k). sp_feature_id s = as_feature_id spec \<longrightarrow> sp_revision s \<noteq> as_revision spec"
    and now: "now \<le> i64_max"
    using 1 by (auto simp: insert_specification_def result_simps row_simps insert_row_def)
  show ?thesis
    using 2 insert_dependencies_Inr [OF 3] 4 audit_row [OF 5] s now
    by (intro exI [of _ "\<lparr>au_event_kind = ''feature_enqueued'', au_feature_id = Some (as_feature_id spec),
          au_occurred_at_ms = now, au_metadata =
            feature_enqueue_audit_metadata cx spec expected (Suc expected) (Suc (last_position (k_queue k))) owner\<rparr>"])
      (simp add: k1 increment_queue_revision_Inr Let_def find_feature_def row_simps insert_row_def not_less)
qed

lemma enqueue_effect:
  assumes "enqueue_approved_feature_with_owner_binding cx spec expected now owner k = Inr (k', snapshot)"
  shows "k' = k \<and> k_queue_revision k \<noteq> expected \<or>
    (\<exists>canonical. validate_approved_specification cx spec = Inr canonical
       \<and> k_queue_revision k = expected
       \<and> require_grants_tx (as_repository_id spec) (as_grants spec) now k = Inr ()
       \<and> count_rows (\<lambda>f. ft_status f \<notin> {FSucceeded, FCancelled, FAbandoned}) (k_features k)
           < MAX_CONVEYOR_NONTERMINAL_FEATURES
       \<and> enqueue_commit cx spec canonical expected now owner k = Inr k'
       \<and> feature_snapshot (as_feature_id spec) k' = Inr snapshot)"
proof -
  from assms obtain canonical where v: "validate_approved_specification cx spec = Inr canonical"
    and b: "(if feature_queue_revision_tx k \<noteq> expected
     then bindE (enqueue_replay cx spec canonical expected now owner k)
            (\<lambda>snapshot. Inr (k, snapshot))
     else
       bindE (case owner of None \<Rightarrow> Inr ()
              | Some (registration, designation_revision, pause_revision) \<Rightarrow>
                  bindE (require_owner_control_bridge_tx cx registration designation_revision k) (\<lambda>_.
                  require_unpaused_revision_tx pause_revision k)) (\<lambda>_.
       bindE (require_grants_tx (as_repository_id spec) (as_grants spec) now k) (\<lambda>_.
       bindE (reject_if FeatureQueueFull
         (count_rows (\<lambda>f. ft_status f \<notin> {FSucceeded, FCancelled, FAbandoned}) (k_features k)
            \<ge> MAX_CONVEYOR_NONTERMINAL_FEATURES)) (\<lambda>_.
       bindE (forE (require_dependency k) (as_dependencies spec) ()) (\<lambda>_.
       bindE (enqueue_commit cx spec canonical expected now owner k) (\<lambda>k'.
       bindE (feature_snapshot (as_feature_id spec) k') (\<lambda>snapshot.
       Inr (k', snapshot)))))))) = Inr (k', snapshot)"
    unfolding enqueue_approved_feature_with_owner_binding_def bindE_Inr_iff by blast
  show ?thesis
  proof (cases "k_queue_revision k = expected")
    case False
    with b show ?thesis by (auto simp: feature_queue_revision_tx_def bindE_Inr_iff)
  next
    case True
    with b have "require_grants_tx (as_repository_id spec) (as_grants spec) now k = Inr ()"
      "\<not> MAX_CONVEYOR_NONTERMINAL_FEATURES
         \<le> count_rows (\<lambda>f. ft_status f \<notin> {FSucceeded, FCancelled, FAbandoned}) (k_features k)"
      "enqueue_commit cx spec canonical expected now owner k = Inr k'"
      "feature_snapshot (as_feature_id spec) k' = Inr snapshot"
      unfolding feature_queue_revision_tx_def bindE_Inr_iff reject_if_Inr_iff
      by (simp_all only: True simp_thms if_False bindE_Inr_iff reject_if_Inr_iff) auto
    with v True show ?thesis by (auto simp: not_le)
  qed
qed

end
