(* ===== verification/Conveyor_Reorder.thy ===== *)
theory Conveyor_Reorder
  imports Conveyor_Effects
begin

text \<open>
  What \<^verbatim>\<open>reorder_queued_features\<close> does: the two loops over the queue (parking every queued row behind
  the others, then placing the rows one by one) amount to giving each queued feature the position its
  place in the request asks for, and touch nothing else.
\<close>

section \<open>The positions of a request\<close>

definition positions :: "nat \<Rightarrow> uuid list \<Rightarrow> uuid \<Rightarrow> nat option" where
  "positions start ordered = map_of (zip ordered [start..<start + length ordered])"

definition place_row :: "(uuid \<Rightarrow> nat option) \<Rightarrow> queue_row \<Rightarrow> queue_row" where
  "place_row pos r = (case pos (qu_feature_id r) of None \<Rightarrow> r | Some p \<Rightarrow> r\<lparr>qu_queue_position := p\<rparr>)"

definition place_feat :: "(uuid \<Rightarrow> nat option) \<Rightarrow> nat \<Rightarrow> feature_row \<Rightarrow> feature_row" where
  "place_feat pos now f =
     (if ft_status f = FQueued
      then (case pos (ft_feature_id f) of None \<Rightarrow> f
            | Some p \<Rightarrow> f\<lparr>ft_queue_position := p, ft_updated_at_ms := now\<rparr>)
      else f)"

lemma place_row_id [simp]: "qu_feature_id (place_row pos r) = qu_feature_id r"
  by (simp add: place_row_def split: option.splits)

lemma place_feat_simps [simp]:
  "ft_feature_id (place_feat pos now f) = ft_feature_id f"
  "ft_status (place_feat pos now f) = ft_status f"
  "ft_lifecycle_revision (place_feat pos now f) = ft_lifecycle_revision f"
  "ft_created_at_ms (place_feat pos now f) = ft_created_at_ms f"
  "ft_current_specification_revision (place_feat pos now f) = ft_current_specification_revision f"
  by (simp_all add: place_feat_def split: option.splits)

lemma positions_Nil [simp]: "positions start [] = (\<lambda>_. None)"
  by (simp add: positions_def fun_eq_iff)

lemma positions_Cons: "positions start (x # xs) = (positions (Suc start) xs)(x \<mapsto> start)"
  by (simp add: positions_def upt_conv_Cons del: upt_Suc)

lemma positions_None: "positions start xs x = None \<longleftrightarrow> x \<notin> set xs"
  by (simp add: positions_def map_of_eq_None_iff flip: list.set_map del: upt_Suc)

lemma positions_nth:
  assumes "distinct xs" "i < length xs"
  shows "positions start xs (xs ! i) = Some (start + i)"
  unfolding positions_def using assms by (intro map_of_zip_nth [THEN trans]) simp_all

section \<open>The loops\<close>

lemma place_feature_Inr:
  assumes "place_feature active now (i, f) u = Inr v"
  shows "v = u\<lparr>k_queue := update_rows (\<lambda>r. qu_feature_id r = f)
        (\<lambda>r. r\<lparr>qu_queue_position := active + Suc i\<rparr>) (k_queue u),
      k_features := update_rows (\<lambda>g. ft_feature_id g = f \<and> ft_status g = FQueued)
        (\<lambda>g. g\<lparr>ft_queue_position := active + Suc i, ft_updated_at_ms := now\<rparr>) (k_features u)\<rparr>"
proof -
  from assms obtain p q where 1: "checked_add_i64 active (i + 1) = Some p"
    and 2: "set_queue_position f p (k_queue u) = Inr q"
    and 3: "write_features (\<lambda>g. ft_feature_id g = f \<and> ft_status g = FQueued)
        (\<lambda>g. g\<lparr>ft_queue_position := p\<rparr>) now (u\<lparr>k_queue := q\<rparr>) = Inr v"
    unfolding place_feature_def prod.case bindE_Inr_iff ok_or_Inr_iff by blast
  have "q = update_rows (\<lambda>r. qu_feature_id r = f) (\<lambda>r. r\<lparr>qu_queue_position := p\<rparr>) (k_queue u)"
    using 2 unfolding set_queue_position_def bindE_Inr_iff by simp
  with 1 3 show ?thesis by (simp add: checked_add_i64_Some write_features_Inr)
qed

lemma place_row_step:
  "x \<notin> set xs \<Longrightarrow>
     place_row (positions (Suc start) xs) (if qu_feature_id r = x then r\<lparr>qu_queue_position := start\<rparr> else r)
       = place_row (positions start (x # xs)) r"
  using positions_None [of "Suc start" xs x] by (simp add: place_row_def positions_Cons)

lemma place_feat_step:
  "x \<notin> set xs \<Longrightarrow>
     place_feat (positions (Suc start) xs) now (if ft_feature_id f = x \<and> ft_status f = FQueued
         then f\<lparr>ft_queue_position := start, ft_updated_at_ms := now\<rparr> else f)
       = place_feat (positions start (x # xs)) now f"
  using positions_None [of "Suc start" xs x] by (simp add: place_feat_def positions_Cons)

lemma place_loop:
  assumes "forE (place_feature active now) (enumerate n ordered) u = Inr v" "distinct ordered"
  shows "v = u\<lparr>k_queue := map (place_row (positions (active + Suc n) ordered)) (k_queue u),
      k_features := map (place_feat (positions (active + Suc n) ordered) now) (k_features u)\<rparr>"
  using assms
proof (induction ordered arbitrary: n u)
  case Nil
  then show ?case by (simp add: place_row_def place_feat_def cong: if_cong)
next
  case (Cons x xs)
  from Cons.prems(1) obtain m where 1: "place_feature active now (n, x) u = Inr m"
    and 2: "forE (place_feature active now) (enumerate (Suc n) xs) m = Inr v"
    by (auto simp: bindE_Inr_iff)
  have d: "distinct xs" "x \<notin> set xs" using Cons.prems(2) by simp_all
  show ?case
    unfolding Cons.IH [OF 2 d(1)] place_feature_Inr [OF 1]
    using place_row_step [OF d(2), of "Suc (active + n)"] place_feat_step [OF d(2), of "Suc (active + n)" now]
    by (simp add: update_rows_def comp_def)
qed

lemma park_loop:
  assumes "forE park_position rows q = Inr q'" "\<forall>r \<in> set rows. pos (qu_feature_id r) \<noteq> None"
  shows "map (place_row pos) q' = map (place_row pos) q"
  using assms
proof (induction rows arbitrary: q)
  case Nil
  then show ?case by simp
next
  case (Cons x rows)
  from Cons.prems(1) obtain m where 1: "park_position x q = Inr m" and 2: "forE park_position rows m = Inr q'"
    by (auto simp: bindE_Inr_iff)
  have m: "m = update_rows (\<lambda>r. qu_feature_id r = qu_feature_id x)
      (\<lambda>r. r\<lparr>qu_queue_position := qu_queue_position x + 1000000\<rparr>) q"
    using 1 unfolding park_position_def set_queue_position_def bindE_Inr_iff by simp
  have "map (place_row pos) m = map (place_row pos) q"
    unfolding m update_rows_def using Cons.prems(2) by (auto simp: place_row_def)
  with Cons.IH [OF 2] Cons.prems(2) show ?case by simp
qed

section \<open>The operation\<close>

lemma reorder_effect:
  assumes ok: "reorder_queued_features cx ordered expected now k = Inr (k', n)"
    and queued: "\<forall>f \<in> set (k_features k). ft_status f = FQueued \<longrightarrow> ft_feature_id f \<in> set (map qu_feature_id (k_queue k))"
    and ids: "distinct (map qu_feature_id (k_queue k))"
  shows "\<exists>row. k_queue_revision k = expected \<and> n = Suc expected \<and> Suc expected \<le> i64_max
    \<and> mset ordered = mset (queue_order k) \<and> distinct ordered
    \<and> k' = k\<lparr>k_queue := map (place_row (positions (Suc (active_position k)) ordered)) (k_queue k),
         k_features := map (place_feat (positions (Suc (active_position k)) ordered) now) (k_features k),
         k_queue_revision := Suc expected, k_audit := insert_row row (k_audit k)\<rparr>"
proof -
  let ?pos = "positions (active_position k + Suc 0) ordered"
  let ?parked = "update_rows (\<lambda>f. ft_status f = FQueued)
    (\<lambda>f. f\<lparr>ft_queue_position := ft_queue_position f + 1000000\<rparr>) (k_features k)"
  from ok obtain q k2 k3 k4 m where
    1: "k_queue_revision k = expected" "sort (queue_order k) = sort ordered"
    and 2: "forE park_position (queued_rows k) (k_queue k) = Inr q"
    and 3: "forE (place_feature (active_position k) now) (enumerate 0 ordered)
        (k\<lparr>k_queue := q, k_features := ?parked\<rparr>) = Inr k2"
    and 4: "increment_queue_revision_tx expected k2 = Inr (k3, n)"
    and 5: "append_audit cx ''feature_queue_reordered'' None now m k3 = Inr k4" "k' = k4"
    unfolding reorder_queued_features_def Let_def bindE_Inr_iff reject_if_Inr_iff
    by (auto simp: require_queue_revision_Inr bindE_Inr_iff)
  have ms: "mset ordered = mset (queue_order k)" using 1(2) by (metis mset_sort)
  have "distinct (queue_order k)"
    using ids by (simp add: queue_order_def queued_rows_def distinct_map inj_on_def)
  then have dist: "distinct ordered" using ms by (metis mset_eq_imp_distinct_iff)
  have set_eq: "set ordered = set (map qu_feature_id (queued_rows k))"
    using mset_eq_setD [OF ms] by (simp add: queue_order_def)
  have q: "map (place_row ?pos) q = map (place_row ?pos) (k_queue k)"
    by (rule park_loop [OF 2]) (simp add: positions_None set_eq)
  have "f \<in> set (k_features k) \<Longrightarrow> ft_status f = FQueued \<Longrightarrow> ?pos (ft_feature_id f) \<noteq> None" for f
  proof -
    assume f: "f \<in> set (k_features k)" "ft_status f = FQueued"
    then obtain r where "r \<in> set (k_queue k)" "qu_feature_id r = ft_feature_id f" using queued by force
    with f have "ft_feature_id f \<in> set (map qu_feature_id (queued_rows k))"
      by (force simp: queued_rows_def exists_row_iff)
    then show "?pos (ft_feature_id f) \<noteq> None" by (simp add: positions_None set_eq)
  qed
  then have f: "map (place_feat ?pos now) ?parked = map (place_feat ?pos now) (k_features k)"
    unfolding update_rows_def by (auto simp: place_feat_def split: option.splits)
  have "k2 = k\<lparr>k_queue := map (place_row ?pos) (k_queue k), k_features := map (place_feat ?pos now) (k_features k)\<rparr>"
    using place_loop [OF 3 dist] q f by simp
  then show ?thesis
    using 1(1) 4 audit_effect [OF 5(1)] 5(2) ms dist by (auto simp: increment_queue_revision_Inr)
qed

text \<open>Sorted by position, the queued features stand in the requested order.\<close>

lemma reordered_queue:
  assumes "k' = k\<lparr>k_queue := map (place_row pos) (k_queue k), k_features := map (place_feat pos now) (k_features k),
      k_queue_revision := r, k_audit := a\<rparr>"
    and pos: "pos = positions start ordered" and "mset ordered = mset (queue_order k)"
    and "distinct (map qu_feature_id (k_queue k))" "distinct ordered"
  shows "queue_order k' = ordered"
proof -
  have rows: "queued_rows k' = map (place_row pos) (queued_rows k)"
    using assms(1) by (simp add: queued_rows_def filter_map comp_def exists_row_def list_ex_iff)
  have ids: "mset (map qu_feature_id (queued_rows k)) = mset ordered"
    using assms(3) by (simp add: queue_order_def)
  let ?R = "map (\<lambda>i. \<lparr>qu_feature_id = ordered ! i, qu_queue_position = start + i\<rparr>) [0..<length ordered]"
  have d: "distinct (map qu_feature_id (queued_rows k))"
    using assms(4) by (simp add: queued_rows_def distinct_map inj_on_def)
  have placed: "place_row pos r = \<lparr>qu_feature_id = ordered ! i, qu_queue_position = start + i\<rparr>"
    if "qu_feature_id r = ordered ! i" "i < length ordered" for r i
    using positions_nth [OF assms(5) that(2), of start] that by (simp add: place_row_def pos)
  have seteq: "set (map (place_row pos) (queued_rows k)) = set ?R"
  proof (intro set_eqI iffI)
    fix r assume "r \<in> set (map (place_row pos) (queued_rows k))"
    then obtain s where s: "s \<in> set (queued_rows k)" "r = place_row pos s" by auto
    then have "qu_feature_id s \<in> set ordered" using mset_eq_setD [OF ids] by auto
    then obtain i where "i < length ordered" "qu_feature_id s = ordered ! i" by (metis in_set_conv_nth)
    with placed s show "r \<in> set ?R" by auto
  next
    fix r assume "r \<in> set ?R"
    then obtain i where i: "i < length ordered" "r = \<lparr>qu_feature_id = ordered ! i, qu_queue_position = start + i\<rparr>"
      by auto
    then have "ordered ! i \<in> set (map qu_feature_id (queued_rows k))" using mset_eq_setD [OF ids] by simp
    then obtain s where "s \<in> set (queued_rows k)" "qu_feature_id s = ordered ! i" by auto
    with placed i show "r \<in> set (map (place_row pos) (queued_rows k))" by force
  qed
  have "distinct (map (place_row pos) (queued_rows k))"
    using d by (auto simp: distinct_map inj_on_def dest: arg_cong [of _ _ qu_feature_id])
  moreover have "distinct ?R" by (simp add: distinct_map inj_on_def)
  ultimately have "mset (map (place_row pos) (queued_rows k)) = mset ?R"
    using set_eq_iff_mset_eq_distinct seteq by blast
  moreover have "inj_on qu_queue_position (set (map (place_row pos) (queued_rows k)))"
    unfolding seteq by (auto simp: inj_on_def)
  moreover have "sorted (map qu_queue_position ?R)" by (simp add: comp_def sorted_iff_nth_mono)
  ultimately have "sort_key qu_queue_position (map (place_row pos) (queued_rows k)) = ?R"
    by (rule sort_key_inj_key_eq)
  then show ?thesis
    unfolding queue_order_def rows by (simp add: comp_def map_nth)
qed

end
