(* ===== verification/Conveyor_Moves.thy ===== *)
theory Conveyor_Moves
  imports Conveyor_Reorder
begin

text \<open>
  What the operations that move or end a claimed feature have checked and written. \<open>moved_kernel\<close> is
  the write they share: one feature moves to a new status and one row of transition evidence is added.
\<close>

definition moved_kernel ::
    "(feature_row \<Rightarrow> bool) \<Rightarrow> feature_status \<Rightarrow> bool \<Rightarrow> nat \<Rightarrow> transition_row \<Rightarrow> kernel \<Rightarrow> kernel" where
  "moved_kernel p status effect_possible now t k =
     k\<lparr>k_features := update_rows p (moved status effect_possible now) (k_features k),
       k_transitions := k_transitions k @ [t]\<rparr>"

lemma moved_kernel_rest [simp]:
  "k_steps (moved_kernel p s e now t k) = k_steps k"
  "k_attempts (moved_kernel p s e now t k) = k_attempts k"
  "k_connections (moved_kernel p s e now t k) = k_connections k"
  "k_devices (moved_kernel p s e now t k) = k_devices k"
  "k_next_connection_epoch (moved_kernel p s e now t k) = k_next_connection_epoch k"
  "k_events (moved_kernel p s e now t k) = k_events k"
  "k_next_sequence (moved_kernel p s e now t k) = k_next_sequence k"
  "k_stream_id (moved_kernel p s e now t k) = k_stream_id k"
  "k_emergency_paused (moved_kernel p s e now t k) = k_emergency_paused k"
  "k_emergency_pause_revision (moved_kernel p s e now t k) = k_emergency_pause_revision k"
  "k_grants (moved_kernel p s e now t k) = k_grants k"
  "k_specifications (moved_kernel p s e now t k) = k_specifications k"
  "k_dependencies (moved_kernel p s e now t k) = k_dependencies k"
  "k_queue (moved_kernel p s e now t k) = k_queue k"
  "k_owner_bridge (moved_kernel p s e now t k) = k_owner_bridge k"
  "k_active_lease (moved_kernel p s e now t k) = k_active_lease k"
  "k_claims (moved_kernel p s e now t k) = k_claims k"
  "k_queue_revision (moved_kernel p s e now t k) = k_queue_revision k"
  "k_dispatches (moved_kernel p s e now t k) = k_dispatches k"
  "k_publications (moved_kernel p s e now t k) = k_publications k"
  "k_publication_intents (moved_kernel p s e now t k) = k_publication_intents k"
  "k_orchestration (moved_kernel p s e now t k) = k_orchestration k"
  "k_checkpoints (moved_kernel p s e now t k) = k_checkpoints k"
  "k_orchestration_activated (moved_kernel p s e now t k) = k_orchestration_activated k"
  "k_audit (moved_kernel p s e now t k) = k_audit k"
  "k_features (moved_kernel p s e now t k) = update_rows p (moved s e now) (k_features k)"
  "k_transitions (moved_kernel p s e now t k) = k_transitions k @ [t]"
  by (simp_all add: moved_kernel_def)

lemma advance_effect:
  assumes "advance_feature_lifecycle cx feature expected status' snap accepted now k = Inr (k', s)"
  shows "\<exists>f row. find_feature feature k = Some f \<and> ft_lifecycle_revision f = expected
    \<and> lifecycle_successor (ft_status f) status' \<and> lease_of feature k \<noteq> None
    \<and> snap \<noteq> 0 \<and> accepted \<noteq> 0 \<and> k_emergency_paused k = 0
    \<and> require_current_feature_grants_tx feature now k = Inr ()
    \<and> require_feature_coding_work_terminal_tx feature k = Inr ()
    \<and> find_transition feature (Suc expected) k = None \<and> Suc expected \<le> i64_max
    \<and> k' = (moved_kernel (\<lambda>g. ft_feature_id g = feature \<and> ft_status g = ft_status f
          \<and> ft_lifecycle_revision g = expected) status' (status' \<in> {FPublishing, FVerifyingMain}) now
        ((bare_transition feature (Suc expected) (ft_status f) status' now)
           \<lparr>tr_repository_snapshot_sha256 := Some snap, tr_accepted_evidence_sha256 := Some accepted\<rparr>) k)
        \<lparr>k_audit := insert_row row (k_audit k)\<rparr>
    \<and> feature_snapshot feature k' = Inr s"
proof -
  from assms obtain st k1 k2 k3 where
    1: "snap \<noteq> 0" "accepted \<noteq> 0" "require_active_lease_tx feature k = Inr ()"
      "require_emergency_unpaused k = Inr ()" "require_current_feature_grants_tx feature now k = Inr ()"
      "current_status feature expected k = Inr st" "lifecycle_successor st status'"
      "require_feature_coding_work_terminal_tx feature k = Inr ()"
    and 2: "move_feature (\<lambda>g. ft_feature_id g = feature \<and> ft_status g = st \<and> ft_lifecycle_revision g = expected)
        status' (status' \<in> {FPublishing, FVerifyingMain}) now k = Inr k1"
      "insert_transition ((bare_transition feature (expected + 1) st status' now)
         \<lparr>tr_repository_snapshot_sha256 := Some snap, tr_accepted_evidence_sha256 := Some accepted\<rparr>) k1 = Inr k2"
      "append_audit cx ''feature_lifecycle_advanced'' (Some feature) now
        (advance_metadata st status' (expected + 1)) k2 = Inr k3"
      "k' = k3" "feature_snapshot feature k3 = Inr s"
    unfolding advance_feature_lifecycle_def Let_def bindE_Inr_iff reject_if_Inr_iff by auto
  from 1(6) obtain f where f: "find_feature feature k = Some f" "ft_lifecycle_revision f = expected" "st = ft_status f"
    by (auto simp: current_status_Inr)
  show ?thesis
    using 1(1-5,7-8) 2(1,2,4,5) audit_effect [OF 2(3)] f
    by (intro exI [of _ f]) (auto simp: move_feature_Inr insert_transition_Inr require_active_lease_Inr
        require_emergency_unpaused_Inr lease_of_def moved_kernel_def bare_transition_def find_transition_def)
qed

lemma resolution_binding_Inr:
  assumes "require_resolution_binding cx b owner k = Inr st"
  shows "\<exists>f. find_feature (rb_feature_id b) k = Some f \<and> st = ft_status f
    \<and> ft_lifecycle_revision f = rb_expected_lifecycle_revision b
    \<and> k_queue_revision k = rb_expected_queue_revision b
    \<and> k_emergency_pause_revision k = rb_expected_emergency_pause_revision b
    \<and> (\<exists>l. k_active_lease k = Some l \<and> fl_feature_id l = rb_feature_id b)"
  using assms unfolding require_resolution_binding_def bindE_Inr_iff
  by (auto simp: require_queue_revision_Inr require_emergency_pause_revision_Inr require_active_lease_Inr
      current_status_Inr)

lemma cancel_effect:
  assumes "cancel_active_feature_bound cx b now owner k = Inr (k', s)"
  shows "\<exists>f k3 row. require_resolution_binding cx b owner k = Inr (ft_status f)
    \<and> find_feature (rb_feature_id b) k = Some f \<and> is_active_execution (ft_status f)
    \<and> find_transition (rb_feature_id b) (Suc (ft_lifecycle_revision f)) k = None
    \<and> cancel_feature_coding_dispatches_tx cx (rb_feature_id b) now
        (moved_kernel (\<lambda>g. ft_feature_id g = rb_feature_id b) FCancelled True now
          (bare_transition (rb_feature_id b) (Suc (ft_lifecycle_revision f)) (ft_status f) FCancelled now) k) = Inr k3
    \<and> k' = k3\<lparr>k_audit := insert_row row (k_audit k3)\<rparr>
    \<and> feature_snapshot (rb_feature_id b) k' = Inr s"
proof -
  from assms obtain st k1 k2 k3 k4 where
    1: "require_resolution_binding cx b owner k = Inr st" "is_active_execution st"
      "move_feature (\<lambda>g. ft_feature_id g = rb_feature_id b) FCancelled True now k = Inr k1"
      "insert_transition (bare_transition (rb_feature_id b) (rb_expected_lifecycle_revision b + 1) st
         FCancelled now) k1 = Inr k2"
      "cancel_feature_coding_dispatches_tx cx (rb_feature_id b) now k2 = Inr k3"
    and 2: "append_audit cx ''feature_cancelled'' (Some (rb_feature_id b)) now (cancel_metadata b st) k3 = Inr k4"
      "k' = k4" "feature_snapshot (rb_feature_id b) k4 = Inr s"
    unfolding cancel_active_feature_bound_def Let_def bindE_Inr_iff reject_if_Inr_iff by auto
  from resolution_binding_Inr [OF 1(1)] obtain f where
    f: "find_feature (rb_feature_id b) k = Some f" "st = ft_status f"
      "ft_lifecycle_revision f = rb_expected_lifecycle_revision b" by blast
  have "k2 = moved_kernel (\<lambda>g. ft_feature_id g = rb_feature_id b) FCancelled True now
      (bare_transition (rb_feature_id b) (Suc (ft_lifecycle_revision f)) (ft_status f) FCancelled now) k"
    and "find_transition (rb_feature_id b) (Suc (ft_lifecycle_revision f)) k = None"
    using 1(3,4) f by (simp_all add: move_feature_Inr insert_transition_Inr moved_kernel_def
        bare_transition_def find_transition_def)
  then show ?thesis using 1 2 audit_effect [OF 2(1)] f by fastforce
qed

definition released :: "uuid \<Rightarrow> kernel \<Rightarrow> kernel" where
  "released feature k =
     k\<lparr>k_queue := filter (\<lambda>q. qu_feature_id q \<noteq> feature) (k_queue k), k_active_lease := None,
       k_queue_revision := Suc (k_queue_revision k)\<rparr>"

lemma released_rest [simp]:
  "k_steps (released i k) = k_steps k" "k_attempts (released i k) = k_attempts k"
  "k_connections (released i k) = k_connections k" "k_devices (released i k) = k_devices k"
  "k_next_connection_epoch (released i k) = k_next_connection_epoch k"
  "k_events (released i k) = k_events k" "k_next_sequence (released i k) = k_next_sequence k"
  "k_stream_id (released i k) = k_stream_id k"
  "k_emergency_pause_revision (released i k) = k_emergency_pause_revision k"
  "k_grants (released i k) = k_grants k" "k_specifications (released i k) = k_specifications k"
  "k_features (released i k) = k_features k" "k_dependencies (released i k) = k_dependencies k"
  "k_transitions (released i k) = k_transitions k" "k_claims (released i k) = k_claims k"
  "k_dispatches (released i k) = k_dispatches k" "k_audit (released i k) = k_audit k"
  "k_owner_bridge (released i k) = k_owner_bridge k"
  "k_queue (released i k) = filter (\<lambda>q. qu_feature_id q \<noteq> i) (k_queue k)"
  "k_active_lease (released i k) = None"
  "k_queue_revision (released i k) = Suc (k_queue_revision k)"
  "k_orchestration (released i k) = k_orchestration k" "k_checkpoints (released i k) = k_checkpoints k"
  "k_orchestration_activated (released i k) = k_orchestration_activated k"
  by (simp_all add: released_def)

lemma release_increment:
  assumes "increment_queue_revision_tx e (release_lease i k) = Inr (k', n)"
    and "k_active_lease k = Some l" "fl_feature_id l = i"
  shows "k' = released i k \<and> k_queue_revision k = e \<and> n = Suc e \<and> Suc e \<le> i64_max"
  using assms by (simp add: increment_queue_revision_Inr release_lease_def released_def)

lemma success_effect:
  assumes "mark_feature_succeeded cx feature expected expected_queue v now k = Inr (k', s)"
  shows "\<exists>f row. find_feature feature k = Some f \<and> ft_lifecycle_revision f = expected
    \<and> ft_status f = FVerifyingMain \<and> lease_of feature k \<noteq> None
    \<and> vs_main_healthy v \<and> vs_main_commit_sha256 v \<noteq> 0 \<and> vs_post_merge_evidence_sha256 v \<noteq> 0
    \<and> require_current_feature_grants_tx feature now k = Inr ()
    \<and> k_queue_revision k = expected_queue
    \<and> find_transition feature (Suc expected) k = None
    \<and> k' = (released feature (moved_kernel (\<lambda>g. ft_feature_id g = feature) FSucceeded False now
        ((bare_transition feature (Suc expected) FVerifyingMain FSucceeded now)
           \<lparr>tr_verified_main_commit_sha256 := Some (vs_main_commit_sha256 v),
            tr_post_merge_evidence_sha256 := Some (vs_post_merge_evidence_sha256 v)\<rparr>) k))
        \<lparr>k_audit := insert_row row (k_audit k)\<rparr>
    \<and> feature_snapshot feature k' = Inr s"
proof -
  let ?t = "(bare_transition feature (Suc expected) FVerifyingMain FSucceeded now)
           \<lparr>tr_verified_main_commit_sha256 := Some (vs_main_commit_sha256 v),
            tr_post_merge_evidence_sha256 := Some (vs_post_merge_evidence_sha256 v)\<rparr>"
  from assms obtain st k1 k2 k3 n k4 where
    1: "vs_main_healthy v" "vs_main_commit_sha256 v \<noteq> 0" "vs_post_merge_evidence_sha256 v \<noteq> 0"
      "require_queue_revision_tx expected_queue k = Inr ()" "require_active_lease_tx feature k = Inr ()"
      "require_current_feature_grants_tx feature now k = Inr ()"
      "current_status feature expected k = Inr st" "st = FVerifyingMain"
    and 2: "move_feature (\<lambda>g. ft_feature_id g = feature) FSucceeded False now k = Inr k1"
      "insert_transition ?t k1 = Inr k2"
      "increment_queue_revision_tx expected_queue (release_lease feature k2) = Inr (k3, n)"
      "append_audit cx ''feature_succeeded'' (Some feature) now (success_metadata (expected + 1) n) k3 = Inr k4"
      "k' = k4" "feature_snapshot feature k4 = Inr s"
    unfolding mark_feature_succeeded_def Let_def bindE_Inr_iff reject_if_Inr_iff
    by (auto simp: bindE_Inr_iff)
  from 1(7) obtain f where f: "find_feature feature k = Some f" "ft_lifecycle_revision f = expected" "st = ft_status f"
    by (auto simp: current_status_Inr)
  from 1(5) obtain l where l: "k_active_lease k = Some l" "fl_feature_id l = feature"
    by (auto simp: require_active_lease_Inr)
  have k2: "k2 = moved_kernel (\<lambda>g. ft_feature_id g = feature) FSucceeded False now ?t k"
    and nt: "find_transition feature (Suc expected) k = None"
    using 2(1,2) by (simp_all add: move_feature_Inr insert_transition_Inr moved_kernel_def
        bare_transition_def find_transition_def)
  have k3: "k3 = released feature k2" using release_increment [OF 2(3), of l] l by (simp add: k2)
  show ?thesis
    using 1 2(5,6) audit_effect [OF 2(4)] f l nt
    by (intro exI [of _ f]) (auto simp: k3 k2 lease_of_def require_queue_revision_Inr)
qed

lemma abandon_effect:
  assumes "abandon_and_advance_bound cx b e now owner k = Inr (k', s)"
  shows "\<exists>f origin row. require_resolution_binding cx b owner k = Inr (ft_status f)
    \<and> find_feature (rb_feature_id b) k = Some f \<and> resolution_status (ft_status f)
    \<and> ab_safe_reconciliation_sha256 e \<noteq> 0
    \<and> feature_resolution_origin_tx (rb_feature_id b) (ft_status f) (ft_lifecycle_revision f) k = Inr origin
    \<and> (origin = FVerifyingMain \<or> publication_merge_effect_possible_tx (rb_feature_id b) k
         \<longrightarrow> ab_merged e \<and> \<not> healthy_main_missing e)
    \<and> find_transition (rb_feature_id b) (Suc (ft_lifecycle_revision f)) k = None
    \<and> k' = (released (rb_feature_id b) (moved_kernel (\<lambda>g. ft_feature_id g = rb_feature_id b) FAbandoned False now
        ((bare_transition (rb_feature_id b) (Suc (ft_lifecycle_revision f)) (ft_status f) FAbandoned now)
           \<lparr>tr_safe_reconciliation_sha256 := Some (ab_safe_reconciliation_sha256 e),
            tr_verified_healthy_main_sha256 := ab_verified_healthy_main_sha256 e\<rparr>) k))
        \<lparr>k_audit := insert_row row (k_audit k)\<rparr>
    \<and> feature_snapshot (rb_feature_id b) k' = Inr s"
proof -
  let ?i = "rb_feature_id b"
  from assms obtain st origin k1 k2 k3 n m k4 where
    1: "ab_safe_reconciliation_sha256 e \<noteq> 0" "require_resolution_binding cx b owner k = Inr st"
      "resolution_status st"
      "feature_resolution_origin_tx ?i st (rb_expected_lifecycle_revision b) k = Inr origin"
      "\<not> ((origin = FVerifyingMain \<or> publication_merge_effect_possible_tx ?i k)
          \<and> (\<not> ab_merged e \<or> healthy_main_missing e))"
    and 2: "move_feature (\<lambda>g. ft_feature_id g = ?i) FAbandoned False now k = Inr k1"
      "insert_transition
         ((bare_transition ?i (rb_expected_lifecycle_revision b + 1) st FAbandoned now)
            \<lparr>tr_safe_reconciliation_sha256 := Some (ab_safe_reconciliation_sha256 e),
             tr_verified_healthy_main_sha256 := ab_verified_healthy_main_sha256 e\<rparr>) k1 = Inr k2"
      "increment_queue_revision_tx (rb_expected_queue_revision b) (release_lease ?i k2) = Inr (k3, n)"
      "append_audit cx ''feature_abandoned'' (Some ?i) now m k3 = Inr k4"
      "k' = k4" "feature_snapshot ?i k4 = Inr s"
    unfolding abandon_and_advance_bound_def Let_def bindE_Inr_iff reject_if_Inr_iff
    by (auto simp: bindE_Inr_iff)
  from resolution_binding_Inr [OF 1(2)] obtain f l where
    f: "find_feature ?i k = Some f" "st = ft_status f" "ft_lifecycle_revision f = rb_expected_lifecycle_revision b"
    and l: "k_active_lease k = Some l" "fl_feature_id l = ?i" by blast
  have k2: "k2 = moved_kernel (\<lambda>g. ft_feature_id g = ?i) FAbandoned False now
      ((bare_transition ?i (Suc (ft_lifecycle_revision f)) (ft_status f) FAbandoned now)
            \<lparr>tr_safe_reconciliation_sha256 := Some (ab_safe_reconciliation_sha256 e),
             tr_verified_healthy_main_sha256 := ab_verified_healthy_main_sha256 e\<rparr>) k"
    and nt: "find_transition ?i (Suc (ft_lifecycle_revision f)) k = None"
    using 2(1,2) f by (simp_all add: move_feature_Inr insert_transition_Inr moved_kernel_def
        bare_transition_def find_transition_def)
  have k3: "k3 = released ?i k2" using release_increment [OF 2(3), of l] l by (simp add: k2)
  show ?thesis
    using 1 2(5,6) audit_effect [OF 2(4)] f nt
    by (intro exI [of _ f] exI [of _ origin]) (auto simp: k3 k2)
qed

lemma quarantine_effect:
  assumes "quarantine_feature cx f now k = Inr k'"
  shows "\<exists>row. find_transition (ft_feature_id f) (Suc (ft_lifecycle_revision f)) k = None
    \<and> k' = (moved_kernel (\<lambda>g. ft_feature_id g = ft_feature_id f \<and> ft_status g = ft_status f
          \<and> ft_lifecycle_revision g = ft_lifecycle_revision f) FQuarantined True now
        (bare_transition (ft_feature_id f) (Suc (ft_lifecycle_revision f)) (ft_status f) FQuarantined now) k)
        \<lparr>k_audit := insert_row row (k_audit k)\<rparr>"
proof -
  from assms obtain k1 k2 where
    1: "move_feature (\<lambda>g. ft_feature_id g = ft_feature_id f \<and> ft_status g = ft_status f
          \<and> ft_lifecycle_revision g = ft_lifecycle_revision f) FQuarantined True now k = Inr k1"
      "insert_transition (bare_transition (ft_feature_id f) (ft_lifecycle_revision f + 1) (ft_status f)
         FQuarantined now) k1 = Inr k2"
      "append_audit cx ''feature_startup_quarantined'' (Some (ft_feature_id f)) now
        (quarantine_metadata (ft_status f) (ft_lifecycle_revision f + 1)) k2 = Inr k'"
    unfolding quarantine_feature_def Let_def bindE_Inr_iff reject_if_Inr_iff by auto
  show ?thesis
    using 1(1,2) audit_effect [OF 1(3)]
    by (auto simp: move_feature_Inr insert_transition_Inr moved_kernel_def bare_transition_def find_transition_def)
qed

end
