(* ===== verification/Conveyor_Invariant.thy ===== *)
theory Conveyor_Invariant
  imports Conveyor_Moves
begin

text \<open>
  The invariant of the Feature Conveyor, table by table, and what the shared writes do to it.
  \<open>features_inv\<close>: identifiers are unique; a feature's lifecycle revision is bounded by the rank of its
  status, which every move raises; the feature outside the queue and not yet ended is the one that
  holds the lease; a feature in a resolution status has the evidence that abandonment asks for. The
  bound, and the evidence of a feature whose merge to main is being verified, hold when the orchestrator
  is not in use (\<open>strict\<close>): an owner's pause and resume raise the revision and not the status.
  \<open>queue_inv\<close>: the queue has exactly one row per feature that has not ended, at the feature's own
  position, no two at one position. \<open>grants_inv\<close>: the revisions of a grant are 1, 2, 3, ..
\<close>

section \<open>Statuses\<close>

definition ended :: "feature_status \<Rightarrow> bool" where
  "ended s = (s = FSucceeded \<or> s = FAbandoned)"

definition busy :: "feature_status \<Rightarrow> bool" where
  "busy s = (s \<noteq> FQueued \<and> \<not> ended s)"

fun lifecycle_rank :: "feature_status \<Rightarrow> nat" where
  "lifecycle_rank FQueued = 0"
| "lifecycle_rank FImplementing = 1"
| "lifecycle_rank FValidating = 2"
| "lifecycle_rank FReviewing = 3"
| "lifecycle_rank FPublishing = 4"
| "lifecycle_rank FVerifyingMain = 5"
| "lifecycle_rank FRepairing = 5"
| "lifecycle_rank FPaused = 5"
| "lifecycle_rank FAttentionRequired = 6"
| "lifecycle_rank FFailed = 6"
| "lifecycle_rank FCancelled = 6"
| "lifecycle_rank FQuarantined = 6"
| "lifecycle_rank FSucceeded = 7"
| "lifecycle_rank FAbandoned = 7"

lemma lifecycle_rank_le: "lifecycle_rank s \<le> 7"
  by (cases s) simp_all

lemma status_facts:
  "lifecycle_successor s s' \<Longrightarrow> lifecycle_rank s < lifecycle_rank s' \<and> busy s \<and> busy s'
     \<and> \<not> resolution_status s' \<and> \<not> ended s'"
  "is_active_execution s \<Longrightarrow> lifecycle_rank s < 6 \<and> busy s"
  "resolution_status s \<Longrightarrow> lifecycle_rank s = 6 \<and> busy s \<and> \<not> ended s"
  by (auto simp: lifecycle_successor_def busy_def ended_def resolution_status_def is_active_execution_def)

section \<open>Features and their evidence\<close>

definition has_transition :: "transition_row list \<Rightarrow> uuid \<Rightarrow> nat \<Rightarrow> (transition_row \<Rightarrow> bool) \<Rightarrow> bool" where
  "has_transition ts i r p = (\<exists>t \<in> set ts. tr_feature_id t = i \<and> tr_lifecycle_revision t = r \<and> p t)"

definition resolved_by :: "feature_status \<Rightarrow> transition_row \<Rightarrow> bool" where
  "resolved_by s t = (tr_to_status t = s \<and> is_active_execution (tr_from_status t) \<and> no_digests t)"

definition evidence_ok :: "bool \<Rightarrow> transition_row list \<Rightarrow> feature_row \<Rightarrow> bool" where
  "evidence_ok strict ts f =
     ((strict \<and> ft_status f = FVerifyingMain \<longrightarrow>
         has_transition ts (ft_feature_id f) (ft_lifecycle_revision f) verified_main_transition)
      \<and> (resolution_status (ft_status f) \<longrightarrow>
         has_transition ts (ft_feature_id f) (ft_lifecycle_revision f)
           (\<lambda>t. resolved_by (ft_status f) t \<and> (strict \<and> tr_from_status t = FVerifyingMain \<longrightarrow>
              has_transition ts (ft_feature_id f) (ft_lifecycle_revision f - 1) verified_main_transition))))"

definition feature_ok :: "bool \<Rightarrow> transition_row list \<Rightarrow> uuid option \<Rightarrow> feature_row \<Rightarrow> bool" where
  "feature_ok strict ts holder f =
     (1 \<le> ft_lifecycle_revision f
      \<and> (strict \<longrightarrow> ft_lifecycle_revision f \<le> Suc (lifecycle_rank (ft_status f)))
      \<and> evidence_ok strict ts f \<and> (busy (ft_status f) \<longleftrightarrow> holder = Some (ft_feature_id f)))"

definition transition_key :: "transition_row \<Rightarrow> uuid \<times> nat" where
  "transition_key t = (tr_feature_id t, tr_lifecycle_revision t)"

definition features_inv :: "bool \<Rightarrow> feature_row list \<Rightarrow> transition_row list \<Rightarrow> uuid option \<Rightarrow> bool" where
  "features_inv strict fs ts holder =
     (distinct (map ft_feature_id fs) \<and> distinct (map transition_key ts)
      \<and> (\<forall>t \<in> set ts. \<exists>f \<in> set fs. ft_feature_id f = tr_feature_id t
            \<and> tr_lifecycle_revision t \<le> ft_lifecycle_revision f)
      \<and> (\<forall>f \<in> set fs. feature_ok strict ts holder f))"

lemma has_transition_append: "has_transition ts i r p \<Longrightarrow> has_transition (ts @ us) i r p"
  by (auto simp: has_transition_def)

lemma evidence_ok_append: "evidence_ok strict ts f \<Longrightarrow> evidence_ok strict (ts @ us) f"
  unfolding evidence_ok_def has_transition_def by fastforce

lemma feature_unique:
  "distinct (map ft_feature_id fs) \<Longrightarrow> f \<in> set fs \<Longrightarrow> g \<in> set fs \<Longrightarrow> ft_feature_id f = ft_feature_id g \<Longrightarrow> f = g"
  by (rule distinct_map_inj)

text \<open>A move of one feature, with its evidence row.\<close>

lemma features_inv_move:
  assumes inv: "features_inv strict fs ts holder" and f: "f \<in> set fs"
    and p: "\<forall>g \<in> set fs. p g \<longleftrightarrow> g = f"
    and rank: "strict \<Longrightarrow> lifecycle_rank (ft_status f) < lifecycle_rank s"
    and t: "tr_feature_id t = ft_feature_id f" "tr_lifecycle_revision t = Suc (ft_lifecycle_revision f)"
    and evidence: "evidence_ok strict (ts @ [t]) (moved s e now f)"
    and mine: "busy s \<longleftrightarrow> holder' = Some (ft_feature_id f)"
    and others: "\<forall>g \<in> set fs. g \<noteq> f \<longrightarrow> (holder' = Some (ft_feature_id g) \<longleftrightarrow> holder = Some (ft_feature_id g))"
  shows "features_inv strict (update_rows p (moved s e now) fs) (ts @ [t]) holder'"
proof -
  let ?fs = "update_rows p (moved s e now) fs"
  have ids: "map ft_feature_id ?fs = map ft_feature_id fs"
    unfolding update_rows_def by simp
  have d: "distinct (map ft_feature_id fs)" using inv by (simp add: features_inv_def)
  have ok: "feature_ok strict ts holder g" if "g \<in> set fs" for g using inv that by (simp add: features_inv_def)
  have fresh: "transition_key t \<notin> set (map transition_key ts)"
  proof
    assume "transition_key t \<in> set (map transition_key ts)"
    then obtain u where u: "u \<in> set ts" "transition_key u = transition_key t" by auto
    then obtain g where g: "g \<in> set fs" "ft_feature_id g = tr_feature_id u" "tr_lifecycle_revision u \<le> ft_lifecycle_revision g"
      using inv by (auto simp: features_inv_def)
    then have "g = f" using feature_unique [OF d g(1) f] u t by (simp add: transition_key_def)
    with g u t show False by (simp add: transition_key_def)
  qed
  have cover: "\<exists>g \<in> set ?fs. ft_feature_id g = tr_feature_id u \<and> tr_lifecycle_revision u \<le> ft_lifecycle_revision g"
    if "u \<in> set (ts @ [t])" for u
  proof (cases "u = t")
    case True
    have "moved s e now f \<in> set ?fs" unfolding set_update_rows using f p by (intro image_eqI [of _ _ f]) auto
    with True t show ?thesis by (intro bexI [of _ "moved s e now f"]) simp_all
  next
    case False
    with that obtain g where g: "g \<in> set fs" "ft_feature_id g = tr_feature_id u"
      "tr_lifecycle_revision u \<le> ft_lifecycle_revision g" using inv by (auto simp: features_inv_def)
    then have "(if p g then moved s e now g else g) \<in> set ?fs" unfolding set_update_rows by blast
    with g show ?thesis by (intro bexI [of _ "if p g then moved s e now g else g"]) auto
  qed
  have "feature_ok strict (ts @ [t]) holder' g" if "g \<in> set ?fs" for g
  proof -
    from that obtain h where h: "h \<in> set fs" "g = (if p h then moved s e now h else h)"
      unfolding set_update_rows by auto
    show ?thesis
    proof (cases "h = f")
      case True
      with h p f have "g = moved s e now f" by simp
      moreover have "strict \<Longrightarrow> Suc (ft_lifecycle_revision f) \<le> Suc (lifecycle_rank s)"
        using rank ok [OF f] by (fastforce simp: feature_ok_def)
      ultimately show ?thesis using ok [OF f] evidence mine by (simp add: feature_ok_def)
    next
      case False
      with h p have "g = h" by simp
      with ok [OF h(1)] others h(1) False show ?thesis by (simp add: feature_ok_def evidence_ok_append)
    qed
  qed
  with d fresh cover inv show ?thesis by (simp add: features_inv_def ids)
qed

text \<open>Evidence of the move itself.\<close>

lemma evidence_resolution:
  assumes "evidence_ok strict ts f" "is_active_execution (ft_status f)" "resolution_status s"
  shows "evidence_ok strict (ts @ [bare_transition (ft_feature_id f) (Suc (ft_lifecycle_revision f)) (ft_status f) s now])
     (moved s e now f)"
proof -
  let ?t = "bare_transition (ft_feature_id f) (Suc (ft_lifecycle_revision f)) (ft_status f) s now"
  have "has_transition (ts @ [?t]) (ft_feature_id f) (ft_lifecycle_revision f) verified_main_transition"
    if "strict" "ft_status f = FVerifyingMain"
    using assms(1) that by (intro has_transition_append) (simp add: evidence_ok_def)
  then show ?thesis
    using assms(2,3)
    by (auto simp: evidence_ok_def has_transition_def resolved_by_def bare_transition_def no_digests_def
        resolution_status_def)
qed

lemma evidence_advance:
  assumes "lifecycle_successor (ft_status f) s" "snap \<noteq> 0" "accepted \<noteq> 0"
  shows "evidence_ok strict (ts @ [(bare_transition (ft_feature_id f) (Suc (ft_lifecycle_revision f)) (ft_status f) s now)
       \<lparr>tr_repository_snapshot_sha256 := Some snap, tr_accepted_evidence_sha256 := Some accepted\<rparr>])
     (moved s e now f)"
  using assms by (auto simp: evidence_ok_def has_transition_def verified_main_transition_def
      bare_transition_def lifecycle_successor_def resolution_status_def)

lemma evidence_ended: "ended s \<Longrightarrow> evidence_ok strict ts (moved s e now f)"
  by (auto simp: evidence_ok_def ended_def resolution_status_def)

section \<open>The queue\<close>

definition queue_inv :: "feature_row list \<Rightarrow> queue_row list \<Rightarrow> bool" where
  "queue_inv fs q =
     (distinct (map qu_feature_id q) \<and> distinct (map qu_queue_position q)
      \<and> (\<forall>f \<in> set fs. \<not> ended (ft_status f)
           \<longrightarrow> \<lparr>qu_feature_id = ft_feature_id f, qu_queue_position = ft_queue_position f\<rparr> \<in> set q)
      \<and> (\<forall>r \<in> set q. \<exists>f \<in> set fs. ft_feature_id f = qu_feature_id r \<and> \<not> ended (ft_status f)))"

lemma queue_inv_update:
  assumes inv: "queue_inv fs q"
    and u: "\<And>g. ft_feature_id (u g) = ft_feature_id g \<and> ft_queue_position (u g) = ft_queue_position g"
    and p: "\<forall>g \<in> set fs. p g \<longrightarrow> \<not> ended (ft_status g) \<and> \<not> ended (ft_status (u g))"
  shows "queue_inv (update_rows p u fs) q"
proof -
  have "\<exists>f \<in> set (update_rows p u fs). ft_feature_id f = qu_feature_id r \<and> \<not> ended (ft_status f)"
    if r: "r \<in> set q" for r
  proof -
    from inv r obtain f where f: "f \<in> set fs" "ft_feature_id f = qu_feature_id r" "\<not> ended (ft_status f)"
      by (auto simp: queue_inv_def)
    then have "(if p f then u f else f) \<in> set (update_rows p u fs)"
      unfolding set_update_rows by blast
    with f u p show ?thesis by (intro bexI [of _ "if p f then u f else f"]) auto
  qed
  then show ?thesis
    using inv u p by (auto simp: queue_inv_def set_update_rows)
qed

lemma queue_inv_end:
  assumes inv: "queue_inv fs q" and d: "distinct (map ft_feature_id fs)" and f: "f \<in> set fs"
    and p: "\<forall>g \<in> set fs. p g \<longleftrightarrow> g = f" and s: "ended s"
  shows "queue_inv (update_rows p (moved s e now) fs) (filter (\<lambda>r. qu_feature_id r \<noteq> ft_feature_id f) q)"
proof -
  let ?q = "filter (\<lambda>r. qu_feature_id r \<noteq> ft_feature_id f) q"
  have "\<exists>g \<in> set (update_rows p (moved s e now) fs). ft_feature_id g = qu_feature_id r \<and> \<not> ended (ft_status g)"
    if r: "r \<in> set ?q" for r
  proof -
    from inv r obtain g where g: "g \<in> set fs" "ft_feature_id g = qu_feature_id r" "\<not> ended (ft_status g)"
      by (auto simp: queue_inv_def)
    then have "g \<noteq> f" using r by auto
    then have "g \<in> set (update_rows p (moved s e now) fs)"
      unfolding set_update_rows using g p by (intro image_eqI [of _ _ g]) auto
    with g show ?thesis by blast
  qed
  moreover have "\<lparr>qu_feature_id = ft_feature_id g, qu_queue_position = ft_queue_position g\<rparr> \<in> set ?q"
    if g: "g \<in> set (update_rows p (moved s e now) fs)" "\<not> ended (ft_status g)" for g
  proof -
    from g obtain h where h: "h \<in> set fs" "g = (if p h then moved s e now h else h)"
      unfolding set_update_rows by auto
    with g(2) s p have "h \<noteq> f" "g = h" by (auto split: if_splits)
    with h g(2) inv d f show ?thesis by (auto simp: queue_inv_def dest: feature_unique)
  qed
  moreover have "distinct (map qu_feature_id ?q)" "distinct (map qu_queue_position ?q)"
    using inv by (simp_all add: queue_inv_def distinct_map_filter)
  ultimately show ?thesis by (simp add: queue_inv_def)
qed


lemma positions_inj:
  assumes "positions start xs i = Some p" "positions start xs j = Some p" "distinct xs"
  shows "i = j"
proof -
  have i: "i \<in> set xs" "j \<in> set xs" using assms(1,2) positions_None by (metis option.distinct(1))+
  then obtain a b where "a < length xs" "xs ! a = i" "b < length xs" "xs ! b = j" by (metis in_set_conv_nth)
  with positions_nth [OF assms(3)] assms(1,2) show ?thesis by (metis add_left_cancel option.inject)
qed

lemma positions_ge: "positions start xs i = Some p \<Longrightarrow> start \<le> p"
  by (auto simp: positions_def simp del: upt_Suc dest!: map_of_SomeD set_zip_rightD)

lemma last_position_ge: "r \<in> set q \<Longrightarrow> qu_queue_position r \<le> last_position q"
  unfolding last_position_def by (induction q) auto

text \<open>Placing the queued rows at the requested positions keeps the queue's invariant.\<close>

lemma queue_inv_place:
  assumes inv: "queue_inv fs q" and d: "distinct (map ft_feature_id fs)" and dist: "distinct ordered"
    and pos: "pos = positions (Suc active) ordered"
    and queued: "\<forall>f \<in> set fs. ft_status f = FQueued \<longrightarrow> ft_feature_id f \<in> set ordered"
    and only: "\<forall>f \<in> set fs. ft_feature_id f \<in> set ordered \<longrightarrow> ft_status f = FQueued"
    and last: "\<forall>r \<in> set q. qu_feature_id r \<notin> set ordered \<longrightarrow> qu_queue_position r \<le> active"
  shows "queue_inv (map (place_feat pos now) fs) (map (place_row pos) q)"
proof -
  have dq: "distinct (map qu_feature_id q)" "distinct (map qu_queue_position q)"
    using inv by (simp_all add: queue_inv_def)
  have cases: "qu_feature_id r \<in> set ordered \<and> pos (qu_feature_id r) = Some (qu_queue_position (place_row pos r))
      \<and> active < qu_queue_position (place_row pos r)
    \<or> qu_feature_id r \<notin> set ordered \<and> place_row pos r = r" for r
  proof (cases "pos (qu_feature_id r)")
    case None
    moreover from this have "qu_feature_id r \<notin> set ordered" using positions_None pos by metis
    ultimately show ?thesis by (simp add: place_row_def)
  next
    case (Some p)
    then have "qu_feature_id r \<in> set ordered" using positions_None pos by (metis option.distinct(1))
    with Some positions_ge [of "Suc active" ordered "qu_feature_id r" p] pos show ?thesis
      by (simp add: place_row_def)
  qed
  have "inj_on (\<lambda>r. qu_queue_position (place_row pos r)) (set q)"
  proof (rule inj_onI)
    fix r s assume *: "r \<in> set q" "s \<in> set q"
      "qu_queue_position (place_row pos r) = qu_queue_position (place_row pos s)"
    have low: "qu_queue_position (place_row pos u) \<le> active"
      if "u \<in> set q" "qu_feature_id u \<notin> set ordered" for u
      using cases [of u] that last by auto
    have "qu_feature_id r = qu_feature_id s \<or> qu_queue_position r = qu_queue_position s"
    proof (cases "qu_feature_id r \<in> set ordered"; cases "qu_feature_id s \<in> set ordered")
      assume "qu_feature_id r \<in> set ordered" "qu_feature_id s \<in> set ordered"
      then have "qu_feature_id r = qu_feature_id s"
        using cases [of r] cases [of s] *(3) positions_inj [OF _ _ dist] unfolding pos by metis
      then show ?thesis ..
    next
      assume "qu_feature_id r \<in> set ordered" "qu_feature_id s \<notin> set ordered"
      with low [OF *(2)] cases [of r] *(3) show ?thesis by linarith
    next
      assume "qu_feature_id r \<notin> set ordered" "qu_feature_id s \<in> set ordered"
      with low [OF *(1)] cases [of s] *(3) show ?thesis by linarith
    next
      assume "qu_feature_id r \<notin> set ordered" "qu_feature_id s \<notin> set ordered"
      then have "place_row pos r = r" "place_row pos s = s" using cases by blast+
      with *(3) show ?thesis by simp
    qed
    with dq * show "r = s" by (auto dest: distinct_map_inj)
  qed
  then have "distinct (map qu_queue_position (map (place_row pos) q))"
    using dq(1) by (simp add: distinct_map comp_def)
  moreover have "\<lparr>qu_feature_id = ft_feature_id f, qu_queue_position = ft_queue_position f\<rparr> \<in> set (map (place_row pos) q)"
    if f: "f \<in> set (map (place_feat pos now) fs)" "\<not> ended (ft_status f)" for f
  proof -
    from f obtain g where g: "g \<in> set fs" "f = place_feat pos now g" by auto
    let ?r = "\<lparr>qu_feature_id = ft_feature_id g, qu_queue_position = ft_queue_position g\<rparr>"
    have "?r \<in> set q" using inv g f(2) by (auto simp: queue_inv_def)
    moreover have "place_row pos ?r = \<lparr>qu_feature_id = ft_feature_id f, qu_queue_position = ft_queue_position f\<rparr>"
    proof (cases "ft_status g = FQueued")
      case True
      with queued g have "pos (ft_feature_id g) \<noteq> None" by (simp add: pos positions_None)
      with True g show ?thesis by (auto simp: place_row_def place_feat_def)
    next
      case False
      with only g have "pos (ft_feature_id g) = None" by (auto simp: pos positions_None)
      with False g show ?thesis by (simp add: place_row_def place_feat_def)
    qed
    ultimately show ?thesis by (metis image_eqI list.set_map)
  qed
  moreover have "\<exists>f \<in> set (map (place_feat pos now) fs). ft_feature_id f = qu_feature_id r \<and> \<not> ended (ft_status f)"
    if r: "r \<in> set (map (place_row pos) q)" for r
  proof -
    from r obtain s where s: "s \<in> set q" "r = place_row pos s" by auto
    then obtain f where f: "f \<in> set fs" "ft_feature_id f = qu_feature_id s" "\<not> ended (ft_status f)"
      using inv by (auto simp: queue_inv_def)
    with s show ?thesis by (intro bexI [of _ "place_feat pos now f"]) simp_all
  qed
  moreover have "distinct (map qu_feature_id (map (place_row pos) q))" using dq(1) by (simp add: comp_def)
  ultimately show ?thesis unfolding queue_inv_def by blast
qed

section \<open>Grants\<close>

definition grants_inv :: "kernel \<Rightarrow> bool" where
  "grants_inv k =
     (\<forall>repository kind. map gt_revision (grants_of repository kind k)
        = [1..<Suc (length (grants_of repository kind k))])"

lemma max_upt: "foldr max [1..<Suc n] 0 = n"
proof -
  have "foldr max [1..<Suc n] m = max n m" for m :: nat
    by (induction n arbitrary: m) auto
  then show ?thesis by simp
qed

lemma newest_revision_length:
  "grants_inv k \<Longrightarrow> newest_revision repository kind k = length (grants_of repository kind k)"
  unfolding newest_revision_def grants_inv_def by (metis max_upt)

lemma grants_inv_insert:
  assumes inv: "grants_inv k" and g: "gt_revision g = Suc (newest_revision (gt_repository_id g) (gt_kind g) k)"
    and k': "k_grants k' = k_grants k @ [g]"
  shows "grants_inv k'"
  unfolding grants_inv_def
proof (intro allI)
  fix repository kind
  let ?old = "grants_of repository kind k"
  have old: "map gt_revision ?old = [1..<Suc (length ?old)]" using inv by (simp add: grants_inv_def)
  show "map gt_revision (grants_of repository kind k') = [1..<Suc (length (grants_of repository kind k'))]"
  proof (cases "gt_repository_id g = repository \<and> gt_kind g = kind")
    case True
    then have new: "grants_of repository kind k' = ?old @ [g]" by (simp add: grants_of_def k')
    have "gt_revision g = Suc (length ?old)" using g True newest_revision_length [OF inv] by simp
    then show ?thesis using old by (simp add: new)
  next
    case False
    then have "grants_of repository kind k' = ?old" by (simp add: grants_of_def k')
    with old show ?thesis by simp
  qed
qed

text \<open>The newest grant is the last one recorded.\<close>

lemma newest_grant_last:
  assumes "grants_inv k"
  shows "newest_grant repository kind k =
    (if grants_of repository kind k = [] then None else Some (last (grants_of repository kind k)))"
proof -
  let ?g = "grants_of repository kind k"
  have "sorted (map gt_revision ?g)" using assms by (simp add: grants_inv_def del: upt_Suc)
  then have "sort_key gt_revision ?g = ?g" by (rule sort_key_id_if_sorted)
  then show ?thesis
    by (cases ?g rule: rev_cases) (simp_all add: newest_grant_def)
qed

end
