(* ===== verification/Conveyor_Preserves.thy ===== *)
theory Conveyor_Preserves
  imports Conveyor_Invariant "HOL-Library.Sublist"
begin

text \<open>
  Every operation of the Feature Conveyor meets the contract \<open>conveyor_ok\<close>. The proofs rest on the
  \<open>.._effect\<close> lemmas, which give the new state as an update of the old one, and on what the shared
  writes do to each table's invariant.

  The invariant of the whole database, distributed work and Feature Conveyor together, and the
  relation that every operation keeps: \<open>work_progress\<close> for the tables of distributed work and
  \<open>conveyor_progress\<close> for the conveyor's own. \<open>conveyor_ok\<close> is the contract of one operation; the
  lemmas here prove it for an operation of the kernel, for one that writes only the conveyor's tables,
  and for the two shared writes of a feature's move.
\<close>

section \<open>The invariant\<close>

definition holder :: "kernel \<Rightarrow> uuid option" where
  "holder k = map_option fl_feature_id (k_active_lease k)"

definition lease_backed :: "feature_row list \<Rightarrow> claim_row list \<Rightarrow> lease_row \<Rightarrow> bool" where
  "lease_backed fs cs l =
     ((\<exists>f \<in> set fs. ft_feature_id f = fl_feature_id l)
      \<and> (\<exists>c \<in> set cs. cl_lease_id c = fl_lease_id l \<and> cl_feature_id c = fl_feature_id l
            \<and> fl_snapshot_id l = Some (cl_snapshot_id c)))"

definition claims_inv :: "feature_row list \<Rightarrow> claim_row list \<Rightarrow> lease_row option \<Rightarrow> bool" where
  "claims_inv fs cs l =
     (distinct (map cl_lease_id cs) \<and> distinct (map cl_snapshot_id cs)
      \<and> (\<forall>r. l = Some r \<longrightarrow> lease_backed fs cs r))"

definition dispatch_backed :: "step_row list \<Rightarrow> claim_row list \<Rightarrow> dispatch_row \<Rightarrow> bool" where
  "dispatch_backed ss cs d =
     ((\<exists>s \<in> set ss. st_step_id s = dp_step_id d \<and> st_task_id s = dp_task_id d
            \<and> st_capability_id s = LOCAL_CODING_CAPABILITY_ID)
      \<and> (\<exists>c \<in> set cs. cl_lease_id c = dp_feature_lease_id d \<and> cl_feature_id c = dp_feature_id d
            \<and> cl_snapshot_id c = dp_snapshot_id d))"

definition dispatches_inv :: "step_row list \<Rightarrow> claim_row list \<Rightarrow> dispatch_row list \<Rightarrow> bool" where
  "dispatches_inv ss cs ds =
     (distinct (map dp_step_id ds) \<and> distinct (map dp_packet_id ds)
      \<and> (\<forall>d \<in> set ds. dispatch_backed ss cs d))"

definition conveyor_inv :: "bool \<Rightarrow> kernel \<Rightarrow> bool" where
  "conveyor_inv strict k =
     (kernel_inv k
      \<and> features_inv strict (k_features k) (k_transitions k) (holder k)
      \<and> queue_inv (k_features k) (k_queue k)
      \<and> claims_inv (k_features k) (k_claims k) (k_active_lease k)
      \<and> dispatches_inv (k_steps k) (k_claims k) (k_dispatches k)
      \<and> grants_inv k)"

section \<open>Progress\<close>

definition work_progress :: "kernel \<Rightarrow> kernel \<Rightarrow> bool" where
  "work_progress k k' =
     (grows step_le (k_steps k) (k_steps k') \<and> grows attempt_le (k_attempts k) (k_attempts k')
      \<and> grows connection_le (k_connections k) (k_connections k')
      \<and> grows device_le (k_devices k) (k_devices k')
      \<and> k_next_connection_epoch k \<le> k_next_connection_epoch k'
      \<and> k_emergency_pause_revision k \<le> k_emergency_pause_revision k'
      \<and> orchestration_kept k k' \<and> log_ext k k')"

definition feature_le :: "feature_row \<Rightarrow> feature_row \<Rightarrow> bool" where
  "feature_le f g =
     (ft_feature_id g = ft_feature_id f
      \<and> ft_current_specification_revision g = ft_current_specification_revision f
      \<and> (ft_status g = ft_status f \<and> ft_lifecycle_revision g = ft_lifecycle_revision f
         \<or> \<not> ended (ft_status f) \<and> lifecycle_rank (ft_status f) < lifecycle_rank (ft_status g)
           \<and> ft_lifecycle_revision f < ft_lifecycle_revision g))"

interpretation features: row_order feature_le
  by unfold_locales (auto simp: feature_le_def)

definition conveyor_progress :: "kernel \<Rightarrow> kernel \<Rightarrow> bool" where
  "conveyor_progress k k' =
     (grows feature_le (k_features k) (k_features k')
      \<and> prefix (k_grants k) (k_grants k') \<and> prefix (k_specifications k) (k_specifications k')
      \<and> prefix (k_claims k) (k_claims k') \<and> prefix (k_transitions k) (k_transitions k')
      \<and> prefix (k_dispatches k) (k_dispatches k') \<and> prefix (k_dependencies k) (k_dependencies k')
      \<and> k_queue_revision k \<le> k_queue_revision k'
      \<and> ob_designation_revision (k_owner_bridge k) \<le> ob_designation_revision (k_owner_bridge k'))"

lemma work_progress_trans: "work_progress k l \<Longrightarrow> work_progress l m \<Longrightarrow> work_progress k m"
  unfolding work_progress_def
  by (intro conjI)
    (auto intro: steps.trans attempts.trans connections.trans devices.trans log_ext_trans orchestration_kept_trans)

lemma conveyor_progress_trans: "conveyor_progress k l \<Longrightarrow> conveyor_progress l m \<Longrightarrow> conveyor_progress k m"
  unfolding conveyor_progress_def
  by (intro conjI) (auto intro: features.trans prefix_order.trans)

definition conveyor_ok :: "bool \<Rightarrow> kernel \<Rightarrow> kernel \<Rightarrow> bool" where
  "conveyor_ok strict k k' = (conveyor_inv strict k' \<and> work_progress k k' \<and> conveyor_progress k k')"

lemma conveyor_ok_trans: "conveyor_ok strict k l \<Longrightarrow> conveyor_ok strict l m \<Longrightarrow> conveyor_ok strict k m"
  unfolding conveyor_ok_def by (blast intro: work_progress_trans conveyor_progress_trans)

section \<open>Operations of the kernel\<close>

lemma conveyor_tables_eq:
  assumes "conveyor_tables k' = conveyor_tables k"
  shows "k_grants k' = k_grants k" "k_specifications k' = k_specifications k" "k_features k' = k_features k"
    "k_dependencies k' = k_dependencies k" "k_queue k' = k_queue k" "k_transitions k' = k_transitions k"
    "k_owner_bridge k' = k_owner_bridge k" "k_active_lease k' = k_active_lease k" "k_claims k' = k_claims k"
    "k_queue_revision k' = k_queue_revision k" "k_dispatches k' = k_dispatches k"
  using assms by (simp_all add: conveyor_tables_def)

lemma dispatches_inv_grow:
  assumes "dispatches_inv ss cs ds" "grows step_le ss ss'"
  shows "dispatches_inv ss' cs ds"
proof -
  have "dispatch_backed ss' cs d" if d: "d \<in> set ds" for d
  proof -
    from assms(1) d obtain s where s: "s \<in> set ss" "st_step_id s = dp_step_id d" "st_task_id s = dp_task_id d"
      "st_capability_id s = LOCAL_CODING_CAPABILITY_ID"
      by (auto simp: dispatches_inv_def dispatch_backed_def)
    obtain s' where s': "s' \<in> set ss'" "step_le s s'" using grows_row [OF assms(2) s(1)] by blast
    then have "step_identity_row s' = step_identity_row s" by (simp add: step_le_def)
    then have "st_step_id s' = st_step_id s" "st_task_id s' = st_task_id s" "st_capability_id s' = st_capability_id s"
      by (cases s; cases s'; simp add: step_identity_row_def)+
    with s s' assms(1) d show ?thesis by (auto simp: dispatches_inv_def dispatch_backed_def)
  qed
  with assms(1) show ?thesis by (simp add: dispatches_inv_def)
qed

lemma kernel_op_ok:
  assumes inv: "conveyor_inv strict k" and "kernel_inv k'" and p: "progress k k'"
  shows "conveyor_ok strict k k'"
proof -
  have t: "conveyor_tables k' = conveyor_tables k" using p by (simp add: progress_def)
  note e = conveyor_tables_eq [OF t]
  have "dispatches_inv (k_steps k') (k_claims k) (k_dispatches k)"
    using inv p dispatches_inv_grow unfolding conveyor_inv_def progress_def by blast
  then have "conveyor_inv strict k'"
    using inv assms(2) by (simp add: conveyor_inv_def e holder_def grants_inv_def grants_of_def)
  then show ?thesis
    using p by (simp add: conveyor_ok_def work_progress_def conveyor_progress_def progress_def e features.refl)
qed

lemma pause_ok_conveyor:
  assumes "conveyor_inv strict k" "pause_ok k k'"
  shows "conveyor_ok strict k k'"
  using assms kernel_op_ok advance_ok unfolding pause_ok_def conveyor_inv_def by blast

section \<open>Operations that write only the conveyor's tables\<close>

definition same_kernel :: "kernel \<Rightarrow> kernel \<Rightarrow> bool" where
  "same_kernel k k' =
     (k_steps k' = k_steps k \<and> k_attempts k' = k_attempts k \<and> k_connections k' = k_connections k
      \<and> k_devices k' = k_devices k \<and> k_next_connection_epoch k' = k_next_connection_epoch k
      \<and> k_events k' = k_events k \<and> k_next_sequence k' = k_next_sequence k \<and> k_stream_id k' = k_stream_id k
      \<and> k_emergency_pause_revision k' = k_emergency_pause_revision k
      \<and> k_orchestration k' = k_orchestration k \<and> k_checkpoints k' = k_checkpoints k
      \<and> k_orchestration_activated k' = k_orchestration_activated k)"

lemma same_kernel_inv: "same_kernel k k' \<Longrightarrow> kernel_inv k' = kernel_inv k"
  by (simp add: same_kernel_def kernel_inv_def lease_inv_def)

lemma same_kernel_progress: "same_kernel k k' \<Longrightarrow> work_progress k k'"
  by (simp add: same_kernel_def work_progress_def steps.refl attempts.refl connections.refl devices.refl log_ext_same)

lemma same_kernel_conveyor:
  assumes "conveyor_inv strict k" "same_kernel k k'"
    and "features_inv strict (k_features k') (k_transitions k') (holder k')" "queue_inv (k_features k') (k_queue k')"
    and "claims_inv (k_features k') (k_claims k') (k_active_lease k')"
    and "dispatches_inv (k_steps k) (k_claims k') (k_dispatches k')" "grants_inv k'"
  shows "conveyor_inv strict k'"
  using assms same_kernel_inv [OF assms(2)] by (simp add: conveyor_inv_def same_kernel_def)

lemma same_kernel_ok:
  assumes "conveyor_inv strict k" "same_kernel k k'" "conveyor_progress k k'"
    and "features_inv strict (k_features k') (k_transitions k') (holder k')" "queue_inv (k_features k') (k_queue k')"
    and "claims_inv (k_features k') (k_claims k') (k_active_lease k')"
    and "dispatches_inv (k_steps k) (k_claims k') (k_dispatches k')" "grants_inv k'"
  shows "conveyor_ok strict k k'"
  using same_kernel_conveyor [OF assms(1,2,4-8)] same_kernel_progress [OF assms(2)] assms(3)
  by (simp add: conveyor_ok_def)

text \<open>The audit trail is not part of the invariant.\<close>

lemma audit_ok:
  assumes "conveyor_ok strict k k'"
  shows "conveyor_ok strict k (k'\<lparr>k_audit := a\<rparr>)"
  using assms
  by (simp add: conveyor_ok_def conveyor_inv_def kernel_inv_def lease_inv_def work_progress_def log_ext_def
      orchestration_kept_def
      conveyor_progress_def holder_def grants_inv_def grants_of_def)

lemma conveyor_ok_refl: "conveyor_inv strict k \<Longrightarrow> conveyor_ok strict k k"
  by (simp add: conveyor_ok_def work_progress_def conveyor_progress_def steps.refl attempts.refl connections.refl
      devices.refl features.refl log_ext_same)


lemma inv_parts:
  assumes "conveyor_inv strict k"
  shows "kernel_inv k" "features_inv strict (k_features k) (k_transitions k) (holder k)"
    "queue_inv (k_features k) (k_queue k)" "claims_inv (k_features k) (k_claims k) (k_active_lease k)"
    "dispatches_inv (k_steps k) (k_claims k) (k_dispatches k)" "grants_inv k"
    "distinct (map ft_feature_id (k_features k))"
  using assms by (simp_all add: conveyor_inv_def features_inv_def)

lemma grants_inv_same: "k_grants k' = k_grants k \<Longrightarrow> grants_inv k' = grants_inv k"
  by (simp add: grants_inv_def grants_of_def)

lemma feature_of_inv: "conveyor_inv strict k \<Longrightarrow> f \<in> set (k_features k) \<Longrightarrow> feature_ok strict (k_transitions k) (holder k) f"
  by (simp add: conveyor_inv_def features_inv_def)

lemma only_feature:
  assumes "conveyor_inv strict k" "find_feature i k = Some f"
  shows "f \<in> set (k_features k)" "ft_feature_id f = i"
    "\<forall>g \<in> set (k_features k). ft_feature_id g = i \<longleftrightarrow> g = f"
  using find_feature_Some [OF assms(2)] feature_unique [OF inv_parts(7) [OF assms(1)]] by blast+

lemma claims_inv_ids:
  "claims_inv fs cs l \<Longrightarrow> ft_feature_id ` set fs \<subseteq> ft_feature_id ` set fs' \<Longrightarrow> claims_inv fs' cs l"
  unfolding claims_inv_def lease_backed_def by (fastforce simp: image_iff subset_iff)

lemma ids_update: "(\<And>g. ft_feature_id (u g) = ft_feature_id g) \<Longrightarrow> ft_feature_id ` set (update_rows p u fs) = ft_feature_id ` set fs"
  unfolding set_update_rows image_image by (rule image_cong) simp_all

section \<open>Moves\<close>

lemma move_grows:
  assumes "\<forall>g \<in> set fs. p g \<longleftrightarrow> g = f" "\<not> ended (ft_status f)" "lifecycle_rank (ft_status f) < lifecycle_rank s"
  shows "grows feature_le fs (update_rows p (moved s e now) fs)"
  using assms by (intro features.update) (simp add: feature_le_def)

lemma move_inv:
  assumes inv: "conveyor_inv strict k" and f: "f \<in> set (k_features k)" "busy (ft_status f)" and s: "busy s"
    and p: "\<forall>g \<in> set (k_features k). p g \<longleftrightarrow> g = f"
    and rank: "strict \<Longrightarrow> lifecycle_rank (ft_status f) < lifecycle_rank s"
    and t: "tr_feature_id t = ft_feature_id f" "tr_lifecycle_revision t = Suc (ft_lifecycle_revision f)"
    and evidence: "evidence_ok strict (k_transitions k @ [t]) (moved s e now f)"
  shows "conveyor_inv strict (moved_kernel p s e now t k)"
proof (rule same_kernel_conveyor [OF inv])
  have mine: "holder k = Some (ft_feature_id f)" using feature_of_inv [OF inv f(1)] f(2) by (simp add: feature_ok_def)
  have live: "\<not> ended (ft_status f)" "\<not> ended s" using f(2) s by (simp_all add: busy_def)
  show "same_kernel k (moved_kernel p s e now t k)" by (simp add: same_kernel_def)
  show "features_inv strict (k_features (moved_kernel p s e now t k)) (k_transitions (moved_kernel p s e now t k))
      (holder (moved_kernel p s e now t k))"
    using features_inv_move [OF inv_parts(2) [OF inv] f(1) p rank t evidence, of "holder k"] s mine
    by (simp add: holder_def)
  have "\<forall>g \<in> set (k_features k). p g \<longrightarrow> \<not> ended (ft_status g) \<and> \<not> ended (ft_status (moved s e now g))"
    using p live by simp
  then show "queue_inv (k_features (moved_kernel p s e now t k)) (k_queue (moved_kernel p s e now t k))"
    using queue_inv_update [OF inv_parts(3) [OF inv], of "moved s e now" p] by simp
  show "claims_inv (k_features (moved_kernel p s e now t k)) (k_claims (moved_kernel p s e now t k))
      (k_active_lease (moved_kernel p s e now t k))"
    using claims_inv_ids [OF inv_parts(4) [OF inv]] by (simp add: ids_update)
  show "dispatches_inv (k_steps k) (k_claims (moved_kernel p s e now t k)) (k_dispatches (moved_kernel p s e now t k))"
    using inv_parts(5) [OF inv] by simp
  show "grants_inv (moved_kernel p s e now t k)"
    using inv_parts(6) [OF inv] by (simp add: grants_inv_def grants_of_def)
qed

lemma move_ok:
  assumes inv: "conveyor_inv strict k" and f: "f \<in> set (k_features k)" "busy (ft_status f)" and s: "busy s"
    and p: "\<forall>g \<in> set (k_features k). p g \<longleftrightarrow> g = f"
    and rank: "lifecycle_rank (ft_status f) < lifecycle_rank s"
    and t: "tr_feature_id t = ft_feature_id f" "tr_lifecycle_revision t = Suc (ft_lifecycle_revision f)"
    and evidence: "evidence_ok strict (k_transitions k @ [t]) (moved s e now f)"
  shows "conveyor_ok strict k (moved_kernel p s e now t k)"
proof -
  have same: "same_kernel k (moved_kernel p s e now t k)" by (simp add: same_kernel_def)
  have "\<not> ended (ft_status f)" using f(2) by (simp add: busy_def)
  then show ?thesis
    using move_inv [OF inv f s p rank t evidence] move_grows [OF p _ rank] same_kernel_progress [OF same]
    by (simp add: conveyor_ok_def conveyor_progress_def)
qed

lemma end_ok:
  assumes inv: "conveyor_inv strict k" and f: "f \<in> set (k_features k)" "busy (ft_status f)" and s: "ended s"
    and p: "\<forall>g \<in> set (k_features k). p g \<longleftrightarrow> g = f"
    and t: "tr_feature_id t = ft_feature_id f" "tr_lifecycle_revision t = Suc (ft_lifecycle_revision f)"
  shows "conveyor_ok strict k (released (ft_feature_id f) (moved_kernel p s e now t k))"
proof (rule same_kernel_ok [OF inv])
  let ?k = "released (ft_feature_id f) (moved_kernel p s e now t k)"
  have mine: "holder k = Some (ft_feature_id f)" using feature_of_inv [OF inv f(1)] f(2) by (simp add: feature_ok_def)
  have live: "\<not> ended (ft_status f)" and rank: "lifecycle_rank (ft_status f) < lifecycle_rank s"
    using f(2) s by (cases "ft_status f"; auto simp: busy_def ended_def)+
  show "same_kernel k ?k" by (simp add: same_kernel_def)
  show "conveyor_progress k ?k" using move_grows [OF p live rank] by (simp add: conveyor_progress_def)
  have "ft_feature_id g \<noteq> ft_feature_id f" if "g \<in> set (k_features k)" "g \<noteq> f" for g
    using feature_unique [OF inv_parts(7) [OF inv] that(1) f(1)] that(2) by blast
  then have "\<forall>g \<in> set (k_features k). g \<noteq> f \<longrightarrow>
      (None = Some (ft_feature_id g) \<longleftrightarrow> holder k = Some (ft_feature_id g))" using mine by fastforce
  moreover have "busy s \<longleftrightarrow> None = Some (ft_feature_id f)" using s by (simp add: busy_def)
  ultimately show "features_inv strict (k_features ?k) (k_transitions ?k) (holder ?k)"
    using features_inv_move [OF inv_parts(2) [OF inv] f(1) p rank t evidence_ended [OF s], of None]
    by (simp add: holder_def)
  show "queue_inv (k_features ?k) (k_queue ?k)"
    using queue_inv_end [OF inv_parts(3) [OF inv] inv_parts(7) [OF inv] f(1) p s] by simp
  show "claims_inv (k_features ?k) (k_claims ?k) (k_active_lease ?k)"
    using inv_parts(4) [OF inv] by (simp add: claims_inv_def)
  show "dispatches_inv (k_steps k) (k_claims ?k) (k_dispatches ?k)" using inv_parts(5) [OF inv] by simp
  show "grants_inv ?k" using inv_parts(6) [OF inv] by (simp add: grants_inv_def grants_of_def)
qed

lemma lease_busy: "conveyor_inv strict k \<Longrightarrow> f \<in> set (k_features k) \<Longrightarrow> holder k = Some (ft_feature_id f) \<Longrightarrow> busy (ft_status f)"
  using feature_of_inv by (auto simp: feature_ok_def)

lemma lease_of_holder: "lease_of i k \<noteq> None \<longleftrightarrow> holder k = Some i"
  by (auto simp: lease_of_def holder_def split: option.splits)

lemma advance_lifecycle_ok:
  assumes inv: "conveyor_inv strict k" and ok: "advance_feature_lifecycle cx i r s snap accepted now k = Inr (k', v)"
  shows "conveyor_ok strict k k'"
proof -
  from advance_effect [OF ok] obtain f row where e: "find_feature i k = Some f" "ft_lifecycle_revision f = r"
    "lifecycle_successor (ft_status f) s" "snap \<noteq> 0" "accepted \<noteq> 0"
    and k': "k' = (moved_kernel (\<lambda>g. ft_feature_id g = i \<and> ft_status g = ft_status f
          \<and> ft_lifecycle_revision g = r) s (s \<in> {FPublishing, FVerifyingMain}) now
        ((bare_transition i (Suc r) (ft_status f) s now)
           \<lparr>tr_repository_snapshot_sha256 := Some snap, tr_accepted_evidence_sha256 := Some accepted\<rparr>) k)
        \<lparr>k_audit := insert_row row (k_audit k)\<rparr>"
    by blast
  note f = only_feature [OF inv e(1)]
  note st = status_facts(1) [OF e(3)]
  have only: "\<forall>g \<in> set (k_features k). ft_feature_id g = i \<and> ft_status g = ft_status f
      \<and> ft_lifecycle_revision g = r \<longleftrightarrow> g = f"
    using f(3) e(2) by blast
  note ev = evidence_advance [OF e(3-5), of strict "k_transitions k" now "s \<in> {FPublishing, FVerifyingMain}",
      unfolded f(2) e(2)]
  have "conveyor_ok strict k (moved_kernel (\<lambda>g. ft_feature_id g = i \<and> ft_status g = ft_status f
          \<and> ft_lifecycle_revision g = r) s (s \<in> {FPublishing, FVerifyingMain}) now
        ((bare_transition i (Suc r) (ft_status f) s now)
           \<lparr>tr_repository_snapshot_sha256 := Some snap, tr_accepted_evidence_sha256 := Some accepted\<rparr>) k)"
    using st e(2) only ev by (intro move_ok [OF inv f(1)]) (simp_all add: bare_transition_def f(2))
  then show ?thesis unfolding k' by (rule audit_ok)
qed

lemma binding_facts:
  assumes inv: "conveyor_inv strict k" and "require_resolution_binding cx b owner k = Inr (ft_status f)"
    and f: "find_feature (rb_feature_id b) k = Some f"
  shows "busy (ft_status f)" "holder k = Some (ft_feature_id f)"
proof -
  show "holder k = Some (ft_feature_id f)"
    using resolution_binding_Inr [OF assms(2)] only_feature(2) [OF inv f] by (auto simp: holder_def)
  then show "busy (ft_status f)" using lease_busy [OF inv] only_feature(1) [OF inv f] by blast
qed

lemma cancel_dispatch_ok:
  assumes l: "lease_inv k" and ok: "cancel_dispatch cx now item k = Inr k'"
  shows "pause_ok k k'"
proof -
  obtain t i st where item: "item = (t, i, st)" by (cases item)
  show ?thesis
  proof (cases st)
    case SQueued
    then have "append_event cx StepCancelled now (step_identity t i)
        (update_steps (\<lambda>s. st_step_id s = i \<and> st_status s = SQueued) (StepFinish SCancelled now) k) = Inr k'"
      using ok by (simp add: item cancel_dispatch_def result_simps)
    from append_event_ext [OF this] show ?thesis
      using cancel_queued_inv [OF l, of i now] finish_step_advance(2) [of k i "StepFinish SCancelled now"]
        advance_ev lease_inv_ev_ext
      unfolding pause_ok_def by (blast intro: advance_trans_closes advance_closes)
  next
    case SLeased
    then have "request_leased_step_cancellation_tx cx t i now k = Inr k'"
      using ok by (simp add: item cancel_dispatch_def)
    then show ?thesis
      using request_cancellation_inv request_cancellation_advance l by (simp add: pause_ok_def)
  qed (use ok in \<open>simp_all add: item cancel_dispatch_def\<close>)
qed

lemma cancel_feature_ok:
  assumes inv: "conveyor_inv strict k" and ok: "cancel_active_feature_bound cx b now owner k = Inr (k', v)"
  shows "conveyor_ok strict k k'"
proof -
  let ?i = "rb_feature_id b"
  from cancel_effect [OF ok] obtain f k3 row where e: "require_resolution_binding cx b owner k = Inr (ft_status f)"
    "find_feature ?i k = Some f" "is_active_execution (ft_status f)"
    and c: "cancel_feature_coding_dispatches_tx cx ?i now (moved_kernel (\<lambda>g. ft_feature_id g = ?i) FCancelled True now
          (bare_transition ?i (Suc (ft_lifecycle_revision f)) (ft_status f) FCancelled now) k) = Inr k3"
    and k': "k' = k3\<lparr>k_audit := insert_row row (k_audit k3)\<rparr>"
    by blast
  note f = only_feature [OF inv e(2)]
  have s: "busy FCancelled" "lifecycle_rank FCancelled = 6" "resolution_status FCancelled"
    by (simp_all add: busy_def ended_def resolution_status_def)
  let ?m = "moved_kernel (\<lambda>g. ft_feature_id g = ?i) FCancelled True now
          (bare_transition ?i (Suc (ft_lifecycle_revision f)) (ft_status f) FCancelled now) k"
  have ev: "evidence_ok strict (k_transitions k @ [bare_transition ?i (Suc (ft_lifecycle_revision f)) (ft_status f) FCancelled now])
      (moved FCancelled True now f)"
    using evidence_resolution [OF _ e(3) s(3)] feature_of_inv [OF inv f(1)] f(2) by (simp add: feature_ok_def)
  have m: "conveyor_ok strict k ?m"
    using f(3) s ev status_facts(2) [OF e(3)]
    by (intro move_ok [OF inv f(1)]) (simp_all add: bare_transition_def f(2))
  then have inv': "conveyor_inv strict ?m" by (simp add: conveyor_ok_def)
  then have l: "lease_inv ?m" by (simp add: conveyor_inv_def kernel_inv_def)
  have "pause_ok ?m k3"
    by (rule forE_pause_ok [OF c [unfolded cancel_feature_coding_dispatches_tx_def] l]) (rule cancel_dispatch_ok)
  then have "conveyor_ok strict ?m k3" by (rule pause_ok_conveyor [OF inv'])
  with m have "conveyor_ok strict k k3" by (rule conveyor_ok_trans)
  then show ?thesis unfolding k' by (rule audit_ok)
qed

lemma success_ok:
  assumes inv: "conveyor_inv strict k" and ok: "mark_feature_succeeded cx i r q v now k = Inr (k', s)"
  shows "conveyor_ok strict k k'"
proof -
  let ?t = "(bare_transition i (Suc r) FVerifyingMain FSucceeded now)
           \<lparr>tr_verified_main_commit_sha256 := Some (vs_main_commit_sha256 v),
            tr_post_merge_evidence_sha256 := Some (vs_post_merge_evidence_sha256 v)\<rparr>"
  from success_effect [OF ok] obtain f row where e: "find_feature i k = Some f" "ft_lifecycle_revision f = r"
    "ft_status f = FVerifyingMain"
    and k': "k' = (released i (moved_kernel (\<lambda>g. ft_feature_id g = i) FSucceeded False now ?t k))
        \<lparr>k_audit := insert_row row (k_audit k)\<rparr>"
    by blast
  note f = only_feature [OF inv e(1)]
  have "conveyor_ok strict k (released (ft_feature_id f) (moved_kernel (\<lambda>g. ft_feature_id g = i) FSucceeded False now ?t k))"
    using f(3) e(2,3) by (intro end_ok [OF inv f(1)]) (simp_all add: busy_def ended_def bare_transition_def f(2))
  then show ?thesis unfolding k' f(2) by (rule audit_ok)
qed

lemma abandon_ok:
  assumes inv: "conveyor_inv strict k" and ok: "abandon_and_advance_bound cx b a now owner k = Inr (k', s)"
  shows "conveyor_ok strict k k'"
proof -
  let ?i = "rb_feature_id b"
  from abandon_effect [OF ok] obtain f row where e: "find_feature ?i k = Some f" "resolution_status (ft_status f)"
    and k': "k' = (released ?i (moved_kernel (\<lambda>g. ft_feature_id g = ?i) FAbandoned False now
        ((bare_transition ?i (Suc (ft_lifecycle_revision f)) (ft_status f) FAbandoned now)
           \<lparr>tr_safe_reconciliation_sha256 := Some (ab_safe_reconciliation_sha256 a),
            tr_verified_healthy_main_sha256 := ab_verified_healthy_main_sha256 a\<rparr>) k))
        \<lparr>k_audit := insert_row row (k_audit k)\<rparr>"
    by blast
  note f = only_feature [OF inv e(1)]
  let ?t = "(bare_transition ?i (Suc (ft_lifecycle_revision f)) (ft_status f) FAbandoned now)
           \<lparr>tr_safe_reconciliation_sha256 := Some (ab_safe_reconciliation_sha256 a),
            tr_verified_healthy_main_sha256 := ab_verified_healthy_main_sha256 a\<rparr>"
  have "conveyor_ok strict k (released (ft_feature_id f)
      (moved_kernel (\<lambda>g. ft_feature_id g = ?i) FAbandoned False now ?t k))"
    using f(3) status_facts(3) [OF e(2)]
    by (intro end_ok [OF inv f(1)]) (simp_all add: ended_def bare_transition_def f(2))
  then show ?thesis unfolding k' f(2) by (rule audit_ok)
qed

lemma startup_ok:
  assumes inv: "conveyor_inv strict k" and ok: "reconcile_feature_conveyor_startup cx now k = Inr (k', n)"
  shows "conveyor_ok strict k k'"
proof (cases "k' = k")
  case True
  then show ?thesis using conveyor_ok_refl [OF inv] by simp
next
  case False
  with ok obtain l f where e: "find_feature (fl_feature_id l) k = Some f" "k_active_lease k = Some l"
    "is_active_execution (ft_status f)" and q: "quarantine_feature cx f now k = Inr k'"
    by (auto simp: reconcile_feature_conveyor_startup_def Let_def bindE_Inr_iff bind_eq_Some_conv
        split: option.splits if_splits)
  note f = only_feature [OF inv e(1)]
  let ?i = "ft_feature_id f"
  let ?p = "\<lambda>g. ft_feature_id g = ?i \<and> ft_status g = ft_status f \<and> ft_lifecycle_revision g = ft_lifecycle_revision f"
  let ?t = "bare_transition ?i (Suc (ft_lifecycle_revision f)) (ft_status f) FQuarantined now"
  from quarantine_effect [OF q] obtain row where
    k': "k' = (moved_kernel ?p FQuarantined True now ?t k)\<lparr>k_audit := insert_row row (k_audit k)\<rparr>"
    by blast
  have s: "busy FQuarantined" "lifecycle_rank FQuarantined = 6" "resolution_status FQuarantined"
    by (simp_all add: busy_def ended_def resolution_status_def)
  have ev: "evidence_ok strict (k_transitions k @ [?t]) (moved FQuarantined True now f)"
    using evidence_resolution [OF _ e(3) s(3)] feature_of_inv [OF inv f(1)] by (simp add: feature_ok_def)
  have "\<forall>g \<in> set (k_features k). ?p g \<longleftrightarrow> g = f" using f(3) unfolding f(2) by blast
  then have "conveyor_ok strict k (moved_kernel ?p FQuarantined True now ?t k)"
    using s ev status_facts(2) [OF e(3)] by (intro move_ok [OF inv f(1)]) (simp_all add: bare_transition_def)
  then show ?thesis unfolding k' by (rule audit_ok)
qed

end
