(* ===== verification/Conveyor_Machine.thy ===== *)
theory Conveyor_Machine
  imports Conveyor_Preserves
begin

text \<open>
  Distributed work and the Feature Conveyor as one machine over one database: one constructor per
  public operation, the kernel's own among them. \<open>conveyor_step\<close> runs one operation and keeps the old
  state when it fails, as the dropped transaction does; any list of operations is a run. The contract
  \<open>conveyor_ok\<close> of the single operations makes \<open>conveyor_inv\<close> an invariant of every run and
  \<open>work_progress\<close> and \<open>conveyor_progress\<close> the relation between any two states of one run.

  The contract \<open>conveyor_ok\<close> of the operations before a feature moves: recording grants, designating the
  owner bridge, the repository preflight, enqueueing, reordering, claiming and dispatching.
\<close>

section \<open>Grants, designation and preflight\<close>

lemma grant_ok:
  assumes inv: "conveyor_inv strict k" and ok: "record_repository_grant_revision cx g r p now k = Inr k'"
  shows "conveyor_ok strict k k'"
proof -
  from grant_effect [OF ok] obtain row where rev: "gv_revision g = Suc (newest_revision (gv_repository_id g) (gv_kind g) k)"
    and k': "k' = (k\<lparr>k_grants := k_grants k @ [grant_row_of g now]\<rparr>)\<lparr>k_audit := insert_row row (k_audit k)\<rparr>"
    by auto
  let ?k = "k\<lparr>k_grants := k_grants k @ [grant_row_of g now]\<rparr>"
  have "grants_inv ?k"
    by (rule grants_inv_insert [OF inv_parts(6) [OF inv], of "grant_row_of g now"]) (simp_all add: grant_row_of_def rev)
  then have "conveyor_ok strict k ?k"
    using inv_parts [OF inv]
    by (intro same_kernel_ok [OF inv])
      (simp_all add: same_kernel_def conveyor_progress_def features.refl holder_def)
  then show ?thesis unfolding k' by (rule audit_ok)
qed

lemma designate_ok:
  assumes inv: "conveyor_inv strict k" and ok: "designate_owner_control_bridge cx d r now k = Inr (k', v)"
  shows "conveyor_ok strict k k'"
proof -
  let ?b = "\<lparr>ob_device_id = Some d, ob_registry_revision = Some (ds_registry_revision v),
      ob_designation_revision = Suc r\<rparr>"
  from designate_effect [OF ok] obtain row where old: "ob_designation_revision (k_owner_bridge k) = r"
    and k': "k' = (k\<lparr>k_owner_bridge := ?b\<rparr>)\<lparr>k_audit := insert_row row (k_audit k)\<rparr>" by auto
  have "conveyor_ok strict k (k\<lparr>k_owner_bridge := ?b\<rparr>)"
    using inv_parts [OF inv] old
    by (intro same_kernel_ok [OF inv])
      (simp_all add: same_kernel_def conveyor_progress_def features.refl holder_def grants_inv_def grants_of_def)
  then show ?thesis unfolding k' by (rule audit_ok)
qed

lemma preflight_ok:
  assumes inv: "conveyor_inv strict k" and ok: "record_repository_preflight cx i r s p now k = Inr k'"
  shows "conveyor_ok strict k k'"
  using preflight_effect [OF ok] audit_ok [OF conveyor_ok_refl [OF inv]] by blast

section \<open>Enqueueing\<close>

lemma holder_feature:
  assumes "conveyor_inv strict k" "holder k = Some i"
  shows "\<exists>f \<in> set (k_features k). ft_feature_id f = i"
  using inv_parts(4) [OF assms(1)] assms(2) by (auto simp: claims_inv_def lease_backed_def holder_def)

lemma enqueue_ok:
  assumes inv: "conveyor_inv strict k"
    and ok: "enqueue_approved_feature_with_owner_binding cx spec r now owner k = Inr (k', s)"
  shows "conveyor_ok strict k k'"
proof (cases "k' = k")
  case True
  then show ?thesis using conveyor_ok_refl [OF inv] by simp
next
  case False
  let ?p = "Suc (last_position (k_queue k))"
  let ?f = "queued_feature spec ?p now"
  from False enqueue_effect [OF ok] obtain canonical where
    c: "enqueue_commit cx spec canonical r now owner k = Inr k'" by blast
  let ?k = "k\<lparr>k_specifications := k_specifications k @ [specification_row_of spec canonical now],
         k_features := k_features k @ [?f],
         k_queue := k_queue k @ [\<lparr>qu_feature_id = as_feature_id spec, qu_queue_position = ?p\<rparr>],
         k_dependencies := k_dependencies k @ map (\<lambda>d. \<lparr>dn_feature_id = as_feature_id spec,
           dn_dependency_feature_id = d\<rparr>) (as_dependencies spec),
         k_queue_revision := Suc r\<rparr>"
  from enqueue_commit_effect [OF c] obtain row where
    new: "find_feature (as_feature_id spec) k = None" and rev: "k_queue_revision k = r"
    and q: "\<forall>q \<in> set (k_queue k). qu_feature_id q \<noteq> as_feature_id spec \<and> qu_queue_position q \<noteq> ?p"
    and k': "k' = ?k\<lparr>k_audit := insert_row row (k_audit k)\<rparr>"
    unfolding Let_def by blast
  have fresh: "\<forall>f \<in> set (k_features k). ft_feature_id f \<noteq> as_feature_id spec"
    using new by (auto simp: find_feature_def find_row_None)
  have free: "holder k \<noteq> Some (as_feature_id spec)" using holder_feature [OF inv] fresh by blast
  have f: "ft_feature_id ?f = as_feature_id spec" "ft_status ?f = FQueued" "ft_lifecycle_revision ?f = 1"
    "ft_queue_position ?f = ?p"
    by (simp_all add: queued_feature_def)
  have "feature_ok strict (k_transitions k) (holder k) ?f"
    using free f by (simp add: feature_ok_def evidence_ok_def busy_def resolution_status_def)
  then have "features_inv strict (k_features k @ [?f]) (k_transitions k) (holder k)"
    using inv_parts(2) [OF inv] fresh f by (auto simp: features_inv_def)
  moreover have "queue_inv (k_features k @ [?f]) (k_queue k @ [\<lparr>qu_feature_id = as_feature_id spec, qu_queue_position = ?p\<rparr>])"
    using inv_parts(3) [OF inv] fresh q f by (auto simp: queue_inv_def ended_def)
  moreover have "claims_inv (k_features k @ [?f]) (k_claims k) (k_active_lease k)"
    by (rule claims_inv_ids [OF inv_parts(4) [OF inv]]) auto
  moreover have "grows feature_le (k_features k) (k_features k @ [?f])"
    using features.insert [of "k_features k" ?f] by (simp add: insert_row_def)
  ultimately have "conveyor_ok strict k ?k"
    using inv_parts(5,6) [OF inv] rev
    by (intro same_kernel_ok [OF inv])
      (simp_all add: same_kernel_def conveyor_progress_def holder_def grants_inv_def grants_of_def)
  then show ?thesis unfolding k' by (rule audit_ok)
qed

section \<open>Reordering\<close>

lemma evidence_place: "evidence_ok strict ts (place_feat pos now f) = evidence_ok strict ts f"
  by (simp add: evidence_ok_def)

lemma reorder_ok:
  assumes inv: "conveyor_inv strict k" and ok: "reorder_queued_features cx ordered r now k = Inr (k', n)"
  shows "conveyor_ok strict k k'"
proof -
  note qi = inv_parts(3) [OF inv]
  let ?pos = "positions (Suc (active_position k)) ordered"
  have ids: "distinct (map qu_feature_id (k_queue k))" using qi by (simp add: queue_inv_def)
  have listed: "\<forall>f \<in> set (k_features k). ft_status f = FQueued \<longrightarrow> ft_feature_id f \<in> set (map qu_feature_id (k_queue k))"
    using qi by (force simp: queue_inv_def ended_def)
  let ?k = "k\<lparr>k_queue := map (place_row ?pos) (k_queue k), k_features := map (place_feat ?pos now) (k_features k),
         k_queue_revision := Suc r\<rparr>"
  from reorder_effect [OF ok listed ids] obtain row where rev: "k_queue_revision k = r"
    and ms: "mset ordered = mset (queue_order k)" and d: "distinct ordered"
    and k': "k' = ?k\<lparr>k_audit := insert_row row (k_audit k)\<rparr>"
    by auto
  have members: "set ordered = qu_feature_id ` set (queued_rows k)"
    using mset_eq_setD [OF ms] by (simp add: queue_order_def)
  have queued: "\<forall>f \<in> set (k_features k). ft_status f = FQueued \<longrightarrow> ft_feature_id f \<in> set ordered"
    using listed unfolding members by (force simp: queued_rows_def exists_row_iff)
  have only: "\<forall>f \<in> set (k_features k). ft_feature_id f \<in> set ordered \<longrightarrow> ft_status f = FQueued"
    using feature_unique [OF inv_parts(7) [OF inv]] unfolding members by (fastforce simp: queued_rows_def exists_row_iff)
  have "qu_queue_position s \<le> active_position k" if s: "s \<in> set (k_queue k)" "qu_feature_id s \<notin> set ordered" for s
  proof -
    from qi s(1) obtain f where f: "f \<in> set (k_features k)" "ft_feature_id f = qu_feature_id s"
      by (auto simp: queue_inv_def)
    with queued s(2) have "ft_status f \<noteq> FQueued" by auto
    with f s(1) show ?thesis
      unfolding active_position_def by (intro last_position_ge) (auto simp: exists_row_iff)
  qed
  then have "queue_inv (map (place_feat ?pos now) (k_features k)) (map (place_row ?pos) (k_queue k))"
    by (intro queue_inv_place [OF qi inv_parts(7) [OF inv] d refl queued only]) blast
  moreover have "features_inv strict (map (place_feat ?pos now) (k_features k)) (k_transitions k) (holder k)"
    using inv_parts(2) [OF inv] by (auto simp: features_inv_def comp_def feature_ok_def evidence_place)
  moreover have "claims_inv (map (place_feat ?pos now) (k_features k)) (k_claims k) (k_active_lease k)"
    by (rule claims_inv_ids [OF inv_parts(4) [OF inv]]) (simp add: image_image)
  moreover have "grows feature_le (k_features k) (map (place_feat ?pos now) (k_features k))"
    by (simp add: grows_def list_all2_map2 list_all2_same feature_le_def)
  ultimately have "conveyor_ok strict k ?k"
    using inv_parts(5,6) [OF inv] rev
    by (intro same_kernel_ok [OF inv])
      (simp_all add: same_kernel_def conveyor_progress_def holder_def grants_inv_def grants_of_def)
  then show ?thesis unfolding k' by (rule audit_ok)
qed

section \<open>Claiming\<close>

lemma claimed_row_simps [simp]:
  "ft_feature_id (claimed_row now f) = ft_feature_id f" "ft_status (claimed_row now f) = FImplementing"
  "ft_lifecycle_revision (claimed_row now f) = Suc (ft_lifecycle_revision f)"
  "ft_queue_position (claimed_row now f) = ft_queue_position f"
  "ft_current_specification_revision (claimed_row now f) = ft_current_specification_revision f"
  by (simp_all add: claimed_row_def)

lemma features_inv_claim:
  assumes inv: "features_inv strict fs ts None" and f: "f \<in> set fs" "ft_status f = FQueued"
    and p: "\<forall>g \<in> set fs. p g \<longleftrightarrow> g = f"
  shows "features_inv strict (update_rows p (claimed_row now) fs) ts (Some (ft_feature_id f))"
proof -
  let ?fs = "update_rows p (claimed_row now) fs"
  have ids: "map ft_feature_id ?fs = map ft_feature_id fs" unfolding update_rows_def by simp
  have d: "distinct (map ft_feature_id fs)" using inv by (simp add: features_inv_def)
  have cover: "\<exists>g \<in> set ?fs. ft_feature_id g = tr_feature_id u \<and> tr_lifecycle_revision u \<le> ft_lifecycle_revision g"
    if "u \<in> set ts" for u
  proof -
    from inv that obtain g where g: "g \<in> set fs" "ft_feature_id g = tr_feature_id u"
      "tr_lifecycle_revision u \<le> ft_lifecycle_revision g" by (auto simp: features_inv_def)
    then have "(if p g then claimed_row now g else g) \<in> set ?fs" unfolding set_update_rows by blast
    with g show ?thesis by (intro bexI [of _ "if p g then claimed_row now g else g"]) auto
  qed
  have "feature_ok strict ts (Some (ft_feature_id f)) g" if "g \<in> set ?fs" for g
  proof -
    from that obtain h where h: "h \<in> set fs" "g = (if p h then claimed_row now h else h)"
      unfolding set_update_rows by auto
    have ok: "feature_ok strict ts None h" using inv h(1) by (simp add: features_inv_def)
    show ?thesis
    proof (cases "h = f")
      case True
      with h p f ok show ?thesis
        by (simp add: feature_ok_def busy_def ended_def evidence_ok_def resolution_status_def)
    next
      case False
      then have "ft_feature_id h \<noteq> ft_feature_id f" using feature_unique [OF d h(1) f(1)] by blast
      with False h p ok show ?thesis by (simp add: feature_ok_def)
    qed
  qed
  with d cover inv show ?thesis by (simp add: features_inv_def ids)
qed

lemma claim_ok:
  assumes inv: "conveyor_inv strict k" and ok: "finalize_repository_snapshot_claim cx plan snapshot now lease k = Inr (k', c)"
  shows "conveyor_ok strict k k'"
proof -
  let ?p = "\<lambda>f. ft_feature_id f = pl_feature_id plan \<and> ft_status f = FQueued"
  let ?l = "\<lparr>fl_feature_id = pl_feature_id plan, fl_lease_id = lease,
             fl_snapshot_id = Some (se_snapshot_id snapshot), fl_claimed_at_ms = now\<rparr>"
  let ?k = "k\<lparr>k_claims := k_claims k @ [claim_row_of plan snapshot lease now], k_active_lease := Some ?l,
           k_features := update_rows ?p (claimed_row now) (k_features k),
           k_queue_revision := Suc (k_queue_revision k)\<rparr>"
  from claim_effect [OF ok] obtain row where plan: "require_snapshot_claim_plan_tx plan now k = Inr ()"
    and new: "\<forall>c \<in> set (k_claims k). cl_snapshot_id c \<noteq> se_snapshot_id snapshot \<and> cl_lease_id c \<noteq> lease"
    and k': "k' = ?k\<lparr>k_audit := insert_row row (k_audit k)\<rparr>"
    by auto
  from require_plan_Inr [OF plan] obtain f where head: "queue_head k = Some f" "ft_feature_id f = pl_feature_id plan"
    and none: "k_active_lease k = None"
    by blast
  have f: "f \<in> set (k_features k)" "ft_status f = FQueued" using queue_head_Some [OF head(1)] by auto
  have p: "\<forall>g \<in> set (k_features k). ?p g \<longleftrightarrow> g = f"
    using feature_unique [OF inv_parts(7) [OF inv] _ f(1)] head(2) f(2) by auto
  have "features_inv strict (update_rows ?p (claimed_row now) (k_features k)) (k_transitions k) (Some (ft_feature_id f))"
    using features_inv_claim [OF _ f p, of strict "k_transitions k" now] inv_parts(2) [OF inv] none by (simp add: holder_def)
  moreover have "queue_inv (update_rows ?p (claimed_row now) (k_features k)) (k_queue k)"
    by (rule queue_inv_update [OF inv_parts(3) [OF inv]]) (simp_all add: ended_def)
  moreover have "claims_inv (update_rows ?p (claimed_row now) (k_features k))
      (k_claims k @ [claim_row_of plan snapshot lease now]) (Some ?l)"
  proof -
    have "claimed_row now f \<in> set (update_rows ?p (claimed_row now) (k_features k))"
      unfolding set_update_rows using f head(2) by (intro image_eqI [of _ _ f]) simp_all
    then have "lease_backed (update_rows ?p (claimed_row now) (k_features k))
        (k_claims k @ [claim_row_of plan snapshot lease now]) ?l"
      unfolding lease_backed_def using head(2) by (auto simp: claim_row_of_def intro!: bexI [of _ "claimed_row now f"])
    then show ?thesis using inv_parts(4) [OF inv] new by (auto simp: claims_inv_def claim_row_of_def)
  qed
  moreover have "dispatches_inv (k_steps k) (k_claims k @ [claim_row_of plan snapshot lease now]) (k_dispatches k)"
    using inv_parts(5) [OF inv] unfolding dispatches_inv_def dispatch_backed_def by fastforce
  moreover have "grows feature_le (k_features k) (update_rows ?p (claimed_row now) (k_features k))"
    by (rule features.update) (simp add: feature_le_def ended_def)
  ultimately have "conveyor_ok strict k ?k"
    using inv_parts(6) [OF inv] head(2)
    by (intro same_kernel_ok [OF inv])
      (simp_all add: same_kernel_def conveyor_progress_def holder_def grants_inv_def grants_of_def)
  then show ?thesis unfolding k' by (rule audit_ok)
qed

section \<open>Dispatching\<close>

lemma dispatch_ok:
  assumes inv: "conveyor_inv strict k" and ok: "dispatch_feature_coding cx r now task step k = Inr (k', receipt)"
  shows "conveyor_ok strict k k'"
proof -
  from dispatch_effect [OF ok] obtain f l c k1 k2 row where
    b: "dispatch_binding r k = Some (f, l, c)" "dispatch_binding_exact r (f, l, c)"
    and room: "open_steps (k_steps k) < MAX_QUEUED_OR_LEASED_STEPS"
    and ins: "insert_coding_step cx r task step now k = Inr k1"
    and ev: "append_event cx StepQueued now (step_identity task step) k1 = Inr k2"
    and k': "k' = k2\<lparr>k_audit := insert_row row (k_audit k2)\<rparr>"
    by blast
  let ?s = "coding_step_row cx r task step now"
  let ?d = "dispatch_row_of r task step now"
  from insert_coding_step_Inr [OF ins] have new: "\<forall>s \<in> set (k_steps k). st_step_id s \<noteq> step"
      "\<forall>d \<in> set (k_dispatches k). dp_packet_id d \<noteq> wp_packet_id (cd_work_packet r) \<and> dp_step_id d \<noteq> step"
    and k1: "k1 = k\<lparr>k_steps := k_steps k @ [?s], k_dispatches := k_dispatches k @ [?d]\<rparr>"
    by auto
  have s: "st_step_id ?s = step" "st_status ?s = SQueued" "st_task_id ?s = task"
    "st_capability_id ?s = LOCAL_CODING_CAPABILITY_ID"
    by (simp_all add: coding_step_row_def Let_def)
  note e = ev_ext_fields [OF append_event_ext [OF ev]]
  have li: "lease_inv k" using inv_parts(1) [OF inv] by (simp add: kernel_inv_def)
  have t: "tables_inv (k_connections k) (insert_row ?s (k_steps k)) (k_attempts k)"
    using li new s by (intro tables_inv_insert_step) (auto simp: lease_inv_def leased_row_def)
  then have lease: "lease_inv k2" by (simp add: lease_inv_def e k1 insert_row_def)
  let ?u = "k\<lparr>k_steps := insert_row ?s (k_steps k)\<rparr>"
  have log: "log_ext k k2"
    using log_ext_trans [OF log_ext_same log_ext_ev [OF append_event_ext [OF ev]], of k] by (simp add: k1)
  have open_: "open_steps (k_steps k2) \<le> MAX_QUEUED_OR_LEASED_STEPS"
    using room by (simp add: e k1 open_steps_def count_rows_def)
  have kinv: "kernel_inv k2"
    using inv_parts(1) [OF inv] lease stream_numbered [OF log] open_ by (simp add: kernel_inv_def e k1)
  have wp: "work_progress k k2"
    using log steps.insert [of "k_steps k" ?s]
      orchestration_kept_trans [OF orchestration_kept_same orchestration_kept_ev [OF append_event_ext [OF ev]], of k]
    by (simp add: work_progress_def e k1 attempts.refl connections.refl devices.refl insert_row_def)
  have "dispatch_backed (k_steps k @ [?s]) (k_claims k) ?d"
  proof -
    from b(1) have c: "find_row (\<lambda>c. fl_snapshot_id l = Some (cl_snapshot_id c)
        \<and> cl_feature_id c = cd_feature_id r \<and> cl_lease_id c = fl_lease_id l) (k_claims k) = Some c"
      by (auto simp: dispatch_binding_def split: option.splits if_splits)
    with find_row_Some [OF c] b(2) show ?thesis
      using s by (auto simp: dispatch_backed_def dispatch_row_of_def dispatch_binding_exact_def)
  qed
  moreover have "\<forall>d \<in> set (k_dispatches k). dispatch_backed (k_steps k @ [?s]) (k_claims k) d"
    using inv_parts(5) [OF inv] unfolding dispatches_inv_def dispatch_backed_def by auto
  ultimately have "dispatches_inv (k_steps k @ [?s]) (k_claims k) (k_dispatches k @ [?d])"
    using inv_parts(5) [OF inv] new by (auto simp: dispatches_inv_def dispatch_row_of_def)
  then have "conveyor_inv strict k2"
    using inv_parts [OF inv] kinv conveyor_tables_eq [OF e(12)]
    by (simp add: conveyor_inv_def holder_def e k1 grants_inv_def grants_of_def)
  then have "conveyor_ok strict k k2"
    using wp conveyor_tables_eq [OF e(12)] by (simp add: conveyor_ok_def conveyor_progress_def k1 features.refl)
  then show ?thesis unfolding k' by (rule audit_ok)
qed


datatype conveyor_op =
    CKernel kernel_op
  | CDesignate uuid nat nat
  | CGrant grant_revision nat nat nat
  | CPreflight uuid nat digest nat nat
  | CEnqueue approved_specification nat nat "owner_binding option"
  | CReorder "uuid list" nat nat
  | CClaim claim_plan snapshot_evidence nat uuid
  | CDispatch coding_dispatch_request nat uuid uuid
  | CAdvance uuid nat feature_status digest digest nat
  | CCancel resolution_binding nat "(device_row \<times> nat) option"
  | CSucceed uuid nat nat verified_success nat
  | CAbandon resolution_binding abandonment_evidence nat "(device_row \<times> nat) option"
  | CStartup nat

fun run_conveyor :: "codec \<Rightarrow> conveyor_op \<Rightarrow> kernel \<Rightarrow> master_error + kernel" where
  "run_conveyor cx (CKernel op) k = run_op cx op k"
| "run_conveyor cx (CDesignate device expected now) k =
     state_of (designate_owner_control_bridge cx device expected now k)"
| "run_conveyor cx (CGrant g expected pause now) k =
     record_repository_grant_revision cx g expected pause now k"
| "run_conveyor cx (CPreflight repository revision scope pause now) k =
     record_repository_preflight cx repository revision scope pause now k"
| "run_conveyor cx (CEnqueue spec expected now owner) k =
     state_of (enqueue_approved_feature_with_owner_binding cx spec expected now owner k)"
| "run_conveyor cx (CReorder ordered expected now) k =
     state_of (reorder_queued_features cx ordered expected now k)"
| "run_conveyor cx (CClaim plan snapshot now lease) k =
     state_of (finalize_repository_snapshot_claim cx plan snapshot now lease k)"
| "run_conveyor cx (CDispatch r now task step) k =
     state_of (dispatch_feature_coding cx r now task step k)"
| "run_conveyor cx (CAdvance feature expected status snapshot accepted now) k =
     state_of (advance_feature_lifecycle cx feature expected status snapshot accepted now k)"
| "run_conveyor cx (CCancel b now owner) k = state_of (cancel_active_feature_bound cx b now owner k)"
| "run_conveyor cx (CSucceed feature expected expected_queue v now) k =
     state_of (mark_feature_succeeded cx feature expected expected_queue v now k)"
| "run_conveyor cx (CAbandon b e now owner) k =
     state_of (abandon_and_advance_bound cx b e now owner k)"
| "run_conveyor cx (CStartup now) k = state_of (reconcile_feature_conveyor_startup cx now k)"

definition conveyor_step :: "codec \<Rightarrow> kernel \<Rightarrow> conveyor_op \<Rightarrow> kernel" where
  "conveyor_step cx k op = (case run_conveyor cx op k of Inl _ \<Rightarrow> k | Inr k' \<Rightarrow> k')"

definition conveyor_run :: "codec \<Rightarrow> uuid \<Rightarrow> conveyor_op list \<Rightarrow> kernel" where
  "conveyor_run cx stream ops = run_ops (conveyor_step cx) (new_kernel stream) ops"

lemma run_conveyor_ok:
  assumes inv: "conveyor_inv strict k" and ok: "run_conveyor cx op k = Inr k'"
  shows "conveyor_ok strict k k'"
proof (cases op)
  case (CKernel o1)
  with ok have "run_op cx o1 k = Inr k'" by simp
  from run_op_ok [OF inv_parts(1) [OF inv] this] show ?thesis using kernel_op_ok [OF inv] by blast
qed (use ok inv in \<open>auto simp: state_of_Inr intro: designate_ok grant_ok preflight_ok enqueue_ok reorder_ok
      claim_ok dispatch_ok advance_lifecycle_ok cancel_feature_ok success_ok abandon_ok startup_ok\<close>)

lemma conveyor_inv_new: "conveyor_inv strict (new_kernel stream)"
proof -
  have "k_features (new_kernel stream) = []" "k_transitions (new_kernel stream) = []"
    "k_queue (new_kernel stream) = []" "k_claims (new_kernel stream) = []"
    "k_dispatches (new_kernel stream) = []" "k_grants (new_kernel stream) = []"
    "k_active_lease (new_kernel stream) = None"
    by (simp_all add: new_kernel_def)
  then show ?thesis
    by (simp add: conveyor_inv_def kernel_inv_new features_inv_def queue_inv_def claims_inv_def
        dispatches_inv_def grants_inv_def grants_of_def)
qed

interpretation conveyor: invariant_machine "\<lambda>k. \<exists>stream. k = new_kernel stream" "conveyor_step cx" "conveyor_inv True" for cx
  by unfold_locales
    (auto simp: conveyor_inv_new conveyor_step_def conveyor_ok_def dest: run_conveyor_ok split: sum.splits)

definition keeps_conveyor :: "kernel \<Rightarrow> kernel \<Rightarrow> bool" where
  "keeps_conveyor k k' = (conveyor_inv True k \<longrightarrow> conveyor_ok True k k')"

interpretation conveyor_log: monotone_machine "conveyor_step cx" keeps_conveyor for cx
proof
  show "keeps_conveyor s s" for s by (simp add: keeps_conveyor_def conveyor_ok_refl)
  show "keeps_conveyor s t \<Longrightarrow> keeps_conveyor t u \<Longrightarrow> keeps_conveyor s u" for s t u
    unfolding keeps_conveyor_def using conveyor_ok_trans by (blast dest: conveyor_ok_def [THEN iffD1])
  show "keeps_conveyor s (conveyor_step cx s op)" for s op
    by (auto simp: keeps_conveyor_def conveyor_step_def intro: run_conveyor_ok conveyor_ok_refl split: sum.splits)
qed

lemma conveyor_run_inv: "conveyor_inv True (conveyor_run cx stream ops)"
  unfolding conveyor_run_def by (rule conveyor.run_inv) blast

lemma conveyor_run_append:
  "conveyor_run cx stream (ops @ later) = run_ops (conveyor_step cx) (conveyor_run cx stream ops) later"
  by (simp add: conveyor_run_def run_ops_append)

lemma conveyor_run_ok: "conveyor_ok True (conveyor_run cx stream ops) (conveyor_run cx stream (ops @ later))"
  using conveyor_log.run_rel [of "conveyor_run cx stream ops" cx later] conveyor_run_inv
  by (simp add: conveyor_run_append keeps_conveyor_def)

end
