(* ===== verification/Conveyor_Success.thy ===== *)
theory Conveyor_Success
  imports Conveyor_Machine Wire_Lengths
begin

text \<open>
  When the operations of the conveyor succeed: the converse of the \<open>.._effect\<close> lemmas, under the checks
  that the code makes and the bounds of the stored integers.

  When the audit entry of an operation is written: every metadata object of the conveyor has a fixed
  list of scalar members, so that \<open>members_room\<close> bounds its canonical JSON below the limit of 8192
  bytes, provided that the codec quotes a string in at most six bytes per byte.
\<close>

definition members_fit :: "(string \<times> json) list \<Rightarrow> bool" where
  "members_fit kvs = (case members_room kvs of None \<Rightarrow> False | Some n \<Rightarrow> n \<le> 8192)"

definition audit_of :: "string \<Rightarrow> uuid option \<Rightarrow> nat \<Rightarrow> (string \<times> json) list \<Rightarrow> audit_row" where
  "audit_of kind f now kvs =
     \<lparr>au_event_kind = kind, au_feature_id = f, au_occurred_at_ms = now, au_metadata = JObject kvs\<rparr>"

lemma append_audit_fits:
  assumes "quote_bounded (quote_json cx)" "members_fit kvs"
    and "kind \<noteq> []" "length kind \<le> 96" "now \<le> i64_max"
  shows "append_audit cx kind f now (JObject kvs) k = Inr (k\<lparr>k_audit := insert_row (audit_of kind f now kvs) (k_audit k)\<rparr>)"
proof -
  obtain n where n: "members_room kvs = Some n" "n \<le> 8192"
    using assms(2) by (auto simp: members_fit_def split: option.splits)
  then have "length (canonical_json_bytes (quote_json cx) (JObject kvs)) \<le> 8192"
    using members_room_bound [OF assms(1) n(1)] by simp
  with assms(3-5) show ?thesis
    by (simp add: append_audit_def audit_of_def validate_object_def is_ok_def reject_if_def to_i64_def)
qed

lemma room_json_nat: "n \<le> u64_max \<Longrightarrow> room (json_nat n) = Some 20"
  unfolding json_nat_def by (rule room_nat_text)

lemma i64_u64: "n \<le> i64_max \<Longrightarrow> n \<le> u64_max"
  by (simp add: i64_max_def u64_max_def)

lemma status_text_length: "length (status_text s) \<le> 18"
  by (cases s) (simp_all add: status_text_def)

lemma sample_quote: "quote_bounded (quote_json sample_codec)"
  by (simp add: quote_bounded_def sample_codec_def)


lemma foldr_max_ge: "x \<in> set xs \<Longrightarrow> x \<le> foldr max xs (0::nat)"
  by (induction xs) auto

lemma newest_revision_ge:
  "g \<in> set (k_grants k) \<Longrightarrow> gt_repository_id g = i \<Longrightarrow> gt_kind g = kind \<Longrightarrow> gt_revision g \<le> newest_revision i kind k"
  unfolding newest_revision_def by (rule foldr_max_ge) (auto simp: grants_of_def)

lemma grant_succeeds:
  assumes q: "quote_bounded (quote_json cx)"
    and valid: "gv_repository_id g \<noteq> 0" "gv_scope_sha256 g \<noteq> 0" "gv_owner_approval_sha256 g \<noteq> 0"
    and rev: "gv_revision g = Suc (newest_revision (gv_repository_id g) (gv_kind g) k)" "gv_revision g \<le> i64_max"
    and exp: "gv_revoked g \<or> \<not> expired_at (gv_expires_at_ms g) now" "\<forall>e. gv_expires_at_ms g = Some e \<longrightarrow> e \<le> i64_max"
    and open_: "gv_revoked g \<or> k_emergency_paused k = 0" and now: "now \<le> i64_max"
  shows "\<exists>row. record_repository_grant_revision cx g (newest_revision (gv_repository_id g) (gv_kind g) k)
      (k_emergency_pause_revision k) now k
    = Inr (k\<lparr>k_grants := k_grants k @ [grant_row_of g now], k_audit := insert_row row (k_audit k)\<rparr>)"
proof -
  let ?n = "newest_revision (gv_repository_id g) (gv_kind g) k"
  have fresh: "\<not> exists_row (\<lambda>r. gt_repository_id r = gv_repository_id g \<and> gt_kind r = gv_kind g
      \<and> gt_revision r = Suc ?n) (k_grants k)"
    using newest_revision_ge by (fastforce simp: exists_row_iff)
  have add: "checked_add_u64 ?n 1 = Some (Suc ?n)"
    using rev by (simp add: checked_add_u64_def i64_max_def u64_max_def)
  have fits: "members_fit [(''grant_kind'', JString (kind_text (gv_kind g))), (''revision'', json_nat (Suc ?n)),
      (''revoked'', JBool (gv_revoked g)), (''scope_digest_present'', JBool True),
      (''owner_approval_digest_present'', JBool True), (''side_effect_executed'', JBool False)]"
    using rev room_json_nat [OF i64_u64] by (cases "gv_kind g") (simp_all add: members_fit_def kind_text_def)
  have e: "(case gv_expires_at_ms g of None \<Rightarrow> Inr () | Some e \<Rightarrow> to_i64 e) = Inr ()"
    using exp(2) by (auto simp: to_i64_def split: option.split)
  let ?k = "k\<lparr>k_grants := insert_row (grant_row_of g now) (k_grants k)\<rparr>"
  obtain row where a: "append_audit cx ''repository_grant_revision_recorded'' None now
      (JObject [(''grant_kind'', JString (kind_text (gv_kind g))), (''revision'', json_nat (Suc ?n)),
      (''revoked'', JBool (gv_revoked g)), (''scope_digest_present'', JBool True),
      (''owner_approval_digest_present'', JBool True), (''side_effect_executed'', JBool False)]) ?k
    = Inr (?k\<lparr>k_audit := insert_row row (k_audit ?k)\<rparr>)"
    using append_audit_fits [OF q fits _ _ now] by simp
  have ins: "insert_repository_grant_revision_tx cx g now k = Inr (?k\<lparr>k_audit := insert_row row (k_audit k)\<rparr>)"
    using a unfolding insert_repository_grant_revision_tx_def rev(1) e
    using rev fresh now by (simp add: to_i64_def reject_if_def grant_row_of_def)
  have "validate_repository_grant g = Inr ()" using valid rev(1) by (simp add: validate_repository_grant_def reject_if_def)
  moreover have "require_emergency_pause_revision_tx (k_emergency_pause_revision k) k = Inr ()"
    by (simp add: require_emergency_pause_revision_Inr)
  moreover have "(if \<not> gv_revoked g then require_emergency_unpaused k else Inr ()) = Inr ()"
    using open_ by (auto simp: require_emergency_unpaused_Inr)
  moreover have "\<not> (\<not> gv_revoked g \<and> expired_at (gv_expires_at_ms g) now)" using exp(1) by blast
  ultimately have "record_repository_grant_revision cx g ?n (k_emergency_pause_revision k) now k
      = Inr (?k\<lparr>k_audit := insert_row row (k_audit k)\<rparr>)"
    unfolding record_repository_grant_revision_def Let_def add
    by (simp only: bindE_simps simp_thms if_False reject_if_def ok_or_def rev(1) ins option.case)
  then show ?thesis by (auto simp: insert_row_def)
qed

lemma audit_succeeds:
  "quote_bounded (quote_json cx) \<Longrightarrow> members_fit kvs \<Longrightarrow> kind \<noteq> [] \<Longrightarrow> length kind \<le> 96 \<Longrightarrow> now \<le> i64_max
    \<Longrightarrow> \<exists>k'. append_audit cx kind f now (JObject kvs) k = Inr k'"
  using append_audit_fits by blast

lemma snapshot_exists: "find_feature i k = Some f \<Longrightarrow> \<exists>s. feature_snapshot i k = Inr s"
  by (simp add: feature_snapshot_def ok_or_def)

lemma find_feature_update:
  "find_feature i (k\<lparr>k_features := update_rows p u fs, k_transitions := t\<rparr>) = find_row (\<lambda>f. ft_feature_id f = i) (update_rows p u fs)"
  by (simp add: find_feature_def)

lemma find_row_update:
  "(\<And>r. r \<in> set t \<Longrightarrow> q (u r) = q r) \<Longrightarrow> find_row q (update_rows p u t) = map_option (\<lambda>r. if p r then u r else r) (find_row q t)"
  by (induction t) (simp_all add: find_row_def)

lemma no_later_transition:
  assumes "conveyor_inv strict k" "find_feature i k = Some f" "ft_lifecycle_revision f < n"
  shows "find_row (\<lambda>t. tr_feature_id t = i \<and> tr_lifecycle_revision t = n) (k_transitions k) = None"
proof -
  note f = only_feature [OF assms(1,2)]
  have "tr_lifecycle_revision t \<noteq> n" if t: "t \<in> set (k_transitions k)" "tr_feature_id t = i" for t
  proof -
    from inv_parts(2) [OF assms(1)] t(1) obtain g where g: "g \<in> set (k_features k)" "ft_feature_id g = tr_feature_id t"
      "tr_lifecycle_revision t \<le> ft_lifecycle_revision g" by (auto simp: features_inv_def)
    with f(3) t(2) have "g = f" by auto
    with g(3) assms(3) show ?thesis by simp
  qed
  then show ?thesis by (auto simp: find_row_None)
qed

section \<open>Resolution\<close>

lemma fits_abandon:
  assumes "rb_expected_lifecycle_revision b < u64_max" "n \<le> u64_max"
    "rb_expected_emergency_pause_revision b \<le> u64_max"
  shows "\<exists>kvs. abandon_metadata b e s origin m n = JObject kvs \<and> members_fit kvs"
  using status_text_length [of s] assms
  by (simp add: abandon_metadata_def members_fit_def room_json_nat)

lemma abandon_possible:
  assumes q: "quote_bounded (quote_json cx)" and inv: "conveyor_inv strict k"
    and f: "find_feature (rb_feature_id b) k = Some f" and st: "resolution_status (ft_status f)"
    and binding: "rb_expected_lifecycle_revision b = ft_lifecycle_revision f"
      "rb_expected_queue_revision b = k_queue_revision k"
      "rb_expected_emergency_pause_revision b = k_emergency_pause_revision k"
    and ev: "ab_safe_reconciliation_sha256 e \<noteq> 0" "ab_merged e" "\<not> healthy_main_missing e"
    and bounds: "ft_created_at_ms f \<le> now" "now \<le> i64_max" "k_queue_revision k < i64_max"
      "k_emergency_pause_revision k \<le> i64_max" and r: "ft_lifecycle_revision f < i64_max"
    and origin: "feature_resolution_origin_tx (rb_feature_id b) (ft_status f) (ft_lifecycle_revision f) k = Inr origin"
  shows "\<exists>k' s. abandon_and_advance_bound cx b e now None k = Inr (k', s)"
proof -
  let ?i = "rb_feature_id b" let ?r = "ft_lifecycle_revision f"
  note fs = only_feature [OF inv f]
  have hold: "holder k = Some ?i"
    using feature_of_inv [OF inv fs(1)] status_facts(3) [OF st] fs(2) by (simp add: feature_ok_def)
  let ?t = "(bare_transition ?i (Suc ?r) (ft_status f) FAbandoned now)
      \<lparr>tr_safe_reconciliation_sha256 := Some (ab_safe_reconciliation_sha256 e),
       tr_verified_healthy_main_sha256 := ab_verified_healthy_main_sha256 e\<rparr>"
  let ?p = "\<lambda>g. ft_feature_id g = ?i"
  let ?k1 = "k\<lparr>k_features := update_rows ?p (moved FAbandoned False now) (k_features k)\<rparr>"
  let ?k2 = "moved_kernel ?p FAbandoned False now ?t k"
  have move: "move_feature ?p FAbandoned False now k = Inr ?k1"
    using bounds fs(3) by (auto simp: move_feature_Inr)
  have insert: "insert_transition ?t ?k1 = Inr ?k2"
    using no_later_transition [OF inv f, of "Suc ?r"] r bounds(2)
    by (simp add: insert_transition_Inr bare_transition_def moved_kernel_def find_transition_def)
  have release: "increment_queue_revision_tx (rb_expected_queue_revision b) (release_lease ?i ?k2)
      = Inr (released ?i ?k2, Suc (k_queue_revision k))"
    using hold bounds(3) by (auto simp: increment_queue_revision_Inr release_lease_def released_def holder_def binding)
  have "rb_expected_lifecycle_revision b < u64_max" using r by (simp add: binding i64_max_def u64_max_def)
  then have fits: "\<exists>kvs. abandon_metadata b e (ft_status f) origin (publication_merge_effect_possible_tx ?i k)
      (Suc (k_queue_revision k)) = JObject kvs \<and> members_fit kvs"
    using bounds(3,4) by (intro fits_abandon) (simp_all add: binding i64_max_def u64_max_def)
  obtain k4 where k4: "append_audit cx ''feature_abandoned'' (Some ?i) now
      (abandon_metadata b e (ft_status f) origin (publication_merge_effect_possible_tx ?i k)
        (Suc (k_queue_revision k))) (released ?i ?k2) = Inr k4"
    using audit_succeeds [OF q, of _ "''feature_abandoned''"] fits bounds(2) by fastforce
  from audit_effect [OF k4] obtain row where "k4 = (released ?i ?k2)\<lparr>k_audit := insert_row row (k_audit k)\<rparr>" by auto
  then have "find_feature ?i k4 = Some (moved FAbandoned False now f)"
    using f by (simp add: find_feature_def find_row_update fs(2))
  from snapshot_exists [OF this] obtain s where s: "feature_snapshot ?i k4 = Inr s" ..
  have "require_resolution_binding cx b None k = Inr (ft_status f)"
    using hold f by (auto simp: require_resolution_binding_def bindE_Inr_iff require_queue_revision_Inr
        require_emergency_pause_revision_Inr require_active_lease_Inr current_status_Inr binding holder_def)
  moreover have "ab_verified_healthy_main_sha256 e \<noteq> Some 0" using ev(3) by (auto simp: healthy_main_missing_def)
  ultimately have "abandon_and_advance_bound cx b e now None k = Inr (k4, s)"
    unfolding abandon_and_advance_bound_def Let_def
    by (simp add: reject_if_def ev st origin binding move insert release [unfolded binding] k4 s)
  then show ?thesis by blast
qed

lemma abandon_succeeds:
  assumes q: "quote_bounded (quote_json cx)" and inv: "conveyor_inv True k"
    and f: "find_feature (rb_feature_id b) k = Some f" and st: "resolution_status (ft_status f)"
    and binding: "rb_expected_lifecycle_revision b = ft_lifecycle_revision f"
      "rb_expected_queue_revision b = k_queue_revision k"
      "rb_expected_emergency_pause_revision b = k_emergency_pause_revision k"
    and ev: "ab_safe_reconciliation_sha256 e \<noteq> 0" "ab_merged e" "\<not> healthy_main_missing e"
    and bounds: "ft_created_at_ms f \<le> now" "now \<le> i64_max" "k_queue_revision k < i64_max"
      "k_emergency_pause_revision k \<le> i64_max"
  shows "\<exists>k' s. abandon_and_advance_bound cx b e now None k = Inr (k', s)"
proof -
  let ?i = "rb_feature_id b" let ?r = "ft_lifecycle_revision f"
  note fs = only_feature [OF inv f]
  have ok: "feature_ok True (k_transitions k) (holder k) f" by (rule feature_of_inv [OF inv fs(1)])
  have r: "?r \<le> 7" using ok st status_facts(3) [OF st] by (simp add: feature_ok_def)
  have unique: "find_transition ?i n k = Some t"
    if t: "t \<in> set (k_transitions k)" "tr_feature_id t = ?i" "tr_lifecycle_revision t = n" for t n
  proof -
    have d: "distinct (map transition_key (k_transitions k))" using inv_parts(2) [OF inv] by (simp add: features_inv_def)
    have "find_transition ?i n k \<noteq> None" using t by (auto simp: find_transition_def find_row_None)
    then obtain u where u: "find_transition ?i n k = Some u" by blast
    from find_transition_Some [OF u] t have "transition_key u = transition_key t" "u \<in> set (k_transitions k)"
      by (simp_all add: transition_key_def)
    with d t(1) u show ?thesis by (auto dest: distinct_map_inj)
  qed
  from ok st obtain t where t: "t \<in> set (k_transitions k)" "tr_feature_id t = ?i" "tr_lifecycle_revision t = ?r"
    "resolved_by (ft_status f) t"
    "tr_from_status t = FVerifyingMain \<longrightarrow> has_transition (k_transitions k) ?i (?r - 1) verified_main_transition"
    by (auto simp: feature_ok_def evidence_ok_def has_transition_def fs(2))
  have small: "n \<le> i64_max" if "n \<le> 8" for n using that by (simp add: i64_max_def)
  have origin: "\<exists>origin. feature_resolution_origin_tx ?i (ft_status f) ?r k = Inr origin"
  proof (cases "tr_from_status t = FVerifyingMain")
    case False
    with t(4) st unique [OF t(1-3)] small [of ?r] r show ?thesis
      by (simp add: feature_resolution_origin_tx_def resolved_by_def to_i64_def ok_or_def reject_if_def)
  next
    case True
    with t(5) obtain v where v: "v \<in> set (k_transitions k)" "tr_feature_id v = ?i" "tr_lifecycle_revision v = ?r - 1"
      "verified_main_transition v" by (auto simp: has_transition_def)
    have "checked_sub_u64 ?r 1 = Some (?r - 1)" using ok by (simp add: feature_ok_def checked_sub_u64_def)
    with True t(4) st unique [OF t(1-3)] unique [OF v(1-3)] v(4) small [of ?r] r show ?thesis
      by (simp add: feature_resolution_origin_tx_def resolved_by_def to_i64_def ok_or_def reject_if_def)
  qed
  then obtain origin where "feature_resolution_origin_tx ?i (ft_status f) ?r k = Inr origin" by blast
  moreover have "?r < i64_max" using r by (simp add: i64_max_def)
  ultimately show ?thesis using abandon_possible [OF q inv f st binding ev bounds] by blast
qed

lemma cancel_succeeds:
  assumes q: "quote_bounded (quote_json cx)" and inv: "conveyor_inv strict k"
    and f: "find_feature (rb_feature_id b) k = Some f" and st: "is_active_execution (ft_status f)"
    and binding: "rb_expected_lifecycle_revision b = ft_lifecycle_revision f"
      "rb_expected_queue_revision b = k_queue_revision k"
      "rb_expected_emergency_pause_revision b = k_emergency_pause_revision k"
    and idle: "open_dispatches (rb_feature_id b) k = []"
    and bounds: "ft_created_at_ms f \<le> now" "now \<le> i64_max" "k_queue_revision k \<le> i64_max"
      "k_emergency_pause_revision k \<le> i64_max" "Suc (ft_lifecycle_revision f) \<le> i64_max"
  shows "\<exists>k' s. cancel_active_feature_bound cx b now None k = Inr (k', s)"
proof -
  let ?i = "rb_feature_id b" let ?r = "ft_lifecycle_revision f"
  note fs = only_feature [OF inv f]
  have ok: "feature_ok strict (k_transitions k) (holder k) f" by (rule feature_of_inv [OF inv fs(1)])
  have hold: "holder k = Some ?i" using ok status_facts(2) [OF st] fs(2) by (simp add: feature_ok_def)
  let ?t = "bare_transition ?i (Suc ?r) (ft_status f) FCancelled now"
  let ?p = "\<lambda>g. ft_feature_id g = ?i"
  let ?k1 = "k\<lparr>k_features := update_rows ?p (moved FCancelled True now) (k_features k)\<rparr>"
  let ?k2 = "moved_kernel ?p FCancelled True now ?t k"
  have move: "move_feature ?p FCancelled True now k = Inr ?k1"
    using bounds fs(3) by (auto simp: move_feature_Inr)
  have insert: "insert_transition ?t ?k1 = Inr ?k2"
    using no_later_transition [OF inv f, of "Suc ?r"] bounds(2,5)
    by (simp add: insert_transition_Inr bare_transition_def moved_kernel_def find_transition_def)
  have "open_dispatches ?i ?k2 = []" using idle by (simp add: open_dispatches_def find_step_def)
  then have dispatches: "cancel_feature_coding_dispatches_tx cx ?i now ?k2 = Inr ?k2"
    by (simp add: cancel_feature_coding_dispatches_tx_def)
  have u: "Suc ?r \<le> u64_max" "k_queue_revision k \<le> u64_max" "k_emergency_pause_revision k \<le> u64_max"
    using bounds(3-5) by (simp_all add: i64_max_def u64_max_def)
  then have "\<exists>kvs. cancel_metadata b (ft_status f) = JObject kvs \<and> members_fit kvs"
    using status_text_length [of "ft_status f"]
    by (simp add: cancel_metadata_def members_fit_def room_json_nat binding)
  then obtain k4 where k4: "append_audit cx ''feature_cancelled'' (Some ?i) now (cancel_metadata b (ft_status f)) ?k2 = Inr k4"
    using audit_succeeds [OF q, of _ "''feature_cancelled''"] bounds(2) by fastforce
  from audit_effect [OF k4] obtain row where "k4 = ?k2\<lparr>k_audit := insert_row row (k_audit k)\<rparr>" by auto
  then have "find_feature ?i k4 = Some (moved FCancelled True now f)"
    using f by (simp add: find_feature_def find_row_update fs(2))
  from snapshot_exists [OF this] obtain s where s: "feature_snapshot ?i k4 = Inr s" ..
  have "require_resolution_binding cx b None k = Inr (ft_status f)"
    using hold f by (auto simp: require_resolution_binding_def bindE_Inr_iff require_queue_revision_Inr
        require_emergency_pause_revision_Inr require_active_lease_Inr current_status_Inr binding holder_def)
  then have "cancel_active_feature_bound cx b now None k = Inr (k4, s)"
    unfolding cancel_active_feature_bound_def Let_def
    by (simp add: reject_if_def st binding move insert dispatches k4 s)
  then show ?thesis by blast
qed

lemma one_feature:
  assumes inv: "conveyor_inv strict k" and f: "find_feature i k = Some f"
  shows "count_rows (\<lambda>g. ft_feature_id g = i \<and> ft_status g = ft_status f
      \<and> ft_lifecycle_revision g = ft_lifecycle_revision f) (k_features k) = 1" (is "count_rows ?p _ = 1")
proof -
  note fs = only_feature [OF inv f]
  have "count_rows ?p (k_features k) \<le> 1" by (rule count_rows_key_le_1 [OF inv_parts(7) [OF inv]])
  moreover have "0 < count_rows ?p (k_features k)" unfolding count_rows_pos using fs(1,2) by blast
  ultimately show ?thesis by linarith
qed

section \<open>Enqueueing and claiming\<close>

lemma startup_succeeds:
  assumes q: "quote_bounded (quote_json cx)" and inv: "conveyor_inv True k"
    and l: "k_active_lease k = Some l" and f: "find_feature (fl_feature_id l) k = Some f"
    and bounds: "ft_created_at_ms f \<le> now" "now \<le> i64_max"
  shows "\<exists>k' n. reconcile_feature_conveyor_startup cx now k = Inr (k', n)"
proof (cases "is_active_execution (ft_status f)
    \<and> \<not> (ft_status f = FPaused \<and> orchestration_paused_checkpoint_is_restart_safe_tx (ft_feature_id f)
         (ft_lifecycle_revision f) k)")
  case False
  then show ?thesis by (auto simp: reconcile_feature_conveyor_startup_def l f Let_def)
next
  case True
  note fs = only_feature [OF inv f]
  let ?r = "ft_lifecycle_revision f"
  let ?p = "\<lambda>g. ft_feature_id g = ft_feature_id f \<and> ft_status g = ft_status f \<and> ft_lifecycle_revision g = ?r"
  have r: "?r \<le> 7" using feature_of_inv [OF inv fs(1)] status_facts(2) True by (fastforce simp: feature_ok_def)
  have "\<forall>g \<in> set (k_features k). ?p g \<longrightarrow> g = f" using fs(2,3) by simp
  then have move: "move_feature ?p FQuarantined True now k
      = Inr (k\<lparr>k_features := update_rows ?p (moved FQuarantined True now) (k_features k)\<rparr>)"
    using bounds by (auto simp: move_feature_Inr)
  have one: "count_rows ?p (k_features k) = 1" using one_feature [OF inv f] by (simp add: fs(2))
  have small: "n \<le> 8 \<Longrightarrow> n \<le> i64_max" for n by (simp add: i64_max_def)
  let ?t = "bare_transition (ft_feature_id f) (Suc ?r) (ft_status f) FQuarantined now"
  let ?k1 = "k\<lparr>k_features := update_rows ?p (moved FQuarantined True now) (k_features k)\<rparr>"
  have insert: "insert_transition ?t ?k1 = Inr (moved_kernel ?p FQuarantined True now ?t k)"
    using no_later_transition [OF inv f, of "Suc ?r"] small [of "Suc ?r"] r bounds(2) fs(2)
    by (simp add: insert_transition_Inr bare_transition_def moved_kernel_def find_transition_def)
  have "Suc ?r \<le> u64_max" "\<not> i64_max \<le> ?r" using r by (simp_all add: u64_max_def i64_max_def)
  then have "\<exists>kvs. quarantine_metadata (ft_status f) (Suc ?r) = JObject kvs \<and> members_fit kvs"
    using status_text_length [of "ft_status f"] by (simp add: quarantine_metadata_def members_fit_def room_json_nat)
  then obtain k4 where k4: "append_audit cx ''feature_startup_quarantined'' (Some (ft_feature_id f)) now
      (quarantine_metadata (ft_status f) (Suc ?r)) (moved_kernel ?p FQuarantined True now ?t k) = Inr k4"
    using audit_succeeds [OF q, of _ "''feature_startup_quarantined''"] bounds(2) by fastforce
  have "quarantine_feature cx f now k = Inr k4"
    unfolding quarantine_feature_def Let_def
    using move insert one k4 \<open>\<not> i64_max \<le> ?r\<close> by (simp add: reject_if_def)
  with True show ?thesis by (auto simp: reconcile_feature_conveyor_startup_def l f Let_def)
qed

lemma insert_dependencies_succeed:
  "distinct ds \<Longrightarrow> i \<notin> set ds \<Longrightarrow> \<forall>r \<in> set rows. dn_feature_id r = i \<longrightarrow> dn_dependency_feature_id r \<notin> set ds
    \<Longrightarrow> \<exists>rows'. forE (insert_dependency i) ds rows = Inr rows'"
proof (induction ds arbitrary: rows)
  case (Cons d ds)
  then have "insert_dependency i d rows = Inr (rows @ [\<lparr>dn_feature_id = i, dn_dependency_feature_id = d\<rparr>])"
    by (auto simp: insert_dependency_def reject_if_def exists_row_iff insert_row_def)
  moreover have "\<exists>rows'. forE (insert_dependency i) ds (rows @ [\<lparr>dn_feature_id = i, dn_dependency_feature_id = d\<rparr>]) = Inr rows'"
    using Cons.prems by (intro Cons.IH) auto
  ultimately show ?case by simp
qed simp

lemma require_dependencies_succeed:
  "\<forall>d \<in> set ds. find_feature d k \<noteq> None \<Longrightarrow> forE (require_dependency k) ds () = Inr ()"
  by (induction ds) (simp_all add: require_dependency_def reject_if_def)

lemma enqueue_succeeds:
  assumes q: "quote_bounded (quote_json cx)" and inv: "conveyor_inv True k"
    and valid: "validate_approved_specification cx spec = Inr canonical"
    and grants: "require_grants_tx (as_repository_id spec) (as_grants spec) now k = Inr ()"
    and room: "count_rows (\<lambda>f. ft_status f \<notin> {FSucceeded, FCancelled, FAbandoned}) (k_features k) < MAX_CONVEYOR_NONTERMINAL_FEATURES"
    and new: "find_feature (as_feature_id spec) k = None"
      "\<forall>s \<in> set (k_specifications k). sp_feature_id s \<noteq> as_feature_id spec"
      "\<forall>r \<in> set (k_dependencies k). dn_feature_id r \<noteq> as_feature_id spec"
    and deps: "distinct (as_dependencies spec)" "\<forall>d \<in> set (as_dependencies spec). find_feature d k \<noteq> None"
    and bounds: "now \<le> i64_max" "k_queue_revision k < i64_max" "last_position (k_queue k) < i64_max"
      "as_revision spec \<le> i64_max" "gr_registration (as_grants spec) \<le> i64_max"
      "gr_cloud_disclosure (as_grants spec) \<le> i64_max" "gr_autonomous_publication (as_grants spec) \<le> i64_max"
      "length (as_dependencies spec) \<le> 100"
  shows "\<exists>k' s. enqueue_approved_feature_with_owner_binding cx spec (k_queue_revision k) now None k = Inr (k', s)"
proof -
  let ?i = "as_feature_id spec" let ?p = "Suc (last_position (k_queue k))" let ?q = "k_queue_revision k"
  let ?k1 = "k\<lparr>k_specifications := insert_row (specification_row_of spec canonical now) (k_specifications k)\<rparr>"
  have 1: "insert_specification spec canonical now k = Inr ?k1"
    using bounds new(2) by (auto simp: insert_specification_def to_i64_def reject_if_def exists_row_iff)
  have listed: "\<forall>r \<in> set (k_queue k). qu_feature_id r \<noteq> ?i \<and> qu_queue_position r \<noteq> ?p"
  proof
    fix r assume r: "r \<in> set (k_queue k)"
    then obtain f where "f \<in> set (k_features k)" "ft_feature_id f = qu_feature_id r"
      using inv_parts(3) [OF inv] by (auto simp: queue_inv_def)
    with new(1) last_position_ge [OF r] show "qu_feature_id r \<noteq> ?i \<and> qu_queue_position r \<noteq> ?p"
      by (auto simp: find_feature_def find_row_None)
  qed
  have "?i \<notin> set (as_dependencies spec)" using deps(2) new(1) by blast
  then obtain ds where ds: "forE (insert_dependency ?i) (as_dependencies spec) (k_dependencies k) = Inr ds"
    using insert_dependencies_succeed [OF deps(1)] new(3) by blast
  let ?k2 = "?k1\<lparr>k_features := insert_row (queued_feature spec ?p now) (k_features k),
      k_queue := insert_row \<lparr>qu_feature_id = ?i, qu_queue_position = ?p\<rparr> (k_queue k), k_dependencies := ds\<rparr>"
  have inc: "increment_queue_revision_tx ?q ?k2 = Inr (?k2\<lparr>k_queue_revision := Suc ?q\<rparr>, Suc ?q)"
    using bounds(2) by (simp add: increment_queue_revision_Inr)
  have u: "n \<le> i64_max \<Longrightarrow> room (json_nat n) = Some 20" for n by (rule room_json_nat [OF i64_u64])
  have small: "length (as_dependencies spec) \<le> i64_max" using bounds(8) by (simp add: i64_max_def)
  have "\<exists>kvs. feature_enqueue_audit_metadata cx spec ?q (Suc ?q) ?p None = JObject kvs \<and> members_fit kvs"
    using bounds by (simp add: feature_enqueue_audit_metadata_def members_fit_def u Suc_leI small)
  then obtain k4 where k4: "append_audit cx ''feature_enqueued'' (Some ?i) now
      (feature_enqueue_audit_metadata cx spec ?q (Suc ?q) ?p None) (?k2\<lparr>k_queue_revision := Suc ?q\<rparr>) = Inr k4"
    using audit_succeeds [OF q, of _ "''feature_enqueued''"] bounds(1) by fastforce
  have commit: "enqueue_commit cx spec canonical ?q now None k = Inr k4"
    unfolding enqueue_commit_def Let_def
    using bounds(3) listed new(1) 1 ds inc k4
    by (simp add: reject_if_def exists_row_iff find_feature_def)
  from audit_effect [OF k4] have "k_features k4 = k_features k @ [queued_feature spec ?p now]" by (auto simp: insert_row_def)
  then have "find_feature ?i k4 \<noteq> None" by (auto simp: find_feature_def find_row_None queued_feature_def)
  then obtain s where s: "feature_snapshot ?i k4 = Inr s" using snapshot_exists by blast
  show ?thesis
    unfolding enqueue_approved_feature_with_owner_binding_def
    using valid grants room require_dependencies_succeed [OF deps(2)] commit s
    by (simp add: feature_queue_revision_tx_def reject_if_def not_le)
qed

lemma claim_succeeds:
  assumes q: "quote_bounded (quote_json cx)" and inv: "conveyor_inv True k"
    and valid: "validate_snapshot_claim_plan plan now = Inr ()"
    and snap: "se_snapshot_id snapshot \<noteq> 0" "se_snapshot_sha256 snapshot \<noteq> 0"
      "se_base_commit snapshot = pl_base_commit plan"
    and plan: "require_snapshot_claim_plan_tx plan now k = Inr ()"
    and new: "\<forall>c \<in> set (k_claims k). cl_snapshot_id c \<noteq> se_snapshot_id snapshot \<and> cl_lease_id c \<noteq> lease"
    and born: "\<forall>f \<in> set (k_features k). ft_created_at_ms f \<le> now"
    and bounds: "now \<le> i64_max" "k_queue_revision k < i64_max" "k_emergency_pause_revision k \<le> i64_max"
      "pl_specification_revision plan \<le> i64_max" "gr_registration (pl_grants plan) \<le> i64_max"
      "gr_cloud_disclosure (pl_grants plan) \<le> i64_max" "gr_autonomous_publication (pl_grants plan) \<le> i64_max"
  shows "\<exists>k' c. finalize_repository_snapshot_claim cx plan snapshot now lease k = Inr (k', c)"
proof -
  let ?mine = "\<lambda>f. ft_feature_id f = pl_feature_id plan \<and> ft_status f = FQueued"
  from require_plan_Inr [OF plan] obtain f where head: "queue_head k = Some f" "ft_feature_id f = pl_feature_id plan"
    and rev: "pl_expected_queue_revision plan = k_queue_revision k"
      "pl_expected_emergency_pause_revision plan = k_emergency_pause_revision k" by auto
  have f: "f \<in> set (k_features k)" "ft_status f = FQueued" using queue_head_Some [OF head(1)] by auto
  let ?l = "\<lparr>fl_feature_id = pl_feature_id plan, fl_lease_id = lease,
             fl_snapshot_id = Some (se_snapshot_id snapshot), fl_claimed_at_ms = now\<rparr>"
  let ?k1 = "k\<lparr>k_claims := insert_row (claim_row_of plan snapshot lease now) (k_claims k), k_active_lease := Some ?l\<rparr>"
  have 1: "insert_claim plan snapshot lease now k = Inr ?k1"
    using bounds new by (auto simp: insert_claim_def to_i64_def reject_if_def exists_row_iff rev)
  let ?k2 = "?k1\<lparr>k_features := update_rows ?mine (claimed_row now) (k_features k)\<rparr>"
  have 2: "write_features ?mine (\<lambda>f. f\<lparr>ft_status := FImplementing, ft_lifecycle_revision := ft_lifecycle_revision f + 1\<rparr>)
        now ?k1 = Inr ?k2"
    using born bounds(1) by (simp add: write_features_Inr claimed_row_def [abs_def])
  have "count_rows ?mine (k_features k) \<le> 1" by (rule count_rows_key_le_1 [OF inv_parts(7) [OF inv]])
  moreover have "0 < count_rows ?mine (k_features k)" unfolding count_rows_pos using f head(2) by auto
  ultimately have one: "count_rows ?mine (k_features k) = 1" by linarith
  have find: "find_feature (pl_feature_id plan) ?k2 = Some (claimed_row now f)"
  proof -
    have "find_feature (pl_feature_id plan) k = Some f"
    proof -
      have "find_feature (pl_feature_id plan) k \<noteq> None" using f head(2) by (auto simp: find_feature_def find_row_None)
      then obtain g where g: "find_feature (pl_feature_id plan) k = Some g" by blast
      with find_feature_Some [OF g] feature_unique [OF inv_parts(7) [OF inv] _ f(1), of g] head(2) show ?thesis by simp
    qed
    then show ?thesis using f(2) head(2) by (simp add: find_feature_def find_row_update)
  qed
  have r: "ft_lifecycle_revision f \<le> 1"
    using feature_of_inv [OF inv f(1)] f(2) by (simp add: feature_ok_def)
  have inc: "increment_queue_revision_tx (pl_expected_queue_revision plan) ?k2
      = Inr (?k2\<lparr>k_queue_revision := Suc (k_queue_revision k)\<rparr>, Suc (k_queue_revision k))"
    using bounds(2) by (simp add: increment_queue_revision_Inr rev)
  have u: "n \<le> i64_max \<Longrightarrow> room (json_nat n) = Some 20" for n by (rule room_json_nat [OF i64_u64])
  have small: "Suc (ft_lifecycle_revision f) \<le> i64_max" using r by (simp add: i64_max_def)
  have "\<exists>kvs. claim_metadata plan (Suc (ft_lifecycle_revision f)) (Suc (k_queue_revision k)) = JObject kvs \<and> members_fit kvs"
    using bounds small by (simp add: claim_metadata_def members_fit_def u Suc_leI rev)
  then obtain k4 where k4: "append_audit cx ''feature_snapshot_claimed'' (Some (pl_feature_id plan)) now
      (claim_metadata plan (Suc (ft_lifecycle_revision f)) (Suc (k_queue_revision k)))
      (?k2\<lparr>k_queue_revision := Suc (k_queue_revision k)\<rparr>) = Inr k4"
    using audit_succeeds [OF q, of _ "''feature_snapshot_claimed''"] bounds(1) by fastforce
  show ?thesis
    unfolding finalize_repository_snapshot_claim_def Let_def
    using valid snap plan 1 2 one find small inc k4 by (simp add: reject_if_def ok_or_def)
qed

end
