(* ===== verification/Conveyor_Sample.thy ===== *)
theory Conveyor_Sample
  imports Conveyor_Success Kernel_Sample
begin

text \<open>
  A run of the conveyor that the examples of the properties start from: the three grants of repository
  5 are recorded, features 41 and 42 are enqueued, 42 depending on 41, feature 41 is claimed under
  lease 71 for snapshot 61, cancelled and abandoned.
\<close>

section \<open>Requests\<close>

definition sample_grants :: grant_revisions where
  "sample_grants = \<lparr>gr_registration = 1, gr_cloud_disclosure = 1, gr_autonomous_publication = 1\<rparr>"

definition sample_grant :: "grant_kind \<Rightarrow> grant_revision" where
  "sample_grant kind =
     \<lparr>gv_repository_id = 5, gv_kind = kind, gv_revision = 1, gv_scope_sha256 = 77,
      gv_owner_approval_sha256 = 78, gv_expires_at_ms = None, gv_revoked = False\<rparr>"

definition sample_manifest :: json where
  "sample_manifest = JObject
     [(''acceptance'', JArray [JString ''ac-1'']), (''outcome'', JString ''done'')]"

definition sample_canonical :: string where
  "sample_canonical = canonical_json sample_codec sample_manifest"

definition sample_spec :: "uuid \<Rightarrow> uuid list \<Rightarrow> approved_specification" where
  "sample_spec feature dependencies =
     \<lparr>as_feature_id = feature, as_revision = 1, as_repository_id = 5, as_manifest = sample_manifest,
      as_manifest_sha256 = sha256 sample_codec sample_canonical,
      as_design_sha256 = 11, as_brainstorming_sha256 = 12, as_owner_approval_sha256 = 13,
      as_grants = sample_grants, as_provider_id = ''local'', as_model_id = ''model'', as_dependencies = dependencies\<rparr>"

definition sample_commit :: string where
  "sample_commit = replicate 40 (CHR ''a'')"

definition sample_plan :: claim_plan where
  "sample_plan =
     \<lparr>pl_feature_id = 41, pl_specification_revision = 1, pl_repository_id = 5,
      pl_expected_queue_revision = 2, pl_expected_emergency_pause_revision = 0, pl_scope_sha256 = 77,
      pl_provider_id = ''local'', pl_model_id = ''model'', pl_grants = sample_grants,
      pl_base_commit = sample_commit\<rparr>"

definition sample_snapshot :: snapshot_evidence where
  "sample_snapshot =
     \<lparr>se_snapshot_id = 61, se_snapshot_sha256 = 62, se_base_commit = sample_commit\<rparr>"

section \<open>The specification is valid\<close>

lemma sample_canonical_value: "canonical_json_bytes (quote_json sample_codec) sample_manifest
    = ''{\"acceptance\":[\"ac-1\"],\"outcome\":\"done\"}''"
  by code_simp

lemma sample_disclosure: "validate_review_disclosure_value sample_manifest = Inr ()"
  by code_simp

lemma sample_identifiers: "validate_bounded_feature_identifier ''local'' l = Inr ()"
  "validate_bounded_feature_identifier ''model'' l = Inr ()" "validate_bounded_feature_identifier ''ac-1'' l = Inr ()"
  by (simp_all add: validate_bounded_feature_identifier_def is_graphic_def byte_of_def reject_if_def)

lemma sample_schema: "validate_review_safe_manifest_schema sample_manifest = Inr ()"
  by (simp add: validate_review_safe_manifest_schema_def sample_manifest_def de_manifest_def known_fields_def
      MANIFEST_FIELDS_def required_field_def default_field_def de_list_def de_string_def reject_if_def
      ok_or_def manifest_strings_def Let_def)

lemma sample_canonical_facts: "canonical_json sample_codec sample_manifest = sample_canonical"
  "length sample_canonical \<le> MAX_APPROVED_FEATURE_SPECIFICATION_BYTES" "sha256 sample_codec sample_canonical \<noteq> 0"
  "is_ok (validate_object ''manifest'' sample_manifest)"
  "\<exists>ids. approved_requirement_ids sample_manifest = Inr ids"
proof -
  show "canonical_json sample_codec sample_manifest = sample_canonical" by (simp add: sample_canonical_def)
  show "length sample_canonical \<le> MAX_APPROVED_FEATURE_SPECIFICATION_BYTES"
    by (simp add: sample_canonical_def canonical_json_def sample_canonical_value MAX_APPROVED_FEATURE_SPECIFICATION_BYTES_def)
  show "sha256 sample_codec sample_canonical \<noteq> 0"
    by (simp add: sample_canonical_def canonical_json_def sample_canonical_value) (simp add: sample_codec_def byte_of_def)
  show "is_ok (validate_object ''manifest'' sample_manifest)"
    by (simp add: sample_manifest_def validate_object_def is_ok_def)
  show "\<exists>ids. approved_requirement_ids sample_manifest = Inr ids"
    by (simp add: sample_manifest_def approved_requirement_ids_def ok_or_def reject_if_def take_requirement_id_def
        de_string_def sample_identifiers MAX_FEATURE_CONVEYOR_REVIEW_REQUIREMENT_COVERAGE_def)
qed

lemma sample_spec_valid:
  assumes "f \<noteq> 0" "ds = [] \<or> ds = [d]" "d \<noteq> 0" "d \<noteq> f"
  shows "validate_approved_specification sample_codec (sample_spec f ds) = Inr sample_canonical"
  using assms sample_canonical_facts
  by (auto simp: validate_approved_specification_def sample_spec_def sample_grants_def reject_if_def
      sample_schema sample_disclosure sample_identifiers Let_def MAX_CONVEYOR_NONTERMINAL_FEATURES_def)

section \<open>The run\<close>

definition sample_grant_ops :: "conveyor_op list" where
  "sample_grant_ops =
     [CGrant (sample_grant GkRegistration) 0 0 100, CGrant (sample_grant GkCloudDisclosure) 0 0 100,
      CGrant (sample_grant GkAutonomousPublication) 0 0 100]"

definition sample_queue_ops :: "conveyor_op list" where
  "sample_queue_ops =
     sample_grant_ops @ [CEnqueue (sample_spec 41 []) 0 110 None, CEnqueue (sample_spec 42 [41]) 1 120 None]"

definition sample_claim_ops :: "conveyor_op list" where
  "sample_claim_ops = sample_queue_ops @ [CClaim sample_plan sample_snapshot 130 71]"

lemma conveyor_run_snoc:
  "conveyor_run cx s (ops @ [op]) = conveyor_step cx (conveyor_run cx s ops) op"
  by (simp add: conveyor_run_def run_ops_append)

lemma conveyor_run_Nil: "conveyor_run cx s [] = new_kernel s"
  by (simp add: conveyor_run_def)

lemma conveyor_step_Inr: "run_conveyor cx op k = Inr k' \<Longrightarrow> conveyor_step cx k op = k'"
  by (simp add: conveyor_step_def)

definition granted :: "grant_kind list \<Rightarrow> audit_row list \<Rightarrow> kernel" where
  "granted kinds a = (new_kernel 7)\<lparr>k_grants := map (\<lambda>kind. grant_row_of (sample_grant kind) 100) kinds, k_audit := a\<rparr>"

lemma grant_step:
  assumes "kind \<notin> set kinds"
  shows "\<exists>a'. conveyor_step sample_codec (granted kinds a) (CGrant (sample_grant kind) 0 0 100) = granted (kinds @ [kind]) a'"
proof -
  have "grants_of 5 kind (granted kinds a) = []"
    using assms by (auto simp: grants_of_def granted_def new_kernel_def sample_grant_def grant_row_of_def filter_empty_conv)
  then have n: "newest_revision 5 kind (granted kinds a) = 0" by (simp add: newest_revision_def)
  have "\<exists>row. record_repository_grant_revision sample_codec (sample_grant kind) 0 0 100 (granted kinds a)
      = Inr ((granted kinds a)\<lparr>k_grants := k_grants (granted kinds a) @ [grant_row_of (sample_grant kind) 100],
          k_audit := insert_row row (k_audit (granted kinds a))\<rparr>)"
    using grant_succeeds [OF sample_quote, of "sample_grant kind" "granted kinds a" 100] n
    by (simp add: sample_grant_def granted_def new_kernel_def expired_at_def i64_max_def)
  then show ?thesis by (auto simp: conveyor_step_def granted_def new_kernel_def)
qed

lemma sample_granted:
  "\<exists>a. conveyor_run sample_codec 7 sample_grant_ops = granted [GkRegistration, GkCloudDisclosure, GkAutonomousPublication] a"
proof -
  obtain a where a: "conveyor_run sample_codec 7 [] = granted [] a"
    by (simp add: conveyor_run_Nil granted_def new_kernel_def)
  obtain b where b: "conveyor_step sample_codec (granted [] a) (CGrant (sample_grant GkRegistration) 0 0 100)
      = granted [GkRegistration] b" using grant_step [of GkRegistration "[]" a] by auto
  obtain c where c: "conveyor_step sample_codec (granted [GkRegistration] b) (CGrant (sample_grant GkCloudDisclosure) 0 0 100)
      = granted [GkRegistration, GkCloudDisclosure] c" using grant_step [of GkCloudDisclosure "[GkRegistration]" b] by auto
  obtain d where d: "conveyor_step sample_codec (granted [GkRegistration, GkCloudDisclosure] c)
      (CGrant (sample_grant GkAutonomousPublication) 0 0 100)
      = granted [GkRegistration, GkCloudDisclosure, GkAutonomousPublication] d"
    using grant_step [of GkAutonomousPublication "[GkRegistration, GkCloudDisclosure]" c] by auto
  have "conveyor_run sample_codec 7 sample_grant_ops = granted [GkRegistration, GkCloudDisclosure, GkAutonomousPublication] d"
    using a b c d by (simp add: sample_grant_ops_def conveyor_run_def)
  then show ?thesis by blast
qed

section \<open>The two features are enqueued\<close>

definition with_grants :: "audit_row list \<Rightarrow> kernel" where
  "with_grants a = granted [GkRegistration, GkCloudDisclosure, GkAutonomousPublication] a"

definition row_41 :: feature_row where
  "row_41 = queued_feature (sample_spec 41 []) 1 110"

definition row_42 :: feature_row where
  "row_42 = queued_feature (sample_spec 42 [41]) 2 120"

definition queued_one :: "audit_row list \<Rightarrow> kernel" where
  "queued_one a = (with_grants a)
     \<lparr>k_specifications := [specification_row_of (sample_spec 41 []) sample_canonical 110],
      k_features := [row_41], k_queue := [\<lparr>qu_feature_id = 41, qu_queue_position = 1\<rparr>],
      k_queue_revision := 1\<rparr>"

definition queued_two :: "audit_row list \<Rightarrow> kernel" where
  "queued_two a = (with_grants a)
     \<lparr>k_specifications := [specification_row_of (sample_spec 41 []) sample_canonical 110,
        specification_row_of (sample_spec 42 [41]) sample_canonical 120],
      k_features := [row_41, row_42],
      k_queue := [\<lparr>qu_feature_id = 41, qu_queue_position = 1\<rparr>, \<lparr>qu_feature_id = 42, qu_queue_position = 2\<rparr>],
      k_dependencies := [\<lparr>dn_feature_id = 42, dn_dependency_feature_id = 41\<rparr>],
      k_queue_revision := 2\<rparr>"

lemmas sample_states = with_grants_def granted_def new_kernel_def queued_one_def queued_two_def
  row_41_def row_42_def queued_feature_def sample_spec_def

lemma sample_newest:
  assumes "k_grants k = k_grants (with_grants a)"
  shows "newest_grant 5 kind k = Some (grant_row_of (sample_grant kind) 100)"
proof -
  have "grants_of 5 kind k = [grant_row_of (sample_grant kind) 100]"
    unfolding grants_of_def assms
    by (cases kind) (simp_all add: with_grants_def granted_def sample_grant_def grant_row_of_def)
  then show ?thesis by (simp add: newest_grant_def find_row_def)
qed

lemma sample_grants_current:
  assumes "k_grants k = k_grants (with_grants a)"
  shows "require_grants_tx 5 sample_grants now k = Inr ()"
  by (simp add: require_grants_tx_def grant_requirements_def require_grant_def sample_newest [OF assms]
      sample_grants_def grant_row_of_def sample_grant_def expired_at_def reject_if_def ok_or_def)

lemma i64_max_large: "n \<le> 100000 \<Longrightarrow> n \<le> i64_max" "n \<le> 100000 \<Longrightarrow> n < i64_max"
  by (simp_all add: i64_max_def)

lemma enqueue_first:
  assumes inv: "conveyor_inv True (with_grants a)"
  shows "\<exists>b. conveyor_step sample_codec (with_grants a) (CEnqueue (sample_spec 41 []) 0 110 None) = queued_one b"
proof -
  let ?k = "with_grants a"
  have valid: "validate_approved_specification sample_codec (sample_spec 41 []) = Inr sample_canonical"
    by (rule sample_spec_valid [of _ _ 42]) simp_all
  have g: "require_grants_tx (as_repository_id (sample_spec 41 [])) (as_grants (sample_spec 41 [])) 110 ?k = Inr ()"
    using sample_grants_current [of ?k a 110] by (simp add: sample_spec_def)
  have "\<exists>k' s. enqueue_approved_feature_with_owner_binding sample_codec (sample_spec 41 [])
      (k_queue_revision ?k) 110 None ?k = Inr (k', s)"
    by (rule enqueue_succeeds [OF sample_quote inv valid g])
      (simp_all add: sample_states
        sample_grants_def i64_max_large count_rows_def find_feature_def find_row_def last_position_def
        MAX_CONVEYOR_NONTERMINAL_FEATURES_def)
  then obtain k' s where e: "enqueue_approved_feature_with_owner_binding sample_codec (sample_spec 41 []) 0 110 None ?k
      = Inr (k', s)" by (auto simp: sample_states)
  have "enqueue_commit sample_codec (sample_spec 41 []) sample_canonical 0 110 None ?k = Inr k'"
    using enqueue_effect [OF e] valid by (auto simp: sample_states)
  from enqueue_commit_effect [OF this] obtain row where "k' = queued_one (insert_row row (k_audit ?k))"
    by (auto simp: Let_def sample_states last_position_def)
  with e show ?thesis by (auto simp: conveyor_step_def state_of_def)
qed

lemma enqueue_second:
  assumes inv: "conveyor_inv True (queued_one a)"
  shows "\<exists>b. conveyor_step sample_codec (queued_one a) (CEnqueue (sample_spec 42 [41]) 1 120 None) = queued_two b"
proof -
  let ?k = "queued_one a"
  have valid: "validate_approved_specification sample_codec (sample_spec 42 [41]) = Inr sample_canonical"
    by (rule sample_spec_valid [of _ _ 41]) simp_all
  have g: "require_grants_tx (as_repository_id (sample_spec 42 [41])) (as_grants (sample_spec 42 [41])) 120 ?k = Inr ()"
    using sample_grants_current [of ?k a 120] by (simp add: sample_spec_def queued_one_def)
  have "\<exists>k' s. enqueue_approved_feature_with_owner_binding sample_codec (sample_spec 42 [41])
      (k_queue_revision ?k) 120 None ?k = Inr (k', s)"
    by (rule enqueue_succeeds [OF sample_quote inv valid g])
      (simp_all add: sample_states
        sample_grants_def i64_max_large count_rows_def find_feature_def find_row_def last_position_def
        MAX_CONVEYOR_NONTERMINAL_FEATURES_def specification_row_of_def)
  then obtain k' s where e: "enqueue_approved_feature_with_owner_binding sample_codec (sample_spec 42 [41]) 1 120 None ?k
      = Inr (k', s)" by (auto simp: sample_states)
  have "enqueue_commit sample_codec (sample_spec 42 [41]) sample_canonical 1 120 None ?k = Inr k'"
    using enqueue_effect [OF e] valid by (auto simp: sample_states)
  from enqueue_commit_effect [OF this] obtain row where "k' = queued_two (insert_row row (k_audit ?k))"
    by (auto simp: Let_def sample_states last_position_def)
  with e show ?thesis by (auto simp: conveyor_step_def state_of_def)
qed

lemma sample_queued: "\<exists>a. conveyor_run sample_codec 7 sample_queue_ops = queued_two a"
proof -
  obtain a where a: "conveyor_run sample_codec 7 sample_grant_ops = with_grants a"
    using sample_granted by (auto simp: with_grants_def)
  obtain b where b: "conveyor_run sample_codec 7 (sample_grant_ops @ [CEnqueue (sample_spec 41 []) 0 110 None]) = queued_one b"
    using enqueue_first [of a] conveyor_run_inv [of sample_codec 7 sample_grant_ops] by (auto simp: conveyor_run_snoc a)
  have "sample_queue_ops = (sample_grant_ops @ [CEnqueue (sample_spec 41 []) 0 110 None]) @ [CEnqueue (sample_spec 42 [41]) 1 120 None]"
    by (simp add: sample_queue_ops_def)
  then show ?thesis
    using enqueue_second [of b] conveyor_run_inv [of sample_codec 7 "sample_grant_ops @ [CEnqueue (sample_spec 41 []) 0 110 None]"]
    by (metis conveyor_run_snoc b)
qed

section \<open>Feature 41 is claimed\<close>

definition sample_lease :: lease_row where
  "sample_lease = \<lparr>fl_feature_id = 41, fl_lease_id = 71, fl_snapshot_id = Some 61, fl_claimed_at_ms = 130\<rparr>"

definition claimed_41 :: "audit_row list \<Rightarrow> kernel" where
  "claimed_41 a = (queued_two a)
     \<lparr>k_features := [claimed_row 130 row_41, row_42], k_active_lease := Some sample_lease,
      k_claims := [claim_row_of sample_plan sample_snapshot 71 130], k_queue_revision := 3\<rparr>"

lemma sample_head: "queue_head (queued_two a) = Some row_41"
proof -
  have rows: "queued_rows (queued_two a) = k_queue (queued_two a)"
    by (simp add: queued_rows_def sample_states exists_row_iff)
  then show ?thesis by (simp add: queue_head_def queue_order_def sample_states find_row_def)
qed

lemma sample_claim_texts: "valid_provider ''local''" "valid_provider ''model''"
  "length sample_commit = 40" "list_all is_lower_hex sample_commit"
  by code_simp+

lemma sample_plan_valid: "validate_snapshot_claim_plan sample_plan 130 = Inr ()"
  using sample_claim_texts by (simp add: validate_snapshot_claim_plan_def sample_plan_def sample_grants_def reject_if_def Let_def)

lemma sample_plan_required: "require_snapshot_claim_plan_tx sample_plan 130 (queued_two a) = Inr ()"
proof -
  let ?k = "queued_two a"
  have g: "k_grants ?k = k_grants (with_grants a)" by (simp add: queued_two_def)
  have 1: "require_queue_revision_tx 2 ?k = Inr ()" "require_unpaused_revision_tx 0 ?k = Inr ()"
    by (simp_all add: require_queue_revision_Inr require_unpaused_revision_Inr) (simp_all add: sample_states)
  have 2: "require_repository_preflight_binding 5 1 77 0 130 ?k = Inr ()"
    unfolding require_repository_preflight_binding_def Let_def
    by (simp add: sample_newest [OF g] emergency_paused_tx_def emergency_pause_revision_tx_def ok_or_def
        reject_if_def grant_row_of_def sample_grant_def expired_at_def) (simp add: sample_states)
  have 3: "\<not> dependency_blocked 41 ?k" by (simp add: dependency_blocked_def exists_row_iff sample_states)
  have 4: "find_specification 41 1 ?k = Some (specification_row_of (sample_spec 41 []) sample_canonical 110)"
    by (simp add: find_specification_def find_row_def sample_states specification_row_of_def)
  have 5: "k_active_lease ?k = None" by (simp add: sample_states)
  show ?thesis
    unfolding require_snapshot_claim_plan_tx_def
    using 1 2 3 4 5 sample_grants_current [OF g]
    by (simp add: sample_head sample_plan_def reject_if_def ok_or_def)
      (simp add: sample_grants_def row_41_def queued_feature_def sample_spec_def specification_row_of_def)
qed

lemma claim_41_succeeds:
  assumes inv: "conveyor_inv True (queued_two a)"
  shows "\<exists>k' c. finalize_repository_snapshot_claim sample_codec sample_plan sample_snapshot 130 71 (queued_two a) = Inr (k', c)"
  by (rule claim_succeeds [OF sample_quote inv sample_plan_valid])
    (use sample_plan_required in \<open>simp_all add: sample_states sample_snapshot_def sample_plan_def sample_grants_def i64_max_large\<close>)

lemma claim_41:
  assumes inv: "conveyor_inv True (queued_two a)"
  shows "\<exists>b. conveyor_step sample_codec (queued_two a) (CClaim sample_plan sample_snapshot 130 71) = claimed_41 b"
proof -
  let ?k = "queued_two a"
  obtain k' c where e: "finalize_repository_snapshot_claim sample_codec sample_plan sample_snapshot 130 71 ?k = Inr (k', c)"
    using claim_41_succeeds [OF inv] by blast
  from claim_effect [OF e] obtain row where "k' = claimed_41 (insert_row row (k_audit ?k))"
    by (auto simp: claimed_41_def sample_states sample_lease_def sample_plan_def sample_snapshot_def update_rows_def)
  with e show ?thesis by (auto simp: conveyor_step_def state_of_def)
qed

lemma sample_claimed: "\<exists>a. conveyor_run sample_codec 7 sample_claim_ops = claimed_41 a"
  using sample_queued claim_41 conveyor_run_inv [of sample_codec 7 sample_queue_ops]
  by (metis sample_claim_ops_def conveyor_run_snoc)

section \<open>Feature 41 is cancelled and abandoned\<close>

definition sample_cancel_binding :: resolution_binding where
  "sample_cancel_binding = \<lparr>rb_feature_id = 41, rb_expected_lifecycle_revision = 2,
     rb_expected_queue_revision = 3, rb_expected_emergency_pause_revision = 0\<rparr>"

definition sample_abandon_binding :: resolution_binding where
  "sample_abandon_binding = \<lparr>rb_feature_id = 41, rb_expected_lifecycle_revision = 3,
     rb_expected_queue_revision = 3, rb_expected_emergency_pause_revision = 0\<rparr>"

definition sample_evidence :: abandonment_evidence where
  "sample_evidence = \<lparr>ab_safe_reconciliation_sha256 = 91, ab_merged = True, ab_verified_healthy_main_sha256 = Some 92\<rparr>"

definition sample_cancel_ops :: "conveyor_op list" where
  "sample_cancel_ops = sample_claim_ops @ [CCancel sample_cancel_binding 140 None]"

definition sample_abandon_ops :: "conveyor_op list" where
  "sample_abandon_ops = sample_cancel_ops @ [CAbandon sample_abandon_binding sample_evidence 150 None]"

definition cancelled_41 :: "audit_row list \<Rightarrow> kernel" where
  "cancelled_41 a = (claimed_41 a)
     \<lparr>k_features := [moved FCancelled True 140 (claimed_row 130 row_41), row_42],
      k_transitions := [bare_transition 41 3 FImplementing FCancelled 140]\<rparr>"

definition abandoned_41 :: "audit_row list \<Rightarrow> kernel" where
  "abandoned_41 a = (cancelled_41 a)
     \<lparr>k_features := [moved FAbandoned False 150 (moved FCancelled True 140 (claimed_row 130 row_41)), row_42],
      k_queue := [\<lparr>qu_feature_id = 42, qu_queue_position = 2\<rparr>], k_active_lease := None, k_queue_revision := 4,
      k_transitions := [bare_transition 41 3 FImplementing FCancelled 140,
        (bare_transition 41 4 FCancelled FAbandoned 150)
          \<lparr>tr_safe_reconciliation_sha256 := Some 91, tr_verified_healthy_main_sha256 := Some 92\<rparr>]\<rparr>"

lemmas claimed_states = claimed_41_def cancelled_41_def sample_states sample_lease_def claimed_row_def
  sample_cancel_binding_def sample_abandon_binding_def sample_evidence_def

lemma row_41_moves:
  "ft_lifecycle_revision row_41 = 1"
  "ft_feature_id row_41 = 41" "ft_feature_id row_42 = 42" "ft_status row_41 = FQueued" "ft_status row_42 = FQueued"
  "rb_feature_id sample_cancel_binding = 41" "rb_feature_id sample_abandon_binding = 41"
  by (simp_all add: claimed_states)

lemma sample_inv: "conveyor_run sample_codec 7 ops = k \<Longrightarrow> conveyor_inv True k"
  using conveyor_run_inv by blast

lemma cancel_41:
  assumes inv: "conveyor_inv True (claimed_41 a)"
  shows "\<exists>b. conveyor_step sample_codec (claimed_41 a) (CCancel sample_cancel_binding 140 None) = cancelled_41 b"
proof -
  let ?k = "claimed_41 a"
  have f: "find_feature (rb_feature_id sample_cancel_binding) ?k = Some (claimed_row 130 row_41)"
    by (simp add: find_feature_def find_row_def claimed_states)
  have idle: "open_dispatches i ?k = []" for i by (simp add: open_dispatches_def claimed_states)
  have "\<exists>k' s. cancel_active_feature_bound sample_codec sample_cancel_binding 140 None ?k = Inr (k', s)"
    by (rule cancel_succeeds [OF sample_quote inv f])
      (use idle in \<open>simp_all add: claimed_states is_active_execution_def i64_max_large\<close>)
  then obtain k' s where e: "cancel_active_feature_bound sample_codec sample_cancel_binding 140 None ?k = Inr (k', s)"
    by blast
  from cancel_effect [OF e] f obtain k3 row where
    k3: "cancel_feature_coding_dispatches_tx sample_codec 41 140
        (moved_kernel (\<lambda>g. ft_feature_id g = 41) FCancelled True 140
          (bare_transition 41 3 FImplementing FCancelled 140) ?k) = Inr k3"
    and k': "k' = k3\<lparr>k_audit := insert_row row (k_audit k3)\<rparr>"
    by (auto simp: row_41_moves numeral_3_eq_3)
  have "k3 = moved_kernel (\<lambda>g. ft_feature_id g = 41) FCancelled True 140
      (bare_transition 41 3 FImplementing FCancelled 140) ?k"
    using k3 by (simp add: cancel_feature_coding_dispatches_tx_def open_dispatches_def) (simp add: claimed_states)
  then have "k' = cancelled_41 (insert_row row (k_audit k3))"
    using k' by (simp add: cancelled_41_def moved_kernel_def update_rows_def) (simp add: claimed_states)
  with e show ?thesis by (auto simp: conveyor_step_def state_of_def)
qed

lemma sample_feature_cancelled: "\<exists>a. conveyor_run sample_codec 7 sample_cancel_ops = cancelled_41 a"
  using sample_claimed cancel_41 conveyor_run_inv [of sample_codec 7 sample_claim_ops]
  by (metis sample_cancel_ops_def conveyor_run_snoc)

lemma find_cancelled: "find_feature 41 (cancelled_41 a) = Some (moved FCancelled True 140 (claimed_row 130 row_41))"
  by (simp add: find_feature_def find_row_def claimed_states)

lemma abandon_41:
  assumes inv: "conveyor_inv True (cancelled_41 a)"
  shows "\<exists>b. conveyor_step sample_codec (cancelled_41 a) (CAbandon sample_abandon_binding sample_evidence 150 None)
    = abandoned_41 b"
proof -
  let ?k = "cancelled_41 a"
  have f: "find_feature (rb_feature_id sample_abandon_binding) ?k = Some (moved FCancelled True 140 (claimed_row 130 row_41))"
    using find_cancelled by (simp add: sample_abandon_binding_def)
  have "\<exists>k' s. abandon_and_advance_bound sample_codec sample_abandon_binding sample_evidence 150 None ?k = Inr (k', s)"
    by (rule abandon_succeeds [OF sample_quote inv f])
      (simp_all add: claimed_states resolution_status_def healthy_main_missing_def i64_max_large)
  then obtain k' s where e: "abandon_and_advance_bound sample_codec sample_abandon_binding sample_evidence 150 None ?k
      = Inr (k', s)" by blast
  from abandon_effect [OF e] f obtain row where
    "k' = (released 41 (moved_kernel (\<lambda>g. ft_feature_id g = 41) FAbandoned False 150
        ((bare_transition 41 4 FCancelled FAbandoned 150)
           \<lparr>tr_safe_reconciliation_sha256 := Some 91, tr_verified_healthy_main_sha256 := Some 92\<rparr>) ?k))
        \<lparr>k_audit := insert_row row (k_audit ?k)\<rparr>"
    by (auto simp: row_41_moves sample_evidence_def numeral_eq_Suc)
  then have "k' = abandoned_41 (insert_row row (k_audit ?k))"
    by (simp add: abandoned_41_def released_def moved_kernel_def update_rows_def) (simp add: claimed_states)
  with e show ?thesis by (auto simp: conveyor_step_def state_of_def)
qed

lemma sample_abandoned: "\<exists>a. conveyor_run sample_codec 7 sample_abandon_ops = abandoned_41 a"
  using sample_feature_cancelled abandon_41 conveyor_run_inv [of sample_codec 7 sample_cancel_ops]
  by (metis sample_abandon_ops_def conveyor_run_snoc)

end
