(* ===== verification/Conveyor_Trace.thy ===== *)
theory Conveyor_Trace
  imports Conveyor_Sample
begin

text \<open>
  What becomes of a queued feature over a run of the conveyor. Only a claim takes a feature out of the queue
  (\<open>keeps_queued\<close>), and a claim needs the feature's dependencies to have succeeded, so a feature that
  depends on an abandoned one stays queued (\<open>doomed\<close>). \<open>deps_inv\<close>: a dependency was enqueued before the
  feature that depends on it, so the dependencies are acyclic. \<open>serial_of_inv\<close>: what the invariant says of the
  lease and the queue.
\<close>

section \<open>The rows of the queue\<close>

lemma queue_rows:
  assumes "queue_inv fs q"
  shows "set q = {\<lparr>qu_feature_id = ft_feature_id f, qu_queue_position = ft_queue_position f\<rparr> | f.
      f \<in> set fs \<and> \<not> ended (ft_status f)}" (is "_ = ?rows")
proof (intro set_eqI iffI)
  fix r assume r: "r \<in> set q"
  with assms obtain f where f: "f \<in> set fs" "ft_feature_id f = qu_feature_id r" "\<not> ended (ft_status f)"
    by (auto simp: queue_inv_def)
  let ?r = "\<lparr>qu_feature_id = ft_feature_id f, qu_queue_position = ft_queue_position f\<rparr>"
  have "?r \<in> set q" "distinct (map qu_feature_id q)" using assms f by (auto simp: queue_inv_def)
  with r f(2) have "r = ?r" by (auto dest!: distinct_map_inj [of qu_feature_id q r ?r])
  with f show "r \<in> ?rows" by blast
qed (use assms in \<open>auto simp: queue_inv_def\<close>)

section \<open>Only a claim takes a feature out of the queue\<close>

definition keeps_queued :: "kernel \<Rightarrow> kernel \<Rightarrow> bool" where
  "keeps_queued k k' =
     (k_dependencies k' = k_dependencies k
      \<and> (\<forall>f \<in> set (k_features k). ft_status f = FQueued \<longrightarrow> f \<in> set (k_features k')))"

lemma keeps_queued_tables: "conveyor_tables k' = conveyor_tables k \<Longrightarrow> keeps_queued k k'"
  unfolding keeps_queued_def by (metis conveyor_tables_eq(3,4))

lemma keeps_queued_audit: "keeps_queued k (k'\<lparr>k_audit := a\<rparr>) = keeps_queued k k'"
  by (simp add: keeps_queued_def)

lemma keeps_queued_moved:
  assumes "\<And>g. g \<in> set (k_features k) \<Longrightarrow> p g \<Longrightarrow> ft_status g \<noteq> FQueued"
  shows "keeps_queued k (moved_kernel p s e now t k)"
proof -
  have "f \<in> set (update_rows p (moved s e now) (k_features k))"
    if f: "f \<in> set (k_features k)" "ft_status f = FQueued" for f
  proof -
    have "\<not> p f" using assms f by blast
    with f(1) show ?thesis unfolding set_update_rows by (intro image_eqI [of _ _ f]) simp_all
  qed
  then show ?thesis by (simp add: keeps_queued_def moved_kernel_def)
qed

lemma keeps_queued_released: "keeps_queued k (released i k') = keeps_queued k k'"
  by (simp add: keeps_queued_def released_def)

lemma not_queued:
  "is_active_execution s \<Longrightarrow> s \<noteq> FQueued" "resolution_status s \<Longrightarrow> s \<noteq> FQueued" "lifecycle_successor s t \<Longrightarrow> s \<noteq> FQueued"
  by (auto simp: is_active_execution_def resolution_status_def lifecycle_successor_def)

lemma found_not_queued:
  assumes "conveyor_inv True k" "find_feature i k = Some f" "ft_status f \<noteq> FQueued"
    and g: "g \<in> set (k_features k)" "ft_feature_id g = i"
  shows "ft_status g \<noteq> FQueued"
  using bspec [OF only_feature(3) [OF assms(1,2)] g(1)] g(2) assms(3) by simp

lemma cancel_keeps_queued:
  assumes inv: "conveyor_inv True k" and ok: "cancel_active_feature_bound cx b now owner k = Inr (k', v)"
  shows "keeps_queued k k'"
proof -
  let ?i = "rb_feature_id b"
  from cancel_effect [OF ok] obtain f k3 row where f: "find_feature ?i k = Some f" "is_active_execution (ft_status f)"
    and c: "cancel_feature_coding_dispatches_tx cx ?i now (moved_kernel (\<lambda>g. ft_feature_id g = ?i) FCancelled True now
          (bare_transition ?i (Suc (ft_lifecycle_revision f)) (ft_status f) FCancelled now) k) = Inr k3"
    and k': "k' = k3\<lparr>k_audit := insert_row row (k_audit k3)\<rparr>"
    by blast
  let ?m = "moved_kernel (\<lambda>g. ft_feature_id g = ?i) FCancelled True now
          (bare_transition ?i (Suc (ft_lifecycle_revision f)) (ft_status f) FCancelled now) k"
  have "kernel_inv ?m" using inv_parts(1) [OF inv] by (simp add: kernel_inv_def lease_inv_def)
  then have l: "kernel_inv ?m" "lease_inv ?m" by (simp_all add: kernel_inv_def)
  have "pause_ok ?m k3"
    by (rule forE_pause_ok [OF c [unfolded cancel_feature_coding_dispatches_tx_def] l(2)]) (rule cancel_dispatch_ok)
  then have "progress ?m k3" using advance_ok [OF l(1)] by (simp add: pause_ok_def)
  then have t: "conveyor_tables k3 = conveyor_tables ?m" by (simp add: progress_def)
  have "keeps_queued k ?m"
    by (rule keeps_queued_moved) (rule found_not_queued [OF inv f(1) not_queued(1) [OF f(2)]])
  then have "keeps_queued k k3" using conveyor_tables_eq [OF t] by (simp add: keeps_queued_def)
  then show ?thesis unfolding k' by (simp add: keeps_queued_audit)
qed

lemma move_keeps_queued:
  assumes inv: "conveyor_inv True k"
  shows "advance_feature_lifecycle cx i r s p a now k = Inr (k', v) \<Longrightarrow> keeps_queued k k'"
    and "mark_feature_succeeded cx i r q w now k = Inr (k', v) \<Longrightarrow> keeps_queued k k'"
    and "abandon_and_advance_bound cx b e now owner k = Inr (k', v) \<Longrightarrow> keeps_queued k k'"
    and "reconcile_feature_conveyor_startup cx now k = Inr (k', n) \<Longrightarrow> keeps_queued k k'"
proof -
  assume "advance_feature_lifecycle cx i r s p a now k = Inr (k', v)"
  from advance_effect [OF this] obtain f :: feature_row and row where f: "lifecycle_successor (ft_status f) s"
    and k': "k' = (moved_kernel (\<lambda>g. ft_feature_id g = i \<and> ft_status g = ft_status f
        \<and> ft_lifecycle_revision g = r) s (s \<in> {FPublishing, FVerifyingMain}) now
        ((bare_transition i (Suc r) (ft_status f) s now)
           \<lparr>tr_repository_snapshot_sha256 := Some p, tr_accepted_evidence_sha256 := Some a\<rparr>) k)
        \<lparr>k_audit := insert_row row (k_audit k)\<rparr>" by blast
  show "keeps_queued k k'" unfolding k' keeps_queued_audit
    by (rule keeps_queued_moved) (use not_queued(3) [OF f] in simp)
next
  assume "mark_feature_succeeded cx i r q w now k = Inr (k', v)"
  from success_effect [OF this] obtain f row t where f: "find_feature i k = Some f" "ft_status f = FVerifyingMain"
    and k': "k' = (released i (moved_kernel (\<lambda>g. ft_feature_id g = i) FSucceeded False now t k))
        \<lparr>k_audit := insert_row row (k_audit k)\<rparr>" by blast
  show "keeps_queued k k'" unfolding k' keeps_queued_audit keeps_queued_released
    by (rule keeps_queued_moved) (rule found_not_queued [OF inv f(1)], simp_all add: f(2))
next
  assume "abandon_and_advance_bound cx b e now owner k = Inr (k', v)"
  from abandon_effect [OF this] obtain f row t where f: "find_feature (rb_feature_id b) k = Some f"
      "resolution_status (ft_status f)"
    and k': "k' = (released (rb_feature_id b) (moved_kernel (\<lambda>g. ft_feature_id g = rb_feature_id b) FAbandoned False now t k))
        \<lparr>k_audit := insert_row row (k_audit k)\<rparr>" by blast
  show "keeps_queued k k'" unfolding k' keeps_queued_audit keeps_queued_released
    by (rule keeps_queued_moved) (rule found_not_queued [OF inv f(1) not_queued(2) [OF f(2)]])
next
  assume ok: "reconcile_feature_conveyor_startup cx now k = Inr (k', n)"
  show "keeps_queued k k'"
  proof (cases "k' = k")
    case True
    then show ?thesis by (simp add: keeps_queued_def)
  next
    case False
    with ok obtain f where f: "is_active_execution (ft_status f)" and q: "quarantine_feature cx f now k = Inr k'"
      by (auto simp: reconcile_feature_conveyor_startup_def Let_def bindE_Inr_iff split: option.splits if_splits)
    from quarantine_effect [OF q] obtain row where
      k': "k' = (moved_kernel (\<lambda>g. ft_feature_id g = ft_feature_id f \<and> ft_status g = ft_status f
          \<and> ft_lifecycle_revision g = ft_lifecycle_revision f) FQuarantined True now
        (bare_transition (ft_feature_id f) (Suc (ft_lifecycle_revision f)) (ft_status f) FQuarantined now) k)
        \<lparr>k_audit := insert_row row (k_audit k)\<rparr>" by blast
    show ?thesis unfolding k' keeps_queued_audit
      by (rule keeps_queued_moved) (use not_queued(1) [OF f] in simp)
  qed
qed

lemma quiet_keeps_queued:
  "designate_owner_control_bridge cx d r now k = Inr (k', v) \<Longrightarrow> keeps_queued k k'"
  "record_repository_grant_revision cx g r p now k = Inr k' \<Longrightarrow> keeps_queued k k'"
  "record_repository_preflight cx i r t p now k = Inr k' \<Longrightarrow> keeps_queued k k'"
  "dispatch_feature_coding cx q now task step k = Inr (k', w) \<Longrightarrow> keeps_queued k k'"
proof -
  assume "dispatch_feature_coding cx q now task step k = Inr (k', w)"
  from dispatch_effect [OF this] obtain k1 k2 row where
    ins: "insert_coding_step cx q task step now k = Inr k1"
    and ev: "append_event cx StepQueued now (step_identity task step) k1 = Inr k2"
    and k': "k' = k2\<lparr>k_audit := insert_row row (k_audit k2)\<rparr>" by blast
  note e = conveyor_tables_eq [OF ev_ext_fields(12) [OF append_event_ext [OF ev]]]
  show "keeps_queued k k'" using insert_coding_step_Inr [OF ins] by (simp add: k' keeps_queued_audit) (simp add: keeps_queued_def e)
qed (auto simp: keeps_queued_def dest!: designate_effect grant_effect preflight_effect)

definition queued_in :: "kernel \<Rightarrow> uuid \<Rightarrow> bool" where
  "queued_in k i = exists_row (\<lambda>f. ft_feature_id f = i \<and> ft_status f = FQueued) (k_features k)"

definition doomed :: "kernel \<Rightarrow> uuid \<Rightarrow> bool" where
  "doomed k i =
     (queued_in k i
      \<and> exists_row (\<lambda>d. dn_feature_id d = i
          \<and> exists_row (\<lambda>f. ft_feature_id f = dn_dependency_feature_id d \<and> ft_status f = FAbandoned)
              (k_features k)) (k_dependencies k))"

lemma doomed_blocked: "doomed k i \<Longrightarrow> dependency_blocked i k"
  by (fastforce simp: doomed_def dependency_blocked_def exists_row_iff)

lemma keeps_queued_in: "keeps_queued k k' \<Longrightarrow> queued_in k i \<Longrightarrow> queued_in k' i"
  unfolding keeps_queued_def queued_in_def exists_row_iff by blast

lemma reorder_queued_in:
  assumes inv: "conveyor_inv True k" and ok: "reorder_queued_features cx ordered r now k = Inr (k', n)" and q: "queued_in k i"
  shows "queued_in k' i"
proof -
  have "distinct (map qu_feature_id (k_queue k))"
    "\<forall>f \<in> set (k_features k). ft_status f = FQueued \<longrightarrow> ft_feature_id f \<in> set (map qu_feature_id (k_queue k))"
    using inv_parts(3) [OF inv] by (force simp: queue_inv_def ended_def)+
  from reorder_effect [OF ok this(2,1)]
  have "\<exists>pos. k_features k' = map (place_feat pos now) (k_features k)" by auto
  with q show ?thesis by (auto simp: queued_in_def exists_row_iff)
qed

lemma enqueue_features:
  assumes "enqueue_approved_feature_with_owner_binding cx spec r now owner k = Inr (k', s)"
  shows "prefix (k_features k) (k_features k')"
  using enqueue_effect [OF assms] by (auto simp: Let_def dest!: enqueue_commit_effect)

lemma claim_queued_in:
  assumes ok: "finalize_repository_snapshot_claim cx plan snap now lease k = Inr (k', c)"
    and q: "queued_in k i" and b: "dependency_blocked i k"
  shows "queued_in k' i"
proof -
  from claim_effect [OF ok] require_plan_Inr have "\<not> dependency_blocked (pl_feature_id plan) k" by blast
  with b have ne: "pl_feature_id plan \<noteq> i" by blast
  from claim_effect [OF ok] have k': "k_features k' = update_rows
      (\<lambda>f. ft_feature_id f = pl_feature_id plan \<and> ft_status f = FQueued) (claimed_row now) (k_features k)" by auto
  from q obtain f where f: "f \<in> set (k_features k)" "ft_feature_id f = i" "ft_status f = FQueued"
    by (auto simp: queued_in_def exists_row_iff)
  then have "f \<in> set (k_features k')" unfolding k' set_update_rows using ne by (intro image_eqI [of _ _ f]) simp_all
  with f show ?thesis by (auto simp: queued_in_def exists_row_iff)
qed

lemma blocked_stays_queued:
  assumes inv: "conveyor_inv True k" and ok: "run_conveyor cx op k = Inr k'"
    and q: "queued_in k i" and b: "dependency_blocked i k"
  shows "queued_in k' i"
proof -
  have "keeps_queued k k' \<or> queued_in k' i"
  proof (cases op)
    case (CKernel o1)
    with ok run_op_ok [OF inv_parts(1) [OF inv], of cx o1 k'] have "conveyor_tables k' = conveyor_tables k"
      by (simp add: progress_def)
    then show ?thesis using keeps_queued_tables by blast
  next
    case (CEnqueue spec r now owner)
    with ok obtain s where "enqueue_approved_feature_with_owner_binding cx spec r now owner k = Inr (k', s)"
      by (auto simp: state_of_Inr)
    from enqueue_features [OF this] q have "queued_in k' i"
      by (auto simp: queued_in_def exists_row_iff dest: set_mono_prefix)
    then show ?thesis ..
  next
    case (CReorder ordered r now)
    with ok reorder_queued_in [OF inv _ q] show ?thesis by (auto simp: state_of_Inr)
  next
    case (CClaim plan snap now lease)
    with ok claim_queued_in [OF _ q b] show ?thesis by (auto simp: state_of_Inr)
  qed (use ok in \<open>auto simp: state_of_Inr dest: quiet_keeps_queued move_keeps_queued [OF inv] cancel_keeps_queued [OF inv]\<close>)
  with keeps_queued_in [OF _ q] show ?thesis by blast
qed

lemma doomed_step:
  assumes inv: "conveyor_inv True k" and d: "doomed k i"
  shows "doomed (conveyor_step cx k op) i"
proof (cases "run_conveyor cx op k")
  case (Inl e)
  with d show ?thesis by (simp add: conveyor_step_def)
next
  case (Inr k')
  from run_conveyor_ok [OF inv Inr] have p: "conveyor_progress k k'" by (simp add: conveyor_ok_def)
  then have g: "grows feature_le (k_features k) (k_features k')" "prefix (k_dependencies k) (k_dependencies k')"
    by (simp_all add: conveyor_progress_def)
  from d obtain r f where r: "r \<in> set (k_dependencies k)" "dn_feature_id r = i"
    and f: "f \<in> set (k_features k)" "ft_feature_id f = dn_dependency_feature_id r" "ft_status f = FAbandoned"
    by (auto simp: doomed_def exists_row_iff)
  from grows_row [OF g(1) f(1)] obtain h where "h \<in> set (k_features k')" "feature_le f h" by blast
  with f have "h \<in> set (k_features k')" "ft_feature_id h = dn_dependency_feature_id r" "ft_status h = FAbandoned"
    by (auto simp: feature_le_def ended_def)
  moreover have "queued_in k' i"
    using blocked_stays_queued [OF inv Inr] d doomed_blocked [OF d] by (simp add: doomed_def)
  ultimately show ?thesis
    using r set_mono_prefix [OF g(2)] Inr by (auto simp: conveyor_step_def doomed_def exists_row_iff)
qed

lemma doomed_run:
  assumes "conveyor_inv True k" "doomed k i"
  shows "doomed (run_ops (conveyor_step cx) k ops) i"
  using assms
proof (induction ops arbitrary: k)
  case (Cons op ops)
  show ?case
    using Cons.IH [of "conveyor_step cx k op"] doomed_step [OF Cons.prems] conveyor.step_inv [OF Cons.prems(1)] by simp
qed simp

section \<open>Dependencies are acyclic\<close>

definition place_of :: "uuid list \<Rightarrow> uuid \<Rightarrow> nat" where
  "place_of ids i = length (takeWhile (\<lambda>j. j \<noteq> i) ids)"

lemma place_of_append: "i \<in> set ids \<Longrightarrow> place_of (ids @ rest) i = place_of ids i"
  by (simp add: place_of_def takeWhile_append1)

lemma place_of_less: "i \<in> set ids \<Longrightarrow> place_of ids i < length ids"
  unfolding place_of_def by (induction ids) auto

lemma place_of_new: "i \<notin> set ids \<Longrightarrow> place_of (ids @ i # rest) i = length ids"
  unfolding place_of_def by (induction ids) auto

definition feature_ids :: "kernel \<Rightarrow> uuid list" where
  "feature_ids k = map ft_feature_id (k_features k)"

definition deps_inv :: "kernel \<Rightarrow> bool" where
  "deps_inv k =
     (\<forall>d \<in> set (k_dependencies k). dn_feature_id d \<in> set (feature_ids k)
        \<and> dn_dependency_feature_id d \<in> set (feature_ids k)
        \<and> place_of (feature_ids k) (dn_dependency_feature_id d) < place_of (feature_ids k) (dn_feature_id d))"

lemma feature_ids_grow:
  assumes "grows feature_le (k_features k) (k_features k')"
  shows "\<exists>rest. feature_ids k' = feature_ids k @ rest"
proof -
  let ?n = "length (k_features k)"
  have "list_all2 feature_le (k_features k) (take ?n (k_features k'))" using assms by (simp add: grows_def)
  then have "map ft_feature_id (take ?n (k_features k')) = feature_ids k"
    by (auto simp: list_all2_conv_all_nth feature_le_def feature_ids_def intro!: nth_equalityI)
  then have "feature_ids k' = feature_ids k @ map ft_feature_id (drop ?n (k_features k'))"
    unfolding feature_ids_def by (metis append_take_drop_id map_append)
  then show ?thesis ..
qed

lemma deps_inv_same:
  assumes "deps_inv k" "k_dependencies k' = k_dependencies k" "feature_ids k' = feature_ids k @ rest"
  shows "deps_inv k'"
  using assms by (simp add: deps_inv_def place_of_append)

lemma required_dependencies:
  assumes "forE (require_dependency k) ds () = Inr ()"
  shows "\<forall>d \<in> set ds. find_feature d k \<noteq> None"
  using assms
proof (induction ds)
  case (Cons d ds)
  then show ?case by (cases "require_dependency k d ()") (auto simp: require_dependency_def reject_if_def split: if_splits)
qed simp

lemma enqueue_dependencies:
  assumes ok: "enqueue_approved_feature_with_owner_binding cx spec r now owner k = Inr (k', s)" and "k_queue_revision k = r"
  shows "\<forall>d \<in> set (as_dependencies spec). find_feature d k \<noteq> None"
proof -
  have "forE (require_dependency k) (as_dependencies spec) () = Inr ()"
    using ok assms(2) unfolding enqueue_approved_feature_with_owner_binding_def feature_queue_revision_tx_def bindE_Inr_iff
    by (auto simp: bindE_Inr_iff)
  then show ?thesis by (rule required_dependencies)
qed

lemma find_feature_ids: "find_feature i k \<noteq> None \<longleftrightarrow> i \<in> set (feature_ids k)"
  by (auto simp: find_feature_def find_row_None feature_ids_def)

lemma deps_inv_enqueue:
  assumes inv: "deps_inv k"
    and ok: "enqueue_approved_feature_with_owner_binding cx spec r now owner k = Inr (k', s)"
  shows "deps_inv k'"
proof (cases "k' = k")
  case True
  with inv show ?thesis by simp
next
  case False
  let ?i = "as_feature_id spec"
  from enqueue_effect [OF ok] False obtain canonical where rev: "k_queue_revision k = r"
    and c: "enqueue_commit cx spec canonical r now owner k = Inr k'" by blast
  from enqueue_commit_effect [OF c] have new: "?i \<notin> set (feature_ids k)"
    and k': "feature_ids k' = feature_ids k @ [?i]" "k_dependencies k' = k_dependencies k
      @ map (\<lambda>d. \<lparr>dn_feature_id = ?i, dn_dependency_feature_id = d\<rparr>) (as_dependencies spec)"
    using find_feature_ids [of ?i k] by (auto simp: Let_def feature_ids_def queued_feature_def)
  have old: "\<forall>d \<in> set (as_dependencies spec). d \<in> set (feature_ids k)"
    using enqueue_dependencies [OF ok rev] find_feature_ids by blast
  show ?thesis
    using inv old place_of_new [OF new, of "[]"] place_of_less
    by (auto simp: deps_inv_def k' place_of_append)
qed

lemma keeps_dependencies:
  assumes inv: "conveyor_inv True k" and ok: "run_conveyor cx op k = Inr k'" and no: "\<And>a b c d. op \<noteq> CEnqueue a b c d"
  shows "k_dependencies k' = k_dependencies k"
proof (cases op)
  case (CKernel o1)
  with ok run_op_ok [OF inv_parts(1) [OF inv], of cx o1 k'] have "conveyor_tables k' = conveyor_tables k"
    by (simp add: progress_def)
  then show ?thesis by (rule conveyor_tables_eq(4))
next
  case (CReorder ordered r now)
  then obtain n where re: "reorder_queued_features cx ordered r now k = Inr (k', n)" using ok by (auto simp: state_of_Inr)
  have "distinct (map qu_feature_id (k_queue k))"
    "\<forall>f \<in> set (k_features k). ft_status f = FQueued \<longrightarrow> ft_feature_id f \<in> set (map qu_feature_id (k_queue k))"
    using inv_parts(3) [OF inv] by (force simp: queue_inv_def ended_def)+
  from reorder_effect [OF re this(2,1)] show ?thesis by auto
next
  case (CClaim plan snap now lease)
  with ok show ?thesis by (auto simp: state_of_Inr dest!: claim_effect)
qed (use ok no in \<open>auto simp: state_of_Inr keeps_queued_def
      dest!: quiet_keeps_queued move_keeps_queued [OF inv] cancel_keeps_queued [OF inv]\<close>)

lemma deps_step:
  assumes inv: "conveyor_inv True k" and d: "deps_inv k"
  shows "deps_inv (conveyor_step cx k op)"
proof (cases "run_conveyor cx op k")
  case (Inl e)
  with d show ?thesis by (simp add: conveyor_step_def)
next
  case (Inr k')
  have "deps_inv k'"
  proof (cases "\<exists>a b c d. op = CEnqueue a b c d")
    case True
    with Inr deps_inv_enqueue [OF d] show ?thesis by (auto simp: state_of_Inr)
  next
    case False
    then have same: "k_dependencies k' = k_dependencies k" using keeps_dependencies [OF inv Inr] by blast
    have "grows feature_le (k_features k) (k_features k')"
      using run_conveyor_ok [OF inv Inr] by (simp add: conveyor_ok_def conveyor_progress_def)
    with deps_inv_same [OF d same] feature_ids_grow show ?thesis by blast
  qed
  then show ?thesis by (simp add: conveyor_step_def Inr)
qed

lemma deps_inv_new: "deps_inv (new_kernel stream)"
  by (simp add: deps_inv_def new_kernel_def)

interpretation conveyor_deps:
    invariant_machine "\<lambda>k. \<exists>stream. k = new_kernel stream" "conveyor_step cx" "\<lambda>k. conveyor_inv True k \<and> deps_inv k" for cx
proof
  show "\<exists>stream. s = new_kernel stream \<Longrightarrow> conveyor_inv True s \<and> deps_inv s" for s
    using conveyor_inv_new deps_inv_new by blast
  show "conveyor_inv True s \<and> deps_inv s \<Longrightarrow> conveyor_inv True (conveyor_step cx s op) \<and> deps_inv (conveyor_step cx s op)" for s op
    using conveyor.step_inv deps_step by blast
qed

definition depends_on :: "kernel \<Rightarrow> (uuid \<times> uuid) set" where
  "depends_on k = (\<lambda>d. (dn_feature_id d, dn_dependency_feature_id d)) ` set (k_dependencies k)"

lemma run_acyclic: "acyclic (depends_on (conveyor_run cx stream ops))"
proof -
  let ?k = "conveyor_run cx stream ops"
  have "deps_inv ?k" unfolding conveyor_run_def using conveyor_deps.run_inv by blast
  then have "(depends_on ?k)\<inverse> \<subseteq> measure (place_of (feature_ids ?k))" by (auto simp: depends_on_def deps_inv_def)
  then have "wf ((depends_on ?k)\<inverse>)" by (rule wf_subset [OF wf_measure])
  then show ?thesis using wf_acyclic acyclic_converse by blast
qed

section \<open>Serial work\<close>

lemma serial_of_inv:
  assumes inv: "conveyor_inv strict k"
  shows "{ft_feature_id f | f. f \<in> set (k_features k) \<and> busy (ft_status f)} = set_option (holder k)
   \<and> (case k_active_lease k of None \<Rightarrow> True | Some l \<Rightarrow>
        \<exists>c. c \<in> set (k_claims k) \<and> cl_lease_id c = fl_lease_id l \<and> cl_feature_id c = fl_feature_id l
          \<and> fl_snapshot_id l = Some (cl_snapshot_id c))
   \<and> set (k_queue k) = {\<lparr>qu_feature_id = ft_feature_id f, qu_queue_position = ft_queue_position f\<rparr> | f.
        f \<in> set (k_features k) \<and> \<not> ended (ft_status f)}
   \<and> distinct (map qu_queue_position (k_queue k))"
proof -
  have "{ft_feature_id f | f. f \<in> set (k_features k) \<and> busy (ft_status f)} = set_option (holder k)"
    using feature_of_inv [OF inv] holder_feature [OF inv] by (fastforce simp: feature_ok_def)
  moreover have "(case k_active_lease k of None \<Rightarrow> True | Some l \<Rightarrow>
      \<exists>c. c \<in> set (k_claims k) \<and> cl_lease_id c = fl_lease_id l \<and> cl_feature_id c = fl_feature_id l
        \<and> fl_snapshot_id l = Some (cl_snapshot_id c))"
    using inv_parts(4) [OF inv] by (fastforce simp: claims_inv_def lease_backed_def split: option.split)
  moreover have "set (k_queue k) = {\<lparr>qu_feature_id = ft_feature_id f, qu_queue_position = ft_queue_position f\<rparr> | f.
        f \<in> set (k_features k) \<and> \<not> ended (ft_status f)}"
    by (rule queue_rows [OF inv_parts(3) [OF inv]])
  ultimately show ?thesis using inv_parts(3) [OF inv] by (simp add: queue_inv_def)
qed

end
