(* ===== verification/Conveyor_Properties.thy ===== *)
theory Conveyor_Properties
  imports Conveyor_Trace
begin

text \<open>
  The properties of the Feature Conveyor: one feature at a time, in the order of the queue, each move on its
  evidence. What holds on every run of the whole machine is in \<open>Gate_Properties\<close>.
\<close>

section \<open>On every run\<close>

text \<open>
  Serial work: on every run of conveyor and kernel operations the features between claim and
  resolution are the one that holds the lease, or none; the lease was granted by a recorded claim of that
  feature and its snapshot; and the queue lists exactly the unfinished features, each at its own position.
\<close>

theorem conveyor_is_serial:
  "let k = conveyor_run cx stream ops in
     {ft_feature_id f | f. f \<in> set (k_features k) \<and> busy (ft_status f)} = set_option (holder k)
   \<and> (case k_active_lease k of None \<Rightarrow> True | Some l \<Rightarrow>
        \<exists>c. c \<in> set (k_claims k) \<and> cl_lease_id c = fl_lease_id l \<and> cl_feature_id c = fl_feature_id l
          \<and> fl_snapshot_id l = Some (cl_snapshot_id c))
   \<and> set (k_queue k) = {\<lparr>qu_feature_id = ft_feature_id f, qu_queue_position = ft_queue_position f\<rparr> | f.
        f \<in> set (k_features k) \<and> \<not> ended (ft_status f)}
   \<and> distinct (map qu_queue_position (k_queue k))"
  unfolding Let_def by (rule serial_of_inv [OF conveyor_run_inv])

text \<open>
  C28. The recorded dependencies between features are acyclic on every run, so no two features can wait for
  each other.
\<close>

theorem dependencies_are_acyclic:
  "acyclic {(dn_feature_id d, dn_dependency_feature_id d) | d. d \<in> set (k_dependencies (conveyor_run cx stream ops))}"
proof -
  have "{(dn_feature_id d, dn_dependency_feature_id d) | d. d \<in> set (k_dependencies (conveyor_run cx stream ops))}
      = depends_on (conveyor_run cx stream ops)" by (auto simp: depends_on_def)
  then show ?thesis using run_acyclic by simp
qed

text \<open>
  C29. On every run the grants of one kind for a repository are numbered 1, 2, 3, .. in the order in which they
  were recorded, and a requirement is met exactly when it names the number of the last of them, which is
  neither revoked nor expired: a newer grant or a revocation withdraws every older one.
\<close>

theorem only_the_newest_grant_counts:
  "let k = conveyor_run cx stream ops; recorded = grants_of repository kind k in
     map gt_revision recorded = [1..<Suc (length recorded)]
   \<and> (require_grant repository now k (kind, revision) () = Inr ())
       = (recorded \<noteq> [] \<and> revision = length recorded \<and> \<not> gt_revoked (last recorded)
          \<and> \<not> expired_at (gt_expires_at_ms (last recorded)) now)"
proof -
  let ?k = "conveyor_run cx stream ops"
  let ?g = "grants_of repository kind ?k"
  have inv: "grants_inv ?k" using conveyor_run_inv [of cx stream ops] by (simp add: conveyor_inv_def)
  then have rev: "map gt_revision ?g = [1..<Suc (length ?g)]" by (simp add: grants_inv_def del: upt_Suc)
  have "gt_revision (last ?g) = length ?g" if "?g \<noteq> []"
  proof -
    have "gt_revision (last ?g) = last (map gt_revision ?g)" using that by (simp add: last_map)
    then show ?thesis unfolding rev using that by (simp add: Suc_le_eq)
  qed
  then have "(require_grant repository now ?k (kind, revision) () = Inr ())
       = (?g \<noteq> [] \<and> revision = length ?g \<and> \<not> gt_revoked (last ?g) \<and> \<not> expired_at (gt_expires_at_ms (last ?g)) now)"
    by (auto simp: require_grant_def newest_grant_last [OF inv] ok_or_def reject_if_def)
  with rev show ?thesis by (simp add: Let_def del: upt_Suc)
qed

section \<open>The single operations\<close>

text \<open>
  C16. A claim succeeds only for the strict head of the queue, at the expected queue and pause revisions, while no
  feature holds the lease and the kernel is not paused, when every dependency of the feature has succeeded and
  the grants in the plan are the current ones; it gives the feature the lease for the snapshot, moves it to
  implementing, advances the queue's revision, and leaves every other feature and the queue as they were.
\<close>

theorem claim_takes_the_queue_head:
  assumes "finalize_repository_snapshot_claim cx plan snapshot now lease k = Inr (k', claim)"
  shows "\<exists>f. queue_head k = Some f \<and> ft_feature_id f = pl_feature_id plan
    \<and> k_active_lease k = None \<and> k_emergency_paused k = 0
    \<and> k_queue_revision k = pl_expected_queue_revision plan
    \<and> k_emergency_pause_revision k = pl_expected_emergency_pause_revision plan
    \<and> (\<forall>d \<in> set (k_dependencies k). dn_feature_id d = ft_feature_id f \<longrightarrow>
         (\<forall>g \<in> set (k_features k). ft_feature_id g = dn_dependency_feature_id d \<longrightarrow> ft_status g = FSucceeded))
    \<and> require_grants_tx (pl_repository_id plan) (pl_grants plan) now k = Inr ()
    \<and> k_active_lease k' = Some \<lparr>fl_feature_id = pl_feature_id plan, fl_lease_id = lease,
         fl_snapshot_id = Some (se_snapshot_id snapshot), fl_claimed_at_ms = now\<rparr>
    \<and> k_features k' = update_rows (\<lambda>g. ft_feature_id g = pl_feature_id plan \<and> ft_status g = FQueued)
         (\<lambda>g. g\<lparr>ft_status := FImplementing, ft_lifecycle_revision := ft_lifecycle_revision g + 1,
              ft_updated_at_ms := now\<rparr>) (k_features k)
    \<and> k_queue k' = k_queue k \<and> k_queue_revision k' = k_queue_revision k + 1"
proof -
  from claim_effect [OF assms] obtain row where plan: "require_snapshot_claim_plan_tx plan now k = Inr ()"
    and k': "k' = k\<lparr>k_claims := k_claims k @ [claim_row_of plan snapshot lease now],
           k_active_lease := Some \<lparr>fl_feature_id = pl_feature_id plan, fl_lease_id = lease,
             fl_snapshot_id = Some (se_snapshot_id snapshot), fl_claimed_at_ms = now\<rparr>,
           k_features := update_rows
             (\<lambda>f. ft_feature_id f = pl_feature_id plan \<and> ft_status f = FQueued) (claimed_row now) (k_features k),
           k_queue_revision := Suc (k_queue_revision k), k_audit := insert_row row (k_audit k)\<rparr>"
    by blast
  from require_plan_Inr [OF plan] obtain f where "queue_head k = Some f" "ft_feature_id f = pl_feature_id plan"
    "k_active_lease k = None" "k_emergency_paused k = 0"
    "k_queue_revision k = pl_expected_queue_revision plan"
    "k_emergency_pause_revision k = pl_expected_emergency_pause_revision plan"
    "\<not> dependency_blocked (pl_feature_id plan) k"
    "require_grants_tx (pl_repository_id plan) (pl_grants plan) now k = Inr ()" by blast
  then show ?thesis
    by (intro exI [of _ f]) (auto simp: k' claimed_row_def [abs_def] dependency_blocked_def exists_row_iff)
qed

theorem claim_takes_the_queue_head_witness:
  "\<exists>a k' claim. finalize_repository_snapshot_claim sample_codec sample_plan sample_snapshot 130 71
      (queued_two a) = Inr (k', claim) \<and> fc_feature_id claim = 41
    \<and> k_queue k' = k_queue (queued_two a) \<and> k_active_lease k' \<noteq> None"
proof -
  obtain a where "conveyor_run sample_codec 7 sample_queue_ops = queued_two a" using sample_queued by blast
  then have "conveyor_inv True (queued_two a)" using conveyor_run_inv by metis
  from claim_41_succeeds [OF this] obtain k' c where
    e: "finalize_repository_snapshot_claim sample_codec sample_plan sample_snapshot 130 71 (queued_two a) = Inr (k', c)"
    by blast
  with claim_takes_the_queue_head [OF e] claim_effect [OF e] show ?thesis by (auto simp: sample_plan_def)
qed

text \<open>
  C23. A feature that waits for an abandoned one waits for ever: when a queued feature has a recorded dependency on
  an abandoned feature at some point of a run, it is still queued after any later operations; it is never
  claimed and no operation takes it out of the queue.
\<close>

theorem abandoned_dependency_blocks_for_ever:
  assumes "\<exists>d \<in> set (k_dependencies (conveyor_run cx stream ops)). dn_feature_id d = feature
    \<and> (\<exists>f \<in> set (k_features (conveyor_run cx stream ops)).
          ft_feature_id f = dn_dependency_feature_id d \<and> ft_status f = FAbandoned)"
    and "map_option ft_status (find_feature feature (conveyor_run cx stream ops)) = Some FQueued"
  shows "map_option ft_status (find_feature feature (conveyor_run cx stream (ops @ later))) = Some FQueued"
proof -
  let ?k = "conveyor_run cx stream ops" let ?l = "conveyor_run cx stream (ops @ later)"
  from assms(2) obtain f where f: "find_feature feature ?k = Some f" "ft_status f = FQueued" by auto
  have "doomed ?k feature"
    using assms(1) find_feature_Some [OF f(1)] f(2) by (auto simp: doomed_def queued_in_def exists_row_iff)
  then have "doomed ?l feature" unfolding conveyor_run_append by (rule doomed_run [OF conveyor_run_inv])
  then obtain g where g: "g \<in> set (k_features ?l)" "ft_feature_id g = feature" "ft_status g = FQueued"
    by (auto simp: doomed_def queued_in_def exists_row_iff)
  then have "find_feature feature ?l \<noteq> None" by (auto simp: find_feature_def find_row_None)
  then obtain h where h: "find_feature feature ?l = Some h" by blast
  have "g = h" using bspec [OF only_feature(3) [OF conveyor_run_inv h] g(1)] g(2) by simp
  with h g(3) show ?thesis by simp
qed

theorem abandoned_dependency_blocks_for_ever_witness:
  "map_option ft_status (find_feature 42 (conveyor_run sample_codec 7 (sample_abandon_ops @ [CStartup 200]))) = Some FQueued"
proof (rule abandoned_dependency_blocks_for_ever)
  obtain a where a: "conveyor_run sample_codec 7 sample_abandon_ops = abandoned_41 a" using sample_abandoned by blast
  show "\<exists>d \<in> set (k_dependencies (conveyor_run sample_codec 7 sample_abandon_ops)). dn_feature_id d = 42
    \<and> (\<exists>f \<in> set (k_features (conveyor_run sample_codec 7 sample_abandon_ops)).
          ft_feature_id f = dn_dependency_feature_id d \<and> ft_status f = FAbandoned)"
    by (simp add: a abandoned_41_def claimed_states)
  show "map_option ft_status (find_feature 42 (conveyor_run sample_codec 7 sample_abandon_ops)) = Some FQueued"
    by (simp add: a find_feature_def find_row_def abandoned_41_def claimed_states)
qed

text \<open>
  C22. What may have been merged is not abandoned without a healthy main branch: when the transition that brought the
  feature to its present status came from verifying the main branch, or the publication journal holds an intent
  to merge, an abandonment succeeds only with the merge acknowledged and a nonzero healthy-main digest, which
  the transition records.
\<close>

theorem merged_work_needs_a_healthy_main:
  assumes "abandon_and_advance_bound cx b e now owner k = Inr (k', s)"
    and "find_transition (rb_feature_id b) (rb_expected_lifecycle_revision b) k = Some t"
    and "tr_from_status t = FVerifyingMain \<or> publication_merge_effect_possible_tx (rb_feature_id b) k"
  shows "\<exists>digest u. ab_merged e \<and> ab_verified_healthy_main_sha256 e = Some digest \<and> digest \<noteq> 0
    \<and> u \<in> set (k_transitions k') \<and> tr_feature_id u = rb_feature_id b \<and> tr_to_status u = FAbandoned
    \<and> tr_verified_healthy_main_sha256 u = Some digest"
proof -
  from abandon_effect [OF assms(1)] obtain f origin row where
    b: "require_resolution_binding cx b owner k = Inr (ft_status f)" "find_feature (rb_feature_id b) k = Some f"
    and o1: "feature_resolution_origin_tx (rb_feature_id b) (ft_status f) (ft_lifecycle_revision f) k = Inr origin"
    and need: "origin = FVerifyingMain \<or> publication_merge_effect_possible_tx (rb_feature_id b) k
        \<longrightarrow> ab_merged e \<and> \<not> healthy_main_missing e"
    and k': "k' = (released (rb_feature_id b) (moved_kernel (\<lambda>g. ft_feature_id g = rb_feature_id b) FAbandoned False now
        ((bare_transition (rb_feature_id b) (Suc (ft_lifecycle_revision f)) (ft_status f) FAbandoned now)
           \<lparr>tr_safe_reconciliation_sha256 := Some (ab_safe_reconciliation_sha256 e),
            tr_verified_healthy_main_sha256 := ab_verified_healthy_main_sha256 e\<rparr>) k))
        \<lparr>k_audit := insert_row row (k_audit k)\<rparr>" by blast
  have "ft_lifecycle_revision f = rb_expected_lifecycle_revision b"
    using resolution_binding_Inr [OF b(1)] b(2) by auto
  then have "find_transition (rb_feature_id b) (ft_lifecycle_revision f) k = Some t" using assms(2) by simp
  with o1 have "origin = tr_from_status t"
    unfolding feature_resolution_origin_tx_def bindE_Inr_iff ok_or_Inr_iff
    by (cases "tr_from_status t = FVerifyingMain") (auto simp: bindE_Inr_iff)
  with need assms(3) have "ab_merged e" "\<not> healthy_main_missing e" by blast+
  moreover from this obtain digest where d: "ab_verified_healthy_main_sha256 e = Some digest" "digest \<noteq> 0"
    by (auto simp: healthy_main_missing_def split: option.splits)
  let ?u = "(bare_transition (rb_feature_id b) (Suc (ft_lifecycle_revision f)) (ft_status f) FAbandoned now)
      \<lparr>tr_safe_reconciliation_sha256 := Some (ab_safe_reconciliation_sha256 e),
       tr_verified_healthy_main_sha256 := ab_verified_healthy_main_sha256 e\<rparr>"
  have "?u \<in> set (k_transitions k')" by (simp add: k' released_def moved_kernel_def)
  ultimately show ?thesis using d by (intro exI [of _ digest] exI [of _ ?u]) (simp add: bare_transition_def)
qed

text \<open>A cancelled feature whose publication was about to be merged.\<close>

definition publication_41 :: publication_row where
  "publication_41 =
     \<lparr>pb_publication_id = 81, pb_feature_id = 41, pb_specification_revision = 1, pb_lifecycle_revision = 5,
      pb_feature_lease_id = 72, pb_integration_id = 61, pb_validation_id = 62, pb_review_call_id = 63,
      pb_candidate_commit = replicate 40 CHR ''c'', pb_candidate_tree = replicate 40 CHR ''d'',
      pb_candidate_diff_sha256 = 1, pb_evidence_manifest_sha256 = 1, pb_review_decision_sha256 = 1,
      pb_provider_id = ''provider'', pb_model_id = ''model'', pb_repository_id = 5,
      pb_feature_branch = ''assemblywright-41'', pb_base_branch = ''main'',
      pb_remote_base_commit = replicate 40 CHR ''a'', pb_branch_policy_sha256 = 1,
      pb_required_checks = [''build''], pb_merge_strategy = ''merge'', pb_post_merge_gate = ''release-local'',
      pb_queue_revision = 3, pb_emergency_pause_revision = 0, pb_grants = sample_grants,
      pb_request_binding_sha256 = 1, pb_started_at_ms = 135\<rparr>"

definition merging_41 :: "audit_row list \<Rightarrow> kernel" where
  "merging_41 a = (cancelled_41 a)\<lparr>k_publications := [publication_41],
     k_publication_intents := [\<lparr>pi_publication_id = 81, pi_ordinal = 5, pi_action_kind = MergePullRequest,
       pi_intent_sha256 = 1, pi_created_at_ms = 136\<rparr>]\<rparr>"

lemma merging_41_inv: "conveyor_inv True (cancelled_41 a) \<Longrightarrow> conveyor_inv True (merging_41 a)"
  by (simp add: merging_41_def conveyor_inv_def kernel_inv_def lease_inv_def holder_def grants_inv_def grants_of_def)

lemma merging_41_abandoned:
  assumes "conveyor_inv True (cancelled_41 a)"
  shows "\<exists>k' s. abandon_and_advance_bound sample_codec sample_abandon_binding sample_evidence 150 None (merging_41 a) = Inr (k', s)"
proof -
  have f: "find_feature (rb_feature_id sample_abandon_binding) (merging_41 a)
      = Some (moved FCancelled True 140 (claimed_row 130 row_41))"
    using find_cancelled [of a] by (simp add: merging_41_def find_feature_def row_41_moves)
  show ?thesis
    by (rule abandon_succeeds [OF sample_quote merging_41_inv [OF assms] f])
      (simp_all add: merging_41_def claimed_states resolution_status_def healthy_main_missing_def i64_max_large)
qed

theorem merged_work_needs_a_healthy_main_witness:
  "\<exists>a k' s digest. abandon_and_advance_bound sample_codec sample_abandon_binding sample_evidence 150 None (merging_41 a)
      = Inr (k', s) \<and> ab_verified_healthy_main_sha256 sample_evidence = Some digest \<and> digest \<noteq> 0"
proof -
  obtain a where a: "conveyor_run sample_codec 7 sample_cancel_ops = cancelled_41 a" using sample_feature_cancelled by blast
  obtain k' s where ok: "abandon_and_advance_bound sample_codec sample_abandon_binding sample_evidence 150 None (merging_41 a)
      = Inr (k', s)" using merging_41_abandoned [OF sample_inv [OF a]] by blast
  have "find_transition (rb_feature_id sample_abandon_binding) (rb_expected_lifecycle_revision sample_abandon_binding)
      (merging_41 a) = Some (bare_transition 41 3 FImplementing FCancelled 140)"
    by (simp add: find_transition_def find_row_def merging_41_def cancelled_41_def sample_abandon_binding_def bare_transition_def)
  moreover have "publication_merge_effect_possible_tx (rb_feature_id sample_abandon_binding) (merging_41 a)"
    by (simp add: publication_merge_effect_possible_tx_def exists_row_iff merging_41_def publication_41_def
        sample_abandon_binding_def)
  ultimately have "\<exists>digest u. ab_merged sample_evidence \<and> ab_verified_healthy_main_sha256 sample_evidence = Some digest
    \<and> digest \<noteq> 0 \<and> u \<in> set (k_transitions k') \<and> tr_feature_id u = rb_feature_id sample_abandon_binding
    \<and> tr_to_status u = FAbandoned \<and> tr_verified_healthy_main_sha256 u = Some digest"
    by (intro merged_work_needs_a_healthy_main [OF ok]) simp_all
  with ok show ?thesis by blast
qed

section \<open>Reordering\<close>

text \<open>
  A reorder that succeeds on a run gives the queued features exactly the requested order, which was a permutation
  of the old one, at the expected revision of the queue, so that the next claim is for its first feature; no
  feature changes its status or its lifecycle revision.
\<close>

theorem reorder_gives_the_requested_order:
  assumes "reorder_queued_features cx ordered expected now (conveyor_run cx stream ops) = Inr (k', n)"
  shows "let k = conveyor_run cx stream ops in
     queue_order k' = ordered \<and> mset ordered = mset (queue_order k) \<and> distinct ordered
   \<and> k_queue_revision k = expected \<and> n = expected + 1 \<and> k_queue_revision k' = expected + 1
   \<and> map ft_feature_id (k_features k') = map ft_feature_id (k_features k)
   \<and> map ft_status (k_features k') = map ft_status (k_features k)
   \<and> map ft_lifecycle_revision (k_features k') = map ft_lifecycle_revision (k_features k)"
proof -
  let ?k = "conveyor_run cx stream ops"
  let ?pos = "positions (Suc (active_position ?k)) ordered"
  have ids: "distinct (map qu_feature_id (k_queue ?k))"
    and listed: "\<forall>f \<in> set (k_features ?k). ft_status f = FQueued \<longrightarrow> ft_feature_id f \<in> set (map qu_feature_id (k_queue ?k))"
    using inv_parts(3) [OF conveyor_run_inv [of cx stream ops]] by (force simp: queue_inv_def ended_def)+
  from reorder_effect [OF assms listed ids] obtain row where e: "k_queue_revision ?k = expected" "n = Suc expected"
      "mset ordered = mset (queue_order ?k)" "distinct ordered"
    and k': "k' = ?k\<lparr>k_queue := map (place_row ?pos) (k_queue ?k), k_features := map (place_feat ?pos now) (k_features ?k),
         k_queue_revision := Suc expected, k_audit := insert_row row (k_audit ?k)\<rparr>" by blast
  have "queue_order k' = ordered" by (rule reordered_queue [OF k' refl e(3) ids e(4)])
  with e show ?thesis by (simp add: k' Let_def comp_def)
qed

lemma reorder_sample:
  "\<exists>k'. reorder_queued_features sample_codec [42, 41] 2 125 (queued_two a) = Inr (k', 3)"
proof -
  let ?k = "queued_two a"
  have queue: "k_queue ?k = [\<lparr>qu_feature_id = 41, qu_queue_position = 1\<rparr>, \<lparr>qu_feature_id = 42, qu_queue_position = 2\<rparr>]"
    and features: "k_features ?k = [row_41, row_42]" and revision: "k_queue_revision ?k = 2"
    by (simp_all add: queued_two_def)
  have rows: "queued_rows ?k = k_queue ?k"
    by (simp add: queued_rows_def exists_row_iff queue features row_41_moves)
  have order: "queue_order ?k = [41, 42]" by (simp add: queue_order_def rows queue)
  have active: "active_position ?k = 0"
    by (simp add: active_position_def last_position_def exists_row_iff queue features row_41_moves)
  let ?q = "[\<lparr>qu_feature_id = 41, qu_queue_position = 1000001\<rparr>, \<lparr>qu_feature_id = 42, qu_queue_position = 1000002\<rparr>]"
  have park: "forE park_position (queued_rows ?k) (k_queue ?k) = Inr ?q"
    by (simp add: rows queue park_position_def set_queue_position_def exists_row_iff reject_if_def update_rows_def)
  have born: "ft_created_at_ms row_41 = 110" "ft_created_at_ms row_42 = 120"
    by (simp_all add: row_41_def row_42_def queued_feature_def)
  have pos: "checked_add_i64 0 (Suc 0) = Some 1" "checked_add_i64 0 (Suc (Suc 0)) = Some 2"
    by (simp_all add: checked_add_i64_def i64_max_def)
  have small: "\<not> i64_max < 125" by (simp add: i64_max_def)
  have place: "\<exists>fs. forE (place_feature 0 125) (enumerate 0 [42, 41])
      (?k\<lparr>k_queue := ?q, k_features := update_rows (\<lambda>f. ft_status f = FQueued)
         (\<lambda>f. f\<lparr>ft_queue_position := ft_queue_position f + 1000000\<rparr>) (k_features ?k)\<rparr>)
    = Inr (?k\<lparr>k_queue := [\<lparr>qu_feature_id = 41, qu_queue_position = 2\<rparr>, \<lparr>qu_feature_id = 42, qu_queue_position = 1\<rparr>],
        k_features := fs\<rparr>)"
    using small by (simp add: features place_feature_def pos ok_or_def set_queue_position_def exists_row_iff
        reject_if_def update_rows_def write_features_def row_41_moves born to_i64_def) (rule exI, rule refl)
  let ?m = "[(''queue_revision'', json_nat 3), (''queued_feature_count'', json_nat (Suc (Suc 0))),
      (''side_effect_executed'', JBool False)]"
  have fits: "members_fit ?m" by (simp add: members_fit_def room_json_nat u64_max_def)
  have audit: "\<exists>k'. append_audit sample_codec ''feature_queue_reordered'' None 125 (JObject ?m) k = Inr k'" for k
    by (rule audit_succeeds [OF sample_quote fits]) (simp_all add: i64_max_large)
  have inc: "increment_queue_revision_tx 2 k = Inr (k\<lparr>k_queue_revision := 3\<rparr>, 3)" if "k_queue_revision k = 2" for k
    using that by (simp add: increment_queue_revision_Inr i64_max_large)
  have sorted: "sort [42, 41 :: uuid] = [41, 42]" "sort [41, 42 :: uuid] = [41, 42]" by simp_all
  obtain fs where fs: "forE (place_feature 0 125) (enumerate 0 [42, 41])
      (?k\<lparr>k_queue := ?q, k_features := update_rows (\<lambda>f. ft_status f = FQueued)
         (\<lambda>f. f\<lparr>ft_queue_position := ft_queue_position f + 1000000\<rparr>) (k_features ?k)\<rparr>)
    = Inr (?k\<lparr>k_queue := [\<lparr>qu_feature_id = 41, qu_queue_position = 2\<rparr>, \<lparr>qu_feature_id = 42, qu_queue_position = 1\<rparr>],
        k_features := fs\<rparr>)" using place by blast
  let ?k3 = "?k\<lparr>k_queue := [\<lparr>qu_feature_id = 41, qu_queue_position = 2\<rparr>, \<lparr>qu_feature_id = 42, qu_queue_position = 1\<rparr>],
        k_features := fs, k_queue_revision := 3\<rparr>"
  obtain k4 where k4: "append_audit sample_codec ''feature_queue_reordered'' None 125 (JObject ?m) ?k3 = Inr k4"
    using audit by blast
  have "require_queue_revision_tx 2 ?k = Inr ()" by (simp add: require_queue_revision_Inr revision)
  then have "reorder_queued_features sample_codec [42, 41] 2 125 ?k = Inr (k4, 3)"
    unfolding reorder_queued_features_def Let_def order sorted active park bindE_simps fs
    using k4 inc [OF revision] by (simp add: inc revision reject_if_def MAX_CONVEYOR_NONTERMINAL_FEATURES_def)
  then show ?thesis by blast
qed

theorem reorder_gives_the_requested_order_witness:
  "\<exists>k'. reorder_queued_features sample_codec [42, 41] 2 125 (conveyor_run sample_codec 7 sample_queue_ops) = Inr (k', 3)
    \<and> queue_order k' = [42, 41]"
proof -
  obtain a where "conveyor_run sample_codec 7 sample_queue_ops = queued_two a" using sample_queued by blast
  then obtain k' where "reorder_queued_features sample_codec [42, 41] 2 125 (conveyor_run sample_codec 7 sample_queue_ops)
      = Inr (k', 3)" using reorder_sample [of a] by auto
  with reorder_gives_the_requested_order [OF this] show ?thesis by (auto simp: Let_def)
qed

section \<open>Disclosure\<close>

text \<open>The keys of all objects in a document, and all its texts.\<close>

fun document_keys :: "json \<Rightarrow> string list" where
  "document_keys (JObject members) = concat (map (\<lambda>(key, nested). key # document_keys nested) members)"
| "document_keys (JArray values) = concat (map document_keys values)"
| "document_keys _ = []"

fun document_texts :: "json \<Rightarrow> string list" where
  "document_texts (JObject members) = concat (map (\<lambda>(key, nested). document_texts nested) members)"
| "document_texts (JArray values) = concat (map document_texts values)"
| "document_texts (JString text) = [text]"
| "document_texts _ = []"

lemma forE_all:
  fixes f :: "'a \<Rightarrow> unit \<Rightarrow> 'e + unit"
  shows "(forE f xs () = Inr ()) = (\<forall>x \<in> set xs. f x () = Inr ())"
proof (induction xs)
  case (Cons x xs)
  then show ?case by (cases "f x ()") simp_all
qed simp

lemma disclosure_all:
  "(validate_review_disclosure_value v = Inr ())
     = ((\<forall>key \<in> set (document_keys v). \<not> forbidden_key key)
        \<and> (\<forall>text \<in> set (document_texts v). \<not> contains_embedded_secret_shape (trim_unicode text)))"
proof (induction v rule: validate_review_disclosure_value.induct)
  case (1 members)
  have "((case m of (key, nested) \<Rightarrow> \<lambda>_. bindE (reject_if e (forbidden_key key)) (\<lambda>_. validate_review_disclosure_value nested)) () = Inr ())
      = (\<not> forbidden_key (fst m) \<and> (\<forall>key \<in> set (document_keys (snd m)). \<not> forbidden_key key)
         \<and> (\<forall>text \<in> set (document_texts (snd m)). \<not> contains_embedded_secret_shape (trim_unicode text)))"
    if "m \<in> set members" for m e
    using 1 [OF that, of "fst m" "snd m"] by (cases m) (simp add: bindE_Inr_iff reject_if_Inr_iff)
  then show ?case by (simp add: forE_all) fastforce
next
  case (2 vs)
  then show ?case by (auto simp: forE_all)
qed (simp_all add: reject_if_Inr_iff)

text \<open>
  An approved specification discloses nothing that review forbids: the check accepts a manifest exactly when, at
  every depth, no key names a credential or other sensitive context and no text holds the shape of a secret.
\<close>

theorem disclosure_check_is_complete:
  "is_ok (validate_review_disclosure_value manifest)
     = (list_all (\<lambda>key. \<not> forbidden_key key) (document_keys manifest)
        \<and> list_all (\<lambda>text. \<not> contains_embedded_secret_shape (trim_unicode text)) (document_texts manifest))"
  by (simp add: is_ok_unit disclosure_all list_all_iff)

section \<open>A cancellation that cannot be made\<close>

lemma forE_fails:
  assumes "x \<in> set xs" "P s"
    and "\<And>y u v. y \<in> set xs \<Longrightarrow> P u \<Longrightarrow> f y u = Inr v \<Longrightarrow> P v"
    and "\<And>u. P u \<Longrightarrow> \<exists>e. f x u = Inl e"
  shows "\<exists>e. forE f xs s = Inl e"
  using assms
proof (induction xs arbitrary: s)
  case (Cons y ys)
  show ?case
  proof (cases "f y s")
    case (Inr v)
    with Cons.prems have "P v" by auto
    moreover have "x \<noteq> y" using Cons.prems(4) [OF Cons.prems(2)] Inr by auto
    then have "x \<in> set ys" using Cons.prems(1) by simp
    ultimately show ?thesis using Cons.IH [of v] Cons.prems(3,4) Inr by auto
  qed simp
qed simp

definition none_leased :: "uuid \<Rightarrow> kernel \<Rightarrow> bool" where
  "none_leased step k = (\<forall>a \<in> set (k_attempts k). at_step_id a = step \<longrightarrow> at_status a \<noteq> ALeased)"

lemma none_leased_pend:
  assumes "none_leased step k"
  shows "none_leased step (update_attempts p (AttemptPend s n d) k)"
  using assms by (auto simp: none_leased_def update_attempts_def set_update_rows)

lemma cancel_dispatch_none_leased:
  assumes "cancel_dispatch cx now item k = Inr k'" "none_leased step k"
  shows "none_leased step k'"
proof -
  obtain t i st where item: "item = (t, i, st)" by (cases item)
  show ?thesis
  proof (cases st)
    case SQueued
    with assms(1) have "append_event cx StepCancelled now (step_identity t i)
        (update_steps (\<lambda>s. st_step_id s = i \<and> st_status s = SQueued) (StepFinish SCancelled now) k) = Inr k'"
      by (simp add: item cancel_dispatch_def result_simps)
    from ev_ext_fields(2) [OF append_event_ext [OF this]] assms(2) show ?thesis
      by (simp add: none_leased_def update_steps_def)
  next
    case SLeased
    with assms(1) have "request_leased_step_cancellation_tx cx t i now k = Inr k'"
      by (simp add: item cancel_dispatch_def)
    then obtain a s n d p u kind id where
      "append_event cx kind now id (update_connections p u (update_attempts
         (\<lambda>b. at_attempt_id b = a \<and> at_status b = ALeased) (AttemptPend s n d) k)) = Inr k'"
      unfolding request_leased_step_cancellation_tx_def Let_def bindE_Inr_iff by blast
    from ev_ext_fields(2) [OF append_event_ext [OF this]] none_leased_pend [OF assms(2)] show ?thesis
      by (simp add: none_leased_def update_connections_def)
  qed (use assms(1) in \<open>simp_all add: item cancel_dispatch_def\<close>)
qed

text \<open>
  A feature cannot be cancelled while the cancellation of its own coding step is under way: when a dispatched
  coding step of the feature is leased and its attempt is already pending cancellation (after a cancelled step
  or an emergency pause), cancelling the feature always fails and changes nothing, although cancellation is
  meant to stay available to the owner during a pause.
\<close>

theorem pending_cancellation_blocks_the_owner:
  assumes "d \<in> set (k_dispatches k)" "dp_feature_id d = rb_feature_id b"
    and "find_step k (dp_step_id d) = Some s" "st_status s = SLeased"
    and "\<forall>a \<in> set (k_attempts k). at_step_id a = dp_step_id d \<longrightarrow> at_status a = ACancellationPending"
  shows "\<exists>e. cancel_active_feature_bound cx b now owner k = Inl e"
proof (rule ccontr)
  assume "\<not> ?thesis"
  then obtain k' v where "cancel_active_feature_bound cx b now owner k = Inr (k', v)"
    by (metis old.sum.exhaust surj_pair)
  from cancel_effect [OF this] obtain f :: feature_row and k3 where
    c: "cancel_feature_coding_dispatches_tx cx (rb_feature_id b) now
        (moved_kernel (\<lambda>g. ft_feature_id g = rb_feature_id b) FCancelled True now
          (bare_transition (rb_feature_id b) (Suc (ft_lifecycle_revision f)) (ft_status f) FCancelled now) k) = Inr k3"
    (is "cancel_feature_coding_dispatches_tx _ _ _ ?m = _") by blast
  have listed: "(dp_task_id d, dp_step_id d, SLeased) \<in> set (open_dispatches (rb_feature_id b) ?m)"
    using assms(1-4) by (force simp: open_dispatches_def find_step_def nonterminal_status_def moved_kernel_def)
  have none: "none_leased (dp_step_id d) ?m" using assms(5) by (simp add: none_leased_def)
  have fails: "\<exists>e. cancel_dispatch cx now (dp_task_id d, dp_step_id d, SLeased) u = Inl e" if "none_leased (dp_step_id d) u" for u
  proof -
    have "find_row (\<lambda>a. at_step_id a = dp_step_id d \<and> at_status a = ALeased) (k_attempts u) = None"
      using that by (auto simp: none_leased_def find_row_None)
    then show ?thesis by (simp add: cancel_dispatch_def request_leased_step_cancellation_tx_def ok_or_def)
  qed
  have "\<exists>e. forE (cancel_dispatch cx now) (open_dispatches (rb_feature_id b) ?m) ?m = Inl e"
    by (rule forE_fails [where P = "none_leased (dp_step_id d)", OF listed none]) (auto intro: fails cancel_dispatch_none_leased)
  then have "\<exists>e. cancel_feature_coding_dispatches_tx cx (rb_feature_id b) now ?m = Inl e"
    by (simp add: cancel_feature_coding_dispatches_tx_def)
  with c show False by simp
qed

definition sample_dispatch :: dispatch_row where
  "sample_dispatch =
     \<lparr>dp_packet_id = wp_packet_id sample_packet, dp_feature_id = 41, dp_specification_revision = 1,
      dp_lifecycle_revision = 2, dp_feature_lease_id = 71, dp_snapshot_id = 61, dp_snapshot_sha256 = 62,
      dp_work_packet_sha256 = 63, dp_work_packet = sample_packet, dp_device_id = 1,
      dp_device_registry_revision = 1, dp_queue_revision = 3, dp_emergency_pause_revision = 0,
      dp_task_id = 20, dp_step_id = 21, dp_dispatched_at_ms = 132\<rparr>"

definition sample_pending :: "audit_row list \<Rightarrow> kernel" where
  "sample_pending a = (claimed_41 a)
     \<lparr>k_dispatches := [sample_dispatch],
      k_steps := [(queued_row sample_codec sample_step 132)\<lparr>st_status := SLeased\<rparr>],
      k_attempts := [apply_attempt_update (AttemptPend 2 134 2134) (leased_attempt sample_job 1 133 1133)]\<rparr>"

theorem pending_cancellation_blocks_the_owner_witness:
  "\<exists>e. cancel_active_feature_bound sample_codec sample_cancel_binding 135 None (sample_pending []) = Inl e"
  by (rule pending_cancellation_blocks_the_owner [of sample_dispatch _ _ "(queued_row sample_codec sample_step 132)\<lparr>st_status := SLeased\<rparr>"])
    (simp_all add: sample_pending_def sample_dispatch_def row_41_moves find_step_def find_row_def queued_row_def
      sample_step_def)

end
