(* ===== verification/Owner_Activation.thy ===== *)
theory Owner_Activation
  imports Master_State
begin

text \<open>
  The owner-activation and orchestration messages (\<^verbatim>\<open>assemblywright-protocol/src/lib.rs\<close>): the
  digest-only evidence that a Windows host admits, the activation that binds one admitted reference of
  each category, the owner's pause and resume of orchestration, and the path-free projections the owner
  sees. Prefixes: \<open>er\<close> an evidence reference, \<open>sl\<close> the six slots of a set, \<open>ea\<close>/\<open>ec\<close> the admission
  request and receipt, \<open>ep\<close> its projection, \<open>xa\<close>/\<open>xr\<close> the activation request and receipt, \<open>oc\<close>/\<open>ot\<close> the
  control request and receipt, \<open>op\<close> the owner-control projection, \<open>af\<close> its active feature, \<open>pr\<close> the
  orchestration projection. Lemmas: a set is complete exactly when every slot is filled, one origin is
  accepted per category, and a receipt validates only with the request it answers.
\<close>

section \<open>Evidence\<close>

datatype evidence_category =
    EcRepositoryGateProof | EcRestrictedWorkerLive | EcReviewProviderLive | EcGithubPublicationLive
  | EcRestartRecoveryLive | EcControlEventStreamingLive

datatype evidence_origin =
    EoRepositoryGateProof | EoRestrictedWorkerProof | EoReviewProviderProof | EoGithubPublicationProof
  | EoRestartRecoveryProof | EoControlEventStreamingProof

fun accepts_origin :: "evidence_category \<Rightarrow> evidence_origin \<Rightarrow> bool" where
  "accepts_origin EcRepositoryGateProof EoRepositoryGateProof = True"
| "accepts_origin EcRestrictedWorkerLive EoRestrictedWorkerProof = True"
| "accepts_origin EcReviewProviderLive EoReviewProviderProof = True"
| "accepts_origin EcGithubPublicationLive EoGithubPublicationProof = True"
| "accepts_origin EcRestartRecoveryLive EoRestartRecoveryProof = True"
| "accepts_origin EcControlEventStreamingLive EoControlEventStreamingProof = True"
| "accepts_origin _ _ = False"

record evidence_reference =
  er_evidence_id :: uuid
  er_revision :: nat
  er_receipt_sha256 :: digest

text \<open>Six slots, one per category: of references (\<^verbatim>\<open>..EvidenceSet\<close>), of optional references
  (\<^verbatim>\<open>..EvidenceProjection\<close>) or of the identifiers the activation row stores.\<close>

record 'a evidence_slots =
  sl_repository_gate_proof :: 'a
  sl_restricted_worker_live :: 'a
  sl_review_provider_live :: 'a
  sl_github_publication_live :: 'a
  sl_restart_recovery_live :: 'a
  sl_control_event_streaming_live :: 'a

type_synonym evidence_set = "evidence_reference evidence_slots"
type_synonym evidence_projection = "evidence_reference option evidence_slots"

definition FEATURE_CONVEYOR_OWNER_ACTIVATION_SCHEMA_VERSION :: nat where
  "FEATURE_CONVEYOR_OWNER_ACTIVATION_SCHEMA_VERSION = 1"
definition FEATURE_CONVEYOR_ORCHESTRATION_SCHEMA_VERSION :: nat where
  "FEATURE_CONVEYOR_ORCHESTRATION_SCHEMA_VERSION = 1"
definition MAX_FEATURE_CONVEYOR_OWNER_ACTIVATION_FRAME_BYTES :: nat where
  "MAX_FEATURE_CONVEYOR_OWNER_ACTIVATION_FRAME_BYTES = 8 * 1024"
definition MAX_FEATURE_CONVEYOR_REPLACEMENT_CANDIDATES :: nat where
  "MAX_FEATURE_CONVEYOR_REPLACEMENT_CANDIDATES = 3"

definition validate_evidence_reference :: "evidence_reference \<Rightarrow> unit validated" where
  "validate_evidence_reference r =
     bindE (validate_uuid ''evidence_id'' (er_evidence_id r)) (\<lambda>_.
     bindE (validate_positive_limit ''evidence_revision'' (er_revision r) u64_max) (\<lambda>_.
     reject_if InvalidFeatureConveyorOwnerControl (er_receipt_sha256 r = 0)))"

text \<open>The slots in declaration order, which is the order the code visits them in.\<close>

definition slots :: "'a evidence_slots \<Rightarrow> 'a list" where
  "slots s =
     [sl_repository_gate_proof s, sl_restricted_worker_live s, sl_review_provider_live s,
      sl_github_publication_live s, sl_restart_recovery_live s, sl_control_event_streaming_live s]"

definition validate_evidence_set :: "evidence_set \<Rightarrow> unit validated" where
  "validate_evidence_set s = forE (\<lambda>r _. validate_evidence_reference r) (slots s) ()"

definition complete_evidence :: "evidence_projection \<Rightarrow> evidence_set option" where
  "complete_evidence p =
     Option.bind (sl_repository_gate_proof p) (\<lambda>gate.
     Option.bind (sl_restricted_worker_live p) (\<lambda>worker.
     Option.bind (sl_review_provider_live p) (\<lambda>review.
     Option.bind (sl_github_publication_live p) (\<lambda>publication.
     Option.bind (sl_restart_recovery_live p) (\<lambda>restart.
     Option.bind (sl_control_event_streaming_live p) (\<lambda>streaming.
     Some \<lparr>sl_repository_gate_proof = gate, sl_restricted_worker_live = worker,
           sl_review_provider_live = review, sl_github_publication_live = publication,
           sl_restart_recovery_live = restart, sl_control_event_streaming_live = streaming\<rparr>))))))"

definition validate_evidence_projection :: "evidence_projection \<Rightarrow> unit validated" where
  "validate_evidence_projection p =
     forE (\<lambda>r _. validate_evidence_reference r) (List.map_filter (\<lambda>x. x) (slots p)) ()"

text \<open>The projection of a complete set.\<close>

definition all_present :: "evidence_set \<Rightarrow> evidence_projection" where
  "all_present s =
     \<lparr>sl_repository_gate_proof = Some (sl_repository_gate_proof s),
      sl_restricted_worker_live = Some (sl_restricted_worker_live s),
      sl_review_provider_live = Some (sl_review_provider_live s),
      sl_github_publication_live = Some (sl_github_publication_live s),
      sl_restart_recovery_live = Some (sl_restart_recovery_live s),
      sl_control_event_streaming_live = Some (sl_control_event_streaming_live s)\<rparr>"

lemma complete_evidence_Some: "complete_evidence p = Some s \<longleftrightarrow> p = all_present s"
  by (cases p; cases s) (auto simp: complete_evidence_def all_present_def bind_eq_Some_conv)

lemma complete_all_present [simp]: "complete_evidence (all_present s) = Some s"
  by (simp add: complete_evidence_Some)

lemma complete_evidence_None: "complete_evidence p = None \<longleftrightarrow> None \<in> set (slots p)"
  by (auto simp: complete_evidence_def slots_def bind_eq_None_conv split: option.splits)

lemma accepts_origin_unique: "accepts_origin c o1 \<Longrightarrow> accepts_origin c o2 \<Longrightarrow> o1 = o2"
  by (cases c; cases o1; cases o2) simp_all

lemma validate_evidence_reference_Inr [result_simps]:
  "validate_evidence_reference r = Inr u \<longleftrightarrow>
     er_evidence_id r \<noteq> 0 \<and> 0 < er_revision r \<and> er_revision r \<le> u64_max \<and> er_receipt_sha256 r \<noteq> 0"
  by (auto simp: validate_evidence_reference_def result_simps)

lemma forE_units: "forE (\<lambda>x _. f x) xs () = Inr () \<longleftrightarrow> (\<forall>x \<in> set xs. f x = Inr ())"
  by (induction xs) (auto simp: result_simps)

lemma validate_evidence_set_Inr [result_simps]:
  "validate_evidence_set s = Inr u \<longleftrightarrow> (\<forall>r \<in> set (slots s). validate_evidence_reference r = Inr ())"
  by (simp add: validate_evidence_set_def forE_units)

lemma validate_evidence_projection_Inr [result_simps]:
  "validate_evidence_projection p = Inr u \<longleftrightarrow>
     (\<forall>r. Some r \<in> set (slots p) \<longrightarrow> validate_evidence_reference r = Inr ())"
  by (auto simp: validate_evidence_projection_def forE_units List.map_filter_def)

section \<open>Serialised structures\<close>

text \<open>\<^verbatim>\<open>serde_json::to_vec\<close> of a structure: its members in declaration order, no spaces.\<close>

fun compact_json_bytes :: "(string \<Rightarrow> string) \<Rightarrow> json \<Rightarrow> string" where
  "compact_json_bytes quote JNull = ''null''"
| "compact_json_bytes quote (JBool b) = (if b then ''true'' else ''false'')"
| "compact_json_bytes quote (JNumber text) = text"
| "compact_json_bytes quote (JString s) = quote s"
| "compact_json_bytes quote (JArray vs) = ''['' @ join_texts (map (compact_json_bytes quote) vs) @ '']''"
| "compact_json_bytes quote (JObject kvs) =
     ''{'' @ join_texts (map (\<lambda>(k, v). quote k @ '':'' @ compact_json_bytes quote v) kvs) @ ''}''"

definition number_json :: "nat \<Rightarrow> json" where "number_json n = JNumber (nat_text n)"

definition optional_json :: "('a \<Rightarrow> json) \<Rightarrow> 'a option \<Rightarrow> json" where
  "optional_json f x = (case x of None \<Rightarrow> JNull | Some y \<Rightarrow> f y)"

fun category_text :: "evidence_category \<Rightarrow> string" where
  "category_text EcRepositoryGateProof = ''repository_gate_proof''"
| "category_text EcRestrictedWorkerLive = ''restricted_worker_live''"
| "category_text EcReviewProviderLive = ''review_provider_live''"
| "category_text EcGithubPublicationLive = ''github_publication_live''"
| "category_text EcRestartRecoveryLive = ''restart_recovery_live''"
| "category_text EcControlEventStreamingLive = ''mac_windows_control_event_streaming_live''"

fun origin_text :: "evidence_origin \<Rightarrow> string" where
  "origin_text EoRepositoryGateProof = ''repository_gate_proof_controller''"
| "origin_text EoRestrictedWorkerProof = ''restricted_worker_proof_controller''"
| "origin_text EoReviewProviderProof = ''review_provider_proof_controller''"
| "origin_text EoGithubPublicationProof = ''github_publication_proof_controller''"
| "origin_text EoRestartRecoveryProof = ''restart_recovery_proof_controller''"
| "origin_text EoControlEventStreamingProof = ''mac_windows_control_event_streaming_proof_controller''"

definition reference_json :: "codec \<Rightarrow> evidence_reference \<Rightarrow> json" where
  "reference_json cx r = JObject
     [(''evidence_id'', JString (uuid_text cx (er_evidence_id r))),
      (''revision'', number_json (er_revision r)),
      (''receipt_sha256'', digest_json (er_receipt_sha256 r))]"

definition slots_json :: "('a \<Rightarrow> json) \<Rightarrow> 'a evidence_slots \<Rightarrow> json" where
  "slots_json f s = JObject
     [(''repository_gate_proof'', f (sl_repository_gate_proof s)),
      (''restricted_worker_live'', f (sl_restricted_worker_live s)),
      (''review_provider_live'', f (sl_review_provider_live s)),
      (''github_publication_live'', f (sl_github_publication_live s)),
      (''restart_recovery_live'', f (sl_restart_recovery_live s)),
      (''mac_windows_control_event_streaming_live'', f (sl_control_event_streaming_live s))]"

definition validate_struct_limit :: "codec \<Rightarrow> string \<Rightarrow> json \<Rightarrow> nat \<Rightarrow> unit validated" where
  "validate_struct_limit cx field doc maximum =
     validate_serialized_limit field (compact_json_bytes (quote_json cx) doc) maximum"

definition validate_activation_schema :: "nat \<Rightarrow> unit validated" where
  "validate_activation_schema received =
     validate_fixed_value ''schema_version'' (nat_text received)
       (nat_text FEATURE_CONVEYOR_OWNER_ACTIVATION_SCHEMA_VERSION)"

section \<open>Evidence admission\<close>

record evidence_admission_request =
  ea_schema_version :: nat
  ea_category :: evidence_category
  ea_origin :: evidence_origin
  ea_evidence_id :: uuid
  ea_revision :: nat
  ea_expected_current_revision :: nat
  ea_receipt_sha256 :: digest
  ea_observed_at_ms :: nat
  ea_expected_emergency_pause_revision :: nat

definition admission_request_json :: "codec \<Rightarrow> evidence_admission_request \<Rightarrow> json" where
  "admission_request_json cx r = JObject
     [(''schema_version'', number_json (ea_schema_version r)),
      (''category'', JString (category_text (ea_category r))),
      (''origin'', JString (origin_text (ea_origin r))),
      (''evidence_id'', JString (uuid_text cx (ea_evidence_id r))),
      (''revision'', number_json (ea_revision r)),
      (''expected_current_revision'', number_json (ea_expected_current_revision r)),
      (''receipt_sha256'', digest_json (ea_receipt_sha256 r)),
      (''observed_at_ms'', number_json (ea_observed_at_ms r)),
      (''expected_emergency_pause_revision'', number_json (ea_expected_emergency_pause_revision r))]"

definition validate_evidence_admission :: "codec \<Rightarrow> evidence_admission_request \<Rightarrow> unit validated" where
  "validate_evidence_admission cx r =
     bindE (validate_activation_schema (ea_schema_version r)) (\<lambda>_.
     bindE (validate_uuid ''evidence_id'' (ea_evidence_id r)) (\<lambda>_.
     bindE (validate_positive_limit ''revision'' (ea_revision r) u64_max) (\<lambda>_.
     bindE (validate_positive_limit ''observed_at_ms'' (ea_observed_at_ms r) u64_max) (\<lambda>_.
     bindE (reject_if InvalidFeatureConveyorOwnerControl
       (ea_revision r \<noteq> saturating_add_u64 (ea_expected_current_revision r) 1
        \<or> ea_expected_current_revision r = u64_max
        \<or> ea_receipt_sha256 r = 0
        \<or> \<not> accepts_origin (ea_category r) (ea_origin r))) (\<lambda>_.
     validate_struct_limit cx ''feature_conveyor_activation_evidence_admission_request''
       (admission_request_json cx r) MAX_FEATURE_CONVEYOR_OWNER_ACTIVATION_FRAME_BYTES)))))"

definition decode_evidence_admission_frame ::
    "codec \<Rightarrow> (json \<Rightarrow> evidence_admission_request option) \<Rightarrow> string \<Rightarrow> evidence_admission_request validated" where
  "decode_evidence_admission_frame cx decode frame =
     decode_strict_and_validate_frame cx ''feature_conveyor_activation_evidence_admission_request'' decode
       frame MAX_FEATURE_CONVEYOR_OWNER_ACTIVATION_FRAME_BYTES (validate_evidence_admission cx)"

record evidence_admission_receipt =
  ec_schema_version :: nat
  ec_category :: evidence_category
  ec_origin :: evidence_origin
  ec_evidence :: evidence_reference
  ec_observed_at_ms :: nat
  ec_emergency_pause_revision :: nat

definition validate_evidence_receipt :: "evidence_admission_receipt \<Rightarrow> unit validated" where
  "validate_evidence_receipt r =
     bindE (validate_evidence_reference (ec_evidence r)) (\<lambda>_.
     bindE (validate_positive_limit ''observed_at_ms'' (ec_observed_at_ms r) u64_max) (\<lambda>_.
     reject_if InvalidFeatureConveyorOwnerControl
       (ec_schema_version r \<noteq> FEATURE_CONVEYOR_OWNER_ACTIVATION_SCHEMA_VERSION
        \<or> \<not> accepts_origin (ec_category r) (ec_origin r))))"

datatype activation_status = AsInactive | AsActive

datatype activation_blocker = AbNone | AbEmergencyPaused | AbEvidenceRequired | AbAlreadyActivated

fun activation_status_text :: "activation_status \<Rightarrow> string" where
  "activation_status_text AsInactive = ''inactive''"
| "activation_status_text AsActive = ''active''"

fun blocker_text :: "activation_blocker \<Rightarrow> string" where
  "blocker_text AbNone = ''none''"
| "blocker_text AbEmergencyPaused = ''emergency_paused''"
| "blocker_text AbEvidenceRequired = ''evidence_required''"
| "blocker_text AbAlreadyActivated = ''already_activated''"

record evidence_admission_projection =
  ep_schema_version :: nat
  ep_emergency_paused :: bool
  ep_emergency_pause_revision :: nat
  ep_activation_status :: activation_status
  ep_activation_id :: "uuid option"
  ep_evidence :: evidence_projection

definition admission_projection_json :: "codec \<Rightarrow> evidence_admission_projection \<Rightarrow> json" where
  "admission_projection_json cx p = JObject
     [(''schema_version'', number_json (ep_schema_version p)),
      (''emergency_paused'', JBool (ep_emergency_paused p)),
      (''emergency_pause_revision'', number_json (ep_emergency_pause_revision p)),
      (''activation_status'', JString (activation_status_text (ep_activation_status p))),
      (''activation_id'', optional_json (\<lambda>u. JString (uuid_text cx u)) (ep_activation_id p)),
      (''evidence'', slots_json (optional_json (reference_json cx)) (ep_evidence p))]"

definition validate_admission_projection :: "codec \<Rightarrow> evidence_admission_projection \<Rightarrow> unit validated" where
  "validate_admission_projection cx p =
     bindE (validate_activation_schema (ep_schema_version p)) (\<lambda>_.
     bindE (validate_evidence_projection (ep_evidence p)) (\<lambda>_.
     (let active = (ep_activation_status p = AsActive) in
      bindE (reject_if InvalidFeatureConveyorOwnerControl
        (active \<noteq> (ep_activation_id p \<noteq> None)
         \<or> ep_activation_id p = Some 0
         \<or> active \<and> complete_evidence (ep_evidence p) = None)) (\<lambda>_.
      validate_struct_limit cx ''feature_conveyor_activation_evidence_admission_projection''
        (admission_projection_json cx p) MAX_FEATURE_CONVEYOR_OWNER_ACTIVATION_FRAME_BYTES))))"

section \<open>Activation\<close>

record activation_request =
  xa_schema_version :: nat
  xa_expected_queue_revision :: nat
  xa_expected_owner_control_designation_revision :: nat
  xa_expected_emergency_pause_revision :: nat
  xa_evidence :: evidence_set

definition activation_request_json :: "codec \<Rightarrow> activation_request \<Rightarrow> json" where
  "activation_request_json cx r = JObject
     [(''schema_version'', number_json (xa_schema_version r)),
      (''expected_queue_revision'', number_json (xa_expected_queue_revision r)),
      (''expected_owner_control_designation_revision'',
         number_json (xa_expected_owner_control_designation_revision r)),
      (''expected_emergency_pause_revision'', number_json (xa_expected_emergency_pause_revision r)),
      (''evidence'', slots_json (reference_json cx) (xa_evidence r))]"

definition validate_activation_request :: "codec \<Rightarrow> activation_request \<Rightarrow> unit validated" where
  "validate_activation_request cx r =
     bindE (validate_activation_schema (xa_schema_version r)) (\<lambda>_.
     bindE (validate_positive_limit ''expected_owner_control_designation_revision''
       (xa_expected_owner_control_designation_revision r) u64_max) (\<lambda>_.
     bindE (validate_evidence_set (xa_evidence r)) (\<lambda>_.
     validate_struct_limit cx ''feature_conveyor_activation_request'' (activation_request_json cx r)
       MAX_FEATURE_CONVEYOR_OWNER_ACTIVATION_FRAME_BYTES)))"

definition decode_activation_frame ::
    "codec \<Rightarrow> (json \<Rightarrow> activation_request option) \<Rightarrow> string \<Rightarrow> activation_request validated" where
  "decode_activation_frame cx decode frame =
     decode_strict_and_validate_frame cx ''feature_conveyor_activation_request'' decode frame
       MAX_FEATURE_CONVEYOR_OWNER_ACTIVATION_FRAME_BYTES (validate_activation_request cx)"

record activation_receipt =
  xr_schema_version :: nat
  xr_activation_id :: uuid
  xr_queue_revision :: nat
  xr_owner_control_designation_revision :: nat
  xr_emergency_pause_revision :: nat
  xr_evidence :: evidence_set
  xr_activated_at_ms :: nat
  xr_status :: activation_status

definition validate_activation_receipt :: "codec \<Rightarrow> activation_receipt \<Rightarrow> unit validated" where
  "validate_activation_receipt cx r =
     bindE (validate_activation_request cx
       \<lparr>xa_schema_version = xr_schema_version r, xa_expected_queue_revision = xr_queue_revision r,
        xa_expected_owner_control_designation_revision = xr_owner_control_designation_revision r,
        xa_expected_emergency_pause_revision = xr_emergency_pause_revision r,
        xa_evidence = xr_evidence r\<rparr>) (\<lambda>_.
     bindE (validate_uuid ''activation_id'' (xr_activation_id r)) (\<lambda>_.
     bindE (validate_positive_limit ''activated_at_ms'' (xr_activated_at_ms r) u64_max) (\<lambda>_.
     reject_if InvalidFeatureConveyorOwnerControl (xr_status r \<noteq> AsActive))))"

section \<open>Owner control of orchestration\<close>

record control_request =
  oc_schema_version :: nat
  oc_feature_id :: uuid
  oc_expected_lifecycle_revision :: nat
  oc_expected_orchestration_revision :: nat
  oc_expected_queue_revision :: nat
  oc_expected_owner_control_designation_revision :: nat
  oc_expected_emergency_pause_revision :: nat

definition control_request_json :: "codec \<Rightarrow> control_request \<Rightarrow> json" where
  "control_request_json cx r = JObject
     [(''schema_version'', number_json (oc_schema_version r)),
      (''feature_id'', JString (uuid_text cx (oc_feature_id r))),
      (''expected_lifecycle_revision'', number_json (oc_expected_lifecycle_revision r)),
      (''expected_orchestration_revision'', number_json (oc_expected_orchestration_revision r)),
      (''expected_queue_revision'', number_json (oc_expected_queue_revision r)),
      (''expected_owner_control_designation_revision'',
         number_json (oc_expected_owner_control_designation_revision r)),
      (''expected_emergency_pause_revision'', number_json (oc_expected_emergency_pause_revision r))]"

definition validate_control_request :: "codec \<Rightarrow> control_request \<Rightarrow> unit validated" where
  "validate_control_request cx r =
     bindE (validate_activation_schema (oc_schema_version r)) (\<lambda>_.
     bindE (validate_uuid ''feature_id'' (oc_feature_id r)) (\<lambda>_.
     bindE (validate_positive_limit ''expected_lifecycle_revision'' (oc_expected_lifecycle_revision r) u64_max) (\<lambda>_.
     bindE (validate_positive_limit ''expected_orchestration_revision'' (oc_expected_orchestration_revision r)
       u64_max) (\<lambda>_.
     bindE (validate_positive_limit ''expected_owner_control_designation_revision''
       (oc_expected_owner_control_designation_revision r) u64_max) (\<lambda>_.
     validate_struct_limit cx ''feature_conveyor_owner_orchestration_control_request''
       (control_request_json cx r) MAX_FEATURE_CONVEYOR_OWNER_ACTIVATION_FRAME_BYTES)))))"

definition decode_owner_control_frame ::
    "codec \<Rightarrow> (json \<Rightarrow> control_request option) \<Rightarrow> string \<Rightarrow> control_request validated" where
  "decode_owner_control_frame cx decode frame =
     decode_strict_and_validate_frame cx ''feature_conveyor_owner_orchestration_control_request'' decode frame
       MAX_FEATURE_CONVEYOR_OWNER_ACTIVATION_FRAME_BYTES (validate_control_request cx)"

datatype control_status = CsPaused | CsResumed

record control_receipt =
  ot_schema_version :: nat
  ot_feature_id :: uuid
  ot_lifecycle_revision :: nat
  ot_orchestration_revision :: nat
  ot_queue_revision :: nat
  ot_owner_control_designation_revision :: nat
  ot_emergency_pause_revision :: nat
  ot_checkpoint_id :: uuid
  ot_checkpoint_sha256 :: digest
  ot_status :: control_status

definition validate_control_receipt :: "control_receipt \<Rightarrow> unit validated" where
  "validate_control_receipt r =
     bindE (validate_activation_schema (ot_schema_version r)) (\<lambda>_.
     bindE (validate_uuid ''feature_id'' (ot_feature_id r)) (\<lambda>_.
     bindE (validate_uuid ''checkpoint_id'' (ot_checkpoint_id r)) (\<lambda>_.
     bindE (validate_positive_limit ''lifecycle_revision'' (ot_lifecycle_revision r) u64_max) (\<lambda>_.
     bindE (validate_positive_limit ''orchestration_revision'' (ot_orchestration_revision r) u64_max) (\<lambda>_.
     bindE (validate_positive_limit ''owner_control_designation_revision''
       (ot_owner_control_designation_revision r) u64_max) (\<lambda>_.
     reject_if InvalidFeatureConveyorOwnerControl (ot_checkpoint_sha256 r = 0)))))))"

section \<open>Projections\<close>

datatype owner_lifecycle_status =
    OlImplementing | OlValidating | OlReviewing | OlPublishing | OlVerifyingMain | OlRepairing
  | OlPaused | OlAttentionRequired | OlFailed | OlCancelled | OlQuarantined

record owner_active_feature =
  af_feature_id :: uuid
  af_specification_revision :: nat
  af_lifecycle_revision :: nat
  af_orchestration_revision :: nat
  af_lifecycle_status :: owner_lifecycle_status
  af_stage :: orchestration_stage
  af_owner_paused :: bool

definition validate_owner_active_feature :: "owner_active_feature \<Rightarrow> unit validated" where
  "validate_owner_active_feature f =
     bindE (validate_uuid ''feature_id'' (af_feature_id f)) (\<lambda>_.
     bindE (validate_positive_limit ''specification_revision'' (af_specification_revision f) u64_max) (\<lambda>_.
     bindE (validate_positive_limit ''lifecycle_revision'' (af_lifecycle_revision f) u64_max) (\<lambda>_.
     reject_if InvalidFeatureConveyorOwnerControl
       (af_owner_paused f
        \<and> (af_stage f \<noteq> OsPaused \<or> af_lifecycle_status f \<noteq> OlPaused
           \<or> af_orchestration_revision f = 0)))))"

record orchestration_projection =
  pr_schema_version :: nat
  pr_feature_id :: uuid
  pr_lifecycle_revision :: nat
  pr_orchestration_revision :: nat
  pr_stage :: orchestration_stage
  pr_action :: orchestration_action
  pr_reason :: orchestration_reason
  pr_checkpoint_id :: uuid
  pr_checkpoint_sha256 :: digest
  pr_replacement_candidates_used :: nat
  pr_active_processing_ms :: nat
  pr_active_processing_budget_ms :: nat
  pr_pause_kind :: "pause_kind option"
  pr_next_retry_at_ms :: "nat option"
  pr_effect_possible :: bool
  pr_activated :: bool

definition validate_orchestration_projection :: "orchestration_projection \<Rightarrow> unit validated" where
  "validate_orchestration_projection p =
     reject_if InvalidFeatureConveyorOwnerControl
       (pr_schema_version p \<noteq> FEATURE_CONVEYOR_ORCHESTRATION_SCHEMA_VERSION
        \<or> pr_feature_id p = 0
        \<or> pr_lifecycle_revision p = 0
        \<or> pr_orchestration_revision p = 0
        \<or> pr_checkpoint_id p = 0
        \<or> pr_checkpoint_sha256 p = 0
        \<or> pr_replacement_candidates_used p > MAX_FEATURE_CONVEYOR_REPLACEMENT_CANDIDATES
        \<or> pr_active_processing_ms p > MAX_FEATURE_CONVEYOR_ACTIVE_PROCESSING_MS
        \<or> pr_active_processing_budget_ms p \<noteq> MAX_FEATURE_CONVEYOR_ACTIVE_PROCESSING_MS
        \<or> (pr_pause_kind p \<noteq> None) \<noteq> (pr_stage p = OsPaused)
        \<or> pr_next_retry_at_ms p \<noteq> None \<and> pr_reason p \<noteq> OnReviewTransportBackoff
        \<or> \<not> pr_activated p \<and> (pr_action p \<noteq> OaInactive \<or> pr_reason p \<noteq> OnCapabilityInactive))"

section \<open>What validation gives\<close>

lemma validate_activation_schema_1 [simp]: "validate_activation_schema 1 = Inr ()"
  by (simp add: validate_activation_schema_def validate_fixed_value_def FEATURE_CONVEYOR_OWNER_ACTIVATION_SCHEMA_VERSION_def)

lemma validate_evidence_admission_Inr:
  "validate_evidence_admission cx r = Inr u \<Longrightarrow> ea_expected_current_revision r \<le> u64_max \<Longrightarrow>
     ea_evidence_id r \<noteq> 0 \<and> ea_revision r = Suc (ea_expected_current_revision r) \<and> ea_receipt_sha256 r \<noteq> 0
     \<and> 0 < ea_observed_at_ms r \<and> ea_revision r \<le> u64_max
     \<and> accepts_origin (ea_category r) (ea_origin r)"
  by (auto simp: validate_evidence_admission_def result_simps saturating_add_u64_def min_def split: if_splits)

lemma validate_activation_request_Inr:
  "validate_activation_request cx r = Inr u \<Longrightarrow>
     0 < xa_expected_owner_control_designation_revision r \<and> validate_evidence_set (xa_evidence r) = Inr ()"
  by (auto simp: validate_activation_request_def result_simps)

lemma validate_control_request_Inr:
  "validate_control_request cx r = Inr u \<Longrightarrow>
     oc_feature_id r \<noteq> 0 \<and> 0 < oc_expected_lifecycle_revision r \<and> 0 < oc_expected_orchestration_revision r
     \<and> 0 < oc_expected_owner_control_designation_revision r"
  by (auto simp: validate_control_request_def result_simps)

end
