(* ===== verification/Orchestration_State.thy ===== *)
theory Orchestration_State
  imports Conveyor_Machine Owner_Activation
begin

text \<open>
  The owner's activation of orchestration (\<^verbatim>\<open>assemblywright-master/src/lib.rs\<close>): the durable state of the
  orchestrator, \<^verbatim>\<open>admit_feature_activation_evidence\<close>,
  \<^verbatim>\<open>activate_feature_orchestration_from_owner_bridge\<close>, the two owner projections, and the writes of the
  orchestration ledger that every transition shares.

  \<open>orchestrator\<close> is the kernel's database with the tables only the orchestrator reads: the admitted
  evidence, the activation row, the owner's controls, and the tables of the integration, validation,
  review and publication gates. \<open>k_orchestration_activated\<close> of the kernel is
  \<^verbatim>\<open>EXISTS(SELECT 1 FROM feature_orchestration_activation)\<close>, written with the activation row.
\<close>

section \<open>State\<close>

record evidence_row =
  ae_category :: evidence_category
  ae_revision :: nat
  ae_evidence_id :: uuid
  ae_origin :: evidence_origin
  ae_receipt_sha256 :: digest
  ae_observed_at_ms :: nat
  ae_emergency_pause_revision :: nat
  ae_recorded_at_ms :: nat

record activation_row =
  av_activation_id :: uuid
  av_queue_revision :: nat
  av_owner_control_designation_revision :: nat
  av_emergency_pause_revision :: nat
  av_evidence_ids :: "uuid evidence_slots"
  av_activated_at_ms :: nat

record control_row =
  cw_request_sha256 :: digest
  cw_action :: string
  cw_feature_id :: uuid
  cw_lifecycle_revision :: nat
  cw_orchestration_revision :: nat
  cw_queue_revision :: nat
  cw_owner_control_designation_revision :: nat
  cw_emergency_pause_revision :: nat
  cw_checkpoint_id :: uuid
  cw_checkpoint_sha256 :: digest
  cw_recorded_at_ms :: nat

text \<open>The tables of the integration, validation, review and publication gates.\<close>

record integration_row =
  ig_integration_id :: uuid
  ig_feature_id :: uuid
  ig_specification_revision :: nat
  ig_lifecycle_revision :: nat
  ig_feature_lease_id :: uuid
  ig_snapshot_id :: uuid
  ig_snapshot_sha256 :: digest
  ig_artifact_set_sha256 :: digest
  ig_candidate_commit :: string
  ig_candidate_tree :: string
  ig_base_commit :: string
  ig_queue_revision :: nat
  ig_emergency_pause_revision :: nat
  ig_grants :: grant_revisions
  ig_integrated_at_ms :: nat

record integration_artifact_row =
  ia_integration_id :: uuid
  ia_artifact_id :: uuid
  ia_ordinal :: nat
  ia_packet_id :: uuid
  ia_position :: nat

record integration_conflict_row =
  ix_integration_id :: uuid
  ix_feature_id :: uuid
  ix_lifecycle_revision :: nat
  ix_request_binding_sha256 :: digest
  ix_reason_code :: string
  ix_recorded_at_ms :: nat

record validation_attempt_row =
  va_validation_id :: uuid
  va_feature_id :: uuid
  va_specification_revision :: nat
  va_lifecycle_revision :: nat
  va_feature_lease_id :: uuid
  va_snapshot_id :: uuid
  va_snapshot_sha256 :: digest
  va_integration_id :: uuid
  va_artifact_set_sha256 :: digest
  va_candidate_commit :: string
  va_candidate_tree :: string
  va_base_commit :: string
  va_plan_sha256 :: digest
  va_command_ids :: "validation_command list"
  va_queue_revision :: nat
  va_emergency_pause_revision :: nat
  va_grants :: grant_revisions
  va_request_binding_sha256 :: digest
  va_started_at_ms :: nat

record validation_command_row =
  ve_validation_id :: uuid
  ve_command_id :: validation_command
  ve_passed :: bool
  ve_result_sha256 :: digest
  ve_duration_ms :: nat
  ve_output_truncated :: bool

record validation_completion_row =
  vc_validation_id :: uuid
  vc_passed :: bool
  vc_evidence_manifest_sha256 :: digest
  vc_lifecycle_revision :: nat
  vc_completed_at_ms :: nat

record review_call_row =
  rc_review_call_id :: uuid
  rc_feature_id :: uuid
  rc_specification_revision :: nat
  rc_lifecycle_revision :: nat
  rc_feature_lease_id :: uuid
  rc_integration_id :: uuid
  rc_validation_id :: uuid
  rc_candidate_commit :: string
  rc_candidate_tree :: string
  rc_base_commit :: string
  rc_candidate_diff_sha256 :: digest
  rc_evidence_manifest_sha256 :: digest
  rc_review_packet_sha256 :: digest
  rc_provider_id :: string
  rc_model_id :: string
  rc_candidate_attempt :: nat
  rc_feature_call :: nat
  rc_queue_revision :: nat
  rc_emergency_pause_revision :: nat
  rc_grants :: grant_revisions
  rc_request_binding_sha256 :: digest
  rc_started_at_ms :: nat

record review_outcome_row =
  ro_review_call_id :: uuid
  ro_outcome_kind :: string
  ro_outcome_sha256 :: digest
  ro_next_retry_at_ms :: "nat option"
  ro_completed_at_ms :: nat

record review_decision_row =
  rd_review_call_id :: uuid
  rd_feature_id :: uuid
  rd_candidate_commit :: string
  rd_decision :: string
  rd_decision_sha256 :: digest
  rd_structured_result_json :: string
  rd_lifecycle_revision :: nat
  rd_decided_at_ms :: nat

record publication_outcome_row =
  po_publication_id :: uuid
  po_ordinal :: nat
  po_action_kind :: publication_action
  po_evidence_sha256 :: digest
  po_pull_request_number :: "nat option"
  po_observed_commit :: string
  po_merge_commit :: "string option"
  po_passed :: bool
  po_structured_evidence_json :: string
  po_completed_at_ms :: nat

record publication_completion_row =
  pc_publication_id :: uuid
  pc_merge_commit :: string
  pc_remote_main_commit :: string
  pc_post_merge_evidence_sha256 :: digest
  pc_lifecycle_revision :: nat
  pc_queue_revision :: nat
  pc_completed_at_ms :: nat

record gate_tables =
  tb_integrations :: "integration_row list"
  tb_integration_artifacts :: "integration_artifact_row list"
  tb_integration_conflicts :: "integration_conflict_row list"
  tb_validation_attempts :: "validation_attempt_row list"
  tb_command_evidence :: "validation_command_row list"
  tb_validation_completions :: "validation_completion_row list"
  tb_review_calls :: "review_call_row list"
  tb_review_outcomes :: "review_outcome_row list"
  tb_review_decisions :: "review_decision_row list"
  tb_publication_outcomes :: "publication_outcome_row list"
  tb_publication_completions :: "publication_completion_row list"

record orchestrator =
  os_kernel :: kernel
  os_evidence :: "evidence_row list"
  os_activation :: "activation_row option"
  os_controls :: "control_row list"
  os_gates :: gate_tables

definition on_kernel :: "orchestrator \<Rightarrow> master_error + kernel \<Rightarrow> master_error + orchestrator" where
  "on_kernel s m = bindE m (\<lambda>k. Inr (s\<lparr>os_kernel := k\<rparr>))"

lemma on_kernel_Inr [result_simps]: "on_kernel s m = Inr t \<longleftrightarrow> (\<exists>k. m = Inr k \<and> t = s\<lparr>os_kernel := k\<rparr>)"
  by (auto simp: on_kernel_def bindE_Inr_iff)

definition audit_os ::
    "codec \<Rightarrow> string \<Rightarrow> uuid option \<Rightarrow> nat \<Rightarrow> json \<Rightarrow> orchestrator \<Rightarrow> master_error + orchestrator" where
  "audit_os cx kind feature now_ms metadata s =
     on_kernel s (append_audit cx kind feature now_ms metadata (os_kernel s))"

section \<open>Digests and identifiers\<close>

text \<open>The first sixteen bytes of a digest with the version and variant bits of a random UUID.\<close>

definition orchestration_checkpoint_id :: "digest \<Rightarrow> uuid" where
  "orchestration_checkpoint_id d =
     or (and (ucast (drop_bit 128 d)) 0xFFFFFFFFFFFF0FFF3FFFFFFFFFFFFFFF) 0x40008000000000000000"

definition activation_id_for_request :: "codec \<Rightarrow> activation_request \<Rightarrow> uuid" where
  "activation_id_for_request cx r =
     orchestration_checkpoint_id
       (sha256 cx (''assemblywright.feature-orchestration-activation.v1'' @ [CHR 0x00]
          @ compact_json_bytes (quote_json cx) (activation_request_json cx r)))"

section \<open>Evidence\<close>

definition evidence_receipt_of :: "evidence_admission_request \<Rightarrow> evidence_admission_receipt" where
  "evidence_receipt_of r =
     \<lparr>ec_schema_version = FEATURE_CONVEYOR_OWNER_ACTIVATION_SCHEMA_VERSION,
      ec_category = ea_category r, ec_origin = ea_origin r,
      ec_evidence = \<lparr>er_evidence_id = ea_evidence_id r, er_revision = ea_revision r,
                    er_receipt_sha256 = ea_receipt_sha256 r\<rparr>,
      ec_observed_at_ms = ea_observed_at_ms r,
      ec_emergency_pause_revision = ea_expected_emergency_pause_revision r\<rparr>"

definition row_reference :: "evidence_row \<Rightarrow> evidence_reference" where
  "row_reference e =
     \<lparr>er_evidence_id = ae_evidence_id e, er_revision = ae_revision e,
      er_receipt_sha256 = ae_receipt_sha256 e\<rparr>"

definition evidence_by_id :: "uuid \<Rightarrow> evidence_row list \<Rightarrow> evidence_admission_receipt option" where
  "evidence_by_id i es =
     map_option (\<lambda>e. \<lparr>ec_schema_version = FEATURE_CONVEYOR_OWNER_ACTIVATION_SCHEMA_VERSION,
         ec_category = ae_category e, ec_origin = ae_origin e, ec_evidence = row_reference e,
         ec_observed_at_ms = ae_observed_at_ms e,
         ec_emergency_pause_revision = ae_emergency_pause_revision e\<rparr>)
       (find_row (\<lambda>e. ae_evidence_id e = i) es)"

text \<open>\<^verbatim>\<open>COALESCE(MAX(revision), 0)\<close> of a category, and its row \<^verbatim>\<open>ORDER BY revision DESC LIMIT 1\<close>.\<close>

definition evidence_of :: "evidence_category \<Rightarrow> evidence_row list \<Rightarrow> evidence_row list" where
  "evidence_of c es = filter (\<lambda>e. ae_category e = c) es"

definition newest_evidence_revision :: "evidence_category \<Rightarrow> evidence_row list \<Rightarrow> nat" where
  "newest_evidence_revision c es = fold max (map ae_revision (evidence_of c es)) 0"

definition current_evidence_reference :: "evidence_category \<Rightarrow> evidence_row list \<Rightarrow> evidence_reference option" where
  "current_evidence_reference c es =
     map_option row_reference
       (find_row (\<lambda>e. ae_revision e = newest_evidence_revision c es) (evidence_of c es))"

definition current_evidence :: "evidence_row list \<Rightarrow> evidence_projection" where
  "current_evidence es =
     \<lparr>sl_repository_gate_proof = current_evidence_reference EcRepositoryGateProof es,
      sl_restricted_worker_live = current_evidence_reference EcRestrictedWorkerLive es,
      sl_review_provider_live = current_evidence_reference EcReviewProviderLive es,
      sl_github_publication_live = current_evidence_reference EcGithubPublicationLive es,
      sl_restart_recovery_live = current_evidence_reference EcRestartRecoveryLive es,
      sl_control_event_streaming_live = current_evidence_reference EcControlEventStreamingLive es\<rparr>"

definition require_current_evidence :: "evidence_set \<Rightarrow> evidence_row list \<Rightarrow> master_error + unit" where
  "require_current_evidence requested es =
     bindE (protocol_result (validate_evidence_set requested)) (\<lambda>_.
     bindE (ok_or FeatureActivationEvidenceUnavailable (complete_evidence (current_evidence es))) (\<lambda>current.
     reject_if FeatureActivationEvidenceUnavailable (current \<noteq> requested)))"

definition admission_metadata :: "evidence_admission_request \<Rightarrow> json" where
  "admission_metadata r = JObject
     [(''category'', JString (category_text (ea_category r))),
      (''origin'', JString (origin_text (ea_origin r))),
      (''revision'', json_nat (ea_revision r)),
      (''receipt_digest_present'', JBool True),
      (''observed_at_ms'', json_nat (ea_observed_at_ms r)),
      (''emergency_pause_revision'', json_nat (ea_expected_emergency_pause_revision r)),
      (''raw_evidence_retained'', JBool False),
      (''side_effect_executed'', JBool False)]"

definition evidence_row_of :: "evidence_admission_request \<Rightarrow> nat \<Rightarrow> evidence_row" where
  "evidence_row_of r recorded_at_ms =
     \<lparr>ae_category = ea_category r, ae_revision = ea_revision r, ae_evidence_id = ea_evidence_id r,
      ae_origin = ea_origin r, ae_receipt_sha256 = ea_receipt_sha256 r,
      ae_observed_at_ms = ea_observed_at_ms r,
      ae_emergency_pause_revision = ea_expected_emergency_pause_revision r,
      ae_recorded_at_ms = recorded_at_ms\<rparr>"

definition admit_feature_activation_evidence ::
    "codec \<Rightarrow> evidence_admission_request \<Rightarrow> nat \<Rightarrow> orchestrator
      \<Rightarrow> master_error + orchestrator \<times> evidence_admission_receipt" where
  "admit_feature_activation_evidence cx r recorded_at_ms s =
     bindE (protocol_result (validate_evidence_admission cx r)) (\<lambda>_.
     bindE (reject_if (InvalidFeatureConveyorInput ''activation evidence time is invalid'')
       (recorded_at_ms = 0 \<or> ea_observed_at_ms r > recorded_at_ms)) (\<lambda>_.
     case evidence_by_id (ea_evidence_id r) (os_evidence s) of
       Some existing \<Rightarrow>
         if existing = evidence_receipt_of r then Inr (s, existing)
         else Inl FeatureActivationEvidenceUnavailable
     | None \<Rightarrow>
         bindE (reject_if FeatureActivationImmutable (k_orchestration_activated (os_kernel s))) (\<lambda>_.
         bindE (require_unpaused_revision_tx (ea_expected_emergency_pause_revision r) (os_kernel s)) (\<lambda>_.
         bindE (reject_if FeatureActivationEvidenceUnavailable
           (newest_evidence_revision (ea_category r) (os_evidence s) \<noteq> ea_expected_current_revision r)) (\<lambda>_.
         bindE (to_i64 (ea_revision r)) (\<lambda>_.
         bindE (to_i64 (ea_observed_at_ms r)) (\<lambda>_.
         bindE (to_i64 (ea_expected_emergency_pause_revision r)) (\<lambda>_.
         bindE (to_i64 recorded_at_ms) (\<lambda>_.
         bindE (audit_os cx ''feature_activation_evidence_admitted'' None recorded_at_ms
           (admission_metadata r)
           (s\<lparr>os_evidence := insert_row (evidence_row_of r recorded_at_ms) (os_evidence s)\<rparr>)) (\<lambda>s1.
         bindE (protocol_result (validate_evidence_receipt (evidence_receipt_of r))) (\<lambda>_.
         Inr (s1, evidence_receipt_of r))))))))))))"

section \<open>Activation\<close>

definition reference_for_role ::
    "uuid \<Rightarrow> evidence_category \<Rightarrow> evidence_origin \<Rightarrow> evidence_row list \<Rightarrow> master_error + evidence_reference" where
  "reference_for_role i category origin es =
     bindE (ok_or (InvalidStoredState ''activation evidence is missing'') (evidence_by_id i es)) (\<lambda>receipt.
     bindE (protocol_result (validate_evidence_receipt receipt)) (\<lambda>_.
     bindE (reject_if (InvalidStoredState ''activation evidence role binding is invalid'')
       (ec_category receipt \<noteq> category \<or> ec_origin receipt \<noteq> origin)) (\<lambda>_.
     Inr (ec_evidence receipt))))"

definition load_evidence_set :: "uuid evidence_slots \<Rightarrow> evidence_row list \<Rightarrow> master_error + evidence_set" where
  "load_evidence_set ids es =
     bindE (reference_for_role (sl_repository_gate_proof ids) EcRepositoryGateProof
       EoRepositoryGateProof es) (\<lambda>gate.
     bindE (reference_for_role (sl_restricted_worker_live ids) EcRestrictedWorkerLive
       EoRestrictedWorkerProof es) (\<lambda>worker.
     bindE (reference_for_role (sl_review_provider_live ids) EcReviewProviderLive
       EoReviewProviderProof es) (\<lambda>review.
     bindE (reference_for_role (sl_github_publication_live ids) EcGithubPublicationLive
       EoGithubPublicationProof es) (\<lambda>publication.
     bindE (reference_for_role (sl_restart_recovery_live ids) EcRestartRecoveryLive
       EoRestartRecoveryProof es) (\<lambda>restart.
     bindE (reference_for_role (sl_control_event_streaming_live ids) EcControlEventStreamingLive
       EoControlEventStreamingProof es) (\<lambda>streaming.
     Inr \<lparr>sl_repository_gate_proof = gate, sl_restricted_worker_live = worker,
          sl_review_provider_live = review, sl_github_publication_live = publication,
          sl_restart_recovery_live = restart, sl_control_event_streaming_live = streaming\<rparr>))))))"

definition load_feature_activation ::
    "codec \<Rightarrow> orchestrator \<Rightarrow> master_error + activation_receipt option" where
  "load_feature_activation cx s =
     (case os_activation s of
        None \<Rightarrow> Inr None
      | Some a \<Rightarrow>
          bindE (load_evidence_set (av_evidence_ids a) (os_evidence s)) (\<lambda>evidence.
          (let receipt =
             \<lparr>xr_schema_version = FEATURE_CONVEYOR_OWNER_ACTIVATION_SCHEMA_VERSION,
              xr_activation_id = av_activation_id a, xr_queue_revision = av_queue_revision a,
              xr_owner_control_designation_revision = av_owner_control_designation_revision a,
              xr_emergency_pause_revision = av_emergency_pause_revision a, xr_evidence = evidence,
              xr_activated_at_ms = av_activated_at_ms a, xr_status = AsActive\<rparr> in
           bindE (protocol_result (validate_activation_receipt cx receipt)) (\<lambda>_. Inr (Some receipt)))))"

definition activation_matches :: "activation_receipt \<Rightarrow> activation_request \<Rightarrow> bool" where
  "activation_matches receipt r =
     (xr_queue_revision receipt = xa_expected_queue_revision r
      \<and> xr_owner_control_designation_revision receipt = xa_expected_owner_control_designation_revision r
      \<and> xr_emergency_pause_revision receipt = xa_expected_emergency_pause_revision r
      \<and> xr_evidence receipt = xa_evidence r)"

definition evidence_ids :: "evidence_set \<Rightarrow> uuid evidence_slots" where
  "evidence_ids e =
     \<lparr>sl_repository_gate_proof = er_evidence_id (sl_repository_gate_proof e),
      sl_restricted_worker_live = er_evidence_id (sl_restricted_worker_live e),
      sl_review_provider_live = er_evidence_id (sl_review_provider_live e),
      sl_github_publication_live = er_evidence_id (sl_github_publication_live e),
      sl_restart_recovery_live = er_evidence_id (sl_restart_recovery_live e),
      sl_control_event_streaming_live = er_evidence_id (sl_control_event_streaming_live e)\<rparr>"

definition activation_metadata :: "activation_request \<Rightarrow> json" where
  "activation_metadata r = JObject
     [(''queue_revision'', json_nat (xa_expected_queue_revision r)),
      (''owner_control_designation_revision'', json_nat (xa_expected_owner_control_designation_revision r)),
      (''emergency_pause_revision'', json_nat (xa_expected_emergency_pause_revision r)),
      (''repository_gate_proof_present'', JBool True),
      (''live_evidence_category_count'', json_nat 5),
      (''evidence_reference_count'', json_nat 6),
      (''raw_evidence_retained'', JBool False),
      (''side_effect_executed'', JBool False)]"

definition activation_row_of :: "codec \<Rightarrow> activation_request \<Rightarrow> nat \<Rightarrow> activation_row" where
  "activation_row_of cx r now_ms =
     \<lparr>av_activation_id = activation_id_for_request cx r,
      av_queue_revision = xa_expected_queue_revision r,
      av_owner_control_designation_revision = xa_expected_owner_control_designation_revision r,
      av_emergency_pause_revision = xa_expected_emergency_pause_revision r,
      av_evidence_ids = evidence_ids (xa_evidence r), av_activated_at_ms = now_ms\<rparr>"

definition activation_receipt_of :: "codec \<Rightarrow> activation_request \<Rightarrow> nat \<Rightarrow> activation_receipt" where
  "activation_receipt_of cx r now_ms =
     \<lparr>xr_schema_version = FEATURE_CONVEYOR_OWNER_ACTIVATION_SCHEMA_VERSION,
      xr_activation_id = activation_id_for_request cx r, xr_queue_revision = xa_expected_queue_revision r,
      xr_owner_control_designation_revision = xa_expected_owner_control_designation_revision r,
      xr_emergency_pause_revision = xa_expected_emergency_pause_revision r, xr_evidence = xa_evidence r,
      xr_activated_at_ms = now_ms, xr_status = AsActive\<rparr>"

definition activate_feature_orchestration ::
    "codec \<Rightarrow> activation_request \<Rightarrow> device_row \<Rightarrow> nat \<Rightarrow> orchestrator
      \<Rightarrow> master_error + orchestrator \<times> activation_receipt" where
  "activate_feature_orchestration cx r registration now_ms s =
     (let k = os_kernel s in
      bindE (protocol_result (validate_activation_request cx r)) (\<lambda>_.
      bindE (reject_if InvalidSystemClock (now_ms = 0)) (\<lambda>_.
      bindE (require_owner_control_bridge_tx cx registration
        (xa_expected_owner_control_designation_revision r) k) (\<lambda>_.
      bindE (require_unpaused_revision_tx (xa_expected_emergency_pause_revision r) k) (\<lambda>_.
      bindE (load_feature_activation cx s) (\<lambda>loaded.
      case loaded of
        Some existing \<Rightarrow>
          if activation_matches existing r then Inr (s, existing) else Inl FeatureActivationImmutable
      | None \<Rightarrow>
          bindE (require_queue_revision_tx (xa_expected_queue_revision r) k) (\<lambda>_.
          bindE (require_current_evidence (xa_evidence r) (os_evidence s)) (\<lambda>_.
          bindE (to_i64 (xa_expected_queue_revision r)) (\<lambda>_.
          bindE (to_i64 (xa_expected_owner_control_designation_revision r)) (\<lambda>_.
          bindE (to_i64 (xa_expected_emergency_pause_revision r)) (\<lambda>_.
          bindE (to_i64 now_ms) (\<lambda>_.
          bindE (audit_os cx ''feature_orchestration_activated'' None now_ms (activation_metadata r)
            (s\<lparr>os_activation := Some (activation_row_of cx r now_ms),
               os_kernel := k\<lparr>k_orchestration_activated := True\<rparr>\<rparr>)) (\<lambda>s1.
          bindE (protocol_result (validate_activation_receipt cx (activation_receipt_of cx r now_ms))) (\<lambda>_.
          Inr (s1, activation_receipt_of cx r now_ms)))))))))))))))"

end
