(* ===== verification/Gate_Messages.thy ===== *)
theory Gate_Messages
  imports Conveyor_Manifest Owner_Activation
begin

text \<open>
  The messages of the integration and validation gates (\<^verbatim>\<open>assemblywright-protocol/src/lib.rs\<close>): the
  requests an owner process sends, the receipts it gets and the digests that bind them. Prefixes:
  \<open>iq\<close>/\<open>il\<close>/\<open>ik\<close> the integration request, plan and receipt, \<open>vq\<close>/\<open>vk\<close> the validation request and
  receipt. Lemmas: what a validated request is known to satisfy.
\<close>

definition FEATURE_CONVEYOR_ARTIFACT_INTEGRATION_SCHEMA_VERSION :: nat where
  "FEATURE_CONVEYOR_ARTIFACT_INTEGRATION_SCHEMA_VERSION = 1"
definition MAX_FEATURE_CONVEYOR_INTEGRATION_ARTIFACTS :: nat where
  "MAX_FEATURE_CONVEYOR_INTEGRATION_ARTIFACTS = 3"
definition MAX_FEATURE_CONVEYOR_OWNER_CONTROL_REQUEST_BYTES :: nat where
  "MAX_FEATURE_CONVEYOR_OWNER_CONTROL_REQUEST_BYTES = 320 * 1024"
definition MAX_FEATURE_CONVEYOR_IDENTIFIER_BYTES :: nat where
  "MAX_FEATURE_CONVEYOR_IDENTIFIER_BYTES = 128"

definition grants_json :: "grant_revisions \<Rightarrow> json" where
  "grants_json g = JObject
     [(''registration'', number_json (gr_registration g)),
      (''cloud_disclosure'', number_json (gr_cloud_disclosure g)),
      (''autonomous_publication'', number_json (gr_autonomous_publication g))]"

definition missing_grant :: "grant_revisions \<Rightarrow> bool" where
  "missing_grant g =
     (gr_registration g = 0 \<or> gr_cloud_disclosure g = 0 \<or> gr_autonomous_publication g = 0)"

text \<open>A digest of canonical text under a domain tag, with the length of the text.\<close>

definition sealed_digest :: "codec \<Rightarrow> string \<Rightarrow> string \<Rightarrow> digest" where
  "sealed_digest cx tag text = sha256 cx (tag @ [CHR 0x00] @ be_bytes 8 (length text) @ text)"

definition binding_digest :: "codec \<Rightarrow> string \<Rightarrow> json \<Rightarrow> digest" where
  "binding_digest cx tag doc = sealed_digest cx tag (canonical_json_bytes (quote_json cx) doc)"

definition decode_gate_frame ::
    "codec \<Rightarrow> string \<Rightarrow> (json \<Rightarrow> 'a option) \<Rightarrow> string \<Rightarrow> ('a \<Rightarrow> unit validated) \<Rightarrow> 'a validated" where
  "decode_gate_frame cx field decode frame validate =
     decode_strict_and_validate_frame cx field decode frame
       MAX_FEATURE_CONVEYOR_OWNER_CONTROL_REQUEST_BYTES validate"

section \<open>Integration\<close>

record integration_request =
  iq_schema_version :: nat
  iq_integration_id :: uuid
  iq_feature_id :: uuid
  iq_specification_revision :: nat
  iq_expected_lifecycle_revision :: nat
  iq_feature_lease_id :: uuid
  iq_snapshot_id :: uuid
  iq_snapshot_sha256 :: digest
  iq_artifact_ids :: "uuid list"
  iq_expected_queue_revision :: nat
  iq_expected_emergency_pause_revision :: nat
  iq_grants :: grant_revisions
  iq_base_commit :: string

definition integration_request_json :: "codec \<Rightarrow> integration_request \<Rightarrow> json" where
  "integration_request_json cx r = JObject
     [(''schema_version'', number_json (iq_schema_version r)),
      (''integration_id'', JString (uuid_text cx (iq_integration_id r))),
      (''feature_id'', JString (uuid_text cx (iq_feature_id r))),
      (''specification_revision'', number_json (iq_specification_revision r)),
      (''expected_lifecycle_revision'', number_json (iq_expected_lifecycle_revision r)),
      (''feature_lease_id'', JString (uuid_text cx (iq_feature_lease_id r))),
      (''snapshot_id'', JString (uuid_text cx (iq_snapshot_id r))),
      (''snapshot_sha256'', digest_json (iq_snapshot_sha256 r)),
      (''artifact_ids'', JArray (map (\<lambda>i. JString (uuid_text cx i)) (iq_artifact_ids r))),
      (''expected_queue_revision'', number_json (iq_expected_queue_revision r)),
      (''expected_emergency_pause_revision'', number_json (iq_expected_emergency_pause_revision r)),
      (''grants'', grants_json (iq_grants r)),
      (''base_commit'', JString (iq_base_commit r))]"

text \<open>The identifiers are nonzero and strictly increase.\<close>

definition check_artifact_id :: "uuid \<Rightarrow> uuid option \<Rightarrow> uuid option validated" where
  "check_artifact_id artifact prior =
     bindE (reject_if InvalidFeatureConveyorOwnerControl
       (artifact = 0 \<or> (case prior of None \<Rightarrow> False | Some value \<Rightarrow> value \<ge> artifact))) (\<lambda>_.
     Inr (Some artifact))"

definition validate_integration_request :: "codec \<Rightarrow> integration_request \<Rightarrow> unit validated" where
  "validate_integration_request cx r =
     bindE (reject_if InvalidFeatureConveyorOwnerControl
       (iq_schema_version r \<noteq> FEATURE_CONVEYOR_ARTIFACT_INTEGRATION_SCHEMA_VERSION
        \<or> iq_integration_id r = 0 \<or> iq_feature_id r = 0 \<or> iq_feature_lease_id r = 0 \<or> iq_snapshot_id r = 0
        \<or> iq_specification_revision r = 0 \<or> iq_expected_lifecycle_revision r = 0
        \<or> iq_snapshot_sha256 r = 0 \<or> iq_artifact_ids r = []
        \<or> length (iq_artifact_ids r) > MAX_FEATURE_CONVEYOR_INTEGRATION_ARTIFACTS
        \<or> missing_grant (iq_grants r))) (\<lambda>_.
     bindE (forE check_artifact_id (iq_artifact_ids r) None) (\<lambda>_.
     bindE (validate_git_commit (iq_base_commit r)) (\<lambda>_.
     validate_struct_limit cx ''feature_conveyor_artifact_integration_request''
       (integration_request_json cx r) MAX_FEATURE_CONVEYOR_OWNER_CONTROL_REQUEST_BYTES)))"

definition decode_integration_request ::
    "codec \<Rightarrow> (json \<Rightarrow> integration_request option) \<Rightarrow> string \<Rightarrow> integration_request validated" where
  "decode_integration_request cx decode frame =
     decode_gate_frame cx ''feature_conveyor_artifact_integration_request'' decode frame
       (validate_integration_request cx)"

record integration_plan =
  il_schema_version :: nat
  il_feature_id :: uuid
  il_specification_revision :: nat
  il_lifecycle_revision :: nat
  il_feature_lease_id :: uuid
  il_snapshot_id :: uuid
  il_snapshot_sha256 :: digest
  il_artifact_ids :: "uuid list"
  il_queue_revision :: nat
  il_emergency_pause_revision :: nat
  il_grants :: grant_revisions
  il_base_commit :: string

definition integration_plan_json :: "codec \<Rightarrow> integration_plan \<Rightarrow> json" where
  "integration_plan_json cx p = JObject
     [(''schema_version'', number_json (il_schema_version p)),
      (''feature_id'', JString (uuid_text cx (il_feature_id p))),
      (''specification_revision'', number_json (il_specification_revision p)),
      (''lifecycle_revision'', number_json (il_lifecycle_revision p)),
      (''feature_lease_id'', JString (uuid_text cx (il_feature_lease_id p))),
      (''snapshot_id'', JString (uuid_text cx (il_snapshot_id p))),
      (''snapshot_sha256'', digest_json (il_snapshot_sha256 p)),
      (''artifact_ids'', JArray (map (\<lambda>i. JString (uuid_text cx i)) (il_artifact_ids p))),
      (''queue_revision'', number_json (il_queue_revision p)),
      (''emergency_pause_revision'', number_json (il_emergency_pause_revision p)),
      (''grants'', grants_json (il_grants p)),
      (''base_commit'', JString (il_base_commit p))]"

definition request_of_plan :: "integration_plan \<Rightarrow> integration_request" where
  "request_of_plan p =
     \<lparr>iq_schema_version = il_schema_version p, iq_integration_id = 1, iq_feature_id = il_feature_id p,
      iq_specification_revision = il_specification_revision p,
      iq_expected_lifecycle_revision = il_lifecycle_revision p,
      iq_feature_lease_id = il_feature_lease_id p, iq_snapshot_id = il_snapshot_id p,
      iq_snapshot_sha256 = il_snapshot_sha256 p, iq_artifact_ids = il_artifact_ids p,
      iq_expected_queue_revision = il_queue_revision p,
      iq_expected_emergency_pause_revision = il_emergency_pause_revision p,
      iq_grants = il_grants p, iq_base_commit = il_base_commit p\<rparr>"

definition validate_integration_plan :: "codec \<Rightarrow> integration_plan \<Rightarrow> unit validated" where
  "validate_integration_plan cx p =
     bindE (validate_integration_request cx (request_of_plan p)) (\<lambda>_.
     validate_struct_limit cx ''feature_conveyor_artifact_integration_plan''
       (integration_plan_json cx p) MAX_FEATURE_CONVEYOR_OWNER_CONTROL_REQUEST_BYTES)"

definition decode_integration_plan ::
    "codec \<Rightarrow> (json \<Rightarrow> integration_plan option) \<Rightarrow> string \<Rightarrow> integration_plan validated" where
  "decode_integration_plan cx decode frame =
     decode_gate_frame cx ''feature_conveyor_artifact_integration_plan'' decode frame
       (validate_integration_plan cx)"

datatype integration_status = CandidateFrozen

record integration_receipt =
  ik_schema_version :: nat
  ik_integration_id :: uuid
  ik_feature_id :: uuid
  ik_specification_revision :: nat
  ik_lifecycle_revision :: nat
  ik_feature_lease_id :: uuid
  ik_snapshot_id :: uuid
  ik_snapshot_sha256 :: digest
  ik_artifact_set_sha256 :: digest
  ik_candidate_commit :: string
  ik_candidate_tree :: string
  ik_base_commit :: string
  ik_queue_revision :: nat
  ik_emergency_pause_revision :: nat
  ik_grants :: grant_revisions
  ik_status :: integration_status

definition integration_receipt_json :: "codec \<Rightarrow> integration_receipt \<Rightarrow> json" where
  "integration_receipt_json cx r = JObject
     [(''schema_version'', number_json (ik_schema_version r)),
      (''integration_id'', JString (uuid_text cx (ik_integration_id r))),
      (''feature_id'', JString (uuid_text cx (ik_feature_id r))),
      (''specification_revision'', number_json (ik_specification_revision r)),
      (''lifecycle_revision'', number_json (ik_lifecycle_revision r)),
      (''feature_lease_id'', JString (uuid_text cx (ik_feature_lease_id r))),
      (''snapshot_id'', JString (uuid_text cx (ik_snapshot_id r))),
      (''snapshot_sha256'', digest_json (ik_snapshot_sha256 r)),
      (''artifact_set_sha256'', digest_json (ik_artifact_set_sha256 r)),
      (''candidate_commit'', JString (ik_candidate_commit r)),
      (''candidate_tree'', JString (ik_candidate_tree r)),
      (''base_commit'', JString (ik_base_commit r)),
      (''queue_revision'', number_json (ik_queue_revision r)),
      (''emergency_pause_revision'', number_json (ik_emergency_pause_revision r)),
      (''grants'', grants_json (ik_grants r)),
      (''status'', JString ''candidate_frozen'')]"

definition validate_integration_receipt :: "codec \<Rightarrow> integration_receipt \<Rightarrow> unit validated" where
  "validate_integration_receipt cx r =
     bindE (reject_if InvalidFeatureConveyorOwnerControl
       (ik_schema_version r \<noteq> FEATURE_CONVEYOR_ARTIFACT_INTEGRATION_SCHEMA_VERSION
        \<or> ik_integration_id r = 0 \<or> ik_feature_id r = 0 \<or> ik_feature_lease_id r = 0 \<or> ik_snapshot_id r = 0
        \<or> ik_specification_revision r = 0 \<or> ik_lifecycle_revision r = 0
        \<or> ik_snapshot_sha256 r = 0 \<or> ik_artifact_set_sha256 r = 0 \<or> missing_grant (ik_grants r))) (\<lambda>_.
     bindE (validate_git_commit (ik_base_commit r)) (\<lambda>_.
     bindE (validate_git_commit (ik_candidate_commit r)) (\<lambda>_.
     bindE (validate_git_commit (ik_candidate_tree r)) (\<lambda>_.
     validate_struct_limit cx ''feature_conveyor_artifact_integration_receipt''
       (integration_receipt_json cx r) MAX_FEATURE_CONVEYOR_OWNER_CONTROL_REQUEST_BYTES))))"

definition decode_integration_receipt ::
    "codec \<Rightarrow> (json \<Rightarrow> integration_receipt option) \<Rightarrow> string \<Rightarrow> integration_receipt validated" where
  "decode_integration_receipt cx decode frame =
     decode_gate_frame cx ''feature_conveyor_artifact_integration_receipt'' decode frame
       (validate_integration_receipt cx)"

section \<open>Validation\<close>

fun command_text :: "validation_command \<Rightarrow> string" where
  "command_text RequirementsBinding = ''requirements_binding''"
| "command_text Coverage = ''coverage''"
| "command_text FocusedUnitTests = ''focused_unit_tests''"
| "command_text NativeE2e = ''native_e2e''"
| "command_text Documentation = ''documentation''"
| "command_text KnowledgeBase = ''knowledge_base''"
| "command_text Formatting = ''formatting''"
| "command_text Lint = ''lint''"
| "command_text Build = ''build''"
| "command_text Safety = ''safety''"
| "command_text ChangedPaths = ''changed_paths''"
| "command_text SecretScan = ''secret_scan''"
| "command_text RepositoryValidation = ''repository_validation''"

definition commands_json :: "validation_command list \<Rightarrow> json" where
  "commands_json commands = JArray (map (\<lambda>c. JString (command_text c)) commands)"

definition validate_validation_command_ids :: "validation_command list \<Rightarrow> unit validated" where
  "validate_validation_command_ids commands =
     reject_if InvalidFeatureConveyorOwnerControl (commands \<noteq> REQUIRED_COMMANDS)"

definition validation_plan_sha256 :: "codec \<Rightarrow> validation_command list \<Rightarrow> digest validated" where
  "validation_plan_sha256 cx commands =
     bindE (validate_validation_command_ids commands) (\<lambda>_.
     Inr (binding_digest cx ''assemblywright.validation-plan.v1'' (commands_json commands)))"

record validation_request =
  vq_schema_version :: nat
  vq_validation_id :: uuid
  vq_feature_id :: uuid
  vq_specification_revision :: nat
  vq_expected_lifecycle_revision :: nat
  vq_feature_lease_id :: uuid
  vq_snapshot_id :: uuid
  vq_snapshot_sha256 :: digest
  vq_integration_id :: uuid
  vq_artifact_set_sha256 :: digest
  vq_candidate_commit :: string
  vq_candidate_tree :: string
  vq_base_commit :: string
  vq_command_ids :: "validation_command list"
  vq_plan_sha256 :: digest
  vq_expected_queue_revision :: nat
  vq_expected_emergency_pause_revision :: nat
  vq_grants :: grant_revisions

definition validation_request_json :: "codec \<Rightarrow> validation_request \<Rightarrow> json" where
  "validation_request_json cx r = JObject
     [(''schema_version'', number_json (vq_schema_version r)),
      (''validation_id'', JString (uuid_text cx (vq_validation_id r))),
      (''feature_id'', JString (uuid_text cx (vq_feature_id r))),
      (''specification_revision'', number_json (vq_specification_revision r)),
      (''expected_lifecycle_revision'', number_json (vq_expected_lifecycle_revision r)),
      (''feature_lease_id'', JString (uuid_text cx (vq_feature_lease_id r))),
      (''snapshot_id'', JString (uuid_text cx (vq_snapshot_id r))),
      (''snapshot_sha256'', digest_json (vq_snapshot_sha256 r)),
      (''integration_id'', JString (uuid_text cx (vq_integration_id r))),
      (''artifact_set_sha256'', digest_json (vq_artifact_set_sha256 r)),
      (''candidate_commit'', JString (vq_candidate_commit r)),
      (''candidate_tree'', JString (vq_candidate_tree r)),
      (''base_commit'', JString (vq_base_commit r)),
      (''command_ids'', commands_json (vq_command_ids r)),
      (''plan_sha256'', digest_json (vq_plan_sha256 r)),
      (''expected_queue_revision'', number_json (vq_expected_queue_revision r)),
      (''expected_emergency_pause_revision'', number_json (vq_expected_emergency_pause_revision r)),
      (''grants'', grants_json (vq_grants r))]"

definition validate_validation_request :: "codec \<Rightarrow> validation_request \<Rightarrow> unit validated" where
  "validate_validation_request cx r =
     bindE (reject_if InvalidFeatureConveyorOwnerControl
       (vq_schema_version r \<noteq> FEATURE_CONVEYOR_VALIDATION_GATE_SCHEMA_VERSION
        \<or> vq_validation_id r = 0 \<or> vq_feature_id r = 0 \<or> vq_feature_lease_id r = 0
        \<or> vq_snapshot_id r = 0 \<or> vq_integration_id r = 0
        \<or> vq_specification_revision r = 0 \<or> vq_expected_lifecycle_revision r = 0
        \<or> vq_snapshot_sha256 r = 0 \<or> vq_artifact_set_sha256 r = 0 \<or> vq_plan_sha256 r = 0
        \<or> missing_grant (vq_grants r))) (\<lambda>_.
     bindE (validate_validation_command_ids (vq_command_ids r)) (\<lambda>_.
     bindE (validation_plan_sha256 cx (vq_command_ids r)) (\<lambda>plan.
     bindE (reject_if InvalidFeatureConveyorOwnerControl (plan \<noteq> vq_plan_sha256 r)) (\<lambda>_.
     bindE (validate_git_commit (vq_base_commit r)) (\<lambda>_.
     bindE (validate_git_commit (vq_candidate_commit r)) (\<lambda>_.
     bindE (validate_git_commit (vq_candidate_tree r)) (\<lambda>_.
     validate_struct_limit cx ''feature_conveyor_validation_gate_request''
       (validation_request_json cx r) MAX_FEATURE_CONVEYOR_OWNER_CONTROL_REQUEST_BYTES)))))))"

definition decode_validation_request ::
    "codec \<Rightarrow> (json \<Rightarrow> validation_request option) \<Rightarrow> string \<Rightarrow> validation_request validated" where
  "decode_validation_request cx decode frame =
     decode_gate_frame cx ''feature_conveyor_validation_gate_request'' decode frame
       (validate_validation_request cx)"

definition validation_request_binding_sha256 :: "codec \<Rightarrow> validation_request \<Rightarrow> digest validated" where
  "validation_request_binding_sha256 cx r =
     bindE (validate_validation_request cx r) (\<lambda>_.
     Inr (binding_digest cx ''assemblywright.validation-request-binding.v1'' (validation_request_json cx r)))"

datatype validation_status = EvidenceAccepted

record validation_receipt =
  vk_schema_version :: nat
  vk_validation_id :: uuid
  vk_feature_id :: uuid
  vk_specification_revision :: nat
  vk_lifecycle_revision :: nat
  vk_feature_lease_id :: uuid
  vk_integration_id :: uuid
  vk_candidate_commit :: string
  vk_candidate_tree :: string
  vk_evidence_manifest_sha256 :: digest
  vk_plan_sha256 :: digest
  vk_queue_revision :: nat
  vk_emergency_pause_revision :: nat
  vk_grants :: grant_revisions
  vk_status :: validation_status

definition validation_receipt_json :: "codec \<Rightarrow> validation_receipt \<Rightarrow> json" where
  "validation_receipt_json cx r = JObject
     [(''schema_version'', number_json (vk_schema_version r)),
      (''validation_id'', JString (uuid_text cx (vk_validation_id r))),
      (''feature_id'', JString (uuid_text cx (vk_feature_id r))),
      (''specification_revision'', number_json (vk_specification_revision r)),
      (''lifecycle_revision'', number_json (vk_lifecycle_revision r)),
      (''feature_lease_id'', JString (uuid_text cx (vk_feature_lease_id r))),
      (''integration_id'', JString (uuid_text cx (vk_integration_id r))),
      (''candidate_commit'', JString (vk_candidate_commit r)),
      (''candidate_tree'', JString (vk_candidate_tree r)),
      (''evidence_manifest_sha256'', digest_json (vk_evidence_manifest_sha256 r)),
      (''plan_sha256'', digest_json (vk_plan_sha256 r)),
      (''queue_revision'', number_json (vk_queue_revision r)),
      (''emergency_pause_revision'', number_json (vk_emergency_pause_revision r)),
      (''grants'', grants_json (vk_grants r)),
      (''status'', JString ''evidence_accepted'')]"

definition validate_validation_receipt :: "codec \<Rightarrow> validation_receipt \<Rightarrow> unit validated" where
  "validate_validation_receipt cx r =
     bindE (reject_if InvalidFeatureConveyorOwnerControl
       (vk_schema_version r \<noteq> FEATURE_CONVEYOR_VALIDATION_GATE_SCHEMA_VERSION
        \<or> vk_validation_id r = 0 \<or> vk_feature_id r = 0 \<or> vk_feature_lease_id r = 0 \<or> vk_integration_id r = 0
        \<or> vk_specification_revision r = 0 \<or> vk_lifecycle_revision r = 0
        \<or> vk_evidence_manifest_sha256 r = 0 \<or> vk_plan_sha256 r = 0 \<or> missing_grant (vk_grants r))) (\<lambda>_.
     bindE (validate_git_commit (vk_candidate_commit r)) (\<lambda>_.
     bindE (validate_git_commit (vk_candidate_tree r)) (\<lambda>_.
     validate_struct_limit cx ''feature_conveyor_validation_gate_receipt''
       (validation_receipt_json cx r) MAX_FEATURE_CONVEYOR_OWNER_CONTROL_REQUEST_BYTES)))"

section \<open>What validation gives\<close>

lemma check_artifact_id_Inr:
  "check_artifact_id i prior = Inr x \<longleftrightarrow> i \<noteq> 0 \<and> (\<forall>p. prior = Some p \<longrightarrow> p < i) \<and> x = Some i"
  by (cases prior) (auto simp: check_artifact_id_def bindE_Inr_iff reject_if_Inr_iff)

lemma check_artifact_ids_Inr:
  "forE check_artifact_id ids prior = Inr end_id \<Longrightarrow>
     0 \<notin> set ids \<and> sorted_wrt (<) ids \<and> (\<forall>p. prior = Some p \<longrightarrow> (\<forall>i \<in> set ids. p < i))"
proof (induction ids arbitrary: prior)
  case (Cons i ids)
  from Cons.prems have i: "i \<noteq> 0" "\<forall>p. prior = Some p \<longrightarrow> p < i" "forE check_artifact_id ids (Some i) = Inr end_id"
    by (simp_all add: bindE_Inr_iff check_artifact_id_Inr)
  from Cons.IH [OF i(3)] have ids: "0 \<notin> set ids" "sorted_wrt (<) ids" "\<forall>j \<in> set ids. i < j" by simp_all
  moreover have "p < j" if "prior = Some p" "j \<in> set (i # ids)" for p j
    using that i(2) ids(3) less_trans by force
  ultimately show ?case using i(1) by simp
qed simp

lemma validate_integration_request_Inr:
  assumes "validate_integration_request cx r = Inr u"
  shows "iq_feature_id r \<noteq> 0" "iq_integration_id r \<noteq> 0" "iq_artifact_ids r \<noteq> []"
    "length (iq_artifact_ids r) \<le> 3" "distinct (iq_artifact_ids r)" "0 \<notin> set (iq_artifact_ids r)"
    "0 < iq_expected_lifecycle_revision r"
proof -
  from assms obtain end_id where
    "\<not> (iq_schema_version r \<noteq> FEATURE_CONVEYOR_ARTIFACT_INTEGRATION_SCHEMA_VERSION
        \<or> iq_integration_id r = 0 \<or> iq_feature_id r = 0 \<or> iq_feature_lease_id r = 0 \<or> iq_snapshot_id r = 0
        \<or> iq_specification_revision r = 0 \<or> iq_expected_lifecycle_revision r = 0
        \<or> iq_snapshot_sha256 r = 0 \<or> iq_artifact_ids r = []
        \<or> length (iq_artifact_ids r) > MAX_FEATURE_CONVEYOR_INTEGRATION_ARTIFACTS
        \<or> missing_grant (iq_grants r))"
    and ids: "forE check_artifact_id (iq_artifact_ids r) None = Inr end_id"
    unfolding validate_integration_request_def bindE_Inr_iff reject_if_Inr_iff by blast
  then show "iq_feature_id r \<noteq> 0" "iq_integration_id r \<noteq> 0" "iq_artifact_ids r \<noteq> []"
    "length (iq_artifact_ids r) \<le> 3" "0 < iq_expected_lifecycle_revision r"
    by (simp_all add: MAX_FEATURE_CONVEYOR_INTEGRATION_ARTIFACTS_def)
  show "distinct (iq_artifact_ids r)" "0 \<notin> set (iq_artifact_ids r)"
    using check_artifact_ids_Inr [OF ids] by (auto simp: strict_sorted_iff)
qed

lemma validate_validation_command_ids_Inr [result_simps]:
  "validate_validation_command_ids commands = Inr u \<longleftrightarrow> commands = REQUIRED_COMMANDS"
  by (simp add: validate_validation_command_ids_def result_simps)

lemma validate_validation_request_Inr:
  "validate_validation_request cx r = Inr u \<Longrightarrow>
     vq_feature_id r \<noteq> 0 \<and> vq_validation_id r \<noteq> 0 \<and> 0 < vq_expected_lifecycle_revision r
     \<and> vq_command_ids r = REQUIRED_COMMANDS"
  by (auto simp: validate_validation_request_def result_simps)

lemma command_of_text [simp]: "command_of_name (command_text c) = Some c"
  by (cases c) (simp_all add: command_of_name_def)

end
