(* ===== verification/Review_Messages.thy ===== *)
theory Review_Messages
  imports Gate_Messages
begin

text \<open>
  The messages of the review gateway (\<^verbatim>\<open>assemblywright-protocol/src/lib.rs\<close>): the request (\<open>rq\<close>), the
  provider's structured output (\<open>rv\<close>) with its findings (\<open>fg\<close>) and requirement coverage (\<open>cv\<close>), the
  packet the provider is shown (\<open>rp\<close>) and the receipt (\<open>rk\<close>). Lemmas: what an approving output is known
  to satisfy.
\<close>

definition FEATURE_CONVEYOR_REVIEW_GATEWAY_SCHEMA_VERSION :: nat where
  "FEATURE_CONVEYOR_REVIEW_GATEWAY_SCHEMA_VERSION = 1"
definition MAX_FEATURE_CONVEYOR_REVIEW_PACKET_BYTES :: nat where
  "MAX_FEATURE_CONVEYOR_REVIEW_PACKET_BYTES = 256 * 1024"
definition MAX_FEATURE_CONVEYOR_REVIEW_OUTPUT_BYTES :: nat where
  "MAX_FEATURE_CONVEYOR_REVIEW_OUTPUT_BYTES = 64 * 1024"
definition MAX_FEATURE_CONVEYOR_REVIEW_FINDINGS :: nat where
  "MAX_FEATURE_CONVEYOR_REVIEW_FINDINGS = 128"
definition MAX_FEATURE_CONVEYOR_REVIEW_EVIDENCE_DIGESTS :: nat where
  "MAX_FEATURE_CONVEYOR_REVIEW_EVIDENCE_DIGESTS = 32"
definition MAX_FEATURE_CONVEYOR_REVIEW_TRANSPORT_ATTEMPTS_PER_CANDIDATE :: nat where
  "MAX_FEATURE_CONVEYOR_REVIEW_TRANSPORT_ATTEMPTS_PER_CANDIDATE = 3"
definition MAX_FEATURE_CONVEYOR_REVIEW_CALLS_PER_FEATURE :: nat where
  "MAX_FEATURE_CONVEYOR_REVIEW_CALLS_PER_FEATURE = 12"

section \<open>The request\<close>

record review_request =
  rq_schema_version :: nat
  rq_review_call_id :: uuid
  rq_feature_id :: uuid
  rq_specification_revision :: nat
  rq_expected_lifecycle_revision :: nat
  rq_feature_lease_id :: uuid
  rq_integration_id :: uuid
  rq_validation_id :: uuid
  rq_candidate_commit :: string
  rq_candidate_tree :: string
  rq_base_commit :: string
  rq_candidate_diff_sha256 :: digest
  rq_evidence_manifest_sha256 :: digest
  rq_review_packet_sha256 :: digest
  rq_provider_id :: string
  rq_model_id :: string
  rq_expected_queue_revision :: nat
  rq_expected_emergency_pause_revision :: nat
  rq_grants :: grant_revisions

definition review_request_json :: "codec \<Rightarrow> review_request \<Rightarrow> json" where
  "review_request_json cx r = JObject
     [(''schema_version'', number_json (rq_schema_version r)),
      (''review_call_id'', JString (uuid_text cx (rq_review_call_id r))),
      (''feature_id'', JString (uuid_text cx (rq_feature_id r))),
      (''specification_revision'', number_json (rq_specification_revision r)),
      (''expected_lifecycle_revision'', number_json (rq_expected_lifecycle_revision r)),
      (''feature_lease_id'', JString (uuid_text cx (rq_feature_lease_id r))),
      (''integration_id'', JString (uuid_text cx (rq_integration_id r))),
      (''validation_id'', JString (uuid_text cx (rq_validation_id r))),
      (''candidate_commit'', JString (rq_candidate_commit r)),
      (''candidate_tree'', JString (rq_candidate_tree r)),
      (''base_commit'', JString (rq_base_commit r)),
      (''candidate_diff_sha256'', digest_json (rq_candidate_diff_sha256 r)),
      (''evidence_manifest_sha256'', digest_json (rq_evidence_manifest_sha256 r)),
      (''review_packet_sha256'', digest_json (rq_review_packet_sha256 r)),
      (''provider_id'', JString (rq_provider_id r)),
      (''model_id'', JString (rq_model_id r)),
      (''expected_queue_revision'', number_json (rq_expected_queue_revision r)),
      (''expected_emergency_pause_revision'', number_json (rq_expected_emergency_pause_revision r)),
      (''grants'', grants_json (rq_grants r))]"

text \<open>The provider and the model of a request, an output or a packet.\<close>

definition validate_provider_and_model :: "string \<Rightarrow> string \<Rightarrow> unit validated" where
  "validate_provider_and_model provider model =
     bindE (validate_identifier ''provider_id'' provider MAX_FEATURE_CONVEYOR_IDENTIFIER_BYTES) (\<lambda>_.
     validate_identifier ''model_id'' model MAX_FEATURE_CONVEYOR_IDENTIFIER_BYTES)"

definition validate_review_request :: "codec \<Rightarrow> review_request \<Rightarrow> unit validated" where
  "validate_review_request cx r =
     bindE (reject_if InvalidFeatureConveyorOwnerControl
       (rq_schema_version r \<noteq> FEATURE_CONVEYOR_REVIEW_GATEWAY_SCHEMA_VERSION
        \<or> rq_review_call_id r = 0 \<or> rq_feature_id r = 0 \<or> rq_feature_lease_id r = 0
        \<or> rq_integration_id r = 0 \<or> rq_validation_id r = 0
        \<or> rq_specification_revision r = 0 \<or> rq_expected_lifecycle_revision r = 0
        \<or> rq_candidate_diff_sha256 r = 0 \<or> rq_evidence_manifest_sha256 r = 0
        \<or> rq_review_packet_sha256 r = 0 \<or> missing_grant (rq_grants r))) (\<lambda>_.
     bindE (validate_git_commit (rq_candidate_commit r)) (\<lambda>_.
     bindE (validate_git_commit (rq_candidate_tree r)) (\<lambda>_.
     bindE (validate_git_commit (rq_base_commit r)) (\<lambda>_.
     bindE (validate_provider_and_model (rq_provider_id r) (rq_model_id r)) (\<lambda>_.
     validate_struct_limit cx ''feature_conveyor_review_gateway_request''
       (review_request_json cx r) MAX_FEATURE_CONVEYOR_OWNER_CONTROL_REQUEST_BYTES)))))"

definition decode_review_request ::
    "codec \<Rightarrow> (json \<Rightarrow> review_request option) \<Rightarrow> string \<Rightarrow> review_request validated" where
  "decode_review_request cx decode frame =
     decode_gate_frame cx ''feature_conveyor_review_gateway_request'' decode frame
       (validate_review_request cx)"

definition review_request_binding_sha256 :: "codec \<Rightarrow> review_request \<Rightarrow> digest validated" where
  "review_request_binding_sha256 cx r =
     bindE (validate_review_request cx r) (\<lambda>_.
     Inr (binding_digest cx ''assemblywright.review-request-binding.v1'' (review_request_json cx r)))"

section \<open>The provider's output\<close>

datatype review_verdict = VerdictApproved | VerdictRejected
datatype coverage_status = RequirementCovered | RequirementUncovered
datatype knowledge_determination = KbUpdated | KbNoNewKnowledge | KbUpdateRequired

fun verdict_text :: "review_verdict \<Rightarrow> string" where
  "verdict_text VerdictApproved = ''approved''"
| "verdict_text VerdictRejected = ''rejected''"

fun coverage_text :: "coverage_status \<Rightarrow> string" where
  "coverage_text RequirementCovered = ''covered''"
| "coverage_text RequirementUncovered = ''uncovered''"

fun knowledge_text :: "knowledge_determination \<Rightarrow> string" where
  "knowledge_text KbUpdated = ''updated''"
| "knowledge_text KbNoNewKnowledge = ''no_new_knowledge''"
| "knowledge_text KbUpdateRequired = ''update_required''"

record review_finding =
  fg_finding_id :: string
  fg_requirement_id :: string
  fg_evidence_sha256 :: digest

definition finding_json :: "review_finding \<Rightarrow> json" where
  "finding_json f = JObject
     [(''finding_id'', JString (fg_finding_id f)), (''requirement_id'', JString (fg_requirement_id f)),
      (''evidence_sha256'', digest_json (fg_evidence_sha256 f))]"

definition validate_finding :: "review_finding \<Rightarrow> unit validated" where
  "validate_finding f =
     bindE (validate_identifier ''finding_id'' (fg_finding_id f) 128) (\<lambda>_.
     bindE (validate_identifier ''requirement_id'' (fg_requirement_id f) 128) (\<lambda>_.
     reject_if InvalidFeatureConveyorOwnerControl (fg_evidence_sha256 f = 0)))"

record requirement_coverage =
  cv_requirement_id :: string
  cv_status :: coverage_status
  cv_evidence_sha256 :: digest

definition coverage_json :: "requirement_coverage \<Rightarrow> json" where
  "coverage_json c = JObject
     [(''requirement_id'', JString (cv_requirement_id c)), (''status'', JString (coverage_text (cv_status c))),
      (''evidence_sha256'', digest_json (cv_evidence_sha256 c))]"

definition validate_coverage :: "requirement_coverage \<Rightarrow> unit validated" where
  "validate_coverage c =
     bindE (validate_identifier ''requirement_id'' (cv_requirement_id c) 128) (\<lambda>_.
     reject_if InvalidFeatureConveyorOwnerControl (cv_evidence_sha256 c = 0))"

record review_output =
  rv_schema_version :: nat
  rv_review_packet_sha256 :: digest
  rv_provider_id :: string
  rv_model_id :: string
  rv_decision :: review_verdict
  rv_blocking_findings :: "review_finding list"
  rv_non_blocking_findings :: "review_finding list"
  rv_requirement_coverage :: "requirement_coverage list"
  rv_evidence_digests :: "digest list"
  rv_knowledge_base_determination :: knowledge_determination
  rv_knowledge_base_evidence_sha256 :: digest

definition review_output_json :: "review_output \<Rightarrow> json" where
  "review_output_json r = JObject
     [(''schema_version'', number_json (rv_schema_version r)),
      (''review_packet_sha256'', digest_json (rv_review_packet_sha256 r)),
      (''provider_id'', JString (rv_provider_id r)),
      (''model_id'', JString (rv_model_id r)),
      (''decision'', JString (verdict_text (rv_decision r))),
      (''blocking_findings'', JArray (map finding_json (rv_blocking_findings r))),
      (''non_blocking_findings'', JArray (map finding_json (rv_non_blocking_findings r))),
      (''requirement_coverage'', JArray (map coverage_json (rv_requirement_coverage r))),
      (''evidence_digests'', JArray (map digest_json (rv_evidence_digests r))),
      (''knowledge_base_determination'', JString (knowledge_text (rv_knowledge_base_determination r))),
      (''knowledge_base_evidence_sha256'', digest_json (rv_knowledge_base_evidence_sha256 r))]"

text \<open>A loop that validates each item and refuses a repeated key.\<close>

definition check_unique ::
    "('a \<Rightarrow> unit validated) \<Rightarrow> ('a \<Rightarrow> string) \<Rightarrow> 'a \<Rightarrow> string list \<Rightarrow> string list validated" where
  "check_unique validate key x seen =
     bindE (validate x) (\<lambda>_.
     bindE (reject_if InvalidFeatureConveyorOwnerControl (key x \<in> set seen)) (\<lambda>_.
     Inr (key x # seen)))"

definition bad_evidence_digests :: "digest list \<Rightarrow> bool" where
  "bad_evidence_digests digests = (0 \<in> set digests \<or> \<not> distinct digests)"

definition has_uncovered :: "review_output \<Rightarrow> bool" where
  "has_uncovered r = list_ex (\<lambda>c. cv_status c = RequirementUncovered) (rv_requirement_coverage r)"

text \<open>An approval with something open, or a rejection without anything open.\<close>

definition inconsistent_verdict :: "review_output \<Rightarrow> bool" where
  "inconsistent_verdict r =
     (case rv_decision r of
        VerdictApproved \<Rightarrow>
          rv_blocking_findings r \<noteq> [] \<or> has_uncovered r
          \<or> rv_knowledge_base_determination r = KbUpdateRequired
      | VerdictRejected \<Rightarrow> rv_blocking_findings r = [] \<and> \<not> has_uncovered r)"

definition validate_review_output :: "codec \<Rightarrow> review_output \<Rightarrow> unit validated" where
  "validate_review_output cx r =
     bindE (reject_if InvalidFeatureConveyorOwnerControl
       (rv_schema_version r \<noteq> FEATURE_CONVEYOR_REVIEW_GATEWAY_SCHEMA_VERSION
        \<or> rv_review_packet_sha256 r = 0 \<or> rv_knowledge_base_evidence_sha256 r = 0
        \<or> length (rv_blocking_findings r) > MAX_FEATURE_CONVEYOR_REVIEW_FINDINGS
        \<or> length (rv_non_blocking_findings r) > MAX_FEATURE_CONVEYOR_REVIEW_FINDINGS
        \<or> rv_requirement_coverage r = []
        \<or> length (rv_requirement_coverage r) > MAX_FEATURE_CONVEYOR_REVIEW_REQUIREMENT_COVERAGE
        \<or> rv_evidence_digests r = []
        \<or> length (rv_evidence_digests r) > MAX_FEATURE_CONVEYOR_REVIEW_EVIDENCE_DIGESTS)) (\<lambda>_.
     bindE (validate_provider_and_model (rv_provider_id r) (rv_model_id r)) (\<lambda>_.
     bindE (forE (check_unique validate_finding fg_finding_id)
       (rv_blocking_findings r @ rv_non_blocking_findings r) []) (\<lambda>_.
     bindE (forE (check_unique validate_coverage cv_requirement_id) (rv_requirement_coverage r) []) (\<lambda>_.
     bindE (reject_if InvalidFeatureConveyorOwnerControl (bad_evidence_digests (rv_evidence_digests r))) (\<lambda>_.
     bindE (reject_if InvalidFeatureConveyorOwnerControl (inconsistent_verdict r)) (\<lambda>_.
     validate_struct_limit cx ''feature_conveyor_review_provider_output'' (review_output_json r)
       MAX_FEATURE_CONVEYOR_REVIEW_OUTPUT_BYTES))))))"

definition decode_review_output ::
    "codec \<Rightarrow> (json \<Rightarrow> review_output option) \<Rightarrow> string \<Rightarrow> review_output validated" where
  "decode_review_output cx decode frame =
     decode_strict_and_validate_frame cx ''feature_conveyor_review_provider_output'' decode frame
       MAX_FEATURE_CONVEYOR_REVIEW_OUTPUT_BYTES (validate_review_output cx)"

section \<open>The packet\<close>

record review_packet =
  rp_schema_version :: nat
  rp_feature_id :: uuid
  rp_specification_revision :: nat
  rp_approved_specification :: json
  rp_approved_specification_sha256 :: digest
  rp_candidate_commit :: string
  rp_candidate_tree :: string
  rp_base_commit :: string
  rp_candidate_diff :: string
  rp_candidate_diff_sha256 :: digest
  rp_evidence_manifest_sha256 :: digest
  rp_evidence_digests :: "digest list"
  rp_requirements_sha256 :: digest
  rp_requirement_ids :: "string list"
  rp_provider_id :: string
  rp_model_id :: string
  rp_grants :: grant_revisions

definition review_packet_json :: "codec \<Rightarrow> review_packet \<Rightarrow> json" where
  "review_packet_json cx p = JObject
     [(''schema_version'', number_json (rp_schema_version p)),
      (''feature_id'', JString (uuid_text cx (rp_feature_id p))),
      (''specification_revision'', number_json (rp_specification_revision p)),
      (''approved_specification'', rp_approved_specification p),
      (''approved_specification_sha256'', digest_json (rp_approved_specification_sha256 p)),
      (''candidate_commit'', JString (rp_candidate_commit p)),
      (''candidate_tree'', JString (rp_candidate_tree p)),
      (''base_commit'', JString (rp_base_commit p)),
      (''candidate_diff'', JString (rp_candidate_diff p)),
      (''candidate_diff_sha256'', digest_json (rp_candidate_diff_sha256 p)),
      (''evidence_manifest_sha256'', digest_json (rp_evidence_manifest_sha256 p)),
      (''evidence_digests'', JArray (map digest_json (rp_evidence_digests p))),
      (''requirements_sha256'', digest_json (rp_requirements_sha256 p)),
      (''requirement_ids'', JArray (map JString (rp_requirement_ids p))),
      (''provider_id'', JString (rp_provider_id p)),
      (''model_id'', JString (rp_model_id p)),
      (''grants'', grants_json (rp_grants p))]"

definition validate_requirement_id :: "string \<Rightarrow> unit validated" where
  "validate_requirement_id i = validate_identifier ''requirement_id'' i 128"

definition validate_review_packet :: "codec \<Rightarrow> review_packet \<Rightarrow> unit validated" where
  "validate_review_packet cx p =
     bindE (reject_if InvalidFeatureConveyorOwnerControl
       (rp_schema_version p \<noteq> FEATURE_CONVEYOR_REVIEW_GATEWAY_SCHEMA_VERSION
        \<or> rp_feature_id p = 0 \<or> rp_specification_revision p = 0
        \<or> rp_approved_specification_sha256 p = 0 \<or> rp_candidate_diff_sha256 p = 0
        \<or> rp_evidence_manifest_sha256 p = 0 \<or> rp_requirements_sha256 p = 0
        \<or> rp_requirement_ids p = []
        \<or> length (rp_requirement_ids p) > MAX_FEATURE_CONVEYOR_REVIEW_REQUIREMENT_COVERAGE
        \<or> rp_evidence_digests p = []
        \<or> length (rp_evidence_digests p) > MAX_FEATURE_CONVEYOR_REVIEW_EVIDENCE_DIGESTS
        \<or> missing_grant (rp_grants p))) (\<lambda>_.
     bindE (validate_object ''approved_specification'' (rp_approved_specification p)) (\<lambda>_.
     bindE (reject_if InvalidFeatureConveyorOwnerControl
       (sha256 cx (canonical_json_bytes (quote_json cx) (rp_approved_specification p))
          \<noteq> rp_approved_specification_sha256 p
        \<or> sha256 cx (rp_candidate_diff p) \<noteq> rp_candidate_diff_sha256 p)) (\<lambda>_.
     bindE (validate_git_commit (rp_candidate_commit p)) (\<lambda>_.
     bindE (validate_git_commit (rp_candidate_tree p)) (\<lambda>_.
     bindE (validate_git_commit (rp_base_commit p)) (\<lambda>_.
     bindE (validate_provider_and_model (rp_provider_id p) (rp_model_id p)) (\<lambda>_.
     bindE (reject_if InvalidFeatureConveyorOwnerControl (bad_evidence_digests (rp_evidence_digests p))) (\<lambda>_.
     bindE (forE (check_unique validate_requirement_id (\<lambda>i. i)) (rp_requirement_ids p) []) (\<lambda>_.
     validate_struct_limit cx ''feature_conveyor_review_packet'' (review_packet_json cx p)
       MAX_FEATURE_CONVEYOR_REVIEW_PACKET_BYTES)))))))))"

definition decode_review_packet ::
    "codec \<Rightarrow> (json \<Rightarrow> review_packet option) \<Rightarrow> string \<Rightarrow> review_packet validated" where
  "decode_review_packet cx decode frame =
     decode_strict_and_validate_frame cx ''feature_conveyor_review_packet'' decode frame
       MAX_FEATURE_CONVEYOR_REVIEW_PACKET_BYTES (validate_review_packet cx)"

definition review_packet_sha256 :: "codec \<Rightarrow> review_packet \<Rightarrow> digest validated" where
  "review_packet_sha256 cx p =
     bindE (validate_review_packet cx p) (\<lambda>_.
     Inr (sha256 cx (canonical_json_bytes (quote_json cx) (review_packet_json cx p))))"

section \<open>The receipt\<close>

datatype review_status = ReviewApproved | ReviewRejected

record review_receipt =
  rk_schema_version :: nat
  rk_review_call_id :: uuid
  rk_feature_id :: uuid
  rk_specification_revision :: nat
  rk_lifecycle_revision :: nat
  rk_feature_lease_id :: uuid
  rk_integration_id :: uuid
  rk_validation_id :: uuid
  rk_candidate_commit :: string
  rk_candidate_diff_sha256 :: digest
  rk_evidence_manifest_sha256 :: digest
  rk_review_packet_sha256 :: digest
  rk_provider_id :: string
  rk_model_id :: string
  rk_candidate_attempt :: nat
  rk_feature_call :: nat
  rk_decision_sha256 :: digest
  rk_queue_revision :: nat
  rk_emergency_pause_revision :: nat
  rk_grants :: grant_revisions
  rk_status :: review_status

definition review_receipt_json :: "codec \<Rightarrow> review_receipt \<Rightarrow> json" where
  "review_receipt_json cx r = JObject
     [(''schema_version'', number_json (rk_schema_version r)),
      (''review_call_id'', JString (uuid_text cx (rk_review_call_id r))),
      (''feature_id'', JString (uuid_text cx (rk_feature_id r))),
      (''specification_revision'', number_json (rk_specification_revision r)),
      (''lifecycle_revision'', number_json (rk_lifecycle_revision r)),
      (''feature_lease_id'', JString (uuid_text cx (rk_feature_lease_id r))),
      (''integration_id'', JString (uuid_text cx (rk_integration_id r))),
      (''validation_id'', JString (uuid_text cx (rk_validation_id r))),
      (''candidate_commit'', JString (rk_candidate_commit r)),
      (''candidate_diff_sha256'', digest_json (rk_candidate_diff_sha256 r)),
      (''evidence_manifest_sha256'', digest_json (rk_evidence_manifest_sha256 r)),
      (''review_packet_sha256'', digest_json (rk_review_packet_sha256 r)),
      (''provider_id'', JString (rk_provider_id r)),
      (''model_id'', JString (rk_model_id r)),
      (''candidate_attempt'', number_json (rk_candidate_attempt r)),
      (''feature_call'', number_json (rk_feature_call r)),
      (''decision_sha256'', digest_json (rk_decision_sha256 r)),
      (''queue_revision'', number_json (rk_queue_revision r)),
      (''emergency_pause_revision'', number_json (rk_emergency_pause_revision r)),
      (''grants'', grants_json (rk_grants r)),
      (''status'', JString (case rk_status r of ReviewApproved \<Rightarrow> ''approved'' | ReviewRejected \<Rightarrow> ''rejected''))]"

definition validate_review_receipt :: "codec \<Rightarrow> review_receipt \<Rightarrow> unit validated" where
  "validate_review_receipt cx r =
     bindE (reject_if InvalidFeatureConveyorOwnerControl
       (rk_schema_version r \<noteq> FEATURE_CONVEYOR_REVIEW_GATEWAY_SCHEMA_VERSION
        \<or> rk_review_call_id r = 0 \<or> rk_feature_id r = 0 \<or> rk_feature_lease_id r = 0
        \<or> rk_integration_id r = 0 \<or> rk_validation_id r = 0
        \<or> rk_specification_revision r = 0 \<or> rk_lifecycle_revision r = 0
        \<or> rk_candidate_diff_sha256 r = 0 \<or> rk_evidence_manifest_sha256 r = 0
        \<or> rk_review_packet_sha256 r = 0 \<or> rk_decision_sha256 r = 0 \<or> missing_grant (rk_grants r)
        \<or> rk_candidate_attempt r < 1
        \<or> rk_candidate_attempt r > MAX_FEATURE_CONVEYOR_REVIEW_TRANSPORT_ATTEMPTS_PER_CANDIDATE
        \<or> rk_feature_call r < 1 \<or> rk_feature_call r > MAX_FEATURE_CONVEYOR_REVIEW_CALLS_PER_FEATURE)) (\<lambda>_.
     bindE (validate_git_commit (rk_candidate_commit r)) (\<lambda>_.
     bindE (validate_provider_and_model (rk_provider_id r) (rk_model_id r)) (\<lambda>_.
     validate_struct_limit cx ''feature_conveyor_review_gateway_receipt''
       (review_receipt_json cx r) MAX_FEATURE_CONVEYOR_OWNER_CONTROL_REQUEST_BYTES)))"

section \<open>What validation gives\<close>

lemma check_unique_step:
  "check_unique validate key x seen = Inr y \<longleftrightarrow> validate x = Inr () \<and> key x \<notin> set seen \<and> y = key x # seen"
  by (auto simp: check_unique_def bindE_Inr_iff reject_if_Inr_iff)

lemma check_unique_Inr:
  "forE (check_unique validate key) xs seen = Inr seen' \<Longrightarrow>
     distinct (map key xs) \<and> set (map key xs) \<inter> set seen = {} \<and> (\<forall>x \<in> set xs. validate x = Inr ())"
proof (induction xs arbitrary: seen)
  case (Cons x xs)
  from Cons.prems have x: "validate x = Inr ()" "key x \<notin> set seen"
    "forE (check_unique validate key) xs (key x # seen) = Inr seen'"
    by (simp_all add: bindE_Inr_iff check_unique_step)
  with Cons.IH [OF x(3)] show ?case by auto
qed simp

lemma validate_review_request_Inr:
  "validate_review_request cx r = Inr u \<Longrightarrow>
     rq_feature_id r \<noteq> 0 \<and> rq_review_call_id r \<noteq> 0 \<and> 0 < rq_expected_lifecycle_revision r"
  by (auto simp: validate_review_request_def result_simps)

lemma approval_is_clean:
  assumes "validate_review_output cx r = Inr u" and "rv_decision r = VerdictApproved"
  shows "rv_blocking_findings r = [] \<and> (\<forall>c \<in> set (rv_requirement_coverage r). cv_status c = RequirementCovered)
    \<and> rv_knowledge_base_determination r \<noteq> KbUpdateRequired"
proof -
  have covered: "s = RequirementCovered" if "s \<noteq> RequirementUncovered" for s using that by (cases s) simp_all
  from assms have "\<not> inconsistent_verdict r"
    unfolding validate_review_output_def bindE_Inr_iff reject_if_Inr_iff by blast
  with assms(2) show ?thesis by (auto simp: inconsistent_verdict_def has_uncovered_def list_ex_iff intro: covered)
qed

end
