(* ===== verification/Orchestration_Decision.thy ===== *)
theory Orchestration_Decision
  imports Orchestration_State Review_Messages
begin

text \<open>
  What the orchestrator decides and how it records it (\<^verbatim>\<open>assemblywright-master/src/lib.rs\<close>): the stage of
  a lifecycle status and back, \<^verbatim>\<open>derive_orchestration_decision_tx\<close> over the rows the gates have written,
  the checkpoint transcript and its digest, and the two ledger writes with the constraints of their
  tables. \<open>ORDER BY .. DESC LIMIT 1\<close> is \<open>newest\<close>: among rows that tie, which SQL leaves open, the first
  inserted.
\<close>

section \<open>Stages and statuses\<close>

fun stage_text :: "orchestration_stage \<Rightarrow> string" where
  "stage_text OsImplementing = ''implementing''"
| "stage_text OsValidating = ''validating''"
| "stage_text OsReviewing = ''reviewing''"
| "stage_text OsPublishing = ''publishing''"
| "stage_text OsVerifyingMain = ''verifying_main''"
| "stage_text OsRepairing = ''repairing''"
| "stage_text OsPaused = ''paused''"
| "stage_text OsAttentionRequired = ''attention_required''"
| "stage_text OsFailed = ''failed''"
| "stage_text OsSucceeded = ''succeeded''"
| "stage_text OsQuarantined = ''quarantined''"

fun action_text :: "orchestration_action \<Rightarrow> string" where
  "action_text OaInactive = ''inactive''"
| "action_text OaAwaitImplementationEvidence = ''await_implementation_evidence''"
| "action_text OaAwaitValidationEvidence = ''await_validation_evidence''"
| "action_text OaAwaitReviewDecision = ''await_review_decision''"
| "action_text OaRetryReviewTransport = ''retry_review_transport''"
| "action_text OaAwaitPublicationEvidence = ''await_publication_evidence''"
| "action_text OaAwaitMainVerification = ''await_main_verification''"
| "action_text OaReplacementCandidateRequired = ''replacement_candidate_required''"
| "action_text OaOwnerAttentionRequired = ''owner_attention_required''"
| "action_text OaReconcileQuarantine = ''reconcile_quarantine''"
| "action_text OaTerminal = ''terminal''"

fun reason_text :: "orchestration_reason \<Rightarrow> string" where
  "reason_text OnCapabilityInactive = ''capability_inactive''"
| "reason_text OnCheckpointEffectFree = ''checkpoint_effect_free''"
| "reason_text OnExistingEffectAmbiguous = ''existing_effect_ambiguous''"
| "reason_text OnValidationFailed = ''validation_failed''"
| "reason_text OnReviewRejected = ''review_rejected''"
| "reason_text OnReviewTransportBackoff = ''review_transport_backoff''"
| "reason_text OnReviewBudgetExhausted = ''review_budget_exhausted''"
| "reason_text OnPublicationFailed = ''publication_failed''"
| "reason_text OnReplacementCandidateContractUnavailable = ''replacement_candidate_contract_unavailable''"
| "reason_text OnRepairBudgetExhausted = ''repair_budget_exhausted''"
| "reason_text OnActiveProcessingBudgetExhausted = ''active_processing_budget_exhausted''"
| "reason_text OnCancelled = ''cancelled''"
| "reason_text OnFailed = ''failed''"
| "reason_text OnSucceeded = ''succeeded''"

fun pause_kind_text :: "pause_kind \<Rightarrow> string" where
  "pause_kind_text PkProvider = ''provider''"
| "pause_kind_text PkWorker = ''worker''"
| "pause_kind_text PkMaintenance = ''maintenance''"
| "pause_kind_text PkOwner = ''owner''"

fun stage_for_status :: "feature_status \<Rightarrow> orchestration_stage" where
  "stage_for_status FQueued = OsImplementing"
| "stage_for_status FImplementing = OsImplementing"
| "stage_for_status FValidating = OsValidating"
| "stage_for_status FReviewing = OsReviewing"
| "stage_for_status FPublishing = OsPublishing"
| "stage_for_status FVerifyingMain = OsVerifyingMain"
| "stage_for_status FRepairing = OsRepairing"
| "stage_for_status FPaused = OsPaused"
| "stage_for_status FAttentionRequired = OsAttentionRequired"
| "stage_for_status FFailed = OsFailed"
| "stage_for_status FCancelled = OsFailed"
| "stage_for_status FSucceeded = OsSucceeded"
| "stage_for_status FAbandoned = OsSucceeded"
| "stage_for_status FQuarantined = OsQuarantined"

fun status_for_stage :: "orchestration_stage \<Rightarrow> feature_status" where
  "status_for_stage OsImplementing = FImplementing"
| "status_for_stage OsValidating = FValidating"
| "status_for_stage OsReviewing = FReviewing"
| "status_for_stage OsPublishing = FPublishing"
| "status_for_stage OsVerifyingMain = FVerifyingMain"
| "status_for_stage OsRepairing = FRepairing"
| "status_for_stage OsPaused = FPaused"
| "status_for_stage OsAttentionRequired = FAttentionRequired"
| "status_for_stage OsFailed = FFailed"
| "status_for_stage OsSucceeded = FSucceeded"
| "status_for_stage OsQuarantined = FQuarantined"

fun action_for_stage :: "orchestration_stage \<Rightarrow> orchestration_action" where
  "action_for_stage OsImplementing = OaAwaitImplementationEvidence"
| "action_for_stage OsValidating = OaAwaitValidationEvidence"
| "action_for_stage OsReviewing = OaAwaitReviewDecision"
| "action_for_stage OsPublishing = OaAwaitPublicationEvidence"
| "action_for_stage OsVerifyingMain = OaAwaitMainVerification"
| "action_for_stage OsRepairing = OaReplacementCandidateRequired"
| "action_for_stage OsPaused = OaOwnerAttentionRequired"
| "action_for_stage OsAttentionRequired = OaOwnerAttentionRequired"
| "action_for_stage OsFailed = OaTerminal"
| "action_for_stage OsSucceeded = OaTerminal"
| "action_for_stage OsQuarantined = OaReconcileQuarantine"

section \<open>Decisions\<close>

record orchestration_decision =
  dc_stage :: orchestration_stage
  dc_action :: orchestration_action
  dc_reason :: orchestration_reason
  dc_pause_kind :: "pause_kind option"
  dc_next_retry_at_ms :: "nat option"
  dc_evidence_sha256 :: "digest option"
  dc_effect_possible :: bool

definition decided ::
    "orchestration_stage \<Rightarrow> orchestration_action \<Rightarrow> orchestration_reason \<Rightarrow> orchestration_decision" where
  "decided stage action reason =
     \<lparr>dc_stage = stage, dc_action = action, dc_reason = reason, dc_pause_kind = None,
      dc_next_retry_at_ms = None, dc_evidence_sha256 = None, dc_effect_possible = False\<rparr>"

definition ordinary :: "orchestration_stage \<Rightarrow> orchestration_action \<Rightarrow> orchestration_decision" where
  "ordinary stage action = decided stage action OnCheckpointEffectFree"

definition ambiguous_effect :: orchestration_decision where
  "ambiguous_effect =
     (decided OsQuarantined OaReconcileQuarantine OnExistingEffectAmbiguous)\<lparr>dc_effect_possible := True\<rparr>"

fun newest :: "('r \<Rightarrow> 'r \<Rightarrow> bool) \<Rightarrow> 'r list \<Rightarrow> 'r option" where
  "newest earlier [] = None"
| "newest earlier (r # rs) =
     (case newest earlier rs of
        None \<Rightarrow> Some r
      | Some q \<Rightarrow> if earlier r q then Some q else Some r)"

lemma newest_Some: "newest earlier rs = Some r \<Longrightarrow> r \<in> set rs"
  by (induction rs) (auto split: option.splits if_splits)

lemma newest_None [simp]: "newest earlier rs = None \<longleftrightarrow> rs = []"
  by (cases rs) (auto split: option.splits)

definition publication_ambiguous :: "uuid \<Rightarrow> kernel \<Rightarrow> gate_tables \<Rightarrow> bool" where
  "publication_ambiguous feature k g =
     exists_row (\<lambda>i. exists_row (\<lambda>p. pb_publication_id p = pi_publication_id i \<and> pb_feature_id p = feature)
           (k_publications k)
         \<and> \<not> exists_row (\<lambda>r. po_publication_id r = pi_publication_id i \<and> po_ordinal r = pi_ordinal i)
             (tb_publication_outcomes g)) (k_publication_intents k)"

definition calls_of :: "uuid \<Rightarrow> gate_tables \<Rightarrow> review_call_row list" where
  "calls_of feature g = filter (\<lambda>c. rc_feature_id c = feature) (tb_review_calls g)"

definition outcomes_of_call :: "review_call_row \<Rightarrow> gate_tables \<Rightarrow> review_outcome_row list" where
  "outcomes_of_call c g =
     filter (\<lambda>r. ro_review_call_id r = rc_review_call_id c) (tb_review_outcomes g)"

definition outcomes_of :: "uuid \<Rightarrow> gate_tables \<Rightarrow> review_outcome_row list" where
  "outcomes_of feature g = concat (map (\<lambda>c. outcomes_of_call c g) (calls_of feature g))"

definition review_ambiguous :: "uuid \<Rightarrow> gate_tables \<Rightarrow> bool" where
  "review_ambiguous feature g = list_ex (\<lambda>c. outcomes_of_call c g = []) (calls_of feature g)"

definition failed_completions :: "uuid \<Rightarrow> gate_tables \<Rightarrow> validation_completion_row list" where
  "failed_completions feature g =
     filter (\<lambda>c. \<not> vc_passed c
         \<and> exists_row (\<lambda>a. va_validation_id a = vc_validation_id c \<and> va_feature_id a = feature)
             (tb_validation_attempts g)) (tb_validation_completions g)"

definition decisions_of :: "uuid \<Rightarrow> gate_tables \<Rightarrow> review_decision_row list" where
  "decisions_of feature g = filter (\<lambda>d. rd_feature_id d = feature) (tb_review_decisions g)"

text \<open>\<^verbatim>\<open>ORDER BY feature_call DESC, started_at_ms DESC, review_call_id DESC\<close>.\<close>

definition earlier_call :: "review_call_row \<Rightarrow> review_call_row \<Rightarrow> bool" where
  "earlier_call c d =
     (rc_feature_call c < rc_feature_call d
      \<or> rc_feature_call c = rc_feature_call d
        \<and> (rc_started_at_ms c < rc_started_at_ms d
           \<or> rc_started_at_ms c = rc_started_at_ms d \<and> rc_review_call_id c < rc_review_call_id d))"

definition review_budget_exhausted :: "uuid \<Rightarrow> gate_tables \<Rightarrow> bool" where
  "review_budget_exhausted feature g =
     (case newest earlier_call (calls_of feature g) of
        None \<Rightarrow> False
      | Some latest \<Rightarrow>
          length (concat (map (\<lambda>c. outcomes_of_call c g)
              (filter (\<lambda>c. rc_candidate_commit c = rc_candidate_commit latest) (calls_of feature g))))
            \<ge> MAX_FEATURE_CONVEYOR_REVIEW_TRANSPORT_ATTEMPTS_PER_CANDIDATE
          \<or> length (outcomes_of feature g) \<ge> MAX_FEATURE_CONVEYOR_REVIEW_CALLS_PER_FEATURE)"

definition paused_decision :: "orchestration_row option \<Rightarrow> nat \<Rightarrow> master_error + orchestration_decision" where
  "paused_decision state now_ms =
     bindE (ok_or (InvalidStoredState ''paused lifecycle lacks orchestration state'') state) (\<lambda>state.
     if or_pause_kind state = Some PkProvider
        \<and> (case or_next_retry_at_ms state of None \<Rightarrow> False | Some retry \<Rightarrow> now_ms \<ge> retry)
     then bindE (ok_or (InvalidStoredState ''paused lifecycle lacks resume stage'')
            (or_resume_stage state)) (\<lambda>stage.
          Inr (ordinary stage OaRetryReviewTransport))
     else Inr ((decided OsPaused OaAwaitReviewDecision OnReviewTransportBackoff)
            \<lparr>dc_pause_kind := or_pause_kind state, dc_next_retry_at_ms := or_next_retry_at_ms state\<rparr>))"

definition validating_decision :: "uuid \<Rightarrow> gate_tables \<Rightarrow> orchestration_decision" where
  "validating_decision feature g =
     (case newest (\<lambda>c d. vc_completed_at_ms c < vc_completed_at_ms d) (failed_completions feature g) of
        Some failed \<Rightarrow>
          (decided OsRepairing OaReplacementCandidateRequired OnValidationFailed)
            \<lparr>dc_evidence_sha256 := Some (vc_evidence_manifest_sha256 failed)\<rparr>
      | None \<Rightarrow> ordinary OsValidating OaAwaitValidationEvidence)"

definition retry_decision :: "uuid \<Rightarrow> gate_tables \<Rightarrow> nat \<Rightarrow> orchestration_decision" where
  "retry_decision feature g now_ms =
     (case newest (\<lambda>c d. ro_completed_at_ms c < ro_completed_at_ms d)
             (filter (\<lambda>r. ro_next_retry_at_ms r \<noteq> None) (outcomes_of feature g)) of
        None \<Rightarrow> ordinary OsReviewing OaAwaitReviewDecision
      | Some outcome \<Rightarrow>
          if now_ms < the (ro_next_retry_at_ms outcome)
          then (decided OsPaused OaAwaitReviewDecision OnReviewTransportBackoff)
                 \<lparr>dc_pause_kind := Some PkProvider, dc_next_retry_at_ms := ro_next_retry_at_ms outcome,
                  dc_evidence_sha256 := Some (ro_outcome_sha256 outcome)\<rparr>
          else (ordinary OsReviewing OaRetryReviewTransport)
                 \<lparr>dc_evidence_sha256 := Some (ro_outcome_sha256 outcome)\<rparr>)"

definition reviewing_decision :: "uuid \<Rightarrow> gate_tables \<Rightarrow> nat \<Rightarrow> orchestration_decision" where
  "reviewing_decision feature g now_ms =
     (let rejected = (case newest (\<lambda>c d. rd_decided_at_ms c < rd_decided_at_ms d) (decisions_of feature g) of
            None \<Rightarrow> None
          | Some d \<Rightarrow> if rd_decision d = ''rejected'' then Some (rd_decision_sha256 d) else None) in
      case rejected of
        Some evidence \<Rightarrow>
          (decided OsRepairing OaReplacementCandidateRequired OnReviewRejected)
            \<lparr>dc_evidence_sha256 := Some evidence\<rparr>
      | None \<Rightarrow>
          if review_budget_exhausted feature g
          then decided OsAttentionRequired OaOwnerAttentionRequired OnReviewBudgetExhausted
          else retry_decision feature g now_ms)"

definition attention_decision :: orchestration_decision where
  "attention_decision =
     decided OsAttentionRequired OaOwnerAttentionRequired OnReplacementCandidateContractUnavailable"

definition terminal_decision :: "feature_status \<Rightarrow> orchestration_decision" where
  "terminal_decision status =
     (decided OsFailed OaTerminal (if status = FCancelled then OnCancelled else OnFailed))
       \<lparr>dc_effect_possible := True\<rparr>"

definition derive_orchestration_decision ::
    "uuid \<Rightarrow> feature_status \<Rightarrow> orchestration_row option \<Rightarrow> nat \<Rightarrow> kernel
      \<Rightarrow> gate_tables \<Rightarrow> master_error + orchestration_decision" where
  "derive_orchestration_decision feature status state now_ms k g =
     (if status \<in> {FPublishing, FVerifyingMain} \<and> publication_ambiguous feature k g
      then Inr ambiguous_effect
      else if status = FReviewing \<and> review_ambiguous feature g then Inr ambiguous_effect
      else case status of
        FPaused \<Rightarrow> paused_decision state now_ms
      | FImplementing \<Rightarrow> Inr (ordinary OsImplementing OaAwaitImplementationEvidence)
      | FValidating \<Rightarrow> Inr (validating_decision feature g)
      | FReviewing \<Rightarrow> Inr (reviewing_decision feature g now_ms)
      | FPublishing \<Rightarrow> Inr (ordinary OsPublishing OaAwaitPublicationEvidence)
      | FVerifyingMain \<Rightarrow> Inr (ordinary OsVerifyingMain OaAwaitMainVerification)
      | FRepairing \<Rightarrow> Inr attention_decision
      | FAttentionRequired \<Rightarrow> Inr attention_decision
      | FFailed \<Rightarrow> Inr (terminal_decision status)
      | FCancelled \<Rightarrow> Inr (terminal_decision status)
      | FSucceeded \<Rightarrow> Inr (decided OsSucceeded OaTerminal OnSucceeded)
      | FAbandoned \<Rightarrow> Inr (decided OsSucceeded OaTerminal OnSucceeded)
      | FQuarantined \<Rightarrow> Inr ambiguous_effect
      | FQueued \<Rightarrow> Inl InvalidFeatureTransition)"

section \<open>Checkpoints\<close>

definition checkpoint_transcript ::
    "uuid \<Rightarrow> nat \<Rightarrow> nat \<Rightarrow> orchestration_decision \<Rightarrow> nat \<Rightarrow> nat \<Rightarrow> string" where
  "checkpoint_transcript feature orchestration_revision lifecycle_revision d candidates active_ms =
     ''assemblywright.orchestration-checkpoint.v1'' @ [CHR 0x00]
     @ uuid_bytes feature
     @ be_bytes 8 orchestration_revision
     @ be_bytes 8 lifecycle_revision
     @ stage_text (dc_stage d) @ [CHR 0x00]
     @ action_text (dc_action d) @ [CHR 0x00]
     @ reason_text (dc_reason d)
     @ be_bytes 1 candidates
     @ be_bytes 8 active_ms
     @ be_bytes 1 (if dc_effect_possible d then 1 else 0)
     @ (case dc_pause_kind d of None \<Rightarrow> [] | Some kind \<Rightarrow> pause_kind_text kind)
     @ be_bytes 8 (case dc_next_retry_at_ms d of None \<Rightarrow> 0 | Some retry \<Rightarrow> retry)
     @ digest_bytes (case dc_evidence_sha256 d of None \<Rightarrow> 0 | Some evidence \<Rightarrow> evidence)"

definition orchestration_checkpoint_sha256 ::
    "codec \<Rightarrow> uuid \<Rightarrow> nat \<Rightarrow> nat \<Rightarrow> orchestration_decision \<Rightarrow> nat \<Rightarrow> nat \<Rightarrow> digest" where
  "orchestration_checkpoint_sha256 cx feature orchestration_revision lifecycle_revision d candidates active_ms =
     sha256 cx (checkpoint_transcript feature orchestration_revision lifecycle_revision d candidates active_ms)"

definition checkpoint_of ::
    "codec \<Rightarrow> uuid \<Rightarrow> nat \<Rightarrow> nat \<Rightarrow> orchestration_decision \<Rightarrow> nat \<Rightarrow> nat \<Rightarrow> nat \<Rightarrow> checkpoint_row" where
  "checkpoint_of cx feature orchestration_revision lifecycle_revision d candidates active_ms now_ms =
     (let digest = orchestration_checkpoint_sha256 cx feature orchestration_revision lifecycle_revision d
            candidates active_ms in
      \<lparr>ck_checkpoint_id = orchestration_checkpoint_id digest, ck_feature_id = feature,
       ck_orchestration_revision = orchestration_revision, ck_lifecycle_revision = lifecycle_revision,
       ck_stage = dc_stage d, ck_action = dc_action d, ck_reason = dc_reason d,
       ck_checkpoint_sha256 = digest, ck_evidence_sha256 = dc_evidence_sha256 d,
       ck_replacement_candidates_used = candidates, ck_active_processing_ms = active_ms,
       ck_effect_possible = dc_effect_possible d, ck_recorded_at_ms = now_ms\<rparr>)"

text \<open>\<^verbatim>\<open>INSERT INTO feature_orchestration_checkpoints\<close>, with the table's keys and checks.\<close>

definition insert_checkpoint :: "checkpoint_row \<Rightarrow> kernel \<Rightarrow> master_error + kernel" where
  "insert_checkpoint c k =
     bindE (to_i64 (ck_orchestration_revision c)) (\<lambda>_.
     bindE (to_i64 (ck_lifecycle_revision c)) (\<lambda>_.
     bindE (to_i64 (ck_active_processing_ms c)) (\<lambda>_.
     bindE (to_i64 (ck_recorded_at_ms c)) (\<lambda>_.
     bindE (reject_if Storage
       (exists_row (\<lambda>d. ck_checkpoint_id d = ck_checkpoint_id c
            \<or> ck_checkpoint_sha256 d = ck_checkpoint_sha256 c
            \<or> ck_feature_id d = ck_feature_id c
              \<and> ck_orchestration_revision d = ck_orchestration_revision c) (k_checkpoints k)
        \<or> ck_orchestration_revision c = 0 \<or> ck_lifecycle_revision c = 0 \<or> ck_recorded_at_ms c = 0
        \<or> ck_replacement_candidates_used c > 3
        \<or> ck_active_processing_ms c > MAX_FEATURE_CONVEYOR_ACTIVE_PROCESSING_MS)) (\<lambda>_.
     Inr (k\<lparr>k_checkpoints := insert_row c (k_checkpoints k)\<rparr>))))))"

definition resumable_stage :: "orchestration_stage \<Rightarrow> bool" where
  "resumable_stage stage =
     (stage \<in> {OsImplementing, OsValidating, OsReviewing, OsPublishing, OsVerifyingMain, OsRepairing})"

text \<open>The \<^verbatim>\<open>CHECK\<close>s of \<^verbatim>\<open>feature_orchestration_state\<close>.\<close>

definition orchestration_row_valid :: "orchestration_row \<Rightarrow> bool" where
  "orchestration_row_valid r =
     (0 < or_orchestration_revision r
      \<and> (case or_resume_stage r of None \<Rightarrow> True | Some stage \<Rightarrow> resumable_stage stage)
      \<and> or_replacement_candidates_used r \<le> 3
      \<and> or_active_processing_ms r \<le> MAX_FEATURE_CONVEYOR_ACTIVE_PROCESSING_MS
      \<and> or_clock_started_at_ms r \<noteq> Some 0 \<and> or_next_retry_at_ms r \<noteq> Some 0
      \<and> 0 < or_updated_at_ms r
      \<and> (or_stage r = OsPaused) = (or_pause_kind r \<noteq> None)
      \<and> (or_stage r = OsPaused) = (or_resume_stage r \<noteq> None)
      \<and> (or_stage r = OsPaused \<or> or_next_retry_at_ms r = None))"

definition find_orchestration :: "uuid \<Rightarrow> kernel \<Rightarrow> orchestration_row option" where
  "find_orchestration feature k = find_row (\<lambda>r. or_feature_id r = feature) (k_orchestration k)"

definition load_orchestration_state :: "uuid \<Rightarrow> kernel \<Rightarrow> master_error + orchestration_row option" where
  "load_orchestration_state feature k =
     (case find_orchestration feature k of
        None \<Rightarrow> Inr None
      | Some r \<Rightarrow>
          bindE (reject_if (InvalidStoredState ''invalid orchestration repair count'')
            (or_replacement_candidates_used r > 255)) (\<lambda>_. Inr (Some r)))"

definition load_orchestration_checkpoint :: "uuid \<Rightarrow> kernel \<Rightarrow> master_error + checkpoint_row" where
  "load_orchestration_checkpoint i k =
     ok_or (InvalidStoredState ''orchestration checkpoint is missing'')
       (find_row (\<lambda>c. ck_checkpoint_id c = i) (k_checkpoints k))"

text \<open>
  Storing the row of a feature: \<^verbatim>\<open>UPDATE .. WHERE feature_id AND orchestration_revision\<close>, or the upsert
  that inserts it when there is none, with the table's \<^verbatim>\<open>CHECK\<close>s and the unique checkpoint.
\<close>

definition orchestration_row_storable :: "orchestration_row \<Rightarrow> kernel \<Rightarrow> bool" where
  "orchestration_row_storable r k =
     (orchestration_row_valid r
      \<and> \<not> exists_row (\<lambda>q. or_feature_id q \<noteq> or_feature_id r \<and> or_checkpoint_id q = or_checkpoint_id r)
            (k_orchestration k))"

definition update_orchestration :: "nat \<Rightarrow> orchestration_row \<Rightarrow> kernel \<Rightarrow> master_error + kernel" where
  "update_orchestration expected r k =
     bindE (to_i64 (or_orchestration_revision r)) (\<lambda>_.
     bindE (to_i64 (or_active_processing_ms r)) (\<lambda>_.
     bindE (case or_clock_started_at_ms r of None \<Rightarrow> Inr () | Some t \<Rightarrow> to_i64 t) (\<lambda>_.
     bindE (case or_next_retry_at_ms r of None \<Rightarrow> Inr () | Some t \<Rightarrow> to_i64 t) (\<lambda>_.
     bindE (to_i64 (or_updated_at_ms r)) (\<lambda>_.
     bindE (reject_if Storage (\<not> orchestration_row_storable r k)) (\<lambda>_.
     Inr (k\<lparr>k_orchestration := update_rows
            (\<lambda>q. or_feature_id q = or_feature_id r \<and> or_orchestration_revision q = expected)
            (\<lambda>q. r) (k_orchestration k)\<rparr>)))))))"

definition upsert_orchestration :: "nat \<Rightarrow> orchestration_row \<Rightarrow> kernel \<Rightarrow> master_error + kernel" where
  "upsert_orchestration expected r k =
     bindE (update_orchestration expected r k) (\<lambda>updated.
     if exists_row (\<lambda>q. or_feature_id q = or_feature_id r) (k_orchestration k) then Inr updated
     else Inr (k\<lparr>k_orchestration := insert_row r (k_orchestration k)\<rparr>))"

definition orchestration_projection_of ::
    "uuid \<Rightarrow> orchestration_row \<Rightarrow> checkpoint_row \<Rightarrow> orchestration_projection" where
  "orchestration_projection_of feature state checkpoint =
     \<lparr>pr_schema_version = FEATURE_CONVEYOR_ORCHESTRATION_SCHEMA_VERSION, pr_feature_id = feature,
      pr_lifecycle_revision = ck_lifecycle_revision checkpoint,
      pr_orchestration_revision = or_orchestration_revision state,
      pr_stage = ck_stage checkpoint, pr_action = ck_action checkpoint, pr_reason = ck_reason checkpoint,
      pr_checkpoint_id = ck_checkpoint_id checkpoint,
      pr_checkpoint_sha256 = ck_checkpoint_sha256 checkpoint,
      pr_replacement_candidates_used = or_replacement_candidates_used state,
      pr_active_processing_ms = or_active_processing_ms state,
      pr_active_processing_budget_ms = MAX_FEATURE_CONVEYOR_ACTIVE_PROCESSING_MS,
      pr_pause_kind = or_pause_kind state, pr_next_retry_at_ms = or_next_retry_at_ms state,
      pr_effect_possible = or_effect_possible state, pr_activated = True\<rparr>"

end
