(* ===== verification/Orchestration_Control.thy ===== *)
theory Orchestration_Control
  imports Orchestration_Decision
begin

text \<open>
  The two transitions of the orchestration ledger (\<^verbatim>\<open>assemblywright-master/src/lib.rs\<close>): the owner's
  pause and resume (\<^verbatim>\<open>owner_control_feature_orchestration\<close>) and \<^verbatim>\<open>coordinate_feature_orchestration\<close>,
  which derives the next stage from the gates' rows, charges active time and records a checkpoint.
\<close>

section \<open>Owner pause and resume\<close>

definition control_request_sha256 :: "codec \<Rightarrow> string \<Rightarrow> control_request \<Rightarrow> digest" where
  "control_request_sha256 cx action r =
     sha256 cx (''assemblywright.owner-orchestration-control.v1'' @ [CHR 0x00] @ action @ [CHR 0x00]
       @ compact_json_bytes (quote_json cx) (control_request_json cx r))"

definition control_status_of :: "string \<Rightarrow> master_error + control_status" where
  "control_status_of action =
     (if action = ''pause'' then Inr CsPaused
      else if action = ''resume'' then Inr CsResumed
      else Inl (InvalidStoredState ''unknown owner orchestration control''))"

definition load_owner_control :: "digest \<Rightarrow> orchestrator \<Rightarrow> master_error + control_receipt option" where
  "load_owner_control request_sha256 s =
     (case find_row (\<lambda>c. cw_request_sha256 c = request_sha256) (os_controls s) of
        None \<Rightarrow> Inr None
      | Some c \<Rightarrow>
          bindE (control_status_of (cw_action c)) (\<lambda>status.
          (let receipt =
             \<lparr>ot_schema_version = FEATURE_CONVEYOR_OWNER_ACTIVATION_SCHEMA_VERSION,
              ot_feature_id = cw_feature_id c, ot_lifecycle_revision = cw_lifecycle_revision c,
              ot_orchestration_revision = cw_orchestration_revision c,
              ot_queue_revision = cw_queue_revision c,
              ot_owner_control_designation_revision = cw_owner_control_designation_revision c,
              ot_emergency_pause_revision = cw_emergency_pause_revision c,
              ot_checkpoint_id = cw_checkpoint_id c, ot_checkpoint_sha256 = cw_checkpoint_sha256 c,
              ot_status = status\<rparr> in
           bindE (protocol_result (validate_control_receipt receipt)) (\<lambda>_. Inr (Some receipt)))))"

text \<open>What a control will store, decided before anything is written.\<close>

record control_plan =
  cp_stage :: orchestration_stage
  cp_resume_stage :: "orchestration_stage option"
  cp_pause_kind :: "pause_kind option"
  cp_target_status :: feature_status
  cp_action :: orchestration_action
  cp_active_processing_ms :: nat
  cp_clock_started_at_ms :: "nat option"

definition elapsed_ms :: "nat option \<Rightarrow> nat \<Rightarrow> nat" where
  "elapsed_ms started now_ms = (case started of None \<Rightarrow> 0 | Some t \<Rightarrow> now_ms - t)"

definition pause_plan ::
    "feature_status \<Rightarrow> orchestration_row \<Rightarrow> checkpoint_row \<Rightarrow> nat \<Rightarrow> master_error + control_plan" where
  "pause_plan status state previous now_ms =
     bindE (reject_if InvalidFeatureTransition (status = FPaused \<or> or_stage state = OsPaused)) (\<lambda>_.
     (let active_ms = saturating_add_u64 (or_active_processing_ms state)
            (elapsed_ms (or_clock_started_at_ms state) now_ms) in
      bindE (reject_if (InvalidStoredState ''owner pause exceeded orchestration budget'')
        (active_ms > MAX_FEATURE_CONVEYOR_ACTIVE_PROCESSING_MS)) (\<lambda>_.
      Inr \<lparr>cp_stage = OsPaused, cp_resume_stage = Some (or_stage state), cp_pause_kind = Some PkOwner,
           cp_target_status = FPaused, cp_action = ck_action previous,
           cp_active_processing_ms = active_ms, cp_clock_started_at_ms = None\<rparr>)))"

definition resume_plan :: "feature_status \<Rightarrow> orchestration_row \<Rightarrow> nat \<Rightarrow> master_error + control_plan" where
  "resume_plan status state now_ms =
     bindE (reject_if InvalidFeatureTransition
       (status \<noteq> FPaused \<or> or_stage state \<noteq> OsPaused \<or> or_pause_kind state \<noteq> Some PkOwner)) (\<lambda>_.
     bindE (ok_or (InvalidStoredState ''owner pause omitted resume stage'') (or_resume_stage state)) (\<lambda>stage.
     Inr \<lparr>cp_stage = stage, cp_resume_stage = None, cp_pause_kind = None,
          cp_target_status = status_for_stage stage, cp_action = action_for_stage stage,
          cp_active_processing_ms = or_active_processing_ms state,
          cp_clock_started_at_ms = Some now_ms\<rparr>))"

definition control_metadata :: "control_request \<Rightarrow> nat \<Rightarrow> nat \<Rightarrow> json" where
  "control_metadata r lifecycle_revision orchestration_revision = JObject
     [(''lifecycle_revision'', json_nat lifecycle_revision),
      (''orchestration_revision'', json_nat orchestration_revision),
      (''queue_revision'', json_nat (oc_expected_queue_revision r)),
      (''owner_control_designation_revision'', json_nat (oc_expected_owner_control_designation_revision r)),
      (''emergency_pause_revision'', json_nat (oc_expected_emergency_pause_revision r)),
      (''checkpoint_digest_present'', JBool True), (''effect_possible'', JBool False),
      (''side_effect_executed'', JBool False)]"

definition control_row_of :: "digest \<Rightarrow> string \<Rightarrow> control_request \<Rightarrow> checkpoint_row \<Rightarrow> control_row" where
  "control_row_of request_sha256 action r c =
     \<lparr>cw_request_sha256 = request_sha256, cw_action = action, cw_feature_id = oc_feature_id r,
      cw_lifecycle_revision = ck_lifecycle_revision c,
      cw_orchestration_revision = ck_orchestration_revision c,
      cw_queue_revision = oc_expected_queue_revision r,
      cw_owner_control_designation_revision = oc_expected_owner_control_designation_revision r,
      cw_emergency_pause_revision = oc_expected_emergency_pause_revision r,
      cw_checkpoint_id = ck_checkpoint_id c, cw_checkpoint_sha256 = ck_checkpoint_sha256 c,
      cw_recorded_at_ms = ck_recorded_at_ms c\<rparr>"

definition insert_control :: "control_row \<Rightarrow> orchestrator \<Rightarrow> master_error + orchestrator" where
  "insert_control c s =
     bindE (to_i64 (cw_queue_revision c)) (\<lambda>_.
     bindE (to_i64 (cw_owner_control_designation_revision c)) (\<lambda>_.
     bindE (to_i64 (cw_emergency_pause_revision c)) (\<lambda>_.
     bindE (reject_if Storage
       (exists_row (\<lambda>d. cw_request_sha256 d = cw_request_sha256 c \<or> cw_checkpoint_id d = cw_checkpoint_id c
          \<or> cw_checkpoint_sha256 d = cw_checkpoint_sha256 c) (os_controls s))) (\<lambda>_.
     Inr (s\<lparr>os_controls := insert_row c (os_controls s)\<rparr>)))))"

definition control_receipt_of :: "control_request \<Rightarrow> checkpoint_row \<Rightarrow> bool \<Rightarrow> control_receipt" where
  "control_receipt_of r c pause =
     \<lparr>ot_schema_version = FEATURE_CONVEYOR_OWNER_ACTIVATION_SCHEMA_VERSION,
      ot_feature_id = oc_feature_id r, ot_lifecycle_revision = ck_lifecycle_revision c,
      ot_orchestration_revision = ck_orchestration_revision c,
      ot_queue_revision = oc_expected_queue_revision r,
      ot_owner_control_designation_revision = oc_expected_owner_control_designation_revision r,
      ot_emergency_pause_revision = oc_expected_emergency_pause_revision r,
      ot_checkpoint_id = ck_checkpoint_id c, ot_checkpoint_sha256 = ck_checkpoint_sha256 c,
      ot_status = (if pause then CsPaused else CsResumed)\<rparr>"

definition controlled_row :: "control_plan \<Rightarrow> checkpoint_row \<Rightarrow> nat \<Rightarrow> orchestration_row \<Rightarrow> orchestration_row" where
  "controlled_row plan c now_ms state =
     state\<lparr>or_orchestration_revision := ck_orchestration_revision c, or_checkpoint_id := ck_checkpoint_id c,
           or_stage := cp_stage plan, or_resume_stage := cp_resume_stage plan,
           or_pause_kind := cp_pause_kind plan, or_active_processing_ms := cp_active_processing_ms plan,
           or_clock_started_at_ms := cp_clock_started_at_ms plan, or_next_retry_at_ms := None,
           or_effect_possible := False, or_updated_at_ms := now_ms\<rparr>"

text \<open>The writes of a control: the feature's move, its evidence, the checkpoint and the ledger row.\<close>

definition control_commit ::
    "codec \<Rightarrow> control_request \<Rightarrow> feature_status \<Rightarrow> orchestration_row \<Rightarrow> control_plan \<Rightarrow> nat \<Rightarrow> kernel
      \<Rightarrow> master_error + kernel \<times> checkpoint_row" where
  "control_commit cx r status state plan now_ms k =
     (let feature = oc_feature_id r; revision = oc_expected_lifecycle_revision r in
      bindE (ok_or (InvalidStoredState ''lifecycle revision overflowed'')
        (checked_add_u64 revision 1)) (\<lambda>next_lifecycle.
      bindE (ok_or (InvalidStoredState ''orchestration revision overflowed'')
        (checked_add_u64 (or_orchestration_revision state) 1)) (\<lambda>next_orchestration.
      (let decision = (decided (cp_stage plan) (cp_action plan) OnCheckpointEffectFree)
             \<lparr>dc_pause_kind := cp_pause_kind plan\<rparr>;
           checkpoint = checkpoint_of cx feature next_orchestration next_lifecycle decision
             (or_replacement_candidates_used state) (cp_active_processing_ms plan) now_ms;
           mine = (\<lambda>f. ft_feature_id f = feature \<and> ft_status f = status
                     \<and> ft_lifecycle_revision f = revision) in
       bindE (to_i64 next_lifecycle) (\<lambda>_.
       bindE (move_feature mine (cp_target_status plan) False now_ms k) (\<lambda>k1.
       bindE (reject_if InvalidFeatureTransition (count_rows mine (k_features k) \<noteq> 1)) (\<lambda>_.
       bindE (insert_transition
         (bare_transition feature next_lifecycle status (cp_target_status plan) now_ms) k1) (\<lambda>k2.
       bindE (insert_checkpoint checkpoint k2) (\<lambda>k3.
       bindE (update_orchestration (or_orchestration_revision state)
         (controlled_row plan checkpoint now_ms state) k3) (\<lambda>k4.
       Inr (k4, checkpoint)))))))))))"

definition owner_control_feature_orchestration ::
    "codec \<Rightarrow> control_request \<Rightarrow> device_row \<Rightarrow> nat \<Rightarrow> bool \<Rightarrow> orchestrator
      \<Rightarrow> master_error + orchestrator \<times> control_receipt" where
  "owner_control_feature_orchestration cx r registration now_ms pause s =
     (let k = os_kernel s in
      bindE (protocol_result (validate_control_request cx r)) (\<lambda>_.
      bindE (reject_if InvalidSystemClock (now_ms = 0)) (\<lambda>_.
      bindE (require_owner_control_bridge_tx cx registration
        (oc_expected_owner_control_designation_revision r) k) (\<lambda>_.
      bindE (require_unpaused_revision_tx (oc_expected_emergency_pause_revision r) k) (\<lambda>_.
      (let action = (if pause then ''pause'' else ''resume'');
           request_sha256 = control_request_sha256 cx action r in
       bindE (load_owner_control request_sha256 s) (\<lambda>loaded.
       case loaded of
         Some existing \<Rightarrow> Inr (s, existing)
       | None \<Rightarrow>
           bindE (require_queue_revision_tx (oc_expected_queue_revision r) k) (\<lambda>_.
           bindE (reject_if OrchestrationInactive (\<not> k_orchestration_activated k)) (\<lambda>_.
           bindE (require_active_lease_tx (oc_feature_id r) k) (\<lambda>_.
           bindE (current_status (oc_feature_id r) (oc_expected_lifecycle_revision r) k) (\<lambda>status.
           bindE (load_orchestration_state (oc_feature_id r) k) (\<lambda>found.
           bindE (ok_or (StaleOrchestrationRevision (oc_expected_orchestration_revision r) 0) found) (\<lambda>state.
           bindE (reject_if (StaleOrchestrationRevision (oc_expected_orchestration_revision r)
               (or_orchestration_revision state))
             (or_orchestration_revision state \<noteq> oc_expected_orchestration_revision r)) (\<lambda>_.
           bindE (reject_if OrchestrationEffectAmbiguous (or_effect_possible state)) (\<lambda>_.
           bindE (load_orchestration_checkpoint (or_checkpoint_id state) k) (\<lambda>previous.
           bindE (if pause then pause_plan status state previous now_ms
                  else resume_plan status state now_ms) (\<lambda>plan.
           bindE (control_commit cx r status state plan now_ms k) (\<lambda>(k1, checkpoint).
           bindE (insert_control (control_row_of request_sha256 action r checkpoint)
             (s\<lparr>os_kernel := k1\<rparr>)) (\<lambda>s1.
           bindE (audit_os cx
             (if pause then ''feature_orchestration_owner_paused'' else ''feature_orchestration_owner_resumed'')
             (Some (oc_feature_id r)) now_ms
             (control_metadata r (ck_lifecycle_revision checkpoint) (ck_orchestration_revision checkpoint)) s1)
             (\<lambda>s2.
           bindE (protocol_result (validate_control_receipt (control_receipt_of r checkpoint pause))) (\<lambda>_.
           Inr (s2, control_receipt_of r checkpoint pause))))))))))))))))))))))"

section \<open>Coordination\<close>

text \<open>Statuses only the owner may resolve, and stages during which no active time passes.\<close>

definition owner_resolution_status :: "feature_status \<Rightarrow> bool" where
  "owner_resolution_status status =
     (status \<in> {FCancelled, FAttentionRequired, FAbandoned, FSucceeded, FFailed})"

definition starts_clock :: "orchestration_stage \<Rightarrow> bool" where
  "starts_clock stage =
     (stage \<notin> {OsPaused, OsAttentionRequired, OsFailed, OsSucceeded, OsQuarantined})"

definition budget_decision :: "bool \<Rightarrow> orchestration_decision \<Rightarrow> orchestration_decision" where
  "budget_decision exhausted d =
     (if exhausted \<and> dc_stage d \<notin> {OsSucceeded, OsQuarantined, OsFailed}
      then decided OsAttentionRequired OaOwnerAttentionRequired OnActiveProcessingBudgetExhausted
      else d)"

definition unchanged_checkpoint ::
    "orchestration_row \<Rightarrow> checkpoint_row \<Rightarrow> orchestration_decision \<Rightarrow> nat \<Rightarrow> bool" where
  "unchanged_checkpoint state checkpoint d elapsed =
     (ck_stage checkpoint = dc_stage d \<and> ck_action checkpoint = dc_action d
      \<and> ck_reason checkpoint = dc_reason d \<and> or_pause_kind state = dc_pause_kind d
      \<and> or_next_retry_at_ms state = dc_next_retry_at_ms d \<and> elapsed = 0
      \<and> (\<not> starts_clock (dc_stage d) \<or> or_clock_started_at_ms state \<noteq> None))"

definition coordinate_move ::
    "uuid \<Rightarrow> feature_status \<Rightarrow> nat \<Rightarrow> orchestration_decision \<Rightarrow> nat \<Rightarrow> kernel
      \<Rightarrow> master_error + kernel \<times> nat" where
  "coordinate_move feature status revision d now_ms k =
     (let target = status_for_stage (dc_stage d) in
      if target = status then Inr (k, revision)
      else
        (let mine = (\<lambda>f. ft_feature_id f = feature \<and> ft_status f = status
                       \<and> ft_lifecycle_revision f = revision) in
         bindE (ok_or (InvalidStoredState ''lifecycle overflow'') (checked_add_u64 revision 1)) (\<lambda>next.
         bindE (to_i64 next) (\<lambda>_.
         bindE (move_feature mine target (dc_effect_possible d) now_ms k) (\<lambda>k1.
         bindE (reject_if InvalidFeatureTransition (count_rows mine (k_features k) \<noteq> 1)) (\<lambda>_.
         bindE (insert_transition ((bare_transition feature next status target now_ms)
           \<lparr>tr_accepted_evidence_sha256 := dc_evidence_sha256 d\<rparr>) k1) (\<lambda>k2.
         Inr (k2, next))))))))"

definition coordinate_metadata :: "checkpoint_row \<Rightarrow> json" where
  "coordinate_metadata c = JObject
     [(''orchestration_revision'', json_nat (ck_orchestration_revision c)),
      (''lifecycle_revision'', json_nat (ck_lifecycle_revision c)),
      (''stage'', JString (stage_text (ck_stage c))), (''action'', JString (action_text (ck_action c))),
      (''reason'', JString (reason_text (ck_reason c))), (''checkpoint_digest_present'', JBool True),
      (''evidence_digest_present'', JBool (ck_evidence_sha256 c \<noteq> None)),
      (''replacement_candidates_used'', json_nat (ck_replacement_candidates_used c)),
      (''active_processing_ms'', json_nat (ck_active_processing_ms c)),
      (''active_processing_budget_ms'', json_nat MAX_FEATURE_CONVEYOR_ACTIVE_PROCESSING_MS),
      (''effect_possible'', JBool (ck_effect_possible c)),
      (''automatic_lease_release'', JBool False), (''side_effect_executed'', JBool False)]"

definition coordinated_row ::
    "uuid \<Rightarrow> feature_status \<Rightarrow> orchestration_decision \<Rightarrow> checkpoint_row \<Rightarrow> nat \<Rightarrow> orchestration_row" where
  "coordinated_row feature status d c now_ms =
     \<lparr>or_feature_id = feature, or_orchestration_revision = ck_orchestration_revision c,
      or_checkpoint_id = ck_checkpoint_id c, or_stage = dc_stage d,
      or_resume_stage = (if dc_stage d = OsPaused then Some (stage_for_status status) else None),
      or_pause_kind = dc_pause_kind d,
      or_replacement_candidates_used = ck_replacement_candidates_used c,
      or_active_processing_ms = ck_active_processing_ms c,
      or_clock_started_at_ms = (if starts_clock (dc_stage d) then Some now_ms else None),
      or_next_retry_at_ms = dc_next_retry_at_ms d, or_effect_possible = dc_effect_possible d,
      or_updated_at_ms = now_ms\<rparr>"

definition stored_revision :: "orchestration_row option \<Rightarrow> nat" where
  "stored_revision existing = (case existing of None \<Rightarrow> 0 | Some r \<Rightarrow> or_orchestration_revision r)"

definition charged_ms :: "orchestration_row option \<Rightarrow> nat \<Rightarrow> nat" where
  "charged_ms existing now =
     (case existing of None \<Rightarrow> 0
      | Some r \<Rightarrow> saturating_add_u64 (or_active_processing_ms r) (elapsed_ms (or_clock_started_at_ms r) now))"

definition budget_spent :: "orchestration_row option \<Rightarrow> nat \<Rightarrow> bool" where
  "budget_spent existing now = (charged_ms existing now \<ge> MAX_FEATURE_CONVEYOR_ACTIVE_PROCESSING_MS)"

text \<open>The writes of a coordination whose checkpoint changes.\<close>

definition coordinate_commit ::
    "codec \<Rightarrow> uuid \<Rightarrow> feature_status \<Rightarrow> nat \<Rightarrow> orchestration_row option \<Rightarrow> orchestration_decision \<Rightarrow> bool
      \<Rightarrow> nat \<Rightarrow> kernel \<Rightarrow> master_error + kernel \<times> orchestration_projection" where
  "coordinate_commit cx feature status revision existing d exhausted now_ms k =
     (let current_revision = stored_revision existing;
          candidates = (case existing of None \<Rightarrow> 0 | Some r \<Rightarrow> or_replacement_candidates_used r);
          active_ms = (if exhausted then MAX_FEATURE_CONVEYOR_ACTIVE_PROCESSING_MS
                       else charged_ms existing now_ms) in
      bindE (coordinate_move feature status revision d now_ms k) (\<lambda>(k1, lifecycle_revision).
      bindE (reject_if (InvalidStoredState ''orchestration repair budget exceeds protocol maximum'')
        (candidates > MAX_FEATURE_CONVEYOR_REPLACEMENT_CANDIDATES)) (\<lambda>_.
      bindE (ok_or (InvalidStoredState ''orchestration overflow'')
        (checked_add_u64 current_revision 1)) (\<lambda>orchestration_revision.
      (let checkpoint = checkpoint_of cx feature orchestration_revision lifecycle_revision d candidates
             active_ms now_ms in
       bindE (insert_checkpoint checkpoint k1) (\<lambda>k2.
       bindE (upsert_orchestration current_revision (coordinated_row feature status d checkpoint now_ms) k2)
         (\<lambda>k3.
       bindE (append_audit cx ''feature_orchestration_checkpointed'' (Some feature) now_ms
         (coordinate_metadata checkpoint) k3) (\<lambda>k4.
       bindE (load_orchestration_state feature k4) (\<lambda>stored.
       bindE (ok_or (InvalidStoredState ''orchestration state was not stored'') stored) (\<lambda>state.
       bindE (load_orchestration_checkpoint (ck_checkpoint_id checkpoint) k4) (\<lambda>loaded.
       (let projection = orchestration_projection_of feature state loaded in
        bindE (protocol_result (validate_orchestration_projection projection)) (\<lambda>_.
        Inr (k4, projection))))))))))))))"

text \<open>The end of a coordination: an unchanged checkpoint is projected again, any other is recorded.\<close>

definition coordinate_decided ::
    "codec \<Rightarrow> uuid \<Rightarrow> feature_status \<Rightarrow> nat \<Rightarrow> orchestration_row option \<Rightarrow> orchestration_decision \<Rightarrow> bool
      \<Rightarrow> nat \<Rightarrow> orchestrator \<Rightarrow> master_error + orchestrator \<times> orchestration_projection" where
  "coordinate_decided cx feature status revision existing d exhausted now_ms s =
     (let k = os_kernel s;
          commit = bindE (coordinate_commit cx feature status revision existing d exhausted now_ms k)
            (\<lambda>(k1, p). Inr (s\<lparr>os_kernel := k1\<rparr>, p)) in
      case existing of
        None \<Rightarrow> commit
      | Some state \<Rightarrow>
          bindE (load_orchestration_checkpoint (or_checkpoint_id state) k) (\<lambda>checkpoint.
          if unchanged_checkpoint state checkpoint d (elapsed_ms (or_clock_started_at_ms state) now_ms)
          then (let projection = orchestration_projection_of feature state checkpoint in
                bindE (protocol_result (validate_orchestration_projection projection)) (\<lambda>_.
                Inr (s, projection)))
          else commit))"

definition coordinate_feature_orchestration ::
    "codec \<Rightarrow> uuid \<Rightarrow> nat \<Rightarrow> nat \<Rightarrow> orchestrator
      \<Rightarrow> master_error + orchestrator \<times> orchestration_projection" where
  "coordinate_feature_orchestration cx feature expected now_ms s =
     (let k = os_kernel s in
      bindE (reject_if (InvalidFeatureConveyorInput
          ''orchestration requires a non-nil feature and positive time'')
        (feature = 0 \<or> now_ms = 0)) (\<lambda>_.
      bindE (require_emergency_unpaused k) (\<lambda>_.
      bindE (reject_if OrchestrationInactive (\<not> k_orchestration_activated k)) (\<lambda>_.
      bindE (require_active_lease_tx feature k) (\<lambda>_.
      bindE (feature_status_and_revision_tx feature k) (\<lambda>(status, revision).
      bindE (reject_if InvalidFeatureTransition (owner_resolution_status status)) (\<lambda>_.
      bindE (load_orchestration_state feature k) (\<lambda>existing.
      bindE (reject_if (StaleOrchestrationRevision expected (stored_revision existing))
         (stored_revision existing \<noteq> expected)) (\<lambda>_.
      (let exhausted = budget_spent existing now_ms in
       bindE (derive_orchestration_decision feature status existing now_ms k (os_gates s)) (\<lambda>derived.
       coordinate_decided cx feature status revision existing (budget_decision exhausted derived) exhausted
         now_ms s)))))))))))"

end
