(* ===== verification/Orchestration_Effects.thy ===== *)
theory Orchestration_Effects
  imports Orchestration_Control
begin

text \<open>
  What each successful operation of the orchestrator has checked and written, and the invariant of the
  orchestration ledger. \<open>ledger_inv\<close>: a feature has at most one ledger row, which satisfies the table's
  constraints and points at a checkpoint of the same feature, revision and stage; the checkpoints of a
  feature are numbered 1, 2, 3, .. up to the revision of its row.
\<close>

section \<open>Primitive writes\<close>

lemma insert_checkpoint_Inr [result_simps]:
  "insert_checkpoint c k = Inr k' \<longleftrightarrow>
     ck_orchestration_revision c \<le> i64_max \<and> ck_lifecycle_revision c \<le> i64_max
     \<and> ck_active_processing_ms c \<le> MAX_FEATURE_CONVEYOR_ACTIVE_PROCESSING_MS \<and> ck_recorded_at_ms c \<le> i64_max
     \<and> (\<forall>d \<in> set (k_checkpoints k). ck_checkpoint_id d \<noteq> ck_checkpoint_id c
           \<and> ck_checkpoint_sha256 d \<noteq> ck_checkpoint_sha256 c
           \<and> (ck_feature_id d = ck_feature_id c \<longrightarrow> ck_orchestration_revision d \<noteq> ck_orchestration_revision c))
     \<and> 0 < ck_orchestration_revision c \<and> 0 < ck_lifecycle_revision c \<and> 0 < ck_recorded_at_ms c
     \<and> ck_replacement_candidates_used c \<le> 3
     \<and> k' = k\<lparr>k_checkpoints := k_checkpoints k @ [c]\<rparr>"
proof -
  have "MAX_FEATURE_CONVEYOR_ACTIVE_PROCESSING_MS \<le> i64_max"
    by (simp add: MAX_FEATURE_CONVEYOR_ACTIVE_PROCESSING_MS_def i64_max_def)
  then show ?thesis
    unfolding insert_checkpoint_def by (auto simp: result_simps row_simps insert_row_def not_less not_le)
qed

lemma update_orchestration_Inr:
  "update_orchestration expected r k = Inr k' \<Longrightarrow>
     orchestration_row_valid r \<and> or_orchestration_revision r \<le> i64_max
     \<and> (\<forall>q \<in> set (k_orchestration k). or_feature_id q \<noteq> or_feature_id r \<longrightarrow> or_checkpoint_id q \<noteq> or_checkpoint_id r)
     \<and> k' = k\<lparr>k_orchestration := update_rows
          (\<lambda>q. or_feature_id q = or_feature_id r \<and> or_orchestration_revision q = expected) (\<lambda>q. r)
          (k_orchestration k)\<rparr>"
  by (auto simp: update_orchestration_def orchestration_row_storable_def result_simps row_simps)

lemma upsert_orchestration_Inr:
  assumes "upsert_orchestration expected r k = Inr k'"
  shows "orchestration_row_valid r \<and> or_orchestration_revision r \<le> i64_max
     \<and> (\<forall>q \<in> set (k_orchestration k). or_feature_id q \<noteq> or_feature_id r \<longrightarrow> or_checkpoint_id q \<noteq> or_checkpoint_id r)
     \<and> k' = k\<lparr>k_orchestration :=
          (if exists_row (\<lambda>q. or_feature_id q = or_feature_id r) (k_orchestration k)
           then update_rows (\<lambda>q. or_feature_id q = or_feature_id r \<and> or_orchestration_revision q = expected)
             (\<lambda>q. r) (k_orchestration k)
           else k_orchestration k @ [r])\<rparr>"
  using assms
  by (auto simp: upsert_orchestration_def result_simps insert_row_def dest: update_orchestration_Inr
      split: if_splits)

lemma load_state_Inr [result_simps]:
  "load_orchestration_state f k = Inr r \<longleftrightarrow>
     r = find_orchestration f k \<and> (\<forall>q. r = Some q \<longrightarrow> or_replacement_candidates_used q \<le> 255)"
  by (auto simp: load_orchestration_state_def result_simps not_less split: option.splits)

lemma load_checkpoint_Inr [result_simps]:
  "load_orchestration_checkpoint i k = Inr c \<longleftrightarrow>
     find_row (\<lambda>c. ck_checkpoint_id c = i) (k_checkpoints k) = Some c"
  by (simp add: load_orchestration_checkpoint_def result_simps)

lemma feature_status_Inr [result_simps]:
  "feature_status_and_revision_tx feature k = Inr (status, revision) \<longleftrightarrow>
     (\<exists>f. find_feature feature k = Some f \<and> status = ft_status f \<and> revision = ft_lifecycle_revision f)"
  by (auto simp: feature_status_and_revision_tx_def result_simps)

lemma audit_os_Inr:
  "audit_os cx kind f now m s = Inr s' \<Longrightarrow>
     \<exists>row. s' = s\<lparr>os_kernel := (os_kernel s)\<lparr>k_audit := insert_row row (k_audit (os_kernel s))\<rparr>\<rparr>"
  by (auto simp: audit_os_def result_simps dest: audit_effect)

lemma checkpoint_id_nonzero [simp]: "orchestration_checkpoint_id d \<noteq> 0"
  by (simp add: orchestration_checkpoint_id_def or_eq_0_iff)

lemma checkpoint_of_simps [simp]:
  "ck_checkpoint_id (checkpoint_of cx f n l d c a now) \<noteq> 0"
  "ck_feature_id (checkpoint_of cx f n l d c a now) = f"
  "ck_orchestration_revision (checkpoint_of cx f n l d c a now) = n"
  "ck_lifecycle_revision (checkpoint_of cx f n l d c a now) = l"
  "ck_stage (checkpoint_of cx f n l d c a now) = dc_stage d"
  "ck_action (checkpoint_of cx f n l d c a now) = dc_action d"
  "ck_reason (checkpoint_of cx f n l d c a now) = dc_reason d"
  "ck_replacement_candidates_used (checkpoint_of cx f n l d c a now) = c"
  "ck_active_processing_ms (checkpoint_of cx f n l d c a now) = a"
  "ck_effect_possible (checkpoint_of cx f n l d c a now) = dc_effect_possible d"
  "ck_recorded_at_ms (checkpoint_of cx f n l d c a now) = now"
  by (simp_all add: checkpoint_of_def Let_def)

section \<open>The ledger\<close>

definition checkpoint_backs :: "orchestration_row \<Rightarrow> checkpoint_row \<Rightarrow> bool" where
  "checkpoint_backs r c =
     (ck_checkpoint_id c = or_checkpoint_id r \<and> ck_feature_id c = or_feature_id r
      \<and> ck_checkpoint_id c \<noteq> 0 \<and> 0 < ck_lifecycle_revision c
      \<and> ck_orchestration_revision c = or_orchestration_revision r \<and> ck_stage c = or_stage r
      \<and> ck_active_processing_ms c \<le> or_active_processing_ms r
      \<and> (or_pause_kind r = Some PkOwner \<longrightarrow> ck_reason c = OnCheckpointEffectFree))"

definition ledger_revision :: "uuid \<Rightarrow> orchestration_row list \<Rightarrow> nat" where
  "ledger_revision f rows =
     (case find_row (\<lambda>r. or_feature_id r = f) rows of None \<Rightarrow> 0 | Some r \<Rightarrow> or_orchestration_revision r)"

definition checkpoint_revisions :: "uuid \<Rightarrow> checkpoint_row list \<Rightarrow> nat list" where
  "checkpoint_revisions f cs = map ck_orchestration_revision (filter (\<lambda>c. ck_feature_id c = f) cs)"

definition ledger_inv :: "orchestration_row list \<Rightarrow> checkpoint_row list \<Rightarrow> bool" where
  "ledger_inv rows cs =
     (distinct (map or_feature_id rows) \<and> distinct (map ck_checkpoint_id cs)
      \<and> (\<forall>r \<in> set rows. orchestration_row_valid r \<and> (\<exists>c \<in> set cs. checkpoint_backs r c))
      \<and> (\<forall>f. checkpoint_revisions f cs = [1..<Suc (ledger_revision f rows)]))"

lemma ledger_inv_new: "ledger_inv [] []"
  by (simp add: ledger_inv_def ledger_revision_def checkpoint_revisions_def)

text \<open>Recording a checkpoint: the row of the feature, if any, is replaced by one that points at it.\<close>

definition recorded_rows :: "orchestration_row \<Rightarrow> orchestration_row list \<Rightarrow> orchestration_row list" where
  "recorded_rows r rows =
     (if exists_row (\<lambda>q. or_feature_id q = or_feature_id r) rows
      then update_rows (\<lambda>q. or_feature_id q = or_feature_id r) (\<lambda>q. r) rows else rows @ [r])"

lemma find_row_update_same:
  "find_row (\<lambda>q. key q = key r) (update_rows (\<lambda>q. key q = key r) (\<lambda>q. r) rows)
     = (if exists_row (\<lambda>q. key q = key r) rows then Some r else None)"
  by (induction rows) (auto simp: exists_row_def)

lemma find_row_update_other:
  "k \<noteq> key r \<Longrightarrow> find_row (\<lambda>q. key q = k) (update_rows (\<lambda>q. key q = key r) (\<lambda>q. r) rows)
     = find_row (\<lambda>q. key q = k) rows"
  by (induction rows) auto

lemma find_row_snoc: "find_row p (rows @ [r]) = (case find_row p rows of None \<Rightarrow> if p r then Some r else None | Some q \<Rightarrow> Some q)"
  by (induction rows) auto

lemma ledger_revision_recorded:
  "ledger_revision f (recorded_rows r rows)
     = (if f = or_feature_id r then or_orchestration_revision r else ledger_revision f rows)"
proof (cases "exists_row (\<lambda>q. or_feature_id q = or_feature_id r) rows")
  case True
  then show ?thesis
    by (simp add: recorded_rows_def ledger_revision_def find_row_update_same find_row_update_other)
next
  case False
  then have "find_row (\<lambda>q. or_feature_id q = or_feature_id r) rows = None"
    by (simp add: find_row_None exists_row_iff)
  with False show ?thesis
    by (auto simp: recorded_rows_def ledger_revision_def find_row_snoc split: option.splits)
qed

lemma set_recorded_rows:
  "q \<in> set (recorded_rows r rows) \<Longrightarrow> q = r \<or> q \<in> set rows \<and> or_feature_id q \<noteq> or_feature_id r"
  by (auto simp: recorded_rows_def row_simps split: if_splits)

lemma distinct_recorded_rows:
  "distinct (map or_feature_id rows) \<Longrightarrow> distinct (map or_feature_id (recorded_rows r rows))"
proof -
  assume d: "distinct (map or_feature_id rows)"
  have "map or_feature_id (update_rows (\<lambda>q. or_feature_id q = or_feature_id r) (\<lambda>q. r) rows) = map or_feature_id rows"
    by (induction rows) simp_all
  with d show ?thesis by (auto simp: recorded_rows_def row_simps)
qed

lemma ledger_inv_record:
  assumes inv: "ledger_inv rows cs" and valid: "orchestration_row_valid r" and backs: "checkpoint_backs r c"
    and rev: "or_orchestration_revision r = Suc (ledger_revision (or_feature_id r) rows)"
    and fresh: "\<forall>d \<in> set cs. ck_checkpoint_id d \<noteq> ck_checkpoint_id c"
  shows "ledger_inv (recorded_rows r rows) (cs @ [c])"
proof -
  have c: "ck_feature_id c = or_feature_id r" "ck_orchestration_revision c = or_orchestration_revision r"
    using backs by (simp_all add: checkpoint_backs_def)
  have "checkpoint_revisions f (cs @ [c]) = [1..<Suc (ledger_revision f (recorded_rows r rows))]" for f
    using inv rev by (simp add: checkpoint_revisions_def ledger_inv_def ledger_revision_recorded c)
  moreover have "orchestration_row_valid q \<and> (\<exists>d \<in> set (cs @ [c]). checkpoint_backs q d)"
    if "q \<in> set (recorded_rows r rows)" for q
    using set_recorded_rows [OF that] inv valid backs by (auto simp: ledger_inv_def)
  moreover have "distinct (map ck_checkpoint_id (cs @ [c]))" using inv fresh by (auto simp: ledger_inv_def)
  ultimately show ?thesis using distinct_recorded_rows inv by (auto simp: ledger_inv_def)
qed

text \<open>Stopping the clock keeps the ledger.\<close>

lemma clock_le_row:
  assumes "clock_le r r'" "orchestration_row_valid r"
  shows "orchestration_row_valid r'"
  using assms by (cases r; cases r') (auto simp: clock_le_def orchestration_row_valid_def)

lemma clock_le_backs: "clock_le r r' \<Longrightarrow> checkpoint_backs r c \<Longrightarrow> checkpoint_backs r' c"
  by (cases r; cases r') (auto simp: clock_le_def checkpoint_backs_def)

lemma clocks_same_length:
  assumes "grows clock_le rows rows'" "length rows' = length rows"
  shows "list_all2 clock_le rows rows'"
  using assms by (simp add: grows_def)

lemma clocks_find:
  assumes "list_all2 clock_le rows rows'"
  shows "rel_option clock_le (find_row (\<lambda>r. or_feature_id r = f) rows) (find_row (\<lambda>r. or_feature_id r = f) rows')"
  using assms
proof (induction rule: list_all2_induct)
  case (Cons r rows r' rows')
  moreover from Cons(1) have "or_feature_id r' = or_feature_id r"
    by (cases r; cases r') (simp add: clock_le_def)
  ultimately show ?case by simp
qed simp

lemma ledger_inv_kept:
  assumes inv: "ledger_inv (k_orchestration k) (k_checkpoints k)" and kept: "orchestration_kept k k'"
  shows "ledger_inv (k_orchestration k') (k_checkpoints k')"
proof -
  have rel: "list_all2 clock_le (k_orchestration k) (k_orchestration k')"
    using kept clocks_same_length by (auto simp: orchestration_kept_def)
  have cs: "k_checkpoints k' = k_checkpoints k" using kept by (simp add: orchestration_kept_def)
  have "map or_feature_id (k_orchestration k') = map or_feature_id (k_orchestration k)"
    using rel
  proof (induction rule: list_all2_induct)
    case (Cons r rows r' rows')
    moreover from Cons(1) have "or_feature_id r' = or_feature_id r"
      by (cases r; cases r') (simp add: clock_le_def)
    ultimately show ?case by simp
  qed simp
  moreover have "ledger_revision f (k_orchestration k') = ledger_revision f (k_orchestration k)" for f
  proof -
    have same: "or_orchestration_revision r' = or_orchestration_revision r" if "clock_le r r'" for r r'
      using that by (cases r; cases r') (simp add: clock_le_def)
    from clocks_find [OF rel, of f] show ?thesis
      by (cases rule: option.rel_cases) (auto simp: ledger_revision_def same)
  qed
  moreover have "orchestration_row_valid r' \<and> (\<exists>c \<in> set (k_checkpoints k). checkpoint_backs r' c)"
    if r': "r' \<in> set (k_orchestration k')" for r'
  proof -
    obtain r where r: "r \<in> set (k_orchestration k)" "clock_le r r'"
      using rel r' unfolding list_all2_conv_all_nth by (metis in_set_conv_nth)
    with inv clock_le_row clock_le_backs show ?thesis unfolding ledger_inv_def by blast
  qed
  ultimately show ?thesis using inv by (simp add: ledger_inv_def cs)
qed

section \<open>Operations\<close>

definition recorded :: "orchestration_row \<Rightarrow> checkpoint_row \<Rightarrow> kernel \<Rightarrow> kernel" where
  "recorded r c k =
     k\<lparr>k_checkpoints := k_checkpoints k @ [c], k_orchestration := recorded_rows r (k_orchestration k)\<rparr>"

lemma update_is_recorded:
  assumes d: "distinct (map or_feature_id rows)"
    and q: "find_row (\<lambda>q. or_feature_id q = or_feature_id r) rows = Some q"
  shows "update_rows (\<lambda>p. or_feature_id p = or_feature_id r
           \<and> or_orchestration_revision p = or_orchestration_revision q) (\<lambda>p. r) rows = recorded_rows r rows"
proof -
  have q': "q \<in> set rows" "or_feature_id q = or_feature_id r" using find_row_Some [OF q] by auto
  then have "exists_row (\<lambda>q. or_feature_id q = or_feature_id r) rows" by (auto simp: exists_row_iff)
  moreover have "p = q" if "p \<in> set rows" "or_feature_id p = or_feature_id r" for p
    using distinct_map_inj [OF d that(1) q'(1)] that(2) q'(2) by simp
  ultimately show ?thesis unfolding recorded_rows_def by (auto intro: update_rows_cong_set)
qed

lemma find_recorded: "find_row (\<lambda>q. or_feature_id q = or_feature_id r) (recorded_rows r rows) = Some r"
proof (cases "exists_row (\<lambda>q. or_feature_id q = or_feature_id r) rows")
  case True
  then show ?thesis by (simp add: recorded_rows_def find_row_update_same)
next
  case False
  then have "find_row (\<lambda>q. or_feature_id q = or_feature_id r) rows = None"
    by (simp add: find_row_None exists_row_iff)
  with False show ?thesis by (simp add: recorded_rows_def find_row_snoc)
qed

lemma upsert_is_recorded:
  assumes ok: "upsert_orchestration (stored_revision (find_row (\<lambda>q. or_feature_id q = or_feature_id r) rows)) r k = Inr k'"
    and rows: "k_orchestration k = rows" and dist: "distinct (map or_feature_id rows)"
  shows "k' = k\<lparr>k_orchestration := recorded_rows r rows\<rparr>"
proof (cases "exists_row (\<lambda>q. or_feature_id q = or_feature_id r) rows")
  case True
  then obtain q where q: "find_row (\<lambda>q. or_feature_id q = or_feature_id r) rows = Some q"
    by (cases "find_row (\<lambda>q. or_feature_id q = or_feature_id r) rows") (auto simp: find_row_None exists_row_iff)
  with True upsert_orchestration_Inr [OF ok] update_is_recorded [OF dist q] show ?thesis
    by (simp add: rows stored_revision_def)
next
  case False
  with upsert_orchestration_Inr [OF ok] show ?thesis by (simp add: rows recorded_rows_def)
qed

definition this_feature :: "feature_row \<Rightarrow> feature_row \<Rightarrow> bool" where
  "this_feature f g =
     (ft_feature_id g = ft_feature_id f \<and> ft_status g = ft_status f
      \<and> ft_lifecycle_revision g = ft_lifecycle_revision f)"

text \<open>The kernel after a coordination or a control that moved the feature, or left its status alone.\<close>

definition moved_to ::
    "feature_row \<Rightarrow> feature_status \<Rightarrow> bool \<Rightarrow> digest option \<Rightarrow> nat \<Rightarrow> kernel \<Rightarrow> kernel" where
  "moved_to f target effect_possible evidence now k =
     moved_kernel (this_feature f) target effect_possible now
       ((bare_transition (ft_feature_id f) (Suc (ft_lifecycle_revision f)) (ft_status f) target now)
          \<lparr>tr_accepted_evidence_sha256 := evidence\<rparr>) k"

lemma bare_is_moved: "bare_transition f n s t now = (bare_transition f n s t now)\<lparr>tr_accepted_evidence_sha256 := None\<rparr>"
  by (simp add: bare_transition_def)

lemma control_commit_effect:
  assumes "control_commit cx q status state plan now k = Inr (k', c)"
    and f: "find_feature (oc_feature_id q) k = Some f" "status = ft_status f"
      "ft_lifecycle_revision f = oc_expected_lifecycle_revision q"
    and d: "distinct (map or_feature_id (k_orchestration k))"
    and state: "find_orchestration (oc_feature_id q) k = Some state"
  shows "k' = recorded (controlled_row plan c now state) c (moved_to f (cp_target_status plan) False None now k)
    \<and> c = checkpoint_of cx (oc_feature_id q) (Suc (or_orchestration_revision state)) (Suc (ft_lifecycle_revision f))
        ((decided (cp_stage plan) (cp_action plan) OnCheckpointEffectFree)\<lparr>dc_pause_kind := cp_pause_kind plan\<rparr>)
        (or_replacement_candidates_used state) (cp_active_processing_ms plan) now
    \<and> orchestration_row_valid (controlled_row plan c now state)
    \<and> (\<forall>d \<in> set (k_checkpoints k). ck_checkpoint_id d \<noteq> ck_checkpoint_id c)"
proof -
  let ?mine = "\<lambda>g. ft_feature_id g = oc_feature_id q \<and> ft_status g = status
     \<and> ft_lifecycle_revision g = oc_expected_lifecycle_revision q"
  have mine: "?mine = this_feature f"
    using find_feature_Some [OF f(1)] f(2,3) by (auto simp: this_feature_def)
  have i: "ft_feature_id f = oc_feature_id q" "or_feature_id state = oc_feature_id q"
    using find_feature_Some [OF f(1)] find_row_Some [OF state [unfolded find_orchestration_def]] by auto
  from assms(1) obtain k1 k2 k3 where
    1: "move_feature ?mine (cp_target_status plan) False now k = Inr k1"
    and 2: "insert_transition (bare_transition (oc_feature_id q) (Suc (oc_expected_lifecycle_revision q)) status
        (cp_target_status plan) now) k1 = Inr k2"
    and c: "c = checkpoint_of cx (oc_feature_id q) (Suc (or_orchestration_revision state))
        (Suc (oc_expected_lifecycle_revision q))
        ((decided (cp_stage plan) (cp_action plan) OnCheckpointEffectFree)\<lparr>dc_pause_kind := cp_pause_kind plan\<rparr>)
        (or_replacement_candidates_used state) (cp_active_processing_ms plan) now"
    and 3: "insert_checkpoint c k2 = Inr k3"
    and 4: "update_orchestration (or_orchestration_revision state) (controlled_row plan c now state) k3 = Inr k'"
    unfolding control_commit_def Let_def
    by (auto simp: bindE_Inr_iff ok_or_Inr_iff checked_add_u64_Some reject_if_Inr_iff)
  have k2: "k2 = moved_to f (cp_target_status plan) False None now k"
    using 1 2 unfolding mine moved_to_def moved_kernel_def
    by (simp add: result_simps i f(2,3) bare_is_moved [symmetric])
  have k3: "k3 = k2\<lparr>k_checkpoints := k_checkpoints k2 @ [c]\<rparr>" using 3 by (simp add: result_simps)
  have id': "or_feature_id (controlled_row plan c now state) = oc_feature_id q"
    by (simp add: controlled_row_def i)
  have rows: "k_orchestration k3 = k_orchestration k" by (simp add: k3 k2 moved_to_def)
  have "k' = recorded (controlled_row plan c now state) c (moved_to f (cp_target_status plan) False None now k)"
    using update_orchestration_Inr [OF 4]
      update_is_recorded [OF d, of "controlled_row plan c now state" state] state
    by (simp add: id' rows find_orchestration_def recorded_def) (simp add: k3 k2 moved_to_def)
  moreover have "\<forall>d \<in> set (k_checkpoints k). ck_checkpoint_id d \<noteq> ck_checkpoint_id c"
    using 3 by (simp add: result_simps k2 moved_to_def)
  ultimately show ?thesis using update_orchestration_Inr [OF 4] c f(3) by simp
qed

text \<open>A control that was not a replay.\<close>

definition fresh_control :: "codec \<Rightarrow> bool \<Rightarrow> control_request \<Rightarrow> checkpoint_row \<Rightarrow> control_row" where
  "fresh_control cx pause q c =
     (let action = (if pause then ''pause'' else ''resume'') in
      control_row_of (control_request_sha256 cx action q) action q c)"

definition controlled ::
    "codec \<Rightarrow> control_request \<Rightarrow> nat \<Rightarrow> bool \<Rightarrow> orchestrator \<Rightarrow> orchestrator \<Rightarrow> feature_row
      \<Rightarrow> orchestration_row \<Rightarrow> control_plan \<Rightarrow> checkpoint_row \<Rightarrow> bool" where
  "controlled cx q now pause s s' f state plan c =
     (let k = os_kernel s in
      find_feature (oc_feature_id q) k = Some f
      \<and> ft_lifecycle_revision f = oc_expected_lifecycle_revision q
      \<and> (\<exists>l. k_active_lease k = Some l \<and> fl_feature_id l = oc_feature_id q)
      \<and> k_orchestration_activated k \<and> k_emergency_paused k = 0 \<and> now \<noteq> 0
      \<and> find_orchestration (oc_feature_id q) k = Some state
      \<and> or_orchestration_revision state = oc_expected_orchestration_revision q
      \<and> \<not> or_effect_possible state
      \<and> (\<exists>previous. find_row (\<lambda>c. ck_checkpoint_id c = or_checkpoint_id state) (k_checkpoints k) = Some previous
           \<and> (if pause then pause_plan (ft_status f) state previous now else resume_plan (ft_status f) state now)
               = Inr plan)
      \<and> c = checkpoint_of cx (oc_feature_id q) (Suc (or_orchestration_revision state))
          (Suc (ft_lifecycle_revision f))
          ((decided (cp_stage plan) (cp_action plan) OnCheckpointEffectFree)\<lparr>dc_pause_kind := cp_pause_kind plan\<rparr>)
          (or_replacement_candidates_used state) (cp_active_processing_ms plan) now
      \<and> orchestration_row_valid (controlled_row plan c now state)
      \<and> (\<forall>d \<in> set (k_checkpoints k). ck_checkpoint_id d \<noteq> ck_checkpoint_id c)
      \<and> (\<exists>audit. s' = s\<lparr>os_kernel :=
           (recorded (controlled_row plan c now state) c (moved_to f (cp_target_status plan) False None now k))
             \<lparr>k_audit := audit\<rparr>,
           os_controls := os_controls s @ [fresh_control cx pause q c]\<rparr>))"

lemma control_effect:
  assumes ok: "owner_control_feature_orchestration cx q registration now pause s = Inr (s', x)"
    and d: "distinct (map or_feature_id (k_orchestration (os_kernel s)))"
  shows "s' = s \<or> (\<exists>f state plan c. controlled cx q now pause s s' f state plan c
    \<and> x = control_receipt_of q c pause)"
proof -
  let ?k = "os_kernel s" let ?i = "oc_feature_id q"
  let ?sha = "control_request_sha256 cx (if pause then ''pause'' else ''resume'') q"
  from ok obtain loaded where 0: "now \<noteq> 0" "k_emergency_paused ?k = 0"
    and loaded: "load_owner_control ?sha s = Inr loaded"
    and rest: "(case loaded of Some existing \<Rightarrow> Inr (s, existing) | None \<Rightarrow>
        bindE (require_queue_revision_tx (oc_expected_queue_revision q) ?k) (\<lambda>_.
        bindE (reject_if OrchestrationInactive (\<not> k_orchestration_activated ?k)) (\<lambda>_.
        bindE (require_active_lease_tx ?i ?k) (\<lambda>_.
        bindE (current_status ?i (oc_expected_lifecycle_revision q) ?k) (\<lambda>status.
        bindE (load_orchestration_state ?i ?k) (\<lambda>found.
        bindE (ok_or (StaleOrchestrationRevision (oc_expected_orchestration_revision q) 0) found) (\<lambda>state.
        bindE (reject_if (StaleOrchestrationRevision (oc_expected_orchestration_revision q)
            (or_orchestration_revision state))
          (or_orchestration_revision state \<noteq> oc_expected_orchestration_revision q)) (\<lambda>_.
        bindE (reject_if OrchestrationEffectAmbiguous (or_effect_possible state)) (\<lambda>_.
        bindE (load_orchestration_checkpoint (or_checkpoint_id state) ?k) (\<lambda>previous.
        bindE (if pause then pause_plan status state previous now
               else resume_plan status state now) (\<lambda>plan.
        bindE (control_commit cx q status state plan now ?k) (\<lambda>(k1, checkpoint).
        bindE (insert_control (control_row_of ?sha (if pause then ''pause'' else ''resume'') q checkpoint)
          (s\<lparr>os_kernel := k1\<rparr>)) (\<lambda>s1.
        bindE (audit_os cx
          (if pause then ''feature_orchestration_owner_paused'' else ''feature_orchestration_owner_resumed'')
          (Some ?i) now
          (control_metadata q (ck_lifecycle_revision checkpoint) (ck_orchestration_revision checkpoint)) s1)
          (\<lambda>s2.
        bindE (protocol_result (validate_control_receipt (control_receipt_of q checkpoint pause))) (\<lambda>_.
        Inr (s2, control_receipt_of q checkpoint pause)))))))))))))))) = Inr (s', x)"
    unfolding owner_control_feature_orchestration_def Let_def
    by (auto simp: bindE_Inr_iff reject_if_Inr_iff require_unpaused_revision_Inr)
  show ?thesis
  proof (cases loaded)
    case (Some existing)
    with rest show ?thesis by simp
  next
    case None
    with rest obtain status state previous plan k1 c s1 s2 where
      1: "k_orchestration_activated ?k" "\<exists>l. k_active_lease ?k = Some l \<and> fl_feature_id l = ?i"
      "current_status ?i (oc_expected_lifecycle_revision q) ?k = Inr status"
      "find_orchestration ?i ?k = Some state"
      "or_orchestration_revision state = oc_expected_orchestration_revision q" "\<not> or_effect_possible state"
      "find_row (\<lambda>c. ck_checkpoint_id c = or_checkpoint_id state) (k_checkpoints ?k) = Some previous"
      "(if pause then pause_plan status state previous now else resume_plan status state now) = Inr plan"
      and commit: "control_commit cx q status state plan now ?k = Inr (k1, c)"
      and ctl: "insert_control (control_row_of ?sha (if pause then ''pause'' else ''resume'') q c)
        (s\<lparr>os_kernel := k1\<rparr>) = Inr s1"
      and audit: "audit_os cx
          (if pause then ''feature_orchestration_owner_paused'' else ''feature_orchestration_owner_resumed'')
          (Some ?i) now (control_metadata q (ck_lifecycle_revision c) (ck_orchestration_revision c)) s1 = Inr s'"
      and x: "x = control_receipt_of q c pause"
      unfolding bindE_Inr_iff
      by (auto simp: bindE_Inr_iff reject_if_Inr_iff ok_or_Inr_iff require_active_lease_Inr load_state_Inr
          load_checkpoint_Inr)
    from 1(3) obtain f where f: "find_feature ?i ?k = Some f" "status = ft_status f"
      "ft_lifecycle_revision f = oc_expected_lifecycle_revision q" by (auto simp: current_status_Inr)
    note e = control_commit_effect [OF commit f d 1(4)]
    from ctl have s1: "s1 = s\<lparr>os_kernel := k1, os_controls := os_controls s @ [fresh_control cx pause q c]\<rparr>"
      by (auto simp: insert_control_def bindE_Inr_iff insert_row_def fresh_control_def Let_def)
    from audit_os_Inr [OF audit] obtain row where
      "s' = s1\<lparr>os_kernel := (os_kernel s1)\<lparr>k_audit := insert_row row (k_audit (os_kernel s1))\<rparr>\<rparr>" ..
    then have "s' = s\<lparr>os_kernel := k1\<lparr>k_audit := insert_row row (k_audit k1)\<rparr>,
        os_controls := os_controls s @ [fresh_control cx pause q c]\<rparr>" by (simp add: s1)
    with e f 0 1 x show ?thesis unfolding controlled_def Let_def by blast
  qed
qed

text \<open>A coordination that was not a repetition of the last checkpoint.\<close>

definition coordinated ::
    "codec \<Rightarrow> nat \<Rightarrow> orchestrator \<Rightarrow> orchestrator \<Rightarrow> feature_row \<Rightarrow> orchestration_row option
      \<Rightarrow> orchestration_decision \<Rightarrow> checkpoint_row \<Rightarrow> bool" where
  "coordinated cx now s s' f existing d c =
     (let k = os_kernel s; target = status_for_stage (dc_stage d);
          k1 = (if target = ft_status f then k
                else moved_to f target (dc_effect_possible d) (dc_evidence_sha256 d) now k) in
      c = checkpoint_of cx (ft_feature_id f) (Suc (stored_revision existing))
          (if target = ft_status f then ft_lifecycle_revision f else Suc (ft_lifecycle_revision f)) d
          (case existing of None \<Rightarrow> 0 | Some r \<Rightarrow> or_replacement_candidates_used r)
          (if budget_spent existing now then MAX_FEATURE_CONVEYOR_ACTIVE_PROCESSING_MS
           else charged_ms existing now) now
      \<and> orchestration_row_valid (coordinated_row (ft_feature_id f) (ft_status f) d c now)
      \<and> (\<forall>d \<in> set (k_checkpoints k). ck_checkpoint_id d \<noteq> ck_checkpoint_id c)
      \<and> (\<exists>audit. s' = s\<lparr>os_kernel :=
           (recorded (coordinated_row (ft_feature_id f) (ft_status f) d c now) c k1)\<lparr>k_audit := audit\<rparr>\<rparr>))"

lemma coordinate_move_Inr:
  assumes "coordinate_move i (ft_status f) (ft_lifecycle_revision f) d now k = Inr (k', l)"
    and f: "find_feature i k = Some f"
  shows "k' = (if status_for_stage (dc_stage d) = ft_status f then k
      else moved_to f (status_for_stage (dc_stage d)) (dc_effect_possible d) (dc_evidence_sha256 d) now k)
    \<and> l = (if status_for_stage (dc_stage d) = ft_status f then ft_lifecycle_revision f
           else Suc (ft_lifecycle_revision f))"
proof -
  have i: "ft_feature_id f = i" using find_feature_Some [OF f] by simp
  have mine: "(\<lambda>g. ft_feature_id g = i \<and> ft_status g = ft_status f
     \<and> ft_lifecycle_revision g = ft_lifecycle_revision f) = this_feature f"
    by (auto simp: this_feature_def i)
  show ?thesis
    using assms(1) unfolding coordinate_move_def Let_def mine
    by (auto simp: result_simps moved_to_def moved_kernel_def i split: if_splits)
qed

lemma coordinate_commit_effect:
  assumes ok: "coordinate_commit cx i (ft_status f) (ft_lifecycle_revision f) (find_orchestration i k) d
      (budget_spent (find_orchestration i k) now) now k = Inr (k', p)"
    and f: "find_feature i k = Some f"
    and dist: "distinct (map or_feature_id (k_orchestration k))" and that: "os_kernel s = k"
  shows "\<exists>c. coordinated cx now s (s\<lparr>os_kernel := k'\<rparr>) f (find_orchestration i k) d c
    \<and> p = orchestration_projection_of i (coordinated_row i (ft_status f) d c now) c"
proof -
  let ?e = "find_orchestration i k"
  have i: "ft_feature_id f = i" using find_feature_Some [OF f] by simp
  have active: "(case ?e of None \<Rightarrow> if budget_spent ?e now then MAX_FEATURE_CONVEYOR_ACTIVE_PROCESSING_MS else 0
            | Some r \<Rightarrow> if budget_spent ?e now then MAX_FEATURE_CONVEYOR_ACTIVE_PROCESSING_MS
                else saturating_add_u64 (or_active_processing_ms r) (elapsed_ms (or_clock_started_at_ms r) now))
      = (if budget_spent ?e now then MAX_FEATURE_CONVEYOR_ACTIVE_PROCESSING_MS else charged_ms ?e now)"
    by (simp add: charged_ms_def split: option.splits)
  from ok [unfolded coordinate_commit_def Let_def active] obtain k1 l c k2 k3 k4 state loaded where
    1: "coordinate_move i (ft_status f) (ft_lifecycle_revision f) d now k = Inr (k1, l)"
    and c: "c = checkpoint_of cx i (Suc (stored_revision ?e)) l d
        (case ?e of None \<Rightarrow> 0 | Some r \<Rightarrow> or_replacement_candidates_used r)
        (if budget_spent ?e now then MAX_FEATURE_CONVEYOR_ACTIVE_PROCESSING_MS else charged_ms ?e now) now"
    and 2: "insert_checkpoint c k1 = Inr k2"
    and 3: "upsert_orchestration (stored_revision ?e) (coordinated_row i (ft_status f) d c now) k2 = Inr k3"
    and 4: "append_audit cx ''feature_orchestration_checkpointed'' (Some i) now (coordinate_metadata c) k3 = Inr k'"
    and 5: "load_orchestration_state i k' = Inr (Some state)"
      "load_orchestration_checkpoint (ck_checkpoint_id c) k' = Inr loaded"
    and p: "p = orchestration_projection_of i state loaded"
    unfolding bindE_Inr_iff case_prod_beta
    by (auto simp: bindE_Inr_iff ok_or_Inr_iff checked_add_u64_Some stored_revision_def)
  note m = coordinate_move_Inr [OF 1 f]
  let ?r = "coordinated_row i (ft_status f) d c now"
  have rid: "or_feature_id ?r = i" by (simp add: coordinated_row_def)
  have k2: "k2 = k1\<lparr>k_checkpoints := k_checkpoints k1 @ [c]\<rparr>"
    and fresh: "\<forall>d \<in> set (k_checkpoints k1). ck_checkpoint_id d \<noteq> ck_checkpoint_id c"
    using 2 by (auto simp: result_simps)
  have rows: "k_orchestration k1 = k_orchestration k" "k_checkpoints k1 = k_checkpoints k"
    using m by (auto simp: moved_to_def)
  note u = upsert_orchestration_Inr [OF 3]
  have "k3 = recorded ?r c k1"
    using upsert_is_recorded [of ?r "k_orchestration k" k2 k3] 3 dist
    by (simp add: rid k2 rows find_orchestration_def recorded_def)
  moreover from audit_effect [OF 4] obtain row where "k' = k3\<lparr>k_audit := insert_row row (k_audit k3)\<rparr>" ..
  ultimately have k': "k' = (recorded ?r c k1)\<lparr>k_audit := insert_row row (k_audit k3)\<rparr>" by simp
  have "find_row (\<lambda>q. or_feature_id q = i) (recorded_rows ?r (k_orchestration k)) = Some ?r"
    using find_recorded [of ?r] by (simp add: rid)
  then have state: "state = ?r"
    using 5(1) by (simp add: result_simps find_orchestration_def k' recorded_def rows)
  have "find_row (\<lambda>d. ck_checkpoint_id d = ck_checkpoint_id c) (k_checkpoints k) = None"
    using fresh by (simp add: find_row_None rows)
  then have loaded: "loaded = c"
    using 5(2) by (simp add: result_simps k' recorded_def rows find_row_snoc)
  have ck: "c = checkpoint_of cx i (Suc (stored_revision ?e))
      (if status_for_stage (dc_stage d) = ft_status f then ft_lifecycle_revision f else Suc (ft_lifecycle_revision f)) d
      (case ?e of None \<Rightarrow> 0 | Some r \<Rightarrow> or_replacement_candidates_used r)
      (if budget_spent ?e now then MAX_FEATURE_CONVEYOR_ACTIVE_PROCESSING_MS else charged_ms ?e now) now"
    using m unfolding c by simp
  have fresh': "\<forall>d \<in> set (k_checkpoints k). ck_checkpoint_id d \<noteq> ck_checkpoint_id c" using fresh rows by simp
  have "coordinated cx now s (s\<lparr>os_kernel := k'\<rparr>) f ?e d c"
    unfolding coordinated_def Let_def i that
    using ck u fresh' k' m [THEN conjunct1, symmetric] by (intro conjI; (assumption | blast | simp))
  then show ?thesis unfolding p state loaded by blast
qed

lemma coordinate_effect:
  assumes ok: "coordinate_feature_orchestration cx i expected now s = Inr (s', p)"
    and dist: "distinct (map or_feature_id (k_orchestration (os_kernel s)))"
  shows "\<exists>f derived. find_feature i (os_kernel s) = Some f
    \<and> k_emergency_paused (os_kernel s) = 0 \<and> k_orchestration_activated (os_kernel s) \<and> i \<noteq> 0 \<and> now \<noteq> 0
    \<and> (\<exists>l. k_active_lease (os_kernel s) = Some l \<and> fl_feature_id l = i)
    \<and> \<not> owner_resolution_status (ft_status f)
    \<and> stored_revision (find_orchestration i (os_kernel s)) = expected
    \<and> derive_orchestration_decision i (ft_status f) (find_orchestration i (os_kernel s)) now (os_kernel s)
        (os_gates s) = Inr derived
    \<and> (let existing = find_orchestration i (os_kernel s);
           d = budget_decision (budget_spent existing now) derived in
       (\<exists>state checkpoint. existing = Some state \<and> s' = s
          \<and> find_row (\<lambda>c. ck_checkpoint_id c = or_checkpoint_id state) (k_checkpoints (os_kernel s)) = Some checkpoint
          \<and> unchanged_checkpoint state checkpoint d (elapsed_ms (or_clock_started_at_ms state) now)
          \<and> p = orchestration_projection_of i state checkpoint)
       \<or> (\<exists>c. coordinated cx now s s' f existing d c
          \<and> p = orchestration_projection_of i (coordinated_row i (ft_status f) d c now) c))"
proof -
  let ?k = "os_kernel s" let ?e = "find_orchestration i ?k"
  from ok obtain f derived where 1: "find_feature i ?k = Some f" "i \<noteq> 0" "now \<noteq> 0" "k_emergency_paused ?k = 0"
      "k_orchestration_activated ?k" "\<exists>l. k_active_lease ?k = Some l \<and> fl_feature_id l = i"
      "\<not> owner_resolution_status (ft_status f)" "stored_revision ?e = expected"
    and d: "derive_orchestration_decision i (ft_status f) ?e now ?k (os_gates s) = Inr derived"
    and rest: "coordinate_decided cx i (ft_status f) (ft_lifecycle_revision f) ?e
      (budget_decision (budget_spent ?e now) derived) (budget_spent ?e now) now s = Inr (s', p)"
    unfolding coordinate_feature_orchestration_def Let_def
    by (auto simp: bindE_Inr_iff reject_if_Inr_iff feature_status_Inr load_state_Inr
        require_emergency_unpaused_Inr require_active_lease_Inr)
  let ?d = "budget_decision (budget_spent ?e now) derived"
  have commit: "\<exists>c. coordinated cx now s s' f ?e ?d c
      \<and> p = orchestration_projection_of i (coordinated_row i (ft_status f) ?d c now) c"
    if "coordinate_commit cx i (ft_status f) (ft_lifecycle_revision f) ?e ?d (budget_spent ?e now) now ?k = Inr (k1, p)"
      "s' = s\<lparr>os_kernel := k1\<rparr>" for k1
    using coordinate_commit_effect [OF that(1) 1(1) dist HOL.refl] that(2) by simp
  have "(\<exists>state checkpoint. ?e = Some state \<and> s' = s
          \<and> find_row (\<lambda>c. ck_checkpoint_id c = or_checkpoint_id state) (k_checkpoints ?k) = Some checkpoint
          \<and> unchanged_checkpoint state checkpoint ?d (elapsed_ms (or_clock_started_at_ms state) now)
          \<and> p = orchestration_projection_of i state checkpoint)
       \<or> (\<exists>k1. coordinate_commit cx i (ft_status f) (ft_lifecycle_revision f) ?e ?d (budget_spent ?e now) now ?k
             = Inr (k1, p) \<and> s' = s\<lparr>os_kernel := k1\<rparr>)"
  proof (cases ?e)
    case None
    with rest show ?thesis by (auto simp: coordinate_decided_def bindE_Inr_iff)
  next
    case (Some state)
    with rest show ?thesis
      by (auto simp: coordinate_decided_def bindE_Inr_iff Let_def load_checkpoint_Inr split: if_splits)
  qed
  with commit 1 d show ?thesis unfolding Let_def by blast
qed

section \<open>Evidence and activation\<close>

lemma admit_effect:
  assumes "admit_feature_activation_evidence cx r at s = Inr (s', x)"
  shows "x = evidence_receipt_of r \<and> validate_evidence_admission cx r = Inr ()
    \<and> at \<noteq> 0 \<and> ea_observed_at_ms r \<le> at
    \<and> (s' = s \<and> evidence_by_id (ea_evidence_id r) (os_evidence s) = Some x
       \<or> evidence_by_id (ea_evidence_id r) (os_evidence s) = None
         \<and> \<not> k_orchestration_activated (os_kernel s) \<and> k_emergency_paused (os_kernel s) = 0
         \<and> newest_evidence_revision (ea_category r) (os_evidence s) = ea_expected_current_revision r
         \<and> ea_revision r \<le> i64_max
         \<and> (\<exists>audit. s' = s\<lparr>os_evidence := os_evidence s @ [evidence_row_of r at],
              os_kernel := (os_kernel s)\<lparr>k_audit := audit\<rparr>\<rparr>))"
proof (cases "evidence_by_id (ea_evidence_id r) (os_evidence s)")
  case None
  let ?s = "s\<lparr>os_evidence := os_evidence s @ [evidence_row_of r at]\<rparr>"
  from assms None have
    1: "validate_evidence_admission cx r = Inr ()" "at \<noteq> 0" "ea_observed_at_ms r \<le> at"
      "\<not> k_orchestration_activated (os_kernel s)" "k_emergency_paused (os_kernel s) = 0"
      "newest_evidence_revision (ea_category r) (os_evidence s) = ea_expected_current_revision r"
      "ea_revision r \<le> i64_max" "x = evidence_receipt_of r"
    and 2: "audit_os cx ''feature_activation_evidence_admitted'' None at (admission_metadata r) ?s = Inr s'"
    by (auto simp: admit_feature_activation_evidence_def bindE_Inr_iff reject_if_Inr_iff protocol_result_Inr
        require_unpaused_revision_Inr to_i64_Inr insert_row_def)
  from audit_os_Inr [OF 2] obtain row where
    "s' = ?s\<lparr>os_kernel := (os_kernel s)\<lparr>k_audit := insert_row row (k_audit (os_kernel s))\<rparr>\<rparr>" by auto
  with 1 None show ?thesis by (simp only:) blast
next
  case (Some existing)
  with assms show ?thesis
    by (auto simp: admit_feature_activation_evidence_def bindE_Inr_iff reject_if_Inr_iff protocol_result_Inr
        split: if_splits)
qed

lemma require_current_evidence_Inr [result_simps]:
  "require_current_evidence e es = Inr u \<longleftrightarrow>
     validate_evidence_set e = Inr () \<and> current_evidence es = all_present e"
  by (auto simp: require_current_evidence_def result_simps complete_evidence_Some)

lemma activate_effect:
  assumes "activate_feature_orchestration cx r registration now s = Inr (s', x)"
  shows "now \<noteq> 0 \<and> k_emergency_paused (os_kernel s) = 0
    \<and> k_emergency_pause_revision (os_kernel s) = xa_expected_emergency_pause_revision r
    \<and> (s' = s \<and> load_feature_activation cx s = Inr (Some x) \<and> activation_matches x r
       \<or> os_activation s = None \<and> x = activation_receipt_of cx r now
         \<and> k_queue_revision (os_kernel s) = xa_expected_queue_revision r
         \<and> require_current_evidence (xa_evidence r) (os_evidence s) = Inr ()
         \<and> (\<exists>audit. s' = s\<lparr>os_activation := Some (activation_row_of cx r now),
              os_kernel := (os_kernel s)\<lparr>k_orchestration_activated := True, k_audit := audit\<rparr>\<rparr>))"
proof -
  let ?k = "os_kernel s"
  let ?s = "s\<lparr>os_activation := Some (activation_row_of cx r now),
    os_kernel := ?k\<lparr>k_orchestration_activated := True\<rparr>\<rparr>"
  from assms obtain loaded where loaded: "load_feature_activation cx s = Inr loaded"
    unfolding activate_feature_orchestration_def Let_def by (auto simp: bindE_Inr_iff)
  note open_op = activate_feature_orchestration_def Let_def loaded bindE_Inr_iff reject_if_Inr_iff
    require_unpaused_revision_Inr require_queue_revision_Inr
  show ?thesis
  proof (cases loaded)
    case None
    then have n: "os_activation s = None"
      using loaded by (auto simp: load_feature_activation_def bindE_Inr_iff Let_def split: option.splits)
    from assms None have 1: "now \<noteq> 0" "k_emergency_paused ?k = 0"
        "k_emergency_pause_revision ?k = xa_expected_emergency_pause_revision r"
        "k_queue_revision ?k = xa_expected_queue_revision r"
        "require_current_evidence (xa_evidence r) (os_evidence s) = Inr ()"
        "x = activation_receipt_of cx r now"
      and 2: "audit_os cx ''feature_orchestration_activated'' None now (activation_metadata r) ?s = Inr s'"
      by (auto simp: open_op)
    from audit_os_Inr [OF 2] obtain row where
      "s' = ?s\<lparr>os_kernel := (os_kernel ?s)\<lparr>k_audit := insert_row row (k_audit (os_kernel ?s))\<rparr>\<rparr>" ..
    then have "s' = s\<lparr>os_activation := Some (activation_row_of cx r now),
        os_kernel := ?k\<lparr>k_orchestration_activated := True, k_audit := insert_row row (k_audit ?k)\<rparr>\<rparr>" by simp
    with 1 n show ?thesis by (simp only:) blast
  next
    case (Some existing)
    with assms loaded show ?thesis by (auto simp: open_op split: if_splits)
  qed
qed

end
