(* ===== verification/Orchestration_Machine.thy ===== *)
theory Orchestration_Machine
  imports Orchestration_Effects
begin

text \<open>
  Distributed work, the Feature Conveyor and the orchestrator as one machine. \<open>OGates\<close> stands for the
  validation, review and publication gates: it may set their tables to anything, so that what holds on
  every run holds whatever the gates write. \<open>orchestrator_inv\<close> is the invariant of the machine; it
  contains the conveyor's own, without the parts that an owner's pause and resume break.
\<close>

datatype orchestrator_op =
    OConveyor conveyor_op
  | OGates "publication_row list" "publication_intent_row list" gate_tables
  | OAdmit evidence_admission_request nat
  | OActivate activation_request device_row nat
  | OControl control_request device_row nat bool
  | OCoordinate uuid nat nat

definition orchestrator_of :: "master_error + orchestrator \<times> 'a \<Rightarrow> master_error + orchestrator" where
  "orchestrator_of m = bindE m (\<lambda>(s, _). Inr s)"

lemma orchestrator_of_Inr [result_simps]: "orchestrator_of m = Inr s \<longleftrightarrow> (\<exists>x. m = Inr (s, x))"
  by (auto simp: orchestrator_of_def bindE_Inr_iff)

fun run_orchestrator :: "codec \<Rightarrow> orchestrator_op \<Rightarrow> orchestrator \<Rightarrow> master_error + orchestrator" where
  "run_orchestrator cx (OConveyor op) s = on_kernel s (run_conveyor cx op (os_kernel s))"
| "run_orchestrator cx (OGates publications intents gates) s =
     Inr (s\<lparr>os_kernel := (os_kernel s)\<lparr>k_publications := publications, k_publication_intents := intents\<rparr>,
            os_gates := gates\<rparr>)"
| "run_orchestrator cx (OAdmit r recorded_at) s =
     orchestrator_of (admit_feature_activation_evidence cx r recorded_at s)"
| "run_orchestrator cx (OActivate r registration now) s =
     orchestrator_of (activate_feature_orchestration cx r registration now s)"
| "run_orchestrator cx (OControl r registration now pause) s =
     orchestrator_of (owner_control_feature_orchestration cx r registration now pause s)"
| "run_orchestrator cx (OCoordinate feature expected now) s =
     orchestrator_of (coordinate_feature_orchestration cx feature expected now s)"

definition orchestrator_step :: "codec \<Rightarrow> orchestrator \<Rightarrow> orchestrator_op \<Rightarrow> orchestrator" where
  "orchestrator_step cx s op = (case run_orchestrator cx op s of Inl _ \<Rightarrow> s | Inr s' \<Rightarrow> s')"

definition no_gates :: gate_tables where
  "no_gates =
     \<lparr>tb_integrations = [], tb_integration_artifacts = [], tb_integration_conflicts = [],
      tb_validation_attempts = [], tb_command_evidence = [], tb_validation_completions = [],
      tb_review_calls = [], tb_review_outcomes = [], tb_review_decisions = [],
      tb_publication_outcomes = [], tb_publication_completions = []\<rparr>"

definition new_orchestrator :: "uuid \<Rightarrow> orchestrator" where
  "new_orchestrator stream =
     \<lparr>os_kernel = new_kernel stream, os_evidence = [], os_activation = None, os_controls = [],
      os_gates = no_gates\<rparr>"

definition orchestrator_run :: "codec \<Rightarrow> uuid \<Rightarrow> orchestrator_op list \<Rightarrow> orchestrator" where
  "orchestrator_run cx stream ops = run_ops (orchestrator_step cx) (new_orchestrator stream) ops"

section \<open>Evidence\<close>

definition evidence_row_ok :: "evidence_row \<Rightarrow> bool" where
  "evidence_row_ok e =
     (ae_evidence_id e \<noteq> 0 \<and> ae_receipt_sha256 e \<noteq> 0 \<and> accepts_origin (ae_category e) (ae_origin e)
      \<and> 0 < ae_observed_at_ms e \<and> ae_observed_at_ms e \<le> ae_recorded_at_ms e
      \<and> ae_revision e \<le> i64_max)"

definition evidence_inv :: "evidence_row list \<Rightarrow> bool" where
  "evidence_inv es =
     (distinct (map ae_evidence_id es) \<and> (\<forall>e \<in> set es. evidence_row_ok e)
      \<and> (\<forall>c. map ae_revision (evidence_of c es) = [1..<Suc (length (evidence_of c es))]))"

lemma fold_max_upt: "fold max [Suc 0..<Suc n] (0::nat) = n"
  by (induction n) simp_all

lemma newest_evidence_length:
  "evidence_inv es \<Longrightarrow> newest_evidence_revision c es = length (evidence_of c es)"
  by (simp add: newest_evidence_revision_def evidence_inv_def fold_max_upt del: upt_Suc)

lemma evidence_inv_snoc:
  assumes inv: "evidence_inv es" and e: "evidence_row_ok e"
    and new: "\<forall>d \<in> set es. ae_evidence_id d \<noteq> ae_evidence_id e"
    and rev: "ae_revision e = Suc (newest_evidence_revision (ae_category e) es)"
  shows "evidence_inv (es @ [e])"
  using assms newest_evidence_length [OF inv, of "ae_category e"]
  by (auto simp: evidence_inv_def evidence_of_def)

definition role_backed :: "evidence_row list \<Rightarrow> evidence_category \<Rightarrow> uuid \<Rightarrow> bool" where
  "role_backed es c i = (\<exists>e \<in> set es. ae_evidence_id e = i \<and> ae_category e = c)"

definition activation_backed :: "evidence_row list \<Rightarrow> uuid evidence_slots \<Rightarrow> bool" where
  "activation_backed es ids =
     (role_backed es EcRepositoryGateProof (sl_repository_gate_proof ids)
      \<and> role_backed es EcRestrictedWorkerLive (sl_restricted_worker_live ids)
      \<and> role_backed es EcReviewProviderLive (sl_review_provider_live ids)
      \<and> role_backed es EcGithubPublicationLive (sl_github_publication_live ids)
      \<and> role_backed es EcRestartRecoveryLive (sl_restart_recovery_live ids)
      \<and> role_backed es EcControlEventStreamingLive (sl_control_event_streaming_live ids))"

lemma current_reference_backed:
  "current_evidence_reference c es = Some r \<Longrightarrow> role_backed es c (er_evidence_id r)"
  by (auto simp: current_evidence_reference_def evidence_of_def role_backed_def row_reference_def
      dest!: find_row_Some)

lemma current_evidence_backed:
  "current_evidence es = all_present e \<Longrightarrow> activation_backed es (evidence_ids e)"
  by (auto simp: current_evidence_def all_present_def activation_backed_def evidence_ids_def
      intro: current_reference_backed)

lemma activation_backed_snoc: "activation_backed es ids \<Longrightarrow> activation_backed (es @ [e]) ids"
  by (auto simp: activation_backed_def role_backed_def)

section \<open>The invariant\<close>

definition orchestrator_inv :: "orchestrator \<Rightarrow> bool" where
  "orchestrator_inv s =
     (conveyor_inv False (os_kernel s)
      \<and> ledger_inv (k_orchestration (os_kernel s)) (k_checkpoints (os_kernel s))
      \<and> evidence_inv (os_evidence s)
      \<and> k_orchestration_activated (os_kernel s) = (os_activation s \<noteq> None)
      \<and> (\<forall>a. os_activation s = Some a \<longrightarrow> activation_backed (os_evidence s) (av_evidence_ids a))
      \<and> (os_activation s = None \<longrightarrow> k_orchestration (os_kernel s) = []))"

lemma conveyor_inv_other:
  "conveyor_inv b (k\<lparr>k_audit := a\<rparr>) = conveyor_inv b k"
  "conveyor_inv b (k\<lparr>k_orchestration_activated := x\<rparr>) = conveyor_inv b k"
  "conveyor_inv b (k\<lparr>k_publications := ps\<rparr>) = conveyor_inv b k"
  "conveyor_inv b (k\<lparr>k_publication_intents := ins\<rparr>) = conveyor_inv b k"
  "conveyor_inv b (recorded r c k) = conveyor_inv b k"
  by (simp_all add: conveyor_inv_def kernel_inv_def lease_inv_def holder_def grants_inv_def grants_of_def
      recorded_def)

lemma recorded_fields [simp]:
  "k_features (recorded r c k) = k_features k" "k_transitions (recorded r c k) = k_transitions k"
  "k_active_lease (recorded r c k) = k_active_lease k" "k_queue (recorded r c k) = k_queue k"
  "k_orchestration (recorded r c k) = recorded_rows r (k_orchestration k)"
  "k_checkpoints (recorded r c k) = k_checkpoints k @ [c]"
  "k_orchestration_activated (recorded r c k) = k_orchestration_activated k"
  "k_steps (recorded r c k) = k_steps k" "k_attempts (recorded r c k) = k_attempts k"
  "k_queue_revision (recorded r c k) = k_queue_revision k"
  "k_emergency_paused (recorded r c k) = k_emergency_paused k"
  by (simp_all add: recorded_def)

lemma moved_to_fields [simp]:
  "k_active_lease (moved_to f t e v now k) = k_active_lease k" "k_queue (moved_to f t e v now k) = k_queue k"
  "k_orchestration (moved_to f t e v now k) = k_orchestration k"
  "k_checkpoints (moved_to f t e v now k) = k_checkpoints k"
  "k_orchestration_activated (moved_to f t e v now k) = k_orchestration_activated k"
  "k_steps (moved_to f t e v now k) = k_steps k" "k_attempts (moved_to f t e v now k) = k_attempts k"
  "k_queue_revision (moved_to f t e v now k) = k_queue_revision k"
  "k_emergency_paused (moved_to f t e v now k) = k_emergency_paused k"
  by (simp_all add: moved_to_def)

section \<open>What may be decided\<close>

lemma decision_facts:
  assumes d: "derive_orchestration_decision i status existing now k g = Inr d"
    and status: "\<not> owner_resolution_status status"
    and valid: "\<And>r. existing = Some r \<Longrightarrow> orchestration_row_valid r"
  shows "dc_stage d \<notin> {OsSucceeded, OsFailed} \<and> status \<noteq> FQueued
    \<and> (status = FQuarantined \<longrightarrow> d = ambiguous_effect)
    \<and> (dc_stage d \<in> {OsAttentionRequired, OsQuarantined} \<longrightarrow> dc_evidence_sha256 d = None)
    \<and> (dc_stage d = OsPaused \<longrightarrow> status = FPaused \<or> dc_pause_kind d = Some PkProvider)"
proof (cases status)
  case FPaused
  show ?thesis
  proof (cases existing)
    case None
    with d FPaused show ?thesis by (simp add: derive_orchestration_decision_def paused_decision_def)
  next
    case (Some r)
    have "resumable_stage stage" if "or_resume_stage r = Some stage" for stage
      using valid [OF Some] that by (simp add: orchestration_row_valid_def)
    with d FPaused Some show ?thesis
      by (auto simp: derive_orchestration_decision_def paused_decision_def ordinary_def decided_def
          resumable_stage_def ok_or_Inr_iff bindE_Inr_iff split: if_splits)
  qed
next
  case FReviewing
  then show ?thesis
    using d by (auto simp: derive_orchestration_decision_def reviewing_decision_def retry_decision_def Let_def
        ordinary_def decided_def ambiguous_effect_def split: if_splits option.splits)
next
  case FValidating
  then show ?thesis
    using d by (auto simp: derive_orchestration_decision_def validating_decision_def ordinary_def decided_def
        split: option.splits)
qed (use d status in \<open>auto simp: derive_orchestration_decision_def ordinary_def decided_def ambiguous_effect_def
    attention_decision_def owner_resolution_status_def split: if_splits\<close>)

text \<open>The same for what is recorded when the budget is spent.\<close>

lemma budget_facts:
  assumes d: "derive_orchestration_decision i status existing now k g = Inr derived"
    and status: "\<not> owner_resolution_status status"
    and valid: "\<And>r. existing = Some r \<Longrightarrow> orchestration_row_valid r"
    and dd: "d = budget_decision spent derived"
  shows "dc_stage d \<notin> {OsSucceeded, OsFailed}" "status \<noteq> FQueued"
    "status = FQuarantined \<Longrightarrow> dc_stage d = OsQuarantined"
    "dc_stage d \<in> {OsAttentionRequired, OsQuarantined} \<Longrightarrow> dc_evidence_sha256 d = None"
    "dc_stage d = OsPaused \<Longrightarrow> status = FPaused \<or> dc_pause_kind d = Some PkProvider"
  using decision_facts [OF d status valid] unfolding dd
  by (auto simp: budget_decision_def decided_def ambiguous_effect_def split: if_splits)

section \<open>Moves of the orchestrator\<close>

lemma moved_to_inv:
  assumes inv: "conveyor_inv False k" and f: "find_feature i k = Some f"
    and lease: "holder k = Some i" and target: "busy target"
    and evidence: "resolution_status target \<Longrightarrow> is_active_execution (ft_status f) \<and> v = None"
  shows "conveyor_inv False (moved_to f target e v now k)"
proof -
  have f': "f \<in> set (k_features k)" "ft_feature_id f = i" using find_feature_Some [OF f] by auto
  have busy: "busy (ft_status f)" using lease_busy [OF inv f'(1)] lease f'(2) by simp
  have p: "\<forall>g \<in> set (k_features k). this_feature f g \<longleftrightarrow> g = f"
    using feature_unique [OF inv_parts(7) [OF inv] _ f'(1)] by (auto simp: this_feature_def)
  have "evidence_ok False (k_transitions k
      @ [(bare_transition (ft_feature_id f) (Suc (ft_lifecycle_revision f)) (ft_status f) target now)
           \<lparr>tr_accepted_evidence_sha256 := v\<rparr>]) (moved target e now f)"
    using evidence
    by (auto simp: evidence_ok_def has_transition_def resolved_by_def bare_transition_def no_digests_def)
  then show ?thesis
    unfolding moved_to_def by (intro move_inv [OF inv f'(1) busy target p]) (simp_all add: bare_transition_def)
qed

lemma status_for_stage_busy:
  "resumable_stage stage \<Longrightarrow> busy (status_for_stage stage) \<and> \<not> resolution_status (status_for_stage stage)"
  by (auto simp: resumable_stage_def busy_def ended_def resolution_status_def)

lemma plan_target:
  assumes "(if pause then pause_plan status state previous now else resume_plan status state now) = Inr plan"
    and "orchestration_row_valid state"
  shows "busy (cp_target_status plan) \<and> \<not> resolution_status (cp_target_status plan)"
  using assms
  by (auto simp: pause_plan_def resume_plan_def Let_def bindE_Inr_iff reject_if_Inr_iff ok_or_Inr_iff
      busy_def ended_def resolution_status_def orchestration_row_valid_def resumable_stage_def split: if_splits)

lemma ledger_row:
  assumes "ledger_inv rows cs" "find_row (\<lambda>r. or_feature_id r = f) rows = Some r"
  shows "r \<in> set rows" "or_feature_id r = f" "orchestration_row_valid r"
    "ledger_revision f rows = or_orchestration_revision r"
  using assms find_row_Some [OF assms(2)] by (auto simp: ledger_inv_def ledger_revision_def)

lemma orchestrator_inv_recorded:
  assumes inv: "orchestrator_inv s" and act: "k_orchestration_activated (os_kernel s)"
    and k1: "conveyor_inv False k1" "k_orchestration k1 = k_orchestration (os_kernel s)"
      "k_checkpoints k1 = k_checkpoints (os_kernel s)"
      "k_orchestration_activated k1 = k_orchestration_activated (os_kernel s)"
    and row: "orchestration_row_valid r" "checkpoint_backs r c"
      "or_orchestration_revision r = Suc (ledger_revision (or_feature_id r) (k_orchestration (os_kernel s)))"
      "\<forall>d \<in> set (k_checkpoints (os_kernel s)). ck_checkpoint_id d \<noteq> ck_checkpoint_id c"
  shows "orchestrator_inv (s\<lparr>os_kernel := (recorded r c k1)\<lparr>k_audit := audit\<rparr>, os_controls := controls\<rparr>)"
  using assms ledger_inv_record [OF _ row]
  by (auto simp: orchestrator_inv_def conveyor_inv_other)

lemma control_inv:
  assumes inv: "orchestrator_inv s" and ok: "owner_control_feature_orchestration cx q reg now pause s = Inr (s', x)"
  shows "orchestrator_inv s'"
proof -
  let ?k = "os_kernel s"
  have led: "ledger_inv (k_orchestration ?k) (k_checkpoints ?k)" and ci: "conveyor_inv False ?k"
    using inv by (simp_all add: orchestrator_inv_def)
  have dist: "distinct (map or_feature_id (k_orchestration ?k))" using led by (simp add: ledger_inv_def)
  from control_effect [OF ok dist] show ?thesis
  proof (elim disjE exE conjE)
    assume "s' = s" with inv show ?thesis by simp
  next
    fix f state plan c assume ctl: "controlled cx q now pause s s' f state plan c"
    let ?d = "(decided (cp_stage plan) (cp_action plan) OnCheckpointEffectFree)\<lparr>dc_pause_kind := cp_pause_kind plan\<rparr>"
    from ctl obtain l previous audit where
      f: "find_feature (oc_feature_id q) ?k = Some f"
      and lease: "k_active_lease ?k = Some l" "fl_feature_id l = oc_feature_id q"
      and act: "k_orchestration_activated ?k"
      and state: "find_orchestration (oc_feature_id q) ?k = Some state"
      and plan: "(if pause then pause_plan (ft_status f) state previous now else resume_plan (ft_status f) state now) = Inr plan"
      and c: "c = checkpoint_of cx (oc_feature_id q) (Suc (or_orchestration_revision state))
          (Suc (ft_lifecycle_revision f)) ?d (or_replacement_candidates_used state) (cp_active_processing_ms plan) now"
      and row: "orchestration_row_valid (controlled_row plan c now state)"
      and fresh: "\<forall>d \<in> set (k_checkpoints ?k). ck_checkpoint_id d \<noteq> ck_checkpoint_id c"
      and s': "s' = s\<lparr>os_kernel := (recorded (controlled_row plan c now state) c
           (moved_to f (cp_target_status plan) False None now ?k))\<lparr>k_audit := audit\<rparr>,
           os_controls := os_controls s @ [fresh_control cx pause q c]\<rparr>"
      unfolding controlled_def Let_def by blast
    note lr = ledger_row [OF led state [unfolded find_orchestration_def]]
    have moved: "conveyor_inv False (moved_to f (cp_target_status plan) False None now ?k)"
      using plan_target [OF plan lr(3)] lease by (intro moved_to_inv [OF ci f]) (auto simp: holder_def)
    show ?thesis unfolding s'
      by (rule orchestrator_inv_recorded [OF inv act moved])
        (use row fresh lr in \<open>simp_all add: controlled_row_def c checkpoint_backs_def decided_def\<close>)
  qed
qed

lemma coordinate_inv:
  assumes inv: "orchestrator_inv s" and ok: "coordinate_feature_orchestration cx i expected now s = Inr (s', p)"
  shows "orchestrator_inv s'"
proof -
  let ?k = "os_kernel s" let ?e = "find_orchestration i ?k"
  have led: "ledger_inv (k_orchestration ?k) (k_checkpoints ?k)" and ci: "conveyor_inv False ?k"
    using inv by (simp_all add: orchestrator_inv_def)
  have dist: "distinct (map or_feature_id (k_orchestration ?k))" using led by (simp add: ledger_inv_def)
  from coordinate_effect [OF ok dist] obtain f derived l where
    f: "find_feature i ?k = Some f" and lease: "k_active_lease ?k = Some l" "fl_feature_id l = i"
    and act: "k_orchestration_activated ?k" and st: "\<not> owner_resolution_status (ft_status f)"
    and d: "derive_orchestration_decision i (ft_status f) ?e now ?k (os_gates s) = Inr derived"
    and res: "s' = s \<or> (\<exists>c. coordinated cx now s s' f ?e (budget_decision (budget_spent ?e now) derived) c)"
    unfolding Let_def by blast
  let ?d = "budget_decision (budget_spent ?e now) derived"
  have valid: "orchestration_row_valid r" if "?e = Some r" for r
    using ledger_row(3) [OF led] that by (simp add: find_orchestration_def)
  have dd: "?d = budget_decision (budget_spent ?e now) derived" by (rule HOL.refl)
  note b = budget_facts [OF d st valid dd]
  have i: "ft_feature_id f = i" using find_feature_Some [OF f] by simp
  have busy: "busy (ft_status f)"
    using lease_busy [OF ci] find_feature_Some [OF f] lease by (auto simp: holder_def)
  from res show ?thesis
  proof (elim disjE exE)
    assume "s' = s" with inv show ?thesis by simp
  next
    fix c assume co: "coordinated cx now s s' f ?e ?d c"
    let ?t = "status_for_stage (dc_stage ?d)"
    let ?k1 = "if ?t = ft_status f then ?k
      else moved_to f ?t (dc_effect_possible ?d) (dc_evidence_sha256 ?d) now ?k"
    let ?r = "coordinated_row i (ft_status f) ?d c now"
    from co obtain audit where
      c: "c = checkpoint_of cx i (Suc (stored_revision ?e))
          (if ?t = ft_status f then ft_lifecycle_revision f else Suc (ft_lifecycle_revision f)) ?d
          (case ?e of None \<Rightarrow> 0 | Some r \<Rightarrow> or_replacement_candidates_used r)
          (if budget_spent ?e now then MAX_FEATURE_CONVEYOR_ACTIVE_PROCESSING_MS else charged_ms ?e now) now"
      and row: "orchestration_row_valid ?r"
      and fresh: "\<forall>d \<in> set (k_checkpoints ?k). ck_checkpoint_id d \<noteq> ck_checkpoint_id c"
      and s': "s' = s\<lparr>os_kernel := (recorded ?r c ?k1)\<lparr>k_audit := audit\<rparr>\<rparr>"
      unfolding coordinated_def Let_def i by blast
    have "conveyor_inv False ?k1"
    proof (cases "?t = ft_status f")
      case True with ci show ?thesis by simp
    next
      case False
      have "ft_status f \<noteq> FQuarantined" using b(3) False by auto
      then have active: "is_active_execution (ft_status f)"
        using st b(2) by (cases "ft_status f") (simp_all add: owner_resolution_status_def is_active_execution_def)
      have "busy ?t" using b(1) by (cases "dc_stage ?d") (simp_all add: busy_def ended_def)
      moreover have "dc_evidence_sha256 ?d = None" if "resolution_status ?t"
        using b(1,4) that by (cases "dc_stage ?d") (simp_all add: resolution_status_def)
      ultimately have "conveyor_inv False (moved_to f ?t (dc_effect_possible ?d) (dc_evidence_sha256 ?d) now ?k)"
        using lease active by (intro moved_to_inv [OF ci f]) (auto simp: holder_def)
      with False show ?thesis by simp
    qed
    moreover have "0 < ft_lifecycle_revision f"
      using feature_of_inv [OF ci] find_feature_Some [OF f] by (force simp: feature_ok_def)
    then have "checkpoint_backs ?r c"
      using row b(5) unfolding checkpoint_backs_def
      by (auto simp: coordinated_row_def c orchestration_row_valid_def resumable_stage_def)
    moreover have "stored_revision ?e = ledger_revision i (k_orchestration ?k)"
      by (simp add: stored_revision_def ledger_revision_def find_orchestration_def)
    ultimately have "orchestrator_inv (s\<lparr>os_kernel := (recorded ?r c ?k1)\<lparr>k_audit := audit\<rparr>,
        os_controls := os_controls s\<rparr>)"
      by (intro orchestrator_inv_recorded [OF inv act]) (use row fresh in \<open>simp_all add: coordinated_row_def c\<close>)
    then show ?thesis by (simp add: s')
  qed
qed

end
