(* ===== verification/Orchestration_Runs.thy ===== *)
theory Orchestration_Runs
  imports Orchestration_Machine
begin

text \<open>
  Every operation of the whole machine keeps \<open>orchestrator_inv\<close> and stays within
  \<open>orchestrator_progress\<close>: evidence, controls, checkpoints and lifecycle evidence are only appended, an
  activation never changes, no feature's revision, ledger revision or charged time goes back, and an
  ended feature stays as it is. Interpretations of the machine locales lift both to runs.
\<close>

section \<open>The invariant\<close>

lemma conveyor_op_inv:
  assumes inv: "orchestrator_inv s" and ok: "run_conveyor cx op (os_kernel s) = Inr k'"
  shows "orchestrator_inv (s\<lparr>os_kernel := k'\<rparr>)"
proof -
  have ci: "conveyor_inv False (os_kernel s)" using inv by (simp add: orchestrator_inv_def)
  from run_conveyor_ok [OF ci ok] have k': "conveyor_inv False k'" and kept: "orchestration_kept (os_kernel s) k'"
    by (simp_all add: conveyor_ok_def work_progress_def)
  moreover have "ledger_inv (k_orchestration k') (k_checkpoints k')"
    by (rule ledger_inv_kept [OF _ kept]) (use inv in \<open>simp add: orchestrator_inv_def\<close>)
  ultimately show ?thesis using inv by (auto simp: orchestrator_inv_def orchestration_kept_def)
qed

lemma newest_evidence_le:
  assumes "evidence_inv es"
  shows "newest_evidence_revision c es \<le> i64_max"
proof (cases "evidence_of c es = []")
  case True
  then show ?thesis by (simp add: newest_evidence_revision_def)
next
  case False
  let ?n = "length (evidence_of c es)"
  have "?n \<in> set (map ae_revision (evidence_of c es))"
    using assms False by (cases ?n) (auto simp: evidence_inv_def)
  then obtain e where "e \<in> set es" "ae_revision e = ?n" by (auto simp: evidence_of_def)
  moreover from this(1) assms have "ae_revision e \<le> i64_max"
    unfolding evidence_inv_def evidence_row_ok_def by blast
  ultimately show ?thesis by (simp add: newest_evidence_length [OF assms])
qed

lemma admit_inv:
  assumes inv: "orchestrator_inv s" and ok: "admit_feature_activation_evidence cx r at s = Inr (s', x)"
  shows "orchestrator_inv s'"
proof -
  have ev: "evidence_inv (os_evidence s)" using inv by (simp add: orchestrator_inv_def)
  from admit_effect [OF ok] show ?thesis
  proof (elim disjE exE conjE)
    assume "s' = s" with inv show ?thesis by simp
  next
    fix audit
    assume new: "evidence_by_id (ea_evidence_id r) (os_evidence s) = None"
      and v: "validate_evidence_admission cx r = Inr ()" and at: "ea_observed_at_ms r \<le> at"
      and exp: "newest_evidence_revision (ea_category r) (os_evidence s) = ea_expected_current_revision r"
      and rev: "ea_revision r \<le> i64_max"
      and s': "s' = s\<lparr>os_evidence := os_evidence s @ [evidence_row_of r at],
              os_kernel := (os_kernel s)\<lparr>k_audit := audit\<rparr>\<rparr>"
    have "ea_expected_current_revision r \<le> u64_max"
      using newest_evidence_le [OF ev, of "ea_category r"] exp by (simp add: i64_max_def u64_max_def)
    note facts = validate_evidence_admission_Inr [OF v this]
    have "evidence_inv (os_evidence s @ [evidence_row_of r at])"
      using facts rev at new exp
      by (intro evidence_inv_snoc [OF ev])
        (auto simp: evidence_row_of_def evidence_row_ok_def evidence_by_id_def find_row_None)
    with inv show ?thesis
      by (auto simp: s' orchestrator_inv_def conveyor_inv_other activation_backed_snoc)
  qed
qed

lemma activate_inv:
  assumes inv: "orchestrator_inv s" and ok: "activate_feature_orchestration cx r registration now s = Inr (s', x)"
  shows "orchestrator_inv s'"
proof -
  from activate_effect [OF ok] consider "s' = s"
    | audit where "current_evidence (os_evidence s) = all_present (xa_evidence r)"
      "s' = s\<lparr>os_activation := Some (activation_row_of cx r now),
         os_kernel := (os_kernel s)\<lparr>k_orchestration_activated := True, k_audit := audit\<rparr>\<rparr>" "os_activation s = None"
    by (auto simp: require_current_evidence_Inr)
  then show ?thesis
  proof cases
    case 1 with inv show ?thesis by simp
  next
    case (2 audit)
    have "activation_backed (os_evidence s) (evidence_ids (xa_evidence r))"
      by (rule current_evidence_backed [OF 2(1)])
    with inv 2(2,3) show ?thesis by (auto simp: orchestrator_inv_def conveyor_inv_other activation_row_of_def)
  qed
qed

lemma run_orchestrator_inv:
  assumes inv: "orchestrator_inv s" and ok: "run_orchestrator cx op s = Inr s'"
  shows "orchestrator_inv s'"
proof (cases op)
  case (OConveyor c)
  with ok conveyor_op_inv [OF inv] show ?thesis by (auto simp: on_kernel_Inr)
next
  case (OGates publications intents gates)
  have "s' = s\<lparr>os_kernel := (os_kernel s)\<lparr>k_publications := publications, k_publication_intents := intents\<rparr>,
            os_gates := gates\<rparr>" using ok OGates by simp
  with inv show ?thesis by (simp add: orchestrator_inv_def conveyor_inv_other)
qed (use ok in \<open>auto simp: orchestrator_of_Inr intro: admit_inv [OF inv] activate_inv [OF inv]
    control_inv [OF inv] coordinate_inv [OF inv]\<close>)

lemma orchestrator_inv_new: "orchestrator_inv (new_orchestrator stream)"
proof -
  have "k_orchestration (new_kernel stream) = []" "k_checkpoints (new_kernel stream) = []"
    "\<not> k_orchestration_activated (new_kernel stream)" by (simp_all add: new_kernel_def)
  then show ?thesis
    by (simp add: orchestrator_inv_def new_orchestrator_def conveyor_inv_new ledger_inv_new evidence_inv_def
        evidence_of_def)
qed

interpretation orchestrator: invariant_machine "\<lambda>s. \<exists>stream. s = new_orchestrator stream" "orchestrator_step cx"
  orchestrator_inv for cx
  by unfold_locales
    (auto simp: orchestrator_inv_new orchestrator_step_def dest: run_orchestrator_inv split: sum.splits)

lemma orchestrator_run_inv: "orchestrator_inv (orchestrator_run cx stream ops)"
  unfolding orchestrator_run_def by (rule orchestrator.run_inv) blast

section \<open>Progress\<close>

definition ledger_le :: "orchestration_row \<Rightarrow> orchestration_row \<Rightarrow> bool" where
  "ledger_le r q =
     (or_feature_id q = or_feature_id r \<and> or_orchestration_revision r \<le> or_orchestration_revision q
      \<and> or_active_processing_ms r \<le> or_active_processing_ms q)"

definition feature_moves :: "feature_row \<Rightarrow> feature_row \<Rightarrow> bool" where
  "feature_moves f g =
     (ft_feature_id g = ft_feature_id f
      \<and> ft_current_specification_revision g = ft_current_specification_revision f
      \<and> (ft_status g = ft_status f \<and> ft_lifecycle_revision g = ft_lifecycle_revision f
         \<or> \<not> ended (ft_status f) \<and> ft_lifecycle_revision f < ft_lifecycle_revision g))"

interpretation ledger_rows: row_order ledger_le
  by unfold_locales (auto simp: ledger_le_def)

interpretation moving: row_order feature_moves
  by unfold_locales (auto simp: feature_moves_def)

definition orchestrator_progress :: "orchestrator \<Rightarrow> orchestrator \<Rightarrow> bool" where
  "orchestrator_progress s t =
     (grows feature_moves (k_features (os_kernel s)) (k_features (os_kernel t))
      \<and> grows ledger_le (k_orchestration (os_kernel s)) (k_orchestration (os_kernel t))
      \<and> prefix (k_checkpoints (os_kernel s)) (k_checkpoints (os_kernel t))
      \<and> prefix (k_transitions (os_kernel s)) (k_transitions (os_kernel t))
      \<and> prefix (os_evidence s) (os_evidence t) \<and> prefix (os_controls s) (os_controls t)
      \<and> k_queue_revision (os_kernel s) \<le> k_queue_revision (os_kernel t)
      \<and> (os_activation s \<noteq> None \<longrightarrow> os_activation t = os_activation s))"

lemma orchestrator_progress_refl: "orchestrator_progress s s"
  by (simp add: orchestrator_progress_def ledger_rows.refl moving.refl)

lemma orchestrator_progress_trans:
  "orchestrator_progress s t \<Longrightarrow> orchestrator_progress t u \<Longrightarrow> orchestrator_progress s u"
  unfolding orchestrator_progress_def
  by (intro conjI) (auto intro: ledger_rows.trans moving.trans prefix_order.trans)

lemma conveyor_op_progress:
  assumes inv: "orchestrator_inv s" and ok: "run_conveyor cx op (os_kernel s) = Inr k'"
  shows "orchestrator_progress s (s\<lparr>os_kernel := k'\<rparr>)"
proof -
  have ci: "conveyor_inv False (os_kernel s)" using inv by (simp add: orchestrator_inv_def)
  from run_conveyor_ok [OF ci ok] have p: "conveyor_progress (os_kernel s) k'"
    and w: "orchestration_kept (os_kernel s) k'" by (simp_all add: conveyor_ok_def work_progress_def)
  have "grows feature_moves (k_features (os_kernel s)) (k_features k')"
    using p unfolding conveyor_progress_def
    by (elim conjE grows_mono) (auto simp: feature_moves_def feature_le_def)
  moreover have "grows ledger_le (k_orchestration (os_kernel s)) (k_orchestration k')"
    using w unfolding orchestration_kept_def
  proof (elim conjE grows_mono)
    fix r r' assume "clock_le r r'"
    then show "ledger_le r r'" by (cases r; cases r') (simp add: clock_le_def ledger_le_def)
  qed
  ultimately show ?thesis
    using p w by (simp add: orchestrator_progress_def conveyor_progress_def orchestration_kept_def)
qed

lemma recorded_rows_grow:
  assumes "\<And>q. q \<in> set rows \<Longrightarrow> or_feature_id q = or_feature_id r \<Longrightarrow> ledger_le q r"
  shows "grows ledger_le rows (recorded_rows r rows)"
proof (cases "exists_row (\<lambda>q. or_feature_id q = or_feature_id r) rows")
  case True
  with assms show ?thesis by (simp add: recorded_rows_def ledger_rows.update)
next
  case False
  with ledger_rows.insert show ?thesis by (simp add: recorded_rows_def insert_row_def)
qed

lemma moved_to_grows:
  "\<not> ended (ft_status f) \<Longrightarrow>
     grows feature_moves (k_features k) (k_features (moved_to f target e v now k))"
  unfolding moved_to_def moved_kernel_def
  by (auto simp: feature_moves_def this_feature_def intro!: moving.update)

lemma moved_to_transitions: "prefix (k_transitions k) (k_transitions (moved_to f target e v now k))"
  by (simp add: moved_to_def moved_kernel_def)

lemma ledger_row_unique:
  assumes "ledger_inv rows cs" "find_row (\<lambda>r. or_feature_id r = f) rows = Some r" "q \<in> set rows" "or_feature_id q = f"
  shows "q = r"
  using assms find_row_Some [OF assms(2)] by (auto simp: ledger_inv_def intro: distinct_map_inj)

lemma control_progress:
  assumes inv: "orchestrator_inv s" and ok: "owner_control_feature_orchestration cx q reg now pause s = Inr (s', x)"
  shows "orchestrator_progress s s'"
proof -
  let ?k = "os_kernel s"
  have led: "ledger_inv (k_orchestration ?k) (k_checkpoints ?k)" and ci: "conveyor_inv False ?k"
    using inv by (simp_all add: orchestrator_inv_def)
  have dist: "distinct (map or_feature_id (k_orchestration ?k))" using led by (simp add: ledger_inv_def)
  from control_effect [OF ok dist] show ?thesis
  proof (elim disjE exE conjE)
    assume "s' = s" then show ?thesis by (simp add: orchestrator_progress_refl)
  next
    fix f state plan c assume ctl: "controlled cx q now pause s s' f state plan c"
    then obtain l previous audit where
      f: "find_feature (oc_feature_id q) ?k = Some f"
      and lease: "k_active_lease ?k = Some l" "fl_feature_id l = oc_feature_id q"
      and state: "find_orchestration (oc_feature_id q) ?k = Some state"
      and plan: "(if pause then pause_plan (ft_status f) state previous now else resume_plan (ft_status f) state now) = Inr plan"
      and c: "ck_orchestration_revision c = Suc (or_orchestration_revision state)"
      and s': "s' = s\<lparr>os_kernel := (recorded (controlled_row plan c now state) c
           (moved_to f (cp_target_status plan) False None now ?k))\<lparr>k_audit := audit\<rparr>,
           os_controls := os_controls s @ [fresh_control cx pause q c]\<rparr>"
      unfolding controlled_def Let_def by auto
    note row = ledger_row [OF led state [unfolded find_orchestration_def]]
    have active: "or_active_processing_ms state \<le> cp_active_processing_ms plan"
      using plan row(3) by (auto simp: pause_plan_def resume_plan_def Let_def bindE_Inr_iff ok_or_Inr_iff
          reject_if_Inr_iff saturating_add_u64_def orchestration_row_valid_def u64_max_def
          MAX_FEATURE_CONVEYOR_ACTIVE_PROCESSING_MS_def split: if_splits)
    have "grows ledger_le (k_orchestration ?k) (recorded_rows (controlled_row plan c now state) (k_orchestration ?k))"
    proof (rule recorded_rows_grow)
      fix p assume "p \<in> set (k_orchestration ?k)" "or_feature_id p = or_feature_id (controlled_row plan c now state)"
      then have "p = state" using ledger_row_unique [OF led state [unfolded find_orchestration_def]] row(2)
        by (simp add: controlled_row_def)
      then show "ledger_le p (controlled_row plan c now state)"
        using active c by (simp add: ledger_le_def controlled_row_def)
    qed
    moreover have "busy (ft_status f)"
      using lease_busy [OF ci] find_feature_Some [OF f] lease by (auto simp: holder_def)
    ultimately show ?thesis
      by (simp add: s' orchestrator_progress_def moved_to_grows moved_to_transitions busy_def)
  qed
qed

lemma coordinate_progress:
  assumes inv: "orchestrator_inv s" and ok: "coordinate_feature_orchestration cx i expected now s = Inr (s', p)"
  shows "orchestrator_progress s s'"
proof -
  let ?k = "os_kernel s" let ?e = "find_orchestration i ?k"
  have led: "ledger_inv (k_orchestration ?k) (k_checkpoints ?k)" and ci: "conveyor_inv False ?k"
    using inv by (simp_all add: orchestrator_inv_def)
  have dist: "distinct (map or_feature_id (k_orchestration ?k))" using led by (simp add: ledger_inv_def)
  from coordinate_effect [OF ok dist] obtain f d l where
    f: "find_feature i ?k = Some f" and lease: "k_active_lease ?k = Some l" "fl_feature_id l = i"
    and res: "s' = s \<or> (\<exists>c. coordinated cx now s s' f ?e d c)"
    unfolding Let_def by blast
  have i: "ft_feature_id f = i" using find_feature_Some [OF f] by simp
  from res show ?thesis
  proof (elim disjE exE)
    assume "s' = s" then show ?thesis by (simp add: orchestrator_progress_refl)
  next
    fix c assume co: "coordinated cx now s s' f ?e d c"
    let ?r = "coordinated_row i (ft_status f) d c now"
    let ?t = "status_for_stage (dc_stage d)"
    let ?k1 = "if ?t = ft_status f then ?k
      else moved_to f ?t (dc_effect_possible d) (dc_evidence_sha256 d) now ?k"
    from co obtain audit where
      c: "ck_orchestration_revision c = Suc (stored_revision ?e)"
        "ck_active_processing_ms c = (if budget_spent ?e now then MAX_FEATURE_CONVEYOR_ACTIVE_PROCESSING_MS
           else charged_ms ?e now)"
      and s': "s' = s\<lparr>os_kernel := (recorded ?r c ?k1)\<lparr>k_audit := audit\<rparr>\<rparr>"
      unfolding coordinated_def Let_def i by auto
    have "grows ledger_le (k_orchestration ?k) (recorded_rows ?r (k_orchestration ?k))"
    proof (rule recorded_rows_grow)
      fix q assume q: "q \<in> set (k_orchestration ?k)" "or_feature_id q = or_feature_id ?r"
      then have id: "or_feature_id q = i" by (simp add: coordinated_row_def)
      then obtain r where "?e = Some r"
        using q(1) by (cases ?e) (auto simp: find_orchestration_def find_row_None)
      with ledger_row_unique [OF led _ q(1) id] have e: "?e = Some q" by (simp add: find_orchestration_def)
      have "or_active_processing_ms q \<le> MAX_FEATURE_CONVEYOR_ACTIVE_PROCESSING_MS"
        using led q(1) by (simp add: ledger_inv_def orchestration_row_valid_def)
      then have "or_active_processing_ms q \<le> ck_active_processing_ms c"
        unfolding c(2) e by (simp add: charged_ms_def saturating_add_u64_def u64_max_def
            MAX_FEATURE_CONVEYOR_ACTIVE_PROCESSING_MS_def)
      then show "ledger_le q ?r" using id by (simp add: ledger_le_def coordinated_row_def c(1) e stored_revision_def)
    qed
    moreover have "busy (ft_status f)"
      using lease_busy [OF ci] find_feature_Some [OF f] lease by (auto simp: holder_def)
    then have "grows feature_moves (k_features ?k) (k_features ?k1)" "prefix (k_transitions ?k) (k_transitions ?k1)"
      by (simp_all add: moved_to_grows moved_to_transitions busy_def moving.refl)
    moreover have "k_orchestration ?k1 = k_orchestration ?k" "k_checkpoints ?k1 = k_checkpoints ?k"
      "k_queue_revision ?k1 = k_queue_revision ?k" by simp_all
    ultimately show ?thesis by (simp add: s' orchestrator_progress_def split del: if_split)
  qed
qed

lemma run_orchestrator_progress:
  assumes inv: "orchestrator_inv s" and ok: "run_orchestrator cx op s = Inr s'"
  shows "orchestrator_progress s s'"
proof (cases op)
  case (OConveyor c)
  with ok conveyor_op_progress [OF inv] show ?thesis by (auto simp: on_kernel_Inr)
next
  case (OGates publications intents gates)
  with ok have "s' = s\<lparr>os_kernel := (os_kernel s)\<lparr>k_publications := publications, k_publication_intents := intents\<rparr>,
            os_gates := gates\<rparr>" by simp
  then show ?thesis by (simp add: orchestrator_progress_def ledger_rows.refl moving.refl)
next
  case (OAdmit r at)
  with ok obtain x where "admit_feature_activation_evidence cx r at s = Inr (s', x)" by (auto simp: orchestrator_of_Inr)
  from admit_effect [OF this] show ?thesis
    by (auto simp: orchestrator_progress_def ledger_rows.refl moving.refl)
next
  case (OActivate r registration now)
  with ok obtain x where "activate_feature_orchestration cx r registration now s = Inr (s', x)"
    by (auto simp: orchestrator_of_Inr)
  from activate_effect [OF this] show ?thesis
    by (auto simp: orchestrator_progress_def ledger_rows.refl moving.refl)
qed (use ok in \<open>auto simp: orchestrator_of_Inr intro: control_progress [OF inv] coordinate_progress [OF inv]\<close>)

definition keeps_orchestrator :: "orchestrator \<Rightarrow> orchestrator \<Rightarrow> bool" where
  "keeps_orchestrator s t = (orchestrator_inv s \<longrightarrow> orchestrator_inv t \<and> orchestrator_progress s t)"

interpretation orchestrator_log: monotone_machine "orchestrator_step cx" keeps_orchestrator for cx
proof
  show "keeps_orchestrator s s" for s by (simp add: keeps_orchestrator_def orchestrator_progress_refl)
  show "keeps_orchestrator s t \<Longrightarrow> keeps_orchestrator t u \<Longrightarrow> keeps_orchestrator s u" for s t u
    unfolding keeps_orchestrator_def using orchestrator_progress_trans by blast
  show "keeps_orchestrator s (orchestrator_step cx s op)" for s op
    by (auto simp: keeps_orchestrator_def orchestrator_step_def orchestrator_progress_refl
        intro: run_orchestrator_inv run_orchestrator_progress split: sum.splits)
qed

lemma orchestrator_run_append:
  "orchestrator_run cx stream (ops @ later) = run_ops (orchestrator_step cx) (orchestrator_run cx stream ops) later"
  by (simp add: orchestrator_run_def run_ops_append)

lemma orchestrator_run_progress:
  "orchestrator_progress (orchestrator_run cx stream ops) (orchestrator_run cx stream (ops @ later))"
  using orchestrator_log.run_rel [of "orchestrator_run cx stream ops" cx later] orchestrator_run_inv
  by (simp add: orchestrator_run_append keeps_orchestrator_def)

end
