(* ===== verification/Orchestration_Properties.thy ===== *)
theory Orchestration_Properties
  imports Orchestration_Runs Conveyor_Trace
begin

text \<open>
  The properties of the orchestrator over runs of its own and the conveyor's operations, in which the tables of
  the gates may hold anything (\<open>OGates\<close>): the ledger and its budget, the activation, and the emergency pause.
\<close>

section \<open>On every run\<close>

text \<open>
  C7. The ledger: on every run a feature has at most one ledger row, with at most 24 hours of charged time,
  paused exactly when it has a pause kind and a stage to resume, and pointing at a checkpoint of the same
  feature, revision and stage; the checkpoints of each feature are numbered 1, 2, 3, .. up to the revision of
  its row; and there is no row and no checkpoint before the activation.
\<close>

theorem ledger_is_consistent:
  "let s = orchestrator_run cx stream ops; rows = k_orchestration (os_kernel s); cs = k_checkpoints (os_kernel s) in
     distinct (map or_feature_id rows)
   \<and> list_all (\<lambda>r. or_active_processing_ms r \<le> 24 * 60 * 60 * 1000
        \<and> (or_stage r = OsPaused) = (or_pause_kind r \<noteq> None)
        \<and> (or_stage r = OsPaused) = (or_resume_stage r \<noteq> None)
        \<and> list_ex (\<lambda>c. ck_checkpoint_id c = or_checkpoint_id r \<and> ck_feature_id c = or_feature_id r
            \<and> ck_orchestration_revision c = or_orchestration_revision r \<and> ck_stage c = or_stage r) cs) rows
   \<and> checkpoint_revisions feature cs = [1..<Suc (ledger_revision feature rows)]
   \<and> (case os_activation s of None \<Rightarrow> rows = [] \<and> cs = [] | Some _ \<Rightarrow> True)"
proof -
  let ?s = "orchestrator_run cx stream ops"
  let ?rows = "k_orchestration (os_kernel ?s)" and ?cs = "k_checkpoints (os_kernel ?s)"
  have inv: "orchestrator_inv ?s" by (rule orchestrator_run_inv)
  then have led: "ledger_inv ?rows ?cs" by (simp add: orchestrator_inv_def)
  have "?cs = []" if "?rows = []"
    using led that by (cases ?cs) (auto simp: ledger_inv_def checkpoint_revisions_def ledger_revision_def
        dest: spec [where x = "ck_feature_id (hd ?cs)"])
  moreover have "os_activation ?s = None \<Longrightarrow> ?rows = []" using inv by (simp add: orchestrator_inv_def)
  moreover have "(or_active_processing_ms r \<le> 24 * 60 * 60 * 1000
        \<and> (or_stage r = OsPaused) = (or_pause_kind r \<noteq> None)
        \<and> (or_stage r = OsPaused) = (or_resume_stage r \<noteq> None)
        \<and> list_ex (\<lambda>c. ck_checkpoint_id c = or_checkpoint_id r \<and> ck_feature_id c = or_feature_id r
            \<and> ck_orchestration_revision c = or_orchestration_revision r \<and> ck_stage c = or_stage r) ?cs)"
    if "r \<in> set ?rows" for r
    using led that
    by (auto simp: ledger_inv_def orchestration_row_valid_def checkpoint_backs_def list_ex_iff
        MAX_FEATURE_CONVEYOR_ACTIVE_PROCESSING_MS_def)
  ultimately show ?thesis using led by (auto simp: Let_def list_all_iff ledger_inv_def split: option.split)
qed

text \<open>
  C8. Activation is earned and final: on every run the activation, once there is one, names an admitted
  evidence row of the right category and of the category's own origin for each of the six roles, and no later
  operation changes it; the evidence of each category is numbered 1, 2, 3, ..
\<close>

theorem activation_is_earned_and_final:
  "let s = orchestrator_run cx stream ops; t = orchestrator_run cx stream (ops @ later) in
     (case os_activation s of
        None \<Rightarrow> k_orchestration_activated (os_kernel s) = False
      | Some a \<Rightarrow> os_activation t = Some a \<and> k_orchestration_activated (os_kernel s)
          \<and> list_all (\<lambda>(category, i). list_ex (\<lambda>e. ae_evidence_id e = i \<and> ae_category e = category
                \<and> accepts_origin category (ae_origin e) \<and> ae_observed_at_ms e \<le> ae_recorded_at_ms e) (os_evidence s))
              [(EcRepositoryGateProof, sl_repository_gate_proof (av_evidence_ids a)),
               (EcRestrictedWorkerLive, sl_restricted_worker_live (av_evidence_ids a)),
               (EcReviewProviderLive, sl_review_provider_live (av_evidence_ids a)),
               (EcGithubPublicationLive, sl_github_publication_live (av_evidence_ids a)),
               (EcRestartRecoveryLive, sl_restart_recovery_live (av_evidence_ids a)),
               (EcControlEventStreamingLive, sl_control_event_streaming_live (av_evidence_ids a))])
   \<and> map ae_revision (filter (\<lambda>e. ae_category e = c) (os_evidence s))
       = [1..<Suc (length (filter (\<lambda>e. ae_category e = c) (os_evidence s)))]"
proof -
  let ?s = "orchestrator_run cx stream ops" and ?t = "orchestrator_run cx stream (ops @ later)"
  have inv: "orchestrator_inv ?s" by (rule orchestrator_run_inv)
  have role: "list_ex (\<lambda>e. ae_evidence_id e = i \<and> ae_category e = category
        \<and> accepts_origin category (ae_origin e) \<and> ae_observed_at_ms e \<le> ae_recorded_at_ms e) (os_evidence ?s)"
    if "role_backed (os_evidence ?s) category i" for category i
    using inv that
    by (auto simp: orchestrator_inv_def evidence_inv_def evidence_row_ok_def role_backed_def list_ex_iff)
  have kept: "os_activation ?s = Some a \<Longrightarrow> os_activation ?t = Some a" for a
    using orchestrator_run_progress [of cx stream ops later] by (simp add: orchestrator_progress_def)
  have "map ae_revision (filter (\<lambda>e. ae_category e = c) (os_evidence ?s))
       = [1..<Suc (length (filter (\<lambda>e. ae_category e = c) (os_evidence ?s)))]"
    using inv by (simp add: orchestrator_inv_def evidence_inv_def evidence_of_def)
  moreover have "k_orchestration_activated (os_kernel ?s) = (os_activation ?s \<noteq> None)"
    using inv by (simp add: orchestrator_inv_def)
  moreover have "activation_backed (os_evidence ?s) (av_evidence_ids a)" if "os_activation ?s = Some a" for a
    using inv that by (simp add: orchestrator_inv_def)
  ultimately show ?thesis
    using role kept unfolding Let_def by (auto simp: activation_backed_def split: option.split)
qed

text \<open>
  C20. Nothing is taken back: between any two points of a run evidence, controls, checkpoints and the lifecycle's
  transitions are only appended; a feature's row keeps its identity and specification and either stands still
  or gets a larger lifecycle revision, and a finished feature stands still; a ledger row keeps its feature, and
  neither its revision nor its charged time decreases.
\<close>

theorem orchestration_is_append_only:
  "let s = orchestrator_run cx stream ops; t = orchestrator_run cx stream (ops @ later) in
     prefix (os_evidence s) (os_evidence t) \<and> prefix (os_controls s) (os_controls t)
   \<and> prefix (k_checkpoints (os_kernel s)) (k_checkpoints (os_kernel t))
   \<and> prefix (k_transitions (os_kernel s)) (k_transitions (os_kernel t))
   \<and> list_all2 (\<lambda>f g. ft_feature_id g = ft_feature_id f
          \<and> ft_current_specification_revision g = ft_current_specification_revision f
          \<and> (ft_status g = ft_status f \<and> ft_lifecycle_revision g = ft_lifecycle_revision f
             \<or> ft_status f \<notin> {FSucceeded, FAbandoned} \<and> ft_lifecycle_revision f < ft_lifecycle_revision g))
       (k_features (os_kernel s)) (take (length (k_features (os_kernel s))) (k_features (os_kernel t)))
   \<and> list_all2 (\<lambda>r q. or_feature_id q = or_feature_id r
          \<and> or_orchestration_revision r \<le> or_orchestration_revision q
          \<and> or_active_processing_ms r \<le> or_active_processing_ms q)
       (k_orchestration (os_kernel s)) (take (length (k_orchestration (os_kernel s))) (k_orchestration (os_kernel t)))"
  using orchestrator_run_progress [of cx stream ops later]
  unfolding orchestrator_progress_def grows_def Let_def feature_moves_def ledger_le_def ended_def by simp

section \<open>Emergency pause\<close>

text \<open>
  C21. The emergency pause dominates the orchestrator: while it is set neither an activation, nor an owner's
  pause or resume, nor a coordination, nor new evidence changes anything.
\<close>

theorem emergency_pause_stops_orchestration:
  assumes "k_emergency_paused (os_kernel s) \<noteq> 0"
    and "case op of OConveyor _ \<Rightarrow> False | OGates _ _ _ \<Rightarrow> False | _ \<Rightarrow> True"
  shows "orchestrator_step cx s op = s"
proof (cases "run_orchestrator cx op s")
  case (Inr s')
  have "s' = s"
  proof (cases op)
    case (OAdmit r at)
    with Inr obtain x where "admit_feature_activation_evidence cx r at s = Inr (s', x)" by (auto simp: orchestrator_of_Inr)
    from admit_effect [OF this] assms(1) show ?thesis by auto
  next
    case (OActivate r registration now)
    with Inr obtain x where "activate_feature_orchestration cx r registration now s = Inr (s', x)"
      by (auto simp: orchestrator_of_Inr)
    from activate_effect [OF this] assms(1) show ?thesis by auto
  next
    case (OControl r registration now pause)
    with Inr assms(1) show ?thesis
      by (auto simp: orchestrator_of_Inr owner_control_feature_orchestration_def Let_def bindE_Inr_iff
          require_unpaused_revision_Inr)
  next
    case (OCoordinate feature expected now)
    with Inr assms(1) show ?thesis
      by (auto simp: orchestrator_of_Inr coordinate_feature_orchestration_def Let_def bindE_Inr_iff
          require_emergency_unpaused_Inr)
  qed (use assms(2) in auto)
  with Inr show ?thesis by (simp add: orchestrator_step_def)
qed (simp add: orchestrator_step_def)

text \<open>A database whose emergency pause was just entered.\<close>

definition paused_orchestrator :: orchestrator where
  "paused_orchestrator = (new_orchestrator 7)
     \<lparr>os_kernel := (new_kernel 7)\<lparr>k_emergency_paused := 1, k_emergency_pause_revision := 1\<rparr>\<rparr>"

theorem emergency_pause_stops_orchestration_witness:
  "orchestrator_step sample_codec paused_orchestrator (OCoordinate 41 0 5) = paused_orchestrator
   \<and> run_orchestrator sample_codec (OCoordinate 41 0 5) paused_orchestrator = Inl EmergencyPaused"
proof
  show "orchestrator_step sample_codec paused_orchestrator (OCoordinate 41 0 5) = paused_orchestrator"
    by (rule emergency_pause_stops_orchestration) (simp_all add: paused_orchestrator_def)
  show "run_orchestrator sample_codec (OCoordinate 41 0 5) paused_orchestrator = Inl EmergencyPaused"
    by (simp add: coordinate_feature_orchestration_def paused_orchestrator_def require_emergency_unpaused_def
        emergency_paused_tx_def orchestrator_of_def reject_if_def)
qed

end
