(* ===== verification/Orchestration_Success.thy ===== *)
theory Orchestration_Success
  imports Orchestration_Runs Conveyor_Success
begin

text \<open>
  When the orchestrator's operations succeed: the converse of the lemmas of \<open>Orchestration_Effects\<close>, under
  the checks that the code makes, the bounds of the stored integers and a checkpoint digest that is not in
  use. In states that satisfy \<open>orchestrator_inv\<close> the constraints of the tables then hold by themselves.
\<close>

section \<open>Audit rows\<close>

lemma stage_text_length: "length (stage_text s) \<le> 18"
  by (cases s) simp_all

lemma action_text_length: "length (action_text a) \<le> 32"
  by (cases a) simp_all

lemma reason_text_length: "length (reason_text r) \<le> 42"
  by (cases r) simp_all

lemma fits_coordinate:
  assumes "ck_orchestration_revision c \<le> u64_max" "ck_lifecycle_revision c \<le> u64_max"
    "ck_replacement_candidates_used c \<le> u64_max" "ck_active_processing_ms c \<le> u64_max"
  shows "\<exists>kvs. coordinate_metadata c = JObject kvs \<and> members_fit kvs"
  using assms stage_text_length [of "ck_stage c"] action_text_length [of "ck_action c"] reason_text_length [of "ck_reason c"]
  by (simp add: coordinate_metadata_def members_fit_def room_json_nat u64_max_def
      MAX_FEATURE_CONVEYOR_ACTIVE_PROCESSING_MS_def)

lemma fits_control:
  assumes "l \<le> u64_max" "n \<le> u64_max" "oc_expected_queue_revision q \<le> u64_max"
    "oc_expected_owner_control_designation_revision q \<le> u64_max" "oc_expected_emergency_pause_revision q \<le> u64_max"
  shows "\<exists>kvs. control_metadata q l n = JObject kvs \<and> members_fit kvs"
  using assms by (simp add: control_metadata_def members_fit_def room_json_nat)

section \<open>The ledger\<close>

text \<open>A digest that can name the next checkpoint.\<close>

definition digest_usable :: "checkpoint_row \<Rightarrow> checkpoint_row list \<Rightarrow> bool" where
  "digest_usable c cs =
     (ck_checkpoint_sha256 c \<noteq> 0
      \<and> list_all (\<lambda>d. ck_checkpoint_sha256 d \<noteq> 0 \<and> ck_checkpoint_id d \<noteq> ck_checkpoint_id c
            \<and> ck_checkpoint_sha256 d \<noteq> ck_checkpoint_sha256 c) cs)"

lemma checkpoint_revision_le:
  assumes inv: "ledger_inv rows cs" and d: "d \<in> set cs"
  shows "ck_orchestration_revision d \<le> ledger_revision (ck_feature_id d) rows"
proof -
  have "ck_orchestration_revision d \<in> set (checkpoint_revisions (ck_feature_id d) cs)"
    using d by (auto simp: checkpoint_revisions_def)
  then show ?thesis using inv by (auto simp: ledger_inv_def)
qed

lemma insert_checkpoint_succeeds:
  assumes inv: "ledger_inv (k_orchestration k) (k_checkpoints k)"
    and rev: "ck_orchestration_revision c = Suc (ledger_revision (ck_feature_id c) (k_orchestration k))"
    and usable: "digest_usable c (k_checkpoints k)"
    and bounds: "ck_orchestration_revision c \<le> i64_max" "ck_lifecycle_revision c \<le> i64_max" "0 < ck_lifecycle_revision c"
      "ck_active_processing_ms c \<le> MAX_FEATURE_CONVEYOR_ACTIVE_PROCESSING_MS" "ck_replacement_candidates_used c \<le> 3"
      "0 < ck_recorded_at_ms c" "ck_recorded_at_ms c \<le> i64_max"
  shows "insert_checkpoint c k = Inr (k\<lparr>k_checkpoints := k_checkpoints k @ [c]\<rparr>)"
  using usable rev bounds checkpoint_revision_le [OF inv]
  by (fastforce simp: insert_checkpoint_Inr digest_usable_def list_all_iff)

lemma ledger_row_storable:
  assumes inv: "ledger_inv (k_orchestration k) (k_checkpoints k)"
    and usable: "digest_usable c (k_checkpoints k)" and id: "or_checkpoint_id r = ck_checkpoint_id c"
    and valid: "orchestration_row_valid r" and rows: "k_orchestration k' = k_orchestration k"
  shows "orchestration_row_storable r k'"
proof -
  have "or_checkpoint_id q \<noteq> ck_checkpoint_id c" if q: "q \<in> set (k_orchestration k)" for q
  proof -
    from inv q obtain d where "d \<in> set (k_checkpoints k)" "ck_checkpoint_id d = or_checkpoint_id q"
      by (auto simp: ledger_inv_def checkpoint_backs_def)
    with usable show ?thesis by (auto simp: digest_usable_def list_all_iff)
  qed
  with valid id show ?thesis by (auto simp: orchestration_row_storable_def exists_row_iff rows)
qed

lemma update_orchestration_succeeds:
  assumes "orchestration_row_storable r k" "or_orchestration_revision r \<le> i64_max" "or_active_processing_ms r \<le> i64_max"
    "or_updated_at_ms r \<le> i64_max" "\<forall>t. or_clock_started_at_ms r = Some t \<longrightarrow> t \<le> i64_max"
    "\<forall>t. or_next_retry_at_ms r = Some t \<longrightarrow> t \<le> i64_max"
  shows "\<exists>k'. update_orchestration expected r k = Inr k'"
  using assms by (auto simp: update_orchestration_def to_i64_def reject_if_def split: option.split)

lemma upsert_orchestration_succeeds:
  assumes "\<exists>k'. update_orchestration expected r k = Inr k'"
  shows "\<exists>k'. upsert_orchestration expected r k = Inr k'"
  using assms by (auto simp: upsert_orchestration_def)

lemma move_succeeds:
  assumes inv: "conveyor_inv strict k" and f: "find_feature i k = Some f"
    and bounds: "ft_created_at_ms f \<le> now" "now \<le> i64_max" "Suc (ft_lifecycle_revision f) \<le> i64_max"
  shows "\<exists>k1. move_feature (\<lambda>g. ft_feature_id g = i \<and> ft_status g = ft_status f
          \<and> ft_lifecycle_revision g = ft_lifecycle_revision f) target e now k = Inr k1
     \<and> (\<exists>k2. insert_transition ((bare_transition i (Suc (ft_lifecycle_revision f)) (ft_status f) target now)
            \<lparr>tr_accepted_evidence_sha256 := v\<rparr>) k1 = Inr k2)"
proof -
  note fs = only_feature [OF inv f]
  show ?thesis
    using bounds fs no_later_transition [OF inv f, of "Suc (ft_lifecycle_revision f)"]
    by (auto simp: move_feature_Inr insert_transition_Inr bare_transition_def find_transition_def)
qed

section \<open>Working features\<close>

definition working_status :: "feature_status \<Rightarrow> bool" where
  "working_status s = (s \<in> {FImplementing, FValidating, FReviewing, FPublishing, FVerifyingMain, FRepairing})"

definition decision_ok :: "nat \<Rightarrow> gate_tables \<Rightarrow> orchestration_decision \<Rightarrow> bool" where
  "decision_ok now g d =
     ((dc_stage d = OsPaused) = (dc_pause_kind d \<noteq> None)
      \<and> (dc_stage d \<noteq> OsPaused \<longrightarrow> dc_next_retry_at_ms d = None)
      \<and> (\<forall>t. dc_next_retry_at_ms d = Some t \<longrightarrow> now < t \<and> dc_reason d = OnReviewTransportBackoff
            \<and> (\<exists>r \<in> set (tb_review_outcomes g). ro_next_retry_at_ms r = Some t)))"

lemma outcomes_of_table: "r \<in> set (outcomes_of i g) \<Longrightarrow> r \<in> set (tb_review_outcomes g)"
  by (auto simp: outcomes_of_def outcomes_of_call_def)

lemma retry_decision_ok: "decision_ok now g (retry_decision i g now)"
proof (cases "newest (\<lambda>c d. ro_completed_at_ms c < ro_completed_at_ms d)
    (filter (\<lambda>r. ro_next_retry_at_ms r \<noteq> None) (outcomes_of i g))")
  case None
  then have "retry_decision i g now = ordinary OsReviewing OaAwaitReviewDecision"
    unfolding retry_decision_def by simp
  then show ?thesis by (simp add: decision_ok_def ordinary_def decided_def)
next
  case (Some r)
  from newest_Some [OF Some] have "r \<in> set (tb_review_outcomes g)" "ro_next_retry_at_ms r \<noteq> None"
    using outcomes_of_table by auto
  with Some show ?thesis
    unfolding retry_decision_def by (auto simp: decision_ok_def ordinary_def decided_def)
qed

lemma working_decision:
  assumes "working_status status"
  shows "\<exists>d. derive_orchestration_decision i status e now k g = Inr d \<and> decision_ok now g d"
proof -
  have simple: "decision_ok now g ambiguous_effect" "decision_ok now g attention_decision"
    "stage \<noteq> OsPaused \<Longrightarrow> decision_ok now g (ordinary stage a)"
    "stage \<noteq> OsPaused \<Longrightarrow> decision_ok now g (decided stage a r)"
    "stage \<noteq> OsPaused \<Longrightarrow> decision_ok now g ((decided stage a r)\<lparr>dc_evidence_sha256 := v\<rparr>)" for stage a r v
    by (simp_all add: decision_ok_def ambiguous_effect_def attention_decision_def ordinary_def decided_def)
  have "decision_ok now g (validating_decision i g)" "decision_ok now g (reviewing_decision i g now)"
    using retry_decision_ok
    by (auto simp: validating_decision_def reviewing_decision_def Let_def simple split: option.splits)
  with assms simple show ?thesis
    by (auto simp: working_status_def derive_orchestration_decision_def)
qed

lemma budget_decision_ok: "decision_ok now g d \<Longrightarrow> decision_ok now g (budget_decision spent d)"
  by (auto simp: budget_decision_def decision_ok_def decided_def)

section \<open>Coordination\<close>

text \<open>The decision that a coordination will record, and its checkpoint.\<close>

definition next_decision :: "uuid \<Rightarrow> feature_row \<Rightarrow> nat \<Rightarrow> orchestrator \<Rightarrow> orchestration_decision" where
  "next_decision i f now s =
     (let e = find_orchestration i (os_kernel s) in
      budget_decision (budget_spent e now)
        (case derive_orchestration_decision i (ft_status f) e now (os_kernel s) (os_gates s) of
           Inl _ \<Rightarrow> ambiguous_effect | Inr d \<Rightarrow> d))"

definition next_checkpoint :: "codec \<Rightarrow> uuid \<Rightarrow> feature_row \<Rightarrow> nat \<Rightarrow> orchestrator \<Rightarrow> checkpoint_row" where
  "next_checkpoint cx i f now s =
     (let e = find_orchestration i (os_kernel s); d = next_decision i f now s in
      checkpoint_of cx i (Suc (stored_revision e))
        (if status_for_stage (dc_stage d) = ft_status f then ft_lifecycle_revision f
         else Suc (ft_lifecycle_revision f)) d
        (case e of None \<Rightarrow> 0 | Some r \<Rightarrow> or_replacement_candidates_used r)
        (if budget_spent e now then MAX_FEATURE_CONVEYOR_ACTIVE_PROCESSING_MS else charged_ms e now) now)"

lemma coordinate_move_succeeds:
  assumes inv: "conveyor_inv strict k" and f: "find_feature i k = Some f"
    and bounds: "ft_created_at_ms f \<le> now" "now \<le> i64_max" "Suc (ft_lifecycle_revision f) \<le> i64_max"
  shows "\<exists>k1. coordinate_move i (ft_status f) (ft_lifecycle_revision f) d now k
    = Inr (k1, if status_for_stage (dc_stage d) = ft_status f then ft_lifecycle_revision f
        else Suc (ft_lifecycle_revision f))"
proof (cases "status_for_stage (dc_stage d) = ft_status f")
  case True
  then show ?thesis by (simp add: coordinate_move_def)
next
  case False
  from move_succeeds [OF inv f bounds] obtain k1 k2 where
    1: "move_feature (\<lambda>g. ft_feature_id g = i \<and> ft_status g = ft_status f
          \<and> ft_lifecycle_revision g = ft_lifecycle_revision f) (status_for_stage (dc_stage d)) (dc_effect_possible d) now k
        = Inr k1"
    "insert_transition ((bare_transition i (Suc (ft_lifecycle_revision f)) (ft_status f)
          (status_for_stage (dc_stage d)) now)\<lparr>tr_accepted_evidence_sha256 := dc_evidence_sha256 d\<rparr>) k1 = Inr k2"
    by blast
  have "checked_add_u64 (ft_lifecycle_revision f) 1 = Some (Suc (ft_lifecycle_revision f))"
    using bounds(3) by (simp add: checked_add_u64_def i64_max_def u64_max_def)
  with False 1 bounds(3) one_feature [OF inv f] show ?thesis
    by (simp add: coordinate_move_def Let_def to_i64_def reject_if_def ok_or_def)
qed

lemma charged_le:
  "(if budget_spent e now then MAX_FEATURE_CONVEYOR_ACTIVE_PROCESSING_MS else charged_ms e now)
    \<le> MAX_FEATURE_CONVEYOR_ACTIVE_PROCESSING_MS"
  by (simp add: budget_spent_def)

lemma candidates_le:
  assumes "ledger_inv rows cs" "e = find_row (\<lambda>r. or_feature_id r = i) rows"
  shows "(case e of None \<Rightarrow> 0 | Some r \<Rightarrow> or_replacement_candidates_used r) \<le> 3"
proof (cases e)
  case (Some r)
  with ledger_row(3) [OF assms(1) assms(2) [symmetric, unfolded Some]] show ?thesis
    by (simp add: orchestration_row_valid_def)
qed simp

lemma coordinate_commit_succeeds:
  assumes q: "quote_bounded (quote_json cx)" and inv: "conveyor_inv strict k"
    and led: "ledger_inv (k_orchestration k) (k_checkpoints k)"
    and f: "find_feature i k = Some f" and i: "i \<noteq> 0" and work: "working_status (ft_status f)"
    and d: "decision_ok now g d" "\<And>t. dc_next_retry_at_ms d = Some t \<Longrightarrow> t \<le> i64_max"
    and time: "0 < now" "ft_created_at_ms f \<le> now" "now \<le> i64_max"
    and e: "e = find_orchestration i k"
    and bounds: "Suc (stored_revision e) \<le> i64_max" "Suc (ft_lifecycle_revision f) \<le> i64_max"
    and c: "c = checkpoint_of cx i (Suc (stored_revision e))
        (if status_for_stage (dc_stage d) = ft_status f then ft_lifecycle_revision f
         else Suc (ft_lifecycle_revision f)) d
        (case e of None \<Rightarrow> 0 | Some r \<Rightarrow> or_replacement_candidates_used r)
        (if budget_spent e now then MAX_FEATURE_CONVEYOR_ACTIVE_PROCESSING_MS else charged_ms e now) now"
    and usable: "digest_usable c (k_checkpoints k)"
  shows "\<exists>k' p. coordinate_commit cx i (ft_status f) (ft_lifecycle_revision f) e d (budget_spent e now) now k = Inr (k', p)"
proof -
  let ?r = "coordinated_row i (ft_status f) d c now"
  have dist: "distinct (map or_feature_id (k_orchestration k))" using led by (simp add: ledger_inv_def)
  have e': "e = find_row (\<lambda>r. or_feature_id r = i) (k_orchestration k)" by (simp add: e find_orchestration_def)
  note le = charged_le [of e now] candidates_le [OF led e']
  have small: "MAX_FEATURE_CONVEYOR_ACTIVE_PROCESSING_MS \<le> i64_max" "i64_max \<le> u64_max"
    by (simp_all add: MAX_FEATURE_CONVEYOR_ACTIVE_PROCESSING_MS_def i64_max_def u64_max_def)
  have pos: "0 < ft_lifecycle_revision f"
    using feature_of_inv [OF inv] find_feature_Some [OF f] by (force simp: feature_ok_def)
  from coordinate_move_succeeds [OF inv f time(2,3) bounds(2), of d] obtain k1 l where
    move: "coordinate_move i (ft_status f) (ft_lifecycle_revision f) d now k = Inr (k1, l)" by blast
  note m = coordinate_move_Inr [OF move f]
  have rows: "k_orchestration k1 = k_orchestration k" "k_checkpoints k1 = k_checkpoints k"
    using m by (auto simp: moved_to_def)
  have rev: "stored_revision e = ledger_revision i (k_orchestration k)"
    by (simp add: e' stored_revision_def ledger_revision_def)
  let ?k2 = "k1\<lparr>k_checkpoints := k_checkpoints k1 @ [c]\<rparr>"
  have ck: "ck_lifecycle_revision c \<le> i64_max" "0 < ck_lifecycle_revision c" "ck_checkpoint_id c \<noteq> 0"
    using bounds(2) pos by (auto simp: c)
  have insert: "insert_checkpoint c k1 = Inr ?k2"
    using led usable rev bounds(1) le time ck
    by (intro insert_checkpoint_succeeds) (auto simp: c rows)
  have valid: "orchestration_row_valid ?r"
    using d(1) work le time(1)
    by (auto simp: orchestration_row_valid_def coordinated_row_def decision_ok_def c resumable_stage_def
        working_status_def)
  have storable: "orchestration_row_storable ?r ?k2"
    by (rule ledger_row_storable [OF led usable _ valid]) (simp_all add: coordinated_row_def rows)
  have "\<exists>k'. update_orchestration (stored_revision e) ?r ?k2 = Inr k'"
    using bounds(1) le time d(2) small(1)
    by (intro update_orchestration_succeeds [OF storable]) (auto simp: coordinated_row_def c)
  then obtain k3 where up: "upsert_orchestration (stored_revision e) ?r ?k2 = Inr k3"
    using upsert_orchestration_succeeds by blast
  have rid: "or_feature_id ?r = i" by (simp add: coordinated_row_def)
  have k3: "k3 = ?k2\<lparr>k_orchestration := recorded_rows ?r (k_orchestration k)\<rparr>"
    using upsert_is_recorded [of ?r "k_orchestration k" ?k2 k3] up dist by (simp add: rid rows e' find_orchestration_def)
  have "\<exists>kvs. coordinate_metadata c = JObject kvs \<and> members_fit kvs"
    using bounds small le ck(1) by (intro fits_coordinate) (auto simp: c u64_max_def)
  then obtain k4 where audit: "append_audit cx ''feature_orchestration_checkpointed'' (Some i) now
      (coordinate_metadata c) k3 = Inr k4"
    using audit_succeeds [OF q, of _ "''feature_orchestration_checkpointed''"] time(3) by fastforce
  from audit_effect [OF audit] obtain row where k4: "k4 = k3\<lparr>k_audit := insert_row row (k_audit k3)\<rparr>" ..
  have "find_orchestration i k4 = Some ?r"
    using find_recorded [of ?r "k_orchestration k"] by (simp add: find_orchestration_def k4 k3 rid)
  moreover have "or_replacement_candidates_used ?r \<le> 255" using le(2) by (simp add: coordinated_row_def c)
  ultimately have state: "load_orchestration_state i k4 = Inr (Some ?r)" by (simp add: load_state_Inr)
  have "find_row (\<lambda>d. ck_checkpoint_id d = ck_checkpoint_id c) (k_checkpoints k) = None"
    using usable by (auto simp: find_row_None digest_usable_def list_all_iff)
  then have loaded: "load_orchestration_checkpoint (ck_checkpoint_id c) k4 = Inr c"
    by (simp add: load_checkpoint_Inr k4 k3 rows find_row_snoc)
  have projection: "validate_orchestration_projection (orchestration_projection_of i ?r c) = Inr ()"
    using i ck usable le d(1)
    by (auto simp: validate_orchestration_projection_def reject_if_def orchestration_projection_of_def
        coordinated_row_def c digest_usable_def decision_ok_def MAX_FEATURE_CONVEYOR_REPLACEMENT_CANDIDATES_def)
  have active: "(case e of None \<Rightarrow> if budget_spent e now then MAX_FEATURE_CONVEYOR_ACTIVE_PROCESSING_MS else 0
            | Some r \<Rightarrow> if budget_spent e now then MAX_FEATURE_CONVEYOR_ACTIVE_PROCESSING_MS
                else saturating_add_u64 (or_active_processing_ms r) (elapsed_ms (or_clock_started_at_ms r) now))
      = (if budget_spent e now then MAX_FEATURE_CONVEYOR_ACTIVE_PROCESSING_MS else charged_ms e now)"
    by (simp add: charged_ms_def split: option.splits)
  have l: "l = (if status_for_stage (dc_stage d) = ft_status f then ft_lifecycle_revision f
         else Suc (ft_lifecycle_revision f))" using m by simp
  have add: "checked_add_u64 (stored_revision e) 1 = Some (Suc (stored_revision e))"
    using bounds(1) small by (simp add: checked_add_u64_def)
  have "coordinate_commit cx i (ft_status f) (ft_lifecycle_revision f) e d (budget_spent e now) now k
      = Inr (k4, orchestration_projection_of i ?r c)"
    unfolding coordinate_commit_def Let_def move
    using le(2) add insert up audit state loaded projection
    by (simp add: reject_if_def MAX_FEATURE_CONVEYOR_REPLACEMENT_CANDIDATES_def ok_or_def l c [symmetric]
        protocol_result_def)
  then show ?thesis by blast
qed

lemma coordinate_succeeds:
  assumes q: "quote_bounded (quote_json cx)" and inv: "orchestrator_inv s"
    and f: "find_feature i (os_kernel s) = Some f" and work: "working_status (ft_status f)"
    and on: "i \<noteq> 0" "k_orchestration_activated (os_kernel s)" "k_emergency_paused (os_kernel s) = 0"
    and time: "0 < now" "ft_created_at_ms f \<le> now" "now \<le> i64_max"
    and e: "e = find_orchestration i (os_kernel s)"
    and bounds: "Suc (stored_revision e) \<le> i64_max" "Suc (ft_lifecycle_revision f) \<le> i64_max"
    and retries: "\<And>r t. r \<in> set (tb_review_outcomes (os_gates s)) \<Longrightarrow> ro_next_retry_at_ms r = Some t \<Longrightarrow> t \<le> i64_max"
    and usable: "digest_usable (next_checkpoint cx i f now s) (k_checkpoints (os_kernel s))"
  shows "\<exists>s' p. coordinate_feature_orchestration cx i (stored_revision e) now s = Inr (s', p)"
proof -
  let ?k = "os_kernel s"
  have led: "ledger_inv (k_orchestration ?k) (k_checkpoints ?k)" and ci: "conveyor_inv False ?k"
    using inv by (simp_all add: orchestrator_inv_def)
  from working_decision [OF work] obtain derived where
    derived: "derive_orchestration_decision i (ft_status f) e now ?k (os_gates s) = Inr derived"
    and ok: "decision_ok now (os_gates s) derived" by blast
  let ?d = "budget_decision (budget_spent e now) derived"
  have d: "decision_ok now (os_gates s) ?d" using ok by (rule budget_decision_ok)
  have next_d: "next_decision i f now s = ?d" using derived by (simp add: next_decision_def e)
  let ?c = "next_checkpoint cx i f now s"
  have c: "?c = checkpoint_of cx i (Suc (stored_revision e))
        (if status_for_stage (dc_stage ?d) = ft_status f then ft_lifecycle_revision f
         else Suc (ft_lifecycle_revision f)) ?d
        (case e of None \<Rightarrow> 0 | Some r \<Rightarrow> or_replacement_candidates_used r)
        (if budget_spent e now then MAX_FEATURE_CONVEYOR_ACTIVE_PROCESSING_MS else charged_ms e now) now"
    by (simp add: next_checkpoint_def Let_def next_d e)
  have retry: "t \<le> i64_max" if "dc_next_retry_at_ms ?d = Some t" for t
    using d that retries by (auto simp: decision_ok_def)
  from coordinate_commit_succeeds [OF q ci led f on(1) work d retry time e bounds c usable]
  obtain k' p where commit: "coordinate_commit cx i (ft_status f) (ft_lifecycle_revision f) e ?d (budget_spent e now) now ?k
      = Inr (k', p)" by blast
  have decided: "\<exists>s' p. coordinate_decided cx i (ft_status f) (ft_lifecycle_revision f) e ?d (budget_spent e now) now s
      = Inr (s', p)"
  proof (cases e)
    case None
    with commit show ?thesis by (simp add: coordinate_decided_def)
  next
    case (Some r)
    have row: "find_row (\<lambda>r. or_feature_id r = i) (k_orchestration ?k) = Some r"
      using Some e by (simp add: find_orchestration_def)
    note lr = ledger_row [OF led row]
    from led lr(1) obtain b where b: "b \<in> set (k_checkpoints ?k)" "checkpoint_backs r b" by (auto simp: ledger_inv_def)
    have dist: "distinct (map ck_checkpoint_id (k_checkpoints ?k))" using led by (simp add: ledger_inv_def)
    obtain b' where "find_row (\<lambda>c. ck_checkpoint_id c = or_checkpoint_id r) (k_checkpoints ?k) = Some b'"
      using b by (cases "find_row (\<lambda>c. ck_checkpoint_id c = or_checkpoint_id r) (k_checkpoints ?k)")
        (auto simp: find_row_None checkpoint_backs_def)
    moreover from find_row_Some [OF this] b have "b' = b"
      by (intro distinct_map_inj [OF dist]) (simp_all add: checkpoint_backs_def)
    ultimately have load: "load_orchestration_checkpoint (or_checkpoint_id r) ?k = Inr b" by (simp add: load_checkpoint_Inr)
    have "validate_orchestration_projection (orchestration_projection_of i r b) = Inr ()"
      if "unchanged_checkpoint r b ?d (elapsed_ms (or_clock_started_at_ms r) now)"
    proof -
      have "ck_checkpoint_sha256 b \<noteq> 0" using usable b(1) by (simp add: digest_usable_def list_all_iff)
      with that b(2) lr(3) d on(1) show ?thesis
        by (auto simp: validate_orchestration_projection_def reject_if_def orchestration_projection_of_def
            checkpoint_backs_def unchanged_checkpoint_def orchestration_row_valid_def decision_ok_def
            MAX_FEATURE_CONVEYOR_REPLACEMENT_CANDIDATES_def)
    qed
    with Some commit load show ?thesis by (auto simp: coordinate_decided_def Let_def protocol_result_def)
  qed
  have busy: "busy (ft_status f)" "\<not> owner_resolution_status (ft_status f)"
    using work by (auto simp: working_status_def busy_def ended_def owner_resolution_status_def)
  then have "holder ?k = Some i"
    using feature_of_inv [OF ci] find_feature_Some [OF f] by (auto simp: feature_ok_def)
  then have "require_active_lease_tx i ?k = Inr ()" by (auto simp: require_active_lease_Inr holder_def)
  moreover have "load_orchestration_state i ?k = Inr e"
    using e candidates_le [OF led, of e i] by (auto simp: load_state_Inr find_orchestration_def split: option.splits)
  moreover have "feature_status_and_revision_tx i ?k = Inr (ft_status f, ft_lifecycle_revision f)"
    using f by (simp add: feature_status_Inr)
  moreover have "require_emergency_unpaused ?k = Inr ()" using on(3) by (simp add: require_emergency_unpaused_Inr)
  ultimately have "coordinate_feature_orchestration cx i (stored_revision e) now s
      = coordinate_decided cx i (ft_status f) (ft_lifecycle_revision f) e ?d (budget_spent e now) now s"
    using on time(1) busy(2) derived by (simp add: coordinate_feature_orchestration_def Let_def reject_if_def)
  with decided show ?thesis by simp
qed

end
