(* ===== verification/Orchestration_Owner.thy ===== *)
theory Orchestration_Owner
  imports Orchestration_Success
begin

text \<open>
  What the owner's controls and cancellation leave behind: the two rows and the transition of a control that
  is not a replay, the checkpoint of a ledger row, the transition of a cancellation.

  When the owner's pause and resume succeed, under the checks that the code makes, the bounds of the
  stored integers, and a checkpoint digest that is neither in the ledger nor in the table of controls.
\<close>

definition control_usable :: "checkpoint_row \<Rightarrow> digest \<Rightarrow> control_row list \<Rightarrow> bool" where
  "control_usable c request cs =
     list_all (\<lambda>d. cw_request_sha256 d \<noteq> request \<and> cw_checkpoint_id d \<noteq> ck_checkpoint_id c
        \<and> cw_checkpoint_sha256 d \<noteq> ck_checkpoint_sha256 c) cs"

lemma control_usable_Nil [simp]: "control_usable c request []"
  by (simp add: control_usable_def)

lemma control_commit_succeeds:
  assumes inv: "conveyor_inv strict k" and led: "ledger_inv (k_orchestration k) (k_checkpoints k)"
    and f: "find_feature (oc_feature_id q) k = Some f" "ft_lifecycle_revision f = oc_expected_lifecycle_revision q"
    and state: "find_orchestration (oc_feature_id q) k = Some state"
    and time: "0 < now" "ft_created_at_ms f \<le> now" "now \<le> i64_max"
    and bounds: "Suc (or_orchestration_revision state) \<le> i64_max" "Suc (ft_lifecycle_revision f) \<le> i64_max"
      "cp_active_processing_ms plan \<le> MAX_FEATURE_CONVEYOR_ACTIVE_PROCESSING_MS"
      "\<forall>t. cp_clock_started_at_ms plan = Some t \<longrightarrow> t \<le> i64_max"
    and c: "c = checkpoint_of cx (oc_feature_id q) (Suc (or_orchestration_revision state)) (Suc (ft_lifecycle_revision f))
        ((decided (cp_stage plan) (cp_action plan) OnCheckpointEffectFree)\<lparr>dc_pause_kind := cp_pause_kind plan\<rparr>)
        (or_replacement_candidates_used state) (cp_active_processing_ms plan) now"
    and valid: "orchestration_row_valid (controlled_row plan c now state)"
    and usable: "digest_usable c (k_checkpoints k)"
  shows "\<exists>k'. control_commit cx q (ft_status f) state plan now k = Inr (k', c)"
proof -
  let ?i = "oc_feature_id q" let ?r = "controlled_row plan c now state"
  have row: "find_row (\<lambda>r. or_feature_id r = ?i) (k_orchestration k) = Some state"
    using state by (simp add: find_orchestration_def)
  note lr = ledger_row [OF led row]
  have small: "MAX_FEATURE_CONVEYOR_ACTIVE_PROCESSING_MS \<le> i64_max" "i64_max < u64_max"
    by (simp_all add: MAX_FEATURE_CONVEYOR_ACTIVE_PROCESSING_MS_def i64_max_def u64_max_def)
  from move_succeeds [OF inv f(1) time(2,3) bounds(2), of "cp_target_status plan" False None] obtain k1 k2 where
    move: "move_feature (\<lambda>g. ft_feature_id g = ?i \<and> ft_status g = ft_status f
          \<and> ft_lifecycle_revision g = ft_lifecycle_revision f) (cp_target_status plan) False now k = Inr k1"
    and trans: "insert_transition (bare_transition ?i (Suc (ft_lifecycle_revision f)) (ft_status f)
          (cp_target_status plan) now) k1 = Inr k2"
    unfolding bare_is_moved [symmetric] by blast
  have rows: "k_orchestration k2 = k_orchestration k" "k_checkpoints k2 = k_checkpoints k"
    using move trans by (auto simp: move_feature_Inr insert_transition_Inr)
  let ?k3 = "k2\<lparr>k_checkpoints := k_checkpoints k2 @ [c]\<rparr>"
  have "or_replacement_candidates_used state \<le> 3" using lr(3) by (simp add: orchestration_row_valid_def)
  then have insert: "insert_checkpoint c k2 = Inr ?k3"
    using led usable bounds time lr(4)
    by (intro insert_checkpoint_succeeds) (auto simp: c rows decided_def)
  have storable: "orchestration_row_storable ?r ?k3"
    by (rule ledger_row_storable [OF led usable _ valid]) (simp_all add: controlled_row_def rows)
  have "\<exists>k'. update_orchestration (or_orchestration_revision state) ?r ?k3 = Inr k'"
    using bounds time small
    by (intro update_orchestration_succeeds [OF storable]) (auto simp: controlled_row_def c)
  then obtain k4 where "update_orchestration (or_orchestration_revision state) ?r ?k3 = Inr k4" by blast
  moreover have "checked_add_u64 (ft_lifecycle_revision f) 1 = Some (Suc (ft_lifecycle_revision f))"
    "checked_add_u64 (or_orchestration_revision state) 1 = Some (Suc (or_orchestration_revision state))"
    using bounds(1,2) small by (simp_all add: checked_add_u64_def)
  ultimately have "control_commit cx q (ft_status f) state plan now k = Inr (k4, c)"
    using move trans insert one_feature [OF inv f(1)] bounds(2) f(2)
    by (simp add: control_commit_def Let_def ok_or_def to_i64_def reject_if_def c [unfolded f(2), symmetric])
  then show ?thesis by blast
qed

lemma control_succeeds:
  assumes q: "quote_bounded (quote_json cx)" and inv: "orchestrator_inv s"
    and request: "validate_control_request cx r = Inr ()"
      "require_owner_control_bridge_tx cx registration (oc_expected_owner_control_designation_revision r) (os_kernel s) = Inr ()"
      "require_unpaused_revision_tx (oc_expected_emergency_pause_revision r) (os_kernel s) = Inr ()"
      "require_queue_revision_tx (oc_expected_queue_revision r) (os_kernel s) = Inr ()"
    and on: "k_orchestration_activated (os_kernel s)" "holder (os_kernel s) = Some (oc_feature_id r)"
    and f: "find_feature (oc_feature_id r) (os_kernel s) = Some f" "ft_lifecycle_revision f = oc_expected_lifecycle_revision r"
    and state: "find_orchestration (oc_feature_id r) (os_kernel s) = Some state"
      "or_orchestration_revision state = oc_expected_orchestration_revision r" "\<not> or_effect_possible state"
    and previous: "find_row (\<lambda>c. ck_checkpoint_id c = or_checkpoint_id state) (k_checkpoints (os_kernel s)) = Some previous"
    and plan: "(if pause then pause_plan (ft_status f) state previous now else resume_plan (ft_status f) state now) = Inr plan"
    and stage: "pause \<Longrightarrow> resumable_stage (or_stage state)"
    and time: "0 < now" "ft_created_at_ms f \<le> now" "now \<le> i64_max"
    and bounds: "Suc (or_orchestration_revision state) \<le> i64_max" "Suc (ft_lifecycle_revision f) \<le> i64_max"
      "oc_expected_queue_revision r \<le> i64_max" "oc_expected_owner_control_designation_revision r \<le> i64_max"
      "oc_expected_emergency_pause_revision r \<le> i64_max"
    and c: "c = checkpoint_of cx (oc_feature_id r) (Suc (or_orchestration_revision state)) (Suc (ft_lifecycle_revision f))
        ((decided (cp_stage plan) (cp_action plan) OnCheckpointEffectFree)\<lparr>dc_pause_kind := cp_pause_kind plan\<rparr>)
        (or_replacement_candidates_used state) (cp_active_processing_ms plan) now"
    and usable: "digest_usable c (k_checkpoints (os_kernel s))"
      "control_usable c (control_request_sha256 cx (if pause then ''pause'' else ''resume'') r) (os_controls s)"
  shows "\<exists>s'. owner_control_feature_orchestration cx r registration now pause s = Inr (s', control_receipt_of r c pause)
    \<and> s' \<noteq> s \<and> controlled cx r now pause s s' f state plan c"
proof -
  let ?k = "os_kernel s" let ?i = "oc_feature_id r"
  let ?sha = "control_request_sha256 cx (if pause then ''pause'' else ''resume'') r"
  have led: "ledger_inv (k_orchestration ?k) (k_checkpoints ?k)" and ci: "conveyor_inv False ?k"
    using inv by (simp_all add: orchestrator_inv_def)
  note lr = ledger_row [OF led state(1) [unfolded find_orchestration_def]]
  have valid: "orchestration_row_valid (controlled_row plan c now state)"
    and active: "cp_active_processing_ms plan \<le> MAX_FEATURE_CONVEYOR_ACTIVE_PROCESSING_MS"
    and clock: "\<forall>t. cp_clock_started_at_ms plan = Some t \<longrightarrow> t \<le> i64_max"
    using plan stage lr(3) time
    by (auto simp: pause_plan_def resume_plan_def Let_def bindE_Inr_iff ok_or_Inr_iff reject_if_Inr_iff
        orchestration_row_valid_def controlled_row_def c resumable_stage_def split: if_splits)
  from control_commit_succeeds [OF ci led f state(1) time bounds(1,2) active clock c valid usable(1)]
  obtain k1 where commit: "control_commit cx r (ft_status f) state plan now ?k = Inr (k1, c)" by blast
  have ctl: "insert_control (control_row_of ?sha (if pause then ''pause'' else ''resume'') r c) (s\<lparr>os_kernel := k1\<rparr>)
      = Inr (s\<lparr>os_kernel := k1, os_controls := os_controls s
          @ [control_row_of ?sha (if pause then ''pause'' else ''resume'') r c]\<rparr>)"
    using usable(2) bounds
    by (auto simp: insert_control_def control_row_of_def control_usable_def list_all_iff exists_row_iff
        to_i64_def reject_if_def insert_row_def)
  have "i64_max \<le> u64_max" by (simp add: i64_max_def u64_max_def)
  then have fits: "\<exists>kvs. control_metadata r (ck_lifecycle_revision c) (ck_orchestration_revision c) = JObject kvs \<and> members_fit kvs"
    using bounds by (intro fits_control) (simp_all add: c)
  have audit: "\<exists>k2. append_audit cx kind (Some ?i) now
      (control_metadata r (ck_lifecycle_revision c) (ck_orchestration_revision c)) k = Inr k2"
    if "kind \<noteq> []" "length kind \<le> 96" for kind k
    using audit_succeeds [OF q, of _ kind now "Some ?i" k] fits time(3) that by fastforce
  let ?kind = "if pause then ''feature_orchestration_owner_paused'' else ''feature_orchestration_owner_resumed''"
  let ?s1 = "s\<lparr>os_kernel := k1, os_controls := os_controls s
          @ [control_row_of ?sha (if pause then ''pause'' else ''resume'') r c]\<rparr>"
  have "\<exists>k2. append_audit cx ?kind (Some ?i) now
      (control_metadata r (ck_lifecycle_revision c) (ck_orchestration_revision c)) k1 = Inr k2"
    by (rule audit) auto
  then obtain k2 where "append_audit cx ?kind (Some ?i) now
      (control_metadata r (ck_lifecycle_revision c) (ck_orchestration_revision c)) k1 = Inr k2" by blast
  then have audit: "audit_os cx ?kind (Some ?i) now
      (control_metadata r (ck_lifecycle_revision c) (ck_orchestration_revision c)) ?s1
      = Inr (?s1\<lparr>os_kernel := k2\<rparr>)"
    by (simp add: audit_os_def on_kernel_def split del: if_split)
  note request_facts = validate_control_request_Inr [OF request(1)]
  have "i64_max \<le> u64_max" by (simp add: i64_max_def u64_max_def)
  then have receipt: "validate_control_receipt (control_receipt_of r c pause) = Inr ()"
    using request_facts bounds usable(1)
    by (auto simp: validate_control_receipt_def control_receipt_of_def c reject_if_def digest_usable_def
        FEATURE_CONVEYOR_OWNER_ACTIVATION_SCHEMA_VERSION_def validate_uuid_def validate_positive_limit_def
        validate_activation_schema_1 [unfolded One_nat_def])
  have "find_row (\<lambda>c. cw_request_sha256 c = ?sha) (os_controls s) = None"
    using usable(2) unfolding control_usable_def list_all_iff find_row_None by blast
  then have "load_owner_control ?sha s = Inr None" by (simp add: load_owner_control_def split del: if_split)
  moreover have "current_status ?i (oc_expected_lifecycle_revision r) ?k = Inr (ft_status f)"
    using f by (auto simp: current_status_Inr)
  moreover have "load_orchestration_state ?i ?k = Inr (Some state)"
    using state(1) lr(3) by (simp add: load_state_Inr orchestration_row_valid_def)
  moreover have "require_active_lease_tx ?i ?k = Inr ()" using on(2) by (auto simp: require_active_lease_Inr holder_def)
  moreover have "load_orchestration_checkpoint (or_checkpoint_id state) ?k = Inr previous"
    using previous by (simp add: load_checkpoint_Inr)
  ultimately have ok: "owner_control_feature_orchestration cx r registration now pause s
      = Inr (?s1\<lparr>os_kernel := k2\<rparr>, control_receipt_of r c pause)" (is "_ = Inr (?s', _)")
    using request on(1) state(2,3) plan commit ctl audit receipt time(1)
    by (simp add: owner_control_feature_orchestration_def Let_def reject_if_def ok_or_def protocol_result_def)
  have "os_controls ?s' \<noteq> os_controls s" by simp
  then have "?s' \<noteq> s" by metis
  moreover have "distinct (map or_feature_id (k_orchestration ?k))" using led by (simp add: ledger_inv_def)
  from control_effect [OF ok this] calculation obtain f' state' plan' c' where
    ctl: "controlled cx r now pause s ?s' f' state' plan' c'" by blast
  moreover have "f' = f" "state' = state" using ctl f(1) state(1) by (simp_all add: controlled_def Let_def)
  moreover from this have "plan' = plan" using ctl previous plan by (auto simp: controlled_def Let_def split: if_splits)
  moreover from calculation have "c' = c" using ctl f(2) by (simp add: controlled_def Let_def c)
  ultimately show ?thesis using ok by blast
qed


section \<open>What a fresh control writes\<close>

lemma find_moved_to:
  assumes inv: "conveyor_inv strict k" and f: "find_feature i k = Some f"
  shows "find_feature i (moved_to f target e v now k) = Some (moved target e now f)"
  using f only_feature [OF inv f]
  by (simp add: find_feature_def moved_to_def moved_kernel_def find_row_update this_feature_def)

lemma find_orchestration_recorded:
  "find_orchestration (or_feature_id r) (recorded r c k) = Some r"
  by (simp add: find_orchestration_def recorded_def find_recorded)

lemma find_feature_recorded [simp]: "find_feature i (recorded r c k) = find_feature i k"
  by (simp add: find_feature_def)

lemma find_audit [simp]:
  "find_feature i (k\<lparr>k_audit := a\<rparr>) = find_feature i k"
  "find_orchestration i (k\<lparr>k_audit := a\<rparr>) = find_orchestration i k"
  by (simp_all add: find_feature_def find_orchestration_def)

text \<open>The effect of a control that is not a replay, with the two rows it leaves.\<close>

definition control_written ::
    "control_request \<Rightarrow> nat \<Rightarrow> bool \<Rightarrow> kernel \<Rightarrow> kernel \<Rightarrow> feature_row \<Rightarrow> orchestration_row \<Rightarrow> control_plan
      \<Rightarrow> bool" where
  "control_written q now pause k k' f state plan =
     (let i = oc_feature_id q in
      find_feature i k = Some f \<and> find_orchestration i k = Some state \<and> orchestration_row_valid state
      \<and> (\<exists>previous. (if pause then pause_plan (ft_status f) state previous now
                     else resume_plan (ft_status f) state now) = Inr plan)
      \<and> find_feature i k' = Some (moved (cp_target_status plan) False now f)
      \<and> (\<exists>c. ck_orchestration_revision c = Suc (or_orchestration_revision state)
           \<and> find_orchestration i k' = Some (controlled_row plan c now state))
      \<and> k_transitions k' = k_transitions k
          @ [bare_transition i (Suc (ft_lifecycle_revision f)) (ft_status f) (cp_target_status plan) now]
      \<and> k_active_lease k' = k_active_lease k \<and> k_queue k' = k_queue k \<and> k_queue_revision k' = k_queue_revision k
      \<and> k_steps k' = k_steps k \<and> k_attempts k' = k_attempts k)"

lemma control_writes:
  assumes inv: "orchestrator_inv s" and ok: "owner_control_feature_orchestration cx q reg now pause s = Inr (s', x)"
    and fresh: "s' \<noteq> s"
  shows "\<exists>f state plan. control_written q now pause (os_kernel s) (os_kernel s') f state plan"
proof -
  let ?k = "os_kernel s" let ?i = "oc_feature_id q"
  have led: "ledger_inv (k_orchestration ?k) (k_checkpoints ?k)" and ci: "conveyor_inv False ?k"
    using inv by (simp_all add: orchestrator_inv_def)
  have dist: "distinct (map or_feature_id (k_orchestration ?k))" using led by (simp add: ledger_inv_def)
  from control_effect [OF ok dist] fresh obtain f state plan c where
    "controlled cx q now pause s s' f state plan c" by blast
  then obtain previous audit where
    1: "find_feature ?i ?k = Some f" "find_orchestration ?i ?k = Some state"
      "(if pause then pause_plan (ft_status f) state previous now else resume_plan (ft_status f) state now) = Inr plan"
      "ck_orchestration_revision c = Suc (or_orchestration_revision state)"
    and s': "os_kernel s' = (recorded (controlled_row plan c now state) c
           (moved_to f (cp_target_status plan) False None now ?k))\<lparr>k_audit := audit\<rparr>"
    unfolding controlled_def Let_def by auto
  note lr = ledger_row [OF led 1(2) [unfolded find_orchestration_def]]
  have id: "or_feature_id (controlled_row plan c now state) = ?i" using lr(2) by (simp add: controlled_row_def)
  have "find_orchestration ?i (os_kernel s') = Some (controlled_row plan c now state)"
    using find_orchestration_recorded [of "controlled_row plan c now state"] by (simp add: s' id)
  moreover have "find_feature ?i (os_kernel s') = Some (moved (cp_target_status plan) False now f)"
    using find_moved_to [OF ci 1(1)] by (simp add: s')
  moreover have "k_transitions (os_kernel s') = k_transitions ?k
        @ [bare_transition ?i (Suc (ft_lifecycle_revision f)) (ft_status f) (cp_target_status plan) now]"
    using find_feature_Some [OF 1(1)] by (simp add: s' moved_to_def bare_transition_def)
  ultimately have "control_written q now pause ?k (os_kernel s') f state plan"
    unfolding control_written_def Let_def using 1 lr(3) by (auto simp: s' split del: if_split)
  then show ?thesis by blast
qed

section \<open>The checkpoint of a ledger row\<close>

lemma ledger_checkpoint:
  assumes led: "ledger_inv (k_orchestration k) (k_checkpoints k)" and r: "find_orchestration i k = Some r"
    and c: "find_row (\<lambda>c. ck_checkpoint_id c = or_checkpoint_id r) (k_checkpoints k) = Some c"
  shows "checkpoint_backs r c"
proof -
  note lr = ledger_row [OF led r [unfolded find_orchestration_def]]
  obtain b where b: "b \<in> set (k_checkpoints k)" "checkpoint_backs r b" using led lr(1) by (auto simp: ledger_inv_def)
  have "distinct (map ck_checkpoint_id (k_checkpoints k))" using led by (simp add: ledger_inv_def)
  with find_row_Some [OF c] b have "c = b"
    by (intro distinct_map_inj [of ck_checkpoint_id]) (auto simp: checkpoint_backs_def)
  with b(2) show ?thesis by simp
qed

section \<open>Transitions\<close>

lemma transition_found:
  assumes inv: "conveyor_inv strict k" and t: "t \<in> set (k_transitions k)"
  shows "find_transition (tr_feature_id t) (tr_lifecycle_revision t) k = Some t"
proof -
  have d: "distinct (map transition_key (k_transitions k))"
    using inv by (simp add: conveyor_inv_def features_inv_def)
  have "find_transition (tr_feature_id t) (tr_lifecycle_revision t) k \<noteq> None"
    using t by (auto simp: find_transition_def find_row_None)
  then obtain u where u: "find_transition (tr_feature_id t) (tr_lifecycle_revision t) k = Some u" by blast
  from find_transition_Some [OF u] t have "u = t"
    by (intro distinct_map_inj [OF d]) (simp_all add: transition_key_def)
  with u show ?thesis by simp
qed

lemma cancel_transitions:
  assumes inv: "conveyor_inv False k" and ok: "cancel_active_feature_bound cx b now owner k = Inr (k', v)"
    and f: "find_feature (rb_feature_id b) k = Some f"
  shows "k_transitions k' = k_transitions k
      @ [bare_transition (rb_feature_id b) (Suc (ft_lifecycle_revision f)) (ft_status f) FCancelled now]
    \<and> find_feature (rb_feature_id b) k' = Some (moved FCancelled True now f)"
proof -
  let ?i = "rb_feature_id b"
  let ?m = "moved_kernel (\<lambda>g. ft_feature_id g = ?i) FCancelled True now
          (bare_transition ?i (Suc (ft_lifecycle_revision f)) (ft_status f) FCancelled now) k"
  from cancel_effect [OF ok] f obtain k3 row where
    c: "cancel_feature_coding_dispatches_tx cx ?i now ?m = Inr k3"
    and k': "k' = k3\<lparr>k_audit := insert_row row (k_audit k3)\<rparr>" by auto
  have "kernel_inv ?m" using inv_parts(1) [OF inv] by (simp add: kernel_inv_def lease_inv_def)
  then have l: "kernel_inv ?m" "lease_inv ?m" by (simp_all add: kernel_inv_def)
  have "pause_ok ?m k3"
    by (rule forE_pause_ok [OF c [unfolded cancel_feature_coding_dispatches_tx_def] l(2)]) (rule cancel_dispatch_ok)
  then have "progress ?m k3" using advance_ok [OF l(1)] by (simp add: pause_ok_def)
  then have t: "conveyor_tables k3 = conveyor_tables ?m" by (simp add: progress_def)
  have "find_feature ?i ?m = Some (moved FCancelled True now f)"
    using f find_feature_Some [OF f] by (simp add: find_feature_def moved_kernel_def find_row_update)
  then show ?thesis using conveyor_tables_eq [OF t] by (simp add: k' find_feature_def)
qed

end
