(* ===== verification/Orchestration_Sample.thy ===== *)
theory Orchestration_Sample
  imports Orchestration_Owner Conveyor_Trace
begin

text \<open>
  States that the examples of the orchestrator's properties start from: device 9 is the owner's bridge,
  orchestration is activated on six admitted rows of evidence, and feature 41 is claimed, or claimed and
  cancelled, with or without a ledger row. \<open>owner_codec\<close> gives texts of different lengths different
  digests, and different checkpoint identifiers, which are the first sixteen bytes of a digest.
\<close>

section \<open>Codec, device and activation\<close>

definition owner_codec :: codec where
  "owner_codec = sample_codec\<lparr>sha256 := \<lambda>s. push_bit 128 (of_nat (Suc (length s)))\<rparr>"

lemma owner_quote: "quote_bounded (quote_json owner_codec)"
  by (simp add: quote_bounded_def owner_codec_def sample_codec_def)

definition owner_device :: device_row where
  "owner_device =
     \<lparr>dev_device_id = 9, dev_name = ''mac'', dev_role = MacBridge, dev_registry_revision = 1,
      dev_capabilities = [], dev_revoked = False\<rparr>"

definition sample_evidence_row :: "evidence_category \<times> evidence_origin \<times> uuid \<Rightarrow> evidence_row" where
  "sample_evidence_row = (\<lambda>(category, origin, i).
     \<lparr>ae_category = category, ae_revision = 1, ae_evidence_id = i, ae_origin = origin, ae_receipt_sha256 = 93,
      ae_observed_at_ms = 90, ae_emergency_pause_revision = 0, ae_recorded_at_ms = 95\<rparr>)"

definition sample_activation :: activation_row where
  "sample_activation =
     \<lparr>av_activation_id = 99, av_queue_revision = 3, av_owner_control_designation_revision = 1,
      av_emergency_pause_revision = 0,
      av_evidence_ids = \<lparr>sl_repository_gate_proof = 51, sl_restricted_worker_live = 52, sl_review_provider_live = 53,
        sl_github_publication_live = 54, sl_restart_recovery_live = 55, sl_control_event_streaming_live = 56\<rparr>,
      av_activated_at_ms = 132\<rparr>"

definition owned :: "kernel \<Rightarrow> kernel" where
  "owned k = k\<lparr>k_devices := [owner_device],
     k_owner_bridge := \<lparr>ob_device_id = Some 9, ob_registry_revision = Some 1, ob_designation_revision = 1\<rparr>,
     k_orchestration_activated := True\<rparr>"

lemma conveyor_inv_weaken: "conveyor_inv True k \<Longrightarrow> conveyor_inv False k"
  by (auto simp: conveyor_inv_def features_inv_def feature_ok_def evidence_ok_def has_transition_def)

lemma owned_inv: "conveyor_inv strict k \<Longrightarrow> k_devices k = [] \<Longrightarrow> conveyor_inv strict (owned k)"
  by (auto simp: owned_def conveyor_inv_def kernel_inv_def lease_inv_def holder_def grants_inv_def grants_of_def
      connection_registered_def MAX_ENROLLED_DEVICES_def list_all_iff exists_row_iff)

definition owned_orchestrator :: "kernel \<Rightarrow> orchestration_row list \<Rightarrow> checkpoint_row list \<Rightarrow> orchestrator" where
  "owned_orchestrator k rows cs =
     \<lparr>os_kernel = (owned k)\<lparr>k_orchestration := rows, k_checkpoints := cs\<rparr>,
      os_evidence = map sample_evidence_row
        [(EcRepositoryGateProof, EoRepositoryGateProof, 51), (EcRestrictedWorkerLive, EoRestrictedWorkerProof, 52),
         (EcReviewProviderLive, EoReviewProviderProof, 53), (EcGithubPublicationLive, EoGithubPublicationProof, 54),
         (EcRestartRecoveryLive, EoRestartRecoveryProof, 55),
         (EcControlEventStreamingLive, EoControlEventStreamingProof, 56)],
      os_activation = Some sample_activation, os_controls = [], os_gates = os_gates (new_orchestrator 7)\<rparr>"

lemma sample_evidence_inv: "evidence_inv (os_evidence (owned_orchestrator k rows cs))"
proof -
  have "map ae_revision (evidence_of c (os_evidence (owned_orchestrator k rows cs)))
      = [1..<Suc (length (evidence_of c (os_evidence (owned_orchestrator k rows cs))))]" for c
    by (cases c) (simp_all add: evidence_of_def owned_orchestrator_def sample_evidence_row_def)
  then show ?thesis
    by (simp add: evidence_inv_def evidence_row_ok_def owned_orchestrator_def sample_evidence_row_def i64_max_def)
qed

lemma owned_orchestrator_inv:
  assumes "conveyor_inv False k" "k_devices k = []" "ledger_inv rows cs"
  shows "orchestrator_inv (owned_orchestrator k rows cs)"
proof -
  have "activation_backed (os_evidence (owned_orchestrator k rows cs)) (av_evidence_ids sample_activation)"
    by (simp add: activation_backed_def role_backed_def owned_orchestrator_def sample_activation_def sample_evidence_row_def)
  moreover have "conveyor_inv False (os_kernel (owned_orchestrator k rows cs))"
    using owned_inv [OF assms(1,2)]
    by (simp add: owned_orchestrator_def conveyor_inv_def kernel_inv_def lease_inv_def holder_def grants_inv_def
        grants_of_def)
  ultimately show ?thesis
    using assms(3) sample_evidence_inv [of k rows cs]
    by (simp add: orchestrator_inv_def owned_orchestrator_def owned_def)
qed

section \<open>A ledger row of feature 41\<close>

definition ledger_row_41 :: "orchestration_stage \<Rightarrow> orchestration_row" where
  "ledger_row_41 stage =
     \<lparr>or_feature_id = 41, or_orchestration_revision = 1, or_checkpoint_id = 1, or_stage = stage, or_resume_stage = None,
      or_pause_kind = None, or_replacement_candidates_used = 0, or_active_processing_ms = 5,
      or_clock_started_at_ms = Some 135, or_next_retry_at_ms = None, or_effect_possible = False,
      or_updated_at_ms = 135\<rparr>"

definition checkpoint_41 :: "orchestration_stage \<Rightarrow> checkpoint_row" where
  "checkpoint_41 stage =
     \<lparr>ck_checkpoint_id = 1, ck_feature_id = 41, ck_orchestration_revision = 1, ck_lifecycle_revision = 2,
      ck_stage = stage, ck_action = action_for_stage stage, ck_reason = OnCheckpointEffectFree,
      ck_checkpoint_sha256 = 1, ck_evidence_sha256 = None, ck_replacement_candidates_used = 0,
      ck_active_processing_ms = 5, ck_effect_possible = False, ck_recorded_at_ms = 135\<rparr>"

lemma sample_ledger: "stage \<noteq> OsPaused \<Longrightarrow> ledger_inv [ledger_row_41 stage] [checkpoint_41 stage]"
  by (auto simp: ledger_inv_def orchestration_row_valid_def checkpoint_backs_def ledger_row_41_def checkpoint_41_def
      checkpoint_revisions_def ledger_revision_def MAX_FEATURE_CONVEYOR_ACTIVE_PROCESSING_MS_def)

lemma claimed_41_inv: "conveyor_inv False (claimed_41 [])"
proof -
  obtain a where a: "conveyor_run sample_codec 7 sample_claim_ops = claimed_41 a" using sample_claimed by blast
  have "claimed_41 [] = (claimed_41 a)\<lparr>k_audit := []\<rparr>" by (simp add: claimed_states)
  then show ?thesis using conveyor_inv_weaken [OF sample_inv [OF a]] by (simp add: conveyor_inv_other)
qed

lemma cancelled_41_inv: "conveyor_inv False (cancelled_41 [])"
proof -
  obtain a where a: "conveyor_run sample_codec 7 sample_cancel_ops = cancelled_41 a" using sample_feature_cancelled by blast
  have "cancelled_41 [] = (cancelled_41 a)\<lparr>k_audit := []\<rparr>" by (simp add: claimed_states)
  then show ?thesis using conveyor_inv_weaken [OF sample_inv [OF a]] by (simp add: conveyor_inv_other)
qed

section \<open>Requests\<close>

definition owner_request :: "nat \<Rightarrow> nat \<Rightarrow> control_request" where
  "owner_request lifecycle orchestration =
     \<lparr>oc_schema_version = 1, oc_feature_id = 41, oc_expected_lifecycle_revision = lifecycle,
      oc_expected_orchestration_revision = orchestration, oc_expected_queue_revision = 3,
      oc_expected_owner_control_designation_revision = 1, oc_expected_emergency_pause_revision = 0\<rparr>"

lemma owner_request_fields [simp]:
  "oc_feature_id (owner_request l n) = 41" "oc_expected_lifecycle_revision (owner_request l n) = l"
  "oc_expected_orchestration_revision (owner_request l n) = n" "oc_expected_queue_revision (owner_request l n) = 3"
  "oc_expected_owner_control_designation_revision (owner_request l n) = 1"
  "oc_expected_emergency_pause_revision (owner_request l n) = 0"
  by (simp_all add: owner_request_def)

lemma digit_text: "n < 10 \<Longrightarrow> length (nat_text n) = 1"
  by (simp add: nat_text.simps)

lemma owner_request_size:
  "l < 10 \<Longrightarrow> n < 10 \<Longrightarrow>
     length (compact_json_bytes (quote_json owner_codec) (control_request_json owner_codec (owner_request l n))) = 222"
  by (simp add: owner_request_def control_request_json_def owner_codec_def sample_codec_def number_json_def digit_text)

lemma owner_request_valid:
  "0 < l \<Longrightarrow> l < 10 \<Longrightarrow> 0 < n \<Longrightarrow> n < 10 \<Longrightarrow> validate_control_request owner_codec (owner_request l n) = Inr ()"
  using owner_request_size [of l n]
  by (simp add: validate_control_request_def validate_struct_limit_def validate_serialized_limit_def)
    (simp add: owner_request_def validate_activation_schema_def validate_fixed_value_def validate_uuid_def
      validate_positive_limit_def reject_if_def u64_max_def FEATURE_CONVEYOR_OWNER_ACTIVATION_SCHEMA_VERSION_def
      MAX_FEATURE_CONVEYOR_OWNER_ACTIVATION_FRAME_BYTES_def)

lemma owner_request_digest:
  "l < 10 \<Longrightarrow> n < 10 \<Longrightarrow> control_request_sha256 owner_codec action (owner_request l n)
     = push_bit 128 (of_nat (270 + length action))"
  using owner_request_size [of l n]
  by (simp add: control_request_sha256_def) (simp add: owner_codec_def)

lemma owner_bridge: "require_owner_control_bridge_tx owner_codec owner_device 1 (owned k) = Inr ()"
proof -
  have "wire_bytes owner_codec w = []" for w by (simp add: owner_codec_def)
  then show ?thesis
    using sample_texts(5)
    by (simp add: require_owner_control_bridge_tx_def require_owner_control_eligible_registration_def owned_def
        device_registration_tx_def find_row_def validate_handshake_def owner_device_def reject_if_def ok_or_def
        protocol_result_def validate_version_def PROTOCOL_VERSION_def validate_uuid_def MAX_DEVICE_NAME_BYTES_def
        validate_capabilities_def validate_wire_limit_def validate_serialized_limit_def MAX_HANDSHAKE_FRAME_BYTES_def)
qed

section \<open>Pause and resume of the cancelled feature\<close>

lemma owner_checkpoint_sha256:
  "orchestration_checkpoint_sha256 owner_codec f n l d c a
     = push_bit 128 (of_nat (128 + length (stage_text (dc_stage d)) + length (action_text (dc_action d))
        + length (reason_text (dc_reason d)) + (case dc_pause_kind d of None \<Rightarrow> 0 | Some k \<Rightarrow> length (pause_kind_text k))))"
  by (simp add: orchestration_checkpoint_sha256_def checkpoint_transcript_def owner_codec_def ac_simps
      split: option.split)

definition cancelled_orchestrator :: "orchestration_stage \<Rightarrow> orchestrator" where
  "cancelled_orchestrator stage = owned_orchestrator (cancelled_41 []) [ledger_row_41 stage] [checkpoint_41 stage]"

definition resumable_sample :: "orchestration_stage \<Rightarrow> bool" where
  "resumable_sample stage = (stage = OsImplementing \<or> stage = OsVerifyingMain)"

definition sample_pause_plan :: "orchestration_stage \<Rightarrow> control_plan" where
  "sample_pause_plan stage =
     \<lparr>cp_stage = OsPaused, cp_resume_stage = Some stage, cp_pause_kind = Some PkOwner, cp_target_status = FPaused,
      cp_action = action_for_stage stage, cp_active_processing_ms = 70, cp_clock_started_at_ms = None\<rparr>"

definition sample_pause_checkpoint :: "orchestration_stage \<Rightarrow> checkpoint_row" where
  "sample_pause_checkpoint stage = checkpoint_of owner_codec 41 2 4
     ((decided OsPaused (action_for_stage stage) OnCheckpointEffectFree)\<lparr>dc_pause_kind := Some PkOwner\<rparr>) 0 70 200"

lemma owner_checkpoint_id:
  "orchestration_checkpoint_id (push_bit 128 184) = 0x400080000000000000B8"
  "orchestration_checkpoint_id (push_bit 128 187) = 0x400080000000000000BB"
  "orchestration_checkpoint_id (push_bit 128 190) = 0x400080000000000000BE"
  "orchestration_checkpoint_id (push_bit 128 191) = 0x400080000000000000BF"
  by (simp_all add: orchestration_checkpoint_id_def)

lemma sample_pause_digest:
  assumes "resumable_sample stage"
  shows "ck_checkpoint_sha256 (sample_pause_checkpoint stage) = push_bit 128 (if stage = OsImplementing then 190 else 184)"
    and "ck_checkpoint_id (sample_pause_checkpoint stage)
      = (if stage = OsImplementing then 0x400080000000000000BE else 0x400080000000000000B8)"
  using assms owner_checkpoint_id unfolding resumable_sample_def
  by (auto simp: sample_pause_checkpoint_def checkpoint_of_def Let_def owner_checkpoint_sha256 decided_def)

lemma cancelled_orchestrator_inv: "resumable_sample stage \<Longrightarrow> orchestrator_inv (cancelled_orchestrator stage)"
  unfolding cancelled_orchestrator_def
  by (intro owned_orchestrator_inv cancelled_41_inv sample_ledger)
    (auto simp: claimed_states resumable_sample_def)

lemma find_owned: "find_feature i (os_kernel (owned_orchestrator k rows cs)) = find_feature i k"
  by (simp add: owned_orchestrator_def owned_def find_feature_def)

lemma owned_fields [simp]:
  "k_orchestration (os_kernel (owned_orchestrator k rows cs)) = rows"
  "k_checkpoints (os_kernel (owned_orchestrator k rows cs)) = cs"
  "os_controls (owned_orchestrator k rows cs) = []"
  "k_orchestration_activated (os_kernel (owned_orchestrator k rows cs))"
  "holder (os_kernel (owned_orchestrator k rows cs)) = holder k"
  "k_emergency_paused (os_kernel (owned_orchestrator k rows cs)) = k_emergency_paused k"
  "k_emergency_pause_revision (os_kernel (owned_orchestrator k rows cs)) = k_emergency_pause_revision k"
  "k_queue_revision (os_kernel (owned_orchestrator k rows cs)) = k_queue_revision k"
  by (simp_all add: owned_orchestrator_def owned_def holder_def)

lemma cancelled_feature:
  "find_feature 41 (os_kernel (cancelled_orchestrator stage)) = Some (moved FCancelled True 140 (claimed_row 130 row_41))"
  by (simp add: cancelled_orchestrator_def find_owned find_cancelled)

lemma sample_owner_pause:
  assumes stage: "resumable_sample stage"
  shows "\<exists>s1. owner_control_feature_orchestration owner_codec (owner_request 3 1) owner_device 200 True
      (cancelled_orchestrator stage) = Inr (s1, control_receipt_of (owner_request 3 1) (sample_pause_checkpoint stage) True)
    \<and> s1 \<noteq> cancelled_orchestrator stage
    \<and> controlled owner_codec (owner_request 3 1) 200 True (cancelled_orchestrator stage) s1
        (moved FCancelled True 140 (claimed_row 130 row_41)) (ledger_row_41 stage) (sample_pause_plan stage)
        (sample_pause_checkpoint stage)"
proof -
  let ?s = "cancelled_orchestrator stage" let ?k = "os_kernel ?s"
  let ?c = "sample_pause_checkpoint stage"
  let ?f = "moved FCancelled True 140 (claimed_row 130 row_41)"
  have i: "oc_feature_id (owner_request 3 1) = 41" by simp
  have f: "find_feature (oc_feature_id (owner_request 3 1)) ?k = Some ?f" using cancelled_feature i by simp
  have lf: "ft_lifecycle_revision ?f = 3" "ft_created_at_ms ?f = 110" "ft_status ?f = FCancelled" by (simp_all add: claimed_states)
  have created: "ft_created_at_ms (claimed_row 130 row_41) = 110" by (simp add: claimed_states)
  have usable: "digest_usable ?c (k_checkpoints ?k)"
    using sample_pause_digest [OF stage]
    by (simp add: digest_usable_def cancelled_orchestrator_def checkpoint_41_def)
  have plan: "pause_plan (ft_status ?f) (ledger_row_41 stage) (checkpoint_41 stage) 200 = Inr (sample_pause_plan stage)"
    using stage unfolding resumable_sample_def
    by (auto simp: pause_plan_def lf ledger_row_41_def checkpoint_41_def reject_if_def Let_def elapsed_ms_def
        saturating_add_u64_def u64_max_def MAX_FEATURE_CONVEYOR_ACTIVE_PROCESSING_MS_def sample_pause_plan_def)
  have state: "find_orchestration (oc_feature_id (owner_request 3 1)) ?k = Some (ledger_row_41 stage)"
    and previous: "find_row (\<lambda>c. ck_checkpoint_id c = or_checkpoint_id (ledger_row_41 stage)) (k_checkpoints ?k)
      = Some (checkpoint_41 stage)"
    by (simp_all add: find_orchestration_def cancelled_orchestrator_def i ledger_row_41_def checkpoint_41_def find_row_def)
  have bridge: "require_owner_control_bridge_tx owner_codec owner_device
      (oc_expected_owner_control_designation_revision (owner_request 3 1)) ?k = Inr ()"
    using owner_bridge [of "cancelled_41 []"]
    by (simp add: cancelled_orchestrator_def owned_orchestrator_def require_owner_control_bridge_tx_def
        device_registration_tx_def)
  have cs: "?c = checkpoint_of owner_codec (oc_feature_id (owner_request 3 1)) (Suc (or_orchestration_revision (ledger_row_41 stage)))
      (Suc (ft_lifecycle_revision ?f)) ((decided (cp_stage (sample_pause_plan stage)) (cp_action (sample_pause_plan stage))
        OnCheckpointEffectFree)\<lparr>dc_pause_kind := cp_pause_kind (sample_pause_plan stage)\<rparr>)
      (or_replacement_candidates_used (ledger_row_41 stage)) (cp_active_processing_ms (sample_pause_plan stage)) 200"
    by (simp add: sample_pause_checkpoint_def ledger_row_41_def row_41_moves sample_pause_plan_def eval_nat_numeral)
  have kernel: "require_unpaused_revision_tx 0 ?k = Inr ()" "require_queue_revision_tx 3 ?k = Inr ()" "holder ?k = Some 41"
    by (simp_all add: require_unpaused_revision_Inr require_queue_revision_Inr cancelled_orchestrator_def)
      (simp_all add: claimed_states holder_def)
  show ?thesis
    by (rule control_succeeds [OF owner_quote cancelled_orchestrator_inv [OF stage] owner_request_valid bridge _ _ _ _ f _ state
          _ _ previous _ _ _ _ _ _ _ _ _ _ cs usable])
      (use kernel plan stage in \<open>auto simp: lf row_41_moves created ledger_row_41_def i64_max_def resumable_sample_def
        resumable_stage_def cancelled_orchestrator_def\<close>)
qed

definition sample_resume_plan :: "orchestration_stage \<Rightarrow> control_plan" where
  "sample_resume_plan stage =
     \<lparr>cp_stage = stage, cp_resume_stage = None, cp_pause_kind = None, cp_target_status = status_for_stage stage,
      cp_action = action_for_stage stage, cp_active_processing_ms = 70, cp_clock_started_at_ms = Some 300\<rparr>"

definition sample_resume_checkpoint :: "orchestration_stage \<Rightarrow> checkpoint_row" where
  "sample_resume_checkpoint stage = checkpoint_of owner_codec 41 3 5
     (decided stage (action_for_stage stage) OnCheckpointEffectFree) 0 70 300"

lemma sample_resume_digest:
  assumes "resumable_sample stage"
  shows "ck_checkpoint_sha256 (sample_resume_checkpoint stage) = push_bit 128 (if stage = OsImplementing then 191 else 187)"
    and "ck_checkpoint_id (sample_resume_checkpoint stage)
      = (if stage = OsImplementing then 0x400080000000000000BF else 0x400080000000000000BB)"
  using assms owner_checkpoint_id unfolding resumable_sample_def
  by (auto simp: sample_resume_checkpoint_def checkpoint_of_def Let_def owner_checkpoint_sha256 decided_def)

definition paused_row_41 :: "orchestration_stage \<Rightarrow> orchestration_row" where
  "paused_row_41 stage = controlled_row (sample_pause_plan stage) (sample_pause_checkpoint stage) 200 (ledger_row_41 stage)"

lemma paused_row_fields [simp]:
  "or_feature_id (paused_row_41 stage) = 41" "or_orchestration_revision (paused_row_41 stage) = 2"
  "or_stage (paused_row_41 stage) = OsPaused" "or_resume_stage (paused_row_41 stage) = Some stage"
  "or_pause_kind (paused_row_41 stage) = Some PkOwner" "or_active_processing_ms (paused_row_41 stage) = 70"
  "or_replacement_candidates_used (paused_row_41 stage) = 0" "or_clock_started_at_ms (paused_row_41 stage) = None"
  "\<not> or_effect_possible (paused_row_41 stage)"
  "or_checkpoint_id (paused_row_41 stage) = ck_checkpoint_id (sample_pause_checkpoint stage)"
  by (simp_all add: paused_row_41_def controlled_row_def sample_pause_plan_def ledger_row_41_def sample_pause_checkpoint_def)

definition paused_feature_41 :: feature_row where
  "paused_feature_41 = moved FPaused False 200 (moved FCancelled True 140 (claimed_row 130 row_41))"

lemma paused_feature_fields [simp]:
  "ft_feature_id paused_feature_41 = 41" "ft_lifecycle_revision paused_feature_41 = 4"
  "ft_status paused_feature_41 = FPaused" "ft_created_at_ms paused_feature_41 = 110"
  by (simp_all add: paused_feature_41_def claimed_states)

text \<open>The state after the pause.\<close>

definition paused_41 :: "orchestration_stage \<Rightarrow> orchestrator \<Rightarrow> bool" where
  "paused_41 stage s =
     (orchestrator_inv s \<and> find_feature 41 (os_kernel s) = Some paused_feature_41
      \<and> find_orchestration 41 (os_kernel s) = Some (paused_row_41 stage)
      \<and> k_checkpoints (os_kernel s) = [checkpoint_41 stage, sample_pause_checkpoint stage]
      \<and> os_controls s = [fresh_control owner_codec True (owner_request 3 1) (sample_pause_checkpoint stage)]
      \<and> require_owner_control_bridge_tx owner_codec owner_device 1 (os_kernel s) = Inr ()
      \<and> require_unpaused_revision_tx 0 (os_kernel s) = Inr () \<and> require_queue_revision_tx 3 (os_kernel s) = Inr ()
      \<and> k_orchestration_activated (os_kernel s) \<and> holder (os_kernel s) = Some 41 \<and> k_dispatches (os_kernel s) = [])"

lemma sample_paused:
  assumes stage: "resumable_sample stage"
  shows "\<exists>s1. owner_control_feature_orchestration owner_codec (owner_request 3 1) owner_device 200 True
      (cancelled_orchestrator stage) = Inr (s1, control_receipt_of (owner_request 3 1) (sample_pause_checkpoint stage) True)
    \<and> s1 \<noteq> cancelled_orchestrator stage \<and> paused_41 stage s1"
proof -
  let ?s = "cancelled_orchestrator stage" let ?k = "os_kernel ?s"
  let ?f = "moved FCancelled True 140 (claimed_row 130 row_41)"
  from sample_owner_pause [OF stage] obtain s1 where ok: "owner_control_feature_orchestration owner_codec (owner_request 3 1) owner_device 200 True
      ?s = Inr (s1, control_receipt_of (owner_request 3 1) (sample_pause_checkpoint stage) True)" "s1 \<noteq> ?s"
    and ctl: "controlled owner_codec (owner_request 3 1) 200 True ?s s1 ?f (ledger_row_41 stage) (sample_pause_plan stage)
        (sample_pause_checkpoint stage)" by blast
  from ctl obtain audit where s1: "s1 = ?s\<lparr>os_kernel := (recorded (paused_row_41 stage) (sample_pause_checkpoint stage)
        (moved_to ?f FPaused False None 200 ?k))\<lparr>k_audit := audit\<rparr>,
      os_controls := [fresh_control owner_codec True (owner_request 3 1) (sample_pause_checkpoint stage)]\<rparr>"
    by (auto simp: controlled_def Let_def paused_row_41_def sample_pause_plan_def cancelled_orchestrator_def)
  have inv: "orchestrator_inv ?s" by (rule cancelled_orchestrator_inv [OF stage])
  then have ci: "conveyor_inv False ?k" by (simp add: orchestrator_inv_def)
  have "find_feature 41 (os_kernel s1) = Some paused_feature_41"
    using find_moved_to [OF ci cancelled_feature] by (simp add: s1 paused_feature_41_def)
  moreover have "find_orchestration 41 (os_kernel s1) = Some (paused_row_41 stage)"
    using find_orchestration_recorded [of "paused_row_41 stage"] by (simp add: s1)
  moreover have "require_owner_control_bridge_tx owner_codec owner_device 1 (os_kernel s1) = Inr ()"
    using owner_bridge [of "cancelled_41 []"]
    by (simp add: s1 cancelled_orchestrator_def owned_orchestrator_def require_owner_control_bridge_tx_def
        device_registration_tx_def recorded_def moved_to_def)
  moreover have "require_unpaused_revision_tx 0 (os_kernel s1) = Inr ()" "require_queue_revision_tx 3 (os_kernel s1) = Inr ()"
    "holder (os_kernel s1) = Some 41" "k_dispatches (os_kernel s1) = []"
    by (simp_all add: require_unpaused_revision_Inr require_queue_revision_Inr s1 recorded_def moved_to_def
        cancelled_orchestrator_def holder_def) (simp_all add: claimed_states owned_orchestrator_def owned_def)
  ultimately have "paused_41 stage s1"
    using control_inv [OF inv ok(1)] by (simp add: paused_41_def s1 cancelled_orchestrator_def)
  with ok show ?thesis by blast
qed

lemma sample_owner_resume:
  assumes stage: "resumable_sample stage" and s: "paused_41 stage s"
  shows "\<exists>s2 x. owner_control_feature_orchestration owner_codec (owner_request 4 2) owner_device 300 False s = Inr (s2, x)
    \<and> s2 \<noteq> s \<and> orchestrator_inv s2
    \<and> find_feature 41 (os_kernel s2) = Some (moved (status_for_stage stage) False 300 paused_feature_41)
    \<and> k_queue_revision (os_kernel s2) = 3 \<and> k_emergency_pause_revision (os_kernel s2) = 0
    \<and> k_dispatches (os_kernel s2) = []"
proof -
  let ?k = "os_kernel s" let ?q = "owner_request 4 2"
  let ?c = "sample_resume_checkpoint stage"
  have inv: "orchestrator_inv s" and f: "find_feature (oc_feature_id ?q) ?k = Some paused_feature_41"
    and state: "find_orchestration (oc_feature_id ?q) ?k = Some (paused_row_41 stage)"
    and cks: "k_checkpoints ?k = [checkpoint_41 stage, sample_pause_checkpoint stage]"
    and ctls: "os_controls s = [fresh_control owner_codec True (owner_request 3 1) (sample_pause_checkpoint stage)]"
    and bridge: "require_owner_control_bridge_tx owner_codec owner_device
      (oc_expected_owner_control_designation_revision ?q) ?k = Inr ()"
    and kernel: "require_unpaused_revision_tx 0 ?k = Inr ()" "require_queue_revision_tx 3 ?k = Inr ()"
      "k_orchestration_activated ?k" "holder ?k = Some 41"
    using s by (simp_all add: paused_41_def)
  have plan: "resume_plan (ft_status paused_feature_41) (paused_row_41 stage) 300 = Inr (sample_resume_plan stage)"
    by (simp add: resume_plan_def reject_if_def ok_or_def sample_resume_plan_def)
  have usable: "digest_usable ?c (k_checkpoints ?k)"
    and controls: "control_usable ?c (control_request_sha256 owner_codec ''resume'' ?q) (os_controls s)"
    using sample_pause_digest [OF stage] sample_resume_digest [OF stage] stage
    by (auto simp: digest_usable_def control_usable_def cks ctls checkpoint_41_def fresh_control_def Let_def
        control_row_of_def owner_request_digest resumable_sample_def)
  have previous: "find_row (\<lambda>c. ck_checkpoint_id c = or_checkpoint_id (paused_row_41 stage)) (k_checkpoints ?k)
      = Some (sample_pause_checkpoint stage)"
    using sample_pause_digest [OF stage] by (auto simp: cks find_row_def checkpoint_41_def)
  have cs: "?c = checkpoint_of owner_codec (oc_feature_id ?q) (Suc (or_orchestration_revision (paused_row_41 stage)))
      (Suc (ft_lifecycle_revision paused_feature_41)) ((decided (cp_stage (sample_resume_plan stage)) (cp_action (sample_resume_plan stage))
        OnCheckpointEffectFree)\<lparr>dc_pause_kind := cp_pause_kind (sample_resume_plan stage)\<rparr>)
      (or_replacement_candidates_used (paused_row_41 stage)) (cp_active_processing_ms (sample_resume_plan stage)) 300"
    by (simp add: sample_resume_checkpoint_def sample_resume_plan_def decided_def eval_nat_numeral)
  have "\<exists>s2. owner_control_feature_orchestration owner_codec ?q owner_device 300 False s = Inr (s2, control_receipt_of ?q ?c False)
    \<and> s2 \<noteq> s \<and> controlled owner_codec ?q 300 False s s2 paused_feature_41 (paused_row_41 stage) (sample_resume_plan stage) ?c"
    by (rule control_succeeds [OF owner_quote inv owner_request_valid bridge _ _ _ _ f _ state
          _ _ previous _ _ _ _ _ _ _ _ _ _ cs usable])
      (use kernel plan controls in \<open>simp_all add: i64_max_def\<close>)
  then obtain s2 where ok: "owner_control_feature_orchestration owner_codec ?q owner_device 300 False s
      = Inr (s2, control_receipt_of ?q ?c False)" "s2 \<noteq> s"
    and ctl: "controlled owner_codec ?q 300 False s s2 paused_feature_41 (paused_row_41 stage) (sample_resume_plan stage) ?c"
    by blast
  have ci: "conveyor_inv False ?k" using inv by (simp add: orchestrator_inv_def)
  from ctl obtain audit where s2: "os_kernel s2 = (recorded (controlled_row (sample_resume_plan stage) ?c 300 (paused_row_41 stage)) ?c
        (moved_to paused_feature_41 (status_for_stage stage) False None 300 ?k))\<lparr>k_audit := audit\<rparr>"
    by (auto simp: controlled_def Let_def sample_resume_plan_def)
  have "find_feature 41 (os_kernel s2) = Some (moved (status_for_stage stage) False 300 paused_feature_41)"
    using find_moved_to [OF ci f] by (simp add: s2)
  moreover have "k_queue_revision (os_kernel s2) = 3" "k_emergency_pause_revision (os_kernel s2) = 0" "k_dispatches (os_kernel s2) = []"
    using kernel s by (simp_all add: s2 recorded_def moved_to_def require_queue_revision_Inr require_unpaused_revision_Inr
        paused_41_def)
  ultimately show ?thesis using ok control_inv [OF inv ok(1)] by blast
qed

end
