(* ===== verification/Owner_Properties.thy ===== *)
theory Owner_Properties
  imports Orchestration_Sample
begin

text \<open>
  The properties of coordination and of the owner's controls: when a coordination succeeds, what a pause and
  a resume do to the feature, what a pause and a spent budget do to later coordinations, and a resume that
  leaves no way to abandon the feature.
\<close>

section \<open>Coordination succeeds\<close>

text \<open>
  C9. Coordination succeeds while nothing forbids it: in every state that satisfies the invariant of the machine, once
  orchestration is activated and while no emergency pause is set, a feature in active work can be coordinated at
  the current revision of its ledger row, provided that the digest of the checkpoint that would be recorded is
  unused, that the times and revisions fit their columns and that the codec escapes a byte in at most six: the
  operation returns a projection, and the feature then has a ledger row, with the next revision unless nothing
  changed.
\<close>

theorem unpaused_coordination_succeeds:
  assumes "quote_bounded (quote_json cx)" and inv: "orchestrator_inv s"
    and "find_feature i (os_kernel s) = Some f" "working_status (ft_status f)"
    and "i \<noteq> 0" "k_orchestration_activated (os_kernel s)" "k_emergency_paused (os_kernel s) = 0"
    and "0 < now" "ft_created_at_ms f \<le> now" "now \<le> i64_max"
    and e: "e = find_orchestration i (os_kernel s)"
    and "Suc (stored_revision e) \<le> i64_max" "Suc (ft_lifecycle_revision f) \<le> i64_max"
    and "\<And>r t. r \<in> set (tb_review_outcomes (os_gates s)) \<Longrightarrow> ro_next_retry_at_ms r = Some t \<Longrightarrow> t \<le> i64_max"
    and "digest_usable (next_checkpoint cx i f now s) (k_checkpoints (os_kernel s))"
  shows "\<exists>s' p r. coordinate_feature_orchestration cx i (stored_revision e) now s = Inr (s', p)
    \<and> find_orchestration i (os_kernel s') = Some r \<and> pr_orchestration_revision p = or_orchestration_revision r
    \<and> (s' = s \<or> or_orchestration_revision r = Suc (stored_revision e))"
proof -
  obtain s' p where ok: "coordinate_feature_orchestration cx i (stored_revision e) now s = Inr (s', p)"
    using coordinate_succeeds [OF assms(1-13) _ assms(15)] assms(14) by blast
  have "distinct (map or_feature_id (k_orchestration (os_kernel s)))"
    using inv by (simp add: orchestrator_inv_def ledger_inv_def)
  from coordinate_effect [OF ok this, folded e] obtain g d where g: "find_feature i (os_kernel s) = Some g"
    and res: "(\<exists>r b. e = Some r \<and> s' = s \<and> p = orchestration_projection_of i r b)
      \<or> (\<exists>c. coordinated cx now s s' g e d c
            \<and> p = orchestration_projection_of i (coordinated_row i (ft_status g) d c now) c)"
    unfolding Let_def by blast
  from res show ?thesis
  proof (elim disjE exE conjE)
    fix r b assume r: "e = Some r" "s' = s" "p = orchestration_projection_of i r b"
    then have "find_orchestration i (os_kernel s') = Some r" using e by simp
    with ok r show ?thesis by (simp add: orchestration_projection_of_def)
  next
    fix c assume co: "coordinated cx now s s' g e d c"
      and p: "p = orchestration_projection_of i (coordinated_row i (ft_status g) d c now) c"
    let ?r = "coordinated_row i (ft_status g) d c now"
    have "ft_feature_id g = i" using find_feature_Some [OF g] by simp
    with co obtain audit k1 n l a m where s': "os_kernel s' = (recorded ?r c k1)\<lparr>k_audit := audit\<rparr>"
      and c: "c = checkpoint_of cx i (Suc (stored_revision e)) n d l a m"
      unfolding coordinated_def Let_def by auto
    have "find_orchestration i (os_kernel s') = Some ?r"
      using find_orchestration_recorded [of ?r] by (simp add: s' coordinated_row_def)
    with ok show ?thesis by (simp add: p orchestration_projection_of_def coordinated_row_def c)
  qed
qed

text \<open>Feature 41 was just claimed and has no ledger row.\<close>

definition claimed_orchestrator :: orchestrator where
  "claimed_orchestrator = owned_orchestrator (claimed_41 []) [] []"

lemma claimed_orchestrator_inv: "orchestrator_inv claimed_orchestrator"
  unfolding claimed_orchestrator_def
  by (intro owned_orchestrator_inv claimed_41_inv ledger_inv_new) (simp add: claimed_states)

lemma claimed_feature: "find_feature 41 (claimed_41 a) = Some (claimed_row 130 row_41)"
  by (simp add: find_feature_def find_row_def claimed_states)

theorem unpaused_coordination_succeeds_witness:
  "\<exists>s' p r. coordinate_feature_orchestration owner_codec 41 0 140 claimed_orchestrator = Inr (s', p)
    \<and> find_orchestration 41 (os_kernel s') = Some r"
proof -
  have e: "find_orchestration 41 (os_kernel claimed_orchestrator) = None"
    by (simp add: find_orchestration_def claimed_orchestrator_def)
  have f: "find_feature 41 (os_kernel claimed_orchestrator) = Some (claimed_row 130 row_41)"
    by (simp add: claimed_orchestrator_def find_owned claimed_feature)
  have row: "ft_status (claimed_row 130 row_41) = FImplementing" "ft_created_at_ms (claimed_row 130 row_41) = 110"
    "ft_lifecycle_revision (claimed_row 130 row_41) = 2" by (simp_all add: claimed_states)
  have usable: "digest_usable (next_checkpoint owner_codec 41 (claimed_row 130 row_41) 140 claimed_orchestrator)
      (k_checkpoints (os_kernel claimed_orchestrator))"
    by (simp add: digest_usable_def next_checkpoint_def next_decision_def Let_def e row derive_orchestration_decision_def
        budget_spent_def charged_ms_def budget_decision_def ordinary_def decided_def checkpoint_of_def
        owner_checkpoint_sha256 MAX_FEATURE_CONVEYOR_ACTIVE_PROCESSING_MS_def) (simp add: claimed_orchestrator_def)
  have "\<exists>s' p r. coordinate_feature_orchestration owner_codec 41 (stored_revision None) 140 claimed_orchestrator = Inr (s', p)
    \<and> find_orchestration 41 (os_kernel s') = Some r \<and> pr_orchestration_revision p = or_orchestration_revision r
    \<and> (s' = claimed_orchestrator \<or> or_orchestration_revision r = Suc (stored_revision None))"
    by (rule unpaused_coordination_succeeds [OF owner_quote claimed_orchestrator_inv f _ _ _ _ _ _ _ _ _ _ _ usable])
      (simp_all add: row e working_status_def i64_max_def stored_revision_def, simp_all add: claimed_orchestrator_def claimed_states
        owned_orchestrator_def new_orchestrator_def no_gates_def owned_def)
  then show ?thesis by (auto simp: stored_revision_def)
qed

section \<open>Pause and resume\<close>

text \<open>
  C10. An owner's pause stops the clock and a resume starts it again: after a pause and a resume of one feature,
  neither of them a replay, the feature is in the status of the stage that the ledger had before the pause,
  two lifecycle revisions later; the ledger has that stage again, no pause, two revisions more, the time up to
  the pause charged and none of the time between pause and resume; and lease, queue and distributed work
  are as before. (The status is that of the ledger's stage, not the feature's own status before the pause: a
  feature that was advanced after its last checkpoint is moved back.)
\<close>

theorem owner_pause_and_resume:
  assumes inv: "orchestrator_inv s"
    and pause: "owner_control_feature_orchestration cx q reg now True s = Inr (s1, x)" "s1 \<noteq> s"
    and resume: "owner_control_feature_orchestration cx q' reg' now' False s1 = Inr (s2, x')" "s2 \<noteq> s1"
    and same: "oc_feature_id q' = oc_feature_id q"
  shows "\<exists>f state f2 state2. find_feature (oc_feature_id q) (os_kernel s) = Some f
    \<and> find_orchestration (oc_feature_id q) (os_kernel s) = Some state
    \<and> find_feature (oc_feature_id q) (os_kernel s2) = Some f2
    \<and> find_orchestration (oc_feature_id q) (os_kernel s2) = Some state2
    \<and> ft_status f2 = status_for_stage (or_stage state) \<and> ft_lifecycle_revision f2 = ft_lifecycle_revision f + 2
    \<and> or_stage state2 = or_stage state \<and> or_pause_kind state2 = None
    \<and> or_orchestration_revision state2 = or_orchestration_revision state + 2
    \<and> or_active_processing_ms state2 = or_active_processing_ms state
        + (case or_clock_started_at_ms state of None \<Rightarrow> 0 | Some t \<Rightarrow> now - t)
    \<and> or_clock_started_at_ms state2 = Some now'
    \<and> k_active_lease (os_kernel s2) = k_active_lease (os_kernel s) \<and> k_queue (os_kernel s2) = k_queue (os_kernel s)
    \<and> k_steps (os_kernel s2) = k_steps (os_kernel s) \<and> k_attempts (os_kernel s2) = k_attempts (os_kernel s)"
proof -
  let ?i = "oc_feature_id q"
  from control_writes [OF inv pause] obtain f state plan where
    w: "control_written q now True (os_kernel s) (os_kernel s1) f state plan" by blast
  then obtain previous c where
    1: "find_feature ?i (os_kernel s) = Some f" "find_orchestration ?i (os_kernel s) = Some state"
      "pause_plan (ft_status f) state previous now = Inr plan"
      "ck_orchestration_revision c = Suc (or_orchestration_revision state)"
      "find_feature ?i (os_kernel s1) = Some (moved (cp_target_status plan) False now f)"
      "find_orchestration ?i (os_kernel s1) = Some (controlled_row plan c now state)"
    by (auto simp: control_written_def Let_def)
  from control_writes [OF control_inv [OF inv pause(1)] resume] obtain g state1 plan' where
    w': "control_written q' now' False (os_kernel s1) (os_kernel s2) g state1 plan'" by blast
  then obtain c' where
    2: "resume_plan (cp_target_status plan) (controlled_row plan c now state) now' = Inr plan'"
      "ck_orchestration_revision c' = Suc (ck_orchestration_revision c)"
      "find_feature ?i (os_kernel s2) = Some (moved (cp_target_status plan') False now' (moved (cp_target_status plan) False now f))"
      "find_orchestration ?i (os_kernel s2) = Some (controlled_row plan' c' now' (controlled_row plan c now state))"
    using 1(5,6) by (auto simp: control_written_def Let_def same controlled_row_def)
  have same_tables: "k_active_lease (os_kernel s2) = k_active_lease (os_kernel s) \<and> k_queue (os_kernel s2) = k_queue (os_kernel s)
    \<and> k_steps (os_kernel s2) = k_steps (os_kernel s) \<and> k_attempts (os_kernel s2) = k_attempts (os_kernel s)"
    using w w' by (simp add: control_written_def Let_def)
  from 1(3) have plan: "cp_resume_stage plan = Some (or_stage state)"
    "cp_active_processing_ms plan = or_active_processing_ms state + elapsed_ms (or_clock_started_at_ms state) now"
    by (auto simp: pause_plan_def bindE_Inr_iff Let_def reject_if_Inr_iff saturating_add_u64_def min_def u64_max_def
        MAX_FEATURE_CONVEYOR_ACTIVE_PROCESSING_MS_def split: if_splits)
  from 2(1) have plan': "cp_stage plan' = or_stage state" "cp_target_status plan' = status_for_stage (or_stage state)"
    "cp_pause_kind plan' = None" "cp_active_processing_ms plan' = cp_active_processing_ms plan"
    "cp_clock_started_at_ms plan' = Some now'"
    by (auto simp: resume_plan_def bindE_Inr_iff reject_if_Inr_iff ok_or_Inr_iff controlled_row_def plan)
  show ?thesis
    using 1(1,2,4) 2(2-4) same_tables plan plan'
    by (simp add: controlled_row_def elapsed_ms_def)
qed

text \<open>
  The example is a cancelled feature whose ledger row was left at implementing: pause and resume bring it back
  to implementing.
\<close>

theorem owner_pause_and_resume_witness:
  "\<exists>s1 x s2 x' f f2. owner_control_feature_orchestration owner_codec (owner_request 3 1) owner_device 200 True
        (cancelled_orchestrator OsImplementing) = Inr (s1, x)
    \<and> owner_control_feature_orchestration owner_codec (owner_request 4 2) owner_device 300 False s1 = Inr (s2, x')
    \<and> find_feature 41 (os_kernel (cancelled_orchestrator OsImplementing)) = Some f \<and> ft_status f = FCancelled
    \<and> find_feature 41 (os_kernel s2) = Some f2 \<and> ft_status f2 = FImplementing"
proof -
  have stage: "resumable_sample OsImplementing" by (simp add: resumable_sample_def)
  from sample_paused [OF stage] obtain s1 x where
    1: "owner_control_feature_orchestration owner_codec (owner_request 3 1) owner_device 200 True
        (cancelled_orchestrator OsImplementing) = Inr (s1, x)" "s1 \<noteq> cancelled_orchestrator OsImplementing"
      "paused_41 OsImplementing s1" by blast
  from sample_owner_resume [OF stage 1(3)] obtain s2 x' where
    2: "owner_control_feature_orchestration owner_codec (owner_request 4 2) owner_device 300 False s1 = Inr (s2, x')"
      "s2 \<noteq> s1" by blast
  obtain state f2 where "find_orchestration 41 (os_kernel (cancelled_orchestrator OsImplementing)) = Some state"
    "find_feature 41 (os_kernel s2) = Some f2" "ft_status f2 = status_for_stage (or_stage state)"
    using owner_pause_and_resume [OF cancelled_orchestrator_inv [OF stage] 1(1,2) 2] by auto
  moreover from this(1) have "or_stage state = OsImplementing"
    by (auto simp: find_orchestration_def cancelled_orchestrator_def ledger_row_41_def find_row_def)
  ultimately show ?thesis using 1(1) 2(1) cancelled_feature by fastforce
qed

section \<open>Coordination while the owner has paused\<close>

text \<open>
  C12. The owner's pause is not coordinated away: while the owner has paused a feature and its processing budget is not
  spent, a coordination of the feature changes nothing. (It does not answer with the paused stage either: the
  row it derives would resume the stage of a paused feature, which the table refuses, so it always fails.)
\<close>

theorem owner_pause_holds:
  assumes inv: "orchestrator_inv s" and f: "find_feature i (os_kernel s) = Some f" "ft_status f = FPaused"
    and r: "find_orchestration i (os_kernel s) = Some r" "or_pause_kind r = Some PkOwner"
    and budget: "\<not> budget_spent (Some r) now"
  shows "\<exists>e. coordinate_feature_orchestration cx i expected now s = Inl e
    \<and> orchestrator_step cx s (OCoordinate i expected now) = s"
proof -
  let ?k = "os_kernel s"
  have led: "ledger_inv (k_orchestration ?k) (k_checkpoints ?k)" using inv by (simp add: orchestrator_inv_def)
  then have dist: "distinct (map or_feature_id (k_orchestration ?k))" by (simp add: ledger_inv_def)
  have "\<nexists>s' p. coordinate_feature_orchestration cx i expected now s = Inr (s', p)"
  proof (intro notI, elim exE)
    fix s' p assume ok: "coordinate_feature_orchestration cx i expected now s = Inr (s', p)"
    let ?d = "(decided OsPaused OaAwaitReviewDecision OnReviewTransportBackoff)
      \<lparr>dc_pause_kind := Some PkOwner, dc_next_retry_at_ms := or_next_retry_at_ms r\<rparr>"
    from coordinate_effect [OF ok dist] f r obtain derived where
      derived: "derive_orchestration_decision i FPaused (Some r) now ?k (os_gates s) = Inr derived"
      and res: "(\<exists>c. find_row (\<lambda>c. ck_checkpoint_id c = or_checkpoint_id r) (k_checkpoints ?k) = Some c
            \<and> unchanged_checkpoint r c (budget_decision (budget_spent (Some r) now) derived)
                (elapsed_ms (or_clock_started_at_ms r) now))
        \<or> (\<exists>c. coordinated cx now s s' f (Some r) (budget_decision (budget_spent (Some r) now) derived) c)"
      unfolding Let_def by auto
    have "derived = ?d"
      using derived r(2) by (simp add: derive_orchestration_decision_def paused_decision_def ok_or_def)
    with budget have d: "budget_decision (budget_spent (Some r) now) derived = ?d"
      by (simp add: budget_decision_def)
    from res show False unfolding d
    proof (elim disjE exE conjE)
      fix c assume "find_row (\<lambda>c. ck_checkpoint_id c = or_checkpoint_id r) (k_checkpoints ?k) = Some c"
        and "unchanged_checkpoint r c ?d (elapsed_ms (or_clock_started_at_ms r) now)"
      with ledger_checkpoint [OF led r(1)] r(2) show False
        by (auto simp: checkpoint_backs_def unchanged_checkpoint_def decided_def)
    next
      fix c assume "coordinated cx now s s' f (Some r) ?d c"
      then show False
        by (simp add: coordinated_def Let_def orchestration_row_valid_def coordinated_row_def decided_def f(2)
            resumable_stage_def)
    qed
  qed
  then obtain e where "coordinate_feature_orchestration cx i expected now s = Inl e"
    by (metis old.sum.exhaust surj_pair)
  then show ?thesis by (simp add: orchestrator_step_def orchestrator_of_def)
qed

theorem owner_pause_holds_witness:
  "\<exists>s e. paused_41 OsImplementing s \<and> coordinate_feature_orchestration owner_codec 41 2 250 s = Inl e
    \<and> orchestrator_step owner_codec s (OCoordinate 41 2 250) = s"
proof -
  have stage: "resumable_sample OsImplementing" by (simp add: resumable_sample_def)
  from sample_paused [OF stage] obtain s where s: "paused_41 OsImplementing s" by blast
  have "\<exists>e. coordinate_feature_orchestration owner_codec 41 2 250 s = Inl e
      \<and> orchestrator_step owner_codec s (OCoordinate 41 2 250) = s"
    by (rule owner_pause_holds [where r = "paused_row_41 OsImplementing" and f = paused_feature_41])
      (use s in \<open>simp_all add: paused_41_def budget_spent_def charged_ms_def elapsed_ms_def saturating_add_u64_def
        u64_max_def MAX_FEATURE_CONVEYOR_ACTIVE_PROCESSING_MS_def\<close>)
  with s show ?thesis by blast
qed

section \<open>The processing budget\<close>

text \<open>
  C11. The 24 hour budget is final: when a feature's charged time reaches the budget, a coordination that records
  anything leaves the feature in attention-required or quarantined, without a running clock, with exactly the
  budget charged.
\<close>

theorem spent_budget_stops_processing:
  assumes inv: "orchestrator_inv s" and ok: "coordinate_feature_orchestration cx i expected now s = Inr (s', p)"
    and changed: "s' \<noteq> s" and spent: "budget_spent (find_orchestration i (os_kernel s)) now"
  shows "\<exists>f r. find_feature i (os_kernel s') = Some f \<and> ft_status f \<in> {FAttentionRequired, FQuarantined}
    \<and> find_orchestration i (os_kernel s') = Some r \<and> or_clock_started_at_ms r = None
    \<and> or_stage r \<in> {OsAttentionRequired, OsQuarantined}
    \<and> or_active_processing_ms r = 24 * 60 * 60 * 1000 \<and> pr_stage p = or_stage r"
proof -
  let ?k = "os_kernel s" let ?e = "find_orchestration i ?k"
  have led: "ledger_inv (k_orchestration ?k) (k_checkpoints ?k)" and ci: "conveyor_inv False ?k"
    using inv by (simp_all add: orchestrator_inv_def)
  then have dist: "distinct (map or_feature_id (k_orchestration ?k))" by (simp add: ledger_inv_def)
  from coordinate_effect [OF ok dist] obtain f derived where
    f: "find_feature i ?k = Some f" and st: "\<not> owner_resolution_status (ft_status f)"
    and d: "derive_orchestration_decision i (ft_status f) ?e now ?k (os_gates s) = Inr derived"
    and res: "s' = s \<or> (\<exists>c. coordinated cx now s s' f ?e (budget_decision (budget_spent ?e now) derived) c
        \<and> p = orchestration_projection_of i
            (coordinated_row i (ft_status f) (budget_decision (budget_spent ?e now) derived) c now) c)"
    unfolding Let_def by blast
  have valid: "orchestration_row_valid r" if "?e = Some r" for r
    using ledger_row(3) [OF led] that by (simp add: find_orchestration_def)
  let ?d = "budget_decision True derived"
  from res changed spent obtain c where co: "coordinated cx now s s' f ?e ?d c"
    and p: "p = orchestration_projection_of i (coordinated_row i (ft_status f) ?d c now) c" by auto
  have stage: "dc_stage ?d \<in> {OsAttentionRequired, OsQuarantined}"
    using decision_facts [OF d st valid] by (auto simp: budget_decision_def decided_def)
  let ?t = "status_for_stage (dc_stage ?d)" let ?r = "coordinated_row i (ft_status f) ?d c now"
  let ?k1 = "if ?t = ft_status f then ?k else moved_to f ?t (dc_effect_possible ?d) (dc_evidence_sha256 ?d) now ?k"
  have i: "ft_feature_id f = i" using find_feature_Some [OF f] by simp
  from co spent obtain audit l n where s': "os_kernel s' = (recorded ?r c ?k1)\<lparr>k_audit := audit\<rparr>"
    and c: "c = checkpoint_of cx i n l ?d (case ?e of None \<Rightarrow> 0 | Some r \<Rightarrow> or_replacement_candidates_used r)
        MAX_FEATURE_CONVEYOR_ACTIVE_PROCESSING_MS now"
    unfolding coordinated_def Let_def i by auto
  have "find_orchestration i (os_kernel s') = Some ?r"
    using find_orchestration_recorded [of ?r] by (simp add: s' coordinated_row_def)
  moreover have "find_feature i (os_kernel s') = Some (if ?t = ft_status f then f
      else moved ?t (dc_effect_possible ?d) now f)"
    using f find_moved_to [OF ci f] by (simp add: s')
  ultimately show ?thesis
    using stage by (auto simp: coordinated_row_def c starts_clock_def MAX_FEATURE_CONVEYOR_ACTIVE_PROCESSING_MS_def
        p orchestration_projection_of_def)
qed

text \<open>A feature whose clock ran for 24 hours.\<close>

definition exhausted_orchestrator :: orchestrator where
  "exhausted_orchestrator = owned_orchestrator (claimed_41 []) [ledger_row_41 OsImplementing] [checkpoint_41 OsImplementing]"

lemma exhausted_orchestrator_inv: "orchestrator_inv exhausted_orchestrator"
  unfolding exhausted_orchestrator_def
  by (intro owned_orchestrator_inv claimed_41_inv sample_ledger) (simp_all add: claimed_states)

lemma owner_checkpoint_id_204: "orchestration_checkpoint_id (push_bit 128 204) = 0x400080000000000000CC"
  by (simp add: orchestration_checkpoint_id_def)

theorem spent_budget_stops_processing_witness:
  "\<exists>s' p f. coordinate_feature_orchestration owner_codec 41 1 86400300 exhausted_orchestrator = Inr (s', p)
    \<and> s' \<noteq> exhausted_orchestrator \<and> find_feature 41 (os_kernel s') = Some f
    \<and> ft_status f \<in> {FAttentionRequired, FQuarantined}"
proof -
  let ?s = exhausted_orchestrator and ?e = "Some (ledger_row_41 OsImplementing)"
  have e: "find_orchestration 41 (os_kernel ?s) = ?e"
    by (simp add: find_orchestration_def exhausted_orchestrator_def find_row_def ledger_row_41_def)
  have f: "find_feature 41 (os_kernel ?s) = Some (claimed_row 130 row_41)"
    by (simp add: exhausted_orchestrator_def find_owned claimed_feature)
  have row: "ft_status (claimed_row 130 row_41) = FImplementing" "ft_created_at_ms (claimed_row 130 row_41) = 110"
    "ft_lifecycle_revision (claimed_row 130 row_41) = 2" by (simp_all add: claimed_states)
  have spent: "budget_spent ?e 86400300" and rev: "stored_revision ?e = 1"
    by (simp_all add: budget_spent_def charged_ms_def ledger_row_41_def elapsed_ms_def saturating_add_u64_def u64_max_def
        MAX_FEATURE_CONVEYOR_ACTIVE_PROCESSING_MS_def stored_revision_def)
  have usable: "digest_usable (next_checkpoint owner_codec 41 (claimed_row 130 row_41) 86400300 ?s) (k_checkpoints (os_kernel ?s))"
    using owner_checkpoint_id_204
    by (simp add: digest_usable_def next_checkpoint_def next_decision_def Let_def e row spent derive_orchestration_decision_def
        budget_decision_def ordinary_def decided_def checkpoint_of_def owner_checkpoint_sha256)
      (simp add: exhausted_orchestrator_def checkpoint_41_def)
  have "\<exists>s' p. coordinate_feature_orchestration owner_codec 41 (stored_revision ?e) 86400300 ?s = Inr (s', p)"
    by (rule coordinate_succeeds [OF owner_quote exhausted_orchestrator_inv f _ _ _ _ _ _ _ _ _ _ _ usable])
      (simp_all add: row e rev working_status_def i64_max_def, simp_all add: exhausted_orchestrator_def claimed_states
        owned_orchestrator_def new_orchestrator_def no_gates_def owned_def)
  then obtain s' p where ok: "coordinate_feature_orchestration owner_codec 41 1 86400300 ?s = Inr (s', p)"
    using rev by auto
  have "s' \<noteq> ?s"
  proof
    assume same: "s' = ?s"
    have "distinct (map or_feature_id (k_orchestration (os_kernel ?s)))" by (simp add: exhausted_orchestrator_def)
    from coordinate_effect [OF ok this] same obtain g d c where
      "unchanged_checkpoint (ledger_row_41 OsImplementing) c d (elapsed_ms (Some 135) 86400300)
        \<or> coordinated owner_codec 86400300 ?s ?s g ?e d c"
      unfolding Let_def e by (auto simp: ledger_row_41_def)
    then show False
    proof
      assume "coordinated owner_codec 86400300 ?s ?s g ?e d c"
      then obtain r k1 audit where s: "?s = ?s\<lparr>os_kernel := (recorded r c k1)\<lparr>k_audit := audit\<rparr>\<rparr>"
        and k1: "k_checkpoints k1 = k_checkpoints (os_kernel ?s)"
        unfolding coordinated_def Let_def by (auto split: if_splits)
      have "k_checkpoints (os_kernel ?s) = k_checkpoints (os_kernel ?s) @ [c]"
        by (subst s) (simp add: k1)
      then show False by simp
    qed (simp add: unchanged_checkpoint_def elapsed_ms_def)
  qed
  with spent_budget_stops_processing [OF exhausted_orchestrator_inv ok] ok show ?thesis by (auto simp: e spent)
qed

section \<open>Main verification after a resume\<close>

text \<open>
  C13. A resume into main verification leaves no way to abandon the feature: when a resume (that is not a replay) brings a
  feature to verifying-main and the owner then cancels it, every attempt to abandon it fails, whatever
  evidence is given. (The resume records a bare transition, where the abandonment looks for the evidence of
  publishing.)
\<close>

theorem resumed_verification_is_not_abandoned:
  assumes inv: "orchestrator_inv s"
    and resume: "owner_control_feature_orchestration cx q reg now False s = Inr (s1, x)" "s1 \<noteq> s"
    and f: "find_feature (oc_feature_id q) (os_kernel s1) = Some f" "ft_status f = FVerifyingMain"
    and cancel: "cancel_active_feature_bound cx b at owner (os_kernel s1) = Inr (k, v)"
    and same: "rb_feature_id b = oc_feature_id q" "rb_feature_id b' = oc_feature_id q"
  shows "\<exists>e. abandon_and_advance_bound cx b' evidence at' owner' k = Inl e"
proof (rule ccontr)
  let ?i = "oc_feature_id q"
  assume "\<not> ?thesis"
  then obtain k' w where ok: "abandon_and_advance_bound cx b' evidence at' owner' k = Inr (k', w)"
    by (metis old.sum.exhaust surj_pair)
  have ci: "conveyor_inv False (os_kernel s1)" using control_inv [OF inv resume(1)] by (simp add: orchestrator_inv_def)
  have ck: "conveyor_inv False k" using cancel_feature_ok [OF ci cancel] by (simp add: conveyor_ok_def)
  from control_writes [OF inv resume] obtain g state plan where
    w: "control_written q now False (os_kernel s) (os_kernel s1) g state plan" by blast
  let ?t = "bare_transition ?i (ft_lifecycle_revision f) (ft_status g) (ft_status f) now"
  have t: "?t \<in> set (k_transitions (os_kernel s1))"
    using w f(1) by (auto simp: control_written_def Let_def)
  note c = cancel_transitions [OF ci cancel f(1) [folded same(1)], unfolded same(1)]
  let ?u = "bare_transition ?i (Suc (ft_lifecycle_revision f)) FVerifyingMain FCancelled at"
  have "find_transition ?i (Suc (ft_lifecycle_revision f)) k = Some ?u"
    using transition_found [OF ck, of ?u] c f(2) by (simp add: bare_transition_def)
  moreover have "find_transition ?i (ft_lifecycle_revision f) k = Some ?t"
    using transition_found [OF ck, of ?t] c t by (simp add: bare_transition_def)
  moreover from abandon_effect [OF ok] c obtain origin where
    "feature_resolution_origin_tx ?i FCancelled (Suc (ft_lifecycle_revision f)) k = Inr origin"
    by (auto simp: same)
  ultimately have "verified_main_transition ?t"
    by (simp add: feature_resolution_origin_tx_def bindE_Inr_iff ok_or_Inr_iff checked_sub_u64_def reject_if_Inr_iff
        bare_transition_def)
  then show False by (simp add: verified_main_transition_def bare_transition_def)
qed

definition resumed_cancel_binding :: resolution_binding where
  "resumed_cancel_binding = \<lparr>rb_feature_id = 41, rb_expected_lifecycle_revision = 5,
     rb_expected_queue_revision = 3, rb_expected_emergency_pause_revision = 0\<rparr>"

theorem resumed_verification_is_not_abandoned_witness:
  "\<exists>k v e. cancel_active_feature_bound owner_codec resumed_cancel_binding 400 None k = Inr v
    \<and> abandon_and_advance_bound owner_codec (resumed_cancel_binding\<lparr>rb_expected_lifecycle_revision := 6\<rparr>)
        sample_evidence 500 None (fst v) = Inl e"
proof -
  have stage: "resumable_sample OsVerifyingMain" by (simp add: resumable_sample_def)
  from sample_paused [OF stage] obtain s1 where s1: "paused_41 OsVerifyingMain s1" by blast
  from sample_owner_resume [OF stage s1] obtain s2 x where
    2: "owner_control_feature_orchestration owner_codec (owner_request 4 2) owner_device 300 False s1 = Inr (s2, x)"
      "s2 \<noteq> s1" "orchestrator_inv s2"
    and f: "find_feature 41 (os_kernel s2) = Some (moved FVerifyingMain False 300 paused_feature_41)"
    and k: "k_queue_revision (os_kernel s2) = 3" "k_emergency_pause_revision (os_kernel s2) = 0" "k_dispatches (os_kernel s2) = []"
    by auto
  have inv: "orchestrator_inv s1" using s1 by (simp add: paused_41_def)
  have ci: "conveyor_inv False (os_kernel s2)" using 2(3) by (simp add: orchestrator_inv_def)
  have fields: "ft_lifecycle_revision (moved FVerifyingMain False 300 paused_feature_41) = 5"
    "ft_created_at_ms (moved FVerifyingMain False 300 paused_feature_41) = 110"
    "ft_status (moved FVerifyingMain False 300 paused_feature_41) = FVerifyingMain" by (simp_all add: moved_def)
  have "\<exists>k' v. cancel_active_feature_bound owner_codec resumed_cancel_binding 400 None (os_kernel s2) = Inr (k', v)"
    by (rule cancel_succeeds [OF owner_quote ci, where f = "moved FVerifyingMain False 300 paused_feature_41"])
      (use f k fields in \<open>simp_all add: resumed_cancel_binding_def is_active_execution_def open_dispatches_def i64_max_def\<close>)
  then obtain k' v where c: "cancel_active_feature_bound owner_codec resumed_cancel_binding 400 None (os_kernel s2) = Inr (k', v)"
    by blast
  have "\<exists>e. abandon_and_advance_bound owner_codec (resumed_cancel_binding\<lparr>rb_expected_lifecycle_revision := 6\<rparr>)
      sample_evidence 500 None k' = Inl e"
    by (rule resumed_verification_is_not_abandoned [OF inv 2(1,2) _ fields(3) c])
      (use f fields in \<open>simp_all add: resumed_cancel_binding_def\<close>)
  with c show ?thesis by fastforce
qed

end
