(* ===== verification/Publication_Messages.thy ===== *)
theory Publication_Messages
  imports Review_Messages
begin

text \<open>
  The messages of the publication coordinator (\<^verbatim>\<open>assemblywright-protocol/src/lib.rs\<close>): the request (\<open>pq\<close>),
  the seven publication actions in their order, the structured evidence of one action (\<open>pe\<close>), sealed with
  a digest of its own canonical JSON, and the receipt (\<open>pk\<close>). Lemmas: the exact shape of the evidence of
  each action.
\<close>

definition FEATURE_CONVEYOR_PUBLICATION_COORDINATOR_SCHEMA_VERSION :: nat where
  "FEATURE_CONVEYOR_PUBLICATION_COORDINATOR_SCHEMA_VERSION = 1"
definition MAX_FEATURE_CONVEYOR_PUBLICATION_CHECKS :: nat where
  "MAX_FEATURE_CONVEYOR_PUBLICATION_CHECKS = 64"

section \<open>The request\<close>

record publication_request =
  pq_schema_version :: nat
  pq_publication_id :: uuid
  pq_feature_id :: uuid
  pq_specification_revision :: nat
  pq_expected_lifecycle_revision :: nat
  pq_feature_lease_id :: uuid
  pq_integration_id :: uuid
  pq_validation_id :: uuid
  pq_review_call_id :: uuid
  pq_candidate_commit :: string
  pq_candidate_tree :: string
  pq_candidate_diff_sha256 :: digest
  pq_evidence_manifest_sha256 :: digest
  pq_review_decision_sha256 :: digest
  pq_provider_id :: string
  pq_model_id :: string
  pq_remote_base_commit :: string
  pq_branch_policy_sha256 :: digest
  pq_expected_queue_revision :: nat
  pq_expected_emergency_pause_revision :: nat
  pq_grants :: grant_revisions

definition publication_request_json :: "codec \<Rightarrow> publication_request \<Rightarrow> json" where
  "publication_request_json cx r = JObject
     [(''schema_version'', number_json (pq_schema_version r)),
      (''publication_id'', JString (uuid_text cx (pq_publication_id r))),
      (''feature_id'', JString (uuid_text cx (pq_feature_id r))),
      (''specification_revision'', number_json (pq_specification_revision r)),
      (''expected_lifecycle_revision'', number_json (pq_expected_lifecycle_revision r)),
      (''feature_lease_id'', JString (uuid_text cx (pq_feature_lease_id r))),
      (''integration_id'', JString (uuid_text cx (pq_integration_id r))),
      (''validation_id'', JString (uuid_text cx (pq_validation_id r))),
      (''review_call_id'', JString (uuid_text cx (pq_review_call_id r))),
      (''candidate_commit'', JString (pq_candidate_commit r)),
      (''candidate_tree'', JString (pq_candidate_tree r)),
      (''candidate_diff_sha256'', digest_json (pq_candidate_diff_sha256 r)),
      (''evidence_manifest_sha256'', digest_json (pq_evidence_manifest_sha256 r)),
      (''review_decision_sha256'', digest_json (pq_review_decision_sha256 r)),
      (''provider_id'', JString (pq_provider_id r)),
      (''model_id'', JString (pq_model_id r)),
      (''remote_base_commit'', JString (pq_remote_base_commit r)),
      (''branch_policy_sha256'', digest_json (pq_branch_policy_sha256 r)),
      (''expected_queue_revision'', number_json (pq_expected_queue_revision r)),
      (''expected_emergency_pause_revision'', number_json (pq_expected_emergency_pause_revision r)),
      (''grants'', grants_json (pq_grants r))]"

definition validate_publication_request :: "codec \<Rightarrow> publication_request \<Rightarrow> unit validated" where
  "validate_publication_request cx r =
     bindE (reject_if InvalidFeatureConveyorOwnerControl
       (pq_schema_version r \<noteq> FEATURE_CONVEYOR_PUBLICATION_COORDINATOR_SCHEMA_VERSION
        \<or> pq_publication_id r = 0 \<or> pq_feature_id r = 0 \<or> pq_feature_lease_id r = 0
        \<or> pq_integration_id r = 0 \<or> pq_validation_id r = 0 \<or> pq_review_call_id r = 0
        \<or> pq_specification_revision r = 0 \<or> pq_expected_lifecycle_revision r = 0
        \<or> pq_candidate_diff_sha256 r = 0 \<or> pq_evidence_manifest_sha256 r = 0
        \<or> pq_review_decision_sha256 r = 0 \<or> pq_branch_policy_sha256 r = 0
        \<or> missing_grant (pq_grants r))) (\<lambda>_.
     bindE (validate_git_commit (pq_candidate_commit r)) (\<lambda>_.
     bindE (validate_git_commit (pq_candidate_tree r)) (\<lambda>_.
     bindE (validate_git_commit (pq_remote_base_commit r)) (\<lambda>_.
     bindE (validate_provider_and_model (pq_provider_id r) (pq_model_id r)) (\<lambda>_.
     validate_struct_limit cx ''feature_conveyor_publication_request''
       (publication_request_json cx r) MAX_FEATURE_CONVEYOR_OWNER_CONTROL_REQUEST_BYTES)))))"

definition decode_publication_request ::
    "codec \<Rightarrow> (json \<Rightarrow> publication_request option) \<Rightarrow> string \<Rightarrow> publication_request validated" where
  "decode_publication_request cx decode frame =
     decode_gate_frame cx ''feature_conveyor_publication_request'' decode frame
       (validate_publication_request cx)"

definition publication_request_binding_sha256 :: "codec \<Rightarrow> publication_request \<Rightarrow> digest validated" where
  "publication_request_binding_sha256 cx r =
     bindE (validate_publication_request cx r) (\<lambda>_.
     Inr (binding_digest cx ''assemblywright.publication-request-binding.v1'' (publication_request_json cx r)))"

section \<open>Actions and their evidence\<close>

definition ORDERED_ACTIONS :: "publication_action list" where
  "ORDERED_ACTIONS =
     [PushBranch, UpsertPullRequest, ObserveRequiredChecks, VerifyPullRequestHead, MergePullRequest,
      ReconcileRemoteMain, RunPostMergeGate]"

fun publication_action_text :: "publication_action \<Rightarrow> string" where
  "publication_action_text PushBranch = ''push_branch''"
| "publication_action_text UpsertPullRequest = ''upsert_pull_request''"
| "publication_action_text ObserveRequiredChecks = ''observe_required_checks''"
| "publication_action_text VerifyPullRequestHead = ''verify_pull_request_head''"
| "publication_action_text MergePullRequest = ''merge_pull_request''"
| "publication_action_text ReconcileRemoteMain = ''reconcile_remote_main''"
| "publication_action_text RunPostMergeGate = ''run_post_merge_gate''"

record publication_evidence =
  pe_schema_version :: nat
  pe_publication_id :: uuid
  pe_action :: publication_action
  pe_remote_base_commit :: string
  pe_candidate_commit :: string
  pe_feature_branch :: string
  pe_base_branch :: string
  pe_pull_request_number :: "nat option"
  pe_observed_head_commit :: string
  pe_required_checks_sha256 :: "digest option"
  pe_required_check_count :: nat
  pe_required_checks_passed :: bool
  pe_branch_protection_enforced :: bool
  pe_bypass_used :: bool
  pe_merge_strategy :: "string option"
  pe_resulting_main_commit :: "string option"
  pe_post_merge_gate_id :: "string option"
  pe_post_merge_gate_passed :: bool
  pe_evidence_sha256 :: digest

text \<open>All members but the last, in declaration order.\<close>

definition unsealed_members :: "codec \<Rightarrow> publication_evidence \<Rightarrow> (string \<times> json) list" where
  "unsealed_members cx e =
     [(''schema_version'', number_json (pe_schema_version e)),
      (''publication_id'', JString (uuid_text cx (pe_publication_id e))),
      (''action'', JString (publication_action_text (pe_action e))),
      (''remote_base_commit'', JString (pe_remote_base_commit e)),
      (''candidate_commit'', JString (pe_candidate_commit e)),
      (''feature_branch'', JString (pe_feature_branch e)),
      (''base_branch'', JString (pe_base_branch e)),
      (''pull_request_number'', optional_json number_json (pe_pull_request_number e)),
      (''observed_head_commit'', JString (pe_observed_head_commit e)),
      (''required_checks_sha256'', optional_json digest_json (pe_required_checks_sha256 e)),
      (''required_check_count'', number_json (pe_required_check_count e)),
      (''required_checks_passed'', JBool (pe_required_checks_passed e)),
      (''branch_protection_enforced'', JBool (pe_branch_protection_enforced e)),
      (''bypass_used'', JBool (pe_bypass_used e)),
      (''merge_strategy'', optional_json JString (pe_merge_strategy e)),
      (''resulting_main_commit'', optional_json JString (pe_resulting_main_commit e)),
      (''post_merge_gate_id'', optional_json JString (pe_post_merge_gate_id e)),
      (''post_merge_gate_passed'', JBool (pe_post_merge_gate_passed e))]"

definition publication_evidence_json :: "codec \<Rightarrow> publication_evidence \<Rightarrow> json" where
  "publication_evidence_json cx e =
     JObject (unsealed_members cx e @ [(''evidence_sha256'', digest_json (pe_evidence_sha256 e))])"

definition expected_evidence_sha256 :: "codec \<Rightarrow> publication_evidence \<Rightarrow> digest" where
  "expected_evidence_sha256 cx e =
     binding_digest cx ''assemblywright.publication-action-evidence.v1'' (JObject (unsealed_members cx e))"

definition evidence_pull_request :: "publication_evidence \<Rightarrow> bool" where
  "evidence_pull_request e = (case pe_pull_request_number e of None \<Rightarrow> False | Some number \<Rightarrow> number > 0)"

definition evidence_checks :: "publication_evidence \<Rightarrow> bool" where
  "evidence_checks e =
     (pe_required_checks_sha256 e \<noteq> None \<and> pe_required_check_count e > 0 \<and> pe_required_checks_passed e)"

definition evidence_merge :: "publication_evidence \<Rightarrow> bool" where
  "evidence_merge e = (pe_merge_strategy e \<noteq> None \<and> pe_resulting_main_commit e \<noteq> None)"

definition evidence_gate :: "publication_evidence \<Rightarrow> bool" where
  "evidence_gate e = (pe_post_merge_gate_id e \<noteq> None \<and> pe_post_merge_gate_passed e)"

definition exact_shape :: "publication_evidence \<Rightarrow> bool" where
  "exact_shape e =
     (let pr = evidence_pull_request e; checks = evidence_checks e; merge = evidence_merge e;
          gate = evidence_gate e in
      case pe_action e of
        PushBranch \<Rightarrow> \<not> pr \<and> \<not> checks \<and> \<not> merge \<and> \<not> gate \<and> pe_required_check_count e = 0
      | UpsertPullRequest \<Rightarrow> pr \<and> \<not> checks \<and> \<not> merge \<and> \<not> gate \<and> pe_required_check_count e = 0
      | ObserveRequiredChecks \<Rightarrow> pr \<and> checks \<and> \<not> merge \<and> \<not> gate
      | VerifyPullRequestHead \<Rightarrow> pr \<and> checks \<and> \<not> merge \<and> \<not> gate
      | MergePullRequest \<Rightarrow> pr \<and> checks \<and> merge \<and> \<not> gate
      | ReconcileRemoteMain \<Rightarrow> \<not> pr \<and> checks \<and> merge \<and> \<not> gate
      | RunPostMergeGate \<Rightarrow> \<not> pr \<and> checks \<and> merge \<and> gate)"

definition MERGE_STRATEGIES :: "string list" where
  "MERGE_STRATEGIES = [''merge'', ''squash'', ''rebase'']"

definition validate_publication_evidence :: "codec \<Rightarrow> publication_evidence \<Rightarrow> unit validated" where
  "validate_publication_evidence cx e =
     bindE (reject_if InvalidFeatureConveyorOwnerControl
       (pe_schema_version e \<noteq> FEATURE_CONVEYOR_PUBLICATION_COORDINATOR_SCHEMA_VERSION
        \<or> pe_publication_id e = 0 \<or> pe_evidence_sha256 e = 0
        \<or> pe_evidence_sha256 e \<noteq> expected_evidence_sha256 cx e
        \<or> \<not> pe_branch_protection_enforced e \<or> pe_bypass_used e)) (\<lambda>_.
     bindE (validate_git_commit (pe_remote_base_commit e)) (\<lambda>_.
     bindE (validate_git_commit (pe_candidate_commit e)) (\<lambda>_.
     bindE (validate_git_commit (pe_observed_head_commit e)) (\<lambda>_.
     bindE (validate_publication_branch ''feature_branch'' (pe_feature_branch e)) (\<lambda>_.
     bindE (validate_publication_branch ''base_branch'' (pe_base_branch e)) (\<lambda>_.
     bindE (reject_if InvalidFeatureConveyorOwnerControl
       ((case pe_resulting_main_commit e of None \<Rightarrow> False | Some commit \<Rightarrow> \<not> is_ok (validate_git_commit commit))
        \<or> pe_required_checks_sha256 e = Some 0)) (\<lambda>_.
     bindE (reject_if InvalidFeatureConveyorOwnerControl (\<not> exact_shape e)) (\<lambda>_.
     bindE (reject_if InvalidFeatureConveyorOwnerControl
       (case pe_merge_strategy e of None \<Rightarrow> False | Some strategy \<Rightarrow> strategy \<notin> set MERGE_STRATEGIES)) (\<lambda>_.
     bindE (reject_if InvalidFeatureConveyorOwnerControl
       (case pe_post_merge_gate_id e of None \<Rightarrow> False | Some gate \<Rightarrow> gate \<noteq> ''release-local'')) (\<lambda>_.
     validate_struct_limit cx ''feature_conveyor_publication_action_evidence''
       (publication_evidence_json cx e) MAX_FEATURE_CONVEYOR_OWNER_CONTROL_REQUEST_BYTES))))))))))"

definition seal_evidence :: "codec \<Rightarrow> publication_evidence \<Rightarrow> publication_evidence validated" where
  "seal_evidence cx e =
     (let sealed = e\<lparr>pe_evidence_sha256 := expected_evidence_sha256 cx e\<rparr> in
      bindE (validate_publication_evidence cx sealed) (\<lambda>_. Inr sealed))"

definition is_check_byte :: "char \<Rightarrow> bool" where
  "is_check_byte b = (is_alphanumeric b \<or> b \<in> {CHR ''.'', CHR ''_'', CHR ''-'', CHR ''/''})"

definition required_checks_sha256 :: "codec \<Rightarrow> string list \<Rightarrow> digest validated" where
  "required_checks_sha256 cx checks =
     bindE (reject_if InvalidFeatureConveyorOwnerControl
       (checks = [] \<or> length checks > MAX_FEATURE_CONVEYOR_PUBLICATION_CHECKS
        \<or> list_ex (\<lambda>check. check = [] \<or> length check > MAX_FEATURE_CONVEYOR_IDENTIFIER_BYTES
              \<or> trim check \<noteq> check \<or> \<not> list_all is_check_byte check) checks)) (\<lambda>_.
     (let sorted = remdups_adj (sort checks) in
      bindE (reject_if InvalidFeatureConveyorOwnerControl (length sorted \<noteq> length checks)) (\<lambda>_.
      Inr (binding_digest cx ''assemblywright.publication-required-checks.v1'' (JArray (map JString sorted))))))"

section \<open>The receipt\<close>

datatype publication_status = PublicationSucceeded

record publication_receipt =
  pk_schema_version :: nat
  pk_publication_id :: uuid
  pk_feature_id :: uuid
  pk_specification_revision :: nat
  pk_lifecycle_revision :: nat
  pk_candidate_commit :: string
  pk_merge_commit :: string
  pk_remote_main_commit :: string
  pk_post_merge_evidence_sha256 :: digest
  pk_branch_policy_sha256 :: digest
  pk_queue_revision :: nat
  pk_emergency_pause_revision :: nat
  pk_grants :: grant_revisions
  pk_status :: publication_status

definition publication_receipt_json :: "codec \<Rightarrow> publication_receipt \<Rightarrow> json" where
  "publication_receipt_json cx r = JObject
     [(''schema_version'', number_json (pk_schema_version r)),
      (''publication_id'', JString (uuid_text cx (pk_publication_id r))),
      (''feature_id'', JString (uuid_text cx (pk_feature_id r))),
      (''specification_revision'', number_json (pk_specification_revision r)),
      (''lifecycle_revision'', number_json (pk_lifecycle_revision r)),
      (''candidate_commit'', JString (pk_candidate_commit r)),
      (''merge_commit'', JString (pk_merge_commit r)),
      (''remote_main_commit'', JString (pk_remote_main_commit r)),
      (''post_merge_evidence_sha256'', digest_json (pk_post_merge_evidence_sha256 r)),
      (''branch_policy_sha256'', digest_json (pk_branch_policy_sha256 r)),
      (''queue_revision'', number_json (pk_queue_revision r)),
      (''emergency_pause_revision'', number_json (pk_emergency_pause_revision r)),
      (''grants'', grants_json (pk_grants r)),
      (''status'', JString ''succeeded'')]"

definition validate_publication_receipt :: "codec \<Rightarrow> publication_receipt \<Rightarrow> unit validated" where
  "validate_publication_receipt cx r =
     bindE (reject_if InvalidFeatureConveyorOwnerControl
       (pk_schema_version r \<noteq> FEATURE_CONVEYOR_PUBLICATION_COORDINATOR_SCHEMA_VERSION
        \<or> pk_publication_id r = 0 \<or> pk_feature_id r = 0
        \<or> pk_specification_revision r = 0 \<or> pk_lifecycle_revision r = 0
        \<or> pk_post_merge_evidence_sha256 r = 0 \<or> pk_branch_policy_sha256 r = 0
        \<or> missing_grant (pk_grants r))) (\<lambda>_.
     bindE (validate_git_commit (pk_candidate_commit r)) (\<lambda>_.
     bindE (validate_git_commit (pk_merge_commit r)) (\<lambda>_.
     bindE (validate_git_commit (pk_remote_main_commit r)) (\<lambda>_.
     bindE (reject_if InvalidFeatureConveyorOwnerControl
       (pk_merge_commit r \<noteq> pk_remote_main_commit r)) (\<lambda>_.
     validate_struct_limit cx ''feature_conveyor_publication_receipt''
       (publication_receipt_json cx r) MAX_FEATURE_CONVEYOR_OWNER_CONTROL_REQUEST_BYTES)))))"

section \<open>What validation gives\<close>

lemma validate_publication_request_Inr:
  "validate_publication_request cx r = Inr u \<Longrightarrow>
     pq_feature_id r \<noteq> 0 \<and> pq_publication_id r \<noteq> 0 \<and> 0 < pq_expected_lifecycle_revision r"
  by (auto simp: validate_publication_request_def result_simps)

lemma sealed_evidence:
  assumes "validate_publication_evidence cx e = Inr u"
  shows "pe_evidence_sha256 e = expected_evidence_sha256 cx e \<and> pe_evidence_sha256 e \<noteq> 0
    \<and> pe_branch_protection_enforced e \<and> \<not> pe_bypass_used e \<and> exact_shape e"
  using assms unfolding validate_publication_evidence_def bindE_Inr_iff reject_if_Inr_iff by blast

lemma merge_evidence_shape:
  assumes "exact_shape e" and "pe_action e = MergePullRequest"
  shows "\<exists>commit. pe_resulting_main_commit e = Some commit" and "pe_required_checks_passed e"
  using assms by (auto simp: exact_shape_def evidence_checks_def evidence_merge_def)

lemma distinct_ORDERED_ACTIONS: "distinct ORDERED_ACTIONS" "length ORDERED_ACTIONS = 7"
  by (simp_all add: ORDERED_ACTIONS_def)

lemma ORDERED_ACTIONS_all: "a \<in> set ORDERED_ACTIONS"
  by (cases a) (simp_all add: ORDERED_ACTIONS_def)

end
