(* ===== verification/Gate_Integration.thy ===== *)
theory Gate_Integration
  imports Orchestration_Decision Publication_Messages
begin

text \<open>
  The integration gate (\<^verbatim>\<open>assemblywright-master/src/lib.rs\<close>): \<^verbatim>\<open>prepare_artifact_integration\<close>,
  \<^verbatim>\<open>artifact_integration_plan\<close>, \<^verbatim>\<open>record_artifact_integration_conflict\<close> and
  \<^verbatim>\<open>finalize_artifact_integration\<close>, which freezes one candidate commit from all accepted coding artifacts
  of a feature and moves it from implementing to validating; and the reads of integrated artifacts.

  The candidate itself is built by \<^verbatim>\<open>integration.rs\<close> with a Git library; it is an argument here.
\<close>

section \<open>Shared by the gates\<close>

definition update_gates :: "(gate_tables \<Rightarrow> gate_tables) \<Rightarrow> orchestrator \<Rightarrow> orchestrator" where
  "update_gates u s = s\<lparr>os_gates := u (os_gates s)\<rparr>"

text \<open>
  SQLite's \<^verbatim>\<open>length\<close> of a text: the characters before the first zero byte. Text is UTF-8, so a character is
  a byte that does not continue one.
\<close>

definition text_length :: "string \<Rightarrow> nat" where
  "text_length s =
     length (filter (\<lambda>c. \<not> (128 \<le> byte_of c \<and> byte_of c < 192)) (takeWhile (\<lambda>c. byte_of c \<noteq> 0) s))"

text \<open>\<^verbatim>\<open>serde_json::from_str::<Value>\<close>: the last of the members with one key is kept, members in key order.\<close>

fun plain_json :: "json \<Rightarrow> json" where
  "plain_json (JArray vs) = JArray (map plain_json vs)"
| "plain_json (JObject kvs) =
     (let members = map (\<lambda>(k, v). (k, plain_json v)) kvs in
      JObject (map (\<lambda>k. (k, the (map_of (rev members) k))) (sort (remdups (map fst members)))))"
| "plain_json v = v"

definition parse_stored_json :: "codec \<Rightarrow> string \<Rightarrow> master_error + json" where
  "parse_stored_json cx text = ok_or Json (map_option plain_json (json_tokens cx text))"

text \<open>
  \<^verbatim>\<open>UPDATE feature_conveyor_features SET status, lifecycle_revision, updated_at_ms WHERE feature_id, status and
  lifecycle_revision\<close>, which must change one row.
\<close>

definition advance_status ::
    "master_error \<Rightarrow> uuid \<Rightarrow> feature_status \<Rightarrow> nat \<Rightarrow> feature_status \<Rightarrow> nat \<Rightarrow> nat \<Rightarrow> kernel
      \<Rightarrow> master_error + kernel" where
  "advance_status unavailable feature from expected to next now_ms k =
     (let mine = (\<lambda>f. ft_feature_id f = feature \<and> ft_status f = from \<and> ft_lifecycle_revision f = expected) in
      bindE (to_i64 next) (\<lambda>_.
      bindE (to_i64 expected) (\<lambda>_.
      bindE (write_features mine (\<lambda>f. f\<lparr>ft_status := to, ft_lifecycle_revision := next\<rparr>) now_ms k) (\<lambda>k1.
      bindE (reject_if unavailable (count_rows mine (k_features k) \<noteq> 1)) (\<lambda>_.
      Inr k1)))))"

section \<open>Artifacts\<close>

record integration_artifact =
  it_reference :: artifact_reference
  it_packet :: work_packet

record candidate_evidence =
  ce_integration_id :: uuid
  ce_artifact_set_sha256 :: digest
  ce_candidate_commit :: string
  ce_candidate_tree :: string
  ce_base_commit :: string
  ce_artifact_ids :: "uuid list"

definition reference_of_row :: "artifact_row \<Rightarrow> artifact_reference" where
  "reference_of_row a =
     \<lparr>rf_artifact_id = ar_artifact_id a, rf_artifact_sha256 = ar_artifact_sha256 a,
      rf_artifact_size_bytes = ar_artifact_size_bytes a\<rparr>"

definition artifact_reference_set_sha256 :: "codec \<Rightarrow> artifact_reference list \<Rightarrow> digest" where
  "artifact_reference_set_sha256 cx references =
     sha256 cx (''assemblywright.artifact-set.v1'' @ [CHR 0x00] @ be_bytes 8 (length references)
       @ concat (map (\<lambda>r. uuid_bytes (rf_artifact_id r) @ digest_bytes (rf_artifact_sha256 r)
            @ be_bytes 8 (rf_artifact_size_bytes r)) (sort_key rf_artifact_id references)))"

text \<open>\<^verbatim>\<open>JOIN feature_result_artifacts .. WHERE ia.integration_id = ?1 ORDER BY a.artifact_id\<close>.\<close>

definition integrated_artifacts :: "uuid \<Rightarrow> orchestrator \<Rightarrow> artifact_row list" where
  "integrated_artifacts integration s =
     sort_key ar_artifact_id (concat (map (\<lambda>ia. filter (\<lambda>a. ar_artifact_id a = ia_artifact_id ia)
          (k_artifacts (os_kernel s)))
       (filter (\<lambda>ia. ia_integration_id ia = integration) (tb_integration_artifacts (os_gates s)))))"

definition integration_artifact_references :: "uuid \<Rightarrow> orchestrator \<Rightarrow> artifact_reference list" where
  "integration_artifact_references integration s = map reference_of_row (integrated_artifacts integration s)"

definition integration_artifact_ids_tx :: "uuid \<Rightarrow> gate_tables \<Rightarrow> uuid list" where
  "integration_artifact_ids_tx integration g =
     sort (map ia_artifact_id (filter (\<lambda>ia. ia_integration_id ia = integration) (tb_integration_artifacts g)))"

definition candidate_reference ::
    "codec \<Rightarrow> orchestrator \<Rightarrow> integration_row \<Rightarrow> candidate_evidence list \<Rightarrow> master_error + candidate_evidence list" where
  "candidate_reference cx s i candidates =
     (let references = integration_artifact_references (ig_integration_id i) s in
      bindE (reject_if (InvalidStoredState ''candidate artifact set is empty'') (references = [])) (\<lambda>_.
      bindE (reject_if (InvalidStoredState ''candidate artifact set digest is invalid'')
        (artifact_reference_set_sha256 cx references \<noteq> ig_artifact_set_sha256 i)) (\<lambda>_.
      Inr (candidates @ [\<lparr>ce_integration_id = ig_integration_id i,
             ce_artifact_set_sha256 = ig_artifact_set_sha256 i, ce_candidate_commit = ig_candidate_commit i,
             ce_candidate_tree = ig_candidate_tree i, ce_base_commit = ig_base_commit i,
             ce_artifact_ids = map rf_artifact_id references\<rparr>]))))"

definition candidate_references :: "codec \<Rightarrow> orchestrator \<Rightarrow> master_error + candidate_evidence list" where
  "candidate_references cx s =
     forE (candidate_reference cx s) (sort_key ig_integration_id (tb_integrations (os_gates s))) []"

section \<open>The binding of a request\<close>

text \<open>The feature, its lease, the claim of the lease's snapshot and the current specification.\<close>

definition gate_join ::
    "uuid \<Rightarrow> kernel \<Rightarrow> (feature_row \<times> lease_row \<times> claim_row \<times> specification_row) option" where
  "gate_join feature k =
     Option.bind (find_feature feature k) (\<lambda>f.
     Option.bind (k_active_lease k) (\<lambda>l.
     if fl_feature_id l \<noteq> feature then None
     else Option.bind (find_row (\<lambda>c. fl_snapshot_id l = Some (cl_snapshot_id c)) (k_claims k)) (\<lambda>c.
          map_option (\<lambda>p. (f, l, c, p)) (find_specification feature (ft_current_specification_revision f) k))))"

definition integration_binding_exact ::
    "integration_request \<Rightarrow> feature_row \<times> lease_row \<times> claim_row \<times> specification_row \<Rightarrow> bool" where
  "integration_binding_exact r b =
     (case b of (f, l, c, p) \<Rightarrow>
        ft_current_specification_revision f = iq_specification_revision r
        \<and> ft_lifecycle_revision f = iq_expected_lifecycle_revision r \<and> ft_status f = FImplementing
        \<and> fl_lease_id l = iq_feature_lease_id r \<and> fl_snapshot_id l = Some (iq_snapshot_id r)
        \<and> cl_snapshot_sha256 c = iq_snapshot_sha256 r \<and> cl_base_commit c = iq_base_commit r
        \<and> cl_grants c = iq_grants r)"

definition validate_integration_binding_tx :: "integration_request \<Rightarrow> nat \<Rightarrow> kernel \<Rightarrow> master_error + unit" where
  "validate_integration_binding_tx r now_ms k =
     bindE (require_unpaused_revision_tx (iq_expected_emergency_pause_revision r) k) (\<lambda>_.
     bindE (require_queue_revision_tx (iq_expected_queue_revision r) k) (\<lambda>_.
     bindE (ok_or ArtifactIntegrationUnavailable (gate_join (iq_feature_id r) k)) (\<lambda>b.
     bindE (reject_if ArtifactIntegrationUnavailable (\<not> integration_binding_exact r b)) (\<lambda>_.
     map_err (\<lambda>_. ArtifactIntegrationUnavailable)
       (require_grants_tx (sp_repository_id (snd (snd (snd b)))) (iq_grants r) now_ms k)))))"

section \<open>Loading the artifacts\<close>

text \<open>The dispatches of the request's feature state, each with its succeeded step and admitted artifact.\<close>

definition integration_rows :: "integration_request \<Rightarrow> kernel \<Rightarrow> (artifact_row \<times> work_packet \<times> json option) list" where
  "integration_rows r k =
     concat (map (\<lambda>d.
        (case find_row (\<lambda>t. st_step_id t = dp_step_id d \<and> st_status t = SSucceeded) (k_steps k) of
           None \<Rightarrow> []
         | Some t \<Rightarrow> map (\<lambda>a. (a, dp_work_packet d, st_accepted_payload t))
             (filter (\<lambda>a. ar_step_id a = dp_step_id d \<and> ar_feature_id a = dp_feature_id d) (k_artifacts k))))
       (filter (\<lambda>d. dp_feature_id d = iq_feature_id r
            \<and> dp_specification_revision d = iq_specification_revision r
            \<and> dp_lifecycle_revision d = iq_expected_lifecycle_revision r
            \<and> dp_feature_lease_id d = iq_feature_lease_id r \<and> dp_snapshot_id d = iq_snapshot_id r
            \<and> dp_snapshot_sha256 d = iq_snapshot_sha256 r) (k_dispatches k)))"

definition result_matches :: "artifact_row \<Rightarrow> coding_result \<Rightarrow> bool" where
  "result_matches a p =
     (cres_artifact_id p = ar_artifact_id a \<and> cres_artifact_sha256 p = ar_artifact_sha256 a
      \<and> cres_artifact_size_bytes p = ar_artifact_size_bytes a \<and> \<not> cres_ambiguous p
      \<and> cres_status p = LOCAL_CODING_COMPLETED_STATUS)"

definition load_integration_row ::
    "codec \<Rightarrow> artifact_row \<times> work_packet \<times> json option \<Rightarrow> integration_artifact list
      \<Rightarrow> master_error + integration_artifact list" where
  "load_integration_row cx row artifacts =
     (case row of (a, packet, payload) \<Rightarrow>
      bindE (ok_or Storage payload) (\<lambda>payload.
      bindE (protocol_result (validate_work_packet cx packet)) (\<lambda>_.
      bindE (reject_if ArtifactIntegrationConflict
        (wp_ordinal packet \<in> set (map (wp_ordinal \<circ> it_packet) artifacts))) (\<lambda>_.
      bindE (ok_or Json (decode_coding_result cx payload)) (\<lambda>p.
      bindE (reject_if ArtifactIntegrationUnavailable (\<not> result_matches a p)) (\<lambda>_.
      Inr (artifacts @ [\<lparr>it_reference = reference_of_row a, it_packet = packet\<rparr>])))))))"

definition load_complete_integration_artifacts_tx ::
    "codec \<Rightarrow> integration_request \<Rightarrow> bool \<Rightarrow> kernel \<Rightarrow> master_error + integration_artifact list" where
  "load_complete_integration_artifacts_tx cx r enforce_requested_ids k =
     (let total = count_rows (\<lambda>d. dp_feature_id d = iq_feature_id r) (k_dispatches k) in
      bindE (reject_if ArtifactIntegrationUnavailable (total < 1 \<or> total > 3)) (\<lambda>_.
      bindE (to_i64 (iq_specification_revision r)) (\<lambda>_.
      bindE (to_i64 (iq_expected_lifecycle_revision r)) (\<lambda>_.
      bindE (forE (load_integration_row cx) (integration_rows r k) []) (\<lambda>artifacts.
      bindE (reject_if ArtifactIntegrationUnavailable (length artifacts \<noteq> total)) (\<lambda>_.
      bindE (reject_if ArtifactIntegrationUnavailable
        (enforce_requested_ids
         \<and> sort (map (rf_artifact_id \<circ> it_reference) artifacts) \<noteq> iq_artifact_ids r)) (\<lambda>_.
      Inr (sort_key (wp_ordinal \<circ> it_packet) (sort_key (wp_packet_id \<circ> it_packet) artifacts)))))))))"

section \<open>Receipts\<close>

definition integration_receipt_of ::
    "integration_request \<Rightarrow> candidate_evidence \<Rightarrow> nat \<Rightarrow> integration_receipt" where
  "integration_receipt_of r c lifecycle_revision =
     \<lparr>ik_schema_version = FEATURE_CONVEYOR_ARTIFACT_INTEGRATION_SCHEMA_VERSION,
      ik_integration_id = iq_integration_id r, ik_feature_id = iq_feature_id r,
      ik_specification_revision = iq_specification_revision r, ik_lifecycle_revision = lifecycle_revision,
      ik_feature_lease_id = iq_feature_lease_id r, ik_snapshot_id = iq_snapshot_id r,
      ik_snapshot_sha256 = iq_snapshot_sha256 r, ik_artifact_set_sha256 = ce_artifact_set_sha256 c,
      ik_candidate_commit = ce_candidate_commit c, ik_candidate_tree = ce_candidate_tree c,
      ik_base_commit = ce_base_commit c, ik_queue_revision = iq_expected_queue_revision r,
      ik_emergency_pause_revision = iq_expected_emergency_pause_revision r, ik_grants = iq_grants r,
      ik_status = CandidateFrozen\<rparr>"

definition find_integration :: "uuid \<Rightarrow> gate_tables \<Rightarrow> integration_row option" where
  "find_integration integration g = find_row (\<lambda>i. ig_integration_id i = integration) (tb_integrations g)"

definition load_integration_receipt_tx :: "uuid \<Rightarrow> gate_tables \<Rightarrow> master_error + integration_receipt option" where
  "load_integration_receipt_tx integration g =
     (case find_integration integration g of
        None \<Rightarrow> Inr None
      | Some i \<Rightarrow>
          bindE (ok_or ArtifactIntegrationUnavailable (checked_add_u64 (ig_lifecycle_revision i) 1)) (\<lambda>revision.
          Inr (Some
            \<lparr>ik_schema_version = FEATURE_CONVEYOR_ARTIFACT_INTEGRATION_SCHEMA_VERSION,
             ik_integration_id = integration, ik_feature_id = ig_feature_id i,
             ik_specification_revision = ig_specification_revision i, ik_lifecycle_revision = revision,
             ik_feature_lease_id = ig_feature_lease_id i, ik_snapshot_id = ig_snapshot_id i,
             ik_snapshot_sha256 = ig_snapshot_sha256 i, ik_artifact_set_sha256 = ig_artifact_set_sha256 i,
             ik_candidate_commit = ig_candidate_commit i, ik_candidate_tree = ig_candidate_tree i,
             ik_base_commit = ig_base_commit i, ik_queue_revision = ig_queue_revision i,
             ik_emergency_pause_revision = ig_emergency_pause_revision i, ik_grants = ig_grants i,
             ik_status = CandidateFrozen\<rparr>)))"

definition integration_receipt_matches_request :: "integration_receipt \<Rightarrow> integration_request \<Rightarrow> bool" where
  "integration_receipt_matches_request k r =
     (ik_integration_id k = iq_integration_id r \<and> ik_feature_id k = iq_feature_id r
      \<and> ik_specification_revision k = iq_specification_revision r
      \<and> ik_lifecycle_revision k = saturating_add_u64 (iq_expected_lifecycle_revision r) 1
      \<and> ik_feature_lease_id k = iq_feature_lease_id r \<and> ik_snapshot_id k = iq_snapshot_id r
      \<and> ik_snapshot_sha256 k = iq_snapshot_sha256 r \<and> ik_base_commit k = iq_base_commit r
      \<and> ik_queue_revision k = iq_expected_queue_revision r
      \<and> ik_emergency_pause_revision k = iq_expected_emergency_pause_revision r \<and> ik_grants k = iq_grants r)"

section \<open>Planning an integration\<close>

record artifact_integration_plan =
  an_request :: integration_request
  an_artifacts :: "integration_artifact list"

datatype integration_authorization =
    IntegrationExisting integration_receipt
  | IntegrationPlanned artifact_integration_plan

definition prepare_artifact_integration ::
    "codec \<Rightarrow> integration_request \<Rightarrow> nat \<Rightarrow> orchestrator \<Rightarrow> master_error + integration_authorization" where
  "prepare_artifact_integration cx r now_ms s =
     bindE (protocol_result (validate_integration_request cx r)) (\<lambda>_.
     bindE (load_integration_receipt_tx (iq_integration_id r) (os_gates s)) (\<lambda>loaded.
     case loaded of
       Some receipt \<Rightarrow>
         if integration_receipt_matches_request receipt r
            \<and> integration_artifact_ids_tx (iq_integration_id r) (os_gates s) = iq_artifact_ids r
         then Inr (IntegrationExisting receipt) else Inl ArtifactIntegrationUnavailable
     | None \<Rightarrow>
         bindE (reject_if ArtifactIntegrationUnavailable
           (exists_row (\<lambda>x. ix_integration_id x = iq_integration_id r) (tb_integration_conflicts (os_gates s)))) (\<lambda>_.
         bindE (validate_integration_binding_tx r now_ms (os_kernel s)) (\<lambda>_.
         bindE (load_complete_integration_artifacts_tx cx r True (os_kernel s)) (\<lambda>artifacts.
         Inr (IntegrationPlanned \<lparr>an_request = r, an_artifacts = artifacts\<rparr>))))))"

definition integration_plan_of ::
    "kernel \<Rightarrow> uuid \<Rightarrow> feature_row \<Rightarrow> lease_row \<Rightarrow> claim_row \<Rightarrow> uuid list \<Rightarrow> integration_plan" where
  "integration_plan_of k feature f l c ids =
     \<lparr>il_schema_version = 1, il_feature_id = feature,
      il_specification_revision = ft_current_specification_revision f,
      il_lifecycle_revision = ft_lifecycle_revision f, il_feature_lease_id = fl_lease_id l,
      il_snapshot_id = cl_snapshot_id c, il_snapshot_sha256 = cl_snapshot_sha256 c, il_artifact_ids = ids,
      il_queue_revision = k_queue_revision k, il_emergency_pause_revision = k_emergency_pause_revision k,
      il_grants = cl_grants c, il_base_commit = cl_base_commit c\<rparr>"

definition plan_integration ::
    "codec \<Rightarrow> uuid \<Rightarrow> nat \<Rightarrow> orchestrator \<Rightarrow> master_error + integration_plan" where
  "plan_integration cx feature now_ms s =
     (let k = os_kernel s in
      bindE (ok_or ArtifactIntegrationUnavailable
        (Option.bind (find_row (\<lambda>f. ft_feature_id f = feature \<and> ft_status f = FImplementing) (k_features k)) (\<lambda>f.
         Option.bind (k_active_lease k) (\<lambda>l.
         if fl_feature_id l \<noteq> feature then None
         else map_option (\<lambda>c. (f, l, c))
                (find_row (\<lambda>c. fl_snapshot_id l = Some (cl_snapshot_id c)) (k_claims k)))))) (\<lambda>(f, l, c).
      (let r = request_of_plan (integration_plan_of k feature f l c [1]) in
       bindE (validate_integration_binding_tx r now_ms k) (\<lambda>_.
       bindE (load_complete_integration_artifacts_tx cx r False k) (\<lambda>artifacts.
       (let plan = integration_plan_of k feature f l c
              (sort (map (rf_artifact_id \<circ> it_reference) artifacts)) in
        bindE (protocol_result (validate_integration_plan cx plan)) (\<lambda>_. Inr plan)))))))"

section \<open>Conflicts\<close>

definition CONFLICT_REASONS :: "string list" where
  "CONFLICT_REASONS = [''content_cas_mismatch'', ''overlapping_path'', ''duplicate_ordinal'']"

definition conflict_metadata :: "codec \<Rightarrow> integration_request \<Rightarrow> string \<Rightarrow> json" where
  "conflict_metadata cx r reason = JObject
     [(''integration_id'', JString (uuid_text cx (iq_integration_id r))), (''reason_code'', JString reason),
      (''path_present'', JBool False), (''content_present'', JBool False),
      (''candidate_created'', JBool False), (''lifecycle_advanced'', JBool False)]"

text \<open>
  \<^verbatim>\<open>INSERT OR IGNORE\<close>: at time zero the row's \<^verbatim>\<open>CHECK\<close> skips it, and the audit row is written all the same.
\<close>

definition record_artifact_integration_conflict ::
    "codec \<Rightarrow> integration_request \<Rightarrow> string \<Rightarrow> nat \<Rightarrow> orchestrator \<Rightarrow> master_error + orchestrator" where
  "record_artifact_integration_conflict cx r reason now_ms s =
     bindE (reject_if ArtifactIntegrationConflict (reason \<notin> set CONFLICT_REASONS)) (\<lambda>_.
     bindE (validate_integration_binding_tx r now_ms (os_kernel s)) (\<lambda>_.
     (let binding = sha256 cx (compact_json_bytes (quote_json cx) (integration_request_json cx r)) in
      case find_row (\<lambda>x. ix_integration_id x = iq_integration_id r) (tb_integration_conflicts (os_gates s)) of
        Some x \<Rightarrow>
          if ix_request_binding_sha256 x = binding \<and> ix_reason_code x = reason then Inr s
          else Inl ArtifactIntegrationUnavailable
      | None \<Rightarrow>
          bindE (to_i64 (iq_expected_lifecycle_revision r)) (\<lambda>_.
          bindE (to_i64 now_ms) (\<lambda>_.
          audit_os cx ''artifact_integration_conflict'' (Some (iq_feature_id r)) now_ms
            (conflict_metadata cx r reason)
            (if now_ms = 0 then s
             else update_gates (\<lambda>g. g\<lparr>tb_integration_conflicts := insert_row
               \<lparr>ix_integration_id = iq_integration_id r, ix_feature_id = iq_feature_id r,
                ix_lifecycle_revision = iq_expected_lifecycle_revision r,
                ix_request_binding_sha256 = binding, ix_reason_code = reason,
                ix_recorded_at_ms = now_ms\<rparr> (tb_integration_conflicts g)\<rparr>) s))))))"

section \<open>Freezing the candidate\<close>

definition integration_row_of :: "integration_request \<Rightarrow> candidate_evidence \<Rightarrow> nat \<Rightarrow> integration_row" where
  "integration_row_of r c now_ms =
     \<lparr>ig_integration_id = iq_integration_id r, ig_feature_id = iq_feature_id r,
      ig_specification_revision = iq_specification_revision r,
      ig_lifecycle_revision = iq_expected_lifecycle_revision r, ig_feature_lease_id = iq_feature_lease_id r,
      ig_snapshot_id = iq_snapshot_id r, ig_snapshot_sha256 = iq_snapshot_sha256 r,
      ig_artifact_set_sha256 = ce_artifact_set_sha256 c, ig_candidate_commit = ce_candidate_commit c,
      ig_candidate_tree = ce_candidate_tree c, ig_base_commit = ce_base_commit c,
      ig_queue_revision = iq_expected_queue_revision r,
      ig_emergency_pause_revision = iq_expected_emergency_pause_revision r, ig_grants = iq_grants r,
      ig_integrated_at_ms = now_ms\<rparr>"

text \<open>The \<^verbatim>\<open>INSERT\<close> with the table's checks on the texts and the time and its unique key.\<close>

definition insert_integration :: "integration_row \<Rightarrow> gate_tables \<Rightarrow> master_error + gate_tables" where
  "insert_integration i g =
     bindE (to_i64 (ig_specification_revision i)) (\<lambda>_.
     bindE (to_i64 (ig_lifecycle_revision i)) (\<lambda>_.
     bindE (to_i64 (ig_queue_revision i)) (\<lambda>_.
     bindE (to_i64 (ig_emergency_pause_revision i)) (\<lambda>_.
     bindE (to_i64 (gr_registration (ig_grants i))) (\<lambda>_.
     bindE (to_i64 (gr_cloud_disclosure (ig_grants i))) (\<lambda>_.
     bindE (to_i64 (gr_autonomous_publication (ig_grants i))) (\<lambda>_.
     bindE (to_i64 (ig_integrated_at_ms i)) (\<lambda>_.
     bindE (reject_if Storage
       (ig_specification_revision i = 0 \<or> ig_lifecycle_revision i = 0 \<or> missing_grant (ig_grants i)
        \<or> text_length (ig_candidate_commit i) \<noteq> 40 \<or> text_length (ig_candidate_tree i) \<noteq> 40
        \<or> text_length (ig_base_commit i) \<noteq> 40 \<or> ig_integrated_at_ms i = 0
        \<or> exists_row (\<lambda>j. ig_integration_id j = ig_integration_id i
            \<or> ig_feature_id j = ig_feature_id i \<and> ig_specification_revision j = ig_specification_revision i
              \<and> ig_feature_lease_id j = ig_feature_lease_id i \<and> ig_snapshot_id j = ig_snapshot_id i)
            (tb_integrations g))) (\<lambda>_.
     Inr (g\<lparr>tb_integrations := insert_row i (tb_integrations g)\<rparr>))))))))))"

definition insert_integration_artifact ::
    "uuid \<Rightarrow> kernel \<Rightarrow> nat \<times> integration_artifact \<Rightarrow> gate_tables \<Rightarrow> master_error + gate_tables" where
  "insert_integration_artifact integration k item g =
     (case item of (index, artifact) \<Rightarrow>
      (let row = \<lparr>ia_integration_id = integration, ia_artifact_id = rf_artifact_id (it_reference artifact),
             ia_ordinal = wp_ordinal (it_packet artifact), ia_packet_id = wp_packet_id (it_packet artifact),
             ia_position = Suc index\<rparr> in
       bindE (reject_if Storage
         (ia_ordinal row < 1 \<or> ia_ordinal row > 65535 \<or> ia_position row > 3
          \<or> \<not> exists_row (\<lambda>a. ar_artifact_id a = ia_artifact_id row) (k_artifacts k)
          \<or> exists_row (\<lambda>q. ia_integration_id q = integration
              \<and> (ia_artifact_id q = ia_artifact_id row \<or> ia_ordinal q = ia_ordinal row
                 \<or> ia_packet_id q = ia_packet_id row \<or> ia_position q = ia_position row))
              (tb_integration_artifacts g))) (\<lambda>_.
       Inr (g\<lparr>tb_integration_artifacts := insert_row row (tb_integration_artifacts g)\<rparr>))))"

definition frozen_metadata :: "codec \<Rightarrow> integration_request \<Rightarrow> nat \<Rightarrow> json" where
  "frozen_metadata cx r next_lifecycle = JObject
     [(''integration_id'', JString (uuid_text cx (iq_integration_id r))),
      (''artifact_count'', json_nat (length (iq_artifact_ids r))),
      (''artifact_set_digest_present'', JBool True), (''candidate_commit_present'', JBool True),
      (''candidate_tree_present'', JBool True), (''base_commit_present'', JBool True),
      (''from_status'', JString ''implementing''), (''to_status'', JString ''validating''),
      (''lifecycle_revision'', json_nat next_lifecycle), (''publication_authorized'', JBool False),
      (''test_authority_granted'', JBool False), (''review_authority_granted'', JBool False)]"

definition freeze_candidate ::
    "codec \<Rightarrow> artifact_integration_plan \<Rightarrow> candidate_evidence \<Rightarrow> nat \<Rightarrow> orchestrator
      \<Rightarrow> master_error + orchestrator \<times> integration_receipt" where
  "freeze_candidate cx plan c now_ms s =
     (let r = an_request plan; k = os_kernel s in
      bindE (insert_integration (integration_row_of r c now_ms) (os_gates s)) (\<lambda>g1.
      bindE (forE (insert_integration_artifact (iq_integration_id r) k)
        (enumerate 0 (an_artifacts plan)) g1) (\<lambda>g2.
      bindE (ok_or ArtifactIntegrationUnavailable
        (checked_add_u64 (iq_expected_lifecycle_revision r) 1)) (\<lambda>next.
      bindE (advance_status ArtifactIntegrationUnavailable (iq_feature_id r) FImplementing
        (iq_expected_lifecycle_revision r) FValidating next now_ms k) (\<lambda>k1.
      bindE (insert_transition ((bare_transition (iq_feature_id r) next FImplementing FValidating now_ms)
          \<lparr>tr_accepted_evidence_sha256 := Some (ce_artifact_set_sha256 c)\<rparr>) k1) (\<lambda>k2.
      bindE (audit_os cx ''artifact_candidate_frozen'' (Some (iq_feature_id r)) now_ms
        (frozen_metadata cx r next) (s\<lparr>os_kernel := k2, os_gates := g2\<rparr>)) (\<lambda>s1.
      Inr (s1, integration_receipt_of r c next))))))))"

definition finalize_artifact_integration ::
    "codec \<Rightarrow> artifact_integration_plan \<Rightarrow> candidate_evidence \<Rightarrow> nat \<Rightarrow> orchestrator
      \<Rightarrow> master_error + orchestrator \<times> integration_receipt" where
  "finalize_artifact_integration cx plan c now_ms s =
     (let r = an_request plan in
      bindE (load_integration_receipt_tx (iq_integration_id r) (os_gates s)) (\<lambda>loaded.
      case loaded of
        Some receipt \<Rightarrow>
          if integration_receipt_matches_request receipt r
             \<and> integration_artifact_ids_tx (iq_integration_id r) (os_gates s) = iq_artifact_ids r
             \<and> ik_candidate_commit receipt = ce_candidate_commit c
             \<and> ik_candidate_tree receipt = ce_candidate_tree c
             \<and> ik_artifact_set_sha256 receipt = ce_artifact_set_sha256 c
          then Inr (s, receipt) else Inl ArtifactIntegrationUnavailable
      | None \<Rightarrow>
          bindE (validate_integration_binding_tx r now_ms (os_kernel s)) (\<lambda>_.
          bindE (load_complete_integration_artifacts_tx cx r True (os_kernel s)) (\<lambda>current.
          bindE (reject_if ArtifactIntegrationUnavailable
            (map it_reference current \<noteq> map it_reference (an_artifacts plan))) (\<lambda>_.
          freeze_candidate cx plan c now_ms s)))))"

end
