(* ===== verification/Gate_Validation.thy ===== *)
theory Gate_Validation
  imports Gate_Integration
begin

text \<open>
  The validation gate (\<^verbatim>\<open>assemblywright-master/src/lib.rs\<close>): \<^verbatim>\<open>plan_validation_gate\<close> and
  \<^verbatim>\<open>prepare_validation_gate\<close>, which compare every stored authority with the request and open the one
  attempt of a candidate; \<^verbatim>\<open>finalize_validation_gate\<close>, which stores the evidence of the thirteen commands
  and, when all have passed, moves the feature from validating to reviewing; and the read-only probe
  \<^verbatim>\<open>validation_gate_execution_is_current\<close>. The commands themselves run outside the kernel.
\<close>

section \<open>The binding of a request\<close>

definition validation_commands_from_manifest ::
    "codec \<Rightarrow> string \<Rightarrow> master_error + validation_command list" where
  "validation_commands_from_manifest cx canonical_manifest =
     bindE (parse_stored_json cx canonical_manifest) (\<lambda>manifest.
     bindE (ok_or ValidationGateUnavailable
       (case manifest of JObject members \<Rightarrow> map_of members ''validation_gate'' | _ \<Rightarrow> None)) (\<lambda>gate.
     bindE (ok_or ValidationGateUnavailable (de_gate gate)) (\<lambda>gate.
     bindE (reject_if ValidationGateUnavailable
       (vg_schema_version gate \<noteq> FEATURE_CONVEYOR_VALIDATION_GATE_SCHEMA_VERSION
        \<or> vg_command_ids gate \<noteq> REQUIRED_COMMANDS)) (\<lambda>_.
     Inr (vg_command_ids gate)))))"

text \<open>The checks that the validation and the review gate share, in their order.\<close>

definition require_gate_authority :: "nat \<Rightarrow> nat \<Rightarrow> uuid \<Rightarrow> nat \<Rightarrow> kernel \<Rightarrow> master_error + unit" where
  "require_gate_authority expected_pause expected_queue feature now_ms k =
     bindE (require_emergency_unpaused k) (\<lambda>_.
     bindE (require_emergency_pause_revision_tx expected_pause k) (\<lambda>_.
     bindE (require_queue_revision_tx expected_queue k) (\<lambda>_.
     bindE (require_active_lease_tx feature k) (\<lambda>_.
     require_current_feature_grants_tx feature now_ms k))))"

definition validation_binding_exact ::
    "validation_request \<Rightarrow> feature_status \<Rightarrow> nat
      \<Rightarrow> feature_row \<times> lease_row \<times> claim_row \<times> specification_row \<Rightarrow> integration_row \<Rightarrow> bool" where
  "validation_binding_exact r status lifecycle b i =
     (case b of (f, l, c, p) \<Rightarrow>
        ft_current_specification_revision f = vq_specification_revision r
        \<and> ft_lifecycle_revision f = lifecycle \<and> ft_status f = status
        \<and> fl_lease_id l = vq_feature_lease_id r \<and> fl_snapshot_id l = Some (vq_snapshot_id r)
        \<and> cl_snapshot_sha256 c = vq_snapshot_sha256 r \<and> cl_base_commit c = vq_base_commit r
        \<and> sp_grants p = vq_grants r
        \<and> ig_feature_id i = vq_feature_id r \<and> ig_specification_revision i = vq_specification_revision r
        \<and> checked_add_u64 (ig_lifecycle_revision i) 1 = Some (vq_expected_lifecycle_revision r)
        \<and> ig_feature_lease_id i = vq_feature_lease_id r \<and> ig_snapshot_id i = vq_snapshot_id r
        \<and> ig_snapshot_sha256 i = vq_snapshot_sha256 r \<and> ig_artifact_set_sha256 i = vq_artifact_set_sha256 r
        \<and> ig_candidate_commit i = vq_candidate_commit r \<and> ig_candidate_tree i = vq_candidate_tree r
        \<and> ig_base_commit i = vq_base_commit r \<and> ig_queue_revision i = vq_expected_queue_revision r
        \<and> ig_emergency_pause_revision i = vq_expected_emergency_pause_revision r
        \<and> ig_grants i = vq_grants r)"

definition validation_candidate :: "validation_request \<Rightarrow> gate_tables \<Rightarrow> candidate_evidence" where
  "validation_candidate r g =
     \<lparr>ce_integration_id = vq_integration_id r, ce_artifact_set_sha256 = vq_artifact_set_sha256 r,
      ce_candidate_commit = vq_candidate_commit r, ce_candidate_tree = vq_candidate_tree r,
      ce_base_commit = vq_base_commit r,
      ce_artifact_ids = integration_artifact_ids_tx (vq_integration_id r) g\<rparr>"

definition validate_validation_gate_binding_state_tx ::
    "codec \<Rightarrow> validation_request \<Rightarrow> nat option \<Rightarrow> nat \<Rightarrow> orchestrator \<Rightarrow> master_error + candidate_evidence" where
  "validate_validation_gate_binding_state_tx cx r completed now_ms s =
     (let k = os_kernel s; g = os_gates s;
          lifecycle = (case completed of None \<Rightarrow> vq_expected_lifecycle_revision r | Some revision \<Rightarrow> revision);
          status = (if completed = None then FValidating else FReviewing) in
      bindE (require_gate_authority (vq_expected_emergency_pause_revision r) (vq_expected_queue_revision r)
        (vq_feature_id r) now_ms k) (\<lambda>_.
      bindE (ok_or ValidationGateUnavailable (gate_join (vq_feature_id r) k)) (\<lambda>b.
      bindE (ok_or ValidationGateUnavailable (find_integration (vq_integration_id r) g)) (\<lambda>i.
      bindE (reject_if ValidationGateUnavailable
        (\<not> validation_binding_exact r status lifecycle b i)) (\<lambda>_.
      bindE (validation_commands_from_manifest cx (sp_canonical_manifest (snd (snd (snd b))))) (\<lambda>commands.
      bindE (reject_if ValidationGateUnavailable (commands \<noteq> vq_command_ids r)) (\<lambda>_.
      bindE (protocol_result (validation_plan_sha256 cx commands)) (\<lambda>plan.
      bindE (reject_if ValidationGateUnavailable (plan \<noteq> vq_plan_sha256 r)) (\<lambda>_.
      Inr (validation_candidate r g))))))))))"

definition validate_validation_gate_binding_tx ::
    "codec \<Rightarrow> validation_request \<Rightarrow> nat \<Rightarrow> orchestrator \<Rightarrow> master_error + candidate_evidence" where
  "validate_validation_gate_binding_tx cx r now_ms s =
     validate_validation_gate_binding_state_tx cx r None now_ms s"

definition validate_completed_validation_gate_binding_tx ::
    "codec \<Rightarrow> validation_request \<Rightarrow> nat \<Rightarrow> nat \<Rightarrow> orchestrator \<Rightarrow> master_error + candidate_evidence" where
  "validate_completed_validation_gate_binding_tx cx r completed now_ms s =
     bindE (ok_or ValidationGateUnavailable (checked_add_u64 (vq_expected_lifecycle_revision r) 1)) (\<lambda>next.
     bindE (reject_if ValidationGateUnavailable (completed \<noteq> next)) (\<lambda>_.
     validate_validation_gate_binding_state_tx cx r (Some completed) now_ms s))"

section \<open>The scope of a candidate\<close>

text \<open>The work packets of the integrated artifacts, \<^verbatim>\<open>ORDER BY ia.ordinal, ia.packet_id\<close>.\<close>

definition integrated_packets :: "uuid \<Rightarrow> orchestrator \<Rightarrow> work_packet list" where
  "integrated_packets integration s =
     concat (map (\<lambda>ia. concat (map (\<lambda>a. map dp_work_packet
           (filter (\<lambda>d. dp_step_id d = ar_step_id a) (k_dispatches (os_kernel s))))
         (filter (\<lambda>a. ar_artifact_id a = ia_artifact_id ia) (k_artifacts (os_kernel s)))))
       (sort_key ia_ordinal (sort_key ia_packet_id
          (filter (\<lambda>ia. ia_integration_id ia = integration) (tb_integration_artifacts (os_gates s))))))"

definition collect_path :: "string \<Rightarrow> string list \<Rightarrow> master_error + string list" where
  "collect_path path paths =
     bindE (reject_if ValidationGateUnavailable (path \<in> set paths)) (\<lambda>_. Inr (paths @ [path]))"

definition collect_packet ::
    "codec \<Rightarrow> work_packet \<Rightarrow> string list \<times> nat \<Rightarrow> master_error + string list \<times> nat" where
  "collect_packet cx packet st =
     (case st of (paths, criteria) \<Rightarrow>
      bindE (protocol_result (validate_work_packet cx packet)) (\<lambda>_.
      bindE (ok_or ValidationGateUnavailable
        (checked_add_u64 criteria (wp_acceptance_criteria_count packet))) (\<lambda>criteria.
      bindE (forE collect_path (wp_allowed_paths packet) paths) (\<lambda>paths.
      Inr (paths, criteria)))))"

definition validation_work_packet_scope_tx ::
    "codec \<Rightarrow> uuid \<Rightarrow> orchestrator \<Rightarrow> master_error + string list \<times> nat" where
  "validation_work_packet_scope_tx cx integration s =
     bindE (forE (collect_packet cx) (integrated_packets integration s) ([], 0)) (\<lambda>(paths, criteria).
     bindE (reject_if ValidationGateUnavailable (paths = [] \<or> criteria = 0)) (\<lambda>_.
     Inr (sort paths, criteria)))"

definition validation_requirements_sha256_tx :: "uuid \<Rightarrow> nat \<Rightarrow> kernel \<Rightarrow> master_error + digest" where
  "validation_requirements_sha256_tx feature revision k =
     bindE (to_i64 revision) (\<lambda>_.
     bindE (ok_or Storage (find_specification feature revision k)) (\<lambda>p.
     bindE (reject_if ValidationGateUnavailable (sp_design_sha256 p = 0)) (\<lambda>_.
     Inr (sp_design_sha256 p))))"

section \<open>Opening an attempt\<close>

record validation_execution_plan =
  vx_request :: validation_request
  vx_candidate :: candidate_evidence
  vx_approved_paths :: "string list"
  vx_acceptance_criteria_count :: nat
  vx_requirements_sha256 :: digest

datatype validation_authorization =
    ValidationExistingPassed validation_receipt candidate_evidence
  | ValidationExistingFailed
  | ValidationPlanned validation_execution_plan

definition validation_receipt_of :: "validation_request \<Rightarrow> nat \<Rightarrow> digest \<Rightarrow> validation_receipt" where
  "validation_receipt_of r lifecycle_revision manifest =
     \<lparr>vk_schema_version = FEATURE_CONVEYOR_VALIDATION_GATE_SCHEMA_VERSION,
      vk_validation_id = vq_validation_id r, vk_feature_id = vq_feature_id r,
      vk_specification_revision = vq_specification_revision r, vk_lifecycle_revision = lifecycle_revision,
      vk_feature_lease_id = vq_feature_lease_id r, vk_integration_id = vq_integration_id r,
      vk_candidate_commit = vq_candidate_commit r, vk_candidate_tree = vq_candidate_tree r,
      vk_evidence_manifest_sha256 = manifest, vk_plan_sha256 = vq_plan_sha256 r,
      vk_queue_revision = vq_expected_queue_revision r,
      vk_emergency_pause_revision = vq_expected_emergency_pause_revision r, vk_grants = vq_grants r,
      vk_status = EvidenceAccepted\<rparr>"

definition validation_execution_plan_tx ::
    "codec \<Rightarrow> validation_request \<Rightarrow> nat \<Rightarrow> orchestrator \<Rightarrow> master_error + validation_execution_plan" where
  "validation_execution_plan_tx cx r now_ms s =
     bindE (validate_validation_gate_binding_tx cx r now_ms s) (\<lambda>candidate.
     bindE (validation_work_packet_scope_tx cx (vq_integration_id r) s) (\<lambda>(paths, criteria).
     bindE (validation_requirements_sha256_tx (vq_feature_id r) (vq_specification_revision r)
       (os_kernel s)) (\<lambda>requirements.
     Inr \<lparr>vx_request = r, vx_candidate = candidate, vx_approved_paths = paths,
          vx_acceptance_criteria_count = criteria, vx_requirements_sha256 = requirements\<rparr>)))"

definition find_attempt :: "uuid \<Rightarrow> gate_tables \<Rightarrow> validation_attempt_row option" where
  "find_attempt validation g =
     find_row (\<lambda>a. va_validation_id a = validation) (tb_validation_attempts g)"

definition load_validation_completion_tx :: "uuid \<Rightarrow> gate_tables \<Rightarrow> validation_completion_row option" where
  "load_validation_completion_tx validation g =
     find_row (\<lambda>c. vc_validation_id c = validation) (tb_validation_completions g)"

definition existing_validation ::
    "codec \<Rightarrow> validation_request \<Rightarrow> nat \<Rightarrow> orchestrator \<Rightarrow> master_error + validation_authorization" where
  "existing_validation cx r now_ms s =
     (case load_validation_completion_tx (vq_validation_id r) (os_gates s) of
        Some c \<Rightarrow>
          if vc_passed c
          then bindE (validate_completed_validation_gate_binding_tx cx r (vc_lifecycle_revision c) now_ms s) (\<lambda>candidate.
               Inr (ValidationExistingPassed
                 (validation_receipt_of r (vc_lifecycle_revision c) (vc_evidence_manifest_sha256 c)) candidate))
          else bindE (validate_validation_gate_binding_tx cx r now_ms s) (\<lambda>_. Inr ValidationExistingFailed)
      | None \<Rightarrow>
          bindE (validation_execution_plan_tx cx r now_ms s) (\<lambda>plan. Inr (ValidationPlanned plan)))"

definition attempt_row_of :: "validation_request \<Rightarrow> digest \<Rightarrow> nat \<Rightarrow> validation_attempt_row" where
  "attempt_row_of r binding now_ms =
     \<lparr>va_validation_id = vq_validation_id r, va_feature_id = vq_feature_id r,
      va_specification_revision = vq_specification_revision r,
      va_lifecycle_revision = vq_expected_lifecycle_revision r, va_feature_lease_id = vq_feature_lease_id r,
      va_snapshot_id = vq_snapshot_id r, va_snapshot_sha256 = vq_snapshot_sha256 r,
      va_integration_id = vq_integration_id r, va_artifact_set_sha256 = vq_artifact_set_sha256 r,
      va_candidate_commit = vq_candidate_commit r, va_candidate_tree = vq_candidate_tree r,
      va_base_commit = vq_base_commit r, va_plan_sha256 = vq_plan_sha256 r,
      va_command_ids = vq_command_ids r, va_queue_revision = vq_expected_queue_revision r,
      va_emergency_pause_revision = vq_expected_emergency_pause_revision r, va_grants = vq_grants r,
      va_request_binding_sha256 = binding, va_started_at_ms = now_ms\<rparr>"

definition insert_attempt :: "validation_attempt_row \<Rightarrow> gate_tables \<Rightarrow> master_error + gate_tables" where
  "insert_attempt a g =
     bindE (to_i64 (va_specification_revision a)) (\<lambda>_.
     bindE (to_i64 (va_lifecycle_revision a)) (\<lambda>_.
     bindE (to_i64 (va_queue_revision a)) (\<lambda>_.
     bindE (to_i64 (va_emergency_pause_revision a)) (\<lambda>_.
     bindE (to_i64 (gr_registration (va_grants a))) (\<lambda>_.
     bindE (to_i64 (gr_cloud_disclosure (va_grants a))) (\<lambda>_.
     bindE (to_i64 (gr_autonomous_publication (va_grants a))) (\<lambda>_.
     bindE (to_i64 (va_started_at_ms a)) (\<lambda>_.
     bindE (reject_if Storage
       (text_length (va_candidate_commit a) \<noteq> 40 \<or> text_length (va_candidate_tree a) \<noteq> 40
        \<or> text_length (va_base_commit a) \<noteq> 40 \<or> va_started_at_ms a = 0
        \<or> exists_row (\<lambda>b. va_validation_id b = va_validation_id a
            \<or> va_feature_id b = va_feature_id a \<and> va_specification_revision b = va_specification_revision a
              \<and> va_feature_lease_id b = va_feature_lease_id a \<and> va_integration_id b = va_integration_id a)
            (tb_validation_attempts g))) (\<lambda>_.
     Inr (g\<lparr>tb_validation_attempts := insert_row a (tb_validation_attempts g)\<rparr>))))))))))"

definition validation_started_metadata :: "codec \<Rightarrow> validation_request \<Rightarrow> json" where
  "validation_started_metadata cx r = JObject
     [(''validation_id'', JString (uuid_text cx (vq_validation_id r))),
      (''command_count'', json_nat (length (vq_command_ids r))), (''plan_digest_present'', JBool True),
      (''candidate_commit_present'', JBool True), (''raw_output_present'', JBool False),
      (''path_present'', JBool False), (''review_authorized'', JBool False),
      (''publication_authorized'', JBool False)]"

definition authorize_validation_gate ::
    "codec \<Rightarrow> validation_request \<Rightarrow> nat \<Rightarrow> bool \<Rightarrow> orchestrator
      \<Rightarrow> master_error + orchestrator \<times> validation_authorization" where
  "authorize_validation_gate cx r now_ms persist_new_attempt s =
     bindE (protocol_result (validate_validation_request cx r)) (\<lambda>_.
     bindE (protocol_result (validation_request_binding_sha256 cx r)) (\<lambda>binding.
     case find_attempt (vq_validation_id r) (os_gates s) of
       Some a \<Rightarrow>
         bindE (reject_if ValidationGateUnavailable (va_request_binding_sha256 a \<noteq> binding)) (\<lambda>_.
         bindE (existing_validation cx r now_ms s) (\<lambda>authorization. Inr (s, authorization)))
     | None \<Rightarrow>
         bindE (validation_execution_plan_tx cx r now_ms s) (\<lambda>plan.
         if \<not> persist_new_attempt then Inr (s, ValidationPlanned plan)
         else bindE (insert_attempt (attempt_row_of r binding now_ms) (os_gates s)) (\<lambda>g.
              bindE (audit_os cx ''feature_validation_started'' (Some (vq_feature_id r)) now_ms
                (validation_started_metadata cx r) (s\<lparr>os_gates := g\<rparr>)) (\<lambda>s1.
              Inr (s1, ValidationPlanned plan))))))"

definition plan_validation_gate ::
    "codec \<Rightarrow> validation_request \<Rightarrow> nat \<Rightarrow> orchestrator
      \<Rightarrow> master_error + orchestrator \<times> validation_authorization" where
  "plan_validation_gate cx r now_ms s = authorize_validation_gate cx r now_ms True s"

definition prepare_validation_gate ::
    "codec \<Rightarrow> validation_request \<Rightarrow> nat \<Rightarrow> orchestrator
      \<Rightarrow> master_error + orchestrator \<times> validation_authorization" where
  "prepare_validation_gate cx r now_ms s = authorize_validation_gate cx r now_ms False s"

section \<open>Finalizing\<close>

record command_evidence =
  cm_command_id :: validation_command
  cm_passed :: bool
  cm_result_sha256 :: digest
  cm_duration_ms :: nat
  cm_output_truncated :: bool

type_synonym gate_evidence = "command_evidence list"

definition gate_evidence_json :: "gate_evidence \<Rightarrow> json" where
  "gate_evidence_json evidence = JObject
     [(''commands'', JArray (map (\<lambda>c. JObject
         [(''command_id'', JString (command_text (cm_command_id c))), (''passed'', JBool (cm_passed c)),
          (''result_sha256'', digest_json (cm_result_sha256 c)),
          (''duration_ms'', number_json (cm_duration_ms c)),
          (''output_truncated'', JBool (cm_output_truncated c))]) evidence))]"

definition evidence_manifest_sha256 :: "codec \<Rightarrow> gate_evidence \<Rightarrow> digest" where
  "evidence_manifest_sha256 cx evidence =
     sha256 cx (compact_json_bytes (quote_json cx) (gate_evidence_json evidence))"

definition all_passed :: "gate_evidence \<Rightarrow> bool" where
  "all_passed evidence = list_all cm_passed evidence"

definition validate_validation_gate_evidence :: "validation_request \<Rightarrow> gate_evidence \<Rightarrow> master_error + unit" where
  "validate_validation_gate_evidence r evidence =
     bindE (reject_if ValidationGateUnavailable (length evidence \<noteq> length (vq_command_ids r))) (\<lambda>_.
     forE (\<lambda>(expected, c) _. reject_if ValidationGateUnavailable
         (cm_command_id c \<noteq> expected \<or> cm_result_sha256 c = 0
          \<or> cm_passed c \<and> cm_output_truncated c))
       (zip (vq_command_ids r) evidence) ())"

definition insert_command_evidence ::
    "uuid \<Rightarrow> command_evidence \<Rightarrow> gate_tables \<Rightarrow> master_error + gate_tables" where
  "insert_command_evidence validation c g =
     bindE (to_i64 (cm_duration_ms c)) (\<lambda>_.
     bindE (reject_if Storage
       (exists_row (\<lambda>e. ve_validation_id e = validation \<and> ve_command_id e = cm_command_id c)
         (tb_command_evidence g))) (\<lambda>_.
     Inr (g\<lparr>tb_command_evidence := insert_row
       \<lparr>ve_validation_id = validation, ve_command_id = cm_command_id c, ve_passed = cm_passed c,
        ve_result_sha256 = cm_result_sha256 c, ve_duration_ms = cm_duration_ms c,
        ve_output_truncated = cm_output_truncated c\<rparr> (tb_command_evidence g)\<rparr>)))"

definition insert_validation_completion ::
    "validation_completion_row \<Rightarrow> gate_tables \<Rightarrow> master_error + gate_tables" where
  "insert_validation_completion c g =
     bindE (to_i64 (vc_lifecycle_revision c)) (\<lambda>_.
     bindE (to_i64 (vc_completed_at_ms c)) (\<lambda>_.
     bindE (reject_if Storage
       (vc_lifecycle_revision c = 0 \<or> vc_completed_at_ms c = 0
        \<or> exists_row (\<lambda>d. vc_validation_id d = vc_validation_id c) (tb_validation_completions g))) (\<lambda>_.
     Inr (g\<lparr>tb_validation_completions := insert_row c (tb_validation_completions g)\<rparr>))))"

definition validation_finished_metadata :: "codec \<Rightarrow> validation_request \<Rightarrow> gate_evidence \<Rightarrow> bool \<Rightarrow> json" where
  "validation_finished_metadata cx r evidence passed = JObject
     [(''validation_id'', JString (uuid_text cx (vq_validation_id r))),
      (''command_count'', json_nat (length evidence)), (''evidence_manifest_digest_present'', JBool True),
      (''all_required_evidence_present'', JBool True), (''passed'', JBool passed),
      (''raw_output_present'', JBool False), (''path_present'', JBool False),
      (''from_status'', JString ''validating''),
      (''to_status'', JString (if passed then ''reviewing'' else ''validating'')),
      (''lifecycle_advanced'', JBool passed), (''publication_authorized'', JBool False)]"

text \<open>
  The commit of a completed gate. A failed gate is stored and then reported as \<^verbatim>\<open>ValidationGateFailed\<close>: the
  receipt is \<open>None\<close>.
\<close>

definition commit_validation ::
    "codec \<Rightarrow> validation_request \<Rightarrow> gate_evidence \<Rightarrow> nat \<Rightarrow> orchestrator
      \<Rightarrow> master_error + orchestrator \<times> validation_receipt option" where
  "commit_validation cx r evidence now_ms s =
     (let manifest = evidence_manifest_sha256 cx evidence; passed = all_passed evidence;
          expected = vq_expected_lifecycle_revision r in
      bindE (forE (insert_command_evidence (vq_validation_id r)) evidence (os_gates s)) (\<lambda>g1.
      bindE (if passed then ok_or ValidationGateUnavailable (checked_add_u64 expected 1)
             else Inr expected) (\<lambda>lifecycle.
      bindE (insert_validation_completion
        \<lparr>vc_validation_id = vq_validation_id r, vc_passed = passed, vc_evidence_manifest_sha256 = manifest,
         vc_lifecycle_revision = lifecycle, vc_completed_at_ms = now_ms\<rparr> g1) (\<lambda>g2.
      bindE (if passed
             then bindE (advance_status ValidationGateUnavailable (vq_feature_id r) FValidating expected
                    FReviewing lifecycle now_ms (os_kernel s)) (\<lambda>k1.
                  insert_transition ((bare_transition (vq_feature_id r) lifecycle FValidating FReviewing now_ms)
                    \<lparr>tr_repository_snapshot_sha256 := Some (vq_snapshot_sha256 r),
                     tr_accepted_evidence_sha256 := Some manifest\<rparr>) k1)
             else Inr (os_kernel s)) (\<lambda>k2.
      bindE (audit_os cx (if passed then ''feature_validation_passed'' else ''feature_validation_failed'')
        (Some (vq_feature_id r)) now_ms (validation_finished_metadata cx r evidence passed)
        (s\<lparr>os_kernel := k2, os_gates := g2\<rparr>)) (\<lambda>s1.
      Inr (s1, if passed then Some (validation_receipt_of r lifecycle manifest) else None)))))))"

definition finalize_validation_gate ::
    "codec \<Rightarrow> validation_execution_plan \<Rightarrow> gate_evidence \<Rightarrow> nat \<Rightarrow> orchestrator
      \<Rightarrow> master_error + orchestrator \<times> validation_receipt option" where
  "finalize_validation_gate cx plan evidence now_ms s =
     (let r = vx_request plan in
      bindE (validate_validation_gate_evidence r evidence) (\<lambda>_.
      case load_validation_completion_tx (vq_validation_id r) (os_gates s) of
        Some c \<Rightarrow>
          if vc_passed c \<noteq> all_passed evidence
             \<or> vc_evidence_manifest_sha256 c \<noteq> evidence_manifest_sha256 cx evidence
          then Inl ValidationGateUnavailable
          else if vc_passed c
          then Inr (s, Some (validation_receipt_of r (vc_lifecycle_revision c) (vc_evidence_manifest_sha256 c)))
          else Inl ValidationGateFailed
      | None \<Rightarrow>
          bindE (ok_or ValidationGateUnavailable (find_attempt (vq_validation_id r) (os_gates s))) (\<lambda>a.
          bindE (protocol_result (validation_request_binding_sha256 cx r)) (\<lambda>binding.
          bindE (reject_if ValidationGateUnavailable (va_request_binding_sha256 a \<noteq> binding)) (\<lambda>_.
          bindE (validate_validation_gate_binding_tx cx r now_ms s) (\<lambda>candidate.
          bindE (reject_if ValidationGateUnavailable (candidate \<noteq> vx_candidate plan)) (\<lambda>_.
          commit_validation cx r evidence now_ms s)))))))"

section \<open>The cancellation probe\<close>

text \<open>Storage corruption stays an error; any other refusal means that the execution is not current.\<close>

definition current_unless_corrupt :: "master_error + 'a \<Rightarrow> master_error + bool" where
  "current_unless_corrupt m =
     (case m of
        Inr _ \<Rightarrow> Inr True
      | Inl Storage \<Rightarrow> Inl Storage
      | Inl Json \<Rightarrow> Inl Json
      | Inl (InvalidStoredState e) \<Rightarrow> Inl (InvalidStoredState e)
      | Inl _ \<Rightarrow> Inr False)"

definition validation_gate_execution_is_current ::
    "codec \<Rightarrow> validation_request \<Rightarrow> nat \<Rightarrow> orchestrator \<Rightarrow> master_error + bool" where
  "validation_gate_execution_is_current cx r now_ms s =
     (if \<not> is_ok (validate_validation_request cx r) then Inr False
      else
        bindE (protocol_result (validation_request_binding_sha256 cx r)) (\<lambda>binding.
        if \<not> exists_row (\<lambda>a. va_validation_id a = vq_validation_id r \<and> va_request_binding_sha256 a = binding
               \<and> \<not> exists_row (\<lambda>c. vc_validation_id c = va_validation_id a) (tb_validation_completions (os_gates s)))
             (tb_validation_attempts (os_gates s))
        then Inr False
        else current_unless_corrupt (validate_validation_gate_binding_tx cx r now_ms s)))"

end
