(* ===== verification/Gate_Review.thy ===== *)
theory Gate_Review
  imports Gate_Validation
begin

text \<open>
  The review gateway (\<^verbatim>\<open>assemblywright-master/src/lib.rs\<close>): \<^verbatim>\<open>review_gateway_plan_tx\<close>, which compares every
  stored authority with the request and counts the calls of the candidate and of the feature;
  \<^verbatim>\<open>prepare_review_gateway\<close> and \<^verbatim>\<open>begin_review_gateway\<close>, which opens one durable call intent; the three
  ways in which a call ends (a transport failure with its backoff, an interruption, a decision); and the
  read-only probe \<^verbatim>\<open>review_gateway_execution_is_current\<close>. The provider is outside the kernel: its output
  is an argument of \<open>finalize_review_decision\<close>.
\<close>

section \<open>The plan of a call\<close>

record review_execution_plan =
  rx_request :: review_request
  rx_candidate :: candidate_evidence
  rx_approved_specification :: json
  rx_approved_specification_sha256 :: digest
  rx_requirements_sha256 :: digest
  rx_requirement_ids :: "string list"
  rx_evidence_digests :: "digest list"
  rx_candidate_attempt :: nat
  rx_feature_call :: nat

datatype review_authorization =
    ReviewExistingDecision review_receipt
  | ReviewExistingTransportFailure nat
  | ReviewPlanned review_execution_plan

datatype review_transport_failure = ProviderOutage | MalformedOutput | IncompleteTransport

fun transport_failure_text :: "review_transport_failure \<Rightarrow> string" where
  "transport_failure_text ProviderOutage = ''provider_outage''"
| "transport_failure_text MalformedOutput = ''malformed_output''"
| "transport_failure_text IncompleteTransport = ''incomplete_transport''"

definition FEATURE_CONVEYOR_REVIEW_BACKOFF_MS :: "nat list" where
  "FEATURE_CONVEYOR_REVIEW_BACKOFF_MS = [60000, 300000, 900000]"

definition review_feature_exact :: "review_request \<Rightarrow> feature_row \<Rightarrow> bool" where
  "review_feature_exact r f =
     (ft_current_specification_revision f = rq_specification_revision r
      \<and> ft_lifecycle_revision f = rq_expected_lifecycle_revision r \<and> ft_status f = FReviewing)"

definition review_specification_exact :: "review_request \<Rightarrow> specification_row \<Rightarrow> bool" where
  "review_specification_exact r p =
     (sp_provider_id p = rq_provider_id r \<and> sp_model_id p = rq_model_id r \<and> sp_grants p = rq_grants r)"

definition review_integration_exact :: "review_request \<Rightarrow> integration_row \<Rightarrow> bool" where
  "review_integration_exact r i =
     (ig_feature_id i = rq_feature_id r \<and> ig_specification_revision i = rq_specification_revision r
      \<and> checked_add_u64 (ig_lifecycle_revision i) 2 = Some (rq_expected_lifecycle_revision r)
      \<and> ig_feature_lease_id i = rq_feature_lease_id r \<and> ig_candidate_commit i = rq_candidate_commit r
      \<and> ig_candidate_tree i = rq_candidate_tree r \<and> ig_base_commit i = rq_base_commit r
      \<and> ig_queue_revision i = rq_expected_queue_revision r
      \<and> ig_emergency_pause_revision i = rq_expected_emergency_pause_revision r
      \<and> ig_grants i = rq_grants r)"

definition completed_attempt :: "uuid \<Rightarrow> gate_tables \<Rightarrow> (validation_attempt_row \<times> validation_completion_row) option" where
  "completed_attempt validation g =
     Option.bind (find_attempt validation g) (\<lambda>a.
     map_option (Pair a) (load_validation_completion_tx validation g))"

definition review_validation_exact ::
    "review_request \<Rightarrow> validation_attempt_row \<times> validation_completion_row \<Rightarrow> bool" where
  "review_validation_exact r v =
     (case v of (a, c) \<Rightarrow>
        va_feature_id a = rq_feature_id r \<and> va_specification_revision a = rq_specification_revision r
        \<and> checked_add_u64 (va_lifecycle_revision a) 1 = Some (rq_expected_lifecycle_revision r)
        \<and> va_feature_lease_id a = rq_feature_lease_id r \<and> va_integration_id a = rq_integration_id r
        \<and> va_candidate_commit a = rq_candidate_commit r \<and> va_candidate_tree a = rq_candidate_tree r
        \<and> va_base_commit a = rq_base_commit r \<and> va_queue_revision a = rq_expected_queue_revision r
        \<and> va_emergency_pause_revision a = rq_expected_emergency_pause_revision r
        \<and> va_grants a = rq_grants r \<and> vc_passed c
        \<and> vc_evidence_manifest_sha256 c = rq_evidence_manifest_sha256 r
        \<and> vc_lifecycle_revision c = rq_expected_lifecycle_revision r)"

definition collect_evidence_digest ::
    "uuid \<Rightarrow> gate_tables \<Rightarrow> validation_command \<Rightarrow> digest list \<Rightarrow> master_error + digest list" where
  "collect_evidence_digest validation g command digests =
     bindE (ok_or Storage (find_row (\<lambda>e. ve_validation_id e = validation \<and> ve_command_id e = command \<and> ve_passed e)
       (tb_command_evidence g))) (\<lambda>e. Inr (digests @ [ve_result_sha256 e]))"

definition candidate_calls :: "uuid \<Rightarrow> string \<Rightarrow> gate_tables \<Rightarrow> review_call_row list" where
  "candidate_calls feature commit g = filter (\<lambda>c. rc_candidate_commit c = commit) (calls_of feature g)"

text \<open>\<^verbatim>\<open>MAX(o.next_retry_at_ms)\<close> over the calls of the candidate that did not end in a decision.\<close>

definition retry_times :: "uuid \<Rightarrow> string \<Rightarrow> gate_tables \<Rightarrow> nat list" where
  "retry_times feature commit g =
     concat (map (\<lambda>c. List.map_filter ro_next_retry_at_ms
         (filter (\<lambda>q. ro_outcome_kind q \<noteq> ''decision'') (outcomes_of_call c g)))
       (candidate_calls feature commit g))"

definition next_retry :: "uuid \<Rightarrow> string \<Rightarrow> gate_tables \<Rightarrow> nat option" where
  "next_retry feature commit g =
     (let times = retry_times feature commit g in if times = [] then None else Some (fold max times 0))"

definition u8_max :: nat where "u8_max = 255"

definition to_u8 :: "nat \<Rightarrow> master_error + nat" where
  "to_u8 n = (if n \<le> u8_max then Inr n else Inl ReviewGatewayUnavailable)"

definition review_call_numbers :: "review_request \<Rightarrow> nat \<Rightarrow> gate_tables \<Rightarrow> master_error + nat \<times> nat" where
  "review_call_numbers r now_ms g =
     (case find_row (\<lambda>c. rc_review_call_id c = rq_review_call_id r) (tb_review_calls g) of
        Some c \<Rightarrow>
          bindE (to_u8 (rc_candidate_attempt c)) (\<lambda>attempt.
          bindE (to_u8 (rc_feature_call c)) (\<lambda>call. Inr (attempt, call)))
      | None \<Rightarrow>
          (let mine = length (candidate_calls (rq_feature_id r) (rq_candidate_commit r) g);
               all = length (calls_of (rq_feature_id r) g) in
           bindE (reject_if ReviewGatewayUnavailable
             (exists_row (\<lambda>d. rd_feature_id d = rq_feature_id r \<and> rd_candidate_commit d = rq_candidate_commit r)
               (tb_review_decisions g))) (\<lambda>_.
           bindE (reject_if ReviewBudgetExhausted
             (mine \<ge> MAX_FEATURE_CONVEYOR_REVIEW_TRANSPORT_ATTEMPTS_PER_CANDIDATE
              \<or> all \<ge> MAX_FEATURE_CONVEYOR_REVIEW_CALLS_PER_FEATURE)) (\<lambda>_.
           bindE (case next_retry (rq_feature_id r) (rq_candidate_commit r) g of
                    None \<Rightarrow> Inr ()
                  | Some retry \<Rightarrow> reject_if (ReviewRetryNotReady retry) (now_ms < retry)) (\<lambda>_.
           bindE (to_u8 (Suc mine)) (\<lambda>attempt.
           bindE (to_u8 (Suc all)) (\<lambda>call. Inr (attempt, call))))))))"

definition review_candidate :: "review_request \<Rightarrow> digest \<Rightarrow> uuid list \<Rightarrow> candidate_evidence" where
  "review_candidate r artifact_set ids =
     \<lparr>ce_integration_id = rq_integration_id r, ce_artifact_set_sha256 = artifact_set,
      ce_candidate_commit = rq_candidate_commit r, ce_candidate_tree = rq_candidate_tree r,
      ce_base_commit = rq_base_commit r, ce_artifact_ids = ids\<rparr>"

definition review_gateway_plan_tx ::
    "codec \<Rightarrow> review_request \<Rightarrow> nat \<Rightarrow> orchestrator \<Rightarrow> master_error + review_execution_plan" where
  "review_gateway_plan_tx cx r now_ms s =
     (let k = os_kernel s; g = os_gates s; feature = rq_feature_id r in
      bindE (require_gate_authority (rq_expected_emergency_pause_revision r) (rq_expected_queue_revision r)
        feature now_ms k) (\<lambda>_.
      bindE (ok_or ReviewGatewayUnavailable (find_feature feature k)) (\<lambda>f.
      bindE (reject_if ReviewGatewayUnavailable (\<not> review_feature_exact r f)) (\<lambda>_.
      bindE (ok_or Storage (k_active_lease k)) (\<lambda>l.
      bindE (reject_if ReviewGatewayUnavailable (fl_lease_id l \<noteq> rq_feature_lease_id r)) (\<lambda>_.
      bindE (to_i64 (rq_specification_revision r)) (\<lambda>_.
      bindE (ok_or Storage (find_specification feature (rq_specification_revision r) k)) (\<lambda>p.
      bindE (reject_if ReviewGatewayUnavailable (\<not> review_specification_exact r p)) (\<lambda>_.
      bindE (ok_or ReviewGatewayUnavailable (find_integration (rq_integration_id r) g)) (\<lambda>i.
      bindE (reject_if ReviewGatewayUnavailable (\<not> review_integration_exact r i)) (\<lambda>_.
      bindE (ok_or ReviewGatewayUnavailable (completed_attempt (rq_validation_id r) g)) (\<lambda>v.
      bindE (reject_if ReviewGatewayUnavailable (\<not> review_validation_exact r v)) (\<lambda>_.
      bindE (reject_if ReviewGatewayUnavailable (va_command_ids (fst v) \<noteq> REQUIRED_COMMANDS)) (\<lambda>_.
      bindE (forE (collect_evidence_digest (rq_validation_id r) g) (va_command_ids (fst v))
        [rq_evidence_manifest_sha256 r]) (\<lambda>digests.
      bindE (parse_stored_json cx (sp_canonical_manifest p)) (\<lambda>manifest.
      bindE (map_err (\<lambda>_. ReviewGatewayUnavailable) (validate_review_safe_manifest_schema manifest)) (\<lambda>_.
      bindE (validate_review_disclosure_value manifest) (\<lambda>_.
      bindE (map_err (\<lambda>_. ReviewGatewayUnavailable) (approved_requirement_ids manifest)) (\<lambda>ids.
      bindE (validation_work_packet_scope_tx cx (rq_integration_id r) s) (\<lambda>(_, criteria).
      bindE (reject_if ReviewGatewayUnavailable (criteria \<noteq> length ids)) (\<lambda>_.
      bindE (review_call_numbers r now_ms g) (\<lambda>(attempt, call).
      Inr \<lparr>rx_request = r,
           rx_candidate = review_candidate r (ig_artifact_set_sha256 i)
             (integration_artifact_ids_tx (rq_integration_id r) g),
           rx_approved_specification = manifest,
           rx_approved_specification_sha256 = sp_manifest_sha256 p,
           rx_requirements_sha256 = sp_design_sha256 p, rx_requirement_ids = ids,
           rx_evidence_digests = digests, rx_candidate_attempt = attempt,
           rx_feature_call = call\<rparr>))))))))))))))))))))))"

text \<open>A packet's specification is a \<^verbatim>\<open>serde_json::Value\<close>, so it is compared in that form.\<close>

definition review_packet_exact :: "review_execution_plan \<Rightarrow> review_packet \<Rightarrow> bool" where
  "review_packet_exact plan p =
     (let r = rx_request plan in
      rp_feature_id p = rq_feature_id r \<and> rp_specification_revision p = rq_specification_revision r
      \<and> plain_json (rp_approved_specification p) = rx_approved_specification plan
      \<and> rp_approved_specification_sha256 p = rx_approved_specification_sha256 plan
      \<and> rp_candidate_commit p = rq_candidate_commit r \<and> rp_candidate_tree p = rq_candidate_tree r
      \<and> rp_base_commit p = rq_base_commit r \<and> rp_candidate_diff_sha256 p = rq_candidate_diff_sha256 r
      \<and> rp_evidence_manifest_sha256 p = rq_evidence_manifest_sha256 r
      \<and> rp_evidence_digests p = rx_evidence_digests plan
      \<and> rp_requirements_sha256 p = rx_requirements_sha256 plan
      \<and> rp_requirement_ids p = rx_requirement_ids plan \<and> rp_provider_id p = rq_provider_id r
      \<and> rp_model_id p = rq_model_id r \<and> rp_grants p = rq_grants r)"

definition validate_review_packet_plan ::
    "codec \<Rightarrow> review_execution_plan \<Rightarrow> review_packet \<Rightarrow> master_error + unit" where
  "validate_review_packet_plan cx plan p =
     bindE (protocol_result (validate_review_packet cx p)) (\<lambda>_.
     bindE (reject_if ReviewGatewayUnavailable (\<not> review_packet_exact plan p)) (\<lambda>_.
     bindE (protocol_result (review_packet_sha256 cx p)) (\<lambda>digest.
     reject_if ReviewGatewayUnavailable (digest \<noteq> rq_review_packet_sha256 (rx_request plan)))))"

section \<open>Receipts\<close>

definition review_gateway_receipt :: "review_request \<Rightarrow> nat \<times> nat \<Rightarrow> nat \<Rightarrow> digest \<Rightarrow> bool \<Rightarrow> review_receipt" where
  "review_gateway_receipt r numbers lifecycle_revision decision approved =
     \<lparr>rk_schema_version = FEATURE_CONVEYOR_REVIEW_GATEWAY_SCHEMA_VERSION,
      rk_review_call_id = rq_review_call_id r, rk_feature_id = rq_feature_id r,
      rk_specification_revision = rq_specification_revision r, rk_lifecycle_revision = lifecycle_revision,
      rk_feature_lease_id = rq_feature_lease_id r, rk_integration_id = rq_integration_id r,
      rk_validation_id = rq_validation_id r, rk_candidate_commit = rq_candidate_commit r,
      rk_candidate_diff_sha256 = rq_candidate_diff_sha256 r,
      rk_evidence_manifest_sha256 = rq_evidence_manifest_sha256 r,
      rk_review_packet_sha256 = rq_review_packet_sha256 r, rk_provider_id = rq_provider_id r,
      rk_model_id = rq_model_id r, rk_candidate_attempt = fst numbers, rk_feature_call = snd numbers,
      rk_decision_sha256 = decision, rk_queue_revision = rq_expected_queue_revision r,
      rk_emergency_pause_revision = rq_expected_emergency_pause_revision r, rk_grants = rq_grants r,
      rk_status = (if approved then ReviewApproved else ReviewRejected)\<rparr>"

definition load_review_gateway_receipt_tx ::
    "review_request \<Rightarrow> gate_tables \<Rightarrow> master_error + review_receipt" where
  "load_review_gateway_receipt_tx r g =
     (let mine = rq_review_call_id r in
      bindE (ok_or ReviewGatewayUnavailable (find_row (\<lambda>c. rc_review_call_id c = mine) (tb_review_calls g))) (\<lambda>c.
      bindE (ok_or ReviewGatewayUnavailable (find_row (\<lambda>d. rd_review_call_id d = mine) (tb_review_decisions g))) (\<lambda>d.
      bindE (to_u8 (rc_candidate_attempt c)) (\<lambda>attempt.
      bindE (to_u8 (rc_feature_call c)) (\<lambda>call.
      if rd_decision d = ''approved''
      then Inr (review_gateway_receipt r (attempt, call) (rd_lifecycle_revision d) (rd_decision_sha256 d) True)
      else if rd_decision d = ''rejected''
      then Inr (review_gateway_receipt r (attempt, call) (rd_lifecycle_revision d) (rd_decision_sha256 d) False)
      else Inl ReviewGatewayUnavailable)))))"

section \<open>Opening a call\<close>

definition review_row_of ::
    "review_execution_plan \<Rightarrow> digest \<Rightarrow> nat \<Rightarrow> review_call_row" where
  "review_row_of plan binding now_ms =
     (let r = rx_request plan in
      \<lparr>rc_review_call_id = rq_review_call_id r, rc_feature_id = rq_feature_id r,
       rc_specification_revision = rq_specification_revision r,
       rc_lifecycle_revision = rq_expected_lifecycle_revision r, rc_feature_lease_id = rq_feature_lease_id r,
       rc_integration_id = rq_integration_id r, rc_validation_id = rq_validation_id r,
       rc_candidate_commit = rq_candidate_commit r, rc_candidate_tree = rq_candidate_tree r,
       rc_base_commit = rq_base_commit r, rc_candidate_diff_sha256 = rq_candidate_diff_sha256 r,
       rc_evidence_manifest_sha256 = rq_evidence_manifest_sha256 r,
       rc_review_packet_sha256 = rq_review_packet_sha256 r, rc_provider_id = rq_provider_id r,
       rc_model_id = rq_model_id r, rc_candidate_attempt = rx_candidate_attempt plan,
       rc_feature_call = rx_feature_call plan, rc_queue_revision = rq_expected_queue_revision r,
       rc_emergency_pause_revision = rq_expected_emergency_pause_revision r, rc_grants = rq_grants r,
       rc_request_binding_sha256 = binding, rc_started_at_ms = now_ms\<rparr>)"

text \<open>The \<^verbatim>\<open>INSERT\<close> with the table's checks on texts, numbers and time and its key.\<close>

definition insert_review_call :: "review_call_row \<Rightarrow> gate_tables \<Rightarrow> master_error + gate_tables" where
  "insert_review_call c g =
     bindE (to_i64 (rc_specification_revision c)) (\<lambda>_.
     bindE (to_i64 (rc_lifecycle_revision c)) (\<lambda>_.
     bindE (to_i64 (rc_queue_revision c)) (\<lambda>_.
     bindE (to_i64 (rc_emergency_pause_revision c)) (\<lambda>_.
     bindE (to_i64 (gr_registration (rc_grants c))) (\<lambda>_.
     bindE (to_i64 (gr_cloud_disclosure (rc_grants c))) (\<lambda>_.
     bindE (to_i64 (gr_autonomous_publication (rc_grants c))) (\<lambda>_.
     bindE (to_i64 (rc_started_at_ms c)) (\<lambda>_.
     bindE (reject_if Storage
       (text_length (rc_candidate_commit c) \<noteq> 40 \<or> text_length (rc_candidate_tree c) \<noteq> 40
        \<or> text_length (rc_base_commit c) \<noteq> 40
        \<or> text_length (rc_provider_id c) < 1 \<or> text_length (rc_provider_id c) > 128
        \<or> text_length (rc_model_id c) < 1 \<or> text_length (rc_model_id c) > 128
        \<or> rc_candidate_attempt c < 1 \<or> rc_candidate_attempt c > 3
        \<or> rc_feature_call c < 1 \<or> rc_feature_call c > 12 \<or> rc_started_at_ms c = 0
        \<or> exists_row (\<lambda>d. rc_review_call_id d = rc_review_call_id c) (tb_review_calls g))) (\<lambda>_.
     Inr (g\<lparr>tb_review_calls := insert_row c (tb_review_calls g)\<rparr>))))))))))"

definition review_started_metadata :: "codec \<Rightarrow> review_execution_plan \<Rightarrow> json" where
  "review_started_metadata cx plan = JObject
     [(''review_call_id'', JString (uuid_text cx (rq_review_call_id (rx_request plan)))),
      (''candidate_attempt'', json_nat (rx_candidate_attempt plan)),
      (''feature_call'', json_nat (rx_feature_call plan)), (''response_only'', JBool True),
      (''fresh_session'', JBool True), (''review_packet_digest_present'', JBool True),
      (''raw_packet_present'', JBool False), (''transcript_present'', JBool False),
      (''memory_present'', JBool False), (''publication_authorized'', JBool False)]"

text \<open>A call that was opened before: its decision or its transport failure, anything else is refused.\<close>

definition existing_review_call :: "review_request \<Rightarrow> gate_tables \<Rightarrow> master_error + review_authorization" where
  "existing_review_call r g =
     (case find_row (\<lambda>q. ro_review_call_id q = rq_review_call_id r) (tb_review_outcomes g) of
        None \<Rightarrow> Inl ReviewGatewayUnavailable
      | Some q \<Rightarrow>
          if ro_outcome_kind q = ''decision''
          then bindE (load_review_gateway_receipt_tx r g) (\<lambda>receipt. Inr (ReviewExistingDecision receipt))
          else (case ro_next_retry_at_ms q of
                  None \<Rightarrow> Inl ReviewGatewayUnavailable
                | Some retry \<Rightarrow> Inr (ReviewExistingTransportFailure retry)))"

definition authorize_review_gateway ::
    "codec \<Rightarrow> review_request \<Rightarrow> review_packet option \<Rightarrow> nat \<Rightarrow> orchestrator
      \<Rightarrow> master_error + orchestrator \<times> review_authorization" where
  "authorize_review_gateway cx r packet now_ms s =
     bindE (protocol_result (validate_review_request cx r)) (\<lambda>_.
     bindE (protocol_result (review_request_binding_sha256 cx r)) (\<lambda>binding.
     case find_row (\<lambda>c. rc_review_call_id c = rq_review_call_id r) (tb_review_calls (os_gates s)) of
       Some c \<Rightarrow>
         bindE (reject_if ReviewGatewayUnavailable (rc_request_binding_sha256 c \<noteq> binding)) (\<lambda>_.
         bindE (existing_review_call r (os_gates s)) (\<lambda>authorization. Inr (s, authorization)))
     | None \<Rightarrow>
         bindE (review_gateway_plan_tx cx r now_ms s) (\<lambda>plan.
         case packet of
           None \<Rightarrow> Inr (s, ReviewPlanned plan)
         | Some packet \<Rightarrow>
             bindE (validate_review_packet_plan cx plan packet) (\<lambda>_.
             bindE (insert_review_call (review_row_of plan binding now_ms) (os_gates s)) (\<lambda>g.
             bindE (audit_os cx ''feature_review_call_started'' (Some (rq_feature_id r)) now_ms
               (review_started_metadata cx plan) (s\<lparr>os_gates := g\<rparr>)) (\<lambda>s1.
             Inr (s1, ReviewPlanned plan)))))))"

definition prepare_review_gateway ::
    "codec \<Rightarrow> review_request \<Rightarrow> nat \<Rightarrow> orchestrator
      \<Rightarrow> master_error + orchestrator \<times> review_authorization" where
  "prepare_review_gateway cx r now_ms s = authorize_review_gateway cx r None now_ms s"

definition begin_review_gateway ::
    "codec \<Rightarrow> review_request \<Rightarrow> review_packet \<Rightarrow> nat \<Rightarrow> orchestrator
      \<Rightarrow> master_error + orchestrator \<times> review_authorization" where
  "begin_review_gateway cx r packet now_ms s = authorize_review_gateway cx r (Some packet) now_ms s"

section \<open>Ending a call\<close>

text \<open>The call is open, under the numbers of the plan.\<close>

definition started_call :: "review_execution_plan \<Rightarrow> digest \<Rightarrow> review_call_row \<Rightarrow> gate_tables \<Rightarrow> bool" where
  "started_call plan binding c g =
     (rc_request_binding_sha256 c = binding \<and> rc_candidate_attempt c = rx_candidate_attempt plan
      \<and> rc_feature_call c = rx_feature_call plan
      \<and> \<not> exists_row (\<lambda>q. ro_review_call_id q = rc_review_call_id c) (tb_review_outcomes g))"

definition validate_started_review_call_tx ::
    "codec \<Rightarrow> review_execution_plan \<Rightarrow> gate_tables \<Rightarrow> master_error + unit" where
  "validate_started_review_call_tx cx plan g =
     bindE (ok_or ReviewGatewayUnavailable
       (find_row (\<lambda>c. rc_review_call_id c = rq_review_call_id (rx_request plan)) (tb_review_calls g))) (\<lambda>c.
     bindE (protocol_result (review_request_binding_sha256 cx (rx_request plan))) (\<lambda>binding.
     reject_if ReviewGatewayUnavailable (\<not> started_call plan binding c g)))"

text \<open>The \<^verbatim>\<open>INSERT\<close> of an outcome; only a decision and an interruption have no retry time.\<close>

definition insert_review_outcome :: "review_outcome_row \<Rightarrow> gate_tables \<Rightarrow> master_error + gate_tables" where
  "insert_review_outcome q g =
     bindE (case ro_next_retry_at_ms q of None \<Rightarrow> Inr () | Some retry \<Rightarrow> to_i64 retry) (\<lambda>_.
     bindE (to_i64 (ro_completed_at_ms q)) (\<lambda>_.
     bindE (reject_if Storage
       (ro_next_retry_at_ms q = Some 0 \<or> ro_completed_at_ms q = 0
        \<or> (ro_outcome_kind q \<in> {''decision'', ''interrupted''}) \<noteq> (ro_next_retry_at_ms q = None)
        \<or> exists_row (\<lambda>d. ro_review_call_id d = ro_review_call_id q) (tb_review_outcomes g))) (\<lambda>_.
     Inr (g\<lparr>tb_review_outcomes := insert_row q (tb_review_outcomes g)\<rparr>))))"

definition review_outcome_of ::
    "review_execution_plan \<Rightarrow> string \<Rightarrow> digest \<Rightarrow> nat option \<Rightarrow> nat \<Rightarrow> review_outcome_row" where
  "review_outcome_of plan kind digest retry now_ms =
     \<lparr>ro_review_call_id = rq_review_call_id (rx_request plan), ro_outcome_kind = kind,
      ro_outcome_sha256 = digest, ro_next_retry_at_ms = retry, ro_completed_at_ms = now_ms\<rparr>"

definition review_backoff :: "review_execution_plan \<Rightarrow> master_error + nat" where
  "review_backoff plan =
     (let index = rx_candidate_attempt plan - 1 in
      if index < length FEATURE_CONVEYOR_REVIEW_BACKOFF_MS
      then Inr (FEATURE_CONVEYOR_REVIEW_BACKOFF_MS ! index) else Inl ReviewGatewayUnavailable)"

definition transport_failure_metadata ::
    "codec \<Rightarrow> review_execution_plan \<Rightarrow> review_transport_failure \<Rightarrow> nat \<Rightarrow> json" where
  "transport_failure_metadata cx plan failure backoff = JObject
     [(''review_call_id'', JString (uuid_text cx (rq_review_call_id (rx_request plan)))),
      (''failure_code'', JString (transport_failure_text failure)),
      (''candidate_attempt'', json_nat (rx_candidate_attempt plan)),
      (''feature_call'', json_nat (rx_feature_call plan)), (''backoff_ms'', json_nat backoff),
      (''repair_consumed'', JBool False), (''decision_recorded'', JBool False),
      (''raw_error_present'', JBool False)]"

definition finalize_review_transport_failure ::
    "codec \<Rightarrow> review_execution_plan \<Rightarrow> review_transport_failure \<Rightarrow> nat \<Rightarrow> orchestrator
      \<Rightarrow> master_error + orchestrator \<times> nat" where
  "finalize_review_transport_failure cx plan failure now_ms s =
     bindE (review_backoff plan) (\<lambda>backoff.
     bindE (ok_or ReviewGatewayUnavailable (checked_add_u64 now_ms backoff)) (\<lambda>retry.
     bindE (validate_started_review_call_tx cx plan (os_gates s)) (\<lambda>_.
     bindE (insert_review_outcome
       (review_outcome_of plan (transport_failure_text failure)
          (sha256 cx (''assemblywright.review-transport-failure.v1'' @ [CHR 0x00]
             @ transport_failure_text failure @ uuid_bytes (rq_review_call_id (rx_request plan))))
          (Some retry) now_ms) (os_gates s)) (\<lambda>g.
     bindE (audit_os cx ''feature_review_transport_failed'' (Some (rq_feature_id (rx_request plan))) now_ms
       (transport_failure_metadata cx plan failure backoff) (s\<lparr>os_gates := g\<rparr>)) (\<lambda>s1.
     Inr (s1, retry))))))"

definition interrupted_metadata :: "codec \<Rightarrow> review_execution_plan \<Rightarrow> bool \<Rightarrow> json" where
  "interrupted_metadata cx plan quarantined = JObject
     [(''review_call_id'', JString (uuid_text cx (rq_review_call_id (rx_request plan)))),
      (''candidate_attempt'', json_nat (rx_candidate_attempt plan)),
      (''feature_call'', json_nat (rx_feature_call plan)), (''outcome_recorded'', JBool True),
      (''quarantined'', JBool quarantined), (''effect_possible'', JBool True),
      (''automatic_retry_authorized'', JBool False), (''raw_error_present'', JBool False)]"

text \<open>
  The feature is quarantined when it is still reviewing at the revision of the call; when it has moved on,
  the outcome alone is recorded.
\<close>

definition finalize_interrupted_review_call ::
    "codec \<Rightarrow> review_execution_plan \<Rightarrow> nat \<Rightarrow> orchestrator \<Rightarrow> master_error + orchestrator" where
  "finalize_interrupted_review_call cx plan now_ms s =
     (let r = rx_request plan; k = os_kernel s; expected = rq_expected_lifecycle_revision r;
          mine = (\<lambda>f. ft_feature_id f = rq_feature_id r \<and> ft_status f = FReviewing
                    \<and> ft_lifecycle_revision f = expected);
          quarantined = exists_row mine (k_features k) in
      bindE (validate_started_review_call_tx cx plan (os_gates s)) (\<lambda>_.
      bindE (insert_review_outcome
        (review_outcome_of plan ''interrupted''
           (sha256 cx (''assemblywright.review-interrupted.v1'' @ [CHR 0x00]
              @ uuid_bytes (rq_review_call_id r))) None now_ms) (os_gates s)) (\<lambda>g.
      bindE (ok_or ReviewGatewayUnavailable (checked_add_u64 expected 1)) (\<lambda>next.
      bindE (to_i64 next) (\<lambda>_.
      bindE (to_i64 expected) (\<lambda>_.
      bindE (write_features mine
        (\<lambda>f. f\<lparr>ft_status := FQuarantined, ft_lifecycle_revision := next, ft_effect_possible := True\<rparr>)
        now_ms k) (\<lambda>k1.
      bindE (if quarantined
             then insert_transition (bare_transition (rq_feature_id r) next FReviewing FQuarantined now_ms) k1
             else Inr k1) (\<lambda>k2.
      audit_os cx ''feature_review_interrupted'' (Some (rq_feature_id r)) now_ms
        (interrupted_metadata cx plan quarantined) (s\<lparr>os_kernel := k2, os_gates := g\<rparr>)))))))))"

section \<open>The decision\<close>

text \<open>An output speaks of exactly the packet, the requirements and the evidence of the plan.\<close>

definition review_output_exact :: "review_execution_plan \<Rightarrow> review_output \<Rightarrow> bool" where
  "review_output_exact plan out =
     (let r = rx_request plan; evidence = set (rx_evidence_digests plan); ids = rx_requirement_ids plan in
      rv_review_packet_sha256 out = rq_review_packet_sha256 r
      \<and> rv_provider_id out = rq_provider_id r \<and> rv_model_id out = rq_model_id r
      \<and> rv_evidence_digests out = rx_evidence_digests plan
      \<and> map cv_requirement_id (rv_requirement_coverage out) = ids
      \<and> list_all (\<lambda>f. fg_requirement_id f \<in> set ids \<and> fg_evidence_sha256 f \<in> evidence)
          (rv_blocking_findings out @ rv_non_blocking_findings out)
      \<and> list_all (\<lambda>c. cv_evidence_sha256 c \<in> evidence) (rv_requirement_coverage out)
      \<and> rv_knowledge_base_evidence_sha256 out \<in> evidence)"

definition decision_sha256 :: "codec \<Rightarrow> review_output \<Rightarrow> digest" where
  "decision_sha256 cx out = sha256 cx (canonical_json cx (review_output_json out))"

definition same_review_plan :: "review_execution_plan \<Rightarrow> review_execution_plan \<Rightarrow> bool" where
  "same_review_plan current plan =
     (rx_request current = rx_request plan \<and> rx_candidate current = rx_candidate plan
      \<and> rx_approved_specification_sha256 current = rx_approved_specification_sha256 plan
      \<and> rx_requirements_sha256 current = rx_requirements_sha256 plan
      \<and> rx_evidence_digests current = rx_evidence_digests plan)"

text \<open>The \<^verbatim>\<open>INSERT\<close> of a decision: one for each call and one for each candidate of a feature.\<close>

definition insert_review_decision :: "review_decision_row \<Rightarrow> gate_tables \<Rightarrow> master_error + gate_tables" where
  "insert_review_decision d g =
     bindE (to_i64 (rd_lifecycle_revision d)) (\<lambda>_.
     bindE (to_i64 (rd_decided_at_ms d)) (\<lambda>_.
     bindE (reject_if Storage
       (text_length (rd_candidate_commit d) \<noteq> 40 \<or> length (rd_structured_result_json d) < 2
        \<or> length (rd_structured_result_json d) > 65536 \<or> rd_lifecycle_revision d = 0
        \<or> rd_decided_at_ms d = 0
        \<or> exists_row (\<lambda>e. rd_review_call_id e = rd_review_call_id d
            \<or> rd_feature_id e = rd_feature_id d \<and> rd_candidate_commit e = rd_candidate_commit d)
            (tb_review_decisions g))) (\<lambda>_.
     Inr (g\<lparr>tb_review_decisions := insert_row d (tb_review_decisions g)\<rparr>))))"

definition review_decision_of ::
    "codec \<Rightarrow> review_execution_plan \<Rightarrow> review_output \<Rightarrow> nat \<Rightarrow> nat \<Rightarrow> review_decision_row" where
  "review_decision_of cx plan out lifecycle now_ms =
     \<lparr>rd_review_call_id = rq_review_call_id (rx_request plan), rd_feature_id = rq_feature_id (rx_request plan),
      rd_candidate_commit = rq_candidate_commit (rx_request plan),
      rd_decision = (if rv_decision out = VerdictApproved then ''approved'' else ''rejected''),
      rd_decision_sha256 = decision_sha256 cx out,
      rd_structured_result_json = canonical_json cx (review_output_json out),
      rd_lifecycle_revision = lifecycle, rd_decided_at_ms = now_ms\<rparr>"

definition review_decided_metadata :: "codec \<Rightarrow> review_execution_plan \<Rightarrow> review_output \<Rightarrow> json" where
  "review_decided_metadata cx plan out =
     (let approved = (rv_decision out = VerdictApproved) in JObject
     [(''review_call_id'', JString (uuid_text cx (rq_review_call_id (rx_request plan)))),
      (''candidate_attempt'', json_nat (rx_candidate_attempt plan)),
      (''feature_call'', json_nat (rx_feature_call plan)), (''decision_digest_present'', JBool True),
      (''blocking_finding_count'', json_nat (length (rv_blocking_findings out))),
      (''non_blocking_finding_count'', json_nat (length (rv_non_blocking_findings out))),
      (''requirement_coverage_count'', json_nat (length (rv_requirement_coverage out))),
      (''knowledge_base_determination_present'', JBool True), (''from_status'', JString ''reviewing''),
      (''to_status'', JString (if approved then ''publishing'' else ''reviewing'')),
      (''lifecycle_advanced'', JBool approved), (''repair_consumed'', JBool False),
      (''raw_provider_output_present'', JBool False), (''transcript_present'', JBool False),
      (''memory_present'', JBool False)])"

definition commit_review_decision ::
    "codec \<Rightarrow> review_execution_plan \<Rightarrow> review_output \<Rightarrow> nat \<Rightarrow> orchestrator
      \<Rightarrow> master_error + orchestrator \<times> review_receipt" where
  "commit_review_decision cx plan out now_ms s =
     (let r = rx_request plan; approved = (rv_decision out = VerdictApproved);
          expected = rq_expected_lifecycle_revision r; digest = decision_sha256 cx out in
      bindE (if approved then ok_or ReviewGatewayUnavailable (checked_add_u64 expected 1)
             else Inr expected) (\<lambda>lifecycle.
      bindE (insert_review_outcome (review_outcome_of plan ''decision'' digest None now_ms) (os_gates s)) (\<lambda>g1.
      bindE (insert_review_decision (review_decision_of cx plan out lifecycle now_ms) g1) (\<lambda>g2.
      bindE (if approved
             then bindE (advance_status ReviewGatewayUnavailable (rq_feature_id r) FReviewing expected
                    FPublishing lifecycle now_ms (os_kernel s)) (\<lambda>k1.
                  insert_transition ((bare_transition (rq_feature_id r) lifecycle FReviewing FPublishing now_ms)
                    \<lparr>tr_repository_snapshot_sha256 := Some (rq_candidate_diff_sha256 r),
                     tr_accepted_evidence_sha256 := Some digest\<rparr>) k1)
             else Inr (os_kernel s)) (\<lambda>k2.
      bindE (audit_os cx (if approved then ''feature_review_approved'' else ''feature_review_rejected'')
        (Some (rq_feature_id r)) now_ms (review_decided_metadata cx plan out)
        (s\<lparr>os_kernel := k2, os_gates := g2\<rparr>)) (\<lambda>s1.
      Inr (s1, review_gateway_receipt r (rx_candidate_attempt plan, rx_feature_call plan) lifecycle
             digest approved)))))))"

definition finalize_review_decision ::
    "codec \<Rightarrow> review_execution_plan \<Rightarrow> review_packet \<Rightarrow> review_output \<Rightarrow> nat \<Rightarrow> orchestrator
      \<Rightarrow> master_error + orchestrator \<times> review_receipt" where
  "finalize_review_decision cx plan packet out now_ms s =
     bindE (validate_review_packet_plan cx plan packet) (\<lambda>_.
     bindE (protocol_result (validate_review_output cx out)) (\<lambda>_.
     bindE (reject_if ReviewGatewayUnavailable (\<not> review_output_exact plan out)) (\<lambda>_.
     bindE (validate_started_review_call_tx cx plan (os_gates s)) (\<lambda>_.
     bindE (review_gateway_plan_tx cx (rx_request plan) now_ms s) (\<lambda>current.
     bindE (reject_if ReviewGatewayUnavailable (\<not> same_review_plan current plan)) (\<lambda>_.
     commit_review_decision cx plan out now_ms s))))))"

section \<open>The cancellation probe\<close>

definition review_gateway_execution_is_current ::
    "codec \<Rightarrow> review_request \<Rightarrow> nat \<Rightarrow> orchestrator \<Rightarrow> master_error + bool" where
  "review_gateway_execution_is_current cx r now_ms s =
     (if \<not> is_ok (validate_review_request cx r) then Inr False
      else
        bindE (protocol_result (review_request_binding_sha256 cx r)) (\<lambda>binding.
        if \<not> exists_row (\<lambda>c. rc_review_call_id c = rq_review_call_id r \<and> rc_request_binding_sha256 c = binding
               \<and> \<not> exists_row (\<lambda>q. ro_review_call_id q = rc_review_call_id c) (tb_review_outcomes (os_gates s)))
             (tb_review_calls (os_gates s))
        then Inr False
        else current_unless_corrupt (review_gateway_plan_tx cx r now_ms s)))"

end
