(* ===== verification/Gate_Publication.thy ===== *)
theory Gate_Publication
  imports Gate_Review
begin

text \<open>
  The publication coordinator (\<^verbatim>\<open>assemblywright-master/src/lib.rs\<close>): \<^verbatim>\<open>publication_plan_tx\<close>, which
  compares every stored authority with the request; \<^verbatim>\<open>begin_publication\<close>, which opens the journal of the
  seven actions with the intent to push; \<^verbatim>\<open>complete_publication_action\<close>, which records the outcome of the
  open action and the intent of the next, moves the feature at the merge and, after the last action,
  releases it; and \<^verbatim>\<open>quarantine_ambiguous_publication\<close>. The actions themselves run outside the kernel:
  their sealed evidence is an argument.
\<close>

section \<open>The branch policy\<close>

definition valid_publication_token :: "string \<Rightarrow> nat \<Rightarrow> bool" where
  "valid_publication_token value maximum =
     (value \<noteq> [] \<and> length value \<le> maximum \<and> trim value = value \<and> list_all is_check_byte value
      \<and> \<not> contains_str ''..'' value \<and> \<not> starts_with ''/'' value \<and> \<not> ends_with ''/'' value)"

definition feature_branch_of :: "codec \<Rightarrow> uuid \<Rightarrow> string" where
  "feature_branch_of cx feature = ''assemblywright-'' @ uuid_text cx feature"

definition branch_policy_json ::
    "codec \<Rightarrow> uuid \<Rightarrow> uuid \<Rightarrow> string \<Rightarrow> string list \<Rightarrow> string \<Rightarrow> string \<Rightarrow> json" where
  "branch_policy_json cx repository feature base_branch checks merge_strategy post_merge_gate = JObject
     [(''repository_id'', JString (uuid_text cx repository)),
      (''feature_branch'', JString (feature_branch_of cx feature)), (''base_branch'', JString base_branch),
      (''required_checks'', JArray (map JString checks)), (''merge_strategy'', JString merge_strategy),
      (''post_merge_gate'', JString post_merge_gate), (''branch_protection_required'', JBool True),
      (''bypass_allowed'', JBool False)]"

definition publication_branch_policy_sha256 ::
    "codec \<Rightarrow> uuid \<Rightarrow> uuid \<Rightarrow> string \<Rightarrow> string list \<Rightarrow> string \<Rightarrow> string \<Rightarrow> master_error + digest" where
  "publication_branch_policy_sha256 cx repository feature base_branch checks merge_strategy post_merge_gate =
     bindE (reject_if PublicationCoordinatorUnavailable
       (repository = 0 \<or> feature = 0 \<or> \<not> valid_publication_token base_branch 255 \<or> checks = []
        \<or> length checks > MAX_FEATURE_CONVEYOR_PUBLICATION_CHECKS
        \<or> list_ex (\<lambda>check. \<not> valid_publication_token check 128) checks
        \<or> merge_strategy \<notin> set MERGE_STRATEGIES \<or> post_merge_gate \<noteq> ''release-local'')) (\<lambda>_.
     (let sorted = remdups_adj (sort checks) in
      bindE (reject_if PublicationCoordinatorUnavailable (length sorted \<noteq> length checks)) (\<lambda>_.
      (let canonical = canonical_json cx
             (branch_policy_json cx repository feature base_branch sorted merge_strategy post_merge_gate) in
       Inr (sha256 cx (''assemblywright.publication-branch-policy.v1'' @ [CHR 0x00]
         @ be_bytes 8 (length canonical) @ canonical))))))"

section \<open>The plan\<close>

record publication_execution_plan =
  px_request :: publication_request
  px_repository_id :: uuid
  px_feature_branch :: string
  px_base_branch :: string
  px_required_checks :: "string list"
  px_merge_strategy :: string
  px_post_merge_gate :: string

datatype publication_authorization =
    PublicationExisting publication_receipt
  | PublicationPlanned publication_execution_plan

definition publication_lifecycle_matches :: "publication_request \<Rightarrow> feature_status \<times> nat \<Rightarrow> bool" where
  "publication_lifecycle_matches r current =
     (case current of (status, revision) \<Rightarrow>
        status = FPublishing \<and> revision = pq_expected_lifecycle_revision r
        \<or> status = FVerifyingMain
          \<and> checked_add_u64 (pq_expected_lifecycle_revision r) 1 = Some revision)"

text \<open>The specification, the integration, the validation, the call and its decision, joined.\<close>

definition publication_join ::
    "publication_request \<Rightarrow> orchestrator
      \<Rightarrow> (specification_row \<times> integration_row \<times> validation_completion_row \<times> review_call_row
          \<times> review_decision_row) option" where
  "publication_join r s =
     (let k = os_kernel s; g = os_gates s in
      Option.bind (find_specification (pq_feature_id r) (pq_specification_revision r) k) (\<lambda>p.
      Option.bind (find_integration (pq_integration_id r) g) (\<lambda>i.
      Option.bind (load_validation_completion_tx (pq_validation_id r) g) (\<lambda>v.
      Option.bind (find_row (\<lambda>c. rc_review_call_id c = pq_review_call_id r) (tb_review_calls g)) (\<lambda>c.
      Option.bind (find_row (\<lambda>d. rd_review_call_id d = rc_review_call_id c) (tb_review_decisions g)) (\<lambda>d.
      if ig_feature_id i = sp_feature_id p \<and> ig_specification_revision i = sp_revision p
         \<and> vc_validation_id v = rc_validation_id c \<and> rc_integration_id c = ig_integration_id i
         \<and> rc_feature_id c = sp_feature_id p
      then Some (p, i, v, c, d) else None))))))"

definition publication_join_exact ::
    "publication_request
      \<Rightarrow> specification_row \<times> integration_row \<times> validation_completion_row \<times> review_call_row \<times> review_decision_row
      \<Rightarrow> bool" where
  "publication_join_exact r j =
     (case j of (p, i, v, c, d) \<Rightarrow>
        sp_provider_id p = pq_provider_id r \<and> sp_model_id p = pq_model_id r \<and> sp_grants p = pq_grants r
        \<and> ig_feature_lease_id i = pq_feature_lease_id r \<and> ig_candidate_commit i = pq_candidate_commit r
        \<and> ig_candidate_tree i = pq_candidate_tree r \<and> ig_base_commit i = pq_remote_base_commit r
        \<and> vc_evidence_manifest_sha256 v = pq_evidence_manifest_sha256 r
        \<and> rc_candidate_diff_sha256 c = pq_candidate_diff_sha256 r \<and> rd_decision d = ''approved''
        \<and> rd_decision_sha256 d = pq_review_decision_sha256 r
        \<and> rd_lifecycle_revision d = pq_expected_lifecycle_revision r)"

text \<open>What the approved specification says of its publication.\<close>

definition publication_terms ::
    "review_safe_manifest \<Rightarrow> master_error + string \<times> string \<times> string \<times> string list" where
  "publication_terms m =
     (let unavailable = PublicationCoordinatorUnavailable;
          keep = (\<lambda>p v. case v of None \<Rightarrow> None | Some text \<Rightarrow> if p text then Some text else None) in
      bindE (ok_or unavailable (keep (\<lambda>text. valid_publication_token text 255) (mf_base_branch m))) (\<lambda>base_branch.
      bindE (ok_or unavailable (keep (\<lambda>text. text \<in> set MERGE_STRATEGIES) (mf_merge_strategy m))) (\<lambda>merge_strategy.
      bindE (ok_or unavailable (keep (\<lambda>text. text = ''release-local'') (mf_post_merge_gate m))) (\<lambda>post_merge_gate.
      bindE (reject_if unavailable
        (mf_publication_checks m = []
         \<or> length (mf_publication_checks m) > MAX_FEATURE_CONVEYOR_PUBLICATION_CHECKS
         \<or> list_ex (\<lambda>check. \<not> valid_publication_token check 128) (mf_publication_checks m))) (\<lambda>_.
      (let checks = remdups_adj (sort (mf_publication_checks m)) in
       bindE (reject_if unavailable (length checks \<noteq> length (mf_publication_checks m))) (\<lambda>_.
       Inr (base_branch, merge_strategy, post_merge_gate, checks))))))))"

definition publication_plan_tx ::
    "codec \<Rightarrow> publication_request \<Rightarrow> nat \<Rightarrow> orchestrator \<Rightarrow> master_error + publication_execution_plan" where
  "publication_plan_tx cx r now_ms s =
     (let k = os_kernel s; feature = pq_feature_id r; unavailable = PublicationCoordinatorUnavailable in
      bindE (protocol_result (validate_publication_request cx r)) (\<lambda>_.
      bindE (require_gate_authority (pq_expected_emergency_pause_revision r) (pq_expected_queue_revision r)
        feature now_ms k) (\<lambda>_.
      bindE (feature_status_and_revision_tx feature k) (\<lambda>current.
      bindE (reject_if unavailable (\<not> publication_lifecycle_matches r current)) (\<lambda>_.
      bindE (ok_or Storage (k_active_lease k)) (\<lambda>l.
      bindE (reject_if unavailable (fl_lease_id l \<noteq> pq_feature_lease_id r)) (\<lambda>_.
      bindE (to_i64 (pq_specification_revision r)) (\<lambda>_.
      bindE (ok_or unavailable (publication_join r s)) (\<lambda>j.
      bindE (reject_if unavailable (\<not> publication_join_exact r j)) (\<lambda>_.
      bindE (parse_stored_json cx (sp_canonical_manifest (fst j))) (\<lambda>manifest.
      bindE (map_err (\<lambda>_. unavailable) (validate_review_safe_manifest_schema manifest)) (\<lambda>_.
      bindE (validate_review_disclosure_value manifest) (\<lambda>_.
      bindE (map_err (\<lambda>_. unavailable)
        (case manifest of JObject members \<Rightarrow> de_manifest members | _ \<Rightarrow> Inl schema_error)) (\<lambda>m.
      bindE (publication_terms m) (\<lambda>(base_branch, merge_strategy, post_merge_gate, checks).
      bindE (publication_branch_policy_sha256 cx (sp_repository_id (fst j)) feature base_branch checks
        merge_strategy post_merge_gate) (\<lambda>policy.
      bindE (reject_if unavailable (policy \<noteq> pq_branch_policy_sha256 r)) (\<lambda>_.
      Inr \<lparr>px_request = r, px_repository_id = sp_repository_id (fst j),
           px_feature_branch = feature_branch_of cx feature, px_base_branch = base_branch,
           px_required_checks = checks, px_merge_strategy = merge_strategy,
           px_post_merge_gate = post_merge_gate\<rparr>)))))))))))))))))"

section \<open>Receipts\<close>

definition publication_receipt_of :: "publication_request \<Rightarrow> nat \<Rightarrow> nat \<Rightarrow> string \<Rightarrow> string \<Rightarrow> digest \<Rightarrow> publication_receipt" where
  "publication_receipt_of r lifecycle_revision queue_revision merge_commit main_commit evidence =
     \<lparr>pk_schema_version = FEATURE_CONVEYOR_PUBLICATION_COORDINATOR_SCHEMA_VERSION,
      pk_publication_id = pq_publication_id r, pk_feature_id = pq_feature_id r,
      pk_specification_revision = pq_specification_revision r, pk_lifecycle_revision = lifecycle_revision,
      pk_candidate_commit = pq_candidate_commit r, pk_merge_commit = merge_commit,
      pk_remote_main_commit = main_commit, pk_post_merge_evidence_sha256 = evidence,
      pk_branch_policy_sha256 = pq_branch_policy_sha256 r, pk_queue_revision = queue_revision,
      pk_emergency_pause_revision = pq_expected_emergency_pause_revision r, pk_grants = pq_grants r,
      pk_status = PublicationSucceeded\<rparr>"

definition load_publication_receipt_tx ::
    "publication_request \<Rightarrow> gate_tables \<Rightarrow> master_error + publication_receipt option" where
  "load_publication_receipt_tx r g =
     (case find_row (\<lambda>c. pc_publication_id c = pq_publication_id r) (tb_publication_completions g) of
        None \<Rightarrow> Inr None
      | Some c \<Rightarrow>
          if pc_merge_commit c \<noteq> pc_remote_main_commit c
          then Inl (InvalidStoredState ''publication main reconciliation is inconsistent'')
          else Inr (Some (publication_receipt_of r (pc_lifecycle_revision c) (pc_queue_revision c)
                 (pc_merge_commit c) (pc_remote_main_commit c) (pc_post_merge_evidence_sha256 c))))"

section \<open>Opening a publication\<close>

definition prepare_publication ::
    "codec \<Rightarrow> publication_request \<Rightarrow> nat \<Rightarrow> orchestrator \<Rightarrow> master_error + publication_authorization" where
  "prepare_publication cx r now_ms s =
     bindE (protocol_result (validate_publication_request cx r)) (\<lambda>_.
     bindE (protocol_result (publication_request_binding_sha256 cx r)) (\<lambda>binding.
     case find_row (\<lambda>p. pb_publication_id p = pq_publication_id r) (k_publications (os_kernel s)) of
       Some p \<Rightarrow>
         bindE (reject_if PublicationCoordinatorUnavailable (pb_request_binding_sha256 p \<noteq> binding)) (\<lambda>_.
         bindE (load_publication_receipt_tx r (os_gates s)) (\<lambda>receipt.
         case receipt of
           Some receipt \<Rightarrow> Inr (PublicationExisting receipt)
         | None \<Rightarrow> Inl PublicationEffectAmbiguous))
     | None \<Rightarrow>
         bindE (publication_plan_tx cx r now_ms s) (\<lambda>plan. Inr (PublicationPlanned plan))))"

definition publication_row_of ::
    "publication_execution_plan \<Rightarrow> digest \<Rightarrow> nat \<Rightarrow> publication_row" where
  "publication_row_of plan binding now_ms =
     (let r = px_request plan in
      \<lparr>pb_publication_id = pq_publication_id r, pb_feature_id = pq_feature_id r,
       pb_specification_revision = pq_specification_revision r,
       pb_lifecycle_revision = pq_expected_lifecycle_revision r, pb_feature_lease_id = pq_feature_lease_id r,
       pb_integration_id = pq_integration_id r, pb_validation_id = pq_validation_id r,
       pb_review_call_id = pq_review_call_id r, pb_candidate_commit = pq_candidate_commit r,
       pb_candidate_tree = pq_candidate_tree r, pb_candidate_diff_sha256 = pq_candidate_diff_sha256 r,
       pb_evidence_manifest_sha256 = pq_evidence_manifest_sha256 r,
       pb_review_decision_sha256 = pq_review_decision_sha256 r, pb_provider_id = pq_provider_id r,
       pb_model_id = pq_model_id r, pb_repository_id = px_repository_id plan,
       pb_feature_branch = px_feature_branch plan, pb_base_branch = px_base_branch plan,
       pb_remote_base_commit = pq_remote_base_commit r, pb_branch_policy_sha256 = pq_branch_policy_sha256 r,
       pb_required_checks = px_required_checks plan, pb_merge_strategy = px_merge_strategy plan,
       pb_post_merge_gate = px_post_merge_gate plan, pb_queue_revision = pq_expected_queue_revision r,
       pb_emergency_pause_revision = pq_expected_emergency_pause_revision r, pb_grants = pq_grants r,
       pb_request_binding_sha256 = binding, pb_started_at_ms = now_ms\<rparr>)"

definition stored_checks_json :: "codec \<Rightarrow> string list \<Rightarrow> string" where
  "stored_checks_json cx checks = compact_json_bytes (quote_json cx) (JArray (map JString checks))"

definition insert_publication :: "codec \<Rightarrow> publication_row \<Rightarrow> kernel \<Rightarrow> master_error + kernel" where
  "insert_publication cx p k =
     bindE (to_i64 (pb_specification_revision p)) (\<lambda>_.
     bindE (to_i64 (pb_lifecycle_revision p)) (\<lambda>_.
     bindE (to_i64 (pb_queue_revision p)) (\<lambda>_.
     bindE (to_i64 (pb_emergency_pause_revision p)) (\<lambda>_.
     bindE (to_i64 (gr_registration (pb_grants p))) (\<lambda>_.
     bindE (to_i64 (gr_cloud_disclosure (pb_grants p))) (\<lambda>_.
     bindE (to_i64 (gr_autonomous_publication (pb_grants p))) (\<lambda>_.
     bindE (to_i64 (pb_started_at_ms p)) (\<lambda>_.
     bindE (reject_if Storage
       (text_length (pb_candidate_commit p) \<noteq> 40 \<or> text_length (pb_candidate_tree p) \<noteq> 40
        \<or> text_length (pb_remote_base_commit p) \<noteq> 40
        \<or> text_length (pb_provider_id p) < 1 \<or> text_length (pb_provider_id p) > 128
        \<or> text_length (pb_model_id p) < 1 \<or> text_length (pb_model_id p) > 128
        \<or> text_length (pb_feature_branch p) < 1 \<or> text_length (pb_feature_branch p) > 255
        \<or> text_length (pb_base_branch p) < 1 \<or> text_length (pb_base_branch p) > 255
        \<or> text_length (stored_checks_json cx (pb_required_checks p)) < 2
        \<or> text_length (stored_checks_json cx (pb_required_checks p)) > 8192 \<or> pb_started_at_ms p = 0
        \<or> exists_row (\<lambda>q. pb_publication_id q = pb_publication_id p
            \<or> pb_feature_id q = pb_feature_id p \<and> pb_candidate_commit q = pb_candidate_commit p)
            (k_publications k))) (\<lambda>_.
     Inr (k\<lparr>k_publications := insert_row p (k_publications k)\<rparr>))))))))))"

definition insert_publication_action_intent_tx ::
    "codec \<Rightarrow> uuid \<Rightarrow> publication_action \<Rightarrow> nat \<Rightarrow> nat \<Rightarrow> kernel \<Rightarrow> master_error + kernel" where
  "insert_publication_action_intent_tx cx publication action ordinal now_ms k =
     bindE (to_i64 ordinal) (\<lambda>_.
     bindE (to_i64 now_ms) (\<lambda>_.
     bindE (reject_if Storage
       (ordinal < 1 \<or> ordinal > 7 \<or> now_ms = 0
        \<or> exists_row (\<lambda>i. pi_publication_id i = publication
              \<and> (pi_ordinal i = ordinal \<or> pi_action_kind i = action)) (k_publication_intents k))) (\<lambda>_.
     Inr (k\<lparr>k_publication_intents := insert_row
       \<lparr>pi_publication_id = publication, pi_ordinal = ordinal, pi_action_kind = action,
        pi_intent_sha256 = sha256 cx (''assemblywright.publication-action-intent.v1'' @ [CHR 0x00]
          @ uuid_bytes publication @ be_bytes 8 ordinal @ publication_action_text action),
        pi_created_at_ms = now_ms\<rparr> (k_publication_intents k)\<rparr>))))"

definition publication_started_metadata :: "codec \<Rightarrow> publication_request \<Rightarrow> json" where
  "publication_started_metadata cx r = JObject
     [(''publication_id'', JString (uuid_text cx (pq_publication_id r))),
      (''candidate_digest_present'', JBool True), (''branch_policy_digest_present'', JBool True),
      (''remote_base_digest_present'', JBool True), (''action'', JString ''push_branch''),
      (''intent_durable'', JBool True), (''branch_protection_bypass_authorized'', JBool False),
      (''credential_present'', JBool False), (''path_present'', JBool False), (''command_present'', JBool False)]"

definition begin_publication ::
    "codec \<Rightarrow> publication_execution_plan \<Rightarrow> nat \<Rightarrow> orchestrator \<Rightarrow> master_error + orchestrator" where
  "begin_publication cx plan now_ms s =
     (let r = px_request plan in
      bindE (publication_plan_tx cx r now_ms s) (\<lambda>current.
      bindE (reject_if PublicationCoordinatorUnavailable (current \<noteq> plan)) (\<lambda>_.
      bindE (protocol_result (publication_request_binding_sha256 cx r)) (\<lambda>binding.
      bindE (insert_publication cx (publication_row_of plan binding now_ms) (os_kernel s)) (\<lambda>k1.
      bindE (insert_publication_action_intent_tx cx (pq_publication_id r) PushBranch 1 now_ms k1) (\<lambda>k2.
      audit_os cx ''feature_publication_started'' (Some (pq_feature_id r)) now_ms
        (publication_started_metadata cx r) (s\<lparr>os_kernel := k2\<rparr>)))))))"

section \<open>Completing an action\<close>

text \<open>The open intent with the least ordinal.\<close>

definition open_intents :: "uuid \<Rightarrow> orchestrator \<Rightarrow> publication_intent_row list" where
  "open_intents publication s =
     filter (\<lambda>i. pi_publication_id i = publication
         \<and> \<not> exists_row (\<lambda>q. po_publication_id q = pi_publication_id i \<and> po_ordinal q = pi_ordinal i)
             (tb_publication_outcomes (os_gates s))) (k_publication_intents (os_kernel s))"

definition next_publication_action_tx :: "uuid \<Rightarrow> orchestrator \<Rightarrow> publication_action option" where
  "next_publication_action_tx publication s =
     (case sort_key pi_ordinal (open_intents publication s) of [] \<Rightarrow> None | i # _ \<Rightarrow> Some (pi_action_kind i))"

definition publication_execution_is_current ::
    "codec \<Rightarrow> publication_request \<Rightarrow> publication_action \<Rightarrow> nat \<Rightarrow> orchestrator \<Rightarrow> bool" where
  "publication_execution_is_current cx r action now_ms s =
     (is_ok (validate_publication_request cx r) \<and> is_ok (publication_plan_tx cx r now_ms s)
      \<and> next_publication_action_tx (pq_publication_id r) s = Some action)"

text \<open>The evidence speaks of exactly the plan: its checks, its merge strategy and its post-merge gate.\<close>

definition evidence_matches_plan :: "digest \<Rightarrow> publication_execution_plan \<Rightarrow> publication_evidence \<Rightarrow> bool" where
  "evidence_matches_plan checks plan e =
     (let r = px_request plan; action = pe_action e;
          checks_expected = (action \<notin> {PushBranch, UpsertPullRequest});
          merge_expected = (action \<in> {MergePullRequest, ReconcileRemoteMain, RunPostMergeGate}) in
      pe_publication_id e = pq_publication_id r \<and> pe_remote_base_commit e = pq_remote_base_commit r
      \<and> pe_candidate_commit e = pq_candidate_commit r \<and> pe_feature_branch e = px_feature_branch plan
      \<and> pe_base_branch e = px_base_branch plan
      \<and> (if checks_expected
         then pe_required_checks_sha256 e = Some checks
              \<and> pe_required_check_count e = length (px_required_checks plan) \<and> pe_required_checks_passed e
         else pe_required_checks_sha256 e = None \<and> pe_required_check_count e = 0
              \<and> \<not> pe_required_checks_passed e)
      \<and> pe_merge_strategy e = (if merge_expected then Some (px_merge_strategy plan) else None)
      \<and> (if action = RunPostMergeGate
         then pe_post_merge_gate_id e = Some (px_post_merge_gate plan) \<and> pe_post_merge_gate_passed e
         else pe_post_merge_gate_id e = None \<and> \<not> pe_post_merge_gate_passed e))"

definition validate_publication_action_evidence ::
    "codec \<Rightarrow> publication_execution_plan \<Rightarrow> publication_evidence \<Rightarrow> master_error + unit" where
  "validate_publication_action_evidence cx plan e =
     bindE (protocol_result (validate_publication_evidence cx e)) (\<lambda>_.
     bindE (protocol_result (required_checks_sha256 cx (px_required_checks plan))) (\<lambda>checks.
     bindE (reject_if PublicationCoordinatorUnavailable (\<not> evidence_matches_plan checks plan e)) (\<lambda>_.
     reject_if PublicationCoordinatorUnavailable
       (pe_action e \<in> {PushBranch, UpsertPullRequest, ObserveRequiredChecks, VerifyPullRequestHead,
            MergePullRequest}
        \<and> pe_observed_head_commit e \<noteq> pq_candidate_commit (px_request plan)))))"

definition action_outcome ::
    "uuid \<Rightarrow> publication_action \<Rightarrow> gate_tables \<Rightarrow> publication_outcome_row option" where
  "action_outcome publication action g =
     find_row (\<lambda>q. po_publication_id q = publication \<and> po_action_kind q = action) (tb_publication_outcomes g)"

definition passed_outcome ::
    "uuid \<Rightarrow> publication_action \<Rightarrow> gate_tables \<Rightarrow> publication_outcome_row option" where
  "passed_outcome publication action g =
     find_row (\<lambda>q. po_publication_id q = publication \<and> po_action_kind q = action \<and> po_passed q)
       (tb_publication_outcomes g)"

text \<open>A missing row or a \<^verbatim>\<open>NULL\<close> is a storage error.\<close>

definition merged_commit :: "uuid \<Rightarrow> gate_tables \<Rightarrow> master_error + string" where
  "merged_commit publication g =
     ok_or Storage (Option.bind (passed_outcome publication MergePullRequest g) po_merge_commit)"

definition validate_publication_action_evidence_tx ::
    "publication_execution_plan \<Rightarrow> publication_evidence \<Rightarrow> gate_tables \<Rightarrow> master_error + unit" where
  "validate_publication_action_evidence_tx plan e g =
     (let publication = pq_publication_id (px_request plan) in
      bindE (if pe_action e \<in> {ObserveRequiredChecks, VerifyPullRequestHead, MergePullRequest}
             then bindE (ok_or Storage
                    (Option.bind (action_outcome publication UpsertPullRequest g) po_pull_request_number)) (\<lambda>number.
                  bindE (case pe_pull_request_number e of None \<Rightarrow> Inr () | Some n \<Rightarrow> to_i64 n) (\<lambda>_.
                  reject_if PublicationCoordinatorUnavailable (pe_pull_request_number e \<noteq> Some number)))
             else Inr ()) (\<lambda>_.
      if pe_action e \<in> {ReconcileRemoteMain, RunPostMergeGate}
      then bindE (merged_commit publication g) (\<lambda>commit.
           reject_if PublicationCoordinatorUnavailable
             (pe_observed_head_commit e \<noteq> commit \<or> pe_resulting_main_commit e \<noteq> Some commit))
      else Inr ()))"

definition publication_merge_commit_tx :: "uuid \<Rightarrow> gate_tables \<Rightarrow> master_error + string" where
  "publication_merge_commit_tx publication g =
     bindE (merged_commit publication g) (\<lambda>merge_commit.
     bindE (ok_or Storage (passed_outcome publication ReconcileRemoteMain g)) (\<lambda>remote_main.
     bindE (ok_or Storage (passed_outcome publication RunPostMergeGate g)) (\<lambda>post_merge.
     bindE (reject_if PublicationCoordinatorUnavailable
       (merge_commit \<noteq> po_observed_commit remote_main \<or> merge_commit \<noteq> po_observed_commit post_merge)) (\<lambda>_.
     Inr merge_commit))))"

definition publication_outcome_of ::
    "codec \<Rightarrow> publication_evidence \<Rightarrow> nat \<Rightarrow> nat \<Rightarrow> publication_outcome_row" where
  "publication_outcome_of cx e ordinal now_ms =
     \<lparr>po_publication_id = pe_publication_id e, po_ordinal = ordinal, po_action_kind = pe_action e,
      po_evidence_sha256 = pe_evidence_sha256 e, po_pull_request_number = pe_pull_request_number e,
      po_observed_commit = pe_observed_head_commit e, po_merge_commit = pe_resulting_main_commit e,
      po_passed = True,
      po_structured_evidence_json =
        compact_json_bytes (quote_json cx) (publication_evidence_json cx e),
      po_completed_at_ms = now_ms\<rparr>"

definition insert_publication_outcome ::
    "publication_outcome_row \<Rightarrow> orchestrator \<Rightarrow> master_error + gate_tables" where
  "insert_publication_outcome q s =
     bindE (to_i64 (po_ordinal q)) (\<lambda>_.
     bindE (case po_pull_request_number q of None \<Rightarrow> Inr () | Some n \<Rightarrow> to_i64 n) (\<lambda>_.
     bindE (to_i64 (po_completed_at_ms q)) (\<lambda>_.
     bindE (reject_if Storage
       (po_pull_request_number q = Some 0 \<or> text_length (po_observed_commit q) \<noteq> 40
        \<or> (case po_merge_commit q of None \<Rightarrow> False | Some commit \<Rightarrow> text_length commit \<noteq> 40)
        \<or> length (po_structured_evidence_json q) < 2 \<or> length (po_structured_evidence_json q) > 32768
        \<or> po_completed_at_ms q = 0
        \<or> \<not> exists_row (\<lambda>i. pi_publication_id i = po_publication_id q \<and> pi_ordinal i = po_ordinal q)
            (k_publication_intents (os_kernel s))
        \<or> exists_row (\<lambda>o'. po_publication_id o' = po_publication_id q \<and> po_ordinal o' = po_ordinal q)
            (tb_publication_outcomes (os_gates s)))) (\<lambda>_.
     Inr ((os_gates s)\<lparr>tb_publication_outcomes := insert_row q (tb_publication_outcomes (os_gates s))\<rparr>)))))"

text \<open>The place of an action in the order, from one.\<close>

definition action_ordinal :: "publication_action \<Rightarrow> master_error + nat" where
  "action_ordinal action =
     ok_or PublicationCoordinatorUnavailable
       (map_option (\<lambda>(index, _). Suc index) (find_row (\<lambda>(_, a). a = action) (enumerate 0 ORDERED_ACTIONS)))"

definition next_ordered_action :: "nat \<Rightarrow> publication_action option" where
  "next_ordered_action ordinal =
     (if ordinal < length ORDERED_ACTIONS then Some (ORDERED_ACTIONS ! ordinal) else None)"

text \<open>The merge moves the feature from publishing to verifying main.\<close>

definition move_to_verifying ::
    "publication_request \<Rightarrow> publication_evidence \<Rightarrow> nat \<Rightarrow> kernel \<Rightarrow> master_error + kernel" where
  "move_to_verifying r e now_ms k =
     (let expected = pq_expected_lifecycle_revision r; unavailable = PublicationCoordinatorUnavailable in
      bindE (ok_or unavailable (checked_add_u64 expected 1)) (\<lambda>next.
      bindE (advance_status unavailable (pq_feature_id r) FPublishing expected FVerifyingMain next now_ms k) (\<lambda>k1.
      insert_transition ((bare_transition (pq_feature_id r) next FPublishing FVerifyingMain now_ms)
        \<lparr>tr_accepted_evidence_sha256 := Some (pe_evidence_sha256 e)\<rparr>) k1)))"

definition action_completed_metadata ::
    "codec \<Rightarrow> publication_request \<Rightarrow> publication_action \<Rightarrow> publication_action \<Rightarrow> json" where
  "action_completed_metadata cx r action next = JObject
     [(''publication_id'', JString (uuid_text cx (pq_publication_id r))),
      (''action'', JString (publication_action_text action)),
      (''action_evidence_digest_present'', JBool True),
      (''next_action'', JString (publication_action_text next)), (''next_intent_durable'', JBool True),
      (''external_output_present'', JBool False), (''branch_protection_bypass_authorized'', JBool False)]"

section \<open>Success\<close>

text \<open>\<^verbatim>\<open>UPDATE .. SET status = 'succeeded', effect_possible = 0 .. WHERE status = 'verifying_main'\<close>.\<close>

definition succeed_feature :: "uuid \<Rightarrow> nat \<Rightarrow> nat \<Rightarrow> kernel \<Rightarrow> master_error + kernel" where
  "succeed_feature feature final now_ms k =
     (let mine = (\<lambda>f. ft_feature_id f = feature \<and> ft_status f = FVerifyingMain
                    \<and> ft_lifecycle_revision f = final - 1) in
      bindE (to_i64 final) (\<lambda>_.
      bindE (write_features mine
        (\<lambda>f. f\<lparr>ft_status := FSucceeded, ft_lifecycle_revision := final, ft_effect_possible := False\<rparr>)
        now_ms k) (\<lambda>k1.
      bindE (reject_if PublicationCoordinatorUnavailable (count_rows mine (k_features k) \<noteq> 1)) (\<lambda>_.
      Inr k1))))"

definition insert_publication_completion ::
    "publication_completion_row \<Rightarrow> gate_tables \<Rightarrow> master_error + gate_tables" where
  "insert_publication_completion c g =
     bindE (to_i64 (pc_lifecycle_revision c)) (\<lambda>_.
     bindE (to_i64 (pc_queue_revision c)) (\<lambda>_.
     bindE (to_i64 (pc_completed_at_ms c)) (\<lambda>_.
     bindE (reject_if Storage
       (text_length (pc_merge_commit c) \<noteq> 40 \<or> pc_merge_commit c \<noteq> pc_remote_main_commit c
        \<or> pc_lifecycle_revision c = 0 \<or> pc_queue_revision c = 0 \<or> pc_completed_at_ms c = 0
        \<or> exists_row (\<lambda>d. pc_publication_id d = pc_publication_id c) (tb_publication_completions g))) (\<lambda>_.
     Inr (g\<lparr>tb_publication_completions := insert_row c (tb_publication_completions g)\<rparr>)))))"

definition publication_succeeded_metadata :: "codec \<Rightarrow> publication_request \<Rightarrow> nat \<Rightarrow> json" where
  "publication_succeeded_metadata cx r queue_revision = JObject
     [(''publication_id'', JString (uuid_text cx (pq_publication_id r))),
      (''from_status'', JString ''verifying_main''), (''to_status'', JString ''succeeded''),
      (''merge_commit_digest_present'', JBool True), (''remote_main_exact'', JBool True),
      (''post_merge_evidence_digest_present'', JBool True), (''lease_released'', JBool True),
      (''queue_revision'', json_nat queue_revision),
      (''branch_protection_bypass_authorized'', JBool False), (''credential_present'', JBool False),
      (''external_output_present'', JBool False)]"

definition finish_publication ::
    "codec \<Rightarrow> publication_request \<Rightarrow> publication_evidence \<Rightarrow> nat \<Rightarrow> orchestrator
      \<Rightarrow> master_error + orchestrator \<times> publication_receipt option" where
  "finish_publication cx r e now_ms s =
     (let feature = pq_feature_id r; unavailable = PublicationCoordinatorUnavailable in
      bindE (publication_merge_commit_tx (pq_publication_id r) (os_gates s)) (\<lambda>merge_commit.
      bindE (ok_or unavailable (checked_add_u64 (pq_expected_lifecycle_revision r) 2)) (\<lambda>final.
      bindE (succeed_feature feature final now_ms (os_kernel s)) (\<lambda>k1.
      bindE (insert_transition ((bare_transition feature final FVerifyingMain FSucceeded now_ms)
          \<lparr>tr_verified_main_commit_sha256 := Some (sha256 cx merge_commit),
           tr_post_merge_evidence_sha256 := Some (pe_evidence_sha256 e)\<rparr>) k1) (\<lambda>k2.
      bindE (increment_queue_revision_tx (pq_expected_queue_revision r) (release_lease feature k2)) (\<lambda>(k3, queue).
      bindE (insert_publication_completion
        \<lparr>pc_publication_id = pq_publication_id r, pc_merge_commit = merge_commit,
         pc_remote_main_commit = merge_commit, pc_post_merge_evidence_sha256 = pe_evidence_sha256 e,
         pc_lifecycle_revision = final, pc_queue_revision = queue, pc_completed_at_ms = now_ms\<rparr>
        (os_gates s)) (\<lambda>g.
      bindE (audit_os cx ''feature_publication_succeeded'' (Some feature) now_ms
        (publication_succeeded_metadata cx r queue) (s\<lparr>os_kernel := k3, os_gates := g\<rparr>)) (\<lambda>s1.
      Inr (s1, Some (publication_receipt_of r final queue merge_commit merge_commit
                       (pe_evidence_sha256 e)))))))))))"

definition complete_publication_action ::
    "codec \<Rightarrow> publication_execution_plan \<Rightarrow> publication_evidence \<Rightarrow> nat \<Rightarrow> orchestrator
      \<Rightarrow> master_error + orchestrator \<times> publication_receipt option" where
  "complete_publication_action cx plan e now_ms s =
     (let r = px_request plan; publication = pq_publication_id r in
      bindE (validate_publication_action_evidence cx plan e) (\<lambda>_.
      bindE (publication_plan_tx cx r now_ms s) (\<lambda>current.
      bindE (reject_if PublicationCoordinatorUnavailable
        (current \<noteq> plan \<or> next_publication_action_tx publication s \<noteq> Some (pe_action e))) (\<lambda>_.
      bindE (validate_publication_action_evidence_tx plan e (os_gates s)) (\<lambda>_.
      bindE (action_ordinal (pe_action e)) (\<lambda>ordinal.
      bindE (insert_publication_outcome (publication_outcome_of cx e ordinal now_ms) s) (\<lambda>g.
      bindE (if pe_action e = MergePullRequest then move_to_verifying r e now_ms (os_kernel s)
             else Inr (os_kernel s)) (\<lambda>k1.
      case next_ordered_action ordinal of
        Some next \<Rightarrow>
          bindE (insert_publication_action_intent_tx cx publication next (Suc ordinal) now_ms k1) (\<lambda>k2.
          bindE (audit_os cx ''feature_publication_action_completed'' (Some (pq_feature_id r)) now_ms
            (action_completed_metadata cx r (pe_action e) next) (s\<lparr>os_kernel := k2, os_gates := g\<rparr>)) (\<lambda>s1.
          Inr (s1, None)))
      | None \<Rightarrow> finish_publication cx r e now_ms (s\<lparr>os_kernel := k1, os_gates := g\<rparr>)))))))))"

section \<open>Quarantine\<close>

definition publication_ambiguous_metadata :: "codec \<Rightarrow> uuid \<Rightarrow> publication_action \<Rightarrow> json" where
  "publication_ambiguous_metadata cx publication action = JObject
     [(''publication_id'', JString (uuid_text cx publication)),
      (''action'', JString (publication_action_text action)), (''effect_possible'', JBool True),
      (''automatic_retry_authorized'', JBool False), (''reconciliation_required'', JBool True),
      (''raw_error_present'', JBool False)]"

definition quarantine_ambiguous_publication ::
    "codec \<Rightarrow> publication_execution_plan \<Rightarrow> publication_action \<Rightarrow> nat \<Rightarrow> orchestrator
      \<Rightarrow> master_error + orchestrator" where
  "quarantine_ambiguous_publication cx plan action now_ms s =
     (let r = px_request plan; feature = pq_feature_id r; k = os_kernel s in
      bindE (feature_status_and_revision_tx feature k) (\<lambda>(status, revision).
      bindE (reject_if PublicationCoordinatorUnavailable (status \<noteq> FPublishing \<and> status \<noteq> FVerifyingMain)) (\<lambda>_.
      bindE (move_feature (\<lambda>f. ft_feature_id f = feature \<and> ft_lifecycle_revision f = revision) FQuarantined True
        now_ms k) (\<lambda>k1.
      bindE (insert_transition (bare_transition feature (Suc revision) status FQuarantined now_ms) k1) (\<lambda>k2.
      audit_os cx ''feature_publication_ambiguous'' (Some feature) now_ms
        (publication_ambiguous_metadata cx (pq_publication_id r) action) (s\<lparr>os_kernel := k2\<rparr>))))))"

end
