(* ===== verification/Gate_Effects.thy ===== *)
theory Gate_Effects
  imports Orchestration_Runs Gate_Publication
begin

text \<open>
  What each operation of the gates has checked and written. On the kernel's tables every operation keeps
  the contract of a conveyor operation (\<open>conveyor_ok\<close>); on the gates' tables it appends rows
  (\<open>gate_write\<close>). Before that, what the other operations leave alone: no operation of distributed work, of
  the Feature Conveyor or of the orchestrator writes a publication, an intent or a table of the gates.
\<close>

section \<open>Distributed work and the conveyor\<close>

definition journal :: "kernel \<Rightarrow> publication_row list \<times> publication_intent_row list" where
  "journal k = (k_publications k, k_publication_intents k)"

lemma journal_tables: "conveyor_tables k' = conveyor_tables k \<Longrightarrow> journal k' = journal k"
  by (simp add: conveyor_tables_def journal_def)

lemma journal_other [simp]:
  "journal (k\<lparr>k_audit := a\<rparr>) = journal k" "journal (k\<lparr>k_grants := g\<rparr>) = journal k"
  "journal (k\<lparr>k_owner_bridge := b\<rparr>) = journal k" "journal (k\<lparr>k_claims := cs\<rparr>) = journal k"
  "journal (k\<lparr>k_active_lease := l\<rparr>) = journal k" "journal (k\<lparr>k_features := fs\<rparr>) = journal k"
  "journal (k\<lparr>k_queue_revision := n\<rparr>) = journal k" "journal (k\<lparr>k_transitions := ts\<rparr>) = journal k"
  "journal (moved_kernel p s e now t k) = journal k"
  "journal (released i k) = journal k"
  "journal (recorded r c k) = journal k"
  "journal (moved_to f s e v now k) = journal k"
  by (simp_all add: journal_def moved_kernel_def released_def recorded_def moved_to_def)

lemma cancel_journal:
  assumes inv: "conveyor_inv False k" and ok: "cancel_active_feature_bound cx b now owner k = Inr (k', v)"
  shows "journal k' = journal k"
proof -
  let ?i = "rb_feature_id b"
  from cancel_effect [OF ok] obtain f k3 row where e: "require_resolution_binding cx b owner k = Inr (ft_status f)"
    "find_feature ?i k = Some f" "is_active_execution (ft_status f)"
    and c: "cancel_feature_coding_dispatches_tx cx ?i now (moved_kernel (\<lambda>g. ft_feature_id g = ?i) FCancelled True now
          (bare_transition ?i (Suc (ft_lifecycle_revision f)) (ft_status f) FCancelled now) k) = Inr k3"
    and k': "k' = k3\<lparr>k_audit := insert_row row (k_audit k3)\<rparr>"
    by blast
  let ?m = "moved_kernel (\<lambda>g. ft_feature_id g = ?i) FCancelled True now
          (bare_transition ?i (Suc (ft_lifecycle_revision f)) (ft_status f) FCancelled now) k"
  have l: "lease_inv ?m"
    using inv by (simp add: conveyor_inv_def kernel_inv_def lease_inv_def moved_kernel_def)
  have "pause_ok ?m k3"
    by (rule forE_pause_ok [OF c [unfolded cancel_feature_coding_dispatches_tx_def] l]) (rule cancel_dispatch_ok)
  then have "conveyor_tables k3 = conveyor_tables ?m" by (simp add: pause_ok_def advance_def)
  from journal_tables [OF this] show ?thesis by (simp add: k')
qed

lemma enqueue_journal:
  assumes "enqueue_approved_feature_with_owner_binding cx spec expected now owner k = Inr (k', snapshot)"
  shows "journal k' = journal k"
  using enqueue_effect [OF assms] by (auto simp: Let_def journal_def dest!: enqueue_commit_effect)

lemma startup_journal:
  "reconcile_feature_conveyor_startup cx now k = Inr (k', n) \<Longrightarrow> journal k' = journal k"
  by (auto simp: reconcile_feature_conveyor_startup_def Let_def bindE_Inr_iff
      split: option.splits if_splits dest!: quarantine_effect)

lemma conveyor_op_journal:
  assumes inv: "conveyor_inv False k" and ok: "run_conveyor cx op k = Inr k'"
  shows "journal k' = journal k"
proof (cases op)
  case (CKernel o1)
  with ok have "run_op cx o1 k = Inr k'" by simp
  from run_op_ok [OF inv_parts(1) [OF inv] this] show ?thesis by (auto simp: progress_def intro: journal_tables)
next
  case (CReorder ordered expected now)
  then obtain n where r: "reorder_queued_features cx ordered expected now k = Inr (k', n)"
    using ok by (auto simp: state_of_Inr)
  have ids: "distinct (map qu_feature_id (k_queue k))"
    and listed: "\<forall>f \<in> set (k_features k). ft_status f = FQueued \<longrightarrow> ft_feature_id f \<in> set (map qu_feature_id (k_queue k))"
    using inv_parts(3) [OF inv] by (simp add: queue_inv_def) (use inv_parts(3) [OF inv] in \<open>force simp: queue_inv_def ended_def\<close>)
  from reorder_effect [OF r listed ids] show ?thesis by (auto simp: journal_def)
next
  case (CDispatch r now task step)
  then obtain receipt where d: "dispatch_feature_coding cx r now task step k = Inr (k', receipt)"
    using ok by (auto simp: state_of_Inr)
  from dispatch_effect [OF d] obtain k1 k2 row where
    ins: "insert_coding_step cx r task step now k = Inr k1"
    and ev: "append_event cx StepQueued now (step_identity task step) k1 = Inr k2"
    and k': "k' = k2\<lparr>k_audit := insert_row row (k_audit k2)\<rparr>" by blast
  have "journal k2 = journal k1" by (rule journal_tables [OF ev_ext_fields(12) [OF append_event_ext [OF ev]]])
  moreover have "journal k1 = journal k"
    using insert_coding_step_Inr [OF ins] by (auto simp: journal_def)
  ultimately show ?thesis by (simp add: k')
qed (use ok inv in \<open>auto simp: state_of_Inr intro: cancel_journal enqueue_journal startup_journal
      dest!: designate_effect grant_effect preflight_effect claim_effect advance_effect success_effect
        abandon_effect\<close>)

section \<open>The orchestrator\<close>

definition outside_gates :: "orchestrator_op \<Rightarrow> bool" where
  "outside_gates op = (case op of OGates _ _ _ \<Rightarrow> False | _ \<Rightarrow> True)"

lemma coordinated_frame:
  assumes "coordinated cx now s s' f e d c"
  shows "journal (os_kernel s') = journal (os_kernel s) \<and> os_gates s' = os_gates s"
  using assms unfolding coordinated_def Let_def by auto

lemma controlled_frame:
  assumes "controlled cx q now pause s s' f state plan c"
  shows "journal (os_kernel s') = journal (os_kernel s) \<and> os_gates s' = os_gates s"
  using assms unfolding controlled_def Let_def by auto

lemma orchestrator_op_frame:
  assumes inv: "orchestrator_inv s" and ok: "run_orchestrator cx op s = Inr s'" and "outside_gates op"
  shows "journal (os_kernel s') = journal (os_kernel s) \<and> os_gates s' = os_gates s"
proof -
  have d: "distinct (map or_feature_id (k_orchestration (os_kernel s)))" and ci: "conveyor_inv False (os_kernel s)"
    using inv by (simp_all add: orchestrator_inv_def ledger_inv_def)
  show ?thesis
  proof (cases op)
    case (OConveyor c)
    with ok conveyor_op_journal [OF ci] show ?thesis by (auto simp: on_kernel_Inr)
  next
    case (OAdmit r at)
    with ok obtain x where "admit_feature_activation_evidence cx r at s = Inr (s', x)" by (auto simp: orchestrator_of_Inr)
    from admit_effect [OF this] show ?thesis by auto
  next
    case (OActivate r registration now)
    with ok obtain x where "activate_feature_orchestration cx r registration now s = Inr (s', x)"
      by (auto simp: orchestrator_of_Inr)
    from activate_effect [OF this] show ?thesis by (auto simp: journal_def)
  next
    case (OControl q registration now pause)
    with ok obtain x where "owner_control_feature_orchestration cx q registration now pause s = Inr (s', x)"
      by (auto simp: orchestrator_of_Inr)
    from control_effect [OF this d] show ?thesis by (auto dest: controlled_frame)
  next
    case (OCoordinate i expected now)
    with ok obtain x where "coordinate_feature_orchestration cx i expected now s = Inr (s', x)"
      by (auto simp: orchestrator_of_Inr)
    from coordinate_effect [OF this d] show ?thesis unfolding Let_def by (auto dest: coordinated_frame)
  qed (use assms(3) in \<open>simp add: outside_gates_def\<close>)
qed


section \<open>Moves of a feature\<close>

lemma conveyor_ok_journal:
  assumes "conveyor_ok strict k k'"
  shows "conveyor_ok strict k (k'\<lparr>k_publications := ps\<rparr>)"
    and "conveyor_ok strict k (k'\<lparr>k_publication_intents := ins\<rparr>)"
  using assms
  by (simp_all add: conveyor_ok_def conveyor_inv_def kernel_inv_def lease_inv_def work_progress_def log_ext_def
      orchestration_kept_def conveyor_progress_def holder_def grants_inv_def grants_of_def)

lemma forward_ok:
  assumes inv: "conveyor_inv False k" and f: "find_feature i k = Some f"
    and st: "busy (ft_status f)" "busy to" "lifecycle_rank (ft_status f) < lifecycle_rank to"
    and p: "\<forall>g \<in> set (k_features k). p g \<longleftrightarrow> g = f"
    and t: "tr_feature_id t = i" "tr_lifecycle_revision t = Suc (ft_lifecycle_revision f)"
    and res: "resolution_status to \<Longrightarrow> is_active_execution (ft_status f)
      \<and> t = bare_transition i (Suc (ft_lifecycle_revision f)) (ft_status f) to now"
  shows "conveyor_ok False k (moved_kernel p to e now t k)"
proof -
  note o1 = only_feature [OF inv f]
  have "evidence_ok False (k_transitions k @ [t]) (moved to e now f)"
    using res o1(2) by (auto simp: evidence_ok_def has_transition_def resolved_by_def bare_transition_def no_digests_def)
  then show ?thesis using st t o1(2) by (intro move_ok [OF inv o1(1)] p) simp_all
qed

lemma find_moved:
  assumes inv: "conveyor_inv strict k" and f: "find_feature i k = Some f"
    and p: "\<forall>g \<in> set (k_features k). p g \<longleftrightarrow> g = f"
  shows "find_feature i (moved_kernel p to e now t k) = Some (moved to e now f)"
proof -
  have d: "distinct (map ft_feature_id (k_features k))" by (rule inv_parts(7) [OF inv])
  note o1 = only_feature [OF inv f]
  have "map ft_feature_id (update_rows p (moved to e now) (k_features k)) = map ft_feature_id (k_features k)"
    by (induction "k_features k") (auto simp: update_rows_def)
  with d have d': "distinct (map ft_feature_id (update_rows p (moved to e now) (k_features k)))" by simp
  have "moved to e now f \<in> set (update_rows p (moved to e now) (k_features k))"
    using o1(1) p by (force simp: set_update_rows)
  from find_row_key [OF d' this] o1(2) show ?thesis by (simp add: find_feature_def)
qed

lemma advance_status_moves:
  assumes inv: "conveyor_inv False k"
    and a: "advance_status u i from e to n now k = Inr k1" and n: "n = Suc e"
    and t: "insert_transition t k1 = Inr k2"
  shows "\<exists>f. find_feature i k = Some f \<and> ft_status f = from \<and> ft_lifecycle_revision f = e
    \<and> k2 = moved_kernel (\<lambda>g. ft_feature_id g = i \<and> ft_status g = from \<and> ft_lifecycle_revision g = e)
         to (ft_effect_possible f) now t k
    \<and> (\<forall>g \<in> set (k_features k). ft_feature_id g = i \<and> ft_status g = from \<and> ft_lifecycle_revision g = e
         \<longleftrightarrow> g = f)"
proof -
  let ?p = "\<lambda>g. ft_feature_id g = i \<and> ft_status g = from \<and> ft_lifecycle_revision g = e"
  from a have w: "write_features ?p (\<lambda>f. f\<lparr>ft_status := to, ft_lifecycle_revision := n\<rparr>) now k = Inr k1"
    and c: "count_rows ?p (k_features k) = 1"
    by (auto simp: advance_status_def Let_def bindE_Inr_iff reject_if_Inr_iff)
  from c have "0 < count_rows ?p (k_features k)" by simp
  then obtain f where f: "f \<in> set (k_features k)" "?p f" unfolding count_rows_pos by blast
  have found: "find_feature i k = Some f"
    unfolding find_feature_def by (rule find_row_key [OF inv_parts(7) [OF inv] f(1)]) (use f(2) in simp)
  have only: "\<forall>g \<in> set (k_features k). ?p g \<longleftrightarrow> g = f" using only_feature(3) [OF inv found] f(2) by blast
  have "update_rows ?p (\<lambda>f. f\<lparr>ft_status := to, ft_lifecycle_revision := n, ft_updated_at_ms := now\<rparr>) (k_features k)
      = update_rows ?p (moved to (ft_effect_possible f) now) (k_features k)"
    using only n by (intro update_rows_cong_set) (auto simp: moved_def)
  with w t have "k2 = moved_kernel ?p to (ft_effect_possible f) now t k"
    by (auto simp: write_features_Inr insert_transition_Inr moved_kernel_def)
  with found f(2) only show ?thesis by blast
qed

lemma advance_status_ok:
  assumes inv: "conveyor_inv False k"
    and a: "advance_status u i from e to n now k = Inr k1" and n: "n = Suc e"
    and t: "insert_transition t k1 = Inr k2" "tr_feature_id t = i" "tr_lifecycle_revision t = n"
    and st: "busy from" "busy to" "lifecycle_rank from < lifecycle_rank to" "\<not> resolution_status to"
  shows "\<exists>f. find_feature i k = Some f \<and> ft_status f = from \<and> ft_lifecycle_revision f = e
    \<and> conveyor_ok False k k2 \<and> journal k2 = journal k \<and> k_transitions k2 = k_transitions k @ [t]
    \<and> find_feature i k2 = Some (moved to (ft_effect_possible f) now f)"
proof -
  from advance_status_moves [OF inv a n t(1)] obtain f where f: "find_feature i k = Some f" "ft_status f = from"
    "ft_lifecycle_revision f = e"
    and k2: "k2 = moved_kernel (\<lambda>g. ft_feature_id g = i \<and> ft_status g = from \<and> ft_lifecycle_revision g = e)
         to (ft_effect_possible f) now t k"
    and only: "\<forall>g \<in> set (k_features k). ft_feature_id g = i \<and> ft_status g = from \<and> ft_lifecycle_revision g = e
         \<longleftrightarrow> g = f" by blast
  have "conveyor_ok False k k2" unfolding k2
    by (rule forward_ok [OF inv f(1) _ st(2) _ only t(2)]) (use f st n t(3) in simp_all)
  moreover have "find_feature i k2 = Some (moved to (ft_effect_possible f) now f)"
    unfolding k2 by (rule find_moved [OF inv f(1) only])
  ultimately show ?thesis using f by (simp add: k2)
qed

lemma audit_os_write:
  "audit_os cx kind f now m s = Inr s' \<Longrightarrow> \<exists>a. s' = s\<lparr>os_kernel := (os_kernel s)\<lparr>k_audit := a\<rparr>\<rparr>"
  using audit_os_Inr by blast

text \<open>A write of the gates: the kernel's tables by a conveyor operation, then the gates' tables.\<close>

definition gate_write :: "orchestrator \<Rightarrow> gate_tables \<Rightarrow> orchestrator \<Rightarrow> bool" where
  "gate_write s g s' =
     (conveyor_ok False (os_kernel s) (os_kernel s')
      \<and> k_orchestration_activated (os_kernel s') = k_orchestration_activated (os_kernel s)
      \<and> s' = s\<lparr>os_kernel := os_kernel s', os_gates := g\<rparr>)"

lemma gate_writeI:
  assumes "audit_os cx kind f now m (s\<lparr>os_kernel := k, os_gates := g\<rparr>) = Inr s'"
    and "conveyor_ok False (os_kernel s) k"
  shows "gate_write s g s'" and "journal (os_kernel s') = journal k"
    and "k_features (os_kernel s') = k_features k" and "k_transitions (os_kernel s') = k_transitions k"
    and "k_active_lease (os_kernel s') = k_active_lease k" and "k_queue (os_kernel s') = k_queue k"
    and "k_queue_revision (os_kernel s') = k_queue_revision k"
proof -
  from audit_os_write [OF assms(1)] obtain a where s': "s' = s\<lparr>os_kernel := k\<lparr>k_audit := a\<rparr>, os_gates := g\<rparr>"
    by (cases s) auto
  have "k_orchestration_activated k = k_orchestration_activated (os_kernel s)"
    using assms(2) by (simp add: conveyor_ok_def work_progress_def orchestration_kept_def)
  with audit_ok [OF assms(2)] show "gate_write s g s'" by (simp add: gate_write_def s')
qed (use audit_os_write [OF assms(1)] in auto)

lemma checked_next [simp]: "checked_add_u64 n (Suc 0) = Some m \<longleftrightarrow> m = Suc n \<and> Suc n \<le> u64_max"
  by (auto simp: checked_add_u64_Some)

section \<open>Integration\<close>

lemma insert_integration_Inr:
  assumes "insert_integration i g = Inr g'"
  shows "g' = g\<lparr>tb_integrations := tb_integrations g @ [i]\<rparr>
    \<and> (\<forall>j \<in> set (tb_integrations g). ig_integration_id j \<noteq> ig_integration_id i
         \<and> (ig_feature_id j = ig_feature_id i \<and> ig_specification_revision j = ig_specification_revision i
            \<longrightarrow> ig_feature_lease_id j \<noteq> ig_feature_lease_id i \<or> ig_snapshot_id j \<noteq> ig_snapshot_id i))"
  using assms by (auto simp: insert_integration_def bindE_Inr_iff reject_if_Inr_iff exists_row_iff insert_row_def)

text \<open>The artifacts of the candidate go to their own table only.\<close>

lemma insert_integration_artifacts_Inr:
  assumes "forE (insert_integration_artifact n k) items g = Inr g'"
  shows "\<exists>as. g' = g\<lparr>tb_integration_artifacts := as\<rparr>"
  using assms
proof (induction items arbitrary: g)
  case Nil
  then have "g' = g\<lparr>tb_integration_artifacts := tb_integration_artifacts g\<rparr>" by simp
  then show ?case ..
next
  case (Cons item items)
  from Cons.prems obtain g1 where "insert_integration_artifact n k item g = Inr g1"
    and rest: "forE (insert_integration_artifact n k) items g1 = Inr g'" by (auto simp: bindE_Inr_iff)
  then have "\<exists>as. g1 = g\<lparr>tb_integration_artifacts := as\<rparr>"
    by (auto simp: insert_integration_artifact_def Let_def bindE_Inr_iff reject_if_Inr_iff split: prod.splits)
  with Cons.IH [OF rest] show ?case by auto
qed

lemma freeze_effect:
  assumes inv: "conveyor_inv False (os_kernel s)"
    and ok: "finalize_artifact_integration cx plan c now s = Inr (s', receipt)"
  shows "s' = s \<or> (\<exists>g f as. gate_write s g s' \<and> journal (os_kernel s') = journal (os_kernel s)
    \<and> (let i = integration_row_of (an_request plan) c now in
       g = (os_gates s)\<lparr>tb_integrations := tb_integrations (os_gates s) @ [i], tb_integration_artifacts := as\<rparr>
       \<and> (\<forall>j \<in> set (tb_integrations (os_gates s)). ig_integration_id j \<noteq> ig_integration_id i))
    \<and> find_feature (iq_feature_id (an_request plan)) (os_kernel s) = Some f \<and> ft_status f = FImplementing
    \<and> ft_lifecycle_revision f = iq_expected_lifecycle_revision (an_request plan)
    \<and> find_feature (iq_feature_id (an_request plan)) (os_kernel s') = Some (moved FValidating (ft_effect_possible f) now f))"
proof (cases "load_integration_receipt_tx (iq_integration_id (an_request plan)) (os_gates s)")
  case (Inr loaded)
  show ?thesis
  proof (cases loaded)
    case (Some old)
    with ok Inr show ?thesis by (auto simp: finalize_artifact_integration_def Let_def bindE_Inr_iff split: if_splits)
  next
    case None
    let ?r = "an_request plan" let ?g = "os_gates s"
    from ok Inr None have "freeze_candidate cx plan c now s = Inr (s', receipt)"
      by (auto simp: finalize_artifact_integration_def Let_def bindE_Inr_iff)
    then obtain g1 g2 n k1 k2 where
      1: "insert_integration (integration_row_of ?r c now) ?g = Inr g1"
      and 2: "forE (insert_integration_artifact (iq_integration_id ?r) (os_kernel s))
        (enumerate 0 (an_artifacts plan)) g1 = Inr g2"
      and 3: "n = Suc (iq_expected_lifecycle_revision ?r)"
        "advance_status ArtifactIntegrationUnavailable (iq_feature_id ?r) FImplementing
          (iq_expected_lifecycle_revision ?r) FValidating n now (os_kernel s) = Inr k1"
        "insert_transition ((bare_transition (iq_feature_id ?r) n FImplementing FValidating now)
          \<lparr>tr_accepted_evidence_sha256 := Some (ce_artifact_set_sha256 c)\<rparr>) k1 = Inr k2"
      and 4: "audit_os cx ''artifact_candidate_frozen'' (Some (iq_feature_id ?r)) now
        (frozen_metadata cx ?r n) (s\<lparr>os_kernel := k2, os_gates := g2\<rparr>) = Inr s'"
      unfolding freeze_candidate_def Let_def by (auto simp: bindE_Inr_iff ok_or_Inr_iff)
    from advance_status_ok [OF inv 3(2,1,3)] obtain f where
      f: "find_feature (iq_feature_id ?r) (os_kernel s) = Some f" "ft_status f = FImplementing"
        "ft_lifecycle_revision f = iq_expected_lifecycle_revision ?r"
      and k2: "conveyor_ok False (os_kernel s) k2" "journal k2 = journal (os_kernel s)"
        "find_feature (iq_feature_id ?r) k2 = Some (moved FValidating (ft_effect_possible f) now f)"
      by (auto simp: busy_def ended_def resolution_status_def bare_transition_def 3(1))
    note w = gate_writeI [OF 4 k2(1)]
    from insert_integration_Inr [OF 1] insert_integration_artifacts_Inr [OF 2] obtain as where
      "g2 = ?g\<lparr>tb_integrations := tb_integrations ?g @ [integration_row_of ?r c now], tb_integration_artifacts := as\<rparr>"
      by auto
    moreover have "find_feature (iq_feature_id ?r) (os_kernel s') = Some (moved FValidating (ft_effect_possible f) now f)"
      using k2(3) by (simp add: find_feature_def w(3))
    ultimately show ?thesis
      using f w(1,2) k2(2) insert_integration_Inr [OF 1] unfolding Let_def
      by (intro disjI2 exI [of _ g2] exI [of _ f] exI [of _ as]) simp
  qed
qed (use ok in \<open>simp add: finalize_artifact_integration_def Let_def\<close>)

lemma conflict_effect:
  assumes inv: "conveyor_inv False (os_kernel s)"
    and ok: "record_artifact_integration_conflict cx r reason now s = Inr s'"
  shows "s' = s \<or> (\<exists>xs. gate_write s ((os_gates s)\<lparr>tb_integration_conflicts := xs\<rparr>) s'
    \<and> journal (os_kernel s') = journal (os_kernel s))"
proof (cases "s' = s")
  case False
  let ?row = "\<lparr>ix_integration_id = iq_integration_id r, ix_feature_id = iq_feature_id r,
      ix_lifecycle_revision = iq_expected_lifecycle_revision r,
      ix_request_binding_sha256 = sha256 cx (compact_json_bytes (quote_json cx) (integration_request_json cx r)),
      ix_reason_code = reason, ix_recorded_at_ms = now\<rparr>"
  let ?xs = "if now = 0 then tb_integration_conflicts (os_gates s)
      else insert_row ?row (tb_integration_conflicts (os_gates s))"
  have s: "(if now = 0 then s else update_gates (\<lambda>g. g\<lparr>tb_integration_conflicts := insert_row ?row
      (tb_integration_conflicts g)\<rparr>) s)
    = s\<lparr>os_kernel := os_kernel s, os_gates := (os_gates s)\<lparr>tb_integration_conflicts := ?xs\<rparr>\<rparr>"
    by (simp add: update_gates_def)
  from ok False have "audit_os cx ''artifact_integration_conflict'' (Some (iq_feature_id r)) now
      (conflict_metadata cx r reason)
      (s\<lparr>os_kernel := os_kernel s, os_gates := (os_gates s)\<lparr>tb_integration_conflicts := ?xs\<rparr>\<rparr>) = Inr s'"
    unfolding record_artifact_integration_conflict_def Let_def s
    by (auto simp: bindE_Inr_iff split: option.splits if_splits)
  from gate_writeI [OF this conveyor_ok_refl [OF inv]] show ?thesis by (intro disjI2 exI [of _ ?xs]) simp
qed simp

section \<open>Validation\<close>

text \<open>Every operation of the gates starts from the pause, the queue revision and the lease.\<close>

lemma gate_authority_facts:
  assumes "require_gate_authority p q feature now k = Inr u"
  shows "k_emergency_paused k = 0 \<and> k_emergency_pause_revision k = p \<and> k_queue_revision k = q
    \<and> holder k = Some feature"
  using assms
  by (auto simp: require_gate_authority_def result_simps holder_def)

lemma insert_attempt_Inr:
  "insert_attempt a g = Inr g' \<Longrightarrow> g' = g\<lparr>tb_validation_attempts := tb_validation_attempts g @ [a]\<rparr>
     \<and> (\<forall>b \<in> set (tb_validation_attempts g). va_validation_id b \<noteq> va_validation_id a)"
  by (auto simp: insert_attempt_def bindE_Inr_iff reject_if_Inr_iff exists_row_iff insert_row_def)

lemma validation_started_effect:
  assumes inv: "conveyor_inv False (os_kernel s)"
    and ok: "authorize_validation_gate cx r now persist s = Inr (s', authorization)"
  shows "s' = s \<or> (\<exists>a. gate_write s ((os_gates s)\<lparr>tb_validation_attempts := tb_validation_attempts (os_gates s) @ [a]\<rparr>) s'
    \<and> journal (os_kernel s') = journal (os_kernel s)
    \<and> (\<forall>b \<in> set (tb_validation_attempts (os_gates s)). va_validation_id b \<noteq> va_validation_id a))"
proof (cases "s' = s")
  case False
  with ok obtain a g where a: "insert_attempt a (os_gates s) = Inr g"
    and w: "audit_os cx ''feature_validation_started'' (Some (vq_feature_id r)) now
      (validation_started_metadata cx r) (s\<lparr>os_kernel := os_kernel s, os_gates := g\<rparr>) = Inr s'"
    by (auto simp: authorize_validation_gate_def bindE_Inr_iff split: option.splits if_splits)
  note e = insert_attempt_Inr [OF a] note g = gate_writeI [OF w conveyor_ok_refl [OF inv]]
  show ?thesis using g(1,2) e by (intro disjI2 exI [of _ a]) simp
qed simp

definition command_row_of :: "uuid \<Rightarrow> command_evidence \<Rightarrow> validation_command_row" where
  "command_row_of validation c =
     \<lparr>ve_validation_id = validation, ve_command_id = cm_command_id c, ve_passed = cm_passed c,
      ve_result_sha256 = cm_result_sha256 c, ve_duration_ms = cm_duration_ms c,
      ve_output_truncated = cm_output_truncated c\<rparr>"

lemma insert_command_evidences_Inr:
  assumes "forE (insert_command_evidence validation) evidence g = Inr g'"
  shows "g' = g\<lparr>tb_command_evidence := tb_command_evidence g @ map (command_row_of validation) evidence\<rparr>"
  using assms
proof (induction evidence arbitrary: g)
  case (Cons c evidence)
  from Cons.prems obtain g1 where "insert_command_evidence validation c g = Inr g1"
    and rest: "forE (insert_command_evidence validation) evidence g1 = Inr g'" by (auto simp: bindE_Inr_iff)
  then have "g1 = g\<lparr>tb_command_evidence := tb_command_evidence g @ [command_row_of validation c]\<rparr>"
    by (auto simp: insert_command_evidence_def command_row_of_def bindE_Inr_iff reject_if_Inr_iff insert_row_def)
  with Cons.IH [OF rest] show ?case by simp
qed simp

lemma insert_validation_completion_Inr:
  "insert_validation_completion c g = Inr g' \<Longrightarrow>
     g' = g\<lparr>tb_validation_completions := tb_validation_completions g @ [c]\<rparr>
     \<and> (\<forall>d \<in> set (tb_validation_completions g). vc_validation_id d \<noteq> vc_validation_id c)"
  by (auto simp: insert_validation_completion_def bindE_Inr_iff reject_if_Inr_iff exists_row_iff insert_row_def)

lemma gate_evidence_commands:
  assumes "validate_validation_gate_evidence r evidence = Inr u"
  shows "map cm_command_id evidence = vq_command_ids r"
proof -
  from assms have len: "length evidence = length (vq_command_ids r)"
    and each: "forE (\<lambda>(expected, c) _. reject_if ValidationGateUnavailable
         (cm_command_id c \<noteq> expected \<or> cm_result_sha256 c = 0 \<or> cm_passed c \<and> cm_output_truncated c))
       (zip (vq_command_ids r) evidence) () = Inr u"
    by (auto simp: validate_validation_gate_evidence_def bindE_Inr_iff reject_if_Inr_iff)
  have "\<forall>x \<in> set (zip (vq_command_ids r) evidence). (\<lambda>x _. cm_command_id (snd x) = fst x) x u"
    by (rule forE_each [OF each, where I = "\<lambda>_. True"]) (auto simp: reject_if_Inr_iff)
  then have at: "cm_command_id (evidence ! i) = vq_command_ids r ! i" if "i < length evidence" for i
    using that len nth_mem [of i "zip (vq_command_ids r) evidence"] by force
  show ?thesis by (rule nth_equalityI) (use len at in simp_all)
qed

lemma validation_finished_effect:
  assumes inv: "conveyor_inv False (os_kernel s)"
    and ok: "finalize_validation_gate cx plan evidence now s = Inr (s', receipt)"
  shows "s' = s \<or> (\<exists>c v. gate_write s ((os_gates s)
      \<lparr>tb_command_evidence := tb_command_evidence (os_gates s) @ map (command_row_of v) evidence,
       tb_validation_completions := tb_validation_completions (os_gates s) @ [c]\<rparr>) s'
    \<and> journal (os_kernel s') = journal (os_kernel s) \<and> vc_validation_id c = v
    \<and> (\<forall>d \<in> set (tb_validation_completions (os_gates s)). vc_validation_id d \<noteq> v)
    \<and> vc_passed c = all_passed evidence \<and> map cm_command_id evidence = REQUIRED_COMMANDS)"
proof (cases "s' = s")
  case False
  let ?r = "vx_request plan" let ?v = "vq_validation_id ?r" let ?p = "all_passed evidence"
  let ?m = "evidence_manifest_sha256 cx evidence" let ?e = "vq_expected_lifecycle_revision ?r"
  let ?t = "\<lambda>n. (bare_transition (vq_feature_id ?r) n FValidating FReviewing now)
      \<lparr>tr_repository_snapshot_sha256 := Some (vq_snapshot_sha256 ?r), tr_accepted_evidence_sha256 := Some ?m\<rparr>"
  from ok False have commands: "validate_validation_gate_evidence ?r evidence = Inr ()"
    and "\<exists>u. validate_validation_request cx ?r = Inr u"
    and commit: "commit_validation cx ?r evidence now s = Inr (s', receipt)"
    by (auto simp: finalize_validation_gate_def Let_def bindE_Inr_iff validation_request_binding_sha256_def
        result_simps split: option.splits if_splits)
  then have required: "map cm_command_id evidence = REQUIRED_COMMANDS"
    using gate_evidence_commands [OF commands] validate_validation_request_Inr by force
  from commit obtain g1 n g2 k2 where
    1: "forE (insert_command_evidence ?v) evidence (os_gates s) = Inr g1"
      "(if ?p then ok_or ValidationGateUnavailable (checked_add_u64 ?e 1) else Inr ?e) = Inr n"
      "insert_validation_completion \<lparr>vc_validation_id = ?v, vc_passed = ?p, vc_evidence_manifest_sha256 = ?m,
         vc_lifecycle_revision = n, vc_completed_at_ms = now\<rparr> g1 = Inr g2"
    and 2: "(if ?p
             then bindE (advance_status ValidationGateUnavailable (vq_feature_id ?r) FValidating ?e
                    FReviewing n now (os_kernel s)) (insert_transition (?t n))
             else Inr (os_kernel s)) = Inr k2"
    and 3: "audit_os cx (if ?p then ''feature_validation_passed'' else ''feature_validation_failed'')
        (Some (vq_feature_id ?r)) now (validation_finished_metadata cx ?r evidence ?p)
        (s\<lparr>os_kernel := k2, os_gates := g2\<rparr>) = Inr s'"
    unfolding commit_validation_def Let_def bindE_Inr_iff by (auto simp del: One_nat_def)
  have "conveyor_ok False (os_kernel s) k2 \<and> journal k2 = journal (os_kernel s)"
  proof (cases ?p)
    case True
    with 1(2) have n: "n = Suc ?e" by (simp add: ok_or_Inr_iff)
    from 2 True obtain k1 where
      a: "advance_status ValidationGateUnavailable (vq_feature_id ?r) FValidating ?e FReviewing n now (os_kernel s) = Inr k1"
        "insert_transition (?t n) k1 = Inr k2" by (auto simp: bindE_Inr_iff)
    from advance_status_ok [OF inv a(1) n a(2)] show ?thesis
      by (auto simp: busy_def ended_def resolution_status_def bare_transition_def)
  next
    case False
    with 2 conveyor_ok_refl [OF inv] show ?thesis by simp
  qed
  with gate_writeI [OF 3] have w: "gate_write s g2 s'" "journal (os_kernel s') = journal (os_kernel s)" by simp_all
  from insert_command_evidences_Inr [OF 1(1)] insert_validation_completion_Inr [OF 1(3)] show ?thesis
    using w required
    by (intro disjI2 exI [of _ "\<lparr>vc_validation_id = ?v, vc_passed = ?p, vc_evidence_manifest_sha256 = ?m,
         vc_lifecycle_revision = n, vc_completed_at_ms = now\<rparr>"] exI [of _ ?v]) simp
qed simp

section \<open>Review\<close>

lemma insert_review_call_Inr:
  "insert_review_call c g = Inr g' \<Longrightarrow> g' = g\<lparr>tb_review_calls := tb_review_calls g @ [c]\<rparr>
     \<and> (\<forall>d \<in> set (tb_review_calls g). rc_review_call_id d \<noteq> rc_review_call_id c)"
  by (auto simp: insert_review_call_def bindE_Inr_iff reject_if_Inr_iff exists_row_iff insert_row_def)

lemma insert_review_outcome_Inr:
  "insert_review_outcome q g = Inr g' \<Longrightarrow> g' = g\<lparr>tb_review_outcomes := tb_review_outcomes g @ [q]\<rparr>
     \<and> (\<forall>d \<in> set (tb_review_outcomes g). ro_review_call_id d \<noteq> ro_review_call_id q)"
  by (auto simp: insert_review_outcome_def bindE_Inr_iff reject_if_Inr_iff exists_row_iff insert_row_def)

lemma insert_review_decision_Inr:
  "insert_review_decision d g = Inr g' \<Longrightarrow> g' = g\<lparr>tb_review_decisions := tb_review_decisions g @ [d]\<rparr>
     \<and> (\<forall>e \<in> set (tb_review_decisions g). rd_review_call_id e \<noteq> rd_review_call_id d
          \<and> \<not> (rd_feature_id e = rd_feature_id d \<and> rd_candidate_commit e = rd_candidate_commit d))"
  by (auto simp: insert_review_decision_def bindE_Inr_iff reject_if_Inr_iff exists_row_iff insert_row_def)

lemma review_started_effect:
  assumes inv: "conveyor_inv False (os_kernel s)"
    and ok: "authorize_review_gateway cx r packet now s = Inr (s', authorization)"
  shows "s' = s \<or> (\<exists>plan c. review_gateway_plan_tx cx r now s = Inr plan
    \<and> find_row (\<lambda>c. rc_review_call_id c = rq_review_call_id r) (tb_review_calls (os_gates s)) = None
    \<and> (\<exists>binding. c = review_row_of plan binding now)
    \<and> gate_write s ((os_gates s)\<lparr>tb_review_calls := tb_review_calls (os_gates s) @ [c]\<rparr>) s'
    \<and> journal (os_kernel s') = journal (os_kernel s))"
proof (cases "s' = s")
  case False
  with ok obtain plan binding g where plan: "review_gateway_plan_tx cx r now s = Inr plan"
    and none: "find_row (\<lambda>c. rc_review_call_id c = rq_review_call_id r) (tb_review_calls (os_gates s)) = None"
    and c: "insert_review_call (review_row_of plan binding now) (os_gates s) = Inr g"
    and w: "audit_os cx ''feature_review_call_started'' (Some (rq_feature_id r)) now
      (review_started_metadata cx plan) (s\<lparr>os_kernel := os_kernel s, os_gates := g\<rparr>) = Inr s'"
    by (auto simp: authorize_review_gateway_def bindE_Inr_iff split: option.splits)
  note g = gate_writeI [OF w conveyor_ok_refl [OF inv]]
  show ?thesis using plan none g(1,2) insert_review_call_Inr [OF c]
    by (intro disjI2 exI [of _ plan] exI [of _ "review_row_of plan binding now"]) auto
qed simp

text \<open>A call that ends is stored, and has no outcome yet.\<close>

lemma started_review_call:
  assumes "validate_started_review_call_tx cx plan g = Inr u"
  shows "\<exists>c \<in> set (tb_review_calls g). rc_review_call_id c = rq_review_call_id (rx_request plan)
    \<and> rc_candidate_attempt c = rx_candidate_attempt plan \<and> rc_feature_call c = rx_feature_call plan"
    and "\<forall>q \<in> set (tb_review_outcomes g). ro_review_call_id q \<noteq> rq_review_call_id (rx_request plan)"
  using assms
  by (auto simp: validate_started_review_call_tx_def started_call_def bindE_Inr_iff ok_or_Inr_iff reject_if_Inr_iff
      exists_row_iff dest!: find_row_Some)

lemma review_failed_effect:
  assumes inv: "conveyor_inv False (os_kernel s)"
    and ok: "finalize_review_transport_failure cx plan failure now s = Inr (s', retry)"
  shows "\<exists>q. gate_write s ((os_gates s)\<lparr>tb_review_outcomes := tb_review_outcomes (os_gates s) @ [q]\<rparr>) s'
    \<and> journal (os_kernel s') = journal (os_kernel s)
    \<and> ro_review_call_id q = rq_review_call_id (rx_request plan) \<and> ro_outcome_kind q = transport_failure_text failure
    \<and> ro_next_retry_at_ms q = Some retry
    \<and> (\<exists>c \<in> set (tb_review_calls (os_gates s)). rc_review_call_id c = ro_review_call_id q)
    \<and> (\<forall>p \<in> set (tb_review_outcomes (os_gates s)). ro_review_call_id p \<noteq> ro_review_call_id q)"
proof -
  from ok obtain q g backoff u where started: "validate_started_review_call_tx cx plan (os_gates s) = Inr u"
    and q: "insert_review_outcome q (os_gates s) = Inr g" "ro_review_call_id q = rq_review_call_id (rx_request plan)"
      "ro_outcome_kind q = transport_failure_text failure" "ro_next_retry_at_ms q = Some retry"
    and w: "audit_os cx ''feature_review_transport_failed'' (Some (rq_feature_id (rx_request plan))) now
       (transport_failure_metadata cx plan failure backoff) (s\<lparr>os_kernel := os_kernel s, os_gates := g\<rparr>) = Inr s'"
    unfolding finalize_review_transport_failure_def bindE_Inr_iff
    by (auto simp: review_outcome_of_def ok_or_Inr_iff)
  note g = gate_writeI [OF w conveyor_ok_refl [OF inv]]
  show ?thesis using g(1,2) q insert_review_outcome_Inr [OF q(1)] started_review_call(1) [OF started]
    by (intro exI [of _ q]) auto
qed

lemma review_interrupted_effect:
  assumes inv: "conveyor_inv False (os_kernel s)"
    and ok: "finalize_interrupted_review_call cx plan now s = Inr s'"
  shows "\<exists>q. gate_write s ((os_gates s)\<lparr>tb_review_outcomes := tb_review_outcomes (os_gates s) @ [q]\<rparr>) s'
    \<and> journal (os_kernel s') = journal (os_kernel s)
    \<and> ro_review_call_id q = rq_review_call_id (rx_request plan) \<and> ro_outcome_kind q = ''interrupted''
    \<and> (\<exists>c \<in> set (tb_review_calls (os_gates s)). rc_review_call_id c = ro_review_call_id q)
    \<and> (\<forall>p \<in> set (tb_review_outcomes (os_gates s)). ro_review_call_id p \<noteq> ro_review_call_id q)"
proof -
  let ?r = "rx_request plan" let ?k = "os_kernel s" let ?e = "rq_expected_lifecycle_revision ?r"
  let ?mine = "\<lambda>f. ft_feature_id f = rq_feature_id ?r \<and> ft_status f = FReviewing \<and> ft_lifecycle_revision f = ?e"
  let ?t = "bare_transition (rq_feature_id ?r) (Suc ?e) FReviewing FQuarantined now"
  from ok obtain q g k1 k2 u where started: "validate_started_review_call_tx cx plan (os_gates s) = Inr u"
    and q: "insert_review_outcome q (os_gates s) = Inr g" "ro_review_call_id q = rq_review_call_id ?r"
      "ro_outcome_kind q = ''interrupted''"
    and k1: "write_features ?mine
        (\<lambda>f. f\<lparr>ft_status := FQuarantined, ft_lifecycle_revision := Suc ?e, ft_effect_possible := True\<rparr>) now ?k = Inr k1"
    and k2: "(if exists_row ?mine (k_features ?k) then insert_transition ?t k1 else Inr k1) = Inr k2"
    and w: "audit_os cx ''feature_review_interrupted'' (Some (rq_feature_id ?r)) now
        (interrupted_metadata cx plan (exists_row ?mine (k_features ?k))) (s\<lparr>os_kernel := k2, os_gates := g\<rparr>) = Inr s'"
    unfolding finalize_interrupted_review_call_def Let_def bindE_Inr_iff
    by (auto simp: review_outcome_of_def ok_or_Inr_iff)
  have "conveyor_ok False ?k k2 \<and> journal k2 = journal ?k"
  proof (cases "exists_row ?mine (k_features ?k)")
    case True
    then obtain f where f: "f \<in> set (k_features ?k)" "?mine f" by (auto simp: exists_row_iff)
    have found: "find_feature (rq_feature_id ?r) ?k = Some f"
      unfolding find_feature_def by (rule find_row_key [OF inv_parts(7) [OF inv] f(1)]) (use f(2) in simp)
    have only: "\<forall>g \<in> set (k_features ?k). ?mine g \<longleftrightarrow> g = f" using only_feature(3) [OF inv found] f(2) by blast
    have "update_rows ?mine (\<lambda>f. f\<lparr>ft_status := FQuarantined, ft_lifecycle_revision := Suc ?e,
          ft_effect_possible := True, ft_updated_at_ms := now\<rparr>) (k_features ?k)
        = update_rows ?mine (moved FQuarantined True now) (k_features ?k)"
      using only by (intro update_rows_cong_set) (auto simp: moved_def)
    with k1 k2 True have k2: "k2 = moved_kernel ?mine FQuarantined True now ?t ?k"
      by (auto simp: write_features_Inr insert_transition_Inr moved_kernel_def)
    have "conveyor_ok False ?k k2" unfolding k2
      by (rule forward_ok [OF inv found _ _ _ only])
        (use f in \<open>simp_all add: busy_def ended_def is_active_execution_def bare_transition_def\<close>)
    then show ?thesis by (simp add: k2)
  next
    case False
    then have "update_rows ?mine h (k_features ?k) = k_features ?k" for h
      by (auto simp: update_rows_def exists_row_iff intro!: map_idI)
    with k1 k2 False have "k2 = ?k" by (auto simp: write_features_Inr)
    with conveyor_ok_refl [OF inv] show ?thesis by simp
  qed
  with gate_writeI [OF w] have "gate_write s g s'" "journal (os_kernel s') = journal ?k" by simp_all
  then show ?thesis using q insert_review_outcome_Inr [OF q(1)] started_review_call(1) [OF started]
    by (intro exI [of _ q]) auto
qed

lemma review_decided_effect:
  assumes inv: "conveyor_inv False (os_kernel s)"
    and ok: "finalize_review_decision cx plan packet out now s = Inr (s', receipt)"
  shows "\<exists>q d. gate_write s ((os_gates s)\<lparr>tb_review_outcomes := tb_review_outcomes (os_gates s) @ [q],
        tb_review_decisions := tb_review_decisions (os_gates s) @ [d]\<rparr>) s'
    \<and> journal (os_kernel s') = journal (os_kernel s)
    \<and> validate_review_output cx out = Inr () \<and> (\<exists>n. d = review_decision_of cx plan out n now)
    \<and> ro_review_call_id q = rd_review_call_id d
    \<and> ro_outcome_kind q = ''decision'' \<and> ro_outcome_sha256 q = rd_decision_sha256 d
    \<and> (\<exists>c \<in> set (tb_review_calls (os_gates s)). rc_review_call_id c = rd_review_call_id d)
    \<and> (\<forall>p \<in> set (tb_review_outcomes (os_gates s)). ro_review_call_id p \<noteq> rd_review_call_id d)
    \<and> (\<forall>e \<in> set (tb_review_decisions (os_gates s)). rd_review_call_id e \<noteq> rd_review_call_id d
          \<and> \<not> (rd_feature_id e = rd_feature_id d \<and> rd_candidate_commit e = rd_candidate_commit d))"
proof -
  let ?r = "rx_request plan" let ?k = "os_kernel s" let ?e = "rq_expected_lifecycle_revision ?r"
  let ?a = "rv_decision out = VerdictApproved" let ?digest = "decision_sha256 cx out"
  let ?t = "\<lambda>n. (bare_transition (rq_feature_id ?r) n FReviewing FPublishing now)
      \<lparr>tr_repository_snapshot_sha256 := Some (rq_candidate_diff_sha256 ?r),
       tr_accepted_evidence_sha256 := Some ?digest\<rparr>"
  let ?q = "review_outcome_of plan ''decision'' ?digest None now"
  from ok obtain u where valid: "validate_review_output cx out = Inr ()"
    and started: "validate_started_review_call_tx cx plan (os_gates s) = Inr u"
    and commit: "commit_review_decision cx plan out now s = Inr (s', receipt)"
    by (auto simp: finalize_review_decision_def bindE_Inr_iff result_simps)
  from commit obtain n g1 g2 k2 where
    1: "(if ?a then ok_or ReviewGatewayUnavailable (checked_add_u64 ?e 1) else Inr ?e) = Inr n"
      "insert_review_outcome ?q (os_gates s) = Inr g1"
      "insert_review_decision (review_decision_of cx plan out n now) g1 = Inr g2"
    and 2: "(if ?a then bindE (advance_status ReviewGatewayUnavailable (rq_feature_id ?r) FReviewing ?e
                    FPublishing n now ?k) (insert_transition (?t n))
             else Inr ?k) = Inr k2"
    and 3: "audit_os cx (if ?a then ''feature_review_approved'' else ''feature_review_rejected'')
        (Some (rq_feature_id ?r)) now (review_decided_metadata cx plan out)
        (s\<lparr>os_kernel := k2, os_gates := g2\<rparr>) = Inr s'"
    unfolding commit_review_decision_def Let_def bindE_Inr_iff by (auto simp del: One_nat_def)
  have "conveyor_ok False ?k k2 \<and> journal k2 = journal ?k"
  proof (cases ?a)
    case True
    with 1(1) have n: "n = Suc ?e" by (simp add: ok_or_Inr_iff)
    from 2 True obtain k1 where
      a: "advance_status ReviewGatewayUnavailable (rq_feature_id ?r) FReviewing ?e FPublishing n now ?k = Inr k1"
        "insert_transition (?t n) k1 = Inr k2" by (auto simp: bindE_Inr_iff)
    from advance_status_ok [OF inv a(1) n a(2)] show ?thesis
      by (auto simp: busy_def ended_def resolution_status_def bare_transition_def)
  next
    case False
    with 2 conveyor_ok_refl [OF inv] show ?thesis by simp
  qed
  with gate_writeI [OF 3] have w: "gate_write s g2 s'" "journal (os_kernel s') = journal ?k" by simp_all
  from insert_review_outcome_Inr [OF 1(2)] insert_review_decision_Inr [OF 1(3)] show ?thesis
    using w valid started_review_call [OF started]
    by (intro exI [of _ ?q] exI [of _ "review_decision_of cx plan out n now"])
      (auto simp: review_decision_of_def review_outcome_of_def)
qed

section \<open>Publication\<close>

lemma insert_publication_Inr:
  "insert_publication cx p k = Inr k' \<Longrightarrow> k' = k\<lparr>k_publications := k_publications k @ [p]\<rparr>
     \<and> (\<forall>q \<in> set (k_publications k). pb_publication_id q \<noteq> pb_publication_id p
          \<and> \<not> (pb_feature_id q = pb_feature_id p \<and> pb_candidate_commit q = pb_candidate_commit p))"
  by (auto simp: insert_publication_def bindE_Inr_iff reject_if_Inr_iff exists_row_iff insert_row_def)

lemma insert_intent_Inr:
  assumes "insert_publication_action_intent_tx cx publication action n now k = Inr k'"
  shows "\<exists>i. k' = k\<lparr>k_publication_intents := k_publication_intents k @ [i]\<rparr>
    \<and> pi_publication_id i = publication \<and> pi_ordinal i = n \<and> pi_action_kind i = action"
  using assms
  by (auto simp: insert_publication_action_intent_tx_def bindE_Inr_iff reject_if_Inr_iff insert_row_def)

lemma insert_publication_outcome_Inr:
  "insert_publication_outcome q s = Inr g \<Longrightarrow>
     g = (os_gates s)\<lparr>tb_publication_outcomes := tb_publication_outcomes (os_gates s) @ [q]\<rparr>"
  by (auto simp: insert_publication_outcome_def bindE_Inr_iff reject_if_Inr_iff insert_row_def)

lemma insert_publication_completion_Inr:
  "insert_publication_completion c g = Inr g' \<Longrightarrow>
     g' = g\<lparr>tb_publication_completions := tb_publication_completions g @ [c]\<rparr>
     \<and> (\<forall>d \<in> set (tb_publication_completions g). pc_publication_id d \<noteq> pc_publication_id c)"
  by (auto simp: insert_publication_completion_def bindE_Inr_iff reject_if_Inr_iff exists_row_iff insert_row_def)

lemma publication_started_effect:
  assumes inv: "conveyor_inv False (os_kernel s)" and ok: "begin_publication cx plan now s = Inr s'"
  shows "\<exists>p i binding. publication_plan_tx cx (px_request plan) now s = Inr plan
    \<and> p = publication_row_of plan binding now \<and> gate_write s (os_gates s) s'
    \<and> journal (os_kernel s') = (k_publications (os_kernel s) @ [p], k_publication_intents (os_kernel s) @ [i])
    \<and> pi_publication_id i = pb_publication_id p \<and> pi_ordinal i = 1 \<and> pi_action_kind i = PushBranch
    \<and> (\<forall>q \<in> set (k_publications (os_kernel s)). pb_publication_id q \<noteq> pb_publication_id p
          \<and> \<not> (pb_feature_id q = pb_feature_id p \<and> pb_candidate_commit q = pb_candidate_commit p))"
proof -
  let ?k = "os_kernel s" let ?r = "px_request plan"
  from ok obtain binding k1 k2 where plan: "publication_plan_tx cx ?r now s = Inr plan"
    and k1: "insert_publication cx (publication_row_of plan binding now) ?k = Inr k1"
    and k2: "insert_publication_action_intent_tx cx (pq_publication_id ?r) PushBranch 1 now k1 = Inr k2"
    and w: "audit_os cx ''feature_publication_started'' (Some (pq_feature_id ?r)) now
        (publication_started_metadata cx ?r) (s\<lparr>os_kernel := k2, os_gates := os_gates s\<rparr>) = Inr s'"
    by (auto simp: begin_publication_def Let_def bindE_Inr_iff reject_if_Inr_iff)
  from insert_intent_Inr [OF k2] obtain i where i: "k2 = k1\<lparr>k_publication_intents := k_publication_intents k1 @ [i]\<rparr>"
    "pi_publication_id i = pq_publication_id ?r" "pi_ordinal i = 1" "pi_action_kind i = PushBranch" by blast
  note p = insert_publication_Inr [OF k1]
  have "conveyor_ok False ?k k2"
    unfolding i(1) using p conveyor_ok_journal(1) [OF conveyor_ok_refl [OF inv]] by (auto intro: conveyor_ok_journal(2))
  from gate_writeI [OF w this] show ?thesis using plan p i
    by (intro exI [of _ "publication_row_of plan binding now"] exI [of _ i] exI [of _ binding])
      (auto simp: journal_def publication_row_of_def Let_def)
qed

lemma next_action_ordinal: "action_ordinal a = Inr n \<Longrightarrow> 0 < n \<and> n \<le> 7 \<and> ORDERED_ACTIONS ! (n - 1) = a"
  by (cases a) (auto simp: action_ordinal_def ORDERED_ACTIONS_def ok_or_Inr_iff find_row_def enumerate_eq_zip
      upt_rec numeral_eq_Suc)

lemma move_to_verifying_ok:
  assumes inv: "conveyor_inv False k" and ok: "move_to_verifying r e now k = Inr k'"
  shows "\<exists>f. find_feature (pq_feature_id r) k = Some f \<and> ft_status f = FPublishing
    \<and> ft_lifecycle_revision f = pq_expected_lifecycle_revision r
    \<and> conveyor_ok False k k' \<and> journal k' = journal k
    \<and> k_transitions k' = k_transitions k @ [(bare_transition (pq_feature_id r) (Suc (ft_lifecycle_revision f))
         FPublishing FVerifyingMain now)\<lparr>tr_accepted_evidence_sha256 := Some (pe_evidence_sha256 e)\<rparr>]
    \<and> find_feature (pq_feature_id r) k' = Some (moved FVerifyingMain (ft_effect_possible f) now f)"
proof -
  let ?e = "pq_expected_lifecycle_revision r"
  from ok obtain k1 where
    a: "advance_status PublicationCoordinatorUnavailable (pq_feature_id r) FPublishing ?e FVerifyingMain (Suc ?e) now k
        = Inr k1"
      "insert_transition ((bare_transition (pq_feature_id r) (Suc ?e) FPublishing FVerifyingMain now)
        \<lparr>tr_accepted_evidence_sha256 := Some (pe_evidence_sha256 e)\<rparr>) k1 = Inr k'"
    by (auto simp: move_to_verifying_def Let_def bindE_Inr_iff ok_or_Inr_iff)
  from advance_status_ok [OF inv a(1) HOL.refl a(2)] show ?thesis
    by (auto simp: busy_def ended_def resolution_status_def bare_transition_def)
qed

lemma finish_publication_effect:
  assumes inv: "conveyor_inv False (os_kernel s)"
    and ok: "finish_publication cx r e now s = Inr (s', receipt)"
    and lease: "holder (os_kernel s) = Some (pq_feature_id r)"
  shows "\<exists>c. gate_write s ((os_gates s)\<lparr>tb_publication_completions := tb_publication_completions (os_gates s) @ [c]\<rparr>) s'
    \<and> journal (os_kernel s') = journal (os_kernel s) \<and> pc_publication_id c = pq_publication_id r
    \<and> publication_merge_commit_tx (pq_publication_id r) (os_gates s) = Inr (pc_merge_commit c)
    \<and> pc_remote_main_commit c = pc_merge_commit c
    \<and> (\<forall>d \<in> set (tb_publication_completions (os_gates s)). pc_publication_id d \<noteq> pc_publication_id c)"
proof -
  let ?k = "os_kernel s" let ?i = "pq_feature_id r" let ?e = "Suc (pq_expected_lifecycle_revision r)"
  let ?p = "\<lambda>f. ft_feature_id f = ?i \<and> ft_status f = FVerifyingMain \<and> ft_lifecycle_revision f = ?e"
  from ok obtain merge k1 t k2 k3 queue c g where
    merge: "publication_merge_commit_tx (pq_publication_id r) (os_gates s) = Inr merge"
    and k1: "succeed_feature ?i (Suc ?e) now ?k = Inr k1"
    and k2: "insert_transition t k1 = Inr k2" "tr_feature_id t = ?i" "tr_lifecycle_revision t = Suc ?e"
    and k3: "increment_queue_revision_tx (pq_expected_queue_revision r) (release_lease ?i k2) = Inr (k3, queue)"
    and c: "insert_publication_completion c (os_gates s) = Inr g" "pc_publication_id c = pq_publication_id r"
      "pc_merge_commit c = merge" "pc_remote_main_commit c = merge"
    and w: "audit_os cx ''feature_publication_succeeded'' (Some ?i) now
        (publication_succeeded_metadata cx r queue) (s\<lparr>os_kernel := k3, os_gates := g\<rparr>) = Inr s'"
    unfolding finish_publication_def Let_def bindE_Inr_iff
    by (auto simp: bindE_Inr_iff bare_transition_def ok_or_Inr_iff checked_add_u64_Some)
  from k1 have wr: "write_features ?p
      (\<lambda>f. f\<lparr>ft_status := FSucceeded, ft_lifecycle_revision := Suc ?e, ft_effect_possible := False\<rparr>) now ?k = Inr k1"
    and count: "count_rows ?p (k_features ?k) = 1"
    by (auto simp: succeed_feature_def Let_def bindE_Inr_iff reject_if_Inr_iff)
  from count have "0 < count_rows ?p (k_features ?k)" by simp
  then obtain f where f: "f \<in> set (k_features ?k)" "?p f" unfolding count_rows_pos by blast
  have found: "find_feature ?i ?k = Some f"
    unfolding find_feature_def by (rule find_row_key [OF inv_parts(7) [OF inv] f(1)]) (use f(2) in simp)
  have only: "\<forall>g \<in> set (k_features ?k). ?p g \<longleftrightarrow> g = f" using only_feature(3) [OF inv found] f(2) by blast
  have "update_rows ?p (\<lambda>f. f\<lparr>ft_status := FSucceeded, ft_lifecycle_revision := Suc ?e, ft_effect_possible := False,
        ft_updated_at_ms := now\<rparr>) (k_features ?k) = update_rows ?p (moved FSucceeded False now) (k_features ?k)"
    using only f(2) by (intro update_rows_cong_set) (auto simp: moved_def)
  with wr k2(1) have moved: "k2 = moved_kernel ?p FSucceeded False now t ?k"
    by (auto simp: write_features_Inr insert_transition_Inr moved_kernel_def)
  obtain l where l: "k_active_lease k2 = Some l" "fl_feature_id l = ?i"
    using lease by (auto simp: moved holder_def)
  have k3': "k3 = released ?i k2" using release_increment [OF k3 l] by simp
  have "conveyor_ok False ?k (released (ft_feature_id f) (moved_kernel ?p FSucceeded False now t ?k))"
    by (rule end_ok [OF inv f(1) _ _ only]) (use f(2) k2 in \<open>simp_all add: busy_def ended_def\<close>)
  then have "conveyor_ok False ?k k3" using f(2) by (simp add: k3' moved)
  from gate_writeI [OF w this] insert_publication_completion_Inr [OF c(1)] show ?thesis
    using c merge by (intro exI [of _ c]) (auto simp: k3' moved)
qed

lemma publication_plan_authority:
  assumes "publication_plan_tx cx r now s = Inr plan"
  shows "px_request plan = r" and "holder (os_kernel s) = Some (pq_feature_id r)"
    and "k_queue_revision (os_kernel s) = pq_expected_queue_revision r"
proof -
  from assms obtain u where "require_gate_authority (pq_expected_emergency_pause_revision r)
      (pq_expected_queue_revision r) (pq_feature_id r) now (os_kernel s) = Inr u"
    unfolding publication_plan_tx_def Let_def bindE_Inr_iff by blast
  from gate_authority_facts [OF this] show "holder (os_kernel s) = Some (pq_feature_id r)"
    "k_queue_revision (os_kernel s) = pq_expected_queue_revision r" by simp_all
  from assms show "px_request plan = r"
    unfolding publication_plan_tx_def Let_def bindE_Inr_iff by (auto split: prod.splits simp: bindE_Inr_iff)
qed

lemma holder_conveyor_frame:
  assumes "k_active_lease k' = k_active_lease k" shows "holder k' = holder k"
  using assms by (simp add: holder_def)

lemma action_completed_effect:
  assumes inv: "conveyor_inv False (os_kernel s)"
    and ok: "complete_publication_action cx plan e now s = Inr (s', receipt)"
  shows "\<exists>n q. validate_publication_evidence cx e = Inr () \<and> pe_publication_id e = pq_publication_id (px_request plan)
    \<and> publication_plan_tx cx (px_request plan) now s = Inr plan
    \<and> next_publication_action_tx (pq_publication_id (px_request plan)) s = Some (pe_action e)
    \<and> action_ordinal (pe_action e) = Inr n \<and> q = publication_outcome_of cx e n now
    \<and> (n < 7 \<and> (\<exists>i. gate_write s ((os_gates s)\<lparr>tb_publication_outcomes := tb_publication_outcomes (os_gates s) @ [q]\<rparr>) s'
           \<and> journal (os_kernel s') = (k_publications (os_kernel s), k_publication_intents (os_kernel s) @ [i])
           \<and> pi_publication_id i = pq_publication_id (px_request plan) \<and> pi_ordinal i = Suc n
           \<and> pi_action_kind i = ORDERED_ACTIONS ! n)
       \<or> n = 7 \<and> (\<exists>c g. g = (os_gates s)\<lparr>tb_publication_outcomes := tb_publication_outcomes (os_gates s) @ [q]\<rparr>
           \<and> gate_write s (g\<lparr>tb_publication_completions := tb_publication_completions (os_gates s) @ [c]\<rparr>) s'
           \<and> journal (os_kernel s') = journal (os_kernel s) \<and> pc_publication_id c = pq_publication_id (px_request plan)
           \<and> publication_merge_commit_tx (pq_publication_id (px_request plan)) g = Inr (pc_merge_commit c)
           \<and> pc_remote_main_commit c = pc_merge_commit c
           \<and> (\<forall>d \<in> set (tb_publication_completions (os_gates s)). pc_publication_id d \<noteq> pc_publication_id c)))"
proof -
  let ?r = "px_request plan" let ?k = "os_kernel s" let ?g = "os_gates s"
  from ok obtain n g k1 where
    v: "validate_publication_action_evidence cx plan e = Inr ()"
    and plan: "publication_plan_tx cx ?r now s = Inr plan"
    and nxt: "next_publication_action_tx (pq_publication_id ?r) s = Some (pe_action e)"
    and n: "action_ordinal (pe_action e) = Inr n"
    and q: "insert_publication_outcome (publication_outcome_of cx e n now) s = Inr g"
    and k1: "(if pe_action e = MergePullRequest then move_to_verifying ?r e now ?k else Inr ?k) = Inr k1"
    and rest: "(case next_ordered_action n of
        Some next \<Rightarrow>
          bindE (insert_publication_action_intent_tx cx (pq_publication_id ?r) next (Suc n) now k1) (\<lambda>k2.
          bindE (audit_os cx ''feature_publication_action_completed'' (Some (pq_feature_id ?r)) now
            (action_completed_metadata cx ?r (pe_action e) next) (s\<lparr>os_kernel := k2, os_gates := g\<rparr>)) (\<lambda>s1.
          Inr (s1, None)))
      | None \<Rightarrow> finish_publication cx ?r e now (s\<lparr>os_kernel := k1, os_gates := g\<rparr>)) = Inr (s', receipt)"
    unfolding complete_publication_action_def Let_def bindE_Inr_iff reject_if_Inr_iff by auto
  note o7 = next_action_ordinal [OF n] note q' = insert_publication_outcome_Inr [OF q]
  have valid: "validate_publication_evidence cx e = Inr ()" "pe_publication_id e = pq_publication_id ?r"
    using v by (auto simp: validate_publication_action_evidence_def bindE_Inr_iff result_simps
        evidence_matches_plan_def Let_def)
  have k1': "conveyor_ok False ?k k1 \<and> journal k1 = journal ?k"
    using k1 move_to_verifying_ok [OF inv, of ?r e now] conveyor_ok_refl [OF inv] by (auto split: if_splits)
  show ?thesis
  proof (cases "n < 7")
    case True
    then have "next_ordered_action n = Some (ORDERED_ACTIONS ! n)"
      by (simp add: next_ordered_action_def distinct_ORDERED_ACTIONS)
    with rest obtain k2 where
      k2: "insert_publication_action_intent_tx cx (pq_publication_id ?r) (ORDERED_ACTIONS ! n) (Suc n) now k1 = Inr k2"
      and w: "audit_os cx ''feature_publication_action_completed'' (Some (pq_feature_id ?r)) now
            (action_completed_metadata cx ?r (pe_action e) (ORDERED_ACTIONS ! n))
            (s\<lparr>os_kernel := k2, os_gates := g\<rparr>) = Inr s'"
      by (auto simp: bindE_Inr_iff)
    from insert_intent_Inr [OF k2] obtain i where i: "k2 = k1\<lparr>k_publication_intents := k_publication_intents k1 @ [i]\<rparr>"
      "pi_publication_id i = pq_publication_id ?r" "pi_ordinal i = Suc n" "pi_action_kind i = ORDERED_ACTIONS ! n"
      by blast
    have "conveyor_ok False ?k k2" unfolding i(1) using k1' by (blast intro: conveyor_ok_journal(2))
    from gate_writeI [OF w this] show ?thesis using valid plan nxt n True i k1' q'
      by (intro exI [of _ n] exI [of _ "publication_outcome_of cx e n now"]) (auto simp: journal_def)
  next
    case False
    with o7 have 7: "n = 7" by simp
    then have "next_ordered_action n = None" by (simp add: next_ordered_action_def distinct_ORDERED_ACTIONS)
    with rest have fin: "finish_publication cx ?r e now (s\<lparr>os_kernel := k1, os_gates := g\<rparr>) = Inr (s', receipt)" by simp
    have "pe_action e \<noteq> MergePullRequest" using o7 7 by (auto simp: ORDERED_ACTIONS_def numeral_eq_Suc)
    with k1 have same: "k1 = ?k" by simp
    have s1: "s\<lparr>os_kernel := k1, os_gates := g\<rparr> = s\<lparr>os_gates := g\<rparr>" by (simp add: same)
    from finish_publication_effect [OF _ fin] inv publication_plan_authority(2) [OF plan]
    obtain c where c: "gate_write (s\<lparr>os_gates := g\<rparr>)
        (g\<lparr>tb_publication_completions := tb_publication_completions g @ [c]\<rparr>) s'"
      "journal (os_kernel s') = journal ?k" "pc_publication_id c = pq_publication_id ?r"
      "publication_merge_commit_tx (pq_publication_id ?r) g = Inr (pc_merge_commit c)"
      "pc_remote_main_commit c = pc_merge_commit c"
      "\<forall>d \<in> set (tb_publication_completions g). pc_publication_id d \<noteq> pc_publication_id c"
      by (auto simp: s1)
    have same_completions: "tb_publication_completions g = tb_publication_completions ?g" by (simp add: q')
    have "gate_write s (g\<lparr>tb_publication_completions := tb_publication_completions ?g @ [c]\<rparr>) s'"
      using c(1) same_completions unfolding gate_write_def by simp
    then show ?thesis using valid plan nxt n 7 c(2-) q' same_completions
      by (intro exI [of _ n] exI [of _ "publication_outcome_of cx e n now"]) (intro conjI disjI2 exI [of _ c] exI [of _ g]; simp)
  qed
qed

lemma quarantine_publication_effect:
  assumes inv: "conveyor_inv False (os_kernel s)"
    and ok: "quarantine_ambiguous_publication cx plan action now s = Inr s'"
  shows "\<exists>f t. find_feature (pq_feature_id (px_request plan)) (os_kernel s) = Some f
    \<and> (ft_status f = FPublishing \<or> ft_status f = FVerifyingMain)
    \<and> gate_write s (os_gates s) s' \<and> journal (os_kernel s') = journal (os_kernel s)
    \<and> t = bare_transition (pq_feature_id (px_request plan)) (Suc (ft_lifecycle_revision f)) (ft_status f) FQuarantined now
    \<and> k_transitions (os_kernel s') = k_transitions (os_kernel s) @ [t]
    \<and> find_feature (pq_feature_id (px_request plan)) (os_kernel s') = Some (moved FQuarantined True now f)"
proof -
  let ?i = "pq_feature_id (px_request plan)" let ?k = "os_kernel s"
  from ok obtain f k1 k2 where f: "find_feature ?i ?k = Some f"
    and st: "ft_status f = FPublishing \<or> ft_status f = FVerifyingMain"
    and k1: "move_feature (\<lambda>g. ft_feature_id g = ?i \<and> ft_lifecycle_revision g = ft_lifecycle_revision f)
        FQuarantined True now ?k = Inr k1"
    and k2: "insert_transition (bare_transition ?i (Suc (ft_lifecycle_revision f)) (ft_status f) FQuarantined now) k1
        = Inr k2"
    and w: "audit_os cx ''feature_publication_ambiguous'' (Some ?i) now
        (publication_ambiguous_metadata cx (pq_publication_id (px_request plan)) action)
        (s\<lparr>os_kernel := k2, os_gates := os_gates s\<rparr>) = Inr s'"
    by (auto simp: quarantine_ambiguous_publication_def Let_def bindE_Inr_iff reject_if_Inr_iff ok_or_Inr_iff
        feature_status_and_revision_tx_def)
  let ?p = "\<lambda>g. ft_feature_id g = ?i \<and> ft_lifecycle_revision g = ft_lifecycle_revision f"
  let ?t = "bare_transition ?i (Suc (ft_lifecycle_revision f)) (ft_status f) FQuarantined now"
  have moved: "k2 = moved_kernel ?p FQuarantined True now ?t ?k"
    using k1 k2 by (auto simp: move_feature_Inr insert_transition_Inr moved_kernel_def)
  have only: "\<forall>g \<in> set (k_features ?k). ?p g \<longleftrightarrow> g = f" using only_feature(2,3) [OF inv f] by blast
  have "conveyor_ok False ?k k2" unfolding moved
    by (rule forward_ok [OF inv f _ _ _ only])
      (use st in \<open>auto simp: busy_def ended_def is_active_execution_def bare_transition_def\<close>)
  note g = gate_writeI [OF w this]
  have "find_feature ?i (os_kernel s') = Some (moved FQuarantined True now f)"
    using find_moved [OF inv f only, of FQuarantined True now ?t] by (simp add: find_feature_def g(3) moved)
  then show ?thesis using f st g(1,2,4) by (intro exI [of _ f] exI [of _ ?t]) (simp add: moved)
qed

end
