(* ===== verification/Gate_Machine.thy ===== *)
theory Gate_Machine
  imports Gate_Effects
begin

text \<open>
  The whole program with its gates as one machine: the operations of the orchestrator (which include distributed work
  and the Feature Conveyor) and the eleven operations of the gates that write. \<open>gates_inv\<close> says what
  every row of the gates' tables rests on; a publication, for one, on the candidate that was frozen, validated
  and approved. The lemmas \<open>.._rows\<close> show, operation by operation, that it is kept and that the tables
  only grow.
\<close>

section \<open>Operations\<close>

datatype gate_op =
    GOrchestrator orchestrator_op
  | GFreeze artifact_integration_plan candidate_evidence nat
  | GConflict integration_request string nat
  | GPlanValidation validation_request nat
  | GFinishValidation validation_execution_plan gate_evidence nat
  | GBeginReview review_request review_packet nat
  | GReviewFailed review_execution_plan review_transport_failure nat
  | GReviewInterrupted review_execution_plan nat
  | GReviewDecided review_execution_plan review_packet review_output nat
  | GBeginPublication publication_execution_plan nat
  | GCompleteAction publication_execution_plan publication_evidence nat
  | GQuarantinePublication publication_execution_plan publication_action nat

text \<open>The orchestrator's operation \<open>OGates\<close>, which stands for the gates there, is not an operation here.\<close>

fun run_gate :: "codec \<Rightarrow> gate_op \<Rightarrow> orchestrator \<Rightarrow> master_error + orchestrator" where
  "run_gate cx (GOrchestrator op) s = (if outside_gates op then run_orchestrator cx op s else Inr s)"
| "run_gate cx (GFreeze plan candidate now) s =
     orchestrator_of (finalize_artifact_integration cx plan candidate now s)"
| "run_gate cx (GConflict r reason now) s = record_artifact_integration_conflict cx r reason now s"
| "run_gate cx (GPlanValidation r now) s = orchestrator_of (plan_validation_gate cx r now s)"
| "run_gate cx (GFinishValidation plan evidence now) s =
     orchestrator_of (finalize_validation_gate cx plan evidence now s)"
| "run_gate cx (GBeginReview r packet now) s = orchestrator_of (begin_review_gateway cx r packet now s)"
| "run_gate cx (GReviewFailed plan failure now) s =
     orchestrator_of (finalize_review_transport_failure cx plan failure now s)"
| "run_gate cx (GReviewInterrupted plan now) s = finalize_interrupted_review_call cx plan now s"
| "run_gate cx (GReviewDecided plan packet out now) s =
     orchestrator_of (finalize_review_decision cx plan packet out now s)"
| "run_gate cx (GBeginPublication plan now) s = begin_publication cx plan now s"
| "run_gate cx (GCompleteAction plan e now) s = orchestrator_of (complete_publication_action cx plan e now s)"
| "run_gate cx (GQuarantinePublication plan action now) s =
     quarantine_ambiguous_publication cx plan action now s"

definition gate_step :: "codec \<Rightarrow> orchestrator \<Rightarrow> gate_op \<Rightarrow> orchestrator" where
  "gate_step cx s op = (case run_gate cx op s of Inl _ \<Rightarrow> s | Inr s' \<Rightarrow> s')"

definition gate_run :: "codec \<Rightarrow> uuid \<Rightarrow> gate_op list \<Rightarrow> orchestrator" where
  "gate_run cx stream ops = run_ops (gate_step cx) (new_orchestrator stream) ops"

section \<open>What the rows of the gates rest on\<close>

definition unique_rows :: "gate_tables \<Rightarrow> bool" where
  "unique_rows g =
     (distinct (map ig_integration_id (tb_integrations g))
      \<and> distinct (map va_validation_id (tb_validation_attempts g))
      \<and> distinct (map vc_validation_id (tb_validation_completions g))
      \<and> distinct (map rc_review_call_id (tb_review_calls g))
      \<and> distinct (map ro_review_call_id (tb_review_outcomes g))
      \<and> distinct (map rd_review_call_id (tb_review_decisions g)))"

text \<open>A validation that has passed, and passed each of the thirteen commands.\<close>

definition commands_passed :: "uuid \<Rightarrow> gate_tables \<Rightarrow> bool" where
  "commands_passed v g =
     (\<forall>command \<in> set REQUIRED_COMMANDS. \<exists>e \<in> set (tb_command_evidence g).
        ve_validation_id e = v \<and> ve_command_id e = command \<and> ve_passed e)"

definition validation_passed :: "uuid \<Rightarrow> digest \<Rightarrow> gate_tables \<Rightarrow> bool" where
  "validation_passed v manifest g =
     (\<exists>c \<in> set (tb_validation_completions g).
        vc_validation_id c = v \<and> vc_passed c \<and> vc_evidence_manifest_sha256 c = manifest)"

text \<open>The candidate of a call: frozen by its integration and attempted by its validation.\<close>

definition call_backed :: "gate_tables \<Rightarrow> review_call_row \<Rightarrow> bool" where
  "call_backed g c =
     ((\<exists>i \<in> set (tb_integrations g). ig_integration_id i = rc_integration_id c \<and> ig_feature_id i = rc_feature_id c
         \<and> ig_candidate_commit i = rc_candidate_commit c \<and> ig_candidate_tree i = rc_candidate_tree c)
      \<and> (\<exists>a \<in> set (tb_validation_attempts g). va_validation_id a = rc_validation_id c
         \<and> va_integration_id a = rc_integration_id c \<and> va_candidate_commit a = rc_candidate_commit c
         \<and> va_candidate_tree a = rc_candidate_tree c)
      \<and> validation_passed (rc_validation_id c) (rc_evidence_manifest_sha256 c) g)"

text \<open>The calls of a feature, and those of one candidate, are numbered from one and bounded.\<close>

definition numbered :: "nat \<Rightarrow> nat list \<Rightarrow> bool" where
  "numbered bound ns = (ns = [1..<Suc (length ns)] \<and> length ns \<le> bound)"

definition calls_numbered :: "uuid \<Rightarrow> string \<Rightarrow> gate_tables \<Rightarrow> bool" where
  "calls_numbered feature commit g =
     (numbered MAX_FEATURE_CONVEYOR_REVIEW_CALLS_PER_FEATURE (map rc_feature_call (calls_of feature g))
      \<and> numbered MAX_FEATURE_CONVEYOR_REVIEW_TRANSPORT_ATTEMPTS_PER_CANDIDATE
          (map rc_candidate_attempt (candidate_calls feature commit g)))"

text \<open>A decision is the canonical document of an output that the protocol accepts.\<close>

definition decision_is_output :: "codec \<Rightarrow> review_decision_row \<Rightarrow> bool" where
  "decision_is_output cx d =
     (\<exists>out. validate_review_output cx out = Inr ()
        \<and> rd_decision d = (if rv_decision out = VerdictApproved then ''approved'' else ''rejected'')
        \<and> rd_structured_result_json d = canonical_json cx (review_output_json out)
        \<and> rd_decision_sha256 d = sha256 cx (rd_structured_result_json d))"

definition decision_backed :: "codec \<Rightarrow> gate_tables \<Rightarrow> review_decision_row \<Rightarrow> bool" where
  "decision_backed cx g d =
     (decision_is_output cx d
      \<and> (\<exists>q \<in> set (tb_review_outcomes g). ro_review_call_id q = rd_review_call_id d
           \<and> ro_outcome_kind q = ''decision'' \<and> ro_outcome_sha256 q = rd_decision_sha256 d))"

text \<open>
  The chain of custody of a publication: the candidate was frozen by the integration, validated, and
  approved by the call, one and the same candidate all the way.
\<close>

definition in_custody :: "codec \<Rightarrow> gate_tables \<Rightarrow> publication_row \<Rightarrow> bool" where
  "in_custody cx g p =
     ((\<exists>i \<in> set (tb_integrations g). ig_integration_id i = pb_integration_id p \<and> ig_feature_id i = pb_feature_id p
         \<and> ig_candidate_commit i = pb_candidate_commit p \<and> ig_candidate_tree i = pb_candidate_tree p)
      \<and> (\<exists>a \<in> set (tb_validation_attempts g). va_validation_id a = pb_validation_id p
         \<and> va_integration_id a = pb_integration_id p \<and> va_candidate_commit a = pb_candidate_commit p)
      \<and> validation_passed (pb_validation_id p) (pb_evidence_manifest_sha256 p) g
      \<and> commands_passed (pb_validation_id p) g
      \<and> (\<exists>c \<in> set (tb_review_calls g). rc_review_call_id c = pb_review_call_id p \<and> rc_feature_id c = pb_feature_id p
         \<and> rc_validation_id c = pb_validation_id p \<and> rc_candidate_commit c = pb_candidate_commit p
         \<and> rc_candidate_diff_sha256 c = pb_candidate_diff_sha256 p)
      \<and> (\<exists>d \<in> set (tb_review_decisions g). rd_review_call_id d = pb_review_call_id p \<and> rd_decision d = ''approved''
         \<and> rd_decision_sha256 d = pb_review_decision_sha256 p \<and> decision_is_output cx d))"

definition gates_inv :: "codec \<Rightarrow> gate_tables \<Rightarrow> publication_row list \<Rightarrow> bool" where
  "gates_inv cx g ps =
     (unique_rows g
      \<and> (\<forall>c \<in> set (tb_validation_completions g). vc_passed c \<longrightarrow> commands_passed (vc_validation_id c) g)
      \<and> (\<forall>c \<in> set (tb_review_calls g). call_backed g c)
      \<and> (\<forall>feature commit. calls_numbered feature commit g)
      \<and> (\<forall>d \<in> set (tb_review_decisions g). decision_backed cx g d)
      \<and> (\<forall>p \<in> set ps. in_custody cx g p))"

section \<open>The tables of the gates grow\<close>

definition gates_grow :: "gate_tables \<Rightarrow> gate_tables \<Rightarrow> bool" where
  "gates_grow g h =
     (prefix (tb_integrations g) (tb_integrations h)
      \<and> prefix (tb_validation_attempts g) (tb_validation_attempts h)
      \<and> prefix (tb_command_evidence g) (tb_command_evidence h)
      \<and> prefix (tb_validation_completions g) (tb_validation_completions h)
      \<and> prefix (tb_review_calls g) (tb_review_calls h)
      \<and> prefix (tb_review_outcomes g) (tb_review_outcomes h)
      \<and> prefix (tb_review_decisions g) (tb_review_decisions h)
      \<and> prefix (tb_publication_outcomes g) (tb_publication_outcomes h)
      \<and> prefix (tb_publication_completions g) (tb_publication_completions h))"

lemma gates_grow_refl [simp]: "gates_grow g g"
  by (simp add: gates_grow_def)

lemma gates_grow_trans: "gates_grow g h \<Longrightarrow> gates_grow h k \<Longrightarrow> gates_grow g k"
  unfolding gates_grow_def by (intro conjI; elim conjE) (blast intro: prefix_order.trans)+

lemma gates_grow_sets:
  assumes "gates_grow g h"
  shows "set (tb_integrations g) \<subseteq> set (tb_integrations h)"
    "set (tb_validation_attempts g) \<subseteq> set (tb_validation_attempts h)"
    "set (tb_command_evidence g) \<subseteq> set (tb_command_evidence h)"
    "set (tb_validation_completions g) \<subseteq> set (tb_validation_completions h)"
    "set (tb_review_calls g) \<subseteq> set (tb_review_calls h)"
    "set (tb_review_outcomes g) \<subseteq> set (tb_review_outcomes h)"
    "set (tb_review_decisions g) \<subseteq> set (tb_review_decisions h)"
  using assms by (auto simp: gates_grow_def set_mono_prefix [THEN subsetD])

lemma commands_passed_grow: "commands_passed v g \<Longrightarrow> gates_grow g h \<Longrightarrow> commands_passed v h"
  using gates_grow_sets(3) unfolding commands_passed_def by blast

lemma validation_passed_grow: "validation_passed v m g \<Longrightarrow> gates_grow g h \<Longrightarrow> validation_passed v m h"
  using gates_grow_sets(4) unfolding validation_passed_def by blast

lemma call_backed_grow: "call_backed g c \<Longrightarrow> gates_grow g h \<Longrightarrow> call_backed h c"
  using gates_grow_sets(1,2) [of g h] validation_passed_grow unfolding call_backed_def by blast

lemma decision_backed_grow: "decision_backed cx g d \<Longrightarrow> gates_grow g h \<Longrightarrow> decision_backed cx h d"
  using gates_grow_sets(6) unfolding decision_backed_def by blast

lemma in_custody_grow: "in_custody cx g p \<Longrightarrow> gates_grow g h \<Longrightarrow> in_custody cx h p"
  using gates_grow_sets(1,2,5,7) [of g h] validation_passed_grow commands_passed_grow unfolding in_custody_def
  by (elim conjE; intro conjI) blast+

text \<open>The invariant when tables grow: only new rows are to be looked at.\<close>

lemma gates_invI:
  assumes inv: "gates_inv cx g ps" and grow: "gates_grow g h" and unique: "unique_rows h"
    and completions: "\<And>c. c \<in> set (tb_validation_completions h) - set (tb_validation_completions g) \<Longrightarrow> vc_passed c
      \<Longrightarrow> commands_passed (vc_validation_id c) h"
    and calls: "\<And>c. c \<in> set (tb_review_calls h) - set (tb_review_calls g) \<Longrightarrow> call_backed h c"
    and numbers: "\<And>feature commit. calls_numbered feature commit h"
    and decisions: "\<And>d. d \<in> set (tb_review_decisions h) - set (tb_review_decisions g) \<Longrightarrow> decision_backed cx h d"
    and publications: "\<And>p. p \<in> set qs - set ps \<Longrightarrow> in_custody cx h p"
  shows "gates_inv cx h qs"
  unfolding gates_inv_def
proof (intro conjI ballI allI impI)
  show "unique_rows h" by (rule unique)
  show "calls_numbered feature commit h" for feature commit by (rule numbers)
next
  fix c assume "c \<in> set (tb_validation_completions h)" "vc_passed c"
  then show "commands_passed (vc_validation_id c) h"
    using inv completions [of c] commands_passed_grow [OF _ grow] unfolding gates_inv_def by blast
next
  fix c assume "c \<in> set (tb_review_calls h)"
  then show "call_backed h c" using inv calls call_backed_grow [OF _ grow] unfolding gates_inv_def by blast
next
  fix d assume "d \<in> set (tb_review_decisions h)"
  then show "decision_backed cx h d" using inv decisions decision_backed_grow [OF _ grow] unfolding gates_inv_def by blast
next
  fix p assume "p \<in> set qs"
  then show "in_custody cx h p" using inv publications in_custody_grow [OF _ grow] unfolding gates_inv_def by blast
qed

lemma calls_numbered_same: "tb_review_calls h = tb_review_calls g \<Longrightarrow> calls_numbered f c h = calls_numbered f c g"
  by (simp add: calls_numbered_def calls_of_def candidate_calls_def)

lemma gates_inv_numbered: "gates_inv cx g ps \<Longrightarrow> calls_numbered f c g"
  by (simp add: gates_inv_def)

lemma gates_inv_unique: "gates_inv cx g ps \<Longrightarrow> unique_rows g"
  by (simp add: gates_inv_def)

section \<open>The rows of a review and of a publication\<close>

lemma find_integration_Some:
  "find_integration n g = Some i \<Longrightarrow> i \<in> set (tb_integrations g) \<and> ig_integration_id i = n"
  by (auto simp: find_integration_def dest: find_row_Some)

lemma find_attempt_Some:
  "find_attempt n g = Some a \<Longrightarrow> a \<in> set (tb_validation_attempts g) \<and> va_validation_id a = n"
  by (auto simp: find_attempt_def dest: find_row_Some)

lemma load_validation_completion_Some:
  "load_validation_completion_tx n g = Some c \<Longrightarrow> c \<in> set (tb_validation_completions g) \<and> vc_validation_id c = n"
  by (auto simp: load_validation_completion_tx_def dest: find_row_Some)

lemma review_plan_facts:
  assumes "review_gateway_plan_tx cx r now s = Inr plan"
  shows "rx_request plan = r"
    and "review_call_numbers r now (os_gates s) = Inr (rx_candidate_attempt plan, rx_feature_call plan)"
    and "\<exists>i. find_integration (rq_integration_id r) (os_gates s) = Some i \<and> review_integration_exact r i"
    and "\<exists>a c. find_attempt (rq_validation_id r) (os_gates s) = Some a
      \<and> load_validation_completion_tx (rq_validation_id r) (os_gates s) = Some c \<and> review_validation_exact r (a, c)"
    and "\<exists>f. find_feature (rq_feature_id r) (os_kernel s) = Some f \<and> review_feature_exact r f"
    and "k_queue_revision (os_kernel s) = rq_expected_queue_revision r"
    and "k_emergency_pause_revision (os_kernel s) = rq_expected_emergency_pause_revision r"
proof -
  from assms obtain u where "require_gate_authority (rq_expected_emergency_pause_revision r)
      (rq_expected_queue_revision r) (rq_feature_id r) now (os_kernel s) = Inr u"
    unfolding review_gateway_plan_tx_def Let_def bindE_Inr_iff by blast
  from gate_authority_facts [OF this] show "k_queue_revision (os_kernel s) = rq_expected_queue_revision r"
    "k_emergency_pause_revision (os_kernel s) = rq_expected_emergency_pause_revision r" by simp_all
  from assms show "rx_request plan = r"
    "review_call_numbers r now (os_gates s) = Inr (rx_candidate_attempt plan, rx_feature_call plan)"
    unfolding review_gateway_plan_tx_def Let_def bindE_Inr_iff by (auto simp: bindE_Inr_iff split: prod.splits)
  from assms show "\<exists>i. find_integration (rq_integration_id r) (os_gates s) = Some i \<and> review_integration_exact r i"
    "\<exists>f. find_feature (rq_feature_id r) (os_kernel s) = Some f \<and> review_feature_exact r f"
    unfolding review_gateway_plan_tx_def Let_def bindE_Inr_iff ok_or_Inr_iff reject_if_Inr_iff not_not by blast+
  from assms obtain v where "completed_attempt (rq_validation_id r) (os_gates s) = Some v" "review_validation_exact r v"
    unfolding review_gateway_plan_tx_def Let_def bindE_Inr_iff ok_or_Inr_iff reject_if_Inr_iff not_not by blast
  then show "\<exists>a c. find_attempt (rq_validation_id r) (os_gates s) = Some a
      \<and> load_validation_completion_tx (rq_validation_id r) (os_gates s) = Some c \<and> review_validation_exact r (a, c)"
    by (auto simp: completed_attempt_def bind_eq_Some_conv)
qed

lemma new_call_backed:
  assumes "review_gateway_plan_tx cx r now s = Inr plan"
  shows "call_backed (os_gates s) (review_row_of plan binding at)"
proof -
  note facts = review_plan_facts [OF assms]
  from facts(3) obtain i where i: "i \<in> set (tb_integrations (os_gates s))" "ig_integration_id i = rq_integration_id r"
    "review_integration_exact r i" using find_integration_Some by blast
  from facts(4) obtain a c where a: "a \<in> set (tb_validation_attempts (os_gates s))" "va_validation_id a = rq_validation_id r"
    and c: "c \<in> set (tb_validation_completions (os_gates s))" "vc_validation_id c = rq_validation_id r"
    and v: "review_validation_exact r (a, c)"
    using find_attempt_Some load_validation_completion_Some by blast
  have "validation_passed (rq_validation_id r) (rq_evidence_manifest_sha256 r) (os_gates s)"
    using c v unfolding validation_passed_def review_validation_exact_def by auto
  with i a v show ?thesis
    unfolding call_backed_def
    by (auto simp: review_row_of_def Let_def facts(1) review_integration_exact_def review_validation_exact_def)
qed

lemma numbered_snoc: "numbered b ns \<Longrightarrow> length ns < b \<Longrightarrow> numbered b (ns @ [Suc (length ns)])"
  by (simp add: numbered_def)

lemma new_call_numbers:
  assumes numbers: "review_call_numbers r now g = Inr (attempt, call)"
    and new: "find_row (\<lambda>c. rc_review_call_id c = rq_review_call_id r) (tb_review_calls g) = None"
  shows "attempt = Suc (length (candidate_calls (rq_feature_id r) (rq_candidate_commit r) g))
    \<and> call = Suc (length (calls_of (rq_feature_id r) g))
    \<and> length (candidate_calls (rq_feature_id r) (rq_candidate_commit r) g)
        < MAX_FEATURE_CONVEYOR_REVIEW_TRANSPORT_ATTEMPTS_PER_CANDIDATE
    \<and> length (calls_of (rq_feature_id r) g) < MAX_FEATURE_CONVEYOR_REVIEW_CALLS_PER_FEATURE
    \<and> (\<forall>d \<in> set (tb_review_decisions g). \<not> (rd_feature_id d = rq_feature_id r
         \<and> rd_candidate_commit d = rq_candidate_commit r))"
  using numbers unfolding review_call_numbers_def new
  by (auto simp: Let_def bindE_Inr_iff reject_if_Inr_iff to_u8_def exists_row_iff split: if_splits)

lemma calls_numbered_snoc:
  assumes old: "\<And>f commit. calls_numbered f commit g" and c: "c = review_row_of plan binding at" "rx_request plan = r"
    and numbers: "review_call_numbers r now g = Inr (rx_candidate_attempt plan, rx_feature_call plan)"
    and new: "find_row (\<lambda>c. rc_review_call_id c = rq_review_call_id r) (tb_review_calls g) = None"
    and h: "tb_review_calls h = tb_review_calls g @ [c]"
  shows "calls_numbered feature commit h"
proof -
  note n = new_call_numbers [OF numbers new]
  have fields: "rc_feature_id c = rq_feature_id r" "rc_candidate_commit c = rq_candidate_commit r"
    "rc_candidate_attempt c = rx_candidate_attempt plan" "rc_feature_call c = rx_feature_call plan"
    by (simp_all add: c review_row_of_def Let_def)
  have calls: "calls_of feature h = calls_of feature g @ (if rc_feature_id c = feature then [c] else [])"
    by (simp add: calls_of_def h)
  have candidates: "candidate_calls feature commit h = candidate_calls feature commit g
      @ (if rc_feature_id c = feature \<and> rc_candidate_commit c = commit then [c] else [])"
    by (simp add: candidate_calls_def calls)
  have "numbered MAX_FEATURE_CONVEYOR_REVIEW_CALLS_PER_FEATURE (map rc_feature_call (calls_of feature h))"
    using old [of feature commit] n numbered_snoc [of _ "map rc_feature_call (calls_of feature g)"]
    by (auto simp: calls calls_numbered_def fields)
  moreover have "numbered MAX_FEATURE_CONVEYOR_REVIEW_TRANSPORT_ATTEMPTS_PER_CANDIDATE
      (map rc_candidate_attempt (candidate_calls feature commit h))"
    using old [of feature commit] n numbered_snoc [of _ "map rc_candidate_attempt (candidate_calls feature commit g)"]
    by (auto simp: candidates calls_numbered_def fields)
  ultimately show ?thesis by (simp add: calls_numbered_def)
qed

lemma publication_plan_join:
  assumes "publication_plan_tx cx r now s = Inr plan"
  shows "\<exists>j. publication_join r s = Some j \<and> publication_join_exact r j"
  using assms unfolding publication_plan_tx_def Let_def bindE_Inr_iff ok_or_Inr_iff reject_if_Inr_iff not_not by blast

text \<open>The approved candidate of a new publication is the frozen and validated one.\<close>

lemma new_publication_in_custody:
  assumes inv: "gates_inv cx (os_gates s) ps" and plan: "publication_plan_tx cx (px_request plan) now s = Inr plan"
  shows "in_custody cx (os_gates s) (publication_row_of plan binding at)"
proof -
  let ?r = "px_request plan" let ?g = "os_gates s"
  from publication_plan_join [OF plan] obtain p i v c d where
    p: "find_specification (pq_feature_id ?r) (pq_specification_revision ?r) (os_kernel s) = Some p"
    and i: "find_integration (pq_integration_id ?r) ?g = Some i"
    and v: "load_validation_completion_tx (pq_validation_id ?r) ?g = Some v"
    and c: "find_row (\<lambda>c. rc_review_call_id c = pq_review_call_id ?r) (tb_review_calls ?g) = Some c"
    and d: "find_row (\<lambda>d. rd_review_call_id d = rc_review_call_id c) (tb_review_decisions ?g) = Some d"
    and link: "ig_feature_id i = sp_feature_id p" "vc_validation_id v = rc_validation_id c"
      "rc_integration_id c = ig_integration_id i" "rc_feature_id c = sp_feature_id p"
    and exact: "publication_join_exact ?r (p, i, v, c, d)"
    by (auto simp: publication_join_def Let_def bind_eq_Some_conv split: if_splits)
  have feature: "sp_feature_id p = pq_feature_id ?r"
    using find_row_Some [OF p [unfolded find_specification_def]] by simp
  note i' = find_integration_Some [OF i] and v' = load_validation_completion_Some [OF v]
  note c' = find_row_Some [OF c] and d' = find_row_Some [OF d]
  have backed: "call_backed ?g c" and unique: "unique_rows ?g" using inv c' by (auto simp: gates_inv_def)
  from backed obtain j a where j: "j \<in> set (tb_integrations ?g)" "ig_integration_id j = rc_integration_id c"
      "ig_candidate_commit j = rc_candidate_commit c" "ig_candidate_tree j = rc_candidate_tree c"
    and a: "a \<in> set (tb_validation_attempts ?g)" "va_validation_id a = rc_validation_id c"
      "va_integration_id a = rc_integration_id c" "va_candidate_commit a = rc_candidate_commit c"
    and passed: "validation_passed (rc_validation_id c) (rc_evidence_manifest_sha256 c) ?g"
    by (auto simp: call_backed_def)
  have "j = i" using unique i' j link by (auto simp: unique_rows_def dest: distinct_map_inj)
  then have commit: "rc_candidate_commit c = pq_candidate_commit ?r"
    using exact j by (simp add: publication_join_exact_def)
  from passed obtain w where "w \<in> set (tb_validation_completions ?g)" "vc_validation_id w = rc_validation_id c" "vc_passed w"
    by (auto simp: validation_passed_def)
  then have "w = v" using unique v' link by (auto simp: unique_rows_def dest: distinct_map_inj)
  with \<open>vc_passed w\<close> have "vc_passed v" by simp
  then have "validation_passed (pq_validation_id ?r) (pq_evidence_manifest_sha256 ?r) ?g"
    and "commands_passed (pq_validation_id ?r) ?g"
    using v' exact inv by (auto simp: validation_passed_def publication_join_exact_def gates_inv_def)
  moreover have "decision_is_output cx d" using inv d' by (auto simp: gates_inv_def decision_backed_def)
  ultimately show ?thesis
    unfolding in_custody_def using i' v' c' d' a link feature commit exact
    by (auto simp: publication_row_of_def Let_def publication_join_exact_def)
qed

section \<open>Every operation keeps the rows\<close>

lemma decided_row_output:
  assumes "validate_review_output cx out = Inr ()" "d = review_decision_of cx plan out n now"
  shows "decision_is_output cx d"
  unfolding decision_is_output_def
  by (rule exI [of _ out]) (use assms in \<open>simp add: review_decision_of_def decision_sha256_def\<close>)

definition rows_ok :: "codec \<Rightarrow> orchestrator \<Rightarrow> orchestrator \<Rightarrow> bool" where
  "rows_ok cx s s' =
     (gates_inv cx (os_gates s) (k_publications (os_kernel s)) \<longrightarrow>
        gates_inv cx (os_gates s') (k_publications (os_kernel s')) \<and> gates_grow (os_gates s) (os_gates s'))"

lemma rows_ok_same:
  "os_gates s' = os_gates s \<Longrightarrow> journal (os_kernel s') = journal (os_kernel s) \<Longrightarrow> rows_ok cx s s'"
  by (simp add: rows_ok_def journal_def)

lemma rows_okI:
  assumes w: "gate_write s h s'" and j: "journal (os_kernel s') = journal (os_kernel s)"
    and inv: "gates_inv cx (os_gates s) (k_publications (os_kernel s)) \<Longrightarrow> gates_inv cx h (k_publications (os_kernel s))"
    and grow: "gates_grow (os_gates s) h"
  shows "rows_ok cx s s'"
proof -
  from w have "os_gates s' = h" unfolding gate_write_def by (metis orchestrator.select_convs(5) orchestrator.surjective
      orchestrator.update_convs(5))
  then show ?thesis using j inv grow by (simp add: rows_ok_def journal_def)
qed

lemma numbered_when_same:
  "gates_inv cx g ps \<Longrightarrow> tb_review_calls h = tb_review_calls g \<Longrightarrow> calls_numbered f c h"
  using gates_inv_numbered calls_numbered_same by blast

lemma gates_inv_completions:
  assumes "gates_inv cx g ps" and "h = g\<lparr>tb_command_evidence := es, tb_validation_completions := cs\<rparr>"
    and "prefix (tb_command_evidence g) es" "prefix (tb_validation_completions g) cs" "distinct (map vc_validation_id cs)"
    and "\<And>c. c \<in> set cs - set (tb_validation_completions g) \<Longrightarrow> vc_passed c \<Longrightarrow> commands_passed (vc_validation_id c) h"
  shows "gates_inv cx h ps \<and> gates_grow g h"
proof
  show grow: "gates_grow g h" using assms by (simp add: gates_grow_def)
  show "gates_inv cx h ps"
  proof (rule gates_invI [OF assms(1) grow])
    show "unique_rows h" using assms(1,2,5) by (simp add: gates_inv_def unique_rows_def)
    show "calls_numbered f c h" for f c
      by (rule numbered_when_same [OF assms(1)]) (simp add: assms(2))
  qed (use assms(2,6) in auto)
qed

lemma freeze_rows:
  assumes inv: "conveyor_inv False (os_kernel s)"
    and ok: "finalize_artifact_integration cx plan c now s = Inr (s', receipt)"
  shows "rows_ok cx s s'"
proof (cases "s' = s")
  case False
  with freeze_effect [OF inv ok] obtain h as i where w: "gate_write s h s'" "journal (os_kernel s') = journal (os_kernel s)"
    and h: "h = (os_gates s)\<lparr>tb_integrations := tb_integrations (os_gates s) @ [i], tb_integration_artifacts := as\<rparr>"
    and i: "\<forall>j \<in> set (tb_integrations (os_gates s)). ig_integration_id j \<noteq> ig_integration_id i"
    unfolding Let_def by blast
  have grow: "gates_grow (os_gates s) h" by (simp add: gates_grow_def h)
  show ?thesis
  proof (rule rows_okI [OF w _ grow])
    assume old: "gates_inv cx (os_gates s) (k_publications (os_kernel s))"
    show "gates_inv cx h (k_publications (os_kernel s))"
    proof (rule gates_invI [OF old grow])
      show "unique_rows h" using gates_inv_unique [OF old] i by (auto simp: unique_rows_def h)
      show "calls_numbered f c h" for f c
        by (rule numbered_when_same [OF old]) (simp add: h)
    qed (simp_all add: h)
  qed
qed (simp add: rows_ok_same)

lemma conflict_rows:
  assumes inv: "conveyor_inv False (os_kernel s)"
    and ok: "record_artifact_integration_conflict cx r reason now s = Inr s'"
  shows "rows_ok cx s s'"
proof (cases "s' = s")
  case False
  with conflict_effect [OF inv ok] obtain xs where
    w: "gate_write s ((os_gates s)\<lparr>tb_integration_conflicts := xs\<rparr>) s'" "journal (os_kernel s') = journal (os_kernel s)"
    by blast
  let ?h = "(os_gates s)\<lparr>tb_integration_conflicts := xs\<rparr>"
  have grow: "gates_grow (os_gates s) ?h" by (simp add: gates_grow_def)
  show ?thesis
  proof (rule rows_okI [OF w _ grow])
    assume old: "gates_inv cx (os_gates s) (k_publications (os_kernel s))"
    show "gates_inv cx ?h (k_publications (os_kernel s))"
      by (rule gates_invI [OF old grow])
        (use gates_inv_unique [OF old] gates_inv_numbered [OF old] in
          \<open>simp_all add: unique_rows_def calls_numbered_same [of ?h "os_gates s"]\<close>)
  qed
qed (simp add: rows_ok_same)

lemma validation_started_rows:
  assumes inv: "conveyor_inv False (os_kernel s)"
    and ok: "authorize_validation_gate cx r now persist s = Inr (s', authorization)"
  shows "rows_ok cx s s'"
proof (cases "s' = s")
  case False
  with validation_started_effect [OF inv ok] obtain a where
    w: "gate_write s ((os_gates s)\<lparr>tb_validation_attempts := tb_validation_attempts (os_gates s) @ [a]\<rparr>) s'"
      "journal (os_kernel s') = journal (os_kernel s)"
    and a: "\<forall>b \<in> set (tb_validation_attempts (os_gates s)). va_validation_id b \<noteq> va_validation_id a" by blast
  let ?h = "(os_gates s)\<lparr>tb_validation_attempts := tb_validation_attempts (os_gates s) @ [a]\<rparr>"
  have grow: "gates_grow (os_gates s) ?h" by (simp add: gates_grow_def)
  show ?thesis
  proof (rule rows_okI [OF w _ grow])
    assume old: "gates_inv cx (os_gates s) (k_publications (os_kernel s))"
    show "gates_inv cx ?h (k_publications (os_kernel s))"
    proof (rule gates_invI [OF old grow])
      show "unique_rows ?h" using gates_inv_unique [OF old] a by (auto simp: unique_rows_def)
      show "calls_numbered f c ?h" for f c
        by (rule numbered_when_same [OF old]) simp
    qed simp_all
  qed
qed (simp add: rows_ok_same)

lemma validation_finished_rows:
  assumes inv: "conveyor_inv False (os_kernel s)"
    and ok: "finalize_validation_gate cx plan evidence now s = Inr (s', receipt)"
  shows "rows_ok cx s s'"
proof (cases "s' = s")
  case False
  with validation_finished_effect [OF inv ok] obtain c v where
    w: "gate_write s ((os_gates s)
      \<lparr>tb_command_evidence := tb_command_evidence (os_gates s) @ map (command_row_of v) evidence,
       tb_validation_completions := tb_validation_completions (os_gates s) @ [c]\<rparr>) s'"
      "journal (os_kernel s') = journal (os_kernel s)"
    and c: "vc_validation_id c = v" "\<forall>d \<in> set (tb_validation_completions (os_gates s)). vc_validation_id d \<noteq> v"
    and passed: "vc_passed c = all_passed evidence" "map cm_command_id evidence = REQUIRED_COMMANDS" by blast
  let ?h = "(os_gates s)
      \<lparr>tb_command_evidence := tb_command_evidence (os_gates s) @ map (command_row_of v) evidence,
       tb_validation_completions := tb_validation_completions (os_gates s) @ [c]\<rparr>"
  have commands: "commands_passed v ?h" if "vc_passed c"
    unfolding commands_passed_def
  proof
    fix command assume "command \<in> set REQUIRED_COMMANDS"
    then obtain e where "e \<in> set evidence" "cm_command_id e = command" unfolding passed(2) [symmetric] by auto
    then show "\<exists>e \<in> set (tb_command_evidence ?h). ve_validation_id e = v \<and> ve_command_id e = command \<and> ve_passed e"
      using that passed(1) by (intro bexI [of _ "command_row_of v e"]) (auto simp: command_row_of_def all_passed_def list_all_iff)
  qed
  have each: "commands_passed (vc_validation_id d) ?h"
    if "d \<in> set (tb_validation_completions (os_gates s) @ [c]) - set (tb_validation_completions (os_gates s))" "vc_passed d" for d
    using that commands c(1) by auto
  have kept: "gates_inv cx ?h ps \<and> gates_grow (os_gates s) ?h" if "gates_inv cx (os_gates s) ps" for ps
    by (rule gates_inv_completions [OF that HOL.refl _ _ _ each])
      (use gates_inv_unique [OF that] c in \<open>auto simp: unique_rows_def\<close>)
  show ?thesis by (rule rows_okI [OF w]) (use kept in \<open>auto simp: gates_grow_def\<close>)
qed (simp add: rows_ok_same)

lemma review_started_rows:
  assumes inv: "conveyor_inv False (os_kernel s)"
    and ok: "authorize_review_gateway cx r packet now s = Inr (s', authorization)"
  shows "rows_ok cx s s'"
proof (cases "s' = s")
  case False
  with review_started_effect [OF inv ok] obtain plan c binding where
    plan: "review_gateway_plan_tx cx r now s = Inr plan"
    and new: "find_row (\<lambda>c. rc_review_call_id c = rq_review_call_id r) (tb_review_calls (os_gates s)) = None"
    and c: "c = review_row_of plan binding now"
    and w: "gate_write s ((os_gates s)\<lparr>tb_review_calls := tb_review_calls (os_gates s) @ [c]\<rparr>) s'"
      "journal (os_kernel s') = journal (os_kernel s)" by blast
  let ?h = "(os_gates s)\<lparr>tb_review_calls := tb_review_calls (os_gates s) @ [c]\<rparr>"
  note facts = review_plan_facts [OF plan]
  have grow: "gates_grow (os_gates s) ?h" by (simp add: gates_grow_def)
  have fresh: "\<forall>d \<in> set (tb_review_calls (os_gates s)). rc_review_call_id d \<noteq> rc_review_call_id c"
    using new by (auto simp: find_row_None c review_row_of_def Let_def facts(1))
  show ?thesis
  proof (rule rows_okI [OF w _ grow])
    assume old: "gates_inv cx (os_gates s) (k_publications (os_kernel s))"
    show "gates_inv cx ?h (k_publications (os_kernel s))"
    proof (rule gates_invI [OF old grow])
      show "unique_rows ?h" using gates_inv_unique [OF old] fresh by (auto simp: unique_rows_def)
      show "calls_numbered f commit ?h" for f commit
        by (rule calls_numbered_snoc [OF gates_inv_numbered [OF old] c facts(1,2) new]) simp
      show "call_backed ?h d" if "d \<in> set (tb_review_calls ?h) - set (tb_review_calls (os_gates s))" for d
        using that call_backed_grow [OF new_call_backed [OF plan] grow] by (auto simp: c)
    qed simp_all
  qed
qed (simp add: rows_ok_same)

text \<open>An outcome of a call, without or with its decision.\<close>

lemma gates_inv_outcomes:
  assumes old: "gates_inv cx g ps"
    and h: "h = g\<lparr>tb_review_outcomes := tb_review_outcomes g @ [q], tb_review_decisions := tb_review_decisions g @ ds\<rparr>"
    and q: "\<forall>p \<in> set (tb_review_outcomes g). ro_review_call_id p \<noteq> ro_review_call_id q"
    and ds: "distinct (map rd_review_call_id (tb_review_decisions g @ ds))"
    and backed: "\<And>d. d \<in> set ds \<Longrightarrow> decision_backed cx h d"
  shows "gates_inv cx h ps \<and> gates_grow g h"
proof
  show grow: "gates_grow g h" by (simp add: gates_grow_def h)
  show "gates_inv cx h ps"
  proof (rule gates_invI [OF old grow])
    show "unique_rows h" using gates_inv_unique [OF old] q ds by (auto simp: unique_rows_def h)
    show "calls_numbered f c h" for f c
      by (rule numbered_when_same [OF old]) (simp add: h)
    show "decision_backed cx h d" if "d \<in> set (tb_review_decisions h) - set (tb_review_decisions g)" for d
      using that backed by (auto simp: h)
  qed (simp_all add: h)
qed

lemma outcome_rows:
  assumes w: "gate_write s ((os_gates s)\<lparr>tb_review_outcomes := tb_review_outcomes (os_gates s) @ [q]\<rparr>) s'"
    and j: "journal (os_kernel s') = journal (os_kernel s)"
    and q: "\<forall>p \<in> set (tb_review_outcomes (os_gates s)). ro_review_call_id p \<noteq> ro_review_call_id q"
  shows "rows_ok cx s s'"
proof (rule rows_okI [OF w j])
  show "gates_inv cx ((os_gates s)\<lparr>tb_review_outcomes := tb_review_outcomes (os_gates s) @ [q]\<rparr>) (k_publications (os_kernel s))"
    if "gates_inv cx (os_gates s) (k_publications (os_kernel s))"
    using gates_inv_outcomes [OF that _ q, of "(os_gates s)\<lparr>tb_review_outcomes := tb_review_outcomes (os_gates s) @ [q]\<rparr>" "[]"]
      gates_inv_unique [OF that] by (simp add: unique_rows_def)
qed (simp add: gates_grow_def)

lemma review_failed_rows:
  assumes "conveyor_inv False (os_kernel s)" "finalize_review_transport_failure cx plan failure now s = Inr (s', retry)"
  shows "rows_ok cx s s'"
  using review_failed_effect [OF assms] outcome_rows by blast

lemma review_interrupted_rows:
  assumes "conveyor_inv False (os_kernel s)" "finalize_interrupted_review_call cx plan now s = Inr s'"
  shows "rows_ok cx s s'"
  using review_interrupted_effect [OF assms] outcome_rows by blast

lemma review_decided_rows:
  assumes inv: "conveyor_inv False (os_kernel s)"
    and ok: "finalize_review_decision cx plan packet out now s = Inr (s', receipt)"
  shows "rows_ok cx s s'"
proof -
  from review_decided_effect [OF inv ok] obtain q d n where
    w: "gate_write s ((os_gates s)\<lparr>tb_review_outcomes := tb_review_outcomes (os_gates s) @ [q],
        tb_review_decisions := tb_review_decisions (os_gates s) @ [d]\<rparr>) s'"
      "journal (os_kernel s') = journal (os_kernel s)"
    and out: "validate_review_output cx out = Inr ()" "d = review_decision_of cx plan out n now"
    and q: "ro_review_call_id q = rd_review_call_id d" "ro_outcome_kind q = ''decision''"
      "ro_outcome_sha256 q = rd_decision_sha256 d"
    and fresh: "\<forall>p \<in> set (tb_review_outcomes (os_gates s)). ro_review_call_id p \<noteq> rd_review_call_id d"
      "\<forall>e \<in> set (tb_review_decisions (os_gates s)). rd_review_call_id e \<noteq> rd_review_call_id d" by blast
  let ?h = "(os_gates s)\<lparr>tb_review_outcomes := tb_review_outcomes (os_gates s) @ [q],
        tb_review_decisions := tb_review_decisions (os_gates s) @ [d]\<rparr>"
  have "decision_backed cx ?h d" using decided_row_output [OF out] q by (auto simp: decision_backed_def)
  then have kept: "gates_inv cx ?h ps \<and> gates_grow (os_gates s) ?h" if "gates_inv cx (os_gates s) ps" for ps
    using gates_inv_unique [OF that] fresh q
    by (intro gates_inv_outcomes [OF that HOL.refl, where ds = "[d]"]) (auto simp: unique_rows_def)
  show ?thesis by (rule rows_okI [OF w]) (use kept in \<open>auto simp: gates_grow_def\<close>)
qed

lemma publication_started_rows:
  assumes inv: "conveyor_inv False (os_kernel s)" and ok: "begin_publication cx plan now s = Inr s'"
  shows "rows_ok cx s s'"
proof -
  from publication_started_effect [OF inv ok] obtain p i binding where
    plan: "publication_plan_tx cx (px_request plan) now s = Inr plan" and p: "p = publication_row_of plan binding now"
    and w: "gate_write s (os_gates s) s'"
    and j: "journal (os_kernel s') = (k_publications (os_kernel s) @ [p], k_publication_intents (os_kernel s) @ [i])"
    by blast
  have g: "os_gates s' = os_gates s" using w unfolding gate_write_def by (cases s; cases s') auto
  show ?thesis unfolding rows_ok_def
  proof (intro impI conjI)
    assume old: "gates_inv cx (os_gates s) (k_publications (os_kernel s))"
    show "gates_inv cx (os_gates s') (k_publications (os_kernel s'))"
      by (rule gates_invI [OF old]) (use old new_publication_in_custody [OF old plan] j in
        \<open>auto simp: g p journal_def gates_inv_unique gates_inv_numbered\<close>)
  qed (simp add: g)
qed

lemma action_completed_rows:
  assumes inv: "conveyor_inv False (os_kernel s)"
    and ok: "complete_publication_action cx plan e now s = Inr (s', receipt)"
  shows "rows_ok cx s s'"
proof -
  let ?g = "os_gates s"
  have "\<exists>qs cs. gate_write s (?g\<lparr>tb_publication_outcomes := tb_publication_outcomes ?g @ qs,
        tb_publication_completions := tb_publication_completions ?g @ cs\<rparr>) s'
      \<and> k_publications (os_kernel s') = k_publications (os_kernel s)"
    using action_completed_effect [OF inv ok]
  proof (elim exE conjE disjE)
    fix q i
    assume "gate_write s (?g\<lparr>tb_publication_outcomes := tb_publication_outcomes ?g @ [q]\<rparr>) s'"
      "journal (os_kernel s') = (k_publications (os_kernel s), k_publication_intents (os_kernel s) @ [i])"
    then show ?thesis by (intro exI [of _ "[q]"] exI [of _ "[]"]) (simp add: journal_def)
  next
    fix q c g
    assume "g = ?g\<lparr>tb_publication_outcomes := tb_publication_outcomes ?g @ [q]\<rparr>"
      "gate_write s (g\<lparr>tb_publication_completions := tb_publication_completions ?g @ [c]\<rparr>) s'"
      "journal (os_kernel s') = journal (os_kernel s)"
    then show ?thesis by (intro exI [of _ "[q]"] exI [of _ "[c]"]) (simp add: journal_def)
  qed
  then obtain qs cs where
    w: "gate_write s (?g\<lparr>tb_publication_outcomes := tb_publication_outcomes ?g @ qs,
        tb_publication_completions := tb_publication_completions ?g @ cs\<rparr>) s'"
    and j: "k_publications (os_kernel s') = k_publications (os_kernel s)" by blast
  let ?h = "?g\<lparr>tb_publication_outcomes := tb_publication_outcomes ?g @ qs,
        tb_publication_completions := tb_publication_completions ?g @ cs\<rparr>"
  have g: "os_gates s' = ?h" using w unfolding gate_write_def by (cases s; cases s') auto
  have grow: "gates_grow ?g ?h" by (simp add: gates_grow_def)
  show ?thesis unfolding rows_ok_def g j
  proof (intro impI conjI)
    assume old: "gates_inv cx ?g (k_publications (os_kernel s))"
    show "gates_inv cx ?h (k_publications (os_kernel s))"
      by (rule gates_invI [OF old grow])
        (use gates_inv_unique [OF old] gates_inv_numbered [OF old] in
          \<open>simp_all add: unique_rows_def calls_numbered_same [of ?h ?g]\<close>)
  qed (rule grow)
qed

lemma quarantine_publication_rows:
  assumes "conveyor_inv False (os_kernel s)" "quarantine_ambiguous_publication cx plan action now s = Inr s'"
  shows "rows_ok cx s s'"
proof -
  from quarantine_publication_effect [OF assms] have "gate_write s (os_gates s) s'"
    and j: "journal (os_kernel s') = journal (os_kernel s)" by blast+
  then have "os_gates s' = os_gates s" unfolding gate_write_def by (cases s; cases s') auto
  then show ?thesis using j by (rule rows_ok_same)
qed

end
