(* ===== verification/Gate_Journal.thy ===== *)
theory Gate_Journal
  imports Gate_Machine
begin

text \<open>
  The journal of publications, and the invariant of the whole machine: \<open>journal_inv\<close> says that the actions of
  each publication are intended, performed and recorded in their order; \<open>gate_inv\<close> is that, the custody of the
  rows (\<open>gates_inv\<close>) and \<open>orchestrator_inv\<close>. Every operation of the machine keeps it and stays
  within \<open>gate_progress\<close>; two interpretations of the machine locales lift both to runs.
\<close>

section \<open>The journal of a publication\<close>

text \<open>Ordinals and actions as they stand in the order of the actions, from the first on.\<close>

definition in_order :: "(nat \<times> publication_action) list \<Rightarrow> bool" where
  "in_order xs = (xs = take (length xs) (enumerate 1 ORDERED_ACTIONS))"

definition intended :: "uuid \<Rightarrow> publication_intent_row list \<Rightarrow> (nat \<times> publication_action) list" where
  "intended publication is =
     map (\<lambda>i. (pi_ordinal i, pi_action_kind i)) (filter (\<lambda>i. pi_publication_id i = publication) is)"

definition performed :: "uuid \<Rightarrow> publication_outcome_row list \<Rightarrow> (nat \<times> publication_action) list" where
  "performed publication qs =
     map (\<lambda>q. (po_ordinal q, po_action_kind q)) (filter (\<lambda>q. po_publication_id q = publication) qs)"

text \<open>
  One publication: its actions are intended and performed in their order, at most one intent is open, and it
  is complete exactly when all seven actions were performed.
\<close>

definition journaled :: "gate_tables \<Rightarrow> publication_row list \<times> publication_intent_row list \<Rightarrow> uuid \<Rightarrow> bool" where
  "journaled g j publication =
     (let is = intended publication (snd j); qs = performed publication (tb_publication_outcomes g) in
      in_order is \<and> in_order qs
      \<and> (if exists_row (\<lambda>p. pb_publication_id p = publication) (fst j)
         then length is = Suc (length qs) \<or> length is = 7 \<and> length qs = 7
         else is = [] \<and> qs = [])
      \<and> exists_row (\<lambda>c. pc_publication_id c = publication) (tb_publication_completions g) = (length qs = 7))"

text \<open>A completion names the commit that the merge, the reconciliation and the gate observed.\<close>

definition merge_settled :: "gate_tables \<Rightarrow> publication_completion_row \<Rightarrow> bool" where
  "merge_settled g c =
     (publication_merge_commit_tx (pc_publication_id c) g = Inr (pc_merge_commit c)
      \<and> pc_remote_main_commit c = pc_merge_commit c)"

definition journal_inv :: "gate_tables \<Rightarrow> publication_row list \<times> publication_intent_row list \<Rightarrow> bool" where
  "journal_inv g j =
     ((\<forall>publication. journaled g j publication)
      \<and> (\<forall>q \<in> set (tb_publication_outcomes g). po_passed q)
      \<and> (\<forall>c \<in> set (tb_publication_completions g). merge_settled g c))"

lemma in_order_length: "in_order xs \<Longrightarrow> length xs \<le> 7"
  unfolding in_order_def
  by (metis distinct_ORDERED_ACTIONS(2) length_enumerate length_take min.cobounded1)

lemma in_order_nth:
  assumes "in_order xs" "k < length xs" shows "xs ! k = (Suc k, ORDERED_ACTIONS ! k)"
proof -
  have "k < length ORDERED_ACTIONS" using in_order_length [OF assms(1)] assms(2) by (simp add: distinct_ORDERED_ACTIONS)
  moreover have "xs ! k = take (length xs) (enumerate 1 ORDERED_ACTIONS) ! k"
    using assms(1) unfolding in_order_def by simp
  ultimately show ?thesis using assms(2) by (simp add: nth_enumerate_eq)
qed

lemma in_order_snoc:
  assumes "in_order xs" "length xs < 7"
  shows "in_order (xs @ [(Suc (length xs), ORDERED_ACTIONS ! length xs)])"
proof -
  have "length xs < length (enumerate 1 ORDERED_ACTIONS)" using assms(2) by (simp add: distinct_ORDERED_ACTIONS)
  then have "take (Suc (length xs)) (enumerate 1 ORDERED_ACTIONS)
      = take (length xs) (enumerate 1 ORDERED_ACTIONS) @ [(Suc (length xs), ORDERED_ACTIONS ! length xs)]"
    by (simp add: take_Suc_conv_app_nth nth_enumerate_eq)
  with assms(1) show ?thesis unfolding in_order_def by simp
qed

lemma in_order_Nil [simp]: "in_order []"
  by (simp add: in_order_def)

text \<open>The open intent is the last one.\<close>

lemma open_intent_action:
  assumes nxt: "next_publication_action_tx publication s = Some action"
    and j: "journaled (os_gates s) (journal (os_kernel s)) publication"
  shows "let n = length (performed publication (tb_publication_outcomes (os_gates s))) in
    n < 7 \<and> length (intended publication (k_publication_intents (os_kernel s))) = Suc n \<and> action = ORDERED_ACTIONS ! n"
proof -
  let ?is = "filter (\<lambda>i. pi_publication_id i = publication) (k_publication_intents (os_kernel s))"
  let ?qs = "filter (\<lambda>q. po_publication_id q = publication) (tb_publication_outcomes (os_gates s))"
  let ?f = "\<lambda>i. (pi_ordinal i, pi_action_kind i)" let ?h = "\<lambda>q. (po_ordinal q, po_action_kind q)"
  from nxt obtain i where i: "i \<in> set (open_intents publication s)" "action = pi_action_kind i"
    by (auto simp: next_publication_action_tx_def split: list.splits)
      (metis list.set_intros(1) set_sort)
  then have mine: "i \<in> set ?is"
    and not_done: "\<forall>q \<in> set ?qs. po_ordinal q \<noteq> pi_ordinal i"
    by (auto simp: open_intents_def exists_row_iff)
  have order: "in_order (map ?f ?is)" "in_order (map ?h ?qs)"
    and len: "length ?is = Suc (length ?qs) \<or> length ?is = 7 \<and> length ?qs = 7"
    using j unfolding journaled_def intended_def performed_def journal_def
    by (simp_all add: Let_def filter_empty_conv split: if_splits) (use mine in auto)
  from mine obtain k where k: "k < length ?is" "?is ! k = i" unfolding in_set_conv_nth by blast
  have ik: "pi_ordinal i = Suc k" "pi_action_kind i = ORDERED_ACTIONS ! k"
    using in_order_nth [OF order(1), of k] k by auto
  have "\<not> k < length ?qs"
  proof
    assume k': "k < length ?qs"
    then have "po_ordinal (?qs ! k) = Suc k" using in_order_nth [OF order(2), of k] by auto
    with not_done k' ik(1) nth_mem show False by metis
  qed
  with k(1) len have "k = length ?qs" "length ?is = Suc (length ?qs)" by auto
  moreover have "length ?is \<le> 7" using in_order_length [OF order(1)] by simp
  ultimately show ?thesis using ik(2) i(2) by (simp add: performed_def intended_def Let_def)
qed

lemma action_ordinal_nth:
  assumes "n < 7" and "action_ordinal (ORDERED_ACTIONS ! n) = Inr m"
  shows "m = Suc n"
proof -
  note m = next_action_ordinal [OF assms(2)]
  have "m - 1 < length ORDERED_ACTIONS" "n < length ORDERED_ACTIONS"
    using m assms(1) unfolding distinct_ORDERED_ACTIONS by linarith+
  with m have "m - 1 = n" using nth_eq_iff_index_eq [OF distinct_ORDERED_ACTIONS(1)] by blast
  with m show ?thesis by linarith
qed

lemma find_row_append: "find_row p t = Some r \<Longrightarrow> find_row p (t @ u) = Some r"
  by (induction t) (auto simp: find_row_def)

lemma merged_commit_append:
  "publication_merge_commit_tx publication g = Inr commit \<Longrightarrow>
     publication_merge_commit_tx publication (g\<lparr>tb_publication_outcomes := tb_publication_outcomes g @ qs\<rparr>) = Inr commit"
  unfolding publication_merge_commit_tx_def merged_commit_def passed_outcome_def bindE_Inr_iff ok_or_Inr_iff
  by (auto simp: bind_eq_Some_conv dest: find_row_append [where u = qs])

lemma merged_commit_completions:
  "publication_merge_commit_tx publication (g\<lparr>tb_publication_completions := cs\<rparr>) = publication_merge_commit_tx publication g"
  by (simp add: publication_merge_commit_tx_def merged_commit_def passed_outcome_def)

lemma journal_inv_new: "journal_inv no_gates ([], [])"
  by (auto simp: journal_inv_def journaled_def no_gates_def intended_def performed_def exists_row_iff Let_def)

lemma journaled_same:
  "tb_publication_outcomes h = tb_publication_outcomes g \<Longrightarrow> tb_publication_completions h = tb_publication_completions g
     \<Longrightarrow> journal_inv h j = journal_inv g j"
  by (simp add: journal_inv_def journaled_def merge_settled_def publication_merge_commit_tx_def merged_commit_def
      passed_outcome_def)

lemma performed_snoc:
  "performed publication (qs @ [q])
     = performed publication qs @ (if po_publication_id q = publication then [(po_ordinal q, po_action_kind q)] else [])"
  by (simp add: performed_def)

lemma intended_snoc:
  "intended publication (is @ [i])
     = intended publication is @ (if pi_publication_id i = publication then [(pi_ordinal i, pi_action_kind i)] else [])"
  by (simp add: intended_def)

lemma journaled_cong:
  assumes "journaled g j publication"
    and "performed publication (tb_publication_outcomes h) = performed publication (tb_publication_outcomes g)"
    and "intended publication (snd i) = intended publication (snd j)"
    and "exists_row (\<lambda>p. pb_publication_id p = publication) (fst i) = exists_row (\<lambda>p. pb_publication_id p = publication) (fst j)"
    and "exists_row (\<lambda>c. pc_publication_id c = publication) (tb_publication_completions h)
      = exists_row (\<lambda>c. pc_publication_id c = publication) (tb_publication_completions g)"
  shows "journaled h i publication"
  using assms by (simp add: journaled_def)

lemma journal_begin:
  assumes inv: "journal_inv g (ps, ins)" and fresh: "\<forall>q \<in> set ps. pb_publication_id q \<noteq> pb_publication_id p"
    and i: "pi_publication_id i = pb_publication_id p" "pi_ordinal i = 1" "pi_action_kind i = PushBranch"
  shows "journal_inv g (ps @ [p], ins @ [i])"
proof -
  have "journaled g (ps @ [p], ins @ [i]) publication" for publication
  proof (cases "publication = pb_publication_id p")
    case True
    have old: "journaled g (ps, ins) publication" using inv by (simp add: journal_inv_def)
    then have "intended publication ins = []" "performed publication (tb_publication_outcomes g) = []"
      using fresh True by (auto simp: journaled_def exists_row_iff Let_def split: if_splits)
    moreover have "in_order [(1, PushBranch)]" by (simp add: in_order_def ORDERED_ACTIONS_def)
    ultimately show ?thesis using old i True
      by (auto simp: journaled_def exists_row_iff intended_def Let_def)
  next
    case False
    have "journaled g (ps, ins) publication" using inv by (simp add: journal_inv_def)
    then show ?thesis by (rule journaled_cong) (use False i in \<open>auto simp: intended_snoc exists_row_iff\<close>)
  qed
  with inv show ?thesis by (simp add: journal_inv_def)
qed

lemma journal_complete:
  assumes inv: "journal_inv (os_gates s) (journal (os_kernel s))"
    and ok: "complete_publication_action cx plan e now s = Inr (s', receipt)" and ci: "conveyor_inv False (os_kernel s)"
  shows "journal_inv (os_gates s') (journal (os_kernel s'))"
proof -
  let ?g = "os_gates s" let ?k = "os_kernel s" let ?P = "pq_publication_id (px_request plan)"
  from action_completed_effect [OF ci ok] obtain n q where
    P: "pe_publication_id e = ?P"
    and nxt: "next_publication_action_tx ?P s = Some (pe_action e)"
    and n: "action_ordinal (pe_action e) = Inr n" and q: "q = publication_outcome_of cx e n now"
    and alt: "n < 7 \<and> (\<exists>i. gate_write s (?g\<lparr>tb_publication_outcomes := tb_publication_outcomes ?g @ [q]\<rparr>) s'
           \<and> journal (os_kernel s') = (k_publications ?k, k_publication_intents ?k @ [i])
           \<and> pi_publication_id i = ?P \<and> pi_ordinal i = Suc n \<and> pi_action_kind i = ORDERED_ACTIONS ! n)
       \<or> n = 7 \<and> (\<exists>c g. g = ?g\<lparr>tb_publication_outcomes := tb_publication_outcomes ?g @ [q]\<rparr>
           \<and> gate_write s (g\<lparr>tb_publication_completions := tb_publication_completions ?g @ [c]\<rparr>) s'
           \<and> journal (os_kernel s') = journal ?k \<and> pc_publication_id c = ?P
           \<and> publication_merge_commit_tx ?P g = Inr (pc_merge_commit c)
           \<and> pc_remote_main_commit c = pc_merge_commit c)" by blast
  let ?is = "intended ?P (k_publication_intents ?k)" let ?qs = "performed ?P (tb_publication_outcomes ?g)"
  have mine: "journaled ?g (journal ?k) ?P" using inv by (simp add: journal_inv_def)
  have o: "length ?qs < 7" "length ?is = Suc (length ?qs)" "pe_action e = ORDERED_ACTIONS ! length ?qs"
    using open_intent_action [OF nxt mine] by (simp_all add: Let_def)
  have n': "n = Suc (length ?qs)" using action_ordinal_nth [OF o(1)] n o(3) by simp
  have row: "(po_ordinal q, po_action_kind q) = (Suc (length ?qs), ORDERED_ACTIONS ! length ?qs)" "po_publication_id q = ?P"
    "po_passed q" by (simp_all add: q publication_outcome_of_def n' o(3) P)
  have order: "in_order ?is" "in_order ?qs" using mine by (simp_all add: journaled_def journal_def Let_def)
  have done': "in_order (?qs @ [(Suc (length ?qs), ORDERED_ACTIONS ! length ?qs)])" by (rule in_order_snoc [OF order(2) o(1)])
  have known: "exists_row (\<lambda>p. pb_publication_id p = ?P) (k_publications ?k)"
    using mine o(2) by (auto simp: journaled_def journal_def Let_def split: if_splits)
  have open': "\<not> exists_row (\<lambda>c. pc_publication_id c = ?P) (tb_publication_completions ?g)"
    using mine o(1) by (simp add: journaled_def Let_def)
  from alt show ?thesis
  proof (elim disjE conjE exE)
    fix i assume n7: "n < 7" and w: "gate_write s (?g\<lparr>tb_publication_outcomes := tb_publication_outcomes ?g @ [q]\<rparr>) s'"
      and j: "journal (os_kernel s') = (k_publications ?k, k_publication_intents ?k @ [i])"
      and i: "pi_publication_id i = ?P" "pi_ordinal i = Suc n" "pi_action_kind i = ORDERED_ACTIONS ! n"
    let ?h = "?g\<lparr>tb_publication_outcomes := tb_publication_outcomes ?g @ [q]\<rparr>"
    have g: "os_gates s' = ?h" using w unfolding gate_write_def by (cases s; cases s') auto
    have "in_order (?is @ [(Suc n, ORDERED_ACTIONS ! n)])"
      using in_order_snoc [OF order(1)] o(2) n7 n' by simp
    then have "journaled ?h (k_publications ?k, k_publication_intents ?k @ [i]) ?P"
      using done' known open' o(2) n7 n' i row
      by (simp add: journaled_def performed_snoc intended_snoc Let_def)
    moreover have "journaled ?h (k_publications ?k, k_publication_intents ?k @ [i]) other" if "other \<noteq> ?P" for other
      by (rule journaled_cong [of ?g "journal ?k"])
        (use inv that i row in \<open>simp_all add: journal_inv_def performed_snoc intended_snoc journal_def\<close>)
    ultimately have "\<forall>publication. journaled ?h (k_publications ?k, k_publication_intents ?k @ [i]) publication" by metis
    moreover have "\<forall>c \<in> set (tb_publication_completions ?h). merge_settled ?h c"
      using inv merged_commit_append by (auto simp: journal_inv_def merge_settled_def)
    ultimately show ?thesis using inv row unfolding g j by (auto simp: journal_inv_def)
  next
    fix c g assume n7: "n = 7" and g: "g = ?g\<lparr>tb_publication_outcomes := tb_publication_outcomes ?g @ [q]\<rparr>"
      and w: "gate_write s (g\<lparr>tb_publication_completions := tb_publication_completions ?g @ [c]\<rparr>) s'"
      and j: "journal (os_kernel s') = journal ?k" and c: "pc_publication_id c = ?P"
      "publication_merge_commit_tx ?P g = Inr (pc_merge_commit c)" "pc_remote_main_commit c = pc_merge_commit c"
    let ?h = "g\<lparr>tb_publication_completions := tb_publication_completions ?g @ [c]\<rparr>"
    have g': "os_gates s' = ?h" using w unfolding gate_write_def by (cases s; cases s') auto
    have "journaled ?h (journal ?k) ?P"
      using done' known order o(2) n7 n' c(1) row
      by (simp add: journaled_def performed_snoc journal_def g exists_row_iff Let_def)
    moreover have "journaled ?h (journal ?k) other" if "other \<noteq> ?P" for other
      by (rule journaled_cong [of ?g "journal ?k"])
        (use inv that c(1) row in \<open>auto simp: journal_inv_def performed_snoc journal_def g exists_row_iff\<close>)
    ultimately have "\<forall>publication. journaled ?h (journal ?k) publication" by metis
    moreover have "merge_settled ?h c" using c by (simp add: merge_settled_def merged_commit_completions)
    moreover have "merge_settled ?h d" if "d \<in> set (tb_publication_completions ?g)" for d
      using inv that merged_commit_append [of "pc_publication_id d" ?g]
      by (auto simp: journal_inv_def merge_settled_def merged_commit_completions g)
    ultimately show ?thesis using inv row unfolding g' j by (auto simp: journal_inv_def g)
  qed
qed

section \<open>The invariant of the whole machine\<close>

definition gate_inv :: "codec \<Rightarrow> orchestrator \<Rightarrow> bool" where
  "gate_inv cx s =
     (orchestrator_inv s \<and> gates_inv cx (os_gates s) (k_publications (os_kernel s))
      \<and> journal_inv (os_gates s) (journal (os_kernel s)))"

definition gate_progress :: "orchestrator \<Rightarrow> orchestrator \<Rightarrow> bool" where
  "gate_progress s t =
     (orchestrator_progress s t \<and> gates_grow (os_gates s) (os_gates t)
      \<and> prefix (k_publications (os_kernel s)) (k_publications (os_kernel t)))"

definition keeps_gates :: "codec \<Rightarrow> orchestrator \<Rightarrow> orchestrator \<Rightarrow> bool" where
  "keeps_gates cx s t = (gate_inv cx s \<longrightarrow> gate_inv cx t \<and> gate_progress s t)"

lemma gate_inv_kernel: "gate_inv cx s \<Longrightarrow> conveyor_inv False (os_kernel s)"
  by (simp add: gate_inv_def orchestrator_inv_def)

lemma gate_progress_refl [simp]: "gate_progress s s"
  by (simp add: gate_progress_def orchestrator_progress_refl)

lemma gate_progress_trans: "gate_progress s t \<Longrightarrow> gate_progress t u \<Longrightarrow> gate_progress s u"
  unfolding gate_progress_def using orchestrator_progress_trans gates_grow_trans prefix_order.trans by blast

lemma gate_write_orchestrator:
  assumes inv: "orchestrator_inv s" and w: "gate_write s g s'"
  shows "orchestrator_inv s'" and "orchestrator_progress s s'"
proof -
  let ?k = "os_kernel s" let ?k' = "os_kernel s'"
  have ci: "conveyor_inv False ?k'" and p: "conveyor_progress ?k ?k'" and kept: "orchestration_kept ?k ?k'"
    and active: "k_orchestration_activated ?k' = k_orchestration_activated ?k"
    and s': "os_evidence s' = os_evidence s" "os_activation s' = os_activation s" "os_controls s' = os_controls s"
    using w unfolding gate_write_def conveyor_ok_def work_progress_def by (cases s; cases s'; simp)+
  have "ledger_inv (k_orchestration ?k') (k_checkpoints ?k')"
    by (rule ledger_inv_kept [OF _ kept]) (use inv in \<open>simp add: orchestrator_inv_def\<close>)
  with inv ci kept active show "orchestrator_inv s'"
    by (auto simp: orchestrator_inv_def orchestration_kept_def s')
  have "grows feature_moves (k_features ?k) (k_features ?k')"
    using p unfolding conveyor_progress_def
    by (elim conjE grows_mono) (auto simp: feature_moves_def feature_le_def)
  moreover have "grows ledger_le (k_orchestration ?k) (k_orchestration ?k')"
    using kept unfolding orchestration_kept_def
  proof (elim conjE grows_mono)
    fix r r' assume "clock_le r r'"
    then show "ledger_le r r'" by (cases r; cases r') (simp add: clock_le_def ledger_le_def)
  qed
  ultimately show "orchestrator_progress s s'"
    using p kept by (simp add: orchestrator_progress_def conveyor_progress_def orchestration_kept_def s')
qed

lemma keeps_gatesI:
  assumes w: "s' = s \<or> (\<exists>g. gate_write s g s')" and rows: "rows_ok cx s s'"
    and j: "journal_inv (os_gates s) (journal (os_kernel s)) \<Longrightarrow> journal_inv (os_gates s') (journal (os_kernel s'))"
    and p: "prefix (k_publications (os_kernel s)) (k_publications (os_kernel s'))"
  shows "keeps_gates cx s s'"
  using w
proof
  assume "\<exists>g. gate_write s g s'"
  then show ?thesis using rows j p gate_write_orchestrator
    unfolding keeps_gates_def gate_inv_def gate_progress_def rows_ok_def by blast
qed (simp add: keeps_gates_def)

lemma gate_write_gates: "gate_write s g s' \<Longrightarrow> os_gates s' = g"
  unfolding gate_write_def by (cases s; cases s') auto

text \<open>An operation that leaves the tables of publication alone.\<close>

lemma keeps_gates_journal:
  assumes "s' = s \<or> (\<exists>g. gate_write s g s' \<and> journal (os_kernel s') = journal (os_kernel s)
      \<and> tb_publication_outcomes g = tb_publication_outcomes (os_gates s)
      \<and> tb_publication_completions g = tb_publication_completions (os_gates s))"
    and rows: "rows_ok cx s s'"
  shows "keeps_gates cx s s'"
  using assms(1)
proof
  assume "\<exists>g. gate_write s g s' \<and> journal (os_kernel s') = journal (os_kernel s)
      \<and> tb_publication_outcomes g = tb_publication_outcomes (os_gates s)
      \<and> tb_publication_completions g = tb_publication_completions (os_gates s)"
  then obtain g where g: "gate_write s g s'" "journal (os_kernel s') = journal (os_kernel s)"
    "tb_publication_outcomes g = tb_publication_outcomes (os_gates s)"
    "tb_publication_completions g = tb_publication_completions (os_gates s)" by blast
  show ?thesis
    by (rule keeps_gatesI [OF _ rows]) (use g journaled_same [OF g(3,4)] gate_write_gates [OF g(1)] in
      \<open>auto simp: journal_def\<close>)
qed (simp add: keeps_gates_def)

section \<open>Every operation keeps it\<close>

lemma keeps_orchestrator_op:
  assumes "run_orchestrator cx op s = Inr s'" "outside_gates op"
  shows "keeps_gates cx s s'"
  unfolding keeps_gates_def
proof
  assume inv: "gate_inv cx s"
  then have o: "orchestrator_inv s" by (simp add: gate_inv_def)
  from orchestrator_op_frame [OF o assms] have "journal (os_kernel s') = journal (os_kernel s)" "os_gates s' = os_gates s"
    by simp_all
  moreover from this(1) have "k_publications (os_kernel s') = k_publications (os_kernel s)" by (simp add: journal_def)
  ultimately show "gate_inv cx s' \<and> gate_progress s s'"
    using inv run_orchestrator_inv [OF o assms(1)] run_orchestrator_progress [OF o assms(1)]
    by (simp add: gate_inv_def gate_progress_def)
qed

lemma keeps_freeze:
  assumes "conveyor_inv False (os_kernel s)" "finalize_artifact_integration cx plan c now s = Inr (s', x)"
  shows "keeps_gates cx s s'"
  by (rule keeps_gates_journal [OF _ freeze_rows [OF assms]]) (use freeze_effect [OF assms] in \<open>auto simp: Let_def\<close>)

lemma keeps_conflict:
  assumes "conveyor_inv False (os_kernel s)" "record_artifact_integration_conflict cx r reason now s = Inr s'"
  shows "keeps_gates cx s s'"
  by (rule keeps_gates_journal [OF _ conflict_rows [OF assms]]) (use conflict_effect [OF assms] in auto)

lemma keeps_validation_started:
  assumes "conveyor_inv False (os_kernel s)" "plan_validation_gate cx r now s = Inr (s', x)"
  shows "keeps_gates cx s s'"
  by (rule keeps_gates_journal [OF _ validation_started_rows [OF assms [unfolded plan_validation_gate_def]]])
    (use validation_started_effect [OF assms [unfolded plan_validation_gate_def]] in auto)

lemma keeps_validation_finished:
  assumes "conveyor_inv False (os_kernel s)" "finalize_validation_gate cx plan evidence now s = Inr (s', x)"
  shows "keeps_gates cx s s'"
  by (rule keeps_gates_journal [OF _ validation_finished_rows [OF assms]])
    (use validation_finished_effect [OF assms] in auto)

lemma keeps_review_started:
  assumes "conveyor_inv False (os_kernel s)" "begin_review_gateway cx r packet now s = Inr (s', x)"
  shows "keeps_gates cx s s'"
  by (rule keeps_gates_journal [OF _ review_started_rows [OF assms [unfolded begin_review_gateway_def]]])
    (use review_started_effect [OF assms [unfolded begin_review_gateway_def]] in auto)

lemma keeps_review_ended:
  assumes inv: "conveyor_inv False (os_kernel s)"
  shows "finalize_review_transport_failure cx plan failure now s = Inr (s', x) \<Longrightarrow> keeps_gates cx s s'"
    and "finalize_interrupted_review_call cx plan now s = Inr s' \<Longrightarrow> keeps_gates cx s s'"
    and "finalize_review_decision cx plan packet out now s = Inr (s', y) \<Longrightarrow> keeps_gates cx s s'"
proof -
  assume ok: "finalize_review_transport_failure cx plan failure now s = Inr (s', x)"
  show "keeps_gates cx s s'" by (rule keeps_gates_journal [OF _ review_failed_rows [OF inv ok]])
      (use review_failed_effect [OF inv ok] in auto)
next
  assume ok: "finalize_interrupted_review_call cx plan now s = Inr s'"
  show "keeps_gates cx s s'" by (rule keeps_gates_journal [OF _ review_interrupted_rows [OF inv ok]])
      (use review_interrupted_effect [OF inv ok] in auto)
next
  assume ok: "finalize_review_decision cx plan packet out now s = Inr (s', y)"
  show "keeps_gates cx s s'" by (rule keeps_gates_journal [OF _ review_decided_rows [OF inv ok]])
      (use review_decided_effect [OF inv ok] in auto)
qed

lemma keeps_publication_started:
  assumes "conveyor_inv False (os_kernel s)" "begin_publication cx plan now s = Inr s'"
  shows "keeps_gates cx s s'"
proof -
  from publication_started_effect [OF assms] obtain p i where w: "gate_write s (os_gates s) s'"
    and j: "journal (os_kernel s') = (k_publications (os_kernel s) @ [p], k_publication_intents (os_kernel s) @ [i])"
    and i: "pi_publication_id i = pb_publication_id p" "pi_ordinal i = 1" "pi_action_kind i = PushBranch"
    and fresh: "\<forall>q \<in> set (k_publications (os_kernel s)). pb_publication_id q \<noteq> pb_publication_id p" by blast
  show ?thesis
  proof (rule keeps_gatesI [OF _ publication_started_rows [OF assms]])
    show "journal_inv (os_gates s') (journal (os_kernel s'))" if "journal_inv (os_gates s) (journal (os_kernel s))"
      unfolding j gate_write_gates [OF w] by (rule journal_begin [OF _ fresh i]) (use that in \<open>simp add: journal_def\<close>)
  qed (use w j in \<open>auto simp: journal_def\<close>)
qed

lemma keeps_action_completed:
  assumes "conveyor_inv False (os_kernel s)" "complete_publication_action cx plan e now s = Inr (s', x)"
  shows "keeps_gates cx s s'"
proof (rule keeps_gatesI [OF _ action_completed_rows [OF assms] journal_complete [OF _ assms(2,1)]])
  from action_completed_effect [OF assms] have "(\<exists>g. gate_write s g s')
      \<and> k_publications (os_kernel s') = k_publications (os_kernel s)"
    by (elim exE conjE disjE) (auto simp: journal_def)
  then show "s' = s \<or> (\<exists>g. gate_write s g s')" "prefix (k_publications (os_kernel s)) (k_publications (os_kernel s'))"
    by simp_all
qed

lemma keeps_publication_quarantined:
  assumes "conveyor_inv False (os_kernel s)" "quarantine_ambiguous_publication cx plan action now s = Inr s'"
  shows "keeps_gates cx s s'"
  by (rule keeps_gates_journal [OF _ quarantine_publication_rows [OF assms]])
    (use quarantine_publication_effect [OF assms] in auto)

lemma run_gate_keeps:
  assumes "conveyor_inv False (os_kernel s)" "run_gate cx op s = Inr s'"
  shows "keeps_gates cx s s'"
proof (cases op)
  case (GOrchestrator o1)
  with assms(2) keeps_orchestrator_op show ?thesis by (auto simp: keeps_gates_def split: if_splits)
qed (use assms in \<open>auto simp: orchestrator_of_Inr intro: keeps_freeze keeps_conflict keeps_validation_started
    keeps_validation_finished keeps_review_started keeps_review_ended keeps_publication_started
    keeps_action_completed keeps_publication_quarantined\<close>)

lemma gate_step_keeps: "keeps_gates cx s (gate_step cx s op)"
proof -
  have "keeps_gates cx s s'" if "run_gate cx op s = Inr s'" for s'
    using run_gate_keeps [OF _ that] gate_inv_kernel unfolding keeps_gates_def by blast
  then show ?thesis by (auto simp: gate_step_def keeps_gates_def split: sum.splits)
qed

lemma gate_inv_new: "gate_inv cx (new_orchestrator stream)"
proof -
  have "journal (os_kernel (new_orchestrator stream)) = ([], [])" "os_gates (new_orchestrator stream) = no_gates"
    by (simp_all add: new_orchestrator_def new_kernel_def journal_def)
  moreover have "gates_inv cx no_gates []"
    by (simp add: gates_inv_def no_gates_def unique_rows_def calls_numbered_def numbered_def calls_of_def candidate_calls_def)
  ultimately show ?thesis by (simp add: gate_inv_def orchestrator_inv_new journal_inv_new) (simp add: journal_def)
qed

interpretation gates: invariant_machine "\<lambda>s. \<exists>stream. s = new_orchestrator stream" "gate_step cx" "gate_inv cx" for cx
  by unfold_locales (use gate_inv_new gate_step_keeps in \<open>auto simp: keeps_gates_def\<close>)

interpretation gates_log: monotone_machine "gate_step cx" "keeps_gates cx" for cx
proof
  show "keeps_gates cx s s" for s by (simp add: keeps_gates_def)
  show "keeps_gates cx s t \<Longrightarrow> keeps_gates cx t u \<Longrightarrow> keeps_gates cx s u" for s t u
    unfolding keeps_gates_def using gate_progress_trans by blast
  show "keeps_gates cx s (gate_step cx s op)" for s op by (rule gate_step_keeps)
qed

lemma gate_run_inv: "gate_inv cx (gate_run cx stream ops)"
  unfolding gate_run_def by (rule gates.run_inv) blast

lemma gate_run_append: "gate_run cx stream (ops @ later) = run_ops (gate_step cx) (gate_run cx stream ops) later"
  by (simp add: gate_run_def run_ops_append)

lemma gate_run_progress: "gate_progress (gate_run cx stream ops) (gate_run cx stream (ops @ later))"
  using gates_log.run_rel [of cx "gate_run cx stream ops" later] gate_run_inv
  by (simp add: gate_run_append keeps_gates_def)

end
