(* ===== verification/Gate_Properties.thy ===== *)
theory Gate_Properties
  imports Gate_Journal Orchestration_Sample
begin

text \<open>
  The properties of the whole machine, the operations of distributed work, conveyor, orchestrator and gates in any
  order: what a publication rests on, the order of its actions, the calls of review; serial work; when features
  move forward and how often they change status; what a restart does to work under way; when a resolution can
  be finished; and two dead ends, a candidate that the gates no longer know how to review and a merged feature
  that cannot be abandoned.
\<close>

section \<open>Runs\<close>

text \<open>
  C4. A publication has a chain of custody: on every run of the whole machine, each publication is of a candidate
  that one integration froze for that feature, that one validation attempted and passed with this evidence, all
  thirteen commands recorded as passed, and that one call of review approved: the call's commit, diff and
  validation are the publication's, and its decision is the canonical document of an output the protocol
  accepts.
\<close>

theorem publication_custody:
  "list_all (in_custody cx (os_gates (gate_run cx stream ops))) (k_publications (os_kernel (gate_run cx stream ops)))"
  using gate_run_inv [of cx stream ops] by (simp add: list_all_iff gate_inv_def gates_inv_def)

text \<open>
  C5. The actions of a publication happen in their order: on every run, the intents and the outcomes of each
  publication are the actions push, open, .. in their order from the first one, without a gap; at most one
  intent has no outcome, and none is left when all seven were performed; every recorded outcome passed; and the
  publication is complete exactly when the seventh action was performed, with the merge commit that the merge,
  the reconciliation and the gate after it agreed on as the remote main.
\<close>

theorem publication_actions_in_order:
  "(let s = gate_run cx stream ops; g = os_gates s in
    (\<forall>publication. journaled g (k_publications (os_kernel s), k_publication_intents (os_kernel s)) publication)
    \<and> list_all po_passed (tb_publication_outcomes g) \<and> list_all (merge_settled g) (tb_publication_completions g))"
  using gate_run_inv [of cx stream ops] by (auto simp: list_all_iff gate_inv_def journal_inv_def journal_def Let_def)

text \<open>
  C6. Calls of review are numbered and bounded: on every run the calls of a feature are numbered 1, 2, 3, .. up to
  the bound of calls per feature, those of one candidate up to the bound of attempts, no call has two outcomes
  or two decisions, every call is of a frozen candidate that passed its validation, and every decision is an
  output that the protocol accepts and the outcome of its call.
\<close>

theorem review_calls_are_bounded:
  "(let g = os_gates (gate_run cx stream ops) in
    (\<forall>feature commit. calls_numbered feature commit g)
    \<and> distinct (map ro_review_call_id (tb_review_outcomes g)) \<and> distinct (map rd_review_call_id (tb_review_decisions g))
    \<and> list_all (call_backed g) (tb_review_calls g) \<and> list_all (decision_backed cx g) (tb_review_decisions g))"
  using gate_run_inv [of cx stream ops]
  by (simp add: list_all_iff gate_inv_def gates_inv_def unique_rows_def Let_def)

section \<open>Serial work\<close>

text \<open>
  C3. Serial work: on every run of the whole machine, with owners pausing and resuming, coordinations, and the gates
  integrating, validating, reviewing and publishing, the features between claim and resolution are the one that
  holds the lease, or none; the lease was granted by a recorded claim of that feature and its snapshot; and the
  queue lists exactly the unfinished features, each at its own position.
\<close>

theorem orchestrated_work_is_serial:
  "let k = os_kernel (gate_run cx stream ops) in
     {ft_feature_id f | f. f \<in> set (k_features k) \<and> busy (ft_status f)} = set_option (holder k)
   \<and> (case k_active_lease k of None \<Rightarrow> True | Some l \<Rightarrow>
        \<exists>c. c \<in> set (k_claims k) \<and> cl_lease_id c = fl_lease_id l \<and> cl_feature_id c = fl_feature_id l
          \<and> fl_snapshot_id l = Some (cl_snapshot_id c))
   \<and> set (k_queue k) = {\<lparr>qu_feature_id = ft_feature_id f, qu_queue_position = ft_queue_position f\<rparr> | f.
        f \<in> set (k_features k) \<and> \<not> ended (ft_status f)}
   \<and> distinct (map qu_queue_position (k_queue k))"
  unfolding Let_def by (rule serial_of_inv [OF gate_inv_kernel [OF gate_run_inv]])

section \<open>Forward only\<close>

text \<open>
  Owners' controls and coordinations may take a feature back, from cancelled to implementing for one; the
  feature that such an operation names is \<open>control_of\<close>. Every other operation moves features forward.
\<close>

definition control_of :: "gate_op \<Rightarrow> uuid option" where
  "control_of op =
     (case op of GOrchestrator (OControl q registration now pause) \<Rightarrow> Some (oc_feature_id q)
      | GOrchestrator (OCoordinate feature expected now) \<Rightarrow> Some feature
      | _ \<Rightarrow> None)"

definition controlled_by :: "gate_op list \<Rightarrow> uuid set" where
  "controlled_by ops = set (List.map_filter control_of ops)"

definition forward :: "uuid set \<Rightarrow> feature_row \<Rightarrow> feature_row \<Rightarrow> bool" where
  "forward named f g = (feature_moves f g \<and> (ft_feature_id f \<in> named \<or> feature_le f g))"

interpretation forward_rows: row_order "forward named" for named
  by unfold_locales (auto simp: forward_def feature_moves_def feature_le_def)

definition forward_progress :: "uuid set \<Rightarrow> kernel \<Rightarrow> kernel \<Rightarrow> bool" where
  "forward_progress named k k' =
     (grows (forward named) (k_features k) (k_features k')
      \<and> prefix (k_grants k) (k_grants k') \<and> prefix (k_specifications k) (k_specifications k')
      \<and> prefix (k_claims k) (k_claims k') \<and> prefix (k_transitions k) (k_transitions k')
      \<and> prefix (k_dispatches k) (k_dispatches k') \<and> prefix (k_dependencies k) (k_dependencies k')
      \<and> k_queue_revision k \<le> k_queue_revision k'
      \<and> ob_designation_revision (k_owner_bridge k) \<le> ob_designation_revision (k_owner_bridge k'))"

lemma forward_progress_refl [simp]: "forward_progress c k k"
  by (simp add: forward_progress_def forward_rows.refl)

lemma forward_progress_trans:
  "forward_progress c k l \<Longrightarrow> forward_progress c l m \<Longrightarrow> forward_progress c k m"
  unfolding forward_progress_def by (intro conjI) (auto intro: forward_rows.trans prefix_order.trans)

lemma forward_progress_mono:
  assumes "forward_progress c k l" "c \<subseteq> d" shows "forward_progress d k l"
proof -
  have "forward d f g" if "forward c f g" for f g using that assms(2) by (auto simp: forward_def)
  with assms(1) show ?thesis unfolding forward_progress_def by (blast intro: grows_mono)
qed

lemma forward_conveyor:
  assumes "conveyor_ok strict k k'" shows "forward_progress c k k'"
proof -
  have "forward c f g" if "feature_le f g" for f g using that by (auto simp: forward_def feature_moves_def feature_le_def)
  with assms show ?thesis unfolding forward_progress_def conveyor_ok_def conveyor_progress_def by (blast intro: grows_mono)
qed

lemma forward_moved:
  assumes "ft_feature_id f \<in> c" "\<not> ended (ft_status f)"
  shows "forward_progress c k (moved_to f target e v now k)"
proof -
  have "grows (forward c) (k_features k) (k_features (moved_to f target e v now k))"
    unfolding moved_to_def moved_kernel_def using assms
    by (auto simp: forward_def feature_moves_def this_feature_def intro!: forward_rows.update)
  then show ?thesis by (simp add: forward_progress_def moved_to_def moved_kernel_def)
qed

lemma forward_recorded:
  "forward_progress c k ((recorded r row k')\<lparr>k_audit := audit\<rparr>) = forward_progress c k k'"
  by (simp add: forward_progress_def recorded_def)

lemma lease_not_ended:
  assumes "conveyor_inv strict k" "find_feature i k = Some f" "k_active_lease k = Some l" "fl_feature_id l = i"
  shows "\<not> ended (ft_status f)"
  using lease_busy [OF assms(1)] find_feature_Some [OF assms(2)] assms(3,4) by (auto simp: holder_def busy_def)

lemma forward_control:
  assumes inv: "orchestrator_inv s" and ok: "owner_control_feature_orchestration cx q registration now pause s = Inr (s', x)"
  shows "forward_progress {oc_feature_id q} (os_kernel s) (os_kernel s')"
proof -
  have ci: "conveyor_inv False (os_kernel s)" and dist: "distinct (map or_feature_id (k_orchestration (os_kernel s)))"
    using inv by (simp_all add: orchestrator_inv_def ledger_inv_def)
  from control_effect [OF ok dist] show ?thesis
  proof (elim disjE exE conjE)
    fix f state plan c assume ctl: "controlled cx q now pause s s' f state plan c"
    then have "find_feature (oc_feature_id q) (os_kernel s) = Some f" "\<not> ended (ft_status f)"
      using lease_not_ended [OF ci] unfolding controlled_def Let_def by blast+
    with forward_moved [of f "{oc_feature_id q}"] find_feature_Some ctl show ?thesis
      unfolding controlled_def Let_def by (auto simp: forward_recorded)
  qed simp
qed

lemma forward_coordinate:
  assumes inv: "orchestrator_inv s" and ok: "coordinate_feature_orchestration cx i expected now s = Inr (s', x)"
  shows "forward_progress {i} (os_kernel s) (os_kernel s')"
proof -
  let ?k = "os_kernel s"
  have ci: "conveyor_inv False ?k" and dist: "distinct (map or_feature_id (k_orchestration ?k))"
    using inv by (simp_all add: orchestrator_inv_def ledger_inv_def)
  from coordinate_effect [OF ok dist] obtain f d l where f: "find_feature i ?k = Some f"
    and l: "k_active_lease ?k = Some l" "fl_feature_id l = i"
    and res: "s' = s \<or> (\<exists>c. coordinated cx now s s' f (find_orchestration i ?k) d c)"
    unfolding Let_def by blast
  have moved: "forward_progress {i} ?k (moved_to f target e v now ?k)" for target e v
    by (rule forward_moved) (use find_feature_Some [OF f] lease_not_ended [OF ci f l] in auto)
  from res show ?thesis
  proof (elim disjE exE)
    fix c assume "coordinated cx now s s' f (find_orchestration i ?k) d c"
    with moved show ?thesis unfolding coordinated_def Let_def by (auto simp: forward_recorded)
  qed simp
qed

lemma gate_op_writes:
  assumes inv: "conveyor_inv False (os_kernel s)" and ok: "run_gate cx op s = Inr s'" and op: "\<And>o1. op \<noteq> GOrchestrator o1"
  shows "s' = s \<or> (\<exists>g. gate_write s g s')"
proof (cases op)
  case (GCompleteAction plan e now)
  with ok obtain x where "complete_publication_action cx plan e now s = Inr (s', x)" by (auto simp: orchestrator_of_Inr)
  from action_completed_effect [OF inv this] show ?thesis by (elim exE conjE disjE) blast+
next
  case (GPlanValidation r now)
  with ok obtain x where "authorize_validation_gate cx r now True s = Inr (s', x)"
    by (auto simp: orchestrator_of_Inr plan_validation_gate_def)
  from validation_started_effect [OF inv this] show ?thesis by blast
next
  case (GBeginReview r packet now)
  with ok obtain x where "authorize_review_gateway cx r (Some packet) now s = Inr (s', x)"
    by (auto simp: orchestrator_of_Inr begin_review_gateway_def)
  from review_started_effect [OF inv this] show ?thesis by blast
qed (use ok op in \<open>auto simp: orchestrator_of_Inr Let_def dest!: freeze_effect [OF inv] conflict_effect [OF inv]
      validation_finished_effect [OF inv] review_failed_effect [OF inv] review_interrupted_effect [OF inv]
      review_decided_effect [OF inv] publication_started_effect [OF inv] quarantine_publication_effect [OF inv]\<close>)

lemma forward_op:
  assumes inv: "gate_inv cx s" and ok: "run_gate cx op s = Inr s'"
  shows "forward_progress (set_option (control_of op)) (os_kernel s) (os_kernel s')"
proof (cases op)
  case (GOrchestrator o1)
  note ci = gate_inv_kernel [OF inv] and oi = inv [unfolded gate_inv_def, THEN conjunct1]
  show ?thesis
  proof (cases o1)
    case (OConveyor c)
    with ok obtain k' where "run_conveyor cx c (os_kernel s) = Inr k'" "s' = s\<lparr>os_kernel := k'\<rparr>"
      by (auto simp: GOrchestrator outside_gates_def on_kernel_Inr)
    with forward_conveyor [OF run_conveyor_ok [OF ci]] show ?thesis by simp
  next
    case (OAdmit r at)
    with ok obtain x where "admit_feature_activation_evidence cx r at s = Inr (s', x)"
      by (auto simp: GOrchestrator outside_gates_def orchestrator_of_Inr)
    from admit_effect [OF this] show ?thesis by (auto simp: forward_progress_def forward_rows.refl)
  next
    case (OActivate r registration now)
    with ok obtain x where "activate_feature_orchestration cx r registration now s = Inr (s', x)"
      by (auto simp: GOrchestrator outside_gates_def orchestrator_of_Inr)
    from activate_effect [OF this] show ?thesis by (auto simp: forward_progress_def forward_rows.refl)
  qed (use ok in \<open>auto simp: GOrchestrator outside_gates_def control_of_def orchestrator_of_Inr
        intro: forward_control [OF oi] forward_coordinate [OF oi]\<close>)
qed (use gate_op_writes [OF gate_inv_kernel [OF inv] ok] in \<open>auto simp: gate_write_def intro: forward_conveyor\<close>)

lemma forward_step:
  "gate_inv cx s \<Longrightarrow> forward_progress (set_option (control_of op)) (os_kernel s) (os_kernel (gate_step cx s op))"
  using forward_op by (simp add: gate_step_def split: sum.split)

lemma forward_run:
  assumes "gate_inv cx s"
  shows "forward_progress (controlled_by ops) (os_kernel s) (os_kernel (run_ops (gate_step cx) s ops))"
  using assms
proof (induction ops arbitrary: s)
  case (Cons op ops)
  have "forward_progress (controlled_by (op # ops)) (os_kernel s) (os_kernel (gate_step cx s op))"
    by (rule forward_progress_mono [OF forward_step [OF Cons.prems]])
      (auto simp: controlled_by_def List.map_filter_def split: option.splits)
  moreover have "forward_progress (controlled_by (op # ops)) (os_kernel (gate_step cx s op))
      (os_kernel (run_ops (gate_step cx) (gate_step cx s op) ops))"
    by (rule forward_progress_mono [OF Cons.IH [OF gates.step_inv [OF Cons.prems]]])
      (auto simp: controlled_by_def List.map_filter_def)
  ultimately show ?case using forward_progress_trans by simp
qed simp

text \<open>
  C19. Forward only: between any two points of a run of the whole machine a feature keeps its identity and its
  specification and either stands still or moves under a larger revision, to a later stage unless an owner's
  control or a coordination names the feature in between, and a finished feature stays finished; grants,
  specifications, claims, transitions, coding dispatches and dependencies are only ever appended; the queue's
  revision and the bridge's designation revision never decrease.
\<close>

theorem features_only_move_forward:
  "let k = os_kernel (gate_run cx stream ops); k' = os_kernel (gate_run cx stream (ops @ later)) in
     grows (forward (controlled_by later)) (k_features k) (k_features k')
   \<and> prefix (k_grants k) (k_grants k') \<and> prefix (k_specifications k) (k_specifications k')
   \<and> prefix (k_claims k) (k_claims k') \<and> prefix (k_transitions k) (k_transitions k')
   \<and> prefix (k_dispatches k) (k_dispatches k') \<and> prefix (k_dependencies k) (k_dependencies k')
   \<and> k_queue_revision k \<le> k_queue_revision k'
   \<and> ob_designation_revision (k_owner_bridge k) \<le> ob_designation_revision (k_owner_bridge k')"
  using forward_run [OF gate_run_inv [of cx stream ops], of later]
  by (simp add: gate_run_append forward_progress_def)

section \<open>How often a feature changes its status\<close>

text \<open>Each change raises the rank, except for the marked ones, of which each may take back at most \<open>B\<close>.\<close>

lemma changes_bounded:
  fixes m :: "'a \<Rightarrow> nat"
  assumes "\<And>n. m (P n) \<le> B"
    and "\<And>n. n < N \<Longrightarrow> P (Suc n) = P n \<or> m (P n) < m (P (Suc n)) \<or> marked n \<and> 0 < m (P (Suc n))"
  shows "length (remdups_adj (map P [0..<Suc N])) \<le> Suc (B * length (filter marked [0..<N]) + m (P N))"
  using assms(2)
proof (induction N)
  case (Suc N)
  let ?xs = "map P [0..<Suc N]"
  have IH: "length (remdups_adj ?xs) \<le> Suc (B * length (filter marked [0..<N]) + m (P N))" by (rule Suc.IH) (use Suc.prems in auto)
  have l: "?xs = map P [0..<N] @ [P N]" by simp
  have xs: "map P [0..<Suc (Suc N)] = map P [0..<N] @ [P N, P (Suc N)]" by simp
  have "length (remdups_adj (map P [0..<Suc (Suc N)])) =
      (if P (Suc N) = P N then length (remdups_adj ?xs) else Suc (length (remdups_adj ?xs)))"
    unfolding xs l by (subst remdups_adj_append_two) auto
  moreover have "P (Suc N) = P N \<or> m (P N) < m (P (Suc N)) \<or> marked N \<and> 0 < m (P (Suc N))"
    using Suc.prems by simp
  ultimately show ?case using IH assms(1) [of N] by (auto split: if_splits)
qed simp

definition trace_rank :: "feature_status option \<Rightarrow> nat" where
  "trace_rank s = (case s of None \<Rightarrow> 0 | Some t \<Rightarrow> Suc (lifecycle_rank t))"

lemma trace_rank_le: "trace_rank s \<le> 8"
  using lifecycle_rank_le by (simp add: trace_rank_def split: option.split)

definition status_in :: "uuid \<Rightarrow> orchestrator \<Rightarrow> feature_status option" where
  "status_in i s = map_option ft_status (find_feature i (os_kernel s))"

lemma find_feature_grows:
  assumes "grows R (k_features k) (k_features k')" "conveyor_inv strict k'" "find_feature i k = Some f"
    and "\<And>f g. R f g \<Longrightarrow> ft_feature_id g = ft_feature_id f"
  shows "\<exists>g. find_feature i k' = Some g \<and> R f g"
proof -
  from grows_row [OF assms(1)] find_feature_Some [OF assms(3)] obtain g where g: "g \<in> set (k_features k')" "R f g" by blast
  with assms(4) find_feature_Some [OF assms(3)] have "ft_feature_id g = i" by simp
  with g find_row_key [OF inv_parts(7) [OF assms(2)] g(1)] show ?thesis by (auto simp: find_feature_def)
qed

lemma status_step:
  assumes inv: "gate_inv cx s"
  shows "status_in i (gate_step cx s op) = status_in i s
    \<or> trace_rank (status_in i s) < trace_rank (status_in i (gate_step cx s op))
    \<or> control_of op = Some i \<and> 0 < trace_rank (status_in i (gate_step cx s op))"
proof (cases "find_feature i (os_kernel s)")
  case None
  then show ?thesis by (auto simp: status_in_def trace_rank_def split: option.split)
next
  case (Some f)
  have "grows (forward (set_option (control_of op))) (k_features (os_kernel s)) (k_features (os_kernel (gate_step cx s op)))"
    using forward_step [OF inv] by (simp add: forward_progress_def)
  from find_feature_grows [OF this gate_inv_kernel [OF gates.step_inv [OF inv]] Some]
  obtain g where g: "find_feature i (os_kernel (gate_step cx s op)) = Some g" "forward (set_option (control_of op)) f g"
    by (auto simp: forward_def feature_moves_def)
  with find_feature_Some [OF Some] Some show ?thesis
    by (auto simp: status_in_def trace_rank_def forward_def feature_le_def)
qed

lemma length_filter_nth: "length (filter (\<lambda>n. p (xs ! n)) [0..<length xs]) = length (filter p xs)"
proof -
  have "filter p xs = map ((!) xs) (filter (p \<circ> (!) xs) [0..<length xs])"
    by (subst map_nth [of xs, symmetric]) (simp only: filter_map)
  then show ?thesis by (simp add: comp_def)
qed

text \<open>
  C27. The lifecycle of a feature ends: over a run of the whole machine of any length the status of a feature, listed
  before the first and after each operation, changes at most eight times (from absent to queued included), and
  at most eight times more for each owner's control or coordination of that very feature. Without them, however
  long the run and whatever happens to other features, nothing moves the feature in a circle.
\<close>

theorem lifecycle_changes_are_bounded:
  "length (remdups_adj (map (\<lambda>n. map_option ft_status (find_feature feature (os_kernel (gate_run cx stream (take n ops)))))
      [0..<Suc (length ops)])) \<le> 9 + 8 * length (filter (\<lambda>op. control_of op = Some feature) ops)"
proof -
  let ?P = "\<lambda>n. status_in feature (gate_run cx stream (take n ops))"
  let ?marked = "\<lambda>n. control_of (ops ! n) = Some feature"
  have "?P (Suc n) = ?P n \<or> trace_rank (?P n) < trace_rank (?P (Suc n)) \<or> ?marked n \<and> 0 < trace_rank (?P (Suc n))"
    if "n < length ops" for n
    using status_step [OF gate_run_inv [of cx stream "take n ops"], of feature "ops ! n"] that
    by (simp add: take_Suc_conv_app_nth gate_run_append)
  then have "length (remdups_adj (map ?P [0..<Suc (length ops)]))
      \<le> Suc (8 * length (filter ?marked [0..<length ops]) + trace_rank (?P (length ops)))"
    by (intro changes_bounded [where m = trace_rank and P = ?P] trace_rank_le)
  then show ?thesis
    using trace_rank_le [of "?P (length ops)"] length_filter_nth [of "\<lambda>op. control_of op = Some feature" ops]
    by (simp add: status_in_def)
qed

section \<open>Restart\<close>

lemma lifted_run:
  "gate_run cx stream (map (\<lambda>c. GOrchestrator (OConveyor c)) ops)
     = (new_orchestrator stream)\<lparr>os_kernel := conveyor_run cx stream ops\<rparr>"
proof (induction ops rule: rev_induct)
  case Nil
  then show ?case by (simp add: gate_run_def conveyor_run_def new_orchestrator_def)
next
  case (snoc c ops)
  have "gate_step cx (s\<lparr>os_kernel := k\<rparr>) (GOrchestrator (OConveyor c)) = s\<lparr>os_kernel := conveyor_step cx k c\<rparr>" for s k
    by (cases "run_conveyor cx c k") (simp_all add: gate_step_def outside_gates_def on_kernel_def conveyor_step_def)
  with snoc show ?case by (simp add: gate_run_append conveyor_run_append)
qed

text \<open>
  C30. A restart quarantines work that was under way: when the reconciliation at start succeeds, on any run of the
  whole machine, exactly one of two things happened. If the feature that holds the lease is in active execution,
  and not paused at a checkpoint that is safe to resume, it is quarantined with an effect presumed possible
  under its next lifecycle revision, with one transition and one row of the audit, and everything else, its lease
  and place in the queue included, is as it was. Otherwise, in the safe pause too, nothing has changed.
\<close>

theorem restart_quarantines_active_work:
  assumes "k = os_kernel (gate_run cx stream ops)" and "reconcile_feature_conveyor_startup cx now k = Inr (k', n)"
  shows "case holder k of None \<Rightarrow> k' = k \<and> n = 0
    | Some i \<Rightarrow> \<exists>f. find_feature i k = Some f
       \<and> (if is_active_execution (ft_status f) \<and> \<not> (ft_status f = FPaused
               \<and> orchestration_paused_checkpoint_is_restart_safe_tx i (ft_lifecycle_revision f) k)
          then n = 1 \<and> (\<exists>row. k' = k\<lparr>
                 k_features := update_rows (\<lambda>g. ft_feature_id g = i)
                   (\<lambda>g. g\<lparr>ft_status := FQuarantined, ft_lifecycle_revision := ft_lifecycle_revision g + 1,
                        ft_effect_possible := True, ft_updated_at_ms := now\<rparr>) (k_features k),
                 k_transitions := k_transitions k
                   @ [bare_transition i (ft_lifecycle_revision f + 1) (ft_status f) FQuarantined now],
                 k_audit := k_audit k @ [row]\<rparr>)
          else k' = k \<and> n = 0)"
proof (cases "k_active_lease k")
  case None
  with assms(2) show ?thesis by (simp add: reconcile_feature_conveyor_startup_def holder_def)
next
  case (Some l)
  let ?i = "fl_feature_id l"
  have inv: "conveyor_inv False k" unfolding assms(1) by (rule gate_inv_kernel [OF gate_run_inv])
  have h: "holder k = Some ?i" by (simp add: holder_def Some)
  from holder_feature [OF inv h] have "find_feature ?i k \<noteq> None" by (auto simp: find_feature_def find_row_None)
  then obtain f where f: "find_feature ?i k = Some f" by blast
  note fs = only_feature [OF inv f]
  let ?now = "is_active_execution (ft_status f) \<and> \<not> (ft_status f = FPaused
      \<and> orchestration_paused_checkpoint_is_restart_safe_tx ?i (ft_lifecycle_revision f) k)"
  have rec: "reconcile_feature_conveyor_startup cx now k
      = (if ?now then bindE (quarantine_feature cx f now k) (\<lambda>k'. Inr (k', 1)) else Inr (k, 0))"
    by (simp only: reconcile_feature_conveyor_startup_def Some bind.simps f option.case fs(2) Let_def)
  show ?thesis
  proof (cases ?now)
    case False
    then have "k' = k \<and> n = 0" using assms(2) unfolding rec by (simp only: if_False sum.inject prod.inject)
    with False f show ?thesis unfolding h option.case by (intro exI [of _ f]) (simp only: if_False simp_thms)
  next
    case True
    then have q: "quarantine_feature cx f now k = Inr k'" "n = 1"
      using assms(2) unfolding rec if_P [OF True] bindE_Inr_iff by auto
    have "(ft_feature_id g = ft_feature_id f \<and> ft_status g = ft_status f
          \<and> ft_lifecycle_revision g = ft_lifecycle_revision f) = (ft_feature_id g = ?i)"
      if "g \<in> set (k_features k)" for g using bspec [OF fs(3) that] fs(2) by metis
    then have "update_rows (\<lambda>g. ft_feature_id g = ft_feature_id f \<and> ft_status g = ft_status f
          \<and> ft_lifecycle_revision g = ft_lifecycle_revision f) u (k_features k)
        = update_rows (\<lambda>g. ft_feature_id g = ?i) u (k_features k)" for u
      unfolding update_rows_def by (simp cong: map_cong)
    then have "\<exists>row. k' = k\<lparr>
         k_features := update_rows (\<lambda>g. ft_feature_id g = ?i) (moved FQuarantined True now) (k_features k),
         k_transitions := k_transitions k @ [bare_transition ?i (ft_lifecycle_revision f + 1) (ft_status f) FQuarantined now],
         k_audit := k_audit k @ [row]\<rparr>"
      using quarantine_effect [OF q(1)] by (auto simp: moved_kernel_def insert_row_def fs(2))
    with True q(2) show ?thesis unfolding h option.case
      by (intro exI [of _ f]) (simp only: f if_True moved_def [abs_def] simp_thms)
  qed
qed

theorem restart_quarantines_active_work_witness:
  "\<exists>k k' n g. k = os_kernel (gate_run sample_codec 7 (map (\<lambda>c. GOrchestrator (OConveyor c)) sample_claim_ops))
    \<and> reconcile_feature_conveyor_startup sample_codec 140 k = Inr (k', n) \<and> n = 1
    \<and> length (k_audit k') = Suc (length (k_audit k)) \<and> k_active_lease k' = Some sample_lease
    \<and> find_feature 41 k = Some g \<and> ft_status g = FImplementing"
proof -
  obtain a where a: "conveyor_run sample_codec 7 sample_claim_ops = claimed_41 a" using sample_claimed by blast
  have l: "k_active_lease (claimed_41 a) = Some sample_lease" by (simp add: claimed_41_def)
  have f: "find_feature 41 (claimed_41 a) = Some (claimed_row 130 row_41)"
    by (simp add: find_feature_def find_row_def claimed_states)
  have f': "find_feature (fl_feature_id sample_lease) (claimed_41 a) = Some (claimed_row 130 row_41)"
    using f by (simp add: sample_lease_def)
  have "\<exists>k' n. reconcile_feature_conveyor_startup sample_codec 140 (claimed_41 a) = Inr (k', n)"
    by (rule startup_succeeds [OF sample_quote sample_inv [OF a] l f'])
      (simp_all add: sample_lease_def f i64_max_large row_41_def queued_feature_def claimed_row_def sample_spec_def)
  then obtain k' n where ok: "reconcile_feature_conveyor_startup sample_codec 140 (claimed_41 a) = Inr (k', n)" by blast
  have k: "claimed_41 a = os_kernel (gate_run sample_codec 7 (map (\<lambda>c. GOrchestrator (OConveyor c)) sample_claim_ops))"
    by (simp add: lifted_run a)
  from restart_quarantines_active_work [OF k ok] l f show ?thesis
    using ok by (auto simp: lifted_run a holder_def sample_lease_def row_41_moves is_active_execution_def)
qed

section \<open>A candidate that went stale\<close>












section \<open>Resolution\<close>

lemma resolved_transition:
  assumes inv: "conveyor_inv strict k" and f: "find_feature i k = Some f" and st: "resolution_status (ft_status f)"
  obtains t where "find_transition i (ft_lifecycle_revision f) k = Some t" "resolved_by (ft_status f) t"
proof -
  note fs = only_feature [OF inv f]
  from feature_of_inv [OF inv fs(1)] st obtain t where
    "t \<in> set (k_transitions k)" "tr_feature_id t = i" "tr_lifecycle_revision t = ft_lifecycle_revision f"
      "resolved_by (ft_status f) t" by (auto simp: feature_ok_def evidence_ok_def has_transition_def fs(2))
  with transition_found [OF inv this(1)] show thesis by (intro that) simp_all
qed

text \<open>The origin of a resolution is found unless it lies in verifying the main branch without the evidence of it.\<close>

definition unproved_main :: "uuid \<Rightarrow> nat \<Rightarrow> kernel \<Rightarrow> bool" where
  "unproved_main i revision k =
     (case find_transition i revision k of None \<Rightarrow> False
      | Some t \<Rightarrow> tr_from_status t = FVerifyingMain
          \<and> (case find_transition i (revision - 1) k of None \<Rightarrow> True | Some v \<Rightarrow> \<not> verified_main_transition v))"

lemma resolution_origin:
  assumes inv: "conveyor_inv strict k" and f: "find_feature i k = Some f" and st: "resolution_status (ft_status f)"
    and small: "ft_lifecycle_revision f \<le> i64_max"
  shows "(\<exists>origin. feature_resolution_origin_tx i (ft_status f) (ft_lifecycle_revision f) k = Inr origin)
    = (\<not> unproved_main i (ft_lifecycle_revision f) k)"
proof -
  from resolved_transition [OF inv f st] obtain t where t: "find_transition i (ft_lifecycle_revision f) k = Some t"
    "resolved_by (ft_status f) t" .
  have "1 \<le> ft_lifecycle_revision f"
    using feature_of_inv [OF inv only_feature(1) [OF inv f]] by (simp add: feature_ok_def)
  then have "checked_sub_u64 (ft_lifecycle_revision f) 1 = Some (ft_lifecycle_revision f - 1)"
    by (simp add: checked_sub_u64_def)
  with t small st show ?thesis
    by (auto simp: feature_resolution_origin_tx_def unproved_main_def resolved_by_def to_i64_def ok_or_def reject_if_def
        split: option.splits)
qed

text \<open>
  C17. When a resolution can be finished: on every run of the whole machine, a feature that was cancelled,
  quarantined, failed or needs attention can be abandoned at the current revisions with a reconciliation proof and
  a healthy-main digest, provided that the clock and the stored integers are below the limit of \<^verbatim>\<open>i64\<close> and
  the codec escapes a byte in at most six, unless it was resolved out of verifying the main branch and the
  transition before does not prove the publication. In that one case every such abandonment fails; otherwise the
  operation succeeds, ends the feature, takes it from the queue and frees the lease.
\<close>

theorem resolution_can_be_finished:
  assumes "quote_bounded (quote_json cx)" and "k = os_kernel (gate_run cx stream ops)"
    and "find_feature (rb_feature_id b) k = Some f" "resolution_status (ft_status f)"
    and "rb_expected_lifecycle_revision b = ft_lifecycle_revision f"
      "rb_expected_queue_revision b = k_queue_revision k"
      "rb_expected_emergency_pause_revision b = k_emergency_pause_revision k"
    and "ab_safe_reconciliation_sha256 e \<noteq> 0" "ab_merged e" "\<not> healthy_main_missing e"
    and "ft_created_at_ms f \<le> now" "now \<le> i64_max" "k_queue_revision k < i64_max"
      "k_emergency_pause_revision k \<le> i64_max" and "ft_lifecycle_revision f < i64_max"
  shows "if unproved_main (rb_feature_id b) (ft_lifecycle_revision f) k
    then \<exists>x. abandon_and_advance_bound cx b e now None k = Inl x
    else \<exists>k' s g. abandon_and_advance_bound cx b e now None k = Inr (k', s)
      \<and> find_feature (rb_feature_id b) k' = Some g \<and> ft_status g = FAbandoned
      \<and> k_active_lease k' = None
      \<and> k_queue k' = filter (\<lambda>r. qu_feature_id r \<noteq> rb_feature_id b) (k_queue k)"
proof -
  let ?i = "rb_feature_id b"
  have inv: "conveyor_inv False k" unfolding assms(2) by (rule gate_inv_kernel [OF gate_run_inv])
  have origin: "(\<exists>origin. feature_resolution_origin_tx ?i (ft_status f) (ft_lifecycle_revision f) k = Inr origin)
    = (\<not> unproved_main ?i (ft_lifecycle_revision f) k)"
    by (rule resolution_origin [OF inv assms(3,4)]) (use assms(15) in simp)
  show ?thesis
  proof (cases "unproved_main ?i (ft_lifecycle_revision f) k")
    case True
    have "abandon_and_advance_bound cx b e now None k \<noteq> Inr (k', s)" for k' s
      using abandon_effect [of cx b e now None k k' s] origin True assms(3) by auto
    then have "\<exists>x. abandon_and_advance_bound cx b e now None k = Inl x" by (metis old.sum.exhaust surj_pair)
    with True show ?thesis by simp
  next
    case False
    with origin abandon_possible [OF assms(1) inv assms(3-15)] obtain k' s where
      ok: "abandon_and_advance_bound cx b e now None k = Inr (k', s)" by blast
    from abandon_effect [OF ok] obtain row t where
      k': "k' = (released ?i (moved_kernel (\<lambda>g. ft_feature_id g = ?i) FAbandoned False now t k))
          \<lparr>k_audit := insert_row row (k_audit k)\<rparr>" by blast
    have "find_feature ?i k' = Some (moved FAbandoned False now f)"
      using assms(3) find_feature_Some [OF assms(3)]
      by (simp add: k' find_feature_def released_def moved_kernel_def find_row_update)
    with ok False show ?thesis by (auto simp: k' released_def moved_kernel_def)
  qed
qed

theorem resolution_can_be_finished_witness:
  "\<exists>k k' s g. k = os_kernel (gate_run sample_codec 7 (map (\<lambda>c. GOrchestrator (OConveyor c)) sample_cancel_ops))
    \<and> abandon_and_advance_bound sample_codec sample_abandon_binding sample_evidence 150 None k = Inr (k', s)
    \<and> find_feature 41 k' = Some g \<and> ft_status g = FAbandoned \<and> k_active_lease k' = None"
proof -
  obtain a where a: "conveyor_run sample_codec 7 sample_cancel_ops = cancelled_41 a" using sample_feature_cancelled by blast
  have k: "cancelled_41 a = os_kernel (gate_run sample_codec 7 (map (\<lambda>c. GOrchestrator (OConveyor c)) sample_cancel_ops))"
    by (simp add: lifted_run a)
  let ?f = "moved FCancelled True 140 (claimed_row 130 row_41)" let ?b = sample_abandon_binding
  have proved: "\<not> unproved_main (rb_feature_id ?b) (ft_lifecycle_revision ?f) (cancelled_41 a)"
    by (simp add: unproved_main_def find_transition_def find_row_def cancelled_41_def bare_transition_def row_41_moves)
  have res: "if unproved_main (rb_feature_id ?b) (ft_lifecycle_revision ?f) (cancelled_41 a)
    then \<exists>x. abandon_and_advance_bound sample_codec ?b sample_evidence 150 None (cancelled_41 a) = Inl x
    else \<exists>k' s g. abandon_and_advance_bound sample_codec ?b sample_evidence 150 None (cancelled_41 a) = Inr (k', s)
      \<and> find_feature (rb_feature_id ?b) k' = Some g \<and> ft_status g = FAbandoned \<and> k_active_lease k' = None
      \<and> k_queue k' = filter (\<lambda>r. qu_feature_id r \<noteq> rb_feature_id ?b) (k_queue (cancelled_41 a))"
    by (rule resolution_can_be_finished [OF sample_quote k find_cancelled [of a, folded row_41_moves(7)]])
      (simp_all add: claimed_states resolution_status_def healthy_main_missing_def i64_max_large)
  have "\<exists>k' s g. abandon_and_advance_bound sample_codec ?b sample_evidence 150 None (cancelled_41 a) = Inr (k', s)
      \<and> find_feature (rb_feature_id ?b) k' = Some g \<and> ft_status g = FAbandoned \<and> k_active_lease k' = None"
    using res unfolding if_not_P [OF proved] by blast
  with k show ?thesis by (metis row_41_moves(7))
qed

section \<open>A merge that cannot be resolved\<close>

text \<open>The merge is committed by \<open>move_to_verifying\<close>, in the action that completes it.\<close>

lemma merge_action_moves:
  assumes inv: "conveyor_inv False (os_kernel s)" and "pe_action e = MergePullRequest"
    and ok: "complete_publication_action cx plan e now s = Inr (s1, receipt)"
  shows "\<exists>k1. move_to_verifying (px_request plan) e now (os_kernel s) = Inr k1
    \<and> k_features (os_kernel s1) = k_features k1 \<and> k_transitions (os_kernel s1) = k_transitions k1
    \<and> conveyor_inv False (os_kernel s1)"
proof -
  let ?r = "px_request plan"
  from ok assms(2) obtain n g k1 where n: "action_ordinal MergePullRequest = Inr n"
    and k1: "move_to_verifying ?r e now (os_kernel s) = Inr k1"
    and rest: "(case next_ordered_action n of
        Some next \<Rightarrow>
          bindE (insert_publication_action_intent_tx cx (pq_publication_id ?r) next (Suc n) now k1) (\<lambda>k2.
          bindE (audit_os cx ''feature_publication_action_completed'' (Some (pq_feature_id ?r)) now
            (action_completed_metadata cx ?r (pe_action e) next) (s\<lparr>os_kernel := k2, os_gates := g\<rparr>)) (\<lambda>s1.
          Inr (s1, None)))
      | None \<Rightarrow> finish_publication cx ?r e now (s\<lparr>os_kernel := k1, os_gates := g\<rparr>)) = Inr (s1, receipt)"
    unfolding complete_publication_action_def Let_def bindE_Inr_iff reject_if_Inr_iff by auto
  note o7 = next_action_ordinal [OF n]
  have "n \<noteq> 7" using o7 by (auto simp: ORDERED_ACTIONS_def)
  with o7 have "next_ordered_action n \<noteq> None" by (simp add: next_ordered_action_def distinct_ORDERED_ACTIONS)
  with rest obtain a k2 where k2: "insert_publication_action_intent_tx cx (pq_publication_id ?r) a (Suc n) now k1 = Inr k2"
    and w: "audit_os cx ''feature_publication_action_completed'' (Some (pq_feature_id ?r)) now
            (action_completed_metadata cx ?r (pe_action e) a) (s\<lparr>os_kernel := k2, os_gates := g\<rparr>) = Inr s1"
    by (auto simp: bindE_Inr_iff)
  from insert_intent_Inr [OF k2] obtain i where i: "k2 = k1\<lparr>k_publication_intents := k_publication_intents k1 @ [i]\<rparr>" by blast
  from move_to_verifying_ok [OF inv k1] have "conveyor_ok False (os_kernel s) k1" by blast
  then have "conveyor_ok False (os_kernel s) k2" unfolding i by (rule conveyor_ok_journal(2))
  from gate_writeI [OF w this] show ?thesis using k1 i by (auto simp: gate_write_def conveyor_ok_def)
qed

text \<open>
  C15. A merge that ends in quarantine is never abandoned: after the merge of a feature's pull request is committed, if
  the coordinator quarantines the publication as ambiguous, or the owner cancels the feature, every attempt to
  abandon it fails, whatever evidence is given. (The merge records its evidence but no digest of a repository
  snapshot, which the abandonment demands of it.)
\<close>

theorem quarantined_merge_is_not_abandoned:
  assumes inv: "conveyor_inv False k" and merge: "move_to_verifying r e now k = Inr k1"
    and s1: "k_features (os_kernel s1) = k_features k1" "k_transitions (os_kernel s1) = k_transitions k1"
      "conveyor_inv False (os_kernel s1)"
    and stop: "quarantine_ambiguous_publication cx plan action at s1 = Inr s2 \<and> pq_feature_id (px_request plan) = pq_feature_id r
      \<or> cancel_active_feature_bound cx b at owner (os_kernel s1) = Inr (os_kernel s2, v) \<and> rb_feature_id b = pq_feature_id r"
    and b': "rb_feature_id b' = pq_feature_id r"
  shows "\<exists>x. abandon_and_advance_bound cx b' evidence at' owner' (os_kernel s2) = Inl x"
proof (rule ccontr)
  let ?i = "pq_feature_id r" let ?k2 = "os_kernel s2"
  assume "\<not> ?thesis"
  then obtain k' w where ok: "abandon_and_advance_bound cx b' evidence at' owner' ?k2 = Inr (k', w)"
    by (metis old.sum.exhaust surj_pair)
  from move_to_verifying_ok [OF inv merge] obtain f where
    ts: "k_transitions k1 = k_transitions k @ [(bare_transition ?i (Suc (ft_lifecycle_revision f)) FPublishing FVerifyingMain now)
        \<lparr>tr_accepted_evidence_sha256 := Some (pe_evidence_sha256 e)\<rparr>]" (is "_ = _ @ [?t]")
    and g: "find_feature ?i k1 = Some (moved FVerifyingMain (ft_effect_possible f) now f)" by blast
  obtain t where t: "t = ?t" "t \<in> set (k_transitions (os_kernel s1))" by (simp add: s1 ts)
  have g: "find_feature ?i (os_kernel s1) = Some (moved FVerifyingMain (ft_effect_possible f) now f)"
    using g by (simp add: s1 find_feature_def)
  let ?g = "moved FVerifyingMain (ft_effect_possible f) now f" let ?n = "Suc (Suc (ft_lifecycle_revision f))"
  have row: "ft_status ?g = FVerifyingMain" "ft_lifecycle_revision ?g = Suc (ft_lifecycle_revision f)"
    by (simp_all add: moved_def)
  obtain to where to: "conveyor_inv False ?k2"
    "k_transitions ?k2 = k_transitions (os_kernel s1) @ [bare_transition ?i ?n FVerifyingMain to at]"
    "find_feature ?i ?k2 = Some (moved to True at ?g)"
    using stop
  proof (elim disjE conjE)
    assume q: "quarantine_ambiguous_publication cx plan action at s1 = Inr s2" and "pq_feature_id (px_request plan) = ?i"
    from quarantine_publication_effect [OF s1(3) q, unfolded this(2)] g row show thesis
      by (intro that [of FQuarantined]) (auto simp: gate_write_def conveyor_ok_def)
  next
    assume c: "cancel_active_feature_bound cx b at owner (os_kernel s1) = Inr (?k2, v)" and b: "rb_feature_id b = ?i"
    from cancel_transitions [OF s1(3) c, unfolded b, OF g] cancel_feature_ok [OF s1(3) c] row show thesis
      by (intro that [of FCancelled]) (auto simp: conveyor_ok_def)
  qed
  let ?u = "bare_transition ?i ?n FVerifyingMain to at"
  have "find_transition ?i ?n ?k2 = Some ?u"
    using transition_found [OF to(1), of ?u] by (simp add: to(2)) (simp add: bare_transition_def)
  moreover have "find_transition ?i (Suc (ft_lifecycle_revision f)) ?k2 = Some t"
    using transition_found [OF to(1), of t] t by (simp add: to(2) bare_transition_def)
  moreover from abandon_effect [OF ok] obtain origin where
    "feature_resolution_origin_tx ?i to ?n ?k2 = Inr origin"
    by (auto simp: b' to(3) moved_def)
  ultimately have "verified_main_transition t"
    by (simp add: feature_resolution_origin_tx_def bindE_Inr_iff ok_or_Inr_iff checked_sub_u64_def reject_if_Inr_iff
        bare_transition_def)
  then show False by (simp add: verified_main_transition_def t bare_transition_def)
qed


text \<open>Feature 41 is publishing, at revision 3; its pull request is merged and the owner then cancels it.\<close>

definition publishing_kernel :: kernel where
  "publishing_kernel = moved_kernel (\<lambda>f. ft_feature_id f = 41) FPublishing False 150
     (bare_transition 41 3 FImplementing FPublishing 150) (claimed_41 [])"

lemma publishing_feature: "find_feature 41 publishing_kernel = Some (moved FPublishing False 150 (claimed_row 130 row_41))"
  by (simp add: publishing_kernel_def find_feature_def find_row_def moved_kernel_def update_rows_def claimed_states moved_def)

lemma publishing_kernel_inv: "conveyor_inv False publishing_kernel"
proof -
  have f: "find_feature 41 (claimed_41 []) = Some (claimed_row 130 row_41)"
    by (simp add: find_feature_def find_row_def claimed_states)
  have "conveyor_ok False (claimed_41 []) publishing_kernel" unfolding publishing_kernel_def
    by (rule forward_ok [OF claimed_41_inv f])
      (simp_all add: busy_def ended_def bare_transition_def resolution_status_def, auto simp: claimed_states)
  then show ?thesis by (simp add: conveyor_ok_def)
qed

definition merged_cancel_binding :: resolution_binding where
  "merged_cancel_binding = \<lparr>rb_feature_id = 41, rb_expected_lifecycle_revision = 4,
     rb_expected_queue_revision = 3, rb_expected_emergency_pause_revision = 0\<rparr>"

theorem quarantined_merge_is_not_abandoned_witness:
  "\<forall>r e. \<exists>k1 k2 v x. move_to_verifying (r\<lparr>pq_feature_id := 41, pq_expected_lifecycle_revision := 3\<rparr>) e 160 publishing_kernel
        = Inr k1
    \<and> cancel_active_feature_bound owner_codec merged_cancel_binding 170 None k1 = Inr (k2, v)
    \<and> abandon_and_advance_bound owner_codec (merged_cancel_binding\<lparr>rb_expected_lifecycle_revision := 5\<rparr>)
        sample_evidence 180 None k2 = Inl x"
proof (intro allI)
  fix r :: publication_request and e
  let ?r = "r\<lparr>pq_feature_id := 41, pq_expected_lifecycle_revision := 3\<rparr>"
  let ?p = "\<lambda>f. ft_feature_id f = 41 \<and> ft_status f = FPublishing \<and> ft_lifecycle_revision f = 3"
  have rows: "count_rows ?p (k_features publishing_kernel) = 1" "find_transition 41 4 publishing_kernel = None"
    "\<forall>f \<in> set (k_features publishing_kernel). ft_created_at_ms f \<le> 160"
    by (simp_all add: publishing_kernel_def moved_kernel_def update_rows_def count_rows_def claimed_states moved_def
        find_transition_def find_row_def bare_transition_def)
  have "\<exists>k1. move_to_verifying ?r e 160 publishing_kernel = Inr k1"
    using rows by (auto simp: move_to_verifying_def advance_status_def Let_def result_simps i64_max_def u64_max_def
        checked_add_u64_Some find_transition_def bare_transition_def)
  then obtain k1 where k1: "move_to_verifying ?r e 160 publishing_kernel = Inr k1" by blast
  from move_to_verifying_ok [OF publishing_kernel_inv k1] have ci: "conveyor_inv False k1"
    and f: "find_feature 41 k1 = Some (moved FVerifyingMain False 160 (moved FPublishing False 150 (claimed_row 130 row_41)))"
    by (auto simp: publishing_feature conveyor_ok_def moved_def)
  have "k_queue_revision k1 = 3 \<and> k_emergency_pause_revision k1 = 0 \<and> k_dispatches k1 = []"
    using k1 by (auto simp: move_to_verifying_def advance_status_def Let_def result_simps)
      (simp_all add: publishing_kernel_def moved_kernel_def claimed_states)
  then have "\<exists>k2 v. cancel_active_feature_bound owner_codec merged_cancel_binding 170 None k1 = Inr (k2, v)"
    by (intro cancel_succeeds [OF owner_quote ci, where f = "moved FVerifyingMain False 160
          (moved FPublishing False 150 (claimed_row 130 row_41))"])
      (use f in \<open>simp_all add: merged_cancel_binding_def moved_def is_active_execution_def open_dispatches_def i64_max_def claimed_states\<close>)
  then obtain k2 v where c: "cancel_active_feature_bound owner_codec merged_cancel_binding 170 None k1 = Inr (k2, v)" by blast
  let ?s = "new_orchestrator 7"
  have "\<exists>x. abandon_and_advance_bound owner_codec (merged_cancel_binding\<lparr>rb_expected_lifecycle_revision := 5\<rparr>)
      sample_evidence 180 None (os_kernel (?s\<lparr>os_kernel := k2\<rparr>)) = Inl x"
    by (rule quarantined_merge_is_not_abandoned [OF publishing_kernel_inv k1, of "?s\<lparr>os_kernel := k1\<rparr>",
          where b = merged_cancel_binding and at = 170 and owner = None and v = v])
      (use ci c in \<open>simp_all add: merged_cancel_binding_def\<close>)
  with k1 c show "\<exists>k1 k2 v x. move_to_verifying ?r e 160 publishing_kernel = Inr k1
    \<and> cancel_active_feature_bound owner_codec merged_cancel_binding 170 None k1 = Inr (k2, v)
    \<and> abandon_and_advance_bound owner_codec (merged_cancel_binding\<lparr>rb_expected_lifecycle_revision := 5\<rparr>)
        sample_evidence 180 None k2 = Inl x" by auto
qed

end
